(* ===== verification/Prelude.thy ===== *)
theory Prelude
  imports Main
begin

text \<open>
  Shared vocabulary of the development.

  The backend's services are asynchronous methods that read and write database rows and throw
  exceptions. They are modelled in the type \<open>('s, 'a) svc\<close>: a function from the state of the
  database to an outcome (\<open>Inl\<close> an exception, \<open>Inr\<close> a value) and the state afterwards. The state
  is returned in both cases, because a write that is not inside a transaction survives a later
  exception; the combinator \<open>transaction\<close> restores the old state when its body throws.

  The theory also holds the table operations the services use (a table is the list of its rows in
  the order in which the database enumerates them), a calculus of weakest preconditions that
  evaluates by rewriting with the collection \<open>wp\<close>, and the decimal rendering of numbers that the
  code's template strings use.
\<close>

section \<open>Basic types\<close>

text \<open>Primary keys are opaque and fresh; instants are milliseconds since the epoch, as \<open>Date\<close>.\<close>

type_synonym id = nat
type_synonym time = int

text \<open>The exceptions the services throw: NestJS HTTP exceptions carry their message; \<open>PrismaError\<close>
  carries the client's error code (P2002 unique violation, P2003 foreign key violation, P2025 record not found). \<open>Diverges\<close> is the outcome of a call that never returns:
  no handler catches it.\<close>

datatype exn =
    NotFoundException string
  | BadRequestException string
  | ConflictException string
  | ForbiddenException string
  | UnauthorizedException string
  | PrismaError string
  | JsError string
  | Diverges

text \<open>\<open>error.message\<close>.\<close>

fun exn_message :: "exn \<Rightarrow> string" where
  "exn_message (NotFoundException m) = m"
| "exn_message (BadRequestException m) = m"
| "exn_message (ConflictException m) = m"
| "exn_message (ForbiddenException m) = m"
| "exn_message (UnauthorizedException m) = m"
| "exn_message (PrismaError m) = m"
| "exn_message (JsError m) = m"
| "exn_message Diverges = []"

text \<open>JSON values stored in \<open>Json\<close> columns; identifiers keep their own constructor.\<close>

datatype json =
    JNull
  | JBool bool
  | JInt int
  | JStr string
  | JId id
  | JTime time
  | JArr "json list"
  | JObj "(string \<times> json) list"

text \<open>A field of a value that should be an object.\<close>

fun jfield :: "string \<Rightarrow> json \<Rightarrow> json option" where
  "jfield k (JObj fs) = map_of fs k"
| "jfield k _ = None"

text \<open>An optional field of an object literal: \<open>undefined\<close> fields are dropped on serialisation.\<close>

fun jopt :: "string \<Rightarrow> ('a \<Rightarrow> json) \<Rightarrow> 'a option \<Rightarrow> (string \<times> json) list" where
  "jopt k f None = []"
| "jopt k f (Some x) = [(k, f x)]"

text \<open>An optional value written as \<open>null\<close> when absent (\<open>x ?? null\<close>).\<close>

fun jnullable :: "('a \<Rightarrow> json) \<Rightarrow> 'a option \<Rightarrow> json" where
  "jnullable f None = JNull"
| "jnullable f (Some x) = f x"

text \<open>JavaScript truthiness of an optional string: absent and empty strings are falsy.\<close>

fun truthy :: "string option \<Rightarrow> bool" where
  "truthy None = False"
| "truthy (Some k) = (k \<noteq> [])"

text \<open>\<open>x ?? d\<close>.\<close>

fun orElse :: "'a option \<Rightarrow> 'a \<Rightarrow> 'a" where
  "orElse None d = d"
| "orElse (Some x) d = x"

text \<open>Writing an optional field in a Prisma \<open>update\<close>: \<open>undefined\<close> leaves the column alone.\<close>

fun keepUndef :: "'a option \<Rightarrow> 'a \<Rightarrow> 'a" where
  "keepUndef None old = old"
| "keepUndef (Some x) old = x"

section \<open>Decimal rendering\<close>

definition digit_char :: "nat \<Rightarrow> char" where
  "digit_char d = char_of (48 + d)"

fun nat_str :: "nat \<Rightarrow> string" where
  "nat_str n = (if n < 10 then [digit_char n] else nat_str (n div 10) @ [digit_char (n mod 10)])"

declare nat_str.simps [simp del]

definition id_str :: "id \<Rightarrow> string" where
  "id_str i = nat_str i"

definition int_str :: "int \<Rightarrow> string" where
  "int_str i = (if i < 0 then ''-'' @ nat_str (nat (- i)) else nat_str (nat i))"

lemma digit_char_inj: "a < 10 \<Longrightarrow> b < 10 \<Longrightarrow> digit_char a = digit_char b \<Longrightarrow> a = b"
  by (simp add: digit_char_def)

lemma digit_char_code: "d < 10 \<Longrightarrow> of_char (digit_char d) = 48 + d"
  by (simp add: digit_char_def)

lemma nat_str_small: "n < 10 \<Longrightarrow> nat_str n = [digit_char n]"
  by (simp add: nat_str.simps [of n])

lemma nat_str_big: "\<not> n < 10 \<Longrightarrow> nat_str n = nat_str (n div 10) @ [digit_char (n mod 10)]"
  by (simp add: nat_str.simps [of n])

lemma nat_str_nonempty [simp]: "nat_str n \<noteq> []"
  by (subst nat_str.simps) simp

lemma Nil_neq_nat_str [simp]: "[] \<noteq> nat_str n"
  by (metis nat_str_nonempty)

lemma nat_str_inj: "nat_str m = nat_str n \<Longrightarrow> m = n"
proof (induction m arbitrary: n rule: nat_str.induct)
  case (1 m)
  show ?case
  proof (cases "m < 10")
    case True
    show ?thesis
    proof (cases "n < 10")
      case True
      with \<open>m < 10\<close> "1.prems" show ?thesis by (auto simp: nat_str_small intro: digit_char_inj)
    next
      case False
      with \<open>m < 10\<close> "1.prems" show ?thesis by (simp add: nat_str_small nat_str_big)
    qed
  next
    case False
    note m = this
    show ?thesis
    proof (cases "n < 10")
      case True
      with m "1.prems" show ?thesis by (simp add: nat_str_small nat_str_big)
    next
      case False
      with m "1.prems" have "nat_str (m div 10) = nat_str (n div 10)"
        and "digit_char (m mod 10) = digit_char (n mod 10)"
        by (simp_all add: nat_str_big)
      then have "m div 10 = n div 10" and "m mod 10 = n mod 10"
        using "1.IH" [OF m] by (auto intro: digit_char_inj)
      then show ?thesis by (metis div_mult_mod_eq)
    qed
  qed
qed

lemma id_str_inj [simp]: "id_str i = id_str j \<longleftrightarrow> i = j"
  by (auto simp: id_str_def dest: nat_str_inj)

lemma id_str_nonempty [simp]: "id_str i \<noteq> []"
  by (simp add: id_str_def)

section \<open>Services: state, values and exceptions\<close>

type_synonym ('s, 'a) svc = "'s \<Rightarrow> (exn + 'a) \<times> 's"

definition ret :: "'a \<Rightarrow> ('s, 'a) svc" where
  "ret x = (\<lambda>s. (Inr x, s))"

definition throw :: "exn \<Rightarrow> ('s, 'a) svc" where
  "throw e = (\<lambda>s. (Inl e, s))"

definition bnd :: "('s, 'a) svc \<Rightarrow> ('a \<Rightarrow> ('s, 'b) svc) \<Rightarrow> ('s, 'b) svc" where
  "bnd m f = (\<lambda>s. case m s of (Inl e, s') \<Rightarrow> (Inl e, s') | (Inr x, s') \<Rightarrow> f x s')"

definition seq :: "('s, 'a) svc \<Rightarrow> ('s, 'b) svc \<Rightarrow> ('s, 'b) svc" where
  "seq m n = bnd m (\<lambda>_. n)"

definition gets :: "('s \<Rightarrow> 'a) \<Rightarrow> ('s, 'a) svc" where
  "gets f = (\<lambda>s. (Inr (f s), s))"

definition modify :: "('s \<Rightarrow> 's) \<Rightarrow> ('s, unit) svc" where
  "modify f = (\<lambda>s. (Inr (), f s))"

definition when_do :: "bool \<Rightarrow> ('s, unit) svc \<Rightarrow> ('s, unit) svc" where
  "when_do b m = (if b then m else ret ())"

definition guard_or :: "bool \<Rightarrow> exn \<Rightarrow> ('s, unit) svc" where
  "guard_or b e = (if b then ret () else throw e)"

text \<open>\<open>prisma.$transaction\<close>: the writes of a body that throws are rolled back.\<close>

definition transaction :: "('s, 'a) svc \<Rightarrow> ('s, 'a) svc" where
  "transaction m = (\<lambda>s. case m s of (Inl e, s') \<Rightarrow> (Inl e, s) | (Inr x, s') \<Rightarrow> (Inr x, s'))"

text \<open>\<open>try m catch (e) { h e }\<close>: the writes made before the exception stay.\<close>

definition try_catch :: "('s, 'a) svc \<Rightarrow> (exn \<Rightarrow> ('s, 'a) svc) \<Rightarrow> ('s, 'a) svc" where
  "try_catch m h = (\<lambda>s. case m s of
     (Inl e, s') \<Rightarrow> if e = Diverges then (Inl Diverges, s') else h e s'
   | (Inr x, s') \<Rightarrow> (Inr x, s'))"

text \<open>A pure computation that may throw.\<close>

definition lift :: "exn + 'a \<Rightarrow> ('s, 'a) svc" where
  "lift r = (\<lambda>s. (r, s))"

primrec for_each :: "'a list \<Rightarrow> ('a \<Rightarrow> ('s, unit) svc) \<Rightarrow> ('s, unit) svc" where
  "for_each [] f = ret ()"
| "for_each (x # xs) f = seq (f x) (for_each xs f)"

section \<open>Tables\<close>

text \<open>
  \<open>findFirst\<close>/\<open>findUnique\<close> return the first row that satisfies the filter; \<open>findUniqueOrThrow\<close> and
  \<open>findFirstOrThrow\<close> throw P2025 when there is none. \<open>update\<close> throws P2025 when no row matches,
  \<open>updateMany\<close> returns the number of rows it changed.
\<close>

definition find_row :: "('s \<Rightarrow> 'r list) \<Rightarrow> ('r \<Rightarrow> bool) \<Rightarrow> ('s, 'r option) svc" where
  "find_row tab P = gets (\<lambda>s. List.find P (tab s))"

definition find_or_throw :: "('s \<Rightarrow> 'r list) \<Rightarrow> ('r \<Rightarrow> bool) \<Rightarrow> ('s, 'r) svc" where
  "find_or_throw tab P = bnd (find_row tab P)
     (\<lambda>r. case r of None \<Rightarrow> throw (PrismaError ''P2025'') | Some x \<Rightarrow> ret x)"

definition upd_where :: "('r \<Rightarrow> bool) \<Rightarrow> ('r \<Rightarrow> 'r) \<Rightarrow> 'r list \<Rightarrow> 'r list" where
  "upd_where P f = map (\<lambda>r. if P r then f r else r)"

definition update_row ::
  "('s \<Rightarrow> 'r list) \<Rightarrow> (('r list \<Rightarrow> 'r list) \<Rightarrow> 's \<Rightarrow> 's) \<Rightarrow> ('r \<Rightarrow> bool) \<Rightarrow> ('r \<Rightarrow> 'r) \<Rightarrow> ('s, 'r) svc"
  where
  "update_row tab upd P f = bnd (find_or_throw tab P)
     (\<lambda>r. seq (modify (upd (upd_where P f))) (ret (f r)))"

definition count_where :: "('r \<Rightarrow> bool) \<Rightarrow> 'r list \<Rightarrow> nat" where
  "count_where P rs = length (filter P rs)"

definition update_many ::
  "('s \<Rightarrow> 'r list) \<Rightarrow> (('r list \<Rightarrow> 'r list) \<Rightarrow> 's \<Rightarrow> 's) \<Rightarrow> ('r \<Rightarrow> bool) \<Rightarrow> ('r \<Rightarrow> 'r) \<Rightarrow> ('s, nat) svc"
  where
  "update_many tab upd P f = bnd (gets (\<lambda>s. count_where P (tab s)))
     (\<lambda>n. seq (modify (upd (upd_where P f))) (ret n))"

definition insert_row ::
  "(('r list \<Rightarrow> 'r list) \<Rightarrow> 's \<Rightarrow> 's) \<Rightarrow> 'r \<Rightarrow> ('s, 'r) svc" where
  "insert_row upd r = seq (modify (upd (\<lambda>rs. rs @ [r]))) (ret r)"

text \<open>\<open>create\<close> on a table with a unique constraint: P2002 when a row already clashes.\<close>

definition insert_unique ::
  "('s \<Rightarrow> 'r list) \<Rightarrow> (('r list \<Rightarrow> 'r list) \<Rightarrow> 's \<Rightarrow> 's) \<Rightarrow> ('r \<Rightarrow> bool) \<Rightarrow> 'r \<Rightarrow> ('s, 'r) svc"
  where
  "insert_unique tab upd clash r = bnd (find_row tab clash)
     (\<lambda>x. case x of Some _ \<Rightarrow> throw (PrismaError ''P2002'') | None \<Rightarrow> insert_row upd r)"

text \<open>What the database checks of the values written: a foreign key names a row, an \<open>Int\<close> column holds 32 bits,
  and text holds no NUL.\<close>

definition foreign_key :: "('s \<Rightarrow> 'r list) \<Rightarrow> ('r \<Rightarrow> bool) \<Rightarrow> ('s, unit) svc" where
  "foreign_key tab P = bnd (find_row tab P) (\<lambda>r. guard_or (r \<noteq> None) (PrismaError ''P2003''))"

definition int4 :: "int \<Rightarrow> bool" where
  "int4 n \<longleftrightarrow> - (2 ^ 31) \<le> n \<and> n < 2 ^ 31"

definition int_columns :: "int list \<Rightarrow> ('s, unit) svc" where
  "int_columns ns = guard_or (list_all int4 ns) (JsError ''Unable to fit integer value into an INT4 (32-bit signed integer)'')"

definition storable_text :: "string \<Rightarrow> bool" where
  "storable_text x \<longleftrightarrow> CHR 0x00 \<notin> set x"

text \<open>\<open>orderBy\<close>: the rows by ascending key, equal keys in enumeration order.\<close>

definition order_by :: "('r \<Rightarrow> int) \<Rightarrow> 'r list \<Rightarrow> 'r list" where
  "order_by k rs = sort_key k rs"

section \<open>Weakest preconditions\<close>

text \<open>
  \<open>wps m Q s\<close> says that running \<open>m\<close> from \<open>s\<close> ends with an outcome and a state that satisfy \<open>Q\<close>.
  The equations of the collection \<open>wp\<close> push it through every combinator, so that
  \<open>simp add: wp\<close> turns a statement about a handler into one about the tables it touches.
\<close>

named_theorems wp

definition wps :: "('s, 'a) svc \<Rightarrow> (exn + 'a \<Rightarrow> 's \<Rightarrow> bool) \<Rightarrow> 's \<Rightarrow> bool" where
  "wps m Q s = (case m s of (r, s') \<Rightarrow> Q r s')"

lemma wps_run: "wps m Q s \<longleftrightarrow> Q (fst (m s)) (snd (m s))"
  by (simp add: wps_def split_beta)

lemma wps_I: "(\<And>r s'. m s = (r, s') \<Longrightarrow> Q r s') \<Longrightarrow> wps m Q s"
  by (simp add: wps_def split: prod.splits)

lemma wps_D: "wps m Q s \<Longrightarrow> m s = (r, s') \<Longrightarrow> Q r s'"
  by (simp add: wps_def)

lemma wps_mono: "wps m Q s \<Longrightarrow> (\<And>r s'. Q r s' \<Longrightarrow> Q' r s') \<Longrightarrow> wps m Q' s"
  by (simp add: wps_def split: prod.splits)

lemma wps_ret [wp]: "wps (ret x) Q s = Q (Inr x) s"
  by (simp add: wps_def ret_def)

lemma wps_throw [wp]: "wps (throw e) Q s = Q (Inl e) s"
  by (simp add: wps_def throw_def)

lemma wps_bnd [wp]:
  "wps (bnd m f) Q s = wps m (\<lambda>r s'. case r of Inl e \<Rightarrow> Q (Inl e) s' | Inr x \<Rightarrow> wps (f x) Q s') s"
  by (simp add: wps_def bnd_def split: prod.splits sum.splits)

lemma wps_seq [wp]:
  "wps (seq m n) Q s = wps m (\<lambda>r s'. case r of Inl e \<Rightarrow> Q (Inl e) s' | Inr x \<Rightarrow> wps n Q s') s"
  by (simp add: seq_def wps_bnd)

lemma wps_gets [wp]: "wps (gets f) Q s = Q (Inr (f s)) s"
  by (simp add: wps_def gets_def)

lemma wps_modify [wp]: "wps (modify f) Q s = Q (Inr ()) (f s)"
  by (simp add: wps_def modify_def)

lemma wps_lift [wp]: "wps (lift r) Q s = Q r s"
  by (simp add: wps_def lift_def)

lemma wps_if [wp]: "wps (if b then m else n) Q s = (if b then wps m Q s else wps n Q s)"
  by simp

lemma wps_when [wp]: "wps (when_do b m) Q s = (if b then wps m Q s else Q (Inr ()) s)"
  by (simp add: when_do_def wps_ret)

lemma wps_guard [wp]: "wps (guard_or b e) Q s = (if b then Q (Inr ()) s else Q (Inl e) s)"
  by (simp add: guard_or_def wps_ret wps_throw)

lemma wps_transaction [wp]:
  "wps (transaction m) Q s = wps m (\<lambda>r s'. case r of Inl e \<Rightarrow> Q (Inl e) s | Inr x \<Rightarrow> Q (Inr x) s') s"
  by (simp add: wps_def transaction_def split: prod.splits sum.splits)

lemma wps_try_catch [wp]:
  "wps (try_catch m h) Q s = wps m (\<lambda>r s'. case r of
     Inl e \<Rightarrow> if e = Diverges then Q (Inl Diverges) s' else wps (h e) Q s' | Inr x \<Rightarrow> Q (Inr x) s') s"
  by (simp add: wps_def try_catch_def split: prod.splits sum.splits)

lemma wps_option [wp]:
  "wps (case x of None \<Rightarrow> m | Some y \<Rightarrow> f y) Q s
   = (case x of None \<Rightarrow> wps m Q s | Some y \<Rightarrow> wps (f y) Q s)"
  by (simp split: option.splits)

lemma wps_find_row [wp]: "wps (find_row tab P) Q s = Q (Inr (List.find P (tab s))) s"
  by (simp add: find_row_def wp)

lemma wps_find_or_throw [wp]:
  "wps (find_or_throw tab P) Q s =
     (case List.find P (tab s) of None \<Rightarrow> Q (Inl (PrismaError ''P2025'')) s | Some r \<Rightarrow> Q (Inr r) s)"
  by (simp add: find_or_throw_def wp split: option.splits)

lemma wps_update_row [wp]:
  "wps (update_row tab upd P f) Q s =
     (case List.find P (tab s) of
        None \<Rightarrow> Q (Inl (PrismaError ''P2025'')) s
      | Some r \<Rightarrow> Q (Inr (f r)) (upd (upd_where P f) s))"
  by (simp add: update_row_def wp split: option.splits)

lemma wps_update_many [wp]:
  "wps (update_many tab upd P f) Q s
   = Q (Inr (count_where P (tab s))) (upd (upd_where P f) s)"
  by (simp add: update_many_def wp)

lemma wps_insert_row [wp]: "wps (insert_row upd r) Q s = Q (Inr r) (upd (\<lambda>rs. rs @ [r]) s)"
  by (simp add: insert_row_def wp)

lemma wps_insert_unique [wp]:
  "wps (insert_unique tab upd clash r) Q s =
     (case List.find clash (tab s) of
        Some _ \<Rightarrow> Q (Inl (PrismaError ''P2002'')) s
      | None \<Rightarrow> Q (Inr r) (upd (\<lambda>rs. rs @ [r]) s))"
  by (simp add: insert_unique_def wp split: option.splits)

lemma wps_foreign_key [wp]:
  "wps (foreign_key tab P) Q s =
     (case List.find P (tab s) of None \<Rightarrow> Q (Inl (PrismaError ''P2003'')) s | Some r \<Rightarrow> Q (Inr ()) s)"
  by (simp add: foreign_key_def wp split: option.splits)

lemma wps_int_columns [wp]:
  "wps (int_columns ns) Q s =
     (if list_all int4 ns then Q (Inr ()) s
      else Q (Inl (JsError ''Unable to fit integer value into an INT4 (32-bit signed integer)'')) s)"
  by (simp add: int_columns_def wp)

section \<open>Running the first step\<close>

text \<open>Equations that run the first operation of a handler, for handlers that go on into a parameter.\<close>

named_theorems run

lemma run_bnd: "m s = (Inr x, s') \<Longrightarrow> bnd m f s = f x s'"
  by (simp add: bnd_def)

lemma bnd_step: "bnd m f s = (case m s of (r, s') \<Rightarrow> case r of Inl e \<Rightarrow> (Inl e, s') | Inr x \<Rightarrow> f x s')"
  by (simp add: bnd_def split: prod.split sum.split)

lemma seq_step: "seq m n s = (case m s of (r, s') \<Rightarrow> case r of Inl e \<Rightarrow> (Inl e, s') | Inr x \<Rightarrow> n s')"
  by (simp add: seq_def bnd_step)

lemma snd_seq_ret: "snd (seq m (ret x) s) = snd (m s)"
  by (simp add: seq_step ret_def split: prod.split sum.split)

lemma run_bnd_fail: "m s = (Inl e, s') \<Longrightarrow> bnd m f s = (Inl e, s')"
  by (simp add: bnd_def)

lemma run_basic [run]:
  "ret x s = (Inr x, s)" "throw e s = (Inl e, s)" "gets f s = (Inr (f s), s)" "modify h s = (Inr (), h s)"
  "lift r s = (r, s)"
  by (simp_all add: ret_def throw_def gets_def modify_def lift_def)

lemma run_bnd_gets [run]: "bnd (gets f) k s = k (f s) s"
  by (simp add: bnd_def gets_def)

lemma run_bnd_ret [run]: "bnd (ret x) k s = k x s"
  by (simp add: bnd_def ret_def)

lemma run_bnd_throw [run]: "bnd (throw e) k s = (Inl e, s)"
  by (simp add: bnd_def throw_def)

lemma run_bnd_find [run]: "bnd (find_row tab P) k s = k (List.find P (tab s)) s"
  by (simp add: find_row_def run)

lemma run_bnd_assoc [run]: "bnd (bnd m f) k = bnd m (\<lambda>x. bnd (f x) k)"
  by (rule ext) (simp add: bnd_def split: prod.split sum.split)

lemma run_seq_modify [run]: "seq (modify f) k s = k (f s)"
  by (simp add: seq_def bnd_def modify_def)

lemma run_seq_guard [run]: "seq (guard_or b e) k s = (if b then k s else (Inl e, s))"
  by (simp add: seq_def bnd_def guard_or_def ret_def throw_def)

lemma run_bnd_insert [run]: "bnd (insert_row upd r) k s = k r (upd (\<lambda>rs. rs @ [r]) s)"
  by (simp add: insert_row_def seq_step bnd_step run_basic)

lemma run_seq_insert [run]: "seq (insert_row upd r) k s = k (upd (\<lambda>rs. rs @ [r]) s)"
  by (simp add: seq_def run_bnd_insert)

lemma run_seq_foreign_key [run]:
  "seq (foreign_key tab P) k s =
     (case List.find P (tab s) of None \<Rightarrow> (Inl (PrismaError ''P2003''), s) | Some r \<Rightarrow> k s)"
  by (simp add: foreign_key_def seq_def bnd_def find_row_def gets_def guard_or_def ret_def throw_def split: option.split)

lemma run_bnd_update_row:
  "List.find P (tab s) = Some r \<Longrightarrow> bnd (update_row tab upd P f) k s = k (f r) (upd (upd_where P f) s)"
  by (simp add: update_row_def find_or_throw_def seq_def bnd_def find_row_def gets_def modify_def ret_def)

lemma run_seq_update_row:
  "List.find P (tab s) = Some r \<Longrightarrow> seq (update_row tab upd P f) k s = k (upd (upd_where P f) s)"
  by (simp add: seq_def run_bnd_update_row)

lemma run_transaction: "m s = (r, s') \<Longrightarrow> transaction m s = (r, case r of Inl e \<Rightarrow> s | Inr x \<Rightarrow> s')"
  by (simp add: transaction_def split: sum.split)

section \<open>Preservation of an invariant\<close>

text \<open>\<open>preserves I m\<close>: the handler keeps \<open>I\<close> whether it returns or throws.\<close>

named_theorems pres

definition preserves :: "('s \<Rightarrow> bool) \<Rightarrow> ('s, 'a) svc \<Rightarrow> bool" where
  "preserves I m \<longleftrightarrow> (\<forall>s. I s \<longrightarrow> I (snd (m s)))"

lemma preservesD: "preserves I m \<Longrightarrow> I s \<Longrightarrow> I (snd (m s))"
  by (simp add: preserves_def)

lemma preserves_I: "(\<And>s r s'. m s = (r, s') \<Longrightarrow> I s \<Longrightarrow> I s') \<Longrightarrow> preserves I m"
  by (simp add: preserves_def split_beta prod_eq_iff)

lemma preservesE: "preserves I m \<Longrightarrow> m s = (r, s') \<Longrightarrow> I s \<Longrightarrow> I s'"
  by (auto simp: preserves_def split_beta prod_eq_iff)

lemma preserves_wps: "preserves I m \<longleftrightarrow> (\<forall>s. I s \<longrightarrow> wps m (\<lambda>_. I) s)"
  by (simp add: preserves_def wps_run)

lemma preserves_ret [pres, intro]: "preserves I (ret x)"
  by (simp add: preserves_wps wp)

lemma preserves_throw [pres, intro]: "preserves I (throw e)"
  by (simp add: preserves_wps wp)

lemma preserves_gets [pres, intro]: "preserves I (gets f)"
  by (simp add: preserves_wps wp)

lemma preserves_lift [pres, intro]: "preserves I (lift r)"
  by (simp add: preserves_wps wp)

lemma preserves_modify [pres]: "(\<And>s. I s \<Longrightarrow> I (f s)) \<Longrightarrow> preserves I (modify f)"
  by (simp add: preserves_wps wp)

lemma preserves_bnd [pres, intro]:
  "preserves I m \<Longrightarrow> (\<And>x. preserves I (f x)) \<Longrightarrow> preserves I (bnd m f)"
  by (rule preserves_I) (auto simp: bnd_def split: prod.splits sum.splits; metis preservesE)

lemma preserves_seq [pres, intro]: "preserves I m \<Longrightarrow> preserves I n \<Longrightarrow> preserves I (seq m n)"
  by (simp add: seq_def preserves_bnd)

lemma preserves_if [pres, intro]:
  "(b \<Longrightarrow> preserves I m) \<Longrightarrow> (\<not> b \<Longrightarrow> preserves I n) \<Longrightarrow> preserves I (if b then m else n)"
  by simp

lemma preserves_when [pres, intro]: "(b \<Longrightarrow> preserves I m) \<Longrightarrow> preserves I (when_do b m)"
  by (simp add: when_do_def preserves_ret)

lemma preserves_guard [pres, intro]: "preserves I (guard_or b e)"
  by (simp add: guard_or_def preserves_ret preserves_throw)

lemma preserves_option [pres, intro]:
  "preserves I m \<Longrightarrow> (\<And>y. preserves I (f y)) \<Longrightarrow> preserves I (case x of None \<Rightarrow> m | Some y \<Rightarrow> f y)"
  by (cases x) simp_all

lemma preserves_transaction [pres, intro]: "preserves I m \<Longrightarrow> preserves I (transaction m)"
  by (rule preserves_I) (auto simp: transaction_def split: prod.splits sum.splits elim: preservesE)

lemma preserves_try_catch [pres, intro]:
  "preserves I m \<Longrightarrow> (\<And>e. preserves I (h e)) \<Longrightarrow> preserves I (try_catch m h)"
  by (rule preserves_I) (auto simp: try_catch_def split: prod.splits sum.splits if_splits; metis preservesE)

lemma preserves_for_each [pres, intro]:
  "(\<And>x. preserves I (f x)) \<Longrightarrow> preserves I (for_each xs f)"
  by (induction xs) (simp_all add: preserves_ret preserves_seq)

lemma preserves_find_row [pres, intro]: "preserves I (find_row tab P)"
  by (simp add: preserves_wps wp)

lemma preserves_find_or_throw [pres, intro]: "preserves I (find_or_throw tab P)"
  by (simp add: preserves_wps wp split: option.splits)

lemma preserves_update_row [pres]:
  "(\<And>s. I s \<Longrightarrow> I (upd (upd_where P f) s)) \<Longrightarrow> preserves I (update_row tab upd P f)"
  by (simp add: preserves_wps wp split: option.splits)

lemma preserves_update_many [pres]:
  "(\<And>s. I s \<Longrightarrow> I (upd (upd_where P f) s)) \<Longrightarrow> preserves I (update_many tab upd P f)"
  by (simp add: preserves_wps wp)

lemma preserves_insert_row [pres]:
  "(\<And>s. I s \<Longrightarrow> I (upd (\<lambda>rs. rs @ [r]) s)) \<Longrightarrow> preserves I (insert_row upd r)"
  by (simp add: preserves_wps wp)

lemma preserves_insert_unique [pres]:
  "(\<And>s. I s \<Longrightarrow> List.find clash (tab s) = None \<Longrightarrow> I (upd (\<lambda>rs. rs @ [r]) s)) \<Longrightarrow>
   preserves I (insert_unique tab upd clash r)"
  by (simp add: preserves_wps wp split: option.splits)

lemma preserves_checks [pres, intro]: "preserves I (foreign_key tab P)" "preserves I (int_columns ns)"
  by (simp_all add: preserves_wps wp split: option.splits)

section \<open>Handlers that leave a part of the state alone\<close>

definition leaves :: "('s \<Rightarrow> 'k) \<Rightarrow> ('s, 'a) svc \<Rightarrow> bool" where
  "leaves v m \<longleftrightarrow> (\<forall>K. preserves (\<lambda>s. v s = K) m)"

lemma leaves_D: "leaves v m \<Longrightarrow> m s = (r, s') \<Longrightarrow> v s' = v s"
  unfolding leaves_def using preservesE [of "\<lambda>z. v z = v s" m s r s'] by metis

lemma leaves_snd: "leaves v m \<Longrightarrow> v (snd (m s)) = v s"
  by (rule leaves_D [of v m s "fst (m s)"]) simp_all

lemma leaves_basic:
  "leaves v (ret x)" "leaves v (throw e)" "leaves v (gets g)" "leaves v (lift r)" "leaves v (guard_or b e)"
  "leaves v (find_row tab P)" "leaves v (find_or_throw tab P)" "leaves v (foreign_key tab' P')" "leaves v (int_columns ns)"
  by (auto simp: leaves_def intro: pres)

lemma leaves_comb:
  "leaves v m \<Longrightarrow> (\<And>x. leaves v (f x)) \<Longrightarrow> leaves v (bnd m f)"
  "leaves v m1 \<Longrightarrow> leaves v n \<Longrightarrow> leaves v (seq m1 n)"
  "leaves v m2 \<Longrightarrow> leaves v n2 \<Longrightarrow> leaves v (if b then m2 else n2)"
  "leaves v u \<Longrightarrow> leaves v (when_do b u)"
  "leaves v p \<Longrightarrow> (\<And>y. leaves v (g y)) \<Longrightarrow> leaves v (case x of None \<Rightarrow> p | Some y \<Rightarrow> g y)"
  "leaves v q \<Longrightarrow> leaves v (transaction q)"
  "leaves v q1 \<Longrightarrow> (\<And>e. leaves v (h e)) \<Longrightarrow> leaves v (try_catch q1 h)"
  "(\<And>y. leaves v (k y)) \<Longrightarrow> leaves v (for_each xs k)"
  by (auto simp: leaves_def intro: pres split: option.split)

lemma leaves_prod: "(\<And>a b. leaves v (f a b)) \<Longrightarrow> leaves v (case x of (a, b) \<Rightarrow> f a b)"
  by (cases x) simp

lemma leaves_sum: "(\<And>a. leaves v (f a)) \<Longrightarrow> (\<And>b. leaves v (g b)) \<Longrightarrow> leaves v (case x of Inl a \<Rightarrow> f a | Inr b \<Rightarrow> g b)"
  by (cases x) simp_all

lemma leaves_modify: "(\<And>s. v (f s) = v s) \<Longrightarrow> leaves v (modify f)"
  by (simp add: leaves_def preserves_modify)

lemma leaves_tables:
  "(\<And>g s. v (upd g s) = v s) \<Longrightarrow> leaves v (update_row tab upd P f)"
  "(\<And>g s. v (upd g s) = v s) \<Longrightarrow> leaves v (update_many tab upd P f)"
  "(\<And>g s. v (upd g s) = v s) \<Longrightarrow> leaves v (insert_row upd r)"
  "(\<And>g s. v (upd g s) = v s) \<Longrightarrow> leaves v (insert_unique tab upd P r)"
  by (simp_all add: leaves_def preserves_update_row preserves_update_many preserves_insert_row preserves_insert_unique)

lemmas leaves_intro = leaves_basic leaves_comb leaves_prod leaves_sum

lemmas leaves_all = leaves_intro leaves_modify leaves_tables

section \<open>Rows of a table\<close>

lemma find_SomeD: "List.find P xs = Some x \<Longrightarrow> x \<in> set xs \<and> P x"
  by (auto simp: find_Some_iff)

lemma find_None_iff': "List.find P xs = None \<longleftrightarrow> (\<forall>x \<in> set xs. \<not> P x)"
  by (auto simp: find_None_iff)

lemma find_False [simp]: "List.find (\<lambda>x. False) xs = None"
  by (induction xs) simp_all

lemma find_append: "List.find P (xs @ ys)
   = (case List.find P xs of Some x \<Rightarrow> Some x | None \<Rightarrow> List.find P ys)"
  by (induction xs) auto

lemma find_upd_where_same:
  "(\<And>r. P (f r) = P r) \<Longrightarrow> List.find P (upd_where P f xs) = map_option f (List.find P xs)"
  by (induction xs) (auto simp: upd_where_def)

text \<open>An update of other rows, or one that keeps the filter and the rows it selects.\<close>

lemma find_upd_where_other:
  "(\<And>r. P r \<Longrightarrow> \<not> R r \<and> \<not> R (f r)) \<Longrightarrow> List.find R (upd_where P f xs) = List.find R xs"
  by (induction xs) (auto simp: upd_where_def)

text \<open>An update that keeps the filter, of any rows.\<close>

lemma find_upd_where_keep:
  "(\<And>r. R r \<Longrightarrow> P (f r) = P r) \<Longrightarrow>
   List.find P (upd_where R f xs) = map_option (\<lambda>r. if R r then f r else r) (List.find P xs)"
  by (induction xs) (auto simp: upd_where_def)

lemma set_upd_where: "set (upd_where P f xs) = (\<lambda>r. if P r then f r else r) ` set xs"
  by (simp add: upd_where_def)

lemma image_upd_where:
  "(\<And>r. P r \<Longrightarrow> k (f r) = k r) \<Longrightarrow> k ` set (upd_where P f xs) = k ` set xs"
  by (induction xs) (auto simp: upd_where_def)

lemma ball_upd_where:
  "(\<forall>x \<in> set (upd_where P f xs). Q x) = (\<forall>r \<in> set xs. Q (if P r then f r else r))"
  by (induction xs) (simp_all add: upd_where_def)

lemma all_upd_where:
  "(\<And>r. Q (f r) = Q r) \<Longrightarrow> (\<forall>x \<in> set (upd_where P f xs). Q x) = (\<forall>x \<in> set xs. Q x)"
  by (induction xs) (auto simp: upd_where_def)

lemma upd_where_hit: "x \<in> set (upd_where P f rs) \<Longrightarrow> P x \<Longrightarrow> \<exists>r \<in> set rs. P r \<and> x = f r"
  by (auto simp: set_upd_where split: if_splits)

lemma upd_where_other_row: "r \<in> set rs \<Longrightarrow> \<not> P r \<Longrightarrow> r \<in> set (upd_where P f rs)"
  by (force simp: set_upd_where)

lemma length_upd_where [simp]: "length (upd_where P f xs) = length xs"
  by (simp add: upd_where_def)

lemma upd_where_Nil [simp]: "upd_where P f [] = []"
  by (simp add: upd_where_def)

lemma map_upd_where:
  "(\<And>r. P r \<Longrightarrow> k (f r) = k r) \<Longrightarrow> map k (upd_where P f xs) = map k xs"
  by (simp add: upd_where_def)

lemma count_where_Nil [simp]: "count_where P [] = 0"
  by (simp add: count_where_def)

lemma count_where_append [simp]: "count_where P (xs @ ys) = count_where P xs + count_where P ys"
  by (simp add: count_where_def)

lemma count_where_Cons: "count_where P (x # xs) = (if P x then Suc (count_where P xs) else count_where P xs)"
  by (simp add: count_where_def)

lemma count_where_zero: "count_where P xs = 0 \<longleftrightarrow> (\<forall>x \<in> set xs. \<not> P x)"
  by (simp add: count_where_def filter_empty_conv)

lemma count_where_le: "count_where P xs \<le> length xs"
  by (simp add: count_where_def)

lemma count_where_mono:
  "(\<And>x. x \<in> set xs \<Longrightarrow> P x \<Longrightarrow> R x) \<Longrightarrow> count_where P xs \<le> count_where R xs"
  by (induction xs) (auto simp: count_where_Cons)

lemma count_where_upd_id:
  "(\<And>r. P r \<Longrightarrow> R (f r) = R r) \<Longrightarrow> count_where R (upd_where P f xs) = count_where R xs"
  by (induction xs) (auto simp: count_where_Cons upd_where_def)

text \<open>A table whose rows have distinct keys: a filter on the key selects at most one row.\<close>

lemma count_where_key_le_1: "distinct (map k xs) \<Longrightarrow> count_where (\<lambda>r. k r = i) xs \<le> 1"
proof (induction xs)
  case (Cons x xs)
  then show ?case
    by (cases "k x = i") (force simp: count_where_Cons count_where_zero image_iff)+
qed simp

lemma count_where_key:
  "distinct (map k xs) \<Longrightarrow> List.find (\<lambda>r. k r = i) xs = Some x \<Longrightarrow>
   count_where (\<lambda>r. k r = i \<and> P r) xs = (if P x then 1 else 0)"
proof (induction xs)
  case (Cons y ys)
  show ?case
  proof (cases "k y = i")
    case True
    then have "count_where (\<lambda>r. k r = i \<and> P r) ys = 0"
      using Cons.prems(1) by (force simp: count_where_zero image_iff)
    with True Cons.prems show ?thesis by (simp add: count_where_Cons)
  next
    case False
    with Cons show ?thesis by (simp add: count_where_Cons)
  qed
qed simp

text \<open>Changing the one row with a given key changes a count by that row.\<close>

lemma count_where_upd_key:
  "distinct (map k xs) \<Longrightarrow> x \<in> set xs \<Longrightarrow>
   count_where P (upd_where (\<lambda>r. k r = k x) f xs) + (if P x then 1 else 0)
   = count_where P xs + (if P (f x) then 1 else 0)"
proof (induction xs)
  case (Cons y ys)
  show ?case
  proof (cases "x = y")
    case True
    with Cons.prems have "upd_where (\<lambda>r. k r = k x) f ys = ys"
      unfolding upd_where_def by (intro map_idI) (auto simp: image_iff)
    with True show ?thesis by (simp add: upd_where_def count_where_Cons)
  next
    case False
    with Cons.prems have "x \<in> set ys" "k y \<noteq> k x" by (auto simp: image_iff)
    with Cons show ?thesis by (auto simp: upd_where_def count_where_Cons)
  qed
qed simp

text \<open>At most one selected row per key: the keys of the selected rows are distinct.\<close>

lemma distinct_selected:
  "(\<And>i. count_where (\<lambda>r. k r = i \<and> P r) xs \<le> 1) \<Longrightarrow> distinct (map k (filter P xs))"
proof (induction xs)
  case (Cons x xs)
  have "count_where (\<lambda>r. k r = i \<and> P r) xs \<le> 1" for i
    using Cons.prems [of i] by (simp add: count_where_Cons split: if_splits)
  moreover have "k x \<notin> k ` {r \<in> set xs. P r}" if "P x"
    using Cons.prems [of "k x"] that by (auto simp: count_where_Cons count_where_zero)
  ultimately show ?case using Cons.IH by auto
qed simp

lemma distinct_key_eq:
  "distinct (map k xs) \<Longrightarrow> x \<in> set xs \<Longrightarrow> y \<in> set xs \<Longrightarrow> k x = k y \<Longrightarrow> x = y"
  by (auto simp: distinct_map dest: inj_onD)

end
