(* ===== verification/Calendar.thy ===== *)
theory Calendar
  imports Prelude
begin

text \<open>
  The calendar arithmetic of JavaScript's \<open>Date\<close> that the backend uses, and the two modules built
  on it: \<open>billing-interval.util.ts\<close> (the end of a billing period) and the day arithmetic
  \<open>addDays\<close> of the subscription service. Instants are integers (milliseconds since the epoch); the
  proleptic Gregorian calendar is computed as ECMAScript's \<open>DayFromYear\<close>/\<open>MakeDay\<close> do. The
  services run in containers whose local time zone is UTC (no \<open>TZ\<close> is set in docker/), so the local
  getters and setters coincide with the UTC ones.
\<close>

section \<open>Days, years and months\<close>

definition ms_per_day :: int where
  "ms_per_day = 86400000"

definition day_of :: "time \<Rightarrow> int" where
  "day_of t = t div ms_per_day"

definition time_in_day :: "time \<Rightarrow> int" where
  "time_in_day t = t mod ms_per_day"

definition make_date :: "int \<Rightarrow> int \<Rightarrow> time" where
  "make_date d tod = d * ms_per_day + tod"

definition leap :: "int \<Rightarrow> bool" where
  "leap y \<longleftrightarrow> y mod 4 = 0 \<and> (y mod 100 \<noteq> 0 \<or> y mod 400 = 0)"

definition day_from_year :: "int \<Rightarrow> int" where
  "day_from_year y =
     365 * (y - 1970) + (y - 1969) div 4 - (y - 1901) div 100 + (y - 1601) div 400"

definition days_in_year :: "int \<Rightarrow> int" where
  "days_in_year y = (if leap y then 366 else 365)"

text \<open>Days of the year before the first of a month (0 = January, \<dots>, 11 = December).\<close>

definition days_before_month :: "bool \<Rightarrow> int \<Rightarrow> int" where
  "days_before_month lp m =
     (let l = (if lp then 1 else 0) in
      if m \<le> 0 then 0 else if m = 1 then 31 else if m = 2 then 59 + l
      else if m = 3 then 90 + l else if m = 4 then 120 + l else if m = 5 then 151 + l
      else if m = 6 then 181 + l else if m = 7 then 212 + l else if m = 8 then 243 + l
      else if m = 9 then 273 + l else if m = 10 then 304 + l else if m = 11 then 334 + l
      else 365 + l)"

text \<open>\<open>MakeDay\<close>: months and days outside their range carry over.\<close>

definition make_day :: "int \<Rightarrow> int \<Rightarrow> int \<Rightarrow> int" where
  "make_day y m dt = day_from_year (y + m div 12) + days_before_month (leap (y + m div 12)) (m mod 12) + dt - 1"

definition year_from_day :: "int \<Rightarrow> int" where
  "year_from_day d =
     (let y = 1970 + (400 * d) div 146097 in
      if day_from_year (y + 1) \<le> d then y + 1 else if d < day_from_year y then y - 1 else y)"

definition day_in_year :: "int \<Rightarrow> int" where
  "day_in_year d = d - day_from_year (year_from_day d)"

text \<open>\<open>MonthFromTime\<close> on the day of the year.\<close>

definition month_in_year :: "bool \<Rightarrow> int \<Rightarrow> int" where
  "month_in_year lp k =
     (if k < days_before_month lp 1 then 0 else if k < days_before_month lp 2 then 1
      else if k < days_before_month lp 3 then 2 else if k < days_before_month lp 4 then 3
      else if k < days_before_month lp 5 then 4 else if k < days_before_month lp 6 then 5
      else if k < days_before_month lp 7 then 6 else if k < days_before_month lp 8 then 7
      else if k < days_before_month lp 9 then 8 else if k < days_before_month lp 10 then 9
      else if k < days_before_month lp 11 then 10 else 11)"

definition month_from_day :: "int \<Rightarrow> int" where
  "month_from_day d = month_in_year (leap (year_from_day d)) (day_in_year d)"

definition date_from_day :: "int \<Rightarrow> int" where
  "date_from_day d =
     day_in_year d - days_before_month (leap (year_from_day d)) (month_from_day d) + 1"

text \<open>0 = Sunday.\<close>

definition week_day :: "int \<Rightarrow> int" where
  "week_day d = (d + 4) mod 7"

section \<open>Setters\<close>

definition set_date :: "time \<Rightarrow> int \<Rightarrow> time" where
  "set_date t dt = make_date
     (make_day (year_from_day (day_of t)) (month_from_day (day_of t)) dt) (time_in_day t)"

definition get_date :: "time \<Rightarrow> int" where
  "get_date t = date_from_day (day_of t)"

definition get_month :: "time \<Rightarrow> int" where
  "get_month t = month_from_day (day_of t)"

definition get_full_year :: "time \<Rightarrow> int" where
  "get_full_year t = year_from_day (day_of t)"

definition set_month :: "time \<Rightarrow> int \<Rightarrow> time" where
  "set_month t m = make_date (make_day (get_full_year t) m (get_date t)) (time_in_day t)"

definition set_full_year :: "time \<Rightarrow> int \<Rightarrow> time" where
  "set_full_year t y = make_date (make_day y (get_month t) (get_date t)) (time_in_day t)"

text \<open>\<open>Date.UTC\<close> with a year of four digits.\<close>

definition date_utc :: "int \<Rightarrow> int \<Rightarrow> int \<Rightarrow> int \<Rightarrow> int \<Rightarrow> time" where
  "date_utc y m dt h mi = make_date (make_day y m dt) (h * 3600000 + mi * 60000)"

section \<open>Facts of the calendar\<close>

lemma div_step:
  assumes "0 < (n::int)"
  shows "(x + 1) div n = x div n + (if (x + 1) mod n = 0 then 1 else 0)"
proof -
  have x: "x = n * (x div n) + x mod n" by simp
  have r: "0 \<le> x mod n" "x mod n < n" using assms by simp_all
  show ?thesis
  proof (cases "x mod n = n - 1")
    case True
    with x have "x + 1 = n * (x div n + 1) + 0" by (simp add: algebra_simps)
    with assms have "(x + 1) div n = x div n + 1" and "(x + 1) mod n = 0"
      by (auto intro: int_div_pos_eq int_mod_pos_eq)
    then show ?thesis by simp
  next
    case False
    from x have "x + 1 = n * (x div n) + (x mod n + 1)" by simp
    moreover have "0 \<le> x mod n + 1" "x mod n + 1 < n" using r False by simp_all
    ultimately have "(x + 1) div n = x div n" and "(x + 1) mod n = x mod n + 1"
      by (rule int_div_pos_eq, rule int_mod_pos_eq)
    with r show ?thesis by simp
  qed
qed

lemma mod_shift: "n dvd k \<Longrightarrow> (y - k) mod n = 0 \<longleftrightarrow> y mod n = (0::int)"
  by (simp add: dvd_eq_mod_eq_0 [symmetric] dvd_diff_left_iff)

lemma mod_100_mod_4: "y mod 100 = 0 \<Longrightarrow> y mod 4 = (0::int)"
  using dvd_trans [of 4 100 y] by (simp add: dvd_eq_mod_eq_0 [symmetric])

lemma mod_400_mod_100: "y mod 400 = 0 \<Longrightarrow> y mod 100 = (0::int)"
  using dvd_trans [of 100 400 y] by (simp add: dvd_eq_mod_eq_0 [symmetric])

lemma day_from_year_Suc: "day_from_year (y + 1) = day_from_year y + days_in_year y"
proof -
  define p4 p100 p400 where "p4 = (y mod 4 = 0)" and "p100 = (y mod 100 = 0)" and "p400 = (y mod 400 = 0)"
  define A B C where "A = (y - 1969) div 4" and "B = (y - 1901) div 100" and "C = (y - 1601) div 400"
  have A: "(y - 1968) div 4 = A + (if p4 then 1 else 0)"
    using div_step [of 4 "y - 1969"] mod_shift [of 4 1968 y] by (simp add: A_def p4_def)
  have B: "(y - 1900) div 100 = B + (if p100 then 1 else 0)"
    using div_step [of 100 "y - 1901"] mod_shift [of 100 1900 y] by (simp add: B_def p100_def)
  have C: "(y - 1600) div 400 = C + (if p400 then 1 else 0)"
    using div_step [of 400 "y - 1601"] mod_shift [of 400 1600 y] by (simp add: C_def p400_def)
  have imp: "p100 \<Longrightarrow> p4" "p400 \<Longrightarrow> p100"
    using mod_100_mod_4 [of y] mod_400_mod_100 [of y] by (simp_all add: p4_def p100_def p400_def)
  have days: "days_in_year y = (if p4 \<and> (\<not> p100 \<or> p400) then 366 else 365)"
    by (simp only: days_in_year_def leap_def p4_def p100_def p400_def)
  have y: "day_from_year y = 365 * (y - 1970) + A - B + C"
    by (simp only: day_from_year_def A_def B_def C_def)
  have "y + 1 - 1969 = y - 1968" "y + 1 - 1901 = y - 1900" "y + 1 - 1601 = y - 1600" "y + 1 - 1970 = y - 1969"
    by simp_all
  then have "day_from_year (y + 1)
      = 365 * (y - 1969) + (y - 1968) div 4 - (y - 1900) div 100 + (y - 1600) div 400"
    by (simp only: day_from_year_def)
  then show ?thesis
    unfolding A B C y days using imp by (cases p4; cases p100; cases p400) simp_all
qed

lemma days_in_year_bounds: "365 \<le> days_in_year y" "days_in_year y \<le> 366"
  by (simp_all add: days_in_year_def)

lemma day_from_year_approx:
  "146097 * (y - 1970) - 507 \<le> 400 * day_from_year y"
  "400 * day_from_year y \<le> 146097 * (y - 1970) + 589"
  by (simp_all add: day_from_year_def)

lemma year_from_day_correct:
  "day_from_year (year_from_day d) \<le> d \<and> d < day_from_year (year_from_day d + 1)"
proof -
  define k where "k = (400 * d) div 146097"
  have k: "146097 * k \<le> 400 * d" "400 * d < 146097 * k + 146097"
    by (simp_all add: k_def)
  have "day_from_year y \<le> d" if "y = 1970 + k - 1" for y
    using day_from_year_approx(2) [of y] k that by simp
  then have low: "day_from_year (1970 + k - 1) \<le> d" by blast
  have "d < day_from_year y" if "y = 1970 + k + 2" for y
    using day_from_year_approx(1) [of y] k that by simp
  then have high: "d < day_from_year (1970 + k + 2)" by blast
  show ?thesis
    using low high by (auto simp: year_from_day_def k_def [symmetric] Let_def add.commute)
qed

lemma day_from_year_mono: "y \<le> z \<Longrightarrow> day_from_year y \<le> day_from_year z"
proof (induction "nat (z - y)" arbitrary: z)
  case (Suc n)
  then have "day_from_year y \<le> day_from_year (z - 1)" by simp
  with day_from_year_Suc [of "z - 1"] days_in_year_bounds [of "z - 1"] show ?case by simp
qed simp

lemma year_from_day_unique:
  assumes "day_from_year y \<le> d" and "d < day_from_year (y + 1)"
  shows "year_from_day d = y"
proof (rule ccontr)
  assume "year_from_day d \<noteq> y"
  then consider "year_from_day d + 1 \<le> y" | "y + 1 \<le> year_from_day d" by linarith
  then show False
    using day_from_year_mono year_from_day_correct [of d] assms by cases force+
qed

lemma day_in_year_bounds: "0 \<le> day_in_year d" "day_in_year d < days_in_year (year_from_day d)"
  using year_from_day_correct [of d] by (simp_all add: day_in_year_def day_from_year_Suc)

lemma month_bounds: "0 \<le> month_from_day d" "month_from_day d \<le> 11"
  by (simp_all add: month_from_day_def month_in_year_def)

lemma month_in_year_span:
  "0 \<le> k \<Longrightarrow> k < (if lp then 366 else 365) \<Longrightarrow>
   days_before_month lp (month_in_year lp k) \<le> k \<and> k - days_before_month lp (month_in_year lp k) \<le> 30"
  by (cases lp) (simp_all add: month_in_year_def days_before_month_def)

lemma date_bounds: "1 \<le> date_from_day d" "date_from_day d \<le> 31"
  using month_in_year_span [of "day_in_year d" "leap (year_from_day d)"] day_in_year_bounds [of d]
  by (simp_all add: date_from_day_def month_from_day_def days_in_year_def)

text \<open>Decoding a day and encoding it again gives the day back.\<close>

lemma make_day_decode:
  "make_day (year_from_day d) (month_from_day d) (date_from_day d) = d"
proof -
  have "month_from_day d div 12 = 0" "month_from_day d mod 12 = month_from_day d"
    using month_bounds [of d] by simp_all
  then show ?thesis by (simp add: make_day_def date_from_day_def day_in_year_def)
qed

lemma time_split: "make_date (day_of t) (time_in_day t) = t"
  by (simp add: make_date_def day_of_def time_in_day_def ms_per_day_def)

lemma time_in_day_bounds: "0 \<le> time_in_day t" "time_in_day t < ms_per_day"
  by (simp_all add: time_in_day_def ms_per_day_def)

lemma day_of_make_date: "0 \<le> s \<Longrightarrow> s < ms_per_day \<Longrightarrow> day_of (make_date d s) = d"
  by (simp add: day_of_def make_date_def ms_per_day_def)

lemma make_day_date: "make_day y m (dt + k) = make_day y m dt + k"
  by (simp add: make_day_def)

lemma set_date_get_date: "set_date t (get_date t + k) = t + k * ms_per_day"
  using time_split [of t]
  by (simp add: set_date_def get_date_def make_day_date [of _ _ "date_from_day (day_of t)"]
      make_day_decode make_date_def distrib_right)

text \<open>Months have at least 28 days, so moving on by months moves on by days.\<close>

lemma days_before_month_step:
  assumes "0 \<le> m" and "m \<le> 10"
  shows "days_before_month lp m + 28 \<le> days_before_month lp (m + 1)"
proof -
  from assms have "m = 0 \<or> m = 1 \<or> m = 2 \<or> m = 3 \<or> m = 4 \<or> m = 5 \<or> m = 6 \<or> m = 7 \<or> m = 8 \<or> m = 9 \<or> m = 10"
    by arith
  then show ?thesis by (elim disjE) (simp_all add: days_before_month_def)
qed

lemma make_day_month_step: "make_day y m dt + 28 \<le> make_day y (m + 1) dt"
proof (cases "m mod 12 = 11")
  case True
  then have "(m + 1) mod 12 = 0" by (simp add: mod_add_left_eq [symmetric])
  moreover from this have "(m + 1) div 12 = m div 12 + 1" using div_step [of 12 m] by simp
  moreover have "days_before_month lp 11 \<le> 335" "days_before_month lp 0 = 0" for lp
    by (simp_all add: days_before_month_def)
  ultimately show ?thesis
    using True day_from_year_Suc [of "y + m div 12"] days_in_year_bounds(1) [of "y + m div 12"]
    by (simp add: make_day_def add.assoc) (smt (verit))
next
  case False
  have r: "0 \<le> m mod 12" "m mod 12 \<le> 10" using False pos_mod_bound [of 12 m] by (simp, linarith)
  then have "(m + 1) mod 12 = m mod 12 + 1"
    using mod_add_left_eq [of m 12 1] mod_pos_pos_trivial [of "m mod 12 + 1" 12] by simp
  moreover from this r have "(m + 1) div 12 = m div 12" using div_step [of 12 m] by simp
  ultimately show ?thesis
    using days_before_month_step [OF r, of "leap (y + m div 12)"] by (simp add: make_day_def)
qed

lemma make_day_months: "make_day y m dt + 28 * int n \<le> make_day y (m + int n) dt"
proof (induction n)
  case (Suc n)
  then show ?case using make_day_month_step [of y "m + int n" dt] by (simp add: algebra_simps)
qed simp

lemma make_day_year: "make_day (y + k) m dt = make_day y (m + 12 * k) dt"
  by (simp add: make_day_def add.assoc)

lemma set_month_later:
  assumes "0 \<le> n"
  shows "t + 28 * n * ms_per_day \<le> set_month t (get_month t + n)"
proof -
  have "day_of t + 28 * n \<le> make_day (get_full_year t) (get_month t + n) (get_date t)"
    using make_day_months [of "get_full_year t" "get_month t" "get_date t" "nat n"]
      make_day_decode [of "day_of t"] assms
    by (simp add: get_full_year_def get_month_def get_date_def)
  then have "(day_of t + 28 * n) * ms_per_day \<le> make_day (get_full_year t) (get_month t + n) (get_date t) * ms_per_day"
    by (rule mult_right_mono) (simp add: ms_per_day_def)
  then show ?thesis
    using time_split [of t] by (simp add: set_month_def make_date_def algebra_simps)
qed

lemma set_full_year_months: "set_full_year t (get_full_year t + k) = set_month t (get_month t + 12 * k)"
  by (simp add: set_full_year_def set_month_def make_day_year)

section \<open>Billing intervals\<close>

text \<open>\<open>enum BillingInterval\<close> and \<open>addBillingInterval\<close>.\<close>

datatype BillingInterval = DAY | WEEK | MONTH | QUARTER | SEMIANNUAL | YEAR | LIFETIME | CUSTOM

fun addBillingInterval :: "time \<Rightarrow> BillingInterval \<Rightarrow> int \<Rightarrow> time" where
  "addBillingInterval from DAY n = set_date from (get_date from + n)"
| "addBillingInterval from WEEK n = set_date from (get_date from + 7 * n)"
| "addBillingInterval from MONTH n = set_month from (get_month from + n)"
| "addBillingInterval from QUARTER n = set_month from (get_month from + 3 * n)"
| "addBillingInterval from SEMIANNUAL n = set_month from (get_month from + 6 * n)"
| "addBillingInterval from YEAR n = set_full_year from (get_full_year from + n)"
| "addBillingInterval from LIFETIME n = set_full_year from (get_full_year from + 100)"
| "addBillingInterval from CUSTOM n = set_date from (get_date from + n)"

text \<open>\<open>addDays\<close> of the subscription service.\<close>

definition addDays :: "time \<Rightarrow> int \<Rightarrow> time" where
  "addDays from days = set_date from (get_date from + days)"

lemma addDays_eq: "addDays t n = t + n * ms_per_day"
  by (simp add: addDays_def set_date_get_date)

text \<open>The shortest length, in days, that \<open>n\<close> units of an interval can have.\<close>

fun min_days :: "BillingInterval \<Rightarrow> int \<Rightarrow> int" where
  "min_days DAY n = n"
| "min_days WEEK n = 7 * n"
| "min_days MONTH n = 28 * n"
| "min_days QUARTER n = 84 * n"
| "min_days SEMIANNUAL n = 168 * n"
| "min_days YEAR n = 336 * n"
| "min_days LIFETIME n = 33600"
| "min_days CUSTOM n = n"

lemma addBillingInterval_min:
  "0 \<le> n \<Longrightarrow> t + min_days i n * ms_per_day \<le> addBillingInterval t i n"
  using set_month_later [of n t] set_month_later [of "3 * n" t] set_month_later [of "6 * n" t]
    set_month_later [of "12 * n" t] set_month_later [of 1200 t]
    set_full_year_months [of t 100]
  by (cases i) (simp_all add: set_date_get_date set_full_year_months ms_per_day_def)

lemma min_days_pos: "1 \<le> n \<Longrightarrow> 1 \<le> min_days i n"
  by (cases i) auto

text \<open>The time of day survives, whatever the interval.\<close>

lemma time_in_day_make_date: "0 \<le> s \<Longrightarrow> s < ms_per_day \<Longrightarrow> time_in_day (make_date d s) = s"
  by (simp add: time_in_day_def make_date_def ms_per_day_def)

lemma addBillingInterval_time_in_day: "time_in_day (addBillingInterval t i n) = time_in_day t"
  using time_in_day_bounds [of t]
  by (cases i) (simp_all add: set_date_def set_month_def set_full_year_def time_in_day_make_date)

text \<open>
  A billing period is never empty: advancing any instant by at least one unit of any interval
  gives a strictly later instant, at least as many days later as the shortest calendar units allow,
  at the same time of day.
\<close>

theorem addBillingInterval_advances:
  assumes "1 \<le> n"
  shows "t < addBillingInterval t i n
    \<and> t + min_days i n * ms_per_day \<le> addBillingInterval t i n
    \<and> time_in_day (addBillingInterval t i n) = time_in_day t"
proof -
  have "t + min_days i n * ms_per_day \<le> addBillingInterval t i n"
    using assms by (simp add: addBillingInterval_min)
  moreover have "0 < min_days i n * ms_per_day"
    using min_days_pos [OF assms, of i] by (simp add: ms_per_day_def)
  ultimately show ?thesis using addBillingInterval_time_in_day [of t i n] by simp
qed

lemma addBillingInterval_advances_witness:
  "(0::time) < addBillingInterval 0 MONTH 1 \<and> 28 * ms_per_day \<le> addBillingInterval 0 MONTH 1"
  using addBillingInterval_advances [of 1 0 MONTH] by simp

end
