(* ===== verification/Rounding.thy ===== *)
theory Rounding
  imports Complex_Main "HOL-Library.Log_Nat" Prelude
begin

text \<open>
  JavaScript numbers. Amounts are integers, but \<open>proration.util.ts\<close> and the discount computation
  divide and multiply them as IEEE doubles before \<open>Math.round\<close>. \<open>fl\<close> is rounding to the nearest
  double, ties to even, on rational values: 53 significant bits, without overflow and underflow
  (the quotients and products of the code lie far inside the exponent range). A product or quotient
  of doubles is \<open>fl\<close> of the exact rational result.
\<close>

section \<open>Rounding a rational to an integer\<close>

definition round_even :: "rat \<Rightarrow> int" where
  "round_even x =
     (let f = \<lfloor>x\<rfloor>; r = x - of_int f in
      if r < 1/2 then f else if 1/2 < r then f + 1 else if even f then f else f + 1)"

text \<open>\<open>Math.round\<close>: the nearest integer, ties upwards.\<close>

definition math_round :: "rat \<Rightarrow> int" where
  "math_round x = \<lfloor>x + 1/2\<rfloor>"

lemma round_even_of_int [simp]: "round_even (of_int n) = n"
  by (simp add: round_even_def)

lemma round_even_bounds: "\<lfloor>x\<rfloor> \<le> round_even x" "round_even x \<le> \<lfloor>x\<rfloor> + 1"
  by (simp_all add: round_even_def Let_def)

lemma round_even_mono: "x \<le> y \<Longrightarrow> round_even x \<le> round_even y"
proof (cases "\<lfloor>x\<rfloor> = \<lfloor>y\<rfloor>")
  case True
  assume "x \<le> y"
  with True show ?thesis by (auto simp: round_even_def Let_def)
next
  case False
  assume "x \<le> y"
  then have "\<lfloor>x\<rfloor> \<le> \<lfloor>y\<rfloor>" by (rule floor_mono)
  with False have "\<lfloor>x\<rfloor> + 1 \<le> \<lfloor>y\<rfloor>" by simp
  with round_even_bounds [of x] round_even_bounds [of y] show ?thesis by linarith
qed

lemma round_even_error: "\<bar>of_int (round_even x) - x\<bar> \<le> 1/2"
proof -
  define f where "f = \<lfloor>x\<rfloor>"
  have "of_int f \<le> x" "x < of_int f + 1" unfolding f_def by linarith+
  then show ?thesis unfolding round_even_def Let_def f_def [symmetric]
    by (simp add: abs_le_iff algebra_simps)
qed

lemma math_round_of_int [simp]: "math_round (of_int n) = n"
  by (simp add: math_round_def floor_eq_iff)

lemma math_round_mono: "x \<le> y \<Longrightarrow> math_round x \<le> math_round y"
  by (simp add: math_round_def floor_mono)

lemma math_round_error: "\<bar>of_int (math_round x) - x\<bar> \<le> 1/2"
  unfolding math_round_def by linarith

section \<open>Rounding to a double\<close>

definition pow2 :: "int \<Rightarrow> rat" where
  "pow2 e = (if 0 \<le> e then 2 ^ nat e else 1 / 2 ^ nat (- e))"

text \<open>The exponent of a positive rational: \<open>pow2 (expo x) \<le> x < pow2 (expo x + 1)\<close>.\<close>

definition expo :: "rat \<Rightarrow> int" where
  "expo x = (case quotient_of x of (p, q) \<Rightarrow>
     let e = bitlen p - bitlen q in if pow2 e \<le> x then e else e - 1)"

definition flp :: "rat \<Rightarrow> rat" where
  "flp x = (if x \<le> 0 then 0 else let u = pow2 (expo x - 52) in of_int (round_even (x / u)) * u)"

definition fl :: "rat \<Rightarrow> rat" where
  "fl x = (if x < 0 then - flp (- x) else flp x)"

lemma pow2_pos [simp]: "0 < pow2 e"
  by (simp add: pow2_def)

lemma pow2_nonneg [simp]: "0 \<le> pow2 e"
  by (simp add: pow2_def)

lemma pow2_nz [simp]: "pow2 e \<noteq> 0"
  by (simp add: pow2_def)

lemma pow2_powi: "pow2 e = 2 powi e"
  by (simp add: pow2_def power_int_def power_one_over inverse_eq_divide)

lemma pow2_add: "pow2 (a + b) = pow2 a * pow2 b"
  by (simp add: pow2_powi power_int_add)

lemma pow2_Suc: "pow2 (e + 1) = 2 * pow2 e"
  by (simp add: pow2_add) (simp add: pow2_def)

lemma pow2_mono: "a \<le> b \<Longrightarrow> pow2 a \<le> pow2 b"
  by (simp add: pow2_powi power_int_increasing)

lemma pow2_less: "a < b \<Longrightarrow> pow2 a < pow2 b"
  by (simp add: pow2_powi power_int_strict_increasing)

lemma pow2_less_iff: "pow2 a < pow2 b \<longleftrightarrow> a < b"
  by (metis linorder_not_less pow2_less pow2_mono)

lemma pow2_diff: "pow2 (a - b) = pow2 a / pow2 b"
  by (simp add: pow2_powi power_int_diff)

lemma bitlen_pow2:
  assumes "0 < p"
  shows "pow2 (bitlen p - 1) \<le> of_int p" and "of_int p < pow2 (bitlen p)"
proof -
  have b: "1 \<le> bitlen p" using assms by (simp add: bitlen_def floorlog_def)
  have "2 ^ nat (bitlen p - 1) \<le> p \<and> p < 2 ^ nat (bitlen p)"
    using bitlen_bounds [OF assms] by simp
  then have "(2::rat) ^ nat (bitlen p - 1) \<le> of_int p" and "of_int p < (2::rat) ^ nat (bitlen p)"
    by (metis of_int_le_iff of_int_numeral of_int_power, metis of_int_less_iff of_int_numeral of_int_power)
  with b show "pow2 (bitlen p - 1) \<le> of_int p" and "of_int p < pow2 (bitlen p)"
    by (simp_all add: pow2_def)
qed

lemma expo_bounds:
  assumes "0 < x"
  shows "pow2 (expo x) \<le> x" and "x < pow2 (expo x + 1)"
proof -
  obtain p q where pq: "quotient_of x = (p, q)" by (cases "quotient_of x") auto
  have q: "0 < q" using pq by (rule quotient_of_denom_pos)
  have x: "x = of_int p / of_int q" using pq by (rule quotient_of_div)
  with assms q have p: "0 < p" by (simp add: zero_less_divide_iff)
  define e where "e = bitlen p - bitlen q"
  have "of_int p / of_int q < pow2 (bitlen p) / pow2 (bitlen q - 1)"
    using bitlen_pow2 [OF p] bitlen_pow2 [OF q] q p by (intro frac_less) simp_all
  also have "\<dots> = pow2 (e + 1)" by (simp add: e_def pow2_diff [symmetric] algebra_simps)
  finally have up: "x < pow2 (e + 1)" by (simp add: x)
  have "pow2 (bitlen p - 1) / pow2 (bitlen q) \<le> of_int p / of_int q"
    using bitlen_pow2 [OF p] bitlen_pow2 [OF q] q p by (intro frac_le) simp_all
  moreover have "pow2 (bitlen p - 1) / pow2 (bitlen q) = pow2 (e - 1)"
    by (simp add: e_def pow2_diff [symmetric] algebra_simps)
  ultimately have low: "pow2 (e - 1) \<le> x" by (simp add: x)
  show "pow2 (expo x) \<le> x" and "x < pow2 (expo x + 1)"
    using up low by (auto simp: expo_def pq e_def [symmetric])
qed

lemma expo_mono:
  assumes "0 < x" and "x \<le> y"
  shows "expo x \<le> expo y"
proof -
  have "pow2 (expo x) < pow2 (expo y + 1)"
    using expo_bounds(1) [of x] expo_bounds(2) [of y] assms by simp
  then show ?thesis by (simp add: pow2_less_iff)
qed

lemma ulp_scale: "pow2 e = 2 ^ 52 * pow2 (e - 52)" "pow2 (e + 1) = 2 ^ 53 * pow2 (e - 52)"
proof -
  have "pow2 52 = 2 ^ 52" "pow2 53 = 2 ^ 53" by (simp_all add: pow2_def)
  moreover have "52 + (e - 52) = e" "53 + (e - 52) = e + 1" by simp_all
  ultimately show "pow2 e = 2 ^ 52 * pow2 (e - 52)" "pow2 (e + 1) = 2 ^ 53 * pow2 (e - 52)"
    by (metis pow2_add)+
qed

text \<open>Scaled by its unit in the last place, a value lies between \<open>2 ^ 52\<close> and \<open>2 ^ 53\<close>.\<close>

lemma scaled_bounds:
  assumes "0 < x"
  shows "2 ^ 52 \<le> x / pow2 (expo x - 52)" and "x / pow2 (expo x - 52) < 2 ^ 53"
proof -
  note ulp_scale [of "expo x"]
  with expo_bounds [OF assms]
  show "2 ^ 52 \<le> x / pow2 (expo x - 52)" and "x / pow2 (expo x - 52) < 2 ^ 53"
    by (simp_all add: pos_le_divide_eq pos_divide_less_eq)
qed

lemma flp_bounds:
  assumes "0 < x"
  shows "pow2 (expo x) \<le> flp x" and "flp x \<le> pow2 (expo x + 1)"
proof -
  let ?u = "pow2 (expo x - 52)" and ?m = "round_even (x / pow2 (expo x - 52))"
  have "round_even (of_int (2 ^ 52)) \<le> ?m" and "?m \<le> round_even (of_int (2 ^ 53))"
    using scaled_bounds [OF assms] by (intro round_even_mono; simp)+
  then have "2 ^ 52 \<le> ?m" and "?m \<le> 2 ^ 53"
    by (simp_all only: round_even_of_int)
  then have "(of_int (2 ^ 52) :: rat) \<le> of_int ?m" and "of_int ?m \<le> (of_int (2 ^ 53) :: rat)"
    by (simp_all only: of_int_le_iff)
  then have "(2 ^ 52 :: rat) \<le> of_int ?m" and "of_int ?m \<le> (2 ^ 53 :: rat)" by simp_all
  then have "2 ^ 52 * ?u \<le> of_int ?m * ?u" and "of_int ?m * ?u \<le> 2 ^ 53 * ?u"
    by (simp_all add: mult_right_mono)
  moreover note ulp_scale [of "expo x"]
  ultimately show "pow2 (expo x) \<le> flp x" and "flp x \<le> pow2 (expo x + 1)"
    using assms by (simp_all add: flp_def Let_def)
qed

lemma flp_nonneg: "0 \<le> flp x"
proof (cases "x \<le> 0")
  case False
  then have "pow2 (expo x) \<le> flp x" by (intro flp_bounds) simp
  then show ?thesis using pow2_pos [of "expo x"] by linarith
qed (simp add: flp_def)

lemma flp_mono: "x \<le> y \<Longrightarrow> flp x \<le> flp y"
proof (cases "x \<le> 0")
  case True
  then have "flp x = 0" by (simp add: flp_def)
  then show ?thesis using flp_nonneg [of y] by simp
next
  case False
  assume "x \<le> y"
  with False have pos: "0 < x" "0 < y" by simp_all
  have e: "expo x \<le> expo y" using pos(1) \<open>x \<le> y\<close> by (rule expo_mono)
  show ?thesis
  proof (cases "expo x = expo y")
    case True
    then have "x / pow2 (expo x - 52) \<le> y / pow2 (expo y - 52)"
      using \<open>x \<le> y\<close> by (simp add: divide_right_mono)
    then have "round_even (x / pow2 (expo x - 52)) \<le> round_even (y / pow2 (expo y - 52))"
      by (rule round_even_mono)
    then show ?thesis using pos True by (simp add: flp_def Let_def mult_right_mono)
  next
    case False
    with e have "pow2 (expo x + 1) \<le> pow2 (expo y)" by (simp add: pow2_mono)
    with flp_bounds(2) [OF pos(1)] flp_bounds(1) [OF pos(2)] show ?thesis by linarith
  qed
qed

text \<open>Integers of at most 53 bits are doubles.\<close>

lemma flp_of_int:
  assumes "0 \<le> n" and "n < 2 ^ 53"
  shows "flp (of_int n) = of_int n"
proof (cases "n = 0")
  case False
  with assms have pos: "(0::rat) < of_int n" by simp
  let ?e = "expo (of_int n)"
  have "pow2 ?e \<le> of_int n" using expo_bounds(1) [OF pos] .
  moreover have "(of_int n :: rat) < pow2 53"
    using assms(2) by (simp add: pow2_def)
  ultimately have e: "?e - 52 \<le> 0" using pow2_less_iff [of ?e 53] by simp
  then have "of_int n / pow2 (?e - 52) = of_int (n * 2 ^ nat (52 - ?e))"
    by (auto simp: pow2_def)
  then have "round_even (of_int n / pow2 (?e - 52)) = n * 2 ^ nat (52 - ?e)"
    by (simp only: round_even_of_int)
  moreover have "of_int (n * 2 ^ nat (52 - ?e)) * pow2 (?e - 52) = of_int n"
    using e by (auto simp: pow2_def)
  ultimately show ?thesis using pos by (simp add: flp_def Let_def)
qed (simp add: flp_def)

lemma flp_error: "0 < x \<Longrightarrow> \<bar>flp x - x\<bar> \<le> x / 2 ^ 53"
proof -
  assume x: "0 < x"
  let ?u = "pow2 (expo x - 52)"
  have "\<bar>of_int (round_even (x / ?u)) - x / ?u\<bar> \<le> 1/2" by (rule round_even_error)
  then have "\<bar>of_int (round_even (x / ?u)) - x / ?u\<bar> * ?u \<le> 1/2 * ?u" by (rule mult_right_mono) simp
  moreover have "\<bar>of_int (round_even (x / ?u)) - x / ?u\<bar> * ?u = \<bar>of_int (round_even (x / ?u)) * ?u - x\<bar>"
    using abs_mult [of "of_int (round_even (x / ?u)) - x / ?u" ?u] by (simp add: left_diff_distrib)
  moreover have "?u \<le> x / 2 ^ 52"
    using scaled_bounds(1) [OF x] by (simp add: pos_le_divide_eq mult.commute)
  ultimately show ?thesis using x by (simp add: flp_def Let_def)
qed

lemma fl_nonneg_eq: "0 \<le> x \<Longrightarrow> fl x = flp x"
  by (simp add: fl_def)

lemma fl_mono: "x \<le> y \<Longrightarrow> fl x \<le> fl y"
  using flp_mono [of x y] flp_mono [of "- y" "- x"] flp_nonneg [of y] flp_nonneg [of "- x"]
  by (auto simp: fl_def)

lemma fl_of_int: "\<bar>n\<bar> < 2 ^ 53 \<Longrightarrow> fl (of_int n) = of_int n"
  using flp_of_int [of n] flp_of_int [of "- n"] by (auto simp: fl_def abs_if split: if_splits)

lemma fl_0 [simp]: "fl 0 = 0"
  by (simp add: fl_def flp_def)

lemma fl_nonneg: "0 \<le> x \<Longrightarrow> 0 \<le> fl x"
  using fl_mono [of 0 x] by simp

lemma fl_error: "0 \<le> x \<Longrightarrow> \<bar>fl x - x\<bar> \<le> x / 2 ^ 53"
  using flp_error [of x] by (cases "x = 0") (simp_all add: fl_def flp_def)

text \<open>Half-integers below \<open>2 ^ 51\<close> are doubles.\<close>

lemma fl_half:
  assumes "0 < n" and "n < 2 ^ 52"
  shows "fl (of_int n / 2) = of_int n / 2"
proof -
  let ?x = "of_int n / (2 :: rat)" and ?e = "expo (of_int n / 2)"
  have pos: "0 < ?x" using assms(1) by simp
  have "(of_int n :: rat) < of_int (2 ^ 52)" using assms(2) by (simp only: of_int_less_iff)
  then have "?x < pow2 51" by (simp add: pow2_def)
  with expo_bounds(1) [OF pos] have e: "?e \<le> 50" using pow2_less_iff [of ?e 51] by simp
  have p: "pow2 (?e - 52) * of_int (2 ^ nat (51 - ?e)) = 1 / 2"
  proof -
    have "of_int (2 ^ nat (51 - ?e)) = pow2 (51 - ?e)" using e by (simp add: pow2_def)
    moreover have "pow2 (?e - 52) * pow2 (51 - ?e) = pow2 (- 1)" by (simp add: pow2_add [symmetric])
    ultimately show ?thesis by (simp add: pow2_def)
  qed
  then have "?x / pow2 (?e - 52) = of_int (n * 2 ^ nat (51 - ?e))"
    by (simp add: field_simps)
  then have r: "round_even (?x / pow2 (?e - 52)) = n * 2 ^ nat (51 - ?e)"
    by (simp only: round_even_of_int)
  have "of_int (n * 2 ^ nat (51 - ?e)) * pow2 (?e - 52) = ?x"
    using p by (simp add: field_simps)
  then show ?thesis using pos r by (simp add: fl_def flp_def Let_def)
qed

end
