(* ===== verification/Proration.thy ===== *)
theory Proration
  imports Calendar Rounding
begin

text \<open>
  \<open>proration.util.ts\<close>: the day-based adjustment of an immediate plan, seat or interval change.
  Every intermediate JavaScript number that is not an integer is a double, so the model rounds with
  \<open>fl\<close> where the code divides or multiplies.
\<close>

section \<open>calculateProration\<close>

record proration_result =
  pr_creditMinor :: int
  pr_chargeMinor :: int
  pr_netMinor :: int
  pr_remainingDays :: int
  pr_totalDays :: int

definition totalMs_of :: "time \<Rightarrow> time \<Rightarrow> int" where
  "totalMs_of periodStart periodEnd = max ms_per_day (periodEnd - periodStart)"

definition remainingMs_of :: "time \<Rightarrow> time \<Rightarrow> time \<Rightarrow> int" where
  "remainingMs_of periodStart periodEnd now =
     min (totalMs_of periodStart periodEnd) (max 0 (periodEnd - now))"

text \<open>\<open>Math.round(ms / MS_PER_DAY)\<close>.\<close>

definition days_of_ms :: "int \<Rightarrow> int" where
  "days_of_ms ms = math_round (fl (of_int ms / of_int ms_per_day))"

definition calculateProration ::
  "time \<Rightarrow> time \<Rightarrow> time \<Rightarrow> int \<Rightarrow> int \<Rightarrow> proration_result" where
  "calculateProration periodStart periodEnd now oldAmountMinor newAmountMinor =
     (let totalDays = max 1 (days_of_ms (totalMs_of periodStart periodEnd));
          remainingDays = min totalDays (days_of_ms (remainingMs_of periodStart periodEnd now));
          remainingFraction = fl (of_int remainingDays / of_int totalDays);
          creditMinor = math_round (fl (of_int oldAmountMinor * remainingFraction));
          chargeMinor = math_round (fl (of_int newAmountMinor * remainingFraction))
      in \<lparr>pr_creditMinor = creditMinor, pr_chargeMinor = chargeMinor,
          pr_netMinor = chargeMinor - creditMinor,
          pr_remainingDays = remainingDays, pr_totalDays = totalDays\<rparr>)"

text \<open>The product of two JavaScript numbers that hold integers.\<close>

definition js_times :: "int \<Rightarrow> int \<Rightarrow> int" where
  "js_times a b = \<lfloor>fl (of_int (a * b))\<rfloor>"

lemma js_times_exact: "\<bar>a * b\<bar> < 2 ^ 53 \<Longrightarrow> js_times a b = a * b"
  by (simp add: js_times_def fl_of_int del: of_int_mult)

section \<open>Its parts\<close>

lemma days_of_ms_nonneg: "0 \<le> ms \<Longrightarrow> 0 \<le> days_of_ms ms"
proof -
  assume "0 \<le> ms"
  then have "0 \<le> fl (of_int ms / of_int ms_per_day)"
    using fl_mono [of 0 "of_int ms / of_int ms_per_day"] by (simp add: ms_per_day_def)
  then show ?thesis
    using math_round_mono [of 0] math_round_of_int [of 0] by (fastforce simp: days_of_ms_def)
qed

lemma days_of_ms_0 [simp]: "days_of_ms 0 = 0"
  using math_round_of_int [of 0] by (simp add: days_of_ms_def)

lemma days_of_ms_day: "ms_per_day \<le> ms \<Longrightarrow> 1 \<le> days_of_ms ms"
proof -
  assume "ms_per_day \<le> ms"
  then have "fl 1 \<le> fl (of_int ms / of_int ms_per_day)"
    by (intro fl_mono) (simp add: ms_per_day_def)
  moreover have "fl 1 = 1" using fl_of_int [of 1] by simp
  ultimately show ?thesis
    using math_round_mono [of 1 "fl (of_int ms / of_int ms_per_day)"] math_round_of_int [of 1]
    by (simp add: days_of_ms_def)
qed

text \<open>Up to \<open>2 ^ 25\<close> days the rounded quotient is the exact one.\<close>

lemma days_of_ms_exact:
  assumes "0 \<le> ms" and "ms < 2 ^ 25 * ms_per_day"
  shows "days_of_ms ms = (2 * ms + ms_per_day) div (2 * ms_per_day)"
proof -
  define n where "n = (2 * ms + ms_per_day) div (2 * ms_per_day)"
  define x :: rat where "x = of_int ms / of_int ms_per_day"
  have d: "ms_per_day = 86400000" by (simp add: ms_per_day_def)
  have n: "0 \<le> n" "n \<le> 2 ^ 25" "86400000 * (2 * n - 1) \<le> 2 * ms" "2 * ms + 2 \<le> 86400000 * (2 * n + 1)"
  proof -
    have "(2 * ms + 86400000) mod 172800000 + 172800000 * n = 2 * ms + 86400000"
      using mod_mult_div_eq [of "2 * ms + 86400000" 172800000] by (simp add: n_def d)
    then have m: "ms + 43200000 = 86400000 * n + r" if "(2 * ms + 86400000) mod 172800000 = 2 * r" for r
      using that by simp
    obtain r where r: "(2 * ms + 86400000) mod 172800000 = 2 * r"
      by (metis dvd_mod dvd_add dvd_triv_left even_numeral evenE)
    have "0 \<le> 2 * r" "2 * r < 172800000"
      unfolding r [symmetric] by simp_all
    with m [OF r] assms show "0 \<le> n" "n \<le> 2 ^ 25" "86400000 * (2 * n - 1) \<le> 2 * ms"
      "2 * ms + 2 \<le> 86400000 * (2 * n + 1)" unfolding d by simp_all
  qed
  from n(3) have "(of_int (86400000 * (2 * n - 1)) :: rat) \<le> of_int (2 * ms)" by (simp only: of_int_le_iff)
  then have low: "of_int (2 * n - 1) / 2 \<le> x" by (simp add: x_def d field_simps)
  from n(4) have "(of_int (2 * ms + 2) :: rat) \<le> of_int (86400000 * (2 * n + 1))" by (simp only: of_int_le_iff)
  then have high: "x + 1 / 86400000 \<le> of_int (2 * n + 1) / 2" by (simp add: x_def d field_simps)
  have x0: "0 \<le> x" using assms(1) by (simp add: x_def d)
  have "(of_int ms :: rat) < of_int (2 ^ 25 * 86400000)" using assms(2) d by (simp only: of_int_less_iff)
  then have x1: "x \<le> 2 ^ 25" by (simp add: x_def d field_simps)
  have "\<bar>fl x - x\<bar> \<le> x / 2 ^ 53" by (rule fl_error [OF x0])
  then have "fl x \<le> x + x / 2 ^ 53" by linarith
  then have "fl x < of_int (2 * n + 1) / 2" using high x1 by simp
  moreover have "of_int (2 * n - 1) / 2 \<le> fl x"
  proof (cases "n = 0")
    case True
    then show ?thesis using fl_nonneg [OF x0] by simp
  next
    case False
    then have "fl (of_int (2 * n - 1) / 2) = of_int (2 * n - 1) / 2" using n(1,2) by (intro fl_half) simp_all
    then show ?thesis using fl_mono [OF low] by simp
  qed
  ultimately have "\<lfloor>fl x + 1 / 2\<rfloor> = n" by (simp add: floor_eq_iff field_simps)
  then show ?thesis by (simp add: days_of_ms_def math_round_def x_def n_def)
qed
text \<open>The share of the period that is left, as the double the code multiplies with.\<close>

definition fraction_of :: "time \<Rightarrow> time \<Rightarrow> time \<Rightarrow> rat" where
  "fraction_of ps pe now =
     (let td = max 1 (days_of_ms (totalMs_of ps pe)); rd = min td (days_of_ms (remainingMs_of ps pe now))
      in fl (of_int rd / of_int td))"

definition share :: "int \<Rightarrow> rat \<Rightarrow> int" where
  "share amount f = math_round (fl (of_int amount * f))"

lemma proration_parts:
  "pr_creditMinor (calculateProration ps pe now old new) = share old (fraction_of ps pe now)"
  "pr_chargeMinor (calculateProration ps pe now old new) = share new (fraction_of ps pe now)"
  "pr_netMinor (calculateProration ps pe now old new)
     = share new (fraction_of ps pe now) - share old (fraction_of ps pe now)"
  by (simp_all add: calculateProration_def fraction_of_def share_def Let_def)

lemma proration_days:
  "0 \<le> pr_remainingDays (calculateProration ps pe now old new)"
  "pr_remainingDays (calculateProration ps pe now old new) \<le> pr_totalDays (calculateProration ps pe now old new)"
  "1 \<le> pr_totalDays (calculateProration ps pe now old new)"
  using days_of_ms_nonneg [of "remainingMs_of ps pe now"]
  by (auto simp: calculateProration_def Let_def remainingMs_of_def totalMs_of_def ms_per_day_def)

lemma fraction_of_days:
  "fraction_of ps pe now =
   fl (of_int (pr_remainingDays (calculateProration ps pe now old new))
       / of_int (pr_totalDays (calculateProration ps pe now old new)))"
  by (simp add: calculateProration_def fraction_of_def Let_def)

lemma fraction_bounds: "0 \<le> fraction_of ps pe now" "fraction_of ps pe now \<le> 1"
proof -
  let ?p = "calculateProration ps pe now 0 0"
  let ?q = "of_int (pr_remainingDays ?p) / (of_int (pr_totalDays ?p) :: rat)"
  have "0 \<le> ?q" and "?q \<le> 1"
    using proration_days [of ps pe now 0 0] by (simp_all add: divide_le_eq)
  then have "fl 0 \<le> fl ?q" and "fl ?q \<le> fl 1" by (auto intro: fl_mono fl_nonneg)
  moreover have "fl 1 = 1" using fl_of_int [of 1] by simp
  ultimately show "0 \<le> fraction_of ps pe now" "fraction_of ps pe now \<le> 1"
    by (simp_all add: fraction_of_days [of ps pe now 0 0])
qed

lemma share_bounds:
  assumes "0 \<le> f" "f \<le> 1" "0 \<le> a" "a < 2 ^ 53"
  shows "0 \<le> share a f" and "share a f \<le> a"
proof -
  have "0 \<le> of_int a * f" and "of_int a * f \<le> of_int a"
    using assms by (simp_all add: mult_left_le)
  then have "fl 0 \<le> fl (of_int a * f)" and "fl (of_int a * f) \<le> fl (of_int a)"
    by (auto intro: fl_mono fl_nonneg)
  moreover have "fl (of_int a) = of_int a" using assms by (simp add: fl_of_int)
  ultimately have "0 \<le> fl (of_int a * f)" and "fl (of_int a * f) \<le> of_int a" by simp_all
  then show "0 \<le> share a f" and "share a f \<le> a"
    using math_round_mono [of 0 "fl (of_int a * f)"] math_round_mono [of "fl (of_int a * f)" "of_int a"]
      math_round_of_int [of 0] math_round_of_int [of a]
    by (simp_all add: share_def)
qed

lemma share_mono: "0 \<le> f \<Longrightarrow> a \<le> b \<Longrightarrow> share a f \<le> share b f"
  unfolding share_def by (intro math_round_mono fl_mono mult_right_mono) simp_all

lemma share_full: "0 \<le> a \<Longrightarrow> a < 2 ^ 53 \<Longrightarrow> share a 1 = a"
  by (simp add: share_def fl_of_int)

lemma share_none [simp]: "share a 0 = 0"
  using math_round_of_int [of 0] by (simp add: share_def)

lemma fraction_start:
  assumes "now \<le> ps" and "ps + ms_per_day \<le> pe"
  shows "fraction_of ps pe now = 1"
proof -
  have "remainingMs_of ps pe now = totalMs_of ps pe"
    using assms by (auto simp: remainingMs_of_def totalMs_of_def ms_per_day_def)
  moreover have "1 \<le> days_of_ms (totalMs_of ps pe)"
    by (rule days_of_ms_day) (simp add: totalMs_of_def)
  ultimately show ?thesis
    using fl_of_int [of 1] by (simp add: fraction_of_def Let_def)
qed

lemma fraction_end: "pe \<le> now \<Longrightarrow> fraction_of ps pe now = 0"
  by (simp add: fraction_of_def Let_def remainingMs_of_def totalMs_of_def ms_per_day_def)

lemma share_error:
  assumes "0 \<le> x" "x \<le> 1" "0 \<le> a" "a < 2 ^ 50"
  shows "\<bar>of_int (share a (fl x)) - of_int a * x\<bar> < 3 / 4"
proof -
  define A :: rat where "A = of_int a"
  define f where "f = fl x"
  have A: "0 \<le> A" "A < 2 ^ 50"
    using assms(3,4) of_int_less_iff [of a "2 ^ 50", where 'a = rat] by (simp_all add: A_def)
  have f: "0 \<le> f" "f \<le> 1"
    using fl_mono [OF assms(1)] fl_mono [OF assms(2)] fl_of_int [of 1] by (simp_all add: f_def)
  have "\<bar>f - x\<bar> \<le> x / 2 ^ 53" unfolding f_def using assms(1) by (rule fl_error)
  also have "\<dots> \<le> 1 / 2 ^ 53" using assms(2) by simp
  finally have "\<bar>f - x\<bar> * A \<le> 1 / 2 ^ 53 * A" using A(1) by (intro mult_right_mono)
  moreover have "\<bar>A * f - A * x\<bar> = \<bar>f - x\<bar> * A"
    using A(1) by (simp add: abs_mult right_diff_distrib [symmetric] mult.commute)
  ultimately have e1: "\<bar>A * f - A * x\<bar> < 1 / 8" using A(2) by simp
  have "A * f \<le> A" using A f by (simp add: mult_left_le)
  moreover have "\<bar>fl (A * f) - A * f\<bar> \<le> A * f / 2 ^ 53"
    using A f by (intro fl_error) simp
  ultimately have e2: "\<bar>fl (A * f) - A * f\<bar> < 1 / 8" using A(2) by simp
  have e3: "\<bar>of_int (math_round (fl (A * f))) - fl (A * f)\<bar> \<le> 1 / 2" by (rule math_round_error)
  from e1 e2 e3 show ?thesis
    unfolding share_def A_def [symmetric] f_def [symmetric] by linarith
qed

section \<open>What a proration promises\<close>

text \<open>
  Credit and charge of a proration never leave the range from zero to the full amount (for
  amounts below 2^53), the net is charge minus credit, moving to a price at least as high never
  nets to a credit and moving to one at most as high never nets to a charge.
\<close>

theorem calculateProration_bounds:
  assumes "0 \<le> old" "old < 2 ^ 53" "0 \<le> new" "new < 2 ^ 53"
  shows "let p = calculateProration ps pe now old new in 0 \<le> pr_creditMinor p \<and> pr_creditMinor p \<le> old
    \<and> 0 \<le> pr_chargeMinor p \<and> pr_chargeMinor p \<le> new
    \<and> pr_netMinor p = pr_chargeMinor p - pr_creditMinor p
    \<and> (old \<le> new \<longrightarrow> 0 \<le> pr_netMinor p) \<and> (new \<le> old \<longrightarrow> pr_netMinor p \<le> 0)"
proof -
  note f = fraction_bounds [of ps pe now]
  note bounds = share_bounds [OF f assms(1,2)] share_bounds [OF f assms(3,4)]
  note mono = share_mono [OF f(1), of old new] share_mono [OF f(1), of new old]
  from bounds mono show ?thesis by (simp add: Let_def proration_parts)
qed

lemma calculateProration_bounds_witness:
  "0 \<le> pr_netMinor (calculateProration 0 2592000000 864000000 900 1500)"
  using calculateProration_bounds [of 900 1500 0 2592000000 864000000] by (simp add: Let_def)

text \<open>
  A change made no later than the first instant of a period of at least a day credits the whole
  old amount and charges the whole new one; a change made at or after its end moves nothing.
\<close>

theorem calculateProration_ends:
  assumes "0 \<le> old" "old < 2 ^ 53" "0 \<le> new" "new < 2 ^ 53"
  shows "(now \<le> ps \<and> ps + ms_per_day \<le> pe \<longrightarrow>
       pr_creditMinor (calculateProration ps pe now old new) = old
       \<and> pr_chargeMinor (calculateProration ps pe now old new) = new)
    \<and> (pe \<le> now \<longrightarrow>
       pr_creditMinor (calculateProration ps pe now old new) = 0
       \<and> pr_chargeMinor (calculateProration ps pe now old new) = 0
       \<and> pr_netMinor (calculateProration ps pe now old new) = 0)"
  using assms by (simp add: proration_parts fraction_start fraction_end share_full)

lemma calculateProration_ends_witness:
  "pr_creditMinor (calculateProration 0 2592000000 0 900 1500) = 900
   \<and> pr_netMinor (calculateProration 0 2592000000 2592000000 900 1500) = 0"
  using calculateProration_ends [of 900 1500 0 0 2592000000]
    calculateProration_ends [of 900 1500 2592000000 0 2592000000]
  by (simp add: ms_per_day_def)

lemma diff_of_shares:
  fixes x :: rat
  assumes "\<bar>of_int c - of_int a * x\<bar> < 3 / 4" and "\<bar>of_int c' - of_int b * x\<bar> < 3 / 4" and "n = c' - c"
  shows "\<bar>of_int n - of_int (b - a) * x\<bar> < 3 / 2"
proof -
  have "of_int n - of_int (b - a) * x = (of_int c' - of_int b * x) - (of_int c - of_int a * x)"
    using assms(3) by (simp add: algebra_simps)
  then show ?thesis using assms(1,2) by linarith
qed



end
