(* ===== verification/Platform.thy ===== *)
theory Platform
  imports Prelude
begin

text \<open>
  The platform services every component calls: the audit log (audit/audit.service.ts), the event
  bus (platform-events/platform-events.service.ts) and the queue-facing half of the background-job
  framework (\<open>enqueue\<close> of background-jobs/background-jobs.service.ts). The record \<open>platform_db\<close> holds
  their tables, the clock (\<open>new Date()\<close>; one handler reads one instant) and the source of fresh
  primary keys. The component theories extend it by their own tables, and the operations here work
  on every extension.
\<close>

section \<open>Rows\<close>

text \<open>\<open>RequestMeta\<close> of common/utils/request-meta.util.ts.\<close>

record request_meta =
  meta_ipAddress :: "string option"
  meta_userAgent :: "string option"

definition no_meta :: request_meta where
  "no_meta = \<lparr>meta_ipAddress = None, meta_userAgent = None\<rparr>"

record audit_row =
  aud_action :: string
  aud_userId :: "id option"
  aud_organizationId :: "id option"
  aud_applicationId :: "id option"
  aud_metadata :: json
  aud_meta :: request_meta

datatype PlatformEventStatus = PENDING | DISPATCHED | FAILED

record platform_event =
  pev_id :: id
  pev_type :: string
  pev_payload :: json
  pev_correlationId :: "string option"
  pev_organizationId :: "id option"
  pev_applicationId :: "id option"
  pev_customerId :: "id option"
  pev_status :: PlatformEventStatus

record automation_rule =
  rule_id :: id
  rule_name :: string
  rule_description :: "string option"
  rule_triggerEventType :: string
  rule_enabled :: bool
  rule_actions :: "json list"
  rule_createdById :: id
  rule_createdAt :: time

datatype JobStatus =
  PENDING | SCHEDULED | PROCESSING | SUCCESS | RETRYING | FAILED | DEAD_LETTER | CANCELLED

datatype JobPriority = LOW | NORMAL | HIGH | CRITICAL

record job_row =
  job_id :: id
  job_type :: string
  job_payload :: json
  job_priority :: JobPriority
  job_status :: JobStatus
  job_queueName :: string
  job_runAt :: "time option"
  job_cron :: "string option"
  job_attemptCount :: nat
  job_maxAttempts :: nat
  job_nextAttemptAt :: "time option"
  job_error :: "exn option"
  job_correlationId :: "string option"
  job_sourceEventId :: "id option"
  job_createdAt :: time
  job_completedAt :: "time option"
  job_cancelledAt :: "time option"

record job_history =
  jh_jobId :: id
  jh_attemptNumber :: nat
  jh_status :: JobStatus
  jh_error :: "exn option"
  jh_durationMs :: int

record queue_control =
  qc_queueName :: string
  qc_paused :: bool
  qc_pausedAt :: "time option"
  qc_pausedById :: "id option"

text \<open>Postgres compares native enums by declaration order.\<close>

fun priority_rank :: "JobPriority \<Rightarrow> int" where
  "priority_rank LOW = 0"
| "priority_rank NORMAL = 1"
| "priority_rank HIGH = 2"
| "priority_rank CRITICAL = 3"

lemma priority_rank_inj: "priority_rank p = priority_rank q \<longleftrightarrow> p = q"
  by (cases p; cases q) simp_all

instantiation JobPriority :: linorder
begin

definition less_eq_JobPriority :: "JobPriority \<Rightarrow> JobPriority \<Rightarrow> bool" where
  "p \<le> q \<longleftrightarrow> priority_rank p \<le> priority_rank q"

definition less_JobPriority :: "JobPriority \<Rightarrow> JobPriority \<Rightarrow> bool" where
  "p < q \<longleftrightarrow> priority_rank p < priority_rank q"

instance
  by standard (auto simp: less_eq_JobPriority_def less_JobPriority_def priority_rank_inj)

end

section \<open>State\<close>

record platform_db =
  clock :: time
  nextId :: id
  audits :: "audit_row list"
  platformEvents :: "platform_event list"
  automationRules :: "automation_rule list"
  jobs :: "job_row list"
  jobHistory :: "job_history list"
  queueControls :: "queue_control list"

text \<open>A database without rows, from which the concrete examples of the development are built.\<close>

definition blank :: platform_db where
  "blank = \<lparr>clock = 0, nextId = 100, audits = [], platformEvents = [], automationRules = [], jobs = [],
     jobHistory = [], queueControls = []\<rparr>"

text \<open>\<open>new Date()\<close> and \<open>@default(uuid())\<close>.\<close>

definition now :: "('z platform_db_scheme, time) svc" where
  "now = gets clock"

definition fresh :: "('z platform_db_scheme, id) svc" where
  "fresh = bnd (gets nextId) (\<lambda>i. seq (modify (nextId_update Suc)) (ret i))"

lemma update_ids:
  "jobs_update (\<lambda>x. x) s = s" "nextId_update (\<lambda>x. x) s = s" "platformEvents_update (\<lambda>x. x) s = s"
  "audits_update (\<lambda>x. x) s = s"
  by simp_all

lemma update_order:
  "platformEvents_update f (nextId_update g s) = nextId_update g (platformEvents_update f s)"
  by simp

lemma wps_now [wp]: "wps now Q s = Q (Inr (clock s)) s"
  by (simp add: now_def wp)

lemma wps_fresh [wp]: "wps fresh Q s = Q (Inr (nextId s)) (nextId_update Suc s)"
  by (simp add: fresh_def wp)

lemma run_bnd_now [run]: "bnd now k s = k (clock s) s"
  by (simp add: now_def run)

lemma run_bnd_fresh [run]: "bnd fresh k s = k (nextId s) (nextId_update Suc s)"
  by (simp add: fresh_def run seq_step bnd_step)

section \<open>Audit log\<close>

definition audit_record :: "audit_row \<Rightarrow> ('z platform_db_scheme, unit) svc" where
  "audit_record a = modify (audits_update (\<lambda>as. as @ [a]))"

text \<open>The input objects the services pass: action, user, organisation, application, metadata, meta.\<close>

definition audit ::
  "string \<Rightarrow> id option \<Rightarrow> id option \<Rightarrow> id option \<Rightarrow> (string \<times> json) list \<Rightarrow> request_meta
   \<Rightarrow> ('z platform_db_scheme, unit) svc" where
  "audit act userId org app mdata meta = audit_record
     \<lparr>aud_action = act, aud_userId = userId, aud_organizationId = org, aud_applicationId = app,
      aud_metadata = JObj mdata, aud_meta = meta\<rparr>"

lemma wps_audit [wp]:
  "wps (audit act u org app mdata meta) Q s = Q (Inr ()) (audits_update (\<lambda>as. as @
     [\<lparr>aud_action = act, aud_userId = u, aud_organizationId = org, aud_applicationId = app,
      aud_metadata = JObj mdata, aud_meta = meta\<rparr>]) s)"
  by (simp add: audit_def audit_record_def wp)

section \<open>Enqueueing background jobs\<close>

record enqueue_options =
  opt_priority :: "JobPriority option"
  opt_queueName :: "string option"
  opt_runAt :: "time option"
  opt_cron :: "string option"
  opt_maxAttempts :: "nat option"
  opt_correlationId :: "string option"
  opt_sourceEventId :: "id option"

definition default_options :: enqueue_options where
  "default_options = \<lparr>opt_priority = None, opt_queueName = None, opt_runAt = None, opt_cron = None,
     opt_maxAttempts = None, opt_correlationId = None, opt_sourceEventId = None\<rparr>"

definition job_of :: "id \<Rightarrow> time \<Rightarrow> string \<Rightarrow> json \<Rightarrow> enqueue_options \<Rightarrow> job_row" where
  "job_of i t ty payload opts =
     \<lparr>job_id = i, job_type = ty, job_payload = payload,
      job_priority = orElse (opt_priority opts) NORMAL,
      job_status = (case opt_runAt opts of
          Some r \<Rightarrow> if t < r then JobStatus.SCHEDULED else JobStatus.PENDING
        | None \<Rightarrow> JobStatus.PENDING),
      job_queueName = orElse (opt_queueName opts) ''default'',
      job_runAt = opt_runAt opts, job_cron = opt_cron opts, job_attemptCount = 0,
      job_maxAttempts = orElse (opt_maxAttempts opts) 5, job_nextAttemptAt = None, job_error = None,
      job_correlationId = opt_correlationId opts, job_sourceEventId = opt_sourceEventId opts,
      job_createdAt = t, job_completedAt = None, job_cancelledAt = None\<rparr>"

definition enqueue ::
  "string \<Rightarrow> json \<Rightarrow> enqueue_options \<Rightarrow> ('z platform_db_scheme, job_row) svc" where
  "enqueue ty payload opts =
     bnd fresh (\<lambda>i. bnd now (\<lambda>t. insert_row jobs_update (job_of i t ty payload opts)))"

lemma wps_enqueue [wp]:
  "wps (enqueue ty payload opts) Q s =
     (let j = job_of (nextId s) (clock s) ty payload opts in
      Q (Inr j) (jobs_update (\<lambda>js. js @ [j]) (nextId_update Suc s)))"
  by (simp add: enqueue_def wp Let_def)

section \<open>Event bus\<close>

record publish_refs =
  ref_organizationId :: "id option"
  ref_applicationId :: "id option"
  ref_customerId :: "id option"

definition rule_job_options :: "id \<Rightarrow> string option \<Rightarrow> enqueue_options" where
  "rule_job_options evId corr = default_options\<lparr>opt_correlationId := corr, opt_sourceEventId := Some evId\<rparr>"

definition matching_rules :: "string \<Rightarrow> automation_rule list \<Rightarrow> automation_rule list" where
  "matching_rules ty rules = filter (\<lambda>r. rule_triggerEventType r = ty \<and> rule_enabled r) rules"

definition event_of :: "id \<Rightarrow> string \<Rightarrow> (string \<times> json) list \<Rightarrow> publish_refs \<Rightarrow> string option \<Rightarrow> platform_event" where
  "event_of i ty payload refs corr =
     \<lparr>pev_id = i, pev_type = ty, pev_payload = JObj payload, pev_correlationId = corr,
      pev_organizationId = ref_organizationId refs, pev_applicationId = ref_applicationId refs,
      pev_customerId = ref_customerId refs, pev_status = PlatformEventStatus.PENDING\<rparr>"

definition publish ::
  "string \<Rightarrow> (string \<times> json) list \<Rightarrow> publish_refs \<Rightarrow> string option
   \<Rightarrow> ('z platform_db_scheme, platform_event) svc" where
  "publish ty payload refs corr =
     bnd fresh (\<lambda>i.
     bnd (insert_row platformEvents_update (event_of i ty payload refs corr)) (\<lambda>event.
     bnd (gets (\<lambda>s. matching_rules ty (automationRules s))) (\<lambda>rules.
     if rules = [] then
       seq (update_row platformEvents platformEvents_update (\<lambda>e. pev_id e = pev_id event)
              (\<lambda>e. e\<lparr>pev_status := PlatformEventStatus.DISPATCHED\<rparr>))
           (ret event)
     else
       seq (for_each rules (\<lambda>r. seq (enqueue ''AUTOMATION_RULE_EXECUTION''
              (JObj [(''ruleId'', JId (rule_id r)), (''eventId'', JId (pev_id event))])
              (rule_job_options (pev_id event) corr)) (ret ())))
           (ret event))))"

text \<open>
  What one call leaves behind, as updates of three tables: the event, already dispatched when no
  rule listens to its type, and otherwise one job per rule.
\<close>

fun rule_jobs :: "id \<Rightarrow> time \<Rightarrow> id \<Rightarrow> string option \<Rightarrow> automation_rule list \<Rightarrow> job_row list" where
  "rule_jobs i t evId corr [] = []"
| "rule_jobs i t evId corr (r # rs) =
     job_of i t ''AUTOMATION_RULE_EXECUTION''
       (JObj [(''ruleId'', JId (rule_id r)), (''eventId'', JId evId)]) (rule_job_options evId corr)
     # rule_jobs (Suc i) t evId corr rs"

definition settle_event :: "automation_rule list \<Rightarrow> platform_event \<Rightarrow> platform_event list \<Rightarrow> platform_event list" where
  "settle_event rules ev es =
     (if rules = [] then upd_where (\<lambda>e. pev_id e = pev_id ev) (\<lambda>e. e\<lparr>pev_status := PlatformEventStatus.DISPATCHED\<rparr>) es
      else es)"

definition published ::
  "string \<Rightarrow> (string \<times> json) list \<Rightarrow> publish_refs \<Rightarrow> string option
   \<Rightarrow> 'z platform_db_scheme \<Rightarrow> 'z platform_db_scheme" where
  "published ty payload refs corr s =
     (let ev = event_of (nextId s) ty payload refs corr; rules = matching_rules ty (automationRules s) in
      jobs_update (\<lambda>js. js @ rule_jobs (Suc (nextId s)) (clock s) (pev_id ev) corr rules)
        (nextId_update (\<lambda>n. n + (1 + length rules))
          (platformEvents_update (\<lambda>es. settle_event rules ev (es @ [ev])) s)))"

lemma wps_enqueue_rules:
  "wps (for_each rs (\<lambda>r. seq (enqueue ''AUTOMATION_RULE_EXECUTION''
       (JObj [(''ruleId'', JId (rule_id r)), (''eventId'', JId evId)]) (rule_job_options evId corr)) (ret ()))) Q s
   = Q (Inr ()) (jobs_update (\<lambda>js. js @ rule_jobs (nextId s) (clock s) evId corr rs)
                  (nextId_update (\<lambda>n. n + length rs) s))"
proof (induction rs arbitrary: s)
  case (Cons r rs)
  then show ?case by (simp add: wp Let_def comp_def)
qed (simp add: wp update_ids)

lemma length_rule_jobs [simp]: "length (rule_jobs i t evId corr rs) = length rs"
  by (induction rs arbitrary: i) simp_all

lemma pev_id_event_of [simp]: "pev_id (event_of i ty payload refs corr) = i"
  by (simp add: event_of_def)

lemma wps_publish [wp]:
  "wps (publish ty payload refs corr) Q s
   = Q (Inr (event_of (nextId s) ty payload refs corr)) (published ty payload refs corr s)"
proof (cases "matching_rules ty (automationRules s) = []")
  case True
  then show ?thesis
    by (simp add: publish_def wp published_def Let_def settle_event_def find_append comp_def update_ids update_order
        split: option.split)
next
  case False
  then show ?thesis
    by (simp add: publish_def wp wps_enqueue_rules published_def Let_def settle_event_def comp_def update_order)
qed

lemma leaves_platform:
  "(\<And>f s. v (nextId_update f s) = v s) \<Longrightarrow> leaves v fresh" "leaves v now"
  "(\<And>f s. v (audits_update f s) = v s) \<Longrightarrow> leaves v (audit act u org app mdata meta)"
  "(\<And>f s. v (nextId_update f s) = v s) \<Longrightarrow> (\<And>f s. v (platformEvents_update f s) = v s) \<Longrightarrow> (\<And>f s. v (jobs_update f s) = v s)
   \<Longrightarrow> leaves v (publish ty payload refs corr)"
  unfolding fresh_def audit_def audit_record_def publish_def enqueue_def now_def
  by (intro leaves_all; simp)+

end
