(* ===== verification/Retry.thy ===== *)
theory Retry
  imports Prelude
begin

text \<open>
  The contract the three delivery engines share (background jobs, outbound webhooks, financial
  sync): a failed attempt counts, the row stays pending until the attempts reach the limit, and it
  becomes due again after an exponential backoff capped at an hour. The locale's lemmas follow from
  that contract alone; each engine interprets it on its own failure branch.
\<close>

text \<open>\<open>computeBackoff\<close> / \<open>computeNextAttemptAt\<close>: \<open>Math.min(2 ** attemptNumber, 60)\<close> minutes from now.\<close>

definition backoff_minutes :: "nat \<Rightarrow> int" where
  "backoff_minutes n = min (2 ^ n) 60"

definition retry_at :: "time \<Rightarrow> nat \<Rightarrow> time" where
  "retry_at t n = t + backoff_minutes n * 60000"

lemma backoff_bounds: "1 \<le> backoff_minutes n" "backoff_minutes n \<le> 60"
  by (simp_all add: backoff_minutes_def)

lemma backoff_Suc: "2 \<le> backoff_minutes (Suc n)"
proof -
  have "(1::int) \<le> 2 ^ n" by simp
  then show ?thesis by (simp add: backoff_minutes_def)
qed

lemma backoff_mono: "m \<le> n \<Longrightarrow> backoff_minutes m \<le> backoff_minutes n"
proof -
  assume "m \<le> n"
  then have "(2::int) ^ m \<le> 2 ^ n" by simp
  then show ?thesis by (simp add: backoff_minutes_def min_le_iff_disj)
qed

locale retry_engine =
  fixes attempts :: "'r \<Rightarrow> nat"
    and limit :: "'r \<Rightarrow> nat"
    and pending :: "'r \<Rightarrow> bool"
    and next_at :: "'r \<Rightarrow> time option"
    and failed :: "time \<times> 'e \<Rightarrow> 'r \<Rightarrow> 'r"
  assumes failed_attempts: "attempts (failed t r) = Suc (attempts r)"
    and failed_limit: "limit (failed t r) = limit r"
    and failed_pending: "pending (failed t r) \<longleftrightarrow> Suc (attempts r) < limit r"
    and failed_next: "next_at (failed t r)
      = (if Suc (attempts r) < limit r then Some (retry_at (fst t) (Suc (attempts r))) else None)"
begin

lemma attempts_fold: "attempts (fold failed ts r) = attempts r + length ts"
  by (induction ts arbitrary: r) (simp_all add: failed_attempts)

lemma limit_fold: "limit (fold failed ts r) = limit r"
  by (induction ts arbitrary: r) (simp_all add: failed_limit)

text \<open>A row whose attempts all fail is pending exactly while they stay below the limit.\<close>

lemma pending_fold:
  "ts \<noteq> [] \<Longrightarrow> pending (fold failed ts r) \<longleftrightarrow> attempts r + length ts < limit r"
proof (induction ts rule: rev_induct)
  case (snoc t ts)
  then show ?case by (simp add: failed_pending attempts_fold limit_fold)
qed simp

lemma gives_up: "limit r - attempts r \<le> length ts \<Longrightarrow> ts \<noteq> [] \<Longrightarrow> \<not> pending (fold failed ts r)"
  by (simp add: pending_fold)

lemma keeps_trying: "ts \<noteq> [] \<Longrightarrow> attempts r + length ts < limit r \<Longrightarrow> pending (fold failed ts r)"
  by (simp add: pending_fold)

text \<open>A pending row waits at least two minutes and at most an hour; a row given up never comes due.\<close>

lemma backoff_window:
  "next_at (failed t r) = Some t' \<Longrightarrow> fst t + 2 * 60000 \<le> t' \<and> t' \<le> fst t + 60 * 60000"
  using backoff_Suc [of "attempts r"] backoff_bounds(2) [of "Suc (attempts r)"]
  by (auto simp: failed_next retry_at_def split: if_splits)

lemma given_up_not_due: "\<not> pending (failed t r) \<Longrightarrow> next_at (failed t r) = None"
  by (simp add: failed_pending failed_next)

text \<open>Re-arming a row without resetting its count leaves it a single attempt.\<close>

lemma rearmed_once: "limit r \<le> attempts r \<Longrightarrow> \<not> pending (failed t r)"
  by (simp add: failed_pending)

end

end
