(* ===== verification/Schedule.thy ===== *)
theory Schedule
  imports Calendar
begin

text \<open>
  background-jobs/schedule.util.ts: the recurring-schedule vocabulary of \<open>BackgroundJob.cron\<close>. The
  regular expressions become a parser into \<open>schedule\<close>. A \<open>Date\<close> is a \<open>time option\<close>, \<open>None\<close> being Invalid Date:
  instants beyond 8.64e15 milliseconds are not representable. The result of \<open>computeNextRun\<close> is an
  exception or such a date, and \<open>Diverges\<close> where the weekly search loop never stops.
\<close>

section \<open>The specification strings\<close>

datatype schedule =
    Every nat int
  | Daily nat nat
  | Weekly nat nat nat
  | Monthly nat nat nat

definition is_digit :: "char \<Rightarrow> bool" where
  "is_digit c \<longleftrightarrow> (48::nat) \<le> of_char c \<and> (of_char c :: nat) \<le> 57"

definition digit_val :: "char \<Rightarrow> nat" where
  "digit_val c = of_char c - 48"

definition number :: "string \<Rightarrow> nat" where
  "number ds = foldl (\<lambda>n c. 10 * n + digit_val c) 0 ds"

text \<open>\<open>\d{lo,hi}\<close> over a whole field.\<close>

definition digits_field :: "nat \<Rightarrow> nat \<Rightarrow> string \<Rightarrow> bool" where
  "digits_field lo hi ds \<longleftrightarrow> list_all is_digit ds \<and> lo \<le> length ds \<and> length ds \<le> hi"

fun strip_prefix :: "string \<Rightarrow> string \<Rightarrow> string option" where
  "strip_prefix [] s = Some s"
| "strip_prefix (c # cs) [] = None"
| "strip_prefix (c # cs) (d # ds) = (if c = d then strip_prefix cs ds else None)"

text \<open>The fields between colons.\<close>

fun split_colon :: "string \<Rightarrow> string list" where
  "split_colon [] = [[]]"
| "split_colon (c # cs) =
     (if c = CHR '':'' then [] # split_colon cs
      else (case split_colon cs of [] \<Rightarrow> [[c]] | f # fs \<Rightarrow> (c # f) # fs))"

definition unit_ms :: "char \<Rightarrow> int option" where
  "unit_ms c =
     (if c = CHR ''s'' then Some 1000 else if c = CHR ''m'' then Some 60000
      else if c = CHR ''h'' then Some 3600000 else if c = CHR ''d'' then Some 86400000 else None)"

definition parse_every :: "string \<Rightarrow> schedule option" where
  "parse_every body =
     (let ds = takeWhile is_digit body; rest = dropWhile is_digit body in
      if ds = [] then None
      else (case rest of [c] \<Rightarrow> map_option (Every (number ds)) (unit_ms c) | _ \<Rightarrow> None))"

definition parse_schedule :: "string \<Rightarrow> schedule option" where
  "parse_schedule spec =
     (case strip_prefix ''every:'' spec of
        Some body \<Rightarrow> parse_every body
      | None \<Rightarrow>
     (case strip_prefix ''daily:'' spec of
        Some body \<Rightarrow>
          (case split_colon body of
             [h, m] \<Rightarrow> if digits_field 1 2 h \<and> digits_field 2 2 m then Some (Daily (number h) (number m)) else None
           | _ \<Rightarrow> None)
      | None \<Rightarrow>
     (case strip_prefix ''weekly:'' spec of
        Some body \<Rightarrow>
          (case split_colon body of
             [d, h, m] \<Rightarrow> if digits_field 1 1 d \<and> digits_field 1 2 h \<and> digits_field 2 2 m
               then Some (Weekly (number d) (number h) (number m)) else None
           | _ \<Rightarrow> None)
      | None \<Rightarrow>
     (case strip_prefix ''monthly:'' spec of
        Some body \<Rightarrow>
          (case split_colon body of
             [d, h, m] \<Rightarrow> if digits_field 1 2 d \<and> digits_field 1 2 h \<and> digits_field 2 2 m
               then Some (Monthly (number d) (number h) (number m)) else None
           | _ \<Rightarrow> None)
      | None \<Rightarrow> None))))"

section \<open>The next run\<close>

text \<open>\<open>TimeClip\<close>. The sums clipped here are exact in doubles whenever they are in range: the limit is below
  \<open>2 ^ 53\<close>, and a larger sum is out of range however it is rounded.\<close>

definition max_date :: time where "max_date = 8640000000000000"

definition time_clip :: "int \<Rightarrow> time option" where
  "time_clip t = (if \<bar>t\<bar> \<le> max_date then Some t else None)"

text \<open>\<open>next <= from\<close> is false on an Invalid Date, which is returned as it is.\<close>

definition nextAtTimeOfDay :: "time \<Rightarrow> int \<Rightarrow> int \<Rightarrow> time option" where
  "nextAtTimeOfDay from hour minute =
     (case time_clip (date_utc (get_full_year from) (get_month from) (get_date from) hour minute) of
        None \<Rightarrow> None
      | Some next \<Rightarrow> if next \<le> from then time_clip (set_date next (get_date next + 1)) else Some next)"

text \<open>\<open>while (next.getUTCDay() !== targetDay) next = new Date(next.getTime() + 86_400_000)\<close>; the weekday of
  an Invalid Date is \<open>NaN\<close>, different from every number.\<close>

definition get_utc_day :: "time option \<Rightarrow> int option" where
  "get_utc_day next = map_option (\<lambda>t. week_day (day_of t)) next"

definition plus_day :: "time option \<Rightarrow> time option" where
  "plus_day next = (case next of None \<Rightarrow> None | Some t \<Rightarrow> time_clip (t + 86400000))"

partial_function (option) seekWeekday :: "int \<Rightarrow> time option \<Rightarrow> time option option" where
  "seekWeekday targetDay next =
     (if get_utc_day next \<noteq> Some targetDay then seekWeekday targetDay (plus_day next) else Some next)"

definition monthlyNext :: "time \<Rightarrow> int \<Rightarrow> int \<Rightarrow> int \<Rightarrow> time option" where
  "monthlyNext from targetDate hour minute =
     (case time_clip (date_utc (get_full_year from) (get_month from) targetDate hour minute) of
        None \<Rightarrow> None
      | Some next \<Rightarrow>
          if next \<le> from then time_clip (date_utc (get_full_year from) (get_month from + 1) targetDate hour minute)
          else Some next)"

text \<open>\<open>None\<close>: the loop never ends; \<open>Some None\<close>: an Invalid Date.\<close>

fun runSchedule :: "schedule \<Rightarrow> time \<Rightarrow> time option option" where
  "runSchedule (Every n ms) from = Some (time_clip (from + int n * ms))"
| "runSchedule (Daily h m) from = Some (nextAtTimeOfDay from (int h) (int m))"
| "runSchedule (Weekly d h m) from = seekWeekday (int d) (nextAtTimeOfDay from (int h) (int m))"
| "runSchedule (Monthly d h m) from = Some (monthlyNext from (min (int d) 28) (int h) (int m))"

definition computeNextRun :: "string \<Rightarrow> time \<Rightarrow> exn + time option" where
  "computeNextRun spec from =
     (case parse_schedule spec of
        None \<Rightarrow> Inl (JsError (''Unrecognized recurring schedule spec: '' @ [CHR 0x22] @ spec @ [CHR 0x22]))
      | Some sch \<Rightarrow> (case runSchedule sch from of None \<Rightarrow> Inl Diverges | Some d \<Rightarrow> Inr d))"

text \<open>The Prisma client refuses an Invalid Date.\<close>

fun prisma_date :: "time option \<Rightarrow> exn + time" where
  "prisma_date None = Inl (JsError ''Provided Date object is invalid. Expected Date.'')"
| "prisma_date (Some t) = Inr t"

section \<open>Time of day\<close>

lemma date_utc_today:
  "date_utc (get_full_year t) (get_month t) (get_date t) h m
   = day_of t * ms_per_day + (h * 3600000 + m * 60000)"
  using make_day_decode [of "day_of t"]
  by (simp add: date_utc_def get_full_year_def get_month_def get_date_def make_date_def)

lemma day_split: "t = day_of t * ms_per_day + time_in_day t"
  using time_split [of t] by (simp add: make_date_def)

text \<open>The first instant after \<open>t\<close> at a time of day.\<close>

definition at_time_after :: "time \<Rightarrow> int \<Rightarrow> time" where
  "at_time_after t tod = (let next = day_of t * ms_per_day + tod in if next \<le> t then next + ms_per_day else next)"

lemma at_time_after_bounds:
  assumes "0 \<le> tod" "tod < ms_per_day"
  shows "t < at_time_after t tod" and "at_time_after t tod \<le> t + ms_per_day"
    and "time_in_day (at_time_after t tod) = tod"
proof -
  define D where "D = day_of t"
  have t: "D * ms_per_day \<le> t" "t < D * ms_per_day + ms_per_day"
    using day_split [of t] time_in_day_bounds [of t] by (simp_all add: D_def)
  show "t < at_time_after t tod" and "at_time_after t tod \<le> t + ms_per_day"
    using t assms by (auto simp: at_time_after_def Let_def D_def)
  have "time_in_day (D * ms_per_day + tod) = tod" and "time_in_day ((D + 1) * ms_per_day + tod) = tod"
    using time_in_day_make_date [OF assms] by (simp_all only: make_date_def)
  then show "time_in_day (at_time_after t tod) = tod"
    by (auto simp: at_time_after_def Let_def D_def algebra_simps)
qed

text \<open>Instants at the same time of day are whole days apart.\<close>

lemma same_time_apart:
  assumes "time_in_day t = time_in_day r" and "t < r"
  shows "t + ms_per_day \<le> r"
proof -
  have "day_of t < day_of r"
    by (rule ccontr) (use assms day_split [of t] day_split [of r] in \<open>simp add: ms_per_day_def\<close>)
  then have "(day_of t + 1) * ms_per_day \<le> day_of r * ms_per_day" by (simp add: ms_per_day_def)
  then show ?thesis using assms(1) day_split [of t] day_split [of r] by (simp add: distrib_right)
qed

lemma nextAt_in_range:
  assumes "0 \<le> h" "h < 24" "0 \<le> m" "m < 60" and "0 \<le> t" "t + ms_per_day \<le> max_date"
  shows "nextAtTimeOfDay t h m = Some (at_time_after t (h * 3600000 + m * 60000))"
proof -
  have tod: "0 \<le> h * 3600000 + m * 60000" "h * 3600000 + m * 60000 < ms_per_day"
    using assms by (simp_all add: ms_per_day_def)
  have "0 \<le> day_of t" using assms(5) by (simp add: day_of_def ms_per_day_def)
  moreover have "day_of t * ms_per_day \<le> t"
    using day_split [of t] time_in_day_bounds [of t] by simp
  ultimately show ?thesis
    using tod assms(6) by (auto simp: nextAtTimeOfDay_def at_time_after_def Let_def date_utc_today set_date_get_date time_clip_def
        ms_per_day_def)
qed

section \<open>The weekly search\<close>

lemma week_day_bounds: "0 \<le> week_day d" "week_day d \<le> 6"
  by (simp_all add: week_day_def)

lemma day_of_plus_day: "day_of (t + 86400000 * k) = day_of t + k"
  by (simp add: day_of_def ms_per_day_def)

lemma week_day_step: "week_day (day_of (t + 86400000)) = (week_day (day_of t) + 1) mod 7"
  using day_of_plus_day [of t 1] mod_add_left_eq [of "day_of t + 4" 7 1]
  by (simp add: week_day_def add.commute add.left_commute)

lemma seekWeekday_hit: "week_day (day_of t) = d \<Longrightarrow> seekWeekday d (Some t) = Some (Some t)"
  by (subst seekWeekday.simps) (simp add: get_utc_day_def)

lemma seekWeekday_miss:
  "week_day (day_of t) \<noteq> d \<Longrightarrow> 0 \<le> t \<Longrightarrow> t + 86400000 \<le> max_date \<Longrightarrow>
   seekWeekday d (Some t) = seekWeekday d (Some (t + 86400000))"
  by (subst seekWeekday.simps) (simp add: get_utc_day_def plus_day_def time_clip_def)

text \<open>Days until the weekday \<open>d\<close>; the loop runs that often.\<close>

definition days_until :: "int \<Rightarrow> time \<Rightarrow> nat" where
  "days_until d t = nat ((d - week_day (day_of t)) mod 7)"

lemma days_until_step:
  assumes "0 \<le> d" "d \<le> 6" "week_day (day_of t) \<noteq> d"
  shows "days_until d t = Suc (days_until d (t + 86400000))"
proof -
  define w where "w = week_day (day_of t)"
  have w: "0 \<le> w" "w \<le> 6" using week_day_bounds by (simp_all add: w_def)
  have "(d - w) mod 7 = (d - (w + 1) mod 7) mod 7 + 1"
  proof -
    from w have "w = 0 \<or> w = 1 \<or> w = 2 \<or> w = 3 \<or> w = 4 \<or> w = 5 \<or> w = 6" by arith
    moreover from assms have "d = 0 \<or> d = 1 \<or> d = 2 \<or> d = 3 \<or> d = 4 \<or> d = 5 \<or> d = 6" by arith
    ultimately show ?thesis using assms(3) by (elim disjE) (simp_all add: w_def)
  qed
  then show ?thesis by (simp add: days_until_def week_day_step w_def)
qed

lemma seekWeekday_finds:
  "0 \<le> d \<Longrightarrow> d \<le> 6 \<Longrightarrow> 0 \<le> t \<Longrightarrow> t + 86400000 * int (days_until d t) \<le> max_date \<Longrightarrow>
   seekWeekday d (Some t) = Some (Some (t + 86400000 * int (days_until d t)))"
proof (induction "days_until d t" arbitrary: t)
  case 0
  have "week_day (day_of t) = d"
  proof (rule ccontr)
    assume "week_day (day_of t) \<noteq> d"
    from days_until_step [OF 0(2,3) this] 0(1) show False by simp
  qed
  with 0 show ?case by (simp add: seekWeekday_hit)
next
  case (Suc n)
  have miss: "week_day (day_of t) \<noteq> d"
  proof
    assume "week_day (day_of t) = d"
    with Suc(2) show False by (simp add: days_until_def)
  qed
  from days_until_step [OF Suc(3,4) miss] Suc(2) have n: "n = days_until d (t + 86400000)" by simp
  have "t + 86400000 + 86400000 * int (days_until d (t + 86400000)) \<le> max_date" "t + 86400000 \<le> max_date"
    using Suc.prems Suc(2) n by simp_all
  with Suc.hyps(1) [OF n] Suc.prems miss n Suc(2) show ?case
    by (simp add: seekWeekday_miss algebra_simps)
qed

lemma days_until_le: "days_until d t \<le> 6"
  using pos_mod_bound [of 7 "d - week_day (day_of t)"] by (simp add: days_until_def)

lemma seekWeekday_weekday:
  assumes "0 \<le> d" "d \<le> 6"
  shows "week_day (day_of (t + 86400000 * int (days_until d t))) = d"
proof -
  have n: "int (days_until d t) = (d - week_day (day_of t)) mod 7" by (simp add: days_until_def)
  have "week_day (day_of (t + 86400000 * int (days_until d t)))
      = week_day (day_of t + (d - week_day (day_of t)) mod 7)"
    by (simp only: day_of_plus_day n)
  also have "\<dots> = (week_day (day_of t) + (d - week_day (day_of t)) mod 7) mod 7"
    using mod_add_left_eq [of "day_of t + 4" 7 "(d - week_day (day_of t)) mod 7"]
    by (simp only: week_day_def ac_simps)
  also have "\<dots> = d mod 7" by (simp add: mod_add_right_eq)
  finally show ?thesis using assms by simp
qed

text \<open>A target beyond Saturday is never met: the loop does not return.\<close>

lemma seekWeekday_result:
  "seekWeekday d t = Some r \<Longrightarrow> get_utc_day r = Some d"
proof (rule seekWeekday.raw_induct [where P = "\<lambda>d t r. get_utc_day r = Some d"])
  fix f d t r
  assume IH: "\<And>d t r. f d t = Some r \<Longrightarrow> get_utc_day r = Some d"
    and eq: "(if get_utc_day t \<noteq> Some d then f d (plus_day t) else Some t) = Some r"
  then show "get_utc_day r = Some d" by (auto split: if_splits)
qed

lemma seekWeekday_diverges: "7 \<le> d \<Longrightarrow> seekWeekday d t = None"
proof (rule ccontr)
  assume d: "7 \<le> d" and "seekWeekday d t \<noteq> None"
  then obtain r where "get_utc_day r = Some d" using seekWeekday_result [of d t] by auto
  then obtain z where "d = week_day z" by (auto simp: get_utc_day_def)
  then show False using d week_day_bounds(2) [of z] by simp
qed

section \<open>Monthly schedules\<close>

lemma day_in_month_span:
  assumes "0 \<le> m" "m \<le> 11" "1 \<le> dt" "days_before_month lp m + dt - 1 < days_before_month lp (m + 1)"
  shows "month_in_year lp (days_before_month lp m + dt - 1) = m
    \<and> 0 \<le> days_before_month lp m + dt - 1 \<and> days_before_month lp m + dt - 1 < (if lp then 366 else 365)"
proof -
  from assms(1,2) have "m = 0 \<or> m = 1 \<or> m = 2 \<or> m = 3 \<or> m = 4 \<or> m = 5 \<or> m = 6 \<or> m = 7 \<or> m = 8
      \<or> m = 9 \<or> m = 10 \<or> m = 11" by arith
  then show ?thesis using assms(3,4)
    by (cases lp; elim disjE) (simp_all add: month_in_year_def days_before_month_def)
qed

lemma make_day_next_month:
  assumes "0 \<le> m" "m \<le> 11"
  shows "make_day y (m + 1) dt = day_from_year y + days_before_month (leap y) (m + 1) + dt - 1"
proof (cases "m = 11")
  case True
  then show ?thesis by (simp add: make_day_def day_from_year_Suc days_before_month_def days_in_year_def)
next
  case False
  with assms have "(m + 1) div 12 = 0" "(m + 1) mod 12 = m + 1" by simp_all
  then show ?thesis by (simp add: make_day_def)
qed

lemma make_day_this_month:
  assumes "0 \<le> m" "m \<le> 11"
  shows "make_day y m dt = day_from_year y + days_before_month (leap y) m + dt - 1"
  using assms by (simp add: make_day_def)

text \<open>A date that the month has is read back from the day it makes.\<close>

lemma date_in_month:
  assumes "0 \<le> m" "m \<le> 11" "1 \<le> dt" "make_day y m dt < make_day y (m + 1) 1"
  shows "date_from_day (make_day y m dt) = dt"
proof -
  define k where "k = days_before_month (leap y) m + dt - 1"
  have d: "make_day y m dt = day_from_year y + k"
    by (simp add: make_day_this_month [OF assms(1,2)] k_def)
  have k: "month_in_year (leap y) k = m" "0 \<le> k" "k < days_in_year y"
    using day_in_month_span [OF assms(1-3), of "leap y"] assms(4)
    by (simp_all add: make_day_this_month make_day_next_month assms(1,2) k_def days_in_year_def)
  have "year_from_day (make_day y m dt) = y"
    by (rule year_from_day_unique) (use k in \<open>simp_all add: d day_from_year_Suc\<close>)
  then show ?thesis using k(1) by (simp add: date_from_day_def month_from_day_def day_in_year_def d k_def)
qed

lemma make_day_carry: "make_day y m dt = make_day (y + m div 12) (m mod 12) dt"
  by (simp add: make_day_def)

lemma month_has_28:
  assumes "0 \<le> m" "m \<le> 11"
  shows "make_day y m 28 < make_day y (m + 1) 1"
proof -
  from assms have "m = 0 \<or> m = 1 \<or> m = 2 \<or> m = 3 \<or> m = 4 \<or> m = 5 \<or> m = 6 \<or> m = 7 \<or> m = 8
      \<or> m = 9 \<or> m = 10 \<or> m = 11" by arith
  then show ?thesis unfolding make_day_next_month [OF assms] make_day_this_month [OF assms]
    by (elim disjE) (simp_all add: days_before_month_def)
qed

lemma date_from_make_day:
  assumes "1 \<le> dt" "dt \<le> 28"
  shows "date_from_day (make_day y m dt) = dt"
proof -
  have m: "0 \<le> m mod 12" "m mod 12 \<le> 11" by simp_all
  have "make_day (y + m div 12) (m mod 12) dt < make_day (y + m div 12) (m mod 12 + 1) 1"
    using month_has_28 [OF m, of "y + m div 12"] assms(2) make_day_this_month [OF m, of "y + m div 12"] by simp
  with date_in_month [OF m assms(1)] show ?thesis by (simp add: make_day_carry [of y m])
qed

lemma days_before_month_le:
  assumes "0 \<le> m" and "m \<le> 10"
  shows "days_before_month lp (m + 1) \<le> days_before_month lp m + 31"
proof -
  from assms have "m = 0 \<or> m = 1 \<or> m = 2 \<or> m = 3 \<or> m = 4 \<or> m = 5 \<or> m = 6 \<or> m = 7 \<or> m = 8 \<or> m = 9 \<or> m = 10"
    by arith
  then show ?thesis by (elim disjE) (simp_all add: days_before_month_def)
qed

lemma make_day_month_le:
  assumes "0 \<le> m" "m \<le> 11"
  shows "make_day y (m + 1) dt \<le> make_day y m dt + 31"
  using assms days_before_month_le [of m "leap y"]
  unfolding make_day_next_month [OF assms] make_day_this_month [OF assms]
  by (cases "m = 11") (auto simp: days_before_month_def)

text \<open>The first of next month lies after today.\<close>

lemma next_month_later:
  assumes "1 \<le> dt"
  shows "day_of t < make_day (get_full_year t) (get_month t + 1) dt"
proof -
  define y m k where "y = get_full_year t" and "m = get_month t" and "k = day_in_year (day_of t)"
  have m: "0 \<le> m" "m \<le> 11" using month_bounds by (simp_all add: m_def get_month_def)
  have y: "year_from_day (day_of t) = y" by (simp add: y_def get_full_year_def)
  have k: "k < (if leap y then 366 else 365)"
    using day_in_year_bounds(2) [of "day_of t"] by (simp add: k_def y days_in_year_def)
  have mk: "m = month_in_year (leap y) k" by (simp add: m_def get_month_def month_from_day_def y k_def)
  have "k < days_before_month (leap y) (m + 1)"
    unfolding mk using k by (auto simp: month_in_year_def days_before_month_def split: if_splits)
  moreover have "day_of t = day_from_year y + k" by (simp add: k_def day_in_year_def y)
  ultimately have "day_of t < make_day y (m + 1) dt"
    unfolding make_day_next_month [OF m] using assms by simp
  then show ?thesis by (simp add: y_def m_def)
qed

text \<open>The month of an instant holds its day.\<close>

lemma month_span:
  "make_day (get_full_year t) (get_month t) 1 \<le> day_of t"
  "make_day (get_full_year t) (get_month t) 31 + 1 \<ge> make_day (get_full_year t) (get_month t + 1) 1"
proof -
  have m: "0 \<le> get_month t" "get_month t \<le> 11" using month_bounds by (simp_all add: get_month_def)
  have "make_day (get_full_year t) (get_month t) (get_date t) = day_of t"
    by (simp add: get_full_year_def get_month_def get_date_def make_day_decode)
  moreover have "1 \<le> get_date t" using date_bounds by (simp add: get_date_def)
  ultimately show "make_day (get_full_year t) (get_month t) 1 \<le> day_of t"
    using make_day_date [of "get_full_year t" "get_month t" 1 "get_date t - 1"] by simp
  show "make_day (get_full_year t) (get_month t) 31 + 1 \<ge> make_day (get_full_year t) (get_month t + 1) 1"
    using make_day_month_le [OF m, of "get_full_year t" 1] make_day_date [of "get_full_year t" "get_month t" 1 30] by simp
qed

text \<open>The first instant after \<open>t\<close> at a date of the month and a time of day.\<close>

definition at_date_after :: "time \<Rightarrow> int \<Rightarrow> int \<Rightarrow> time" where
  "at_date_after t dt tod =
     (let next = make_date (make_day (get_full_year t) (get_month t) dt) tod in
      if next \<le> t then make_date (make_day (get_full_year t) (get_month t + 1) dt) tod else next)"

lemma at_date_after_bounds:
  assumes "1 \<le> dt" "dt \<le> 28" and tod: "0 \<le> tod" "tod < ms_per_day"
  shows "t < at_date_after t dt tod" and "at_date_after t dt tod \<le> t + 31 * ms_per_day"
    and "get_date (at_date_after t dt tod) = dt" and "time_in_day (at_date_after t dt tod) = tod"
proof -
  define y m where "y = get_full_year t" and "m = get_month t"
  have m: "0 \<le> m" "m \<le> 11" using month_bounds by (simp_all add: m_def get_month_def)
  have t: "day_of t * ms_per_day \<le> t" "t < day_of t * ms_per_day + ms_per_day"
    using day_split [of t] time_in_day_bounds [of t] by simp_all
  have near: "make_day y m dt \<le> day_of t + 27"
    using month_span(1) [of t] assms(2) make_day_date [of y m 1 "dt - 1"] by (simp add: y_def m_def)
  have far: "day_of t + 1 \<le> make_day y (m + 1) dt" "make_day y (m + 1) dt \<le> make_day y m dt + 31"
    using next_month_later [OF assms(1), of t] make_day_month_le [OF m] by (simp_all add: y_def m_def)
  show "t < at_date_after t dt tod" and "at_date_after t dt tod \<le> t + 31 * ms_per_day"
    using near far tod t by (auto simp: at_date_after_def Let_def make_date_def ms_per_day_def y_def [symmetric] m_def [symmetric])
  show "get_date (at_date_after t dt tod) = dt" and "time_in_day (at_date_after t dt tod) = tod"
    using date_from_make_day [OF assms(1,2)] tod
    by (auto simp: at_date_after_def Let_def get_date_def day_of_make_date time_in_day_make_date)
qed

lemma at_date_after_least:
  assumes "1 \<le> dt" "dt \<le> 28" and tod: "0 \<le> tod" "tod < ms_per_day"
    and "get_date x = dt" "time_in_day x = tod" "t < x"
  shows "at_date_after t dt tod \<le> x"
proof (rule ccontr)
  define y m where "y = get_full_year t" and "m = get_month t"
  have m: "0 \<le> m" "m \<le> 11" using month_bounds by (simp_all add: m_def get_month_def)
  assume "\<not> at_date_after t dt tod \<le> x"
  then have before: "x < at_date_after t dt tod" by simp
  have x: "x = make_date (day_of x) tod" using time_split [of x] assms(6) by simp
  have mono: "make_date a tod < make_date b tod \<longleftrightarrow> a < b" for a b by (auto simp: make_date_def ms_per_day_def)
  have today: "day_of t \<le> day_of x" using assms(7) by (simp add: day_of_def zdiv_mono1 ms_per_day_def)
  have first: "make_day y m 1 \<le> day_of x" using month_span(1) [of t] today by (simp add: y_def m_def)
  have dx: "date_from_day (day_of x) = dt" using assms(5) by (simp add: get_date_def)
  have day: "make_day y n 1 + (dt' - 1) = make_day y n dt'" for n dt'
    using make_day_date [of y n 1 "dt' - 1"] by simp
  have in_this: "day_of x = make_day y m dt" if "day_of x < make_day y (m + 1) 1"
  proof -
    define j where "j = day_of x - make_day y m 1 + 1"
    have j: "day_of x = make_day y m j" "1 \<le> j" using day [of m j] first by (simp_all add: j_def)
    then have "date_from_day (day_of x) = j" using date_in_month [OF m, of j y] that by simp
    with j dx show ?thesis by simp
  qed
  have in_next: False if "make_day y (m + 1) 1 \<le> day_of x" "day_of x < make_day y (m + 1) dt"
  proof -
    define j where "j = day_of x - make_day y (m + 1) 1 + 1"
    have j: "day_of x = make_day y (m + 1) j" "1 \<le> j" "j < dt"
      using day [of "m + 1" j] day [of "m + 1" dt] that by (simp_all add: j_def)
    then have "date_from_day (day_of x) = j" using date_from_make_day [of j y "m + 1"] assms(2) by simp
    with j dx show False by simp
  qed
  show False
  proof (cases "make_date (make_day y m dt) tod \<le> t")
    case True
    then have "make_date (make_day y m dt) tod < x" using assms(7) by simp
    then have later: "make_day y m dt < day_of x" using x mono by metis
    have "day_of x < make_day y (m + 1) dt"
      using before x mono True by (metis at_date_after_def y_def m_def)
    with later in_this in_next show False by force
  next
    case False
    then have lt: "day_of x < make_day y m dt"
      using before x mono by (metis at_date_after_def y_def m_def)
    have "make_day y m dt < make_day y (m + 1) 1"
      using month_has_28 [OF m, of y] day [of m dt] day [of m 28] assms(2) by simp
    with lt in_this show False by simp
  qed
qed

lemma monthlyNext_in_range:
  assumes "1 \<le> dt" "dt \<le> 28" "0 \<le> h" "h < 24" "0 \<le> mi" "mi < 60"
    and "0 \<le> t" "t + 31 * ms_per_day \<le> max_date"
  shows "monthlyNext t dt h mi = Some (at_date_after t dt (h * 3600000 + mi * 60000))"
proof -
  define tod where "tod = h * 3600000 + mi * 60000"
  have tod: "0 \<le> tod" "tod < ms_per_day" using assms by (simp_all add: tod_def ms_per_day_def)
  define y m where "y = get_full_year t" and "m = get_month t"
  have "get_date t \<le> 31" using date_bounds by (simp add: get_date_def)
  moreover have "make_day y m (get_date t) = day_of t"
    by (simp add: y_def m_def get_full_year_def get_month_def get_date_def make_day_decode)
  ultimately have low: "day_of t - 30 \<le> make_day y m dt"
    using assms(1) make_day_date [of y m "get_date t" "dt - get_date t"] by simp
  have "0 \<le> day_of t" using assms(7) by (simp add: day_of_def ms_per_day_def)
  with low have "- max_date \<le> make_date (make_day y m dt) tod"
    using tod by (simp add: make_date_def ms_per_day_def max_date_def)
  moreover have "t < at_date_after t dt tod" "at_date_after t dt tod \<le> max_date"
    using at_date_after_bounds(1,2) [OF assms(1,2) tod, of t] assms(8) by simp_all
  moreover have "t \<le> max_date" using assms(8) by (simp add: ms_per_day_def)
  ultimately show ?thesis
    using assms(7)
    by (auto simp: monthlyNext_def at_date_after_def Let_def date_utc_def time_clip_def y_def m_def tod_def [symmetric] split: if_splits)
qed
section \<open>Properties\<close>

text \<open>A well-formed schedule, as the vocabulary documents it.\<close>

fun valid_schedule :: "schedule \<Rightarrow> bool" where
  "valid_schedule (Every n ms) = (1 \<le> n \<and> 1000 \<le> ms)"
| "valid_schedule (Daily h m) = (h < 24 \<and> m < 60)"
| "valid_schedule (Weekly d h m) = (d \<le> 6 \<and> h < 24 \<and> m < 60)"
| "valid_schedule (Monthly d h m) = (1 \<le> d \<and> d \<le> 28 \<and> h < 24 \<and> m < 60)"

text \<open>The longest a schedule waits.\<close>

fun schedule_span :: "schedule \<Rightarrow> int" where
  "schedule_span (Every n ms) = int n * ms"
| "schedule_span (Daily h m) = ms_per_day"
| "schedule_span (Weekly d h m) = 7 * ms_per_day"
| "schedule_span (Monthly d h m) = 31 * ms_per_day"

text \<open>The instants a schedule names, counted from an instant for \<open>every\<close>.\<close>

fun on_schedule :: "schedule \<Rightarrow> time \<Rightarrow> time \<Rightarrow> bool" where
  "on_schedule (Every n ms) from x = ((x - from) mod (int n * ms) = 0)"
| "on_schedule (Daily h m) from x = (time_in_day x = int h * 3600000 + int m * 60000)"
| "on_schedule (Weekly d h m) from x =
     (week_day (day_of x) = int d \<and> time_in_day x = int h * 3600000 + int m * 60000)"
| "on_schedule (Monthly d h m) from x = (get_date x = int d \<and> time_in_day x = int h * 3600000 + int m * 60000)"

text \<open>The next run is the least of them after \<open>from\<close>.\<close>

definition is_next_run :: "schedule \<Rightarrow> time \<Rightarrow> time \<Rightarrow> bool" where
  "is_next_run sch from r \<longleftrightarrow> from < r \<and> on_schedule sch from r \<and> r \<le> from + schedule_span sch
     \<and> (\<forall>x. from < x \<and> on_schedule sch from x \<longrightarrow> r \<le> x)"

lemma time_in_day_plus_days: "time_in_day (t + 86400000 * k) = time_in_day t"
  by (simp add: time_in_day_def ms_per_day_def)

lemma every_next:
  assumes "1 \<le> n" "1000 \<le> ms"
  shows "is_next_run (Every n ms) from (from + int n * ms)"
proof -
  have pos: "0 < int n * ms" using assms by simp
  have "from + int n * ms \<le> x" if "from < x" "(x - from) mod (int n * ms) = 0" for x
    using zdvd_imp_le [of "int n * ms" "x - from"] that by (simp add: dvd_eq_mod_eq_0)
  with pos show ?thesis by (simp add: is_next_run_def)
qed

lemma daily_next:
  assumes "0 \<le> tod" "tod < ms_per_day" "from < x" "time_in_day x = tod"
  shows "at_time_after from tod \<le> x"
proof (rule ccontr)
  assume "\<not> at_time_after from tod \<le> x"
  then have "x + ms_per_day \<le> at_time_after from tod"
    using same_time_apart [of x "at_time_after from tod"] at_time_after_bounds(3) [OF assms(1,2)] assms(4) by simp
  with at_time_after_bounds(2) [OF assms(1,2), of "from"] assms(3) show False by simp
qed

lemma weekly_next:
  assumes tod: "0 \<le> tod" "tod < ms_per_day" and d: "0 \<le> d" "d \<le> 6"
    and x: "from < x" "week_day (day_of x) = d" "time_in_day x = tod"
  shows "at_time_after from tod + 86400000 * int (days_until d (at_time_after from tod)) \<le> x"
proof -
  define a where "a = at_time_after from tod"
  have ax: "a \<le> x" and at: "time_in_day a = tod"
    using daily_next [OF tod x(1,3)] at_time_after_bounds(3) [OF tod] by (simp_all add: a_def)
  define j where "j = day_of x - day_of a"
  have j: "x = a + 86400000 * j"
    using day_split [of x] day_split [of a] x(3) at by (simp add: j_def ms_per_day_def algebra_simps)
  with ax have j0: "0 \<le> j" by simp
  have "week_day (day_of a + j) = d" using x(2) day_of_plus_day [of a j] j by simp
  then have "(week_day (day_of a) + j) mod 7 = d"
    by (simp add: week_day_def mod_add_left_eq mod_add_right_eq ac_simps)
  then have "(d - week_day (day_of a)) mod 7 = j mod 7"
    by (metis add_diff_cancel_left' mod_diff_left_eq)
  then have "int (days_until d a) \<le> j" using j0 by (simp add: days_until_def zmod_le_nonneg_dividend)
  then show ?thesis using j by (simp add: a_def)
qed

lemma runSchedule_next:
  assumes "valid_schedule sch" and "0 \<le> from" and "from + schedule_span sch \<le> max_date"
  shows "\<exists>r. runSchedule sch from = Some (Some r) \<and> is_next_run sch from r"
proof (cases sch)
  case (Every n ms)
  with assms have "0 < int n * ms" by simp
  with Every assms every_next [of n ms "from"] show ?thesis by (simp add: time_clip_def)
next
  case (Daily h m)
  let ?tod = "int h * 3600000 + int m * 60000"
  from Daily assms(1) have tod: "0 \<le> ?tod" "?tod < ms_per_day" by (simp_all add: ms_per_day_def)
  from Daily assms have "runSchedule sch from = Some (Some (at_time_after from ?tod))"
    by (simp add: nextAt_in_range)
  with Daily at_time_after_bounds [OF tod, of "from"] daily_next [OF tod, of "from"] show ?thesis
    by (simp add: is_next_run_def)
next
  case (Weekly d h m)
  let ?tod = "int h * 3600000 + int m * 60000"
  let ?r = "at_time_after from ?tod + 86400000 * int (days_until (int d) (at_time_after from ?tod))"
  from Weekly assms(1) have tod: "0 \<le> ?tod" "?tod < ms_per_day" and d: "0 \<le> int d" "int d \<le> 6"
    by (simp_all add: ms_per_day_def)
  note a = at_time_after_bounds [OF tod, of "from"]
  have "86400000 * int (days_until (int d) (at_time_after from ?tod)) \<le> 6 * ms_per_day"
    using days_until_le [of "int d" "at_time_after from ?tod"] by (simp add: ms_per_day_def)
  with a(2) have le: "?r \<le> from + 7 * ms_per_day" by simp
  with Weekly assms have "runSchedule sch from = Some (Some ?r)"
    using a(1) by (simp add: nextAt_in_range seekWeekday_finds ms_per_day_def)
  moreover have "is_next_run sch from ?r"
    using Weekly a le weekly_next [OF tod d, of "from"] seekWeekday_weekday [OF d]
    by (simp add: is_next_run_def time_in_day_plus_days)
  ultimately show ?thesis by blast
next
  case (Monthly d h m)
  let ?tod = "int h * 3600000 + int m * 60000"
  from Monthly assms(1) have tod: "0 \<le> ?tod" "?tod < ms_per_day" and d: "1 \<le> int d" "int d \<le> 28"
    by (simp_all add: ms_per_day_def)
  from Monthly assms have "runSchedule sch from = Some (Some (at_date_after from (int d) ?tod))"
    by (simp add: monthlyNext_in_range)
  with Monthly at_date_after_bounds [OF d tod, of "from"] at_date_after_least [OF d tod] show ?thesis
    by (auto simp: is_next_run_def)
qed

lemma computeNextRun_next:
  assumes "parse_schedule spec = Some sch" and "valid_schedule sch"
    and "0 \<le> from" and "from + schedule_span sch \<le> max_date"
  shows "\<exists>r. computeNextRun spec from = Inr (Some r) \<and> is_next_run sch from r"
  using runSchedule_next [OF assms(2-4)] assms(1) by (auto simp: computeNextRun_def)

text \<open>C10. computeNextRun on a well-formed schedule (every with a positive period, daily, weekly with
  a day 0..6, monthly with a date 1..28), from an instant since 1970 that leaves room for the longest
  wait of the schedule before the end of JavaScript's dates, always returns, and what it returns is the least
  instant strictly later than \<open>from\<close> that the schedule names (a whole number of periods after \<open>from\<close>; the time of day; the
  weekday and the time of day; the date and the time of day), across month and year boundaries and leap
  years.\<close>
theorem computeNextRun_correct:
  assumes "parse_schedule spec = Some sch" and "valid_schedule sch"
    and "0 \<le> from" and "from + schedule_span sch \<le> max_date"
  shows "\<exists>r. computeNextRun spec from = Inr (Some r) \<and> from < r \<and> on_schedule sch from r
    \<and> r \<le> from + schedule_span sch \<and> (\<forall>x. from < x \<and> on_schedule sch from x \<longrightarrow> r \<le> x)"
  using computeNextRun_next [OF assms] by (simp add: is_next_run_def)

theorem computeNextRun_correct_witness:
  "\<exists>r. computeNextRun ''monthly:28:06:30'' 1709164800000 = Inr (Some r) \<and> 1709164800000 < r
     \<and> on_schedule (Monthly 28 6 30) 1709164800000 r
     \<and> r \<le> 1709164800000 + schedule_span (Monthly 28 6 30)
     \<and> (\<forall>x. 1709164800000 < x \<and> on_schedule (Monthly 28 6 30) 1709164800000 x \<longrightarrow> r \<le> x)"
  by (rule computeNextRun_correct)
     (simp_all add: parse_schedule_def number_def digit_val_def is_digit_def digits_field_def ms_per_day_def max_date_def)

text \<open>Beyond the end of JavaScript's dates \<open>every\<close> makes an Invalid Date, which the database client then refuses.\<close>
theorem computeNextRun_every_invalid:
  assumes "parse_schedule spec = Some (Every n ms)" and "max_date < from + int n * ms"
  shows "computeNextRun spec from = Inr None"
  using assms by (simp add: computeNextRun_def time_clip_def)

theorem computeNextRun_every_invalid_witness: "computeNextRun ''every:99999999999d'' 0 = Inr None"
  by (rule computeNextRun_every_invalid [where n = 99999999999 and ms = 86400000])
     (simp_all add: parse_schedule_def parse_every_def unit_ms_def number_def digit_val_def is_digit_def max_date_def)

text \<open>The parser accepts a one-digit weekday above Saturday, and then the search for that weekday
  never ends: computeNextRun does not return, whatever the instant it starts from.\<close>
theorem computeNextRun_weekly_stuck:
  assumes "parse_schedule spec = Some (Weekly d h m)" and "7 \<le> d"
  shows "computeNextRun spec from = Inl Diverges"
  using assms by (simp add: computeNextRun_def seekWeekday_diverges)

theorem computeNextRun_weekly_stuck_witness:
  "computeNextRun ''weekly:7:09:00'' 0 = Inl Diverges"
  by (rule computeNextRun_weekly_stuck [where d = 7 and h = 9 and m = 0])
     (simp_all add: parse_schedule_def number_def digit_val_def is_digit_def digits_field_def)

end
