(* ===== verification/Jobs.thy ===== *)
theory Jobs
  imports Platform Retry Schedule "HOL-Library.Product_Lexorder"
begin

text \<open>
  The background-job framework of src/apps/api/src/background-jobs: the administrative operations of
  BackgroundJobsService, the processor registry, and JobWorkerService with its sweep and its
  attempt. A processor is any service over the database, a parameter of the worker, since the other
  modules register theirs at start-up.
\<close>

section \<open>BackgroundJobsService\<close>

definition cancellable_statuses :: "JobStatus list" where
  "cancellable_statuses = [JobStatus.PENDING, JobStatus.SCHEDULED, JobStatus.RETRYING]"

definition retryable_statuses :: "JobStatus list" where
  "retryable_statuses = [JobStatus.FAILED, JobStatus.DEAD_LETTER]"

fun job_status_str :: "JobStatus \<Rightarrow> string" where
  "job_status_str JobStatus.PENDING = ''PENDING''"
| "job_status_str JobStatus.SCHEDULED = ''SCHEDULED''"
| "job_status_str JobStatus.PROCESSING = ''PROCESSING''"
| "job_status_str JobStatus.SUCCESS = ''SUCCESS''"
| "job_status_str JobStatus.RETRYING = ''RETRYING''"
| "job_status_str JobStatus.FAILED = ''FAILED''"
| "job_status_str JobStatus.DEAD_LETTER = ''DEAD_LETTER''"
| "job_status_str JobStatus.CANCELLED = ''CANCELLED''"

text \<open>A filter field that is \<open>undefined\<close> does not constrain the column.\<close>

fun matches :: "'a option \<Rightarrow> 'a \<Rightarrow> bool" where
  "matches None x = True"
| "matches (Some y) x = (x = y)"

definition job_list ::
  "string option \<Rightarrow> JobStatus option \<Rightarrow> string option \<Rightarrow> nat option
   \<Rightarrow> ('z platform_db_scheme, job_row list) svc" where
  "job_list queueName status ty tk = gets (\<lambda>s.
     take (orElse tk 50) (order_by (\<lambda>j. - job_createdAt j)
       (filter (\<lambda>j. matches queueName (job_queueName j) \<and> matches status (job_status j) \<and> matches ty (job_type j))
         (jobs s))))"

definition job_getOne :: "id \<Rightarrow> ('z platform_db_scheme, job_row \<times> job_history list) svc" where
  "job_getOne jobId =
     bnd (find_row jobs (\<lambda>j. job_id j = jobId)) (\<lambda>r.
       case r of None \<Rightarrow> throw (NotFoundException ''Job not found'')
       | Some job \<Rightarrow> gets (\<lambda>s. (job, order_by (\<lambda>h. int (jh_attemptNumber h))
            (filter (\<lambda>h. jh_jobId h = jobId) (jobHistory s)))))"

definition job_cancel :: "id \<Rightarrow> id \<Rightarrow> request_meta \<Rightarrow> ('z platform_db_scheme, job_row) svc" where
  "job_cancel jobId userId meta =
     bnd (find_row jobs (\<lambda>j. job_id j = jobId)) (\<lambda>r.
       case r of None \<Rightarrow> throw (NotFoundException ''Job not found'')
       | Some job \<Rightarrow>
         seq (guard_or (job_status job \<in> set cancellable_statuses) (BadRequestException
               (''Only pending/scheduled/retrying jobs can be cancelled (current: ''
                @ job_status_str (job_status job) @ '')'')))
         (bnd now (\<lambda>t.
          bnd (update_row jobs jobs_update (\<lambda>j. job_id j = jobId)
                (\<lambda>j. j\<lparr>job_status := JobStatus.CANCELLED, job_cancelledAt := Some t\<rparr>)) (\<lambda>updated.
          seq (audit ''BACKGROUND_JOB_CANCELLED'' (Some userId) None None
                [(''jobId'', JId jobId), (''type'', JStr (job_type job))] meta)
          (ret updated)))))"

definition job_retry :: "id \<Rightarrow> id \<Rightarrow> request_meta \<Rightarrow> ('z platform_db_scheme, job_row) svc" where
  "job_retry jobId userId meta =
     bnd (find_row jobs (\<lambda>j. job_id j = jobId)) (\<lambda>r.
       case r of None \<Rightarrow> throw (NotFoundException ''Job not found'')
       | Some job \<Rightarrow>
         seq (guard_or (job_status job \<in> set retryable_statuses) (BadRequestException
               (''Only failed/dead-lettered jobs can be retried (current: ''
                @ job_status_str (job_status job) @ '')'')))
         (bnd now (\<lambda>t.
          bnd (update_row jobs jobs_update (\<lambda>j. job_id j = jobId)
                (\<lambda>j. j\<lparr>job_status := JobStatus.PENDING, job_nextAttemptAt := Some t, job_error := None\<rparr>)) (\<lambda>updated.
          seq (audit ''BACKGROUND_JOB_RETRIED'' (Some userId) None None
                [(''jobId'', JId jobId), (''type'', JStr (job_type job))] meta)
          (ret updated)))))"

text \<open>\<open>new Set\<close>: the elements in the order of their first occurrence.\<close>

definition js_set :: "'a list \<Rightarrow> 'a list" where
  "js_set xs = rev (remdups (rev xs))"

text \<open>\<open>groupBy status\<close> has no group for a status without rows.\<close>

definition status_counts :: "string \<Rightarrow> job_row list \<Rightarrow> JobStatus \<Rightarrow> nat option" where
  "status_counts q js st =
     (let n = count_where (\<lambda>j. job_queueName j = q \<and> job_status j = st) js in if n = 0 then None else Some n)"

definition listQueues :: "('z platform_db_scheme, (string \<times> bool \<times> (JobStatus \<Rightarrow> nat option)) list) svc" where
  "listQueues = gets (\<lambda>s.
     let controls = queueControls s;
         allNames = js_set (map job_queueName (jobs s) @ map qc_queueName controls @ [''default'']) in
     map (\<lambda>q. (q,
       (case List.find (\<lambda>c. qc_queueName c = q) controls of None \<Rightarrow> False | Some c \<Rightarrow> qc_paused c),
       status_counts q (jobs s))) allNames)"

definition upsert_control ::
  "string \<Rightarrow> (queue_control \<Rightarrow> queue_control) \<Rightarrow> queue_control \<Rightarrow> ('z platform_db_scheme, queue_control) svc" where
  "upsert_control q f c =
     bnd (find_row queueControls (\<lambda>c. qc_queueName c = q)) (\<lambda>r.
       case r of None \<Rightarrow> insert_row queueControls_update c
       | Some _ \<Rightarrow> update_row queueControls queueControls_update (\<lambda>c. qc_queueName c = q) f)"

definition pauseQueue :: "string \<Rightarrow> id \<Rightarrow> request_meta \<Rightarrow> ('z platform_db_scheme, queue_control) svc" where
  "pauseQueue q userId meta =
     bnd now (\<lambda>t.
     bnd (upsert_control q (\<lambda>c. c\<lparr>qc_paused := True, qc_pausedAt := Some t, qc_pausedById := Some userId\<rparr>)
            \<lparr>qc_queueName = q, qc_paused = True, qc_pausedAt = Some t, qc_pausedById = Some userId\<rparr>) (\<lambda>control.
     seq (audit ''QUEUE_PAUSED'' (Some userId) None None [(''queueName'', JStr q)] meta) (ret control)))"

definition resumeQueue :: "string \<Rightarrow> id \<Rightarrow> request_meta \<Rightarrow> ('z platform_db_scheme, queue_control) svc" where
  "resumeQueue q userId meta =
     bnd (upsert_control q (\<lambda>c. c\<lparr>qc_paused := False, qc_pausedAt := None, qc_pausedById := None\<rparr>)
            \<lparr>qc_queueName = q, qc_paused = False, qc_pausedAt = None, qc_pausedById = None\<rparr>) (\<lambda>control.
     seq (audit ''QUEUE_RESUMED'' (Some userId) None None [(''queueName'', JStr q)] meta) (ret control))"

section \<open>Processor registry\<close>

type_synonym 'z job_processor = "json \<Rightarrow> job_row \<Rightarrow> ('z platform_db_scheme, unit) svc"
type_synonym 'z job_registry = "(string \<times> 'z job_processor) list"

definition register_processor :: "string \<Rightarrow> 'z job_processor \<Rightarrow> 'z job_registry \<Rightarrow> exn + 'z job_registry" where
  "register_processor ty p reg =
     (if map_of reg ty \<noteq> None
      then Inl (JsError (''A job processor is already registered for type '' @ [CHR 0x22] @ ty @ [CHR 0x22]))
      else Inr ((ty, p) # reg))"

definition resolve_processor :: "'z job_registry \<Rightarrow> string \<Rightarrow> 'z job_processor option" where
  "resolve_processor reg ty = map_of reg ty"

section \<open>JobWorkerService\<close>

definition SWEEP_BATCH_SIZE :: nat where
  "SWEEP_BATCH_SIZE = 20"

definition job_due :: "string list \<Rightarrow> time \<Rightarrow> job_row \<Rightarrow> bool" where
  "job_due pausedNames t j \<longleftrightarrow>
     job_status j \<in> {JobStatus.PENDING, JobStatus.SCHEDULED, JobStatus.RETRYING}
     \<and> job_queueName j \<notin> set pausedNames
     \<and> (case job_runAt j of None \<Rightarrow> True | Some r \<Rightarrow> r \<le> t)
     \<and> (case job_nextAttemptAt j of None \<Rightarrow> True | Some r \<Rightarrow> r \<le> t)"

definition paused_names :: "queue_control list \<Rightarrow> string list" where
  "paused_names qs = map qc_queueName (filter qc_paused qs)"

text \<open>\<open>orderBy: [{ priority: "desc" }, { createdAt: "asc" }]\<close>.\<close>

definition urgency :: "job_row \<Rightarrow> int \<times> time" where
  "urgency j = (- priority_rank (job_priority j), job_createdAt j)"

definition due_jobs :: "'z platform_db_scheme \<Rightarrow> job_row list" where
  "due_jobs s = take SWEEP_BATCH_SIZE
     (sort_key urgency (filter (job_due (paused_names (queueControls s)) (clock s)) (jobs s)))"

definition succeeded :: "job_row \<Rightarrow> time \<Rightarrow> job_row \<Rightarrow> job_row" where
  "succeeded job t j = j\<lparr>job_status := JobStatus.SUCCESS, job_attemptCount := job_attemptCount job + 1,
     job_completedAt := Some t\<rparr>"

definition next_occurrence :: "job_row \<Rightarrow> string \<Rightarrow> id \<Rightarrow> time \<Rightarrow> time \<Rightarrow> job_row" where
  "next_occurrence job cron i nextRunAt t =
     \<lparr>job_id = i, job_type = job_type job, job_payload = job_payload job, job_priority = job_priority job,
      job_status = JobStatus.SCHEDULED, job_queueName = job_queueName job, job_runAt = Some nextRunAt,
      job_cron = Some cron, job_attemptCount = 0, job_maxAttempts = job_maxAttempts job,
      job_nextAttemptAt = None, job_error = None, job_correlationId = job_correlationId job,
      job_sourceEventId = None, job_createdAt = t, job_completedAt = None, job_cancelledAt = None\<rparr>"

definition job_succeed :: "job_row \<Rightarrow> time \<Rightarrow> ('z platform_db_scheme, unit) svc" where
  "job_succeed job startedAt =
     bnd now (\<lambda>t.
     seq (transaction
       (seq (update_row jobs jobs_update (\<lambda>j. job_id j = job_id job)
              (succeeded job t))
            (modify (jobHistory_update (\<lambda>hs. hs @ [\<lparr>jh_jobId = job_id job, jh_attemptNumber = job_attemptCount job + 1,
              jh_status = JobStatus.SUCCESS, jh_error = None, jh_durationMs = t - startedAt\<rparr>])))))
     (seq (case job_sourceEventId job of
         None \<Rightarrow> ret ()
       | Some ev \<Rightarrow> try_catch
           (seq (update_row platformEvents platformEvents_update (\<lambda>e. pev_id e = ev)
             (\<lambda>e. e\<lparr>pev_status := PlatformEventStatus.DISPATCHED\<rparr>)) (ret ())) (\<lambda>_. ret ()))
     (case job_cron job of
         None \<Rightarrow> ret ()
       | Some cron \<Rightarrow> if cron = [] then ret () else
           bnd (lift (computeNextRun cron t)) (\<lambda>d.
           bnd (lift (prisma_date d)) (\<lambda>nextRunAt.
           bnd fresh (\<lambda>i.
           modify (jobs_update (\<lambda>js. js @ [next_occurrence job cron i nextRunAt t]))))))))"

definition job_fail :: "job_row \<Rightarrow> time \<Rightarrow> exn \<Rightarrow> ('z platform_db_scheme, unit) svc" where
  "job_fail job startedAt error =
     bnd now (\<lambda>t.
     let attemptNumber = job_attemptCount job + 1;
         exhausted = job_maxAttempts job \<le> attemptNumber;
         finalStatus = (if exhausted then JobStatus.DEAD_LETTER else JobStatus.RETRYING);
         nextAttemptAt = (if exhausted then None else Some (retry_at t attemptNumber)) in
     seq (transaction
       (seq (update_row jobs jobs_update (\<lambda>j. job_id j = job_id job)
              (\<lambda>j. j\<lparr>job_status := finalStatus, job_attemptCount := attemptNumber,
                     job_nextAttemptAt := nextAttemptAt, job_error := Some error\<rparr>))
            (modify (jobHistory_update (\<lambda>hs. hs @ [\<lparr>jh_jobId = job_id job, jh_attemptNumber = attemptNumber,
              jh_status = finalStatus, jh_error = Some error, jh_durationMs = t - startedAt\<rparr>])))))
     (case job_sourceEventId job of
         None \<Rightarrow> ret ()
       | Some ev \<Rightarrow> when_do exhausted (try_catch
           (seq (update_row platformEvents platformEvents_update (\<lambda>e. pev_id e = ev)
             (\<lambda>e. e\<lparr>pev_status := PlatformEventStatus.FAILED\<rparr>)) (ret ())) (\<lambda>_. ret ()))))"

definition run_processor :: "'z job_registry \<Rightarrow> job_row \<Rightarrow> ('z platform_db_scheme, unit) svc" where
  "run_processor reg job =
     (case resolve_processor reg (job_type job) of
        None \<Rightarrow> throw (JsError (''No job processor registered for type '' @ [CHR 0x22] @ job_type job @ [CHR 0x22]))
      | Some processor \<Rightarrow> processor (job_payload job) job)"

definition attempt :: "'z job_registry \<Rightarrow> id \<Rightarrow> ('z platform_db_scheme, unit) svc" where
  "attempt reg jobId =
     bnd (find_row jobs (\<lambda>j. job_id j = jobId)) (\<lambda>r.
       case r of None \<Rightarrow> ret ()
       | Some job \<Rightarrow>
         if job_status job = JobStatus.CANCELLED then ret () else
         seq (update_row jobs jobs_update (\<lambda>j. job_id j = jobId) (\<lambda>j. j\<lparr>job_status := JobStatus.PROCESSING\<rparr>))
         (bnd now (\<lambda>startedAt.
          try_catch (seq (run_processor reg job) (job_succeed job startedAt)) (job_fail job startedAt))))"

text \<open>A sweep reads the ids of its batch once and then attempts them one after the other. \<open>processDue\<close> is
  a sweep that runs alone; \<open>setInterval\<close> starts the next one without waiting for it, so that the two
  parts of several sweeps may also be interleaved (see \<open>overlapping_sweeps_repeat\<close>).\<close>

definition sweep_read :: "('z platform_db_scheme, id list) svc" where
  "sweep_read = gets (\<lambda>s. map job_id (due_jobs s))"

definition sweep_attempts :: "'z job_registry \<Rightarrow> id list \<Rightarrow> ('z platform_db_scheme, unit) svc" where
  "sweep_attempts reg ids = for_each ids (\<lambda>i. try_catch (attempt reg i) (\<lambda>_. ret ()))"

definition processDue :: "'z job_registry \<Rightarrow> ('z platform_db_scheme, unit) svc" where
  "processDue reg = bnd sweep_read (sweep_attempts reg)"

section \<open>The retry contract\<close>

definition fail_job :: "time \<times> exn \<Rightarrow> job_row \<Rightarrow> job_row" where
  "fail_job te j = j
     \<lparr>job_status := (if job_maxAttempts j \<le> job_attemptCount j + 1 then JobStatus.DEAD_LETTER else JobStatus.RETRYING),
      job_attemptCount := job_attemptCount j + 1,
      job_nextAttemptAt := (if job_maxAttempts j \<le> job_attemptCount j + 1 then None
                            else Some (retry_at (fst te) (job_attemptCount j + 1))),
      job_error := Some (snd te)\<rparr>"

interpretation job_engine: retry_engine job_attemptCount job_maxAttempts
    "\<lambda>j. job_status j = JobStatus.RETRYING" job_nextAttemptAt fail_job
  by unfold_locales (auto simp: fail_job_def)

lemma job_id_fail_job [simp]: "job_id (fail_job te j) = job_id j"
  by (simp add: fail_job_def)

lemma fail_job_status: "job_status (fail_job te j) = JobStatus.RETRYING \<or> job_status (fail_job te j) = JobStatus.DEAD_LETTER"
  by (simp add: fail_job_def)

lemma fail_job_not_cancelled: "job_status (fail_job te j) \<noteq> JobStatus.CANCELLED"
  by (simp add: fail_job_def)

section \<open>One attempt\<close>

definition processing :: "id \<Rightarrow> 'z platform_db_scheme \<Rightarrow> 'z platform_db_scheme" where
  "processing i = jobs_update (upd_where (\<lambda>j. job_id j = i) (\<lambda>j. j\<lparr>job_status := JobStatus.PROCESSING\<rparr>))"

lemma attempt_enter:
  assumes "List.find (\<lambda>j. job_id j = i) (jobs s) = Some job" and "job_status job \<noteq> JobStatus.CANCELLED"
  shows "attempt reg i s = try_catch (seq (run_processor reg job) (job_succeed job (clock s)))
    (job_fail job (clock s)) (processing i s)"
  using assms
  by (simp add: attempt_def run run_seq_update_row now_def processing_def)

lemma find_processing:
  "List.find (\<lambda>j. job_id j = i) (jobs (processing i s))
   = map_option (\<lambda>j. j\<lparr>job_status := JobStatus.PROCESSING\<rparr>) (List.find (\<lambda>j. job_id j = i) (jobs s))"
  by (simp add: processing_def find_upd_where_same)

lemma attempt_skip:
  assumes "\<And>job. List.find (\<lambda>j. job_id j = i) (jobs s) = Some job \<Longrightarrow> job_status job = JobStatus.CANCELLED"
  shows "attempt reg i s = (Inr (), s)"
  using assms
  by (auto simp: attempt_def run split: option.split)

lemma wps_job_fail:
  assumes "List.find (\<lambda>j. job_id j = job_id job) (jobs s) = Some (job\<lparr>job_status := st\<rparr>)"
    and "\<And>s'. jobs s' = upd_where (\<lambda>j. job_id j = job_id job)
         (\<lambda>j. j\<lparr>job_status := job_status (fail_job (clock s, e) job), job_attemptCount := job_attemptCount job + 1,
           job_nextAttemptAt := job_nextAttemptAt (fail_job (clock s, e) job), job_error := Some e\<rparr>) (jobs s) \<Longrightarrow>
       jobHistory s' = jobHistory s @ [\<lparr>jh_jobId = job_id job, jh_attemptNumber = job_attemptCount job + 1,
           jh_status = job_status (fail_job (clock s, e) job), jh_error = Some e, jh_durationMs = clock s - t\<rparr>] \<Longrightarrow>
       clock s' = clock s \<Longrightarrow> queueControls s' = queueControls s \<Longrightarrow>
       Q (Inr ()) s'"
  shows "wps (job_fail job t e) Q s"
  using assms
  by (auto simp: job_fail_def wp Let_def fail_job_def split: option.splits)

lemma attempt_processor_fails:
  assumes "List.find (\<lambda>j. job_id j = i) (jobs s) = Some job" and "job_status job \<noteq> JobStatus.CANCELLED"
    and "run_processor reg job (processing i s) = (Inl e, s1)" and "e \<noteq> Diverges"
  shows "attempt reg i s = job_fail job (clock s) e s1"
  using assms by (simp add: attempt_enter try_catch_def seq_def bnd_def)

lemma attempt_processor_returns:
  assumes "List.find (\<lambda>j. job_id j = i) (jobs s) = Some job" and "job_status job \<noteq> JobStatus.CANCELLED"
    and "run_processor reg job (processing i s) = (Inr (), s1)"
  shows "attempt reg i s = try_catch (job_succeed job (clock s)) (job_fail job (clock s)) s1"
  using assms by (simp add: attempt_enter try_catch_def seq_def bnd_def)

lemma find_job_id: "List.find (\<lambda>j. job_id j = i) js = Some j \<Longrightarrow> job_id j = i"
  by (auto dest: find_SomeD)

text \<open>A failing attempt turns the row into \<open>fail_job\<close> of it and writes one history entry.\<close>

lemma attempt_failing:
  assumes row: "List.find (\<lambda>j. job_id j = i) (jobs s) = Some job" "job_status job \<noteq> JobStatus.CANCELLED"
    and proc: "run_processor reg job (processing i s) = (Inl e, s1)" "e \<noteq> Diverges"
    and keeps: "jobs s1 = jobs (processing i s)"
  shows "fst (attempt reg i s) = Inr () \<and>
    (let s2 = snd (attempt reg i s) in
     List.find (\<lambda>j. job_id j = i) (jobs s2) = Some (fail_job (clock s1, e) job)
     \<and> length (jobs s2) = length (jobs s)
     \<and> jobHistory s2 = jobHistory s1 @ [\<lparr>jh_jobId = i, jh_attemptNumber = job_attemptCount job + 1,
         jh_status = job_status (fail_job (clock s1, e) job), jh_error = Some e, jh_durationMs = clock s1 - clock s\<rparr>])"
proof -
  from row(1) have i: "job_id job = i" by (rule find_job_id)
  have f: "List.find (\<lambda>j. job_id j = job_id job) (jobs s1) = Some (job\<lparr>job_status := JobStatus.PROCESSING\<rparr>)"
    using row(1) by (simp add: keeps find_processing i)
  have len: "length (jobs s1) = length (jobs s)" by (simp add: keeps processing_def)
  have "wps (job_fail job (clock s) e) (\<lambda>r s2. r = Inr () \<and>
      List.find (\<lambda>j. job_id j = i) (jobs s2) = Some (fail_job (clock s1, e) job)
      \<and> length (jobs s2) = length (jobs s)
      \<and> jobHistory s2 = jobHistory s1 @ [\<lparr>jh_jobId = i, jh_attemptNumber = job_attemptCount job + 1,
         jh_status = job_status (fail_job (clock s1, e) job), jh_error = Some e, jh_durationMs = clock s1 - clock s\<rparr>]) s1"
    by (rule wps_job_fail [OF f])
       (use f in \<open>simp add: i len find_upd_where_same; simp add: fail_job_def\<close>)
  then show ?thesis
    unfolding attempt_processor_fails [OF row proc] by (simp add: wps_run Let_def)
qed

section \<open>Properties of the attempts\<close>

text \<open>Every attempt of a job of this type fails and leaves the jobs to the worker.\<close>

definition always_fails :: "'z job_registry \<Rightarrow> string \<Rightarrow> bool" where
  "always_fails reg ty \<longleftrightarrow> (\<forall>job s. job_type job = ty \<longrightarrow>
     (\<exists>e. fst (run_processor reg job s) = Inl e \<and> e \<noteq> Diverges) \<and> jobs (snd (run_processor reg job s)) = jobs s)"

lemma job_type_fail_job [simp]: "job_type (fail_job te j) = job_type j"
  by (simp add: fail_job_def)

lemma attempts_fold_jobs:
  assumes "always_fails reg (job_type job)"
    and "List.find (\<lambda>j. job_id j = i) (jobs s) = Some job" and "job_status job \<noteq> JobStatus.CANCELLED"
  shows "\<exists>tes. length tes = n \<and>
    List.find (\<lambda>j. job_id j = i) (jobs (((\<lambda>s. snd (attempt reg i s)) ^^ n) s)) = Some (fold fail_job tes job)
    \<and> length (jobs (((\<lambda>s. snd (attempt reg i s)) ^^ n) s)) = length (jobs s)"
proof (induction n)
  case 0
  with assms show ?case by simp
next
  case (Suc n)
  define sn where "sn = ((\<lambda>s. snd (attempt reg i s)) ^^ n) s"
  from Suc obtain tes where tes: "length tes = n"
    "List.find (\<lambda>j. job_id j = i) (jobs sn) = Some (fold fail_job tes job)" "length (jobs sn) = length (jobs s)"
    by (auto simp: sn_def)
  let ?job = "fold fail_job tes job"
  have ty: "job_type ?job = job_type job" by (induction tes rule: rev_induct) simp_all
  have nc: "job_status ?job \<noteq> JobStatus.CANCELLED"
    by (cases tes rule: rev_cases) (simp_all add: assms(3) fail_job_not_cancelled)
  from assms(1) ty obtain e where e: "fst (run_processor reg ?job (processing i sn)) = Inl e" "e \<noteq> Diverges"
    "jobs (snd (run_processor reg ?job (processing i sn))) = jobs (processing i sn)"
    unfolding always_fails_def by metis
  define s1 where "s1 = snd (run_processor reg ?job (processing i sn))"
  have "run_processor reg ?job (processing i sn) = (Inl e, s1)" using e(1) by (simp add: s1_def prod_eq_iff)
  from attempt_failing [OF tes(2) nc this e(2)] e(3) tes(3)
  have "List.find (\<lambda>j. job_id j = i) (jobs (snd (attempt reg i sn))) = Some (fold fail_job (tes @ [(clock s1, e)]) job)
      \<and> length (jobs (snd (attempt reg i sn))) = length (jobs s)"
    by (simp add: Let_def s1_def)
  with tes(1) show ?case
    by (intro exI [of _ "tes @ [(clock s1, e)]"]) (simp add: sn_def)
qed

text \<open>A job whose processor always throws: after n attempts its attempt count has grown by n, it is
  RETRYING with a next attempt exactly while that count is below
  maxAttempts, and DEAD_LETTER with no next attempt from then on. In particular a recurring job that
  is dead-lettered has added no row to the table: its chain of occurrences has ended.\<close>
theorem attempts_until_dead_letter:
  assumes "always_fails reg (job_type job)"
    and "List.find (\<lambda>j. job_id j = i) (jobs s) = Some job" and "job_status job \<noteq> JobStatus.CANCELLED"
    and "0 < n"
  shows "\<exists>j. let s' = ((\<lambda>s. snd (attempt reg i s)) ^^ n) s in
    List.find (\<lambda>j. job_id j = i) (jobs s') = Some j \<and> length (jobs s') = length (jobs s)
    \<and> job_attemptCount j = job_attemptCount job + n
    \<and> (if job_attemptCount job + n < job_maxAttempts job
       then job_status j = JobStatus.RETRYING \<and> job_nextAttemptAt j \<noteq> None
       else job_status j = JobStatus.DEAD_LETTER \<and> job_nextAttemptAt j = None)"
proof -
  from attempts_fold_jobs [OF assms(1-3), of n] obtain tes where tes: "length tes = n"
    "List.find (\<lambda>j. job_id j = i) (jobs (((\<lambda>s. snd (attempt reg i s)) ^^ n) s)) = Some (fold fail_job tes job)"
    "length (jobs (((\<lambda>s. snd (attempt reg i s)) ^^ n) s)) = length (jobs s)" by blast
  from tes(1) \<open>0 < n\<close> obtain us te where us: "tes = us @ [te]" by (cases tes rule: rev_cases) auto
  then have "tes \<noteq> []" by simp
  note pend = job_engine.pending_fold [OF this, of job]
  have last: "fold fail_job tes job = fail_job te (fold fail_job us job)" by (simp add: us)
  from pend tes(1) have st: "job_status (fold fail_job tes job) = JobStatus.RETRYING
      \<longleftrightarrow> job_attemptCount job + n < job_maxAttempts job" by simp
  have "n = Suc (length us)" using tes(1) us by simp
  with last fail_job_status [of te "fold fail_job us job"] tes st show ?thesis
    by (auto simp: Let_def job_engine.attempts_fold fail_job_def split: if_splits)
qed

definition sample_job :: job_row where
  "sample_job = job_of 7 0 ''CLEANUP'' JNull (default_options\<lparr>opt_cron := Some ''daily:03:00''\<rparr>)"

definition sample_queue :: platform_db where
  "sample_queue = blank\<lparr>jobs := [sample_job]\<rparr>"

lemmas sample_simps = sample_job_def sample_queue_def blank_def job_of_def default_options_def

theorem attempts_until_dead_letter_witness:
  "\<exists>j. let s' = ((\<lambda>s. snd (attempt [] 7 s)) ^^ 5) sample_queue in
    List.find (\<lambda>j. job_id j = 7) (jobs s') = Some j \<and> length (jobs s') = length (jobs sample_queue)
    \<and> job_attemptCount j = job_attemptCount sample_job + 5
    \<and> (if job_attemptCount sample_job + 5 < job_maxAttempts sample_job
       then job_status j = JobStatus.RETRYING \<and> job_nextAttemptAt j \<noteq> None
       else job_status j = JobStatus.DEAD_LETTER \<and> job_nextAttemptAt j = None)"
  by (rule attempts_until_dead_letter)
     (simp_all add: always_fails_def run_processor_def resolve_processor_def run sample_simps)

section \<open>Success and recurrence\<close>

definition success_entry :: "job_row \<Rightarrow> int \<Rightarrow> job_history" where
  "success_entry job d = \<lparr>jh_jobId = job_id job, jh_attemptNumber = job_attemptCount job + 1,
     jh_status = JobStatus.SUCCESS, jh_error = None, jh_durationMs = d\<rparr>"

lemma succeeded_id [simp]: "job_id (succeeded job t j) = job_id j"
  by (simp add: succeeded_def)

lemma wps_job_succeed:
  assumes row: "List.find (\<lambda>j. job_id j = job_id job) (jobs s) = Some r"
    and nxt: "job_cron job = Some cron" "cron \<noteq> []" "computeNextRun cron (clock s) = Inr (Some at)"
    and post: "\<And>s'. jobs s' = upd_where (\<lambda>j. job_id j = job_id job) (succeeded job (clock s)) (jobs s)
         @ [next_occurrence job cron (nextId s) at (clock s)] \<Longrightarrow>
       jobHistory s' = jobHistory s @ [success_entry job (clock s - t)] \<Longrightarrow> clock s' = clock s \<Longrightarrow>
       Q (Inr ()) s'"
  shows "wps (job_succeed job t) Q s"
  using row nxt
  by (simp add: job_succeed_def wp split: option.split) (auto intro!: post simp: success_entry_def)

lemma processing_succeeded:
  "upd_where (\<lambda>j. job_id j = i) (succeeded job t) (jobs (processing i s))
   = upd_where (\<lambda>j. job_id j = i) (succeeded job t) (jobs s)"
  by (simp add: processing_def upd_where_def succeeded_def)

text \<open>A successful attempt of a recurring job: the row is SUCCESS with one more attempt, the history
  gains exactly one entry, and the table gains exactly one row, the next occurrence of the same job
  (SCHEDULED, no attempts yet), due at the schedule's next run, strictly later than now.\<close>
theorem attempt_reschedules:
  assumes "List.find (\<lambda>j. job_id j = i) (jobs s) = Some job" and "job_status job \<noteq> JobStatus.CANCELLED"
    and "run_processor reg job (processing i s) = (Inr (), s1)" and "jobs s1 = jobs (processing i s)"
    and "job_cron job = Some cron" and "parse_schedule cron = Some sch" and "valid_schedule sch"
    and "0 \<le> clock s1" and "clock s1 + schedule_span sch \<le> max_date"
  shows "\<exists>at. let s' = snd (attempt reg i s) in
    fst (attempt reg i s) = Inr ()
    \<and> jobs s' = upd_where (\<lambda>j. job_id j = i) (succeeded job (clock s1)) (jobs s)
        @ [next_occurrence job cron (nextId s1) at (clock s1)]
    \<and> jobHistory s' = jobHistory s1 @ [success_entry job (clock s1 - clock s)]
    \<and> clock s' = clock s1 \<and> is_next_run sch (clock s1) at"
proof -
  from assms(1) have i: "job_id job = i" by (rule find_job_id)
  from computeNextRun_next [OF assms(6-9)] obtain at where
    at: "computeNextRun cron (clock s1) = Inr (Some at)" "is_next_run sch (clock s1) at" by blast
  have ne: "cron \<noteq> []" using assms(6) by (auto simp: parse_schedule_def)
  have row: "List.find (\<lambda>j. job_id j = job_id job) (jobs s1) = Some (job\<lparr>job_status := JobStatus.PROCESSING\<rparr>)"
    using assms(1) by (simp add: assms(4) find_processing i)
  let ?Q = "\<lambda>r s'. r = Inr () \<and> jobs s' = upd_where (\<lambda>j. job_id j = i) (succeeded job (clock s1)) (jobs s)
        @ [next_occurrence job cron (nextId s1) at (clock s1)]
    \<and> jobHistory s' = jobHistory s1 @ [success_entry job (clock s1 - clock s)] \<and> clock s' = clock s1"
  have "wps (job_succeed job (clock s)) ?Q s1"
    by (rule wps_job_succeed [OF row assms(5) ne at(1)]) (simp add: i assms(4) processing_succeeded)
  then have "wps (attempt reg i) ?Q s"
    unfolding wps_def attempt_processor_returns [OF assms(1-3)]
    by (auto simp: try_catch_def split: prod.splits)
  with at(2) show ?thesis by (auto simp: wps_run Let_def)
qed

theorem attempt_reschedules_witness:
  "\<exists>at. let s' = snd (attempt [(''CLEANUP'', \<lambda>_ _. ret ())] 7 sample_queue) in
    fst (attempt [(''CLEANUP'', \<lambda>_ _. ret ())] 7 sample_queue) = Inr ()
    \<and> jobs s' = upd_where (\<lambda>j. job_id j = 7) (succeeded sample_job (clock (processing 7 sample_queue))) (jobs sample_queue)
        @ [next_occurrence sample_job ''daily:03:00'' (nextId (processing 7 sample_queue)) at (clock (processing 7 sample_queue))]
    \<and> jobHistory s' = jobHistory (processing 7 sample_queue)
        @ [success_entry sample_job (clock (processing 7 sample_queue) - clock sample_queue)]
    \<and> clock s' = clock (processing 7 sample_queue) \<and> is_next_run (Daily 3 0) (clock (processing 7 sample_queue)) at"
  by (rule attempt_reschedules)
     (simp_all add: run_processor_def resolve_processor_def run sample_simps processing_def upd_where_def
       parse_schedule_def number_def digit_val_def is_digit_def digits_field_def ms_per_day_def max_date_def)

text \<open>Two sweeps that overlap run a job twice. When both have read their batch before the first attempt of a
  recurring job, the second attempts it again although it has succeeded in between: \<open>attempt\<close> stops only at
  CANCELLED. The job then has two next occurrences; a sweep that reads after the first attempt would not take it.\<close>

lemma attempt_again:
  assumes row: "List.find (\<lambda>j. job_id j = i) (jobs s) = Some job" and "job_status job \<noteq> JobStatus.CANCELLED"
    and idle: "\<And>j t. run_processor reg j t = (Inr (), t)"
    and cron: "job_cron job = Some cron" "parse_schedule cron = Some sch" "valid_schedule sch"
    and time: "0 \<le> clock s" "clock s + schedule_span sch \<le> max_date"
  shows "\<exists>s' a. sweep_attempts reg [i] s = (Inr (), s') \<and> clock s' = clock s
    \<and> jobs s' = upd_where (\<lambda>j. job_id j = i) (succeeded job (clock s)) (jobs s) @ [next_occurrence job cron (nextId s) a (clock s)]"
proof -
  have p: "clock (processing i s) = clock s" "nextId (processing i s) = nextId s" by (simp_all add: processing_def)
  obtain a where a: "fst (attempt reg i s) = Inr ()" "clock (snd (attempt reg i s)) = clock s"
    "jobs (snd (attempt reg i s)) = upd_where (\<lambda>j. job_id j = i) (succeeded job (clock s)) (jobs s)
        @ [next_occurrence job cron (nextId s) a (clock s)]"
    using attempt_reschedules [OF assms(1,2) idle [of job "processing i s"] refl cron] time by (auto simp: Let_def p)
  then have "sweep_attempts reg [i] s = (Inr (), snd (attempt reg i s))"
    by (cases "attempt reg i s") (simp add: sweep_attempts_def try_catch_def seq_step ret_def)
  with a show ?thesis by blast
qed

theorem overlapping_sweeps_repeat:
  assumes read: "sweep_read s = (Inr ids, s)" "i \<in> set ids"
    and row: "List.find (\<lambda>j. job_id j = i) (jobs s) = Some job" "job_status job \<noteq> JobStatus.CANCELLED" and fresh: "i < nextId s"
    and idle: "\<And>j t. run_processor reg j t = (Inr (), t)"
    and cron: "job_cron job = Some cron" "parse_schedule cron = Some sch" "valid_schedule sch"
    and time: "0 \<le> clock s" "clock s + schedule_span sch \<le> max_date"
  shows "\<exists>s1 s2 js a b k. sweep_attempts reg [i] s = (Inr (), s1) \<and> i \<notin> job_id ` set (due_jobs s1)
    \<and> sweep_attempts reg [i] s1 = (Inr (), s2) \<and> length js = length (jobs s)
    \<and> jobs s2 = js @ [next_occurrence job cron (nextId s) a (clock s), next_occurrence job cron k b (clock s)]"
proof -
  obtain s1 a where s1: "sweep_attempts reg [i] s = (Inr (), s1)" "clock s1 = clock s"
    "jobs s1 = upd_where (\<lambda>j. job_id j = i) (succeeded job (clock s)) (jobs s) @ [next_occurrence job cron (nextId s) a (clock s)]"
    using attempt_again [OF row idle cron time] by blast
  define job' where "job' = succeeded job (clock s) job"
  have row': "List.find (\<lambda>j. job_id j = i) (jobs s1) = Some job'" "job_status job' \<noteq> JobStatus.CANCELLED"
    using row by (simp_all add: s1(3) find_append find_upd_where_same job'_def) (simp add: succeeded_def)
  have cron': "job_cron job' = Some cron" using cron(1) by (simp add: job'_def succeeded_def)
  obtain s2 b where s2: "sweep_attempts reg [i] s1 = (Inr (), s2)"
    "jobs s2 = upd_where (\<lambda>j. job_id j = i) (succeeded job' (clock s)) (jobs s1) @ [next_occurrence job' cron (nextId s1) b (clock s)]"
    using attempt_again [OF row' idle cron' cron(2,3)] time s1(2) by auto
  have next': "next_occurrence job' cron k r t = next_occurrence job cron k r t" for k r t
    by (simp add: next_occurrence_def job'_def succeeded_def)
  have "jobs s2 = upd_where (\<lambda>j. job_id j = i) (succeeded job' (clock s))
      (upd_where (\<lambda>j. job_id j = i) (succeeded job (clock s)) (jobs s))
      @ [next_occurrence job cron (nextId s) a (clock s), next_occurrence job cron (nextId s1) b (clock s)]"
    using fresh by (simp add: s2(2) s1(3) next' upd_where_def) (simp add: next_occurrence_def)
  moreover have "job_status j = JobStatus.SUCCESS" if "j \<in> set (jobs s1)" "job_id j = i" for j
  proof -
    have "j \<in> set (upd_where (\<lambda>j. job_id j = i) (succeeded job (clock s)) (jobs s))"
      using that fresh by (auto simp: s1(3) next_occurrence_def)
    from upd_where_hit [OF this that(2)] show ?thesis by (auto simp: succeeded_def)
  qed
  then have "i \<notin> job_id ` set (due_jobs s1)"
    by (fastforce simp: due_jobs_def job_due_def dest!: in_set_takeD)
  ultimately show ?thesis
    using s1(1) s2(1) by (intro exI [of _ s1] exI [of _ s2]) (auto simp del: map_map simp: length_upd_where)
qed

section \<open>The sweep\<close>

lemma sorted_take_drop:
  "sorted (map k xs) \<Longrightarrow> x \<in> set (take n xs) \<Longrightarrow> y \<in> set (drop n xs) \<Longrightarrow> k x \<le> (k y :: 'k :: linorder)"
proof -
  assume "sorted (map k xs)" and xy: "x \<in> set (take n xs)" "y \<in> set (drop n xs)"
  then have "sorted (map k (take n xs) @ map k (drop n xs))" by (simp add: map_append [symmetric] del: map_append)
  then show ?thesis using xy by (simp add: sorted_append)
qed

text \<open>The batch of a sweep: at most twenty jobs, all waiting, in no paused queue and past their run
  and retry instants, most urgent first and oldest first among equals; a due job is left out only when
  the batch is full of jobs at least as urgent.\<close>
theorem due_jobs_selection:
  "length (due_jobs s) \<le> 20 \<and> sorted (map urgency (due_jobs s))
   \<and> set (due_jobs s) \<subseteq> {j \<in> set (jobs s). job_due (paused_names (queueControls s)) (clock s) j}
   \<and> {j \<in> set (jobs s). job_due (paused_names (queueControls s)) (clock s) j}
     \<subseteq> set (due_jobs s) \<union> {j. length (due_jobs s) = 20 \<and> set (due_jobs s) \<subseteq> {d. urgency d \<le> urgency j}}"
proof -
  define due where "due = sort_key urgency (filter (job_due (paused_names (queueControls s)) (clock s)) (jobs s))"
  have d: "due_jobs s = take 20 due" by (simp add: due_jobs_def due_def SWEEP_BATCH_SIZE_def)
  have set_due: "set due = {j \<in> set (jobs s). job_due (paused_names (queueControls s)) (clock s) j}"
    and sorted: "sorted (map urgency due)" by (auto simp: due_def)
  have out: "length (take 20 due) = 20 \<and> set (take 20 due) \<subseteq> {d. urgency d \<le> urgency j}"
    if "j \<in> set due" "j \<notin> set (take 20 due)" for j
  proof -
    have "set due = set (take 20 due) \<union> set (drop 20 due)" by (metis append_take_drop_id set_append)
    with that have dr: "j \<in> set (drop 20 due)" by blast
    then have "20 < length due" by (cases "20 < length due") simp_all
    with dr show ?thesis using sorted_take_drop [OF sorted] by auto
  qed
  have "sorted (map urgency (take 20 due))" using sorted_wrt_take [OF sorted, of 20] by (simp add: take_map)
  moreover have "set (take 20 due) \<subseteq> set due" by (rule set_take_subset)
  ultimately show ?thesis using out by (auto simp: d set_due [symmetric])
qed

text \<open>A processor may do anything except touch the row of another job.\<close>

definition leaves_row :: "job_row \<Rightarrow> 'z job_registry \<Rightarrow> bool" where
  "leaves_row r reg \<longleftrightarrow> (\<forall>(ty, p) \<in> set reg. \<forall>payload job. preserves (\<lambda>s. r \<in> set (jobs s)) (p payload job))"

lemma run_processor_leaves: "leaves_row r reg \<Longrightarrow> preserves (\<lambda>s. r \<in> set (jobs s)) (run_processor reg job)"
  by (auto simp: run_processor_def resolve_processor_def leaves_row_def preserves_throw
      split: option.split dest!: map_of_SomeD)

lemma attempt_leaves:
  assumes "leaves_row r reg" and "job_id r \<noteq> i"
  shows "preserves (\<lambda>s. r \<in> set (jobs s)) (attempt reg i)"
proof -
  have upd: "preserves (\<lambda>s. r \<in> set (jobs s)) (update_row jobs jobs_update (\<lambda>j. job_id j = k) f)"
    if "job_id r \<noteq> k" for k f
    using that by (intro preserves_update_row) (simp add: upd_where_other_row)
  have ev: "preserves (\<lambda>s. r \<in> set (jobs s)) (update_row platformEvents platformEvents_update P f)" for P f
    by (intro preserves_update_row) simp
  have succ: "preserves (\<lambda>s. r \<in> set (jobs s)) (job_succeed job t)"
    and failed: "preserves (\<lambda>s. r \<in> set (jobs s)) (job_fail job t e)" if "job_id job \<noteq> job_id r" for job t e
    unfolding job_succeed_def job_fail_def now_def fresh_def Let_def using that
    by (intro pres upd ev; simp)+
  show ?thesis
  proof (rule preserves_I)
    fix s x s' assume run: "attempt reg i s = (x, s')" and r: "r \<in> set (jobs s)"
    show "r \<in> set (jobs s')"
    proof (cases "\<exists>job. List.find (\<lambda>j. job_id j = i) (jobs s) = Some job \<and> job_status job \<noteq> JobStatus.CANCELLED")
      case False
      then have "attempt reg i s = (Inr (), s)" by (intro attempt_skip) auto
      with run r show ?thesis by simp
    next
      case True
      then obtain job where job: "List.find (\<lambda>j. job_id j = i) (jobs s) = Some job"
        "job_status job \<noteq> JobStatus.CANCELLED" by blast
      then have ne: "job_id job \<noteq> job_id r" using assms(2) find_job_id by metis
      have pre: "preserves (\<lambda>s. r \<in> set (jobs s)) (try_catch (seq (run_processor reg job) (job_succeed job (clock s)))
          (job_fail job (clock s)))"
        by (intro pres run_processor_leaves [OF assms(1)] succ [OF ne] failed [OF ne])
      have "r \<in> set (jobs (processing i s))"
        using r assms(2) by (simp add: processing_def upd_where_other_row)
      from preservesD [OF pre this] run show ?thesis by (simp add: attempt_enter [OF job])
    qed
  qed
qed

text \<open>A sweep leaves every job that is not in its batch exactly as it was: in particular the jobs of
  a paused queue, the jobs whose time has not come, and the settled and cancelled ones.\<close>
theorem processDue_isolates:
  assumes "distinct (map job_id (jobs s))" and "r \<in> set (jobs s)" and "r \<notin> set (due_jobs s)"
    and "leaves_row r reg"
  shows "r \<in> set (jobs (snd (processDue reg s)))"
proof -
  have sub: "set (due_jobs s) \<subseteq> set (jobs s)"
    by (auto simp: due_jobs_def dest: in_set_takeD)
  have ids: "job_id r \<notin> set (map job_id (due_jobs s))"
    using assms(1-3) sub by (auto dest: distinct_key_eq)
  have "preserves (\<lambda>s. r \<in> set (jobs s)) (for_each js (\<lambda>i. try_catch (attempt reg i) (\<lambda>_. ret ())))"
    if "job_id r \<notin> set js" for js
    using that by (induction js) (auto intro!: pres attempt_leaves [OF assms(4)])
  with ids have "preserves (\<lambda>s. r \<in> set (jobs s))
      (for_each (map job_id (due_jobs s)) (\<lambda>i. try_catch (attempt reg i) (\<lambda>_. ret ())))" by blast
  from preservesD [OF this assms(2)] show ?thesis by (simp add: processDue_def sweep_read_def sweep_attempts_def run)
qed

theorem processDue_isolates_witness:
  "sample_job \<in> set (jobs (snd (processDue []
     (sample_queue\<lparr>queueControls := [\<lparr>qc_queueName = ''default'', qc_paused = True, qc_pausedAt = None, qc_pausedById = None\<rparr>]\<rparr>))))"
  by (rule processDue_isolates)
     (simp_all add: sample_simps due_jobs_def job_due_def paused_names_def leaves_row_def)

section \<open>Cancelling and retrying\<close>

lemma job_cancel_spec:
  assumes "List.find (\<lambda>j. job_id j = i) (jobs s) = Some job" and "job_status job \<in> set cancellable_statuses"
  shows "fst (job_cancel i u meta s) = Inr (job\<lparr>job_status := JobStatus.CANCELLED, job_cancelledAt := Some (clock s)\<rparr>)
    \<and> jobs (snd (job_cancel i u meta s)) = upd_where (\<lambda>j. job_id j = i)
        (\<lambda>j. j\<lparr>job_status := JobStatus.CANCELLED, job_cancelledAt := Some (clock s)\<rparr>) (jobs s)"
proof -
  have "wps (job_cancel i u meta) (\<lambda>r s'. r = Inr (job\<lparr>job_status := JobStatus.CANCELLED, job_cancelledAt := Some (clock s)\<rparr>)
    \<and> jobs s' = upd_where (\<lambda>j. job_id j = i)
        (\<lambda>j. j\<lparr>job_status := JobStatus.CANCELLED, job_cancelledAt := Some (clock s)\<rparr>) (jobs s)) s"
    using assms by (simp add: job_cancel_def wp)
  then show ?thesis by (simp add: wps_run)
qed

lemma job_cancel_refused:
  assumes "\<And>job. List.find (\<lambda>j. job_id j = i) (jobs s) = Some job \<Longrightarrow> job_status job \<notin> set cancellable_statuses"
  shows "isl (fst (job_cancel i u meta s)) \<and> snd (job_cancel i u meta s) = s"
proof -
  have "wps (job_cancel i u meta) (\<lambda>r s'. isl r \<and> s' = s) s"
    using assms by (auto simp: job_cancel_def wp split: option.split)
  then show ?thesis by (simp add: wps_run)
qed

text \<open>A job can be cancelled exactly while it waits (PENDING, SCHEDULED, RETRYING); a refused call
  changes nothing, and a cancelled job is in no later batch and never runs, whatever processors are
  registered.\<close>
theorem job_cancel_final:
  "let (r, s') = job_cancel i u meta s in
   (if \<exists>job. List.find (\<lambda>j. job_id j = i) (jobs s) = Some job \<and> job_status job \<in> set cancellable_statuses
    then \<not> isl r \<and> attempt reg i s' = (Inr (), s') \<and> i \<notin> job_id ` set (due_jobs s')
    else isl r \<and> s' = s)"
proof (cases "\<exists>job. List.find (\<lambda>j. job_id j = i) (jobs s) = Some job \<and> job_status job \<in> set cancellable_statuses")
  case True
  then obtain job where job: "List.find (\<lambda>j. job_id j = i) (jobs s) = Some job"
    "job_status job \<in> set cancellable_statuses" by blast
  define s' where "s' = snd (job_cancel i u meta s)"
  from job_cancel_spec [OF job, of u meta] have s': "\<not> isl (fst (job_cancel i u meta s))"
    "jobs s' = upd_where (\<lambda>j. job_id j = i)
        (\<lambda>j. j\<lparr>job_status := JobStatus.CANCELLED, job_cancelledAt := Some (clock s)\<rparr>) (jobs s)"
    by (simp_all add: s'_def)
  have all: "job_status j = JobStatus.CANCELLED" if "j \<in> set (jobs s')" "job_id j = i" for j
  proof -
    from that(1) have "j \<in> set (upd_where (\<lambda>j. job_id j = i)
        (\<lambda>j. j\<lparr>job_status := JobStatus.CANCELLED, job_cancelledAt := Some (clock s)\<rparr>) (jobs s))"
      by (simp only: s'(2))
    from upd_where_hit [OF this that(2)] obtain r where
      "j = r\<lparr>job_status := JobStatus.CANCELLED, job_cancelledAt := Some (clock s)\<rparr>" by blast
    then show ?thesis by simp
  qed
  have "attempt reg i s' = (Inr (), s')" by (rule attempt_skip) (blast dest: find_SomeD intro: all)
  moreover have "i \<notin> job_id ` set (due_jobs s')"
  proof
    assume "i \<in> job_id ` set (due_jobs s')"
    then obtain j where j: "j \<in> set (due_jobs s')" "job_id j = i" by auto
    then have "j \<in> set (jobs s')" and "job_status j \<noteq> JobStatus.CANCELLED"
      by (auto simp: due_jobs_def job_due_def dest!: in_set_takeD)
    with all j(2) show False by blast
  qed
  ultimately show ?thesis using True s'(1) by (simp add: s'_def split_beta)
next
  case False
  then show ?thesis using job_cancel_refused [of i s u meta] by (auto simp: split_beta)
qed

text \<open>A dead-lettered job that an administrator retries keeps its spent attempts: the next failure
  dead-letters it again at once, although the job goes back to PENDING and is due immediately.\<close>
theorem retried_job_has_one_attempt:
  assumes "List.find (\<lambda>j. job_id j = i) (jobs s) = Some job" and "job_status job = JobStatus.DEAD_LETTER"
    and "job_maxAttempts job \<le> job_attemptCount job" and "always_fails reg (job_type job)"
  shows "\<exists>j j'. let s' = snd (job_retry i u meta s); s'' = snd (attempt reg i s') in
    List.find (\<lambda>j. job_id j = i) (jobs s') = Some j \<and> job_status j = JobStatus.PENDING \<and> job_nextAttemptAt j = Some (clock s)
    \<and> List.find (\<lambda>j. job_id j = i) (jobs s'') = Some j' \<and> job_status j' = JobStatus.DEAD_LETTER"
proof -
  define s' where "s' = snd (job_retry i u meta s)"
  define j where "j = job\<lparr>job_status := JobStatus.PENDING, job_nextAttemptAt := Some (clock s), job_error := None\<rparr>"
  have "wps (job_retry i u meta) (\<lambda>r s'. List.find (\<lambda>j. job_id j = i) (jobs s') = Some j) s"
    using assms(1,2) by (simp add: job_retry_def wp retryable_statuses_def find_upd_where_same j_def)
  then have s': "List.find (\<lambda>j. job_id j = i) (jobs s') = Some j" by (simp add: wps_run s'_def)
  have nc: "job_status j \<noteq> JobStatus.CANCELLED" by (simp add: j_def)
  from assms(4) have "always_fails reg (job_type j)" by (simp add: j_def)
  from attempts_fold_jobs [OF this s' nc, of "Suc 0"] obtain te where
    te: "List.find (\<lambda>j. job_id j = i) (jobs (snd (attempt reg i s'))) = Some (fail_job te j)"
    by (auto simp: length_Suc_conv)
  have "job_status (fail_job te j) \<noteq> JobStatus.RETRYING"
    by (rule job_engine.rearmed_once) (use assms(3) in \<open>simp add: j_def\<close>)
  with te s' fail_job_status [of te j] show ?thesis
    by (auto simp: Let_def s'_def j_def)
qed

definition dead_queue :: platform_db where
  "dead_queue = blank\<lparr>jobs := [sample_job\<lparr>job_status := JobStatus.DEAD_LETTER, job_attemptCount := 5\<rparr>]\<rparr>"

theorem retried_job_has_one_attempt_witness:
  "\<exists>j j'. let s' = snd (job_retry 7 1 no_meta dead_queue); s'' = snd (attempt [] 7 s') in
    List.find (\<lambda>j. job_id j = 7) (jobs s') = Some j \<and> job_status j = JobStatus.PENDING \<and> job_nextAttemptAt j = Some (clock dead_queue)
    \<and> List.find (\<lambda>j. job_id j = 7) (jobs s'') = Some j' \<and> job_status j' = JobStatus.DEAD_LETTER"
  by (rule retried_job_has_one_attempt
        [where job = "sample_job\<lparr>job_status := JobStatus.DEAD_LETTER, job_attemptCount := 5\<rparr>"])
     (simp_all add: always_fails_def run_processor_def resolve_processor_def run sample_simps dead_queue_def)

end
