(* ===== verification/Idempotence.thy ===== *)
theory Idempotence
  imports Prelude
begin

text \<open>
  The contract of a recorder with idempotency keys (financial events, usage records): recording under a
  key that is already there changes nothing, recording under a new one adds at most one entry, or always
  exactly one when the recorder accepts every call. The lemmas of the locales are what callers rely on when
  they retry.
\<close>

locale keyed_store =
  fixes post :: "'k \<Rightarrow> 'x \<Rightarrow> 's \<Rightarrow> 's"
    and entries :: "'k \<Rightarrow> 's \<Rightarrow> nat"
  assumes post_known: "0 < entries k s \<Longrightarrow> post k x s = s"
    and post_new_le: "entries k s = 0 \<Longrightarrow> entries k (post k x s) \<le> 1"
    and post_other: "k \<noteq> k' \<Longrightarrow> entries k (post k' x s) = entries k s"
begin

text \<open>Any sequence of calls books a key at most once, however often it is repeated and whatever else happens.\<close>

lemma at_most_once: "entries k s \<le> 1 \<Longrightarrow> entries k (fold (\<lambda>(k, x). post k x) calls s) \<le> 1"
proof (induction calls arbitrary: s)
  case (Cons c calls)
  obtain k' x where c: "c = (k', x)" by (cases c)
  have "entries k (post k' x s) \<le> 1"
    using Cons.prems post_new_le [of k s x]
    by (cases "k = k'"; cases "entries k s = 0") (auto simp: post_known post_other)
  with Cons.IH show ?case by (simp add: c)
qed simp

lemma never_lost: "0 < entries k s \<Longrightarrow> entries k (fold (\<lambda>(k, x). post k x) calls s) = entries k s"
proof (induction calls arbitrary: s)
  case (Cons c calls)
  obtain k' x where c: "c = (k', x)" by (cases c)
  have "entries k (post k' x s) = entries k s"
    using Cons.prems by (cases "k = k'") (auto simp: post_known post_other)
  with Cons show ?case by (simp add: c)
qed simp

end

locale keyed_recorder = keyed_store post entries
  for post :: "'k \<Rightarrow> 'x \<Rightarrow> 's \<Rightarrow> 's" and entries :: "'k \<Rightarrow> 's \<Rightarrow> nat" +
  assumes post_new: "entries k s = 0 \<Longrightarrow> entries k (post k x s) = 1"
begin

lemma post_entries: "entries k (post k' x s) = (if k = k' \<and> entries k s = 0 then 1 else entries k s)"
  by (cases "k = k'"; cases "entries k s = 0") (auto simp: post_known post_new post_other)

text \<open>A key is booked exactly once from its first call on.\<close>

lemma entries_fold:
  "entries k (fold (\<lambda>(k, x). post k x) calls s)
   = (if entries k s = 0 \<and> k \<in> fst ` set calls then 1 else entries k s)"
proof (induction calls arbitrary: s)
  case (Cons c calls)
  obtain k' x where "c = (k', x)" by (cases c)
  then show ?case by (simp add: Cons.IH post_entries)
qed simp

lemma repost: "post k y (post k x s) = post k x s"
  by (rule post_known) (simp add: post_entries)

end

end
