(* ===== verification/Financial.thy ===== *)
theory Financial
  imports Platform Retry Idempotence
begin

text \<open>
  Financial events and their synchronisation with the ERP: financial-events/financial-events.service.ts
  (the recorder), financial-events/sync-engine.service.ts (the queue processor),
  financial-events/financial-sync.service.ts (the administrative surface) and the HTTP client
  erp-connector/ledgix-erp-connector.service.ts. The ERP server and the decryption primitive are
  parameters: \<open>erp_world\<close> answers a request from the requests sent so far, which the state logs.
\<close>

section \<open>Rows\<close>

datatype FinancialProviderType = INTERNAL | LEDGIX_ERP

datatype FinancialEventType =
  SUBSCRIPTION_ACTIVATED | SUBSCRIPTION_RENEWED | SUBSCRIPTION_CANCELED | PAYMENT_SUCCEEDED
| PAYMENT_FAILED | REFUND_ISSUED | REFUND_PARTIAL | CHARGEBACK_CREATED | CHARGEBACK_REVERSED

datatype SyncStatus = PENDING | PROCESSING | SUCCESS | FAILED | RETRYING | DEAD_LETTER

datatype ERPConnectionStatus = NOT_CONFIGURED | PENDING_TEST | CONNECTED | FAILED | DISCONNECTED

record fin_integration =
  fi_id :: id
  fi_organizationId :: id
  fi_provider :: FinancialProviderType

record erp_connection =
  erp_id :: id
  erp_financialIntegrationId :: id
  erp_baseUrl :: string
  erp_companyId :: string
  erp_encryptedApiKey :: string
  erp_iv :: string
  erp_authTag :: string
  erp_apiVersion :: string
  erp_status :: ERPConnectionStatus
  erp_lastSyncedAt :: "time option"

record fin_refs =
  fr_applicationId :: "id option"
  fr_customerId :: "id option"
  fr_subscriptionId :: "id option"

record fin_event =
  fe_id :: id
  fe_organizationId :: id
  fe_refs :: fin_refs
  fe_type :: FinancialEventType
  fe_payload :: json
  fe_idempotencyKey :: "string option"

record sync_queue =
  sq_financialEventId :: id
  sq_status :: SyncStatus

record fin_sync =
  fs_id :: id
  fs_financialEventId :: id
  fs_erpConnectionId :: "id option"
  fs_provider :: FinancialProviderType
  fs_status :: SyncStatus
  fs_attemptCount :: nat
  fs_nextAttemptAt :: "time option"
  fs_erpReferenceNumber :: "string option"
  fs_erpInvoiceId :: "string option"
  fs_erpReceiptId :: "string option"
  fs_createdAt :: time
  fs_completedAt :: "time option"

record sync_history =
  sh_financialSyncId :: id
  sh_attemptNumber :: nat
  sh_status :: SyncStatus
  sh_error :: "exn option"

record sync_error =
  se_financialSyncId :: id
  se_error :: exn
  se_occurredAt :: time
  se_resolved :: bool
  se_resolvedAt :: "time option"
  se_resolvedById :: "id option"

record http_request =
  req_url :: string
  req_authorization :: string
  req_companyId :: string
  req_idempotencyKey :: string
  req_body :: json

record http_response =
  resp_status :: int
  resp_text :: string
  resp_json :: "string + json"

record fin_db = platform_db +
  finIntegrations :: "fin_integration list"
  erpConnections :: "erp_connection list"
  finEvents :: "fin_event list"
  syncQueue :: "sync_queue list"
  finSyncs :: "fin_sync list"
  syncHistory :: "sync_history list"
  syncErrors :: "sync_error list"
  erpCalls :: "http_request list"

section \<open>Recording an event\<close>

definition getWithSync ::
  "id \<Rightarrow> ('z fin_db_scheme, (fin_event \<times> fin_sync option \<times> sync_queue option) option) svc" where
  "getWithSync eventId = gets (\<lambda>s. map_option
     (\<lambda>e. (e, List.find (\<lambda>y. fs_financialEventId y = eventId) (finSyncs s),
              List.find (\<lambda>q. sq_financialEventId q = eventId) (syncQueue s)))
     (List.find (\<lambda>e. fe_id e = eventId) (finEvents s)))"

definition isUniqueConstraintError :: "exn \<Rightarrow> bool" where
  "isUniqueConstraintError e \<longleftrightarrow> e = PrismaError ''P2002''"

text \<open>Two stored keys clash; rows without a key never do.\<close>

definition same_key :: "string option \<Rightarrow> string option \<Rightarrow> bool" where
  "same_key a b \<longleftrightarrow> a \<noteq> None \<and> a = b"

lemma same_key_None [simp]: "\<not> same_key a None" "\<not> same_key None a"
  by (cases a; simp add: same_key_def)+

definition create_trio ::
  "id \<Rightarrow> FinancialEventType \<Rightarrow> json \<Rightarrow> fin_refs \<Rightarrow> string option \<Rightarrow> FinancialProviderType
   \<Rightarrow> ('z fin_db_scheme, id) svc" where
  "create_trio org type payload refs key provider = transaction (
     bnd fresh (\<lambda>evId.
     bnd (insert_unique finEvents finEvents_update (\<lambda>e. same_key (fe_idempotencyKey e) key)
       \<lparr>fe_id = evId, fe_organizationId = org, fe_refs = refs, fe_type = type, fe_payload = payload,
        fe_idempotencyKey = key\<rparr>) (\<lambda>created.
     seq (modify (syncQueue_update (\<lambda>qs. qs @ [\<lparr>sq_financialEventId = fe_id created, sq_status = SyncStatus.PENDING\<rparr>])))
     (bnd fresh (\<lambda>syncId.
      bnd now (\<lambda>t.
      seq (modify (finSyncs_update (\<lambda>ys. ys @ [\<lparr>fs_id = syncId, fs_financialEventId = fe_id created,
            fs_erpConnectionId = None, fs_provider = provider, fs_status = SyncStatus.PENDING,
            fs_attemptCount = 0, fs_nextAttemptAt = None, fs_erpReferenceNumber = None,
            fs_erpInvoiceId = None, fs_erpReceiptId = None, fs_createdAt = t, fs_completedAt = None\<rparr>])))
      (ret (fe_id created))))))))"

fun fin_type_str :: "FinancialEventType \<Rightarrow> string" where
  "fin_type_str SUBSCRIPTION_ACTIVATED = ''SUBSCRIPTION_ACTIVATED''"
| "fin_type_str SUBSCRIPTION_RENEWED = ''SUBSCRIPTION_RENEWED''"
| "fin_type_str SUBSCRIPTION_CANCELED = ''SUBSCRIPTION_CANCELED''"
| "fin_type_str PAYMENT_SUCCEEDED = ''PAYMENT_SUCCEEDED''"
| "fin_type_str PAYMENT_FAILED = ''PAYMENT_FAILED''"
| "fin_type_str REFUND_ISSUED = ''REFUND_ISSUED''"
| "fin_type_str REFUND_PARTIAL = ''REFUND_PARTIAL''"
| "fin_type_str CHARGEBACK_CREATED = ''CHARGEBACK_CREATED''"
| "fin_type_str CHARGEBACK_REVERSED = ''CHARGEBACK_REVERSED''"

definition fin_provider_of :: "id \<Rightarrow> fin_integration list \<Rightarrow> FinancialProviderType" where
  "fin_provider_of org is =
     orElse (map_option fi_provider (List.find (\<lambda>i. fi_organizationId i = org) is)) INTERNAL"

definition record_new ::
  "id \<Rightarrow> FinancialEventType \<Rightarrow> json \<Rightarrow> fin_refs \<Rightarrow> id option \<Rightarrow> request_meta \<Rightarrow> string option
   \<Rightarrow> ('z fin_db_scheme, (fin_event \<times> fin_sync option \<times> sync_queue option) option) svc" where
  "record_new org type payload refs userId meta key =
     bnd (gets (\<lambda>s. fin_provider_of org (finIntegrations s))) (\<lambda>provider.
     bnd (try_catch (bnd (create_trio org type payload refs key provider) (\<lambda>i. ret (i, True)))
       (\<lambda>error. if truthy key \<and> isUniqueConstraintError error
          then bnd (find_or_throw finEvents (\<lambda>e. fe_idempotencyKey e = key)) (\<lambda>winner. ret (fe_id winner, False))
          else throw error)) (\<lambda>(eventId, created).
     seq (when_do created (audit ''FINANCIAL_EVENT_CREATED'' userId (Some org) (fr_applicationId refs)
            [(''financialEventId'', JId eventId), (''type'', JStr (fin_type_str type))] meta))
         (getWithSync eventId)))"

definition record_event ::
  "id \<Rightarrow> FinancialEventType \<Rightarrow> json \<Rightarrow> fin_refs \<Rightarrow> id option \<Rightarrow> request_meta \<Rightarrow> string option
   \<Rightarrow> ('z fin_db_scheme, (fin_event \<times> fin_sync option \<times> sync_queue option) option) svc" where
  "record_event org type payload refs userId meta key =
     (if truthy key then
        bnd (find_row finEvents (\<lambda>e. fe_idempotencyKey e = key)) (\<lambda>existing.
          case existing of Some e \<Rightarrow> getWithSync (fe_id e)
          | None \<Rightarrow> record_new org type payload refs userId meta key)
      else record_new org type payload refs userId meta key)"

lemma leaves_record:
  assumes "\<And>f s. v (nextId_update f s) = v s" and "\<And>f s. v (audits_update f s) = v s" and "\<And>f s. v (finEvents_update f s) = v s"
    and "\<And>f s. v (finSyncs_update f s) = v s" and "\<And>f s. v (syncQueue_update f s) = v s"
  shows "leaves v (record_event org type payload refs u m key)"
  unfolding record_event_def record_new_def create_trio_def getWithSync_def
  by (intro leaves_all leaves_platform; simp add: assms)

section \<open>The ERP client\<close>

record erp_world =
  world_fetch :: "http_request list \<Rightarrow> http_request \<Rightarrow> string + http_response"
  world_decrypt :: "string \<Rightarrow> string \<Rightarrow> string \<Rightarrow> string + string"

record erp_credentials =
  cred_baseUrl :: string
  cred_companyId :: string
  cred_apiVersion :: string
  cred_apiKey :: string

definition MAX_HTTP_ATTEMPTS :: nat where
  "MAX_HTTP_ATTEMPTS = 3"

definition RESPONSE_BODY_MAX_LENGTH :: nat where
  "RESPONSE_BODY_MAX_LENGTH = 2000"

definition fetch :: "erp_world \<Rightarrow> http_request \<Rightarrow> ('z fin_db_scheme, string + http_response) svc" where
  "fetch w req = bnd (gets erpCalls) (\<lambda>sent.
     seq (modify (erpCalls_update (\<lambda>cs. cs @ [req]))) (ret (world_fetch w sent req)))"

text \<open>What one attempt makes of the answer: a JSON value or the message of the error it throws.\<close>

definition read_response :: "string \<Rightarrow> string + http_response \<Rightarrow> string + json" where
  "read_response path r = (case r of Inl message \<Rightarrow> Inl message
     | Inr resp \<Rightarrow>
       if resp_status resp < 200 \<or> 300 \<le> resp_status resp
       then Inl (''LedGix POST '' @ path @ '' failed with status '' @ int_str (resp_status resp) @ '': ''
                 @ take RESPONSE_BODY_MAX_LENGTH (resp_text resp))
       else if resp_text resp = [] then Inr (JObj []) else resp_json resp)"

fun request_loop :: "erp_world \<Rightarrow> string \<Rightarrow> http_request \<Rightarrow> nat \<Rightarrow> ('z fin_db_scheme, json) svc" where
  "request_loop w path req 0 = throw (JsError (''LedGix POST '' @ path @ '' failed after 3 attempts''))"
| "request_loop w path req (Suc n) =
     bnd (fetch w req) (\<lambda>r. case read_response path r of
        Inr value \<Rightarrow> ret value
      | Inl message \<Rightarrow> if n = 0 then throw (JsError message) else request_loop w path req n)"

definition erp_request ::
  "erp_world \<Rightarrow> erp_credentials \<Rightarrow> string \<Rightarrow> json \<Rightarrow> string \<Rightarrow> ('z fin_db_scheme, json) svc" where
  "erp_request w conn path body key = request_loop w path
     \<lparr>req_url = cred_baseUrl conn @ ''/api/'' @ cred_apiVersion conn @ ''/'' @ path,
      req_authorization = ''Bearer '' @ cred_apiKey conn, req_companyId = cred_companyId conn,
      req_idempotencyKey = key, req_body = body\<rparr> MAX_HTTP_ATTEMPTS"

text \<open>\<open>x ?? d\<close> on a JSON field.\<close>

fun nullish :: "json option \<Rightarrow> json \<Rightarrow> json" where
  "nullish None d = d"
| "nullish (Some JNull) d = d"
| "nullish (Some v) d = v"

text \<open>The mappers test only that a field of a response is truthy; what the field holds is passed on as it is.\<close>

fun json_truthy :: "json \<Rightarrow> bool" where
  "json_truthy JNull = False"
| "json_truthy (JBool b) = b"
| "json_truthy (JInt n) = (n \<noteq> 0)"
| "json_truthy (JStr x) = (x \<noteq> [])"
| "json_truthy _ = True"

definition response_field :: "string \<Rightarrow> json \<Rightarrow> json option" where
  "response_field k raw = (case jfield k raw of Some v \<Rightarrow> if json_truthy v then Some v else None | None \<Rightarrow> None)"

text \<open>\<open>${x}\<close> of a JSON value in a template string (parsed JSON holds neither identifiers nor dates).\<close>

fun js_template :: "json \<Rightarrow> string" where
  "js_template JNull = ''null''"
| "js_template (JBool b) = (if b then ''true'' else ''false'')"
| "js_template (JInt n) = int_str n"
| "js_template (JStr x) = x"
| "js_template (JId i) = id_str i"
| "js_template (JTime t) = int_str t"
| "js_template (JArr xs) = concat (tl (concat (map (\<lambda>x. ['','', if x = JNull then [] else js_template x]) xs)))"
| "js_template (JObj fs) = ''[object Object]''"

definition createInvoice ::
  "erp_world \<Rightarrow> erp_credentials \<Rightarrow> json \<Rightarrow> json \<Rightarrow> json \<Rightarrow> json option \<Rightarrow> json option \<Rightarrow> json option
   \<Rightarrow> string \<Rightarrow> ('z fin_db_scheme, json \<times> json) svc" where
  "createInvoice w conn customerReference amountMinor currency description taxMinor discountMinor key =
     bnd (erp_request w conn ''invoices'' (JObj
       ([(''customerReference'', customerReference), (''amountMinor'', amountMinor), (''currency'', currency)]
        @ jopt ''description'' (\<lambda>x. x) description
        @ [(''taxMinor'', nullish taxMinor (JInt 0)), (''discountMinor'', nullish discountMinor (JInt 0))])) key) (\<lambda>raw.
     case (response_field ''id'' raw, response_field ''referenceNumber'' raw) of
       (Some i, Some n) \<Rightarrow> ret (i, n)
     | _ \<Rightarrow> throw (JsError ''LedGix invoice response missing id/referenceNumber''))"

definition createReceipt ::
  "erp_world \<Rightarrow> erp_credentials \<Rightarrow> json \<Rightarrow> json \<Rightarrow> json \<Rightarrow> string \<Rightarrow> ('z fin_db_scheme, json \<times> json) svc" where
  "createReceipt w conn erpInvoiceId amountMinor currency key =
     bnd (erp_request w conn (''invoices/'' @ js_template erpInvoiceId @ ''/receipts'')
       (JObj [(''amountMinor'', amountMinor), (''currency'', currency)]) key) (\<lambda>raw.
     case (response_field ''id'' raw, response_field ''referenceNumber'' raw) of
       (Some i, Some n) \<Rightarrow> ret (i, n)
     | _ \<Rightarrow> throw (JsError ''LedGix receipt response missing id/referenceNumber''))"

definition recordPayment ::
  "erp_world \<Rightarrow> erp_credentials \<Rightarrow> json \<Rightarrow> json \<Rightarrow> json option \<Rightarrow> string \<Rightarrow> ('z fin_db_scheme, json) svc" where
  "recordPayment w conn erpReceiptId pmethod reference key =
     bnd (erp_request w conn (''receipts/'' @ js_template erpReceiptId @ ''/payments'')
       (JObj ([(''method'', pmethod)] @ jopt ''reference'' (\<lambda>x. x) reference)) key) (\<lambda>raw.
     case response_field ''referenceNumber'' raw of
       Some n \<Rightarrow> ret n
     | None \<Rightarrow> throw (JsError ''LedGix payment response missing referenceNumber''))"

section \<open>The sync engine\<close>

definition MAX_ATTEMPTS :: nat where
  "MAX_ATTEMPTS = 5"

text \<open>A success carries the connection, the invoice, the receipt and the payment reference, and the summary
  of the responses.\<close>

datatype sync_outcome =
    Synced "id option" "json option" "json option" "json option" json
  | NotSynced "id option" exn

definition requires_erp_charge :: "FinancialEventType \<Rightarrow> bool" where
  "requires_erp_charge ty \<longleftrightarrow> ty \<in> {SUBSCRIPTION_ACTIVATED, SUBSCRIPTION_RENEWED, PAYMENT_SUCCEEDED}"

definition sync_key :: "id \<Rightarrow> string \<Rightarrow> string" where
  "sync_key syncId step = id_str syncId @ '':'' @ step"

definition charge_chain ::
  "erp_world \<Rightarrow> erp_credentials \<Rightarrow> id \<Rightarrow> fin_event \<Rightarrow> id \<Rightarrow> ('z fin_db_scheme, sync_outcome) svc" where
  "charge_chain w credentials connId ev syncId =
     (let flds = fe_payload ev;
          amountMinor = nullish (jfield ''amountMinor'' flds) (JInt 0);
          currency = nullish (jfield ''currency'' flds) (JStr ''USD'');
          customerReference = nullish (jfield ''customerReference'' flds)
            (case fr_customerId (fe_refs ev) of Some c \<Rightarrow> JId c | None \<Rightarrow> JId (fe_organizationId ev)) in
      bnd (createInvoice w credentials customerReference amountMinor currency (jfield ''description'' flds)
             (jfield ''taxMinor'' flds) (jfield ''discountMinor'' flds) (sync_key syncId ''invoice'')) (\<lambda>(invoiceId, invoiceNumber).
      bnd (createReceipt w credentials invoiceId amountMinor currency (sync_key syncId ''receipt'')) (\<lambda>(receiptId, receiptNumber).
      bnd (recordPayment w credentials receiptId (nullish (jfield ''method'' flds) (JStr ''unknown''))
             (jfield ''reference'' flds) (sync_key syncId ''payment'')) (\<lambda>referenceNumber.
      ret (Synced (Some connId) (Some invoiceId) (Some receiptId) (Some referenceNumber)
        (JObj [(''invoiceReferenceNumber'', invoiceNumber), (''receiptReferenceNumber'', receiptNumber),
               (''paymentReferenceNumber'', referenceNumber)]))))))"

definition erp_connection_of :: "id \<Rightarrow> 'z fin_db_scheme \<Rightarrow> erp_connection option" where
  "erp_connection_of org s =
     (case List.find (\<lambda>i. fi_organizationId i = org) (finIntegrations s) of None \<Rightarrow> None
      | Some i \<Rightarrow> List.find (\<lambda>c. erp_financialIntegrationId c = fi_id i) (erpConnections s))"

definition syncLedgixErp :: "erp_world \<Rightarrow> fin_event \<Rightarrow> id \<Rightarrow> ('z fin_db_scheme, sync_outcome) svc" where
  "syncLedgixErp w ev syncId =
     bnd (gets (erp_connection_of (fe_organizationId ev))) (\<lambda>conn.
     case conn of None \<Rightarrow> ret (NotSynced None (JsError ''ERP not connected''))
     | Some c \<Rightarrow>
       if erp_status c \<noteq> ERPConnectionStatus.CONNECTED then ret (NotSynced None (JsError ''ERP not connected''))
       else if \<not> requires_erp_charge (fe_type ev) then ret (Synced (Some (erp_id c)) None None None (JObj []))
       else
         (case world_decrypt w (erp_encryptedApiKey c) (erp_iv c) (erp_authTag c) of
           Inl message \<Rightarrow> throw (JsError message)
         | Inr apiKey \<Rightarrow> charge_chain w \<lparr>cred_baseUrl = erp_baseUrl c, cred_companyId = erp_companyId c,
             cred_apiVersion = erp_apiVersion c, cred_apiKey = apiKey\<rparr> (erp_id c) ev syncId))"

text \<open>What the Prisma client accepts for a \<open>String?\<close> column: a string, \<open>null\<close> or a \<open>set\<close> operation. The
  inner \<open>None\<close> is the column's NULL. A \<open>Json\<close> column takes any value without NUL.\<close>

fun string_column :: "json \<Rightarrow> string option option" where
  "string_column JNull = Some None"
| "string_column (JStr x) = (if storable_text x then Some (Some x) else None)"
| "string_column (JObj [(k, JStr x)]) = (if k = ''set'' \<and> storable_text x then Some (Some x) else None)"
| "string_column (JObj [(k, JNull)]) = (if k = ''set'' then Some None else None)"
| "string_column _ = None"

fun storable :: "json \<Rightarrow> bool" where
  "storable (JStr x) = storable_text x"
| "storable (JArr xs) = (\<forall>v \<in> set xs. storable v)"
| "storable (JObj fs) = (\<forall>(k, v) \<in> set fs. storable_text k \<and> storable v)"
| "storable _ = True"

definition accepted_column :: "json option \<Rightarrow> bool" where
  "accepted_column v \<longleftrightarrow> (case v of None \<Rightarrow> True | Some j \<Rightarrow> string_column j \<noteq> None)"

definition column_update :: "json option \<Rightarrow> string option \<Rightarrow> string option" where
  "column_update v old = (case v of None \<Rightarrow> old | Some j \<Rightarrow> orElse (string_column j) old)"

text \<open>The transaction is outside the \<open>catch\<close> of the attempt: when it is refused, \<open>attemptSync\<close> throws.\<close>

definition sync_succeed ::
  "fin_sync \<Rightarrow> id option \<Rightarrow> json option \<Rightarrow> json option \<Rightarrow> json option \<Rightarrow> json \<Rightarrow> ('z fin_db_scheme, unit) svc" where
  "sync_succeed sync connId invoiceId receiptId ref summary =
     bnd now (\<lambda>t. transaction (
     seq (guard_or (accepted_column invoiceId \<and> accepted_column receiptId \<and> accepted_column ref \<and> storable summary)
            (JsError ''Invalid value provided. Expected String, NullableStringFieldUpdateOperationsInput or Null''))
     (seq (update_row finSyncs finSyncs_update (\<lambda>y. fs_id y = fs_id sync)
            (\<lambda>y. y\<lparr>fs_status := SyncStatus.SUCCESS, fs_completedAt := Some t,
                   fs_erpConnectionId := keepUndef (map_option Some connId) (fs_erpConnectionId y),
                   fs_erpInvoiceId := column_update invoiceId (fs_erpInvoiceId y),
                   fs_erpReceiptId := column_update receiptId (fs_erpReceiptId y),
                   fs_erpReferenceNumber := column_update ref (fs_erpReferenceNumber y)\<rparr>))
     (seq (modify (syncHistory_update (\<lambda>hs. hs @ [\<lparr>sh_financialSyncId = fs_id sync,
             sh_attemptNumber = fs_attemptCount sync + 1, sh_status = SyncStatus.SUCCESS, sh_error = None\<rparr>])))
     (case connId of None \<Rightarrow> ret ()
      | Some c \<Rightarrow> seq (update_row erpConnections erpConnections_update (\<lambda>x. erp_id x = c)
                         (\<lambda>x. x\<lparr>erp_lastSyncedAt := Some t\<rparr>)) (ret ()))))))"

definition upsert_sync_error :: "id \<Rightarrow> exn \<Rightarrow> time \<Rightarrow> ('z fin_db_scheme, unit) svc" where
  "upsert_sync_error i e t =
     bnd (find_row syncErrors (\<lambda>x. se_financialSyncId x = i)) (\<lambda>r. case r of
       None \<Rightarrow> modify (syncErrors_update (\<lambda>xs. xs @ [\<lparr>se_financialSyncId = i, se_error = e, se_occurredAt = t,
                 se_resolved = False, se_resolvedAt = None, se_resolvedById = None\<rparr>]))
     | Some _ \<Rightarrow> modify (syncErrors_update (upd_where (\<lambda>x. se_financialSyncId x = i)
                 (\<lambda>x. x\<lparr>se_error := e, se_occurredAt := t, se_resolved := False, se_resolvedAt := None,
                        se_resolvedById := None\<rparr>))))"

definition sync_fail :: "fin_sync \<Rightarrow> id \<Rightarrow> id option \<Rightarrow> exn \<Rightarrow> ('z fin_db_scheme, unit) svc" where
  "sync_fail sync org connId error =
     bnd now (\<lambda>t.
     let attemptNumber = fs_attemptCount sync + 1;
         exhausted = MAX_ATTEMPTS \<le> attemptNumber;
         nextAttemptAt = (if exhausted then None else Some (retry_at t attemptNumber));
         finalStatus = (if exhausted then SyncStatus.DEAD_LETTER else SyncStatus.RETRYING) in
     seq (transaction (
       seq (guard_or (storable_text (exn_message error)) (JsError ''invalid byte sequence for encoding UTF8: 0x00''))
       (seq (update_row finSyncs finSyncs_update (\<lambda>y. fs_id y = fs_id sync)
              (\<lambda>y. y\<lparr>fs_status := finalStatus, fs_attemptCount := attemptNumber, fs_nextAttemptAt := nextAttemptAt,
                     fs_erpConnectionId := keepUndef (map_option Some connId) (fs_erpConnectionId y)\<rparr>))
       (seq (modify (syncHistory_update (\<lambda>hs. hs @ [\<lparr>sh_financialSyncId = fs_id sync,
               sh_attemptNumber = attemptNumber, sh_status = finalStatus, sh_error = Some error\<rparr>])))
       (when_do exhausted (upsert_sync_error (fs_id sync) error t))))))
     (when_do exhausted (audit ''FINANCIAL_SYNC_DEAD_LETTERED'' None (Some org) None
        [(''financialSyncId'', JId (fs_id sync)), (''financialEventId'', JId (fs_financialEventId sync)),
         (''error'', JStr (exn_message error))] no_meta)))"

definition attemptSync :: "erp_world \<Rightarrow> id \<Rightarrow> ('z fin_db_scheme, unit) svc" where
  "attemptSync w syncId =
     bnd (find_row finSyncs (\<lambda>y. fs_id y = syncId)) (\<lambda>r. case r of None \<Rightarrow> ret ()
     | Some sync \<Rightarrow>
       bnd (find_or_throw finEvents (\<lambda>e. fe_id e = fs_financialEventId sync)) (\<lambda>ev.
       bnd (if fs_provider sync = INTERNAL then ret (Synced None None None None (JObj []))
            else try_catch (syncLedgixErp w ev syncId) (\<lambda>error. ret (NotSynced None error))) (\<lambda>outcome.
       case outcome of
         Synced connId invoiceId receiptId ref summary \<Rightarrow> sync_succeed sync connId invoiceId receiptId ref summary
       | NotSynced connId error \<Rightarrow> sync_fail sync (fe_organizationId ev) connId error)))"

definition sync_due :: "time \<Rightarrow> fin_sync \<Rightarrow> bool" where
  "sync_due t y \<longleftrightarrow> fs_status y \<in> {SyncStatus.PENDING, SyncStatus.RETRYING}
     \<and> (case fs_nextAttemptAt y of None \<Rightarrow> True | Some r \<Rightarrow> r \<le> t)"

definition fin_processDue :: "erp_world \<Rightarrow> ('z fin_db_scheme, unit) svc" where
  "fin_processDue w =
     bnd (gets (\<lambda>s. take 20 (order_by fs_createdAt (filter (sync_due (clock s)) (finSyncs s))))) (\<lambda>due.
       for_each (map fs_id due) (\<lambda>i. try_catch (attemptSync w i) (\<lambda>_. ret ())))"

section \<open>The administrative surface\<close>

definition event_org :: "fin_event list \<Rightarrow> fin_sync \<Rightarrow> id option" where
  "event_org evs y = map_option fe_organizationId (List.find (\<lambda>e. fe_id e = fs_financialEventId y) evs)"

definition fin_getStatus ::
  "id \<Rightarrow> ('z fin_db_scheme, FinancialProviderType \<times> nat \<times> nat \<times> nat \<times> time option) svc" where
  "fin_getStatus org = gets (\<lambda>s.
     let cnt = (\<lambda>st. count_where (\<lambda>y. event_org (finEvents s) y = Some org \<and> fs_status y = st) (finSyncs s));
         provider = fin_provider_of org (finIntegrations s) in
     (provider, cnt SyncStatus.PENDING, cnt SyncStatus.RETRYING, cnt SyncStatus.DEAD_LETTER,
      if provider = LEDGIX_ERP
      then (case erp_connection_of org s of None \<Rightarrow> None | Some c \<Rightarrow> erp_lastSyncedAt c) else None))"

definition fin_retryable :: "SyncStatus list" where
  "fin_retryable = [SyncStatus.FAILED, SyncStatus.DEAD_LETTER]"

text \<open>The immediate attempt is started without being awaited; its own outcome is recorded in the row.\<close>

definition fin_retry :: "erp_world \<Rightarrow> id \<Rightarrow> id \<Rightarrow> id \<Rightarrow> request_meta \<Rightarrow> ('z fin_db_scheme, fin_sync) svc" where
  "fin_retry w org syncId userId meta =
     bnd (gets (\<lambda>s. case List.find (\<lambda>y. fs_id y = syncId) (finSyncs s) of None \<Rightarrow> None
            | Some y \<Rightarrow> if event_org (finEvents s) y = Some org then Some y else None)) (\<lambda>r.
     case r of None \<Rightarrow> throw (NotFoundException ''Financial sync not found'')
     | Some sync \<Rightarrow>
       seq (guard_or (fs_status sync \<in> set fin_retryable)
              (BadRequestException ''only FAILED or DEAD_LETTER syncs can be retried''))
       (bnd now (\<lambda>t.
        bnd (transaction (
          bnd (update_row finSyncs finSyncs_update (\<lambda>y. fs_id y = syncId)
                 (\<lambda>y. y\<lparr>fs_status := SyncStatus.PENDING, fs_nextAttemptAt := Some t\<rparr>)) (\<lambda>updated.
          seq (modify (syncErrors_update (upd_where (\<lambda>x. se_financialSyncId x = syncId)
                 (\<lambda>x. x\<lparr>se_resolved := True, se_resolvedAt := Some t, se_resolvedById := Some userId\<rparr>))))
              (ret updated)))) (\<lambda>updated.
        seq (audit ''FINANCIAL_SYNC_RETRIED'' (Some userId) (Some org) None
               [(''financialSyncId'', JId syncId)] meta)
        (seq (try_catch (attemptSync w syncId) (\<lambda>_. ret ())) (ret updated))))))"

section \<open>What the client sends\<close>

text \<open>\<open>s'\<close> is \<open>s\<close> after at most \<open>n\<close> requests, all under idempotency keys from \<open>K\<close>.\<close>

definition only_calls :: "string set \<Rightarrow> nat \<Rightarrow> 'z fin_db_scheme \<Rightarrow> 'z fin_db_scheme \<Rightarrow> bool" where
  "only_calls K n s s' \<longleftrightarrow> (\<exists>reqs. s' = erpCalls_update (\<lambda>cs. cs @ reqs) s \<and> length reqs \<le> n
     \<and> req_idempotencyKey ` set reqs \<subseteq> K)"

lemma only_calls_refl: "only_calls K n s s"
  unfolding only_calls_def by (intro exI [of _ "[]"]) simp

lemma only_calls_trans:
  assumes "only_calls K m s s'" and "only_calls K n s' s''"
  shows "only_calls K (m + n) s s''"
proof -
  from assms obtain a b where "s' = erpCalls_update (\<lambda>cs. cs @ a) s" "length a \<le> m" "req_idempotencyKey ` set a \<subseteq> K"
    "s'' = erpCalls_update (\<lambda>cs. cs @ b) s'" "length b \<le> n" "req_idempotencyKey ` set b \<subseteq> K"
    by (auto simp: only_calls_def)
  then show ?thesis
    unfolding only_calls_def by (intro exI [of _ "a @ b"]) (auto simp: comp_def)
qed

lemma only_calls_mono: "only_calls K m s s' \<Longrightarrow> K \<subseteq> L \<Longrightarrow> m \<le> n \<Longrightarrow> only_calls L n s s'"
  by (fastforce simp: only_calls_def)

lemma only_calls_snoc: "req_idempotencyKey req \<in> K \<Longrightarrow> only_calls K 1 s (erpCalls_update (\<lambda>cs. cs @ [req]) s)"
  unfolding only_calls_def by (intro exI [of _ "[req]"]) simp

text \<open>The same as the postcondition of a call, which moreover returns or throws.\<close>

definition sends :: "string set \<Rightarrow> nat \<Rightarrow> 'z fin_db_scheme \<Rightarrow> exn + 'a \<Rightarrow> 'z fin_db_scheme \<Rightarrow> bool" where
  "sends K n s r s' \<longleftrightarrow> only_calls K n s s' \<and> r \<noteq> Inl Diverges"

lemma sends_trans:
  "only_calls K m s s' \<Longrightarrow> sends K n s' r s'' \<Longrightarrow> sends K (m + n) s r s''"
  by (auto simp: sends_def intro: only_calls_trans)

lemma sends_mono: "sends K m s r s' \<Longrightarrow> K \<subseteq> L \<Longrightarrow> m \<le> n \<Longrightarrow> sends L n s r s'"
  by (auto simp: sends_def intro: only_calls_mono)

lemma wps_calls_pure [intro]:
  "wps (ret x) (sends K n s) s" "wps (throw (JsError m)) (sends K n s) s"
  by (simp_all add: wp sends_def only_calls_refl)

lemma wps_request_loop:
  "req_idempotencyKey req \<in> K \<Longrightarrow> wps (request_loop w path req n) (sends K n s) s"
proof (induction n arbitrary: s)
  case 0
  then show ?case by (simp add: wps_calls_pure)
next
  case (Suc n)
  let ?s = "erpCalls_update (\<lambda>cs. cs @ [req]) s"
  have one: "only_calls K 1 s ?s" using Suc.prems by (rule only_calls_snoc)
  have rest: "wps (request_loop w path req n) (sends K (Suc n) s) ?s"
    by (rule wps_mono [OF Suc.IH [OF Suc.prems]]) (use sends_trans [OF one] in simp)
  have "only_calls K (Suc n) s ?s" by (rule only_calls_mono [OF one]) simp_all
  then have "sends K (Suc n) s (Inr v) ?s" "sends K (Suc n) s (Inl (JsError m) :: exn + json) ?s" for v :: json and m
    by (simp_all add: sends_def)
  with rest show ?case by (cases "n = 0") (simp_all add: fetch_def wp split: sum.split)
qed

lemma wps_erp_request: "key \<in> K \<Longrightarrow> wps (erp_request w conn path body key) (sends K 3 s) s"
  unfolding erp_request_def MAX_HTTP_ATTEMPTS_def by (rule wps_request_loop) simp

lemma wps_bnd_calls:
  assumes "wps m (sends K a s) s" and "\<And>x s'. wps (f x) (sends K b s') s'"
  shows "wps (bnd m f) (sends K (a + b) s) s"
  unfolding wps_bnd
proof (rule wps_mono [OF assms(1)], goal_cases)
  case (1 r s')
  then show ?case
  proof (cases r)
    case (Inl e)
    then show ?thesis using 1 by (auto simp: sends_def intro: only_calls_mono)
  next
    case (Inr x)
    have "wps (f x) (sends K (a + b) s) s'"
      by (rule wps_mono [OF assms(2)]) (use 1 in \<open>auto simp: sends_def intro: only_calls_trans\<close>)
    then show ?thesis by (simp add: Inr)
  qed
qed

lemma wps_request_then:
  assumes "key \<in> K" and "\<And>x s'. wps (f x) (sends K 0 s') s'"
  shows "wps (bnd (erp_request w conn path body key) f) (sends K 3 s) s"
  using wps_bnd_calls [OF wps_erp_request [OF assms(1)] assms(2)] by simp

lemma wps_connector:
  "key \<in> K \<Longrightarrow> wps (createInvoice w conn cr am cu de ta di key) (sends K 3 s) s"
  "key \<in> K \<Longrightarrow> wps (createReceipt w conn iv am cu key) (sends K 3 s) s"
  "key \<in> K \<Longrightarrow> wps (recordPayment w conn rc pm rf key) (sends K 3 s) s"
  unfolding createInvoice_def createReceipt_def recordPayment_def
  by (rule wps_request_then; auto split: option.split)+

definition sync_keys :: "id \<Rightarrow> string set" where
  "sync_keys i = {sync_key i ''invoice'', sync_key i ''receipt'', sync_key i ''payment''}"

lemma sync_keys_mem: "sync_key i ''invoice'' \<in> sync_keys i" "sync_key i ''receipt'' \<in> sync_keys i"
  "sync_key i ''payment'' \<in> sync_keys i"
  by (simp_all add: sync_keys_def)

lemma wps_charge_chain: "wps (charge_chain w cr c ev i) (sends (sync_keys i) 9 s) s"
proof -
  have pay: "wps (bnd (recordPayment w cr rc pm rf (sync_key i ''payment''))
      (\<lambda>n. ret (Synced (Some c) (Some x) (Some y) (Some n) (sm n)))) (sends (sync_keys i) 3 s) s" for rc pm rf x y sm s
    using wps_bnd_calls [OF wps_connector(3) [OF sync_keys_mem(3)] wps_calls_pure(1) [where n = 0]] by simp
  have receipt: "wps (bnd (createReceipt w cr inv' am cu (sync_key i ''receipt'')) g) (sends (sync_keys i) 6 s) s"
    if "\<And>x s. wps (g x) (sends (sync_keys i) 3 s) s" for inv' am cu g s
    using wps_bnd_calls [OF wps_connector(2) [OF sync_keys_mem(2)] that] by simp
  have invoice: "wps (bnd (createInvoice w cr ref am cu de ta di (sync_key i ''invoice'')) g) (sends (sync_keys i) 9 s) s"
    if "\<And>x s. wps (g x) (sends (sync_keys i) 6 s) s" for ref am cu de ta di g s
    using wps_bnd_calls [OF wps_connector(1) [OF sync_keys_mem(1)] that] by simp
  show ?thesis
    unfolding charge_chain_def Let_def by (intro invoice) (auto intro!: receipt pay)
qed

text \<open>Names of an existing connection, when the outcome names one.\<close>

fun outcome_conn :: "sync_outcome \<Rightarrow> id option" where
  "outcome_conn (Synced c i r n m) = c"
| "outcome_conn (NotSynced c e) = c"

lemma wps_bnd_last:
  assumes "\<And>x s. wps (f x) Q s" and "\<And>e s. Q (Inl e) s"
  shows "wps (bnd m f) Q s"
  using assms by (cases "m s"; cases "fst (m s)") (auto simp: wps_def bnd_def)

lemma wps_charge_conn:
  "wps (charge_chain w cr c ev i) (\<lambda>r s'. case r of Inl e \<Rightarrow> True | Inr x \<Rightarrow> outcome_conn x = Some c) s"
  unfolding charge_chain_def Let_def
  by (intro wps_bnd_last) (auto simp: wps_ret split: prod.split intro!: wps_bnd_last)

lemma wps_conj: "wps m P s \<Longrightarrow> wps m Q s \<Longrightarrow> wps m (\<lambda>r s'. P r s' \<and> Q r s') s"
  by (simp add: wps_run)

lemma wps_syncLedgixErp:
  "wps (syncLedgixErp w ev i) (\<lambda>r s'. sends (sync_keys i) 9 s r s' \<and>
     (case r of Inl e \<Rightarrow> True | Inr x \<Rightarrow> (case outcome_conn x of None \<Rightarrow> True
        | Some c \<Rightarrow> c \<in> erp_id ` set (erpConnections s)))) s"
proof (cases "erp_connection_of (fe_organizationId ev) s")
  case (Some c)
  then have c: "c \<in> set (erpConnections s)"
    by (auto simp: erp_connection_of_def split: option.splits dest: find_SomeD)
  have chain: "wps (charge_chain w cr (erp_id c) ev i) (\<lambda>r s'. sends (sync_keys i) 9 s r s' \<and>
      (case r of Inl e \<Rightarrow> True | Inr x \<Rightarrow> (case outcome_conn x of None \<Rightarrow> True
        | Some c \<Rightarrow> c \<in> erp_id ` set (erpConnections s)))) s" for cr
    by (rule wps_mono [OF wps_conj [OF wps_charge_chain wps_charge_conn]]) (use c in \<open>auto split: sum.splits\<close>)
  have pure: "sends (sync_keys i) 9 s (Inr x) s" "sends (sync_keys i) 9 s (Inl (JsError m)) s" for x m
    by (simp_all add: sends_def only_calls_refl)
  show ?thesis
    unfolding syncLedgixErp_def using Some c
    by (cases "world_decrypt w (erp_encryptedApiKey c) (erp_iv c) (erp_authTag c)")
       (simp_all add: wp pure chain del: outcome_conn.simps; simp)+
qed (simp add: syncLedgixErp_def wp sends_def only_calls_refl)

section \<open>Answers in text\<close>

text \<open>What a value must be for the database to take it: an id or reference number that is not falsy is a string
  without NUL.\<close>

definition text_json :: "json \<Rightarrow> bool" where
  "text_json j \<longleftrightarrow> (\<exists>x. j = JStr x \<and> storable_text x)"

definition text_value :: "json \<Rightarrow> bool" where
  "text_value v \<longleftrightarrow> (\<forall>k \<in> {''id'', ''referenceNumber''}. case response_field k v of None \<Rightarrow> True | Some j \<Rightarrow> text_json j)"

text \<open>The ERP answers, and everything fails, in text.\<close>

definition text_answers :: "erp_world \<Rightarrow> bool" where
  "text_answers w \<longleftrightarrow>
     (\<forall>sent req. case world_fetch w sent req of Inl m \<Rightarrow> storable_text m
        | Inr resp \<Rightarrow> storable_text (resp_text resp)
            \<and> (case resp_json resp of Inl m \<Rightarrow> storable_text m | Inr v \<Rightarrow> text_value v))
     \<and> (\<forall>a b c. case world_decrypt w a b c of Inl m \<Rightarrow> storable_text m | Inr k \<Rightarrow> True)"

definition textual :: "('a \<Rightarrow> bool) \<Rightarrow> exn + 'a \<Rightarrow> bool" where
  "textual P r \<longleftrightarrow> (case r of Inl e \<Rightarrow> storable_text (exn_message e) | Inr x \<Rightarrow> P x)"

lemma textual_simps [simp]: "textual P (Inl e) = storable_text (exn_message e)" "textual P (Inr x) = P x"
  by (simp_all add: textual_def)

lemma storable_append [simp]: "storable_text (a @ b) \<longleftrightarrow> storable_text a \<and> storable_text b"
  by (auto simp: storable_text_def)

lemma storable_take: "storable_text a \<Longrightarrow> storable_text (take n a)"
  by (auto simp: storable_text_def dest: in_set_takeD)

lemma storable_nat: "storable_text (nat_str n)"
proof (induction n rule: nat_str.induct)
  case (1 n)
  have "CHR 0x00 \<noteq> digit_char d" if "d < 10" for d
  proof
    assume "CHR 0x00 = digit_char d"
    from this [symmetric] have "of_char (digit_char d) = (0 :: nat)" by simp
    with digit_char_code [OF that] show False by simp
  qed
  with 1 show ?case by (cases "n < 10") (simp_all add: nat_str_small nat_str_big storable_text_def)
qed

lemma storable_int: "storable_text (int_str i)"
  using storable_nat by (simp add: int_str_def storable_text_def)

lemma read_plain:
  assumes "text_answers w" and "storable_text path"
  shows "case read_response path (world_fetch w sent req) of Inl m \<Rightarrow> storable_text m | Inr v \<Rightarrow> text_value v"
proof -
  have "case world_fetch w sent req of Inl m \<Rightarrow> storable_text m | Inr resp \<Rightarrow> storable_text (resp_text resp)
            \<and> (case resp_json resp of Inl m \<Rightarrow> storable_text m | Inr v \<Rightarrow> text_value v)"
    using assms(1) unfolding text_answers_def by blast
  then show ?thesis
    using assms(2) storable_int storable_take
    by (auto simp: read_response_def text_value_def response_field_def split: sum.splits)
       (auto simp: storable_text_def)
qed

lemma plain_request_loop:
  assumes "text_answers w" and "storable_text path"
  shows "wps (request_loop w path req n) (\<lambda>r s'. textual text_value r) s"
proof (induction n arbitrary: s)
  case 0
  then show ?case using assms(2) by (simp add: wp) (simp add: storable_text_def)
next
  case (Suc n)
  then show ?case using read_plain [OF assms, of "erpCalls s" req]
    by (auto simp: fetch_def wp split: sum.splits)
qed

lemma wps_bnd_plain:
  assumes "\<And>s. wps m (\<lambda>r s'. textual P r) s" and "\<And>x s. P x \<Longrightarrow> wps (f x) (\<lambda>r s'. textual Q r) s"
  shows "wps (bnd m f) (\<lambda>r s'. textual Q r) s"
  unfolding wps_bnd by (rule wps_mono [OF assms(1)]) (auto split: sum.splits intro: assms(2))

lemma plain_connector:
  assumes "text_answers w"
  shows "wps (createInvoice w conn cr am cu de ta di key) (\<lambda>r s'. textual (\<lambda>(i, n). text_json i \<and> text_json n) r) s"
    and "text_json iv \<Longrightarrow> wps (createReceipt w conn iv am cu key) (\<lambda>r s'. textual (\<lambda>(i, n). text_json i \<and> text_json n) r) s"
    and "text_json rc \<Longrightarrow> wps (recordPayment w conn rc pm rf key) (\<lambda>r s'. textual text_json r) s"
proof -
  have req: "wps (erp_request w conn path body key) (\<lambda>r s'. textual text_value r) s" if "storable_text path" for path body key s
    unfolding erp_request_def by (rule plain_request_loop [OF assms that])
  have paths: "storable_text ''invoices''" by (simp add: storable_text_def)
  show "wps (createInvoice w conn cr am cu de ta di key) (\<lambda>r s'. textual (\<lambda>(i, n). text_json i \<and> text_json n) r) s"
    unfolding createInvoice_def
    by (rule wps_bnd_plain [OF req [OF paths]])
       (auto simp: wp text_value_def storable_text_def split: option.splits)
  show "text_json iv \<Longrightarrow> wps (createReceipt w conn iv am cu key) (\<lambda>r s'. textual (\<lambda>(i, n). text_json i \<and> text_json n) r) s"
    unfolding createReceipt_def
    by (rule wps_bnd_plain [OF req]) (auto simp: wp text_value_def storable_text_def text_json_def split: option.splits)
  show "text_json rc \<Longrightarrow> wps (recordPayment w conn rc pm rf key) (\<lambda>r s'. textual text_json r) s"
    unfolding recordPayment_def
    by (rule wps_bnd_plain [OF req]) (auto simp: wp text_value_def storable_text_def text_json_def split: option.splits)
qed

text \<open>An outcome that the database takes.\<close>

fun accepted_outcome :: "sync_outcome \<Rightarrow> bool" where
  "accepted_outcome (Synced c i r n m) \<longleftrightarrow> accepted_column i \<and> accepted_column r \<and> accepted_column n \<and> storable m"
| "accepted_outcome (NotSynced c e) \<longleftrightarrow> storable_text (exn_message e)"

lemma text_json_accepted: "text_json j \<Longrightarrow> accepted_column (Some j)" "text_json j \<Longrightarrow> storable j"
  by (auto simp: text_json_def accepted_column_def)

lemma accepted_none [simp]: "accepted_column None"
  by (simp add: accepted_column_def)

lemma plain_charge_chain:
  assumes "text_answers w"
  shows "wps (charge_chain w cr c ev i) (\<lambda>r s'. textual accepted_outcome r) s"
  unfolding charge_chain_def Let_def
proof (rule wps_bnd_plain [OF plain_connector(1) [OF assms]], clarsimp)
  fix iv ivn s assume iv: "text_json iv" "text_json ivn"
  show "wps (bnd (createReceipt w cr iv am cu key) (\<lambda>(rc, rcn). bnd (recordPayment w cr rc pm rf key') (\<lambda>n.
      ret (Synced (Some c) (Some iv) (Some rc) (Some n) (JObj [(''invoiceReferenceNumber'', ivn),
        (''receiptReferenceNumber'', rcn), (''paymentReferenceNumber'', n)])))))
    (\<lambda>r s'. textual accepted_outcome r) s" for am cu key pm rf key' and s :: "'z fin_db_scheme"
  proof (rule wps_bnd_plain [OF plain_connector(2) [OF assms iv(1)]], clarsimp)
    fix rc rcn s assume rc: "text_json rc" "text_json rcn"
    show "wps (bnd (recordPayment w cr rc pm rf key') (\<lambda>n.
        ret (Synced (Some c) (Some iv) (Some rc) (Some n) (JObj [(''invoiceReferenceNumber'', ivn),
          (''receiptReferenceNumber'', rcn), (''paymentReferenceNumber'', n)]))))
      (\<lambda>r s'. textual accepted_outcome r) s" for s :: "'z fin_db_scheme"
      by (rule wps_bnd_plain [OF plain_connector(3) [OF assms rc(1)]])
         (use iv rc in \<open>simp add: wp text_json_accepted, simp add: storable_text_def\<close>)
  qed
qed

lemma plain_syncLedgixErp:
  assumes "text_answers w"
  shows "wps (syncLedgixErp w ev i) (\<lambda>r s'. textual accepted_outcome r) s"
proof -
  have "storable_text m" if "world_decrypt w a b c = Inl m" for a b c m
    using assms that unfolding text_answers_def by (metis old.sum.simps(5))
  then show ?thesis
    unfolding syncLedgixErp_def
    by (auto simp: wp plain_charge_chain [OF assms] storable_text_def [of "''ERP not connected''"] split: option.splits sum.splits)
qed

section \<open>Outcome of an attempt\<close>

definition fail_sync :: "time \<times> (id option \<times> exn) \<Rightarrow> fin_sync \<Rightarrow> fin_sync" where
  "fail_sync te y = y
     \<lparr>fs_status := (if MAX_ATTEMPTS \<le> fs_attemptCount y + 1 then SyncStatus.DEAD_LETTER else SyncStatus.RETRYING),
      fs_attemptCount := fs_attemptCount y + 1,
      fs_nextAttemptAt := (if MAX_ATTEMPTS \<le> fs_attemptCount y + 1 then None
                           else Some (retry_at (fst te) (fs_attemptCount y + 1))),
      fs_erpConnectionId := keepUndef (map_option Some (fst (snd te))) (fs_erpConnectionId y)\<rparr>"

interpretation sync_engine: retry_engine fs_attemptCount "\<lambda>_. MAX_ATTEMPTS"
    "\<lambda>y. fs_status y = SyncStatus.RETRYING" fs_nextAttemptAt fail_sync
  by unfold_locales (auto simp: fail_sync_def)

text \<open>The tables an attempt leaves: how the row, its history and its error record relate.\<close>

definition settled :: "id \<Rightarrow> 'z fin_db_scheme \<Rightarrow> 'z fin_db_scheme \<Rightarrow> bool" where
  "settled i s s' \<longleftrightarrow> (\<exists>y y' e. List.find (\<lambda>y. fs_id y = i) (finSyncs s) = Some y
     \<and> List.find (\<lambda>y. fs_id y = i) (finSyncs s') = Some y'
     \<and> fs_status y' \<in> {SyncStatus.SUCCESS, SyncStatus.RETRYING, SyncStatus.DEAD_LETTER}
     \<and> (fs_status y' = SyncStatus.SUCCESS \<or> (\<exists>te. y' = fail_sync te y))
     \<and> syncHistory s' = syncHistory s @ [\<lparr>sh_financialSyncId = i, sh_attemptNumber = fs_attemptCount y + 1,
         sh_status = fs_status y', sh_error = e\<rparr>]
     \<and> (fs_status y' \<noteq> SyncStatus.DEAD_LETTER \<or> i \<in> se_financialSyncId ` set (syncErrors s'))
     \<and> finEvents s' = finEvents s \<and> syncQueue s' = syncQueue s \<and> length (finSyncs s') = length (finSyncs s)
     \<and> map fs_financialEventId (finSyncs s') = map fs_financialEventId (finSyncs s)
     \<and> map fs_id (finSyncs s') = map fs_id (finSyncs s) \<and> nextId s' = nextId s)"

lemma settled_calls [simp]: "settled i (erpCalls_update f s) s' \<longleftrightarrow> settled i s s'"
  by (simp add: settled_def)

lemma find_fs_id: "List.find (\<lambda>y. fs_id y = i) ys = Some y \<Longrightarrow> fs_id y = i"
  by (auto dest: find_SomeD)

lemma wps_sync_succeed:
  assumes "List.find (\<lambda>y. fs_id y = i) (finSyncs s) = Some y"
    and "case c of None \<Rightarrow> True | Some k \<Rightarrow> k \<in> erp_id ` set (erpConnections s)"
    and ok: "accepted_outcome (Synced c a b r m)"
  shows "wps (sync_succeed y c a b r m) (\<lambda>x s'. x = Inr () \<and> settled i s s' \<and> erpCalls s' = erpCalls s) s"
proof -
  have i: "fs_id y = i" using assms(1) by (rule find_fs_id)
  have found: "List.find (\<lambda>x. erp_id x = k) (erpConnections s) \<noteq> None" if "c = Some k" for k
    using assms(2) that by (auto simp: find_None_iff)
  show ?thesis
    using assms(1) found ok
    by (cases c) (auto simp: sync_succeed_def wp i settled_def find_upd_where_same map_upd_where)
qed

lemma wps_refused:
  "\<not> accepted_outcome (Synced c a b r m) \<Longrightarrow> wps (sync_succeed y c a b r m) (\<lambda>x s'. (\<exists>msg. x = Inl (JsError msg)) \<and> s' = s) s"
  "\<not> accepted_outcome (NotSynced c e) \<Longrightarrow> wps (sync_fail y org c e) (\<lambda>x s'. (\<exists>msg. x = Inl (JsError msg)) \<and> s' = s) s"
  by (auto simp: sync_succeed_def sync_fail_def wp Let_def)

lemma wps_sync_fail:
  assumes "List.find (\<lambda>y. fs_id y = i) (finSyncs s) = Some y"
    and ok: "accepted_outcome (NotSynced c e)"
  shows "wps (sync_fail y org c e) (\<lambda>x s'. x = Inr () \<and> settled i s s' \<and> erpCalls s' = erpCalls s) s"
proof -
  have i: "fs_id y = i" using assms(1) by (rule find_fs_id)
  have eq: "y\<lparr>fs_status := if MAX_ATTEMPTS \<le> Suc (fs_attemptCount y) then SyncStatus.DEAD_LETTER else SyncStatus.RETRYING,
      fs_attemptCount := Suc (fs_attemptCount y),
      fs_nextAttemptAt := if MAX_ATTEMPTS \<le> Suc (fs_attemptCount y) then None
        else Some (retry_at (clock s) (Suc (fs_attemptCount y))),
      fs_erpConnectionId := keepUndef (map_option Some c) (fs_erpConnectionId y)\<rparr> = fail_sync (clock s, (c, e)) y"
    by (simp add: fail_sync_def)
  have row: "map_option (\<lambda>y. y\<lparr>fs_status := st, fs_attemptCount := k, fs_nextAttemptAt := at,
        fs_erpConnectionId := keepUndef (map_option Some c) (fs_erpConnectionId y)\<rparr>)
      (List.find (\<lambda>y. fs_id y = i) (finSyncs s))
    = Some (y\<lparr>fs_status := st, fs_attemptCount := k, fs_nextAttemptAt := at,
        fs_erpConnectionId := keepUndef (map_option Some c) (fs_erpConnectionId y)\<rparr>)" for st k at
    by (simp add: assms)
  have known: "i \<in> se_financialSyncId ` set (upd_where (\<lambda>x. se_financialSyncId x = i) f (syncErrors s))"
    if "List.find (\<lambda>x. se_financialSyncId x = i) (syncErrors s) = Some x" "\<And>x. se_financialSyncId (f x) = se_financialSyncId x" for f x
  proof -
    have "map se_financialSyncId (upd_where (\<lambda>x. se_financialSyncId x = i) f (syncErrors s)) = map se_financialSyncId (syncErrors s)"
      by (rule map_upd_where) (rule that(2))
    then have "se_financialSyncId ` set (upd_where (\<lambda>x. se_financialSyncId x = i) f (syncErrors s)) = se_financialSyncId ` set (syncErrors s)"
      by (metis set_map)
    then show ?thesis using find_SomeD [OF that(1)] by auto
  qed
  have step: "wps (sync_fail y org c e) (\<lambda>x s'. x = Inr ()
     \<and> List.find (\<lambda>y. fs_id y = i) (finSyncs s') = Some (fail_sync (clock s, (c, e)) y)
     \<and> syncHistory s' = syncHistory s @ [\<lparr>sh_financialSyncId = i, sh_attemptNumber = fs_attemptCount y + 1,
         sh_status = fs_status (fail_sync (clock s, (c, e)) y), sh_error = Some e\<rparr>]
     \<and> (fs_status (fail_sync (clock s, (c, e)) y) \<noteq> SyncStatus.DEAD_LETTER \<or> i \<in> se_financialSyncId ` set (syncErrors s'))
     \<and> finEvents s' = finEvents s \<and> syncQueue s' = syncQueue s \<and> length (finSyncs s') = length (finSyncs s)
     \<and> map fs_financialEventId (finSyncs s') = map fs_financialEventId (finSyncs s)
     \<and> map fs_id (finSyncs s') = map fs_id (finSyncs s) \<and> nextId s' = nextId s \<and> erpCalls s' = erpCalls s) s"
    by (cases "MAX_ATTEMPTS \<le> Suc (fs_attemptCount y)")
       (use ok in \<open>auto simp: sync_fail_def upsert_sync_error_def wp Let_def i assms find_upd_where_same map_upd_where row fail_sync_def
         known split: option.split\<close>)
  show ?thesis
    by (rule wps_mono [OF step]) (use assms in \<open>auto simp: settled_def fail_sync_def\<close>)
qed

text \<open>An attempt has thrown and has written nothing.\<close>

definition sync_thrown :: "'z fin_db_scheme \<Rightarrow> exn + unit \<Rightarrow> 'z fin_db_scheme \<Rightarrow> bool" where
  "sync_thrown s r s' \<longleftrightarrow> (\<exists>m. r = Inl (JsError m)) \<and> (\<exists>reqs. s' = erpCalls_update (\<lambda>cs. cs @ reqs) s)"

definition attempted :: "erp_world \<Rightarrow> id \<Rightarrow> 'z fin_db_scheme \<Rightarrow> exn + unit \<Rightarrow> 'z fin_db_scheme \<Rightarrow> bool" where
  "attempted w i s r s' \<longleftrightarrow> (r = Inr () \<and> settled i s s' \<or> \<not> text_answers w \<and> sync_thrown s r s')
     \<and> (\<exists>reqs. erpCalls s' = erpCalls s @ reqs \<and> length reqs \<le> 9 \<and> req_idempotencyKey ` set reqs \<subseteq> sync_keys i)"

definition finish_sync :: "fin_sync \<Rightarrow> id \<Rightarrow> sync_outcome \<Rightarrow> ('z fin_db_scheme, unit) svc" where
  "finish_sync y org outcome = (case outcome of Synced c a b r m \<Rightarrow> sync_succeed y c a b r m | NotSynced c e \<Rightarrow> sync_fail y org c e)"

lemma wps_finish_sync:
  assumes row: "List.find (\<lambda>y. fs_id y = i) (finSyncs s) = Some y"
    and reqs: "length reqs \<le> 9" "req_idempotencyKey ` set reqs \<subseteq> sync_keys i"
    and c: "case outcome_conn outcome of None \<Rightarrow> True | Some c \<Rightarrow> c \<in> erp_id ` set (erpConnections s)"
    and ok: "text_answers w \<Longrightarrow> accepted_outcome outcome"
  shows "wps (finish_sync y org outcome) (attempted w i s) (erpCalls_update (\<lambda>cs. cs @ reqs) s)"
proof (cases "accepted_outcome outcome")
  case True
  have "wps (finish_sync y org outcome) (\<lambda>x s'. x = Inr () \<and> settled i (erpCalls_update (\<lambda>cs. cs @ reqs) s) s'
      \<and> erpCalls s' = erpCalls (erpCalls_update (\<lambda>cs. cs @ reqs) s)) (erpCalls_update (\<lambda>cs. cs @ reqs) s)"
  proof (cases outcome)
    case (Synced c a b r m)
    show ?thesis unfolding finish_sync_def Synced sync_outcome.case
      by (rule wps_sync_succeed) (use row c True Synced in \<open>simp_all split: option.splits\<close>)
  next
    case (NotSynced c e)
    show ?thesis unfolding finish_sync_def NotSynced sync_outcome.case
      by (rule wps_sync_fail) (use row True NotSynced in simp_all)
  qed
  then show ?thesis by (rule wps_mono) (use reqs in \<open>auto simp: attempted_def\<close>)
next
  case False
  have "wps (finish_sync y org outcome) (\<lambda>x s'. (\<exists>msg. x = Inl (JsError msg)) \<and> s' = erpCalls_update (\<lambda>cs. cs @ reqs) s)
      (erpCalls_update (\<lambda>cs. cs @ reqs) s)"
    using False wps_refused by (cases outcome) (simp_all add: finish_sync_def)
  then show ?thesis by (rule wps_mono) (use reqs ok False in \<open>auto simp: attempted_def sync_thrown_def\<close>)
qed

lemma attemptSync_outcome:
  assumes row: "List.find (\<lambda>y. fs_id y = i) (finSyncs s) = Some y"
    and "fs_financialEventId y \<in> fe_id ` set (finEvents s)"
  shows "attempted w i s (fst (attemptSync w i s)) (snd (attemptSync w i s))"
proof -
  obtain ev where ev: "List.find (\<lambda>e. fe_id e = fs_financialEventId y) (finEvents s) = Some ev"
    using assms(2) by (cases "List.find (\<lambda>e. fe_id e = fs_financialEventId y) (finEvents s)") (auto simp: find_None_iff')
  let ?finish = "finish_sync y (fe_organizationId ev)"
  have "wps (attemptSync w i) (attempted w i s) s"
  proof (cases "fs_provider y = INTERNAL")
    case True
    have "wps (?finish (Synced None None None None (JObj []))) (attempted w i s) (erpCalls_update (\<lambda>cs. cs @ []) s)"
      by (rule wps_finish_sync [OF row]) simp_all
    moreover have "erpCalls_update (\<lambda>cs. cs) s = s" by (cases s) simp
    ultimately show ?thesis using True row ev by (simp add: attemptSync_def wp finish_sync_def)
  next
    case False
    have run: "wps (syncLedgixErp w ev i) (\<lambda>r s'. case r of
         Inl e \<Rightarrow> e \<noteq> Diverges \<and> wps (?finish (NotSynced None e)) (attempted w i s) s'
       | Inr outcome \<Rightarrow> wps (?finish outcome) (attempted w i s) s') s"
    proof (rule wps_mono [OF wps_conj [OF wps_syncLedgixErp, where Q = "\<lambda>r s'. text_answers w \<longrightarrow> textual accepted_outcome r"]], goal_cases)
      case 1
      then show ?case using plain_syncLedgixErp [of w ev i s] by (cases "text_answers w") (simp_all add: wps_run)
    next
      case (2 r s')
      then obtain reqs where reqs: "s' = erpCalls_update (\<lambda>cs. cs @ reqs) s" "length reqs \<le> 9"
        "req_idempotencyKey ` set reqs \<subseteq> sync_keys i" "r \<noteq> Inl Diverges"
        by (auto simp: sends_def only_calls_def)
      note finish = wps_finish_sync [OF row reqs(2,3), of _ w "fe_organizationId ev"]
      show ?case
      proof (cases r)
        case (Inl e)
        then show ?thesis using finish [of "NotSynced None e"] reqs(1,4) 2 by simp
      next
        case (Inr outcome)
        then show ?thesis using finish [of outcome] reqs(1) 2 by simp
      qed
    qed
    show ?thesis
      unfolding attemptSync_def wps_bnd wps_find_row wps_find_or_throw wps_option finish_sync_def [symmetric]
      using False row ev
      by (simp add: wps_try_catch wps_ret wps_bnd cong: sum.case_cong; intro wps_mono [OF run]; auto split: sum.splits)
  qed
  then show ?thesis by (simp add: wps_run)
qed


definition fin_blank :: fin_db where
  "fin_blank = \<lparr>clock = 0, nextId = 100, audits = [], platformEvents = [], automationRules = [], jobs = [],
     jobHistory = [], queueControls = [], finIntegrations = [], erpConnections = [], finEvents = [], syncQueue = [],
     finSyncs = [], syncHistory = [], syncErrors = [], erpCalls = []\<rparr>"

definition sample_fin_event :: fin_event where
  "sample_fin_event = \<lparr>fe_id = 1, fe_organizationId = 9,
     fe_refs = \<lparr>fr_applicationId = None, fr_customerId = None, fr_subscriptionId = None\<rparr>,
     fe_type = PAYMENT_SUCCEEDED, fe_payload = JObj [], fe_idempotencyKey = None\<rparr>"

definition sample_sync :: fin_sync where
  "sample_sync = \<lparr>fs_id = 2, fs_financialEventId = 1, fs_erpConnectionId = None, fs_provider = LEDGIX_ERP,
     fs_status = SyncStatus.PENDING, fs_attemptCount = 0, fs_nextAttemptAt = None, fs_erpReferenceNumber = None,
     fs_erpInvoiceId = None, fs_erpReceiptId = None, fs_createdAt = 0, fs_completedAt = None\<rparr>"

definition sample_fin :: fin_db where
  "sample_fin = fin_blank\<lparr>finEvents := [sample_fin_event], finSyncs := [sample_sync],
     syncQueue := [\<lparr>sq_financialEventId = 1, sq_status = SyncStatus.PENDING\<rparr>]\<rparr>"

definition dead_world :: erp_world where
  "dead_world = \<lparr>world_fetch = (\<lambda>_ _. Inl ''timeout''), world_decrypt = (\<lambda>_ _ _. Inr ''key'')\<rparr>"


text \<open>An ERP that numbers its invoices is never settled with: it books the invoice, the receipt and the payment,
  and then the attempt throws, because a number is refused by the text columns; the row stays PENDING with no
  attempt counted and is due again, however often the sweep takes it.\<close>

definition numbering_world :: erp_world where
  "numbering_world = \<lparr>world_fetch = (\<lambda>_ _. Inr \<lparr>resp_status = 201, resp_text = ''{}'',
       resp_json = Inr (JObj [(''id'', JInt 7), (''referenceNumber'', JStr ''R7'')])\<rparr>),
     world_decrypt = (\<lambda>_ _ _. Inr ''key'')\<rparr>"

definition connected_fin :: fin_db where
  "connected_fin = sample_fin
     \<lparr>finIntegrations := [\<lparr>fi_id = 5, fi_organizationId = 9, fi_provider = LEDGIX_ERP\<rparr>],
      erpConnections := [\<lparr>erp_id = 6, erp_financialIntegrationId = 5, erp_baseUrl = ''https://erp'', erp_companyId = ''c'',
        erp_encryptedApiKey = [], erp_iv = [], erp_authTag = [], erp_apiVersion = ''v1'',
        erp_status = ERPConnectionStatus.CONNECTED, erp_lastSyncedAt = None\<rparr>]\<rparr>"

lemma numbered_attempt:
  "\<exists>reqs. attemptSync numbering_world 2 (connected_fin\<lparr>erpCalls := cs\<rparr>)
     = (Inl (JsError ''Invalid value provided. Expected String, NullableStringFieldUpdateOperationsInput or Null''),
        connected_fin\<lparr>erpCalls := cs @ reqs\<rparr>) \<and> length reqs = 3"
proof -
  have "wps (attemptSync numbering_world 2) (\<lambda>r s'. \<exists>reqs. (r, s')
     = (Inl (JsError ''Invalid value provided. Expected String, NullableStringFieldUpdateOperationsInput or Null''),
        connected_fin\<lparr>erpCalls := cs @ reqs\<rparr>) \<and> length reqs = 3) (connected_fin\<lparr>erpCalls := cs\<rparr>)"
    by (simp add: attemptSync_def wp connected_fin_def sample_fin_def fin_blank_def sample_sync_def sample_fin_event_def
        syncLedgixErp_def erp_connection_of_def requires_erp_charge_def numbering_world_def charge_chain_def Let_def
        createInvoice_def createReceipt_def recordPayment_def erp_request_def MAX_HTTP_ATTEMPTS_def eval_nat_numeral fetch_def
        read_response_def response_field_def sync_succeed_def accepted_column_def)
  then show ?thesis by (simp add: wps_def split: prod.splits)
qed

theorem numbered_answers_never_settle:
  "\<exists>reqs. ((\<lambda>s. snd (attemptSync numbering_world 2 s)) ^^ n) connected_fin = connected_fin\<lparr>erpCalls := reqs\<rparr>
     \<and> length reqs = 3 * n"
proof (induction n)
  case 0
  then show ?case by (intro exI [of _ "[]"]) (simp add: connected_fin_def sample_fin_def fin_blank_def)
next
  case (Suc n)
  then obtain reqs where "((\<lambda>s. snd (attemptSync numbering_world 2 s)) ^^ n) connected_fin = connected_fin\<lparr>erpCalls := reqs\<rparr>"
    "length reqs = 3 * n" by blast
  with numbered_attempt [of reqs] show ?case by (auto intro: exI [of _ "reqs @ r" for r])
qed

section \<open>Recording is idempotent\<close>

definition recorded :: "string \<Rightarrow> 'z fin_db_scheme \<Rightarrow> nat" where
  "recorded k s = count_where (\<lambda>e. fe_idempotencyKey e = Some k) (finEvents s)"

definition event_row :: "id \<Rightarrow> id \<Rightarrow> FinancialEventType \<Rightarrow> json \<Rightarrow> fin_refs \<Rightarrow> string option \<Rightarrow> fin_event" where
  "event_row i org type payload refs key = \<lparr>fe_id = i, fe_organizationId = org, fe_refs = refs, fe_type = type,
     fe_payload = payload, fe_idempotencyKey = key\<rparr>"

definition sync_row :: "id \<Rightarrow> id \<Rightarrow> FinancialProviderType \<Rightarrow> time \<Rightarrow> fin_sync" where
  "sync_row i evId provider t = \<lparr>fs_id = i, fs_financialEventId = evId, fs_erpConnectionId = None, fs_provider = provider,
     fs_status = SyncStatus.PENDING, fs_attemptCount = 0, fs_nextAttemptAt = None, fs_erpReferenceNumber = None,
     fs_erpInvoiceId = None, fs_erpReceiptId = None, fs_createdAt = t, fs_completedAt = None\<rparr>"

definition queue_row :: "id \<Rightarrow> sync_queue" where
  "queue_row evId = \<lparr>sq_financialEventId = evId, sq_status = SyncStatus.PENDING\<rparr>"

lemma row_ids [simp]:
  "fe_id (event_row i org type payload refs key) = i" "fe_idempotencyKey (event_row i org type payload refs key) = key"
  "fs_id (sync_row i evId provider t) = i" "fs_financialEventId (sync_row i evId provider t) = evId"
  "sq_financialEventId (queue_row evId) = evId"
  by (simp_all add: event_row_def sync_row_def queue_row_def)

lemma wps_create_trio:
  "wps (create_trio org type payload refs key provider) Q s =
   (if \<exists>e \<in> set (finEvents s). same_key (fe_idempotencyKey e) key then Q (Inl (PrismaError ''P2002'')) s
    else Q (Inr (nextId s)) (finSyncs_update (\<lambda>ys. ys @ [sync_row (Suc (nextId s)) (nextId s) provider (clock s)])
      (nextId_update (\<lambda>n. Suc (Suc n)) (syncQueue_update (\<lambda>qs. qs @ [queue_row (nextId s)])
        (finEvents_update (\<lambda>es. es @ [event_row (nextId s) org type payload refs key]) s)))))"
proof (cases "List.find (\<lambda>e. same_key (fe_idempotencyKey e) key) (finEvents s)")
  case None
  then have "\<not> (\<exists>e \<in> set (finEvents s). same_key (fe_idempotencyKey e) key)" by (simp add: find_None_iff')
  with None show ?thesis by (simp add: create_trio_def wp comp_def event_row_def sync_row_def queue_row_def)
next
  case (Some e)
  then have "\<exists>e \<in> set (finEvents s). same_key (fe_idempotencyKey e) key" by (auto dest: find_SomeD)
  with Some show ?thesis by (simp add: create_trio_def wp)
qed

lemma wps_getWithSync: "wps (getWithSync i) Q s = Q (fst (getWithSync i s)) s"
  by (simp add: getWithSync_def wp run)

lemma run_getWithSync: "snd (getWithSync i s) = s" "fst (getWithSync i s) \<noteq> Inl e"
  by (simp_all add: getWithSync_def run)

lemma record_event_known:
  assumes "0 < recorded k s"
  shows "snd (record_event org type payload refs u m (Some k) s) = s"
proof -
  have ex: "\<exists>e \<in> set (finEvents s). same_key (fe_idempotencyKey e) (Some k)"
    using assms by (auto simp: recorded_def count_where_def same_key_def filter_empty_conv)
  then obtain e where e: "List.find (\<lambda>e. fe_idempotencyKey e = Some k) (finEvents s) = Some e"
    by (cases "List.find (\<lambda>e. fe_idempotencyKey e = Some k) (finEvents s)") (auto simp: find_None_iff' same_key_def)
  have "wps (record_event org type payload refs u m (Some k)) (\<lambda>r s'. s' = s) s"
    using ex e by (auto simp: record_event_def record_new_def wp wps_create_trio wps_getWithSync)
  then show ?thesis by (simp add: wps_run)
qed

lemma record_event_new:
  assumes "key = None \<or> (\<exists>k. key = Some k \<and> recorded k s = 0)"
  shows "let s' = snd (record_event org type payload refs u m key s); i = nextId s in
       finEvents s' = finEvents s @ [event_row i org type payload refs key]
       \<and> finSyncs s' = finSyncs s @ [sync_row (Suc i) i (fin_provider_of org (finIntegrations s)) (clock s)]
       \<and> syncQueue s' = syncQueue s @ [queue_row i] \<and> nextId s' = Suc (Suc i)
       \<and> isl (fst (record_event org type payload refs u m key s)) = False"
proof -
  have none: "\<not> (\<exists>e \<in> set (finEvents s). same_key (fe_idempotencyKey e) key)"
    using assms by (auto simp: same_key_def recorded_def count_where_def filter_empty_conv)
  have miss: "List.find (\<lambda>e. fe_idempotencyKey e = key) (finEvents s) = None" if "truthy key"
    using none that by (cases key) (auto simp: find_None_iff' same_key_def)
  have "wps (record_event org type payload refs u m key) (\<lambda>r s'. let i = nextId s in
       finEvents s' = finEvents s @ [event_row i org type payload refs key]
       \<and> finSyncs s' = finSyncs s @ [sync_row (Suc i) i (fin_provider_of org (finIntegrations s)) (clock s)]
       \<and> syncQueue s' = syncQueue s @ [queue_row i] \<and> nextId s' = Suc (Suc i) \<and> isl r = False) s"
    using none miss
    by (auto simp: record_event_def record_new_def wp wps_create_trio getWithSync_def Let_def)
  then show ?thesis by (simp add: wps_run Let_def)
qed

lemma record_event_other:
  assumes "Some k \<noteq> key"
  shows "recorded k (snd (record_event org type payload refs u m key s)) = recorded k s"
proof (cases "key = None \<or> (\<exists>k. key = Some k \<and> recorded k s = 0)")
  case True
  from record_event_new [OF this, of org type payload refs u m] assms show ?thesis
    by (auto simp: Let_def recorded_def count_where_Cons)
next
  case False
  then obtain k' where "key = Some k'" "0 < recorded k' s" by (cases key) auto
  then show ?thesis by (simp add: record_event_known)
qed

text \<open>The arguments of a call other than its key.\<close>

type_synonym record_args = "id \<times> FinancialEventType \<times> json \<times> fin_refs \<times> id option \<times> request_meta"

definition record_call :: "string \<Rightarrow> record_args \<Rightarrow> 'z fin_db_scheme \<Rightarrow> 'z fin_db_scheme" where
  "record_call k a s = (case a of (org, type, payload, refs, u, m) \<Rightarrow> snd (record_event org type payload refs u m (Some k) s))"

interpretation ledger: keyed_recorder record_call recorded
proof
  fix k k' :: string and s :: "'a fin_db_scheme" and x :: record_args
  obtain org type payload refs u m where x: "x = (org, type, payload, refs, u, m)" by (cases x) auto
  show "0 < recorded k s \<Longrightarrow> record_call k x s = s" by (simp add: x record_call_def record_event_known)
  show new: "recorded k s = 0 \<Longrightarrow> recorded k (record_call k x s) = 1"
    using record_event_new [of "Some k" s org type payload refs u m]
    by (auto simp: x record_call_def Let_def recorded_def count_where_Cons)
  then show "recorded k s = 0 \<Longrightarrow> recorded k (record_call k x s) \<le> 1" by simp
  show "k \<noteq> k' \<Longrightarrow> recorded k (record_call k' x s) = recorded k s"
    by (simp add: x record_call_def record_event_other)
qed

text \<open>C5. Recording financial events is idempotent per key: after any sequence of calls, in any order and
  with any repetitions and payloads, a key that was called, or was there before, is booked exactly
  once (given that no key was booked twice before), and a key that was never called is not booked.\<close>
theorem record_event_once:
  assumes "recorded k s \<le> 1"
  shows "recorded k (fold (\<lambda>(k, a). record_call k a) calls s)
    = (if k \<in> fst ` set calls \<or> recorded k s = 1 then 1 else 0)"
  using assms by (auto simp: ledger.entries_fold)

theorem record_event_once_witness:
  "recorded ''pay:1'' (fold (\<lambda>(k, a). record_call k a)
     [(''pay:1'', (9, PAYMENT_SUCCEEDED, JNull, fe_refs sample_fin_event, None, no_meta)),
      (''pay:2'', (9, PAYMENT_SUCCEEDED, JNull, fe_refs sample_fin_event, None, no_meta)),
      (''pay:1'', (9, PAYMENT_SUCCEEDED, JNull, fe_refs sample_fin_event, None, no_meta))] sample_fin) = 1"
  by (subst record_event_once) (simp_all add: recorded_def sample_fin_def sample_fin_event_def fin_blank_def count_where_Cons)

section \<open>No financial data is lost\<close>

text \<open>Every event has its queue entry and its sync row, in the same order, and keys are distinct.\<close>

definition fin_wf :: "'z fin_db_scheme \<Rightarrow> bool" where
  "fin_wf s \<longleftrightarrow> map fs_financialEventId (finSyncs s) = map fe_id (finEvents s)
     \<and> map sq_financialEventId (syncQueue s) = map fe_id (finEvents s)
     \<and> distinct (map fe_id (finEvents s)) \<and> distinct (map fs_id (finSyncs s))
     \<and> (\<forall>e \<in> set (finEvents s). fe_id e < nextId s) \<and> (\<forall>i \<in> set (map fs_id (finSyncs s)). i < nextId s)"

lemma fin_wf_record:
  assumes wf: "fin_wf s"
  shows "fin_wf (snd (record_event org type payload refs u m key s))"
proof (cases "key = None \<or> (\<exists>k. key = Some k \<and> recorded k s = 0)")
  case True
  let ?i = "nextId s"
  from wf have fresh: "?i \<notin> set (map fe_id (finEvents s))" "Suc ?i \<notin> set (map fs_id (finSyncs s))"
    "\<forall>e \<in> set (finEvents s). fe_id e < Suc (Suc ?i)" "\<forall>i \<in> set (map fs_id (finSyncs s)). i < Suc (Suc ?i)"
    by (fastforce simp: fin_wf_def)+
  with record_event_new [OF True, of org type payload refs u m] wf show ?thesis
    unfolding fin_wf_def Let_def by simp
next
  case False
  then obtain k where "key = Some k" "0 < recorded k s" by (cases key) auto
  with wf show ?thesis by (simp add: record_event_known)
qed

lemma fin_wf_settled:
  assumes "fin_wf s" and "settled i s s'"
  shows "fin_wf s' \<and> finEvents s' = finEvents s"
  using assms unfolding fin_wf_def settled_def by (elim exE conjE) (simp only: simp_thms)

lemma fin_wf_attempt: "fin_wf s \<Longrightarrow> fin_wf (snd (attemptSync w i s)) \<and> finEvents (snd (attemptSync w i s)) = finEvents s"
proof (cases "List.find (\<lambda>y. fs_id y = i) (finSyncs s)")
  case None
  then show "fin_wf s \<Longrightarrow> ?thesis" by (simp add: attemptSync_def run)
next
  case (Some y)
  assume wf: "fin_wf s"
  then have "set (map fs_financialEventId (finSyncs s)) = set (map fe_id (finEvents s))" by (simp only: fin_wf_def)
  with find_SomeD [OF Some] have "fs_financialEventId y \<in> fe_id ` set (finEvents s)" by auto
  from attemptSync_outcome [OF Some this, of w] fin_wf_settled [OF wf] wf show ?thesis
    by (auto simp: attempted_def sync_thrown_def fin_wf_def)
qed

definition fin_kept :: "fin_event list \<Rightarrow> 'z fin_db_scheme \<Rightarrow> bool" where
  "fin_kept E s \<longleftrightarrow> fin_wf s \<and> finEvents s = E"

lemma kept_attempt [pres]: "preserves (fin_kept E) (attemptSync w i)"
  by (auto simp: preserves_def fin_kept_def fin_wf_attempt)

lemma kept_processDue: "preserves (fin_kept E) (fin_processDue w)"
  unfolding fin_processDue_def by (intro pres)

lemma kept_update_sync:
  assumes "\<And>y. fs_financialEventId (f y) = fs_financialEventId y" and "\<And>y. fs_id (f y) = fs_id y"
    and "fin_kept E s"
  shows "fin_kept E (finSyncs_update (upd_where P f) s)"
proof -
  have "map fs_financialEventId (upd_where P f (finSyncs s)) = map fs_financialEventId (finSyncs s)"
    "map fs_id (upd_where P f (finSyncs s)) = map fs_id (finSyncs s)"
    by (simp_all add: map_upd_where assms)
  with assms(3) show ?thesis
    unfolding fin_kept_def fin_wf_def by (elim conjE) (simp del: set_map)
qed

lemma kept_other [simp]:
  "fin_kept E (syncErrors_update f s) = fin_kept E s" "fin_kept E (audits_update g s) = fin_kept E s"
  by (simp_all add: fin_kept_def fin_wf_def)

lemma kept_retry: "preserves (fin_kept E) (fin_retry w org i u meta)"
  unfolding fin_retry_def audit_def audit_record_def now_def
  by (intro pres; (rule kept_update_sync)?; simp)

text \<open>C7. The recorder and the sync engine never lose financial data: every event keeps exactly one queue
  entry and one sync row, in the order of recording, under distinct identifiers; a sweep, an attempt
  and a manual retry leave the recorded events untouched, whatever the ERP answers, and recording
  only appends.\<close>
theorem financial_data_kept:
  assumes "fin_wf s"
  shows "fin_wf (snd (record_event org type payload refs u m key s))
    \<and> take (length (finEvents s)) (finEvents (snd (record_event org type payload refs u m key s))) = finEvents s
    \<and> fin_kept (finEvents s) (snd (attemptSync w i s)) \<and> fin_kept (finEvents s) (snd (fin_processDue w s))
    \<and> fin_kept (finEvents s) (snd (fin_retry w org i a m s))"
proof -
  have k: "fin_kept (finEvents s) s" using assms by (simp add: fin_kept_def)
  have "take (length (finEvents s)) (finEvents (snd (record_event org type payload refs u m key s))) = finEvents s"
  proof (cases "key = None \<or> (\<exists>k. key = Some k \<and> recorded k s = 0)")
    case True
    from record_event_new [OF True, of org type payload refs u m] show ?thesis by (simp add: Let_def)
  next
    case False
    then obtain k where "key = Some k" "0 < recorded k s" by (cases key) auto
    then show ?thesis by (simp add: record_event_known)
  qed
  with assms fin_wf_record preservesD [OF kept_attempt k] preservesD [OF kept_processDue k] preservesD [OF kept_retry k]
  show ?thesis by blast
qed

theorem financial_data_kept_witness:
  "fin_wf (snd (record_event 9 PAYMENT_SUCCEEDED JNull (fe_refs sample_fin_event) None no_meta (Some ''k'') sample_fin))
    \<and> take (length (finEvents sample_fin)) (finEvents (snd (record_event 9 PAYMENT_SUCCEEDED JNull
         (fe_refs sample_fin_event) None no_meta (Some ''k'') sample_fin))) = finEvents sample_fin
    \<and> fin_kept (finEvents sample_fin) (snd (attemptSync dead_world 2 sample_fin))
    \<and> fin_kept (finEvents sample_fin) (snd (fin_processDue dead_world sample_fin))
    \<and> fin_kept (finEvents sample_fin) (snd (fin_retry dead_world 9 2 7 no_meta sample_fin))"
  by (rule financial_data_kept)
     (simp add: fin_wf_def sample_fin_def fin_blank_def blank_def sample_sync_def sample_fin_event_def)

end
