(* ===== verification/Subscription_Data.thy ===== *)
theory Subscription_Data
  imports Financial Calendar Proration
begin

text \<open>
  The tables of the subscription engine (catalogue, customers, subscriptions and their satellites,
  coupons) as rows of the database state, with the enumerations of prisma/schema.prisma and the
  lookups several services share.
\<close>

section \<open>Enumerations\<close>

datatype ProductStatus = DRAFT | ACTIVE | ARCHIVED

datatype ProductVisibility = PRIVATE | INTERNAL | PUBLIC

datatype PlanBillingType = RECURRING | ONE_TIME

datatype PlanStatus = DRAFT | ACTIVE | ARCHIVED

datatype PriceStatus = ACTIVE | ARCHIVED | SCHEDULED

datatype SubscriptionStatus =
  INCOMPLETE | TRIALING | ACTIVE | PAST_DUE | GRACE_PERIOD | PAUSED | CANCELED | EXPIRED | SUSPENDED

datatype SubscriptionEventType =
  CREATED | TRIAL_STARTED | TRIAL_CONVERTED | TRIAL_CANCELED | TRIAL_EXPIRED | ACTIVATED | RENEWED
| UPGRADED | DOWNGRADED | INTERVAL_CHANGED | SEATS_CHANGED | PAUSED | RESUMED | CANCEL_SCHEDULED
| CANCELED | EXPIRED | SUSPENDED | REACTIVATED | PAYMENT_FAILED | GRACE_PERIOD_STARTED | PAST_DUE
| SCHEDULED_CHANGE_CREATED | SCHEDULED_CHANGE_APPLIED | SCHEDULED_CHANGE_CANCELED | COUPON_APPLIED
| COUPON_REMOVED

datatype SubscriptionChangeType =
  UPGRADE | DOWNGRADE | INTERVAL_CHANGE | SEAT_CHANGE | CANCEL_AT_PERIOD_END | PAUSE

datatype SubscriptionChangeStatus = PENDING | APPLIED | CANCELED

datatype ProrationReason = UPGRADE | DOWNGRADE | SEAT_INCREASE | SEAT_DECREASE | INTERVAL_CHANGE

datatype TrialStatus = ACTIVE | CONVERTED | CANCELED | EXPIRED

datatype CouponDiscountType = FIXED | PERCENTAGE

datatype CouponDuration = ONCE | REPEATING | FOREVER

datatype CouponStatus = ACTIVE | ARCHIVED | EXPIRED

datatype SubscriptionProvider =
  WEB | APPLE_APP_STORE | GOOGLE_PLAY | EASYPAISA | JAZZCASH | BANK_TRANSFER | MANUAL | OTHER

datatype ApplicationEnvironmentType = DEVELOPMENT | STAGING | PRODUCTION | SANDBOX

section \<open>Rows\<close>

record customer_row =
  cust_id :: id
  cust_organizationId :: id

record product_row =
  prod_id :: id
  prod_organizationId :: id
  prod_applicationId :: id
  prod_name :: string
  prod_slug :: string
  prod_description :: "string option"
  prod_status :: ProductStatus
  prod_visibility :: ProductVisibility
  prod_metadata :: "json option"
  prod_createdById :: id
  prod_createdAt :: time
  prod_archivedAt :: "time option"

record plan_row =
  plan_id :: id
  plan_productId :: id
  plan_name :: string
  plan_code :: string
  plan_description :: "string option"
  plan_billingType :: PlanBillingType
  plan_trialEligible :: bool
  plan_trialDays :: "int option"
  plan_seatLimit :: "nat option"
  plan_status :: PlanStatus
  plan_sortOrder :: int
  plan_metadata :: "json option"
  plan_createdAt :: time
  plan_archivedAt :: "time option"

record price_row =
  price_id :: id
  price_planId :: id
  price_currency :: string
  price_amountMinor :: int
  price_interval :: BillingInterval
  price_intervalCount :: int
  price_taxInclusive :: bool
  price_countryCode :: "string option"
  price_providerRef :: "string option"
  price_effectiveAt :: time
  price_expiresAt :: "time option"
  price_status :: PriceStatus
  price_createdAt :: time

record sub_row =
  sub_id :: id
  sub_organizationId :: id
  sub_customerId :: id
  sub_productId :: id
  sub_planId :: id
  sub_applicationId :: id
  sub_environmentType :: ApplicationEnvironmentType
  sub_provider :: SubscriptionProvider
  sub_providerSubscriptionId :: "string option"
  sub_status :: SubscriptionStatus
  sub_currentPeriodStart :: "time option"
  sub_currentPeriodEnd :: "time option"
  sub_trialStart :: "time option"
  sub_trialEnd :: "time option"
  sub_cancelAtPeriodEnd :: bool
  sub_canceledAt :: "time option"
  sub_cancellationReason :: "string option"
  sub_gracePeriodEnd :: "time option"
  sub_quantity :: int
  sub_metadata :: "json option"
  sub_version :: int

record sub_item =
  si_id :: id
  si_subscriptionId :: id
  si_priceId :: id
  si_quantity :: int

record sub_event =
  sev_id :: id
  sev_subscriptionId :: id
  sev_type :: SubscriptionEventType
  sev_fromStatus :: "SubscriptionStatus option"
  sev_toStatus :: "SubscriptionStatus option"
  sev_idempotencyKey :: "string option"
  sev_metadata :: "json option"
  sev_createdById :: "id option"

record sub_change =
  sc_id :: id
  sc_subscriptionId :: id
  sc_type :: SubscriptionChangeType
  sc_status :: SubscriptionChangeStatus
  sc_targetPlanId :: "id option"
  sc_targetPriceId :: "id option"
  sc_targetQuantity :: "int option"
  sc_effectiveAt :: time
  sc_appliedAt :: "time option"
  sc_canceledAt :: "time option"
  sc_createdById :: id

record proration_row =
  prr_id :: id
  prr_subscriptionId :: id
  prr_reason :: ProrationReason
  prr_creditMinor :: int
  prr_chargeMinor :: int
  prr_netMinor :: int
  prr_currency :: string
  prr_periodStart :: time
  prr_periodEnd :: time

record trial_row =
  tr_id :: id
  tr_customerId :: id
  tr_productId :: id
  tr_planId :: id
  tr_subscriptionId :: "id option"
  tr_endsAt :: time
  tr_status :: TrialStatus
  tr_convertedAt :: "time option"
  tr_ipAddress :: "string option"

record coupon_row =
  cp_id :: id
  cp_organizationId :: id
  cp_code :: string
  cp_name :: "string option"
  cp_discountType :: CouponDiscountType
  cp_amountOffMinor :: "nat option"
  cp_percentOff :: "nat option"
  cp_currency :: "string option"
  cp_duration :: CouponDuration
  cp_durationInCycles :: "nat option"
  cp_maxRedemptions :: "nat option"
  cp_redemptionCount :: nat
  cp_productId :: "id option"
  cp_planId :: "id option"
  cp_expiresAt :: "time option"
  cp_status :: CouponStatus
  cp_metadata :: "json option"
  cp_createdById :: id

record promotion_code =
  pc_id :: id
  pc_couponId :: id
  pc_code :: string
  pc_active :: bool
  pc_maxRedemptions :: "nat option"
  pc_redemptionCount :: nat
  pc_customerId :: "id option"
  pc_expiresAt :: "time option"
  pc_createdAt :: time

record sub_coupon =
  scp_id :: id
  scp_subscriptionId :: id
  scp_couponId :: id
  scp_promotionCodeId :: "id option"
  scp_customerId :: id
  scp_removedAt :: "time option"

record sub_db = fin_db +
  customers :: "customer_row list"
  products :: "product_row list"
  plans :: "plan_row list"
  prices :: "price_row list"
  subscriptions :: "sub_row list"
  subItems :: "sub_item list"
  subEvents :: "sub_event list"
  subChanges :: "sub_change list"
  prorations :: "proration_row list"
  trials :: "trial_row list"
  coupons :: "coupon_row list"
  promotionCodes :: "promotion_code list"
  subCoupons :: "sub_coupon list"

fun status_str :: "SubscriptionStatus \<Rightarrow> string" where
  "status_str SubscriptionStatus.INCOMPLETE = ''INCOMPLETE''"
| "status_str SubscriptionStatus.TRIALING = ''TRIALING''"
| "status_str SubscriptionStatus.ACTIVE = ''ACTIVE''"
| "status_str SubscriptionStatus.PAST_DUE = ''PAST_DUE''"
| "status_str SubscriptionStatus.GRACE_PERIOD = ''GRACE_PERIOD''"
| "status_str SubscriptionStatus.PAUSED = ''PAUSED''"
| "status_str SubscriptionStatus.CANCELED = ''CANCELED''"
| "status_str SubscriptionStatus.EXPIRED = ''EXPIRED''"
| "status_str SubscriptionStatus.SUSPENDED = ''SUSPENDED''"

end
