(* ===== verification/Coupons.thy ===== *)
theory Coupons
  imports Subscription_Data
begin

text \<open>
  coupons/coupons.service.ts and coupons/promotion-codes.service.ts: the definition of discounts and
  codes, and the eligibility check of a redemption. The check reads, the redemption of
  subscriptions.service.ts increments; the last section states what that buys and what it does not.
\<close>

section \<open>CouponsService\<close>

record coupon_dto =
  dto_code :: string
  dto_name :: "string option"
  dto_discountType :: CouponDiscountType
  dto_amountOffMinor :: "nat option"
  dto_percentOff :: "nat option"
  dto_currency :: "string option"
  dto_duration :: "CouponDuration option"
  dto_durationInCycles :: "nat option"
  dto_maxRedemptions :: "nat option"
  dto_productId :: "id option"
  dto_planId :: "id option"
  dto_expiresAt :: "time option"
  dto_metadata :: "json option"

text \<open>\<open>toUpperCase\<close> on the ASCII letters of a currency code.\<close>

definition upper :: "char \<Rightarrow> char" where
  "upper c = (if 97 \<le> (of_char c :: nat) \<and> (of_char c :: nat) \<le> 122 then char_of ((of_char c :: nat) - 32) else c)"

definition coupon_create :: "id \<Rightarrow> id \<Rightarrow> coupon_dto \<Rightarrow> request_meta \<Rightarrow> ('z sub_db_scheme, coupon_row) svc" where
  "coupon_create org userId dto meta =
     bnd fresh (\<lambda>i.
     bnd (insert_unique coupons coupons_update
       (\<lambda>c. cp_organizationId c = org \<and> cp_code c = dto_code dto)
       \<lparr>cp_id = i, cp_organizationId = org, cp_code = dto_code dto, cp_name = dto_name dto,
        cp_discountType = dto_discountType dto, cp_amountOffMinor = dto_amountOffMinor dto,
        cp_percentOff = dto_percentOff dto, cp_currency = map_option (map upper) (dto_currency dto),
        cp_duration = orElse (dto_duration dto) ONCE, cp_durationInCycles = dto_durationInCycles dto,
        cp_maxRedemptions = dto_maxRedemptions dto, cp_redemptionCount = 0, cp_productId = dto_productId dto,
        cp_planId = dto_planId dto, cp_expiresAt = dto_expiresAt dto, cp_status = CouponStatus.ACTIVE,
        cp_metadata = dto_metadata dto, cp_createdById = userId\<rparr>) (\<lambda>coupon.
     seq (audit ''COUPON_CREATED'' (Some userId) (Some org) None
            [(''couponId'', JId (cp_id coupon)), (''code'', JStr (cp_code coupon))] meta)
         (ret coupon)))"

definition coupon_getOwned :: "id \<Rightarrow> id \<Rightarrow> ('z sub_db_scheme, coupon_row) svc" where
  "coupon_getOwned couponId org =
     bnd (find_row coupons (\<lambda>c. cp_id c = couponId)) (\<lambda>r. case r of
       None \<Rightarrow> throw (NotFoundException ''Coupon not found'')
     | Some c \<Rightarrow> if cp_organizationId c \<noteq> org then throw (NotFoundException ''Coupon not found'') else ret c)"

definition coupon_update ::
  "id \<Rightarrow> id \<Rightarrow> id \<Rightarrow> CouponStatus option \<Rightarrow> nat option \<Rightarrow> time option \<Rightarrow> request_meta
   \<Rightarrow> ('z sub_db_scheme, coupon_row) svc" where
  "coupon_update couponId org userId status maxRedemptions expiresAt meta =
     seq (coupon_getOwned couponId org)
     (bnd (update_row coupons coupons_update (\<lambda>c. cp_id c = couponId)
       (\<lambda>c. c\<lparr>cp_status := keepUndef status (cp_status c),
              cp_maxRedemptions := keepUndef (map_option Some maxRedemptions) (cp_maxRedemptions c),
              cp_expiresAt := keepUndef (map_option Some expiresAt) (cp_expiresAt c)\<rparr>)) (\<lambda>coupon.
      seq (audit ''COUPON_UPDATED'' (Some userId) (Some org) None [(''couponId'', JId couponId)] meta)
          (ret coupon)))"

definition coupon_archive :: "id \<Rightarrow> id \<Rightarrow> id \<Rightarrow> request_meta \<Rightarrow> ('z sub_db_scheme, coupon_row) svc" where
  "coupon_archive couponId org userId meta =
     seq (coupon_getOwned couponId org)
     (bnd (update_row coupons coupons_update (\<lambda>c. cp_id c = couponId) (\<lambda>c. c\<lparr>cp_status := CouponStatus.ARCHIVED\<rparr>)) (\<lambda>coupon.
      seq (audit ''COUPON_ARCHIVED'' (Some userId) (Some org) None [(''couponId'', JId couponId)] meta)
          (ret coupon)))"

text \<open>\<open>d && d < now\<close> on a nullable date, and a nullable limit that is used up.\<close>

definition past :: "time option \<Rightarrow> time \<Rightarrow> bool" where
  "past d t \<longleftrightarrow> (case d of None \<Rightarrow> False | Some x \<Rightarrow> x < t)"

definition used_up :: "nat option \<Rightarrow> nat \<Rightarrow> bool" where
  "used_up m n \<longleftrightarrow> (case m of None \<Rightarrow> False | Some k \<Rightarrow> k \<le> n)"

text \<open>\<open>restriction && restriction !== actual\<close>.\<close>

definition restricted :: "id option \<Rightarrow> id \<Rightarrow> bool" where
  "restricted r x \<longleftrightarrow> (case r of None \<Rightarrow> False | Some y \<Rightarrow> y \<noteq> x)"

definition find_promotion ::
  "string \<Rightarrow> id \<Rightarrow> sub_row \<Rightarrow> ('z sub_db_scheme, coupon_row \<times> promotion_code option) svc" where
  "find_promotion code org sub =
     bnd (find_row promotionCodes (\<lambda>p. pc_code p = code)) (\<lambda>r. case r of
       None \<Rightarrow> throw (NotFoundException ''Promotion code not found'')
     | Some found \<Rightarrow>
       bnd (find_or_throw coupons (\<lambda>c. cp_id c = pc_couponId found)) (\<lambda>coupon.
       bnd now (\<lambda>t.
       seq (guard_or (cp_organizationId coupon = org) (NotFoundException ''Promotion code not found''))
       (seq (guard_or (pc_active found \<and> \<not> past (pc_expiresAt found) t)
              (BadRequestException ''Promotion code is no longer valid''))
       (seq (guard_or (\<not> used_up (pc_maxRedemptions found) (pc_redemptionCount found))
              (BadRequestException ''Promotion code has reached its redemption limit''))
       (seq (guard_or (\<not> restricted (pc_customerId found) (sub_customerId sub))
              (BadRequestException ''Promotion code is not valid for this customer''))
       (ret (coupon, Some found))))))))"

definition resolveForRedemption ::
  "id \<Rightarrow> id option \<Rightarrow> string option \<Rightarrow> sub_row \<Rightarrow> ('z sub_db_scheme, coupon_row \<times> promotion_code option) svc" where
  "resolveForRedemption org couponId promotionCode sub =
     bnd (if truthy promotionCode then find_promotion (the promotionCode) org sub
          else (case couponId of
             Some i \<Rightarrow> bnd (coupon_getOwned i org) (\<lambda>c. ret (c, None))
           | None \<Rightarrow> throw (BadRequestException ''Either couponId or promotionCode is required''))) (\<lambda>(coupon, promo).
     bnd now (\<lambda>t.
     seq (guard_or (cp_status coupon = CouponStatus.ACTIVE) (BadRequestException ''Coupon is not active''))
     (seq (guard_or (\<not> past (cp_expiresAt coupon) t) (BadRequestException ''Coupon has expired''))
     (seq (guard_or (\<not> used_up (cp_maxRedemptions coupon) (cp_redemptionCount coupon))
            (BadRequestException ''Coupon has reached its redemption limit''))
     (seq (guard_or (\<not> restricted (cp_productId coupon) (sub_productId sub))
            (BadRequestException ''Coupon does not apply to this product''))
     (seq (guard_or (\<not> restricted (cp_planId coupon) (sub_planId sub))
            (BadRequestException ''Coupon does not apply to this plan''))
     (ret (coupon, promo))))))))"

section \<open>PromotionCodesService\<close>

definition promo_create ::
  "id \<Rightarrow> id \<Rightarrow> string \<Rightarrow> nat option \<Rightarrow> id option \<Rightarrow> time option \<Rightarrow> request_meta
   \<Rightarrow> ('z sub_db_scheme, promotion_code) svc" where
  "promo_create couponId userId code maxRedemptions customerId expiresAt meta =
     bnd (find_or_throw coupons (\<lambda>c. cp_id c = couponId)) (\<lambda>coupon.
     bnd fresh (\<lambda>i.
     bnd now (\<lambda>t.
     bnd (insert_unique promotionCodes promotionCodes_update (\<lambda>p. pc_code p = code)
       \<lparr>pc_id = i, pc_couponId = couponId, pc_code = code, pc_active = True, pc_maxRedemptions = maxRedemptions,
        pc_redemptionCount = 0, pc_customerId = customerId, pc_expiresAt = expiresAt, pc_createdAt = t\<rparr>) (\<lambda>promo.
     seq (audit ''PROMOTION_CODE_CREATED'' (Some userId) (Some (cp_organizationId coupon)) None
            [(''couponId'', JId couponId), (''promotionCodeId'', JId (pc_id promo))] meta)
         (ret promo)))))"

definition promo_list :: "id \<Rightarrow> ('z sub_db_scheme, promotion_code list) svc" where
  "promo_list couponId = gets (\<lambda>s. order_by (\<lambda>p. - pc_createdAt p) (filter (\<lambda>p. pc_couponId p = couponId) (promotionCodes s)))"

definition promo_getOwned :: "id \<Rightarrow> id \<Rightarrow> ('z sub_db_scheme, promotion_code) svc" where
  "promo_getOwned couponId promoId =
     bnd (find_row promotionCodes (\<lambda>p. pc_id p = promoId)) (\<lambda>r. case r of
       None \<Rightarrow> throw (NotFoundException ''Promotion code not found'')
     | Some p \<Rightarrow> if pc_couponId p \<noteq> couponId then throw (NotFoundException ''Promotion code not found'') else ret p)"

definition promo_deactivate :: "id \<Rightarrow> id \<Rightarrow> id \<Rightarrow> request_meta \<Rightarrow> ('z sub_db_scheme, promotion_code) svc" where
  "promo_deactivate couponId promoId userId meta =
     bnd (promo_getOwned couponId promoId) (\<lambda>existing.
     bnd (update_row promotionCodes promotionCodes_update (\<lambda>p. pc_id p = promoId) (\<lambda>p. p\<lparr>pc_active := False\<rparr>)) (\<lambda>promo.
     bnd (find_or_throw coupons (\<lambda>c. cp_id c = pc_couponId existing)) (\<lambda>coupon.
     seq (audit ''PROMOTION_CODE_ARCHIVED'' (Some userId) (Some (cp_organizationId coupon)) None
            [(''couponId'', JId couponId), (''promotionCodeId'', JId promoId)] meta)
         (ret promo))))"

end
