(* ===== verification/Subscriptions.thy ===== *)
theory Subscriptions
  imports Coupons
begin

text \<open>
  subscriptions/subscription-state-machine.ts and subscriptions/subscriptions.service.ts: the status
  graph, \<open>runTransition\<close> and every operation of the service. \<open>compute\<close>, the callback of
  \<open>runTransition\<close>, is a service that returns a \<open>transition\<close>; its field \<open>tr_data\<close> is the update of the row
  and \<open>tr_info\<close> the proration record that the callback of \<open>applyChange\<close> leaves in an outer variable.
\<close>

section \<open>The status graph\<close>

fun allowed_transitions :: "SubscriptionStatus \<Rightarrow> SubscriptionStatus list" where
  "allowed_transitions SubscriptionStatus.INCOMPLETE =
     [SubscriptionStatus.TRIALING, SubscriptionStatus.ACTIVE, SubscriptionStatus.CANCELED]"
| "allowed_transitions SubscriptionStatus.TRIALING =
     [SubscriptionStatus.ACTIVE, SubscriptionStatus.CANCELED, SubscriptionStatus.EXPIRED, SubscriptionStatus.SUSPENDED]"
| "allowed_transitions SubscriptionStatus.ACTIVE =
     [SubscriptionStatus.ACTIVE, SubscriptionStatus.PAST_DUE, SubscriptionStatus.PAUSED, SubscriptionStatus.CANCELED,
      SubscriptionStatus.SUSPENDED]"
| "allowed_transitions SubscriptionStatus.PAST_DUE =
     [SubscriptionStatus.ACTIVE, SubscriptionStatus.GRACE_PERIOD, SubscriptionStatus.CANCELED, SubscriptionStatus.SUSPENDED]"
| "allowed_transitions SubscriptionStatus.GRACE_PERIOD =
     [SubscriptionStatus.ACTIVE, SubscriptionStatus.EXPIRED, SubscriptionStatus.CANCELED, SubscriptionStatus.SUSPENDED]"
| "allowed_transitions SubscriptionStatus.PAUSED =
     [SubscriptionStatus.ACTIVE, SubscriptionStatus.CANCELED, SubscriptionStatus.SUSPENDED]"
| "allowed_transitions SubscriptionStatus.CANCELED = [SubscriptionStatus.ACTIVE]"
| "allowed_transitions SubscriptionStatus.EXPIRED = []"
| "allowed_transitions SubscriptionStatus.SUSPENDED = [SubscriptionStatus.ACTIVE, SubscriptionStatus.CANCELED]"

definition isTransitionAllowed :: "SubscriptionStatus \<Rightarrow> SubscriptionStatus \<Rightarrow> bool" where
  "isTransitionAllowed frm to' =
     (if frm = to' then frm = SubscriptionStatus.ACTIVE else to' \<in> set (allowed_transitions frm))"

definition assertTransition :: "SubscriptionStatus \<Rightarrow> SubscriptionStatus \<Rightarrow> ('s, unit) svc" where
  "assertTransition frm to' = guard_or (isTransitionAllowed frm to')
     (BadRequestException (''Invalid subscription state transition: '' @ status_str frm @ '' -> '' @ status_str to'))"

section \<open>runTransition\<close>

record mutation_options =
  mo_idempotencyKey :: "string option"
  mo_expectedVersion :: "int option"

record transition =
  tr_toStatus :: SubscriptionStatus
  tr_eventType :: SubscriptionEventType
  tr_data :: "sub_row \<Rightarrow> sub_row"
  tr_metadata :: "json option"
  tr_info :: "proration_row option"

definition to_status :: "SubscriptionStatus \<Rightarrow> SubscriptionEventType \<Rightarrow> transition" where
  "to_status st et = \<lparr>tr_toStatus = st, tr_eventType = et, tr_data = (\<lambda>r. r), tr_metadata = None, tr_info = None\<rparr>"

fun platform_event_type :: "SubscriptionEventType \<Rightarrow> string option" where
  "platform_event_type SubscriptionEventType.ACTIVATED = Some ''SUBSCRIPTION_ACTIVATED''"
| "platform_event_type SubscriptionEventType.RENEWED = Some ''SUBSCRIPTION_RENEWED''"
| "platform_event_type SubscriptionEventType.CANCELED = Some ''SUBSCRIPTION_CANCELLED''"
| "platform_event_type SubscriptionEventType.EXPIRED = Some ''SUBSCRIPTION_EXPIRED''"
| "platform_event_type SubscriptionEventType.TRIAL_CONVERTED = Some ''SUBSCRIPTION_ACTIVATED''"
| "platform_event_type SubscriptionEventType.TRIAL_EXPIRED = Some ''TRIAL_ENDED''"
| "platform_event_type _ = None"

fun event_type_str :: "SubscriptionEventType \<Rightarrow> string" where
  "event_type_str SubscriptionEventType.CREATED = ''CREATED''"
| "event_type_str SubscriptionEventType.TRIAL_STARTED = ''TRIAL_STARTED''"
| "event_type_str SubscriptionEventType.TRIAL_CONVERTED = ''TRIAL_CONVERTED''"
| "event_type_str SubscriptionEventType.TRIAL_CANCELED = ''TRIAL_CANCELED''"
| "event_type_str SubscriptionEventType.TRIAL_EXPIRED = ''TRIAL_EXPIRED''"
| "event_type_str SubscriptionEventType.ACTIVATED = ''ACTIVATED''"
| "event_type_str SubscriptionEventType.RENEWED = ''RENEWED''"
| "event_type_str SubscriptionEventType.UPGRADED = ''UPGRADED''"
| "event_type_str SubscriptionEventType.DOWNGRADED = ''DOWNGRADED''"
| "event_type_str SubscriptionEventType.INTERVAL_CHANGED = ''INTERVAL_CHANGED''"
| "event_type_str SubscriptionEventType.SEATS_CHANGED = ''SEATS_CHANGED''"
| "event_type_str SubscriptionEventType.PAUSED = ''PAUSED''"
| "event_type_str SubscriptionEventType.RESUMED = ''RESUMED''"
| "event_type_str SubscriptionEventType.CANCEL_SCHEDULED = ''CANCEL_SCHEDULED''"
| "event_type_str SubscriptionEventType.CANCELED = ''CANCELED''"
| "event_type_str SubscriptionEventType.EXPIRED = ''EXPIRED''"
| "event_type_str SubscriptionEventType.SUSPENDED = ''SUSPENDED''"
| "event_type_str SubscriptionEventType.REACTIVATED = ''REACTIVATED''"
| "event_type_str SubscriptionEventType.PAYMENT_FAILED = ''PAYMENT_FAILED''"
| "event_type_str SubscriptionEventType.GRACE_PERIOD_STARTED = ''GRACE_PERIOD_STARTED''"
| "event_type_str SubscriptionEventType.PAST_DUE = ''PAST_DUE''"
| "event_type_str SubscriptionEventType.SCHEDULED_CHANGE_CREATED = ''SCHEDULED_CHANGE_CREATED''"
| "event_type_str SubscriptionEventType.SCHEDULED_CHANGE_APPLIED = ''SCHEDULED_CHANGE_APPLIED''"
| "event_type_str SubscriptionEventType.SCHEDULED_CHANGE_CANCELED = ''SCHEDULED_CHANGE_CANCELED''"
| "event_type_str SubscriptionEventType.COUPON_APPLIED = ''COUPON_APPLIED''"
| "event_type_str SubscriptionEventType.COUPON_REMOVED = ''COUPON_REMOVED''"

definition create_event ::
  "id \<Rightarrow> SubscriptionEventType \<Rightarrow> SubscriptionStatus option \<Rightarrow> SubscriptionStatus option \<Rightarrow> string option
   \<Rightarrow> json option \<Rightarrow> id \<Rightarrow> ('z sub_db_scheme, unit) svc" where
  "create_event subId ty frm to' key mdata userId =
     bnd fresh (\<lambda>i. seq (insert_unique subEvents subEvents_update (\<lambda>e. same_key (sev_idempotencyKey e) key)
       \<lparr>sev_id = i, sev_subscriptionId = subId, sev_type = ty, sev_fromStatus = frm, sev_toStatus = to',
        sev_idempotencyKey = key, sev_metadata = mdata, sev_createdById = Some userId\<rparr>) (ret ()))"

definition find_sub :: "id \<Rightarrow> ('z sub_db_scheme, sub_row option) svc" where
  "find_sub i = find_row subscriptions (\<lambda>r. sub_id r = i)"

definition find_key_event :: "string option \<Rightarrow> ('z sub_db_scheme, sub_event option) svc" where
  "find_key_event key =
     (if truthy key then find_row subEvents (\<lambda>e. sev_idempotencyKey e = key) else ret None)"

definition trial_of :: "id \<Rightarrow> 'z sub_db_scheme \<Rightarrow> id option" where
  "trial_of i s = map_option tr_id (List.find (\<lambda>t. tr_subscriptionId t = Some i) (trials s))"

text \<open>The update that a transition makes: the data, the status and the version. A new plan must exist: the
  column is a foreign key.\<close>

definition moved :: "transition \<Rightarrow> sub_row \<Rightarrow> sub_row" where
  "moved res r = (tr_data res r)\<lparr>sub_status := tr_toStatus res, sub_version := sub_version r + 1\<rparr>"

definition plan_reference :: "sub_row \<Rightarrow> sub_row \<Rightarrow> ('z sub_db_scheme, unit) svc" where
  "plan_reference old new =
     when_do (sub_planId new \<noteq> sub_planId old) (foreign_key plans (\<lambda>p. plan_id p = sub_planId new))"

lemma wps_plan_reference [wp]:
  "wps (plan_reference old new) Q s =
     (if sub_planId new = sub_planId old \<or> sub_planId new \<in> plan_id ` set (plans s) then Q (Inr ()) s
      else Q (Inl (PrismaError ''P2003'')) s)"
proof -
  have "List.find (\<lambda>p. plan_id p = sub_planId new) (plans s) = None \<longleftrightarrow> sub_planId new \<notin> plan_id ` set (plans s)"
    by (auto simp: find_None_iff' image_iff)
  then show ?thesis
    by (cases "List.find (\<lambda>p. plan_id p = sub_planId new) (plans s)") (simp_all add: plan_reference_def wp)
qed

definition transition_body ::
  "id \<Rightarrow> mutation_options \<Rightarrow> id \<Rightarrow> (sub_row \<Rightarrow> id option \<Rightarrow> ('z sub_db_scheme, transition) svc)
   \<Rightarrow> ('z sub_db_scheme, sub_row \<times> SubscriptionEventType option \<times> proration_row option) svc" where
  "transition_body subId options userId compute =
     bnd (find_sub subId) (\<lambda>r. case r of
       None \<Rightarrow> throw (NotFoundException ''Subscription not found'')
     | Some sub \<Rightarrow>
       bnd (find_key_event (mo_idempotencyKey options)) (\<lambda>existing. case existing of
         Some e \<Rightarrow> ret (sub, None, None)
       | None \<Rightarrow>
         seq (guard_or (mo_expectedVersion options = None \<or> mo_expectedVersion options = Some (sub_version sub))
           (ConflictException ''Subscription has been modified since expectedVersion - refetch and retry''))
         (bnd (gets (trial_of subId)) (\<lambda>trial.
          bnd (compute sub trial) (\<lambda>res.
          seq (assertTransition (sub_status sub) (tr_toStatus res))
          (seq (plan_reference sub (moved res sub))
          (bnd (update_row subscriptions subscriptions_update (\<lambda>r. sub_id r = subId) (moved res)) (\<lambda>result.
           seq (create_event subId (tr_eventType res) (Some (sub_status sub)) (Some (tr_toStatus res))
                  (mo_idempotencyKey options) (tr_metadata res) userId)
               (ret (result, Some (tr_eventType res), tr_info res))))))))))"

definition sub_refs :: "sub_row \<Rightarrow> publish_refs" where
  "sub_refs r = \<lparr>ref_organizationId = Some (sub_organizationId r), ref_applicationId = Some (sub_applicationId r),
     ref_customerId = Some (sub_customerId r)\<rparr>"

definition publish_transition ::
  "id \<Rightarrow> sub_row \<Rightarrow> SubscriptionEventType option \<Rightarrow> ('z sub_db_scheme, unit) svc" where
  "publish_transition subId updated announced =
     (case announced of None \<Rightarrow> ret ()
      | Some et \<Rightarrow> (case platform_event_type et of None \<Rightarrow> ret ()
        | Some ty \<Rightarrow> seq (publish ty [(''subscriptionId'', JId subId),
              (''eventType'', JStr (event_type_str et)), (''toStatus'', JStr (status_str (sub_status updated)))] (sub_refs updated) None) (ret ())))"

definition run_with_info ::
  "id \<Rightarrow> mutation_options \<Rightarrow> id \<Rightarrow> (sub_row \<Rightarrow> id option \<Rightarrow> ('z sub_db_scheme, transition) svc)
   \<Rightarrow> ('z sub_db_scheme, sub_row \<times> proration_row option) svc" where
  "run_with_info subId options userId compute =
     bnd (transaction (transition_body subId options userId compute)) (\<lambda>(updated, announced, info).
       seq (publish_transition subId updated announced) (ret (updated, info)))"

definition runTransition ::
  "id \<Rightarrow> mutation_options \<Rightarrow> id \<Rightarrow> (sub_row \<Rightarrow> id option \<Rightarrow> ('z sub_db_scheme, transition) svc)
   \<Rightarrow> ('z sub_db_scheme, sub_row) svc" where
  "runTransition subId options userId compute =
     bnd (run_with_info subId options userId compute) (\<lambda>(updated, info). ret updated)"

section \<open>Lookups of the service\<close>

definition getOwned :: "id \<Rightarrow> id \<Rightarrow> ('z sub_db_scheme, sub_row) svc" where
  "getOwned subId org =
     bnd (find_sub subId) (\<lambda>r. case r of
       None \<Rightarrow> throw (NotFoundException ''Subscription not found'')
     | Some sub \<Rightarrow> if sub_organizationId sub \<noteq> org then throw (NotFoundException ''Subscription not found'') else ret sub)"

definition getOwnedById :: "id \<Rightarrow> ('z sub_db_scheme, sub_row) svc" where
  "getOwnedById subId =
     bnd (find_sub subId) (\<lambda>r. case r of None \<Rightarrow> throw (NotFoundException ''Subscription not found'') | Some sub \<Rightarrow> ret sub)"

definition find_item :: "id \<Rightarrow> ('z sub_db_scheme, sub_item) svc" where
  "find_item subId = find_or_throw subItems (\<lambda>x. si_subscriptionId x = subId)"

definition find_price :: "id \<Rightarrow> ('z sub_db_scheme, price_row) svc" where
  "find_price i = find_or_throw prices (\<lambda>p. price_id p = i)"

definition set_trial_status :: "id \<Rightarrow> (trial_row \<Rightarrow> trial_row) \<Rightarrow> ('z sub_db_scheme, unit) svc" where
  "set_trial_status i f = seq (update_row trials trials_update (\<lambda>t. tr_id t = i) f) (ret ())"

section \<open>Creation\<close>

record create_sub_dto =
  csd_options :: mutation_options
  csd_customerId :: id
  csd_planId :: id
  csd_priceId :: id
  csd_environmentType :: "ApplicationEnvironmentType option"
  csd_provider :: "SubscriptionProvider option"
  csd_providerSubscriptionId :: "string option"
  csd_quantity :: "int option"
  csd_startTrial :: bool
  csd_metadata :: "json option"

definition start_trial :: "create_sub_dto \<Rightarrow> plan_row \<Rightarrow> bool" where
  "start_trial dto plan \<longleftrightarrow> csd_startTrial dto \<and> plan_trialEligible plan
     \<and> plan_trialDays plan \<noteq> None \<and> plan_trialDays plan \<noteq> Some 0"

definition new_sub :: "id \<Rightarrow> id \<Rightarrow> create_sub_dto \<Rightarrow> plan_row \<Rightarrow> product_row \<Rightarrow> price_row \<Rightarrow> time \<Rightarrow> sub_row" where
  "new_sub i org dto plan product price t =
     (let trial = start_trial dto plan in
      \<lparr>sub_id = i, sub_organizationId = org, sub_customerId = csd_customerId dto, sub_productId = plan_productId plan,
       sub_planId = csd_planId dto, sub_applicationId = prod_applicationId product,
       sub_environmentType = orElse (csd_environmentType dto) PRODUCTION,
       sub_provider = orElse (csd_provider dto) MANUAL,
       sub_providerSubscriptionId = csd_providerSubscriptionId dto,
       sub_status = (if trial then SubscriptionStatus.TRIALING else SubscriptionStatus.ACTIVE),
       sub_currentPeriodStart = (if trial then None else Some t),
       sub_currentPeriodEnd = (if trial then None
          else Some (addBillingInterval t (price_interval price) (price_intervalCount price))),
       sub_trialStart = (if trial then Some t else None),
       sub_trialEnd = (if trial then Some (addDays t (the (plan_trialDays plan))) else None),
       sub_cancelAtPeriodEnd = False, sub_canceledAt = None, sub_cancellationReason = None,
       sub_gracePeriodEnd = None, sub_quantity = orElse (csd_quantity dto) 1, sub_metadata = csd_metadata dto,
       sub_version = 1\<rparr>)"

definition create_trial :: "sub_row \<Rightarrow> plan_row \<Rightarrow> time \<Rightarrow> request_meta \<Rightarrow> ('z sub_db_scheme, unit) svc" where
  "create_trial sub plan t meta = try_catch
     (bnd fresh (\<lambda>i. seq (insert_unique trials trials_update
        (\<lambda>x. (tr_customerId x = sub_customerId sub \<and> tr_productId x = plan_productId plan)
             \<or> tr_subscriptionId x = Some (sub_id sub))
        \<lparr>tr_id = i, tr_customerId = sub_customerId sub, tr_productId = plan_productId plan, tr_planId = sub_planId sub,
         tr_subscriptionId = Some (sub_id sub), tr_endsAt = addDays t (the (plan_trialDays plan)),
         tr_status = TrialStatus.ACTIVE, tr_convertedAt = None, tr_ipAddress = meta_ipAddress meta\<rparr>) (ret ())))
     (\<lambda>_. throw (ConflictException ''This customer has already used a trial for this product''))"

definition create_body ::
  "id \<Rightarrow> id \<Rightarrow> create_sub_dto \<Rightarrow> plan_row \<Rightarrow> product_row \<Rightarrow> price_row \<Rightarrow> request_meta \<Rightarrow> time
   \<Rightarrow> ('z sub_db_scheme, sub_row) svc" where
  "create_body org userId dto plan product price meta t =
     bnd fresh (\<lambda>i.
     bnd (insert_row subscriptions_update (new_sub i org dto plan product price t)) (\<lambda>created.
     bnd fresh (\<lambda>itemId.
     seq (insert_row subItems_update \<lparr>si_id = itemId, si_subscriptionId = sub_id created,
            si_priceId = csd_priceId dto, si_quantity = orElse (csd_quantity dto) 1\<rparr>)
     (seq (when_do (start_trial dto plan) (create_trial created plan t meta))
     (seq (create_event (sub_id created)
            (if start_trial dto plan then SubscriptionEventType.TRIAL_STARTED else SubscriptionEventType.CREATED)
            None (Some (sub_status created)) (mo_idempotencyKey (csd_options dto)) None userId)
     (ret created))))))"

definition create_new ::
  "id \<Rightarrow> id \<Rightarrow> create_sub_dto \<Rightarrow> request_meta \<Rightarrow> ('z sub_db_scheme, sub_row) svc" where
  "create_new org userId dto meta =
     bnd (find_or_throw customers (\<lambda>c. cust_id c = csd_customerId dto)) (\<lambda>customer.
     bnd (find_or_throw plans (\<lambda>p. plan_id p = csd_planId dto)) (\<lambda>plan.
     bnd (find_or_throw products (\<lambda>p. prod_id p = plan_productId plan)) (\<lambda>product.
     bnd (find_price (csd_priceId dto)) (\<lambda>price.
     seq (guard_or (cust_organizationId customer = org \<and> prod_organizationId product = org)
            (NotFoundException ''Customer or plan not found in this organization''))
     (bnd now (\<lambda>t.
      bnd (transaction (create_body org userId dto plan product price meta t)) (\<lambda>sub.
      seq (audit ''SUBSCRIPTION_CREATED'' (Some userId) (Some org) (Some (prod_applicationId product))
             [(''subscriptionId'', JId (sub_id sub)), (''customerId'', JId (csd_customerId dto)),
              (''planId'', JId (csd_planId dto))] meta)
      (seq (publish ''SUBSCRIPTION_CREATED'' [(''subscriptionId'', JId (sub_id sub)), (''planId'', JId (csd_planId dto)),
              (''startTrial'', JBool (start_trial dto plan))] (sub_refs sub) None)
      (seq (when_do (start_trial dto plan) (seq (publish ''TRIAL_STARTED''
              [(''subscriptionId'', JId (sub_id sub)), (''planId'', JId (csd_planId dto))] (sub_refs sub) None) (ret ())))
      (ret sub))))))))))"

definition sub_create :: "id \<Rightarrow> id \<Rightarrow> create_sub_dto \<Rightarrow> request_meta \<Rightarrow> ('z sub_db_scheme, sub_row) svc" where
  "sub_create org userId dto meta =
     bnd (find_key_event (mo_idempotencyKey (csd_options dto))) (\<lambda>existing. case existing of
       Some e \<Rightarrow> find_or_throw subscriptions (\<lambda>r. sub_id r = sev_subscriptionId e)
     | None \<Rightarrow> create_new org userId dto meta)"

section \<open>Lifecycle operations\<close>

definition sub_activate :: "id \<Rightarrow> id \<Rightarrow> mutation_options \<Rightarrow> ('z sub_db_scheme, sub_row) svc" where
  "sub_activate subId userId options = runTransition subId options userId (\<lambda>sub trial.
     bnd (find_item (sub_id sub)) (\<lambda>item.
     bnd (find_price (si_priceId item)) (\<lambda>price.
     bnd now (\<lambda>t.
     seq (case trial of None \<Rightarrow> ret ()
          | Some i \<Rightarrow> when_do (sub_status sub = SubscriptionStatus.TRIALING)
              (set_trial_status i (\<lambda>x. x\<lparr>tr_status := TrialStatus.CONVERTED, tr_convertedAt := Some t\<rparr>)))
     (ret \<lparr>tr_toStatus = SubscriptionStatus.ACTIVE,
           tr_eventType = (if sub_status sub = SubscriptionStatus.TRIALING then SubscriptionEventType.TRIAL_CONVERTED
                           else SubscriptionEventType.ACTIVATED),
           tr_data = (\<lambda>r. r\<lparr>sub_currentPeriodStart := Some t,
               sub_currentPeriodEnd := Some (addBillingInterval t (price_interval price) (price_intervalCount price)),
               sub_trialEnd := (if sub_status sub = SubscriptionStatus.TRIALING then Some t else sub_trialEnd r)\<rparr>),
           tr_metadata = None, tr_info = None\<rparr>)))))"

text \<open>\<open>findFirst\<close> on the pending changes that are due.\<close>

definition due_change :: "id \<Rightarrow> time \<Rightarrow> sub_change \<Rightarrow> bool" where
  "due_change subId t c \<longleftrightarrow> sc_subscriptionId c = subId \<and> sc_status c = SubscriptionChangeStatus.PENDING \<and> sc_effectiveAt c \<le> t"

definition mark_applied :: "id \<Rightarrow> time \<Rightarrow> ('z sub_db_scheme, unit) svc" where
  "mark_applied i t = seq (update_row subChanges subChanges_update (\<lambda>c. sc_id c = i)
     (\<lambda>c. c\<lparr>sc_status := SubscriptionChangeStatus.APPLIED, sc_appliedAt := Some t\<rparr>)) (ret ())"

definition renew_period :: "sub_row \<Rightarrow> sub_change option \<Rightarrow> time \<Rightarrow> ('z sub_db_scheme, transition) svc" where
  "renew_period sub dueChange t =
     (let planId = (case dueChange of None \<Rightarrow> sub_planId sub | Some c \<Rightarrow> orElse (sc_targetPlanId c) (sub_planId sub));
          priceId = (case dueChange of None \<Rightarrow> None | Some c \<Rightarrow> sc_targetPriceId c);
          quantity = (case dueChange of None \<Rightarrow> sub_quantity sub | Some c \<Rightarrow> orElse (sc_targetQuantity c) (sub_quantity sub)) in
      seq (case dueChange of None \<Rightarrow> ret () | Some c \<Rightarrow> mark_applied (sc_id c) t)
      (bnd (find_item (sub_id sub)) (\<lambda>item.
       bnd (find_price (si_priceId item)) (\<lambda>currentPrice.
       seq (case priceId of
              Some p \<Rightarrow> if p \<noteq> si_priceId item
                then seq (update_row subItems subItems_update (\<lambda>x. si_id x = si_id item)
                       (\<lambda>x. x\<lparr>si_priceId := p, si_quantity := quantity\<rparr>)) (ret ())
                else if quantity \<noteq> sub_quantity sub
                then seq (update_row subItems subItems_update (\<lambda>x. si_id x = si_id item) (\<lambda>x. x\<lparr>si_quantity := quantity\<rparr>)) (ret ())
                else ret ()
            | None \<Rightarrow> if quantity \<noteq> sub_quantity sub
                then seq (update_row subItems subItems_update (\<lambda>x. si_id x = si_id item) (\<lambda>x. x\<lparr>si_quantity := quantity\<rparr>)) (ret ())
                else ret ())
       (bnd (case priceId of Some p \<Rightarrow> find_price p | None \<Rightarrow> ret currentPrice) (\<lambda>price.
        let periodStart = orElse (sub_currentPeriodEnd sub) t in
        ret \<lparr>tr_toStatus = SubscriptionStatus.ACTIVE,
             tr_eventType = (if dueChange = None then SubscriptionEventType.RENEWED
                             else SubscriptionEventType.SCHEDULED_CHANGE_APPLIED),
             tr_data = (\<lambda>r. r\<lparr>sub_planId := planId, sub_quantity := quantity, sub_currentPeriodStart := Some periodStart,
                sub_currentPeriodEnd := Some (addBillingInterval periodStart (price_interval price) (price_intervalCount price))\<rparr>),
             tr_metadata = map_option (\<lambda>c. JObj [(''appliedChangeId'', JId (sc_id c))]) dueChange, tr_info = None\<rparr>))))))"

definition sub_renew :: "id \<Rightarrow> id \<Rightarrow> mutation_options \<Rightarrow> ('z sub_db_scheme, sub_row) svc" where
  "sub_renew subId userId options = runTransition subId options userId (\<lambda>sub trial.
     bnd now (\<lambda>t.
     bnd (find_row subChanges (\<lambda>c. due_change (sub_id sub) t c \<and> sc_type c = CANCEL_AT_PERIOD_END)) (\<lambda>dueCancel.
     if dueCancel \<noteq> None \<or> sub_cancelAtPeriodEnd sub then
       seq (case dueCancel of None \<Rightarrow> ret () | Some c \<Rightarrow> mark_applied (sc_id c) t)
           (ret \<lparr>tr_toStatus = SubscriptionStatus.CANCELED, tr_eventType = SubscriptionEventType.CANCELED,
                 tr_data = (\<lambda>r. r\<lparr>sub_canceledAt := Some t\<rparr>), tr_metadata = None, tr_info = None\<rparr>)
     else
       bnd (find_row subChanges (due_change (sub_id sub) t)) (\<lambda>dueChange. renew_period sub dueChange t))))"

record cancel_dto =
  cd_options :: mutation_options
  cd_atPeriodEnd :: bool
  cd_reason :: "string option"

definition cancel_at_period_end ::
  "id \<Rightarrow> id \<Rightarrow> cancel_dto \<Rightarrow> request_meta \<Rightarrow> ('z sub_db_scheme, sub_row) svc" where
  "cancel_at_period_end subId userId dto meta =
     bnd (getOwnedById subId) (\<lambda>sub.
     bnd now (\<lambda>t.
     bnd (update_row subscriptions subscriptions_update (\<lambda>r. sub_id r = subId)
       (\<lambda>r. r\<lparr>sub_cancelAtPeriodEnd := True,
              sub_cancellationReason := keepUndef (map_option Some (cd_reason dto)) (sub_cancellationReason r),
              sub_version := sub_version r + 1\<rparr>)) (\<lambda>updated.
     bnd fresh (\<lambda>i.
     seq (modify (subChanges_update (\<lambda>cs. cs @ [\<lparr>sc_id = i, sc_subscriptionId = subId, sc_type = CANCEL_AT_PERIOD_END,
            sc_status = SubscriptionChangeStatus.PENDING, sc_targetPlanId = None, sc_targetPriceId = None,
            sc_targetQuantity = None, sc_effectiveAt = orElse (sub_currentPeriodEnd sub) t, sc_appliedAt = None,
            sc_canceledAt = None, sc_createdById = userId\<rparr>])))
     (seq (create_event subId SubscriptionEventType.CANCEL_SCHEDULED None None (mo_idempotencyKey (cd_options dto))
             (Some (JObj (jopt ''reason'' JStr (cd_reason dto)))) userId)
     (seq (audit ''SUBSCRIPTION_CANCELED'' (Some userId) (Some (sub_organizationId sub)) (Some (sub_applicationId sub))
             [(''subscriptionId'', JId subId), (''atPeriodEnd'', JBool True)] meta)
     (ret updated)))))))"

definition sub_cancel :: "id \<Rightarrow> id \<Rightarrow> cancel_dto \<Rightarrow> request_meta \<Rightarrow> ('z sub_db_scheme, sub_row) svc" where
  "sub_cancel subId userId dto meta =
     (if cd_atPeriodEnd dto then cancel_at_period_end subId userId dto meta
      else
        bnd (runTransition subId (cd_options dto) userId (\<lambda>sub trial. bnd now (\<lambda>t.
          ret \<lparr>tr_toStatus = SubscriptionStatus.CANCELED, tr_eventType = SubscriptionEventType.CANCELED,
               tr_data = (\<lambda>r. r\<lparr>sub_canceledAt := Some t,
                  sub_cancellationReason := keepUndef (map_option Some (cd_reason dto)) (sub_cancellationReason r)\<rparr>),
               tr_metadata = Some (JObj (jopt ''reason'' JStr (cd_reason dto))), tr_info = None\<rparr>))) (\<lambda>result.
        bnd (getOwnedById subId) (\<lambda>sub.
        seq (audit ''SUBSCRIPTION_CANCELED'' (Some userId) (Some (sub_organizationId sub)) (Some (sub_applicationId sub))
               [(''subscriptionId'', JId subId), (''atPeriodEnd'', JBool False)] meta)
        (ret result))))"

definition sub_resume :: "id \<Rightarrow> id \<Rightarrow> mutation_options \<Rightarrow> ('z sub_db_scheme, sub_row) svc" where
  "sub_resume subId userId options = runTransition subId options userId (\<lambda>sub trial.
     ret \<lparr>tr_toStatus = SubscriptionStatus.ACTIVE, tr_eventType = SubscriptionEventType.RESUMED,
          tr_data = (\<lambda>r. r\<lparr>sub_cancelAtPeriodEnd := False, sub_canceledAt := None, sub_cancellationReason := None\<rparr>),
          tr_metadata = None, tr_info = None\<rparr>)"

definition sub_pause :: "id \<Rightarrow> id \<Rightarrow> mutation_options \<Rightarrow> ('z sub_db_scheme, sub_row) svc" where
  "sub_pause subId userId options = runTransition subId options userId (\<lambda>sub trial.
     ret (to_status SubscriptionStatus.PAUSED SubscriptionEventType.PAUSED))"

definition sub_markPastDue :: "id \<Rightarrow> id \<Rightarrow> mutation_options \<Rightarrow> ('z sub_db_scheme, sub_row) svc" where
  "sub_markPastDue subId userId options = runTransition subId options userId (\<lambda>sub trial.
     ret (to_status SubscriptionStatus.PAST_DUE SubscriptionEventType.PAYMENT_FAILED))"

definition sub_enterGracePeriod :: "id \<Rightarrow> id \<Rightarrow> mutation_options \<Rightarrow> int option \<Rightarrow> ('z sub_db_scheme, sub_row) svc" where
  "sub_enterGracePeriod subId userId options graceDays = runTransition subId options userId (\<lambda>sub trial. bnd now (\<lambda>t.
     ret ((to_status SubscriptionStatus.GRACE_PERIOD SubscriptionEventType.GRACE_PERIOD_STARTED)
        \<lparr>tr_data := (\<lambda>r. r\<lparr>sub_gracePeriodEnd := Some (addDays t (orElse graceDays 3))\<rparr>)\<rparr>)))"

definition sub_expire :: "id \<Rightarrow> id \<Rightarrow> mutation_options \<Rightarrow> ('z sub_db_scheme, sub_row) svc" where
  "sub_expire subId userId options = runTransition subId options userId (\<lambda>sub trial.
     seq (case trial of None \<Rightarrow> ret ()
          | Some i \<Rightarrow> when_do (sub_status sub = SubscriptionStatus.TRIALING)
              (set_trial_status i (\<lambda>x. x\<lparr>tr_status := TrialStatus.EXPIRED\<rparr>)))
     (ret (to_status SubscriptionStatus.EXPIRED
        (if sub_status sub = SubscriptionStatus.TRIALING then SubscriptionEventType.TRIAL_EXPIRED
         else SubscriptionEventType.EXPIRED))))"

definition sub_suspend :: "id \<Rightarrow> id \<Rightarrow> mutation_options \<Rightarrow> string option \<Rightarrow> ('z sub_db_scheme, sub_row) svc" where
  "sub_suspend subId userId options reason = runTransition subId options userId (\<lambda>sub trial.
     ret ((to_status SubscriptionStatus.SUSPENDED SubscriptionEventType.SUSPENDED)
        \<lparr>tr_metadata := Some (JObj (jopt ''reason'' JStr reason))\<rparr>))"

definition sub_reactivate :: "id \<Rightarrow> id \<Rightarrow> mutation_options \<Rightarrow> ('z sub_db_scheme, sub_row) svc" where
  "sub_reactivate subId userId options = runTransition subId options userId (\<lambda>sub trial.
     ret (to_status SubscriptionStatus.ACTIVE SubscriptionEventType.REACTIVATED))"

definition sub_extendTrial :: "id \<Rightarrow> time \<Rightarrow> ('z sub_db_scheme, sub_row) svc" where
  "sub_extendTrial subId newTrialEnd =
     bnd (getOwnedById subId) (\<lambda>sub.
     seq (guard_or (sub_status sub = SubscriptionStatus.TRIALING)
            (ConflictException ''Only a TRIALING subscription's trial can be extended''))
     (bnd (gets (trial_of subId)) (\<lambda>trial.
      transaction (
      bnd (update_row subscriptions subscriptions_update (\<lambda>r. sub_id r = subId)
             (\<lambda>r. r\<lparr>sub_trialEnd := Some newTrialEnd, sub_version := sub_version r + 1\<rparr>)) (\<lambda>updated.
      seq (case trial of None \<Rightarrow> ret () | Some i \<Rightarrow> set_trial_status i (\<lambda>x. x\<lparr>tr_endsAt := newTrialEnd\<rparr>))
          (ret updated))))))"

section \<open>Plan, price and seat changes\<close>

record change_dto =
  chd_options :: mutation_options
  chd_type :: SubscriptionChangeType
  chd_targetPlanId :: "id option"
  chd_targetPriceId :: "id option"
  chd_targetQuantity :: "int option"
  chd_immediate :: bool

definition prorationReasonFor :: "SubscriptionChangeType \<Rightarrow> int \<Rightarrow> int \<Rightarrow> ProrationReason" where
  "prorationReasonFor type oldQuantity newQuantity = (case type of
     SubscriptionChangeType.UPGRADE \<Rightarrow> ProrationReason.UPGRADE
   | SubscriptionChangeType.DOWNGRADE \<Rightarrow> ProrationReason.DOWNGRADE
   | SEAT_CHANGE \<Rightarrow> if oldQuantity \<le> newQuantity then SEAT_INCREASE else SEAT_DECREASE
   | SubscriptionChangeType.INTERVAL_CHANGE \<Rightarrow> ProrationReason.INTERVAL_CHANGE
   | _ \<Rightarrow> ProrationReason.UPGRADE)"

fun eventTypeFor :: "SubscriptionChangeType \<Rightarrow> SubscriptionEventType" where
  "eventTypeFor SubscriptionChangeType.UPGRADE = UPGRADED"
| "eventTypeFor SubscriptionChangeType.DOWNGRADE = DOWNGRADED"
| "eventTypeFor SubscriptionChangeType.INTERVAL_CHANGE = INTERVAL_CHANGED"
| "eventTypeFor SEAT_CHANGE = SEATS_CHANGED"
| "eventTypeFor _ = UPGRADED"

fun reason_str :: "ProrationReason \<Rightarrow> string" where
  "reason_str ProrationReason.UPGRADE = ''UPGRADE''"
| "reason_str ProrationReason.DOWNGRADE = ''DOWNGRADE''"
| "reason_str SEAT_INCREASE = ''SEAT_INCREASE''"
| "reason_str SEAT_DECREASE = ''SEAT_DECREASE''"
| "reason_str ProrationReason.INTERVAL_CHANGE = ''INTERVAL_CHANGE''"

fun change_type_str :: "SubscriptionChangeType \<Rightarrow> string" where
  "change_type_str SubscriptionChangeType.UPGRADE = ''UPGRADE''"
| "change_type_str SubscriptionChangeType.DOWNGRADE = ''DOWNGRADE''"
| "change_type_str SubscriptionChangeType.INTERVAL_CHANGE = ''INTERVAL_CHANGE''"
| "change_type_str SEAT_CHANGE = ''SEAT_CHANGE''"
| "change_type_str CANCEL_AT_PERIOD_END = ''CANCEL_AT_PERIOD_END''"
| "change_type_str PAUSE = ''PAUSE''"

definition schedule_change ::
  "id \<Rightarrow> id \<Rightarrow> change_dto \<Rightarrow> sub_row \<Rightarrow> request_meta \<Rightarrow> ('z sub_db_scheme, sub_change) svc" where
  "schedule_change subId userId dto sub meta =
     bnd now (\<lambda>t.
     bnd fresh (\<lambda>i.
     seq (int_columns (case chd_targetQuantity dto of None \<Rightarrow> [] | Some n \<Rightarrow> [n]))
     (seq (case chd_targetPlanId dto of None \<Rightarrow> ret () | Some p \<Rightarrow> foreign_key plans (\<lambda>x. plan_id x = p))
     (seq (case chd_targetPriceId dto of None \<Rightarrow> ret () | Some p \<Rightarrow> foreign_key prices (\<lambda>x. price_id x = p))
     (     bnd (insert_row subChanges_update \<lparr>sc_id = i, sc_subscriptionId = subId, sc_type = chd_type dto,
            sc_status = SubscriptionChangeStatus.PENDING, sc_targetPlanId = chd_targetPlanId dto,
            sc_targetPriceId = chd_targetPriceId dto, sc_targetQuantity = chd_targetQuantity dto,
            sc_effectiveAt = orElse (sub_currentPeriodEnd sub) t, sc_appliedAt = None, sc_canceledAt = None,
            sc_createdById = userId\<rparr>) (\<lambda>change.
     seq (create_event subId SCHEDULED_CHANGE_CREATED None None (mo_idempotencyKey (chd_options dto))
            (Some (JObj [(''changeId'', JId (sc_id change)), (''type'', JStr (change_type_str (chd_type dto)))])) userId)
     (seq (audit ''SUBSCRIPTION_CHANGE_SCHEDULED'' (Some userId) (Some (sub_organizationId sub)) (Some (sub_applicationId sub))
            [(''subscriptionId'', JId subId), (''changeId'', JId (sc_id change)),
             (''type'', JStr (change_type_str (chd_type dto)))] meta)
     (ret change))))))))"

definition change_compute :: "change_dto \<Rightarrow> sub_row \<Rightarrow> ('z sub_db_scheme, transition) svc" where
  "change_compute dto current =
     bnd (find_item (sub_id current)) (\<lambda>item.
     bnd (find_price (si_priceId item)) (\<lambda>oldPrice.
     bnd (case chd_targetPriceId dto of Some p \<Rightarrow> find_price p | None \<Rightarrow> ret oldPrice) (\<lambda>newPrice.
     bnd now (\<lambda>t.
     bnd fresh (\<lambda>i.
     let newQuantity = orElse (chd_targetQuantity dto) (sub_quantity current);
         periodStart = orElse (sub_currentPeriodStart current) t;
         periodEnd = orElse (sub_currentPeriodEnd current)
           (addBillingInterval periodStart (price_interval newPrice) (price_intervalCount newPrice));
         proration = calculateProration periodStart periodEnd t
           (js_times (price_amountMinor oldPrice) (si_quantity item)) (js_times (price_amountMinor newPrice) newQuantity) in
     seq (int_columns [pr_creditMinor proration, pr_chargeMinor proration, pr_netMinor proration])
     (bnd (insert_row prorations_update \<lparr>prr_id = i, prr_subscriptionId = sub_id current,
            prr_reason = prorationReasonFor (chd_type dto) (si_quantity item) newQuantity,
            prr_creditMinor = pr_creditMinor proration, prr_chargeMinor = pr_chargeMinor proration,
            prr_netMinor = pr_netMinor proration, prr_currency = price_currency newPrice,
            prr_periodStart = periodStart, prr_periodEnd = periodEnd\<rparr>) (\<lambda>rec.
     seq (when_do (chd_targetPriceId dto \<noteq> None \<or> chd_targetQuantity dto \<noteq> None \<or> chd_targetPlanId dto \<noteq> None)
            (seq (int_columns [newQuantity]) (seq (update_row subItems subItems_update (\<lambda>x. si_id x = si_id item)
               (\<lambda>x. x\<lparr>si_priceId := price_id newPrice, si_quantity := newQuantity\<rparr>)) (ret ()))))
     (ret \<lparr>tr_toStatus = SubscriptionStatus.ACTIVE, tr_eventType = eventTypeFor (chd_type dto),
           tr_data = (\<lambda>r. r\<lparr>sub_planId := orElse (chd_targetPlanId dto) (sub_planId current), sub_quantity := newQuantity\<rparr>),
           tr_metadata = Some (JObj [(''netMinor'', JInt (pr_netMinor proration)), (''currency'', JStr (price_currency newPrice))]),
           tr_info = Some rec\<rparr>))))))))"

definition proration_key :: "id \<Rightarrow> string" where
  "proration_key i = ''proration:'' @ id_str i"

definition record_proration :: "sub_row \<Rightarrow> proration_row \<Rightarrow> id \<Rightarrow> request_meta \<Rightarrow> ('z sub_db_scheme, unit) svc" where
  "record_proration sub info userId meta =
     seq (record_event (sub_organizationId sub) FinancialEventType.PAYMENT_SUCCEEDED
       (JObj [(''reason'', JStr (if 0 \<le> prr_netMinor info then ''upgrade_proration_charge'' else ''downgrade_proration_credit'')),
              (''prorationRecordId'', JId (prr_id info)), (''subscriptionId'', JId (sub_id sub)),
              (''netMinor'', JInt (prr_netMinor info)), (''amountMinor'', JInt \<bar>prr_netMinor info\<bar>),
              (''currency'', JStr (prr_currency info)), (''taxMinor'', JInt 0), (''discountMinor'', JInt 0),
              (''prorationReason'', JStr (reason_str (prr_reason info))),
              (''description'', JStr (''Proration ('' @ reason_str (prr_reason info) @ '') for subscription '' @ id_str (sub_id sub)))])
       \<lparr>fr_applicationId = Some (sub_applicationId sub), fr_customerId = Some (sub_customerId sub),
        fr_subscriptionId = Some (sub_id sub)\<rparr>
       (Some userId) meta (Some (proration_key (prr_id info))))
     (ret ())"

definition sub_applyChange ::
  "id \<Rightarrow> id \<Rightarrow> change_dto \<Rightarrow> request_meta \<Rightarrow> ('z sub_db_scheme, sub_change + sub_row) svc" where
  "sub_applyChange subId userId dto meta =
     bnd (getOwnedById subId) (\<lambda>sub.
     if \<not> chd_immediate dto then bnd (schedule_change subId userId dto sub meta) (\<lambda>change. ret (Inl change))
     else
       bnd (run_with_info subId (chd_options dto) userId (\<lambda>current trial. change_compute dto current)) (\<lambda>(result, info).
       seq (case info of None \<Rightarrow> ret () | Some rec \<Rightarrow> record_proration sub rec userId meta)
           (ret (Inr result))))"

definition sub_cancelScheduledChange ::
  "id \<Rightarrow> id \<Rightarrow> id \<Rightarrow> request_meta \<Rightarrow> ('z sub_db_scheme, sub_change) svc" where
  "sub_cancelScheduledChange subId changeId userId meta =
     bnd (find_row subChanges (\<lambda>c. sc_id c = changeId)) (\<lambda>r.
     seq (guard_or (case r of None \<Rightarrow> False
            | Some c \<Rightarrow> sc_subscriptionId c = subId \<and> sc_status c = SubscriptionChangeStatus.PENDING)
            (NotFoundException ''Pending scheduled change not found''))
     (bnd now (\<lambda>t.
      bnd (update_row subChanges subChanges_update (\<lambda>c. sc_id c = changeId)
             (\<lambda>c. c\<lparr>sc_status := SubscriptionChangeStatus.CANCELED, sc_canceledAt := Some t\<rparr>)) (\<lambda>updated.
      seq (create_event subId SCHEDULED_CHANGE_CANCELED None None None (Some (JObj [(''changeId'', JId changeId)])) userId)
      (bnd (getOwnedById subId) (\<lambda>sub.
       seq (audit ''SUBSCRIPTION_CHANGE_CANCELED'' (Some userId) (Some (sub_organizationId sub)) (Some (sub_applicationId sub))
              [(''subscriptionId'', JId subId), (''changeId'', JId changeId)] meta)
           (ret updated)))))))"

section \<open>Coupons on a subscription\<close>

definition redeem :: "sub_row \<Rightarrow> coupon_row \<Rightarrow> promotion_code option \<Rightarrow> id \<Rightarrow> ('z sub_db_scheme, sub_coupon) svc" where
  "redeem sub coupon promo userId = transaction (
     bnd fresh (\<lambda>i.
     bnd (insert_row subCoupons_update \<lparr>scp_id = i, scp_subscriptionId = sub_id sub, scp_couponId = cp_id coupon,
            scp_promotionCodeId = map_option pc_id promo, scp_customerId = sub_customerId sub, scp_removedAt = None\<rparr>) (\<lambda>created.
     seq (update_row coupons coupons_update (\<lambda>c. cp_id c = cp_id coupon)
            (\<lambda>c. c\<lparr>cp_redemptionCount := cp_redemptionCount c + 1\<rparr>))
     (seq (case promo of None \<Rightarrow> ret ()
           | Some p \<Rightarrow> seq (update_row promotionCodes promotionCodes_update (\<lambda>x. pc_id x = pc_id p)
                 (\<lambda>x. x\<lparr>pc_redemptionCount := pc_redemptionCount x + 1\<rparr>)) (ret ()))
     (seq (create_event (sub_id sub) COUPON_APPLIED None None None
             (Some (JObj ([(''couponId'', JId (cp_id coupon))] @ jopt ''promotionCodeId'' JId (map_option pc_id promo)))) userId)
     (ret created))))))"

definition sub_applyCoupon ::
  "id \<Rightarrow> id \<Rightarrow> id option \<Rightarrow> string option \<Rightarrow> ('z sub_db_scheme, sub_coupon) svc" where
  "sub_applyCoupon subId userId couponId promotionCode =
     bnd (getOwnedById subId) (\<lambda>sub.
     bnd (resolveForRedemption (sub_organizationId sub) couponId promotionCode sub) (\<lambda>(coupon, promo).
     redeem sub coupon promo userId))"

definition sub_removeCoupon :: "id \<Rightarrow> id \<Rightarrow> id \<Rightarrow> ('z sub_db_scheme, sub_coupon) svc" where
  "sub_removeCoupon subId subCouponId userId =
     bnd (find_row subCoupons (\<lambda>x. scp_id x = subCouponId)) (\<lambda>r.
     seq (guard_or (case r of None \<Rightarrow> False | Some x \<Rightarrow> scp_subscriptionId x = subId \<and> scp_removedAt x = None)
            (NotFoundException ''Applied coupon not found''))
     (bnd now (\<lambda>t.
      bnd (update_row subCoupons subCoupons_update (\<lambda>x. scp_id x = subCouponId) (\<lambda>x. x\<lparr>scp_removedAt := Some t\<rparr>)) (\<lambda>updated.
      seq (create_event subId COUPON_REMOVED None None None (Some (JObj [(''subscriptionCouponId'', JId subCouponId)])) userId)
          (ret updated)))))"

end
