(* ===== verification/Lifecycle.thy ===== *)
theory Lifecycle
  imports Subscriptions
begin

text \<open>
  The specification of the subscription service as an event-sourced state machine, and the proof that
  every operation of subscriptions.service.ts refines it: what an operation does to the statuses of the
  subscriptions is exactly what the lifecycle events it appends say, and every such event is a move of
  the status graph. The simulation relation \<open>lc_step\<close> is a preorder, so it composes along a handler
  and along any sequence of calls.
\<close>

section \<open>The abstract machine\<close>

type_synonym statuses = "id \<Rightarrow> SubscriptionStatus option"

definition status_of :: "'z sub_db_scheme \<Rightarrow> statuses" where
  "status_of s i = map_option sub_status (List.find (\<lambda>r. sub_id r = i) (subscriptions s))"

definition apply_event :: "statuses \<Rightarrow> sub_event \<Rightarrow> statuses" where
  "apply_event m e = (case sev_toStatus e of None \<Rightarrow> m | Some b \<Rightarrow> m(sev_subscriptionId e \<mapsto> b))"

definition replay :: "statuses \<Rightarrow> sub_event list \<Rightarrow> statuses" where
  "replay m es = foldl apply_event m es"

definition legal :: "statuses \<Rightarrow> sub_event \<Rightarrow> bool" where
  "legal m e \<longleftrightarrow> (case sev_toStatus e of None \<Rightarrow> True
     | Some b \<Rightarrow> sev_fromStatus e = m (sev_subscriptionId e)
        \<and> (case m (sev_subscriptionId e) of
             None \<Rightarrow> b = SubscriptionStatus.TRIALING \<or> b = SubscriptionStatus.ACTIVE
           | Some a \<Rightarrow> isTransitionAllowed a b))"

fun legal_run :: "statuses \<Rightarrow> sub_event list \<Rightarrow> bool" where
  "legal_run m [] = True"
| "legal_run m (e # es) = (legal m e \<and> legal_run (apply_event m e) es)"

lemma replay_append [simp]: "replay m (es @ es') = replay (replay m es) es'"
  by (simp add: replay_def)

lemma replay_Nil [simp]: "replay m [] = m"
  by (simp add: replay_def)

lemma legal_run_append [simp]: "legal_run m (es @ es') \<longleftrightarrow> legal_run m es \<and> legal_run (replay m es) es'"
  by (induction es arbitrary: m) (simp_all add: replay_def)

text \<open>A status that the graph never leaves is never left by a legal run.\<close>

lemma legal_run_terminal:
  assumes "allowed_transitions a = []" and "a \<noteq> SubscriptionStatus.ACTIVE" and "m i = Some a" and "legal_run m es"
  shows "replay m es i = Some a"
  using assms(3,4)
proof (induction es arbitrary: m)
  case (Cons e es)
  have "apply_event m e i = Some a"
    using Cons.prems assms(1,2)
    by (auto simp: apply_event_def legal_def isTransitionAllowed_def split: option.splits if_splits)
  then show ?case using Cons.IH [of "apply_event m e"] Cons.prems by (simp add: replay_def)
qed simp

section \<open>The simulation\<close>

definition fresh_ids :: "'z sub_db_scheme \<Rightarrow> bool" where
  "fresh_ids s \<longleftrightarrow> (\<forall>r \<in> set (subscriptions s). sub_id r < nextId s)"

definition lc_step :: "'z sub_db_scheme \<Rightarrow> 'z sub_db_scheme \<Rightarrow> bool" where
  "lc_step s0 s \<longleftrightarrow> fresh_ids s \<and> (\<exists>es. subEvents s = subEvents s0 @ es
     \<and> status_of s = replay (status_of s0) es \<and> legal_run (status_of s0) es)"

lemma lc_refl: "fresh_ids s \<Longrightarrow> lc_step s s"
  by (auto simp: lc_step_def intro: exI [of _ "[]"])

lemma lc_trans: "lc_step s0 s1 \<Longrightarrow> lc_step s1 s2 \<Longrightarrow> lc_step s0 s2"
  by (force simp: lc_step_def)

lemma lc_fresh: "lc_step s0 s \<Longrightarrow> fresh_ids s"
  by (simp add: lc_step_def)

lemma status_of_cong: "subscriptions s = subscriptions s' \<Longrightarrow> status_of s = status_of s'"
  by (simp add: status_of_def fun_eq_iff)

text \<open>Writes outside the two tables, and updates of subscriptions that keep identity and status.\<close>

lemma lc_frame:
  assumes "lc_step s0 s" and "subscriptions s' = subscriptions s" and "subEvents s' = subEvents s"
    and "nextId s \<le> nextId s'"
  shows "lc_step s0 s'"
  using assms status_of_cong [OF assms(2)] by (fastforce simp: lc_step_def fresh_ids_def)

lemma lc_update_sub:
  assumes "lc_step s0 s" and "\<And>r. sub_id (f r) = sub_id r" and "\<And>r. sub_status (f r) = sub_status r"
  shows "lc_step s0 (subscriptions_update (upd_where (\<lambda>r. sub_id r = i) f) s)"
proof -
  have "status_of (subscriptions_update (upd_where (\<lambda>r. sub_id r = i) f) s) k = status_of s k" for k
  proof (cases "k = i")
    case True
    then show ?thesis by (simp add: status_of_def find_upd_where_same assms(2,3) option.map_comp comp_def)
  next
    case False
    then have "List.find (\<lambda>r. sub_id r = k) (upd_where (\<lambda>r. sub_id r = i) f (subscriptions s))
        = List.find (\<lambda>r. sub_id r = k) (subscriptions s)"
      by (intro find_upd_where_other) (auto simp: assms(2))
    then show ?thesis by (simp add: status_of_def)
  qed
  then have "status_of (subscriptions_update (upd_where (\<lambda>r. sub_id r = i) f) s) = status_of s" by (rule ext)
  moreover have "fresh_ids (subscriptions_update (upd_where (\<lambda>r. sub_id r = i) f) s)"
    using lc_fresh [OF assms(1)] by (auto simp: fresh_ids_def set_upd_where assms(2))
  ultimately show ?thesis using assms(1) by (simp add: lc_step_def)
qed

definition lawful :: "('z sub_db_scheme, 'a) svc \<Rightarrow> bool" where
  "lawful m \<longleftrightarrow> (\<forall>s0. preserves (lc_step s0) m)"

lemma lawful_I: "(\<And>s. fresh_ids s \<Longrightarrow> wps m (\<lambda>r s'. lc_step s s') s) \<Longrightarrow> lawful m"
  by (auto simp: lawful_def preserves_wps intro: lc_trans wps_mono dest: lc_fresh)

lemma lawful_D: "lawful m \<Longrightarrow> fresh_ids s \<Longrightarrow> lc_step s (snd (m s))"
  by (auto simp: lawful_def dest: preservesD intro: lc_refl)

named_theorems law

lemma lawful_basic [law]:
  "lawful (ret x)" "lawful (throw e)" "lawful (gets g)" "lawful (guard_or b e)" "lawful (find_row tab P)"
  "lawful (find_or_throw tab P)" "lawful now" "lawful (foreign_key tab' P')" "lawful (int_columns ns)"
  by (auto simp: lawful_def now_def intro: pres)

lemma lawful_bnd [law]: "lawful m \<Longrightarrow> (\<And>x. lawful (f x)) \<Longrightarrow> lawful (bnd m f)"
  by (auto simp: lawful_def intro: pres)

lemma lawful_seq [law]: "lawful m \<Longrightarrow> lawful n \<Longrightarrow> lawful (seq m n)"
  by (auto simp: lawful_def intro: pres)

lemma lawful_cases [law]:
  "(b \<Longrightarrow> lawful m) \<Longrightarrow> (\<not> b \<Longrightarrow> lawful n) \<Longrightarrow> lawful (if b then m else n)"
  "(b \<Longrightarrow> lawful u) \<Longrightarrow> lawful (when_do b u)"
  "lawful p \<Longrightarrow> (\<And>y. lawful (f y)) \<Longrightarrow> lawful (case x of None \<Rightarrow> p | Some y \<Rightarrow> f y)"
  by (auto simp: lawful_def intro: pres split: option.split)

lemma lawful_prod [law]: "(\<And>a b. lawful (f a b)) \<Longrightarrow> lawful (case x of (a, b) \<Rightarrow> f a b)"
  by (cases x) simp

lemma lawful_blocks [law]:
  "lawful m \<Longrightarrow> lawful (transaction m)"
  "lawful m \<Longrightarrow> (\<And>e. lawful (h e)) \<Longrightarrow> lawful (try_catch m h)"
  by (auto simp: lawful_def intro: pres)

lemma lawful_modify:
  assumes "\<And>s. subscriptions (f s) = subscriptions s" and "\<And>s. subEvents (f s) = subEvents s" and "\<And>s. nextId (f s) = nextId s"
  shows "lawful (modify f)"
  unfolding lawful_def by (intro allI preserves_modify) (erule lc_frame, simp_all add: assms)

lemma lawful_update_row:
  assumes "\<And>g s. subscriptions (upd g s) = subscriptions s" and "\<And>g s. subEvents (upd g s) = subEvents s"
    and "\<And>g s. nextId (upd g s) = nextId s"
  shows "lawful (update_row tab upd P f)"
  unfolding lawful_def by (intro allI preserves_update_row) (erule lc_frame, simp_all add: assms)

lemma lawful_insert:
  assumes "\<And>g s. subscriptions (upd g s) = subscriptions s" and "\<And>g s. subEvents (upd g s) = subEvents s"
    and "\<And>g s. nextId (upd g s) = nextId s"
  shows "lawful (insert_row upd r)" and "lawful (insert_unique tab upd clash r)"
  unfolding lawful_def
  by (intro allI preserves_insert_row preserves_insert_unique; erule lc_frame; simp add: assms)+

lemma lawful_fresh [law]: "lawful fresh"
  by (rule lawful_I) (auto simp: wp intro!: lc_frame [OF lc_refl])

lemma lawful_audit [law]: "lawful (audit act u org app mdata meta)"
  unfolding audit_def audit_record_def by (rule lawful_modify) simp_all

lemma lawful_publish [law]: "lawful (publish ty payload refs corr)"
  by (rule lawful_I) (auto simp: wp published_def Let_def intro!: lc_frame [OF lc_refl])

lemma lawful_update_sub:
  assumes "\<And>r. sub_id (f r) = sub_id r" and "\<And>r. sub_status (f r) = sub_status r"
  shows "lawful (update_row subscriptions subscriptions_update (\<lambda>r. sub_id r = i) f)"
  unfolding lawful_def by (intro allI preserves_update_row) (erule lc_update_sub, simp_all add: assms)

text \<open>An event without a target status says nothing about statuses.\<close>

lemma lawful_note [law]: "lawful (create_event i ty frm None key mdata u)"
proof (rule lawful_I)
  fix s :: "'a sub_db_scheme"
  assume f: "fresh_ids s"
  have "lc_step s (subEvents_update (\<lambda>es. es @ [e]) (nextId_update Suc s))" if "sev_toStatus e = None" for e
    using f that status_of_cong [of "subEvents_update (\<lambda>es. es @ [e]) (nextId_update Suc s)" s]
    by (auto simp: lc_step_def fresh_ids_def apply_event_def legal_def replay_def less_Suc_eq intro!: exI [of _ "[e]"])
  moreover have "lc_step s (nextId_update Suc s)" by (rule lc_frame [OF lc_refl [OF f]]) simp_all
  ultimately show "wps (create_event i ty frm None key mdata u) (\<lambda>r. lc_step s) s"
    by (auto simp: create_event_def wp split: option.split)
qed

lemma lawful_record_event [law]: "lawful (record_event org type payload refs u m key)"
  unfolding record_event_def record_new_def create_trio_def getWithSync_def
  by (intro law lawful_modify lawful_insert) simp_all

section \<open>What a transition does\<close>

text \<open>A callback reads and writes other tables, and its update keeps the identity of the row.\<close>

definition kept :: "sub_row list \<Rightarrow> sub_event list \<Rightarrow> nat \<Rightarrow> 'z sub_db_scheme \<Rightarrow> bool" where
  "kept S E N s \<longleftrightarrow> subscriptions s = S \<and> subEvents s = E \<and> N \<le> nextId s"

definition quiet :: "('z sub_db_scheme, 'a) svc \<Rightarrow> bool" where
  "quiet m \<longleftrightarrow> (\<forall>S E N. preserves (kept S E N) m)"

definition yields :: "('a \<Rightarrow> bool) \<Rightarrow> ('s, 'a) svc \<Rightarrow> bool" where
  "yields P m \<longleftrightarrow> (\<forall>s x s'. m s = (Inr x, s') \<longrightarrow> P x)"

lemma yields_D: "yields P m \<Longrightarrow> m s = (Inr x, s') \<Longrightarrow> P x"
  by (auto simp: yields_def)

lemma yields_basic: "P x \<Longrightarrow> yields P (ret x)" "yields P (throw e)"
  by (simp_all add: yields_def run)

lemma yields_bnd: "(\<And>x. yields P (f x)) \<Longrightarrow> yields P (bnd m f)"
  by (auto simp: yields_def bnd_def split: prod.splits sum.splits)

lemma yields_seq: "yields P n \<Longrightarrow> yields P (seq m n)"
  by (simp add: seq_def yields_bnd)

lemma yields_if: "yields P m \<Longrightarrow> yields P n \<Longrightarrow> yields P (if b then m else n)"
  by simp

lemmas yields_intro = yields_if yields_seq yields_bnd yields_basic

definition keeps_id :: "transition \<Rightarrow> bool" where
  "keeps_id res \<longleftrightarrow> (\<forall>r. sub_id (tr_data res r) = sub_id r)"

definition transition_event :: "id \<Rightarrow> id \<Rightarrow> transition \<Rightarrow> sub_row \<Rightarrow> mutation_options \<Rightarrow> id \<Rightarrow> sub_event" where
  "transition_event i subId res sub options userId =
     \<lparr>sev_id = i, sev_subscriptionId = subId, sev_type = tr_eventType res, sev_fromStatus = Some (sub_status sub),
      sev_toStatus = Some (tr_toStatus res), sev_idempotencyKey = mo_idempotencyKey options,
      sev_metadata = tr_metadata res, sev_createdById = Some userId\<rparr>"

lemma run_create_event:
  "create_event i ty frm to' key mdata u s =
     (if \<exists>e \<in> set (subEvents s). same_key (sev_idempotencyKey e) key
      then (Inl (PrismaError ''P2002''), nextId_update Suc s)
      else (Inr (), subEvents_update (\<lambda>es. es @
        [\<lparr>sev_id = nextId s, sev_subscriptionId = i, sev_type = ty, sev_fromStatus = frm, sev_toStatus = to',
          sev_idempotencyKey = key, sev_metadata = mdata, sev_createdById = Some u\<rparr>]) (nextId_update Suc s)))"
proof -
  have "wps (create_event i ty frm to' key mdata u) (\<lambda>r s'. (r, s') =
     (if \<exists>e \<in> set (subEvents s). same_key (sev_idempotencyKey e) key
      then (Inl (PrismaError ''P2002''), nextId_update Suc s)
      else (Inr (), subEvents_update (\<lambda>es. es @
        [\<lparr>sev_id = nextId s, sev_subscriptionId = i, sev_type = ty, sev_fromStatus = frm, sev_toStatus = to',
          sev_idempotencyKey = key, sev_metadata = mdata, sev_createdById = Some u\<rparr>]) (nextId_update Suc s)))) s"
    by (auto simp: create_event_def wp find_None_iff' split: option.split dest: find_SomeD)
  then show ?thesis by (simp add: wps_run)
qed

definition same_sub :: "id \<Rightarrow> sub_row \<Rightarrow> bool" where
  "same_sub i r \<longleftrightarrow> sub_id r = i"

lemma same_sub_eq: "same_sub i = (\<lambda>r. sub_id r = i)"
  by (simp add: same_sub_def fun_eq_iff)

definition transitioned ::
  "id \<Rightarrow> transition \<Rightarrow> sub_row \<Rightarrow> mutation_options \<Rightarrow> id \<Rightarrow> 'z sub_db_scheme \<Rightarrow> 'z sub_db_scheme" where
  "transitioned subId res sub options userId s1 =
     subEvents_update (\<lambda>es. es @ [transition_event (nextId s1) subId res sub options userId])
       (nextId_update Suc (subscriptions_update (upd_where (same_sub subId) (moved res)) s1))"

text \<open>A transition whose callback leaves the subscriptions and their events alone, case by case.\<close>

lemma transition_body_eq:
  assumes "\<And>sub tr. quiet (compute sub tr)"
  shows "transition_body i options u compute s =
     (case List.find (\<lambda>r. sub_id r = i) (subscriptions s) of
        None \<Rightarrow> (Inl (NotFoundException ''Subscription not found''), s)
      | Some sub \<Rightarrow>
        if truthy (mo_idempotencyKey options) \<and> (\<exists>e \<in> set (subEvents s). sev_idempotencyKey e = mo_idempotencyKey options)
        then (Inr (sub, None, None), s)
        else if mo_expectedVersion options \<noteq> None \<and> mo_expectedVersion options \<noteq> Some (sub_version sub)
        then (Inl (ConflictException ''Subscription has been modified since expectedVersion - refetch and retry''), s)
        else (case compute sub (trial_of i s) s of
            (Inl e, s1) \<Rightarrow> (Inl e, s1)
          | (Inr res, s1) \<Rightarrow>
              if \<not> isTransitionAllowed (sub_status sub) (tr_toStatus res)
              then (Inl (BadRequestException (''Invalid subscription state transition: '' @ status_str (sub_status sub)
                @ '' -> '' @ status_str (tr_toStatus res))), s1)
              else if sub_planId (tr_data res sub) \<noteq> sub_planId sub \<and> sub_planId (tr_data res sub) \<notin> plan_id ` set (plans s1)
              then (Inl (PrismaError ''P2003''), s1)
              else if \<exists>e \<in> set (subEvents s). same_key (sev_idempotencyKey e) (mo_idempotencyKey options)
              then (Inl (PrismaError ''P2002''), nextId_update Suc (subscriptions_update (upd_where (same_sub i) (moved res)) s1))
              else (Inr (moved res sub, Some (tr_eventType res), tr_info res), transitioned i res sub options u s1)))"
proof (cases "List.find (\<lambda>r. sub_id r = i) (subscriptions s)")
  case None
  then show ?thesis by (simp add: transition_body_def find_sub_def run)
next
  case (Some sub)
  have key: "find_key_event (mo_idempotencyKey options) s = (Inr (if truthy (mo_idempotencyKey options)
      then List.find (\<lambda>e. sev_idempotencyKey e = mo_idempotencyKey options) (subEvents s) else None), s)"
    by (simp add: find_key_event_def find_row_def run)
  have found_key: "List.find (\<lambda>e. sev_idempotencyKey e = mo_idempotencyKey options) (subEvents s) = None
      \<longleftrightarrow> \<not> (\<exists>e \<in> set (subEvents s). sev_idempotencyKey e = mo_idempotencyKey options)"
    by (simp add: find_None_iff')
  obtain r s1 where c: "compute sub (trial_of i s) s = (r, s1)" by (cases "compute sub (trial_of i s) s")
  have k: "kept (subscriptions s) (subEvents s) (nextId s) s1"
    using assms preservesD [of "kept (subscriptions s) (subEvents s) (nextId s)" "compute sub (trial_of i s)" s] c
    by (simp add: quiet_def kept_def)
  then have found: "List.find (\<lambda>r. sub_id r = i) (subscriptions s1) = Some sub" and ev: "subEvents s1 = subEvents s"
    using Some by (simp_all add: kept_def)
  have plan: "List.find (\<lambda>p. plan_id p = k) ps = None \<longleftrightarrow> k \<notin> plan_id ` set ps" for k ps
    by (auto simp: find_None_iff')
  have moved_plan: "sub_planId (moved res r) = sub_planId (tr_data res r)" for res r by (simp add: moved_def)
  note upd = run_bnd_update_row [where tab = subscriptions and upd = subscriptions_update, OF found]
  show ?thesis
  proof (cases "truthy (mo_idempotencyKey options) \<and> (\<exists>e \<in> set (subEvents s). sev_idempotencyKey e = mo_idempotencyKey options)")
    case True
    then obtain e where "List.find (\<lambda>e. sev_idempotencyKey e = mo_idempotencyKey options) (subEvents s) = Some e"
      using found_key by (cases "List.find (\<lambda>e. sev_idempotencyKey e = mo_idempotencyKey options) (subEvents s)") auto
    with True Some show ?thesis
      by (simp add: transition_body_def find_sub_def run bnd_step [of "find_key_event k" for k] key)
  next
    case False
    then have "(if truthy (mo_idempotencyKey options)
      then List.find (\<lambda>e. sev_idempotencyKey e = mo_idempotencyKey options) (subEvents s) else None) = None"
      using found_key by auto
    note key' = key [unfolded this]
    show ?thesis
    proof (cases r)
      case (Inl ex)
      with False Some c show ?thesis
        by (auto simp: transition_body_def find_sub_def run bnd_step [of "find_key_event k" for k] key'
            bnd_step [of "compute x y" for x y])
    next
      case (Inr res)
      have step: "seq (plan_reference sub (moved res sub)) m s1 =
          (if sub_planId (tr_data res sub) \<noteq> sub_planId sub \<and> sub_planId (tr_data res sub) \<notin> plan_id ` set (plans s1)
           then (Inl (PrismaError ''P2003''), s1) else m s1)" for m :: "('a sub_db_scheme, 'b) svc"
        by (auto simp: plan_reference_def when_do_def run moved_plan plan [symmetric] seq_step ret_def foreign_key_def bnd_def
            find_row_def gets_def guard_or_def throw_def split: option.split)
      from False Some c Inr ev show ?thesis
        by (simp add: transition_body_def find_sub_def run bnd_step [of "find_key_event k" for k] key' step
            bnd_step [of "compute x y" for x y] assertTransition_def upd seq_step [of "create_event a b c d e f g" for a b c d e f g]
            run_create_event transitioned_def transition_event_def same_sub_eq)
    qed
  qed
qed

lemma transition_body_result:
  assumes "transition_body subId options userId compute s = (Inr (row, et, info), s')"
    and "\<And>sub tr. quiet (compute sub tr)"
  shows "(et = None \<and> info = None \<and> s' = s \<and> List.find (\<lambda>r. sub_id r = subId) (subscriptions s) = Some row)
    \<or> (\<exists>sub res s1. List.find (\<lambda>r. sub_id r = subId) (subscriptions s) = Some sub
        \<and> compute sub (trial_of subId s) s = (Inr res, s1) \<and> kept (subscriptions s) (subEvents s) (nextId s) s1
        \<and> isTransitionAllowed (sub_status sub) (tr_toStatus res) \<and> s' = transitioned subId res sub options userId s1)"
proof -
  have k: "kept (subscriptions s) (subEvents s) (nextId s) s1" if "compute sub (trial_of subId s) s = (r, s1)" for sub r s1
    using assms(2) preservesD [of "kept (subscriptions s) (subEvents s) (nextId s)" "compute sub (trial_of subId s)" s] that
    by (simp add: quiet_def kept_def)
  show ?thesis
    using assms(1) k unfolding transition_body_eq [OF assms(2)]
    by (auto split: option.splits if_splits sum.splits prod.splits)
qed

lemma moved_simps [simp]:
  "sub_status (moved res r) = tr_toStatus res" "sub_version (moved res r) = sub_version r + 1"
  by (simp_all add: moved_def)

lemma moved_id: "keeps_id res \<Longrightarrow> sub_id (moved res r) = sub_id r"
  by (simp add: moved_def keeps_id_def)

lemma status_transitioned:
  assumes "keeps_id res" and "List.find (\<lambda>r. sub_id r = i) (subscriptions s1) = Some sub"
  shows "status_of (transitioned i res sub options u s1) = (status_of s1)(i \<mapsto> tr_toStatus res)"
proof
  fix k
  show "status_of (transitioned i res sub options u s1) k = ((status_of s1)(i \<mapsto> tr_toStatus res)) k"
  proof (cases "k = i")
    case True
    then show ?thesis
      using assms by (simp add: status_of_def transitioned_def same_sub_eq find_upd_where_same moved_id)
  next
    case False
    then have "List.find (\<lambda>r. sub_id r = k) (upd_where (same_sub i) (moved res) (subscriptions s1))
        = List.find (\<lambda>r. sub_id r = k) (subscriptions s1)"
      by (intro find_upd_where_other) (auto simp: same_sub_def moved_id [OF assms(1)])
    then show ?thesis using False by (simp add: status_of_def transitioned_def)
  qed
qed

lemma lc_transitioned:
  assumes "fresh_ids s" and "kept (subscriptions s) (subEvents s) (nextId s) s1" and "keeps_id res"
    and "List.find (\<lambda>r. sub_id r = i) (subscriptions s) = Some sub"
    and "isTransitionAllowed (sub_status sub) (tr_toStatus res)"
  shows "lc_step s (transitioned i res sub options u s1)"
proof -
  have s1: "List.find (\<lambda>r. sub_id r = i) (subscriptions s1) = Some sub" "status_of s1 = status_of s"
    using assms(2,4) status_of_cong [of s1 s] by (simp_all add: kept_def)
  have st: "status_of (transitioned i res sub options u s1) = (status_of s)(i \<mapsto> tr_toStatus res)"
    using status_transitioned [OF assms(3) s1(1)] s1(2) by simp
  have ev: "subEvents (transitioned i res sub options u s1)
      = subEvents s @ [transition_event (nextId s1) i res sub options u]"
    using assms(2) by (simp add: transitioned_def kept_def)
  have "fresh_ids (transitioned i res sub options u s1)"
    using assms(1,2) moved_id [OF assms(3)] by (fastforce simp: fresh_ids_def transitioned_def set_upd_where kept_def)
  moreover have "legal (status_of s) (transition_event (nextId s1) i res sub options u)"
    using assms(4,5) by (simp add: legal_def transition_event_def status_of_def)
  ultimately show ?thesis
    unfolding lc_step_def ev st
    by (auto intro!: exI [of _ "[transition_event (nextId s1) i res sub options u]"]
        simp: replay_def apply_event_def transition_event_def)
qed

lemma lawful_transition:
  assumes "\<And>sub tr. quiet (compute sub tr)" and "\<And>sub tr. yields keeps_id (compute sub tr)"
  shows "lawful (transaction (transition_body i options u compute))"
proof (rule lawful_I)
  fix s :: "'a sub_db_scheme"
  assume f: "fresh_ids s"
  show "wps (transaction (transition_body i options u compute)) (\<lambda>r. lc_step s) s"
  proof (cases "transition_body i options u compute s")
    case (Pair r s')
    show ?thesis
    proof (cases r)
      case (Inl e)
      then show ?thesis using Pair lc_refl [OF f] by (simp add: wps_def transaction_def)
    next
      case (Inr x)
      obtain row et info where x: "x = (row, et, info)" by (cases x) auto
      from transition_body_result [OF Pair [unfolded Inr x] assms(1)] have "lc_step s s'"
      proof
        assume "et = None \<and> info = None \<and> s' = s \<and> List.find (\<lambda>r. sub_id r = i) (subscriptions s) = Some row"
        then show ?thesis using lc_refl [OF f] by simp
      next
        assume "\<exists>sub res s1. List.find (\<lambda>r. sub_id r = i) (subscriptions s) = Some sub
        \<and> compute sub (trial_of i s) s = (Inr res, s1) \<and> kept (subscriptions s) (subEvents s) (nextId s) s1
        \<and> isTransitionAllowed (sub_status sub) (tr_toStatus res)
        \<and> s' = transitioned i res sub options u s1"
        then obtain sub res s1 where sub: "List.find (\<lambda>r. sub_id r = i) (subscriptions s) = Some sub"
          and c: "compute sub (trial_of i s) s = (Inr res, s1)"
          and k: "kept (subscriptions s) (subEvents s) (nextId s) s1"
          and al: "isTransitionAllowed (sub_status sub) (tr_toStatus res)"
          and s': "s' = transitioned i res sub options u s1" by blast
        have "keeps_id res" by (rule yields_D [OF assms(2) c])
        then show ?thesis unfolding s' by (rule lc_transitioned [OF f k _ sub al])
      qed
      then show ?thesis using Pair Inr by (simp add: wps_def transaction_def)
    qed
  qed
qed

lemma lawful_publish_transition [law]: "lawful (publish_transition i row et)"
  unfolding publish_transition_def by (intro law)

lemma lawful_run:
  assumes "\<And>sub tr. quiet (compute sub tr)" and "\<And>sub tr. yields keeps_id (compute sub tr)"
  shows "lawful (run_with_info i options u compute)" and "lawful (runTransition i options u compute)"
  unfolding runTransition_def run_with_info_def
  by (intro law lawful_transition [OF assms])+

section \<open>The callbacks\<close>

lemma quiet_pure: "quiet (ret x)" "quiet (throw e)" "quiet (gets g)" "quiet (find_row tab P)" "quiet (find_or_throw tab' P')" "quiet now"
  "quiet (foreign_key tab' P')" "quiet (int_columns ns)"
  by (auto simp: quiet_def now_def intro: pres)

lemma quiet_comb:
  "quiet m \<Longrightarrow> (\<And>x. quiet (f x)) \<Longrightarrow> quiet (bnd m f)"
  "quiet m1 \<Longrightarrow> quiet n \<Longrightarrow> quiet (seq m1 n)"
  "quiet m2 \<Longrightarrow> quiet n2 \<Longrightarrow> quiet (if b then m2 else n2)"
  "quiet w \<Longrightarrow> quiet (when_do b w)"
  "quiet p \<Longrightarrow> (\<And>y. quiet (g y)) \<Longrightarrow> quiet (case x of None \<Rightarrow> p | Some y \<Rightarrow> g y)"
  by (auto simp: quiet_def intro: pres split: option.split)

lemma quiet_tables:
  "quiet (update_row subItems subItems_update P f1)" "quiet (update_row trials trials_update P2 f2)"
  "quiet (update_row subChanges subChanges_update P3 f3)" "quiet (insert_row prorations_update r)" "quiet fresh"
  unfolding quiet_def fresh_def by (intro allI pres; simp add: kept_def)+

lemmas quiet_intro = quiet_pure quiet_comb quiet_tables

lemma keeps_id_to_status [simp]: "keeps_id (to_status st et)"
  by (simp add: keeps_id_def to_status_def)

lemma quiet_renew_period: "quiet (renew_period sub c t)"
  unfolding renew_period_def Let_def mark_applied_def find_item_def find_price_def by (intro quiet_intro)

lemma yields_renew_period: "yields keeps_id (renew_period sub c t)"
  unfolding renew_period_def Let_def by (intro yields_intro) (simp add: keeps_id_def)

lemma quiet_change: "quiet (change_compute dto sub)"
  unfolding change_compute_def Let_def find_item_def find_price_def by (intro quiet_intro)

lemma yields_change: "yields keeps_id (change_compute dto sub)"
  unfolding change_compute_def Let_def by (intro yields_intro) (simp add: keeps_id_def)

section \<open>Every operation refines the machine\<close>

lemma lawful_lookup [law]: "lawful (getOwnedById i)" "lawful (find_key_event key)"
  unfolding getOwnedById_def find_sub_def find_key_event_def by (intro law)+

lemma lawful_transitions [law]:
  "lawful (sub_activate i u o1)" "lawful (sub_renew i u o1)" "lawful (sub_resume i u o1)" "lawful (sub_pause i u o1)"
  "lawful (sub_markPastDue i u o1)" "lawful (sub_enterGracePeriod i u o1 d)" "lawful (sub_expire i u o1)"
  "lawful (sub_suspend i u o1 why)" "lawful (sub_reactivate i u o1)"
  unfolding sub_activate_def sub_renew_def sub_resume_def sub_pause_def sub_markPastDue_def sub_enterGracePeriod_def
    sub_expire_def sub_suspend_def sub_reactivate_def find_item_def find_price_def set_trial_status_def mark_applied_def
  by (rule lawful_run;
      intro quiet_intro quiet_renew_period yields_intro yields_renew_period; simp add: keeps_id_def to_status_def)+

lemma new_sub_simps [simp]:
  "sub_id (new_sub i org dto plan product price t) = i"
  "sub_status (new_sub i org dto plan product price t)
   = (if start_trial dto plan then SubscriptionStatus.TRIALING else SubscriptionStatus.ACTIVE)"
  by (simp_all add: new_sub_def Let_def)

lemma create_trial_kept: "quiet (create_trial sub plan t meta)"
  unfolding quiet_def create_trial_def fresh_def by (intro allI pres; simp add: kept_def)

lemma create_body_result:
  fixes s :: "'z sub_db_scheme"
  assumes "create_body org u dto plan product price meta t s = (Inr row, s')"
  shows "\<exists>ev. row = new_sub (nextId s) org dto plan product price t
    \<and> subscriptions s' = subscriptions s @ [row] \<and> subEvents s' = subEvents s @ [ev] \<and> nextId s < nextId s'
    \<and> sev_subscriptionId ev = nextId s \<and> sev_toStatus ev = Some (sub_status row) \<and> sev_fromStatus ev = None
    \<and> sev_idempotencyKey ev = mo_idempotencyKey (csd_options dto)"
proof -
  let ?new = "new_sub (nextId s) org dto plan product price t"
  define m :: "('z sub_db_scheme, unit) svc" where "m = when_do (start_trial dto plan) (create_trial ?new plan t meta)"
  define s1 where "s1 = subItems_update (\<lambda>rs. rs @ [\<lparr>si_id = Suc (nextId s), si_subscriptionId = nextId s,
      si_priceId = csd_priceId dto, si_quantity = orElse (csd_quantity dto) 1\<rparr>])
    (nextId_update Suc (subscriptions_update (\<lambda>rs. rs @ [?new]) (nextId_update Suc s)))"
  have q: "quiet m" unfolding m_def by (intro quiet_comb create_trial_kept)
  have k1: "kept (subscriptions s1) (subEvents s1) (nextId s1) s1" by (simp add: kept_def)
  obtain r s2 where m: "m s1 = (r, s2)" by (cases "m s1")
  have "kept (subscriptions s1) (subEvents s1) (nextId s1) (snd (m s1))"
    using q k1 preservesD [of "kept (subscriptions s1) (subEvents s1) (nextId s1)" m s1] by (simp add: quiet_def)
  then have k2: "subscriptions s2 = subscriptions s1" "subEvents s2 = subEvents s1" "nextId s1 \<le> nextId s2"
    by (simp_all add: m kept_def)
  have "create_body org u dto plan product price meta t s = (case r of Inl e \<Rightarrow> (Inl e, s2)
      | Inr _ \<Rightarrow> seq (create_event (nextId s)
            (if start_trial dto plan then SubscriptionEventType.TRIAL_STARTED else SubscriptionEventType.CREATED)
            None (Some (sub_status ?new)) (mo_idempotencyKey (csd_options dto)) None u) (ret ?new) s2)"
    using m by (simp add: create_body_def run seq_step [of "when_do a b" for a b] m_def s1_def split del: if_split
        cong: sum.case_cong)
  with assms k2 show ?thesis
    by (auto simp: seq_step run_create_event run s1_def split: sum.splits if_splits)
qed

lemma lawful_create_body: "lawful (transaction (create_body org u dto plan product price meta t))"
proof (rule lawful_I)
  fix s :: "'a sub_db_scheme"
  assume f: "fresh_ids s"
  show "wps (transaction (create_body org u dto plan product price meta t)) (\<lambda>r. lc_step s) s"
  proof (cases "create_body org u dto plan product price meta t s")
    case (Pair r s')
    show ?thesis
    proof (cases r)
      case (Inl e)
      then show ?thesis using Pair lc_refl [OF f] by (simp add: wps_def transaction_def)
    next
      case (Inr row)
      from create_body_result [OF Pair [unfolded Inr]] obtain ev where
        row: "sub_id row = nextId s" "sub_status row = SubscriptionStatus.TRIALING \<or> sub_status row = SubscriptionStatus.ACTIVE"
        and subs: "subscriptions s' = subscriptions s @ [row]" and evs: "subEvents s' = subEvents s @ [ev]"
        and n: "nextId s < nextId s'"
        and ev: "sev_subscriptionId ev = nextId s" "sev_toStatus ev = Some (sub_status row)" "sev_fromStatus ev = None"
        by auto
      have none: "List.find (\<lambda>r. sub_id r = nextId s) (subscriptions s) = None"
        using f by (auto simp: find_None_iff' fresh_ids_def)
      have st: "status_of s' = (status_of s)(nextId s \<mapsto> sub_status row)"
      proof
        fix k
        show "status_of s' k = ((status_of s)(nextId s \<mapsto> sub_status row)) k"
          using none by (cases "k = nextId s") (auto simp: status_of_def subs find_append row split: option.split)
      qed
      have "fresh_ids s'" using f n row(1) by (fastforce simp: fresh_ids_def subs)
      moreover have "legal (status_of s) ev"
        using ev row(2) none by (auto simp: legal_def status_of_def)
      ultimately have "lc_step s s'"
        unfolding lc_step_def evs st using ev
        by (auto intro!: exI [of _ "[ev]"] simp: replay_def apply_event_def)
      then show ?thesis using Pair Inr by (simp add: wps_def transaction_def)
    qed
  qed
qed

lemma lawful_create [law]: "lawful (sub_create org u dto meta)"
  unfolding sub_create_def create_new_def find_price_def by (intro law lawful_create_body)

lemma lawful_cancel [law]: "lawful (sub_cancel i u dto meta)"
  unfolding sub_cancel_def cancel_at_period_end_def
  by (intro law lawful_update_sub lawful_modify lawful_run quiet_intro yields_intro; simp add: keeps_id_def)

lemma lawful_extendTrial [law]: "lawful (sub_extendTrial i t)"
  unfolding sub_extendTrial_def set_trial_status_def
  by (intro law lawful_update_sub lawful_update_row; simp)

lemma lawful_applyChange [law]: "lawful (sub_applyChange i u dto meta)"
  unfolding sub_applyChange_def schedule_change_def record_proration_def
  by (intro law lawful_insert lawful_run quiet_change yields_change; simp)

lemma lawful_cancelScheduled [law]: "lawful (sub_cancelScheduledChange i ch u meta)"
  unfolding sub_cancelScheduledChange_def by (intro law lawful_update_row; simp)

lemma lawful_coupon [law]: "lawful (sub_applyCoupon i u cid code)" "lawful (sub_removeCoupon i scid u)"
  unfolding sub_applyCoupon_def sub_removeCoupon_def redeem_def resolveForRedemption_def find_promotion_def coupon_getOwned_def
  by (intro law lawful_update_row lawful_insert; simp)+

section \<open>Histories of calls\<close>

datatype sub_call =
    Create id id create_sub_dto request_meta
  | Activate id id mutation_options
  | Renew id id mutation_options
  | ApplyChange id id change_dto request_meta
  | CancelScheduledChange id id id request_meta
  | Cancel id id cancel_dto request_meta
  | Resume id id mutation_options
  | Pause id id mutation_options
  | MarkPastDue id id mutation_options
  | EnterGracePeriod id id mutation_options "int option"
  | Expire id id mutation_options
  | Suspend id id mutation_options "string option"
  | Reactivate id id mutation_options
  | ExtendTrial id time
  | ApplyCoupon id id "id option" "string option"
  | RemoveCoupon id id id
  | TimePasses nat

fun perform :: "sub_call \<Rightarrow> 'z sub_db_scheme \<Rightarrow> 'z sub_db_scheme" where
  "perform (Create org u dto meta) s = snd (sub_create org u dto meta s)"
| "perform (Activate i u o1) s = snd (sub_activate i u o1 s)"
| "perform (Renew i u o1) s = snd (sub_renew i u o1 s)"
| "perform (ApplyChange i u dto meta) s = snd (sub_applyChange i u dto meta s)"
| "perform (CancelScheduledChange i c u meta) s = snd (sub_cancelScheduledChange i c u meta s)"
| "perform (Cancel i u dto meta) s = snd (sub_cancel i u dto meta s)"
| "perform (Resume i u o1) s = snd (sub_resume i u o1 s)"
| "perform (Pause i u o1) s = snd (sub_pause i u o1 s)"
| "perform (MarkPastDue i u o1) s = snd (sub_markPastDue i u o1 s)"
| "perform (EnterGracePeriod i u o1 d) s = snd (sub_enterGracePeriod i u o1 d s)"
| "perform (Expire i u o1) s = snd (sub_expire i u o1 s)"
| "perform (Suspend i u o1 why) s = snd (sub_suspend i u o1 why s)"
| "perform (Reactivate i u o1) s = snd (sub_reactivate i u o1 s)"
| "perform (ExtendTrial i t) s = snd (sub_extendTrial i t s)"
| "perform (ApplyCoupon i u c code) s = snd (sub_applyCoupon i u c code s)"
| "perform (RemoveCoupon i sc u) s = snd (sub_removeCoupon i sc u s)"
| "perform (TimePasses d) s = clock_update (\<lambda>t. t + int d) s"

inductive reaches :: "'z sub_db_scheme \<Rightarrow> 'z sub_db_scheme \<Rightarrow> bool" for s0 where
  start: "reaches s0 s0"
| call: "reaches s0 s \<Longrightarrow> reaches s0 (perform c s)"

lemma perform_lawful: "fresh_ids s \<Longrightarrow> lc_step s (perform c s)"
  by (cases c) (auto intro: lawful_D law lc_frame [OF lc_refl])

lemma reaches_lc: "reaches s0 s \<Longrightarrow> fresh_ids s0 \<Longrightarrow> lc_step s0 s"
  by (induction rule: reaches.induct) (auto intro: lc_refl lc_trans perform_lawful dest: lc_fresh)

text \<open>C1. The subscription service refines the status graph. Whatever calls are made, in any order, with
  any arguments, whether they return or throw, and however time passes, the lifecycle events are only
  ever appended; what happened to the statuses is exactly what the new events say; every status event
  is a move the graph allows from the status the subscription had; and identifiers stay unused.\<close>
theorem lifecycle_refinement:
  assumes "fresh_ids s0" and "reaches s0 s"
  shows "fresh_ids s \<and> (\<exists>es. subEvents s = subEvents s0 @ es
     \<and> status_of s = replay (status_of s0) es \<and> legal_run (status_of s0) es)"
  using reaches_lc [OF assms(2,1)] by (simp add: lc_step_def)

definition sample_product :: product_row where
  "sample_product = \<lparr>prod_id = 2, prod_organizationId = 9, prod_applicationId = 3, prod_name = ''Suite'', prod_slug = ''suite'',
     prod_description = None, prod_status = ProductStatus.ACTIVE, prod_visibility = ProductVisibility.PUBLIC, prod_metadata = None,
     prod_createdById = 7, prod_createdAt = 0, prod_archivedAt = None\<rparr>"

definition sample_plan :: plan_row where
  "sample_plan = \<lparr>plan_id = 4, plan_productId = 2, plan_name = ''Pro'', plan_code = ''pro'', plan_description = None, plan_billingType = RECURRING,
     plan_trialEligible = True, plan_trialDays = Some 14, plan_seatLimit = None, plan_status = PlanStatus.ACTIVE, plan_sortOrder = 0,
     plan_metadata = None, plan_createdAt = 0, plan_archivedAt = None\<rparr>"

definition sample_price :: price_row where
  "sample_price = \<lparr>price_id = 5, price_planId = 4, price_currency = ''USD'', price_amountMinor = 1500,
     price_interval = MONTH, price_intervalCount = 1, price_taxInclusive = False, price_countryCode = None, price_providerRef = None,
     price_effectiveAt = 0, price_expiresAt = None, price_status = PriceStatus.ACTIVE, price_createdAt = 0\<rparr>"

definition sample_sub :: sub_row where
  "sample_sub = \<lparr>sub_id = 10, sub_organizationId = 9, sub_customerId = 1, sub_productId = 2, sub_planId = 4,
     sub_applicationId = 3, sub_environmentType = PRODUCTION, sub_provider = MANUAL, sub_providerSubscriptionId = None,
     sub_status = SubscriptionStatus.ACTIVE, sub_currentPeriodStart = Some 0, sub_currentPeriodEnd = Some 2678400000,
     sub_trialStart = None, sub_trialEnd = None, sub_cancelAtPeriodEnd = False, sub_canceledAt = None,
     sub_cancellationReason = None, sub_gracePeriodEnd = None, sub_quantity = 1, sub_metadata = None, sub_version = 1\<rparr>"

definition sample_subs :: sub_db where
  "sample_subs = \<lparr>clock = 1296000000, nextId = 100, audits = [], platformEvents = [], automationRules = [], jobs = [],
     jobHistory = [], queueControls = [], finIntegrations = [], erpConnections = [], finEvents = [], syncQueue = [],
     finSyncs = [], syncHistory = [], syncErrors = [], erpCalls = [],
     customers = [\<lparr>cust_id = 1, cust_organizationId = 9\<rparr>],
     products = [sample_product],
     plans = [sample_plan], prices = [sample_price], subscriptions = [sample_sub],
     subItems = [\<lparr>si_id = 11, si_subscriptionId = 10, si_priceId = 5, si_quantity = 1\<rparr>], subEvents = [],
     subChanges = [], prorations = [], trials = [], coupons = [], promotionCodes = [], subCoupons = []\<rparr>"

definition no_options :: mutation_options where
  "no_options = \<lparr>mo_idempotencyKey = None, mo_expectedVersion = None\<rparr>"

lemma sample_fresh: "fresh_ids sample_subs"
  by (simp add: fresh_ids_def sample_subs_def sample_sub_def)

theorem lifecycle_refinement_witness:
  "let s = perform (Renew 10 7 no_options) (perform (TimePasses 2592000000) sample_subs) in
   fresh_ids s \<and> (\<exists>es. subEvents s = subEvents sample_subs @ es
     \<and> status_of s = replay (status_of sample_subs) es \<and> legal_run (status_of sample_subs) es)"
  unfolding Let_def
  by (rule lifecycle_refinement [OF sample_fresh]) (intro reaches.intros)

text \<open>C12. EXPIRED is final: no sequence of calls brings an expired subscription back, to any status.\<close>
theorem expired_is_final:
  assumes "fresh_ids s0" and "reaches s0 s" and "status_of s0 i = Some SubscriptionStatus.EXPIRED"
  shows "status_of s i = Some SubscriptionStatus.EXPIRED"
proof -
  from reaches_lc [OF assms(2,1)] obtain es where "status_of s = replay (status_of s0) es" "legal_run (status_of s0) es"
    by (auto simp: lc_step_def)
  with legal_run_terminal [of SubscriptionStatus.EXPIRED "status_of s0" i es] assms(3) show ?thesis by simp
qed

theorem expired_is_final_witness:
  "status_of (perform (Activate 10 7 no_options) (sample_subs\<lparr>subscriptions := [sample_sub\<lparr>sub_status := SubscriptionStatus.EXPIRED\<rparr>]\<rparr>)) 10
   = Some SubscriptionStatus.EXPIRED"
  by (rule expired_is_final [OF _ reaches.call [OF reaches.start]])
     (simp_all add: fresh_ids_def sample_subs_def sample_sub_def status_of_def)

section \<open>The contract of one transition\<close>

lemma run_publish_transition:
  "\<exists>s'. publish_transition i row et s = (Inr (), s') \<and> subscriptions s' = subscriptions s \<and> subEvents s' = subEvents s
     \<and> (et = None \<longrightarrow> s' = s)"
proof -
  have "wps (publish_transition i row et) (\<lambda>r s'. r = Inr () \<and> subscriptions s' = subscriptions s \<and> subEvents s' = subEvents s
     \<and> (et = None \<longrightarrow> s' = s)) s"
    by (auto simp: publish_transition_def wp published_def Let_def split: option.split)
  then show ?thesis by (auto simp: wps_def split: prod.splits)
qed

lemma runTransition_step:
  assumes "transition_body i options u compute s = (Inr (row, et, info), s1)"
  shows "\<exists>s'. runTransition i options u compute s = (Inr row, s') \<and> subscriptions s' = subscriptions s1
    \<and> subEvents s' = subEvents s1 \<and> (et = None \<longrightarrow> s' = s1)"
proof -
  obtain s' where s': "publish_transition i row et s1 = (Inr (), s')" "subscriptions s' = subscriptions s1"
    "subEvents s' = subEvents s1" "et = None \<longrightarrow> s' = s1"
    using run_publish_transition [of i row et s1] by blast
  have "runTransition i options u compute s = (Inr row, s')"
    using assms s'(1) by (simp add: runTransition_def run_with_info_def bnd_step seq_step run_transaction run)
  with s'(2-4) show ?thesis by blast
qed

lemma runTransition_fail:
  "transition_body i options u compute s = (Inl e, s1) \<Longrightarrow> runTransition i options u compute s = (Inl e, s)"
  by (simp add: runTransition_def run_with_info_def bnd_step run_transaction)

text \<open>C2. The contract of \<open>runTransition\<close>, for any callback that leaves the subscription and event tables
  alone. An unknown subscription is refused. A call whose (non-empty) key some stored event carries is a retry: it returns the
  subscription as it is and changes nothing. Any other call with a stale expected version, a callback that throws, a
  status change that the graph does not allow, a new plan that does not exist or a clashing key is refused with its
  error and leaves the database exactly as it was. Every remaining call succeeds: it returns the subscription
  with the callback's data, the new status and its version increased by one, stores exactly that in the row of the subscription and
  in no other row, and appends exactly one event, from the old to the new status and under the key of the call.\<close>
theorem runTransition_contract:
  assumes "\<And>sub tr. quiet (compute sub tr)"
  shows "case List.find (\<lambda>r. sub_id r = i) (subscriptions s) of
      None \<Rightarrow> runTransition i options u compute s = (Inl (NotFoundException ''Subscription not found''), s)
    | Some sub \<Rightarrow>
      if truthy (mo_idempotencyKey options) \<and> (\<exists>e \<in> set (subEvents s). sev_idempotencyKey e = mo_idempotencyKey options)
      then runTransition i options u compute s = (Inr sub, s)
      else if mo_expectedVersion options \<noteq> None \<and> mo_expectedVersion options \<noteq> Some (sub_version sub)
      then runTransition i options u compute s
        = (Inl (ConflictException ''Subscription has been modified since expectedVersion - refetch and retry''), s)
      else (case compute sub (trial_of i s) s of
          (Inl e, s1) \<Rightarrow> runTransition i options u compute s = (Inl e, s)
        | (Inr res, s1) \<Rightarrow>
            if \<not> isTransitionAllowed (sub_status sub) (tr_toStatus res)
            then runTransition i options u compute s
              = (Inl (BadRequestException (''Invalid subscription state transition: '' @ status_str (sub_status sub)
                  @ '' -> '' @ status_str (tr_toStatus res))), s)
            else if sub_planId (tr_data res sub) \<noteq> sub_planId sub \<and> sub_planId (tr_data res sub) \<notin> plan_id ` set (plans s1)
            then runTransition i options u compute s = (Inl (PrismaError ''P2003''), s)
            else if \<exists>e \<in> set (subEvents s). same_key (sev_idempotencyKey e) (mo_idempotencyKey options)
            then runTransition i options u compute s = (Inl (PrismaError ''P2002''), s)
            else \<exists>s'. runTransition i options u compute s
                = (Inr ((tr_data res sub)\<lparr>sub_status := tr_toStatus res, sub_version := sub_version sub + 1\<rparr>), s')
              \<and> subscriptions s' = map (\<lambda>r. if sub_id r = i
                  then (tr_data res r)\<lparr>sub_status := tr_toStatus res, sub_version := sub_version r + 1\<rparr> else r) (subscriptions s)
              \<and> subEvents s' = subEvents s @ [\<lparr>sev_id = nextId s1, sev_subscriptionId = i, sev_type = tr_eventType res,
                  sev_fromStatus = Some (sub_status sub), sev_toStatus = Some (tr_toStatus res),
                  sev_idempotencyKey = mo_idempotencyKey options, sev_metadata = tr_metadata res, sev_createdById = Some u\<rparr>])"
proof -
  have k: "subscriptions s1 = subscriptions s \<and> subEvents s1 = subEvents s" if "compute sub (trial_of i s) s = (r, s1)" for sub r s1
    using assms preservesD [of "kept (subscriptions s) (subEvents s) (nextId s)" "compute sub (trial_of i s)" s] that
    by (simp add: quiet_def kept_def)
  have ok: "\<exists>s'. runTransition i options u compute s = (Inr (moved res sub), s')
      \<and> subscriptions s' = upd_where (same_sub i) (moved res) (subscriptions s)
      \<and> subEvents s' = subEvents s @ [transition_event (nextId s1) i res sub options u]"
    if "transition_body i options u compute s = (Inr (moved res sub, et, info), transitioned i res sub options u s1)"
      and "subscriptions s1 = subscriptions s \<and> subEvents s1 = subEvents s" for sub res et info s1
    using runTransition_step [OF that(1)] that(2) by (auto simp: transitioned_def)
  have retry: "runTransition i options u compute s = (Inr sub, s)"
    if "transition_body i options u compute s = (Inr (sub, None, info), s)" for sub info
    using runTransition_step [OF that] by auto
  note body = transition_body_eq [where compute = compute and i = i and options = options and u = u and s = s, OF assms]
  note fail = runTransition_fail [of i options u compute s]
  show ?thesis
  proof (cases "List.find (\<lambda>r. sub_id r = i) (subscriptions s)")
    case None
    then show ?thesis using fail body by simp
  next
    case (Some sub)
    note found = Some
    obtain r s1 where c: "compute sub (trial_of i s) s = (r, s1)" by (cases "compute sub (trial_of i s) s")
    let ?retry = "truthy (mo_idempotencyKey options) \<and> (\<exists>e \<in> set (subEvents s). sev_idempotencyKey e = mo_idempotencyKey options)"
    let ?stale = "mo_expectedVersion options \<noteq> None \<and> mo_expectedVersion options \<noteq> Some (sub_version sub)"
    show ?thesis
    proof (cases "?retry \<or> ?stale \<or> isl r")
      case True
      consider (again) ?retry | (stale) "\<not> ?retry" ?stale | (throws) e where "\<not> ?retry" "\<not> ?stale" "r = Inl e"
        using True by (metis isl_def)
      then show ?thesis
      proof cases
        case again
        then have "transition_body i options u compute s = (Inr (sub, None, None), s)" using body found by simp
        with again found show ?thesis by (simp add: retry)
      next
        case stale
        show ?thesis unfolding found option.case if_not_P [OF stale(1)] if_P [OF stale(2)]
          by (rule fail [OF body [unfolded found option.case if_not_P [OF stale(1)] if_P [OF stale(2)]]])
      next
        case throws
        show ?thesis unfolding found option.case if_not_P [OF throws(1)] if_not_P [OF throws(2)] c throws(3) prod.case sum.case
          by (rule fail [OF body [unfolded found option.case if_not_P [OF throws(1)] if_not_P [OF throws(2)] c throws(3)
              prod.case sum.case]])
      qed
    next
      case False
      then obtain res where res: "r = Inr res" and new: "\<not> ?retry" "\<not> ?stale" by (cases r) auto
      let ?plan = "sub_planId (tr_data res sub) \<noteq> sub_planId sub \<and> sub_planId (tr_data res sub) \<notin> plan_id ` set (plans s1)"
      let ?clash = "\<exists>e \<in> set (subEvents s). same_key (sev_idempotencyKey e) (mo_idempotencyKey options)"
      note body = body [unfolded found option.case if_not_P [OF new(1)] if_not_P [OF new(2)] c res prod.case sum.case]
      note to_here = found option.case if_not_P [OF new(1)] if_not_P [OF new(2)] c res prod.case sum.case
      consider (illegal) "\<not> isTransitionAllowed (sub_status sub) (tr_toStatus res)"
        | (unknown) "isTransitionAllowed (sub_status sub) (tr_toStatus res)" ?plan
        | (clash) "isTransitionAllowed (sub_status sub) (tr_toStatus res)" "\<not> ?plan" ?clash
        | (good) "isTransitionAllowed (sub_status sub) (tr_toStatus res)" "\<not> ?plan" "\<not> ?clash" by blast
      then show ?thesis
      proof cases
        case illegal
        show ?thesis unfolding to_here if_P [OF illegal] by (rule fail [OF body [unfolded if_P [OF illegal]]])
      next
        case unknown
        have n: "\<not> \<not> isTransitionAllowed (sub_status sub) (tr_toStatus res)" using unknown(1) by simp
        show ?thesis unfolding to_here if_not_P [OF n] if_P [OF unknown(2)]
          by (rule fail [OF body [unfolded if_not_P [OF n] if_P [OF unknown(2)]]])
      next
        case clash
        have n: "\<not> \<not> isTransitionAllowed (sub_status sub) (tr_toStatus res)" using clash(1) by simp
        show ?thesis unfolding to_here if_not_P [OF n] if_not_P [OF clash(2)] if_P [OF clash(3)]
          by (rule fail [OF body [unfolded if_not_P [OF n] if_not_P [OF clash(2)] if_P [OF clash(3)]]])
      next
        case good
        have n: "\<not> \<not> isTransitionAllowed (sub_status sub) (tr_toStatus res)" using good(1) by simp
        show ?thesis unfolding to_here if_not_P [OF n] if_not_P [OF good(2)] if_not_P [OF good(3)]
          by (rule ok [OF body [unfolded if_not_P [OF n] if_not_P [OF good(2)] if_not_P [OF good(3)]] k [OF c],
              unfolded transition_event_def moved_def upd_where_def same_sub_def])
      qed
    qed
  qed
qed

theorem runTransition_contract_witness:
  "\<exists>s' row. runTransition 10 (no_options\<lparr>mo_expectedVersion := Some 1\<rparr>) 7
       (\<lambda>sub trial. ret (to_status SubscriptionStatus.PAUSED SubscriptionEventType.PAUSED)) sample_subs = (Inr row, s')
     \<and> sub_status row = SubscriptionStatus.PAUSED \<and> sub_version row = 2 \<and> length (subEvents s') = 1"
  using runTransition_contract [where i = 10 and s = sample_subs and options = "no_options\<lparr>mo_expectedVersion := Some 1\<rparr>"
      and u = 7 and compute = "\<lambda>sub trial. ret (to_status SubscriptionStatus.PAUSED SubscriptionEventType.PAUSED)",
      OF quiet_pure(1)]
  by (auto simp: sample_subs_def sample_sub_def no_options_def to_status_def isTransitionAllowed_def run)

text \<open>A retry is a no-op: when any lifecycle event, of whatever subscription, carries the idempotency key
  of the call, the call returns the subscription as it is and writes nothing, before the version check
  and without running the callback.\<close>
theorem transition_retry_noop:
  assumes "mo_idempotencyKey options = Some k" and "k \<noteq> []" and "e \<in> set (subEvents s)"
    and "sev_idempotencyKey e = Some k" and "List.find (\<lambda>r. sub_id r = i) (subscriptions s) = Some sub"
  shows "runTransition i options u compute s = (Inr sub, s)"
proof -
  obtain e' where "List.find (\<lambda>e. sev_idempotencyKey e = Some k) (subEvents s) = Some e'"
    using assms(3,4) by (cases "List.find (\<lambda>e. sev_idempotencyKey e = Some k) (subEvents s)") (auto simp: find_None_iff')
  with assms have "transition_body i options u compute s = (Inr (sub, None, None), s)"
    by (simp add: transition_body_def find_sub_def find_key_event_def run)
  then show ?thesis
    by (simp add: runTransition_def run_with_info_def bnd_step seq_step run_transaction publish_transition_def run)
qed

theorem transition_retry_noop_witness:
  "runTransition 10 (no_options\<lparr>mo_idempotencyKey := Some ''k1''\<rparr>) 7
     (\<lambda>sub trial. ret (to_status SubscriptionStatus.PAUSED SubscriptionEventType.PAUSED))
     (sample_subs\<lparr>subEvents := [\<lparr>sev_id = 1, sev_subscriptionId = 99, sev_type = SubscriptionEventType.RENEWED,
        sev_fromStatus = None, sev_toStatus = None, sev_idempotencyKey = Some ''k1'', sev_metadata = None, sev_createdById = None\<rparr>]\<rparr>)
   = (Inr sample_sub, sample_subs\<lparr>subEvents := [\<lparr>sev_id = 1, sev_subscriptionId = 99, sev_type = SubscriptionEventType.RENEWED,
        sev_fromStatus = None, sev_toStatus = None, sev_idempotencyKey = Some ''k1'', sev_metadata = None, sev_createdById = None\<rparr>]\<rparr>)"
  by (rule transition_retry_noop [where k = "''k1''" and e = "\<lparr>sev_id = 1, sev_subscriptionId = 99,
        sev_type = SubscriptionEventType.RENEWED, sev_fromStatus = None, sev_toStatus = None,
        sev_idempotencyKey = Some ''k1'', sev_metadata = None, sev_createdById = None\<rparr>"])
     (simp_all add: sample_subs_def sample_sub_def no_options_def)

section \<open>Renewal\<close>

text \<open>A renewal without a due change advances the period without a gap: the new period starts at the old
  end, ends one billing interval later and strictly after it, the subscription is ACTIVE at the next
  version, and it records one RENEWED event.\<close>
theorem renew_advances:
  assumes sub: "List.find (\<lambda>r. sub_id r = i) (subscriptions s) = Some sub" and "sub_currentPeriodEnd sub = Some e"
    and "\<not> sub_cancelAtPeriodEnd sub" and "isTransitionAllowed (sub_status sub) SubscriptionStatus.ACTIVE"
    and "List.find (due_change i (clock s)) (subChanges s) = None"
    and "List.find (\<lambda>x. si_subscriptionId x = i) (subItems s) = Some item"
    and "List.find (\<lambda>p. price_id p = si_priceId item) (prices s) = Some price" and "1 \<le> price_intervalCount price"
  shows "\<exists>row. fst (sub_renew i u no_options s) = Inr row \<and> sub_currentPeriodStart row = Some e
    \<and> sub_currentPeriodEnd row = Some (addBillingInterval e (price_interval price) (price_intervalCount price))
    \<and> e < addBillingInterval e (price_interval price) (price_intervalCount price)
    \<and> sub_status row = SubscriptionStatus.ACTIVE \<and> sub_version row = sub_version sub + 1
    \<and> (\<exists>ev. subEvents (snd (sub_renew i u no_options s)) = subEvents s @ [ev] \<and> sev_type ev = SubscriptionEventType.RENEWED)"
proof -
  have i: "sub_id sub = i" using sub by (auto dest: find_SomeD)
  have none: "List.find (\<lambda>c. due_change i (clock s) c \<and> sc_type c = CANCEL_AT_PERIOD_END) (subChanges s) = None"
    using assms(5) by (auto simp: find_None_iff')
  have later: "e < addBillingInterval e (price_interval price) (price_intervalCount price)"
    using addBillingInterval_min [of "price_intervalCount price" e "price_interval price"]
      min_days_pos [OF assms(8), of "price_interval price"] assms(8)
    by (simp add: ms_per_day_def)
  have "wps (sub_renew i u no_options) (\<lambda>r s'. \<exists>row. r = Inr row \<and> sub_currentPeriodStart row = Some e
    \<and> sub_currentPeriodEnd row = Some (addBillingInterval e (price_interval price) (price_intervalCount price))
    \<and> sub_status row = SubscriptionStatus.ACTIVE \<and> sub_version row = sub_version sub + 1
    \<and> (\<exists>ev. subEvents s' = subEvents s @ [ev] \<and> sev_type ev = SubscriptionEventType.RENEWED)) s"
    using assms i none
    by (simp add: sub_renew_def runTransition_def run_with_info_def transition_body_def wp find_sub_def find_key_event_def
        no_options_def assertTransition_def create_event_def renew_period_def find_item_def find_price_def Let_def
        moved_def publish_transition_def published_def)
  with later show ?thesis by (auto simp: wps_run)
qed

theorem renew_advances_witness:
  "\<exists>row. fst (sub_renew 10 7 no_options sample_subs) = Inr row \<and> sub_currentPeriodStart row = Some 2678400000
    \<and> sub_currentPeriodEnd row = Some (addBillingInterval 2678400000 (price_interval sample_price) (price_intervalCount sample_price))
    \<and> 2678400000 < addBillingInterval 2678400000 (price_interval sample_price) (price_intervalCount sample_price)
    \<and> sub_status row = SubscriptionStatus.ACTIVE \<and> sub_version row = sub_version sample_sub + 1
    \<and> (\<exists>ev. subEvents (snd (sub_renew 10 7 no_options sample_subs)) = subEvents sample_subs @ [ev]
         \<and> sev_type ev = SubscriptionEventType.RENEWED)"
  by (rule renew_advances [where item = "\<lparr>si_id = 11, si_subscriptionId = 10, si_priceId = 5, si_quantity = 1\<rparr>"])
     (simp_all add: sample_subs_def sample_sub_def sample_price_def isTransitionAllowed_def)

text \<open>Resuming does not undo a cancellation that was scheduled for the period end: \<open>resume\<close> clears the
  flag of the subscription but leaves the pending CANCEL_AT_PERIOD_END change in place, and the next
  renewal after its effective date cancels the subscription all the same.\<close>
theorem resumed_subscription_still_canceled:
  assumes sub: "List.find (\<lambda>r. sub_id r = i) (subscriptions s) = Some sub" and "sub_status sub = SubscriptionStatus.ACTIVE"
    and "c \<in> set (subChanges s)" and "due_change i (clock s) c" and "sc_type c = CANCEL_AT_PERIOD_END"
  shows "let s1 = snd (sub_resume i u no_options s); s2 = snd (sub_renew i u no_options s1) in
    (\<exists>row. List.find (\<lambda>r. sub_id r = i) (subscriptions s1) = Some row
       \<and> sub_status row = SubscriptionStatus.ACTIVE \<and> \<not> sub_cancelAtPeriodEnd row)
    \<and> status_of s2 i = Some SubscriptionStatus.CANCELED"
proof -
  define row where "row = sub\<lparr>sub_cancelAtPeriodEnd := False, sub_canceledAt := None, sub_cancellationReason := None,
    sub_version := sub_version sub + 1, sub_status := SubscriptionStatus.ACTIVE\<rparr>"
  define s1 where "s1 = snd (sub_resume i u no_options s)"
  have i: "sub_id sub = i" using sub by (auto dest: find_SomeD)
  have "wps (sub_resume i u no_options) (\<lambda>r s'. List.find (\<lambda>r. sub_id r = i) (subscriptions s') = Some row
      \<and> subChanges s' = subChanges s \<and> clock s' = clock s) s"
    using assms i
    by (simp add: sub_resume_def runTransition_def run_with_info_def transition_body_def wp find_sub_def find_key_event_def
        no_options_def assertTransition_def isTransitionAllowed_def create_event_def moved_def publish_transition_def
        find_upd_where_same row_def)
  then have s1: "List.find (\<lambda>r. sub_id r = i) (subscriptions s1) = Some row" "subChanges s1 = subChanges s" "clock s1 = clock s"
    by (simp_all add: wps_run s1_def)
  obtain c' where c': "List.find (\<lambda>c. due_change i (clock s) c \<and> sc_type c = CANCEL_AT_PERIOD_END) (subChanges s) = Some c'"
    using assms(3-5) by (cases "List.find (\<lambda>c. due_change i (clock s) c \<and> sc_type c = CANCEL_AT_PERIOD_END) (subChanges s)")
      (auto simp: find_None_iff')
  then obtain c'' where c'': "List.find (\<lambda>c. sc_id c = sc_id c') (subChanges s) = Some c''"
    using find_SomeD [OF c'] by (cases "List.find (\<lambda>c. sc_id c = sc_id c') (subChanges s)") (auto simp: find_None_iff')
  have "sub_id row = i" by (simp add: row_def i)
  then have "wps (sub_renew i u no_options) (\<lambda>r s'. status_of s' i = Some SubscriptionStatus.CANCELED) s1"
    using s1 c' c''
    by (simp add: sub_renew_def runTransition_def run_with_info_def transition_body_def wp find_sub_def find_key_event_def
        no_options_def assertTransition_def isTransitionAllowed_def create_event_def moved_def publish_transition_def published_def
        mark_applied_def find_upd_where_same status_of_def Let_def row_def)
  with s1(1) show ?thesis by (auto simp: Let_def wps_run s1_def [symmetric] row_def)
qed

definition scheduled_cancel :: sub_change where
  "scheduled_cancel = \<lparr>sc_id = 12, sc_subscriptionId = 10, sc_type = CANCEL_AT_PERIOD_END,
     sc_status = SubscriptionChangeStatus.PENDING, sc_targetPlanId = None, sc_targetPriceId = None, sc_targetQuantity = None,
     sc_effectiveAt = 0, sc_appliedAt = None, sc_canceledAt = None, sc_createdById = 7\<rparr>"

theorem resumed_subscription_still_canceled_witness:
  "let s = sample_subs\<lparr>subChanges := [scheduled_cancel]\<rparr>; s1 = snd (sub_resume 10 7 no_options s);
       s2 = snd (sub_renew 10 7 no_options s1) in
    (\<exists>row. List.find (\<lambda>r. sub_id r = 10) (subscriptions s1) = Some row
       \<and> sub_status row = SubscriptionStatus.ACTIVE \<and> \<not> sub_cancelAtPeriodEnd row)
    \<and> status_of s2 10 = Some SubscriptionStatus.CANCELED"
  using resumed_subscription_still_canceled [of 10 "sample_subs\<lparr>subChanges := [scheduled_cancel]\<rparr>" sample_sub scheduled_cancel 7]
  by (simp add: sample_subs_def sample_sub_def scheduled_cancel_def due_change_def Let_def)

section \<open>Immediate changes\<close>

lemma record_event_frame:
  fixes s :: "'z sub_db_scheme"
  shows "prorations (snd (record_event org type payload refs u m key s)) = prorations s
    \<and> subscriptions (snd (record_event org type payload refs u m key s)) = subscriptions s
    \<and> subItems (snd (record_event org type payload refs u m key s)) = subItems s"
  using leaves_snd [OF leaves_record, of "\<lambda>s. (prorations s, subscriptions s, subItems s)" org type payload refs u m key s]
  by simp

text \<open>What the database must hold for an immediate change to be stored.\<close>

definition change_storable :: "change_dto \<Rightarrow> sub_row \<Rightarrow> int \<Rightarrow> proration_result \<Rightarrow> 'z sub_db_scheme \<Rightarrow> bool" where
  "change_storable dto sub q proration s \<longleftrightarrow>
     orElse (chd_targetPlanId dto) (sub_planId sub) \<in> insert (sub_planId sub) (plan_id ` set (plans s))
     \<and> int4 q \<and> int4 (pr_creditMinor proration) \<and> int4 (pr_chargeMinor proration) \<and> int4 (pr_netMinor proration)"

lemma change_run:
  assumes sub: "List.find (\<lambda>r. sub_id r = i) (subscriptions s) = Some sub"
    and opts: "chd_options dto = no_options" and allowed: "isTransitionAllowed (sub_status sub) SubscriptionStatus.ACTIVE"
    and item: "List.find (\<lambda>x. si_subscriptionId x = i) (subItems s) = Some item"
    and price: "List.find (\<lambda>p. price_id p = si_priceId item) (prices s) = Some oldPrice"
    and new: "chd_targetPriceId dto = Some p" "List.find (\<lambda>x. price_id x = p) (prices s) = Some newPrice"
    and period: "sub_currentPeriodStart sub = Some a" "sub_currentPeriodEnd sub = Some e"
    and q: "q = orElse (chd_targetQuantity dto) (sub_quantity sub)"
    and pro: "pro = calculateProration a e (clock s)
      (js_times (price_amountMinor oldPrice) (si_quantity item)) (js_times (price_amountMinor newPrice) q)"
    and rec: "rec = \<lparr>prr_id = nextId s, prr_subscriptionId = i, prr_reason = prorationReasonFor (chd_type dto) (si_quantity item) q,
      prr_creditMinor = pr_creditMinor pro, prr_chargeMinor = pr_chargeMinor pro, prr_netMinor = pr_netMinor pro,
      prr_currency = price_currency newPrice, prr_periodStart = a, prr_periodEnd = e\<rparr>"
  shows "change_storable dto sub q pro s \<Longrightarrow> \<exists>row s1.
      run_with_info i (chd_options dto) u (\<lambda>current trial. change_compute dto current) s = (Inr (row, Some rec), s1)
      \<and> prorations s1 = prorations s @ [rec] \<and> finEvents s1 = finEvents s
      \<and> List.find (\<lambda>r. sub_id r = i) (subscriptions s1) = Some row \<and> sub_quantity row = q
      \<and> sub_planId row = orElse (chd_targetPlanId dto) (sub_planId sub)
      \<and> List.find (\<lambda>x. si_subscriptionId x = i) (subItems s1) = Some (item\<lparr>si_priceId := price_id newPrice, si_quantity := q\<rparr>)"
    (is "_ \<Longrightarrow> ?done")
    and "\<not> change_storable dto sub q pro s \<Longrightarrow> \<exists>err.
      run_with_info i (chd_options dto) u (\<lambda>current trial. change_compute dto current) s = (Inl err, s)"
proof -
  have i: "sub_id sub = i" using sub by (auto dest: find_SomeD)
  have found: "List.find (\<lambda>x. si_id x = si_id item) (subItems s) \<noteq> None"
    using find_SomeD [OF item] by (auto simp: find_None_iff')
  note compute = run_with_info_def transition_body_def find_sub_def find_key_event_def assertTransition_def
    create_event_def moved_def publish_transition_def published_def change_compute_def find_item_def find_price_def Let_def
  show "?done" if ok: "change_storable dto sub q pro s"
  proof -
    have fits: "int4 q" "int4 (pr_creditMinor pro)" "int4 (pr_chargeMinor pro)" "int4 (pr_netMinor pro)"
      and plan: "orElse (chd_targetPlanId dto) (sub_planId sub) = sub_planId sub
        \<or> orElse (chd_targetPlanId dto) (sub_planId sub) \<in> plan_id ` set (plans s)"
      using ok by (simp_all add: change_storable_def)
    have "wps (run_with_info i (chd_options dto) u (\<lambda>current trial. change_compute dto current)) (\<lambda>r s1. \<exists>row.
      r = Inr (row, Some rec) \<and> prorations s1 = prorations s @ [rec] \<and> finEvents s1 = finEvents s
      \<and> List.find (\<lambda>r. sub_id r = i) (subscriptions s1) = Some row \<and> sub_quantity row = q
      \<and> sub_planId row = orElse (chd_targetPlanId dto) (sub_planId sub)
      \<and> List.find (\<lambda>x. si_subscriptionId x = i) (subItems s1) = Some (item\<lparr>si_priceId := price_id newPrice, si_quantity := q\<rparr>)) s"
      using sub opts allowed item price new period i found fits plan
      by (simp add: compute wp no_options_def q [symmetric] pro [symmetric])
         (auto simp: wp moved_def published_def Let_def find_upd_where_same find_upd_where_keep rec split: option.split)
    then show ?thesis by (auto simp: wps_def split: prod.splits)
  qed
  show "\<exists>err. run_with_info i (chd_options dto) u (\<lambda>current trial. change_compute dto current) s = (Inl err, s)"
    if bad: "\<not> change_storable dto sub q pro s"
  proof -
    have "wps (run_with_info i (chd_options dto) u (\<lambda>current trial. change_compute dto current)) (\<lambda>r s1. (\<exists>err. r = Inl err) \<and> s1 = s) s"
      using sub opts allowed item price new period i found bad
      by (simp add: compute wp no_options_def q [symmetric] pro [symmetric])
         (auto simp: change_storable_def wp)
    then show ?thesis by (auto simp: wps_def split: prod.splits)
  qed
qed

text \<open>C6. An immediate plan, price or seat change is stored whole or not at all. When the target plan exists and
  the new quantity and the amounts of the proration fit their 32-bit columns, the call succeeds and is accounted for exactly: it stores one proration record,
  computed from the old and the new amount over the current period (the products in doubles, exact below 2^53), moves the subscription to the new
  plan and quantity and its item to the new price and quantity, and books the record as a financial event under the key of that record, so that
  the event is booked once. Otherwise the call throws and the database is as before.\<close>
theorem immediate_change_accounted:
  assumes sub: "List.find (\<lambda>r. sub_id r = i) (subscriptions s) = Some sub" and "chd_immediate dto"
    and "chd_options dto = no_options" and "isTransitionAllowed (sub_status sub) SubscriptionStatus.ACTIVE"
    and "List.find (\<lambda>x. si_subscriptionId x = i) (subItems s) = Some item"
    and "List.find (\<lambda>p. price_id p = si_priceId item) (prices s) = Some oldPrice"
    and "chd_targetPriceId dto = Some p" and "List.find (\<lambda>x. price_id x = p) (prices s) = Some newPrice"
    and "sub_currentPeriodStart sub = Some a" and "sub_currentPeriodEnd sub = Some e"
    and "recorded (proration_key (nextId s)) s = 0"
  shows "let (r, s') = sub_applyChange i u dto meta s;
      q = orElse (chd_targetQuantity dto) (sub_quantity sub);
      plan = orElse (chd_targetPlanId dto) (sub_planId sub);
      proration = calculateProration a e (clock s)
        (js_times (price_amountMinor oldPrice) (si_quantity item)) (js_times (price_amountMinor newPrice) q) in
    if plan \<in> insert (sub_planId sub) (plan_id ` set (plans s))
      \<and> int4 q \<and> int4 (pr_creditMinor proration) \<and> int4 (pr_chargeMinor proration) \<and> int4 (pr_netMinor proration)
    then \<exists>row rec x. r = Inr (Inr row)
      \<and> prorations s' = prorations s @ [rec] \<and> prr_id rec = nextId s \<and> prr_subscriptionId rec = i
      \<and> prr_creditMinor rec = pr_creditMinor proration \<and> prr_chargeMinor rec = pr_chargeMinor proration
      \<and> prr_netMinor rec = prr_chargeMinor rec - prr_creditMinor rec
      \<and> recorded (proration_key (nextId s)) s' = 1
      \<and> List.find (\<lambda>r. sub_id r = i) (subscriptions s') = Some row \<and> sub_quantity row = q \<and> sub_planId row = plan
      \<and> List.find (\<lambda>x. si_subscriptionId x = i) (subItems s') = Some x \<and> si_priceId x = price_id newPrice
      \<and> si_quantity x = q
    else isl r \<and> s' = s"
proof -
  let ?q = "orElse (chd_targetQuantity dto) (sub_quantity sub)"
  let ?run = "run_with_info i (chd_options dto) u (\<lambda>current trial. change_compute dto current)"
  define pro where "pro = calculateProration a e (clock s)
      (js_times (price_amountMinor oldPrice) (si_quantity item)) (js_times (price_amountMinor newPrice) ?q)"
  define rec where "rec = \<lparr>prr_id = nextId s, prr_subscriptionId = i,
      prr_reason = prorationReasonFor (chd_type dto) (si_quantity item) ?q,
      prr_creditMinor = pr_creditMinor pro, prr_chargeMinor = pr_chargeMinor pro, prr_netMinor = pr_netMinor pro,
      prr_currency = price_currency newPrice, prr_periodStart = a, prr_periodEnd = e\<rparr>"
  note cases_ = change_run [OF sub assms(3-10) refl pro_def rec_def, where u = u]
  have owned: "getOwnedById i s = (Inr sub, s)" using sub by (simp add: getOwnedById_def find_sub_def run)
  show ?thesis
  proof (cases "change_storable dto sub ?q pro s")
    case False
    then obtain err where "?run s = (Inl err, s)" using cases_(2) by blast
    with owned assms(2) have "sub_applyChange i u dto meta s = (Inl err, s)" by (simp add: sub_applyChange_def bnd_step)
    with False show ?thesis by (simp add: change_storable_def pro_def)
  next
    case True
    then obtain row s1 where ran: "?run s = (Inr (row, Some rec), s1)"
      and s1: "prorations s1 = prorations s @ [rec]" "finEvents s1 = finEvents s"
        "List.find (\<lambda>r. sub_id r = i) (subscriptions s1) = Some row" "sub_quantity row = ?q"
        "sub_planId row = orElse (chd_targetPlanId dto) (sub_planId sub)"
        "List.find (\<lambda>x. si_subscriptionId x = i) (subItems s1) = Some (item\<lparr>si_priceId := price_id newPrice, si_quantity := ?q\<rparr>)"
      using cases_(1) by blast
    have zero: "recorded (proration_key (nextId s)) s1 = 0" using assms(11) s1(2) by (simp add: recorded_def)
    obtain payload refs where rp: "record_proration sub rec u meta s1 = seq (record_event (sub_organizationId sub)
        FinancialEventType.PAYMENT_SUCCEEDED payload refs (Some u) meta (Some (proration_key (nextId s)))) (ret ()) s1"
      by (simp add: record_proration_def rec_def)
    let ?rec = "record_event (sub_organizationId sub) FinancialEventType.PAYMENT_SUCCEEDED payload refs (Some u) meta
        (Some (proration_key (nextId s))) s1"
    obtain v s2 where s2: "?rec = (Inr v, s2)"
      using record_event_new [of "Some (proration_key (nextId s))" s1 "sub_organizationId sub"
          FinancialEventType.PAYMENT_SUCCEEDED payload refs "Some u" meta] zero
      by (cases ?rec; cases "fst ?rec") (auto simp: Let_def)
    have end_: "sub_applyChange i u dto meta s = (Inr (Inr row), s2)"
      using owned ran assms(2) s2 by (simp add: sub_applyChange_def rp bnd_step seq_step ret_def)
    have one: "recorded (proration_key (nextId s)) s2 = 1"
      using ledger.post_new [OF zero, of "(sub_organizationId sub, FinancialEventType.PAYMENT_SUCCEEDED, payload, refs, Some u, meta)"]
      by (simp add: record_call_def s2)
    have frame: "prorations s2 = prorations s1" "subscriptions s2 = subscriptions s1" "subItems s2 = subItems s1"
      using record_event_frame [of "sub_organizationId sub" FinancialEventType.PAYMENT_SUCCEEDED payload refs "Some u" meta
          "Some (proration_key (nextId s))" s1] s2 by simp_all
    from True s1 one frame show ?thesis
      by (simp add: end_ change_storable_def pro_def [symmetric])
         (simp add: rec_def pro_def calculateProration_def Let_def)
  qed
qed

definition seat_change :: "id option \<Rightarrow> change_dto" where
  "seat_change plan = \<lparr>chd_options = no_options, chd_type = SEAT_CHANGE, chd_targetPlanId = plan, chd_targetPriceId = Some 5,
      chd_targetQuantity = Some 3, chd_immediate = True\<rparr>"

lemma calculateProration_int4:
  assumes "0 \<le> old" "old < 2 ^ 31" "0 \<le> new" "new < 2 ^ 31"
  shows "int4 (pr_creditMinor (calculateProration ps pe t old new))" "int4 (pr_chargeMinor (calculateProration ps pe t old new))"
    "int4 (pr_netMinor (calculateProration ps pe t old new))"
  using calculateProration_bounds [of old new ps pe t] assms by (auto simp: int4_def Let_def)

theorem immediate_change_accounted_witness:
  "isl (fst (sub_applyChange 10 7 (seat_change (Some 77)) no_meta sample_subs))
    \<and> snd (sub_applyChange 10 7 (seat_change (Some 77)) no_meta sample_subs) = sample_subs
    \<and> (\<exists>row rec. fst (sub_applyChange 10 7 (seat_change None) no_meta sample_subs) = Inr (Inr row) \<and> sub_quantity row = 3
       \<and> prorations (snd (sub_applyChange 10 7 (seat_change None) no_meta sample_subs)) = [rec])"
proof -
  have exact: "js_times (price_amountMinor sample_price) 1 = price_amountMinor sample_price"
    "js_times (price_amountMinor sample_price) 3 = 3 * price_amountMinor sample_price" "price_id sample_price = 5"
    by (simp_all add: js_times_exact sample_price_def)
  have fits: "int4 (pr_creditMinor p)" "int4 (pr_chargeMinor p)" "int4 (pr_netMinor p)"
    if "p = calculateProration 0 2678400000 1296000000 (price_amountMinor sample_price) (3 * price_amountMinor sample_price)" for p
    unfolding that by (rule calculateProration_int4; simp add: sample_price_def)+
  have "int4 3" by (simp add: int4_def)
  note fits = fits [OF refl] this
  let ?item = "\<lparr>si_id = 11, si_subscriptionId = 10, si_priceId = 5, si_quantity = 1\<rparr>"
  have db: "List.find (\<lambda>r. sub_id r = 10) (subscriptions sample_subs) = Some sample_sub"
    "List.find (\<lambda>x. si_subscriptionId x = 10) (subItems sample_subs) = Some ?item"
    "List.find (\<lambda>p. price_id p = si_priceId ?item) (prices sample_subs) = Some sample_price"
    "List.find (\<lambda>p. price_id p = 5) (prices sample_subs) = Some sample_price"
    "recorded (proration_key (nextId sample_subs)) sample_subs = 0" "prorations sample_subs = []" "plan_id ` set (plans sample_subs) = {4}"
    "clock sample_subs = 1296000000"
    by (simp_all add: sample_subs_def sample_sub_def sample_price_def sample_plan_def recorded_def)
  have row: "sub_planId sample_sub = 4" "sub_currentPeriodStart sample_sub = Some 0" "sub_currentPeriodEnd sample_sub = Some 2678400000"
    "isTransitionAllowed (sub_status sample_sub) SubscriptionStatus.ACTIVE"
    by (simp_all add: sample_sub_def isTransitionAllowed_def)
  have dto: "chd_immediate (seat_change p)" "chd_options (seat_change p) = no_options" "chd_targetPriceId (seat_change p) = Some 5"
    "chd_targetPlanId (seat_change p) = p" "chd_targetQuantity (seat_change p) = Some 3" for p
    by (simp_all add: seat_change_def)
  note applies = immediate_change_accounted [where u = 7 and meta = no_meta and dto = "seat_change p" for p,
      OF db(1) dto(1,2) row(4) db(2,3) dto(3) db(4) row(2,3) db(5)]
  from applies [of "Some 77"] applies [of None] show ?thesis
    by (simp only: dto row db exact fits orElse.simps split_beta Let_def sub_item.simps)
       (simp add: exact fits row, blast)
qed

end
