(* ===== verification/Capacity.thy ===== *)
theory Capacity
  imports Prelude
begin

text \<open>
  Limited resources claimed by concurrent requests. A request reads a counter and the limit in one database
  operation, refuses or goes on with the value it read, and then claims the next slot with a
  compare-and-swap on that value (an \<open>updateMany\<close> whose filter repeats it); it starts over when it
  loses. Requests interleave at the level of these two operations, and with every other operation the
  service offers on the resource (\<open>env\<close>). The locale states what the three must do, and proves that
  then no interleaving of any number of requests passes the limit.
\<close>

datatype claimer = Idle | Read nat | Won | Refused

inductive claim_step ::
  "('s \<Rightarrow> nat option) \<Rightarrow> (nat \<Rightarrow> 's \<Rightarrow> bool \<times> 's) \<Rightarrow> ('s \<Rightarrow> 's \<Rightarrow> bool)
   \<Rightarrow> 's \<times> (nat \<Rightarrow> claimer) \<Rightarrow> 's \<times> (nat \<Rightarrow> claimer) \<Rightarrow> bool"
  for look cas env where
  look: "c i = Idle \<Longrightarrow> look s = Some n \<Longrightarrow> claim_step look cas env (s, c) (s, c(i := Read n))"
| refuse: "c i = Idle \<Longrightarrow> look s = None \<Longrightarrow> claim_step look cas env (s, c) (s, c(i := Refused))"
| win: "c i = Read n \<Longrightarrow> cas n s = (True, s') \<Longrightarrow> claim_step look cas env (s, c) (s', c(i := Won))"
| lose: "c i = Read n \<Longrightarrow> cas n s = (False, s') \<Longrightarrow> claim_step look cas env (s, c) (s', c(i := Idle))"
| other: "env s s' \<Longrightarrow> claim_step look cas env (s, c) (s', c)"

inductive claim_run ::
  "('s \<Rightarrow> nat option) \<Rightarrow> (nat \<Rightarrow> 's \<Rightarrow> bool \<times> 's) \<Rightarrow> ('s \<Rightarrow> 's \<Rightarrow> bool) \<Rightarrow> 's
   \<Rightarrow> 's \<times> (nat \<Rightarrow> claimer) \<Rightarrow> bool"
  for look cas env s0 where
  start: "claim_run look cas env s0 (s0, \<lambda>_. Idle)"
| step: "claim_run look cas env s0 x \<Longrightarrow> claim_step look cas env x y \<Longrightarrow> claim_run look cas env s0 y"

definition winners :: "(nat \<Rightarrow> claimer) \<Rightarrow> nat set" where
  "winners c = {i. c i = Won}"

lemma winners_upd:
  "x \<noteq> Won \<Longrightarrow> c i \<noteq> Won \<Longrightarrow> winners (c(i := x)) = winners c"
  "winners (c(i := Won)) = insert i (winners c)"
  "winners (\<lambda>_. Idle) = {}"
  by (auto simp: winners_def)

locale cas_counter =
  fixes ok :: "'s \<Rightarrow> bool"
    and used :: "'s \<Rightarrow> nat"
    and cap :: "'s \<Rightarrow> nat"
    and look :: "'s \<Rightarrow> nat option"
    and cas :: "nat \<Rightarrow> 's \<Rightarrow> bool \<times> 's"
    and env :: "'s \<Rightarrow> 's \<Rightarrow> bool"
  assumes look_below: "ok s \<Longrightarrow> look s = Some n \<Longrightarrow> n < cap s"
    and cas_hit: "ok s \<Longrightarrow> cas n s = (True, s') \<Longrightarrow> ok s' \<and> used s = n \<and> used s' = Suc n \<and> cap s' = cap s"
    and cas_miss: "ok s \<Longrightarrow> cas n s = (False, s') \<Longrightarrow> ok s' \<and> used s' = used s \<and> cap s' = cap s"
    and env_keeps: "ok s \<Longrightarrow> env s s' \<Longrightarrow> ok s' \<and> used s' = used s \<and> cap s' = cap s"
begin

definition safe :: "'s \<Rightarrow> 's \<times> (nat \<Rightarrow> claimer) \<Rightarrow> bool" where
  "safe s0 x \<longleftrightarrow> (case x of (s, c) \<Rightarrow> ok s \<and> cap s = cap s0 \<and> used s \<le> cap s
     \<and> (\<forall>i n. c i = Read n \<longrightarrow> n < cap s) \<and> finite (winners c) \<and> used s = used s0 + card (winners c))"

lemma safe_step:
  assumes "safe s0 x" and "claim_step look cas env x y"
  shows "safe s0 y"
  using assms(2,1)
proof (cases rule: claim_step.cases)
  case (look c i s n)
  with assms(1) look_below [of s n] show ?thesis by (auto simp: safe_def winners_upd)
next
  case (win c i n s s')
  then have "i \<notin> winners c" and "n < cap s" using assms(1) by (auto simp: winners_def safe_def)
  with win assms(1) cas_hit [of s n s'] show ?thesis by (auto simp: safe_def winners_upd)
next
  case (lose c i n s s')
  with assms(1) cas_miss [of s n s'] show ?thesis by (auto simp: safe_def winners_upd)
next
  case (other s s' c)
  with assms(1) env_keeps [of s s'] show ?thesis by (auto simp: safe_def)
qed (auto simp: safe_def winners_upd)

lemma run_safe: "claim_run look cas env s0 x \<Longrightarrow> ok s0 \<Longrightarrow> used s0 \<le> cap s0 \<Longrightarrow> safe s0 x"
proof (induction rule: claim_run.induct)
  case start
  then show ?case by (simp add: safe_def winners_upd)
next
  case (step x y)
  then show ?case by (blast intro: safe_step)
qed

text \<open>However the requests interleave, the limit holds and every slot taken has one winner.\<close>

lemma never_exceeded:
  assumes "claim_run look cas env s0 (s, c)" and "ok s0" and "used s0 \<le> cap s0"
  shows "ok s \<and> used s \<le> cap s0 \<and> used s = used s0 + card (winners c)"
  using run_safe [OF assms] by (auto simp: safe_def)

end

end
