(* ===== verification/Licenses.thy ===== *)
theory Licenses
  imports Subscription_Data Capacity
begin

text \<open>
  licenses/licenses.service.ts, licenses/license-keys.service.ts and common/utils/license-key.util.ts:
  licenses, their direct assignments and their activation keys. The random bytes and the hash of a
  generated key come from the crypto module and are arguments.
\<close>

section \<open>Rows\<close>

datatype LicenseType = INDIVIDUAL | ORGANIZATION | SEAT | DEVICE | LIFETIME | TRIAL | ENTERPRISE | TEMPORARY | MANUAL

datatype LicenseStatus = ACTIVE | SUSPENDED | REVOKED | EXPIRED

datatype SeatStatus = AVAILABLE | ASSIGNED | PENDING | INACTIVE

datatype SeatAssignmentStatus = PENDING | ACTIVE | REMOVED | TRANSFERRED

datatype DeviceStatus = ACTIVE | INACTIVE | BLOCKED | REMOVED

record application_row =
  app_id :: id
  app_organizationId :: id

record license_row =
  lic_id :: id
  lic_organizationId :: id
  lic_applicationId :: id
  lic_subscriptionId :: "id option"
  lic_type :: LicenseType
  lic_status :: LicenseStatus
  lic_seatLimit :: "nat option"
  lic_deviceLimit :: "nat option"
  lic_expiresAt :: "time option"
  lic_revokedAt :: "time option"
  lic_metadata :: "json option"
  lic_createdById :: id

record license_key =
  lk_id :: id
  lk_licenseId :: id
  lk_keyHash :: string
  lk_displayCode :: string
  lk_activationLimit :: nat
  lk_activationCount :: nat
  lk_status :: LicenseStatus
  lk_expiresAt :: "time option"
  lk_revokedAt :: "time option"
  lk_transferredAt :: "time option"
  lk_createdAt :: time

record license_assignment =
  la_id :: id
  la_licenseId :: id
  la_userId :: id
  la_assignedAt :: time
  la_unassignedAt :: "time option"

record seat_row =
  seat_id :: id
  seat_licenseId :: id
  seat_status :: SeatStatus
  seat_createdAt :: time

record seat_assignment =
  sa_id :: id
  sa_seatId :: id
  sa_userId :: id
  sa_status :: SeatAssignmentStatus
  sa_assignedAt :: time
  sa_unassignedAt :: "time option"

record device_row =
  dev_id :: id
  dev_applicationId :: id
  dev_organizationId :: "id option"
  dev_userId :: "id option"
  dev_licenseId :: "id option"
  dev_deviceId :: string
  dev_platform :: string
  dev_appVersion :: "string option"
  dev_osVersion :: "string option"
  dev_pushToken :: "string option"
  dev_status :: DeviceStatus
  dev_lastSeenAt :: time

record lic_db = sub_db +
  applications :: "application_row list"
  licenses :: "license_row list"
  licenseKeys :: "license_key list"
  licenseAssignments :: "license_assignment list"
  seats :: "seat_row list"
  seatAssignments :: "seat_assignment list"
  devices :: "device_row list"

section \<open>LicensesService\<close>

definition lic_getOwned :: "id \<Rightarrow> id \<Rightarrow> ('z lic_db_scheme, license_row) svc" where
  "lic_getOwned licenseId org =
     bnd (find_row licenses (\<lambda>l. lic_id l = licenseId)) (\<lambda>r. case r of
       None \<Rightarrow> throw (NotFoundException ''License not found'')
     | Some l \<Rightarrow> if lic_organizationId l \<noteq> org then throw (NotFoundException ''License not found'') else ret l)"

record license_dto =
  ld_applicationId :: id
  ld_subscriptionId :: "id option"
  ld_type :: LicenseType
  ld_seatLimit :: "nat option"
  ld_deviceLimit :: "nat option"
  ld_expiresAt :: "time option"
  ld_metadata :: "json option"

fun license_type_str :: "LicenseType \<Rightarrow> string" where
  "license_type_str INDIVIDUAL = ''INDIVIDUAL''"
| "license_type_str ORGANIZATION = ''ORGANIZATION''"
| "license_type_str SEAT = ''SEAT''"
| "license_type_str DEVICE = ''DEVICE''"
| "license_type_str LicenseType.LIFETIME = ''LIFETIME''"
| "license_type_str TRIAL = ''TRIAL''"
| "license_type_str ENTERPRISE = ''ENTERPRISE''"
| "license_type_str TEMPORARY = ''TEMPORARY''"
| "license_type_str LicenseType.MANUAL = ''MANUAL''"

definition lic_create :: "id \<Rightarrow> id \<Rightarrow> license_dto \<Rightarrow> request_meta \<Rightarrow> ('z lic_db_scheme, license_row) svc" where
  "lic_create org userId dto meta =
     bnd (find_row applications (\<lambda>a. app_id a = ld_applicationId dto)) (\<lambda>app.
     seq (guard_or (case app of None \<Rightarrow> False | Some a \<Rightarrow> app_organizationId a = org)
            (NotFoundException ''Application not found in this organization''))
     (seq (case ld_subscriptionId dto of None \<Rightarrow> ret ()
           | Some i \<Rightarrow> bnd (find_row subscriptions (\<lambda>r. sub_id r = i)) (\<lambda>sub.
               guard_or (case sub of None \<Rightarrow> False | Some r \<Rightarrow> sub_organizationId r = org)
                 (NotFoundException ''Subscription not found in this organization'')))
     (bnd fresh (\<lambda>i.
      bnd (insert_row licenses_update \<lparr>lic_id = i, lic_organizationId = org, lic_applicationId = ld_applicationId dto,
             lic_subscriptionId = ld_subscriptionId dto, lic_type = ld_type dto, lic_status = LicenseStatus.ACTIVE,
             lic_seatLimit = ld_seatLimit dto, lic_deviceLimit = ld_deviceLimit dto, lic_expiresAt = ld_expiresAt dto,
             lic_revokedAt = None, lic_metadata = ld_metadata dto, lic_createdById = userId\<rparr>) (\<lambda>license.
      seq (audit ''LICENSE_CREATED'' (Some userId) (Some org) (Some (ld_applicationId dto))
             [(''licenseId'', JId (lic_id license)), (''type'', JStr (license_type_str (lic_type license)))] meta)
      (ret license))))))"

definition lic_update ::
  "id \<Rightarrow> id \<Rightarrow> id \<Rightarrow> nat option \<Rightarrow> nat option \<Rightarrow> time option \<Rightarrow> json option \<Rightarrow> request_meta
   \<Rightarrow> ('z lic_db_scheme, license_row) svc" where
  "lic_update licenseId org userId seatLimit deviceLimit expiresAt mdata meta =
     seq (lic_getOwned licenseId org)
     (bnd (update_row licenses licenses_update (\<lambda>l. lic_id l = licenseId)
       (\<lambda>l. l\<lparr>lic_seatLimit := keepUndef (map_option Some seatLimit) (lic_seatLimit l),
              lic_deviceLimit := keepUndef (map_option Some deviceLimit) (lic_deviceLimit l),
              lic_expiresAt := keepUndef (map_option Some expiresAt) (lic_expiresAt l),
              lic_metadata := keepUndef (map_option Some mdata) (lic_metadata l)\<rparr>)) (\<lambda>license.
      seq (audit ''LICENSE_UPDATED'' (Some userId) (Some org) None [(''licenseId'', JId licenseId)] meta) (ret license)))"

definition lic_revoke :: "id \<Rightarrow> id \<Rightarrow> id \<Rightarrow> request_meta \<Rightarrow> ('z lic_db_scheme, license_row) svc" where
  "lic_revoke licenseId org userId meta =
     bnd (lic_getOwned licenseId org) (\<lambda>license.
     seq (guard_or (lic_status license \<noteq> LicenseStatus.REVOKED) (BadRequestException ''License is already revoked''))
     (bnd now (\<lambda>t.
      bnd (update_row licenses licenses_update (\<lambda>l. lic_id l = licenseId)
             (\<lambda>l. l\<lparr>lic_status := LicenseStatus.REVOKED, lic_revokedAt := Some t\<rparr>)) (\<lambda>revoked.
      seq (audit ''LICENSE_REVOKED'' (Some userId) (Some org) None [(''licenseId'', JId licenseId)] meta) (ret revoked)))))"

definition lic_listAssignments :: "id \<Rightarrow> id \<Rightarrow> ('z lic_db_scheme, license_assignment list) svc" where
  "lic_listAssignments licenseId org =
     seq (lic_getOwned licenseId org)
       (gets (\<lambda>s. order_by (\<lambda>a. - la_assignedAt a) (filter (\<lambda>a. la_licenseId a = licenseId) (licenseAssignments s))))"

text \<open>The unique constraint on (licenseId, userId).\<close>

definition same_assignment :: "id \<Rightarrow> id \<Rightarrow> license_assignment \<Rightarrow> bool" where
  "same_assignment licenseId userId a \<longleftrightarrow> la_licenseId a = licenseId \<and> la_userId a = userId"

definition new_assignment :: "id \<Rightarrow> id \<Rightarrow> ('z lic_db_scheme, license_assignment) svc" where
  "new_assignment licenseId userId =
     bnd fresh (\<lambda>i. bnd now (\<lambda>t.
       insert_unique licenseAssignments licenseAssignments_update (same_assignment licenseId userId)
         \<lparr>la_id = i, la_licenseId = licenseId, la_userId = userId, la_assignedAt = t, la_unassignedAt = None\<rparr>))"

definition lic_assign :: "id \<Rightarrow> id \<Rightarrow> id \<Rightarrow> id \<Rightarrow> request_meta \<Rightarrow> ('z lic_db_scheme, license_assignment) svc" where
  "lic_assign licenseId org userId target meta =
     bnd (lic_getOwned licenseId org) (\<lambda>license.
     seq (guard_or (lic_type license = INDIVIDUAL)
            (BadRequestException ''Only INDIVIDUAL-type licenses support direct assignment''))
     (seq (guard_or (lic_status license = LicenseStatus.ACTIVE) (BadRequestException ''License is not active''))
     (bnd (find_row licenseAssignments (same_assignment licenseId target)) (\<lambda>existing.
      bnd now (\<lambda>t.
      bnd (case existing of
             None \<Rightarrow> try_catch (new_assignment licenseId target) (\<lambda>error.
               if error = PrismaError ''P2002'' then throw (ConflictException ''User is already assigned to this license'')
               else throw error)
           | Some a \<Rightarrow> if la_unassignedAt a = None
               then throw (ConflictException ''User is already assigned to this license'')
               else update_row licenseAssignments licenseAssignments_update (\<lambda>x. la_id x = la_id a)
                 (\<lambda>x. x\<lparr>la_assignedAt := t, la_unassignedAt := None\<rparr>)) (\<lambda>assignment.
      seq (audit ''LICENSE_UPDATED'' (Some userId) (Some org) None
             [(''licenseId'', JId licenseId), (''assignedUserId'', JId target), (''event'', JStr ''license_assigned'')] meta)
          (ret assignment)))))))"

definition lic_unassign :: "id \<Rightarrow> id \<Rightarrow> id \<Rightarrow> id \<Rightarrow> request_meta \<Rightarrow> ('z lic_db_scheme, license_assignment) svc" where
  "lic_unassign licenseId org target userId meta =
     seq (lic_getOwned licenseId org)
     (bnd (find_row licenseAssignments (same_assignment licenseId target)) (\<lambda>r.
      seq (guard_or (case r of None \<Rightarrow> False | Some a \<Rightarrow> la_unassignedAt a = None)
             (NotFoundException ''Active license assignment not found for this user''))
      (bnd now (\<lambda>t.
       bnd (update_row licenseAssignments licenseAssignments_update (\<lambda>x. la_id x = la_id (the r))
              (\<lambda>x. x\<lparr>la_unassignedAt := Some t\<rparr>)) (\<lambda>updated.
       seq (audit ''LICENSE_UPDATED'' (Some userId) (Some org) None
              [(''licenseId'', JId licenseId), (''unassignedUserId'', JId target), (''event'', JStr ''license_unassigned'')] meta)
           (ret updated))))))"

definition lic_transfer :: "id \<Rightarrow> id \<Rightarrow> id \<Rightarrow> id \<Rightarrow> request_meta \<Rightarrow> ('z lic_db_scheme, license_assignment) svc" where
  "lic_transfer licenseId org userId toUserId meta =
     bnd (lic_getOwned licenseId org) (\<lambda>license.
     seq (guard_or (lic_type license = INDIVIDUAL) (BadRequestException ''Only INDIVIDUAL-type licenses support transfer''))
     (bnd (find_row licenseAssignments (\<lambda>a. la_licenseId a = licenseId \<and> la_unassignedAt a = None)) (\<lambda>r. case r of
        None \<Rightarrow> throw (NotFoundException ''License has no active assignment to transfer'')
      | Some current \<Rightarrow>
        seq (guard_or (la_userId current \<noteq> toUserId) (ConflictException ''License is already assigned to this user''))
        (bnd (find_row licenseAssignments (same_assignment licenseId toUserId)) (\<lambda>existingTarget.
         bnd now (\<lambda>t.
         bnd (transaction (seq
           (update_row licenseAssignments licenseAssignments_update (\<lambda>x. la_id x = la_id current) (\<lambda>x. x\<lparr>la_unassignedAt := Some t\<rparr>))
           (case existingTarget of
              Some a \<Rightarrow> update_row licenseAssignments licenseAssignments_update (\<lambda>x. la_id x = la_id a)
                (\<lambda>x. x\<lparr>la_assignedAt := t, la_unassignedAt := None\<rparr>)
            | None \<Rightarrow> new_assignment licenseId toUserId))) (\<lambda>newAssignment.
         seq (audit ''LICENSE_UPDATED'' (Some userId) (Some org) None
                [(''licenseId'', JId licenseId), (''event'', JStr ''license_transferred''),
                 (''fromUserId'', JId (la_userId current)), (''toUserId'', JId toUserId)] meta)
             (ret newAssignment))))))))"

section \<open>Key generation\<close>

definition ALPHABET :: string where
  "ALPHABET = ''ABCDEFGHJKMNPQRSTUVWXYZ23456789''"

definition GROUP_COUNT :: nat where "GROUP_COUNT = 5"

definition GROUP_LENGTH :: nat where "GROUP_LENGTH = 4"

text \<open>\<open>bytes\<close> is the answer of one \<open>randomBytes(GROUP_LENGTH)\<close>.\<close>

definition randomGroup :: "nat list \<Rightarrow> string" where
  "randomGroup bytes = map (\<lambda>b. ALPHABET ! (b mod length ALPHABET)) bytes"

fun join_dash :: "string list \<Rightarrow> string" where
  "join_dash [] = []"
| "join_dash [g] = g"
| "join_dash (g # gs) = g @ ''-'' @ join_dash gs"

definition mask_groups :: "string list \<Rightarrow> string list" where
  "mask_groups gs = map (\<lambda>(i, g). if i = length gs - 1 then g else ''****'') (List.enumerate 0 gs)"

record generated_key =
  gk_plainText :: string
  gk_displayCode :: string
  gk_keyHash :: string

definition generateLicenseKey :: "(string \<Rightarrow> string) \<Rightarrow> nat list list \<Rightarrow> generated_key" where
  "generateLicenseKey hash draws =
     (let groups = map randomGroup draws; plainText = ''SSZP-'' @ join_dash groups in
      \<lparr>gk_plainText = plainText, gk_displayCode = ''SSZP-'' @ join_dash (mask_groups groups), gk_keyHash = hash plainText\<rparr>)"

section \<open>LicenseKeysService\<close>

text \<open>\<open>toPublicKey\<close>: the row without its hash.\<close>

definition toPublicKey :: "license_key \<Rightarrow> license_key" where
  "toPublicKey k = k\<lparr>lk_keyHash := []\<rparr>"

definition key_generate ::
  "(string \<Rightarrow> string) \<Rightarrow> nat list list \<Rightarrow> id \<Rightarrow> id \<Rightarrow> id \<Rightarrow> nat option \<Rightarrow> time option \<Rightarrow> request_meta
   \<Rightarrow> ('z lic_db_scheme, license_key \<times> string) svc" where
  "key_generate hash draws licenseId org userId activationLimit expiresAt meta =
     bnd (lic_getOwned licenseId org) (\<lambda>license.
     seq (guard_or (lic_status license = LicenseStatus.ACTIVE)
            (BadRequestException ''Cannot generate a key for a license that is not active''))
     (let generated = generateLicenseKey hash draws in
      bnd fresh (\<lambda>i. bnd now (\<lambda>t.
      bnd (insert_unique licenseKeys licenseKeys_update (\<lambda>k. lk_keyHash k = gk_keyHash generated)
        \<lparr>lk_id = i, lk_licenseId = licenseId, lk_keyHash = gk_keyHash generated, lk_displayCode = gk_displayCode generated,
         lk_activationLimit = orElse activationLimit 1, lk_activationCount = 0, lk_status = LicenseStatus.ACTIVE,
         lk_expiresAt = expiresAt, lk_revokedAt = None, lk_transferredAt = None, lk_createdAt = t\<rparr>) (\<lambda>key.
      seq (audit ''LICENSE_KEY_GENERATED'' (Some userId) (Some org) (Some (lic_applicationId license))
             [(''licenseId'', JId licenseId), (''licenseKeyId'', JId (lk_id key))] meta)
          (ret (toPublicKey key, gk_plainText generated)))))))"

definition key_list :: "id \<Rightarrow> id \<Rightarrow> ('z lic_db_scheme, license_key list) svc" where
  "key_list licenseId org = seq (lic_getOwned licenseId org)
     (gets (\<lambda>s. map toPublicKey (order_by (\<lambda>k. - lk_createdAt k) (filter (\<lambda>k. lk_licenseId k = licenseId) (licenseKeys s)))))"

definition getOwnedKey :: "id \<Rightarrow> id \<Rightarrow> ('z lic_db_scheme, license_key) svc" where
  "getOwnedKey keyId org =
     bnd (gets (\<lambda>s. case List.find (\<lambda>k. lk_id k = keyId) (licenseKeys s) of None \<Rightarrow> None
        | Some k \<Rightarrow> (case List.find (\<lambda>l. lic_id l = lk_licenseId k) (licenses s) of None \<Rightarrow> None
            | Some l \<Rightarrow> if lic_organizationId l = org then Some k else None))) (\<lambda>r.
     case r of None \<Rightarrow> throw (NotFoundException ''License key not found'') | Some k \<Rightarrow> ret k)"

text \<open>The two database operations of an activation attempt: the read with its checks, and the claim.\<close>

definition activation_read :: "id \<Rightarrow> id \<Rightarrow> ('z lic_db_scheme, license_key) svc" where
  "activation_read keyId org =
     bnd (getOwnedKey keyId org) (\<lambda>key.
     bnd now (\<lambda>t.
     seq (guard_or (lk_status key \<noteq> LicenseStatus.REVOKED) (BadRequestException ''License key has been revoked''))
     (seq (guard_or (case lk_expiresAt key of None \<Rightarrow> True | Some x \<Rightarrow> \<not> x < t) (BadRequestException ''License key has expired''))
     (seq (guard_or (lk_activationCount key < lk_activationLimit key)
            (ConflictException ''License key activation limit has been reached''))
     (ret key)))))"

definition activation_claim :: "id \<Rightarrow> nat \<Rightarrow> ('z lic_db_scheme, nat) svc" where
  "activation_claim keyId n = update_many licenseKeys licenseKeys_update
     (\<lambda>k. lk_id k = keyId \<and> lk_activationCount k = n) (\<lambda>k. k\<lparr>lk_activationCount := lk_activationCount k + 1\<rparr>)"

fun activation_loop :: "nat \<Rightarrow> id \<Rightarrow> id \<Rightarrow> id \<Rightarrow> request_meta \<Rightarrow> ('z lic_db_scheme, license_key) svc" where
  "activation_loop 0 keyId org userId meta = throw (ConflictException ''Could not activate license key, please retry'')"
| "activation_loop (Suc n) keyId org userId meta =
     bnd (activation_read keyId org) (\<lambda>key.
     bnd (activation_claim keyId (lk_activationCount key)) (\<lambda>count.
     if count = 1 then
       seq (audit ''LICENSE_KEY_ACTIVATED'' (Some userId) (Some org) None
              [(''licenseId'', JId (lk_licenseId key)), (''licenseKeyId'', JId keyId)] meta)
           (bnd (find_or_throw licenseKeys (\<lambda>k. lk_id k = keyId)) (\<lambda>updated. ret (toPublicKey updated)))
     else activation_loop n keyId org userId meta))"

definition key_activate :: "id \<Rightarrow> id \<Rightarrow> id \<Rightarrow> request_meta \<Rightarrow> ('z lic_db_scheme, license_key) svc" where
  "key_activate keyId org userId meta = activation_loop 5 keyId org userId meta"

definition key_revoke :: "id \<Rightarrow> id \<Rightarrow> id \<Rightarrow> request_meta \<Rightarrow> ('z lic_db_scheme, license_key) svc" where
  "key_revoke keyId org userId meta =
     bnd (getOwnedKey keyId org) (\<lambda>key.
     seq (guard_or (lk_status key \<noteq> LicenseStatus.REVOKED) (BadRequestException ''License key is already revoked''))
     (bnd now (\<lambda>t.
      bnd (update_row licenseKeys licenseKeys_update (\<lambda>k. lk_id k = keyId)
             (\<lambda>k. k\<lparr>lk_status := LicenseStatus.REVOKED, lk_revokedAt := Some t\<rparr>)) (\<lambda>revoked.
      seq (audit ''LICENSE_KEY_REVOKED'' (Some userId) (Some org) None
             [(''licenseId'', JId (lk_licenseId key)), (''licenseKeyId'', JId keyId)] meta)
          (ret (toPublicKey revoked))))))"

definition key_transfer :: "id \<Rightarrow> id \<Rightarrow> id \<Rightarrow> id \<Rightarrow> request_meta \<Rightarrow> ('z lic_db_scheme, license_key) svc" where
  "key_transfer keyId org targetLicenseId userId meta =
     bnd (getOwnedKey keyId org) (\<lambda>key.
     seq (guard_or (targetLicenseId \<noteq> lk_licenseId key) (BadRequestException ''License key already belongs to this license''))
     (bnd (find_row licenses (\<lambda>l. lic_id l = targetLicenseId)) (\<lambda>target.
      seq (guard_or (case target of None \<Rightarrow> False | Some l \<Rightarrow> lic_organizationId l = org)
             (NotFoundException ''Target license not found in this organization''))
      (bnd now (\<lambda>t.
       bnd (update_row licenseKeys licenseKeys_update (\<lambda>k. lk_id k = keyId)
              (\<lambda>k. k\<lparr>lk_licenseId := targetLicenseId, lk_transferredAt := Some t\<rparr>)) (\<lambda>transferred.
       seq (audit ''LICENSE_KEY_TRANSFERRED'' (Some userId) (Some org) None
              [(''licenseKeyId'', JId keyId), (''fromLicenseId'', JId (lk_licenseId key)), (''toLicenseId'', JId targetLicenseId)] meta)
           (ret (toPublicKey transferred))))))))"

section \<open>The shape of a generated key\<close>

lemma randomGroup_props:
  "length (randomGroup bs) = length bs" "set (randomGroup bs) \<subseteq> set ALPHABET"
proof -
  have "0 < length ALPHABET" by (simp add: ALPHABET_def)
  then show "length (randomGroup bs) = length bs" "set (randomGroup bs) \<subseteq> set ALPHABET"
    by (auto simp: randomGroup_def)
qed

lemma length_5_list: "length xs = 5 \<Longrightarrow> \<exists>a b c d e. xs = [a, b, c, d, e]"
  by (auto simp: numeral_eq_Suc length_Suc_conv)

text \<open>
  A generated key is "SSZP-" and five groups of four characters of the alphabet, 29 characters in all; the
  display code agrees with it in the last group and hides the other four.
\<close>

theorem license_key_format:
  assumes "length draws = GROUP_COUNT" and "\<forall>bs \<in> set draws. length bs = GROUP_LENGTH"
  shows "length (gk_plainText (generateLicenseKey hash draws)) = 29
       \<and> set (drop 5 (gk_plainText (generateLicenseKey hash draws))) \<subseteq> set ALPHABET \<union> {CHR ''-''}
       \<and> gk_displayCode (generateLicenseKey hash draws)
         = ''SSZP-****-****-****-****-'' @ drop 25 (gk_plainText (generateLicenseKey hash draws))
       \<and> gk_keyHash (generateLicenseKey hash draws) = hash (gk_plainText (generateLicenseKey hash draws))"
proof -
  from assms(1) obtain a b c d e where draws: "draws = [a, b, c, d, e]"
    using length_5_list [of draws] by (auto simp: GROUP_COUNT_def)
  have len: "length a = 4" "length b = 4" "length c = 4" "length d = 4" "length e = 4"
    using assms(2) by (simp_all add: draws GROUP_LENGTH_def)
  note alph = randomGroup_props(2) [of a] randomGroup_props(2) [of b] randomGroup_props(2) [of c]
    randomGroup_props(2) [of d] randomGroup_props(2) [of e]
  show ?thesis
    using alph by (simp add: generateLicenseKey_def Let_def draws mask_groups_def randomGroup_props(1) len) auto
qed

theorem license_key_format_witness:
  "length (gk_plainText (generateLicenseKey rev (replicate 5 [7, 40, 255, 31]))) = 29"
  using license_key_format [of "replicate 5 [7, 40, 255, 31]" rev] by (simp add: GROUP_COUNT_def GROUP_LENGTH_def)

section \<open>Activation under concurrency\<close>

text \<open>Key ids are primary keys, handed out by the id source, and the key in question exists.\<close>

definition keys_ok :: "id \<Rightarrow> 'z lic_db_scheme \<Rightarrow> bool" where
  "keys_ok keyId s \<longleftrightarrow> distinct (map lk_id (licenseKeys s)) \<and> (\<forall>k \<in> set (licenseKeys s). lk_id k < nextId s)
     \<and> List.find (\<lambda>k. lk_id k = keyId) (licenseKeys s) \<noteq> None"

definition key_row :: "id \<Rightarrow> 'z lic_db_scheme \<Rightarrow> license_key" where
  "key_row keyId s = the (List.find (\<lambda>k. lk_id k = keyId) (licenseKeys s))"

definition activation_look :: "id \<Rightarrow> id \<Rightarrow> 'z lic_db_scheme \<Rightarrow> nat option" where
  "activation_look keyId org s =
     (case fst (activation_read keyId org s) of Inl e \<Rightarrow> None | Inr k \<Rightarrow> Some (lk_activationCount k))"

definition activation_cas :: "id \<Rightarrow> nat \<Rightarrow> 'z lic_db_scheme \<Rightarrow> bool \<times> 'z lic_db_scheme" where
  "activation_cas keyId n s = (case activation_claim keyId n s of (r, s') \<Rightarrow> (r = Inr 1, s'))"

text \<open>Every other request on license keys, complete or at one of its database operations.\<close>

inductive other_request :: "id \<Rightarrow> 'z lic_db_scheme \<Rightarrow> 'z lic_db_scheme \<Rightarrow> bool" for keyId where
  "other_request keyId s (snd (key_generate hash draws l org u limit ex meta s))"
| "other_request keyId s (snd (key_list l org s))"
| "other_request keyId s (snd (key_revoke k org u meta s))"
| "other_request keyId s (snd (key_transfer k org l u meta s))"
| "k \<noteq> keyId \<Longrightarrow> other_request keyId s (snd (activation_claim k n s))"
| "other_request keyId s (snd (audit act u org app mdata meta s))"

text \<open>What such a request may do: other keys, and the fields of this one that the counter does not use.\<close>

definition key_untouched :: "id \<Rightarrow> nat \<Rightarrow> nat \<Rightarrow> 'z lic_db_scheme \<Rightarrow> bool" where
  "key_untouched keyId n m s \<longleftrightarrow> keys_ok keyId s \<and> lk_activationCount (key_row keyId s) = n
     \<and> lk_activationLimit (key_row keyId s) = m"

lemma find_upd_key:
  assumes "\<And>k. lk_id (f k) = lk_id k"
  shows "List.find (\<lambda>k. lk_id k = i) (upd_where P f ks)
       = map_option (\<lambda>k. if P k then f k else k) (List.find (\<lambda>k. lk_id k = i) ks)"
  using assms by (simp add: find_upd_where_keep)

lemma keys_ok_update:
  assumes "\<And>k. lk_id (f k) = lk_id k"
  shows "keys_ok keyId (licenseKeys_update (upd_where P f) s) = keys_ok keyId s"
    and "keys_ok keyId s \<Longrightarrow> key_row keyId (licenseKeys_update (upd_where P f) s)
       = (if P (key_row keyId s) then f (key_row keyId s) else key_row keyId s)"
  using assms by (auto simp: keys_ok_def key_row_def find_upd_key map_upd_where all_upd_where)

lemma key_untouched_update:
  assumes "\<And>k. lk_id (f k) = lk_id k" and "\<And>k. lk_id k = keyId \<Longrightarrow> P k \<Longrightarrow> lk_activationCount (f k) = lk_activationCount k"
    and "\<And>k. lk_activationLimit (f k) = lk_activationLimit k" and "key_untouched keyId n m s"
  shows "key_untouched keyId n m (licenseKeys_update (upd_where P f) s)"
proof -
  have "keys_ok keyId s" using assms(4) by (simp add: key_untouched_def)
  then have "lk_id (key_row keyId s) = keyId"
    by (auto simp: keys_ok_def key_row_def dest: find_SomeD)
  with \<open>keys_ok keyId s\<close> assms show ?thesis
    by (auto simp: key_untouched_def keys_ok_update)
qed

lemma key_untouched_insert:
  assumes "key_untouched keyId n m s" and "lk_id k = nextId s"
  shows "key_untouched keyId n m (licenseKeys_update (\<lambda>ks. ks @ [k]) (nextId_update Suc s))"
  using assms by (auto simp: key_untouched_def keys_ok_def key_row_def find_append less_Suc_eq)

lemma key_untouched_fresh: "key_untouched keyId n m s \<Longrightarrow> key_untouched keyId n m (nextId_update Suc s)"
  by (auto simp: key_untouched_def keys_ok_def key_row_def less_SucI)

lemma key_untouched_quiet [simp]:
  "key_untouched keyId n m (audits_update h s) = key_untouched keyId n m s"
  by (simp add: key_untouched_def keys_ok_def key_row_def)

lemma preserves_owned [pres]: "preserves I (lic_getOwned l org)" "preserves I (getOwnedKey k org)"
  unfolding lic_getOwned_def getOwnedKey_def by (intro pres)+

lemma key_untouched_audit [pres]: "preserves (key_untouched keyId n m) (audit act u org app mdata meta)"
  by (simp add: preserves_wps wp)

lemma key_untouched_revoke: "preserves (key_untouched keyId n m) (key_revoke k org u meta)"
  unfolding key_revoke_def by (intro pres key_untouched_update | simp add: now_def)+

lemma key_untouched_transfer: "preserves (key_untouched keyId n m) (key_transfer k org l u meta)"
  unfolding key_transfer_def by (intro pres key_untouched_update | simp add: now_def)+

lemma key_untouched_generate:
  "preserves (key_untouched keyId n m) (key_generate hash draws l org u max_n ex meta)"
  by (auto simp: preserves_wps key_generate_def lic_getOwned_def wp Let_def
      intro!: key_untouched_insert key_untouched_fresh split: option.split)

lemma key_untouched_claim:
  "k \<noteq> keyId \<Longrightarrow> preserves (key_untouched keyId n m) (activation_claim k i)"
  unfolding activation_claim_def by (intro pres key_untouched_update) auto

lemma key_untouched_list: "preserves (key_untouched keyId n m) (key_list l org)"
  unfolding key_list_def by (intro pres)

lemmas key_untouched_requests =
  key_untouched_generate key_untouched_list key_untouched_revoke key_untouched_transfer key_untouched_claim
  key_untouched_audit

lemma key_untouched_other:
  assumes "other_request keyId s s'" and "key_untouched keyId n m s"
  shows "key_untouched keyId n m s'"
  using assms by cases (auto intro: key_untouched_requests [unfolded preserves_def, rule_format])

lemma activation_look_below:
  assumes "keys_ok keyId s" and "activation_look keyId org s = Some n"
  shows "n < lk_activationLimit (key_row keyId s) \<and> n = lk_activationCount (key_row keyId s)"
  using assms by (auto simp: activation_look_def activation_read_def getOwnedKey_def key_row_def run run_basic keys_ok_def
      split: option.splits if_splits sum.splits)

lemma activation_claim_run:
  assumes "keys_ok keyId s"
  shows "activation_claim keyId n s
       = (Inr (if lk_activationCount (key_row keyId s) = n then 1 else 0),
          licenseKeys_update (upd_where (\<lambda>k. lk_id k = keyId \<and> lk_activationCount k = n)
            (\<lambda>k. k\<lparr>lk_activationCount := lk_activationCount k + 1\<rparr>)) s)"
  using assms
  by (auto simp: activation_claim_def update_many_def run run_basic keys_ok_def key_row_def count_where_key)

interpretation activations: cas_counter "keys_ok keyId" "\<lambda>s. lk_activationCount (key_row keyId s)"
    "\<lambda>s. lk_activationLimit (key_row keyId s)" "activation_look keyId org" "activation_cas keyId" "other_request keyId"
proof unfold_locales
  fix s s' :: "'a lic_db_scheme" and n
  assume ok: "keys_ok keyId s"
  then have row: "lk_id (key_row keyId s) = keyId" by (auto simp: keys_ok_def key_row_def dest: find_SomeD)
  show "activation_look keyId org s = Some n \<Longrightarrow> n < lk_activationLimit (key_row keyId s)"
    using activation_look_below [OF ok] by blast
  show "activation_cas keyId n s = (True, s') \<Longrightarrow> keys_ok keyId s' \<and> lk_activationCount (key_row keyId s) = n
      \<and> lk_activationCount (key_row keyId s') = Suc n
      \<and> lk_activationLimit (key_row keyId s') = lk_activationLimit (key_row keyId s)"
    using ok row by (auto simp: activation_cas_def activation_claim_run keys_ok_update split: if_splits)
  show "activation_cas keyId n s = (False, s') \<Longrightarrow> keys_ok keyId s'
      \<and> lk_activationCount (key_row keyId s') = lk_activationCount (key_row keyId s)
      \<and> lk_activationLimit (key_row keyId s') = lk_activationLimit (key_row keyId s)"
    using ok row by (auto simp: activation_cas_def activation_claim_run keys_ok_update split: if_splits)
  show "other_request keyId s s' \<Longrightarrow> keys_ok keyId s'
      \<and> lk_activationCount (key_row keyId s') = lk_activationCount (key_row keyId s)
      \<and> lk_activationLimit (key_row keyId s') = lk_activationLimit (key_row keyId s)"
    using key_untouched_other [of keyId s s'] ok by (auto simp: key_untouched_def)
qed

text \<open>
  C3. However many activation requests for one key run at the same time, in any interleaving of their reads
  and claims with each other and with every other request on license keys: the activation count never
  passes the activation limit, and it grows by exactly one for each request that succeeds.
\<close>

theorem activation_limit_holds:
  assumes "claim_run (activation_look keyId org) (activation_cas keyId) (other_request keyId) s0 (s, c)"
    and "keys_ok keyId s0"
    and "lk_activationCount (key_row keyId s0) \<le> lk_activationLimit (key_row keyId s0)"
  shows "lk_activationCount (key_row keyId s) \<le> lk_activationLimit (key_row keyId s0)
       \<and> lk_activationCount (key_row keyId s) = lk_activationCount (key_row keyId s0) + card (winners c)"
  using activations.never_exceeded [OF assms] by blast

definition sample_key :: license_key where
  "sample_key = \<lparr>lk_id = 7, lk_licenseId = 3, lk_keyHash = ''h'', lk_displayCode = ''d'', lk_activationLimit = 2,
     lk_activationCount = 1, lk_status = LicenseStatus.ACTIVE, lk_expiresAt = None, lk_revokedAt = None,
     lk_transferredAt = None, lk_createdAt = 0\<rparr>"

definition sample_license :: license_row where
  "sample_license = \<lparr>lic_id = 3, lic_organizationId = 1, lic_applicationId = 2, lic_subscriptionId = None, lic_type = SEAT,
     lic_status = LicenseStatus.ACTIVE, lic_seatLimit = Some 2, lic_deviceLimit = Some 1, lic_expiresAt = None,
     lic_revokedAt = None, lic_metadata = None, lic_createdById = 9\<rparr>"

definition sample_lic_db :: "license_key list \<Rightarrow> lic_db" where
  "sample_lic_db ks = \<lparr>clock = 1296000000, nextId = 100, audits = [], platformEvents = [], automationRules = [], jobs = [],
     jobHistory = [], queueControls = [], finIntegrations = [], erpConnections = [], finEvents = [], syncQueue = [],
     finSyncs = [], syncHistory = [], syncErrors = [], erpCalls = [], customers = [], products = [], plans = [], prices = [],
     subscriptions = [], subItems = [], subEvents = [], subChanges = [], prorations = [], trials = [], coupons = [],
     promotionCodes = [], subCoupons = [], applications = [\<lparr>app_id = 2, app_organizationId = 1\<rparr>],
     licenses = [sample_license], licenseKeys = ks, licenseAssignments = [], seats = [], seatAssignments = [], devices = []\<rparr>"

lemmas sample_lic_defs = sample_lic_db_def sample_license_def sample_key_def

text \<open>Two requests race for the last activation: both read the same count, one of them wins it.\<close>

theorem activation_limit_holds_witness:
  "lk_activationCount (key_row 7 (snd (activation_cas 7 1 (sample_lic_db [sample_key])))) \<le> 2
   \<and> lk_activationCount (key_row 7 (snd (activation_cas 7 1 (sample_lic_db [sample_key]))))
     = 1 + card (winners ((\<lambda>_. Idle)(0 := Read 1, 1 := Read 1, 0 := Won)))"
proof -
  let ?s = "sample_lic_db [sample_key]"
  let ?L = "activation_look 7 1 :: lic_db \<Rightarrow> nat option"
  let ?C = "activation_cas 7 :: nat \<Rightarrow> lic_db \<Rightarrow> bool \<times> lic_db"
  let ?E = "other_request 7 :: lic_db \<Rightarrow> lic_db \<Rightarrow> bool"
  have look: "?L ?s = Some 1"
    by (simp add: activation_look_def activation_read_def getOwnedKey_def run run_basic sample_lic_defs)
  have ok: "keys_ok 7 ?s" and row: "key_row 7 ?s = sample_key"
    by (simp_all add: keys_ok_def key_row_def sample_lic_defs)
  have hit: "?C 1 ?s = (True, snd (?C 1 ?s))"
    using ok row by (simp add: activation_cas_def activation_claim_run sample_key_def)
  have "claim_run ?L ?C ?E ?s (?s, (\<lambda>_. Idle)(0 := Read 1))"
    by (rule claim_run.step [OF claim_run.start]) (rule claim_step.look, simp, rule look)
  then have "claim_run ?L ?C ?E ?s (?s, (\<lambda>_. Idle)(0 := Read 1, 1 := Read 1))"
    by (rule claim_run.step) (rule claim_step.look, simp, rule look)
  then have "claim_run ?L ?C ?E ?s (snd (?C 1 ?s), (\<lambda>_. Idle)(0 := Read 1, 1 := Read 1, 0 := Won))"
    by (rule claim_run.step) (rule claim_step.win [where n = 1], simp, rule hit)
  from activation_limit_holds [OF this ok] show ?thesis
    unfolding row by (simp add: sample_key_def)
qed

section \<open>One activation\<close>

lemma find_after_claim:
  assumes "keys_ok keyId s"
  shows "List.find (\<lambda>k. lk_id k = keyId) (upd_where (\<lambda>k. lk_id k = keyId \<and> lk_activationCount k = lk_activationCount (key_row keyId s))
      (\<lambda>k. k\<lparr>lk_activationCount := lk_activationCount k + 1\<rparr>) (licenseKeys s))
    = Some ((key_row keyId s)\<lparr>lk_activationCount := lk_activationCount (key_row keyId s) + 1\<rparr>)"
  using assms by (auto simp: keys_ok_def key_row_def find_upd_key dest: find_SomeD)

lemma activation_read_row:
  "activation_read keyId org s = (r, s') \<Longrightarrow> s' = s \<and> (\<forall>k. r = Inr k \<longrightarrow> k = key_row keyId s)"
  by (auto simp: activation_read_def getOwnedKey_def key_row_def run run_basic split: option.splits if_splits)

text \<open>
  An activation that no other request disturbs settles at its first attempt. It fails, and changes
  nothing, exactly when the key is not found in the organisation, revoked, expired or used up; otherwise
  it takes one activation, writes one audit row and answers the updated key without its hash.
\<close>

theorem activation_settles:
  assumes "keys_ok keyId s"
  shows "case activation_read keyId org s of
      (Inl e, _) \<Rightarrow> key_activate keyId org userId meta s = (Inl e, s)
    | (Inr key, _) \<Rightarrow> lk_activationCount key < lk_activationLimit key
        \<and> fst (key_activate keyId org userId meta s)
            = Inr (toPublicKey (key\<lparr>lk_activationCount := lk_activationCount key + 1\<rparr>))
        \<and> key_row keyId (snd (key_activate keyId org userId meta s))
            = key\<lparr>lk_activationCount := lk_activationCount key + 1\<rparr>
        \<and> length (audits (snd (key_activate keyId org userId meta s))) = Suc (length (audits s))
        \<and> (\<forall>k \<in> set (licenseKeys s). lk_id k \<noteq> keyId \<longrightarrow> k \<in> set (licenseKeys (snd (key_activate keyId org userId meta s))))"
proof -
  obtain r s' where "activation_read keyId org s = (r, s')" by (cases "activation_read keyId org s")
  with activation_read_row [OF this] have rd: "activation_read keyId org s = (r, s)" by simp
  show ?thesis
  proof (cases r)
    case (Inl e)
    then show ?thesis by (simp add: rd key_activate_def eval_nat_numeral bnd_step)
  next
    case (Inr key)
    with activation_read_row [OF rd] have key: "key = key_row keyId s" by simp
    have "activation_look keyId org s = Some (lk_activationCount key)"
      by (simp add: activation_look_def rd Inr)
    from activation_look_below [OF assms this] have below: "lk_activationCount key < lk_activationLimit key"
      by (simp add: key)
    have "key_activate keyId org userId meta s
        = (Inr (toPublicKey (key\<lparr>lk_activationCount := lk_activationCount key + 1\<rparr>)),
           audits_update (\<lambda>as. as @ [\<lparr>aud_action = ''LICENSE_KEY_ACTIVATED'', aud_userId = Some userId,
             aud_organizationId = Some org, aud_applicationId = None,
             aud_metadata = JObj [(''licenseId'', JId (lk_licenseId key)), (''licenseKeyId'', JId keyId)], aud_meta = meta\<rparr>])
           (snd (activation_claim keyId (lk_activationCount key) s)))"
      using assms
      by (simp add: key_activate_def eval_nat_numeral bnd_step seq_step rd Inr key activation_claim_run audit_def audit_record_def
          find_or_throw_def find_row_def run_basic find_after_claim [simplified])
    with assms below show ?thesis
      by (auto simp: rd Inr key activation_claim_run key_row_def find_after_claim [simplified, unfolded key_row_def] intro!: upd_where_other_row)
  qed
qed

theorem activation_settles_witness:
  "fst (key_activate 7 1 9 no_meta (sample_lic_db [sample_key])) = Inr (sample_key\<lparr>lk_activationCount := 2, lk_keyHash := []\<rparr>)"
  using activation_settles [of 7 "sample_lic_db [sample_key]" 1 9 no_meta]
  by (simp add: keys_ok_def activation_read_def getOwnedKey_def run run_basic sample_lic_defs toPublicKey_def)

end
