(* ===== verification/Seats.thy ===== *)
theory Seats
  imports Licenses
begin

text \<open>
  seats/seats.service.ts: the seats of a SEAT-type license and who occupies them. A seat is claimed by a
  compare-and-swap on its status; the assignment rows are the history of its occupants.
\<close>

section \<open>SeatsService\<close>

definition getOwnedSeatLicense :: "id \<Rightarrow> id \<Rightarrow> ('z lic_db_scheme, license_row) svc" where
  "getOwnedSeatLicense licenseId org =
     bnd (lic_getOwned licenseId org) (\<lambda>license.
     seq (guard_or (lic_type license = SEAT) (BadRequestException ''Seats can only be managed on a SEAT-type license''))
         (ret license))"

definition getOwnedActiveAssignment :: "id \<Rightarrow> id \<Rightarrow> ('z lic_db_scheme, seat_assignment) svc" where
  "getOwnedActiveAssignment licenseId assignmentId =
     bnd (gets (\<lambda>s. case List.find (\<lambda>a. sa_id a = assignmentId) (seatAssignments s) of None \<Rightarrow> None
       | Some a \<Rightarrow> (case List.find (\<lambda>x. seat_id x = sa_seatId a) (seats s) of None \<Rightarrow> None
           | Some x \<Rightarrow> if seat_licenseId x = licenseId then Some a else None))) (\<lambda>r.
     case r of None \<Rightarrow> throw (NotFoundException ''Seat assignment not found'')
     | Some a \<Rightarrow> seq (guard_or (sa_status a = SeatAssignmentStatus.ACTIVE)
                      (BadRequestException ''Seat assignment is not active'')) (ret a))"

text \<open>\<open>createManyAndReturn\<close>: the rows get successive primary keys.\<close>

definition new_seats :: "id \<Rightarrow> id \<Rightarrow> time \<Rightarrow> nat \<Rightarrow> seat_row list" where
  "new_seats licenseId i t n = map (\<lambda>j. \<lparr>seat_id = j, seat_licenseId = licenseId, seat_status = SeatStatus.AVAILABLE,
     seat_createdAt = t\<rparr>) [i ..< i + n]"

definition seat_bulkCreate :: "id \<Rightarrow> id \<Rightarrow> id \<Rightarrow> nat \<Rightarrow> request_meta \<Rightarrow> ('z lic_db_scheme, seat_row list) svc" where
  "seat_bulkCreate licenseId org userId n meta =
     bnd (getOwnedSeatLicense licenseId org) (\<lambda>license.
     bnd (gets (\<lambda>s. count_where (\<lambda>x. seat_licenseId x = licenseId) (seats s))) (\<lambda>existingCount.
     seq (case lic_seatLimit license of None \<Rightarrow> ret ()
          | Some limit \<Rightarrow> guard_or (existingCount + n \<le> limit)
              (BadRequestException (''Creating '' @ nat_str n @ '' seat(s) would exceed this license's seat limit of ''
                 @ nat_str limit @ '' ('' @ nat_str existingCount @ '' already exist)'')))
     (bnd now (\<lambda>t. bnd (gets nextId) (\<lambda>i.
      seq (modify (nextId_update (\<lambda>k. k + n)))
      (seq (modify (seats_update (\<lambda>xs. xs @ new_seats licenseId i t n)))
      (seq (audit ''SEAT_ASSIGNED'' (Some userId) (Some org) (Some (lic_applicationId license))
              [(''licenseId'', JId licenseId), (''event'', JStr ''seats_created''), (''count'', JInt (int n))] meta)
           (ret (new_seats licenseId i t n)))))))))"

text \<open>The two database operations of an assignment attempt: the next candidate, and the claim.\<close>

definition seat_candidate :: "id \<Rightarrow> ('z lic_db_scheme, seat_row option) svc" where
  "seat_candidate licenseId = gets (\<lambda>s.
     case order_by seat_createdAt (filter (\<lambda>x. seat_licenseId x = licenseId \<and> seat_status x = SeatStatus.AVAILABLE) (seats s)) of
       [] \<Rightarrow> None | x # _ \<Rightarrow> Some x)"

definition seat_claim :: "id \<Rightarrow> ('z lic_db_scheme, nat) svc" where
  "seat_claim seatId = update_many seats seats_update
     (\<lambda>x. seat_id x = seatId \<and> seat_status x = SeatStatus.AVAILABLE) (\<lambda>x. x\<lparr>seat_status := SeatStatus.ASSIGNED\<rparr>)"

definition new_seat_assignment :: "id \<Rightarrow> id \<Rightarrow> ('z lic_db_scheme, seat_assignment) svc" where
  "new_seat_assignment seatId userId =
     bnd fresh (\<lambda>i. bnd now (\<lambda>t. insert_row seatAssignments_update
       \<lparr>sa_id = i, sa_seatId = seatId, sa_userId = userId, sa_status = SeatAssignmentStatus.ACTIVE,
        sa_assignedAt = t, sa_unassignedAt = None\<rparr>))"

fun assign_loop ::
  "nat \<Rightarrow> id \<Rightarrow> id \<Rightarrow> license_row \<Rightarrow> id \<Rightarrow> id \<Rightarrow> request_meta \<Rightarrow> ('z lic_db_scheme, seat_assignment \<times> seat_row) svc" where
  "assign_loop 0 licenseId org license actor target meta = throw (ConflictException ''Could not assign a seat, please retry'')"
| "assign_loop (Suc n) licenseId org license actor target meta =
     bnd (seat_candidate licenseId) (\<lambda>r. case r of
       None \<Rightarrow> throw (ConflictException ''No available seats remain on this license'')
     | Some candidate \<Rightarrow>
         bnd (seat_claim (seat_id candidate)) (\<lambda>count.
         if count = 0 then assign_loop n licenseId org license actor target meta
         else bnd (new_seat_assignment (seat_id candidate) target) (\<lambda>assignment.
           seq (audit ''SEAT_ASSIGNED'' (Some actor) (Some org) (Some (lic_applicationId license))
                  [(''licenseId'', JId licenseId), (''seatId'', JId (seat_id candidate)), (''assignedUserId'', JId target)] meta)
               (ret (assignment, candidate\<lparr>seat_status := SeatStatus.ASSIGNED\<rparr>)))))"

definition seat_assign ::
  "id \<Rightarrow> id \<Rightarrow> id \<Rightarrow> id \<Rightarrow> request_meta \<Rightarrow> ('z lic_db_scheme, seat_assignment \<times> seat_row) svc" where
  "seat_assign licenseId org actor target meta =
     bnd (getOwnedSeatLicense licenseId org) (\<lambda>license. assign_loop 5 licenseId org license actor target meta)"

text \<open>A removal reads the assignment and then writes both rows.\<close>

definition removal_write :: "seat_assignment \<Rightarrow> ('z lic_db_scheme, seat_assignment) svc" where
  "removal_write assignment =
     bnd now (\<lambda>t.
     bnd (update_row seatAssignments seatAssignments_update (\<lambda>a. sa_id a = sa_id assignment)
            (\<lambda>a. a\<lparr>sa_status := SeatAssignmentStatus.REMOVED, sa_unassignedAt := Some t\<rparr>)) (\<lambda>updated.
     seq (update_row seats seats_update (\<lambda>x. seat_id x = sa_seatId assignment) (\<lambda>x. x\<lparr>seat_status := SeatStatus.AVAILABLE\<rparr>))
         (ret updated)))"

definition seat_removeAssignment :: "id \<Rightarrow> id \<Rightarrow> id \<Rightarrow> id \<Rightarrow> request_meta \<Rightarrow> ('z lic_db_scheme, seat_assignment) svc" where
  "seat_removeAssignment licenseId org assignmentId actor meta =
     bnd (getOwnedSeatLicense licenseId org) (\<lambda>license.
     bnd (getOwnedActiveAssignment licenseId assignmentId) (\<lambda>assignment.
     bnd (removal_write assignment) (\<lambda>updated.
     seq (audit ''SEAT_REMOVED'' (Some actor) (Some org) (Some (lic_applicationId license))
            [(''licenseId'', JId licenseId), (''seatId'', JId (sa_seatId assignment)),
             (''unassignedUserId'', JId (sa_userId assignment))] meta)
         (ret updated))))"

definition seat_transfer ::
  "id \<Rightarrow> id \<Rightarrow> id \<Rightarrow> id \<Rightarrow> id \<Rightarrow> request_meta \<Rightarrow> ('z lic_db_scheme, seat_assignment) svc" where
  "seat_transfer licenseId org assignmentId actor target meta =
     bnd (getOwnedSeatLicense licenseId org) (\<lambda>license.
     bnd (getOwnedActiveAssignment licenseId assignmentId) (\<lambda>assignment.
     bnd now (\<lambda>t.
     bnd (transaction (seq
            (update_row seatAssignments seatAssignments_update (\<lambda>a. sa_id a = sa_id assignment)
               (\<lambda>a. a\<lparr>sa_status := SeatAssignmentStatus.TRANSFERRED, sa_unassignedAt := Some t\<rparr>))
            (new_seat_assignment (sa_seatId assignment) target))) (\<lambda>newAssignment.
     seq (audit ''SEAT_TRANSFERRED'' (Some actor) (Some org) (Some (lic_applicationId license))
            [(''licenseId'', JId licenseId), (''seatId'', JId (sa_seatId assignment)),
             (''fromUserId'', JId (sa_userId assignment)), (''toUserId'', JId target)] meta)
         (ret newAssignment)))))"

definition seat_of :: "id \<Rightarrow> 'z lic_db_scheme \<Rightarrow> seat_row option" where
  "seat_of i s = List.find (\<lambda>x. seat_id x = i) (seats s)"

definition seat_listHistory :: "id \<Rightarrow> id \<Rightarrow> ('z lic_db_scheme, (seat_assignment \<times> seat_row option) list) svc" where
  "seat_listHistory licenseId org =
     seq (getOwnedSeatLicense licenseId org)
       (gets (\<lambda>s. map (\<lambda>a. (a, seat_of (sa_seatId a) s))
          (order_by (\<lambda>a. - sa_assignedAt a)
            (filter (\<lambda>a. case seat_of (sa_seatId a) s of None \<Rightarrow> False | Some x \<Rightarrow> seat_licenseId x = licenseId)
               (seatAssignments s)))))"

record seat_summary =
  sum_available :: nat
  sum_assigned :: nat
  sum_pending :: nat
  sum_inactive :: nat
  sum_total :: nat

definition seat_summary_of :: "id \<Rightarrow> id \<Rightarrow> ('z lic_db_scheme, seat_summary) svc" where
  "seat_summary_of licenseId org =
     seq (getOwnedSeatLicense licenseId org)
       (gets (\<lambda>s. let n = (\<lambda>st. count_where (\<lambda>x. seat_licenseId x = licenseId \<and> seat_status x = st) (seats s)) in
          \<lparr>sum_available = n SeatStatus.AVAILABLE, sum_assigned = n SeatStatus.ASSIGNED, sum_pending = n SeatStatus.PENDING,
           sum_inactive = n SeatStatus.INACTIVE,
           sum_total = n SeatStatus.AVAILABLE + n SeatStatus.ASSIGNED + n SeatStatus.PENDING + n SeatStatus.INACTIVE\<rparr>))"

section \<open>The books of the seats\<close>

text \<open>
  Primary keys are distinct and older than the id source, assignments belong to seats, and a seat is
  ASSIGNED exactly when one of its assignments is ACTIVE; never more than one is.
\<close>

definition occupied_by :: "id \<Rightarrow> seat_assignment \<Rightarrow> bool" where
  "occupied_by i a \<longleftrightarrow> sa_seatId a = i \<and> sa_status a = SeatAssignmentStatus.ACTIVE"

definition books_ok :: "seat_row list \<Rightarrow> seat_assignment list \<Rightarrow> id \<Rightarrow> bool" where
  "books_ok xs as n \<longleftrightarrow> distinct (map seat_id xs) \<and> distinct (map sa_id as)
     \<and> (\<forall>x \<in> set xs. seat_id x < n) \<and> (\<forall>a \<in> set as. sa_id a < n \<and> sa_seatId a \<in> seat_id ` set xs)
     \<and> (\<forall>x \<in> set xs. count_where (occupied_by (seat_id x)) as = (if seat_status x = SeatStatus.ASSIGNED then 1 else 0))"

lemma books_new_seats:
  assumes "books_ok xs as n"
  shows "books_ok (xs @ new_seats l n t k) as (n + k)"
proof -
  have ids: "map seat_id (new_seats l n t k) = [n ..< n + k]" by (simp add: new_seats_def comp_def)
  then have new: "seat_id ` set (new_seats l n t k) = {n ..< n + k}" by (metis list.set_map set_upt)
  have "count_where (occupied_by (seat_id x)) as = 0 \<and> seat_status x = SeatStatus.AVAILABLE"
    if "x \<in> set (new_seats l n t k)" for x
    using that assms by (force simp: new_seats_def count_where_zero occupied_by_def books_ok_def)
  with assms show ?thesis
    by (auto simp: books_ok_def ids new intro: less_trans_Suc trans_less_add1) (use new in \<open>force+\<close>)
qed

lemma books_claim:
  assumes "books_ok xs as n" and "x \<in> set xs" and "seat_status x = SeatStatus.AVAILABLE"
    and "sa_id a = n" and "sa_seatId a = seat_id x" and "sa_status a = SeatAssignmentStatus.ACTIVE"
  shows "books_ok (upd_where (\<lambda>y. seat_id y = seat_id x \<and> seat_status y = SeatStatus.AVAILABLE)
           (\<lambda>y. y\<lparr>seat_status := SeatStatus.ASSIGNED\<rparr>) xs) (as @ [a]) (Suc n)"
proof -
  have occ: "count_where (occupied_by i) [a] = (if i = seat_id x then 1 else 0)" for i
    using assms(5,6) by (simp add: count_where_Cons occupied_by_def)
  have same: "seat_status y = SeatStatus.AVAILABLE" if "y \<in> set xs" "seat_id y = seat_id x" for y
    using assms(1-3) that distinct_key_eq [of seat_id xs y x] by (simp add: books_ok_def)
  have old: "n \<notin> sa_id ` set as" using assms(1) by (auto simp: books_ok_def)
  have empty: "count_where (occupied_by (seat_id x)) as = 0" using assms(1-3) by (simp add: books_ok_def)
  show ?thesis
    using assms(1,2,4,5) old same empty
    by (auto simp: books_ok_def map_upd_where image_upd_where ball_upd_where occ less_Suc_eq)
qed

lemma books_assignment_unique:
  assumes "books_ok xs as n" and "a \<in> set as" and "sa_status a = SeatAssignmentStatus.ACTIVE"
    and "x \<in> set xs" and "seat_id x = sa_seatId a"
  shows "seat_status x = SeatStatus.ASSIGNED"
proof (rule ccontr)
  assume "seat_status x \<noteq> SeatStatus.ASSIGNED"
  with assms(1,4) have "count_where (occupied_by (seat_id x)) as = 0" by (auto simp: books_ok_def)
  with assms show False by (auto simp: count_where_zero occupied_by_def)
qed

lemma books_vacate:
  assumes "books_ok xs as n" and "a \<in> set as" and "sa_status a = SeatAssignmentStatus.ACTIVE"
    and "\<And>b. sa_id (f b) = sa_id b \<and> sa_seatId (f b) = sa_seatId b \<and> sa_status (f b) \<noteq> SeatAssignmentStatus.ACTIVE"
  shows "count_where (occupied_by i) (upd_where (\<lambda>b. sa_id b = sa_id a) f as)
       = (if i = sa_seatId a then 0 else count_where (occupied_by i) as)"
proof -
  have eq: "count_where (occupied_by i) (upd_where (\<lambda>b. sa_id b = sa_id a) f as) + (if occupied_by i a then 1 else 0)
      = count_where (occupied_by i) as"
    using count_where_upd_key [of sa_id as a "occupied_by i" f] assms by (simp add: books_ok_def occupied_by_def)
  obtain x where "x \<in> set xs" "seat_id x = sa_seatId a" using assms(1,2) by (force simp: books_ok_def)
  with assms(1) books_assignment_unique [OF assms(1-3)] have "count_where (occupied_by (sa_seatId a)) as = 1"
    by (force simp: books_ok_def)
  with eq assms(3) show ?thesis by (auto simp: occupied_by_def)
qed

lemma books_remove:
  assumes "books_ok xs as n" and "a \<in> set as" and "sa_status a = SeatAssignmentStatus.ACTIVE"
    and "\<And>b. sa_id (f b) = sa_id b \<and> sa_seatId (f b) = sa_seatId b \<and> sa_status (f b) \<noteq> SeatAssignmentStatus.ACTIVE"
  shows "books_ok (upd_where (\<lambda>y. seat_id y = sa_seatId a) (\<lambda>y. y\<lparr>seat_status := SeatStatus.AVAILABLE\<rparr>) xs)
           (upd_where (\<lambda>b. sa_id b = sa_id a) f as) n"
  using assms(1,4) books_vacate [OF assms]
  by (auto simp: books_ok_def map_upd_where image_upd_where ball_upd_where)

lemma books_transfer:
  assumes "books_ok xs as n" and "a \<in> set as" and "sa_status a = SeatAssignmentStatus.ACTIVE"
    and "\<And>b. sa_id (f b) = sa_id b \<and> sa_seatId (f b) = sa_seatId b \<and> sa_status (f b) \<noteq> SeatAssignmentStatus.ACTIVE"
    and "sa_id b = n" and "sa_seatId b = sa_seatId a" and "sa_status b = SeatAssignmentStatus.ACTIVE"
  shows "books_ok xs (upd_where (\<lambda>b. sa_id b = sa_id a) f as @ [b]) (Suc n)"
  using assms(1,2,4-7) books_vacate [OF assms(1-4)] books_assignment_unique [OF assms(1-3)]
  by (auto simp: books_ok_def map_upd_where image_upd_where ball_upd_where count_where_Cons occupied_by_def less_Suc_eq)

section \<open>Every operation keeps the books\<close>

text \<open>The license's limit bounds its seats.\<close>

definition seats_capped :: "'z lic_db_scheme \<Rightarrow> bool" where
  "seats_capped s \<longleftrightarrow> (\<forall>i l m. List.find (\<lambda>r. lic_id r = i) (licenses s) = Some l \<longrightarrow> lic_seatLimit l = Some m \<longrightarrow>
     count_where (\<lambda>x. seat_licenseId x = i) (seats s) \<le> m)"

definition seats_ok :: "'z lic_db_scheme \<Rightarrow> bool" where
  "seats_ok s \<longleftrightarrow> books_ok (seats s) (seatAssignments s) (nextId s) \<and> seats_capped s"

lemma seats_ok_quiet [simp]: "seats_ok (audits_update h s) = seats_ok s"
  by (simp add: seats_ok_def seats_capped_def)

lemma count_license_upd:
  "count_where (\<lambda>x. seat_licenseId x = l) (upd_where P (\<lambda>x. x\<lparr>seat_status := st\<rparr>) xs)
   = count_where (\<lambda>x. seat_licenseId x = l) xs"
  by (rule count_where_upd_id) simp

lemma wps_seat_license [wp]:
  "wps (getOwnedSeatLicense l org) Q s =
     (case List.find (\<lambda>r. lic_id r = l) (licenses s) of
        None \<Rightarrow> Q (Inl (NotFoundException ''License not found'')) s
      | Some r \<Rightarrow> if lic_organizationId r \<noteq> org then Q (Inl (NotFoundException ''License not found'')) s
          else if lic_type r = SEAT then Q (Inr r) s
          else Q (Inl (BadRequestException ''Seats can only be managed on a SEAT-type license'')) s)"
  by (simp add: getOwnedSeatLicense_def lic_getOwned_def wp split: option.split)

lemma active_assignment_cases:
  "getOwnedActiveAssignment l i s = (r, s') \<Longrightarrow>
   s' = s \<and> (\<forall>a. r = Inr a \<longrightarrow> a \<in> set (seatAssignments s) \<and> sa_status a = SeatAssignmentStatus.ACTIVE
     \<and> sa_id a = i \<and> List.find (\<lambda>a. sa_id a = i) (seatAssignments s) = Some a
     \<and> (\<exists>x. List.find (\<lambda>x. seat_id x = sa_seatId a) (seats s) = Some x))"
  by (auto simp: getOwnedActiveAssignment_def run run_basic dest: find_SomeD split: option.splits if_splits)

lemma wps_active_assignment:
  assumes "\<And>e. Q (Inl e) s"
    and "\<And>a x. a \<in> set (seatAssignments s) \<Longrightarrow> sa_status a = SeatAssignmentStatus.ACTIVE \<Longrightarrow>
       List.find (\<lambda>b. sa_id b = sa_id a) (seatAssignments s) = Some a \<Longrightarrow>
       List.find (\<lambda>x. seat_id x = sa_seatId a) (seats s) = Some x \<Longrightarrow> Q (Inr a) s"
  shows "wps (getOwnedActiveAssignment l i) Q s"
proof (rule wps_I)
  fix r s' assume "getOwnedActiveAssignment l i s = (r, s')"
  from active_assignment_cases [OF this] assms show "Q r s'" by (cases r) auto
qed

lemma count_new_seats: "count_where (\<lambda>x. seat_licenseId x = i) (new_seats l n t k) = (if l = i then k else 0)"
  by (simp add: new_seats_def count_where_def filter_map comp_def)

lemma bulkCreate_ok: "preserves seats_ok (seat_bulkCreate l org u n meta)"
  by (auto simp: preserves_wps seat_bulkCreate_def wp seats_ok_def seats_capped_def books_new_seats count_new_seats
      split: option.split)

lemma remove_ok: "preserves seats_ok (seat_removeAssignment l org i u meta)"
  unfolding preserves_wps seat_removeAssignment_def wps_bnd wps_seat_license
  by (auto intro!: wps_active_assignment books_remove simp: removal_write_def wp seats_ok_def seats_capped_def count_license_upd
      split: option.split sum.split)

lemma transfer_ok: "preserves seats_ok (seat_transfer l org i u target meta)"
  unfolding preserves_wps seat_transfer_def wps_bnd wps_seat_license
  by (auto intro!: wps_active_assignment books_transfer simp: new_seat_assignment_def wp seats_ok_def seats_capped_def
      split: option.split sum.split)

lemma candidate_row:
  "seat_candidate l s = (Inr (Some x), s') \<Longrightarrow> s' = s \<and> x \<in> set (seats s) \<and> seat_status x = SeatStatus.AVAILABLE"
proof -
  assume a: "seat_candidate l s = (Inr (Some x), s')"
  let ?xs = "order_by seat_createdAt (filter (\<lambda>x. seat_licenseId x = l \<and> seat_status x = SeatStatus.AVAILABLE) (seats s))"
  from a have "s' = s" and "x \<in> set ?xs" by (auto simp: seat_candidate_def run_basic split: list.splits)
  then show ?thesis by (simp add: order_by_def)
qed

lemma assign_loop_ok:
  "0 < n \<Longrightarrow> preserves (seats_ok :: 'z lic_db_scheme \<Rightarrow> bool) (assign_loop n l org lic u target meta)"
proof (cases n)
  case (Suc m)
  have "wps (assign_loop (Suc m) l org lic u target meta) (\<lambda>_. seats_ok) s" if ok: "seats_ok s"
    for s :: "'z lic_db_scheme"
  proof (cases "fst (seat_candidate l s)")
    case (Inr c)
    have cand: "seat_candidate l s = (Inr c, s)" using Inr by (simp add: seat_candidate_def run_basic)
    show ?thesis
    proof (cases c)
      case (Some x)
      with candidate_row cand have x: "x \<in> set (seats s)" "seat_status x = SeatStatus.AVAILABLE" by blast+
      then have "count_where (\<lambda>y. seat_id y = seat_id x \<and> seat_status y = SeatStatus.AVAILABLE) (seats s) \<noteq> 0"
        by (auto simp: count_where_zero)
      with ok x cand Some show ?thesis
        by (auto simp: wp wps_run [of "seat_candidate l"] seat_claim_def new_seat_assignment_def seats_ok_def seats_capped_def
            count_license_upd intro!: books_claim)
    qed (use ok cand in \<open>simp add: wp wps_run [of "seat_candidate l"]\<close>)
  qed (simp add: seat_candidate_def run_basic)
  with Suc show ?thesis by (simp add: preserves_wps del: assign_loop.simps)
qed simp

lemma assign_ok: "preserves seats_ok (seat_assign l org u target meta)"
  using assign_loop_ok [of 5 l org _ u target meta]
  by (auto simp: preserves_wps seat_assign_def wps_bnd wps_seat_license split: option.split)

section \<open>Seats are never oversold\<close>

inductive seat_reaches :: "'z lic_db_scheme \<Rightarrow> 'z lic_db_scheme \<Rightarrow> bool" for s0 where
  start: "seat_reaches s0 s0"
| create: "seat_reaches s0 s \<Longrightarrow> seat_reaches s0 (snd (seat_bulkCreate l org u n meta s))"
| assign: "seat_reaches s0 s \<Longrightarrow> seat_reaches s0 (snd (seat_assign l org u target meta s))"
| remove: "seat_reaches s0 s \<Longrightarrow> seat_reaches s0 (snd (seat_removeAssignment l org i u meta s))"
| transfer: "seat_reaches s0 s \<Longrightarrow> seat_reaches s0 (snd (seat_transfer l org i u target meta s))"

lemma seat_reaches_ok: "seat_reaches s0 s \<Longrightarrow> seats_ok s0 \<Longrightarrow> seats_ok s"
proof (induction rule: seat_reaches.induct)
  case (create s l org u n meta)
  then show ?case using preservesD [OF bulkCreate_ok, of s l org u n meta] by simp
next
  case (assign s l org u target meta)
  then show ?case using preservesD [OF assign_ok, of s l org u target meta] by simp
next
  case (remove s l org i u meta)
  then show ?case using preservesD [OF remove_ok, of s l org i u meta] by simp
next
  case (transfer s l org i u target meta)
  then show ?case using preservesD [OF transfer_ok, of s l org i u target meta] by simp
qed

text \<open>Seat requests leave the licenses alone.\<close>

lemma licenses_kept [pres]:
  "preserves (\<lambda>s. licenses s = ls) (getOwnedSeatLicense l org)"
  "preserves (\<lambda>s. licenses s = ls) (getOwnedActiveAssignment l i)"
  "preserves (\<lambda>s. licenses s = ls) (new_seat_assignment x u)"
  "preserves (\<lambda>s. licenses s = ls) (audit act v o' app mdata meta)"
  unfolding getOwnedSeatLicense_def getOwnedActiveAssignment_def new_seat_assignment_def audit_def audit_record_def
    fresh_def now_def by (intro pres; simp)+

lemma loop_keeps_licenses [pres]: "preserves (\<lambda>s. licenses s = ls) (assign_loop n l org lic u target meta)"
  by (induction n) (auto simp: seat_candidate_def seat_claim_def intro!: pres)

lemma seat_reaches_licenses: "seat_reaches s0 s \<Longrightarrow> licenses s = licenses s0"
proof (induction rule: seat_reaches.induct)
  case (create s l org u n meta)
  have "preserves (\<lambda>s. licenses s = licenses s0) (seat_bulkCreate l org u n meta)"
    unfolding seat_bulkCreate_def now_def by (intro pres; simp)
  from preservesD [OF this, of s] create show ?case by simp
next
  case (assign s l org u target meta)
  have "preserves (\<lambda>s. licenses s = licenses s0) (seat_assign l org u target meta)"
    unfolding seat_assign_def by (intro pres)
  from preservesD [OF this, of s] assign show ?case by simp
next
  case (remove s l org i u meta)
  have "preserves (\<lambda>s. licenses s = licenses s0) (seat_removeAssignment l org i u meta)"
    unfolding seat_removeAssignment_def removal_write_def now_def by (intro pres; simp)
  from preservesD [OF this, of s] remove show ?case by simp
next
  case (transfer s l org i u target meta)
  have "preserves (\<lambda>s. licenses s = licenses s0) (seat_transfer l org i u target meta)"
    unfolding seat_transfer_def now_def by (intro pres; simp)
  from preservesD [OF this, of s] transfer show ?case by simp
qed simp

definition active :: "seat_assignment \<Rightarrow> bool" where
  "active a \<longleftrightarrow> sa_status a = SeatAssignmentStatus.ACTIVE"

definition active_under :: "id \<Rightarrow> 'z lic_db_scheme \<Rightarrow> seat_assignment \<Rightarrow> bool" where
  "active_under l s a \<longleftrightarrow> active a \<and> (\<exists>x \<in> set (seats s). seat_id x = sa_seatId a \<and> seat_licenseId x = l)"

lemma active_seats_distinct:
  assumes "books_ok xs as n"
  shows "distinct (map sa_seatId (filter active as))"
proof (rule distinct_selected)
  fix i
  have eq: "(\<lambda>a. sa_seatId a = i \<and> active a) = occupied_by i"
    by (simp add: fun_eq_iff occupied_by_def active_def)
  show "count_where (\<lambda>a. sa_seatId a = i \<and> active a) as \<le> 1"
  proof (cases "i \<in> seat_id ` set xs")
    case False
    with assms have "count_where (occupied_by i) as = 0" by (auto simp: count_where_zero occupied_by_def books_ok_def)
    then show ?thesis by (simp add: eq)
  qed (use assms in \<open>auto simp: eq books_ok_def\<close>)
qed

lemma active_under_le:
  assumes "books_ok (seats s) (seatAssignments s) n"
  shows "length (filter (active_under l s) (seatAssignments s)) \<le> count_where (\<lambda>x. seat_licenseId x = l) (seats s)"
proof -
  let ?as = "filter (active_under l s) (seatAssignments s)"
  have "?as = filter (active_under l s) (filter active (seatAssignments s))"
    unfolding filter_filter by (rule filter_cong) (auto simp: active_under_def)
  then have "distinct (map sa_seatId ?as)"
    using active_seats_distinct [OF assms] by (metis distinct_map_filter)
  then have "length ?as = card (sa_seatId ` set ?as)" by (metis distinct_card length_map list.set_map)
  also have "\<dots> \<le> card (seat_id ` set (filter (\<lambda>x. seat_licenseId x = l) (seats s)))"
    by (rule card_mono) (simp, force simp: active_under_def)
  also have "\<dots> \<le> length (filter (\<lambda>x. seat_licenseId x = l) (seats s))"
    by (metis card_length length_map list.set_map)
  finally show ?thesis by (simp add: count_where_def)
qed


definition sample_seats :: "seat_row list \<Rightarrow> seat_assignment list \<Rightarrow> lic_db" where
  "sample_seats xs as = (sample_lic_db [])\<lparr>seats := xs, seatAssignments := as\<rparr>"

definition seat_11 :: "SeatStatus \<Rightarrow> seat_row" where
  "seat_11 st = \<lparr>seat_id = 11, seat_licenseId = 3, seat_status = st, seat_createdAt = 0\<rparr>"

definition taken_12 :: "SeatAssignmentStatus \<Rightarrow> seat_assignment" where
  "taken_12 st = \<lparr>sa_id = 12, sa_seatId = 11, sa_userId = 8, sa_status = st, sa_assignedAt = 0, sa_unassignedAt = None\<rparr>"

lemmas sample_seat_defs = sample_seats_def seat_11_def taken_12_def sample_lic_defs


section \<open>Two removals of one assignment\<close>

text \<open>
  A removal reads the assignment and writes later, without a condition on what it read. Two requests
  that remove the same assignment, with an assignment of the freed seat between their writes: the second
  write marks the seat AVAILABLE although the new occupant holds it, and the next assignment gives the
  seat to a second occupant, beyond the seat limit.
\<close>

theorem stale_removal_double_books:
  "let a = taken_12 SeatAssignmentStatus.ACTIVE;
       s0 = sample_seats [seat_11 SeatStatus.ASSIGNED] [a];
       s1 = snd (removal_write a s0);
       s2 = snd (seat_assign 3 1 9 7 no_meta s1);
       s3 = snd (removal_write a s2);
       s4 = snd (seat_assign 3 1 9 6 no_meta s3) in
   seats_ok s0 \<and> fst (getOwnedActiveAssignment 3 12 s0) = Inr a
   \<and> map sa_userId (filter (occupied_by 11) (seatAssignments s4)) = [7, 6]"
proof -
  have "seats_ok (sample_seats [seat_11 SeatStatus.ASSIGNED] [taken_12 SeatAssignmentStatus.ACTIVE])"
    by (simp add: sample_seat_defs seats_ok_def seats_capped_def books_ok_def count_where_def occupied_by_def)
  moreover have "let a = taken_12 SeatAssignmentStatus.ACTIVE;
       s0 = sample_seats [seat_11 SeatStatus.ASSIGNED] [a];
       s1 = snd (removal_write a s0);
       s2 = snd (seat_assign 3 1 9 7 no_meta s1);
       s3 = snd (removal_write a s2);
       s4 = snd (seat_assign 3 1 9 6 no_meta s3) in
     fst (getOwnedActiveAssignment 3 12 s0) = Inr a
     \<and> map sa_userId (filter (occupied_by 11) (seatAssignments s4)) = [7, 6]"
    by code_simp
  ultimately show ?thesis by (simp add: Let_def)
qed

end
