(* ===== verification/Devices.thy ===== *)
theory Devices
  imports Licenses
begin

text \<open>
  devices/devices.service.ts: the devices registered for an application, and the device limit of a license.
  A registration is one serializable transaction, modelled as one step.
\<close>

section \<open>DevicesService\<close>

record device_dto =
  dd_deviceId :: string
  dd_platform :: string
  dd_userId :: "id option"
  dd_licenseId :: "id option"
  dd_appVersion :: "string option"
  dd_osVersion :: "string option"
  dd_pushToken :: "string option"

definition assertApplicationInOrg :: "id \<Rightarrow> id \<Rightarrow> ('z lic_db_scheme, unit) svc" where
  "assertApplicationInOrg org appId =
     bnd (find_row applications (\<lambda>a. app_id a = appId)) (\<lambda>r.
     guard_or (case r of None \<Rightarrow> False | Some a \<Rightarrow> app_organizationId a = org)
       (NotFoundException ''Application not found for this organization''))"

definition assertLicenseInApplication :: "id \<Rightarrow> id \<Rightarrow> ('z lic_db_scheme, unit) svc" where
  "assertLicenseInApplication appId licenseId =
     bnd (find_row licenses (\<lambda>l. lic_id l = licenseId)) (\<lambda>r.
     guard_or (case r of None \<Rightarrow> False | Some l \<Rightarrow> lic_applicationId l = appId)
       (NotFoundException ''License not found for this application''))"

text \<open>The unique constraint on (applicationId, deviceId).\<close>

definition same_device :: "id \<Rightarrow> string \<Rightarrow> device_row \<Rightarrow> bool" where
  "same_device appId d x \<longleftrightarrow> dev_applicationId x = appId \<and> dev_deviceId x = d"

definition active_on :: "id \<Rightarrow> device_row \<Rightarrow> bool" where
  "active_on licenseId x \<longleftrightarrow> dev_licenseId x = Some licenseId \<and> dev_status x = DeviceStatus.ACTIVE"

definition check_device_limit :: "id \<Rightarrow> ('z lic_db_scheme, unit) svc" where
  "check_device_limit licenseId =
     bnd (find_or_throw licenses (\<lambda>l. lic_id l = licenseId)) (\<lambda>license.
     case lic_deviceLimit license of None \<Rightarrow> ret ()
     | Some limit \<Rightarrow> bnd (gets (\<lambda>s. count_where (active_on licenseId) (devices s))) (\<lambda>activeCount.
         guard_or (activeCount < limit)
           (ForbiddenException (''Device limit ('' @ nat_str limit @ '') reached for this license''))))"

definition new_device :: "id \<Rightarrow> id \<Rightarrow> id \<Rightarrow> device_dto \<Rightarrow> time \<Rightarrow> device_row" where
  "new_device i appId org dto t =
     \<lparr>dev_id = i, dev_applicationId = appId, dev_organizationId = Some org, dev_userId = dd_userId dto,
      dev_licenseId = dd_licenseId dto, dev_deviceId = dd_deviceId dto, dev_platform = dd_platform dto,
      dev_appVersion = dd_appVersion dto, dev_osVersion = dd_osVersion dto, dev_pushToken = dd_pushToken dto,
      dev_status = DeviceStatus.ACTIVE, dev_lastSeenAt = t\<rparr>"

definition checked_in :: "device_dto \<Rightarrow> time \<Rightarrow> device_row \<Rightarrow> device_row" where
  "checked_in dto t x = x\<lparr>dev_userId := keepUndef (map_option Some (dd_userId dto)) (dev_userId x),
     dev_licenseId := keepUndef (map_option Some (dd_licenseId dto)) (dev_licenseId x),
     dev_appVersion := keepUndef (map_option Some (dd_appVersion dto)) (dev_appVersion x),
     dev_osVersion := keepUndef (map_option Some (dd_osVersion dto)) (dev_osVersion x),
     dev_pushToken := keepUndef (map_option Some (dd_pushToken dto)) (dev_pushToken x), dev_lastSeenAt := t\<rparr>"

definition upsert_device :: "id \<Rightarrow> id \<Rightarrow> device_dto \<Rightarrow> ('z lic_db_scheme, device_row) svc" where
  "upsert_device org appId dto = transaction (
     bnd (find_row devices (same_device appId (dd_deviceId dto))) (\<lambda>existing.
     bnd now (\<lambda>t. case existing of
       None \<Rightarrow>
         seq (case dd_licenseId dto of None \<Rightarrow> ret () | Some i \<Rightarrow> check_device_limit i)
         (bnd fresh (\<lambda>i. insert_row devices_update (new_device i appId org dto t)))
     | Some x \<Rightarrow> update_row devices devices_update (same_device appId (dd_deviceId dto)) (checked_in dto t))))"

definition device_register ::
  "id \<Rightarrow> id \<Rightarrow> device_dto \<Rightarrow> id \<Rightarrow> request_meta \<Rightarrow> ('z lic_db_scheme, device_row) svc" where
  "device_register org appId dto actor meta =
     seq (assertApplicationInOrg org appId)
     (seq (case dd_licenseId dto of None \<Rightarrow> ret () | Some i \<Rightarrow> assertLicenseInApplication appId i)
     (bnd (upsert_device org appId dto) (\<lambda>device.
      seq (audit ''DEVICE_REGISTERED'' (Some actor) (Some org) (Some appId)
             ([(''deviceRegistrationId'', JId (dev_id device)), (''deviceId'', JStr (dd_deviceId dto)),
               (''platform'', JStr (dd_platform dto))]
              @ jopt ''ownerUserId'' JId (dd_userId dto) @ jopt ''licenseId'' JId (dd_licenseId dto)) meta)
          (ret device))))"

definition device_list :: "id \<Rightarrow> id \<Rightarrow> id option \<Rightarrow> id option \<Rightarrow> ('z lic_db_scheme, device_row list) svc" where
  "device_list org appId userId licenseId = gets (\<lambda>s. order_by (\<lambda>x. - dev_lastSeenAt x)
     (filter (\<lambda>x. dev_applicationId x = appId \<and> dev_organizationId x = Some org
        \<and> (userId = None \<or> dev_userId x = userId) \<and> (licenseId = None \<or> dev_licenseId x = licenseId)) (devices s)))"

definition device_getOne :: "id \<Rightarrow> id \<Rightarrow> id \<Rightarrow> ('z lic_db_scheme, device_row) svc" where
  "device_getOne org appId i =
     bnd (find_row devices (\<lambda>x. dev_id x = i)) (\<lambda>r. case r of
       None \<Rightarrow> throw (NotFoundException ''Device registration not found'')
     | Some x \<Rightarrow>
         if dev_applicationId x \<noteq> appId \<or> (dev_organizationId x \<noteq> None \<and> dev_organizationId x \<noteq> Some org)
         then throw (NotFoundException ''Device registration not found'') else ret x)"

definition device_revoke :: "id \<Rightarrow> id \<Rightarrow> id \<Rightarrow> id \<Rightarrow> request_meta \<Rightarrow> ('z lic_db_scheme, device_row) svc" where
  "device_revoke org appId i actor meta =
     bnd (device_getOne org appId i) (\<lambda>device.
     seq (guard_or (dev_status device \<noteq> DeviceStatus.BLOCKED) (BadRequestException ''Device is already blocked''))
     (bnd (update_row devices devices_update (\<lambda>x. dev_id x = i) (\<lambda>x. x\<lparr>dev_status := DeviceStatus.BLOCKED\<rparr>)) (\<lambda>updated.
      seq (audit ''DEVICE_REVOKED'' (Some actor) (Some org) (Some appId) [(''deviceRegistrationId'', JId i)] meta)
          (ret updated))))"

section \<open>The device limit\<close>

text \<open>
  Registering an unknown device under a license of the application: it is refused, without any change,
  exactly when the license has a limit and that many active devices; otherwise one row is added, active
  and under the license, and the license's active devices are still within its limit.
\<close>

theorem device_limit_enforced:
  assumes "List.find (\<lambda>a. app_id a = appId) (applications s) = Some app" and "app_organizationId app = org"
    and "dd_licenseId dto = Some l" and "List.find (\<lambda>r. lic_id r = l) (licenses s) = Some lic"
    and "lic_applicationId lic = appId" and "lic_deviceLimit lic = Some m"
    and "List.find (same_device appId (dd_deviceId dto)) (devices s) = None"
  shows "if m \<le> count_where (active_on l) (devices s)
    then device_register org appId dto u meta s
      = (Inl (ForbiddenException (''Device limit ('' @ nat_str m @ '') reached for this license'')), s)
    else (let s' = snd (device_register org appId dto u meta s) in
      fst (device_register org appId dto u meta s) = Inr (new_device (nextId s) appId org dto (clock s))
      \<and> devices s' = devices s @ [new_device (nextId s) appId org dto (clock s)]
      \<and> count_where (active_on l) (devices s') = Suc (count_where (active_on l) (devices s))
      \<and> count_where (active_on l) (devices s') \<le> m)"
proof -
  let ?d = "new_device (nextId s) appId org dto (clock s)"
  have d: "active_on l ?d" using assms(3) by (simp add: new_device_def active_on_def)
  have "wps (device_register org appId dto u meta) (\<lambda>r s'.
      if m \<le> count_where (active_on l) (devices s)
      then r = Inl (ForbiddenException (''Device limit ('' @ nat_str m @ '') reached for this license'')) \<and> s' = s
      else r = Inr ?d \<and> devices s' = devices s @ [?d]) s"
    using assms by (simp add: device_register_def assertApplicationInOrg_def assertLicenseInApplication_def
        upsert_device_def check_device_limit_def wp)
  with d show ?thesis
    by (auto simp: wps_run Let_def prod_eq_iff count_where_Cons split: if_splits)
qed

definition sample_device :: device_row where
  "sample_device = \<lparr>dev_id = 21, dev_applicationId = 2, dev_organizationId = Some 1, dev_userId = None, dev_licenseId = None,
     dev_deviceId = ''mac'', dev_platform = ''MACOS'', dev_appVersion = None, dev_osVersion = None, dev_pushToken = None,
     dev_status = DeviceStatus.ACTIVE, dev_lastSeenAt = 0\<rparr>"

definition sample_device_dto :: "string \<Rightarrow> device_dto" where
  "sample_device_dto d = \<lparr>dd_deviceId = d, dd_platform = ''MACOS'', dd_userId = None, dd_licenseId = Some 3,
     dd_appVersion = None, dd_osVersion = None, dd_pushToken = None\<rparr>"

definition sample_devices :: "device_row list \<Rightarrow> lic_db" where
  "sample_devices ds = (sample_lic_db [])\<lparr>devices := ds\<rparr>"

lemmas sample_device_defs = sample_devices_def sample_device_def sample_device_dto_def sample_lic_defs

theorem device_limit_enforced_witness:
  "fst (device_register 1 2 (sample_device_dto ''pc'') 9 no_meta
     (sample_devices [sample_device\<lparr>dev_licenseId := Some 3\<rparr>]))
   = Inl (ForbiddenException (''Device limit ('' @ nat_str 1 @ '') reached for this license''))"
  using device_limit_enforced [of 2 "sample_devices [sample_device\<lparr>dev_licenseId := Some 3\<rparr>]"
      "\<lparr>app_id = 2, app_organizationId = 1\<rparr>" 1 "sample_device_dto ''pc''" 3 sample_license 1 9 no_meta]
  by (simp add: sample_device_defs same_device_def active_on_def count_where_Cons)

text \<open>
  The limit is checked only for devices that the application does not know yet. A known active device
  that registers again under another license is moved to it however many active devices that license
  already has, so a full license ends above its limit.
\<close>

theorem known_device_exceeds_limit:
  assumes "List.find (\<lambda>a. app_id a = appId) (applications s) = Some app" and "app_organizationId app = org"
    and "dd_licenseId dto = Some l" and "List.find (\<lambda>r. lic_id r = l) (licenses s) = Some lic"
    and "lic_applicationId lic = appId" and "lic_deviceLimit lic = Some m"
    and "m \<le> count_where (active_on l) (devices s)" and "distinct (map dev_id (devices s))"
    and "List.find (same_device appId (dd_deviceId dto)) (devices s) = Some d"
    and "filter (same_device appId (dd_deviceId dto)) (devices s) = [d]"
    and "dev_status d = DeviceStatus.ACTIVE" and "dev_licenseId d \<noteq> Some l"
  shows "fst (device_register org appId dto u meta s) = Inr (checked_in dto (clock s) d)
    \<and> m < count_where (active_on l) (devices (snd (device_register org appId dto u meta s)))"
proof -
  let ?P = "same_device appId (dd_deviceId dto)"
  have "wps (device_register org appId dto u meta) (\<lambda>r s'. r = Inr (checked_in dto (clock s) d)
      \<and> devices s' = upd_where ?P (checked_in dto (clock s)) (devices s)) s"
    using assms by (simp add: device_register_def assertApplicationInOrg_def assertLicenseInApplication_def
        upsert_device_def wp)
  then have run: "fst (device_register org appId dto u meta s) = Inr (checked_in dto (clock s) d)"
    "devices (snd (device_register org appId dto u meta s)) = upd_where ?P (checked_in dto (clock s)) (devices s)"
    by (simp_all add: wps_run)
  have "x = d" if "x \<in> set (devices s)" "?P x" for x
  proof -
    have "x \<in> set (filter ?P (devices s))" using that by simp
    then show ?thesis by (simp add: assms(10))
  qed
  then have "upd_where ?P (checked_in dto (clock s)) (devices s) = upd_where (\<lambda>x. dev_id x = dev_id d) (checked_in dto (clock s)) (devices s)"
    using find_SomeD [OF assms(9)] assms(8) by (auto simp: upd_where_def dest: distinct_key_eq)
  moreover have "\<not> active_on l d" "active_on l (checked_in dto (clock s) d)"
    using assms(3,11,12) by (simp_all add: active_on_def checked_in_def)
  ultimately show ?thesis
    using run assms(7) count_where_upd_key [OF assms(8), of d "active_on l" "checked_in dto (clock s)"] find_SomeD [OF assms(9)]
    by simp
qed

theorem known_device_exceeds_limit_witness:
  "1 < count_where (active_on 3) (devices (snd (device_register 1 2 (sample_device_dto ''mac'') 9 no_meta
     (sample_devices [sample_device\<lparr>dev_id := 20, dev_deviceId := ''pc'', dev_licenseId := Some 3\<rparr>, sample_device]))))"
  using known_device_exceeds_limit [of 2 "sample_devices [sample_device\<lparr>dev_id := 20, dev_deviceId := ''pc'', dev_licenseId := Some 3\<rparr>, sample_device]"
      "\<lparr>app_id = 2, app_organizationId = 1\<rparr>" 1 "sample_device_dto ''mac''" 3 sample_license 1 sample_device 9 no_meta]
  by (simp add: sample_device_defs same_device_def active_on_def count_where_Cons)

end
