(* ===== verification/Json_Text.thy ===== *)
theory Json_Text
  imports Calendar
begin

text \<open>
  Texts the standard library makes of values: \<open>JSON.stringify\<close>, \<open>Date.prototype.toISOString\<close> and
  \<open>String.prototype.slice\<close> with a negative start. Strings are lists of characters below U+0100.
\<close>

section \<open>Dates\<close>

definition pad :: "nat \<Rightarrow> nat \<Rightarrow> string" where
  "pad w n = replicate (w - length (nat_str n)) CHR ''0'' @ nat_str n"

definition iso_year :: "int \<Rightarrow> string" where
  "iso_year y = (if 0 \<le> y \<and> y \<le> 9999 then pad 4 (nat y)
     else (if y < 0 then ''-'' else ''+'') @ pad 6 (nat \<bar>y\<bar>))"

definition toISOString :: "time \<Rightarrow> string" where
  "toISOString t =
     (let ms = nat (time_in_day t) in
      iso_year (get_full_year t) @ ''-'' @ pad 2 (nat (get_month t) + 1) @ ''-'' @ pad 2 (nat (get_date t)) @ ''T''
      @ pad 2 (ms div 3600000) @ '':'' @ pad 2 (ms div 60000 mod 60) @ '':'' @ pad 2 (ms div 1000 mod 60)
      @ ''.'' @ pad 3 (ms mod 1000) @ ''Z'')"

section \<open>JSON\<close>

definition hex_digit :: "nat \<Rightarrow> char" where
  "hex_digit n = (if n < 10 then char_of (48 + n) else char_of (87 + n))"

definition json_char :: "char \<Rightarrow> string" where
  "json_char c =
     (let n = of_char c :: nat in
      if n = 34 then [CHR 0x5C, CHR 0x22] else if n = 92 then [CHR 0x5C, CHR 0x5C]
      else if n = 8 then [CHR 0x5C, CHR ''b''] else if n = 12 then [CHR 0x5C, CHR ''f'']
      else if n = 10 then [CHR 0x5C, CHR ''n''] else if n = 13 then [CHR 0x5C, CHR ''r'']
      else if n = 9 then [CHR 0x5C, CHR ''t'']
      else if n < 32 then [CHR 0x5C, CHR ''u'', CHR ''0'', CHR ''0'', hex_digit (n div 16), hex_digit (n mod 16)]
      else [c])"

definition json_string :: "string \<Rightarrow> string" where
  "json_string s = [CHR 0x22] @ concat (map json_char s) @ [CHR 0x22]"

fun join_comma :: "string list \<Rightarrow> string" where
  "join_comma [] = []"
| "join_comma [x] = x"
| "join_comma (x # xs) = x @ '','' @ join_comma xs"

fun json_stringify :: "json \<Rightarrow> string" where
  "json_stringify JNull = ''null''"
| "json_stringify (JBool b) = (if b then ''true'' else ''false'')"
| "json_stringify (JInt i) = int_str i"
| "json_stringify (JStr s) = json_string s"
| "json_stringify (JId i) = json_string (id_str i)"
| "json_stringify (JTime t) = json_string (toISOString t)"
| "json_stringify (JArr xs) = ''['' @ join_comma (map json_stringify xs) @ '']''"
| "json_stringify (JObj fs) = ''{'' @ join_comma (map (\<lambda>(k, v). json_string k @ '':'' @ json_stringify v) fs) @ ''}''"

section \<open>Percent encoding\<close>

text \<open>\<open>encodeURIComponent\<close> and the serialisation of \<open>URLSearchParams\<close>, on ASCII strings.\<close>

definition hex_upper :: "nat \<Rightarrow> char" where
  "hex_upper d = (''0123456789ABCDEF'' ! d)"

definition percent :: "char \<Rightarrow> string" where
  "percent c = (let n = (of_char c :: nat) in [CHR ''%'', hex_upper (n div 16), hex_upper (n mod 16)])"

definition alphanumeric :: "char \<Rightarrow> bool" where
  "alphanumeric c \<longleftrightarrow> (let n = (of_char c :: nat) in 48 \<le> n \<and> n \<le> 57 \<or> 65 \<le> n \<and> n \<le> 90 \<or> 97 \<le> n \<and> n \<le> 122)"

definition encodeURIComponent :: "string \<Rightarrow> string" where
  "encodeURIComponent s = concat (map (\<lambda>c. if alphanumeric c \<or> c \<in> set (''-_.!~*'' @ [CHR 0x27] @ ''()'') then [c] else percent c) s)"

definition form_encode :: "string \<Rightarrow> string" where
  "form_encode s = concat (map (\<lambda>c. if alphanumeric c \<or> c \<in> set ''*-._'' then [c]
     else if c = CHR '' '' then ''+'' else percent c) s)"

section \<open>Slices\<close>

text \<open>\<open>s.slice(-n)\<close> for a positive \<open>n\<close>.\<close>

definition slice_end :: "nat \<Rightarrow> string \<Rightarrow> string" where
  "slice_end n s = drop (length s - n) s"

lemma slice_end_simps: "length (slice_end n s) = min n (length s)"
  by (simp add: slice_end_def)

end
