(* ===== verification/Webhooks.thy ===== *)
theory Webhooks
  imports Platform Retry Json_Text
begin

text \<open>
  Outbound webhooks: webhooks/webhook-endpoints.service.ts (endpoints and their signing secrets),
  webhooks/webhook-dispatch.service.ts (deliveries, signed and retried) and
  webhooks/webhook-deliveries.service.ts (inspection and manual retry). The cipher, the HMAC and the
  receiving server are the parameter \<open>hook_world\<close>; \<open>hookCalls\<close> is a ghost log of the requests sent.
\<close>

section \<open>Rows\<close>

datatype WebhookEndpointStatus = ENABLED | DISABLED

datatype WebhookDeliveryStatus = PENDING | SUCCESS | FAILED | RETRYING | EXHAUSTED

record webhook_endpoint =
  we_id :: id
  we_applicationId :: id
  we_environmentId :: "id option"
  we_url :: string
  we_description :: "string option"
  we_eventTypes :: "string list"
  we_status :: WebhookEndpointStatus
  we_createdById :: id
  we_createdAt :: time

record webhook_secret =
  ws_id :: id
  ws_webhookEndpointId :: id
  ws_encryptedValue :: string
  ws_iv :: string
  ws_authTag :: string
  ws_lastFour :: string
  ws_isActive :: bool
  ws_createdAt :: time
  ws_rotatedAt :: "time option"

record webhook_delivery =
  wd_id :: id
  wd_webhookEndpointId :: id
  wd_eventType :: string
  wd_payload :: json
  wd_status :: WebhookDeliveryStatus
  wd_responseStatus :: "int option"
  wd_responseBody :: "string option"
  wd_attemptCount :: nat
  wd_nextAttemptAt :: "time option"
  wd_createdAt :: time
  wd_deliveredAt :: "time option"

record webhook_retry =
  wr_webhookDeliveryId :: id
  wr_attemptNumber :: nat
  wr_responseStatus :: "int option"
  wr_error :: "string option"

record environment_row =
  env_id :: id
  env_applicationId :: id

record hook_request =
  hr_url :: string
  hr_signature :: string
  hr_event :: string
  hr_deliveryId :: id
  hr_body :: string

record hook_db = platform_db +
  environments :: "environment_row list"
  endpoints :: "webhook_endpoint list"
  secrets :: "webhook_secret list"
  deliveries :: "webhook_delivery list"
  retries :: "webhook_retry list"
  hookCalls :: "hook_request list"

record hook_world =
  hw_encrypt :: "string \<Rightarrow> string \<times> string \<times> string"
  hw_decrypt :: "string \<Rightarrow> string \<Rightarrow> string \<Rightarrow> string + string"
  hw_hmac :: "string \<Rightarrow> string \<Rightarrow> string"
  hw_fetch :: "hook_request list \<Rightarrow> hook_request \<Rightarrow> string + int \<times> string"

section \<open>WebhookEndpointsService\<close>

definition SECRET_PREFIX :: string where "SECRET_PREFIX = ''whsec_''"

text \<open>\<open>random\<close> is the base64url text of 32 random bytes.\<close>

definition generateSecretPlaintext :: "string \<Rightarrow> string" where
  "generateSecretPlaintext random = SECRET_PREFIX @ random"

record secret_metadata =
  sm_id :: id
  sm_lastFour :: string
  sm_isActive :: bool
  sm_createdAt :: time
  sm_rotatedAt :: "time option"

definition toSecretMetadata :: "webhook_secret \<Rightarrow> secret_metadata" where
  "toSecretMetadata x = \<lparr>sm_id = ws_id x, sm_lastFour = ws_lastFour x, sm_isActive = ws_isActive x,
     sm_createdAt = ws_createdAt x, sm_rotatedAt = ws_rotatedAt x\<rparr>"

definition hook_getOwned :: "id \<Rightarrow> id \<Rightarrow> ('z hook_db_scheme, webhook_endpoint) svc" where
  "hook_getOwned appId i =
     bnd (find_row endpoints (\<lambda>e. we_id e = i)) (\<lambda>r. case r of
       None \<Rightarrow> throw (NotFoundException ''Webhook endpoint not found'')
     | Some e \<Rightarrow> if we_applicationId e \<noteq> appId then throw (NotFoundException ''Webhook endpoint not found'') else ret e)"

definition secrets_of :: "id \<Rightarrow> 'z hook_db_scheme \<Rightarrow> webhook_secret list" where
  "secrets_of i s = filter (\<lambda>x. ws_webhookEndpointId x = i) (secrets s)"

definition assertEnvironmentBelongsToApplication :: "id \<Rightarrow> id \<Rightarrow> ('z hook_db_scheme, unit) svc" where
  "assertEnvironmentBelongsToApplication appId envId =
     bnd (find_row environments (\<lambda>e. env_id e = envId)) (\<lambda>r.
     guard_or (case r of None \<Rightarrow> False | Some e \<Rightarrow> env_applicationId e = appId) (NotFoundException ''Environment not found''))"

definition insert_secret :: "hook_world \<Rightarrow> string \<Rightarrow> id \<Rightarrow> ('z hook_db_scheme, webhook_secret) svc" where
  "insert_secret w plaintext endpointId =
     bnd fresh (\<lambda>i. bnd now (\<lambda>t.
       case hw_encrypt w plaintext of (encryptedValue, iv, authTag) \<Rightarrow>
       insert_row secrets_update
         \<lparr>ws_id = i, ws_webhookEndpointId = endpointId, ws_encryptedValue = encryptedValue, ws_iv = iv, ws_authTag = authTag,
          ws_lastFour = slice_end 4 plaintext, ws_isActive = True, ws_createdAt = t, ws_rotatedAt = None\<rparr>))"

definition active_secret :: "id \<Rightarrow> webhook_secret \<Rightarrow> bool" where
  "active_secret i x \<longleftrightarrow> ws_webhookEndpointId x = i \<and> ws_isActive x"

record endpoint_dto =
  ed_environmentId :: "id option"
  ed_url :: string
  ed_description :: "string option"
  ed_eventTypes :: "string list"

definition hook_create ::
  "hook_world \<Rightarrow> string \<Rightarrow> id \<Rightarrow> id \<Rightarrow> endpoint_dto \<Rightarrow> request_meta
   \<Rightarrow> ('z hook_db_scheme, webhook_endpoint \<times> secret_metadata list \<times> string) svc" where
  "hook_create w random appId userId dto meta =
     seq (case ed_environmentId dto of None \<Rightarrow> ret () | Some e \<Rightarrow> assertEnvironmentBelongsToApplication appId e)
     (let plaintext = generateSecretPlaintext random in
      bnd (transaction (bnd fresh (\<lambda>i. bnd now (\<lambda>t.
            bnd (insert_row endpoints_update
              \<lparr>we_id = i, we_applicationId = appId, we_environmentId = ed_environmentId dto, we_url = ed_url dto,
               we_description = ed_description dto, we_eventTypes = ed_eventTypes dto, we_status = ENABLED,
               we_createdById = userId, we_createdAt = t\<rparr>) (\<lambda>e.
            bnd (insert_secret w plaintext i) (\<lambda>x. ret (e, x))))))) (\<lambda>(endpoint, secret).
      seq (audit ''WEBHOOK_ENDPOINT_CREATED'' (Some userId) None (Some appId)
             [(''webhookEndpointId'', JId (we_id endpoint)), (''url'', JStr (we_url endpoint))] meta)
          (ret (endpoint, [toSecretMetadata secret], plaintext))))"

definition hook_list :: "id \<Rightarrow> ('z hook_db_scheme, (webhook_endpoint \<times> secret_metadata list) list) svc" where
  "hook_list appId = gets (\<lambda>s. map (\<lambda>e. (e, map toSecretMetadata (secrets_of (we_id e) s)))
     (order_by (\<lambda>e. - we_createdAt e) (filter (\<lambda>e. we_applicationId e = appId) (endpoints s))))"

definition hook_getOne :: "id \<Rightarrow> id \<Rightarrow> ('z hook_db_scheme, webhook_endpoint \<times> secret_metadata list) svc" where
  "hook_getOne appId i =
     bnd (hook_getOwned appId i) (\<lambda>e. gets (\<lambda>s. (e, map toSecretMetadata (secrets_of i s))))"

definition hook_update ::
  "id \<Rightarrow> id \<Rightarrow> id \<Rightarrow> string option \<Rightarrow> string option \<Rightarrow> string list option \<Rightarrow> request_meta
   \<Rightarrow> ('z hook_db_scheme, webhook_endpoint) svc" where
  "hook_update appId i userId url description eventTypes meta =
     seq (hook_getOwned appId i)
     (bnd (update_row endpoints endpoints_update (\<lambda>e. we_id e = i)
        (\<lambda>e. e\<lparr>we_url := keepUndef url (we_url e),
               we_description := keepUndef (map_option Some description) (we_description e),
               we_eventTypes := keepUndef eventTypes (we_eventTypes e)\<rparr>)) (\<lambda>e.
      seq (audit ''WEBHOOK_ENDPOINT_UPDATED'' (Some userId) None (Some appId) [(''webhookEndpointId'', JId i)] meta) (ret e)))"

definition hook_setStatus ::
  "id \<Rightarrow> id \<Rightarrow> id \<Rightarrow> WebhookEndpointStatus \<Rightarrow> string \<Rightarrow> request_meta \<Rightarrow> ('z hook_db_scheme, webhook_endpoint) svc" where
  "hook_setStatus appId i userId status act meta =
     seq (hook_getOwned appId i)
     (bnd (update_row endpoints endpoints_update (\<lambda>e. we_id e = i) (\<lambda>e. e\<lparr>we_status := status\<rparr>)) (\<lambda>e.
      seq (audit act (Some userId) None (Some appId) [(''webhookEndpointId'', JId i)] meta) (ret e)))"

definition hook_disable :: "id \<Rightarrow> id \<Rightarrow> id \<Rightarrow> request_meta \<Rightarrow> ('z hook_db_scheme, webhook_endpoint) svc" where
  "hook_disable appId i userId meta = hook_setStatus appId i userId DISABLED ''WEBHOOK_ENDPOINT_DISABLED'' meta"

definition hook_enable :: "id \<Rightarrow> id \<Rightarrow> id \<Rightarrow> request_meta \<Rightarrow> ('z hook_db_scheme, webhook_endpoint) svc" where
  "hook_enable appId i userId meta = hook_setStatus appId i userId ENABLED ''WEBHOOK_ENDPOINT_ENABLED'' meta"

text \<open>Deleting an endpoint cascades to its secrets, deliveries and their attempt rows.\<close>

definition delete_endpoint :: "id \<Rightarrow> 'z hook_db_scheme \<Rightarrow> 'z hook_db_scheme" where
  "delete_endpoint i s =
     (let gone = map wd_id (filter (\<lambda>d. wd_webhookEndpointId d = i) (deliveries s)) in
      retries_update (filter (\<lambda>r. wr_webhookDeliveryId r \<notin> set gone))
        (deliveries_update (filter (\<lambda>d. wd_webhookEndpointId d \<noteq> i))
          (secrets_update (filter (\<lambda>x. ws_webhookEndpointId x \<noteq> i))
            (endpoints_update (filter (\<lambda>e. we_id e \<noteq> i)) s))))"

definition hook_remove :: "id \<Rightarrow> id \<Rightarrow> id \<Rightarrow> request_meta \<Rightarrow> ('z hook_db_scheme, unit) svc" where
  "hook_remove appId i userId meta =
     seq (hook_getOwned appId i)
     (seq (modify (delete_endpoint i))
      (audit ''WEBHOOK_ENDPOINT_DELETED'' (Some userId) None (Some appId) [(''webhookEndpointId'', JId i)] meta))"

definition hook_rotateSecret ::
  "hook_world \<Rightarrow> string \<Rightarrow> id \<Rightarrow> id \<Rightarrow> id \<Rightarrow> request_meta \<Rightarrow> ('z hook_db_scheme, secret_metadata \<times> string) svc" where
  "hook_rotateSecret w random appId i userId meta =
     seq (hook_getOwned appId i)
     (let plaintext = generateSecretPlaintext random in
      bnd now (\<lambda>t.
      bnd (transaction (seq
             (update_many secrets secrets_update (active_secret i)
                (\<lambda>x. x\<lparr>ws_isActive := False, ws_rotatedAt := Some t\<rparr>))
             (insert_secret w plaintext i))) (\<lambda>created.
      seq (audit ''WEBHOOK_SECRET_ROTATED'' (Some userId) None (Some appId)
             [(''webhookEndpointId'', JId i), (''secretId'', JId (ws_id created))] meta)
          (ret (toSecretMetadata created, plaintext)))))"

section \<open>WebhookDispatchService\<close>

definition MAX_ATTEMPTS :: nat where "MAX_ATTEMPTS = 5"

definition RESPONSE_BODY_MAX_LENGTH :: nat where "RESPONSE_BODY_MAX_LENGTH = 5000"

definition SWEEP_BATCH_SIZE :: nat where "SWEEP_BATCH_SIZE = 20"

definition hook_enqueue :: "id \<Rightarrow> string \<Rightarrow> json \<Rightarrow> ('z hook_db_scheme, unit) svc" where
  "hook_enqueue endpointId eventType payload =
     bnd (find_row endpoints (\<lambda>e. we_id e = endpointId)) (\<lambda>r. case r of None \<Rightarrow> ret ()
     | Some e \<Rightarrow>
       if we_status e \<noteq> ENABLED then ret ()
       else if 0 < length (we_eventTypes e) \<and> eventType \<notin> set (we_eventTypes e) then ret ()
       else bnd fresh (\<lambda>i. bnd now (\<lambda>t. seq (insert_row deliveries_update
         \<lparr>wd_id = i, wd_webhookEndpointId = endpointId, wd_eventType = eventType, wd_payload = payload,
          wd_status = WebhookDeliveryStatus.PENDING, wd_responseStatus = None, wd_responseBody = None, wd_attemptCount = 0,
          wd_nextAttemptAt = None, wd_createdAt = t, wd_deliveredAt = None\<rparr>) (ret ()))))"

text \<open>The outcome of one request: whether it was accepted, the status and the body of the answer, the error.\<close>

record send_result =
  ok :: bool
  responseStatus :: "int option"
  responseBody :: "string option"
  error :: "string option"

definition send_outcome :: "string + int \<times> string \<Rightarrow> send_result" where
  "send_outcome r = (case r of
     Inl message \<Rightarrow> \<lparr>ok = False, responseStatus = None, responseBody = None, error = Some message\<rparr>
   | Inr (st, body) \<Rightarrow> \<lparr>ok = (200 \<le> st \<and> st < 300), responseStatus = Some st,
       responseBody = Some (take RESPONSE_BODY_MAX_LENGTH body), error = None\<rparr>)"

definition sendWebhookRequest :: "hook_world \<Rightarrow> hook_request \<Rightarrow> ('z hook_db_scheme, send_result) svc" where
  "sendWebhookRequest w req = bnd (gets hookCalls) (\<lambda>sent.
     seq (modify (hookCalls_update (\<lambda>cs. cs @ [req]))) (ret (send_outcome (hw_fetch w sent req))))"

definition delivery_request :: "hook_world \<Rightarrow> string \<Rightarrow> webhook_endpoint \<Rightarrow> webhook_delivery \<Rightarrow> hook_request" where
  "delivery_request w secret e d =
     \<lparr>hr_url = we_url e, hr_signature = ''sha256='' @ hw_hmac w secret (json_stringify (wd_payload d)),
      hr_event = wd_eventType d, hr_deliveryId = wd_id d, hr_body = json_stringify (wd_payload d)\<rparr>"

definition deliver_ok :: "send_result \<Rightarrow> time \<Rightarrow> webhook_delivery \<Rightarrow> webhook_delivery" where
  "deliver_ok r t d = d\<lparr>wd_status := WebhookDeliveryStatus.SUCCESS, wd_attemptCount := wd_attemptCount d + 1,
     wd_responseStatus := keepUndef (map_option Some (responseStatus r)) (wd_responseStatus d),
     wd_responseBody := keepUndef (map_option Some (responseBody r)) (wd_responseBody d),
     wd_deliveredAt := Some t, wd_nextAttemptAt := None\<rparr>"

definition deliver_failed :: "time \<times> send_result \<Rightarrow> webhook_delivery \<Rightarrow> webhook_delivery" where
  "deliver_failed tr d =
     (let attemptNumber = wd_attemptCount d + 1; last_one = MAX_ATTEMPTS \<le> attemptNumber in
      d\<lparr>wd_status := (if last_one then WebhookDeliveryStatus.EXHAUSTED else WebhookDeliveryStatus.RETRYING),
        wd_attemptCount := attemptNumber,
        wd_responseStatus := keepUndef (map_option Some (responseStatus (snd tr))) (wd_responseStatus d),
        wd_responseBody := keepUndef (map_option Some (responseBody (snd tr))) (wd_responseBody d),
        wd_nextAttemptAt := (if last_one then None else Some (retry_at (fst tr) attemptNumber))\<rparr>)"

definition settle_delivery :: "webhook_delivery \<Rightarrow> send_result \<Rightarrow> ('z hook_db_scheme, unit) svc" where
  "settle_delivery d r = bnd now (\<lambda>t. transaction (
     seq (update_row deliveries deliveries_update (\<lambda>x. wd_id x = wd_id d)
            (if ok r then deliver_ok r t else deliver_failed (t, r)))
         (modify (retries_update (\<lambda>rs. rs @ [\<lparr>wr_webhookDeliveryId = wd_id d, wr_attemptNumber = wd_attemptCount d + 1,
            wr_responseStatus = responseStatus r, wr_error = (if ok r then None else error r)\<rparr>])))))"

definition attemptDelivery :: "hook_world \<Rightarrow> id \<Rightarrow> ('z hook_db_scheme, unit) svc" where
  "attemptDelivery w deliveryId =
     bnd (find_row deliveries (\<lambda>d. wd_id d = deliveryId)) (\<lambda>r. case r of None \<Rightarrow> ret ()
     | Some d \<Rightarrow>
       bnd (find_or_throw endpoints (\<lambda>e. we_id e = wd_webhookEndpointId d)) (\<lambda>e.
       bnd (find_row secrets (active_secret (we_id e))) (\<lambda>activeSecret.
       case activeSecret of None \<Rightarrow> ret ()
       | Some x \<Rightarrow> (case hw_decrypt w (ws_encryptedValue x) (ws_iv x) (ws_authTag x) of
           Inl message \<Rightarrow> throw (JsError message)
         | Inr secret \<Rightarrow> bnd (sendWebhookRequest w (delivery_request w secret e d)) (settle_delivery d)))))"

definition delivery_due :: "time \<Rightarrow> webhook_delivery \<Rightarrow> bool" where
  "delivery_due t d \<longleftrightarrow> wd_status d \<in> {WebhookDeliveryStatus.PENDING, WebhookDeliveryStatus.RETRYING}
     \<and> (case wd_nextAttemptAt d of None \<Rightarrow> True | Some r \<Rightarrow> r \<le> t)"

definition due_deliveries :: "'z hook_db_scheme \<Rightarrow> webhook_delivery list" where
  "due_deliveries s = take SWEEP_BATCH_SIZE (order_by wd_createdAt (filter (delivery_due (clock s)) (deliveries s)))"

definition processPending :: "hook_world \<Rightarrow> ('z hook_db_scheme, unit) svc" where
  "processPending w = bnd (gets due_deliveries) (\<lambda>due.
     for_each (map wd_id due) (\<lambda>i. try_catch (attemptDelivery w i) (\<lambda>_. ret ())))"

section \<open>WebhookDeliveriesService\<close>

definition retryable_deliveries :: "WebhookDeliveryStatus list" where
  "retryable_deliveries = [WebhookDeliveryStatus.FAILED, WebhookDeliveryStatus.EXHAUSTED]"

definition delivery_of :: "id \<Rightarrow> id \<Rightarrow> ('z hook_db_scheme, webhook_delivery) svc" where
  "delivery_of endpointId deliveryId =
     bnd (find_row deliveries (\<lambda>d. wd_id d = deliveryId)) (\<lambda>r. case r of
       None \<Rightarrow> throw (NotFoundException ''Delivery not found'')
     | Some d \<Rightarrow> if wd_webhookEndpointId d \<noteq> endpointId then throw (NotFoundException ''Delivery not found'') else ret d)"

definition delivery_getOne :: "id \<Rightarrow> id \<Rightarrow> ('z hook_db_scheme, webhook_delivery \<times> webhook_retry list) svc" where
  "delivery_getOne endpointId deliveryId =
     bnd (delivery_of endpointId deliveryId) (\<lambda>d. gets (\<lambda>s. (d, order_by (\<lambda>r. int (wr_attemptNumber r))
        (filter (\<lambda>r. wr_webhookDeliveryId r = deliveryId) (retries s)))))"

definition delivery_retry ::
  "hook_world \<Rightarrow> id \<Rightarrow> id \<Rightarrow> id \<Rightarrow> request_meta \<Rightarrow> ('z hook_db_scheme, webhook_delivery) svc" where
  "delivery_retry w endpointId deliveryId userId meta =
     bnd (delivery_of endpointId deliveryId) (\<lambda>d.
     bnd (find_or_throw endpoints (\<lambda>e. we_id e = wd_webhookEndpointId d)) (\<lambda>e.
     seq (guard_or (wd_status d \<in> set retryable_deliveries)
            (BadRequestException ''only FAILED or EXHAUSTED deliveries can be retried''))
     (bnd now (\<lambda>t.
      bnd (update_row deliveries deliveries_update (\<lambda>x. wd_id x = deliveryId)
             (\<lambda>x. x\<lparr>wd_status := WebhookDeliveryStatus.RETRYING, wd_nextAttemptAt := Some t\<rparr>)) (\<lambda>updated.
      seq (audit ''WEBHOOK_DELIVERY_RETRIED'' (Some userId) None (Some (we_applicationId e))
             [(''webhookEndpointId'', JId endpointId), (''deliveryId'', JId deliveryId)] meta)
      (seq (try_catch (attemptDelivery w deliveryId) (\<lambda>_. ret ())) (ret updated)))))))"

section \<open>Every endpoint has one active secret\<close>

definition secrets_ok :: "webhook_endpoint list \<Rightarrow> webhook_secret list \<Rightarrow> id \<Rightarrow> bool" where
  "secrets_ok es xs n \<longleftrightarrow> distinct (map we_id es) \<and> (\<forall>e \<in> set es. we_id e < n) \<and> (\<forall>x \<in> set xs. ws_webhookEndpointId x < n)
     \<and> (\<forall>e \<in> set es. count_where (active_secret (we_id e)) xs = 1)"

definition hooks_ok :: "'z hook_db_scheme \<Rightarrow> bool" where
  "hooks_ok s \<longleftrightarrow> secrets_ok (endpoints s) (secrets s) (nextId s)
     \<and> (\<forall>d \<in> set (deliveries s). wd_webhookEndpointId d \<in> we_id ` set (endpoints s))"

lemma active_secret_other: "active_secret i x \<Longrightarrow> i \<noteq> j \<Longrightarrow> \<not> active_secret j x"
  by (simp add: active_secret_def)

lemma secrets_ok_later: "secrets_ok es xs n \<Longrightarrow> secrets_ok es xs (Suc n)"
  by (auto simp: secrets_ok_def less_SucI)

lemma secrets_ok_create:
  assumes "secrets_ok es xs n" and "we_id e = n" and "ws_webhookEndpointId x = n" and "ws_isActive x"
  shows "secrets_ok (es @ [e]) (xs @ [x]) (Suc (Suc n))"
proof -
  have "count_where (active_secret n) xs = 0" using assms(1) by (auto simp: secrets_ok_def count_where_zero active_secret_def)
  with assms show ?thesis by (auto simp: secrets_ok_def count_where_Cons active_secret_def less_SucI)
qed

lemma secrets_ok_rotate:
  assumes "secrets_ok es xs n" and "ws_webhookEndpointId x = i" and "ws_isActive x" and "i < n"
    and "\<And>y. ws_webhookEndpointId (f y) = ws_webhookEndpointId y \<and> \<not> ws_isActive (f y)"
  shows "secrets_ok es (upd_where (active_secret i) f xs @ [x]) (Suc n)"
proof -
  have "count_where (active_secret j) (upd_where (active_secret i) f xs)
      = (if i = j then 0 else count_where (active_secret j) xs)" for j
    using assms(5) by (induction xs) (auto simp: upd_where_def count_where_Cons active_secret_def)
  with assms show ?thesis
    by (auto simp: secrets_ok_def count_where_Cons active_secret_def ball_upd_where less_SucI)
qed

lemma secrets_ok_remove:
  assumes "secrets_ok es xs n"
  shows "secrets_ok (filter (\<lambda>e. we_id e \<noteq> i) es) (filter (\<lambda>x. ws_webhookEndpointId x \<noteq> i) xs) n"
proof -
  have "count_where (active_secret j) (filter (\<lambda>x. ws_webhookEndpointId x \<noteq> i) xs) = count_where (active_secret j) xs" if "j \<noteq> i" for j
    using that by (induction xs) (auto simp: count_where_Cons active_secret_def)
  with assms show ?thesis by (auto simp: secrets_ok_def distinct_map_filter)
qed

lemma secrets_ok_update:
  "(\<And>e. we_id (f e) = we_id e) \<Longrightarrow> secrets_ok (upd_where P f es) xs n = secrets_ok es xs n"
  by (simp add: secrets_ok_def map_upd_where all_upd_where)

lemma hooks_ok_endpoints:
  "(\<And>e. we_id (f e) = we_id e) \<Longrightarrow> hooks_ok (endpoints_update (upd_where P f) s) = hooks_ok s"
  by (simp add: hooks_ok_def secrets_ok_update image_upd_where)

lemma hooks_ok_deliveries:
  "(\<And>d. wd_webhookEndpointId (f d) = wd_webhookEndpointId d) \<Longrightarrow> hooks_ok (deliveries_update (upd_where P f) s) = hooks_ok s"
  by (simp add: hooks_ok_def all_upd_where)

lemma hooks_ok_quiet [simp]:
  "hooks_ok (audits_update h s) = hooks_ok s" "hooks_ok (hookCalls_update k s) = hooks_ok s"
  "hooks_ok (retries_update r s) = hooks_ok s"
  by (simp_all add: hooks_ok_def)

lemma wps_hook_getOwned [wp]:
  "wps (hook_getOwned appId i) Q s = (case List.find (\<lambda>e. we_id e = i) (endpoints s) of
     None \<Rightarrow> Q (Inl (NotFoundException ''Webhook endpoint not found'')) s
   | Some e \<Rightarrow> if we_applicationId e \<noteq> appId then Q (Inl (NotFoundException ''Webhook endpoint not found'')) s else Q (Inr e) s)"
  by (simp add: hook_getOwned_def wp split: option.split)

lemma hook_create_ok: "preserves hooks_ok (hook_create w random appId u dto meta)"
  by (auto simp: preserves_wps hook_create_def assertEnvironmentBelongsToApplication_def insert_secret_def wp Let_def hooks_ok_def
      intro!: secrets_ok_create split: option.split prod.split)

lemma hook_update_ok: "preserves hooks_ok (hook_update appId i u url descr types meta)"
  by (auto simp: preserves_wps hook_update_def wp hooks_ok_endpoints split: option.split)

lemma hook_setStatus_ok: "preserves hooks_ok (hook_setStatus appId i u st act meta)"
  by (auto simp: preserves_wps hook_setStatus_def wp hooks_ok_endpoints split: option.split)

lemma hook_remove_ok: "preserves hooks_ok (hook_remove appId i u meta)"
proof -
  have "k \<in> we_id ` {e \<in> A. we_id e \<noteq> i}" if "k \<in> we_id ` A" "k \<noteq> i" for A k
    using that by auto
  then show ?thesis
    by (auto simp: preserves_wps hook_remove_def delete_endpoint_def wp hooks_ok_def secrets_ok_remove Let_def simp del: image_iff
        split: option.split)
qed

lemma hook_rotate_ok: "preserves hooks_ok (hook_rotateSecret w random appId i u meta)"
proof -
  have "i < nextId s" if "hooks_ok s" "List.find (\<lambda>e. we_id e = i) (endpoints s) = Some e" for s :: "'z hook_db_scheme" and e
    using that by (auto simp: hooks_ok_def secrets_ok_def dest: find_SomeD)
  then show ?thesis
    by (auto simp: preserves_wps hook_rotateSecret_def insert_secret_def wp hooks_ok_def Let_def
        intro!: secrets_ok_rotate split: option.split prod.split)
qed

lemma hook_enqueue_ok: "preserves hooks_ok (hook_enqueue i ty payload)"
  by (auto simp: preserves_wps hook_enqueue_def wp hooks_ok_def secrets_ok_later dest!: find_SomeD split: option.split)

lemma settle_ok: "preserves hooks_ok (settle_delivery d r)"
  unfolding settle_delivery_def now_def
  by (intro pres; cases "ok r"; simp add: hooks_ok_deliveries deliver_ok_def deliver_failed_def Let_def)

lemma attempt_ok: "preserves hooks_ok (attemptDelivery w i)"
  unfolding attemptDelivery_def sendWebhookRequest_def
  by (intro pres settle_ok; (simp split: sum.split; intro impI allI conjI pres settle_ok)?; simp)

lemma processPending_ok: "preserves hooks_ok (processPending w)"
  unfolding processPending_def by (intro pres attempt_ok)

lemma delivery_retry_ok: "preserves hooks_ok (delivery_retry w e i u meta)"
  unfolding delivery_retry_def delivery_of_def now_def audit_def audit_record_def
  by (intro pres attempt_ok; simp add: hooks_ok_deliveries)

inductive hook_reaches :: "'z hook_db_scheme \<Rightarrow> 'z hook_db_scheme \<Rightarrow> bool" for s0 where
  start: "hook_reaches s0 s0"
| create: "hook_reaches s0 s \<Longrightarrow> hook_reaches s0 (snd (hook_create w random appId u dto meta s))"
| update: "hook_reaches s0 s \<Longrightarrow> hook_reaches s0 (snd (hook_update appId i u url descr types meta s))"
| enable: "hook_reaches s0 s \<Longrightarrow> hook_reaches s0 (snd (hook_enable appId i u meta s))"
| disable: "hook_reaches s0 s \<Longrightarrow> hook_reaches s0 (snd (hook_disable appId i u meta s))"
| remove: "hook_reaches s0 s \<Longrightarrow> hook_reaches s0 (snd (hook_remove appId i u meta s))"
| rotate: "hook_reaches s0 s \<Longrightarrow> hook_reaches s0 (snd (hook_rotateSecret w random appId i u meta s))"
| enqueue: "hook_reaches s0 s \<Longrightarrow> hook_reaches s0 (snd (hook_enqueue i ty payload s))"
| sweep: "hook_reaches s0 s \<Longrightarrow> hook_reaches s0 (snd (processPending w s))"
| retry: "hook_reaches s0 s \<Longrightarrow> hook_reaches s0 (snd (delivery_retry w e i u meta s))"
| time: "hook_reaches s0 s \<Longrightarrow> hook_reaches s0 (clock_update f s)"

lemmas hook_steps_ok =
  hook_create_ok hook_update_ok hook_setStatus_ok hook_remove_ok hook_rotate_ok hook_enqueue_ok processPending_ok
  delivery_retry_ok

lemma hook_reaches_ok: "hook_reaches s0 s \<Longrightarrow> hooks_ok s0 \<Longrightarrow> hooks_ok s"
proof (induction rule: hook_reaches.induct)
  case (time s f)
  then show ?case by (simp add: hooks_ok_def)
qed (simp_all add: hook_steps_ok [unfolded preserves_def, rule_format] hook_enable_def hook_disable_def)

text \<open>
  C22. Whatever requests, sweeps and retries are made, every endpoint has exactly one active signing secret,
  and every delivery belongs to an endpoint: rotation retires the old secret and installs the new one in
  one transaction, and deleting an endpoint leaves no delivery of it behind.
\<close>

theorem one_active_secret:
  assumes "hook_reaches s0 s" and "hooks_ok s0"
  shows "(\<forall>e \<in> set (endpoints s). count_where (active_secret (we_id e)) (secrets s) = 1)
    \<and> (\<forall>d \<in> set (deliveries s). \<exists>e \<in> set (endpoints s). we_id e = wd_webhookEndpointId d)"
  using hook_reaches_ok [OF assms] by (fastforce simp: hooks_ok_def secrets_ok_def)

section \<open>One attempt\<close>

text \<open>The state after a request \<open>req\<close> for the delivery \<open>d\<close> had the outcome \<open>r\<close>.\<close>

definition delivery_after :: "send_result \<Rightarrow> time \<Rightarrow> webhook_delivery \<Rightarrow> webhook_delivery" where
  "delivery_after r t d = (if ok r then deliver_ok r t d else deliver_failed (t, r) d)"

definition attempted ::
  "webhook_delivery \<Rightarrow> hook_request \<Rightarrow> send_result \<Rightarrow> 'z hook_db_scheme \<Rightarrow> 'z hook_db_scheme" where
  "attempted d req r s =
     retries_update (\<lambda>rs. rs @ [\<lparr>wr_webhookDeliveryId = wd_id d, wr_attemptNumber = wd_attemptCount d + 1,
         wr_responseStatus = responseStatus r, wr_error = (if ok r then None else error r)\<rparr>])
       (deliveries_update (upd_where (\<lambda>x. wd_id x = wd_id d) (delivery_after r (clock s)))
         (hookCalls_update (\<lambda>cs. cs @ [req]) s))"

lemma settle_run:
  assumes "List.find (\<lambda>x. wd_id x = wd_id d) (deliveries s) = Some d"
  shows "settle_delivery d r (hookCalls_update (\<lambda>cs. cs @ [req]) s) = (Inr (), attempted d req r s)"
proof -
  have "delivery_after r t = (if ok r then deliver_ok r t else deliver_failed (t, r))" for t
    by (rule ext) (simp add: delivery_after_def)
  with assms show ?thesis
    by (simp add: settle_delivery_def run run_transaction run_seq_update_row run_basic attempted_def transaction_def)
qed

lemma send_run [run]:
  "bnd (sendWebhookRequest w req) k s
   = k (send_outcome (hw_fetch w (hookCalls s) req)) (hookCalls_update (\<lambda>cs. cs @ [req]) s)"
  by (simp add: sendWebhookRequest_def run seq_def run_basic bnd_def)

lemma attempt_run:
  assumes "List.find (\<lambda>x. wd_id x = i) (deliveries s) = Some d"
    and "List.find (\<lambda>e. we_id e = wd_webhookEndpointId d) (endpoints s) = Some e"
    and "List.find (active_secret (wd_webhookEndpointId d)) (secrets s) = Some x"
  shows "attemptDelivery w i s = (case hw_decrypt w (ws_encryptedValue x) (ws_iv x) (ws_authTag x) of
      Inl message \<Rightarrow> (Inl (JsError message), s)
    | Inr secret \<Rightarrow> (Inr (), attempted d (delivery_request w secret e d)
        (send_outcome (hw_fetch w (hookCalls s) (delivery_request w secret e d))) s))"
proof -
  have ids: "wd_id d = i" "we_id e = wd_webhookEndpointId d" using assms by (auto dest: find_SomeD)
  show ?thesis
    using assms
    by (simp add: attemptDelivery_def run find_or_throw_def run_basic ids settle_run split: sum.split)
qed

text \<open>In every state it leaves the database alone or records one request for the delivery.\<close>

lemma attempt_cases:
  assumes "List.find (\<lambda>x. wd_id x = i) (deliveries s) = Some d"
  obtains "snd (attemptDelivery w i s) = s"
  | req r where "snd (attemptDelivery w i s) = attempted d req r s" "hr_deliveryId req = i"
proof -
  have id: "wd_id d = i" using assms by (auto dest: find_SomeD)
  consider "List.find (\<lambda>e. we_id e = wd_webhookEndpointId d) (endpoints s) = None"
    | e where "List.find (\<lambda>e. we_id e = wd_webhookEndpointId d) (endpoints s) = Some e"
      "List.find (active_secret (wd_webhookEndpointId d)) (secrets s) = None"
    | e x where "List.find (\<lambda>e. we_id e = wd_webhookEndpointId d) (endpoints s) = Some e"
      "List.find (active_secret (wd_webhookEndpointId d)) (secrets s) = Some x"
    by fastforce
  then show thesis
  proof cases
    case 1
    then show thesis by (intro that(1)) (simp add: attemptDelivery_def run assms find_or_throw_def run_basic)
  next
    case (2 e)
    then have "we_id e = wd_webhookEndpointId d" by (auto dest: find_SomeD)
    with 2 show thesis by (intro that(1)) (simp add: attemptDelivery_def run assms find_or_throw_def run_basic)
  next
    case (3 e x)
    show thesis
      using attempt_run [OF assms 3, of w] that
      by (cases "hw_decrypt w (ws_encryptedValue x) (ws_iv x) (ws_authTag x)") (auto simp: delivery_request_def id)
  qed
qed

lemma delivery_after_id [simp]: "wd_id (delivery_after r t d) = wd_id d"
  by (simp add: delivery_after_def deliver_ok_def deliver_failed_def Let_def)

interpretation delivery_engine: retry_engine wd_attemptCount "\<lambda>_. MAX_ATTEMPTS"
    "\<lambda>d. wd_status d = WebhookDeliveryStatus.RETRYING" wd_nextAttemptAt deliver_failed
  by unfold_locales (auto simp: deliver_failed_def Let_def)

section \<open>Samples\<close>

definition sample_world :: "(hook_request list \<Rightarrow> hook_request \<Rightarrow> string + int \<times> string) \<Rightarrow> hook_world" where
  "sample_world f = \<lparr>hw_encrypt = (\<lambda>p. (rev p, ''iv'', ''tag'')),
     hw_decrypt = (\<lambda>v iv tag. if tag = ''tag'' then Inr (rev v) else Inl ''bad tag''),
     hw_hmac = (\<lambda>k m. k @ m), hw_fetch = f\<rparr>"

definition sample_endpoint :: webhook_endpoint where
  "sample_endpoint = \<lparr>we_id = 1, we_applicationId = 2, we_environmentId = None, we_url = ''https://x'', we_description = None,
     we_eventTypes = [], we_status = ENABLED, we_createdById = 9, we_createdAt = 0\<rparr>"

definition sample_secret :: webhook_secret where
  "sample_secret = \<lparr>ws_id = 3, ws_webhookEndpointId = 1, ws_encryptedValue = ''k'', ws_iv = ''iv'', ws_authTag = ''tag'',
     ws_lastFour = ''k'', ws_isActive = True, ws_createdAt = 0, ws_rotatedAt = None\<rparr>"

definition sample_delivery :: webhook_delivery where
  "sample_delivery = \<lparr>wd_id = 4, wd_webhookEndpointId = 1, wd_eventType = ''e'', wd_payload = JNull,
     wd_status = WebhookDeliveryStatus.PENDING, wd_responseStatus = None, wd_responseBody = None, wd_attemptCount = 0,
     wd_nextAttemptAt = None, wd_createdAt = 0, wd_deliveredAt = None\<rparr>"

definition sample_hooks :: "webhook_delivery list \<Rightarrow> hook_db" where
  "sample_hooks ds = \<lparr>clock = 5, nextId = 100, audits = [], platformEvents = [], automationRules = [], jobs = [],
     jobHistory = [], queueControls = [], environments = [], endpoints = [sample_endpoint], secrets = [sample_secret],
     deliveries = ds, retries = [], hookCalls = []\<rparr>"

lemmas sample_hook_defs = sample_hooks_def sample_endpoint_def sample_secret_def sample_delivery_def sample_world_def

lemma sample_hooks_ok: "hooks_ok (sample_hooks [sample_delivery])"
  by (simp add: hooks_ok_def secrets_ok_def sample_hook_defs count_where_Cons active_secret_def)

theorem one_active_secret_witness:
  "let s = snd (hook_rotateSecret (sample_world (\<lambda>_ _. Inl ''down'')) ''xyz'' 2 1 9 no_meta (sample_hooks [sample_delivery])) in
   \<forall>e \<in> set (endpoints s). count_where (active_secret (we_id e)) (secrets s) = 1"
  unfolding Let_def
  using one_active_secret [OF hook_reaches.rotate [OF hook_reaches.start] sample_hooks_ok] by blast


section \<open>A rotated secret signs\<close>

text \<open>
  After a rotation the plaintext that was returned signs: the next attempt of any delivery of the endpoint
  sends one request, whose signature header is the HMAC of the very body it sends under that plaintext. The
  hypothesis on the cipher is that decryption inverts encryption.
\<close>

theorem rotated_secret_signs:
  assumes "hooks_ok s" and "hook_rotateSecret w random appId i u meta s = (Inr (m, plaintext), s')"
    and "case hw_encrypt w plaintext of (v, iv, tag) \<Rightarrow> hw_decrypt w v iv tag = Inr plaintext"
    and "List.find (\<lambda>d. wd_id d = k) (deliveries s) = Some d" and "wd_webhookEndpointId d = i"
  shows "plaintext = SECRET_PREFIX @ random
    \<and> (\<exists>req. hookCalls (snd (attemptDelivery w k s')) = hookCalls s @ [req] \<and> hr_body req = json_stringify (wd_payload d)
         \<and> hr_signature req = ''sha256='' @ hw_hmac w plaintext (hr_body req))"
proof -
  obtain v iv tag where enc: "hw_encrypt w plaintext = (v, iv, tag)" by (cases "hw_encrypt w plaintext")
  have dec: "hw_decrypt w v iv tag = Inr plaintext" using assms(3) enc by simp
  define x where "x = \<lparr>ws_id = nextId s, ws_webhookEndpointId = i, ws_encryptedValue = v, ws_iv = iv, ws_authTag = tag,
      ws_lastFour = slice_end 4 plaintext, ws_isActive = True, ws_createdAt = clock s, ws_rotatedAt = None\<rparr>"
  let ?f = "\<lambda>x. x\<lparr>ws_isActive := False, ws_rotatedAt := Some (clock s)\<rparr>"
  have "wps (hook_rotateSecret w random appId i u meta) (\<lambda>r s1. \<forall>m p. r = Inr (m, p) \<longrightarrow> p = SECRET_PREFIX @ random
      \<and> (p = plaintext \<longrightarrow> secrets s1 = upd_where (active_secret i) ?f (secrets s) @ [x])
      \<and> endpoints s1 = endpoints s \<and> deliveries s1 = deliveries s \<and> hookCalls s1 = hookCalls s
      \<and> List.find (\<lambda>e. we_id e = i) (endpoints s) \<noteq> None) s"
    using enc by (auto simp: hook_rotateSecret_def wp insert_secret_def generateSecretPlaintext_def Let_def x_def
        split: option.split prod.split)
  from wps_D [OF this assms(2)] have s': "plaintext = SECRET_PREFIX @ random"
    "secrets s' = upd_where (active_secret i) ?f (secrets s) @ [x]" "endpoints s' = endpoints s" "deliveries s' = deliveries s"
    "hookCalls s' = hookCalls s" "List.find (\<lambda>e. we_id e = i) (endpoints s) \<noteq> None" by auto
  then obtain e where e: "List.find (\<lambda>e. we_id e = i) (endpoints s) = Some e" by auto
  have "List.find (active_secret i) (upd_where (active_secret i) ?f (secrets s)) = None"
    unfolding find_None_iff' ball_upd_where by (simp add: active_secret_def)
  then have "List.find (active_secret i) (secrets s') = Some x"
    by (simp add: s' find_append) (simp add: x_def active_secret_def)
  with s' e assms(4,5) have "attemptDelivery w k s' = (case hw_decrypt w (ws_encryptedValue x) (ws_iv x) (ws_authTag x) of
      Inl message \<Rightarrow> (Inl (JsError message), s')
    | Inr secret \<Rightarrow> (Inr (), attempted d (delivery_request w secret e d)
        (send_outcome (hw_fetch w (hookCalls s') (delivery_request w secret e d))) s'))"
    by (intro attempt_run) simp_all
  then show ?thesis
    using s' dec by (simp add: x_def attempted_def delivery_request_def)
qed

theorem rotated_secret_signs_witness:
  "let w = sample_world (\<lambda>_ _. Inl ''down'');
       s' = snd (hook_rotateSecret w ''xyz'' 2 1 9 no_meta (sample_hooks [sample_delivery])) in
   \<exists>req. hookCalls (snd (attemptDelivery w 4 s')) = [] @ [req] \<and> hr_signature req = ''sha256='' @ ''whsec_xyz'' @ ''null''"
proof -
  let ?w = "sample_world (\<lambda>_ _. Inl ''down'')"
  let ?s = "sample_hooks [sample_delivery]"
  have "wps (hook_rotateSecret ?w ''xyz'' 2 1 9 no_meta) (\<lambda>r s'. \<exists>m. r = Inr (m, ''whsec_xyz'')) ?s"
    by (simp add: hook_rotateSecret_def wp insert_secret_def generateSecretPlaintext_def SECRET_PREFIX_def Let_def sample_hook_defs)
  then have "\<exists>m. hook_rotateSecret ?w ''xyz'' 2 1 9 no_meta ?s
      = (Inr (m, ''whsec_xyz''), snd (hook_rotateSecret ?w ''xyz'' 2 1 9 no_meta ?s))"
    by (simp add: wps_run prod_eq_iff)
  then obtain m where "hook_rotateSecret ?w ''xyz'' 2 1 9 no_meta ?s
      = (Inr (m, ''whsec_xyz''), snd (hook_rotateSecret ?w ''xyz'' 2 1 9 no_meta ?s))" by blast
  from rotated_secret_signs [OF sample_hooks_ok this, of 4 sample_delivery] show ?thesis
    by (simp add: Let_def) (auto simp: sample_hook_defs)
qed

section \<open>Attempts are counted and bounded\<close>

definition waiting :: "webhook_delivery \<Rightarrow> bool" where
  "waiting d \<longleftrightarrow> wd_status d \<in> {WebhookDeliveryStatus.PENDING, WebhookDeliveryStatus.RETRYING}"

definition accounted :: "'z hook_db_scheme \<Rightarrow> webhook_delivery \<Rightarrow> bool" where
  "accounted s d \<longleftrightarrow> count_where (\<lambda>c. hr_deliveryId c = wd_id d) (hookCalls s) = wd_attemptCount d
     \<and> count_where (\<lambda>r. wr_webhookDeliveryId r = wd_id d) (retries s) = wd_attemptCount d
     \<and> wd_attemptCount d \<le> MAX_ATTEMPTS \<and> (waiting d \<longrightarrow> wd_attemptCount d < MAX_ATTEMPTS)"

definition log_ok :: "'z hook_db_scheme \<Rightarrow> bool" where
  "log_ok s \<longleftrightarrow> distinct (map wd_id (deliveries s)) \<and> (\<forall>d \<in> set (deliveries s). wd_id d < nextId s \<and> accounted s d)
     \<and> (\<forall>c \<in> set (hookCalls s). hr_deliveryId c < nextId s) \<and> (\<forall>r \<in> set (retries s). wr_webhookDeliveryId r < nextId s)"

lemma delivery_after_counts:
  "wd_attemptCount (delivery_after r t d) = Suc (wd_attemptCount d)"
  "waiting (delivery_after r t d) \<Longrightarrow> Suc (wd_attemptCount d) < MAX_ATTEMPTS"
  by (auto simp: delivery_after_def deliver_ok_def deliver_failed_def waiting_def Let_def split: if_splits)

lemma log_ok_attempted:
  assumes "log_ok s" and "d \<in> set (deliveries s)" and "waiting d" and "hr_deliveryId req = wd_id d"
  shows "log_ok (attempted d req r s)"
proof -
  let ?s = "attempted d req r s" and ?f = "delivery_after r (clock s)"
  have fields: "deliveries ?s = upd_where (\<lambda>x. wd_id x = wd_id d) ?f (deliveries s)" "nextId ?s = nextId s"
    "hookCalls ?s = hookCalls s @ [req]" "\<exists>e. retries ?s = retries s @ [e] \<and> wr_webhookDeliveryId e = wd_id d"
    by (simp_all add: attempted_def)
  have "accounted ?s (if wd_id x = wd_id d then ?f x else x)" if x: "x \<in> set (deliveries s)" for x
  proof (cases "wd_id x = wd_id d")
    case True
    with x assms(1,2) have "x = d" by (auto simp: log_ok_def dest: distinct_key_eq)
    with assms delivery_after_counts [of r "clock s" d] show ?thesis
      by (auto simp: accounted_def attempted_def count_where_Cons log_ok_def)
  next
    case False
    with x assms(1,4) show ?thesis by (auto simp: accounted_def attempted_def count_where_Cons log_ok_def)
  qed
  with assms fields show ?thesis by (auto simp: log_ok_def map_upd_where ball_upd_where)
qed

lemma attempt_in_sweep:
  assumes "log_ok s" and "d \<in> set (deliveries s)" and "waiting d"
  shows "log_ok (snd (attemptDelivery w (wd_id d) s))
    \<and> (\<forall>x \<in> set (deliveries s). wd_id d \<noteq> wd_id x \<longrightarrow> x \<in> set (deliveries (snd (attemptDelivery w (wd_id d) s))))
    \<and> clock (snd (attemptDelivery w (wd_id d) s)) = clock s"
proof -
  have "List.find (\<lambda>x. wd_id x = wd_id d) (deliveries s) \<noteq> None" using assms(2) by (auto simp: find_None_iff')
  then obtain y where y: "List.find (\<lambda>x. wd_id x = wd_id d) (deliveries s) = Some y" by auto
  with assms have yd: "y = d" by (auto simp: log_ok_def dest: distinct_key_eq dest!: find_SomeD)
  from attempt_cases [OF y, of w] show ?thesis
  proof cases
    case (2 req r)
    with assms yd log_ok_attempted [of s d req r] show ?thesis
      by (auto simp: attempted_def intro!: upd_where_other_row)
  qed (simp add: assms)
qed

lemma sweep_batch:
  assumes "log_ok s" and "distinct (map wd_id ds)" and "set ds \<subseteq> set (deliveries s)" and "\<forall>d \<in> set ds. waiting d"
  shows "log_ok (snd (for_each (map wd_id ds) (\<lambda>i. try_catch (attemptDelivery w i) (\<lambda>_. ret ())) s))"
  using assms
proof (induction ds arbitrary: s)
  case (Cons d ds)
  let ?s = "snd (attemptDelivery w (wd_id d) s)"
  let ?m = "try_catch (attemptDelivery w (wd_id d)) (\<lambda>_. ret ())"
  have d: "d \<in> set (deliveries s)" "waiting d" using Cons.prems by auto
  have "log_ok ?s" "set ds \<subseteq> set (deliveries ?s)"
    using attempt_in_sweep [OF Cons.prems(1) d, of w] Cons.prems(2,3) by (auto simp: image_iff)
  then have ih: "log_ok (snd (for_each (map wd_id ds) (\<lambda>i. try_catch (attemptDelivery w i) (\<lambda>_. ret ())) ?s))"
    using Cons.IH [of ?s] Cons.prems(2,4) by simp
  have "?m s = (Inr (), ?s) \<or> ?m s = (Inl Diverges, ?s)"
    by (cases "attemptDelivery w (wd_id d) s") (auto simp: try_catch_def ret_def split: sum.split)
  with ih \<open>log_ok ?s\<close> show ?case by (auto simp: seq_def bnd_def)
qed (simp add: ret_def)

lemma sweep_log_ok: "log_ok s \<Longrightarrow> log_ok (snd (processPending w s))"
proof -
  assume ok: "log_ok s"
  let ?due = "order_by wd_createdAt (filter (delivery_due (clock s)) (deliveries s))"
  have "distinct (map wd_id (filter (delivery_due (clock s)) (deliveries s)))"
    using ok by (auto simp: log_ok_def intro: distinct_map_filter)
  then have dist: "distinct (map wd_id ?due)" unfolding order_by_def by (simp add: distinct_map)
  have "set (due_deliveries s) \<subseteq> set ?due" by (auto simp: due_deliveries_def dest: in_set_takeD)
  then have sub: "set (due_deliveries s) \<subseteq> set (deliveries s)" "\<forall>d \<in> set (due_deliveries s). waiting d"
    by (auto simp: order_by_def delivery_due_def waiting_def)
  have "distinct (map wd_id (due_deliveries s))" using dist by (simp add: due_deliveries_def flip: take_map)
  with sub ok show ?thesis by (simp add: processPending_def run sweep_batch)
qed

inductive delivery_run :: "hook_world \<Rightarrow> 'z hook_db_scheme \<Rightarrow> 'z hook_db_scheme \<Rightarrow> bool" for w s0 where
  start: "delivery_run w s0 s0"
| enqueue: "delivery_run w s0 s \<Longrightarrow> delivery_run w s0 (snd (hook_enqueue i ty payload s))"
| sweep: "delivery_run w s0 s \<Longrightarrow> delivery_run w s0 (snd (processPending w s))"
| time: "delivery_run w s0 s \<Longrightarrow> delivery_run w s0 (clock_update f s)"

lemma enqueue_log_ok: "preserves log_ok (hook_enqueue i ty payload)"
proof -
  have new: "count_where (\<lambda>c. hr_deliveryId c = nextId s) (hookCalls s) = 0 \<and> count_where (\<lambda>r. wr_webhookDeliveryId r = nextId s) (retries s) = 0"
    if "log_ok s" for s :: "'z hook_db_scheme"
    using that by (auto simp: log_ok_def count_where_zero)
  show ?thesis
    using new by (auto simp: preserves_wps hook_enqueue_def wp log_ok_def accounted_def MAX_ATTEMPTS_def less_SucI split: option.split)
qed

lemma delivery_run_ok: "delivery_run w s0 s \<Longrightarrow> log_ok s0 \<Longrightarrow> log_ok s"
proof (induction rule: delivery_run.induct)
  case (time s f)
  then show ?case by (simp add: log_ok_def accounted_def)
qed (simp_all add: sweep_log_ok enqueue_log_ok [unfolded preserves_def, rule_format])

text \<open>
  However events are queued and sweeps run, and whatever the receivers answer: every delivery was sent
  exactly as often as its attempt count says, with one attempt row each, and never more than five times;
  a delivery that has been sent five times is SUCCESS, FAILED or EXHAUSTED and no sweep takes it up again.
\<close>

theorem delivery_attempts_bounded:
  assumes "delivery_run w s0 s" and "log_ok s0" and "d \<in> set (deliveries s)"
  shows "count_where (\<lambda>c. hr_deliveryId c = wd_id d) (hookCalls s) = wd_attemptCount d
    \<and> count_where (\<lambda>r. wr_webhookDeliveryId r = wd_id d) (retries s) = wd_attemptCount d
    \<and> wd_attemptCount d \<le> MAX_ATTEMPTS
    \<and> (wd_attemptCount d = MAX_ATTEMPTS \<longrightarrow> d \<notin> set (due_deliveries s))"
proof -
  have "d \<notin> set (due_deliveries s)" if "\<not> waiting d"
    using that by (auto simp: due_deliveries_def order_by_def delivery_due_def waiting_def dest!: in_set_takeD)
  with delivery_run_ok [OF assms(1,2)] assms(3) show ?thesis by (auto simp: log_ok_def accounted_def)
qed

theorem delivery_attempts_bounded_witness:
  "let s = snd (processPending (sample_world (\<lambda>_ _. Inl ''down'')) (sample_hooks [sample_delivery])) in
   \<forall>d \<in> set (deliveries s). count_where (\<lambda>c. hr_deliveryId c = wd_id d) (hookCalls s) = wd_attemptCount d"
  unfolding Let_def
  using delivery_attempts_bounded [OF delivery_run.sweep [OF delivery_run.start], of "sample_hooks [sample_delivery]"]
  by (simp add: log_ok_def accounted_def sample_hook_defs MAX_ATTEMPTS_def)

section \<open>Deliveries that cannot be signed\<close>

text \<open>
  A delivery whose secret cannot be decrypted (after a change of the encryption key, say) is never counted:
  its attempt throws before the request and leaves the row as it is. When the twenty oldest due
  deliveries are like that, a sweep changes nothing, so no sweep ever reaches the deliveries behind them.
\<close>

theorem undecryptable_deliveries_starve:
  assumes "\<forall>d \<in> set (due_deliveries s). List.find (\<lambda>x. wd_id x = wd_id d) (deliveries s) = Some d
      \<and> (\<exists>e x message. List.find (\<lambda>e. we_id e = wd_webhookEndpointId d) (endpoints s) = Some e
           \<and> List.find (active_secret (wd_webhookEndpointId d)) (secrets s) = Some x
           \<and> hw_decrypt w (ws_encryptedValue x) (ws_iv x) (ws_authTag x) = Inl message)"
  shows "processPending w s = (Inr (), s)"
proof -
  have "for_each (map wd_id ds) (\<lambda>i. try_catch (attemptDelivery w i) (\<lambda>_. ret ())) s = (Inr (), s)"
    if "set ds \<subseteq> set (due_deliveries s)" for ds
    using that
  proof (induction ds)
    case (Cons d ds)
    then have "d \<in> set (due_deliveries s)" by simp
    with assms obtain e x message where "List.find (\<lambda>x. wd_id x = wd_id d) (deliveries s) = Some d"
      "List.find (\<lambda>e. we_id e = wd_webhookEndpointId d) (endpoints s) = Some e"
      "List.find (active_secret (wd_webhookEndpointId d)) (secrets s) = Some x"
      "hw_decrypt w (ws_encryptedValue x) (ws_iv x) (ws_authTag x) = Inl message" by blast
    with attempt_run [of "wd_id d" s d e x w] have "attemptDelivery w (wd_id d) s = (Inl (JsError message), s)" by simp
    with Cons show ?case by (simp add: seq_def bnd_def try_catch_def ret_def)
  qed (simp add: ret_def)
  then show ?thesis by (simp add: processPending_def run)
qed

theorem undecryptable_deliveries_starve_witness:
  "processPending (sample_world (\<lambda>_ _. Inr (200, [])))
     ((sample_hooks [sample_delivery])\<lparr>secrets := [sample_secret\<lparr>ws_authTag := ''x''\<rparr>]\<rparr>)
   = (Inr (), (sample_hooks [sample_delivery])\<lparr>secrets := [sample_secret\<lparr>ws_authTag := ''x''\<rparr>]\<rparr>)"
  by (rule undecryptable_deliveries_starve)
    (simp add: due_deliveries_def order_by_def delivery_due_def SWEEP_BATCH_SIZE_def sample_hook_defs active_secret_def)

end
