(* ===== verification/Payment_Data.thy ===== *)
theory Payment_Data
  imports Lifecycle Json_Text "HOL-Library.AList"
begin

text \<open>
  The tables of the payment framework (schema.prisma), the normalised events that every provider adapter
  produces (payments/adapters/payment-provider.adapter.ts), the adapter registry, and the resolution of
  a provider with its decrypted credentials (payments/provider-resolver.service.ts,
  payments/provider-credentials.service.ts). Adapters, the cipher and the \<open>updatedAt\<close> column of the
  subscriptions, which only the ORM writes, are the parameter \<open>pay_world\<close>.
\<close>

section \<open>Enumerations\<close>

datatype PaymentProviderType =
  STRIPE | APPLE_APP_STORE | GOOGLE_PLAY | PAYPAL | EASYPAISA | JAZZCASH | BANK_TRANSFER | MANUAL

datatype PaymentTransactionStatus =
  PENDING | AUTHORIZED | CAPTURED | SUCCEEDED | FAILED | CANCELED | REFUNDED | PARTIALLY_REFUNDED | DISPUTED | CHARGEBACK

datatype PaymentRefundStatus = PENDING | SUCCEEDED | FAILED | CANCELED

datatype PaymentDisputeStatus = OPEN | UNDER_REVIEW | WON | LOST | ACCEPTED

datatype PaymentWebhookStatus = RECEIVED | VERIFIED | PROCESSED | FAILED | IGNORED

datatype payment_event_type =
  PAYMENT_SUCCEEDED | PAYMENT_FAILED | PAYMENT_PENDING | SUBSCRIPTION_CREATED | SUBSCRIPTION_RENEWED
| SUBSCRIPTION_CANCELED | SUBSCRIPTION_EXPIRED | SUBSCRIPTION_PAST_DUE | REFUND_CREATED | REFUND_COMPLETED
| CHARGEBACK_CREATED | DISPUTE_UPDATED | UNKNOWN

datatype dispute_resolution = WON | LOST | UNDER_REVIEW

section \<open>Normalised events and adapters\<close>

text \<open>A JavaScript number; \<open>None\<close> is NaN or an infinity.\<close>

type_synonym js_number = "rat option"

record payment_event =
  pe_type :: payment_event_type
  pe_externalEventId :: string
  pe_externalCustomerId :: "string option"
  pe_externalSubscriptionId :: "string option"
  pe_externalTransactionId :: "string option"
  pe_amountMinor :: "js_number option"
  pe_currency :: "string option"
  pe_disputeStatus :: "dispute_resolution option"
  pe_occurredAt :: time
  pe_raw :: json

type_synonym credentials = "(string \<times> string) list"

record resolved_account =
  ra_externalAccountId :: string
  ra_metadata :: "json option"

record refund_input =
  ri_externalTransactionId :: string
  ri_amountMinor :: "int option"
  ri_reason :: "string option"
  ri_credentials :: credentials
  ri_account :: "resolved_account option"

text \<open>The methods of an adapter that the services call; \<open>Inl\<close> is the message of an error it throws. The
  remote system sees the refunds requested so far. The amount of an event is a JavaScript number, which
  need not be an integer; a column of type Int refuses another.\<close>

record adapter =
  ad_verifyWebhook :: "string \<Rightarrow> (string \<times> string) list \<Rightarrow> credentials \<Rightarrow> string + bool"
  ad_normalizeWebhookEvent :: "string \<Rightarrow> (string \<times> string) list \<Rightarrow> string + payment_event list"
  ad_refund :: "refund_input list \<Rightarrow> refund_input \<Rightarrow> string + string \<times> PaymentRefundStatus"

definition int_column :: "js_number \<Rightarrow> ('s, int) svc" where
  "int_column n = (case n of
     Some x \<Rightarrow> if of_int \<lfloor>x\<rfloor> = x then ret \<lfloor>x\<rfloor> else throw (JsError ''Invalid value provided. Expected Int, provided Float.'')
   | None \<Rightarrow> throw (JsError ''Invalid value provided. Expected Int, provided Float.''))"

section \<open>Rows\<close>

record user_row =
  usr_id :: id
  usr_email :: string
  usr_passwordHash :: "string option"
  usr_emailVerified :: bool
  usr_displayName :: "string option"
  usr_isActive :: bool

record payment_provider =
  pp_id :: id
  pp_organizationId :: id
  pp_type :: PaymentProviderType

record provider_credential =
  prc_id :: id
  prc_providerId :: id
  prc_key :: string
  prc_encryptedValue :: string
  prc_iv :: string
  prc_authTag :: string
  prc_lastFour :: "string option"
  prc_createdById :: id
  prc_createdAt :: time
  prc_rotatedAt :: "time option"

record provider_account =
  pa_providerId :: id
  pa_externalAccountId :: string
  pa_metadata :: "json option"

record payment_customer =
  pcu_customerId :: id
  pcu_providerId :: id
  pcu_externalCustomerId :: string

record payment_transaction =
  pt_id :: id
  pt_providerId :: id
  pt_customerId :: id
  pt_subscriptionId :: "id option"
  pt_amountMinor :: int
  pt_currency :: string
  pt_status :: PaymentTransactionStatus
  pt_providerTransactionId :: "string option"
  pt_failureReason :: "string option"
  pt_metadata :: "json option"

record payment_refund =
  pf_id :: id
  pf_transactionId :: id
  pf_amountMinor :: int
  pf_currency :: string
  pf_reason :: "string option"
  pf_status :: PaymentRefundStatus
  pf_providerRefundId :: "string option"
  pf_createdById :: "id option"

record payment_dispute =
  pd_id :: id
  pd_transactionId :: id
  pd_providerDisputeId :: string
  pd_amountMinor :: int
  pd_currency :: string
  pd_status :: PaymentDisputeStatus
  pd_createdAt :: time

record payment_webhook =
  pw_id :: id
  pw_providerId :: id
  pw_externalEventId :: string
  pw_eventType :: payment_event_type
  pw_normalizedType :: "payment_event_type option"
  pw_payload :: json
  pw_signatureValid :: bool
  pw_status :: PaymentWebhookStatus
  pw_error :: "string option"
  pw_relatedTransactionId :: "string option"
  pw_relatedSubscriptionId :: "string option"
  pw_processedAt :: "time option"

record pay_db = sub_db +
  users :: "user_row list"
  paymentProviders :: "payment_provider list"
  providerCredentials :: "provider_credential list"
  providerAccounts :: "provider_account list"
  paymentCustomers :: "payment_customer list"
  paymentTransactions :: "payment_transaction list"
  paymentRefunds :: "payment_refund list"
  paymentDisputes :: "payment_dispute list"
  paymentWebhooks :: "payment_webhook list"
  cachedUserId :: "id option"
  refundCalls :: "refund_input list"

record pay_world =
  pwo_adapters :: "(PaymentProviderType \<times> adapter) list"
  pwo_encrypt :: "string \<Rightarrow> string \<times> string \<times> string"
  pwo_decrypt :: "string \<Rightarrow> string \<Rightarrow> string \<Rightarrow> string + string"
  pwo_updatedAt :: "sub_row \<Rightarrow> time"

section \<open>Registry, credentials, resolver\<close>

fun provider_type_str :: "PaymentProviderType \<Rightarrow> string" where
  "provider_type_str STRIPE = ''STRIPE''"
| "provider_type_str APPLE_APP_STORE = ''APPLE_APP_STORE''"
| "provider_type_str GOOGLE_PLAY = ''GOOGLE_PLAY''"
| "provider_type_str PAYPAL = ''PAYPAL''"
| "provider_type_str EASYPAISA = ''EASYPAISA''"
| "provider_type_str JAZZCASH = ''JAZZCASH''"
| "provider_type_str BANK_TRANSFER = ''BANK_TRANSFER''"
| "provider_type_str MANUAL = ''MANUAL''"

text \<open>The registry's map: a later adapter of the same type replaces an earlier one.\<close>

definition adaptersByType :: "(PaymentProviderType \<times> adapter) list \<Rightarrow> PaymentProviderType \<Rightarrow> adapter option" where
  "adaptersByType adapters = map_of (rev adapters)"

definition getAdapter :: "pay_world \<Rightarrow> PaymentProviderType \<Rightarrow> ('s, adapter) svc" where
  "getAdapter w type = (case adaptersByType (pwo_adapters w) type of
     None \<Rightarrow> throw (JsError (''No payment provider adapter registered for type '' @ provider_type_str type))
   | Some a \<Rightarrow> ret a)"

fun decrypt_all :: "pay_world \<Rightarrow> provider_credential list \<Rightarrow> credentials \<Rightarrow> string + credentials" where
  "decrypt_all w [] resolved = Inr resolved"
| "decrypt_all w (c # cs) resolved =
     (case pwo_decrypt w (prc_encryptedValue c) (prc_iv c) (prc_authTag c) of
        Inl message \<Rightarrow> Inl message
      | Inr v \<Rightarrow> decrypt_all w cs (AList.update (prc_key c) v resolved))"

definition resolveForAdapter :: "pay_world \<Rightarrow> id \<Rightarrow> ('z pay_db_scheme, credentials) svc" where
  "resolveForAdapter w providerId =
     bnd (gets (\<lambda>s. filter (\<lambda>c. prc_providerId c = providerId) (providerCredentials s))) (\<lambda>cs.
     case decrypt_all w cs [] of Inl message \<Rightarrow> throw (JsError message) | Inr r \<Rightarrow> ret r)"

definition resolveAccount :: "id \<Rightarrow> ('z pay_db_scheme, resolved_account option) svc" where
  "resolveAccount providerId = bnd (find_row providerAccounts (\<lambda>a. pa_providerId a = providerId)) (\<lambda>account.
     ret (map_option (\<lambda>a. \<lparr>ra_externalAccountId = pa_externalAccountId a, ra_metadata = pa_metadata a\<rparr>) account))"

record resolved_provider =
  rp_organizationId :: id
  rp_adapter :: adapter
  rp_credentials :: credentials
  rp_account :: "resolved_account option"

definition resolve_provider :: "pay_world \<Rightarrow> id \<Rightarrow> ('z pay_db_scheme, resolved_provider) svc" where
  "resolve_provider w providerId =
     bnd (find_or_throw paymentProviders (\<lambda>p. pp_id p = providerId)) (\<lambda>provider.
     bnd (getAdapter w (pp_type provider)) (\<lambda>adapter.
     bnd (resolveForAdapter w providerId) (\<lambda>credentials.
     bnd (resolveAccount providerId) (\<lambda>account.
     ret \<lparr>rp_organizationId = pp_organizationId provider, rp_adapter = adapter, rp_credentials = credentials,
          rp_account = account\<rparr>))))"

section \<open>ProviderCredentialsService\<close>

record credential_metadata =
  crm_id :: id
  crm_providerId :: id
  crm_key :: string
  crm_lastFour :: "string option"
  crm_createdById :: id
  crm_createdAt :: time
  crm_rotatedAt :: "time option"

definition toMetadata :: "provider_credential \<Rightarrow> credential_metadata" where
  "toMetadata c = \<lparr>crm_id = prc_id c, crm_providerId = prc_providerId c, crm_key = prc_key c,
     crm_lastFour = prc_lastFour c, crm_createdById = prc_createdById c, crm_createdAt = prc_createdAt c,
     crm_rotatedAt = prc_rotatedAt c\<rparr>"

definition same_credential :: "id \<Rightarrow> string \<Rightarrow> provider_credential \<Rightarrow> bool" where
  "same_credential providerId k c \<longleftrightarrow> prc_providerId c = providerId \<and> prc_key c = k"

definition cred_upsert ::
  "pay_world \<Rightarrow> id \<Rightarrow> id \<Rightarrow> string \<Rightarrow> string \<Rightarrow> request_meta \<Rightarrow> ('z pay_db_scheme, credential_metadata) svc" where
  "cred_upsert w providerId userId k secret meta =
     (case pwo_encrypt w secret of (v, iv, tag) \<Rightarrow>
      bnd (find_row providerCredentials (same_credential providerId k)) (\<lambda>existing.
      bnd now (\<lambda>t.
      bnd (case existing of
         None \<Rightarrow> bnd fresh (\<lambda>i. insert_row providerCredentials_update
           \<lparr>prc_id = i, prc_providerId = providerId, prc_key = k, prc_encryptedValue = v, prc_iv = iv, prc_authTag = tag,
            prc_lastFour = Some (slice_end 4 secret), prc_createdById = userId, prc_createdAt = t, prc_rotatedAt = None\<rparr>)
       | Some c \<Rightarrow> update_row providerCredentials providerCredentials_update (same_credential providerId k)
           (\<lambda>c. c\<lparr>prc_encryptedValue := v, prc_iv := iv, prc_authTag := tag,
                  prc_lastFour := Some (slice_end 4 secret), prc_rotatedAt := Some t\<rparr>)) (\<lambda>credential.
      seq (audit (if existing \<noteq> None then ''PROVIDER_CREDENTIAL_ROTATED'' else ''PROVIDER_CREDENTIAL_CREATED'')
             (Some userId) None None
             [(''providerId'', JId providerId), (''credentialId'', JId (prc_id credential)), (''key'', JStr (prc_key credential))] meta)
          (ret (toMetadata credential))))))"

definition cred_list :: "id \<Rightarrow> ('z pay_db_scheme, credential_metadata list) svc" where
  "cred_list providerId = gets (\<lambda>s. map toMetadata
     (order_by (\<lambda>c. - prc_createdAt c) (filter (\<lambda>c. prc_providerId c = providerId) (providerCredentials s))))"

definition cred_getOwned :: "id \<Rightarrow> id \<Rightarrow> ('z pay_db_scheme, provider_credential) svc" where
  "cred_getOwned providerId credentialId =
     bnd (find_row providerCredentials (\<lambda>c. prc_id c = credentialId)) (\<lambda>r. case r of
       None \<Rightarrow> throw (NotFoundException ''Credential not found'')
     | Some c \<Rightarrow> if prc_providerId c \<noteq> providerId then throw (NotFoundException ''Credential not found'') else ret c)"

definition cred_remove :: "id \<Rightarrow> id \<Rightarrow> id \<Rightarrow> request_meta \<Rightarrow> ('z pay_db_scheme, unit) svc" where
  "cred_remove providerId credentialId userId meta =
     bnd (cred_getOwned providerId credentialId) (\<lambda>existing.
     seq (modify (providerCredentials_update (filter (\<lambda>c. prc_id c \<noteq> credentialId))))
     (audit ''PROVIDER_CREDENTIAL_REMOVED'' (Some userId) None None
        [(''providerId'', JId providerId), (''credentialId'', JId credentialId), (''key'', JStr (prc_key existing))] meta))"

section \<open>What is stored is what adapters get\<close>

definition plain :: "pay_world \<Rightarrow> provider_credential \<Rightarrow> string + string" where
  "plain w c = pwo_decrypt w (prc_encryptedValue c) (prc_iv c) (prc_authTag c)"

lemma decrypt_all_total:
  "\<forall>c \<in> set cs. \<exists>v. plain w c = Inr v \<Longrightarrow> \<exists>out. decrypt_all w cs r = Inr out"
  by (induction cs arbitrary: r) (auto simp: plain_def)

lemma decrypt_all_lookup:
  "decrypt_all w cs r = Inr out \<Longrightarrow> (\<And>c. c \<in> set cs \<Longrightarrow> prc_key c = k \<Longrightarrow> plain w c = Inr v) \<Longrightarrow>
   (\<exists>c \<in> set cs. prc_key c = k) \<or> map_of r k = Some v \<Longrightarrow> map_of out k = Some v"
proof (induction cs arbitrary: r)
  case (Cons c cs)
  obtain x where x: "plain w c = Inr x" "decrypt_all w cs (AList.update (prc_key c) x r) = Inr out"
    using Cons.prems(1) by (auto simp: plain_def split: sum.splits)
  show ?case
  proof (cases "prc_key c = k")
    case True
    with Cons.prems(2) x(1) have "x = v" by force
    with True have "map_of (AList.update (prc_key c) x r) k = Some v" by (simp add: update_conv')
    with Cons.IH [OF x(2)] Cons.prems(2) show ?thesis by auto
  next
    case False
    then have "map_of (AList.update (prc_key c) x r) k = map_of r k" by (simp add: update_conv')
    with Cons.IH [OF x(2)] Cons.prems(2,3) False show ?thesis by auto
  qed
qed simp

definition keys_unique :: "id \<Rightarrow> provider_credential list \<Rightarrow> bool" where
  "keys_unique p cs \<longleftrightarrow> (\<forall>c \<in> set cs. \<forall>d \<in> set cs. prc_providerId c = p \<and> prc_providerId d = p \<and> prc_key c = prc_key d \<longrightarrow> c = d)"

text \<open>
  A credential that is stored, or rotated, is what the provider's adapter is given from then on, under its
  key, and the provider's other credentials resolve to what they were. The hypotheses on the cipher are
  that decryption inverts encryption and that the stored values of the provider can be decrypted.
\<close>

theorem credential_roundtrip:
  assumes "case pwo_encrypt w secret of (v, iv, tag) \<Rightarrow> pwo_decrypt w v iv tag = Inr secret"
    and "\<forall>c \<in> set (providerCredentials s). prc_providerId c = p \<longrightarrow> (\<exists>v. plain w c = Inr v)"
    and "keys_unique p (providerCredentials s)"
    and "cred_upsert w p u k secret meta s = (Inr m, s')"
  shows "\<exists>out. resolveForAdapter w p s' = (Inr out, s') \<and> map_of out k = Some secret
    \<and> (\<forall>c \<in> set (providerCredentials s). prc_providerId c = p \<and> prc_key c \<noteq> k \<longrightarrow> Inr (the (map_of out (prc_key c))) = plain w c)"
proof -
  obtain v iv tag where enc: "pwo_encrypt w secret = (v, iv, tag)" by (cases "pwo_encrypt w secret")
  have dec: "pwo_decrypt w v iv tag = Inr secret" using assms(1) enc by simp
  let ?f = "\<lambda>c. c\<lparr>prc_encryptedValue := v, prc_iv := iv, prc_authTag := tag, prc_lastFour := Some (slice_end 4 secret), prc_rotatedAt := Some (clock s)\<rparr>"
  let ?cs = "filter (\<lambda>c. prc_providerId c = p)"
  have sets: "(\<exists>c. providerCredentials s' = providerCredentials s @ [c] \<and> same_credential p k c \<and> plain w c = Inr secret
        \<and> (\<forall>d \<in> set (providerCredentials s). \<not> same_credential p k d))
      \<or> (providerCredentials s' = upd_where (same_credential p k) ?f (providerCredentials s)
        \<and> (\<exists>d \<in> set (providerCredentials s). same_credential p k d))"
  proof (cases "List.find (same_credential p k) (providerCredentials s)")
    case None
    then have "wps (cred_upsert w p u k secret meta) (\<lambda>r s'. \<exists>c. providerCredentials s' = providerCredentials s @ [c]
        \<and> same_credential p k c \<and> plain w c = Inr secret) s"
      using enc dec by (simp add: cred_upsert_def wp same_credential_def plain_def)
    with None wps_D [OF this assms(4)] show ?thesis by (auto simp: find_None_iff')
  next
    case (Some d)
    then have "wps (cred_upsert w p u k secret meta) (\<lambda>r s'. providerCredentials s' = upd_where (same_credential p k) ?f (providerCredentials s)) s"
      using enc by (simp add: cred_upsert_def wp)
    with find_SomeD [OF Some] wps_D [OF this assms(4)] show ?thesis by auto
  qed
  let ?S = "providerCredentials s" and ?S' = "providerCredentials s'"
  have f: "plain w (?f c) = Inr secret" "prc_key (?f c) = prc_key c" "prc_providerId (?f c) = prc_providerId c" for c
    using dec by (simp_all add: plain_def)
  have mem: "c \<in> set ?S' \<longleftrightarrow> (if same_credential p k c then plain w c = Inr secret \<and> c \<in> set ?S' else c \<in> set ?S)" for c
    using sets
  proof (elim disjE exE conjE)
    assume "?S' = upd_where (same_credential p k) ?f ?S"
    then show ?thesis using f by (auto simp: set_upd_where same_credential_def)
  qed auto
  have secret: "plain w c = Inr secret" if "c \<in> set (?cs ?S')" "prc_key c = k" for c
    using mem [of c] that by (simp add: same_credential_def)
  have others: "c \<in> set (?cs ?S') \<longleftrightarrow> c \<in> set (?cs ?S)" if "prc_key c \<noteq> k" for c
    using mem [of c] that by (simp add: same_credential_def)
  have hit: "\<exists>c \<in> set (?cs ?S'). prc_key c = k"
    using sets
  proof (elim disjE exE conjE bexE)
    fix d assume d: "?S' = upd_where (same_credential p k) ?f ?S" "d \<in> set ?S" "same_credential p k d"
    then have "?f d \<in> set ?S'" by (force simp: set_upd_where)
    with d(3) f [of d] show ?thesis by (intro bexI [of _ "?f d"]) (simp_all add: same_credential_def)
  qed (simp add: same_credential_def)
  have "\<forall>c \<in> set (?cs (providerCredentials s')). \<exists>v. plain w c = Inr v"
  proof
    fix c assume c: "c \<in> set (?cs ?S')"
    show "\<exists>v. plain w c = Inr v"
    proof (cases "prc_key c = k")
      case False
      with others [of c] c assms(2) show ?thesis by simp
    qed (use secret [OF c] in auto)
  qed
  then obtain out where out: "decrypt_all w (?cs (providerCredentials s')) [] = Inr out" using decrypt_all_total by blast
  have "Inr (the (map_of out (prc_key c))) = plain w c" if c: "c \<in> set (providerCredentials s)" "prc_providerId c = p" "prc_key c \<noteq> k" for c
  proof -
    obtain x where x: "plain w c = Inr x" using assms(2) c by auto
    have "map_of out (prc_key c) = Some x"
    proof (rule decrypt_all_lookup [OF out])
      show "plain w d = Inr x" if d: "d \<in> set (?cs (providerCredentials s'))" "prc_key d = prc_key c" for d
      proof -
        have "d = c" using others [of d] d \<open>prc_key c \<noteq> k\<close> \<open>c \<in> set (providerCredentials s)\<close> \<open>prc_providerId c = p\<close> assms(3)
          by (auto simp: keys_unique_def)
        with x show ?thesis by simp
      qed
      show "(\<exists>d \<in> set (?cs (providerCredentials s')). prc_key d = prc_key c) \<or> map_of [] (prc_key c) = Some x"
        using others [of c] c by auto
    qed
    with x show ?thesis by simp
  qed
  moreover have "map_of out k = Some secret" by (rule decrypt_all_lookup [OF out]) (use secret hit in auto)
  ultimately show ?thesis using out by (simp add: resolveForAdapter_def run)
qed


definition mirror_world :: pay_world where
  "mirror_world = \<lparr>pwo_adapters = [], pwo_encrypt = (\<lambda>x. (rev x, ''iv'', ''tag'')), pwo_decrypt = (\<lambda>v _ _. Inr (rev v)), pwo_updatedAt = (\<lambda>_. 0)\<rparr>"

definition empty_pay :: pay_db where
  "empty_pay = sub_db.extend sample_subs (pay_db.fields [] [] [] [] [] [] [] [] [] None [])"

theorem credential_roundtrip_witness:
  "\<exists>out. resolveForAdapter mirror_world 8 (snd (cred_upsert mirror_world 8 7 ''SECRET_KEY'' ''sk_live'' no_meta empty_pay))
      = (Inr out, snd (cred_upsert mirror_world 8 7 ''SECRET_KEY'' ''sk_live'' no_meta empty_pay))
    \<and> map_of out ''SECRET_KEY'' = Some ''sk_live''"
proof -
  have "\<exists>m. cred_upsert mirror_world 8 7 ''SECRET_KEY'' ''sk_live'' no_meta empty_pay
      = (Inr m, snd (cred_upsert mirror_world 8 7 ''SECRET_KEY'' ''sk_live'' no_meta empty_pay))"
    using wps_run [of "cred_upsert mirror_world 8 7 ''SECRET_KEY'' ''sk_live'' no_meta" "\<lambda>r _. \<exists>m. r = Inr m" empty_pay]
    by (simp add: prod_eq_iff cred_upsert_def wp mirror_world_def empty_pay_def sub_db.defs pay_db.defs)
  then obtain m where "cred_upsert mirror_world 8 7 ''SECRET_KEY'' ''sk_live'' no_meta empty_pay
      = (Inr m, snd (cred_upsert mirror_world 8 7 ''SECRET_KEY'' ''sk_live'' no_meta empty_pay))" by blast
  from credential_roundtrip [OF _ _ _ this] show ?thesis
    by (auto simp: mirror_world_def empty_pay_def sub_db.defs pay_db.defs keys_unique_def)
qed

end
