(* ===== verification/Payments.thy ===== *)
theory Payments
  imports Payment_Data
begin

text \<open>
  From a provider's webhook to the subscription and the ledger: payments/payment-event-dispatcher.service.ts,
  payments/webhooks.service.ts and payments/system-actor.service.ts, with the manual transactions and the
  refunds of payments/transactions.service.ts and payments/refunds.service.ts. The dispatcher calls the
  operations of the subscription engine, the recorder of financial events and the event bus.
\<close>

section \<open>SystemActorService\<close>

definition SYSTEM_USER_EMAIL :: string where
  "SYSTEM_USER_EMAIL = ''system+payment-webhooks@internal.paywall.local''"

definition remember_user :: "id \<Rightarrow> ('z pay_db_scheme, id) svc" where
  "remember_user i = seq (modify (cachedUserId_update (\<lambda>_. Some i))) (ret i)"

definition getSystemUserId :: "('z pay_db_scheme, id) svc" where
  "getSystemUserId =
     bnd (gets cachedUserId) (\<lambda>cached. case cached of Some i \<Rightarrow> ret i
     | None \<Rightarrow>
       bnd (find_row users (\<lambda>u. usr_email u = SYSTEM_USER_EMAIL)) (\<lambda>existing. case existing of
         Some u \<Rightarrow> remember_user (usr_id u)
       | None \<Rightarrow>
         bnd fresh (\<lambda>i.
         bnd (insert_row users_update \<lparr>usr_id = i, usr_email = SYSTEM_USER_EMAIL, usr_passwordHash = Some ''!disabled!'',
                usr_emailVerified = True, usr_displayName = Some ''System (Payment Webhooks)'', usr_isActive = False\<rparr>)
           (\<lambda>created. remember_user (usr_id created)))))"

section \<open>The transaction of an event\<close>

definition same_transaction :: "id \<Rightarrow> string \<Rightarrow> payment_transaction \<Rightarrow> bool" where
  "same_transaction providerId ref x \<longleftrightarrow> pt_providerId x = providerId \<and> pt_providerTransactionId x = Some ref"

text \<open>The customer a new transaction is booked on: the subscriber, the linked payment customer, or else the
  first customer of the organisation.\<close>

definition customer_of_event ::
  "id \<Rightarrow> id \<Rightarrow> payment_event \<Rightarrow> id option \<Rightarrow> 'z pay_db_scheme \<Rightarrow> id option" where
  "customer_of_event providerId org event subscriptionId s =
     (let c1 = (case subscriptionId of None \<Rightarrow> None
                | Some i \<Rightarrow> map_option sub_customerId (List.find (\<lambda>r. sub_id r = i) (subscriptions s)));
          c2 = (if c1 = None \<and> truthy (pe_externalCustomerId event)
                then map_option pcu_customerId (List.find
                  (\<lambda>c. pcu_providerId c = providerId \<and> Some (pcu_externalCustomerId c) = pe_externalCustomerId event)
                  (paymentCustomers s))
                else c1) in
      if c2 = None then map_option cust_id (List.find (\<lambda>c. cust_organizationId c = org) (customers s)) else c2)"

definition upsertTransaction ::
  "id \<Rightarrow> id \<Rightarrow> payment_event \<Rightarrow> id option \<Rightarrow> ('z pay_db_scheme, payment_transaction option) svc" where
  "upsertTransaction providerId org event subscriptionId =
     (case pe_externalTransactionId event of None \<Rightarrow> ret None | Some ref \<Rightarrow>
      if ref = [] then ret None
      else bnd (find_row paymentTransactions (same_transaction providerId ref)) (\<lambda>existing. case existing of
        Some x \<Rightarrow> ret (Some x)
      | None \<Rightarrow>
        if pe_amountMinor event = None \<or> \<not> truthy (pe_currency event) then ret None
        else bnd (gets (customer_of_event providerId org event subscriptionId)) (\<lambda>customer. case customer of
          None \<Rightarrow> ret None
        | Some c \<Rightarrow> bnd (int_column (the (pe_amountMinor event))) (\<lambda>amount. bnd fresh (\<lambda>i. bnd (insert_unique paymentTransactions paymentTransactions_update (same_transaction providerId ref)
            \<lparr>pt_id = i, pt_providerId = providerId, pt_customerId = c, pt_subscriptionId = subscriptionId,
             pt_amountMinor = amount, pt_currency = the (pe_currency event),
             pt_status = PaymentTransactionStatus.PENDING, pt_providerTransactionId = Some ref,
             pt_failureReason = None, pt_metadata = None\<rparr>) (\<lambda>x. ret (Some x)))))))"

definition set_transaction :: "id \<Rightarrow> (payment_transaction \<Rightarrow> payment_transaction) \<Rightarrow> ('z pay_db_scheme, unit) svc" where
  "set_transaction i f = seq (update_row paymentTransactions paymentTransactions_update (\<lambda>x. pt_id x = i) f) (ret ())"

section \<open>Payloads of the ledger\<close>

text \<open>One coupon's share: \<open>Math.round((amountMinor * percentOff) / 100)\<close>, or the fixed amount.\<close>

definition discount_of :: "int \<Rightarrow> coupon_row \<Rightarrow> int" where
  "discount_of amount c = (case cp_discountType c of
     FIXED \<Rightarrow> int (orElse (cp_amountOffMinor c) 0)
   | PERCENTAGE \<Rightarrow> math_round (fl (fl (of_int (amount * int (orElse (cp_percentOff c) 0))) / 100)))"

definition applied_coupons :: "id \<Rightarrow> 'z sub_db_scheme \<Rightarrow> coupon_row list" where
  "applied_coupons subId s = concat (map (\<lambda>x. filter (\<lambda>c. cp_id c = scp_couponId x) (coupons s))
     (filter (\<lambda>x. scp_subscriptionId x = subId \<and> scp_removedAt x = None) (subCoupons s)))"

definition computeDiscountMinor :: "id \<Rightarrow> int \<Rightarrow> 'z sub_db_scheme \<Rightarrow> int" where
  "computeDiscountMinor subId amount s = foldl (\<lambda>total c. total + discount_of amount c) 0 (applied_coupons subId s)"

definition buildPayload ::
  "payment_transaction \<Rightarrow> sub_row option \<Rightarrow> (string \<times> json) list \<Rightarrow> ('z pay_db_scheme, json) svc" where
  "buildPayload x sub extra =
     bnd (case sub of None \<Rightarrow> ret 0 | Some r \<Rightarrow> gets (computeDiscountMinor (sub_id r) (pt_amountMinor x))) (\<lambda>discountMinor.
     ret (JObj (extra @
       [(''transactionId'', JId (pt_id x)),
        (''providerTransactionId'', jnullable JStr (pt_providerTransactionId x)),
        (''providerId'', JId (pt_providerId x)), (''subscriptionId'', jnullable JId (map_option sub_id sub)),
        (''customerReference'', JId (pt_customerId x)), (''amountMinor'', JInt (pt_amountMinor x)),
        (''currency'', JStr (pt_currency x)), (''taxMinor'', JInt 0), (''discountMinor'', JInt discountMinor),
        (''description'', JStr (case sub of Some r \<Rightarrow> ''Subscription '' @ id_str (sub_id r)
                                | None \<Rightarrow> ''Transaction '' @ id_str (pt_id x))),
        (''method'', JStr ''provider''), (''reference'', jnullable JStr (pt_providerTransactionId x))])))"

definition event_refs :: "payment_transaction \<Rightarrow> sub_row option \<Rightarrow> fin_refs" where
  "event_refs x sub = \<lparr>fr_applicationId = map_option sub_applicationId sub, fr_customerId = Some (pt_customerId x),
     fr_subscriptionId = map_option sub_id sub\<rparr>"

definition bus_refs :: "id \<Rightarrow> payment_transaction \<Rightarrow> sub_row option \<Rightarrow> publish_refs" where
  "bus_refs org x sub = \<lparr>ref_organizationId = Some org, ref_applicationId = map_option sub_applicationId sub,
     ref_customerId = Some (pt_customerId x)\<rparr>"

text \<open>\<open>await financialEventsService.record(...)\<close> and \<open>await platformEventsService.publish(...)\<close>, results ignored.\<close>

definition book ::
  "id \<Rightarrow> FinancialEventType \<Rightarrow> payment_transaction \<Rightarrow> sub_row option \<Rightarrow> (string \<times> json) list \<Rightarrow> id option \<Rightarrow> string
   \<Rightarrow> ('z pay_db_scheme, unit) svc" where
  "book org type x sub extra userId key =
     bnd (buildPayload x sub extra) (\<lambda>payload.
     seq (record_event org type payload (event_refs x sub) userId no_meta (Some key)) (ret ()))"

definition announce ::
  "id \<Rightarrow> string \<Rightarrow> (string \<times> json) list \<Rightarrow> payment_transaction \<Rightarrow> sub_row option \<Rightarrow> ('z pay_db_scheme, unit) svc" where
  "announce org type payload x sub = seq (publish type payload (bus_refs org x sub) None) (ret ())"

definition payment_facts :: "payment_transaction \<Rightarrow> (string \<times> json) list" where
  "payment_facts x = [(''transactionId'', JId (pt_id x)), (''amountMinor'', JInt (pt_amountMinor x)),
     (''currency'', JStr (pt_currency x))]"

section \<open>Recording\<close>

definition pre_activation :: "SubscriptionStatus \<Rightarrow> bool" where
  "pre_activation st \<longleftrightarrow> st \<in> {SubscriptionStatus.INCOMPLETE, SubscriptionStatus.TRIALING}"

definition active_like :: "SubscriptionStatus \<Rightarrow> bool" where
  "active_like st \<longleftrightarrow> st \<in> {SubscriptionStatus.ACTIVE, SubscriptionStatus.PAST_DUE, SubscriptionStatus.GRACE_PERIOD}"

definition recoverOrRenew :: "id \<Rightarrow> SubscriptionStatus \<Rightarrow> id \<Rightarrow> ('z pay_db_scheme, unit) svc" where
  "recoverOrRenew subId status systemUserId =
     (if pre_activation status then seq (sub_activate subId systemUserId no_options) (ret ())
      else when_do (active_like status) (seq (sub_renew subId systemUserId no_options) (ret ())))"

definition payment_key :: "id \<Rightarrow> string" where
  "payment_key i = ''payment_succeeded:'' @ id_str i"

definition recordPaymentSucceeded ::
  "id \<Rightarrow> id \<Rightarrow> payment_transaction \<Rightarrow> sub_row option \<Rightarrow> SubscriptionStatus option \<Rightarrow> ('z pay_db_scheme, unit) svc" where
  "recordPaymentSucceeded org providerId x sub preStatus =
     bnd (find_row paymentProviders (\<lambda>p. pp_id p = providerId)) (\<lambda>provider.
     let manual = (case provider of None \<Rightarrow> False
                   | Some p \<Rightarrow> pp_type p \<in> {PaymentProviderType.MANUAL, PaymentProviderType.BANK_TRANSFER});
         isInitial = (case preStatus of None \<Rightarrow> False | Some st \<Rightarrow> pre_activation st) in
     book org (if isInitial then FinancialEventType.SUBSCRIPTION_ACTIVATED else FinancialEventType.SUBSCRIPTION_RENEWED)
       x sub [(''reason'', JStr (if manual then ''manual_confirmation'' else if isInitial then ''initial_payment'' else ''renewal''))]
       None (payment_key (pt_id x)))"

definition recordRenewalWithoutTransaction ::
  "pay_world \<Rightarrow> id \<Rightarrow> sub_row \<Rightarrow> SubscriptionStatus \<Rightarrow> id \<Rightarrow> ('z pay_db_scheme, unit) svc" where
  "recordRenewalWithoutTransaction w org sub preStatus systemUserId =
     (let periodKey = toISOString (orElse (sub_currentPeriodEnd sub) (pwo_updatedAt w sub)) in
      seq (record_event org
        (if pre_activation preStatus then FinancialEventType.SUBSCRIPTION_ACTIVATED else FinancialEventType.SUBSCRIPTION_RENEWED)
        (JObj [(''reason'', JStr (if pre_activation preStatus then ''initial_payment'' else ''renewal'')),
               (''subscriptionId'', JId (sub_id sub)),
               (''currentPeriodEnd'', jnullable (\<lambda>t. JStr (toISOString t)) (sub_currentPeriodEnd sub))])
        \<lparr>fr_applicationId = Some (sub_applicationId sub), fr_customerId = Some (sub_customerId sub),
         fr_subscriptionId = Some (sub_id sub)\<rparr>
        (Some systemUserId) no_meta (Some (''subscription_renewed:'' @ id_str (sub_id sub) @ '':'' @ periodKey))) (ret ()))"

definition refund_key :: "id \<Rightarrow> string" where
  "refund_key i = ''refund:'' @ id_str i"

definition applyRefund ::
  "id \<Rightarrow> payment_transaction \<Rightarrow> sub_row option \<Rightarrow> payment_event \<Rightarrow> id \<Rightarrow> ('z pay_db_scheme, unit) svc" where
  "applyRefund org x sub event systemUserId =
     bnd (int_column (orElse (pe_amountMinor event) (Some (of_int (pt_amountMinor x))))) (\<lambda>refundAmount.
      let isFull = pt_amountMinor x \<le> refundAmount in
      bnd fresh (\<lambda>i.
      bnd (insert_row paymentRefunds_update \<lparr>pf_id = i, pf_transactionId = pt_id x, pf_amountMinor = refundAmount,
             pf_currency = orElse (pe_currency event) (pt_currency x), pf_reason = None,
             pf_status = PaymentRefundStatus.SUCCEEDED, pf_providerRefundId = Some (pe_externalEventId event),
             pf_createdById = None\<rparr>) (\<lambda>refund.
      seq (set_transaction (pt_id x) (\<lambda>y. y\<lparr>pt_status := (if isFull then PaymentTransactionStatus.REFUNDED
                                                           else PaymentTransactionStatus.PARTIALLY_REFUNDED)\<rparr>))
      (seq (book org (if isFull then REFUND_ISSUED else REFUND_PARTIAL) x sub
              [(''reason'', JStr (if isFull then ''refund'' else ''partial_refund'')), (''refundId'', JId (pf_id refund)),
               (''refundAmountMinor'', JInt refundAmount)] (Some systemUserId) (refund_key (pf_id refund)))
      (announce org ''REFUND_CREATED'' [(''transactionId'', JId (pt_id x)), (''refundId'', JId (pf_id refund)),
         (''amountMinor'', JInt refundAmount)] x sub)))))"

definition applyChargeback ::
  "id \<Rightarrow> payment_transaction \<Rightarrow> sub_row option \<Rightarrow> payment_event \<Rightarrow> id \<Rightarrow> ('z pay_db_scheme, unit) svc" where
  "applyChargeback org x sub event systemUserId =
     bnd (int_column (orElse (pe_amountMinor event) (Some 0))) (\<lambda>amount.
     bnd fresh (\<lambda>i.
     bnd now (\<lambda>t.
     bnd (insert_row paymentDisputes_update \<lparr>pd_id = i, pd_transactionId = pt_id x,
            pd_providerDisputeId = pe_externalEventId event, pd_amountMinor = amount,
            pd_currency = orElse (pe_currency event) (pt_currency x), pd_status = OPEN, pd_createdAt = t\<rparr>) (\<lambda>dispute.
     seq (set_transaction (pt_id x) (\<lambda>y. y\<lparr>pt_status := CHARGEBACK\<rparr>))
     (seq (book org FinancialEventType.CHARGEBACK_CREATED x sub
             [(''reason'', JStr ''chargeback''), (''disputeId'', JId (pd_id dispute)),
              (''chargebackAmountMinor'', JInt (pd_amountMinor dispute))] (Some systemUserId) (''chargeback:'' @ id_str (pd_id dispute)))
     (announce org ''CHARGEBACK_CREATED'' [(''transactionId'', JId (pt_id x)), (''disputeId'', JId (pd_id dispute)),
        (''amountMinor'', JInt (pd_amountMinor dispute))] x sub))))))"

text \<open>\<open>findFirst ... orderBy createdAt desc\<close>.\<close>

definition latest_dispute :: "id \<Rightarrow> 'z pay_db_scheme \<Rightarrow> payment_dispute option" where
  "latest_dispute transactionId s = List.find (\<lambda>d. pd_transactionId d = transactionId)
     (order_by (\<lambda>d. - pd_createdAt d) (paymentDisputes s))"

definition dispute_status :: "dispute_resolution option \<Rightarrow> PaymentDisputeStatus" where
  "dispute_status r = (if r = Some WON then PaymentDisputeStatus.WON
     else if r = Some LOST then PaymentDisputeStatus.LOST else PaymentDisputeStatus.UNDER_REVIEW)"

definition applyDisputeUpdate ::
  "id \<Rightarrow> payment_transaction \<Rightarrow> sub_row option \<Rightarrow> payment_event \<Rightarrow> id \<Rightarrow> ('z pay_db_scheme, unit) svc" where
  "applyDisputeUpdate org x sub event systemUserId =
     bnd (gets (latest_dispute (pt_id x))) (\<lambda>r. case r of None \<Rightarrow> ret ()
     | Some dispute \<Rightarrow>
       let status = dispute_status (pe_disputeStatus event) in
       seq (update_row paymentDisputes paymentDisputes_update (\<lambda>d. pd_id d = pd_id dispute) (\<lambda>d. d\<lparr>pd_status := status\<rparr>))
       (when_do (status = PaymentDisputeStatus.WON)
         (seq (set_transaction (pt_id x) (\<lambda>y. y\<lparr>pt_status := PaymentTransactionStatus.SUCCEEDED\<rparr>))
         (book org FinancialEventType.CHARGEBACK_REVERSED x sub
            [(''reason'', JStr ''chargeback_reversed''), (''disputeId'', JId (pd_id dispute))] (Some systemUserId)
            (''chargeback_reversed:'' @ id_str (pd_id dispute))))))"

section \<open>Dispatch\<close>

text \<open>The subscription of an event, and the one its transaction points to.\<close>

definition event_subscription :: "id \<Rightarrow> payment_event \<Rightarrow> 'z sub_db_scheme \<Rightarrow> sub_row option" where
  "event_subscription org event s =
     (if truthy (pe_externalSubscriptionId event)
      then List.find (\<lambda>r. sub_organizationId r = org \<and> sub_providerSubscriptionId r = pe_externalSubscriptionId event) (subscriptions s)
      else None)"

definition linked_subscription ::
  "sub_row option \<Rightarrow> payment_transaction option \<Rightarrow> 'z sub_db_scheme \<Rightarrow> sub_row option" where
  "linked_subscription sub paid s = (case (sub, paid) of
     (None, Some x) \<Rightarrow> (case pt_subscriptionId x of None \<Rightarrow> None
        | Some i \<Rightarrow> List.find (\<lambda>r. sub_id r = i) (subscriptions s))
   | _ \<Rightarrow> sub)"

definition on_transaction ::
  "payment_transaction option \<Rightarrow> (payment_transaction \<Rightarrow> ('s, unit) svc) \<Rightarrow> ('s, unit) svc" where
  "on_transaction x f = (case x of None \<Rightarrow> ret () | Some y \<Rightarrow> f y)"

definition on_subscription :: "sub_row option \<Rightarrow> (sub_row \<Rightarrow> bool) \<Rightarrow> (sub_row \<Rightarrow> ('s, unit) svc) \<Rightarrow> ('s, unit) svc" where
  "on_subscription r P f = (case r of None \<Rightarrow> ret () | Some sub \<Rightarrow> when_do (P sub) (f sub))"

definition payment_succeeded ::
  "id \<Rightarrow> id \<Rightarrow> payment_transaction option \<Rightarrow> sub_row option \<Rightarrow> id \<Rightarrow> ('z pay_db_scheme, unit) svc" where
  "payment_succeeded providerId org paid sub systemUserId =
     seq (on_transaction paid (\<lambda>x. set_transaction (pt_id x) (\<lambda>y. y\<lparr>pt_status := PaymentTransactionStatus.SUCCEEDED\<rparr>)))
     (seq (on_subscription sub (\<lambda>_. True) (\<lambda>r. recoverOrRenew (sub_id r) (sub_status r) systemUserId))
     (on_transaction paid (\<lambda>x.
        seq (recordPaymentSucceeded org providerId x sub (map_option sub_status sub))
            (announce org ''PAYMENT_SUCCEEDED'' (payment_facts x) x sub))))"

definition payment_failed ::
  "id \<Rightarrow> payment_event \<Rightarrow> payment_transaction option \<Rightarrow> sub_row option \<Rightarrow> id \<Rightarrow> ('z pay_db_scheme, unit) svc" where
  "payment_failed org event paid sub systemUserId =
     seq (on_transaction paid (\<lambda>x. set_transaction (pt_id x)
            (\<lambda>y. y\<lparr>pt_status := PaymentTransactionStatus.FAILED, pt_failureReason := Some ''provider_reported_failure''\<rparr>)))
     (seq (on_subscription sub (\<lambda>r. sub_status r = SubscriptionStatus.ACTIVE)
            (\<lambda>r. seq (sub_markPastDue (sub_id r) systemUserId no_options) (ret ())))
     (on_transaction paid (\<lambda>x.
        seq (book org FinancialEventType.PAYMENT_FAILED x sub [(''reason'', JStr ''payment_failed'')] (Some systemUserId)
               (''payment_failed:'' @ id_str (pt_id x) @ '':'' @ pe_externalEventId event))
            (announce org ''PAYMENT_FAILED'' (payment_facts x) x sub))))"

definition plain_cancel :: cancel_dto where
  "plain_cancel = \<lparr>cd_options = no_options, cd_atPeriodEnd = False, cd_reason = None\<rparr>"

fun apply_payment_event ::
  "pay_world \<Rightarrow> id \<Rightarrow> id \<Rightarrow> payment_event \<Rightarrow> payment_transaction option \<Rightarrow> sub_row option \<Rightarrow> id
   \<Rightarrow> payment_event_type \<Rightarrow> ('z pay_db_scheme, unit) svc" where
  "apply_payment_event w providerId org event paid sub u PAYMENT_SUCCEEDED =
     payment_succeeded providerId org paid sub u"
| "apply_payment_event w providerId org event paid sub u PAYMENT_FAILED = payment_failed org event paid sub u"
| "apply_payment_event w providerId org event paid sub u SUBSCRIPTION_RENEWED =
     on_subscription sub (\<lambda>_. True) (\<lambda>r. seq (recoverOrRenew (sub_id r) (sub_status r) u)
       (when_do (paid = None) (recordRenewalWithoutTransaction w org r (sub_status r) u)))"
| "apply_payment_event w providerId org event paid sub u SUBSCRIPTION_CANCELED =
     on_subscription sub (\<lambda>r. sub_status r \<noteq> SubscriptionStatus.CANCELED)
       (\<lambda>r. seq (sub_cancel (sub_id r) u plain_cancel no_meta) (ret ()))"
| "apply_payment_event w providerId org event paid sub u SUBSCRIPTION_EXPIRED =
     on_subscription sub (\<lambda>r. sub_status r \<noteq> SubscriptionStatus.EXPIRED)
       (\<lambda>r. seq (sub_expire (sub_id r) u no_options) (ret ()))"
| "apply_payment_event w providerId org event paid sub u SUBSCRIPTION_PAST_DUE =
     on_subscription sub (\<lambda>r. sub_status r = SubscriptionStatus.ACTIVE)
       (\<lambda>r. seq (sub_markPastDue (sub_id r) u no_options) (ret ()))"
| "apply_payment_event w providerId org event paid sub u REFUND_CREATED =
     on_transaction paid (\<lambda>x. applyRefund org x sub event u)"
| "apply_payment_event w providerId org event paid sub u REFUND_COMPLETED =
     on_transaction paid (\<lambda>x. applyRefund org x sub event u)"
| "apply_payment_event w providerId org event paid sub u CHARGEBACK_CREATED =
     on_transaction paid (\<lambda>x. applyChargeback org x sub event u)"
| "apply_payment_event w providerId org event paid sub u DISPUTE_UPDATED =
     on_transaction paid (\<lambda>x. when_do (pe_disputeStatus event \<noteq> None) (applyDisputeUpdate org x sub event u))"
| "apply_payment_event w providerId org event paid sub u PAYMENT_PENDING = ret ()"
| "apply_payment_event w providerId org event paid sub u SUBSCRIPTION_CREATED = ret ()"
| "apply_payment_event w providerId org event paid sub u UNKNOWN = ret ()"

definition dispatch :: "pay_world \<Rightarrow> id \<Rightarrow> id \<Rightarrow> payment_event \<Rightarrow> ('z pay_db_scheme, unit) svc" where
  "dispatch w providerId org event =
     bnd (gets (event_subscription org event)) (\<lambda>subscription.
     bnd (upsertTransaction providerId org event (map_option sub_id subscription)) (\<lambda>paid.
     bnd (gets (linked_subscription subscription paid)) (\<lambda>sub.
     bnd getSystemUserId (\<lambda>systemUserId.
     apply_payment_event w providerId org event paid sub systemUserId (pe_type event)))))"

section \<open>The webhook pipeline\<close>

definition same_webhook :: "id \<Rightarrow> string \<Rightarrow> payment_webhook \<Rightarrow> bool" where
  "same_webhook providerId eventId h \<longleftrightarrow> pw_providerId h = providerId \<and> pw_externalEventId h = eventId"

definition settle_webhook :: "id \<Rightarrow> (payment_webhook \<Rightarrow> payment_webhook) \<Rightarrow> ('z pay_db_scheme, unit) svc" where
  "settle_webhook i f = seq (update_row paymentWebhooks paymentWebhooks_update (\<lambda>h. pw_id h = i) f) (ret ())"

definition webhook_row :: "id \<Rightarrow> id \<Rightarrow> payment_event \<Rightarrow> payment_webhook" where
  "webhook_row i providerId event =
     \<lparr>pw_id = i, pw_providerId = providerId, pw_externalEventId = pe_externalEventId event,
      pw_eventType = pe_type event, pw_normalizedType = Some (pe_type event), pw_payload = pe_raw event,
      pw_signatureValid = True, pw_status = VERIFIED, pw_error = None,
      pw_relatedTransactionId = pe_externalTransactionId event,
      pw_relatedSubscriptionId = pe_externalSubscriptionId event, pw_processedAt = None\<rparr>"

text \<open>One event of a delivery; the result says whether \<open>processed\<close> is incremented.\<close>

definition handle_event :: "pay_world \<Rightarrow> id \<Rightarrow> id \<Rightarrow> payment_event \<Rightarrow> ('z pay_db_scheme, bool) svc" where
  "handle_event w providerId org event =
     bnd (find_row paymentWebhooks (same_webhook providerId (pe_externalEventId event))) (\<lambda>existing.
     if map_option pw_status existing = Some PROCESSED then ret False
     else
       bnd (case existing of Some h \<Rightarrow> ret h
            | None \<Rightarrow> bnd fresh (\<lambda>i. insert_unique paymentWebhooks paymentWebhooks_update
                (same_webhook providerId (pe_externalEventId event)) (webhook_row i providerId event))) (\<lambda>webhookRow.
       try_catch
         (bnd (dispatch w providerId org event) (\<lambda>_.
          bnd now (\<lambda>t.
          seq (settle_webhook (pw_id webhookRow) (\<lambda>h. h\<lparr>pw_status := PROCESSED, pw_processedAt := Some t\<rparr>)) (ret True))))
         (\<lambda>error. seq (settle_webhook (pw_id webhookRow)
            (\<lambda>h. h\<lparr>pw_status := PaymentWebhookStatus.FAILED, pw_error := Some (exn_message error)\<rparr>)) (ret False))))"

fun handle_events :: "pay_world \<Rightarrow> id \<Rightarrow> id \<Rightarrow> payment_event list \<Rightarrow> ('z pay_db_scheme, nat) svc" where
  "handle_events w providerId org [] = ret 0"
| "handle_events w providerId org (event # events) =
     bnd (handle_event w providerId org event) (\<lambda>b.
     bnd (handle_events w providerId org events) (\<lambda>n. ret ((if b then 1 else 0) + n)))"

definition handleIncoming ::
  "pay_world \<Rightarrow> id \<Rightarrow> string \<Rightarrow> (string \<times> string) list \<Rightarrow> ('z pay_db_scheme, nat \<times> nat) svc" where
  "handleIncoming w providerId rawBody headers =
     bnd (resolve_provider w providerId) (\<lambda>p.
     case ad_verifyWebhook (rp_adapter p) rawBody headers (rp_credentials p) of
       Inl message \<Rightarrow> throw (JsError message)
     | Inr signatureValid \<Rightarrow>
     seq (guard_or signatureValid (UnauthorizedException ''Invalid webhook signature''))
     (case ad_normalizeWebhookEvent (rp_adapter p) rawBody headers of
        Inl message \<Rightarrow> throw (JsError message)
      | Inr events \<Rightarrow> bnd (handle_events w providerId (rp_organizationId p) events) (\<lambda>processed.
          ret (length events, processed))))"

section \<open>Manual transactions and refunds\<close>

definition pay_getOwned :: "id \<Rightarrow> id \<Rightarrow> ('z pay_db_scheme, payment_transaction) svc" where
  "pay_getOwned transactionId org =
     bnd (find_row paymentTransactions (\<lambda>x. pt_id x = transactionId)) (\<lambda>r. case r of
       None \<Rightarrow> throw (NotFoundException ''Transaction not found'')
     | Some x \<Rightarrow> bnd (find_or_throw customers (\<lambda>c. cust_id c = pt_customerId x)) (\<lambda>customer.
         seq (guard_or (cust_organizationId customer = org) (NotFoundException ''Transaction not found'')) (ret x)))"

record manual_dto =
  md_providerId :: id
  md_customerId :: id
  md_subscriptionId :: "id option"
  md_amountMinor :: int
  md_currency :: string
  md_metadata :: "json option"

text \<open>\<open>suffix\<close> is the random part of the generated reference.\<close>

definition createManual :: "string \<Rightarrow> id \<Rightarrow> manual_dto \<Rightarrow> ('z pay_db_scheme, payment_transaction) svc" where
  "createManual suffix org dto =
     bnd (find_or_throw customers (\<lambda>c. cust_id c = md_customerId dto)) (\<lambda>customer.
     seq (guard_or (cust_organizationId customer = org) (NotFoundException ''Customer not found in this organization''))
     (bnd now (\<lambda>t.
      let ref = ''manual_'' @ int_str t @ ''_'' @ suffix in
      bnd fresh (\<lambda>i. insert_unique paymentTransactions paymentTransactions_update (same_transaction (md_providerId dto) ref)
        \<lparr>pt_id = i, pt_providerId = md_providerId dto, pt_customerId = md_customerId dto,
         pt_subscriptionId = md_subscriptionId dto, pt_amountMinor = md_amountMinor dto,
         pt_currency = map upper (md_currency dto), pt_status = PaymentTransactionStatus.PENDING,
         pt_providerTransactionId = Some ref, pt_failureReason = None, pt_metadata = md_metadata dto\<rparr>))))"

definition manual_event :: "payment_transaction \<Rightarrow> string \<Rightarrow> string option \<Rightarrow> time \<Rightarrow> payment_event" where
  "manual_event x ref subRef t =
     \<lparr>pe_type = PAYMENT_SUCCEEDED, pe_externalEventId = ''manual_success_'' @ id_str (pt_id x),
      pe_externalCustomerId = None, pe_externalSubscriptionId = subRef, pe_externalTransactionId = Some ref,
      pe_amountMinor = Some (Some (of_int (pt_amountMinor x))), pe_currency = Some (pt_currency x), pe_disputeStatus = None,
      pe_occurredAt = t, pe_raw = JObj []\<rparr>"

definition markSucceeded :: "pay_world \<Rightarrow> id \<Rightarrow> id \<Rightarrow> ('z pay_db_scheme, payment_transaction) svc" where
  "markSucceeded w transactionId org =
     bnd (pay_getOwned transactionId org) (\<lambda>x.
     seq (guard_or (truthy (pt_providerTransactionId x)) (NotFoundException ''Transaction has no provider reference''))
     (bnd (gets (\<lambda>s. case pt_subscriptionId x of None \<Rightarrow> None
             | Some i \<Rightarrow> List.find (\<lambda>r. sub_id r = i) (subscriptions s))) (\<lambda>subscription.
      bnd now (\<lambda>t.
      seq (dispatch w (pt_providerId x) org (manual_event x (the (pt_providerTransactionId x))
             (case subscription of None \<Rightarrow> None | Some r \<Rightarrow> sub_providerSubscriptionId r) t))
          (pay_getOwned transactionId org)))))"

definition call_refund :: "adapter \<Rightarrow> refund_input \<Rightarrow> ('z pay_db_scheme, string \<times> PaymentRefundStatus) svc" where
  "call_refund a x = bnd (gets refundCalls) (\<lambda>sent.
     seq (modify (refundCalls_update (\<lambda>cs. cs @ [x])))
       (case ad_refund a sent x of Inl message \<Rightarrow> throw (JsError message) | Inr r \<Rightarrow> ret r))"

definition refund_create ::
  "pay_world \<Rightarrow> id \<Rightarrow> id \<Rightarrow> id \<Rightarrow> int option \<Rightarrow> string option \<Rightarrow> request_meta \<Rightarrow> ('z pay_db_scheme, payment_refund) svc" where
  "refund_create w transactionId org userId amount reason meta =
     bnd (pay_getOwned transactionId org) (\<lambda>x.
     bnd (resolve_provider w (pt_providerId x)) (\<lambda>p.
     seq (guard_or (truthy (pt_providerTransactionId x)) (NotFoundException ''Transaction has no provider reference to refund''))
     (bnd (call_refund (rp_adapter p) \<lparr>ri_externalTransactionId = the (pt_providerTransactionId x), ri_amountMinor = amount,
             ri_reason = reason, ri_credentials = rp_credentials p, ri_account = rp_account p\<rparr>) (\<lambda>(externalRefundId, status).
      bnd fresh (\<lambda>i.
      bnd (insert_row paymentRefunds_update \<lparr>pf_id = i, pf_transactionId = transactionId,
             pf_amountMinor = orElse amount (pt_amountMinor x), pf_currency = pt_currency x, pf_reason = reason,
             pf_status = (if status = PaymentRefundStatus.SUCCEEDED then PaymentRefundStatus.SUCCEEDED
                else if status = PaymentRefundStatus.FAILED then PaymentRefundStatus.FAILED else PaymentRefundStatus.PENDING),
             pf_providerRefundId = Some externalRefundId, pf_createdById = Some userId\<rparr>) (\<lambda>refund.
      seq (when_do (status = PaymentRefundStatus.SUCCEEDED) (set_transaction transactionId
             (\<lambda>y. y\<lparr>pt_status := (if pt_amountMinor x \<le> orElse amount (pt_amountMinor x)
                then PaymentTransactionStatus.REFUNDED else PaymentTransactionStatus.PARTIALLY_REFUNDED)\<rparr>)))
      (seq (audit ''PAYMENT_REFUND_CREATED'' (Some userId) (Some org) None
              [(''transactionId'', JId transactionId), (''refundId'', JId (pf_id refund))] meta)
           (ret refund))))))))"

end
