(* ===== verification/Payment_Flow.thy ===== *)
theory Payment_Flow
  imports Payments
begin

section \<open>Payments move subscriptions only through the state machine\<close>

lemma lawful_pay_update:
  "lawful (update_row paymentTransactions paymentTransactions_update P f)"
  "lawful (update_row paymentWebhooks paymentWebhooks_update P' f')"
  "lawful (update_row paymentDisputes paymentDisputes_update P'' f'')"
  by (intro lawful_update_row; simp)+

lemma lawful_pay_insert:
  "lawful (insert_row users_update a)" "lawful (insert_row paymentRefunds_update b)" "lawful (insert_row paymentDisputes_update c)"
  "lawful (insert_unique paymentTransactions paymentTransactions_update clash d)"
  "lawful (insert_unique paymentWebhooks paymentWebhooks_update clash' e)"
  by (intro lawful_insert; simp)+

lemma lawful_pay_modify:
  "lawful (modify (cachedUserId_update f))" "lawful (modify (refundCalls_update g))"
  by (intro lawful_modify; simp)+

lemma lawful_int_column: "lawful (int_column a)"
  unfolding int_column_def by (cases a; simp; intro law conjI impI)

lemma leaves_int_column: "leaves v (int_column a)"
  unfolding int_column_def by (cases a; simp; intro leaves_intro conjI impI)

lemma wps_int_column [wp]: "wps (int_column n) Q s \<longleftrightarrow>
    (case n of Some x \<Rightarrow> if of_int \<lfloor>x\<rfloor> = x then Q (Inr \<lfloor>x\<rfloor>) s
        else Q (Inl (JsError ''Invalid value provided. Expected Int, provided Float.'')) s
     | None \<Rightarrow> Q (Inl (JsError ''Invalid value provided. Expected Int, provided Float.'')) s)"
  by (simp add: int_column_def wp split: option.split)

lemma wps_bnd_int: "n = Some (of_int a) \<Longrightarrow> wps (bnd (int_column n) k) Q s \<longleftrightarrow> wps (k a) Q s"
  by (simp add: wps_bnd wps_int_column)

lemmas pay_law = law lawful_int_column lawful_pay_update lawful_pay_insert lawful_pay_modify

lemma lawful_system_user: "lawful getSystemUserId"
  unfolding getSystemUserId_def remember_user_def by (intro pay_law)

lemma lawful_upsert: "lawful (upsertTransaction providerId org event subId)"
  unfolding upsertTransaction_def by (intro pay_law)

lemma lawful_book: "lawful (book org type x sub extra u key)"
  unfolding book_def buildPayload_def by (intro pay_law)

lemma lawful_announce: "lawful (announce org type payload x sub)"
  unfolding announce_def by (intro pay_law)

lemma lawful_recover: "lawful (recoverOrRenew i st u)"
  unfolding recoverOrRenew_def by (intro pay_law)

lemmas pay_parts = lawful_system_user lawful_upsert lawful_book lawful_announce lawful_recover

lemma lawful_on:
  "(\<And>y. lawful (f y)) \<Longrightarrow> lawful (on_transaction x f)"
  "(\<And>y. lawful (g y)) \<Longrightarrow> lawful (on_subscription r P g)"
  unfolding on_transaction_def on_subscription_def by (intro pay_law; simp)+

lemma lawful_set_transaction: "lawful (set_transaction i f)"
  unfolding set_transaction_def by (intro pay_law)

lemma lawful_steps:
  "lawful (recordPaymentSucceeded org providerId x sub st)" "lawful (recordRenewalWithoutTransaction w org r st' u)"
  "lawful (applyRefund org x sub event u)" "lawful (applyChargeback org x sub event u)"
  "lawful (applyDisputeUpdate org x sub event u)"
  unfolding recordPaymentSucceeded_def recordRenewalWithoutTransaction_def applyRefund_def applyChargeback_def
    applyDisputeUpdate_def Let_def
  by (intro pay_law pay_parts lawful_set_transaction)+

lemma lawful_event: "lawful (apply_payment_event w providerId org event x sub u ty)"
  by (cases ty; simp add: payment_succeeded_def payment_failed_def;
      intro pay_law pay_parts lawful_on lawful_steps lawful_set_transaction)

lemma lawful_dispatch: "lawful (dispatch w providerId org event)"
  unfolding dispatch_def by (intro pay_law pay_parts lawful_event)

lemma lawful_handle_event: "lawful (handle_event w providerId org event)"
  unfolding handle_event_def settle_webhook_def by (intro pay_law lawful_dispatch)

lemma lawful_handle_events: "lawful (handle_events w providerId org events)"
proof (induction events)
  case (Cons e es)
  then show ?case by (auto intro: pay_law lawful_handle_event)
qed (simp add: law)

lemma lawful_resolve: "lawful (resolve_provider w providerId)"
  unfolding resolve_provider_def getAdapter_def resolveForAdapter_def resolveAccount_def
  by (intro pay_law; simp split: sum.split; intro conjI allI impI pay_law)

lemma lawful_incoming: "lawful (handleIncoming w providerId body headers)"
  unfolding handleIncoming_def
  by (intro pay_law lawful_resolve; simp split: sum.split; intro conjI allI impI pay_law lawful_handle_events)

lemma lawful_markSucceeded: "lawful (markSucceeded w i org)"
  unfolding markSucceeded_def pay_getOwned_def by (intro pay_law lawful_dispatch)


inductive pay_reaches :: "'z pay_db_scheme \<Rightarrow> 'z pay_db_scheme \<Rightarrow> bool" for s0 where
  start: "pay_reaches s0 s0"
| webhook: "pay_reaches s0 s \<Longrightarrow> pay_reaches s0 (snd (handleIncoming w providerId body headers s))"
| manual: "pay_reaches s0 s \<Longrightarrow> pay_reaches s0 (snd (markSucceeded w i org s))"
| lifecycle: "pay_reaches s0 s \<Longrightarrow> pay_reaches s0 (perform c s)"

lemma pay_reaches_lc: "pay_reaches s0 s \<Longrightarrow> fresh_ids s0 \<Longrightarrow> lc_step s0 s"
proof (induction rule: pay_reaches.induct)
  case start
  then show ?case by (rule lc_refl)
next
  case (webhook s w providerId body headers)
  then show ?case by (meson lawful_D lawful_incoming lc_fresh lc_trans)
next
  case (manual s w i org)
  then show ?case by (meson lawful_D lawful_markSucceeded lc_fresh lc_trans)
next
  case (lifecycle s c)
  then show ?case by (meson perform_lawful lc_fresh lc_trans)
qed

text \<open>
  C28. Only the subscription engine changes subscription statuses. Whatever webhooks arrive, with whatever
  events and errors in the middle, whatever payments are confirmed by hand and whatever calls the
  subscription service gets in between, the statuses are the replay of the appended lifecycle events,
  each of which the status graph allows.
\<close>

theorem payments_obey_lifecycle:
  assumes "fresh_ids s0" and "pay_reaches s0 s"
  shows "\<exists>es. subEvents s = subEvents s0 @ es \<and> status_of s = replay (status_of s0) es \<and> legal_run (status_of s0) es"
  using pay_reaches_lc [OF assms(2,1)] by (simp add: lc_step_def)

section \<open>A processed delivery is not processed again\<close>

text \<open>What the pipeline reads and no handler of an event writes.\<close>

definition pipeline :: "'z pay_db_scheme \<Rightarrow>
    payment_webhook list \<times> payment_provider list \<times> provider_credential list \<times> provider_account list" where
  "pipeline s = (paymentWebhooks s, paymentProviders s, providerCredentials s, providerAccounts s)"

lemma aside_platform: "leaves pipeline fresh" "leaves pipeline now" "leaves pipeline (audit act u org app mdata meta)"
  "leaves pipeline (publish ty payload refs corr)" "leaves pipeline (record_event org1 type payload1 refs1 u1 m key)"
  by (rule leaves_platform leaves_record; simp add: pipeline_def)+

lemma aside_run: "(\<And>sub tr. leaves pipeline (compute sub tr)) \<Longrightarrow> leaves pipeline (runTransition i options u compute)"
  unfolding runTransition_def run_with_info_def transition_body_def plan_reference_def when_do_def publish_transition_def find_sub_def find_key_event_def
    assertTransition_def create_event_def
  by (intro leaves_all aside_platform; simp add: pipeline_def)

lemma aside_lifecycle:
  "leaves pipeline (sub_activate i u o1)" "leaves pipeline (sub_renew i u o1)" "leaves pipeline (sub_markPastDue i u o1)" "leaves pipeline (sub_expire i u o1)"
  unfolding sub_activate_def sub_renew_def sub_markPastDue_def sub_expire_def renew_period_def mark_applied_def
    set_trial_status_def find_item_def find_price_def Let_def
  by (intro aside_run leaves_all aside_platform; simp add: pipeline_def)+

lemma aside_cancel: "leaves pipeline (sub_cancel i u plain_cancel meta)"
  unfolding sub_cancel_def getOwnedById_def find_sub_def by (simp add: plain_cancel_def) (intro aside_run leaves_intro aside_platform)

lemma aside_dispatch: "leaves pipeline (dispatch w providerId org event)"
proof -
  have on: "(\<And>y. leaves pipeline (f y)) \<Longrightarrow> leaves pipeline (on_transaction x f)"
    "(\<And>y. leaves pipeline (g y)) \<Longrightarrow> leaves pipeline (on_subscription r P g)" for f g x r P
    unfolding on_transaction_def on_subscription_def by (intro leaves_intro; simp)+
  have set: "leaves pipeline (set_transaction i f)" for i f
    unfolding set_transaction_def by (intro leaves_all; simp add: pipeline_def)
  have book: "leaves pipeline (book org type x sub extra u key)" "leaves pipeline (announce org ty' payload x sub)" for org type x sub extra u key ty' payload
    unfolding book_def buildPayload_def announce_def by (intro leaves_all aside_platform)+
  have steps: "leaves pipeline (recordPaymentSucceeded org providerId x sub st)" "leaves pipeline (recordRenewalWithoutTransaction w org r st' u)"
    "leaves pipeline (applyRefund org x sub event u)" "leaves pipeline (applyChargeback org x sub event u)"
    "leaves pipeline (applyDisputeUpdate org x sub event u)" "leaves pipeline (recoverOrRenew i st1 u)" for x sub st r st' u i st1
    unfolding recordPaymentSucceeded_def recordRenewalWithoutTransaction_def applyRefund_def applyChargeback_def
      applyDisputeUpdate_def Let_def recoverOrRenew_def
    by (intro leaves_all leaves_int_column aside_platform aside_lifecycle set book; simp add: pipeline_def)+
  have "leaves pipeline (apply_payment_event w providerId org event x sub u ty)" for x sub u ty
    by (cases ty; simp add: payment_succeeded_def payment_failed_def;
        intro leaves_intro aside_lifecycle aside_cancel on set book steps)
  then show ?thesis
    unfolding dispatch_def getSystemUserId_def remember_user_def upsertTransaction_def
    by (intro leaves_all leaves_int_column aside_platform; simp add: pipeline_def)
qed


definition settled_event :: "id \<Rightarrow> 'z pay_db_scheme \<Rightarrow> payment_event \<Rightarrow> bool" where
  "settled_event providerId s event \<longleftrightarrow>
     map_option pw_status (List.find (same_webhook providerId (pe_externalEventId event)) (paymentWebhooks s)) = Some PROCESSED"

definition provider_config :: "'z pay_db_scheme \<Rightarrow> payment_provider list \<times> provider_credential list \<times> provider_account list" where
  "provider_config s = (paymentProviders s, providerCredentials s, providerAccounts s)"

lemma pipeline_eq:
  "pipeline s = pipeline s' \<longleftrightarrow> paymentWebhooks s = paymentWebhooks s' \<and> provider_config s = provider_config s'"
  by (auto simp: pipeline_def provider_config_def)

lemma find_settled:
  "List.find (same_webhook p k) (upd_where (\<lambda>h. pw_id h = i) (\<lambda>h. h\<lparr>pw_status := PROCESSED, pw_processedAt := t\<rparr>) ws)
   = map_option (\<lambda>h. if pw_id h = i then h\<lparr>pw_status := PROCESSED, pw_processedAt := t\<rparr> else h) (List.find (same_webhook p k) ws)"
  by (rule find_upd_where_keep) (simp add: same_webhook_def)

lemma settle_webhook_processed:
  assumes "settle_webhook i (\<lambda>h. h\<lparr>pw_status := PROCESSED, pw_processedAt := t\<rparr>) s = (Inr u, s')"
  shows "settled_event p s e \<Longrightarrow> settled_event p s' e"
    and "List.find (same_webhook p (pe_externalEventId e)) (paymentWebhooks s) = Some h \<Longrightarrow> pw_id h = i \<Longrightarrow> settled_event p s' e"
    and "provider_config s' = provider_config s"
proof -
  have "wps (settle_webhook i (\<lambda>h. h\<lparr>pw_status := PROCESSED, pw_processedAt := t\<rparr>)) (\<lambda>r s'. r = Inr u \<longrightarrow>
      paymentWebhooks s' = upd_where (\<lambda>h. pw_id h = i) (\<lambda>h. h\<lparr>pw_status := PROCESSED, pw_processedAt := t\<rparr>) (paymentWebhooks s)
      \<and> provider_config s' = provider_config s) s"
    by (simp add: settle_webhook_def wp provider_config_def split: option.split)
  from wps_D [OF this assms]
  have s': "paymentWebhooks s' = upd_where (\<lambda>h. pw_id h = i) (\<lambda>h. h\<lparr>pw_status := PROCESSED, pw_processedAt := t\<rparr>) (paymentWebhooks s)"
    and "provider_config s' = provider_config s" by simp_all
  then show "provider_config s' = provider_config s" by simp
  show "settled_event p s' e" if "settled_event p s e"
  proof -
    from that obtain z where "List.find (same_webhook p (pe_externalEventId e)) (paymentWebhooks s) = Some z"
      and "pw_status z = PROCESSED" by (auto simp: settled_event_def)
    then show ?thesis by (simp add: settled_event_def s' find_settled)
  qed
  show "List.find (same_webhook p (pe_externalEventId e)) (paymentWebhooks s) = Some h \<Longrightarrow> pw_id h = i \<Longrightarrow> settled_event p s' e"
    by (simp add: settled_event_def s' find_settled)
qed

lemma handle_event_True:
  assumes "handle_event w p org e s = (Inr True, s')"
  shows "settled_event p s' e \<and> (\<forall>e'. settled_event p s e' \<longrightarrow> settled_event p s' e') \<and> provider_config s' = provider_config s"
proof -
  let ?P = "same_webhook p (pe_externalEventId e)"
  let ?rest = "\<lambda>h. try_catch
         (bnd (dispatch w p org e) (\<lambda>_. bnd now (\<lambda>t.
          seq (settle_webhook (pw_id h) (\<lambda>h. h\<lparr>pw_status := PROCESSED, pw_processedAt := Some t\<rparr>)) (ret True))))
         (\<lambda>error. seq (settle_webhook (pw_id h)
            (\<lambda>h. h\<lparr>pw_status := PaymentWebhookStatus.FAILED, pw_error := Some (exn_message error)\<rparr>)) (ret False))"
  have "\<exists>h s1. ?rest h s1 = (Inr True, s') \<and> List.find ?P (paymentWebhooks s1) = Some h
      \<and> (\<forall>e'. settled_event p s e' \<longrightarrow> settled_event p s1 e') \<and> provider_config s1 = provider_config s"
  proof (cases "List.find ?P (paymentWebhooks s)")
    case None
    let ?h = "webhook_row (nextId s) p e"
    let ?s1 = "paymentWebhooks_update (\<lambda>ws. ws @ [?h]) (nextId_update Suc s)"
    have "?P ?h" by (simp add: same_webhook_def webhook_row_def)
    with None have "List.find ?P (paymentWebhooks ?s1) = Some ?h" by (simp add: find_append)
    moreover have "?rest ?h ?s1 = (Inr True, s')"
      using assms None by (simp add: handle_event_def run insert_unique_def)
    moreover have "\<forall>e'. settled_event p s e' \<longrightarrow> settled_event p ?s1 e'"
      by (auto simp: settled_event_def find_append)
    ultimately show ?thesis by (intro exI [of _ ?h] exI [of _ ?s1]) (simp add: provider_config_def)
  next
    case (Some h)
    with assms have "?rest h s = (Inr True, s')" by (auto simp: handle_event_def run split: if_splits)
    with Some show ?thesis by blast
  qed
  then obtain h s1 where rest: "?rest h s1 = (Inr True, s')" and h: "List.find ?P (paymentWebhooks s1) = Some h"
    and s1: "\<forall>e'. settled_event p s e' \<longrightarrow> settled_event p s1 e'" "provider_config s1 = provider_config s" by blast
  obtain r s2 where d: "dispatch w p org e s1 = (r, s2)" by (cases "dispatch w p org e s1")
  have s2: "pipeline s2 = pipeline s1" by (rule leaves_D [OF aside_dispatch d])
  obtain u where set: "settle_webhook (pw_id h) (\<lambda>h. h\<lparr>pw_status := PROCESSED, pw_processedAt := Some (clock s2)\<rparr>) s2 = (Inr u, s')"
  proof (cases r)
    case (Inr x)
    then have "?rest h s1 = (case settle_webhook (pw_id h) (\<lambda>h. h\<lparr>pw_status := PROCESSED, pw_processedAt := Some (clock s2)\<rparr>) s2 of
        (Inr u, s3) \<Rightarrow> (Inr True, s3) | (Inl error, s3) \<Rightarrow> if error = Diverges then (Inl Diverges, s3) else
         seq (settle_webhook (pw_id h) (\<lambda>h. h\<lparr>pw_status := PaymentWebhookStatus.FAILED, pw_error := Some (exn_message error)\<rparr>)) (ret False) s3)"
      using d by (auto simp: try_catch_def bnd_def seq_def now_def gets_def ret_def split: prod.split sum.split)
    with rest that show ?thesis by (auto simp: seq_step ret_def split: prod.splits sum.splits if_splits)
  qed (use rest d in \<open>auto simp: try_catch_def bnd_def seq_def ret_def split: prod.splits sum.splits if_splits\<close>)
  have "List.find ?P (paymentWebhooks s2) = Some h" "provider_config s2 = provider_config s1"
    "\<forall>e'. settled_event p s1 e' \<longrightarrow> settled_event p s2 e'"
    using s2 h by (simp_all add: pipeline_eq settled_event_def)
  with settle_webhook_processed [OF set] s1 show ?thesis by auto
qed

lemma handle_events_all:
  "handle_events w p org es s = (Inr (length es), s') \<Longrightarrow>
   (\<forall>e \<in> set es. settled_event p s' e) \<and> (\<forall>e'. settled_event p s e' \<longrightarrow> settled_event p s' e') \<and> provider_config s' = provider_config s"
proof (induction es arbitrary: s)
  case (Cons e es)
  obtain b s1 n where first: "handle_event w p org e s = (Inr b, s1)" and rest: "handle_events w p org es s1 = (Inr n, s')"
    and n: "length (e # es) = (if b then 1 else 0) + n"
    using Cons.prems by (auto simp: bnd_step run_basic split: prod.splits sum.splits)
  have "n \<le> length es" using rest
  proof (induction es arbitrary: s1 n)
    case (Cons x xs)
    from Cons.prems obtain c s2 k where "handle_events w p org xs s2 = (Inr k, s')" "n = (if c then 1 else 0) + k"
      by (auto simp: bnd_step run_basic split: prod.splits sum.splits)
    with Cons.IH [of s2 k] show ?case by auto
  qed (simp add: run_basic)
  with n have "b" "n = length es" by (auto split: if_splits)
  with first rest Cons.IH [of s1] handle_event_True [of w p org e s s1] show ?case by auto
qed (simp add: run_basic)

lemma handle_event_settled: "settled_event p s e \<Longrightarrow> handle_event w p org e s = (Inr False, s)"
  by (simp add: handle_event_def settled_event_def run)

lemma handle_events_settled:
  "(\<forall>e \<in> set es. settled_event p s e) \<Longrightarrow> handle_events w p org es s = (Inr 0, s)"
  by (induction es) (simp_all add: handle_event_settled bnd_step run_basic)

lemma resolve_provider_config:
  "provider_config s = provider_config s' \<Longrightarrow> resolve_provider w p s = (r, s1) \<Longrightarrow> s1 = s \<and> resolve_provider w p s' = (r, s')"
  by (auto simp: resolve_provider_def getAdapter_def resolveForAdapter_def resolveAccount_def provider_config_def bnd_def
      find_or_throw_def find_row_def gets_def ret_def throw_def split: option.splits sum.splits)



section \<open>Every webhook of a payment renews\<close>

lemma record_event_total: "k \<noteq> [] \<Longrightarrow> \<exists>x. fst (record_event org type payload refs u m (Some k) s) = Inr x"
proof (cases "recorded k s = 0")
  case True
  then show "\<exists>x. fst (record_event org type payload refs u m (Some k) s) = Inr x" using record_event_new [of "Some k" s org type payload refs u m]
    by (cases "fst (record_event org type payload refs u m (Some k) s)") (auto simp: Let_def)
next
  case False
  assume k: "k \<noteq> []"
  from False have ex: "\<exists>e \<in> set (finEvents s). same_key (fe_idempotencyKey e) (Some k)"
    by (auto simp: recorded_def count_where_def same_key_def filter_empty_conv)
  then obtain e where e: "List.find (\<lambda>e. fe_idempotencyKey e = Some k) (finEvents s) = Some e"
    by (cases "List.find (\<lambda>e. fe_idempotencyKey e = Some k) (finEvents s)") (auto simp: find_None_iff' same_key_def)
  have "wps (record_event org type payload refs u m (Some k)) (\<lambda>r s'. \<exists>x. r = Inr x) s"
    using e k by (simp add: record_event_def wp getWithSync_def)
  then show "\<exists>x. fst (record_event org type payload refs u m (Some k) s) = Inr x" by (simp add: wps_run)
qed

text \<open>An active subscription with its item and price and a stored transaction of it, in the middle of a period
  that ends at \<open>e\<close>, with no scheduled change. \<open>via\<close> says that an event names it or names only the
  transaction.\<close>

definition payable :: "id \<Rightarrow> string \<Rightarrow> id \<Rightarrow> id \<Rightarrow> price_row \<Rightarrow> time \<Rightarrow> 'z pay_db_scheme \<Rightarrow> bool" where
  "payable p ref txId subId price e s \<longleftrightarrow>
     (\<exists>x. List.find (same_transaction p ref) (paymentTransactions s) = Some x \<and> pt_id x = txId \<and> pt_subscriptionId x = Some subId)
   \<and> (\<exists>sub. List.find (\<lambda>r. sub_id r = subId) (subscriptions s) = Some sub \<and> sub_status sub = SubscriptionStatus.ACTIVE
        \<and> sub_currentPeriodEnd sub = Some e \<and> \<not> sub_cancelAtPeriodEnd sub)
   \<and> (\<forall>c \<in> set (subChanges s). sc_subscriptionId c \<noteq> subId)
   \<and> (\<exists>item. List.find (\<lambda>x. si_subscriptionId x = subId) (subItems s) = Some item
        \<and> List.find (\<lambda>q. price_id q = si_priceId item) (prices s) = Some price)
   \<and> cachedUserId s \<noteq> None"

definition via :: "id \<Rightarrow> id \<Rightarrow> payment_event \<Rightarrow> 'z sub_db_scheme \<Rightarrow> bool" where
  "via org subId event s \<longleftrightarrow> event_subscription org event s = None
     \<or> event_subscription org event s = List.find (\<lambda>r. sub_id r = subId) (subscriptions s)"

text \<open>The tables these conditions read.\<close>

definition paying ::
  "'z pay_db_scheme \<Rightarrow> payment_transaction list \<times> sub_row list \<times> sub_change list \<times> sub_item list \<times> price_row list \<times> id option" where
  "paying s = (paymentTransactions s, subscriptions s, subChanges s, subItems s, prices s, cachedUserId s)"

definition ready :: "id \<Rightarrow> id \<Rightarrow> string \<Rightarrow> id \<Rightarrow> id \<Rightarrow> price_row \<Rightarrow> payment_event list \<Rightarrow> time \<Rightarrow> 'z pay_db_scheme \<Rightarrow> bool" where
  "ready p org ref txId subId price evs e s \<longleftrightarrow> payable p ref txId subId price e s \<and> (\<forall>ev \<in> set evs. via org subId ev s)"

lemma ready_frame: "paying s' = paying s \<Longrightarrow> ready p org ref txId subId price evs e s \<Longrightarrow> ready p org ref txId subId price evs e s'"
proof -
  assume "paying s' = paying s"
  then have same: "paymentTransactions s' = paymentTransactions s" "subscriptions s' = subscriptions s" "subChanges s' = subChanges s"
    "subItems s' = subItems s" "prices s' = prices s" "cachedUserId s' = cachedUserId s" by (simp_all add: paying_def)
  then have "via org subId ev s' = via org subId ev s" for ev by (simp add: via_def event_subscription_def)
  with same show "ready p org ref txId subId price evs e s \<Longrightarrow> ready p org ref txId subId price evs e s'"
    by (simp add: ready_def payable_def)
qed

lemma via_subscriptions: "subscriptions s' = subscriptions s \<Longrightarrow> via org subId ev s' = via org subId ev s"
  by (simp add: via_def event_subscription_def)

lemma paying_book: "leaves paying (record_event org type payload refs u m key)"
  by (rule leaves_record) (simp_all add: paying_def)

lemma paying_announce: "leaves paying (announce org type payload x sub)"
  unfolding announce_def by (intro leaves_all leaves_platform) (simp_all add: paying_def)


lemma booked_once:
  assumes "leaves v (record_event org type payload refs u m (Some k))" and "recorded k s \<le> 1" and "k \<noteq> []"
  shows "wps (record_event org type payload refs u m (Some k)) (\<lambda>r s'. (\<exists>x. r = Inr x) \<and> v s' = v s \<and> recorded k s' = 1) s"
proof -
  have "recorded k (record_call k (org, type, payload, refs, u, m) s) = 1"
    using assms(2) ledger.post_entries [of k k "(org, type, payload, refs, u, m)" s] by (auto simp: le_Suc_eq)
  then show ?thesis
    using record_event_total [OF assms(3), of org type payload refs u m s] leaves_snd [OF assms(1)]
    by (simp add: wps_run record_call_def)
qed

lemma wps_book_any:
  assumes "\<And>payload. wps (seq (record_event org type payload (event_refs x sub) u no_meta (Some k)) (ret ())) Q s"
  shows "wps (book org type x sub extra u k) Q s"
  using assms by (cases sub) (simp_all add: book_def buildPayload_def wps_bnd wps_ret wps_gets)

lemma wps_book:
  assumes "\<And>payload. leaves v (record_event org type payload (event_refs x sub) u no_meta (Some k))" and "recorded k s \<le> 1" and "k \<noteq> []"
  shows "wps (book org type x sub extra u k) (\<lambda>r s'. r = Inr () \<and> v s' = v s \<and> recorded k s' = 1) s"
proof -
  have "wps (seq (record_event org type payload (event_refs x sub) u no_meta (Some k)) (ret ()))
      (\<lambda>r s'. r = Inr () \<and> v s' = v s \<and> recorded k s' = 1) s" for payload
    unfolding wps_seq wps_ret by (rule wps_mono [OF booked_once [OF assms]]) auto
  then show ?thesis by (rule wps_book_any)
qed

text \<open>Renewing an active subscription: the row afterwards, and what else the pipeline's conditions read.\<close>

definition renewed_row :: "sub_row \<Rightarrow> time \<Rightarrow> time \<Rightarrow> sub_row \<Rightarrow> sub_row" where
  "renewed_row sub e e' r = r\<lparr>sub_planId := sub_planId sub, sub_quantity := sub_quantity sub,
      sub_currentPeriodStart := Some e, sub_currentPeriodEnd := Some e', sub_status := SubscriptionStatus.ACTIVE,
      sub_version := sub_version r + 1\<rparr>"

lemma renewed_row_simps [simp]:
  "sub_id (renewed_row sub e e' r) = sub_id r" "sub_status (renewed_row sub e e' r) = SubscriptionStatus.ACTIVE"
  "sub_currentPeriodEnd (renewed_row sub e e' r) = Some e'" "sub_cancelAtPeriodEnd (renewed_row sub e e' r) = sub_cancelAtPeriodEnd r"
  "sub_organizationId (renewed_row sub e e' r) = sub_organizationId r"
  "sub_providerSubscriptionId (renewed_row sub e e' r) = sub_providerSubscriptionId r"
  by (simp_all add: renewed_row_def)

lemma renew_effect:
  assumes sub: "List.find (\<lambda>r. sub_id r = subId) (subscriptions s) = Some sub" "sub_status sub = SubscriptionStatus.ACTIVE"
      "sub_currentPeriodEnd sub = Some e" "\<not> sub_cancelAtPeriodEnd sub"
    and item: "List.find (\<lambda>x. si_subscriptionId x = subId) (subItems s) = Some item"
      "List.find (\<lambda>q. price_id q = si_priceId item) (prices s) = Some price"
    and none: "\<forall>c \<in> set (subChanges s). sc_subscriptionId c \<noteq> subId"
    and count: "1 \<le> price_intervalCount price"
  shows "wps (sub_renew subId u no_options) (\<lambda>r s'.
      r = Inr (renewed_row sub e (addBillingInterval e (price_interval price) (price_intervalCount price)) sub)
      \<and> finEvents s' = finEvents s \<and> paymentProviders s' = paymentProviders s \<and> paymentWebhooks s' = paymentWebhooks s
      \<and> paying s' = (paymentTransactions s, upd_where (\<lambda>r. sub_id r = subId)
           (renewed_row sub e (addBillingInterval e (price_interval price) (price_intervalCount price))) (subscriptions s), subChanges s, subItems s,
           prices s, cachedUserId s)) s"
proof -
  have id: "sub_id sub = subId" using find_SomeD [OF sub(1)] by simp
  have due: "List.find (due_change subId t) (subChanges s) = None"
    "List.find (\<lambda>c. due_change subId t c \<and> sc_type c = CANCEL_AT_PERIOD_END) (subChanges s) = None" for t
    using none by (auto simp: find_None_iff' due_change_def)
  show ?thesis
    using sub item id due count
    by (simp add: sub_renew_def runTransition_def run_with_info_def transition_body_def wp find_sub_def find_key_event_def
        no_options_def assertTransition_def create_event_def renew_period_def find_item_def find_price_def Let_def
        moved_def [abs_def] publish_transition_def published_def isTransitionAllowed_def paying_def renewed_row_def [abs_def] comp_def)
qed

lemma renew_ready:
  assumes "ready p org ref txId subId price evs e s" and "1 \<le> price_intervalCount price"
  shows "wps (sub_renew subId u no_options) (\<lambda>r s'. (\<exists>row. r = Inr row) \<and> finEvents s' = finEvents s
      \<and> paymentProviders s' = paymentProviders s
      \<and> ready p org ref txId subId price evs (addBillingInterval e (price_interval price) (price_intervalCount price)) s') s"
proof -
  from assms(1) obtain sub item where
    sub: "List.find (\<lambda>r. sub_id r = subId) (subscriptions s) = Some sub" "sub_status sub = SubscriptionStatus.ACTIVE"
      "sub_currentPeriodEnd sub = Some e" "\<not> sub_cancelAtPeriodEnd sub"
    and item: "List.find (\<lambda>x. si_subscriptionId x = subId) (subItems s) = Some item"
      "List.find (\<lambda>q. price_id q = si_priceId item) (prices s) = Some price"
    and none: "\<forall>c \<in> set (subChanges s). sc_subscriptionId c \<noteq> subId"
    by (auto simp: ready_def payable_def)
  have id: "sub_id sub = subId" using find_SomeD [OF sub(1)] by simp
  define e' where "e' = addBillingInterval e (price_interval price) (price_intervalCount price)"
  define f where "f = renewed_row sub e e'"
  from renew_effect [OF sub item none assms(2), of u] show ?thesis
    unfolding e'_def [symmetric] f_def [symmetric]
  proof (rule wps_mono)
    fix r s'
    assume s': "r = Inr (f sub) \<and> finEvents s' = finEvents s \<and> paymentProviders s' = paymentProviders s \<and> paymentWebhooks s' = paymentWebhooks s
      \<and> paying s' = (paymentTransactions s, upd_where (\<lambda>r. sub_id r = subId) f (subscriptions s), subChanges s, subItems s, prices s,
           cachedUserId s)"
    have found: "List.find (\<lambda>r. sub_id r = subId) (subscriptions s') = Some (f sub)"
      using s' sub(1) id by (simp add: paying_def find_upd_where_keep f_def)
    have "via org subId ev s'" if "via org subId ev s" for ev
      using that s' sub(1) found id
      by (auto simp: via_def event_subscription_def paying_def find_upd_where_keep f_def split: if_splits)
    moreover have "sub_status (f sub) = SubscriptionStatus.ACTIVE" "sub_currentPeriodEnd (f sub) = Some e'" "\<not> sub_cancelAtPeriodEnd (f sub)"
      using sub(4) by (simp_all add: f_def)
    ultimately have "ready p org ref txId subId price evs e' s'"
      using s' assms(1) found unfolding ready_def payable_def by (simp add: paying_def)
    with s' show "(\<exists>row. r = Inr row) \<and> finEvents s' = finEvents s \<and> paymentProviders s' = paymentProviders s
        \<and> ready p org ref txId subId price evs e' s'"
      by simp
  qed
qed

lemma payment_key_nonempty [simp]: "payment_key i \<noteq> []"
  by (simp add: payment_key_def)

lemma payment_dispatch:
  assumes "ready p org ref txId subId price evs e s" and "1 \<le> price_intervalCount price" and "ev \<in> set evs"
    and "pe_type ev = payment_event_type.PAYMENT_SUCCEEDED" and "pe_externalTransactionId ev = Some ref" and "ref \<noteq> []"
    and "recorded (payment_key txId) s \<le> 1"
  shows "wps (dispatch w p org ev) (\<lambda>r s'. r = Inr () \<and> recorded (payment_key txId) s' = 1
      \<and> ready p org ref txId subId price evs (addBillingInterval e (price_interval price) (price_intervalCount price)) s') s"
proof -
  let ?e' = "addBillingInterval e (price_interval price) (price_intervalCount price)"
  from assms(1) obtain x sub u where
    x: "List.find (same_transaction p ref) (paymentTransactions s) = Some x" "pt_id x = txId" "pt_subscriptionId x = Some subId"
    and sub: "List.find (\<lambda>r. sub_id r = subId) (subscriptions s) = Some sub" "sub_status sub = SubscriptionStatus.ACTIVE"
    and u: "cachedUserId s = Some u" and via: "via org subId ev s"
    using assms(3) by (auto simp: ready_def payable_def)
  have id: "sub_id sub = subId" using find_SomeD [OF sub(1)] by simp
  define f where "f = (\<lambda>y :: payment_transaction. y\<lparr>pt_status := PaymentTransactionStatus.SUCCEEDED\<rparr>)"
  let ?s1 = "paymentTransactions_update (upd_where (\<lambda>y. pt_id y = txId) f) s"
  have tx: "List.find (\<lambda>y. pt_id y = txId) (paymentTransactions s) \<noteq> None" using find_SomeD [OF x(1)] x(2) by (auto simp: find_None_iff')
  have "List.find (same_transaction p ref) (paymentTransactions ?s1) = Some (f x)"
    using x by (simp add: find_upd_where_keep same_transaction_def f_def)
  then have "ready p org ref txId subId price evs e ?s1"
    using assms(1) x via_subscriptions [of ?s1 s] by (simp add: ready_def payable_def f_def)
  from renew_ready [OF this assms(2), of u]
  have renewed: "wps (sub_renew subId u no_options) (\<lambda>r s'. (\<exists>row. r = Inr row) \<and> recorded (payment_key txId) s' \<le> 1
      \<and> ready p org ref txId subId price evs ?e' s') ?s1"
    using assms(7) by (auto simp: recorded_def elim!: wps_mono)
  have booked: "wps (recordPaymentSucceeded org p x (Some sub) (Some SubscriptionStatus.ACTIVE)) (\<lambda>r s'. r = Inr ()
      \<and> recorded (payment_key txId) s' = 1 \<and> ready p org ref txId subId price evs ?e' s') s1"
    if "recorded (payment_key txId) s1 \<le> 1" "ready p org ref txId subId price evs ?e' s1" for s1 :: "'a pay_db_scheme"
  proof -
    have "wps (book org type x (Some sub) extra None (payment_key txId)) (\<lambda>r s'. r = Inr ()
      \<and> recorded (payment_key txId) s' = 1 \<and> ready p org ref txId subId price evs ?e' s') s1" for type extra
      by (rule wps_mono [OF wps_book [OF paying_book that(1) payment_key_nonempty]]) (auto intro: ready_frame [OF _ that(2)])
    then show ?thesis by (simp add: recordPaymentSucceeded_def wps_bnd wps_find_row Let_def x(2))
  qed
  let ?Q = "\<lambda>r s'. r = Inr () \<and> recorded (payment_key txId) s' = 1 \<and> ready p org ref txId subId price evs ?e' s'"
  let ?tail = "seq (recordPaymentSucceeded org p x (Some sub) (Some SubscriptionStatus.ACTIVE))
      (announce org ''PAYMENT_SUCCEEDED'' (payment_facts x) x (Some sub))"
  have announced: "wps (announce org ty payload x (Some sub)) ?Q s1"
    if "?Q (Inr ()) s1" for ty payload and s1 :: "'a pay_db_scheme"
    using that by (auto simp: announce_def wp published_def Let_def recorded_def paying_def intro: ready_frame [of _ s1])
  have tail: "wps ?tail ?Q s1"
    if "recorded (payment_key txId) s1 \<le> 1" "ready p org ref txId subId price evs ?e' s1" for s1 :: "'a pay_db_scheme"
    unfolding wps_seq by (rule wps_mono [OF booked [OF that]]) (use announced in auto)
  have all: "wps (seq (seq (sub_renew subId u no_options) (ret ())) ?tail) ?Q ?s1"
    unfolding wps_seq wps_ret by (rule wps_mono [OF renewed]) (use tail in \<open>auto simp: wps_seq simp del: One_nat_def\<close>)
  have linked: "linked_subscription (event_subscription org ev s) (Some x) s = Some sub"
    using via sub(1) x(3) by (auto simp: via_def linked_subscription_def)
  have start: "wps (set_transaction txId f) Q s = Q (Inr ()) ?s1" for Q :: "exn + unit \<Rightarrow> 'a pay_db_scheme \<Rightarrow> bool"
    using tx by (auto simp: set_transaction_def wp)
  have "wps (payment_succeeded p org (Some x) (Some sub) u) ?Q s"
    using all id sub(2) x(2) unfolding payment_succeeded_def on_transaction_def on_subscription_def f_def [symmetric]
    by (simp add: wps_seq start recoverOrRenew_def pre_activation_def active_like_def when_do_def)
  then show ?thesis
    using x u linked assms(4-6) by (simp add: dispatch_def wp upsertTransaction_def getSystemUserId_def)
qed


text \<open>Dispatching a list of events one after the other.\<close>

definition dispatch_all :: "pay_world \<Rightarrow> id \<Rightarrow> id \<Rightarrow> payment_event list \<Rightarrow> 'z pay_db_scheme \<Rightarrow> 'z pay_db_scheme" where
  "dispatch_all w p org evs s = fold (\<lambda>ev s. snd (dispatch w p org ev s)) evs s"

lemma payments_dispatched:
  assumes "ready p org ref txId subId price evs e s" and "1 \<le> price_intervalCount price" and "set es \<subseteq> set evs"
    and "\<forall>ev \<in> set evs. pe_type ev = payment_event_type.PAYMENT_SUCCEEDED \<and> pe_externalTransactionId ev = Some ref" and "ref \<noteq> []"
    and "recorded (payment_key txId) s \<le> 1"
  shows "recorded (payment_key txId) (dispatch_all w p org es s) = (if es = [] then recorded (payment_key txId) s else 1)
    \<and> ready p org ref txId subId price evs
        (((\<lambda>t. addBillingInterval t (price_interval price) (price_intervalCount price)) ^^ length es) e) (dispatch_all w p org es s)"
  using assms(1,3,6)
proof (induction es arbitrary: e s)
  case (Cons ev es)
  let ?next = "\<lambda>t. addBillingInterval t (price_interval price) (price_intervalCount price)"
  let ?s = "snd (dispatch w p org ev s)"
  have "ev \<in> set evs" using Cons.prems by simp
  with payment_dispatch [OF Cons.prems(1) assms(2) this, of w] assms(4,5) Cons.prems(3)
  have "recorded (payment_key txId) ?s = 1" "ready p org ref txId subId price evs (?next e) ?s"
    by (simp_all add: wps_run)
  moreover have "(?next ^^ length (ev # es)) e = (?next ^^ length es) (?next e)"
    using funpow_swap1 [of ?next "length es" e] by simp
  ultimately show ?case using Cons.IH [of "?next e" ?s] Cons.prems(2) by (simp add: dispatch_all_def)
qed (simp add: dispatch_all_def)

text \<open>
  C30. A payment that the provider reports in several webhook events (for one Stripe payment there are up to three)
  is booked in the ledger once, because the key is the transaction, but the subscription is renewed once
  per event: \<open>n\<close> events move the end of the period by \<open>n\<close> billing intervals.
\<close>

theorem payment_renews_per_event:
  assumes "payable p ref txId subId price e s" and "1 \<le> price_intervalCount price" and "evs \<noteq> []"
    and "\<forall>ev \<in> set evs. pe_type ev = payment_event_type.PAYMENT_SUCCEEDED \<and> pe_externalTransactionId ev = Some ref \<and> via org subId ev s"
    and "ref \<noteq> []" and "recorded (payment_key txId) s \<le> 1"
  shows "recorded (payment_key txId) (dispatch_all w p org evs s) = 1
    \<and> (\<exists>sub. List.find (\<lambda>r. sub_id r = subId) (subscriptions (dispatch_all w p org evs s)) = Some sub
         \<and> sub_status sub = SubscriptionStatus.ACTIVE \<and> sub_currentPeriodEnd sub
           = Some (((\<lambda>t. addBillingInterval t (price_interval price) (price_intervalCount price)) ^^ length evs) e))"
proof -
  have "ready p org ref txId subId price evs e s" using assms(1,4) by (simp add: ready_def)
  from payments_dispatched [OF this assms(2) order_refl _ assms(5,6), of w] assms(3,4)
  show ?thesis by (auto simp: ready_def payable_def)
qed

definition sample_transaction :: payment_transaction where
  "sample_transaction = \<lparr>pt_id = 30, pt_providerId = 8, pt_customerId = 1, pt_subscriptionId = Some 10, pt_amountMinor = 1000,
     pt_currency = ''USD'', pt_status = PaymentTransactionStatus.PENDING, pt_providerTransactionId = Some ''pi_1'',
     pt_failureReason = None, pt_metadata = None\<rparr>"

definition sample_pay :: pay_db where
  "sample_pay = sub_db.extend sample_subs (pay_db.fields [] [\<lparr>pp_id = 8, pp_organizationId = 9, pp_type = STRIPE\<rparr>] [] []
     [] [sample_transaction] [] [] [] (Some 7) [])"

definition sample_event :: "payment_event_type \<Rightarrow> string \<Rightarrow> payment_event" where
  "sample_event ty i = \<lparr>pe_type = ty, pe_externalEventId = i, pe_externalCustomerId = None, pe_externalSubscriptionId = None,
     pe_externalTransactionId = Some ''pi_1'', pe_amountMinor = None, pe_currency = None, pe_disputeStatus = None,
     pe_occurredAt = 0, pe_raw = JNull\<rparr>"

definition silent_world :: "(PaymentProviderType \<times> adapter) list \<Rightarrow> pay_world" where
  "silent_world as = \<lparr>pwo_adapters = as, pwo_encrypt = (\<lambda>x. (x, [], [])), pwo_decrypt = (\<lambda>x _ _. Inr x), pwo_updatedAt = (\<lambda>_. 0)\<rparr>"

lemmas sample_pay_defs = sample_pay_def sample_subs_def sample_sub_def sample_price_def sample_plan_def sample_transaction_def
  sample_event_def sub_db.defs pay_db.defs

theorem payment_renews_per_event_witness:
  "let evs = [sample_event payment_event_type.PAYMENT_SUCCEEDED ''evt_1'', sample_event payment_event_type.PAYMENT_SUCCEEDED ''evt_2''];
       s = dispatch_all (silent_world []) 8 9 evs sample_pay in
   recorded (payment_key 30) s = 1 \<and> (\<exists>sub. List.find (\<lambda>r. sub_id r = 10) (subscriptions s) = Some sub
     \<and> sub_status sub = SubscriptionStatus.ACTIVE \<and> sub_currentPeriodEnd sub
       = Some (((\<lambda>t. addBillingInterval t (price_interval sample_price) (price_intervalCount sample_price)) ^^ length evs) 2678400000))"
  unfolding Let_def
  by (rule payment_renews_per_event [where ref = "''pi_1''"])
    (simp_all add: sample_pay_defs payable_def via_def event_subscription_def same_transaction_def recorded_def)


section \<open>Every refund event books a refund\<close>

definition refundable :: "id \<Rightarrow> string \<Rightarrow> int \<Rightarrow> 'z pay_db_scheme \<Rightarrow> bool" where
  "refundable p ref amount s \<longleftrightarrow>
     (\<exists>x. List.find (same_transaction p ref) (paymentTransactions s) = Some x \<and> pt_amountMinor x = amount)
   \<and> cachedUserId s \<noteq> None
   \<and> (\<forall>e \<in> set (finEvents s). \<forall>i. fe_idempotencyKey e = Some (refund_key i) \<longrightarrow> i < nextId s)"

definition refund_of :: "payment_event \<Rightarrow> int \<Rightarrow> int" where
  "refund_of ev amount = (case pe_amountMinor ev of Some (Some a) \<Rightarrow> \<lfloor>a\<rfloor> | _ \<Rightarrow> amount)"

definition int_amount :: "payment_event \<Rightarrow> bool" where
  "int_amount ev \<longleftrightarrow> (case pe_amountMinor ev of None \<Rightarrow> True | Some None \<Rightarrow> False | Some (Some a) \<Rightarrow> of_int \<lfloor>a\<rfloor> = a)"

lemma int_amount_refund: "int_amount ev \<Longrightarrow> orElse (pe_amountMinor ev) (Some (of_int a)) = Some (of_int (refund_of ev a))"
  by (auto simp: int_amount_def refund_of_def split: option.splits)

lemma refund_key_inj [simp]: "refund_key i = refund_key j \<longleftrightarrow> i = j"
  by (simp add: refund_key_def)

lemma refund_dispatch:
  assumes "refundable p ref amount s" and "ref \<noteq> []" and "pe_type ev \<in> {REFUND_CREATED, REFUND_COMPLETED}"
    and "pe_externalTransactionId ev = Some ref" and "int_amount ev"
  shows "wps (dispatch w p org ev) (\<lambda>r s'. r = Inr () \<and> refundable p ref amount s'
      \<and> (\<exists>rf. paymentRefunds s' = paymentRefunds s @ [rf] \<and> pf_amountMinor rf = refund_of ev amount)
      \<and> (\<exists>fe. finEvents s' = finEvents s @ [fe] \<and> fe_type fe \<in> {REFUND_ISSUED, REFUND_PARTIAL})) s"
proof -
  from assms(1) obtain x u where x: "List.find (same_transaction p ref) (paymentTransactions s) = Some x" "pt_amountMinor x = amount"
    and u: "cachedUserId s = Some u" by (auto simp: refundable_def)
  let ?n = "nextId s"
  have tx: "List.find (\<lambda>y. pt_id y = pt_id x) (paymentTransactions s) \<noteq> None" using find_SomeD [OF x(1)] by (auto simp: find_None_iff')
  have no: "recorded (refund_key ?n) s = 0" using assms(1) by (auto simp: refundable_def recorded_def count_where_zero same_key_def)
  let ?v = "\<lambda>z :: 'a pay_db_scheme. (paymentTransactions z, paymentRefunds z, cachedUserId z)"
  have lv: "leaves ?v (record_event org type payload refs uu m key)" for type payload refs uu m key
    by (rule leaves_record) simp_all
  have rec: "wps (record_event org type payload refs uu m (Some (refund_key ?n))) (\<lambda>r s'. (\<exists>y. r = Inr y) \<and> ?v s' = ?v s1
      \<and> Suc ?n \<le> nextId s' \<and> (\<exists>fe. finEvents s' = finEvents s @ [fe] \<and> fe_type fe = type \<and> fe_idempotencyKey fe = Some (refund_key ?n))) s1"
    if "finEvents s1 = finEvents s" "nextId s1 = Suc ?n" for type payload refs uu m and s1 :: "'a pay_db_scheme"
  proof -
    have "recorded (refund_key ?n) s1 = 0" using no that(1) by (simp add: recorded_def)
    with record_event_new [of "Some (refund_key ?n)" s1 org type payload refs uu m] leaves_snd [OF lv]
      record_event_total [of "refund_key ?n" org type payload refs uu m s1] that
    show ?thesis by (simp add: wps_run Let_def event_row_def refund_key_def)
  qed
  define Q :: "exn + unit \<Rightarrow> 'a pay_db_scheme \<Rightarrow> bool" where "Q = (\<lambda>r s'. r = Inr () \<and> refundable p ref amount s'
      \<and> (\<exists>rf. paymentRefunds s' = paymentRefunds s @ [rf] \<and> pf_amountMinor rf = refund_of ev amount)
      \<and> (\<exists>fe. finEvents s' = finEvents s @ [fe] \<and> fe_type fe \<in> {REFUND_ISSUED, REFUND_PARTIAL}))"
  have tail: "wps (seq (book org type x sub extra (Some u) (refund_key ?n)) (announce org ty payload x sub)) Q s1"
    if type: "type \<in> {REFUND_ISSUED, REFUND_PARTIAL}" and s1: "finEvents s1 = finEvents s" "nextId s1 = Suc ?n" "cachedUserId s1 = Some u"
      "List.find (same_transaction p ref) (paymentTransactions s1) = Some y" "pt_amountMinor y = amount"
      "paymentRefunds s1 = paymentRefunds s @ [rf]" "pf_amountMinor rf = refund_of ev amount"
    for type sub extra ty payload y rf and s1 :: "'a pay_db_scheme"
  proof -
    have old: "i < ?n" if "e \<in> set (finEvents s)" "fe_idempotencyKey e = Some (refund_key i)" for e i
      using assms(1) that by (auto simp: refundable_def)
    have "wps (seq (record_event org type pl (event_refs x sub) (Some u) no_meta (Some (refund_key ?n))) (ret ()))
        (\<lambda>r s'. case r of Inl e \<Rightarrow> Q (Inl e) s' | Inr z \<Rightarrow> wps (announce org ty payload x sub) Q s') s1" for pl
      unfolding wps_seq wps_ret
      by (rule wps_mono [OF rec [OF s1(1,2)]])
        (use type s1 in \<open>auto simp: announce_def wp published_def Let_def refundable_def Q_def dest!: old\<close>)
    then have "wps (book org type x sub extra (Some u) (refund_key ?n))
        (\<lambda>r s'. case r of Inl e \<Rightarrow> Q (Inl e) s' | Inr z \<Rightarrow> wps (announce org ty payload x sub) Q s') s1"
      by (rule wps_book_any)
    then show ?thesis unfolding wps_seq .
  qed
  have "wps (applyRefund org x sub ev u) Q s" for sub
  proof -
    define f where "f = (\<lambda>y :: payment_transaction. y\<lparr>pt_status := (if pt_amountMinor x \<le> refund_of ev (pt_amountMinor x)
        then PaymentTransactionStatus.REFUNDED else PaymentTransactionStatus.PARTIALLY_REFUNDED)\<rparr>)"
    have f: "List.find (same_transaction p ref) (upd_where (\<lambda>y. pt_id y = pt_id x) f (paymentTransactions s)) = Some (f x)"
      "pt_amountMinor (f x) = amount"
      using x by (simp_all add: find_upd_where_keep same_transaction_def f_def)
    show ?thesis
      using tx f u unfolding applyRefund_def Let_def wps_bnd_int [OF int_amount_refund [OF assms(5)]] f_def [symmetric] set_transaction_def x(2) [symmetric]
      by (auto simp: wps_bnd wps_seq [of "seq _ _"] wps_seq [of "update_row _ _ _ _"] wps_fresh wps_insert_row wps_update_row wps_ret;
          intro tail [where y = "f x"]; (simp add: x(2))?) simp_all
  qed
  then show ?thesis
    using x(1) u assms(2-4) unfolding Q_def by (auto simp: dispatch_def wp upsertTransaction_def getSystemUserId_def on_transaction_def)
qed


text \<open>
  Every refund event of a transaction books a refund of its own: the key of the ledger entry is the fresh
  identifier of the refund row, so the REFUND_CREATED and the REFUND_COMPLETED event of one refund are
  booked twice, and nothing compares the sum of the refunds with the amount that was paid.
\<close>

theorem refund_booked_per_event:
  assumes "refundable p ref amount s" and "ref \<noteq> []"
    and "\<forall>ev \<in> set evs. pe_type ev \<in> {REFUND_CREATED, REFUND_COMPLETED} \<and> pe_externalTransactionId ev = Some ref \<and> int_amount ev"
  shows "let s' = dispatch_all w p org evs s in
    (\<exists>rfs. paymentRefunds s' = paymentRefunds s @ rfs \<and> map pf_amountMinor rfs = map (\<lambda>ev. refund_of ev amount) evs)
    \<and> (\<exists>fes. finEvents s' = finEvents s @ fes \<and> length fes = length evs \<and> (\<forall>fe \<in> set fes. fe_type fe \<in> {REFUND_ISSUED, REFUND_PARTIAL}))"
  using assms(1,3)
proof (induction evs arbitrary: s)
  case (Cons ev evs)
  let ?s = "snd (dispatch w p org ev s)"
  from refund_dispatch [OF Cons.prems(1) assms(2), of ev w org] Cons.prems(2) obtain rf fe where
    step: "refundable p ref amount ?s" "paymentRefunds ?s = paymentRefunds s @ [rf]" "pf_amountMinor rf = refund_of ev amount"
      "finEvents ?s = finEvents s @ [fe]" "fe_type fe \<in> {REFUND_ISSUED, REFUND_PARTIAL}"
    by (auto simp: wps_run)
  from Cons.IH [OF step(1)] Cons.prems(2) obtain rfs fes where
    "paymentRefunds (dispatch_all w p org evs ?s) = paymentRefunds ?s @ rfs" "map pf_amountMinor rfs = map (\<lambda>ev. refund_of ev amount) evs"
    "finEvents (dispatch_all w p org evs ?s) = finEvents ?s @ fes" "length fes = length evs" "\<forall>fe \<in> set fes. fe_type fe \<in> {REFUND_ISSUED, REFUND_PARTIAL}"
    by (auto simp: Let_def)
  with step show ?case
    by (auto simp: Let_def dispatch_all_def intro!: exI [of _ "rf # rfs"] exI [of _ "fe # fes"])
qed (simp add: dispatch_all_def)

theorem refund_booked_per_event_witness:
  "let s' = dispatch_all (silent_world []) 8 9 [sample_event REFUND_CREATED ''evt_1'', sample_event REFUND_COMPLETED ''evt_2''] sample_pay in
   \<exists>rfs. paymentRefunds s' = paymentRefunds sample_pay @ rfs \<and> map pf_amountMinor rfs = [1000, 1000]"
  using refund_booked_per_event [of 8 "''pi_1''" 1000 sample_pay "[sample_event REFUND_CREATED ''evt_1'', sample_event REFUND_COMPLETED ''evt_2'']"
      "silent_world []" 9]
  by (auto simp: Let_def sample_pay_defs refundable_def same_transaction_def int_amount_def refund_of_def)

definition sample_adapter :: adapter where
  "sample_adapter = \<lparr>ad_verifyWebhook = (\<lambda>_ _ _. Inr True),
     ad_normalizeWebhookEvent = (\<lambda>body _. if body = ''paid'' then Inr [sample_event payment_event_type.PAYMENT_SUCCEEDED ''evt_1''] else Inl ''bad''),
     ad_refund = (\<lambda>_ _. Inl ''unsupported'')\<rparr>"

theorem payments_obey_lifecycle_witness:
  "let s = snd (handleIncoming (silent_world [(STRIPE, sample_adapter)]) 8 ''paid'' [] sample_pay) in
   \<exists>es. subEvents s = subEvents sample_pay @ es \<and> status_of s = replay (status_of sample_pay) es \<and> legal_run (status_of sample_pay) es"
  unfolding Let_def
  by (rule payments_obey_lifecycle [OF _ pay_reaches.webhook [OF pay_reaches.start]])
    (simp add: fresh_ids_def sample_pay_defs)


end
