(* ===== verification/Features.thy ===== *)
theory Features
  imports Licenses
begin

text \<open>
  The catalogue of what can be granted: features/features.service.ts, features/entitlement-definitions.service.ts
  and features/plan-features.service.ts, with the tables of the entitlement engine (grants, the access cache,
  usage limits, counters and records, API keys).
\<close>

section \<open>Rows\<close>

datatype FeatureType = BOOLEAN | NUMERIC_LIMIT | TEXT | UNLIMITED

datatype EntitlementGrantSource = SUBSCRIPTION | TRIAL | MANUAL | PROMOTIONAL

datatype EntitlementGrantStatus = ACTIVE | REVOKED | EXPIRED

datatype UsageResetPolicy = NEVER | MONTHLY | YEARLY | LIFETIME

record feature_row =
  ft_id :: id
  ft_applicationId :: id
  ft_key :: string
  ft_name :: string
  ft_description :: "string option"
  ft_type :: FeatureType
  ft_unit :: "string option"
  ft_createdAt :: time
  ft_archivedAt :: "time option"

record ent_definition =
  ed_id :: id
  ed_applicationId :: id
  ed_featureId :: "id option"
  ed_key :: string
  ed_name :: string
  ed_description :: "string option"
  ed_createdAt :: time
  ed_archivedAt :: "time option"

record plan_feature =
  plf_planId :: id
  plf_featureId :: id
  plf_boolValue :: "bool option"
  plf_numberValue :: "int option"
  plf_textValue :: "string option"

record ent_grant =
  eg_id :: id
  eg_entitlementDefinitionId :: id
  eg_organizationId :: id
  eg_applicationId :: id
  eg_subscriptionId :: "id option"
  eg_source :: EntitlementGrantSource
  eg_status :: EntitlementGrantStatus
  eg_boolValue :: "bool option"
  eg_numberValue :: "int option"
  eg_textValue :: "string option"
  eg_isUnlimited :: bool
  eg_validFrom :: time
  eg_validUntil :: "time option"
  eg_revokedAt :: "time option"
  eg_idempotencyKey :: "string option"
  eg_metadata :: "json option"
  eg_version :: int
  eg_createdAt :: time

record grant_event =
  ge_grantId :: id
  ge_type :: string
  ge_createdById :: "id option"

record feature_access =
  fa_organizationId :: id
  fa_applicationId :: id
  fa_entitlementDefinitionId :: id
  fa_hasAccess :: bool
  fa_numberValue :: "int option"
  fa_textValue :: "string option"
  fa_isUnlimited :: bool
  fa_sourceGrantId :: "id option"
  fa_computedAt :: time

record usage_limit =
  ul_organizationId :: id
  ul_applicationId :: id
  ul_entitlementDefinitionId :: id
  ul_limitValue :: "int option"
  ul_isUnlimited :: bool
  ul_resetPolicy :: UsageResetPolicy
  ul_createdAt :: time

record usage_counter =
  uc_id :: id
  uc_organizationId :: id
  uc_applicationId :: id
  uc_entitlementDefinitionId :: id
  uc_value :: int
  uc_periodStart :: time
  uc_periodEnd :: "time option"
  uc_lastResetAt :: time

record usage_record =
  ur_id :: id
  ur_customerId :: id
  ur_subscriptionId :: "id option"
  ur_featureId :: id
  ur_quantity :: int
  ur_idempotencyKey :: string
  ur_source :: "string option"
  ur_metadata :: "json option"
  ur_createdAt :: time

record api_client =
  acl_id :: id
  acl_organizationId :: id
  acl_applicationId :: "id option"
  acl_name :: string
  acl_description :: "string option"
  acl_createdById :: id
  acl_createdAt :: time

record api_key =
  ak_id :: id
  ak_apiClientId :: id
  ak_name :: string
  ak_keyPrefix :: string
  ak_keyHash :: string
  ak_lastFour :: string
  ak_rateLimitPerMin :: "int option"
  ak_expiresAt :: "time option"
  ak_revokedAt :: "time option"
  ak_rotatedAt :: "time option"
  ak_lastUsedAt :: "time option"
  ak_createdAt :: time

record api_key_scope =
  as_apiKeyId :: id
  as_scope :: string

record ent_db = lic_db +
  features :: "feature_row list"
  entDefinitions :: "ent_definition list"
  planFeatures :: "plan_feature list"
  grants :: "ent_grant list"
  grantEvents :: "grant_event list"
  featureAccess :: "feature_access list"
  usageLimits :: "usage_limit list"
  usageCounters :: "usage_counter list"
  usageRecords :: "usage_record list"
  apiClients :: "api_client list"
  apiKeys :: "api_key list"
  apiKeyScopes :: "api_key_scope list"

section \<open>FeaturesService\<close>

record feature_dto =
  fd_key :: string
  fd_name :: string
  fd_description :: "string option"
  fd_type :: "FeatureType option"
  fd_unit :: "string option"

definition feature_create :: "id \<Rightarrow> id \<Rightarrow> feature_dto \<Rightarrow> request_meta \<Rightarrow> ('z ent_db_scheme, feature_row) svc" where
  "feature_create appId userId dto meta =
     bnd fresh (\<lambda>i. bnd now (\<lambda>t.
     bnd (insert_unique features features_update (\<lambda>x. ft_applicationId x = appId \<and> ft_key x = fd_key dto)
       \<lparr>ft_id = i, ft_applicationId = appId, ft_key = fd_key dto, ft_name = fd_name dto, ft_description = fd_description dto,
        ft_type = orElse (fd_type dto) BOOLEAN, ft_unit = fd_unit dto, ft_createdAt = t, ft_archivedAt = None\<rparr>) (\<lambda>feature.
     seq (audit ''FEATURE_CREATED'' (Some userId) None (Some appId) [(''featureId'', JId (ft_id feature))] meta)
         (ret feature))))"

definition feature_list :: "id \<Rightarrow> ('z ent_db_scheme, feature_row list) svc" where
  "feature_list appId = gets (\<lambda>s. order_by ft_createdAt
     (filter (\<lambda>x. ft_applicationId x = appId \<and> ft_archivedAt x = None) (features s)))"

definition feature_getOne :: "id \<Rightarrow> ('z ent_db_scheme, feature_row) svc" where
  "feature_getOne featureId = bnd (find_row features (\<lambda>x. ft_id x = featureId)) (\<lambda>r. case r of
     None \<Rightarrow> throw (NotFoundException ''Feature not found'') | Some x \<Rightarrow> ret x)"

record feature_update_dto =
  fu_name :: "string option"
  fu_description :: "string option"
  fu_type :: "FeatureType option"
  fu_unit :: "string option"

definition feature_update :: "id \<Rightarrow> id \<Rightarrow> feature_update_dto \<Rightarrow> request_meta \<Rightarrow> ('z ent_db_scheme, feature_row) svc" where
  "feature_update featureId userId dto meta =
     bnd (update_row features features_update (\<lambda>x. ft_id x = featureId)
       (\<lambda>x. x\<lparr>ft_name := keepUndef (fu_name dto) (ft_name x),
              ft_description := keepUndef (map_option Some (fu_description dto)) (ft_description x),
              ft_type := keepUndef (fu_type dto) (ft_type x),
              ft_unit := keepUndef (map_option Some (fu_unit dto)) (ft_unit x)\<rparr>)) (\<lambda>feature.
     seq (audit ''FEATURE_UPDATED'' (Some userId) None (Some (ft_applicationId feature)) [(''featureId'', JId featureId)] meta)
         (ret feature))"

definition feature_archive :: "id \<Rightarrow> id \<Rightarrow> request_meta \<Rightarrow> ('z ent_db_scheme, feature_row) svc" where
  "feature_archive featureId userId meta =
     bnd now (\<lambda>t.
     bnd (update_row features features_update (\<lambda>x. ft_id x = featureId) (\<lambda>x. x\<lparr>ft_archivedAt := Some t\<rparr>)) (\<lambda>feature.
     seq (audit ''FEATURE_ARCHIVED'' (Some userId) None (Some (ft_applicationId feature)) [(''featureId'', JId featureId)] meta)
         (ret feature)))"

section \<open>EntitlementDefinitionsService\<close>

record definition_dto =
  edd_key :: string
  edd_name :: string
  edd_description :: "string option"
  edd_featureId :: "id option"

definition entdef_create :: "id \<Rightarrow> id \<Rightarrow> definition_dto \<Rightarrow> request_meta \<Rightarrow> ('z ent_db_scheme, ent_definition) svc" where
  "entdef_create appId userId dto meta =
     bnd fresh (\<lambda>i. bnd now (\<lambda>t.
     bnd (insert_unique entDefinitions entDefinitions_update (\<lambda>x. ed_applicationId x = appId \<and> ed_key x = edd_key dto)
       \<lparr>ed_id = i, ed_applicationId = appId, ed_featureId = edd_featureId dto, ed_key = edd_key dto, ed_name = edd_name dto,
        ed_description = edd_description dto, ed_createdAt = t, ed_archivedAt = None\<rparr>) (\<lambda>created.
     seq (audit ''ENTITLEMENT_DEFINITION_CREATED'' (Some userId) None (Some appId)
            [(''entitlementDefinitionId'', JId (ed_id created))] meta)
         (ret created))))"

definition entdef_list :: "id \<Rightarrow> ('z ent_db_scheme, ent_definition list) svc" where
  "entdef_list appId = gets (\<lambda>s. order_by ed_createdAt
     (filter (\<lambda>x. ed_applicationId x = appId \<and> ed_archivedAt x = None) (entDefinitions s)))"

section \<open>PlanFeaturesService\<close>

definition same_plan_feature :: "id \<Rightarrow> id \<Rightarrow> plan_feature \<Rightarrow> bool" where
  "same_plan_feature planId featureId x \<longleftrightarrow> plf_planId x = planId \<and> plf_featureId x = featureId"

text \<open>Each plan feature with its feature, which the foreign key guarantees.\<close>

definition planfeature_list :: "id \<Rightarrow> ('z ent_db_scheme, (plan_feature \<times> feature_row option) list) svc" where
  "planfeature_list planId = gets (\<lambda>s. map (\<lambda>x. (x, List.find (\<lambda>f. ft_id f = plf_featureId x) (features s)))
     (filter (\<lambda>x. plf_planId x = planId) (planFeatures s)))"

definition planfeature_upsert ::
  "id \<Rightarrow> id \<Rightarrow> bool option \<Rightarrow> int option \<Rightarrow> string option \<Rightarrow> ('z ent_db_scheme, plan_feature) svc" where
  "planfeature_upsert planId featureId b n t =
     bnd (find_row planFeatures (same_plan_feature planId featureId)) (\<lambda>existing. case existing of
       None \<Rightarrow> insert_row planFeatures_update \<lparr>plf_planId = planId, plf_featureId = featureId, plf_boolValue = b,
                 plf_numberValue = n, plf_textValue = t\<rparr>
     | Some x \<Rightarrow> update_row planFeatures planFeatures_update (same_plan_feature planId featureId)
         (\<lambda>x. x\<lparr>plf_boolValue := keepUndef (map_option Some b) (plf_boolValue x),
                plf_numberValue := keepUndef (map_option Some n) (plf_numberValue x),
                plf_textValue := keepUndef (map_option Some t) (plf_textValue x)\<rparr>))"

definition planfeature_remove :: "id \<Rightarrow> id \<Rightarrow> ('z ent_db_scheme, unit) svc" where
  "planfeature_remove planId featureId =
     bnd (find_or_throw planFeatures (same_plan_feature planId featureId)) (\<lambda>_.
     modify (planFeatures_update (filter (\<lambda>x. \<not> same_plan_feature planId featureId x))))"

end
