(* ===== verification/Entitlements.thy ===== *)
theory Entitlements
  imports Features
begin

text \<open>
  The entitlement engine: entitlements/entitlement-resolver.service.ts (the winning grant and the access
  cache), entitlements/entitlement-grants.service.ts, entitlements/runtime-authorization.service.ts (what
  applications ask at run time), usage-limits/usage-limits.service.ts and usage/usage.service.ts.
\<close>

section \<open>EntitlementResolverService\<close>

fun source_priority :: "EntitlementGrantSource \<Rightarrow> nat" where
  "source_priority MANUAL = 3"
| "source_priority PROMOTIONAL = 2"
| "source_priority TRIAL = 1"
| "source_priority SUBSCRIPTION = 0"

text \<open>The callback of \<open>reduce\<close>, and \<open>reduce\<close> from the first element.\<close>

definition better :: "ent_grant \<Rightarrow> ent_grant \<Rightarrow> ent_grant" where
  "better best current =
     (if source_priority (eg_source best) < source_priority (eg_source current) then current
      else if source_priority (eg_source current) < source_priority (eg_source best) then best
      else if eg_createdAt best < eg_createdAt current then current else best)"

fun pickWinner :: "ent_grant list \<Rightarrow> ent_grant option" where
  "pickWinner [] = None"
| "pickWinner (g # gs) = Some (foldl better g gs)"

definition grant_candidate :: "id \<Rightarrow> id \<Rightarrow> id \<Rightarrow> time \<Rightarrow> ent_grant \<Rightarrow> bool" where
  "grant_candidate org appId defId t g \<longleftrightarrow> eg_organizationId g = org \<and> eg_applicationId g = appId
     \<and> eg_entitlementDefinitionId g = defId \<and> eg_status g = EntitlementGrantStatus.ACTIVE \<and> eg_validFrom g \<le> t
     \<and> (case eg_validUntil g of None \<Rightarrow> True | Some u \<Rightarrow> t < u)"

definition gives_access :: "ent_grant \<Rightarrow> bool" where
  "gives_access g \<longleftrightarrow> eg_isUnlimited g \<or> eg_boolValue g = Some True \<or> eg_numberValue g \<noteq> None"

definition same_access :: "id \<Rightarrow> id \<Rightarrow> id \<Rightarrow> feature_access \<Rightarrow> bool" where
  "same_access org appId defId x \<longleftrightarrow>
     fa_organizationId x = org \<and> fa_applicationId x = appId \<and> fa_entitlementDefinitionId x = defId"

definition access_of :: "id \<Rightarrow> id \<Rightarrow> id \<Rightarrow> time \<Rightarrow> ent_grant \<Rightarrow> feature_access" where
  "access_of org appId defId t w =
     \<lparr>fa_organizationId = org, fa_applicationId = appId, fa_entitlementDefinitionId = defId, fa_hasAccess = gives_access w,
      fa_numberValue = eg_numberValue w, fa_textValue = eg_textValue w, fa_isUnlimited = eg_isUnlimited w,
      fa_sourceGrantId = Some (eg_id w), fa_computedAt = t\<rparr>"

definition recompute :: "id \<Rightarrow> id \<Rightarrow> id \<Rightarrow> ('z ent_db_scheme, unit) svc" where
  "recompute org appId defId =
     bnd now (\<lambda>t.
     bnd (gets (\<lambda>s. filter (grant_candidate org appId defId t) (grants s))) (\<lambda>candidates.
     case pickWinner candidates of
       None \<Rightarrow> modify (featureAccess_update (filter (\<lambda>x. \<not> same_access org appId defId x)))
     | Some w \<Rightarrow>
       bnd (find_row featureAccess (same_access org appId defId)) (\<lambda>existing. case existing of
         None \<Rightarrow> seq (insert_row featureAccess_update (access_of org appId defId t w)) (ret ())
       | Some x \<Rightarrow> seq (update_row featureAccess featureAccess_update (same_access org appId defId)
           (\<lambda>x. x\<lparr>fa_hasAccess := gives_access w, fa_numberValue := eg_numberValue w, fa_textValue := eg_textValue w,
                  fa_isUnlimited := eg_isUnlimited w, fa_sourceGrantId := Some (eg_id w), fa_computedAt := t\<rparr>)) (ret ()))))"

section \<open>EntitlementGrantsService\<close>

record grant_dto =
  gd_applicationId :: id
  gd_entitlementDefinitionId :: id
  gd_source :: "EntitlementGrantSource option"
  gd_boolValue :: "bool option"
  gd_numberValue :: "int option"
  gd_textValue :: "string option"
  gd_isUnlimited :: "bool option"
  gd_validUntil :: "time option"
  gd_metadata :: "json option"

definition add_grant_event :: "id \<Rightarrow> string \<Rightarrow> id \<Rightarrow> ('z ent_db_scheme, unit) svc" where
  "add_grant_event grantId type userId = seq (insert_row grantEvents_update
     \<lparr>ge_grantId = grantId, ge_type = type, ge_createdById = Some userId\<rparr>) (ret ())"

definition grant_create :: "id \<Rightarrow> id \<Rightarrow> grant_dto \<Rightarrow> request_meta \<Rightarrow> ('z ent_db_scheme, ent_grant) svc" where
  "grant_create org userId dto meta =
     bnd (find_row entDefinitions (\<lambda>d. ed_id d = gd_entitlementDefinitionId dto)) (\<lambda>r.
     seq (guard_or (case r of None \<Rightarrow> False | Some d \<Rightarrow> ed_applicationId d = gd_applicationId dto)
            (NotFoundException ''Entitlement definition not found for this application''))
     (bnd fresh (\<lambda>i. bnd now (\<lambda>t.
      bnd (insert_row grants_update
        \<lparr>eg_id = i, eg_entitlementDefinitionId = gd_entitlementDefinitionId dto, eg_organizationId = org,
         eg_applicationId = gd_applicationId dto, eg_subscriptionId = None, eg_source = orElse (gd_source dto) MANUAL,
         eg_status = EntitlementGrantStatus.ACTIVE, eg_boolValue = gd_boolValue dto, eg_numberValue = gd_numberValue dto,
         eg_textValue = gd_textValue dto, eg_isUnlimited = orElse (gd_isUnlimited dto) False, eg_validFrom = t,
         eg_validUntil = gd_validUntil dto, eg_revokedAt = None, eg_idempotencyKey = None, eg_metadata = gd_metadata dto,
         eg_version = 1, eg_createdAt = t\<rparr>) (\<lambda>grant.
      seq (add_grant_event (eg_id grant) ''created'' userId)
      (seq (recompute org (gd_applicationId dto) (gd_entitlementDefinitionId dto))
      (seq (audit ''ENTITLEMENT_GRANT_CREATED'' (Some userId) (Some org) (Some (gd_applicationId dto)) [] meta)
           (ret grant))))))))"

definition revoked_at :: "time \<Rightarrow> ent_grant \<Rightarrow> ent_grant" where
  "revoked_at t g = g\<lparr>eg_status := EntitlementGrantStatus.REVOKED, eg_revokedAt := Some t\<rparr>"

definition set_grant :: "id \<Rightarrow> (ent_grant \<Rightarrow> ent_grant) \<Rightarrow> ('z ent_db_scheme, unit) svc" where
  "set_grant i f = seq (update_row grants grants_update (\<lambda>g. eg_id g = i) f) (ret ())"

definition grant_revoke :: "id \<Rightarrow> id \<Rightarrow> id \<Rightarrow> request_meta \<Rightarrow> ('z ent_db_scheme, unit) svc" where
  "grant_revoke grantId org userId meta =
     bnd (find_row grants (\<lambda>g. eg_id g = grantId)) (\<lambda>r. case r of
       None \<Rightarrow> throw (NotFoundException ''Entitlement grant not found'')
     | Some g \<Rightarrow>
       seq (guard_or (eg_organizationId g = org) (NotFoundException ''Entitlement grant not found''))
       (seq (guard_or (eg_status g = EntitlementGrantStatus.ACTIVE) (BadRequestException ''Grant is not active''))
       (bnd now (\<lambda>t.
        seq (set_grant grantId (revoked_at t))
        (seq (add_grant_event grantId ''revoked'' userId)
        (seq (recompute org (eg_applicationId g) (eg_entitlementDefinitionId g))
        (audit ''ENTITLEMENT_GRANT_REVOKED'' (Some userId) (Some org) (Some (eg_applicationId g)) [] meta)))))))"

definition grant_list :: "id \<Rightarrow> id option \<Rightarrow> ('z ent_db_scheme, ent_grant list) svc" where
  "grant_list org appId = gets (\<lambda>s. take 200 (order_by (\<lambda>g. - eg_createdAt g)
     (filter (\<lambda>g. eg_organizationId g = org \<and> (appId = None \<or> Some (eg_applicationId g) = appId)) (grants s))))"

definition grant_key :: "id \<Rightarrow> id \<Rightarrow> string" where
  "grant_key subId defId = ''sub:'' @ id_str subId @ '':def:'' @ id_str defId"

definition entitling :: "SubscriptionStatus \<Rightarrow> bool" where
  "entitling st \<longleftrightarrow> st \<in> {SubscriptionStatus.ACTIVE, SubscriptionStatus.TRIALING, SubscriptionStatus.GRACE_PERIOD}"

text \<open>The plan's features, each with the definitions of its feature, as the query includes them.\<close>

definition plan_definitions :: "id \<Rightarrow> 'z ent_db_scheme \<Rightarrow> (plan_feature \<times> ent_definition) list" where
  "plan_definitions planId s = concat (map (\<lambda>f. map (\<lambda>d. (f, d)) (filter (\<lambda>d. ed_featureId d = Some (plf_featureId f)) (entDefinitions s)))
     (filter (\<lambda>f. plf_planId f = planId) (planFeatures s)))"

definition sync_definition :: "sub_row \<Rightarrow> id \<Rightarrow> plan_feature \<times> ent_definition \<Rightarrow> ('z ent_db_scheme, unit) svc" where
  "sync_definition sub userId fd = (case fd of (f, d) \<Rightarrow>
     bnd (find_row grants (\<lambda>g. eg_idempotencyKey g = Some (grant_key (sub_id sub) (ed_id d)))) (\<lambda>existing.
     bnd now (\<lambda>t.
     seq (if \<not> entitling (sub_status sub) then
            (case existing of None \<Rightarrow> ret ()
             | Some g \<Rightarrow> when_do (eg_status g = EntitlementGrantStatus.ACTIVE)
                 (seq (set_grant (eg_id g) (revoked_at t)) (add_grant_event (eg_id g) ''subscription_no_longer_entitles'' userId)))
          else (case existing of
             Some g \<Rightarrow> set_grant (eg_id g) (\<lambda>x. x\<lparr>eg_status := EntitlementGrantStatus.ACTIVE, eg_boolValue := plf_boolValue f,
                eg_numberValue := plf_numberValue f, eg_textValue := plf_textValue f, eg_revokedAt := None,
                eg_version := eg_version x + 1\<rparr>)
           | None \<Rightarrow> bnd fresh (\<lambda>i.
               bnd (insert_unique grants grants_update (\<lambda>g. eg_idempotencyKey g = Some (grant_key (sub_id sub) (ed_id d)))
                 \<lparr>eg_id = i, eg_entitlementDefinitionId = ed_id d, eg_organizationId = sub_organizationId sub,
                  eg_applicationId = sub_applicationId sub, eg_subscriptionId = Some (sub_id sub), eg_source = SUBSCRIPTION,
                  eg_status = EntitlementGrantStatus.ACTIVE, eg_boolValue = plf_boolValue f, eg_numberValue = plf_numberValue f,
                  eg_textValue = plf_textValue f, eg_isUnlimited = False, eg_validFrom = t, eg_validUntil = None,
                  eg_revokedAt = None, eg_idempotencyKey = Some (grant_key (sub_id sub) (ed_id d)), eg_metadata = None,
                  eg_version = 1, eg_createdAt = t\<rparr>) (\<lambda>g.
               add_grant_event (eg_id g) ''created_from_subscription'' userId))))
     (recompute (sub_organizationId sub) (sub_applicationId sub) (ed_id d)))))"

definition syncFromSubscription :: "id \<Rightarrow> id \<Rightarrow> request_meta \<Rightarrow> ('z ent_db_scheme, nat) svc" where
  "syncFromSubscription subId userId meta =
     bnd (find_row subscriptions (\<lambda>r. sub_id r = subId)) (\<lambda>r. case r of
       None \<Rightarrow> throw (NotFoundException ''Subscription not found'')
     | Some sub \<Rightarrow>
       bnd (gets (plan_definitions (sub_planId sub))) (\<lambda>fds.
       seq (for_each fds (sync_definition sub userId))
       (seq (audit ''ENTITLEMENT_GRANT_CREATED'' (Some userId) (Some (sub_organizationId sub)) (Some (sub_applicationId sub))
               [(''subscriptionId'', JId subId), (''entitlementDefinitionsSynced'', JArr (map (\<lambda>(f, d). JId (ed_id d)) fds))] meta)
            (ret (length fds)))))"

section \<open>RuntimeAuthorizationService: entitlements\<close>

record entitlement_check =
  ec_allowed :: bool
  ec_numberValue :: "int option"
  ec_textValue :: "string option"
  ec_isUnlimited :: bool

definition denied :: entitlement_check where
  "denied = \<lparr>ec_allowed = False, ec_numberValue = None, ec_textValue = None, ec_isUnlimited = False\<rparr>"

definition same_definition :: "id \<Rightarrow> string \<Rightarrow> ent_definition \<Rightarrow> bool" where
  "same_definition appId k d \<longleftrightarrow> ed_applicationId d = appId \<and> ed_key d = k"

definition hasEntitlement :: "id \<Rightarrow> id \<Rightarrow> string \<Rightarrow> ('z ent_db_scheme, entitlement_check) svc" where
  "hasEntitlement org appId k =
     bnd (find_row entDefinitions (same_definition appId k)) (\<lambda>r. case r of None \<Rightarrow> ret denied
     | Some d \<Rightarrow> bnd (find_row featureAccess (same_access org appId (ed_id d))) (\<lambda>access. case access of
         None \<Rightarrow> ret denied
       | Some a \<Rightarrow> ret \<lparr>ec_allowed = fa_hasAccess a, ec_numberValue = fa_numberValue a, ec_textValue = fa_textValue a,
                       ec_isUnlimited = fa_isUnlimited a\<rparr>))"

section \<open>RuntimeAuthorizationService: usage\<close>

record usage_snapshot =
  us_used :: int
  us_limit :: "int option"
  us_remaining :: "int option"
  us_isUnlimited :: bool

definition same_limit :: "id \<Rightarrow> id \<Rightarrow> id \<Rightarrow> usage_limit \<Rightarrow> bool" where
  "same_limit org appId defId x \<longleftrightarrow>
     ul_organizationId x = org \<and> ul_applicationId x = appId \<and> ul_entitlementDefinitionId x = defId"

definition same_counter :: "id \<Rightarrow> id \<Rightarrow> id \<Rightarrow> usage_counter \<Rightarrow> bool" where
  "same_counter org appId defId x \<longleftrightarrow>
     uc_organizationId x = org \<and> uc_applicationId x = appId \<and> uc_entitlementDefinitionId x = defId"

definition new_counter :: "id \<Rightarrow> id \<Rightarrow> id \<Rightarrow> id \<Rightarrow> time \<Rightarrow> usage_counter" where
  "new_counter i org appId defId t = \<lparr>uc_id = i, uc_organizationId = org, uc_applicationId = appId,
     uc_entitlementDefinitionId = defId, uc_value = 0, uc_periodStart = t, uc_periodEnd = None, uc_lastResetAt = t\<rparr>"

definition create_counter :: "id \<Rightarrow> id \<Rightarrow> id \<Rightarrow> ('z ent_db_scheme, usage_counter) svc" where
  "create_counter org appId defId = bnd fresh (\<lambda>i. bnd now (\<lambda>t.
     insert_unique usageCounters usageCounters_update (same_counter org appId defId) (new_counter i org appId defId t)))"

definition applyScheduledReset :: "time \<Rightarrow> usage_counter \<Rightarrow> usage_counter" where
  "applyScheduledReset t c = (case uc_periodEnd c of None \<Rightarrow> c
     | Some e \<Rightarrow> if e < t then c\<lparr>uc_value := 0, uc_periodStart := t\<rparr> else c)"

definition getOrCreateCounter :: "id \<Rightarrow> id \<Rightarrow> id \<Rightarrow> ('z ent_db_scheme, usage_counter) svc" where
  "getOrCreateCounter org appId defId =
     bnd (find_row usageCounters (same_counter org appId defId)) (\<lambda>existing. case existing of
       Some c \<Rightarrow> bnd now (\<lambda>t. ret (applyScheduledReset t c))
     | None \<Rightarrow> create_counter org appId defId)"

definition snapshot_of :: "usage_limit option \<Rightarrow> int \<Rightarrow> usage_snapshot" where
  "snapshot_of lmt used =
     (let isUnlimited = (case lmt of None \<Rightarrow> False | Some l \<Rightarrow> ul_isUnlimited l);
          limitValue = (case lmt of None \<Rightarrow> None | Some l \<Rightarrow> ul_limitValue l) in
      \<lparr>us_used = used, us_limit = limitValue,
       us_remaining = (if isUnlimited then None else map_option (\<lambda>l. max 0 (l - used)) limitValue),
       us_isUnlimited = isUnlimited\<rparr>)"

definition getUsage :: "id \<Rightarrow> id \<Rightarrow> string \<Rightarrow> ('z ent_db_scheme, usage_snapshot) svc" where
  "getUsage org appId k =
     bnd (find_or_throw entDefinitions (same_definition appId k)) (\<lambda>d.
     bnd (find_row usageLimits (same_limit org appId (ed_id d))) (\<lambda>lmt.
     bnd (getOrCreateCounter org appId (ed_id d)) (\<lambda>counter.
     ret (snapshot_of lmt (uc_value counter)))))"

definition over_limit :: "usage_limit option \<Rightarrow> int \<Rightarrow> bool" where
  "over_limit lmt v \<longleftrightarrow> (case lmt of None \<Rightarrow> False
     | Some l \<Rightarrow> \<not> ul_isUnlimited l \<and> (case ul_limitValue l of None \<Rightarrow> False | Some m \<Rightarrow> m < v))"

text \<open>The transaction of \<open>incrementUsage\<close> reads, decides and then writes the value it computed.\<close>

definition increment_read ::
  "id \<Rightarrow> id \<Rightarrow> id \<Rightarrow> int \<Rightarrow> ('z ent_db_scheme, usage_limit option \<times> usage_counter \<times> int) svc" where
  "increment_read org appId defId amount =
     bnd (find_row usageLimits (same_limit org appId defId)) (\<lambda>lmt.
     bnd (find_row usageCounters (same_counter org appId defId)) (\<lambda>found.
     bnd (case found of Some c \<Rightarrow> ret c | None \<Rightarrow> create_counter org appId defId) (\<lambda>c0.
     bnd now (\<lambda>t.
     let counter = applyScheduledReset t c0; nextValue = uc_value counter + amount in
     seq (guard_or (\<not> over_limit lmt nextValue) (ForbiddenException ''Usage limit exceeded''))
         (ret (lmt, counter, nextValue))))))"

definition increment_write :: "usage_limit option \<times> usage_counter \<times> int \<Rightarrow> ('z ent_db_scheme, usage_snapshot) svc" where
  "increment_write x = (case x of (lmt, counter, nextValue) \<Rightarrow>
     seq (int_columns [nextValue])
     (bnd (update_row usageCounters usageCounters_update (\<lambda>c. uc_id c = uc_id counter)
            (\<lambda>c. c\<lparr>uc_value := nextValue, uc_periodStart := uc_periodStart counter, uc_lastResetAt := uc_lastResetAt counter\<rparr>)) (\<lambda>updated.
     ret (snapshot_of lmt (uc_value updated)))))"

text \<open>The amount is any integer: the public route validates it (at least 1), the dashboard's does not.\<close>

definition incrementUsage :: "id \<Rightarrow> id \<Rightarrow> string \<Rightarrow> int \<Rightarrow> ('z ent_db_scheme, usage_snapshot) svc" where
  "incrementUsage org appId k amount =
     bnd (find_or_throw entDefinitions (same_definition appId k)) (\<lambda>d.
     transaction (bnd (increment_read org appId (ed_id d) amount) increment_write))"

definition decrementUsage :: "id \<Rightarrow> id \<Rightarrow> string \<Rightarrow> int \<Rightarrow> ('z ent_db_scheme, unit) svc" where
  "decrementUsage org appId k amount =
     bnd (find_or_throw entDefinitions (same_definition appId k)) (\<lambda>d.
     seq (bnd (gets (\<lambda>s. filter (same_counter org appId (ed_id d)) (usageCounters s))) (\<lambda>cs. int_columns (amount # map (\<lambda>c. uc_value c - amount) cs)))
     (seq (update_many usageCounters usageCounters_update (same_counter org appId (ed_id d)) (\<lambda>c. c\<lparr>uc_value := uc_value c - amount\<rparr>))
     (seq (update_many usageCounters usageCounters_update (\<lambda>c. same_counter org appId (ed_id d) c \<and> uc_value c < 0) (\<lambda>c. c\<lparr>uc_value := 0\<rparr>))
     (ret ()))))"

section \<open>RuntimeAuthorizationService: keys and seats\<close>

record valid_api_key =
  vk_apiKeyId :: id
  vk_apiClientId :: id
  vk_organizationId :: id
  vk_applicationId :: "id option"
  vk_scopes :: "string list"

definition validateApiKey :: "(string \<Rightarrow> string) \<Rightarrow> string \<Rightarrow> ('z ent_db_scheme, valid_api_key option) svc" where
  "validateApiKey hash rawKey =
     bnd (find_row apiKeys (\<lambda>x. ak_keyHash x = hash rawKey)) (\<lambda>r. case r of None \<Rightarrow> ret None
     | Some x \<Rightarrow>
       bnd (find_or_throw apiClients (\<lambda>c. acl_id c = ak_apiClientId x)) (\<lambda>client.
       bnd now (\<lambda>t.
       if ak_revokedAt x \<noteq> None \<or> (case ak_expiresAt x of None \<Rightarrow> False | Some e \<Rightarrow> e < t) then ret None
       else
         seq (update_row apiKeys apiKeys_update (\<lambda>y. ak_id y = ak_id x) (\<lambda>y. y\<lparr>ak_lastUsedAt := Some t\<rparr>))
         (bnd (gets (\<lambda>s. map as_scope (filter (\<lambda>z. as_apiKeyId z = ak_id x) (apiKeyScopes s)))) (\<lambda>scopes.
         ret (Some \<lparr>vk_apiKeyId = ak_id x, vk_apiClientId = ak_apiClientId x, vk_organizationId = acl_organizationId client,
            vk_applicationId = acl_applicationId client, vk_scopes = scopes\<rparr>))))))"

datatype key_validity = Invalid string | Valid id license_row

definition validateLicenseKey :: "(string \<Rightarrow> string) \<Rightarrow> string \<Rightarrow> ('z lic_db_scheme, key_validity) svc" where
  "validateLicenseKey hash rawKey =
     bnd (find_row licenseKeys (\<lambda>x. lk_keyHash x = hash rawKey)) (\<lambda>r. case r of None \<Rightarrow> ret (Invalid ''not_found'')
     | Some x \<Rightarrow>
       bnd (find_or_throw licenses (\<lambda>l. lic_id l = lk_licenseId x)) (\<lambda>license.
       bnd now (\<lambda>t.
       if lk_status x \<noteq> LicenseStatus.ACTIVE then ret (Invalid ''inactive'')
       else if (case lk_expiresAt x of None \<Rightarrow> False | Some e \<Rightarrow> e < t) then ret (Invalid ''expired'')
       else if lk_activationLimit x \<le> lk_activationCount x then ret (Invalid ''activation_limit_reached'')
       else ret (Valid (lk_licenseId x) license))))"

definition validateSeat :: "id \<Rightarrow> id \<Rightarrow> ('z lic_db_scheme, bool) svc" where
  "validateSeat licenseId userId = gets (\<lambda>s. \<exists>a \<in> set (seatAssignments s). sa_userId a = userId \<and> sa_status a = SeatAssignmentStatus.ACTIVE
     \<and> (\<exists>x \<in> set (seats s). seat_id x = sa_seatId a \<and> seat_licenseId x = licenseId))"

section \<open>UsageLimitsService\<close>

definition getDefinitionOrThrow :: "id \<Rightarrow> string \<Rightarrow> ('z ent_db_scheme, ent_definition) svc" where
  "getDefinitionOrThrow appId k = bnd (find_row entDefinitions (same_definition appId k)) (\<lambda>r. case r of
     None \<Rightarrow> throw (NotFoundException (''Entitlement definition '' @ [CHR 0x27] @ k @ [CHR 0x27] @ '' not found for this application''))
   | Some d \<Rightarrow> ret d)"

fun policy_str :: "UsageResetPolicy \<Rightarrow> string" where
  "policy_str NEVER = ''NEVER''"
| "policy_str MONTHLY = ''MONTHLY''"
| "policy_str YEARLY = ''YEARLY''"
| "policy_str LIFETIME = ''LIFETIME''"

text \<open>\<open>limitValue\<close> may be absent, \<open>null\<close> (the inner \<open>None\<close>) or a number.\<close>

definition upsertLimit ::
  "id \<Rightarrow> id \<Rightarrow> string \<Rightarrow> int option option \<Rightarrow> bool option \<Rightarrow> UsageResetPolicy option \<Rightarrow> id \<Rightarrow> request_meta
   \<Rightarrow> ('z ent_db_scheme, usage_limit) svc" where
  "upsertLimit org appId k limitValue isUnlimited resetPolicy userId meta =
     bnd (getDefinitionOrThrow appId k) (\<lambda>d.
     seq (int_columns (case limitValue of Some (Some v) \<Rightarrow> [v] | _ \<Rightarrow> []))
     (bnd now (\<lambda>t.
     bnd (find_row usageLimits (same_limit org appId (ed_id d))) (\<lambda>existing.
     bnd (case existing of
        None \<Rightarrow> insert_row usageLimits_update \<lparr>ul_organizationId = org, ul_applicationId = appId, ul_entitlementDefinitionId = ed_id d,
          ul_limitValue = orElse limitValue None, ul_isUnlimited = orElse isUnlimited False, ul_resetPolicy = orElse resetPolicy NEVER, ul_createdAt = t\<rparr>
      | Some x \<Rightarrow> update_row usageLimits usageLimits_update (same_limit org appId (ed_id d))
          (\<lambda>x. x\<lparr>ul_limitValue := keepUndef limitValue (ul_limitValue x),
                 ul_isUnlimited := keepUndef isUnlimited (ul_isUnlimited x),
                 ul_resetPolicy := keepUndef resetPolicy (ul_resetPolicy x)\<rparr>)) (\<lambda>lmt.
     seq (audit ''USAGE_LIMIT_UPDATED'' (Some userId) (Some org) (Some appId)
            [(''key'', JStr k), (''limitValue'', jnullable JInt (ul_limitValue lmt)), (''isUnlimited'', JBool (ul_isUnlimited lmt)),
             (''resetPolicy'', JStr (policy_str (ul_resetPolicy lmt)))] meta)
         (ret lmt))))))"

text \<open>The map by definition keeps the last counter of a definition.\<close>

definition limit_list :: "id \<Rightarrow> id \<Rightarrow> ('z ent_db_scheme, (usage_limit \<times> usage_counter option) list) svc" where
  "limit_list org appId = gets (\<lambda>s.
     let counters = filter (\<lambda>c. uc_organizationId c = org \<and> uc_applicationId c = appId) (usageCounters s);
         limits = order_by ul_createdAt (filter (\<lambda>l. ul_organizationId l = org \<and> ul_applicationId l = appId) (usageLimits s)) in
     map (\<lambda>l. (l, List.find (\<lambda>c. uc_entitlementDefinitionId c = ul_entitlementDefinitionId l) (rev counters))) limits)"

definition limit_getOne ::
  "id \<Rightarrow> id \<Rightarrow> string \<Rightarrow> ('z ent_db_scheme, string \<times> id \<times> usage_limit option \<times> usage_snapshot) svc" where
  "limit_getOne org appId k =
     bnd (getDefinitionOrThrow appId k) (\<lambda>d.
     bnd (find_row usageLimits (same_limit org appId (ed_id d))) (\<lambda>lmt.
     bnd (getUsage org appId k) (\<lambda>usage. ret (k, ed_id d, lmt, usage))))"

definition resetCounter :: "id \<Rightarrow> id \<Rightarrow> string \<Rightarrow> id \<Rightarrow> request_meta \<Rightarrow> ('z ent_db_scheme, usage_counter) svc" where
  "resetCounter org appId k userId meta =
     bnd (getDefinitionOrThrow appId k) (\<lambda>d.
     bnd now (\<lambda>t.
     bnd (find_row usageCounters (same_counter org appId (ed_id d))) (\<lambda>existing.
     bnd (case existing of
        None \<Rightarrow> bnd fresh (\<lambda>i. insert_row usageCounters_update (new_counter i org appId (ed_id d) t))
      | Some x \<Rightarrow> update_row usageCounters usageCounters_update (same_counter org appId (ed_id d))
          (\<lambda>c. c\<lparr>uc_value := 0, uc_periodStart := t, uc_lastResetAt := t\<rparr>)) (\<lambda>counter.
     seq (audit ''USAGE_LIMIT_UPDATED'' (Some userId) (Some org) (Some appId)
            [(''key'', JStr k), (''action'', JStr ''counter_reset'')] meta)
         (ret counter)))))"

section \<open>UsageService\<close>

record usage_dto =
  ud_customerId :: id
  ud_subscriptionId :: "id option"
  ud_featureId :: id
  ud_quantity :: int
  ud_source :: "string option"
  ud_metadata :: "json option"

definition usage_row :: "id \<Rightarrow> time \<Rightarrow> string \<Rightarrow> usage_dto \<Rightarrow> usage_record" where
  "usage_row i t key dto = \<lparr>ur_id = i, ur_customerId = ud_customerId dto, ur_subscriptionId = ud_subscriptionId dto,
     ur_featureId = ud_featureId dto, ur_quantity = ud_quantity dto, ur_idempotencyKey = key, ur_source = ud_source dto,
     ur_metadata = ud_metadata dto, ur_createdAt = t\<rparr>"

definition usage_record_op :: "id \<Rightarrow> string \<Rightarrow> usage_dto \<Rightarrow> ('z ent_db_scheme, usage_record) svc" where
  "usage_record_op org key dto =
     bnd (find_row usageRecords (\<lambda>x. ur_idempotencyKey x = key)) (\<lambda>existing. case existing of Some x \<Rightarrow> ret x
     | None \<Rightarrow>
       bnd (find_or_throw customers (\<lambda>c. cust_id c = ud_customerId dto)) (\<lambda>customer.
       bnd (find_or_throw features (\<lambda>f. ft_id f = ud_featureId dto)) (\<lambda>_.
       seq (guard_or (cust_organizationId customer = org) (NotFoundException ''Customer not found in this organization''))
       (try_catch
         (bnd fresh (\<lambda>i. bnd now (\<lambda>t. insert_unique usageRecords usageRecords_update (\<lambda>x. ur_idempotencyKey x = key) (usage_row i t key dto))))
         (\<lambda>_. throw (ConflictException ''A usage record with this idempotency key already exists''))))))"

end
