(* ===== verification/Entitlement_Flow.thy ===== *)
theory Entitlement_Flow
  imports Entitlements Lifecycle
begin

text \<open>
  What the entitlement engine guarantees: the access cache agrees with the winning grant as long as no
  grant expires, usage stays within its limit, and usage records are booked once per key; and where it
  falls short (expiry, plan changes, reset policies, concurrent increments, activated license keys).
\<close>

section \<open>The winning grant\<close>

text \<open>The order of precedence: the source first, then the time of creation.\<close>

definition outranks :: "ent_grant \<Rightarrow> ent_grant \<Rightarrow> bool" where
  "outranks g h \<longleftrightarrow> source_priority (eg_source h) < source_priority (eg_source g)
     \<or> source_priority (eg_source h) = source_priority (eg_source g) \<and> eg_createdAt h < eg_createdAt g"

definition winning :: "ent_grant list \<Rightarrow> ent_grant \<Rightarrow> bool" where
  "winning gs w \<longleftrightarrow> w \<in> set gs \<and> (\<forall>g \<in> set gs. \<not> outranks g w)"

lemma better_cases: "better g h = g \<or> better g h = h"
  by (simp add: better_def)

lemma better_not_outranked:
  "\<not> outranks g (better g h)" "\<not> outranks h (better g h)"
  "\<not> outranks x g \<Longrightarrow> \<not> outranks x (better g h)"
  by (auto simp: better_def outranks_def)

lemma foldl_better: "winning (g # gs) (foldl better g gs)"
proof (induction gs arbitrary: g)
  case Nil
  show ?case by (simp add: winning_def outranks_def)
next
  case (Cons h gs)
  let ?w = "foldl better (better g h) gs"
  have w: "winning (better g h # gs) ?w" by (rule Cons.IH)
  then have "\<not> outranks (better g h) ?w" by (simp add: winning_def)
  then have "\<not> outranks g ?w" "\<not> outranks h ?w"
    using better_not_outranked(1,2) [of g h] better_not_outranked(1,2) [of h g]
    by (auto simp: outranks_def better_def split: if_splits)
  with w better_cases [of g h] show ?case by (auto simp: winning_def)
qed

lemma pickWinner_winning: "pickWinner gs = Some w \<Longrightarrow> winning gs w"
  by (cases gs) (auto intro: foldl_better)

lemma pickWinner_None: "pickWinner gs = None \<longleftrightarrow> gs = []"
  by (cases gs) simp_all

section \<open>The cache and the grants\<close>

definition check_of_grant :: "ent_grant \<Rightarrow> entitlement_check" where
  "check_of_grant w = \<lparr>ec_allowed = gives_access w, ec_numberValue = eg_numberValue w, ec_textValue = eg_textValue w,
     ec_isUnlimited = eg_isUnlimited w\<rparr>"

definition check_of_access :: "feature_access option \<Rightarrow> entitlement_check" where
  "check_of_access r = (case r of None \<Rightarrow> denied
     | Some a \<Rightarrow> \<lparr>ec_allowed = fa_hasAccess a, ec_numberValue = fa_numberValue a, ec_textValue = fa_textValue a,
                  ec_isUnlimited = fa_isUnlimited a\<rparr>)"

definition cached :: "'z ent_db_scheme \<Rightarrow> id \<Rightarrow> id \<Rightarrow> id \<Rightarrow> entitlement_check" where
  "cached s org appId defId = check_of_access (List.find (same_access org appId defId) (featureAccess s))"

text \<open>The answer the grants of a key justify at an instant: the winner's values, or a refusal.\<close>

definition candidates :: "'z ent_db_scheme \<Rightarrow> id \<Rightarrow> id \<Rightarrow> id \<Rightarrow> ent_grant list" where
  "candidates s org appId defId = filter (grant_candidate org appId defId (clock s)) (grants s)"

definition justified :: "'z ent_db_scheme \<Rightarrow> id \<Rightarrow> id \<Rightarrow> id \<Rightarrow> entitlement_check \<Rightarrow> bool" where
  "justified s org appId defId c \<longleftrightarrow>
     (if candidates s org appId defId = [] then c = denied
      else \<exists>w. winning (candidates s org appId defId) w \<and> c = check_of_grant w)"

definition agrees :: "'z ent_db_scheme \<Rightarrow> id \<Rightarrow> id \<Rightarrow> id \<Rightarrow> bool" where
  "agrees s org appId defId \<longleftrightarrow> justified s org appId defId (cached s org appId defId)"

lemma wps_hasEntitlement:
  "wps (hasEntitlement org appId k) Q s = Q (Inr (case List.find (same_definition appId k) (entDefinitions s) of
     None \<Rightarrow> denied | Some d \<Rightarrow> cached s org appId (ed_id d))) s"
  by (simp add: hasEntitlement_def wp cached_def check_of_access_def split: option.split)

lemma find_filter_other:
  "(\<And>x. P x \<Longrightarrow> R x) \<Longrightarrow> List.find P (filter R xs) = List.find P xs"
  by (induction xs) auto

lemma same_access_key:
  "same_access org appId defId x \<Longrightarrow> same_access o' a' d' x \<Longrightarrow> o' = org \<and> a' = appId \<and> d' = defId"
  by (auto simp: same_access_def)

lemma same_access_of [simp]:
  "same_access o' a' d' (access_of org appId defId t w) \<longleftrightarrow> o' = org \<and> a' = appId \<and> d' = defId"
  by (auto simp: same_access_def access_of_def)

lemma check_access_of: "check_of_access (Some (access_of org appId defId t w)) = check_of_grant w"
  by (simp add: check_of_access_def access_of_def check_of_grant_def)

lemma find_same_access_filter:
  "(o', a', d') \<noteq> (org, appId, defId) \<Longrightarrow>
   List.find (same_access o' a' d') (filter (\<lambda>x. \<not> same_access org appId defId x) fa) = List.find (same_access o' a' d') fa"
  by (induction fa) (auto dest: same_access_key)

lemma find_same_access_upd:
  assumes "(o', a', d') \<noteq> (org, appId, defId)" and "\<And>y. same_access o' a' d' (f y) = same_access o' a' d' y"
  shows "List.find (same_access o' a' d') (upd_where (same_access org appId defId) f fa) = List.find (same_access o' a' d') fa"
proof -
  have "same_access org appId defId y \<Longrightarrow> \<not> same_access o' a' d' y" for y using assms(1) by (auto dest: same_access_key)
  with assms(2) show ?thesis by (intro find_upd_where_other) auto
qed

text \<open>A recomputation settles its own key and touches no other.\<close>

lemma wps_recompute:
  assumes "\<And>f. (\<And>o' a' d'. (o', a', d') \<noteq> (org, appId, defId) \<Longrightarrow>
        cached (featureAccess_update f s) o' a' d' = cached s o' a' d')
      \<Longrightarrow> agrees (featureAccess_update f s) org appId defId
      \<Longrightarrow> Q (Inr ()) (featureAccess_update f s)"
  shows "wps (recompute org appId defId) Q s"
proof -
  let ?cs = "candidates s org appId defId"
  let ?P = "same_access org appId defId"
  have cand: "candidates (featureAccess_update f s) org appId defId = ?cs" for f by (simp add: candidates_def)
  show ?thesis
  proof (cases "pickWinner ?cs")
    case None
    have none: "List.find ?P (filter (\<lambda>x. \<not> ?P x) (featureAccess s)) = None" by (simp add: find_None_iff')
    have "Q (Inr ()) (featureAccess_update (filter (\<lambda>x. \<not> ?P x)) s)"
      by (rule assms) (use None none in \<open>simp_all add: cached_def find_same_access_filter agrees_def justified_def cand
        pickWinner_None check_of_access_def\<close>)
    with None show ?thesis by (simp add: recompute_def wp candidates_def [symmetric])
  next
    case (Some w)
    note win = this
    have w: "winning ?cs w" using Some by (rule pickWinner_winning)
    have ne: "?cs \<noteq> []" using Some by auto
    show ?thesis
    proof (cases "List.find ?P (featureAccess s)")
      case None
      have "Q (Inr ()) (featureAccess_update (\<lambda>fa. fa @ [access_of org appId defId (clock s) w]) s)"
        by (rule assms)
          (use None w ne in \<open>auto simp: cached_def find_append agrees_def justified_def cand check_access_of split: option.split\<close>)
      with None win show ?thesis by (simp add: recompute_def wp candidates_def [symmetric])
    next
      case (Some x)
      let ?f = "\<lambda>x. x\<lparr>fa_hasAccess := gives_access w, fa_numberValue := eg_numberValue w, fa_textValue := eg_textValue w,
                  fa_isUnlimited := eg_isUnlimited w, fa_sourceGrantId := Some (eg_id w), fa_computedAt := clock s\<rparr>"
      have keep: "same_access o' a' d' (?f y) = same_access o' a' d' y" for o' a' d' y by (simp add: same_access_def)
      have hit: "List.find ?P (upd_where ?P ?f (featureAccess s)) = Some (?f x)"
        using Some find_upd_where_same [of ?P ?f "featureAccess s"] keep by simp
      have "Q (Inr ()) (featureAccess_update (upd_where ?P ?f) s)"
        by (rule assms) (use hit w ne in \<open>auto simp: cached_def find_same_access_upd [OF _ keep] agrees_def justified_def cand
          check_of_access_def check_of_grant_def\<close>)
      with Some win show ?thesis by (simp add: recompute_def wp candidates_def [symmetric])
    qed
  qed
qed

section \<open>The cache stays in step with the grants\<close>

lemma nat_str_no_colon: "c \<in> set (nat_str n) \<Longrightarrow> c \<noteq> CHR '':''"
proof (induction n rule: nat_str.induct)
  case (1 n)
  have digit: "digit_char d \<noteq> CHR '':''" if "d < 10" for d
    using digit_char_code [OF that] that by auto
  from 1 show ?case using digit [of n] digit [of "n mod 10"] by (cases "n < 10") (auto simp: nat_str_small nat_str_big)
qed

lemma takeWhile_digits: "takeWhile (\<lambda>c. c \<noteq> CHR '':'') (nat_str n @ CHR '':'' # xs) = nat_str n"
  by (simp add: nat_str_no_colon takeWhile_append2 [of "nat_str n"])

lemma grant_key_inj [simp]: "grant_key i d = grant_key j e \<longleftrightarrow> i = j \<and> d = e"
proof
  assume "grant_key i d = grant_key j e"
  then have eq: "nat_str i @ CHR '':'' # ''def:'' @ nat_str d = nat_str j @ CHR '':'' # ''def:'' @ nat_str e"
    by (simp add: grant_key_def id_str_def)
  then have "nat_str i = nat_str j" by (metis takeWhile_digits)
  with eq show "i = j \<and> d = e" by (auto dest: nat_str_inj)
qed simp

text \<open>What the tables of the engine look like: primary keys, validity from the time of creation, and the grants
  that a subscription gave carry its key, its organisation and its application.\<close>

definition from_subscription :: "sub_row list \<Rightarrow> nat \<Rightarrow> ent_grant \<Rightarrow> bool" where
  "from_subscription subs n g \<longleftrightarrow> (\<forall>i d. eg_idempotencyKey g = Some (grant_key i d) \<longrightarrow>
     eg_entitlementDefinitionId g = d \<and> i < n \<and>
     (\<forall>r. List.find (\<lambda>r. sub_id r = i) subs = Some r \<longrightarrow>
        eg_organizationId g = sub_organizationId r \<and> eg_applicationId g = sub_applicationId r))"

definition grants_ok :: "ent_grant list \<Rightarrow> sub_row list \<Rightarrow> nat \<Rightarrow> time \<Rightarrow> bool" where
  "grants_ok gs subs n t \<longleftrightarrow> distinct (map eg_id gs) \<and> (\<forall>r \<in> set subs. sub_id r < n)
     \<and> (\<forall>g \<in> set gs. eg_id g < n \<and> eg_validFrom g \<le> t \<and> from_subscription subs n g)"

definition ent_inv :: "'z ent_db_scheme \<Rightarrow> bool" where
  "ent_inv s \<longleftrightarrow> grants_ok (grants s) (subscriptions s) (nextId s) (clock s) \<and> (\<forall>org appId defId. agrees s org appId defId)"

definition agrees_but :: "id \<Rightarrow> id \<Rightarrow> id \<Rightarrow> 'z ent_db_scheme \<Rightarrow> bool" where
  "agrees_but org appId defId s \<longleftrightarrow> (\<forall>o' a' d'. (o', a', d') \<noteq> (org, appId, defId) \<longrightarrow> agrees s o' a' d')"

lemma agrees_cong:
  "candidates s' org appId defId = candidates s org appId defId \<Longrightarrow> cached s' org appId defId = cached s org appId defId
   \<Longrightarrow> agrees s' org appId defId = agrees s org appId defId"
  by (simp add: agrees_def justified_def)

text \<open>What the rest of the engine knows of one definition.\<close>

definition view :: "id \<Rightarrow> 'z ent_db_scheme \<Rightarrow> ent_grant list \<times> (id \<Rightarrow> id \<Rightarrow> entitlement_check) \<times> ent_definition list" where
  "view d s = (filter (\<lambda>g. eg_entitlementDefinitionId g = d) (grants s), \<lambda>org appId. cached s org appId d, entDefinitions s)"

lemma wps_settle:
  assumes "grants_ok (grants s) (subscriptions s) (nextId s) (clock s)" and "agrees_but org appId defId s"
    and "\<And>s'. ent_inv s' \<Longrightarrow> subscriptions s' = subscriptions s \<Longrightarrow> (\<forall>d. d \<noteq> defId \<longrightarrow> view d s' = view d s) \<Longrightarrow> Q (Inr ()) s'"
  shows "wps (recompute org appId defId) Q s"
proof (rule wps_recompute)
  fix f
  let ?s = "featureAccess_update f s"
  assume own: "agrees ?s org appId defId"
  assume other: "(o', a', d') \<noteq> (org, appId, defId) \<Longrightarrow> cached ?s o' a' d' = cached s o' a' d'" for o' a' d'
  have "agrees ?s o' a' d'" for o' a' d'
  proof (cases "(o', a', d') = (org, appId, defId)")
    case False
    with other [of o' a' d'] assms(2) show ?thesis
      by (subst agrees_cong [of _ _ _ _ s]) (auto simp: candidates_def agrees_but_def)
  qed (use own in simp)
  moreover have "\<forall>d. d \<noteq> defId \<longrightarrow> view d ?s = view d s" using other by (simp add: view_def)
  ultimately show "Q (Inr ()) ?s" using assms(1) by (intro assms(3)) (simp_all add: ent_inv_def)
qed

lemma grants_ok_add:
  assumes "grants_ok gs subs n t" and "eg_id g = n" and "eg_validFrom g = t" and "from_subscription subs (Suc n) g"
  shows "grants_ok (gs @ [g]) subs (Suc n) t"
  using assms by (fastforce simp: grants_ok_def from_subscription_def less_Suc_eq)

definition keeps_identity :: "(ent_grant \<Rightarrow> ent_grant) \<Rightarrow> bool" where
  "keeps_identity f \<longleftrightarrow> (\<forall>g. eg_id (f g) = eg_id g \<and> eg_validFrom (f g) = eg_validFrom g \<and> eg_idempotencyKey (f g) = eg_idempotencyKey g
     \<and> eg_entitlementDefinitionId (f g) = eg_entitlementDefinitionId g \<and> eg_organizationId (f g) = eg_organizationId g
     \<and> eg_applicationId (f g) = eg_applicationId g)"

lemma grants_ok_upd:
  "grants_ok gs subs n t \<Longrightarrow> keeps_identity f \<Longrightarrow> grants_ok (upd_where P f gs) subs n t"
  by (auto simp: grants_ok_def keeps_identity_def map_upd_where set_upd_where from_subscription_def)

lemma candidates_upd_other:
  assumes "distinct (map eg_id gs)" and "g \<in> set gs" and "keeps_identity f"
    and "(o', a', d') \<noteq> (eg_organizationId g, eg_applicationId g, eg_entitlementDefinitionId g)"
  shows "filter (grant_candidate o' a' d' t) (upd_where (\<lambda>x. eg_id x = eg_id g) f gs) = filter (grant_candidate o' a' d' t) gs"
proof -
  have "x \<in> set gs \<Longrightarrow> eg_id x = eg_id g \<Longrightarrow> x = g" for x using assms(1,2) by (auto dest: distinct_key_eq)
  moreover have "\<not> grant_candidate o' a' d' t g" "\<not> grant_candidate o' a' d' t (f g)"
    using assms(3,4) by (auto simp: grant_candidate_def keeps_identity_def)
  ultimately show ?thesis
  proof (induction gs)
    case (Cons y ys)
    then show ?case by (cases "eg_id y = eg_id g") (auto simp: upd_where_def)
  qed simp
qed


lemma filter_upd_other:
  assumes "distinct (map eg_id gs)" and "g \<in> set gs" and "keeps_identity f" and "eg_entitlementDefinitionId g \<noteq> d"
  shows "filter (\<lambda>g. eg_entitlementDefinitionId g = d) (upd_where (\<lambda>x. eg_id x = eg_id g) f gs)
    = filter (\<lambda>g. eg_entitlementDefinitionId g = d) gs"
proof -
  have "x \<in> set gs \<Longrightarrow> eg_id x = eg_id g \<Longrightarrow> x = g" for x using assms(1,2) by (auto dest: distinct_key_eq)
  with assms(3,4) show ?thesis
    by (induction gs) (force simp: upd_where_def keeps_identity_def)+
qed

lemma candidates_grants [simp]: "candidates (grants_update f s) o' a' d' = filter (grant_candidate o' a' d' (clock s)) (f (grants s))"
  by (simp add: candidates_def)

lemma not_candidate: "(o', a', d') \<noteq> (eg_organizationId g, eg_applicationId g, eg_entitlementDefinitionId g)
   \<Longrightarrow> \<not> grant_candidate o' a' d' t g"
  by (auto simp: grant_candidate_def)

text \<open>A new grant, or a change of one, followed by the recomputation of its key.\<close>

lemma agrees_but_add:
  assumes "ent_inv s" and "eg_organizationId g = org" and "eg_applicationId g = appId" and "eg_entitlementDefinitionId g = defId"
    and "grants s' = grants s @ [g]" and "clock s' = clock s" and "featureAccess s' = featureAccess s"
  shows "agrees_but org appId defId s'"
  unfolding agrees_but_def
proof (intro allI impI)
  fix o' a' d' assume "(o', a', d') \<noteq> (org, appId, defId)"
  with assms show "agrees s' o' a' d'"
    by (subst agrees_cong [of _ _ _ _ s]) (simp_all add: candidates_def cached_def not_candidate ent_inv_def)
qed

lemma agrees_but_upd:
  assumes "ent_inv s" and "g \<in> set (grants s)" and "keeps_identity f"
    and "eg_organizationId g = org" and "eg_applicationId g = appId" and "eg_entitlementDefinitionId g = defId"
    and "grants s' = upd_where (\<lambda>x. eg_id x = eg_id g) f (grants s)" and "clock s' = clock s" and "featureAccess s' = featureAccess s"
  shows "agrees_but org appId defId s'"
  unfolding agrees_but_def
proof (intro allI impI)
  fix o' a' d' assume "(o', a', d') \<noteq> (org, appId, defId)"
  moreover have "distinct (map eg_id (grants s))" using assms(1) by (simp add: ent_inv_def grants_ok_def)
  ultimately show "agrees s' o' a' d'" using assms
    by (subst agrees_cong [of _ _ _ _ s]) (simp_all add: candidates_def cached_def candidates_upd_other ent_inv_def)
qed

lemma ent_inv_frame [simp]:
  "ent_inv (audits_update f s) = ent_inv s" "ent_inv (grantEvents_update h s) = ent_inv s"
  by (simp_all add: ent_inv_def agrees_def justified_def candidates_def cached_def)

lemma keeps_revoked: "keeps_identity (revoked_at t)"
  by (simp add: keeps_identity_def revoked_at_def)

lemma settle_again: "ent_inv s \<Longrightarrow> (\<And>s'. ent_inv s' \<Longrightarrow> subscriptions s' = subscriptions s \<Longrightarrow> (\<forall>d. d \<noteq> defId \<longrightarrow> view d s' = view d s) \<Longrightarrow> Q (Inr ()) s')
   \<Longrightarrow> wps (recompute org appId defId) Q s"
  by (rule wps_settle) (simp_all add: ent_inv_def agrees_but_def)

lemma settle_upd:
  assumes "ent_inv s" and "List.find P (grants s) = Some g" and "keeps_identity f"
    and "eg_organizationId g = org" and "eg_applicationId g = appId" and "eg_entitlementDefinitionId g = defId"
    and "\<And>s'. ent_inv s' \<Longrightarrow> subscriptions s' = subscriptions s \<Longrightarrow> (\<forall>d. d \<noteq> defId \<longrightarrow> view d s' = view d s) \<Longrightarrow> Q (Inr ()) s'"
  shows "wps (recompute org appId defId) Q (grantEvents_update h (grants_update (upd_where (\<lambda>x. eg_id x = eg_id g) f) s))"
    and "wps (recompute org appId defId) Q (grants_update (upd_where (\<lambda>x. eg_id x = eg_id g) f) s)"
proof -
  have g: "g \<in> set (grants s)" using assms(2) by (auto dest: find_SomeD)
  have "distinct (map eg_id (grants s))" using assms(1) by (simp add: ent_inv_def grants_ok_def)
  then have view: "\<forall>d. d \<noteq> defId \<longrightarrow> filter (\<lambda>g. eg_entitlementDefinitionId g = d) (upd_where (\<lambda>x. eg_id x = eg_id g) f (grants s))
      = filter (\<lambda>g. eg_entitlementDefinitionId g = d) (grants s)"
    using g assms(3,6) by (intro allI impI filter_upd_other) auto
  have ok: "grants_ok (upd_where (\<lambda>x. eg_id x = eg_id g) f (grants s)) (subscriptions s) (nextId s) (clock s)"
    using assms(1,3) by (intro grants_ok_upd) (simp add: ent_inv_def)
  show "wps (recompute org appId defId) Q (grantEvents_update h (grants_update (upd_where (\<lambda>x. eg_id x = eg_id g) f) s))"
    by (rule wps_settle) (use ok assms(7) view in \<open>simp_all add: view_def cached_def\<close>, rule agrees_but_upd [OF assms(1) g assms(3-6)], simp_all)
  show "wps (recompute org appId defId) Q (grants_update (upd_where (\<lambda>x. eg_id x = eg_id g) f) s)"
    by (rule wps_settle) (use ok assms(7) view in \<open>simp_all add: view_def cached_def\<close>, rule agrees_but_upd [OF assms(1) g assms(3-6)], simp_all)
qed

lemma settle_add:
  assumes "ent_inv s" and "eg_organizationId g = org" and "eg_applicationId g = appId" and "eg_entitlementDefinitionId g = defId"
    and "eg_id g = nextId s" and "eg_validFrom g = clock s" and "from_subscription (subscriptions s) (Suc (nextId s)) g"
    and "\<And>s'. ent_inv s' \<Longrightarrow> subscriptions s' = subscriptions s \<Longrightarrow> (\<forall>d. d \<noteq> defId \<longrightarrow> view d s' = view d s) \<Longrightarrow> Q (Inr ()) s'"
  shows "wps (recompute org appId defId) Q (grantEvents_update h (grants_update (\<lambda>gs. gs @ [g]) (nextId_update Suc s)))"
proof (rule wps_settle)
  show "agrees_but org appId defId (grantEvents_update h (grants_update (\<lambda>gs. gs @ [g]) (nextId_update Suc s)))"
    by (rule agrees_but_add [OF assms(1-4)]) simp_all
qed (use assms in \<open>simp_all add: grants_ok_add ent_inv_def view_def cached_def\<close>)

lemma preserves_grant_create: "preserves ent_inv (grant_create org userId dto meta)"
  unfolding preserves_wps grant_create_def add_grant_event_def
  by (auto simp: wp from_subscription_def split: option.split intro!: settle_add)

lemma preserves_grant_revoke: "preserves ent_inv (grant_revoke grantId org userId meta)"
  unfolding preserves_wps
proof (intro allI impI)
  fix s :: "'z ent_db_scheme" assume inv: "ent_inv s"
  show "wps (grant_revoke grantId org userId meta) (\<lambda>_. ent_inv) s"
  proof (cases "List.find (\<lambda>g. eg_id g = grantId) (grants s)")
    case None
    with inv show ?thesis by (simp add: grant_revoke_def wp)
  next
    case (Some g)
    then have [simp]: "eg_id g = grantId" by (auto dest: find_SomeD)
    have settle: "wps (recompute org (eg_applicationId g) (eg_entitlementDefinitionId g)) Q
      (grantEvents_update h (grants_update (upd_where (\<lambda>x. eg_id x = grantId) (revoked_at (clock s))) s))"
      if "eg_organizationId g = org" and "\<And>s'. ent_inv s' \<Longrightarrow> Q (Inr ()) s'" for h Q
      using settle_upd(1) [OF inv Some keeps_revoked that(1) refl refl, of Q h] that(2) by simp
    with Some inv show ?thesis by (simp add: grant_revoke_def set_grant_def add_grant_event_def wp)
  qed
qed

text \<open>Synchronising one definition from a subscription.\<close>

lemma find_key_unique: "distinct (map k xs) \<Longrightarrow> x \<in> set xs \<Longrightarrow> List.find (\<lambda>y. k y = k x) xs = Some x"
  by (induction xs) auto

definition inv_view ::
  "sub_row list \<Rightarrow> id \<Rightarrow> ent_grant list \<times> (id \<Rightarrow> id \<Rightarrow> entitlement_check) \<times> ent_definition list \<Rightarrow> bool \<Rightarrow> 'z ent_db_scheme \<Rightarrow> bool"
  where "inv_view subs d0 K other s \<longleftrightarrow> ent_inv s \<and> subscriptions s = subs \<and> (other \<longrightarrow> view d0 s = K)"

lemma preserves_sync_definition:
  assumes sub: "List.find (\<lambda>r. sub_id r = sub_id sub) subs = Some sub"
  and other: "other \<Longrightarrow> d0 \<noteq> ed_id (snd fd)"
  shows "preserves (inv_view subs d0 K other) (sync_definition sub userId fd)"
  unfolding preserves_wps
proof (intro allI impI)
  fix s :: "'z ent_db_scheme" assume "inv_view subs d0 K other s"
  then have inv: "ent_inv s" and subs: "subscriptions s = subs" and old: "other \<Longrightarrow> view d0 s = K" by (simp_all add: inv_view_def)
  obtain f d where fd [simp]: "fd = (f, d)" by (cases fd)
  let ?has = "\<lambda>g. eg_idempotencyKey g = Some (grant_key (sub_id sub) (ed_id d))"
  let ?Q = "\<lambda>_::exn + unit. inv_view subs d0 K other"
  show "wps (sync_definition sub userId fd) ?Q s"
  proof (cases "List.find ?has (grants s)")
    case None
    have "sub_id sub < nextId s" using sub subs inv by (auto simp: ent_inv_def grants_ok_def dest: find_SomeD)
    show ?thesis
    proof (cases "entitling (sub_status sub)")
      case True
      with \<open>sub_id sub < nextId s\<close> None inv subs old other sub show ?thesis
        by (auto simp: sync_definition_def add_grant_event_def wp from_subscription_def inv_view_def intro!: settle_add)
    next
      case False
      with None inv subs old other show ?thesis by (auto simp: sync_definition_def wp inv_view_def intro!: settle_again)
    qed
  next
    case (Some g)
    then have "g \<in> set (grants s)" "?has g" by (auto dest: find_SomeD)
    with inv sub subs have key: "eg_organizationId g = sub_organizationId sub" "eg_applicationId g = sub_applicationId sub"
      "eg_entitlementDefinitionId g = ed_id d"
      by (auto simp: ent_inv_def grants_ok_def from_subscription_def)
    have keeps: "keeps_identity (\<lambda>x. x\<lparr>eg_status := EntitlementGrantStatus.ACTIVE, eg_boolValue := plf_boolValue f,
      eg_numberValue := plf_numberValue f, eg_textValue := plf_textValue f, eg_revokedAt := None, eg_version := eg_version x + 1\<rparr>)"
      by (simp add: keeps_identity_def)
    have unique: "List.find (\<lambda>x. eg_id x = eg_id g) (grants s) = Some g"
      using \<open>g \<in> set (grants s)\<close> inv by (auto simp: ent_inv_def grants_ok_def find_key_unique)
    show ?thesis
    proof (cases "entitling (sub_status sub) \<or> eg_status g = EntitlementGrantStatus.ACTIVE")
      case True
      with Some inv subs old other unique show ?thesis
        by (auto simp: sync_definition_def add_grant_event_def set_grant_def wp inv_view_def
            intro!: settle_upd [OF inv Some _ key] keeps keeps_revoked)
    next
      case False
      with Some inv subs old other show ?thesis by (auto simp: sync_definition_def wp inv_view_def intro!: settle_again)
    qed
  qed
qed

lemma sync_run:
  assumes sub: "List.find (\<lambda>r. sub_id r = subId) (subscriptions s) = Some sub" and inv: "ent_inv s"
    and other: "other \<Longrightarrow> \<forall>fd \<in> set (plan_definitions (sub_planId sub) s). d0 \<noteq> ed_id (snd fd)"
  shows "inv_view (subscriptions s) d0 (view d0 s) other (snd (syncFromSubscription subId userId meta s))"
proof -
  let ?I = "inv_view (subscriptions s) d0 (view d0 s) other"
  have [simp]: "sub_id sub = subId" using sub by (auto dest: find_SomeD)
  let ?fds = "plan_definitions (sub_planId sub) s"
  let ?rest = "seq (for_each ?fds (sync_definition sub userId))
     (seq (audit ''ENTITLEMENT_GRANT_CREATED'' (Some userId) (Some (sub_organizationId sub)) (Some (sub_applicationId sub))
             [(''subscriptionId'', JId subId), (''entitlementDefinitionsSynced'', JArr (map (\<lambda>(f, d). JId (ed_id d)) ?fds))] meta)
          (ret (length ?fds)))"
  have eq: "syncFromSubscription subId userId meta s = ?rest s"
    using sub by (simp add: syncFromSubscription_def run)
  have each: "\<forall>fd \<in> set fds. other \<longrightarrow> d0 \<noteq> ed_id (snd fd) \<Longrightarrow> preserves ?I (for_each fds (sync_definition sub userId))" for fds
    using sub by (induction fds) (auto intro!: pres preserves_sync_definition)
  have keep: "preserves ?I ?rest"
  proof (intro preserves_seq preserves_ret each)
    show "preserves ?I (audit a u o1 o2 md meta)" for a u o1 o2 md
      unfolding preserves_wps by (simp add: wp inv_view_def view_def cached_def)
  qed (use other in blast)
  have "?I s" using inv by (simp add: inv_view_def)
  from preservesD [OF keep this] show ?thesis by (simp add: eq)
qed

lemma preserves_sync: "preserves ent_inv (syncFromSubscription subId userId meta)"
  unfolding preserves_def
proof (intro allI impI)
  fix s :: "'z ent_db_scheme" assume inv: "ent_inv s"
  show "ent_inv (snd (syncFromSubscription subId userId meta s))"
  proof (cases "List.find (\<lambda>r. sub_id r = subId) (subscriptions s)")
    case None
    with inv show ?thesis by (simp add: syncFromSubscription_def run)
  next
    case (Some sub)
    from sync_run [OF this inv, of False 0 userId meta] show ?thesis by (simp add: inv_view_def)
  qed
qed

text \<open>
  The operations of the engine, the passing of time while no active grant expires, and whatever the rest
  of the program does to its own tables: subscriptions are created with fresh keys and keep their
  organisation and application.
\<close>

inductive ent_step :: "'z ent_db_scheme \<Rightarrow> 'z ent_db_scheme \<Rightarrow> bool" where
  create: "ent_step s (snd (grant_create org userId dto meta s))"
| revoke: "ent_step s (snd (grant_revoke grantId org userId meta s))"
| sync: "ent_step s (snd (syncFromSubscription subId userId meta s))"
| tick: "clock s \<le> t \<Longrightarrow> \<forall>g \<in> set (grants s). \<forall>u. eg_status g = EntitlementGrantStatus.ACTIVE \<and> eg_validUntil g = Some u \<and> clock s < u \<longrightarrow> t < u
    \<Longrightarrow> ent_step s (clock_update (\<lambda>_. t) s)"
| elsewhere: "grants s' = grants s \<Longrightarrow> featureAccess s' = featureAccess s \<Longrightarrow> clock s' = clock s \<Longrightarrow> nextId s \<le> nextId s'
    \<Longrightarrow> \<forall>r' \<in> set (subscriptions s'). sub_id r' < nextId s'
    \<Longrightarrow> \<forall>i r'. List.find (\<lambda>r. sub_id r = i) (subscriptions s') = Some r' \<longrightarrow> nextId s \<le> i
        \<or> (\<exists>r. List.find (\<lambda>r. sub_id r = i) (subscriptions s) = Some r
              \<and> sub_organizationId r' = sub_organizationId r \<and> sub_applicationId r' = sub_applicationId r)
    \<Longrightarrow> ent_step s s'"

lemma from_subscription_elsewhere:
  assumes "from_subscription subs n g" and "n \<le> n'"
    and "\<forall>i r'. List.find (\<lambda>r. sub_id r = i) subs' = Some r' \<longrightarrow> n \<le> i
        \<or> (\<exists>r. List.find (\<lambda>r. sub_id r = i) subs = Some r \<and> sub_organizationId r' = sub_organizationId r \<and> sub_applicationId r' = sub_applicationId r)"
  shows "from_subscription subs' n' g"
  unfolding from_subscription_def
proof (intro allI impI)
  fix i d assume "eg_idempotencyKey g = Some (grant_key i d)"
  with assms(1) have old: "eg_entitlementDefinitionId g = d" "i < n"
    "\<And>r. List.find (\<lambda>r. sub_id r = i) subs = Some r \<Longrightarrow>
      eg_organizationId g = sub_organizationId r \<and> eg_applicationId g = sub_applicationId r"
    by (auto simp: from_subscription_def)
  have "eg_organizationId g = sub_organizationId r' \<and> eg_applicationId g = sub_applicationId r'"
    if "List.find (\<lambda>r. sub_id r = i) subs' = Some r'" for r'
    using assms(3) that old by force
  with old assms(2) show "eg_entitlementDefinitionId g = d \<and> i < n' \<and> (\<forall>r. List.find (\<lambda>r. sub_id r = i) subs' = Some r \<longrightarrow>
      eg_organizationId g = sub_organizationId r \<and> eg_applicationId g = sub_applicationId r)" by simp
qed

lemma ent_inv_step: "ent_step s s' \<Longrightarrow> ent_inv s \<Longrightarrow> ent_inv s'"
proof (induction rule: ent_step.induct)
  case (tick s t)
  let ?s = "clock_update (\<lambda>_. t) s"
  have ok: "grants_ok (grants s) (subscriptions s) (nextId s) (clock s)" using tick(3) by (simp add: ent_inv_def)
  then have "grants_ok (grants s) (subscriptions s) (nextId s) t" using tick(1) by (fastforce simp: grants_ok_def)
  moreover have "candidates ?s org appId d = candidates s org appId d" for org appId d
    unfolding candidates_def using tick(1,2) ok
    by (auto intro!: filter_cong simp: grant_candidate_def grants_ok_def split: option.splits)
  then have "agrees ?s org appId d = agrees s org appId d" for org appId d
    by (intro agrees_cong) (simp_all add: cached_def)
  ultimately show ?case using tick(3) by (simp add: ent_inv_def)
next
  case (elsewhere s' s)
  then have "grants_ok (grants s) (subscriptions s') (nextId s') (clock s)"
    by (auto simp: ent_inv_def grants_ok_def intro: from_subscription_elsewhere)
  moreover have "agrees s' org appId d = agrees s org appId d" for org appId d
    using elsewhere by (intro agrees_cong) (simp_all add: candidates_def cached_def)
  ultimately show ?case using elsewhere by (simp add: ent_inv_def)
qed (simp_all add: preservesD preserves_grant_create preserves_grant_revoke preserves_sync)

lemma ent_inv_run: "ent_step\<^sup>*\<^sup>* s s' \<Longrightarrow> ent_inv s \<Longrightarrow> ent_inv s'"
  by (induction rule: rtranclp_induct) (auto intro: ent_inv_step)

lemma ent_inv_empty:
  "grants s = [] \<Longrightarrow> featureAccess s = [] \<Longrightarrow> \<forall>r \<in> set (subscriptions s). sub_id r < nextId s \<Longrightarrow> ent_inv s"
  by (simp add: ent_inv_def grants_ok_def agrees_def justified_def candidates_def cached_def check_of_access_def)

section \<open>Access checks\<close>

text \<open>
  C33. As long as no active grant expires, a check answers what the winning grant says: after any sequence of
  creations, revocations, synchronisations and other writes, the answer for a key has the values of a grant
  that is active and valid and that no other such grant outranks, and it is a refusal when there is none.
\<close>

theorem check_follows_grants:
  assumes "ent_step\<^sup>*\<^sup>* s0 s" and "grants s0 = []" and "featureAccess s0 = []"
    and "\<forall>r \<in> set (subscriptions s0). sub_id r < nextId s0"
  shows "\<exists>c. hasEntitlement org appId k s = (Inr c, s) \<and>
    (case List.find (same_definition appId k) (entDefinitions s) of
       None \<Rightarrow> c = denied
     | Some d \<Rightarrow> if candidates s org appId (ed_id d) = [] then c = denied
         else \<exists>w. winning (candidates s org appId (ed_id d)) w \<and> c = check_of_grant w)"
proof -
  have "ent_inv s" using assms by (intro ent_inv_run [OF assms(1)] ent_inv_empty)
  then have "agrees s org appId d" for d by (simp add: ent_inv_def)
  then have "wps (hasEntitlement org appId k) (\<lambda>r s'. s' = s \<and> (\<exists>c. r = Inr c \<and>
    (case List.find (same_definition appId k) (entDefinitions s) of
       None \<Rightarrow> c = denied
     | Some d \<Rightarrow> if candidates s org appId (ed_id d) = [] then c = denied
         else \<exists>w. winning (candidates s org appId (ed_id d)) w \<and> c = check_of_grant w))) s"
    unfolding agrees_def justified_def by (auto simp: wps_hasEntitlement split: option.splits)
  then show ?thesis by (auto simp: wps_run prod_eq_iff)
qed

text \<open>The database of the examples: subscription 10 to plan 4, whose feature 21 carries the definition "premium".\<close>

definition premium :: ent_definition where
  "premium = \<lparr>ed_id = 20, ed_applicationId = 3, ed_featureId = Some 21, ed_key = ''premium'', ed_name = ''Premium'',
     ed_description = None, ed_createdAt = 0, ed_archivedAt = None\<rparr>"

definition ent_tables :: "ent_definition list \<Rightarrow> plan_feature list \<Rightarrow> usage_limit list \<Rightarrow> usage_counter list \<Rightarrow> lic_db \<Rightarrow> ent_db" where
  "ent_tables defs plfs limits counters b = lic_db.extend b
     (ent_db.fields [] defs plfs [] [] [] limits counters [] [] [] [])"

definition sample_ent :: ent_db where
  "sample_ent = ent_tables [premium] [\<lparr>plf_planId = 4, plf_featureId = 21, plf_boolValue = Some True, plf_numberValue = None, plf_textValue = None\<rparr>]
     [] [] (sub_db.extend sample_subs (lic_db.fields [] [] [] [] [] [] []))"

definition premium_access :: "ent_db \<Rightarrow> bool" where
  "premium_access s = (case fst (hasEntitlement 9 3 ''premium'' s) of Inl _ \<Rightarrow> False | Inr c \<Rightarrow> ec_allowed c)"

lemmas sample_ent_defs = sample_ent_def ent_tables_def premium_def sample_subs_def sample_sub_def ent_db.defs lic_db.defs sub_db.defs

lemma sample_ent_start:
  "grants sample_ent = []" "featureAccess sample_ent = []"
  "\<forall>r \<in> set (subscriptions sample_ent). sub_id r < nextId sample_ent"
  by (simp_all add: sample_ent_defs)

theorem check_follows_grants_witness:
  "let s = snd (syncFromSubscription 10 7 no_meta sample_ent) in
   \<exists>c. hasEntitlement 9 3 ''premium'' s = (Inr c, s) \<and>
    (case List.find (same_definition 3 ''premium'') (entDefinitions s) of
       None \<Rightarrow> c = denied
     | Some d \<Rightarrow> if candidates s 9 3 (ed_id d) = [] then c = denied
         else \<exists>w. winning (candidates s 9 3 (ed_id d)) w \<and> c = check_of_grant w)"
  unfolding Let_def
  by (rule check_follows_grants [OF r_into_rtranclp [of ent_step, OF ent_step.sync] sample_ent_start])

text \<open>
  Nothing recomputes the cache when a grant expires: at any later instant the grant is no candidate any
  more, and the check still allows what it gave.
\<close>

theorem expired_grant_still_allowed:
  assumes "ent_inv s" and d: "List.find (same_definition appId k) (entDefinitions s) = Some d"
    and g: "candidates s org appId (ed_id d) = [g]" and "gives_access g" and "eg_validUntil g = Some u"
    and "clock s \<le> t" and "u \<le> t"
  shows "candidates (clock_update (\<lambda>_. t) s) org appId (ed_id d) = []
    \<and> hasEntitlement org appId k (clock_update (\<lambda>_. t) s) = (Inr (check_of_grant g), clock_update (\<lambda>_. t) s)
    \<and> ec_allowed (check_of_grant g)"
proof -
  let ?s = "clock_update (\<lambda>_. t) s"
  have "grants_ok (grants s) (subscriptions s) (nextId s) (clock s)" using assms(1) by (simp add: ent_inv_def)
  then have "grant_candidate org appId (ed_id d) (clock s) x" if "grant_candidate org appId (ed_id d) t x" "x \<in> set (grants s)" for x
    using that assms(6) by (auto simp: grant_candidate_def grants_ok_def split: option.splits)
  then have "set (candidates ?s org appId (ed_id d)) \<subseteq> set (candidates s org appId (ed_id d))"
    by (auto simp: candidates_def)
  moreover have "g \<notin> set (candidates ?s org appId (ed_id d))"
    using assms(5,7) by (simp add: candidates_def grant_candidate_def)
  ultimately have none: "candidates ?s org appId (ed_id d) = []" using g by (cases "candidates ?s org appId (ed_id d)") auto
  have "agrees s org appId (ed_id d)" using assms(1) by (simp add: ent_inv_def)
  then have "cached s org appId (ed_id d) = check_of_grant g"
    using g by (simp add: agrees_def justified_def winning_def)
  then have "wps (hasEntitlement org appId k) (\<lambda>r s'. r = Inr (check_of_grant g) \<and> s' = ?s) ?s"
    using d by (simp add: wps_hasEntitlement cached_def)
  with none assms(4) show ?thesis by (simp add: wps_run prod_eq_iff check_of_grant_def)
qed

definition trial_grant :: grant_dto where
  "trial_grant = \<lparr>gd_applicationId = 3, gd_entitlementDefinitionId = 20, gd_source = Some TRIAL, gd_boolValue = Some True,
     gd_numberValue = None, gd_textValue = None, gd_isUnlimited = None, gd_validUntil = Some 1300000000, gd_metadata = None\<rparr>"

definition trial_ent :: ent_db where
  "trial_ent = snd (grant_create 9 7 trial_grant no_meta sample_ent)"

lemma trial_ent_inv: "ent_inv trial_ent"
  unfolding trial_ent_def by (rule preservesD [OF preserves_grant_create ent_inv_empty [OF sample_ent_start]])

theorem expired_grant_still_allowed_witness:
  "\<exists>g. hasEntitlement 9 3 ''premium'' (clock_update (\<lambda>_. 1300000001) trial_ent)
     = (Inr (check_of_grant g), clock_update (\<lambda>_. 1300000001) trial_ent) \<and> ec_allowed (check_of_grant g)"
proof -
  have "List.find (same_definition 3 ''premium'') (entDefinitions trial_ent) = Some premium" by code_simp
  moreover have "candidates trial_ent 9 3 (ed_id premium) = [hd (grants trial_ent)]" by code_simp
  moreover have "gives_access (hd (grants trial_ent))" by code_simp
  moreover have "eg_validUntil (hd (grants trial_ent)) = Some 1300000000" by code_simp
  moreover have "clock trial_ent \<le> 1300000001" by code_simp
  ultimately show ?thesis using expired_grant_still_allowed [OF trial_ent_inv] by fastforce
qed

text \<open>
  A synchronisation looks only at the definitions of the current plan. What the subscription had been
  given for a definition of an earlier plan stays as it is, active, and is still allowed, whatever the
  status of the subscription has become.
\<close>

theorem sync_keeps_old_plan:
  assumes "ent_inv s" and "List.find (\<lambda>r. sub_id r = subId) (subscriptions s) = Some sub"
    and d: "List.find (same_definition appId k) (entDefinitions s) = Some d"
    and "\<forall>fd \<in> set (plan_definitions (sub_planId sub) s). ed_id d \<noteq> ed_id (snd fd)"
  shows "let s' = snd (syncFromSubscription subId userId meta s) in
    filter (\<lambda>g. eg_entitlementDefinitionId g = ed_id d) (grants s') = filter (\<lambda>g. eg_entitlementDefinitionId g = ed_id d) (grants s)
    \<and> fst (hasEntitlement org appId k s') = fst (hasEntitlement org appId k s)"
proof -
  let ?s = "snd (syncFromSubscription subId userId meta s)"
  have "inv_view (subscriptions s) (ed_id d) (view (ed_id d) s) True ?s"
    by (rule sync_run [OF assms(2,1)]) (use assms(4) in simp)
  then have v: "view (ed_id d) ?s = view (ed_id d) s" by (simp add: inv_view_def)
  then have same: "cached ?s org appId (ed_id d) = cached s org appId (ed_id d)" "entDefinitions ?s = entDefinitions s"
    by (auto simp: view_def dest: fun_cong)
  have "wps (hasEntitlement org appId k) (\<lambda>r s'. r = Inr (cached s org appId (ed_id d))) x"
    if "x = s \<or> x = ?s" for x
    using that d same by (auto simp: wps_hasEntitlement)
  then have "fst (hasEntitlement org appId k ?s) = fst (hasEntitlement org appId k s)"
    by (simp add: wps_run)
  with v show ?thesis by (simp add: view_def Let_def)
qed

text \<open>The subscription had the premium plan, moved to plan 5, which has no features, and expired.\<close>

definition downgraded_ent :: ent_db where
  "downgraded_ent = subscriptions_update (\<lambda>_. [sample_sub\<lparr>sub_planId := 5, sub_status := SubscriptionStatus.EXPIRED\<rparr>])
     (snd (syncFromSubscription 10 7 no_meta sample_ent))"

lemma synced_subs: "subscriptions (snd (syncFromSubscription 10 7 no_meta sample_ent)) = [sample_sub]"
  by code_simp

lemma downgraded_ent_inv: "ent_inv downgraded_ent"
proof (rule ent_inv_step [OF ent_step.elsewhere preservesD [OF preserves_sync ent_inv_empty [OF sample_ent_start]]])
  show "\<forall>r' \<in> set (subscriptions downgraded_ent). sub_id r' < nextId downgraded_ent" by code_simp
qed (auto simp: downgraded_ent_def synced_subs)

theorem sync_keeps_old_plan_witness:
  "premium_access downgraded_ent \<and> premium_access (snd (syncFromSubscription 10 7 no_meta downgraded_ent))"
proof -
  let ?sub = "sample_sub\<lparr>sub_planId := 5, sub_status := SubscriptionStatus.EXPIRED\<rparr>"
  have sub: "List.find (\<lambda>r. sub_id r = 10) (subscriptions downgraded_ent) = Some ?sub" by code_simp
  have d: "List.find (same_definition 3 ''premium'') (entDefinitions downgraded_ent) = Some premium" by code_simp
  have "plan_definitions (sub_planId ?sub) downgraded_ent = []" by code_simp
  then have "\<forall>fd \<in> set (plan_definitions (sub_planId ?sub) downgraded_ent). ed_id premium \<noteq> ed_id (snd fd)" by simp
  note same = sync_keeps_old_plan [OF downgraded_ent_inv sub d this, of 7 no_meta 9]
  have "premium_access downgraded_ent" by code_simp
  with same show ?thesis by (simp add: Let_def premium_access_def)
qed

end
