(* ===== verification/Usage_Flow.thy ===== *)
theory Usage_Flow
  imports Entitlement_Flow Idempotence
begin

text \<open>
  Metered usage: increments are accepted exactly when they fit the limit, usage stays within the limits under sequential requests (and above zero while no
  amount is negative), concurrent increments are
  lost, no reset policy ever takes effect, and usage records are booked once per key. The last section
  composes the activation of a license key with its validation at run time.
\<close>

section \<open>Counters and limits\<close>

text \<open>The requests on usage: increments by the given amounts (the dashboard's are not validated), decrements (at
  least 1, by their DTO), reads, manual resets, and changes of limits, of which those of one key set only the given
  values and no unlimited use.\<close>

definition ceiling_change :: "(int \<Rightarrow> bool) \<Rightarrow> int option option \<Rightarrow> bool option \<Rightarrow> bool" where
  "ceiling_change limits v unl \<longleftrightarrow> unl \<noteq> Some True
     \<and> (case v of None \<Rightarrow> True | Some None \<Rightarrow> False | Some (Some x) \<Rightarrow> limits x)"

inductive usage_step :: "(int \<Rightarrow> bool) \<Rightarrow> (int \<Rightarrow> bool) \<Rightarrow> id \<Rightarrow> id \<Rightarrow> id \<Rightarrow> 'z ent_db_scheme \<Rightarrow> 'z ent_db_scheme \<Rightarrow> bool"
  for amounts limits org appId defId where
  increment: "amounts a \<Longrightarrow> usage_step amounts limits org appId defId s (snd (incrementUsage o' a' k a s))"
| decrement: "1 \<le> a \<Longrightarrow> usage_step amounts limits org appId defId s (snd (decrementUsage o' a' k a s))"
| look: "usage_step amounts limits org appId defId s (snd (getUsage o' a' k s))"
| reset: "usage_step amounts limits org appId defId s (snd (resetCounter o' a' k userId meta s))"
| relimit: "(\<And>d. List.find (same_definition a' k) (entDefinitions s) = Some d \<Longrightarrow> o' = org \<and> a' = appId \<and> ed_id d = defId \<Longrightarrow>
      ceiling_change limits v unl) \<Longrightarrow>
    usage_step amounts limits org appId defId s (snd (upsertLimit o' a' k v unl pol userId meta s))"
| tick: "clock s \<le> t \<Longrightarrow> usage_step amounts limits org appId defId s (clock_update (\<lambda>_. t) s)"

definition counters_ok :: "usage_counter list \<Rightarrow> nat \<Rightarrow> bool" where
  "counters_ok cs n \<longleftrightarrow> distinct (map uc_id cs) \<and> (\<forall>c \<in> set cs. uc_id c < n \<and> uc_periodEnd c = None)"

text \<open>Usage of a key is at most \<open>m\<close>, and when \<open>lo\<close> is set not below zero.\<close>

definition within_bounds :: "bool \<Rightarrow> int \<Rightarrow> int \<Rightarrow> bool" where
  "within_bounds lo m v \<longleftrightarrow> (lo \<longrightarrow> 0 \<le> v) \<and> v \<le> m"

definition below_limit :: "bool \<Rightarrow> id \<Rightarrow> id \<Rightarrow> id \<Rightarrow> int \<Rightarrow> usage_counter list \<Rightarrow> bool" where
  "below_limit lo org appId defId m cs \<longleftrightarrow> (\<forall>c \<in> set cs. same_counter org appId defId c \<longrightarrow> within_bounds lo m (uc_value c))"

definition limited :: "id \<Rightarrow> id \<Rightarrow> id \<Rightarrow> int \<Rightarrow> usage_limit list \<Rightarrow> bool" where
  "limited org appId defId m ls \<longleftrightarrow> 0 \<le> m \<and> (\<exists>l. List.find (same_limit org appId defId) ls = Some l
     \<and> \<not> ul_isUnlimited l \<and> (case ul_limitValue l of None \<Rightarrow> False | Some v \<Rightarrow> v \<le> m))"

definition usage_inv :: "bool \<Rightarrow> id \<Rightarrow> id \<Rightarrow> id \<Rightarrow> int \<Rightarrow> 'z ent_db_scheme \<Rightarrow> bool" where
  "usage_inv lo org appId defId m s \<longleftrightarrow> counters_ok (usageCounters s) (nextId s) \<and> below_limit lo org appId defId m (usageCounters s)
     \<and> limited org appId defId m (usageLimits s)"

definition keeps_key :: "(usage_counter \<Rightarrow> usage_counter) \<Rightarrow> bool" where
  "keeps_key f \<longleftrightarrow> (\<forall>c. uc_id (f c) = uc_id c \<and> uc_periodEnd (f c) = uc_periodEnd c \<and> uc_organizationId (f c) = uc_organizationId c
     \<and> uc_applicationId (f c) = uc_applicationId c \<and> uc_entitlementDefinitionId (f c) = uc_entitlementDefinitionId c)"

lemma no_period: "uc_periodEnd c = None \<Longrightarrow> applyScheduledReset t c = c"
  by (simp add: applyScheduledReset_def)

lemma counters_ok_upd: "counters_ok cs n \<Longrightarrow> keeps_key f \<Longrightarrow> counters_ok (upd_where P f cs) n"
  by (auto simp: counters_ok_def keeps_key_def map_upd_where set_upd_where)

lemma counters_ok_add:
  "counters_ok cs n \<Longrightarrow> uc_id c = n \<Longrightarrow> uc_periodEnd c = None \<Longrightarrow> counters_ok (cs @ [c]) (Suc n)"
  by (auto simp: counters_ok_def less_Suc_eq)

lemma below_upd:
  assumes "keeps_key f" and "below_limit lo org appId defId m cs"
    and "\<And>c. c \<in> set cs \<Longrightarrow> P c \<Longrightarrow> same_counter org appId defId c \<Longrightarrow> within_bounds lo m (uc_value (f c))"
  shows "below_limit lo org appId defId m (upd_where P f cs)"
  using assms by (auto simp: below_limit_def set_upd_where keeps_key_def same_counter_def)

lemma below_add:
  "below_limit lo org appId defId m cs \<Longrightarrow> 0 \<le> m \<Longrightarrow> uc_value c = 0 \<Longrightarrow> below_limit lo org appId defId m (cs @ [c])"
  by (auto simp: below_limit_def within_bounds_def)

lemma same_counter_key:
  "same_counter o' a' d' c \<Longrightarrow> same_counter org appId defId c \<Longrightarrow> o' = org \<and> a' = appId \<and> d' = defId"
  by (auto simp: same_counter_def)

lemma same_counter_new [simp]: "same_counter org appId defId (new_counter i org appId defId t)"
  "uc_id (new_counter i org appId defId t) = i" "uc_periodEnd (new_counter i org appId defId t) = None"
  "uc_value (new_counter i org appId defId t) = 0"
  by (simp_all add: same_counter_def new_counter_def)

text \<open>The counter a request works on: the row of its key, or a new one.\<close>

definition counter_for :: "id \<Rightarrow> id \<Rightarrow> id \<Rightarrow> 'z ent_db_scheme \<Rightarrow> usage_counter \<times> 'z ent_db_scheme" where
  "counter_for org appId defId s = (case List.find (same_counter org appId defId) (usageCounters s) of
     Some c \<Rightarrow> (c, s)
   | None \<Rightarrow> let c = new_counter (nextId s) org appId defId (clock s) in
       (c, usageCounters_update (\<lambda>cs. cs @ [c]) (nextId_update Suc s)))"

lemma counter_for_ok:
  assumes "counters_ok (usageCounters s) (nextId s)" and "counter_for o' a' d' s = (c, s1)"
  shows "counters_ok (usageCounters s1) (nextId s1) \<and> uc_periodEnd c = None \<and> c \<in> set (usageCounters s1)
    \<and> same_counter o' a' d' c \<and> usageLimits s1 = usageLimits s \<and> entDefinitions s1 = entDefinitions s \<and> clock s1 = clock s
    \<and> (0 \<le> m \<longrightarrow> below_limit lo org appId defId m (usageCounters s) \<longrightarrow> below_limit lo org appId defId m (usageCounters s1))"
  using assms by (auto simp: counter_for_def Let_def below_add counters_ok_add split: option.splits dest!: find_SomeD)
    (auto simp: counters_ok_def)

lemma wps_getOrCreate:
  assumes "counters_ok (usageCounters s) (nextId s)"
  shows "wps (getOrCreateCounter org appId defId) Q s = (case counter_for org appId defId s of (c, s1) \<Rightarrow> Q (Inr c) s1)"
  using assms by (auto simp: getOrCreateCounter_def create_counter_def counter_for_def wp no_period counters_ok_def Let_def
      split: option.split dest!: find_SomeD)

definition set_value :: "int \<Rightarrow> usage_counter \<Rightarrow> usage_counter \<Rightarrow> usage_counter" where
  "set_value v c x = x\<lparr>uc_value := v, uc_periodStart := uc_periodStart c, uc_lastResetAt := uc_lastResetAt c\<rparr>"

lemma set_value_simps [simp]: "uc_value (set_value v c x) = v" "uc_id (set_value v c x) = uc_id x" "keeps_key (set_value v c)"
  by (simp_all add: set_value_def keeps_key_def)

lemma find_counter_id:
  "counters_ok cs n \<Longrightarrow> c \<in> set cs \<Longrightarrow> List.find (\<lambda>x. uc_id x = uc_id c) cs = Some c"
  by (simp add: counters_ok_def find_key_unique)

lemma wps_incrementUsage:
  assumes "counters_ok (usageCounters s) (nextId s)"
  shows "wps (incrementUsage org appId k a) Q s =
    (case List.find (same_definition appId k) (entDefinitions s) of None \<Rightarrow> Q (Inl (PrismaError ''P2025'')) s
     | Some d \<Rightarrow> (case counter_for org appId (ed_id d) s of (c, s1) \<Rightarrow>
         let lmt = List.find (same_limit org appId (ed_id d)) (usageLimits s) in
         if over_limit lmt (uc_value c + a) then Q (Inl (ForbiddenException ''Usage limit exceeded'')) s
         else if \<not> int4 (uc_value c + a) then Q (Inl (JsError ''Unable to fit integer value into an INT4 (32-bit signed integer)'')) s
         else Q (Inr (snapshot_of lmt (uc_value c + a)))
            (usageCounters_update (upd_where (\<lambda>x. uc_id x = uc_id c) (set_value (uc_value c + a) c)) s1)))"
proof (cases "List.find (same_definition appId k) (entDefinitions s)")
  case None
  then show ?thesis by (simp add: incrementUsage_def wp)
next
  case (Some d)
  obtain c s1 where c: "counter_for org appId (ed_id d) s = (c, s1)" by (cases "counter_for org appId (ed_id d) s")
  note ok = counter_for_ok [OF assms c, of 0 False 0 0 0]
  have found: "List.find (\<lambda>x. uc_id x = uc_id c) (usageCounters s1) = Some c"
    using ok by (auto intro: find_counter_id)
  have reset: "applyScheduledReset t c = c" for t using ok by (simp add: no_period)
  show ?thesis
  proof (cases "List.find (same_counter org appId (ed_id d)) (usageCounters s)")
    case None
    with c have "c = new_counter (nextId s) org appId (ed_id d) (clock s)"
      and "s1 = usageCounters_update (\<lambda>cs. cs @ [c]) (nextId_update Suc s)"
      by (auto simp: counter_for_def Let_def)
    with None Some c found reset show ?thesis
      by (simp add: incrementUsage_def increment_read_def increment_write_def create_counter_def wp Let_def set_value_def [abs_def])
  next
    case (Some x)
    with c have "c = x" "s1 = s" by (simp_all add: counter_for_def)
    with Some \<open>List.find (same_definition appId k) (entDefinitions s) = _\<close> c found reset show ?thesis
      by (simp add: incrementUsage_def increment_read_def increment_write_def wp Let_def set_value_def [abs_def])
  qed
qed

lemma usage_inv_parts:
  "usage_inv lo org appId defId m s \<Longrightarrow> counters_ok (usageCounters s) (nextId s)"
  "usage_inv lo org appId defId m s \<Longrightarrow> below_limit lo org appId defId m (usageCounters s)"
  "usage_inv lo org appId defId m s \<Longrightarrow> 0 \<le> m"
  by (auto simp: usage_inv_def limited_def)

lemma usage_inv_counter:
  assumes "usage_inv lo org appId defId m s" and "counter_for o' a' d' s = (c, s1)"
  shows "usage_inv lo org appId defId m s1"
  using counter_for_ok [OF usage_inv_parts(1) [OF assms(1)] assms(2), of m lo org appId defId] assms(1)
  by (auto simp: usage_inv_def limited_def)

lemma usage_inv_increment: "(lo \<Longrightarrow> 0 \<le> a) \<Longrightarrow> preserves (usage_inv lo org appId defId m) (incrementUsage o' a' k a)"
  unfolding preserves_wps
proof (intro allI impI)
  fix s :: "'z ent_db_scheme" assume a: "lo \<Longrightarrow> 0 \<le> a" and inv: "usage_inv lo org appId defId m s"
  show "wps (incrementUsage o' a' k a) (\<lambda>_. usage_inv lo org appId defId m) s"
  proof (cases "List.find (same_definition a' k) (entDefinitions s)")
    case None
    with inv show ?thesis by (simp add: wps_incrementUsage usage_inv_parts(1))
  next
    case (Some d)
    obtain c s1 where c: "counter_for o' a' (ed_id d) s = (c, s1)" by (cases "counter_for o' a' (ed_id d) s")
    let ?lmt = "List.find (same_limit o' a' (ed_id d)) (usageLimits s)"
    let ?v = "uc_value c + a"
    note ok = counter_for_ok [OF usage_inv_parts(1) [OF inv] c, of m lo org appId defId]
    have inv1: "usage_inv lo org appId defId m s1" by (rule usage_inv_counter [OF inv c])
    have bound: "within_bounds lo m ?v" if "\<not> over_limit ?lmt ?v" and "same_counter org appId defId c"
    proof -
      have "o' = org" "a' = appId" "ed_id d = defId" using ok that(2) by (auto dest: same_counter_key)
      moreover have "lo \<longrightarrow> 0 \<le> uc_value c" using ok inv1 that(2) by (auto simp: usage_inv_def below_limit_def within_bounds_def)
      ultimately show ?thesis using that(1) inv a
        by (auto simp: usage_inv_def limited_def over_limit_def within_bounds_def split: option.splits)
    qed
    have "below_limit lo org appId defId m (upd_where (\<lambda>x. uc_id x = uc_id c) (set_value ?v c) (usageCounters s1))"
      if "\<not> over_limit ?lmt ?v"
    proof (rule below_upd)
      fix x assume "x \<in> set (usageCounters s1)" "uc_id x = uc_id c" "same_counter org appId defId x"
      moreover from this have "x = c" using ok by (auto simp: counters_ok_def dest: distinct_key_eq)
      ultimately show "within_bounds lo m (uc_value (set_value ?v c x))" using bound that by simp
    qed (use inv1 in \<open>simp_all add: usage_inv_def\<close>)
    with Some c inv inv1 show ?thesis
      by (simp add: wps_incrementUsage usage_inv_parts(1) Let_def) (simp add: usage_inv_def counters_ok_upd)
  qed
qed

lemma usage_inv_reset:
  assumes "usage_inv lo org appId defId m s" and "keeps_key f" and "\<And>c. uc_value (f c) = 0"
  shows "usage_inv lo org appId defId m (usageCounters_update (upd_where P f) s)"
  using assms usage_inv_parts(3) [OF assms(1)] by (simp add: usage_inv_def counters_ok_upd below_upd within_bounds_def)

lemma usage_inv_audits [simp]: "usage_inv lo org appId defId m (audits_update f s) = usage_inv lo org appId defId m s"
  by (simp add: usage_inv_def)

lemma usage_inv_resetCounter: "preserves (usage_inv lo org appId defId m) (resetCounter o' a' k userId meta)"
  unfolding preserves_wps
proof (intro allI impI)
  fix s :: "'z ent_db_scheme" assume inv: "usage_inv lo org appId defId m s"
  have "usage_inv lo org appId defId m (usageCounters_update (\<lambda>cs. cs @ [new_counter (nextId s) o' a' d (clock s)]) (nextId_update Suc s))" for d
    using inv usage_inv_parts(3) [OF inv] by (simp add: usage_inv_def counters_ok_add below_add)
  moreover have "usage_inv lo org appId defId m (usageCounters_update (upd_where P (\<lambda>c. c\<lparr>uc_value := 0, uc_periodStart := t, uc_lastResetAt := t\<rparr>)) s)" for P t
    using inv by (rule usage_inv_reset) (simp_all add: keeps_key_def)
  ultimately show "wps (resetCounter o' a' k userId meta) (\<lambda>_. usage_inv lo org appId defId m) s"
    using inv by (auto simp: resetCounter_def getDefinitionOrThrow_def wp split: option.split)
qed

lemma usage_inv_decrement: "1 \<le> a \<Longrightarrow> preserves (usage_inv lo org appId defId m) (decrementUsage o' a' k a)"
  unfolding preserves_wps
proof (intro allI impI)
  fix s :: "'z ent_db_scheme" assume a: "1 \<le> a" and inv: "usage_inv lo org appId defId m s"
  let ?sub = "\<lambda>c. c\<lparr>uc_value := uc_value c - a\<rparr>" and ?zero = "\<lambda>c. c\<lparr>uc_value := 0\<rparr>"
  have k: "keeps_key ?sub" "keeps_key ?zero" by (simp_all add: keeps_key_def)
  have "usage_inv lo org appId defId m (usageCounters_update (upd_where (\<lambda>c. same_counter o' a' d c \<and> uc_value c < 0) ?zero
      \<circ> upd_where (same_counter o' a' d) ?sub) s)" for d
  proof -
    let ?cs = "upd_where (same_counter o' a' d) ?sub (usageCounters s)"
    have "below_limit lo org appId defId m (upd_where (\<lambda>c. same_counter o' a' d c \<and> uc_value c < 0) ?zero ?cs)"
      using usage_inv_parts(2,3) [OF inv] a
      by (fastforce simp: below_limit_def ball_upd_where same_counter_def within_bounds_def)
    with inv k show ?thesis by (simp add: usage_inv_def counters_ok_upd)
  qed
  then show "wps (decrementUsage o' a' k a) (\<lambda>_. usage_inv lo org appId defId m) s"
    using inv by (auto simp: decrementUsage_def wp split: option.split)
qed

lemma wps_getUsage:
  assumes "counters_ok (usageCounters s) (nextId s)"
  shows "wps (getUsage org appId k) Q s = (case List.find (same_definition appId k) (entDefinitions s) of
     None \<Rightarrow> Q (Inl (PrismaError ''P2025'')) s
   | Some d \<Rightarrow> (case counter_for org appId (ed_id d) s of (c, s1) \<Rightarrow>
       Q (Inr (snapshot_of (List.find (same_limit org appId (ed_id d)) (usageLimits s)) (uc_value c))) s1))"
  using assms by (simp add: getUsage_def wp wps_getOrCreate split: option.split prod.split)

lemma usage_inv_getUsage: "preserves (usage_inv lo org appId defId m) (getUsage o' a' k)"
  by (auto simp: preserves_wps wps_getUsage usage_inv_parts(1) split: option.split prod.split intro: usage_inv_counter)

text \<open>A change of limits keeps the key limited.\<close>

lemma limited_upd:
  assumes lim: "limited org appId defId m ls" and f: "\<And>x. same_limit o1 a1 d1 (f x) = same_limit o1 a1 d1 x"
    "\<And>x. same_limit org appId defId (f x) = same_limit org appId defId x"
    and ok: "o1 = org \<and> a1 = appId \<and> d1 = defId \<Longrightarrow> (\<forall>l. \<not> ul_isUnlimited l \<longrightarrow> (case ul_limitValue l of None \<Rightarrow> False | Some v \<Rightarrow> v \<le> m) \<longrightarrow>
      \<not> ul_isUnlimited (f l) \<and> (case ul_limitValue (f l) of None \<Rightarrow> False | Some v \<Rightarrow> v \<le> m))"
  shows "limited org appId defId m (upd_where (same_limit o1 a1 d1) f ls)"
proof (cases "o1 = org \<and> a1 = appId \<and> d1 = defId")
  case True
  then show ?thesis using lim ok f by (auto simp: limited_def find_upd_where_same)
next
  case False
  then have "List.find (same_limit org appId defId) (upd_where (same_limit o1 a1 d1) f ls) = List.find (same_limit org appId defId) ls"
    by (intro find_upd_where_other) (auto simp: f(2), auto simp: same_limit_def)
  then show ?thesis using lim by (simp add: limited_def)
qed

lemma usage_inv_upsert:
  assumes ok: "\<And>d. List.find (same_definition a' k) (entDefinitions s) = Some d \<Longrightarrow> o' = org \<and> a' = appId \<and> ed_id d = defId \<Longrightarrow>
      ceiling_change (\<lambda>v. v \<le> m) v unl"
    and inv: "usage_inv lo org appId defId m s"
  shows "usage_inv lo org appId defId m (snd (upsertLimit o' a' k v unl pol userId meta s))"
proof -
  have add: "usage_inv lo org appId defId m (usageLimits_update (\<lambda>ls. ls @ [l]) s)" for l
    using inv by (auto simp: usage_inv_def limited_def find_append)
  have change: "usage_inv lo org appId defId m (usageLimits_update (upd_where (same_limit o' a' (ed_id d))
      (\<lambda>x. x\<lparr>ul_limitValue := keepUndef v (ul_limitValue x), ul_isUnlimited := keepUndef unl (ul_isUnlimited x),
           ul_resetPolicy := keepUndef pol (ul_resetPolicy x)\<rparr>)) s)"
    if "List.find (same_definition a' k) (entDefinitions s) = Some d" for d
  proof -
    have "limited org appId defId m (upd_where (same_limit o' a' (ed_id d))
      (\<lambda>x. x\<lparr>ul_limitValue := keepUndef v (ul_limitValue x), ul_isUnlimited := keepUndef unl (ul_isUnlimited x),
           ul_resetPolicy := keepUndef pol (ul_resetPolicy x)\<rparr>) (usageLimits s))"
    proof (rule limited_upd)
      assume "o' = org \<and> a' = appId \<and> ed_id d = defId"
      with ok [OF that] have c: "ceiling_change (\<lambda>v. v \<le> m) v unl" by blast
      then have "keepUndef unl False = False" by (cases unl) (auto simp: ceiling_change_def)
      then show "\<forall>l. \<not> ul_isUnlimited l \<longrightarrow> (case ul_limitValue l of None \<Rightarrow> False | Some v \<Rightarrow> v \<le> m) \<longrightarrow>
          \<not> ul_isUnlimited (l\<lparr>ul_limitValue := keepUndef v (ul_limitValue l), ul_isUnlimited := keepUndef unl (ul_isUnlimited l),
             ul_resetPolicy := keepUndef pol (ul_resetPolicy l)\<rparr>)
          \<and> (case ul_limitValue (l\<lparr>ul_limitValue := keepUndef v (ul_limitValue l), ul_isUnlimited := keepUndef unl (ul_isUnlimited l),
             ul_resetPolicy := keepUndef pol (ul_resetPolicy l)\<rparr>) of None \<Rightarrow> False | Some v \<Rightarrow> v \<le> m)"
        using c by (cases v) (auto simp: ceiling_change_def split: option.splits)
    qed (use inv in \<open>auto simp: usage_inv_def same_limit_def\<close>)
    with inv show ?thesis by (simp add: usage_inv_def)
  qed
  have "wps (upsertLimit o' a' k v unl pol userId meta) (\<lambda>_. usage_inv lo org appId defId m) s"
    using inv add change by (auto simp: upsertLimit_def getDefinitionOrThrow_def wp split: option.split)
  then show ?thesis by (simp add: wps_run)
qed

lemma usage_inv_step:
  "usage_step amounts (\<lambda>v. v \<le> m) org appId defId s s' \<Longrightarrow> (\<And>a. lo \<Longrightarrow> amounts a \<Longrightarrow> 0 \<le> a) \<Longrightarrow>
   usage_inv lo org appId defId m s \<Longrightarrow> usage_inv lo org appId defId m s'"
proof (induction rule: usage_step.induct)
  case (relimit a' k s o' v unl pol userId meta)
  then show ?case by (intro usage_inv_upsert) blast+
qed (simp_all add: preservesD usage_inv_increment usage_inv_decrement usage_inv_getUsage usage_inv_resetCounter, simp add: usage_inv_def)

lemma usage_inv_run:
  "(usage_step amounts (\<lambda>v. v \<le> m) org appId defId)\<^sup>*\<^sup>* s s' \<Longrightarrow> (\<And>a. lo \<Longrightarrow> amounts a \<Longrightarrow> 0 \<le> a) \<Longrightarrow>
   usage_inv lo org appId defId m s \<Longrightarrow> usage_inv lo org appId defId m s'"
  by (induction rule: rtranclp_induct) (auto intro: usage_inv_step)


text \<open>The limit of the key in force.\<close>

definition limit_of :: "id \<Rightarrow> id \<Rightarrow> id \<Rightarrow> 'z ent_db_scheme \<Rightarrow> int" where
  "limit_of org appId defId s = the (ul_limitValue (the (List.find (same_limit org appId defId) (usageLimits s))))"

lemma limit_in_force:
  assumes "usage_inv lo org appId defId m s"
  obtains l where "List.find (same_limit org appId defId) (usageLimits s) = Some l" "\<not> ul_isUnlimited l"
    "ul_limitValue l = Some (limit_of org appId defId s)" "limit_of org appId defId s \<le> m"
  using assms by (auto simp: usage_inv_def limited_def limit_of_def split: option.splits)

lemma usage_facts:
  assumes inv: "usage_inv lo org appId (ed_id d) m s" and d: "List.find (same_definition appId k) (entDefinitions s) = Some d"
    and c: "counter_for org appId (ed_id d) s = (c, s1)" and l: "l = limit_of org appId (ed_id d) s"
  shows "fst (getUsage org appId k s) = Inr \<lparr>us_used = uc_value c, us_limit = Some l, us_remaining = Some (max 0 (l - uc_value c)), us_isUnlimited = False\<rparr>"
    and "fst (incrementUsage org appId k a s) = (if l < uc_value c + a then Inl (ForbiddenException ''Usage limit exceeded'')
      else if \<not> int4 (uc_value c + a) then Inl (JsError ''Unable to fit integer value into an INT4 (32-bit signed integer)'')
      else Inr \<lparr>us_used = uc_value c + a, us_limit = Some l, us_remaining = Some (max 0 (l - (uc_value c + a))), us_isUnlimited = False\<rparr>)"
    and "within_bounds lo m (uc_value c)" and "l \<le> m"
proof -
  note ok = counter_for_ok [OF usage_inv_parts(1) [OF inv] c, of m lo org appId "ed_id d"]
  show "within_bounds lo m (uc_value c)"
    using ok usage_inv_parts(2,3) [OF inv] by (auto simp: below_limit_def)
  obtain r where r: "List.find (same_limit org appId (ed_id d)) (usageLimits s) = Some r" "\<not> ul_isUnlimited r" "ul_limitValue r = Some l" "l \<le> m"
    using limit_in_force [OF inv] by (metis l)
  show "l \<le> m" by (rule r(4))
  have "wps (getUsage org appId k) (\<lambda>x _. x = Inr (snapshot_of (Some r) (uc_value c))) s"
    by (simp add: wps_getUsage usage_inv_parts(1) [OF inv] d c r)
  then show "fst (getUsage org appId k s) = Inr \<lparr>us_used = uc_value c, us_limit = Some l, us_remaining = Some (max 0 (l - uc_value c)), us_isUnlimited = False\<rparr>"
    using r by (simp add: wps_run snapshot_of_def Let_def)
  have "wps (incrementUsage org appId k a) (\<lambda>x _. x = (if l < uc_value c + a then Inl (ForbiddenException ''Usage limit exceeded'')
      else if \<not> int4 (uc_value c + a) then Inl (JsError ''Unable to fit integer value into an INT4 (32-bit signed integer)'')
      else Inr (snapshot_of (Some r) (uc_value c + a)))) s"
    by (simp add: wps_incrementUsage usage_inv_parts(1) [OF inv] d c r over_limit_def Let_def)
  then show "fst (incrementUsage org appId k a s) = (if l < uc_value c + a then Inl (ForbiddenException ''Usage limit exceeded'')
      else if \<not> int4 (uc_value c + a) then Inl (JsError ''Unable to fit integer value into an INT4 (32-bit signed integer)'')
      else Inr \<lparr>us_used = uc_value c + a, us_limit = Some l, us_remaining = Some (max 0 (l - (uc_value c + a))), us_isUnlimited = False\<rparr>)"
    using r by (simp add: wps_run snapshot_of_def Let_def split: if_splits)
qed


text \<open>Ten API calls a month, six of them used.\<close>

definition monthly_ten :: usage_limit where
  "monthly_ten = \<lparr>ul_organizationId = 9, ul_applicationId = 3, ul_entitlementDefinitionId = 20, ul_limitValue = Some 10,
     ul_isUnlimited = False, ul_resetPolicy = MONTHLY, ul_createdAt = 0\<rparr>"

definition used_counter :: "int \<Rightarrow> usage_counter" where
  "used_counter v = \<lparr>uc_id = 30, uc_organizationId = 9, uc_applicationId = 3, uc_entitlementDefinitionId = 20, uc_value = v,
     uc_periodStart = 0, uc_periodEnd = None, uc_lastResetAt = 0\<rparr>"

definition metered :: "int \<Rightarrow> ent_db" where
  "metered v = ent_tables [premium] [] [monthly_ten] [used_counter v] (sub_db.extend sample_subs (lic_db.fields [] [] [] [] [] [] []))"

lemmas metered_defs = metered_def monthly_ten_def used_counter_def sample_ent_defs

lemma metered_inv: "0 \<le> v \<Longrightarrow> v \<le> 10 \<Longrightarrow> usage_inv True 9 3 (ed_id premium) 10 (metered v)"
  by (simp add: metered_defs usage_inv_def counters_ok_def below_limit_def within_bounds_def limited_def same_limit_def)


text \<open>
  The dashboard's increment takes its amount as it comes: a negative one gives usage back. A key whose limit is used up is
  taken below zero, and then has more than its whole limit left.
\<close>

theorem negative_increment_returns_quota:
  "fst (incrementUsage 9 3 ''premium'' (- 25) (metered 10))
     = Inr \<lparr>us_used = - 15, us_limit = Some 10, us_remaining = Some 25, us_isUnlimited = False\<rparr>"
  by code_simp

text \<open>
  No reset policy takes effect. Nothing ever sets the end of a counter's period, so once a limit is
  used up every further increment is refused, at every later time and whatever the policy of the limit
  says, until someone resets the counter by hand.
\<close>

theorem reset_policy_ignored:
  assumes "(usage_step amounts (\<lambda>v. v \<le> m) org appId (ed_id d))\<^sup>*\<^sup>* s0 s" and "usage_inv False org appId (ed_id d) m s0"
    and d: "List.find (same_definition appId k) (entDefinitions s) = Some d"
    and u: "fst (getUsage org appId k s) = Inr u" and "us_remaining u = Some 0" and "0 < a"
  shows "fst (getUsage org appId k (clock_update (\<lambda>_. t) s)) = Inr u
    \<and> fst (incrementUsage org appId k a (clock_update (\<lambda>_. t) s)) = Inl (ForbiddenException ''Usage limit exceeded'')"
proof -
  let ?s = "clock_update (\<lambda>_. t) s"
  have inv: "usage_inv False org appId (ed_id d) m s" by (rule usage_inv_run [OF assms(1) _ assms(2)]) simp
  then have inv': "usage_inv False org appId (ed_id d) m ?s" by (simp add: usage_inv_def)
  obtain c s1 where c: "counter_for org appId (ed_id d) s = (c, s1)" by (cases "counter_for org appId (ed_id d) s")
  obtain c' s1' where c': "counter_for org appId (ed_id d) ?s = (c', s1')" by (cases "counter_for org appId (ed_id d) ?s")
  have "uc_value c' = uc_value c"
    using c c' by (auto simp: counter_for_def Let_def split: option.splits)
  moreover have "limit_of org appId (ed_id d) ?s = limit_of org appId (ed_id d) s" by (simp add: limit_of_def)
  ultimately show ?thesis
    using usage_facts(1) [OF inv d c refl] usage_facts(1) [OF inv' _ c' refl, of k] usage_facts(2) [OF inv' _ c' refl, of k a] d u assms(5,6)
    by (auto simp: max_def split: if_splits)
qed

theorem reset_policy_ignored_witness:
  "ul_resetPolicy monthly_ten = MONTHLY
   \<and> fst (incrementUsage 9 3 ''premium'' 1 (clock_update (\<lambda>_. 99999999999999) (metered 10))) = Inl (ForbiddenException ''Usage limit exceeded'')"
proof -
  have "List.find (same_definition 3 ''premium'') (entDefinitions (metered 10)) = Some premium" by code_simp
  moreover have "fst (getUsage 9 3 ''premium'' (metered 10)) = Inr \<lparr>us_used = 10, us_limit = Some 10, us_remaining = Some 0, us_isUnlimited = False\<rparr>"
    by code_simp
  moreover have "usage_inv False 9 3 (ed_id premium) 10 (metered 10)"
    using metered_inv [of 10] by (simp add: usage_inv_def below_limit_def within_bounds_def)
  ultimately show ?thesis
    using reset_policy_ignored [of "\<lambda>_. True" 10 9 3 premium "metered 10" "metered 10" "''premium''" _ 1]
    by (force simp: monthly_ten_def)
qed

text \<open>
  The transaction of an increment computes the new value from its own read. Of two increments that both
  read before either writes, as the default isolation level of the database allows, both are
  accepted, both report the same usage, and the counter holds only one of them.
\<close>

theorem concurrent_increments_lost:
  assumes "counters_ok (usageCounters s) (nextId s)" and "int4 (uc_value c + a)" and c: "List.find (same_counter org appId defId) (usageCounters s) = Some c"
    and read: "increment_read org appId defId a s = (Inr x, s)"
  shows "let lmt = List.find (same_limit org appId defId) (usageLimits s);
             (r1, s1) = increment_write x s; (r2, s2) = increment_write x s1 in
    r1 = Inr (snapshot_of lmt (uc_value c + a)) \<and> r2 = Inr (snapshot_of lmt (uc_value c + a))
    \<and> map_option uc_value (List.find (same_counter org appId defId) (usageCounters s2)) = Some (uc_value c + a)"
proof -
  let ?lmt = "List.find (same_limit org appId defId) (usageLimits s)"
  let ?v = "uc_value c + a"
  have mem: "c \<in> set (usageCounters s)" "same_counter org appId defId c" using c by (auto dest: find_SomeD)
  then have "uc_periodEnd c = None" using assms(1) by (simp add: counters_ok_def)
  with read c have x: "x = (?lmt, c, ?v)"
    by (auto simp: increment_read_def run run_basic no_period Let_def split: if_splits)
  have ids: "List.find (\<lambda>y. uc_id y = uc_id c) (usageCounters s) = Some c" using assms(1) mem(1) by (rule find_counter_id)
  let ?upd = "upd_where (\<lambda>y. uc_id y = uc_id c) (set_value ?v c)"
  have again: "List.find (\<lambda>y. uc_id y = uc_id c) (?upd (usageCounters s)) = Some (set_value ?v c c)"
    using ids by (subst find_upd_where_same) simp_all
  have f: "(\<lambda>z. z\<lparr>uc_value := ?v, uc_periodStart := uc_periodStart c, uc_lastResetAt := uc_lastResetAt c\<rparr>) = set_value ?v c"
    by (rule ext) (simp add: set_value_def)
  have w1: "increment_write x s = (Inr (snapshot_of ?lmt ?v), usageCounters_update ?upd s)"
    using ids by (simp add: x increment_write_def int_columns_def assms(2) f run_bnd_update_row run_basic run)
  have w2: "increment_write x (usageCounters_update ?upd s) = (Inr (snapshot_of ?lmt ?v), usageCounters_update (?upd \<circ> ?upd) s)"
    using again by (simp add: x increment_write_def int_columns_def assms(2) f run_bnd_update_row run_basic run)
  have keep: "same_counter org appId defId (set_value ?v c y) = same_counter org appId defId y" for y
    by (simp add: same_counter_def set_value_def)
  have "List.find (same_counter org appId defId) (?upd (?upd (usageCounters s))) = Some (set_value ?v c (set_value ?v c c))"
    using c by (simp add: find_upd_where_keep keep)
  with w1 w2 show ?thesis by simp
qed

theorem concurrent_increments_lost_witness:
  "let (r, s) = increment_read 9 3 20 1 (metered 9) in case r of Inl e \<Rightarrow> False | Inr x \<Rightarrow>
     map_option uc_value (List.find (same_counter 9 3 20) (usageCounters (snd (increment_write x (snd (increment_write x s)))))) = Some 10"
proof -
  have "counters_ok (usageCounters (metered 9)) (nextId (metered 9))" using metered_inv [of 9] by (simp add: usage_inv_def)
  moreover have "List.find (same_counter 9 3 20) (usageCounters (metered 9)) = Some (used_counter 9)" by code_simp
  moreover have "increment_read 9 3 20 1 (metered 9) = (Inr (Some monthly_ten, used_counter 9, 10), metered 9)" by code_simp
  ultimately show ?thesis
    using concurrent_increments_lost [of "metered 9" "used_counter 9" 1 9 3 20 "(Some monthly_ten, used_counter 9, 10)"]
    by (simp add: Let_def split_beta used_counter_def int4_def)
qed

section \<open>Usage records\<close>

definition record_usage :: "string \<Rightarrow> id \<times> usage_dto \<Rightarrow> 'z ent_db_scheme \<Rightarrow> 'z ent_db_scheme" where
  "record_usage k x s = (case x of (org, dto) \<Rightarrow> snd (usage_record_op org k dto s))"

definition records_of :: "string \<Rightarrow> 'z ent_db_scheme \<Rightarrow> nat" where
  "records_of k s = count_where (\<lambda>x. ur_idempotencyKey x = k) (usageRecords s)"

lemma usage_known:
  "List.find (\<lambda>x. ur_idempotencyKey x = k) (usageRecords s) = Some x \<Longrightarrow> usage_record_op org k dto s = (Inr x, s)"
  by (simp add: usage_record_op_def run run_basic)

lemma usage_known_count: "0 < records_of k s \<longleftrightarrow> (\<exists>x. List.find (\<lambda>x. ur_idempotencyKey x = k) (usageRecords s) = Some x)"
  unfolding records_of_def using count_where_zero [of "\<lambda>x. ur_idempotencyKey x = k" "usageRecords s"]
    find_None_iff' [of "\<lambda>x. ur_idempotencyKey x = k" "usageRecords s"]
  by (cases "List.find (\<lambda>x. ur_idempotencyKey x = k) (usageRecords s)") auto

lemma usage_new:
  assumes "records_of k s = 0"
  shows "wps (usage_record_op org k dto) (\<lambda>_ s'. usageRecords s' = usageRecords s
    \<or> (\<exists>x. ur_idempotencyKey x = k \<and> usageRecords s' = usageRecords s @ [x])) s"
  using assms by (auto simp: usage_record_op_def wp usage_row_def records_of_def count_where_zero find_None_iff' split: option.split)

interpretation usage: keyed_store record_usage records_of
proof
  fix k k' :: string and s :: "'a ent_db_scheme" and x :: "id \<times> usage_dto"
  obtain org dto where x: "x = (org, dto)" by (cases x)
  show known: "0 < records_of j s \<Longrightarrow> record_usage j x s = s" for j
    by (auto simp: usage_known_count record_usage_def x usage_known)
  have new: "records_of j s = 0 \<Longrightarrow> usageRecords (record_usage j x s) = usageRecords s
    \<or> (\<exists>y. ur_idempotencyKey y = j \<and> usageRecords (record_usage j x s) = usageRecords s @ [y])" for j
    using usage_new [of j s org dto] by (simp add: wps_run record_usage_def x)
  show "records_of k s = 0 \<Longrightarrow> records_of k (record_usage k x s) \<le> 1"
    using new [of k] by (auto simp: records_of_def count_where_Cons)
  show "k \<noteq> k' \<Longrightarrow> records_of k (record_usage k' x s) = records_of k s"
    using new [of k'] known [of k'] by (cases "records_of k' s = 0") (auto simp: records_of_def count_where_Cons)
qed

text \<open>
  Usage is recorded at most once per idempotency key, over any sequence of calls. A call whose key is
  known returns the stored record and changes nothing, also when it is made for another organisation than
  the record belongs to.
\<close>

theorem usage_record_once:
  assumes "records_of k s \<le> 1"
  shows "let s' = fold (\<lambda>(k, x). record_usage k x) calls s in
    records_of k s' \<le> 1 \<and> (0 < records_of k s \<longrightarrow> records_of k s' = records_of k s)
    \<and> (\<forall>x. List.find (\<lambda>x. ur_idempotencyKey x = k) (usageRecords s') = Some x \<longrightarrow>
         (\<forall>org dto. usage_record_op org k dto s' = (Inr x, s')))"
  using usage.at_most_once [OF assms, of calls] usage.never_lost [of k s calls] by (simp add: Let_def usage_known)

definition call_dto :: usage_dto where
  "call_dto = \<lparr>ud_customerId = 1, ud_subscriptionId = Some 10, ud_featureId = 21, ud_quantity = 5, ud_source = None, ud_metadata = None\<rparr>"

definition usage_db :: ent_db where
  "usage_db = features_update (\<lambda>_. [\<lparr>ft_id = 21, ft_applicationId = 3, ft_key = ''calls'', ft_name = ''Calls'', ft_description = None,
     ft_type = NUMERIC_LIMIT, ft_unit = None, ft_createdAt = 0, ft_archivedAt = None\<rparr>]) (metered 0)"

text \<open>Organisation 9 records under a key; organisation 77 gets the record of organisation 9's customer.\<close>

theorem usage_record_once_witness:
  "let s = record_usage ''k1'' (9, call_dto) usage_db in
   records_of ''k1'' s \<le> 1 \<and> (\<exists>x. usage_record_op 77 ''k1'' call_dto s = (Inr x, s) \<and> ur_customerId x = 1)"
proof -
  have "records_of ''k1'' usage_db \<le> 1" by code_simp
  note once = usage_record_once [OF this, of "[(''k1'', (9, call_dto))]"]
  have "map_option ur_customerId (List.find (\<lambda>x. ur_idempotencyKey x = ''k1'') (usageRecords (record_usage ''k1'' (9, call_dto) usage_db))) = Some 1"
    by code_simp
  then obtain x where "List.find (\<lambda>x. ur_idempotencyKey x = ''k1'') (usageRecords (record_usage ''k1'' (9, call_dto) usage_db)) = Some x"
    and "ur_customerId x = 1"
    by blast
  with once show ?thesis by (auto simp: Let_def)
qed

section \<open>License keys at run time\<close>

lemma activate_run:
  assumes "keys_ok keyId s" and rd: "activation_read keyId org s = (Inr key, s)"
  shows "\<exists>f. snd (key_activate keyId org userId meta s) = audits_update f (licenseKeys_update (upd_where
    (\<lambda>k. lk_id k = keyId \<and> lk_activationCount k = lk_activationCount key) (\<lambda>k. k\<lparr>lk_activationCount := lk_activationCount k + 1\<rparr>)) s)"
proof -
  have key: "key = key_row keyId s"
    using rd by (auto simp: activation_read_def getOwnedKey_def key_row_def run run_basic split: option.splits if_splits)
  have r: "bnd (activation_read keyId org) k s = k key s" for k by (rule run_bnd) (rule rd)
  have c: "bnd (activation_claim keyId (lk_activationCount key)) k s = k 1 (licenseKeys_update (upd_where
      (\<lambda>k. lk_id k = keyId \<and> lk_activationCount k = lk_activationCount key) (\<lambda>k. k\<lparr>lk_activationCount := lk_activationCount k + 1\<rparr>)) s)" for k
    by (rule run_bnd) (simp add: activation_claim_run [OF assms(1)] key)
  have five: "(5::nat) = Suc 4" by simp
  show ?thesis
    unfolding key_activate_def five activation_loop.simps
    by (simp add: r c seq_step)
      (auto simp: audit_def audit_record_def insert_row_def seq_step run_basic bnd_step find_or_throw_def find_row_def split: option.split)
qed

text \<open>
  The last activation of a license key makes the key invalid at run time: validation demands an
  activation that is still free, so a key whose activations are all in use, which is every key with the
  default limit of one after its activation, is refused to the very installation that activated it.
\<close>

theorem activated_key_invalid:
  assumes "keys_ok keyId s" and rd: "activation_read keyId org s = (Inr key, s)" and "lk_status key = LicenseStatus.ACTIVE"
    and "lk_activationCount key + 1 = lk_activationLimit key"
    and h: "List.find (\<lambda>k. lk_keyHash k = hash rawKey) (licenseKeys s) = Some key"
  shows "(\<exists>lic. fst (validateLicenseKey hash rawKey s) = Inr (Valid (lk_licenseId key) lic))
    \<and> fst (validateLicenseKey hash rawKey (snd (key_activate keyId org userId meta s))) = Inr (Invalid ''activation_limit_reached'')"
proof -
  from rd obtain lic where lic: "List.find (\<lambda>l. lic_id l = lk_licenseId key) (licenses s) = Some lic"
    and live: "case lk_expiresAt key of None \<Rightarrow> True | Some x \<Rightarrow> \<not> x < clock s"
    and id: "lk_id key = keyId"
    by (auto simp: activation_read_def getOwnedKey_def run run_basic dest!: find_SomeD split: option.splits if_splits)
  let ?f = "\<lambda>k. k\<lparr>lk_activationCount := lk_activationCount k + 1\<rparr>"
  let ?P = "\<lambda>k. lk_id k = keyId \<and> lk_activationCount k = lk_activationCount key"
  obtain f where s': "snd (key_activate keyId org userId meta s) = audits_update f (licenseKeys_update (upd_where ?P ?f) s)"
    using activate_run [OF assms(1) rd] by blast
  have "List.find (\<lambda>k. lk_keyHash k = hash rawKey) (upd_where ?P ?f (licenseKeys s)) = Some (?f key)"
    using h id by (simp add: find_upd_where_keep)
  then have "wps (validateLicenseKey hash rawKey) (\<lambda>r _. r = Inr (Invalid ''activation_limit_reached''))
      (audits_update f (licenseKeys_update (upd_where ?P ?f) s))"
    using lic live assms(3,4) by (simp add: validateLicenseKey_def wp split: option.splits)
  moreover have "wps (validateLicenseKey hash rawKey) (\<lambda>r _. \<exists>l. r = Inr (Valid (lk_licenseId key) l)) s"
    using h lic live assms(3,4) by (simp add: validateLicenseKey_def wp split: option.splits)
  ultimately show ?thesis by (simp add: wps_run s')
qed

theorem activated_key_invalid_witness:
  "fst (validateLicenseKey id ''h'' (snd (key_activate 7 1 9 no_meta (sample_lic_db [sample_key])))) = Inr (Invalid ''activation_limit_reached'')"
  by (rule activated_key_invalid [where key = sample_key, THEN conjunct2])
    (simp_all add: keys_ok_def activation_read_def getOwnedKey_def run run_basic sample_lic_defs)

end
