(* ===== verification/Pagination.thy ===== *)
theory Pagination
  imports Calendar Prelude "HOL-Library.Multiset" "HOL-Library.List_Lexorder" "HOL-Library.Char_ord"
begin

text \<open>
  Cursor pagination (common/utils/cursor-pagination.util.ts): opaque cursors, the filter they stand for
  and the pages that list endpoints return, with the parts of the standard library they rest on
  (\<open>toISOString\<close>, base64url). The lemmas show that a cursor decodes to what it was made of and that
  following the cursors visits every row once, in order.
\<close>

section \<open>Decimal fields\<close>

fun digits :: "nat \<Rightarrow> int \<Rightarrow> string" where
  "digits 0 n = []"
| "digits (Suc w) n = digits w (n div 10) @ [digit_char (nat (n mod 10))]"

definition number :: "string \<Rightarrow> int" where
  "number s = foldl (\<lambda>a c. 10 * a + (of_char c - 48)) 0 s"

lemma length_digits [simp]: "length (digits w n) = w"
  by (induction w arbitrary: n) simp_all

lemma digit_char_int: "0 \<le> d \<Longrightarrow> d < 10 \<Longrightarrow> of_char (digit_char (nat d)) = 48 + (d::int)"
  using digit_char_code [of "nat d"] by (metis int_nat_eq of_nat_add of_nat_numeral of_nat_of_char zless_nat_eq_int_zless nat_less_eq_zless nat_numeral of_nat_less_numeral_iff)

lemma number_digits: "0 \<le> n \<Longrightarrow> n < 10 ^ w \<Longrightarrow> number (digits w n) = n"
proof (induction w arbitrary: n)
  case (Suc w)
  then have "n div 10 < 10 ^ w" by simp
  with Suc.IH [of "n div 10"] Suc.prems show ?case by (simp add: number_def digit_char_int)
qed (simp add: number_def)

lemma digits_no_bar: "CHR ''|'' \<notin> set (digits w n)"
proof (induction w arbitrary: n)
  case (Suc w)
  have "digit_char (nat (n mod 10)) \<noteq> CHR ''|''" using digit_char_int [of "n mod 10"] by auto
  with Suc show ?case by auto
qed simp

section \<open>toISOString and Date.parse\<close>

definition iso_year :: "int \<Rightarrow> string" where
  "iso_year y = (if 0 \<le> y \<and> y \<le> 9999 then digits 4 y
     else (if y < 0 then ''-'' else ''+'') @ digits 6 \<bar>y\<bar>)"

definition toISOString :: "time \<Rightarrow> string" where
  "toISOString t = (let d = day_of t; s = time_in_day t in
     iso_year (year_from_day d) @ ''-'' @ digits 2 (month_from_day d + 1) @ ''-'' @ digits 2 (date_from_day d)
     @ ''T'' @ digits 2 (s div 3600000) @ '':'' @ digits 2 (s div 60000 mod 60) @ '':'' @ digits 2 (s div 1000 mod 60)
     @ ''.'' @ digits 3 (s mod 1000) @ ''Z'')"

text \<open>The fields of a string of that format with a year of four digits.\<close>

definition iso_time :: "string \<Rightarrow> time" where
  "iso_time s = make_date (make_day (number (take 4 s)) (number (take 2 (drop 5 s)) - 1) (number (take 2 (drop 8 s))))
     (number (take 2 (drop 11 s)) * 3600000 + number (take 2 (drop 14 s)) * 60000 + number (take 2 (drop 17 s)) * 1000
       + number (take 3 (drop 20 s)))"

text \<open>\<open>Date.parse\<close> inverts \<open>toISOString\<close>; what it makes of other strings is a parameter.\<close>

definition date_parse :: "(string \<Rightarrow> time option) \<Rightarrow> string \<Rightarrow> time option" where
  "date_parse other s = (if toISOString (iso_time s) = s then Some (iso_time s) else other s)"

lemma clock_fields:
  fixes s :: int
  shows "s div 3600000 * 3600000 + s div 60000 mod 60 * 60000 + s div 1000 mod 60 * 1000 + s mod 1000 = s"
proof -
  have "s div 60000 = s div 1000 div 60" "s div 3600000 = s div 60000 div 60" by (simp_all add: zdiv_zmult2_eq [symmetric])
  then have "s div 60000 * 60 + s div 1000 mod 60 = s div 1000" "s div 3600000 * 60 + s div 60000 mod 60 = s div 60000"
    by (metis div_mult_mod_eq)+
  moreover have "s div 1000 * 1000 + s mod 1000 = s" by (rule div_mult_mod_eq)
  ultimately show ?thesis by linarith
qed

lemma iso_time_toISOString:
  assumes "0 \<le> year_from_day (day_of t)" and "year_from_day (day_of t) \<le> 9999"
  shows "iso_time (toISOString t) = t"
proof -
  let ?d = "day_of t" and ?s = "time_in_day t"
  have s: "0 \<le> ?s" "?s < 86400000" using time_in_day_bounds [of t] by (simp_all add: ms_per_day_def)
  have "?s div 3600000 < 100" using s(2) by simp
  then have f: "number (digits 4 (year_from_day ?d)) = year_from_day ?d"
    "number (digits 2 (month_from_day ?d + 1)) = month_from_day ?d + 1"
    "number (digits 2 (date_from_day ?d)) = date_from_day ?d"
    "number (digits 2 (?s div 3600000)) = ?s div 3600000"
    "number (digits 2 (?s div 60000 mod 60)) = ?s div 60000 mod 60"
    "number (digits 2 (?s div 1000 mod 60)) = ?s div 1000 mod 60"
    "number (digits 3 (?s mod 1000)) = ?s mod 1000"
    using assms month_bounds [of ?d] date_bounds [of ?d] s
      pos_mod_bound [of 60 "?s div 60000"] pos_mod_bound [of 60 "?s div 1000"] pos_mod_bound [of 1000 ?s]
    by (simp_all add: number_digits pos_imp_zdiv_nonneg_iff)
  have "iso_time (toISOString t) = make_date (make_day (year_from_day ?d) (month_from_day ?d) (date_from_day ?d))
      (?s div 3600000 * 3600000 + ?s div 60000 mod 60 * 60000 + ?s div 1000 mod 60 * 1000 + ?s mod 1000)"
    using assms by (simp add: iso_time_def toISOString_def Let_def iso_year_def f)
  also have "\<dots> = make_date ?d ?s" by (simp only: make_day_decode clock_fields)
  also have "\<dots> = t" by (rule time_split)
  finally show ?thesis .
qed

lemma toISOString_chars: "CHR ''|'' \<notin> set (toISOString t)" "toISOString t \<noteq> []"
  by (auto simp: toISOString_def Let_def iso_year_def digits_no_bar)

section \<open>base64url\<close>

definition BASE64URL :: string where
  "BASE64URL = ''ABCDEFGHIJKLMNOPQRSTUVWXYZabcdefghijklmnopqrstuvwxyz0123456789-_''"

fun sextets :: "nat list \<Rightarrow> nat list" where
  "sextets [] = []"
| "sextets [a] = [a div 4, a mod 4 * 16]"
| "sextets [a, b] = [a div 4, a mod 4 * 16 + b div 16, b mod 16 * 4]"
| "sextets (a # b # c # r) = [a div 4, a mod 4 * 16 + b div 16, b mod 16 * 4 + c div 64, c mod 64] @ sextets r"

fun octets :: "nat list \<Rightarrow> nat list" where
  "octets (w # x # y # z # r) = [w * 4 + x div 16, x mod 16 * 16 + y div 4, y mod 4 * 64 + z] @ octets r"
| "octets [w, x, y] = [w * 4 + x div 16, x mod 16 * 16 + y div 4]"
| "octets [w, x] = [w * 4 + x div 16]"
| "octets _ = []"

definition base64url :: "string \<Rightarrow> string" where
  "base64url s = map (\<lambda>d. BASE64URL ! d) (sextets (map of_char s))"

text \<open>Decoding accepts the characters of both alphabets, ignores others and stops at padding.\<close>

definition sextet_of :: "char \<Rightarrow> nat option" where
  "sextet_of c = (if c = CHR ''+'' then Some 62 else if c = CHR ''/'' then Some 63
     else map_option fst (List.find (\<lambda>(i, a). a = c) (enumerate 0 BASE64URL)))"

definition unbase64 :: "string \<Rightarrow> string" where
  "unbase64 s = map char_of (octets (List.map_filter sextet_of (takeWhile (\<lambda>c. c \<noteq> CHR ''='') s)))"

lemma octets_sextets: "\<forall>b \<in> set bs. b < 256 \<Longrightarrow> octets (sextets bs) = bs"
proof (induction bs rule: sextets.induct)
  case (2 a)
  then show ?case by simp
next
  case (3 a b)
  then have "b div 16 < 16" by (simp add: less_mult_imp_div_less)
  then have "(a mod 4 * 16 + b div 16) div 16 = a mod 4" "(a mod 4 * 16 + b div 16) mod 16 = b div 16"
    by simp_all
  with 3 show ?case by simp
next
  case (4 a b c r)
  then have small: "b div 16 < 16" "c div 64 < 4" by (simp_all add: less_mult_imp_div_less)
  have "(a mod 4 * 16 + b div 16) div 16 = a mod 4" "(a mod 4 * 16 + b div 16) mod 16 = b div 16"
    "(b mod 16 * 4 + c div 64) div 4 = b mod 16" "(b mod 16 * 4 + c div 64) mod 4 = c div 64"
    using small by simp_all
  with 4 show ?case by simp
qed simp

lemma sextets_less: "\<forall>b \<in> set bs. b < 256 \<Longrightarrow> d \<in> set (sextets bs) \<Longrightarrow> d < 64"
  by (induction bs rule: sextets.induct) auto

lemma less_64_cases: "\<forall>d < 64. P d \<Longrightarrow> d < (64::nat) \<Longrightarrow> P d"
  by simp

lemma alphabet_index: "\<forall>d < 64. sextet_of (BASE64URL ! d) = Some d \<and> BASE64URL ! d \<noteq> CHR ''=''"
  by code_simp

lemma unbase64_base64url: "unbase64 (base64url s) = s"
proof -
  let ?ds = "sextets (map of_char s :: nat list)"
  have bytes: "\<forall>b \<in> set (map of_char s :: nat list). b < 256" by auto
  have idx: "sextet_of (BASE64URL ! d) = Some d" "BASE64URL ! d \<noteq> CHR ''=''" if "d \<in> set ?ds" for d
    using alphabet_index sextets_less [OF bytes that] by auto
  have "takeWhile (\<lambda>c. c \<noteq> CHR ''='') (base64url s) = base64url s"
    using idx by (auto simp: base64url_def takeWhile_eq_all_conv)
  then have whole: "takeWhile (\<lambda>c. c \<noteq> CHR ''='') (map (\<lambda>d. BASE64URL ! d) ?ds) = map (\<lambda>d. BASE64URL ! d) ?ds"
    by (simp add: base64url_def)
  have "List.map_filter sextet_of (map (\<lambda>d. BASE64URL ! d) ds) = ds" if "set ds \<subseteq> set ?ds" for ds
    using that idx by (induction ds) (simp_all add: List.map_filter_simps)
  then have "unbase64 (base64url s) = map char_of (octets ?ds)"
    unfolding unbase64_def base64url_def whole by simp
  also have "\<dots> = s" by (simp add: octets_sextets [OF bytes] comp_def)
  finally show ?thesis .
qed

section \<open>Cursors\<close>

definition DEFAULT_PAGE_SIZE :: int where "DEFAULT_PAGE_SIZE = 20"

definition MAX_PAGE_SIZE :: int where "MAX_PAGE_SIZE = 100"

definition encodeCursor :: "time \<Rightarrow> string \<Rightarrow> string" where
  "encodeCursor createdAt i = base64url (toISOString createdAt @ ''|'' @ i)"

fun split_bar :: "string \<Rightarrow> string list" where
  "split_bar [] = [[]]"
| "split_bar (c # cs) = (if c = CHR ''|'' then [] # split_bar cs
     else (case split_bar cs of [] \<Rightarrow> [[c]] | f # fs \<Rightarrow> (c # f) # fs))"

definition decodeCursor :: "(string \<Rightarrow> time option) \<Rightarrow> string \<Rightarrow> exn + (time \<times> string)" where
  "decodeCursor other cursor = (case split_bar (unbase64 cursor) of
     createdAt # i # _ \<Rightarrow> if createdAt = [] \<or> i = [] then Inl (JsError ''Invalid pagination cursor'')
       else (case date_parse other createdAt of None \<Rightarrow> Inl (JsError ''Invalid pagination cursor'') | Some t \<Rightarrow> Inr (t, i))
   | _ \<Rightarrow> Inl (JsError ''Invalid pagination cursor''))"

definition normalizePageSize :: "int option \<Rightarrow> int" where
  "normalizePageSize lmt = (case lmt of None \<Rightarrow> DEFAULT_PAGE_SIZE
     | Some n \<Rightarrow> if n = 0 then DEFAULT_PAGE_SIZE else min (max 1 n) MAX_PAGE_SIZE)"

text \<open>The filter of a cursor, on the creation time and the id of a row.\<close>

definition buildCursorWhereClause ::
  "(string \<Rightarrow> time option) \<Rightarrow> string option \<Rightarrow> exn + (time \<Rightarrow> string \<Rightarrow> bool) option" where
  "buildCursorWhereClause other cursor = (if \<not> truthy cursor then Inr None
     else (case decodeCursor other (the cursor) of Inl e \<Rightarrow> Inl e
       | Inr (t, i) \<Rightarrow> Inr (Some (\<lambda>t' i'. t' < t \<or> t' = t \<and> i' < i))))"

text \<open>\<open>orderBy: CURSOR_ORDER_BY\<close>: newest first, then by descending id.\<close>

definition cursor_order :: "('a \<Rightarrow> time) \<Rightarrow> ('a \<Rightarrow> string) \<Rightarrow> 'a list \<Rightarrow> 'a list" where
  "cursor_order at ident rows = rev (sort_key at (sort_key ident rows))"

definition paginateResults :: "('a \<Rightarrow> time) \<Rightarrow> ('a \<Rightarrow> string) \<Rightarrow> 'a list \<Rightarrow> int \<Rightarrow> 'a list \<times> string option" where
  "paginateResults at ident rows lmt =
     (let hasMore = lmt < int (length rows); items = (if hasMore then take (nat lmt) rows else rows) in
      (items, if hasMore \<and> items \<noteq> [] then Some (encodeCursor (at (last items)) (ident (last items))) else None))"

text \<open>A list endpoint on the rows its own filter selects: \<open>findMany\<close> with the cursor's filter, the order and
  \<open>take: limit + 1\<close>.\<close>

definition page ::
  "(string \<Rightarrow> time option) \<Rightarrow> ('a \<Rightarrow> time) \<Rightarrow> ('a \<Rightarrow> string) \<Rightarrow> string option \<Rightarrow> int option \<Rightarrow> 'a list \<Rightarrow> exn + ('a list \<times> string option)" where
  "page other at ident cursor lmt rows =
     (let n = normalizePageSize lmt in
      case buildCursorWhereClause other cursor of Inl e \<Rightarrow> Inl e
      | Inr w \<Rightarrow> Inr (paginateResults at ident
          (take (nat (n + 1)) (cursor_order at ident (filter (\<lambda>x. case w of None \<Rightarrow> True | Some P \<Rightarrow> P (at x) (ident x)) rows))) n))"

text \<open>A client that follows the cursors from the first page on, at most \<open>fuel\<close> pages.\<close>

fun follow ::
  "nat \<Rightarrow> (string \<Rightarrow> time option) \<Rightarrow> ('a \<Rightarrow> time) \<Rightarrow> ('a \<Rightarrow> string) \<Rightarrow> string option \<Rightarrow> int option \<Rightarrow> 'a list \<Rightarrow> 'a list list option" where
  "follow 0 other at ident cursor lmt rows = None"
| "follow (Suc n) other at ident cursor lmt rows = (case page other at ident cursor lmt rows of
     Inl e \<Rightarrow> None
   | Inr (items, None) \<Rightarrow> Some [items]
   | Inr (items, Some c) \<Rightarrow> map_option (Cons items) (follow n other at ident (Some c) lmt rows))"

lemma split_bar_none: "CHR ''|'' \<notin> set s \<Longrightarrow> split_bar s = [s]"
  by (induction s) auto

lemma split_bar_one: "CHR ''|'' \<notin> set a \<Longrightarrow> split_bar (a @ CHR ''|'' # b) = a # split_bar b"
  by (induction a) auto

definition cursor_ok :: "time \<Rightarrow> string \<Rightarrow> bool" where
  "cursor_ok t i \<longleftrightarrow> 0 \<le> year_from_day (day_of t) \<and> year_from_day (day_of t) \<le> 9999 \<and> i \<noteq> [] \<and> CHR ''|'' \<notin> set i"

lemma decode_encode: "cursor_ok t i \<Longrightarrow> decodeCursor other (encodeCursor t i) = Inr (t, i)"
  by (simp add: decodeCursor_def encodeCursor_def unbase64_base64url cursor_ok_def split_bar_one split_bar_none
      toISOString_chars date_parse_def iso_time_toISOString)

section \<open>Following the cursors\<close>

text \<open>A cursor decodes to the time and the id it was made of (for years of four digits and ids without a bar).\<close>

theorem cursor_roundtrip:
  assumes "cursor_ok t i"
  shows "decodeCursor other (encodeCursor t i) = Inr (t, i)"
  using assms by (rule decode_encode)

theorem cursor_roundtrip_witness:
  "decodeCursor (\<lambda>_. None) (encodeCursor 1700000000123 ''4f9c-b2'') = Inr (1700000000123, ''4f9c-b2'')"
  by (rule cursor_roundtrip) (simp add: cursor_ok_def day_of_def ms_per_day_def year_from_day_def day_from_year_def Let_def)

definition precedes :: "('a \<Rightarrow> time) \<Rightarrow> ('a \<Rightarrow> string) \<Rightarrow> 'a \<Rightarrow> 'a \<Rightarrow> bool" where
  "precedes at ident x y \<longleftrightarrow> at y < at x \<or> at y = at x \<and> ident y < ident x"

lemma set_cursor_order [simp]: "set (cursor_order at ident rows) = set rows"
  by (simp add: cursor_order_def)

lemma sorted_wrt_stable:
  fixes at :: "'a \<Rightarrow> 'b::linorder" and ident :: "'a \<Rightarrow> 'c::linorder"
  assumes "sorted (map ident xs)"
  shows "sorted_wrt (\<lambda>x y. at x < at y \<or> at x = at y \<and> ident x \<le> ident y) (sort_key at xs)"
  using assms
proof (induction xs)
  case (Cons x xs)
  let ?R = "\<lambda>x y. at x < at y \<or> at x = at y \<and> ident x \<le> ident y"
  from Cons have IH: "sorted_wrt ?R (sort_key at xs)" and le: "\<forall>y \<in> set (sort_key at xs). ident x \<le> ident y" by auto
  have "sorted_wrt ?R (insort_key at x ys)" if "sorted_wrt ?R ys" "\<forall>y \<in> set ys. ident x \<le> ident y" for ys
    using that by (induction ys) (force simp: set_insort_key)+
  with IH le show ?case by simp
qed simp

lemma sorted_wrt_strict:
  "sorted_wrt R xs \<Longrightarrow> distinct (map ident xs) \<Longrightarrow> sorted_wrt (\<lambda>x y. R x y \<and> ident x \<noteq> ident y) xs"
  by (induction xs) (auto simp: image_iff)

lemma cursor_order_sorted:
  assumes "distinct (map ident rows)"
  shows "sorted_wrt (precedes at ident) (cursor_order at ident rows)"
proof -
  let ?xs = "sort_key at (sort_key ident rows)"
  have "sorted (map ident (sort_key ident rows))" by simp
  from sorted_wrt_stable [OF this, of at]
  have "sorted_wrt (\<lambda>x y. at x < at y \<or> at x = at y \<and> ident x \<le> ident y) ?xs" .
  moreover have "distinct (map ident ?xs)" using assms by (simp add: distinct_map)
  ultimately have "sorted_wrt (\<lambda>x y. (at x < at y \<or> at x = at y \<and> ident x \<le> ident y) \<and> ident x \<noteq> ident y) ?xs"
    by (rule sorted_wrt_strict)
  then have "sorted_wrt (\<lambda>x y. precedes at ident y x) ?xs"
    by (rule sorted_wrt_mono_rel [rotated]) (auto simp: precedes_def)
  then show ?thesis by (simp add: cursor_order_def sorted_wrt_rev)
qed

lemma precedes_asym: "precedes at ident x y \<Longrightarrow> \<not> precedes at ident y x"
  by (auto simp: precedes_def)

lemma filter_after:
  assumes "sorted_wrt (precedes at ident) (front @ x # rest)"
  shows "filter (precedes at ident x) (front @ x # rest) = rest"
proof -
  have "\<forall>y \<in> set front. precedes at ident y x" using assms by (simp add: sorted_wrt_append)
  then have "\<forall>y \<in> set front. \<not> precedes at ident x y" using precedes_asym [of at ident] by blast
  moreover have "\<not> precedes at ident x x" by (simp add: precedes_def)
  moreover have "\<forall>y \<in> set rest. precedes at ident x y" using assms by (simp add: sorted_wrt_append)
  ultimately show ?thesis by (simp add: filter_id_conv filter_empty_conv)
qed

text \<open>The cursor that stands for the rows already seen.\<close>

definition cursor_after :: "('a \<Rightarrow> time) \<Rightarrow> ('a \<Rightarrow> string) \<Rightarrow> 'a list \<Rightarrow> string option" where
  "cursor_after at ident front = (if front = [] then None else Some (encodeCursor (at (last front)) (ident (last front))))"

lemma normalizePageSize_pos: "0 < normalizePageSize lmt"
  by (auto simp: normalizePageSize_def DEFAULT_PAGE_SIZE_def MAX_PAGE_SIZE_def less_max_iff_disj split: option.split)

lemma page_after:
  assumes "distinct (map ident rows)" and ok: "\<forall>x \<in> set rows. cursor_ok (at x) (ident x)"
    and L: "cursor_order at ident rows = front @ rest"
  shows "page other at ident (cursor_after at ident front) lmt rows = Inr
    (let n = nat (normalizePageSize lmt) in
     (take n rest, if n < length rest then cursor_after at ident (front @ take n rest) else None))"
proof -
  let ?n = "normalizePageSize lmt"
  note n = normalizePageSize_pos [of lmt]
  have sorted: "sorted_wrt (precedes at ident) (front @ rest)" using cursor_order_sorted [OF assms(1), of at] L by simp
  have rest: "take (nat (?n + 1)) rest = take (Suc (nat ?n)) rest" using n by (simp add: nat_add_distrib)
  have result: "paginateResults at ident (take (nat (?n + 1)) rest) ?n
    = (let n = nat ?n in (take n rest, if n < length rest then cursor_after at ident (front @ take n rest) else None))"
    using n by (auto simp: paginateResults_def rest Let_def cursor_after_def min_def)
  show ?thesis
  proof (cases "front = []")
    case True
    with L result show ?thesis
      by (simp add: page_def buildCursorWhereClause_def cursor_after_def Let_def)
  next
    case False
    then obtain init x where front: "front = init @ [x]" by (cases front rule: rev_cases) auto
    have "x \<in> set rows" using L front by (metis set_cursor_order in_set_conv_decomp append_assoc append_Cons append_Nil)
    then have x: "cursor_ok (at x) (ident x)" using ok by blast
    have "encodeCursor (at x) (ident x) \<noteq> []"
    proof
      assume "encodeCursor (at x) (ident x) = []"
      with decode_encode [OF x, of other] show False by (simp add: decodeCursor_def unbase64_def)
    qed
    then have w: "buildCursorWhereClause other (cursor_after at ident front)
      = Inr (Some (\<lambda>t' i'. t' < at x \<or> t' = at x \<and> i' < ident x))"
      by (simp add: buildCursorWhereClause_def cursor_after_def front decode_encode [OF x])
    have "cursor_order at ident (filter (\<lambda>y. at y < at x \<or> at y = at x \<and> ident y < ident x) rows)
      = filter (precedes at ident x) (cursor_order at ident rows)"
      by (simp add: cursor_order_def rev_filter [symmetric] filter_sort precedes_def [abs_def])
    also have "\<dots> = rest" using L sorted front filter_after [of at ident init x rest] by simp
    finally show ?thesis using result by (simp add: page_def w Let_def)
  qed
qed

lemma follow_rest:
  assumes "distinct (map ident rows)" and ok: "\<forall>x \<in> set rows. cursor_ok (at x) (ident x)"
    and "cursor_order at ident rows = front @ rest" and "length rest < fuel"
  shows "\<exists>ps. follow fuel other at ident (cursor_after at ident front) lmt rows = Some ps \<and> concat ps = rest
    \<and> (\<forall>p \<in> set ps. int (length p) \<le> normalizePageSize lmt)"
  using assms(3,4)
proof (induction fuel arbitrary: front rest)
  case (Suc fuel)
  let ?n = "nat (normalizePageSize lmt)"
  note page = page_after [OF assms(1) ok Suc.prems(1), of other lmt]
  show ?case
  proof (cases "?n < length rest")
    case True
    have "0 < ?n" using normalizePageSize_pos [of lmt] by simp
    then have less: "length (drop ?n rest) < fuel" using True Suc.prems(2) by simp
    have split: "cursor_order at ident rows = (front @ take ?n rest) @ drop ?n rest" using Suc.prems(1) by simp
    from Suc.IH [OF this less] obtain ps where
      ps: "follow fuel other at ident (cursor_after at ident (front @ take ?n rest)) lmt rows = Some ps" "concat ps = drop ?n rest"
        "\<forall>p \<in> set ps. int (length p) \<le> normalizePageSize lmt" by blast
    have "rest \<noteq> []" using True by auto
    obtain c where c: "cursor_after at ident (front @ take ?n rest) = Some c"
      using \<open>rest \<noteq> []\<close> normalizePageSize_pos [of lmt] by (auto simp: cursor_after_def not_le)
    then have "follow (Suc fuel) other at ident (cursor_after at ident front) lmt rows = Some (take ?n rest # ps)"
      using ps(1) True by (simp add: page Let_def)
    with ps(2,3) show ?thesis using normalizePageSize_pos [of lmt] by (intro exI conjI) (assumption, auto)
  next
    case False
    with page have "follow (Suc fuel) other at ident (cursor_after at ident front) lmt rows = Some [rest]"
      by (simp add: Let_def)
    with False show ?thesis using normalizePageSize_pos [of lmt] by (intro exI conjI) (assumption, auto)
  qed
qed simp

text \<open>
  C17. Following the cursors ends, after at most as many calls as there are rows and one, and the pages
  together are the rows, each once, newest first; no page is longer than the normalised limit.
\<close>

theorem pages_cover_rows:
  assumes "distinct (map ident rows)" and "\<forall>x \<in> set rows. cursor_ok (at x) (ident x)"
  shows "\<exists>ps. follow (length rows + 1) other at ident None lmt rows = Some ps
    \<and> concat ps = cursor_order at ident rows \<and> mset (concat ps) = mset rows
    \<and> sorted_wrt (precedes at ident) (concat ps) \<and> (\<forall>p \<in> set ps. int (length p) \<le> normalizePageSize lmt)"
proof -
  have "length (cursor_order at ident rows) < length rows + 1" by (simp add: cursor_order_def)
  from follow_rest [OF assms, of "[]" "cursor_order at ident rows" "length rows + 1" other lmt] this
  obtain ps where "follow (length rows + 1) other at ident None lmt rows = Some ps" "concat ps = cursor_order at ident rows"
    "\<forall>p \<in> set ps. int (length p) \<le> normalizePageSize lmt"
    by (auto simp: cursor_after_def)
  with cursor_order_sorted [OF assms(1), of at] show ?thesis
    by (intro exI [of _ ps]) (simp add: cursor_order_def)
qed

text \<open>Five rows, two of them created in the same millisecond, in pages of two.\<close>

theorem pages_cover_rows_witness:
  "let rows = [(1700000000000, ''r1''), (1700000000005, ''r4''), (1700000000005, ''r2''), (1700000000001, ''r3''), (1700000000002, ''r5'')];
       ps = [[(1700000000005, ''r4''), (1700000000005, ''r2'')], [(1700000000002, ''r5''), (1700000000001, ''r3'')], [(1700000000000, ''r1'')]] in
   follow 6 (\<lambda>_. None) fst snd None (Some 2) rows = Some ps \<and> mset (concat ps) = mset rows"
proof -
  let ?rows = "[(1700000000000, ''r1''), (1700000000005, ''r4''), (1700000000005, ''r2''), (1700000000001, ''r3''), (1700000000002, ''r5'')] :: (time \<times> string) list"
  have d: "distinct (map snd ?rows)" by simp
  have ok: "\<forall>x \<in> set ?rows. cursor_ok (fst x) (snd x)"
    by (simp add: cursor_ok_def day_of_def ms_per_day_def year_from_day_def day_from_year_def Let_def)
  have six: "length ?rows + 1 = 6" by simp
  from pages_cover_rows [OF d ok, of "\<lambda>_. None" "Some 2", unfolded six]
  obtain ps where ps: "follow 6 (\<lambda>_. None) fst snd None (Some 2) ?rows = Some ps" "mset (concat ps) = mset ?rows"
    by blast
  moreover have "follow 6 (\<lambda>_. None) fst snd None (Some 2) ?rows = Some [[(1700000000005, ''r4''), (1700000000005, ''r2'')],
      [(1700000000002, ''r5''), (1700000000001, ''r3'')], [(1700000000000, ''r1'')]]"
    by code_simp
  ultimately show ?thesis by (simp add: Let_def del: follow.simps)
qed

end
