(* ===== verification/Listings.thy ===== *)
theory Listings
  imports Webhooks Entitlements Pagination
begin

text \<open>The paged listings of usage records (usage/usage.service.ts) and webhook deliveries
  (webhooks/webhook-deliveries.service.ts).\<close>

record cursor_query =
  q_cursor :: "string option"
  q_limit :: "int option"

definition usage_list ::
  "(string \<Rightarrow> time option) \<Rightarrow> id \<Rightarrow> cursor_query \<Rightarrow> ('z ent_db_scheme, usage_record list \<times> string option) svc" where
  "usage_list other org query = bnd (gets (\<lambda>s. filter (\<lambda>r. \<exists>c \<in> set (customers s). cust_id c = ur_customerId r \<and> cust_organizationId c = org)
       (usageRecords s))) (\<lambda>rows.
     lift (page other ur_createdAt (\<lambda>r. id_str (ur_id r)) (q_cursor query) (q_limit query) rows))"

definition delivery_list ::
  "(string \<Rightarrow> time option) \<Rightarrow> id \<Rightarrow> WebhookDeliveryStatus option \<Rightarrow> string option \<Rightarrow> cursor_query
   \<Rightarrow> ('z hook_db_scheme, webhook_delivery list \<times> string option) svc" where
  "delivery_list other endpointId st eventType query = bnd (gets (\<lambda>s. filter (\<lambda>d. wd_webhookEndpointId d = endpointId
       \<and> (st = None \<or> st = Some (wd_status d)) \<and> (\<not> truthy eventType \<or> eventType = Some (wd_eventType d))) (deliveries s))) (\<lambda>rows.
     lift (page other wd_createdAt (\<lambda>d. id_str (wd_id d)) (q_cursor query) (q_limit query) rows))"

end
