(* ===== verification/Totp.thy ===== *)
theory Totp
  imports Rounding Prelude "HOL-Library.Word"
begin

unbundle bit_operations_syntax

text \<open>
  Time-based one-time passwords (two-factor/totp.util.ts). Bytes are \<open>8 word\<close>; the accumulator of the base32
  loops is a JavaScript number used with bitwise operators, a \<open>32 word\<close>. HMAC-SHA-1 is a parameter. The
  counter is computed in floating point, as the code does. The lemmas show that base32 decoding inverts
  encoding, that the counter is exact, and which codes are accepted.
\<close>

section \<open>Base32\<close>

definition BASE32_ALPHABET :: string where
  "BASE32_ALPHABET = ''ABCDEFGHIJKLMNOPQRSTUVWXYZ234567''"

definition TOTP_STEP_SECONDS :: int where "TOTP_STEP_SECONDS = 30"

definition TOTP_DIGITS :: nat where "TOTP_DIGITS = 6"

definition TOTP_WINDOW :: int where "TOTP_WINDOW = 1"

text \<open>The inner loop: one character for every five pending bits; the result is the number of bits left.\<close>

function emit :: "nat \<Rightarrow> 32 word \<Rightarrow> string \<times> nat" where
  "emit bits value = (if 5 \<le> bits then
     (case emit (bits - 5) value of (out, left) \<Rightarrow> (BASE32_ALPHABET ! unat (drop_bit (bits - 5) value AND 31) # out, left))
   else ([], bits))"
  by pat_completeness auto
termination by (relation "measure fst") auto

declare emit.simps [simp del]

fun encode_loop :: "nat \<Rightarrow> 32 word \<Rightarrow> 8 word list \<Rightarrow> string" where
  "encode_loop bits value [] = (if 0 < bits then [BASE32_ALPHABET ! unat (push_bit (5 - bits) value AND 31)] else [])"
| "encode_loop bits value (byte # rest) =
     (let value' = push_bit 8 value OR ucast byte in
      case emit (bits + 8) value' of (out, left) \<Rightarrow> out @ encode_loop left value' rest)"

definition base32Encode :: "8 word list \<Rightarrow> string" where
  "base32Encode bytes = encode_loop 0 0 bytes"

definition upper :: "char \<Rightarrow> char" where
  "upper c = (if 97 \<le> (of_char c :: nat) \<and> (of_char c :: nat) \<le> 122 then char_of (of_char c - 32 :: nat) else c)"

fun index_of :: "char \<Rightarrow> string \<Rightarrow> nat option" where
  "index_of c [] = None"
| "index_of c (d # ds) = (if c = d then Some 0 else map_option Suc (index_of c ds))"

fun decode_loop :: "nat \<Rightarrow> 32 word \<Rightarrow> string \<Rightarrow> 8 word list" where
  "decode_loop bits value [] = []"
| "decode_loop bits value (c # rest) = (case index_of c BASE32_ALPHABET of
     None \<Rightarrow> decode_loop bits value rest
   | Some index \<Rightarrow>
       let value' = push_bit 5 value OR word_of_nat index; bits' = bits + 5 in
       if 8 \<le> bits' then ucast (drop_bit (bits' - 8) value' AND 0xFF) # decode_loop (bits' - 8) value' rest
       else decode_loop bits' value' rest)"

definition base32Decode :: "string \<Rightarrow> 8 word list" where
  "base32Decode input = decode_loop 0 0 (rev (dropWhile (\<lambda>c. c = CHR ''='') (rev (map upper input))))"

text \<open>The low bits of a word, the most significant first.\<close>

definition low :: "nat \<Rightarrow> 'a::len word \<Rightarrow> bool list" where
  "low n w = map (bit w) (rev [0..<n])"

lemma length_low [simp]: "length (low n w) = n"
  by (simp add: low_def)

lemma low_0 [simp]: "low 0 w = []"
  by (simp add: low_def)

lemma nth_low: "i < n \<Longrightarrow> low n w ! i = bit w (n - 1 - i)"
  by (simp add: low_def rev_nth)

lemma low_eqI: "(\<And>i. i < n \<Longrightarrow> bit v i = bit w i) \<Longrightarrow> low n v = low n w"
  by (simp add: low_def)

lemma low_append: "low (n + k) w = low n (drop_bit k w) @ low k w"
  by (rule nth_equalityI) (auto simp: nth_low nth_append bit_simps add.commute intro!: arg_cong [where f = "bit w"])

lemma low_push:
  fixes v :: "32 word" and b :: "8 word"
  assumes "n + 8 \<le> 32"
  shows "low (n + 8) (push_bit 8 v OR ucast b) = low n v @ low 8 b"
proof -
  have "low n (drop_bit 8 (push_bit 8 v OR ucast b)) = low n v"
    using assms by (intro low_eqI) (auto simp: bit_simps dest: bit_imp_le_length)
  moreover have "low 8 (push_bit 8 v OR ucast b) = low 8 b"
    by (simp add: low_def bit_simps)
  ultimately show ?thesis by (simp add: low_append)
qed

lemma low_mask: "n \<le> k \<Longrightarrow> low n (w AND mask k) = low n w"
  by (intro low_eqI) (auto simp: bit_simps dest: bit_imp_le_length)

lemma low_inj: "low 8 (a :: 8 word) = low 8 b \<Longrightarrow> a = b"
  by (rule bit_word_eqI) (auto simp: low_def)

text \<open>The five bits of a character.\<close>

definition char_bits :: "char \<Rightarrow> bool list" where
  "char_bits c = low 5 (word_of_nat (the (index_of c BASE32_ALPHABET)) :: 32 word)"

lemma alphabet_ok: "\<forall>i < 32. index_of (BASE32_ALPHABET ! i) BASE32_ALPHABET = Some i"
  by code_simp

lemma unat_and_31: "unat (w AND 31 :: 32 word) < 32"
proof -
  have "w AND 31 = take_bit 5 w" by (simp add: take_bit_eq_mask mask_eq_exp_minus_1)
  then have "unat (w AND 31) = take_bit 5 (unat w)" by (simp add: unsigned_take_bit_eq)
  then show ?thesis by (simp add: take_bit_eq_mod)
qed

lemma index_char: "index_of (BASE32_ALPHABET ! unat (w AND 31 :: 32 word)) BASE32_ALPHABET = Some (unat (w AND 31))"
  using alphabet_ok unat_and_31 by blast

lemma char_bits_char: "char_bits (BASE32_ALPHABET ! unat (w AND 31 :: 32 word)) = low 5 w"
proof -
  have "(31 :: 32 word) = mask 5" by (simp add: mask_eq_exp_minus_1)
  then have "low 5 (w AND 31) = low 5 w" using low_mask [of 5 5 w] by simp
  then show ?thesis by (simp add: char_bits_def index_char)
qed

lemma emit_bits:
  "emit bits v = (out, left) \<Longrightarrow> left < 5 \<and> concat (map char_bits out) @ low left v = low bits v
     \<and> (\<forall>c \<in> set out. index_of c BASE32_ALPHABET \<noteq> None)"
proof (induction bits v arbitrary: out left rule: emit.induct)
  case (1 bits v)
  show ?case
  proof (cases "5 \<le> bits")
    case True
    obtain out' where rest: "emit (bits - 5) v = (out', left)"
      and out: "out = BASE32_ALPHABET ! unat (drop_bit (bits - 5) v AND 31) # out'"
      using 1(2) True by (auto simp: emit.simps [of bits] split: prod.splits)
    have "low bits v = low 5 (drop_bit (bits - 5) v) @ low (bits - 5) v"
      using low_append [of 5 "bits - 5" v] True by simp
    with 1(1) [OF True rest] show ?thesis by (simp add: out char_bits_char index_char)
  next
    case False
    with 1(2) show ?thesis by (simp add: emit.simps [of bits])
  qed
qed

lemma low_pad: "bits \<le> 5 \<Longrightarrow> low 5 (push_bit (5 - bits) v :: 32 word) = low bits v @ replicate (5 - bits) False"
  by (rule nth_equalityI) (auto simp: nth_low nth_append bit_simps dest: bit_imp_le_length)

lemma encode_bits:
  "bits < 5 \<Longrightarrow> \<exists>pad. length pad < 5
     \<and> concat (map char_bits (encode_loop bits v bytes)) = low bits v @ concat (map (low 8) bytes) @ pad
     \<and> (\<forall>c \<in> set (encode_loop bits v bytes). index_of c BASE32_ALPHABET \<noteq> None)"
proof (induction bits v bytes rule: encode_loop.induct)
  case (1 bits v)
  then show ?case
    by (intro exI [of _ "if 0 < bits then replicate (5 - bits) False else []"]) (simp add: char_bits_char low_pad index_char)
next
  case (2 bits v byte rest)
  let ?v = "push_bit 8 v OR ucast byte"
  obtain out left where e: "emit (bits + 8) ?v = (out, left)" by (cases "emit (bits + 8) ?v")
  note eb = emit_bits [OF e]
  from 2(1) [OF refl e [symmetric]] eb obtain pad where pad: "length pad < 5"
    "concat (map char_bits (encode_loop left ?v rest)) = low left ?v @ concat (map (low 8) rest) @ pad"
    "\<forall>c \<in> set (encode_loop left ?v rest). index_of c BASE32_ALPHABET \<noteq> None" by blast
  have "concat (map char_bits out) @ low left ?v = low bits v @ low 8 byte"
    using eb low_push [of bits v byte] 2(2) by simp
  with pad eb show ?case by (intro exI [of _ pad]) (auto simp: e Let_def)
qed

lemma index_less: "index_of c ds = Some i \<Longrightarrow> i < length ds"
  by (induction ds arbitrary: i) (auto split: if_splits)

lemma low_push_5:
  fixes v :: "32 word"
  assumes "n + 5 \<le> 32" and "i < 32"
  shows "low (n + 5) (push_bit 5 v OR word_of_nat i) = low n v @ low 5 (word_of_nat i :: 32 word)"
proof -
  have high: "\<not> bit (word_of_nat i :: 32 word) (j + 5)" for j
  proof -
    have "take_bit 5 i = i" using assms(2) by (simp add: take_bit_nat_eq_self)
    then have "\<not> bit i (j + 5)" by (metis bit_take_bit_iff not_add_less2)
    then show ?thesis by (simp add: bit_simps)
  qed
  have "low n (drop_bit 5 (push_bit 5 v OR word_of_nat i)) = low n v"
    using assms(1) high by (intro low_eqI) (auto simp: bit_simps add.commute dest: bit_imp_le_length)
  moreover have "low 5 (push_bit 5 v OR word_of_nat i) = low 5 (word_of_nat i :: 32 word)"
    by (intro low_eqI) (auto simp: bit_simps)
  ultimately show ?thesis by (simp add: low_append)
qed

lemma low_byte: "low 8 (ucast (w AND 0xFF :: 32 word) :: 8 word) = low 8 w"
proof -
  have "(0xFF :: 32 word) = mask 8" by (simp add: mask_eq_exp_minus_1)
  then have "w AND 0xFF = w AND mask 8" by simp
  then show ?thesis by (intro low_eqI) (auto simp: bit_simps simp del: mask_eq_exp_minus_1)
qed

lemma decode_bits:
  "bits < 8 \<Longrightarrow> \<forall>c \<in> set cs. index_of c BASE32_ALPHABET \<noteq> None \<Longrightarrow>
   \<exists>rest. length rest < 8 \<and> low bits v @ concat (map char_bits cs) = concat (map (low 8) (decode_loop bits v cs)) @ rest"
proof (induction bits v cs rule: decode_loop.induct)
  case (1 bits v)
  then show ?case by auto
next
  case (2 bits v c cs)
  then obtain i where i: "index_of c BASE32_ALPHABET = Some i" by auto
  then have "i < 32" using index_less [OF i] by (simp add: BASE32_ALPHABET_def)
  have "bits + 5 \<le> 32" using "2.prems"(1) by simp
  let ?v = "push_bit 5 v OR word_of_nat i"
  have grow: "low (bits + 5) ?v = low bits v @ char_bits c"
    using low_push_5 [OF _ \<open>i < 32\<close>, of bits v] \<open>bits + 5 \<le> 32\<close> i by (simp add: char_bits_def)
  show ?case
  proof (cases "8 \<le> bits + 5")
    case True
    then have "bits + 5 - 8 < 8" using "2.prems"(1) by simp
    with 2(2) [OF i refl refl True] "2.prems"(2) obtain rest where rest: "length rest < 8"
      "low (bits + 5 - 8) ?v @ concat (map char_bits cs) = concat (map (low 8) (decode_loop (bits + 5 - 8) ?v cs)) @ rest" by auto
    have "low (bits + 5) ?v = low 8 (drop_bit (bits + 5 - 8) ?v) @ low (bits + 5 - 8) ?v"
      using low_append [of 8 "bits + 5 - 8" ?v] True by (simp add: add.commute)
    with grow have "low bits v @ char_bits c = low 8 (drop_bit (bits + 5 - 8) ?v) @ low (bits + 5 - 8) ?v" by simp
    then have split: "low bits v @ char_bits c @ X = low 8 (drop_bit (bits + 5 - 8) ?v) @ low (bits + 5 - 8) ?v @ X" for X
      by (metis append_assoc)
    have "low bits v @ char_bits c @ concat (map char_bits cs)
      = low 8 (drop_bit (bits + 5 - 8) ?v) @ concat (map (low 8) (decode_loop (bits + 5 - 8) ?v cs)) @ rest"
      by (simp only: split rest(2))
    then show ?thesis using rest(1) True i by (intro exI [of _ rest]) (simp add: Let_def low_byte)
  next
    case False
    with 2(3) [OF i refl refl False] "2.prems"(2) obtain rest where "length rest < 8"
      "low (bits + 5) ?v @ concat (map char_bits cs) = concat (map (low 8) (decode_loop (bits + 5) ?v cs)) @ rest" by auto
    with grow False i show ?thesis by (intro exI [of _ rest]) (simp add: Let_def)
  qed
qed

lemma concat_low_inj:
  "length xs = length ys \<Longrightarrow> concat (map (low 8) xs) = concat (map (low 8) (ys :: 8 word list)) \<Longrightarrow> xs = ys"
  by (induction xs ys rule: list_induct2) (auto dest: low_inj)

lemma length_concat_low: "length (concat (map (low 8) xs)) = 8 * length xs"
  by (induction xs) simp_all

lemma alphabet_upper: "\<forall>c \<in> set BASE32_ALPHABET. upper c = c \<and> c \<noteq> CHR ''=''"
  by code_simp

lemma index_mem: "index_of c ds \<noteq> None \<longleftrightarrow> c \<in> set ds"
  by (induction ds) auto

lemma base32_decode_encode: "base32Decode (base32Encode bytes) = bytes"
proof -
  let ?cs = "encode_loop 0 0 bytes"
  obtain pad where pad: "length pad < 5" "concat (map char_bits ?cs) = concat (map (low 8) bytes) @ pad"
    and alph: "\<forall>c \<in> set ?cs. index_of c BASE32_ALPHABET \<noteq> None"
    using encode_bits [of 0 0 bytes] by auto
  from decode_bits [of 0 ?cs 0] alph obtain rest where rest: "length rest < 8"
    "concat (map char_bits ?cs) = concat (map (low 8) (decode_loop 0 0 ?cs)) @ rest" by auto
  let ?out = "decode_loop 0 0 ?cs"
  have eq: "concat (map (low 8) ?out) @ rest = concat (map (low 8) bytes) @ pad" using pad rest by simp
  then have "8 * length ?out + length rest = 8 * length bytes + length pad"
    by (metis length_append length_concat_low)
  then have len: "length ?out = length bytes" using pad(1) rest(1) by linarith
  with eq have "concat (map (low 8) ?out) = concat (map (low 8) bytes)"
    by (simp add: append_eq_append_conv length_concat_low)
  with len have "?out = bytes" by (rule concat_low_inj)
  moreover have chars: "upper c = c \<and> c \<noteq> CHR ''=''" if "c \<in> set ?cs" for c
    using alph alphabet_upper that index_mem [of c BASE32_ALPHABET] by blast
  then have "map upper ?cs = ?cs" by (intro map_idI) blast
  moreover have "dropWhile (\<lambda>c. c = CHR ''='') (rev ?cs) = rev ?cs"
    using chars by (cases ?cs rule: rev_cases) auto
  ultimately show ?thesis by (simp add: base32Decode_def base32Encode_def)
qed

text \<open>Decoding a base32 text gives back the bytes it was made of.\<close>

theorem base32_roundtrip: "base32Decode (base32Encode bytes) = bytes"
  by (rule base32_decode_encode)

section \<open>One-time passwords\<close>

text \<open>\<open>writeBigUInt64BE\<close> and \<open>readUInt32BE\<close>, with their range errors.\<close>

definition uint64_be :: "int \<Rightarrow> exn + 8 word list" where
  "uint64_be n = (if 0 \<le> n \<and> n < 2 ^ 64
     then Inr (map (\<lambda>i. ucast (drop_bit (8 * i) (word_of_int n :: 64 word))) [7, 6, 5, 4, 3, 2, 1, 0])
     else Inl (JsError ''ERR_OUT_OF_RANGE''))"

definition uint32_be :: "8 word list \<Rightarrow> nat \<Rightarrow> exn + 32 word" where
  "uint32_be bs off = (if off + 4 \<le> length bs
     then Inr (push_bit 24 (ucast (bs ! off)) OR push_bit 16 (ucast (bs ! (off + 1)))
            OR push_bit 8 (ucast (bs ! (off + 2))) OR ucast (bs ! (off + 3)))
     else Inl (JsError ''ERR_OUT_OF_RANGE''))"

definition padStart :: "nat \<Rightarrow> string \<Rightarrow> string" where
  "padStart w s = replicate (w - length s) (CHR ''0'') @ s"

type_synonym hmac = "8 word list \<Rightarrow> 8 word list \<Rightarrow> 8 word list"

definition hotp :: "hmac \<Rightarrow> 8 word list \<Rightarrow> int \<Rightarrow> exn + string" where
  "hotp hmac secret counter = (case uint64_be counter of Inl e \<Rightarrow> Inl e | Inr counterBuffer \<Rightarrow>
     let digest = hmac secret counterBuffer;
         lastByte = (if digest = [] then 0 else last digest);
         offset = unat (lastByte AND 0x0F) in
     (case uint32_be digest offset of Inl e \<Rightarrow> Inl e | Inr binary \<Rightarrow>
        Inr (padStart TOTP_DIGITS (nat_str (unat (binary AND 0x7FFFFFFF) mod 10 ^ TOTP_DIGITS)))))"

text \<open>\<open>Math.floor(at.getTime() / 1000 / TOTP_STEP_SECONDS)\<close>, both divisions in floating point.\<close>

definition counter_at :: "time \<Rightarrow> int" where
  "counter_at t = \<lfloor>fl (fl (of_int t / 1000) / of_int TOTP_STEP_SECONDS)\<rfloor>"

definition generateTotp :: "hmac \<Rightarrow> 8 word list \<Rightarrow> time \<Rightarrow> exn + string" where
  "generateTotp hmac secret t = hotp hmac secret (counter_at t)"

definition js_space :: "char \<Rightarrow> bool" where
  "js_space c \<longleftrightarrow> (of_char c :: nat) \<in> {9, 10, 11, 12, 13, 32}"

definition js_trim :: "string \<Rightarrow> string" where
  "js_trim s = rev (dropWhile js_space (rev (dropWhile js_space s)))"

definition is_digit :: "char \<Rightarrow> bool" where
  "is_digit c \<longleftrightarrow> 48 \<le> (of_char c :: nat) \<and> (of_char c :: nat) \<le> 57"

text \<open>The loop over the error window: the first match decides.\<close>

fun window_loop :: "hmac \<Rightarrow> 8 word list \<Rightarrow> string \<Rightarrow> int list \<Rightarrow> exn + bool" where
  "window_loop hmac secret code [] = Inr False"
| "window_loop hmac secret code (c # cs) = (case hotp hmac secret c of Inl e \<Rightarrow> Inl e
     | Inr h \<Rightarrow> if h = code then Inr True else window_loop hmac secret code cs)"

definition verifyTotp :: "hmac \<Rightarrow> 8 word list \<Rightarrow> string \<Rightarrow> time \<Rightarrow> exn + bool" where
  "verifyTotp hmac secret code t = (let trimmed = js_trim code in
     if \<not> (length trimmed = 6 \<and> list_all is_digit trimmed) then Inr False
     else window_loop hmac secret trimmed (map (\<lambda>w. counter_at t + w) [- TOTP_WINDOW .. TOTP_WINDOW]))"

text \<open>\<open>randomBytes(5).toString("hex").toUpperCase()\<close>: the hexadecimal text of the drawn bytes is a parameter.\<close>

definition generateRecoveryCode :: "string \<Rightarrow> string" where
  "generateRecoveryCode raw = take 5 raw @ ''-'' @ drop 5 raw"

subsection \<open>The counter is exact\<close>

lemma counter_exact:
  assumes "0 \<le> t" and "t < 2 ^ 45"
  shows "counter_at t = t div 30000"
proof -
  define q where "q = t div 30000"
  define x where "x = fl (of_int t / 1000)"
  define y where "y = fl (x / 30)"
  have q: "30000 * q \<le> t" "t \<le> 30000 * q + 29999" by (simp_all add: q_def minus_mod_eq_mult_div [symmetric])
  have q0: "0 \<le> q" "q < 2 ^ 45" using assms q by linarith+
  have tr: "(of_int t :: rat) < 2 ^ 45" "0 \<le> (of_int t :: rat)"
    using assms by (metis of_int_less_iff of_int_numeral of_int_power, simp)
  have lo: "30 * (of_int q :: rat) \<le> x"
  proof -
    have "fl (of_int (30 * q)) \<le> fl (of_int t / 1000)" by (rule fl_mono) (use q(1) in simp)
    then show ?thesis using fl_of_int [of "30 * q"] q0 assms q by (simp add: x_def)
  qed
  have lo2: "(of_int q :: rat) \<le> y"
  proof -
    have "fl (of_int q) \<le> fl (x / 30)" by (rule fl_mono) (use lo in simp)
    then show ?thesis using fl_of_int [of q] q0 by (simp add: y_def)
  qed
  have ex: "x \<le> of_int t / 1000 + of_int t / 1000 / 2 ^ 53"
    using abs_le_D1 [OF fl_error [of "of_int t / 1000"]] tr by (simp add: x_def)
  have x0: "0 \<le> x" using lo q0 by (meson of_int_0_le_iff order_trans zero_le_mult_iff zero_le_numeral)
  have ey: "y \<le> x / 30 + x / 30 / 2 ^ 53"
    using abs_le_D1 [OF fl_error [of "x / 30"]] x0 by (simp add: y_def)
  have tq: "(of_int t :: rat) \<le> 30000 * of_int q + 29999"
    using q(2) by (metis of_int_le_iff of_int_add of_int_mult of_int_numeral)
  have x_small: "x \<le> 2 ^ 36" using ex tr by simp
  have "y < of_int q + 1" using ex ey tq tr x_small by simp
  with lo2 show ?thesis
    by (simp add: counter_at_def TOTP_STEP_SECONDS_def q_def [symmetric] x_def [symmetric] y_def [symmetric] floor_eq_iff)
qed

subsection \<open>Which codes are accepted\<close>

lemma digit_char_is_digit: "d < 10 \<Longrightarrow> is_digit (digit_char d)"
  by (simp add: is_digit_def digit_char_code)

lemma nat_str_digits: "list_all is_digit (nat_str n)"
proof (induction n rule: nat_str.induct)
  case (1 n)
  then show ?case by (cases "n < 10") (simp_all add: nat_str_small nat_str_big digit_char_is_digit)
qed

lemma nat_str_length: "n < 10 ^ Suc k \<Longrightarrow> length (nat_str n) \<le> Suc k"
proof (induction k arbitrary: n)
  case 0
  then show ?case by (simp add: nat_str_small)
next
  case (Suc k)
  show ?case
  proof (cases "n < 10")
    case False
    have "n div 10 < 10 ^ Suc k" using Suc.prems by (simp add: less_mult_imp_div_less mult.commute)
    from Suc.IH [OF this] False show ?thesis by (simp add: nat_str_big)
  qed (simp add: nat_str_small)
qed

lemma padded_code:
  assumes "n < 10 ^ TOTP_DIGITS"
  shows "length (padStart TOTP_DIGITS (nat_str n)) = 6" and "list_all is_digit (padStart TOTP_DIGITS (nat_str n))"
proof -
  have "length (nat_str n) \<le> 6" using nat_str_length [of n 5] assms by (simp add: TOTP_DIGITS_def)
  then show "length (padStart TOTP_DIGITS (nat_str n)) = 6" by (simp add: padStart_def TOTP_DIGITS_def)
  show "list_all is_digit (padStart TOTP_DIGITS (nat_str n))"
    using nat_str_digits [of n] by (auto simp: padStart_def list_all_iff is_digit_def)
qed

definition hmac_sha1_like :: "hmac \<Rightarrow> bool" where
  "hmac_sha1_like hmac \<longleftrightarrow> (\<forall>k m. length (hmac k m) = 20)"

lemma hotp_code:
  assumes "hmac_sha1_like hmac" and "0 \<le> c" and "c < 2 ^ 64"
  shows "\<exists>code. hotp hmac secret c = Inr code \<and> length code = 6 \<and> list_all is_digit code"
proof -
  let ?buf = "map (\<lambda>i. ucast (drop_bit (8 * i) (word_of_int c :: 64 word))) [7, 6, 5, 4, 3, 2, 1, 0] :: 8 word list"
  let ?d = "hmac secret ?buf"
  have len: "length ?d = 20" using assms(1) by (simp add: hmac_sha1_like_def)
  then have ne: "?d \<noteq> []" by auto
  let ?off = "unat (last ?d AND 0x0F)"
  have "last ?d AND 0x0F = take_bit 4 (last ?d)" by (simp add: take_bit_eq_mask mask_eq_exp_minus_1)
  then have "?off = take_bit 4 (unat (last ?d))" by (simp add: unsigned_take_bit_eq)
  then have "?off < 16" by (simp add: take_bit_eq_mod)
  then have "\<exists>b. uint32_be ?d ?off = Inr b" using len by (simp add: uint32_be_def)
  then obtain b where b: "uint32_be ?d ?off = Inr b" by blast
  let ?n = "unat (b AND 0x7FFFFFFF) mod 10 ^ TOTP_DIGITS"
  have "uint64_be c = Inr ?buf" using assms(2,3) by (simp add: uint64_be_def)
  then have "hotp hmac secret c = Inr (padStart TOTP_DIGITS (nat_str ?n))"
    unfolding hotp_def using ne b by (simp add: Let_def)
  moreover have "?n < 10 ^ TOTP_DIGITS" by simp
  ultimately show ?thesis using padded_code by blast
qed

lemma js_trim_digits:
  assumes "list_all is_digit s"
  shows "js_trim s = s"
proof -
  have "\<not> js_space c" if "c \<in> set s" for c
    using assms that by (auto simp: list_all_iff is_digit_def js_space_def)
  then have "dropWhile js_space s = s" "dropWhile js_space (rev s) = rev s"
    by (metis dropWhile_eq_self_iff hd_in_set, metis dropWhile_eq_self_iff hd_in_set set_rev)
  then show ?thesis by (simp add: js_trim_def)
qed

lemma window_loop_found:
  "(\<And>c. c \<in> set cs \<Longrightarrow> \<exists>h. hotp hmac secret c = Inr h) \<Longrightarrow>
   window_loop hmac secret code cs = Inr (\<exists>c \<in> set cs. hotp hmac secret c = Inr code)"
  by (induction cs) (force split: sum.split)+

lemma verifyTotp_codes:
  assumes "hmac_sha1_like hmac" and "30000 \<le> t" and "t < 2 ^ 44"
  shows "verifyTotp hmac secret code t
    = Inr (\<exists>w \<in> {-1, 0, 1}. generateTotp hmac secret (t + 30000 * w) = Inr (js_trim code))"
proof -
  let ?c = "t div 30000"
  have c: "1 \<le> ?c" "?c < 2 ^ 44" using assms(2,3) by linarith+
  have step: "counter_at t = ?c" using assms by (intro counter_exact) simp_all
  have codes: "\<exists>h. hotp hmac secret (?c + w) = Inr h \<and> length h = 6 \<and> list_all is_digit h" if "w \<in> {-1, 0, 1}" for w
    using that c by (intro hotp_code [OF assms(1)]) auto
  have gen: "generateTotp hmac secret (t + 30000 * w) = hotp hmac secret (?c + w)" if "w \<in> {-1, 0, 1}" for w
  proof -
    have "counter_at (t + 30000 * w) = (t + 30000 * w) div 30000" using that assms(2,3) by (intro counter_exact) auto
    also have "\<dots> = ?c + w" by simp
    finally show ?thesis by (simp add: generateTotp_def)
  qed
  have window: "[- TOTP_WINDOW .. TOTP_WINDOW] = [-1, 0, 1]" by (simp add: TOTP_WINDOW_def upto.simps)
  let ?hit = "\<exists>w \<in> {-1, 0, 1}. hotp hmac secret (?c + w) = Inr (js_trim code)"
  have loop: "window_loop hmac secret (js_trim code) (map (\<lambda>w. ?c + w) [-1, 0, 1]) = Inr ?hit"
  proof (subst window_loop_found)
    show "\<exists>h. hotp hmac secret c = Inr h" if "c \<in> set (map (\<lambda>w. ?c + w) [-1, 0, 1])" for c
      using that codes [of "-1"] codes [of 0] codes [of 1] by auto
  qed auto
  have "length (js_trim code) = 6 \<and> list_all is_digit (js_trim code)" if ?hit
    using that codes [of "-1"] codes [of 0] codes [of 1] by auto
  then have "verifyTotp hmac secret code t = Inr ?hit"
    using loop by (auto simp: verifyTotp_def Let_def step window)
  then show ?thesis using gen by simp
qed

text \<open>
  C39. A code is accepted exactly when it is the code of the current 30 second step, of the one before or of
  the one after (from the second step of 1970 to the year 2527); the check always returns.
\<close>

theorem verifyTotp_window:
  assumes "hmac_sha1_like hmac" and "30000 \<le> t" and "t < 2 ^ 44"
  shows "verifyTotp hmac secret code t
    = Inr (\<exists>w \<in> {-1, 0, 1}. generateTotp hmac secret (t + 30000 * w) = Inr (js_trim code))"
  using assms by (rule verifyTotp_codes)

text \<open>A toy digest of twenty bytes: the code of the first step of 2024 is still accepted 29 seconds into the next.\<close>

definition toy_hmac :: hmac where
  "toy_hmac k m = map (\<lambda>i. word_of_nat (17 * i + 3) XOR (m ! 7) XOR (k ! 0)) [0..<20]"

theorem verifyTotp_window_witness:
  "\<exists>code. generateTotp toy_hmac [42] 1704067200000 = Inr code \<and> verifyTotp toy_hmac [42] code 1704067259000 = Inr True"
proof -
  have sha: "hmac_sha1_like toy_hmac" by (simp add: hmac_sha1_like_def toy_hmac_def)
  obtain code where code: "generateTotp toy_hmac [42] 1704067200000 = Inr code" "list_all is_digit code"
    using hotp_code [OF sha, of "counter_at 1704067200000" "[42]"] by (auto simp: generateTotp_def counter_exact)
  have "generateTotp toy_hmac [42] (1704067259000 + 30000 * (-1)) = Inr code"
    using code(1) by (simp add: generateTotp_def counter_exact)
  with verifyTotp_window [OF sha, of 1704067259000 "[42]" code] code(2) show ?thesis
    by (intro exI [of _ code]) (simp add: code(1) js_trim_digits)
qed

end
