(* ===== verification/Auth.thy ===== *)
theory Auth
  imports Platform Totp Json_Text
begin

text \<open>
  Accounts and sessions: auth/auth.service.ts with auth/strategies/jwt.strategy.ts,
  two-factor/two-factor.service.ts and two-factor/two-factor-login.controller.ts. Passwords, tokens, JSON web tokens and the
  cipher of stored secrets are libraries: they are the fields of \<open>auth_world\<close>. Random values are arguments
  of the operations that draw them.
\<close>

section \<open>Rows\<close>

record account =
  acc_id :: id
  acc_email :: string
  acc_passwordHash :: "string option"
  acc_googleId :: "string option"
  acc_emailVerified :: bool
  acc_emailVerifiedAt :: "time option"
  acc_firstName :: "string option"
  acc_lastName :: "string option"
  acc_displayName :: "string option"
  acc_avatarUrl :: "string option"
  acc_isActive :: bool

record session_row =
  se_id :: id
  se_userId :: id
  se_refreshTokenHash :: string
  se_deviceName :: "string option"
  se_userAgent :: "string option"
  se_ipAddress :: "string option"
  se_rememberMe :: bool
  se_replacedById :: "id option"
  se_revokedAt :: "time option"
  se_expiresAt :: time
  se_lastUsedAt :: time
  se_createdAt :: time

record reset_token =
  rt_id :: id
  rt_userId :: id
  rt_tokenHash :: string
  rt_expiresAt :: time
  rt_usedAt :: "time option"

text \<open>\<open>EncryptedPayload\<close> of common/utils/encryption.util.ts.\<close>

record encrypted_payload =
  enc_encryptedValue :: string
  enc_iv :: string
  enc_authTag :: string

record two_factor =
  tf_id :: id
  tf_userId :: id
  tf_secret :: encrypted_payload
  tf_recoveryCodesHash :: "string list"
  tf_enabled :: bool
  tf_verifiedAt :: "time option"

record auth_db = platform_db +
  accounts :: "account list"
  sessions :: "session_row list"
  resetTokens :: "reset_token list"
  twoFactors :: "two_factor list"
  resetMails :: "(string \<times> string) list"

text \<open>The claims of the tokens this program signs.\<close>

record jwt_claims =
  jwt_sub :: id
  jwt_email :: "string option"
  jwt_purpose :: "string option"

record auth_world =
  w_hashToken :: "string \<Rightarrow> string"
  w_hashPassword :: "string \<Rightarrow> string"
  w_verifyPassword :: "string \<Rightarrow> string \<Rightarrow> bool"
  w_dummyHash :: string
  w_sign :: "jwt_claims \<Rightarrow> int \<Rightarrow> time \<Rightarrow> string"
  w_verifyJwt :: "string \<Rightarrow> time \<Rightarrow> jwt_claims option"
  w_encrypt :: "string \<Rightarrow> string \<Rightarrow> encrypted_payload"
  w_decrypt :: "encrypted_payload \<Rightarrow> exn + string"
  w_hmac :: hmac
  w_webOrigin :: string

section \<open>AuthService: registration and login\<close>

definition ACCESS_TOKEN_TTL_MS :: int where "ACCESS_TOKEN_TTL_MS = 15 * 60 * 1000"

definition REFRESH_TOKEN_TTL_MS :: "bool \<Rightarrow> int" where
  "REFRESH_TOKEN_TTL_MS rememberMe = (if rememberMe then 30 * 24 * 60 * 60 * 1000 else 24 * 60 * 60 * 1000)"

definition PASSWORD_RESET_TTL_MS :: int where "PASSWORD_RESET_TTL_MS = 60 * 60 * 1000"

record public_user =
  pu_id :: id
  pu_email :: string
  pu_emailVerified :: bool
  pu_firstName :: "string option"
  pu_lastName :: "string option"
  pu_displayName :: "string option"
  pu_avatarUrl :: "string option"

definition toPublicUser :: "account \<Rightarrow> public_user" where
  "toPublicUser u = \<lparr>pu_id = acc_id u, pu_email = acc_email u, pu_emailVerified = acc_emailVerified u, pu_firstName = acc_firstName u,
     pu_lastName = acc_lastName u, pu_displayName = acc_displayName u, pu_avatarUrl = acc_avatarUrl u\<rparr>"

record token_pair =
  tp_accessToken :: string
  tp_accessTokenExpiresInMs :: int
  tp_refreshToken :: string
  tp_refreshTokenExpiresAt :: time
  tp_user :: public_user

datatype login_result = Pair token_pair | TwoFactorChallenge string

record register_dto =
  rd_email :: string
  rd_password :: string
  rd_firstName :: "string option"
  rd_lastName :: "string option"

text \<open>\<open>first ? `${first} ${last ?? ""}`.trim() : undefined\<close>.\<close>

definition display_name :: "string option \<Rightarrow> string option \<Rightarrow> string option" where
  "display_name first lastn = (if truthy first then Some (js_trim (the first @ '' '' @ orElse lastn [])) else None)"

definition register :: "auth_world \<Rightarrow> register_dto \<Rightarrow> request_meta \<Rightarrow> ('z auth_db_scheme, public_user) svc" where
  "register w dto meta =
     bnd (find_row accounts (\<lambda>u. acc_email u = rd_email dto)) (\<lambda>existing.
     seq (guard_or (existing = None) (ConflictException ''An account with this email already exists''))
     (bnd fresh (\<lambda>i. bnd now (\<lambda>t.
      bnd (insert_unique accounts accounts_update (\<lambda>u. acc_email u = rd_email dto)
        \<lparr>acc_id = i, acc_email = rd_email dto, acc_passwordHash = Some (w_hashPassword w (rd_password dto)), acc_googleId = None,
         acc_emailVerified = True, acc_emailVerifiedAt = Some t, acc_firstName = rd_firstName dto, acc_lastName = rd_lastName dto,
         acc_displayName = display_name (rd_firstName dto) (rd_lastName dto), acc_avatarUrl = None, acc_isActive = True\<rparr>) (\<lambda>user.
      seq (audit ''USER_REGISTERED'' (Some (acc_id user)) None None [] meta)
          (ret (toPublicUser user)))))))"

text \<open>The session of a token pair, and the write that retires the one it replaces.\<close>

definition new_session :: "auth_world \<Rightarrow> id \<Rightarrow> time \<Rightarrow> id \<Rightarrow> string \<Rightarrow> bool \<Rightarrow> string option \<Rightarrow> request_meta \<Rightarrow> session_row" where
  "new_session w i t userId token rememberMe deviceName meta =
     \<lparr>se_id = i, se_userId = userId, se_refreshTokenHash = w_hashToken w token, se_deviceName = deviceName,
      se_userAgent = meta_userAgent meta, se_ipAddress = meta_ipAddress meta, se_rememberMe = rememberMe, se_replacedById = None,
      se_revokedAt = None, se_expiresAt = t + REFRESH_TOKEN_TTL_MS rememberMe, se_lastUsedAt = t, se_createdAt = t\<rparr>"

definition issueTokenPair ::
  "auth_world \<Rightarrow> string \<Rightarrow> account \<Rightarrow> request_meta \<Rightarrow> bool \<Rightarrow> string option \<Rightarrow> session_row option \<Rightarrow> ('z auth_db_scheme, token_pair) svc" where
  "issueTokenPair w draw user meta rememberMe deviceName replaces =
     bnd now (\<lambda>t.
     let accessToken = w_sign w \<lparr>jwt_sub = acc_id user, jwt_email = Some (acc_email user), jwt_purpose = None\<rparr> ACCESS_TOKEN_TTL_MS t in
     bnd fresh (\<lambda>i.
     bnd (insert_unique sessions sessions_update (\<lambda>x. se_refreshTokenHash x = w_hashToken w draw)
            (new_session w i t (acc_id user) draw rememberMe deviceName meta)) (\<lambda>session.
     seq (case replaces of None \<Rightarrow> ret ()
          | Some old \<Rightarrow> seq (update_row sessions sessions_update (\<lambda>x. se_id x = se_id old)
              (\<lambda>x. x\<lparr>se_revokedAt := Some t, se_replacedById := Some (se_id session)\<rparr>)) (ret ()))
         (ret \<lparr>tp_accessToken = accessToken, tp_accessTokenExpiresInMs = ACCESS_TOKEN_TTL_MS, tp_refreshToken = draw,
               tp_refreshTokenExpiresAt = t + REFRESH_TOKEN_TTL_MS rememberMe, tp_user = toPublicUser user\<rparr>))))"

record login_dto =
  ld_email :: string
  ld_password :: string
  ld_rememberMe :: "bool option"
  ld_deviceName :: "string option"

definition password_ok :: "auth_world \<Rightarrow> string \<Rightarrow> account option \<Rightarrow> bool" where
  "password_ok w password user = w_verifyPassword w password
     (case user of None \<Rightarrow> w_dummyHash w | Some u \<Rightarrow> orElse (acc_passwordHash u) (w_dummyHash w))"

definition challenge_claims :: "id \<Rightarrow> jwt_claims" where
  "challenge_claims userId = \<lparr>jwt_sub = userId, jwt_email = None, jwt_purpose = Some ''2fa_challenge''\<rparr>"

definition CHALLENGE_TTL_MS :: int where "CHALLENGE_TTL_MS = 5 * 60 * 1000"

definition login :: "auth_world \<Rightarrow> string \<Rightarrow> login_dto \<Rightarrow> request_meta \<Rightarrow> ('z auth_db_scheme, login_result) svc" where
  "login w draw dto meta =
     bnd (find_row accounts (\<lambda>u. acc_email u = ld_email dto)) (\<lambda>r.
     case (if password_ok w (ld_password dto) r then r else None) of
       Some user \<Rightarrow>
         if \<not> acc_isActive user then
           seq (audit ''LOGIN_FAILED'' (Some (acc_id user)) None None [(''email'', JStr (ld_email dto))] meta)
               (throw (UnauthorizedException ''Invalid email or password''))
         else
           bnd (find_row twoFactors (\<lambda>c. tf_userId c = acc_id user)) (\<lambda>twoFactor.
           if (case twoFactor of None \<Rightarrow> False | Some c \<Rightarrow> tf_enabled c) then
             bnd now (\<lambda>t. ret (TwoFactorChallenge (w_sign w (challenge_claims (acc_id user)) CHALLENGE_TTL_MS t)))
           else
             bnd (issueTokenPair w draw user meta (orElse (ld_rememberMe dto) False) (ld_deviceName dto) None) (\<lambda>pair.
             seq (audit ''LOGIN_SUCCEEDED'' (Some (acc_id user)) None None [] meta) (ret (Pair pair))))
     | None \<Rightarrow>
         seq (audit ''LOGIN_FAILED'' (map_option acc_id r) None None [(''email'', JStr (ld_email dto))] meta)
             (throw (UnauthorizedException ''Invalid email or password'')))"

record google_profile =
  gp_googleId :: string
  gp_email :: string
  gp_emailVerified :: bool
  gp_firstName :: "string option"
  gp_lastName :: "string option"
  gp_avatarUrl :: "string option"

definition google_account :: "google_profile \<Rightarrow> request_meta \<Rightarrow> ('z auth_db_scheme, account) svc" where
  "google_account profile meta =
     bnd (find_row accounts (\<lambda>u. acc_googleId u = Some (gp_googleId profile))) (\<lambda>r. case r of
       Some user \<Rightarrow> ret user
     | None \<Rightarrow>
         bnd (find_row accounts (\<lambda>u. acc_email u = gp_email profile)) (\<lambda>existing.
         bnd now (\<lambda>t. case existing of
           Some x \<Rightarrow> update_row accounts accounts_update (\<lambda>u. acc_id u = acc_id x)
             (\<lambda>u. u\<lparr>acc_googleId := Some (gp_googleId profile), acc_emailVerified := acc_emailVerified x \<or> gp_emailVerified profile,
                    acc_emailVerifiedAt := (case acc_emailVerifiedAt x of Some v \<Rightarrow> Some v
                       | None \<Rightarrow> if gp_emailVerified profile then Some t else acc_emailVerifiedAt u),
                    acc_avatarUrl := (case acc_avatarUrl x of Some v \<Rightarrow> Some v
                       | None \<Rightarrow> (case gp_avatarUrl profile of Some v \<Rightarrow> Some v | None \<Rightarrow> acc_avatarUrl u))\<rparr>)
         | None \<Rightarrow>
             bnd fresh (\<lambda>i.
             bnd (insert_row accounts_update
               \<lparr>acc_id = i, acc_email = gp_email profile, acc_passwordHash = None, acc_googleId = Some (gp_googleId profile),
                acc_emailVerified = gp_emailVerified profile, acc_emailVerifiedAt = (if gp_emailVerified profile then Some t else None),
                acc_firstName = gp_firstName profile, acc_lastName = gp_lastName profile,
                acc_displayName = display_name (gp_firstName profile) (gp_lastName profile), acc_avatarUrl = gp_avatarUrl profile,
                acc_isActive = True\<rparr>) (\<lambda>user.
             seq (audit ''USER_REGISTERED'' (Some (acc_id user)) None None [] meta) (ret user))))))"

definition loginWithGoogle :: "auth_world \<Rightarrow> string \<Rightarrow> google_profile \<Rightarrow> request_meta \<Rightarrow> ('z auth_db_scheme, token_pair) svc" where
  "loginWithGoogle w draw profile meta =
     bnd (google_account profile meta) (\<lambda>user.
     seq (guard_or (acc_isActive user) (UnauthorizedException ''This account has been deactivated''))
     (bnd (issueTokenPair w draw user meta True None None) (\<lambda>pair.
      seq (audit ''LOGIN_SUCCEEDED'' (Some (acc_id user)) None None [] meta) (ret pair))))"

section \<open>AuthService: sessions\<close>

definition revokeAllSessions :: "id \<Rightarrow> ('z auth_db_scheme, unit) svc" where
  "revokeAllSessions userId = bnd now (\<lambda>t.
     seq (update_many sessions sessions_update (\<lambda>x. se_userId x = userId \<and> se_revokedAt x = None) (\<lambda>x. x\<lparr>se_revokedAt := Some t\<rparr>)) (ret ()))"

text \<open>The checks of \<open>refresh\<close>, with its reaction to a token that was replaced or revoked before.\<close>

definition refresh_check :: "auth_world \<Rightarrow> string \<Rightarrow> request_meta \<Rightarrow> ('z auth_db_scheme, session_row \<times> account) svc" where
  "refresh_check w rawToken meta =
     bnd (find_row sessions (\<lambda>x. se_refreshTokenHash x = w_hashToken w rawToken)) (\<lambda>r. case r of
       None \<Rightarrow> throw (UnauthorizedException ''Invalid session'')
     | Some session \<Rightarrow>
         bnd (find_or_throw accounts (\<lambda>u. acc_id u = se_userId session)) (\<lambda>user.
         if se_revokedAt session \<noteq> None then
           seq (revokeAllSessions (se_userId session))
           (seq (audit ''SESSION_REVOKED'' (Some (se_userId session)) None None
                   [(''reason'', JStr ''refresh_token_reuse_detected'')] meta)
                (throw (UnauthorizedException ''Session revoked'')))
         else
           bnd now (\<lambda>t.
           seq (guard_or (\<not> se_expiresAt session < t) (UnauthorizedException ''Session expired''))
               (ret (session, user)))))"

definition refresh_issue :: "auth_world \<Rightarrow> string \<Rightarrow> request_meta \<Rightarrow> session_row \<times> account \<Rightarrow> ('z auth_db_scheme, token_pair) svc" where
  "refresh_issue w draw meta x = (case x of (session, user) \<Rightarrow>
     issueTokenPair w draw user meta (se_rememberMe session) (se_deviceName session) (Some session))"

definition refresh :: "auth_world \<Rightarrow> string \<Rightarrow> string \<Rightarrow> request_meta \<Rightarrow> ('z auth_db_scheme, token_pair) svc" where
  "refresh w draw rawToken meta = bnd (refresh_check w rawToken meta) (refresh_issue w draw meta)"

definition logout :: "auth_world \<Rightarrow> string option \<Rightarrow> request_meta \<Rightarrow> ('z auth_db_scheme, unit) svc" where
  "logout w rawToken meta =
     (if \<not> truthy rawToken then ret ()
      else bnd (find_row sessions (\<lambda>x. se_refreshTokenHash x = w_hashToken w (the rawToken))) (\<lambda>r. case r of
        None \<Rightarrow> ret ()
      | Some session \<Rightarrow>
          when_do (se_revokedAt session = None)
            (bnd now (\<lambda>t.
             seq (update_row sessions sessions_update (\<lambda>x. se_id x = se_id session) (\<lambda>x. x\<lparr>se_revokedAt := Some t\<rparr>))
                 (audit ''LOGOUT'' (Some (se_userId session)) None None [] meta)))))"

text \<open>The selected columns of a session.\<close>

record session_view =
  sv_id :: id
  sv_deviceName :: "string option"
  sv_userAgent :: "string option"
  sv_ipAddress :: "string option"
  sv_rememberMe :: bool
  sv_lastUsedAt :: time
  sv_createdAt :: time
  sv_expiresAt :: time

definition session_select :: "session_row \<Rightarrow> session_view" where
  "session_select x = \<lparr>sv_id = se_id x, sv_deviceName = se_deviceName x, sv_userAgent = se_userAgent x, sv_ipAddress = se_ipAddress x,
     sv_rememberMe = se_rememberMe x, sv_lastUsedAt = se_lastUsedAt x, sv_createdAt = se_createdAt x, sv_expiresAt = se_expiresAt x\<rparr>"

definition session_live :: "time \<Rightarrow> session_row \<Rightarrow> bool" where
  "session_live t x \<longleftrightarrow> se_revokedAt x = None \<and> t < se_expiresAt x"

definition listSessions :: "id \<Rightarrow> ('z auth_db_scheme, session_view list) svc" where
  "listSessions userId = bnd now (\<lambda>t. gets (\<lambda>s. map session_select
     (sort_key (\<lambda>x. - se_lastUsedAt x) (filter (\<lambda>x. se_userId x = userId \<and> session_live t x) (sessions s)))))"

definition revokeSession :: "id \<Rightarrow> id \<Rightarrow> request_meta \<Rightarrow> ('z auth_db_scheme, unit) svc" where
  "revokeSession userId sessionId meta =
     bnd (find_row sessions (\<lambda>x. se_id x = sessionId)) (\<lambda>r.
     seq (guard_or (case r of None \<Rightarrow> False | Some x \<Rightarrow> se_userId x = userId) (BadRequestException ''Session not found''))
     (bnd now (\<lambda>t.
      seq (update_row sessions sessions_update (\<lambda>x. se_id x = sessionId) (\<lambda>x. x\<lparr>se_revokedAt := Some t\<rparr>))
          (audit ''SESSION_REVOKED'' (Some userId) None None [] meta))))"

section \<open>AuthService: passwords\<close>

definition forgotPassword :: "auth_world \<Rightarrow> string \<Rightarrow> string \<Rightarrow> request_meta \<Rightarrow> ('z auth_db_scheme, unit) svc" where
  "forgotPassword w draw email meta =
     bnd (find_row accounts (\<lambda>u. acc_email u = email)) (\<lambda>r.
     seq (audit ''PASSWORD_RESET_REQUESTED'' (map_option acc_id r) None None [(''email'', JStr email)] meta)
     (case r of None \<Rightarrow> ret ()
      | Some user \<Rightarrow> when_do (acc_isActive user)
          (bnd fresh (\<lambda>i. bnd now (\<lambda>t.
           seq (insert_unique resetTokens resetTokens_update (\<lambda>x. rt_tokenHash x = w_hashToken w draw)
                 \<lparr>rt_id = i, rt_userId = acc_id user, rt_tokenHash = w_hashToken w draw, rt_expiresAt = t + PASSWORD_RESET_TTL_MS,
                  rt_usedAt = None\<rparr>)
               (modify (resetMails_update (\<lambda>ms. ms @ [(acc_email user, w_webOrigin w @ ''/reset-password?token='' @ draw)]))))))))"

definition set_password :: "auth_world \<Rightarrow> id \<Rightarrow> string \<Rightarrow> ('z auth_db_scheme, unit) svc" where
  "set_password w userId password = seq (update_row accounts accounts_update (\<lambda>u. acc_id u = userId)
     (\<lambda>u. u\<lparr>acc_passwordHash := Some (w_hashPassword w password)\<rparr>)) (ret ())"

definition resetPassword :: "auth_world \<Rightarrow> string \<Rightarrow> string \<Rightarrow> request_meta \<Rightarrow> ('z auth_db_scheme, unit) svc" where
  "resetPassword w rawToken newPassword meta =
     bnd (find_row resetTokens (\<lambda>x. rt_tokenHash x = w_hashToken w rawToken)) (\<lambda>r. bnd now (\<lambda>t. case r of
       None \<Rightarrow> throw (BadRequestException ''Invalid or expired reset token'')
     | Some token \<Rightarrow>
         seq (guard_or (rt_usedAt token = None \<and> \<not> rt_expiresAt token < t) (BadRequestException ''Invalid or expired reset token''))
         (seq (transaction
             (seq (update_row resetTokens resetTokens_update (\<lambda>x. rt_id x = rt_id token) (\<lambda>x. x\<lparr>rt_usedAt := Some t\<rparr>))
                  (set_password w (rt_userId token) newPassword)))
         (seq (revokeAllSessions (rt_userId token))
              (audit ''PASSWORD_RESET_COMPLETED'' (Some (rt_userId token)) None None [] meta)))))"

definition changePassword :: "auth_world \<Rightarrow> id \<Rightarrow> string \<Rightarrow> string \<Rightarrow> request_meta \<Rightarrow> ('z auth_db_scheme, unit) svc" where
  "changePassword w userId currentPassword newPassword meta =
     bnd (find_or_throw accounts (\<lambda>u. acc_id u = userId)) (\<lambda>user.
     seq (guard_or (password_ok w currentPassword (Some user)) (BadRequestException ''Current password is incorrect''))
     (seq (set_password w userId newPassword)
     (seq (revokeAllSessions userId)
          (audit ''PASSWORD_CHANGED'' (Some userId) None None [] meta))))"

section \<open>JwtStrategy\<close>

text \<open>A bearer token is accepted when its signature and expiry verify; \<open>validate\<close> then reads the user from its claims.\<close>

definition validate :: "jwt_claims \<Rightarrow> id \<times> string option" where
  "validate payload = (jwt_sub payload, jwt_email payload)"

definition authenticate :: "auth_world \<Rightarrow> string \<Rightarrow> ('z auth_db_scheme, id \<times> string option) svc" where
  "authenticate w bearer = bnd now (\<lambda>t. case w_verifyJwt w bearer t of
     None \<Rightarrow> throw (UnauthorizedException ''Unauthorized'') | Some payload \<Rightarrow> ret (validate payload))"

section \<open>TwoFactorService\<close>

definition RECOVERY_CODE_COUNT :: nat where "RECOVERY_CODE_COUNT = 8"

definition ISSUER :: string where "ISSUER = ''SSCodeAxis''"

definition buildOtpauthUrl :: "string \<Rightarrow> string \<Rightarrow> string \<Rightarrow> string" where
  "buildOtpauthUrl email secretBase32 issuer = ''otpauth://totp/'' @ encodeURIComponent (issuer @ '':'' @ email)
     @ ''?secret='' @ form_encode secretBase32 @ ''&issuer='' @ form_encode issuer"

definition tf_setup :: "auth_world \<Rightarrow> 8 word list \<Rightarrow> string \<Rightarrow> id \<Rightarrow> string option \<Rightarrow> ('z auth_db_scheme, string \<times> string) svc" where
  "tf_setup w secret iv userId email =
     (let secretBase32 = base32Encode secret; encrypted = w_encrypt w iv secretBase32 in
      bnd (find_row twoFactors (\<lambda>c. tf_userId c = userId)) (\<lambda>existing.
      seq (case existing of
             None \<Rightarrow> bnd fresh (\<lambda>i. seq (insert_row twoFactors_update
               \<lparr>tf_id = i, tf_userId = userId, tf_secret = encrypted, tf_recoveryCodesHash = [], tf_enabled = False, tf_verifiedAt = None\<rparr>) (ret ()))
           | Some _ \<Rightarrow> seq (update_row twoFactors twoFactors_update (\<lambda>c. tf_userId c = userId)
               (\<lambda>c. c\<lparr>tf_secret := encrypted, tf_enabled := False, tf_verifiedAt := None, tf_recoveryCodesHash := []\<rparr>)) (ret ()))
          (ret (secretBase32, buildOtpauthUrl (orElse email ''undefined'') secretBase32 ISSUER))))"

definition decryptCredentialSecret :: "auth_world \<Rightarrow> two_factor \<Rightarrow> exn + 8 word list" where
  "decryptCredentialSecret w credential = (case w_decrypt w (tf_secret credential) of Inl e \<Rightarrow> Inl e | Inr b \<Rightarrow> Inr (base32Decode b))"

definition totp_matches :: "auth_world \<Rightarrow> two_factor \<Rightarrow> string \<Rightarrow> ('z auth_db_scheme, bool) svc" where
  "totp_matches w credential code = bnd (lift (decryptCredentialSecret w credential)) (\<lambda>secret.
     bnd now (\<lambda>t. lift (verifyTotp (w_hmac w) secret code t)))"

definition tf_verify :: "auth_world \<Rightarrow> string list \<Rightarrow> id \<Rightarrow> string \<Rightarrow> request_meta \<Rightarrow> ('z auth_db_scheme, string list) svc" where
  "tf_verify w draws userId code meta =
     bnd (find_row twoFactors (\<lambda>c. tf_userId c = userId)) (\<lambda>r. case r of
       None \<Rightarrow> throw (NotFoundException ''No two-factor setup in progress - call setup first'')
     | Some credential \<Rightarrow>
         bnd (totp_matches w credential code) (\<lambda>valid.
         seq (guard_or valid (UnauthorizedException ''Invalid verification code''))
         (let recoveryCodes = map generateRecoveryCode (take RECOVERY_CODE_COUNT draws) in
          bnd now (\<lambda>t.
          seq (update_row twoFactors twoFactors_update (\<lambda>c. tf_userId c = userId)
                (\<lambda>c. c\<lparr>tf_enabled := True, tf_verifiedAt := Some t, tf_recoveryCodesHash := map (w_hashToken w) recoveryCodes\<rparr>))
          (seq (audit ''TWO_FACTOR_ENABLED'' (Some userId) None None [] meta)
               (ret recoveryCodes))))))"

fun remove_at :: "nat \<Rightarrow> 'a list \<Rightarrow> 'a list" where
  "remove_at i [] = []"
| "remove_at 0 (x # xs) = xs"
| "remove_at (Suc i) (x # xs) = x # remove_at i xs"

fun indexOf :: "string \<Rightarrow> string list \<Rightarrow> nat option" where
  "indexOf h [] = None"
| "indexOf h (x # xs) = (if h = x then Some 0 else map_option Suc (indexOf h xs))"

definition checkCodeOrRecovery :: "auth_world \<Rightarrow> two_factor \<Rightarrow> string \<Rightarrow> ('z auth_db_scheme, bool) svc" where
  "checkCodeOrRecovery w credential code =
     bnd (totp_matches w credential code) (\<lambda>valid.
     if valid then ret True
     else (case indexOf (w_hashToken w (map upper (js_trim code))) (tf_recoveryCodesHash credential) of
       None \<Rightarrow> ret False
     | Some i \<Rightarrow> seq (update_row twoFactors twoFactors_update (\<lambda>c. tf_id c = tf_id credential)
           (\<lambda>c. c\<lparr>tf_recoveryCodesHash := remove_at i (tf_recoveryCodesHash credential)\<rparr>)) (ret True)))"

definition getEnabledCredential :: "id \<Rightarrow> ('z auth_db_scheme, two_factor) svc" where
  "getEnabledCredential userId = bnd (find_row twoFactors (\<lambda>c. tf_userId c = userId)) (\<lambda>r.
     case r of Some c \<Rightarrow> if tf_enabled c then ret c else throw (BadRequestException ''Two-factor authentication is not enabled'')
     | None \<Rightarrow> throw (BadRequestException ''Two-factor authentication is not enabled''))"

definition tf_disable :: "auth_world \<Rightarrow> id \<Rightarrow> string \<Rightarrow> request_meta \<Rightarrow> ('z auth_db_scheme, unit) svc" where
  "tf_disable w userId code meta =
     bnd (getEnabledCredential userId) (\<lambda>credential.
     bnd (checkCodeOrRecovery w credential code) (\<lambda>valid.
     seq (guard_or valid (UnauthorizedException ''Invalid verification code''))
     (seq (update_row twoFactors twoFactors_update (\<lambda>c. tf_userId c = userId) (\<lambda>c. c\<lparr>tf_enabled := False\<rparr>))
          (audit ''TWO_FACTOR_DISABLED'' (Some userId) None None [] meta))))"

definition verifyLoginCode :: "auth_world \<Rightarrow> id \<Rightarrow> string \<Rightarrow> ('z auth_db_scheme, bool) svc" where
  "verifyLoginCode w userId code =
     bnd (find_row twoFactors (\<lambda>c. tf_userId c = userId)) (\<lambda>r. case r of
       None \<Rightarrow> ret False
     | Some credential \<Rightarrow> if \<not> tf_enabled credential then ret False else checkCodeOrRecovery w credential code)"

section \<open>TwoFactorLoginController\<close>

definition verifyLogin :: "auth_world \<Rightarrow> string \<Rightarrow> string \<Rightarrow> string \<Rightarrow> request_meta \<Rightarrow> ('z auth_db_scheme, token_pair) svc" where
  "verifyLogin w draw challengeToken code meta =
     bnd now (\<lambda>t. case w_verifyJwt w challengeToken t of
       None \<Rightarrow> throw (UnauthorizedException ''Invalid or expired two-factor challenge'')
     | Some payload \<Rightarrow>
         seq (guard_or (jwt_purpose payload = Some ''2fa_challenge'') (UnauthorizedException ''Invalid two-factor challenge''))
         (bnd (verifyLoginCode w (jwt_sub payload) code) (\<lambda>valid.
          seq (guard_or valid (UnauthorizedException ''Invalid verification code''))
          (bnd (find_or_throw accounts (\<lambda>u. acc_id u = jwt_sub payload)) (\<lambda>user.
           issueTokenPair w draw user meta False None None)))))"

end
