(* ===== verification/Auth_World.thy ===== *)
theory Auth_World
  imports Auth Pagination
begin

text \<open>
  What the accounts rely on in the libraries behind \<open>auth_world\<close>, and a world in which it holds: tokens
  spell out their claims and expiry, passwords and secrets are merely marked. The examples of
  the theorems about accounts live in it.
\<close>

section \<open>The laws\<close>

text \<open>
  A JSON web token counts whole seconds: it verifies while the second it is presented in is before that of
  its expiry, which is certain up to a second before the lifetime ends.
\<close>

definition jwt_ok :: "auth_world \<Rightarrow> bool" where
  "jwt_ok w \<longleftrightarrow> (\<forall>p ttl t t'. 0 \<le> t \<and> ttl mod 1000 = 0 \<and> t \<le> t' \<and> t' + 1000 \<le> t + ttl \<longrightarrow> w_verifyJwt w (w_sign w p ttl t) t' = Some p)"

text \<open>Decryption inverts encryption under any nonce, and a password matches its own hash.\<close>

definition cipher_ok :: "auth_world \<Rightarrow> bool" where
  "cipher_ok w \<longleftrightarrow> (\<forall>iv x. w_decrypt w (w_encrypt w iv x) = Inr x)"

definition passwords_ok :: "auth_world \<Rightarrow> bool" where
  "passwords_ok w \<longleftrightarrow> (\<forall>p. w_verifyPassword w p (w_hashPassword w p))"

section \<open>A world\<close>

definition put_nat :: "nat \<Rightarrow> string" where
  "put_nat n = nat_str n @ ''.''"

definition get_nat :: "string \<Rightarrow> nat \<times> string" where
  "get_nat s = (nat (number (takeWhile is_digit s)), tl (dropWhile is_digit s))"

lemma number_nat_str: "number (nat_str n) = int n"
proof (induction n rule: nat_str.induct)
  case (1 n)
  have "of_char (digit_char (n mod 10)) = 48 + int (n mod 10)"
    using digit_char_int [of "int (n mod 10)"] by (simp add: nat_mod_distrib)
  moreover have "10 * int (n div 10) + int (n mod 10) = int n" by presburger
  ultimately show ?case
    using 1 by (cases "n < 10") (simp_all add: nat_str_small nat_str_big number_def)
qed

lemma get_put_nat [simp]: "get_nat (put_nat n @ r) = (n, r)"
proof -
  have "\<forall>c \<in> set (nat_str n). is_digit c" using nat_str_digits [of n] by (simp add: list_all_iff)
  moreover have "\<not> is_digit CHR ''.''" by (simp add: is_digit_def)
  ultimately show ?thesis
    by (simp add: get_nat_def put_nat_def takeWhile_append2 dropWhile_append2 number_nat_str)
qed

definition put_text :: "string option \<Rightarrow> string" where
  "put_text x = (case x of None \<Rightarrow> put_nat 0 | Some s \<Rightarrow> put_nat (Suc (length s)) @ s)"

definition get_text :: "string \<Rightarrow> string option \<times> string" where
  "get_text s = (case get_nat s of (0, r) \<Rightarrow> (None, r) | (Suc n, r) \<Rightarrow> (Some (take n r), drop n r))"

lemma get_put_text [simp]: "get_text (put_text x @ r) = (x, r)"
  by (cases x) (simp_all add: get_text_def put_text_def)

definition sample_sign :: "jwt_claims \<Rightarrow> int \<Rightarrow> time \<Rightarrow> string" where
  "sample_sign p ttl t = put_nat (jwt_sub p) @ put_text (jwt_email p) @ put_text (jwt_purpose p) @ put_nat (nat ((t + ttl) div 1000))"

definition sample_verify :: "string \<Rightarrow> time \<Rightarrow> jwt_claims option" where
  "sample_verify token t = (case get_nat token of (sub, r) \<Rightarrow> case get_text r of (email, r') \<Rightarrow> case get_text r' of (purpose, r'') \<Rightarrow>
     if t div 1000 < int (fst (get_nat r'')) then Some \<lparr>jwt_sub = sub, jwt_email = email, jwt_purpose = purpose\<rparr> else None)"

definition sample_auth_world :: auth_world where
  "sample_auth_world = \<lparr>w_hashToken = (\<lambda>s. ''sha:'' @ s), w_hashPassword = (\<lambda>p. ''bcrypt:'' @ p),
     w_verifyPassword = (\<lambda>p h. h = ''bcrypt:'' @ p), w_dummyHash = ''bcrypt:not-a-real-password'',
     w_sign = sample_sign, w_verifyJwt = sample_verify,
     w_encrypt = (\<lambda>iv x. \<lparr>enc_encryptedValue = x, enc_iv = iv, enc_authTag = ''tag''\<rparr>),
     w_decrypt = (\<lambda>e. if enc_authTag e = ''tag'' then Inr (enc_encryptedValue e) else Inl (JsError ''Unsupported state or unable to authenticate data'')),
     w_hmac = toy_hmac, w_webOrigin = ''https://app''\<rparr>"

lemma sample_auth_world_ok: "jwt_ok sample_auth_world" "cipher_ok sample_auth_world" "passwords_ok sample_auth_world"
proof -
  have "sample_verify (sample_sign p ttl t) t' = Some p" if "0 \<le> t" "t \<le> t'" "t' + 1000 \<le> t + ttl" for p ttl t t'
  proof -
    have "t' div 1000 < (t + ttl) div 1000" "0 \<le> (t + ttl) div 1000" using that by linarith+
    then show ?thesis by (simp add: sample_verify_def sample_sign_def get_put_nat [where r = "[]", simplified])
  qed
  then show "jwt_ok sample_auth_world" by (simp add: jwt_ok_def sample_auth_world_def)
qed (simp_all add: cipher_ok_def passwords_ok_def sample_auth_world_def)

section \<open>An account\<close>

definition ada :: account where
  "ada = \<lparr>acc_id = 1, acc_email = ''ada@example.org'', acc_passwordHash = Some ''bcrypt:Secret'', acc_googleId = None, acc_emailVerified = True,
     acc_emailVerifiedAt = None, acc_firstName = None, acc_lastName = None, acc_displayName = None, acc_avatarUrl = None, acc_isActive = True\<rparr>"

definition ada_login :: login_dto where
  "ada_login = \<lparr>ld_email = ''ada@example.org'', ld_password = ''Secret'', ld_rememberMe = None, ld_deviceName = None\<rparr>"

definition sample_auth :: "session_row list \<Rightarrow> reset_token list \<Rightarrow> two_factor list \<Rightarrow> auth_db" where
  "sample_auth ses tokens factors = \<lparr>clock = 1700000000000, nextId = 10, audits = [], platformEvents = [], automationRules = [], jobs = [],
     jobHistory = [], queueControls = [], accounts = [ada], sessions = ses, resetTokens = tokens, twoFactors = factors, resetMails = []\<rparr>"

definition ada_session :: session_row where
  "ada_session = new_session sample_auth_world 5 1699999000000 1 ''first'' False None no_meta"

definition ada_reset :: reset_token where
  "ada_reset = \<lparr>rt_id = 6, rt_userId = 1, rt_tokenHash = ''sha:reset'', rt_expiresAt = 1700000001000, rt_usedAt = None\<rparr>"

definition ada_factor :: two_factor where
  "ada_factor = \<lparr>tf_id = 7, tf_userId = 1, tf_secret = w_encrypt sample_auth_world ''iv'' ''MFRGG==='',
     tf_recoveryCodesHash = [''sha:A1B2C-D3E4F'', ''sha:00000-11111''], tf_enabled = True, tf_verifiedAt = Some 1\<rparr>"

lemmas sample_auth_defs = sample_auth_def ada_def ada_login_def ada_session_def ada_reset_def ada_factor_def sample_auth_world_def
  new_session_def no_meta_def REFRESH_TOKEN_TTL_MS_def

end
