(* ===== verification/Auth_Flow.thy ===== *)
theory Auth_Flow
  imports Auth_World
begin

text \<open>
  What the accounts guarantee: refresh tokens are used once and their theft ends every session, a reset
  password ends the sessions of its account, an enrolled second factor asks for a code and accepts the
  right one, a recovery code works once; and where it falls short (the challenge of the second factor is
  itself accepted as an access token).
\<close>

section \<open>Sessions\<close>

definition sessions_ok :: "'z auth_db_scheme \<Rightarrow> bool" where
  "sessions_ok s \<longleftrightarrow> distinct (map se_id (sessions s)) \<and> distinct (map se_refreshTokenHash (sessions s))
     \<and> (\<forall>x \<in> set (sessions s). se_id x < nextId s)"

definition ended :: "id \<Rightarrow> 'z auth_db_scheme \<Rightarrow> bool" where
  "ended userId s \<longleftrightarrow> (\<forall>x \<in> set (sessions s). se_userId x = userId \<longrightarrow> se_revokedAt x \<noteq> None)"

definition pair_of :: "auth_world \<Rightarrow> string \<Rightarrow> account \<Rightarrow> bool \<Rightarrow> time \<Rightarrow> token_pair" where
  "pair_of w draw user rememberMe t =
     \<lparr>tp_accessToken = w_sign w \<lparr>jwt_sub = acc_id user, jwt_email = Some (acc_email user), jwt_purpose = None\<rparr> ACCESS_TOKEN_TTL_MS t,
      tp_accessTokenExpiresInMs = ACCESS_TOKEN_TTL_MS, tp_refreshToken = draw,
      tp_refreshTokenExpiresAt = t + REFRESH_TOKEN_TTL_MS rememberMe, tp_user = toPublicUser user\<rparr>"

definition retire :: "session_row option \<Rightarrow> time \<Rightarrow> id \<Rightarrow> session_row list \<Rightarrow> session_row list" where
  "retire replaces t i xs = (case replaces of None \<Rightarrow> xs
     | Some old \<Rightarrow> upd_where (\<lambda>x. se_id x = se_id old) (\<lambda>x. x\<lparr>se_revokedAt := Some t, se_replacedById := Some i\<rparr>) xs)"

lemma wps_issueTokenPair:
  assumes "\<And>old. replaces = Some old \<Longrightarrow> old \<in> set (sessions s)"
  shows "wps (issueTokenPair w draw user meta rememberMe deviceName replaces) Q s =
    (case List.find (\<lambda>x. se_refreshTokenHash x = w_hashToken w draw) (sessions s) of
       Some _ \<Rightarrow> Q (Inl (PrismaError ''P2002'')) (nextId_update Suc s)
     | None \<Rightarrow> Q (Inr (pair_of w draw user rememberMe (clock s)))
         (sessions_update (\<lambda>xs. retire replaces (clock s) (nextId s)
            (xs @ [new_session w (nextId s) (clock s) (acc_id user) draw rememberMe deviceName meta])) (nextId_update Suc s)))"
proof -
  have id: "se_id (new_session w i t u draw rememberMe deviceName meta) = i" for i t u by (simp add: new_session_def)
  show ?thesis
  proof (cases replaces)
    case None
    then show ?thesis by (simp add: issueTokenPair_def wp Let_def pair_of_def retire_def split: option.split)
  next
    case (Some old)
    then have "List.find (\<lambda>x. se_id x = se_id old) (sessions s) \<noteq> None"
      using assms by (auto simp: find_None_iff)
    with Some show ?thesis
      by (auto simp: issueTokenPair_def wp Let_def pair_of_def retire_def find_append id comp_def split: option.split)
  qed
qed

lemma wps_revokeAll:
  "wps (revokeAllSessions userId) Q s = Q (Inr ()) (sessions_update (upd_where (\<lambda>x. se_userId x = userId \<and> se_revokedAt x = None)
     (\<lambda>x. x\<lparr>se_revokedAt := Some (clock s)\<rparr>)) s)"
  by (simp add: revokeAllSessions_def wp)

lemma ended_audits [simp]: "ended userId (audits_update f s) = ended userId s"
  by (simp add: ended_def)

lemma ended_revoked [simp]:
  "ended userId (sessions_update (upd_where (\<lambda>x. se_userId x = userId \<and> se_revokedAt x = None) (\<lambda>x. x\<lparr>se_revokedAt := Some t\<rparr>)) s)"
  by (simp add: ended_def ball_upd_where)

text \<open>A token of a session that is no longer live is refused, and its use ends every session of the account.\<close>

lemma refresh_revoked:
  assumes f: "List.find (\<lambda>x. se_refreshTokenHash x = w_hashToken w raw) (sessions s) = Some x" and "se_revokedAt x \<noteq> None"
    and u: "List.find (\<lambda>u. acc_id u = se_userId x) (accounts s) = Some user"
  shows "wps (refresh w draw raw meta) (\<lambda>r s'. r = Inl (UnauthorizedException ''Session revoked'') \<and> ended (se_userId x) s'
      \<and> map se_refreshTokenHash (sessions s') = map se_refreshTokenHash (sessions s) \<and> accounts s' = accounts s
      \<and> map se_userId (sessions s') = map se_userId (sessions s)) s"
  using assms by (simp add: refresh_def refresh_check_def wp wps_revokeAll map_upd_where)

lemma refresh_success:
  assumes res: "refresh w draw raw meta s = (Inr pair, s1)"
  obtains x user where "List.find (\<lambda>x. se_refreshTokenHash x = w_hashToken w raw) (sessions s) = Some x"
    and "List.find (\<lambda>u. acc_id u = se_userId x) (accounts s) = Some user" and "se_revokedAt x = None" and "\<not> se_expiresAt x < clock s"
    and "List.find (\<lambda>x. se_refreshTokenHash x = w_hashToken w draw) (sessions s) = None"
    and "pair = pair_of w draw user (se_rememberMe x) (clock s)"
    and "s1 = sessions_update (\<lambda>xs. retire (Some x) (clock s) (nextId s)
            (xs @ [new_session w (nextId s) (clock s) (acc_id user) draw (se_rememberMe x) (se_deviceName x) meta])) (nextId_update Suc s)"
proof (cases "List.find (\<lambda>x. se_refreshTokenHash x = w_hashToken w raw) (sessions s)")
  case None
  then have "wps (refresh w draw raw meta) (\<lambda>r s'. \<not> (r = Inr pair \<and> s' = s1)) s"
    by (simp add: refresh_def refresh_check_def wp)
  with res show thesis by (simp add: wps_run)
next
  case (Some x)
  note x = this
  show thesis
  proof (cases "List.find (\<lambda>u. acc_id u = se_userId x) (accounts s)")
    case None
    with x have "wps (refresh w draw raw meta) (\<lambda>r s'. \<not> (r = Inr pair \<and> s' = s1)) s"
      by (simp add: refresh_def refresh_check_def wp)
    with res show thesis by (simp add: wps_run)
  next
    case (Some user)
    have issue: "wps (issueTokenPair w draw user meta (se_rememberMe x) (se_deviceName x) (Some x)) Q s = (case
        List.find (\<lambda>x. se_refreshTokenHash x = w_hashToken w draw) (sessions s) of
          Some _ \<Rightarrow> Q (Inl (PrismaError ''P2002'')) (nextId_update Suc s)
        | None \<Rightarrow> Q (Inr (pair_of w draw user (se_rememberMe x) (clock s)))
         (sessions_update (\<lambda>xs. retire (Some x) (clock s) (nextId s)
            (xs @ [new_session w (nextId s) (clock s) (acc_id user) draw (se_rememberMe x) (se_deviceName x) meta])) (nextId_update Suc s)))" for Q
      using x by (intro wps_issueTokenPair) (simp add: find_SomeD)
    have "wps (refresh w draw raw meta) (\<lambda>r s'. r = Inr pair \<longrightarrow> s' = s1 \<longrightarrow> thesis) s"
      using that [OF x Some]
      by (simp add: refresh_def refresh_check_def refresh_issue_def wp wps_revokeAll issue x Some split: option.split)
    with res show thesis by (simp add: wps_run)
  qed
qed

section \<open>What no operation undoes\<close>

text \<open>
  Rows are never deleted and keep their place. A session that was ended stays ended, a reset token that was
  used stays used, and identifiers and hashes do not change: \<open>grows R xs ys\<close> says that \<open>ys\<close> begins with
  rows related by \<open>R\<close> to those of \<open>xs\<close>.
\<close>

definition grows :: "('r \<Rightarrow> 'r \<Rightarrow> bool) \<Rightarrow> 'r list \<Rightarrow> 'r list \<Rightarrow> bool" where
  "grows R xs ys \<longleftrightarrow> (\<exists>us vs. ys = us @ vs \<and> list_all2 R xs us)"

lemma grows_refl: "(\<And>x. R x x) \<Longrightarrow> grows R xs xs"
  unfolding grows_def by (intro exI [of _ xs] exI [of _ "[]"]) (simp add: list_all2_refl)

lemma grows_append: "grows R xs ys \<Longrightarrow> grows R xs (ys @ zs)"
  unfolding grows_def by (metis append.assoc)

lemma grows_upd_where:
  assumes "grows R xs ys" and "\<And>x y. R x y \<Longrightarrow> R x (f y)"
  shows "grows R xs (upd_where P f ys)"
proof -
  obtain us vs where ys: "ys = us @ vs" "list_all2 R xs us" using assms(1) by (auto simp: grows_def)
  have "list_all2 R xs (upd_where P f us)"
    using ys(2) assms(2) by (simp add: list_all2_conv_all_nth upd_where_def)
  with ys(1) show ?thesis by (auto simp: grows_def upd_where_def)
qed

lemma grows_find:
  assumes "grows R xs ys" and "List.find P xs = Some x" and "\<And>x y. R x y \<Longrightarrow> P x = P y"
  shows "\<exists>y. List.find P ys = Some y \<and> R x y"
proof -
  obtain us vs where ys: "ys = us @ vs" "list_all2 R xs us" using assms(1) by (auto simp: grows_def)
  from ys(2) assms(2) have "\<exists>y. List.find P us = Some y \<and> R x y"
    by (induction rule: list_all2_induct) (auto simp: assms(3) split: if_splits)
  then show ?thesis by (auto simp: ys(1) find_append)
qed

definition same_session :: "session_row \<Rightarrow> session_row \<Rightarrow> bool" where
  "same_session x y \<longleftrightarrow> se_id x = se_id y \<and> se_userId x = se_userId y \<and> se_refreshTokenHash x = se_refreshTokenHash y
     \<and> (se_revokedAt x \<noteq> None \<longrightarrow> se_revokedAt y \<noteq> None)"

definition same_token :: "reset_token \<Rightarrow> reset_token \<Rightarrow> bool" where
  "same_token x y \<longleftrightarrow> rt_id x = rt_id y \<and> rt_userId x = rt_userId y \<and> rt_tokenHash x = rt_tokenHash y
     \<and> (rt_usedAt x \<noteq> None \<longrightarrow> rt_usedAt y \<noteq> None)"

definition auth_later :: "'z auth_db_scheme \<Rightarrow> 'z auth_db_scheme \<Rightarrow> bool" where
  "auth_later s s' \<longleftrightarrow> grows same_session (sessions s) (sessions s') \<and> grows same_token (resetTokens s) (resetTokens s')
     \<and> grows (\<lambda>u v. acc_id u = acc_id v) (accounts s) (accounts s')"

lemma auth_later_refl: "auth_later s s"
  by (simp add: auth_later_def grows_refl same_session_def same_token_def)

named_theorems later

lemma later_modify [later]:
  "preserves (auth_later s0) (modify (resetMails_update g))"
  "preserves (auth_later s0) fresh" "preserves (auth_later s0) now" "preserves (auth_later s0) (audit a u o1 o2 md meta)"
  by (simp_all add: preserves_wps wp auth_later_def)

lemma later_two_factors [later]:
  "preserves (auth_later s0) (insert_row twoFactors_update c)" "preserves (auth_later s0) (update_row twoFactors twoFactors_update P f)"
  by (simp_all add: preserves_wps wp auth_later_def split: option.split)

lemma later_insert [later]:
  "preserves (auth_later s0) (insert_row accounts_update u)"
  "preserves (auth_later s0) (insert_unique accounts accounts_update C u)"
  "preserves (auth_later s0) (insert_unique sessions sessions_update D x)"
  "preserves (auth_later s0) (insert_unique resetTokens resetTokens_update E y)"
  by (simp_all add: preserves_wps wp auth_later_def grows_append split: option.split)

lemma later_sessions [later]:
  assumes "\<And>x. same_session x (f x)"
  shows "preserves (auth_later s0) (update_row sessions sessions_update P f)"
    "preserves (auth_later s0) (update_many sessions sessions_update P f)"
proof -
  have "same_session x (f y)" if "same_session x y" for x y
    using that assms [of y] by (simp add: same_session_def)
  then show "preserves (auth_later s0) (update_row sessions sessions_update P f)"
    "preserves (auth_later s0) (update_many sessions sessions_update P f)"
    by (simp_all add: preserves_wps wp auth_later_def grows_upd_where split: option.split)
qed

lemma later_accounts [later]:
  assumes "\<And>u. acc_id (f u) = acc_id u"
  shows "preserves (auth_later s0) (update_row accounts accounts_update P f)"
  by (simp add: preserves_wps wp auth_later_def grows_upd_where assms split: option.split)

lemma later_tokens [later]:
  assumes "\<And>x. same_token x (f x)"
  shows "preserves (auth_later s0) (update_row resetTokens resetTokens_update P f)"
proof -
  have "same_token x (f y)" if "same_token x y" for x y
    using that assms [of y] by (simp add: same_token_def)
  then show ?thesis
    by (simp add: preserves_wps wp auth_later_def grows_upd_where split: option.split)
qed

lemma later_register: "preserves (auth_later s0) (register w dto meta)"
  unfolding register_def by (intro pres later)

lemma later_issue: "preserves (auth_later s0) (issueTokenPair w draw user meta rm dn rep)"
  unfolding issueTokenPair_def Let_def by (intro pres later) (simp add: same_session_def)

lemma later_login: "preserves (auth_later s0) (login w draw dto meta)"
  unfolding login_def by (intro pres later later_issue)

lemma later_google: "preserves (auth_later s0) (loginWithGoogle w draw profile meta)"
  unfolding loginWithGoogle_def google_account_def by (intro pres later later_issue) simp

lemma later_revokeAll: "preserves (auth_later s0) (revokeAllSessions userId)"
  unfolding revokeAllSessions_def by (intro pres later) (simp add: same_session_def)

lemma later_refresh: "preserves (auth_later s0) (refresh w draw raw meta)"
  unfolding refresh_def refresh_check_def refresh_issue_def split_beta by (intro pres later later_issue later_revokeAll)

lemma later_logout: "preserves (auth_later s0) (logout w raw meta)"
  unfolding logout_def by (intro pres later) (simp add: same_session_def)

lemma later_revoke: "preserves (auth_later s0) (revokeSession userId sessionId meta)"
  unfolding revokeSession_def by (intro pres later) (simp add: same_session_def)

lemma later_set_password: "preserves (auth_later s0) (set_password w userId password)"
  unfolding set_password_def by (intro pres later) simp

lemma later_forgot: "preserves (auth_later s0) (forgotPassword w draw email meta)"
  unfolding forgotPassword_def by (intro pres later)

lemma later_reset: "preserves (auth_later s0) (resetPassword w raw p meta)"
  unfolding resetPassword_def by (intro pres later later_revokeAll later_set_password) (simp add: same_token_def)

lemma later_change: "preserves (auth_later s0) (changePassword w userId p p' meta)"
  unfolding changePassword_def by (intro pres later later_revokeAll later_set_password)

lemma later_code: "preserves (auth_later s0) (totp_matches w c code)" "preserves (auth_later s0) (checkCodeOrRecovery w c code)"
  unfolding checkCodeOrRecovery_def totp_matches_def by (intro pres later)+

lemma later_two_factor:
  "preserves (auth_later s0) (tf_setup w secret iv userId email)" "preserves (auth_later s0) (tf_verify w draws userId code meta)"
  "preserves (auth_later s0) (tf_disable w userId code meta)" "preserves (auth_later s0) (verifyLogin w draw challenge code meta)"
  unfolding tf_setup_def tf_verify_def tf_disable_def verifyLogin_def verifyLoginCode_def getEnabledCredential_def Let_def
  by (intro pres later later_code later_issue)+

text \<open>What is known of an account, an ended session and a used token stays so.\<close>

lemma later_account:
  assumes "auth_later s s'" and "List.find (\<lambda>u. acc_id u = i) (accounts s) = Some u"
  shows "\<exists>v. List.find (\<lambda>u. acc_id u = i) (accounts s') = Some v"
proof -
  have "grows (\<lambda>u v. acc_id u = acc_id v) (accounts s) (accounts s')" using assms(1) by (simp add: auth_later_def)
  from grows_find [OF this assms(2)] show ?thesis by auto
qed

lemma later_session_ended:
  assumes "auth_later s s'" and "List.find (\<lambda>y. se_refreshTokenHash y = h) (sessions s) = Some x" and "se_revokedAt x \<noteq> None"
  shows "\<exists>y. List.find (\<lambda>y. se_refreshTokenHash y = h) (sessions s') = Some y \<and> se_userId y = se_userId x \<and> se_revokedAt y \<noteq> None"
proof -
  have "grows same_session (sessions s) (sessions s')" using assms(1) by (simp add: auth_later_def)
  from grows_find [OF this assms(2)] assms(3) show ?thesis by (auto simp: same_session_def)
qed

lemma later_token_used:
  assumes "auth_later s s'" and "List.find (\<lambda>y. rt_tokenHash y = h) (resetTokens s) = Some x" and "rt_usedAt x \<noteq> None"
  shows "\<exists>y used. List.find (\<lambda>y. rt_tokenHash y = h) (resetTokens s') = Some y \<and> rt_usedAt y = Some used"
proof -
  have "grows same_token (resetTokens s) (resetTokens s')" using assms(1) by (simp add: auth_later_def)
  from grows_find [OF this assms(2)] assms(3) show ?thesis by (auto simp: same_token_def)
qed

text \<open>The calls of the service, whatever their arguments and results, and the passing of time.\<close>

inductive auth_step :: "auth_world \<Rightarrow> 'z auth_db_scheme \<Rightarrow> 'z auth_db_scheme \<Rightarrow> bool" for w where
  time_passes: "auth_step w s (clock_update f s)"
| register: "auth_step w s (snd (register w dto meta s))"
| login: "auth_step w s (snd (login w draw ldto meta s))"
| google: "auth_step w s (snd (loginWithGoogle w draw profile meta s))"
| refresh: "auth_step w s (snd (refresh w draw raw meta s))"
| logout: "auth_step w s (snd (logout w token meta s))"
| revoke: "auth_step w s (snd (revokeSession userId sessionId meta s))"
| forgot: "auth_step w s (snd (forgotPassword w draw email meta s))"
| reset: "auth_step w s (snd (resetPassword w raw password meta s))"
| change: "auth_step w s (snd (changePassword w userId current password meta s))"
| set_up: "auth_step w s (snd (tf_setup w secret iv userId mail s))"
| verify: "auth_step w s (snd (tf_verify w draws userId code meta s))"
| disable: "auth_step w s (snd (tf_disable w userId code meta s))"
| verify_login: "auth_step w s (snd (verifyLogin w draw challenge code meta s))"

abbreviation auth_reaches :: "auth_world \<Rightarrow> 'z auth_db_scheme \<Rightarrow> 'z auth_db_scheme \<Rightarrow> bool" where
  "auth_reaches w \<equiv> (auth_step w)\<^sup>*\<^sup>*"

lemma auth_step_later: "auth_step w s s' \<Longrightarrow> auth_later s0 s \<Longrightarrow> auth_later s0 s'"
proof (induction rule: auth_step.induct)
  case (time_passes s f)
  then show ?case by (simp add: auth_later_def)
qed (simp_all add: preservesD later_register later_login later_google later_refresh later_logout later_revoke later_forgot
    later_reset later_change later_two_factor)

lemma auth_reaches_later: "auth_reaches w s s' \<Longrightarrow> auth_later s s'"
  by (induction rule: rtranclp_induct) (auto intro: auth_later_refl auth_step_later)

section \<open>A refresh token works once\<close>

text \<open>A token whose session was ended is refused, and its use ends every session of the account.\<close>

lemma refresh_ended:
  assumes "List.find (\<lambda>x. se_refreshTokenHash x = w_hashToken w raw) (sessions s) = Some x" and "se_revokedAt x \<noteq> None"
    and "List.find (\<lambda>u. acc_id u = se_userId x) (accounts s) = Some user"
  obtains s' where "refresh w draw raw meta s = (Inl (UnauthorizedException ''Session revoked''), s')"
    "ended (se_userId x) s'" "\<forall>y \<in> set (sessions s). se_userId y \<noteq> se_userId x \<longrightarrow> y \<in> set (sessions s')"
proof -
  have "wps (refresh w draw raw meta) (\<lambda>r s'. r = Inl (UnauthorizedException ''Session revoked'') \<and> ended (se_userId x) s'
      \<and> (\<forall>y \<in> set (sessions s). se_userId y \<noteq> se_userId x \<longrightarrow> y \<in> set (sessions s'))) s"
    using assms by (simp add: refresh_def refresh_check_def wp wps_revokeAll upd_where_other_row)
  with that show thesis by (simp add: wps_run prod_eq_iff)
qed

text \<open>C27. A refresh token yields at most one pair. Once it has been exchanged, whatever calls are made and
  however much time passes, presenting it again is refused and ends every session of its account, and no session of another.
\<close>

theorem refresh_token_single_use:
  assumes "refresh w draw raw meta s = (Inr pair, s1)" and "auth_reaches w s1 s2"
  shows "\<exists>s3. refresh w draw' raw meta' s2 = (Inl (UnauthorizedException ''Session revoked''), s3) \<and> ended (pu_id (tp_user pair)) s3
    \<and> {y \<in> set (sessions s2). se_userId y \<noteq> pu_id (tp_user pair)} \<subseteq> set (sessions s3)"
  using assms(1)
proof (rule refresh_success)
  fix x user
  assume x: "List.find (\<lambda>x. se_refreshTokenHash x = w_hashToken w raw) (sessions s) = Some x"
    and user: "List.find (\<lambda>u. acc_id u = se_userId x) (accounts s) = Some user"
    and pair: "pair = pair_of w draw user (se_rememberMe x) (clock s)"
    and s1: "s1 = sessions_update (\<lambda>xs. retire (Some x) (clock s) (nextId s)
        (xs @ [new_session w (nextId s) (clock s) (acc_id user) draw (se_rememberMe x) (se_deviceName x) meta])) (nextId_update Suc s)"
  have id: "pu_id (tp_user pair) = se_userId x" using find_SomeD [OF user] by (simp add: pair pair_of_def toPublicUser_def)
  let ?P = "\<lambda>y. se_refreshTokenHash y = w_hashToken w raw"
  have later: "auth_later s1 s2" using assms(2) by (rule auth_reaches_later)
  have "List.find ?P (sessions s1) = Some (x\<lparr>se_revokedAt := Some (clock s), se_replacedById := Some (nextId s)\<rparr>)"
    using x by (simp add: s1 retire_def find_upd_where_keep find_append)
  from later_session_ended [OF later this]
  obtain y where y: "List.find ?P (sessions s2) = Some y" "se_userId y = se_userId x" "se_revokedAt y \<noteq> None" by auto
  have "List.find (\<lambda>u. acc_id u = se_userId y) (accounts s1) = Some user" using user by (simp add: s1 y(2))
  from later_account [OF later this] obtain v where "List.find (\<lambda>u. acc_id u = se_userId y) (accounts s2) = Some v" by blast
  from refresh_ended [OF y(1,3) this] obtain s3 where s3: "refresh w draw' raw meta' s2 = (Inl (UnauthorizedException ''Session revoked''), s3)"
    "ended (se_userId y) s3" "\<forall>z \<in> set (sessions s2). se_userId z \<noteq> se_userId y \<longrightarrow> z \<in> set (sessions s3)" .
  then show ?thesis unfolding id y(2) [symmetric] by (intro exI [of _ s3]) blast
qed

text \<open>A token that is exchanged, and presented again a minute later after another login.\<close>

theorem refresh_token_single_use_witness:
  "let s1 = snd (refresh sample_auth_world ''second'' ''first'' no_meta (sample_auth [ada_session] [] []));
       s2 = snd (login sample_auth_world ''third'' ada_login no_meta (clock_update (\<lambda>_. 1700000060000) s1)) in
   \<exists>s3. refresh sample_auth_world ''fourth'' ''first'' no_meta s2 = (Inl (UnauthorizedException ''Session revoked''), s3) \<and> ended 1 s3"
proof -
  let ?w = sample_auth_world
  let ?s = "sample_auth [ada_session] [] []"
  define s1 where "s1 = snd (refresh ?w ''second'' ''first'' no_meta ?s)"
  have "wps (refresh ?w ''second'' ''first'' no_meta) (\<lambda>r s'. r = Inr (pair_of ?w ''second'' ada False 1700000000000)) ?s"
    unfolding refresh_def refresh_check_def refresh_issue_def issueTokenPair_def Let_def
    by (simp add: wp sample_auth_defs pair_of_def)
  then have run: "refresh ?w ''second'' ''first'' no_meta ?s = (Inr (pair_of ?w ''second'' ada False 1700000000000), s1)"
    by (simp add: wps_run s1_def prod_eq_iff)
  have "auth_reaches ?w s1 (snd (login ?w ''third'' ada_login no_meta (clock_update (\<lambda>_. 1700000060000) s1)))"
    by (meson auth_step.time_passes auth_step.login r_into_rtranclp rtranclp.rtrancl_into_rtrancl)
  from refresh_token_single_use [OF run this, of "''fourth''" no_meta] show ?thesis
    by (auto simp: s1_def Let_def pair_of_def toPublicUser_def ada_def)
qed

section \<open>A reset token works once\<close>

lemma resetPassword_success:
  assumes res: "resetPassword w raw password meta s = (Inr (), s1)"
  obtains token user where "List.find (\<lambda>x. rt_tokenHash x = w_hashToken w raw) (resetTokens s) = Some token"
    and "rt_usedAt token = None" and "\<not> rt_expiresAt token < clock s"
    and "List.find (\<lambda>u. acc_id u = rt_userId token) (accounts s) = Some user"
    and "resetTokens s1 = upd_where (\<lambda>x. rt_id x = rt_id token) (\<lambda>x. x\<lparr>rt_usedAt := Some (clock s)\<rparr>) (resetTokens s)"
    and "accounts s1 = upd_where (\<lambda>u. acc_id u = rt_userId token) (\<lambda>u. u\<lparr>acc_passwordHash := Some (w_hashPassword w password)\<rparr>) (accounts s)"
    and "ended (rt_userId token) s1"
proof (cases "List.find (\<lambda>x. rt_tokenHash x = w_hashToken w raw) (resetTokens s)")
  case None
  then have "wps (resetPassword w raw password meta) (\<lambda>r s'. \<not> (r = Inr () \<and> s' = s1)) s"
    by (simp add: resetPassword_def wp)
  with res show thesis by (simp add: wps_run)
next
  case (Some token)
  then have "List.find (\<lambda>x. rt_id x = rt_id token) (resetTokens s) \<noteq> None" using find_SomeD [OF Some] by (auto simp: find_None_iff)
  with Some that [OF Some] have "wps (resetPassword w raw password meta) (\<lambda>r s'. r = Inr () \<longrightarrow> s' = s1 \<longrightarrow> thesis) s"
    by (auto simp: resetPassword_def set_password_def wp wps_revokeAll split: option.split)
  with res show thesis by (simp add: wps_run)
qed

text \<open>A reset password is the one that logs in from then on, the reset ends every session of the account and
  touches no other account, and its token is refused ever after.
\<close>

theorem reset_password_once:
  assumes "\<And>p. w_verifyPassword w p (w_hashPassword w p)" and "resetPassword w raw password meta s = (Inr (), s1)" and "auth_reaches w s1 s2"
  shows "\<exists>userId user. List.find (\<lambda>u. acc_id u = userId) (accounts s1) = Some user \<and> password_ok w password (Some user)
    \<and> ended userId s1 \<and> {u \<in> set (accounts s). acc_id u \<noteq> userId} \<subseteq> set (accounts s1)
    \<and> resetPassword w raw password' meta' s2 = (Inl (BadRequestException ''Invalid or expired reset token''), s2)"
  using assms(2)
proof (rule resetPassword_success)
  fix token user
  assume token: "List.find (\<lambda>x. rt_tokenHash x = w_hashToken w raw) (resetTokens s) = Some token"
    and user: "List.find (\<lambda>u. acc_id u = rt_userId token) (accounts s) = Some user"
    and s1: "resetTokens s1 = upd_where (\<lambda>x. rt_id x = rt_id token) (\<lambda>x. x\<lparr>rt_usedAt := Some (clock s)\<rparr>) (resetTokens s)"
      "accounts s1 = upd_where (\<lambda>u. acc_id u = rt_userId token) (\<lambda>u. u\<lparr>acc_passwordHash := Some (w_hashPassword w password)\<rparr>) (accounts s)"
    and over: "ended (rt_userId token) s1"
  have user1: "List.find (\<lambda>u. acc_id u = rt_userId token) (accounts s1) = Some (user\<lparr>acc_passwordHash := Some (w_hashPassword w password)\<rparr>)"
    using user find_SomeD [OF user] by (simp add: s1 find_upd_where_keep)
  have others: "{u \<in> set (accounts s). acc_id u \<noteq> rt_userId token} \<subseteq> set (accounts s1)"
    by (auto simp: s1 upd_where_other_row)
  have "List.find (\<lambda>y. rt_tokenHash y = w_hashToken w raw) (resetTokens s1) = Some (token\<lparr>rt_usedAt := Some (clock s)\<rparr>)"
    using token by (simp add: s1 find_upd_where_keep)
  from later_token_used [OF auth_reaches_later [OF assms(3)] this]
  obtain y used where "List.find (\<lambda>y. rt_tokenHash y = w_hashToken w raw) (resetTokens s2) = Some y" "rt_usedAt y = Some used" by auto
  then have "wps (resetPassword w raw password' meta') (\<lambda>r s'. r = Inl (BadRequestException ''Invalid or expired reset token'') \<and> s' = s2) s2"
    by (simp add: resetPassword_def wp)
  then have "resetPassword w raw password' meta' s2 = (Inl (BadRequestException ''Invalid or expired reset token''), s2)"
    by (simp add: wps_run prod_eq_iff)
  moreover have "password_ok w password (Some (user\<lparr>acc_passwordHash := Some (w_hashPassword w password)\<rparr>))"
    by (simp add: password_ok_def assms(1))
  ultimately show ?thesis using user1 over others by blast
qed

text \<open>The token of the example, used again an hour and a password change later.\<close>

theorem reset_password_once_witness:
  "let s1 = snd (resetPassword sample_auth_world ''reset'' ''Better'' no_meta (sample_auth [ada_session] [ada_reset] []));
       s2 = snd (changePassword sample_auth_world 1 ''Better'' ''Best'' no_meta (clock_update (\<lambda>_. 1700003600000) s1)) in
   resetPassword sample_auth_world ''reset'' ''Again'' no_meta s2 = (Inl (BadRequestException ''Invalid or expired reset token''), s2)"
proof -
  let ?w = sample_auth_world
  let ?s = "sample_auth [ada_session] [ada_reset] []"
  define s1 where "s1 = snd (resetPassword ?w ''reset'' ''Better'' no_meta ?s)"
  have "wps (resetPassword ?w ''reset'' ''Better'' no_meta) (\<lambda>r s'. r = Inr ()) ?s"
    unfolding resetPassword_def set_password_def by (simp add: wp wps_revokeAll sample_auth_defs)
  then have run: "resetPassword ?w ''reset'' ''Better'' no_meta ?s = (Inr (), s1)"
    by (simp add: wps_run s1_def prod_eq_iff)
  have "auth_reaches ?w s1 (snd (changePassword ?w 1 ''Better'' ''Best'' no_meta (clock_update (\<lambda>_. 1700003600000) s1)))"
    by (meson auth_step.time_passes auth_step.change r_into_rtranclp rtranclp.rtrancl_into_rtrancl)
  from reset_password_once [OF _ run this, of "''Again''" no_meta] sample_auth_world_ok(3) show ?thesis
    by (auto simp: s1_def Let_def passwords_ok_def)
qed

end
