(* ===== verification/Auth_Factor.thy ===== *)
theory Auth_Factor
  imports Auth_Flow
begin

text \<open>
  Logging in with a password and a second factor: what a login answers, that an enrolled second factor asks
  for a code and accepts the right one, that a recovery code works once, and that the challenge of the
  second factor is itself accepted as an access token.
\<close>

section \<open>The answer of a login\<close>

text \<open>The session a login adds.\<close>

definition login_session :: "auth_world \<Rightarrow> string \<Rightarrow> login_dto \<Rightarrow> request_meta \<Rightarrow> account \<Rightarrow> 'z auth_db_scheme \<Rightarrow> session_row" where
  "login_session w draw dto meta user s =
     new_session w (nextId s) (clock s) (acc_id user) draw (orElse (ld_rememberMe dto) False) (ld_deviceName dto) meta"

definition has_factor :: "id \<Rightarrow> 'z auth_db_scheme \<Rightarrow> bool" where
  "has_factor userId s \<longleftrightarrow> (case List.find (\<lambda>c. tf_userId c = userId) (twoFactors s) of None \<Rightarrow> False | Some c \<Rightarrow> tf_enabled c)"

definition admitted :: "auth_world \<Rightarrow> login_dto \<Rightarrow> account \<Rightarrow> 'z auth_db_scheme \<Rightarrow> bool" where
  "admitted w dto user s \<longleftrightarrow> List.find (\<lambda>u. acc_email u = ld_email dto) (accounts s) = Some user
     \<and> password_ok w (ld_password dto) (Some user) \<and> acc_isActive user"

lemma wps_issue_fresh: "wps (issueTokenPair w draw user meta rememberMe deviceName None) Q s =
    (case List.find (\<lambda>x. se_refreshTokenHash x = w_hashToken w draw) (sessions s) of
       Some _ \<Rightarrow> Q (Inl (PrismaError ''P2002'')) (nextId_update Suc s)
     | None \<Rightarrow> Q (Inr (pair_of w draw user rememberMe (clock s)))
         (sessions_update (\<lambda>xs. xs @ [new_session w (nextId s) (clock s) (acc_id user) draw rememberMe deviceName meta]) (nextId_update Suc s)))"
  by (subst wps_issueTokenPair) (simp_all add: retire_def split: option.split)

lemma wps_login_admitted:
  assumes "admitted w dto user s"
  shows "wps (login w draw dto meta) Q s =
    (if has_factor (acc_id user) s then Q (Inr (TwoFactorChallenge (w_sign w (challenge_claims (acc_id user)) CHALLENGE_TTL_MS (clock s)))) s
     else case List.find (\<lambda>x. se_refreshTokenHash x = w_hashToken w draw) (sessions s) of
       Some _ \<Rightarrow> Q (Inl (PrismaError ''P2002'')) (nextId_update Suc s)
     | None \<Rightarrow> Q (Inr (Pair (pair_of w draw user (orElse (ld_rememberMe dto) False) (clock s))))
         (audits_update (\<lambda>as. as @ [\<lparr>aud_action = ''LOGIN_SUCCEEDED'', aud_userId = Some (acc_id user), aud_organizationId = None,
            aud_applicationId = None, aud_metadata = JObj [], aud_meta = meta\<rparr>])
          (sessions_update (\<lambda>xs. xs @ [login_session w draw dto meta user s]) (nextId_update Suc s))))"
  using assms by (simp add: admitted_def login_def wp wps_issue_fresh has_factor_def login_session_def split: option.split)

lemma wps_login_refused:
  assumes "\<And>user. \<not> admitted w dto user s"
  shows "wps (login w draw dto meta) (\<lambda>r s'. r = Inl (UnauthorizedException ''Invalid email or password'') \<and> sessions s' = sessions s
    \<and> accounts s' = accounts s \<and> twoFactors s' = twoFactors s \<and> length (audits s') = Suc (length (audits s))) s"
  using assms by (auto simp: admitted_def login_def wp split: option.split)

definition login_answer :: "auth_world \<Rightarrow> string \<Rightarrow> login_dto \<Rightarrow> request_meta \<Rightarrow> 'z auth_db_scheme
    \<Rightarrow> exn + login_result \<Rightarrow> 'z auth_db_scheme \<Rightarrow> bool" where
  "login_answer w draw dto meta s r s' \<longleftrightarrow> (case r of
     Inr (Pair pair) \<Rightarrow> (\<exists>user. admitted w dto user s \<and> \<not> has_factor (acc_id user) s
       \<and> pair = pair_of w draw user (orElse (ld_rememberMe dto) False) (clock s)
       \<and> sessions s' = sessions s @ [login_session w draw dto meta user s])
   | Inr (TwoFactorChallenge c) \<Rightarrow> (\<exists>user. admitted w dto user s \<and> has_factor (acc_id user) s
       \<and> c = w_sign w (challenge_claims (acc_id user)) CHALLENGE_TTL_MS (clock s) \<and> s' = s)
   | Inl e \<Rightarrow> sessions s' = sessions s \<and> accounts s' = accounts s \<and> twoFactors s' = twoFactors s
       \<and> (e = UnauthorizedException ''Invalid email or password'' \<and> \<not> (\<exists>user. admitted w dto user s)
          \<or> e = PrismaError ''P2002'' \<and> (\<exists>user. admitted w dto user s \<and> \<not> has_factor (acc_id user) s)
            \<and> (\<exists>x \<in> set (sessions s). se_refreshTokenHash x = w_hashToken w draw)))"

text \<open>A login is answered with a token pair and one new session exactly when the password is right, the account
  active and no second factor enabled; with a challenge, and no session, when a second factor is; everything
  else is one and the same refusal. (A drawn refresh token that clashes with a stored one is reported.)
\<close>

theorem login_gate: "case login w draw dto meta s of (r, s') \<Rightarrow> login_answer w draw dto meta s r s'"
proof (cases "\<exists>user. admitted w dto user s")
  case False
  then have "wps (login w draw dto meta) (login_answer w draw dto meta s) s"
    using wps_login_refused [of w dto s draw meta] by (intro wps_mono [OF wps_login_refused]) (auto simp: login_answer_def)
  then show ?thesis by (simp add: wps_def)
next
  case True
  then obtain user where user: "admitted w dto user s" by blast
  have "wps (login w draw dto meta) (login_answer w draw dto meta s) s"
    unfolding wps_login_admitted [OF user] using user
    by (auto simp: login_answer_def dest!: find_SomeD split: option.split)
  then show ?thesis by (simp add: wps_def)
qed

section \<open>Enrolling a second factor\<close>

text \<open>The clock of a later call.\<close>

abbreviation at_time :: "time \<Rightarrow> 'z auth_db_scheme \<Rightarrow> 'z auth_db_scheme" where
  "at_time t s \<equiv> clock_update (\<lambda>_. t) s"

lemma wps_setup:
  "wps (tf_setup w secret iv userId mail) (\<lambda>r s'. (\<exists>url. r = Inr (base32Encode secret, url))
     \<and> (\<exists>c. List.find (\<lambda>c. tf_userId c = userId) (twoFactors s') = Some c \<and> tf_secret c = w_encrypt w iv (base32Encode secret) \<and> \<not> tf_enabled c)
     \<and> accounts s' = accounts s \<and> sessions s' = sessions s \<and> clock s' = clock s) s"
  by (auto simp: tf_setup_def wp Let_def find_upd_where_keep find_append dest: find_SomeD split: option.split)

lemma wps_verify:
  assumes "List.find (\<lambda>c. tf_userId c = userId) (twoFactors s) = Some c" and "w_decrypt w (tf_secret c) = Inr b"
    and "verifyTotp (w_hmac w) (base32Decode b) code (clock s) = Inr True"
  shows "wps (tf_verify w draws userId code meta) (\<lambda>r s'. r = Inr (map generateRecoveryCode (take RECOVERY_CODE_COUNT draws))
     \<and> List.find (\<lambda>c. tf_userId c = userId) (twoFactors s') = Some (c\<lparr>tf_enabled := True, tf_verifiedAt := Some (clock s),
         tf_recoveryCodesHash := map (w_hashToken w) (map generateRecoveryCode (take RECOVERY_CODE_COUNT draws))\<rparr>)
     \<and> accounts s' = accounts s \<and> sessions s' = sessions s) s"
  using assms find_SomeD [OF assms(1)]
  by (simp add: tf_verify_def totp_matches_def decryptCredentialSecret_def wp Let_def find_upd_where_keep)

lemma wps_checkCode_totp:
  assumes "w_decrypt w (tf_secret c) = Inr b" and "verifyTotp (w_hmac w) (base32Decode b) code (clock s) = Inr True"
  shows "wps (checkCodeOrRecovery w c code) Q s = Q (Inr True) s"
  using assms by (simp add: checkCodeOrRecovery_def totp_matches_def decryptCredentialSecret_def wp)

text \<open>The code an authenticator shows for the present step is accepted.\<close>

lemma current_code_accepted:
  assumes "hmac_sha1_like hmac" and "30000 \<le> t" and "t < 2 ^ 44" and "generateTotp hmac secret t = Inr code"
  shows "verifyTotp hmac secret code t = Inr True"
proof -
  have "list_all is_digit code"
    using hotp_code [OF assms(1), of "counter_at t" secret] assms(2-4) by (auto simp: generateTotp_def counter_exact)
  then show ?thesis
    unfolding verifyTotp_codes [OF assms(1-3)] using assms(4) by (auto simp: js_trim_digits intro!: bexI [of _ 0])
qed

text \<open>From enrolment to login: the authenticator is fed the secret shown at setup. Its code at any later time
  confirms the enrolment; from then on the password alone opens no session but yields a
  challenge, and the challenge with the code of the moment (within the five minutes of the challenge) yields a session of that account.
\<close>

theorem enrolled_factor_logs_in:
  assumes laws: "jwt_ok w" "cipher_ok w" "hmac_sha1_like (w_hmac w)"
    and user: "admitted w dto user s" "List.find (\<lambda>u. acc_id u = acc_id user) (accounts s) = Some user"
    and set_up: "tf_setup w secret iv (acc_id user) mail s = (Inr (shown, url), s1)"
    and code1: "30000 \<le> t1" "t1 < 2 ^ 44" "generateTotp (w_hmac w) (base32Decode shown) t1 = Inr code1"
    and verify: "tf_verify w draws (acc_id user) code1 meta (at_time t1 s1) = (r, s2)"
    and code2: "30000 \<le> t3" "t3 < 2 ^ 44" "generateTotp (w_hmac w) (base32Decode shown) t3 = Inr code2"
    and soon: "0 \<le> t2" "t2 \<le> t3" "t3 + 1000 \<le> t2 + CHALLENGE_TTL_MS"
    and unused: "List.find (\<lambda>x. se_refreshTokenHash x = w_hashToken w draw) (sessions s) = None"
  shows "r = Inr (map generateRecoveryCode (take RECOVERY_CODE_COUNT draws))
    \<and> (\<exists>c. login w draw' dto meta (at_time t2 s2) = (Inr (TwoFactorChallenge c), at_time t2 s2)
      \<and> (\<exists>pair. fst (verifyLogin w draw c code2 meta (at_time t3 s2)) = Inr pair \<and> tp_user pair = toPublicUser user))"
proof -
  obtain cr where cr: "List.find (\<lambda>c. tf_userId c = acc_id user) (twoFactors s1) = Some cr" "tf_secret cr = w_encrypt w iv (base32Encode secret)"
    and s1: "shown = base32Encode secret" "accounts s1 = accounts s" "sessions s1 = sessions s"
    using wps_D [OF wps_setup set_up] by auto
  have dec: "w_decrypt w (tf_secret cr) = Inr shown" using laws(2) by (simp add: cr(2) s1(1) cipher_ok_def)
  have "wps (tf_verify w draws (acc_id user) code1 meta) (\<lambda>r s'. r = Inr (map generateRecoveryCode (take RECOVERY_CODE_COUNT draws))
     \<and> List.find (\<lambda>c. tf_userId c = acc_id user) (twoFactors s') = Some (cr\<lparr>tf_enabled := True, tf_verifiedAt := Some t1,
         tf_recoveryCodesHash := map (w_hashToken w) (map generateRecoveryCode (take RECOVERY_CODE_COUNT draws))\<rparr>)
     \<and> accounts s' = accounts s \<and> sessions s' = sessions s) (at_time t1 s1)"
    using wps_verify [of "acc_id user" "at_time t1 s1" cr w shown code1 draws meta]
      current_code_accepted [OF laws(3) code1] cr(1) dec s1(2,3) by simp
  from wps_D [OF this verify] obtain cr' where r: "r = Inr (map generateRecoveryCode (take RECOVERY_CODE_COUNT draws))"
    and cr': "List.find (\<lambda>c. tf_userId c = acc_id user) (twoFactors s2) = Some cr'" "tf_enabled cr'" "tf_secret cr' = tf_secret cr"
    and s2: "accounts s2 = accounts s" "sessions s2 = sessions s" by auto
  define c where "c = w_sign w (challenge_claims (acc_id user)) CHALLENGE_TTL_MS t2"
  have adm: "admitted w dto user (at_time t2 s2)" using user(1) by (simp add: admitted_def s2)
  have "wps (login w draw' dto meta) (\<lambda>r s'. r = Inr (TwoFactorChallenge c) \<and> s' = at_time t2 s2) (at_time t2 s2)"
    unfolding wps_login_admitted [OF adm] using cr' by (simp add: has_factor_def c_def)
  then have login: "login w draw' dto meta (at_time t2 s2) = (Inr (TwoFactorChallenge c), at_time t2 s2)"
    by (simp add: wps_run prod_eq_iff)
  have token: "w_verifyJwt w c t3 = Some (challenge_claims (acc_id user))"
    using laws(1) soon by (simp add: jwt_ok_def c_def CHALLENGE_TTL_MS_def)
  have code: "verifyTotp (w_hmac w) (base32Decode shown) code2 t3 = Inr True" using current_code_accepted [OF laws(3) code2] .
  have "wps (verifyLogin w draw c code2 meta) (\<lambda>r s'. \<exists>pair. r = Inr pair \<and> tp_user pair = toPublicUser user) (at_time t3 s2)"
    using token cr' dec code user(2) unused
    by (simp add: verifyLogin_def verifyLoginCode_def wp wps_checkCode_totp wps_issue_fresh challenge_claims_def s2 pair_of_def)
  with r login show ?thesis by (auto simp: wps_run)
qed

text \<open>Enrolled in 2023 with an eight byte secret; the first login is a minute later.\<close>

theorem enrolled_factor_logs_in_witness:
  "let shown = base32Encode [1, 2, 3, 4, 5, 6, 7, 8];
       s1 = snd (tf_setup sample_auth_world [1, 2, 3, 4, 5, 6, 7, 8] ''iv'' 1 None (sample_auth [ada_session] [] [])) in
   \<exists>code1 code2. let s2 = snd (tf_verify sample_auth_world [] 1 code1 no_meta (at_time 1700000030000 s1)) in
     generateTotp toy_hmac (base32Decode shown) 1700000030000 = Inr code1 \<and>
     (\<exists>c pair. fst (login sample_auth_world ''r1'' ada_login no_meta (at_time 1700000090000 s2)) = Inr (TwoFactorChallenge c)
       \<and> fst (verifyLogin sample_auth_world ''r2'' c code2 no_meta (at_time 1700000100000 s2)) = Inr pair \<and> tp_user pair = toPublicUser ada)"
proof -
  let ?w = sample_auth_world
  let ?s = "sample_auth [ada_session] [] []"
  let ?secret = "[1, 2, 3, 4, 5, 6, 7, 8] :: 8 word list"
  have laws: "jwt_ok ?w" "cipher_ok ?w" "hmac_sha1_like (w_hmac ?w)"
    using sample_auth_world_ok by (simp_all add: sample_auth_world_def hmac_sha1_like_def toy_hmac_def)
  have adm: "admitted ?w ada_login ada ?s" "List.find (\<lambda>u. acc_id u = acc_id ada) (accounts ?s) = Some ada"
    by (simp_all add: admitted_def password_ok_def sample_auth_defs)
  define s1 where "s1 = snd (tf_setup ?w ?secret ''iv'' (acc_id ada) None ?s)"
  obtain url where set_up: "tf_setup ?w ?secret ''iv'' (acc_id ada) None ?s = (Inr (base32Encode ?secret, url), s1)"
    using wps_setup [of ?w ?secret "''iv''" "acc_id ada" None ?s] by (auto simp: wps_run s1_def prod_eq_iff)
  have codes: "\<exists>code. generateTotp (w_hmac ?w) (base32Decode (base32Encode ?secret)) t = Inr code" if "0 \<le> t" "t < 2 ^ 44" for t
    using hotp_code [OF laws(3), of "counter_at t"] that by (force simp: generateTotp_def counter_exact)
  obtain code1 where code1: "generateTotp (w_hmac ?w) (base32Decode (base32Encode ?secret)) 1700000030000 = Inr code1"
    using codes [of 1700000030000] by auto
  obtain code2 where code2: "generateTotp (w_hmac ?w) (base32Decode (base32Encode ?secret)) 1700000100000 = Inr code2"
    using codes [of 1700000100000] by auto
  define s2 where "s2 = snd (tf_verify ?w [] (acc_id ada) code1 no_meta (at_time 1700000030000 s1))"
  have unused: "List.find (\<lambda>x. se_refreshTokenHash x = w_hashToken ?w ''r2'') (sessions ?s) = None" by (simp add: sample_auth_defs)
  have verify: "tf_verify ?w [] (acc_id ada) code1 no_meta (at_time 1700000030000 s1)
      = (fst (tf_verify ?w [] (acc_id ada) code1 no_meta (at_time 1700000030000 s1)), s2)"
    by (simp add: s2_def prod_eq_iff)
  note all = enrolled_factor_logs_in [OF laws adm set_up _ _ code1 verify _ _ code2, of 1700000090000 "''r2''" "''r1''"]
  have "\<exists>c. login ?w ''r1'' ada_login no_meta (at_time 1700000090000 s2) = (Inr (TwoFactorChallenge c), at_time 1700000090000 s2)
      \<and> (\<exists>pair. fst (verifyLogin ?w ''r2'' c code2 no_meta (at_time 1700000100000 s2)) = Inr pair \<and> tp_user pair = toPublicUser ada)"
    using all unused by (simp add: CHALLENGE_TTL_MS_def)
  then obtain c pair where "login ?w ''r1'' ada_login no_meta (at_time 1700000090000 s2) = (Inr (TwoFactorChallenge c), at_time 1700000090000 s2)"
    "fst (verifyLogin ?w ''r2'' c code2 no_meta (at_time 1700000100000 s2)) = Inr pair" "tp_user pair = toPublicUser ada" by blast
  moreover have "w_hmac ?w = toy_hmac" "acc_id ada = 1" by (simp_all add: sample_auth_world_def ada_def)
  ultimately show ?thesis using code1 unfolding Let_def s2_def s1_def by (intro exI [of _ code1] exI [of _ code2]) auto
qed

section \<open>Recovery codes\<close>

lemma remove_at_indexOf: "indexOf h xs = Some i \<Longrightarrow> remove_at i xs = remove1 h xs"
  by (induction xs arbitrary: i) (auto split: if_splits)

lemma indexOf_None: "indexOf h xs = None \<longleftrightarrow> h \<notin> set xs"
  by (induction xs) auto

lemma indexOf_Some: "indexOf h xs = Some i \<Longrightarrow> h \<in> set xs"
  by (metis indexOf_None option.distinct(1))

lemma not_a_totp:
  assumes "length (js_trim code) \<noteq> 6"
  shows "verifyTotp hmac secret code t = Inr False"
  using assms by (simp add: verifyTotp_def)

lemma wps_recovery:
  assumes "List.find (\<lambda>c. tf_userId c = userId) (twoFactors s) = Some c" and "tf_enabled c" and "w_decrypt w (tf_secret c) = Inr b"
    and "length (js_trim code) \<noteq> 6" and "List.find (\<lambda>x. tf_id x = tf_id c) (twoFactors s) = Some c"
  shows "wps (verifyLoginCode w userId code) Q s = (let h = w_hashToken w (map upper (js_trim code)) in
    if h \<in> set (tf_recoveryCodesHash c)
    then Q (Inr True) (twoFactors_update (upd_where (\<lambda>x. tf_id x = tf_id c) (\<lambda>x. x\<lparr>tf_recoveryCodesHash := remove1 h (tf_recoveryCodesHash c)\<rparr>)) s)
    else Q (Inr False) s)"
  using assms
  by (auto simp: verifyLoginCode_def checkCodeOrRecovery_def totp_matches_def decryptCredentialSecret_def wp not_a_totp Let_def
      indexOf_None remove_at_indexOf dest: indexOf_Some split: option.split)

text \<open>C18. A recovery code works once. It is accepted exactly when its hash is stored; afterwards, at any time,
  exactly the other stored codes are accepted.
\<close>

theorem recovery_code_once:
  assumes cred: "List.find (\<lambda>c. tf_userId c = userId) (twoFactors s) = Some c" "tf_enabled c" "w_decrypt w (tf_secret c) = Inr b"
    and key: "List.find (\<lambda>x. tf_id x = tf_id c) (twoFactors s) = Some c" "distinct (tf_recoveryCodesHash c)"
    and shape: "length (js_trim code) \<noteq> 6" "length (js_trim code') \<noteq> 6"
    and used: "verifyLoginCode w userId code s = (Inr ok, s1)"
  shows "ok = (w_hashToken w (map upper (js_trim code)) \<in> set (tf_recoveryCodesHash c))
    \<and> fst (verifyLoginCode w userId code' (at_time t s1)) = Inr (w_hashToken w (map upper (js_trim code')) \<in> set (tf_recoveryCodesHash c)
        \<and> (ok \<longrightarrow> w_hashToken w (map upper (js_trim code')) \<noteq> w_hashToken w (map upper (js_trim code))))"
proof (cases "w_hashToken w (map upper (js_trim code)) \<in> set (tf_recoveryCodesHash c)")
  case True
  let ?h = "w_hashToken w (map upper (js_trim code))"
  let ?f = "\<lambda>x. x\<lparr>tf_recoveryCodesHash := remove1 ?h (tf_recoveryCodesHash c)\<rparr>"
  have run: "ok = True \<and> s1 = twoFactors_update (upd_where (\<lambda>x. tf_id x = tf_id c) ?f) s"
    using wps_recovery [OF cred shape(1) key(1), of "\<lambda>r s'. r = Inr ok \<longrightarrow> s' = s1 \<longrightarrow> ok = True \<and> s1 = twoFactors_update (upd_where (\<lambda>x. tf_id x = tf_id c) ?f) s"]
      True used by (simp add: wps_run Let_def)
  have "List.find (\<lambda>c. tf_userId c = userId) (twoFactors (at_time t s1)) = Some (?f c)"
    "List.find (\<lambda>x. tf_id x = tf_id (?f c)) (twoFactors (at_time t s1)) = Some (?f c)"
    using cred(1) key(1) by (simp_all add: run find_upd_where_keep)
  from wps_recovery [OF this(1) _ _ shape(2) this(2), where b = b and Q = "\<lambda>r s'. r = Inr (w_hashToken w (map upper (js_trim code')) \<in> set (remove1 ?h (tf_recoveryCodesHash c)))"]
  have "fst (verifyLoginCode w userId code' (at_time t s1)) = Inr (w_hashToken w (map upper (js_trim code')) \<in> set (remove1 ?h (tf_recoveryCodesHash c)))"
    using cred(2,3) by (simp add: wps_run Let_def split: if_splits)
  with run True key(2) show ?thesis by auto
next
  case False
  have run: "ok = False \<and> s1 = s"
    using wps_recovery [OF cred shape(1) key(1), of "\<lambda>r s'. r = Inr ok \<longrightarrow> s' = s1 \<longrightarrow> ok = False \<and> s1 = s"]
      False used by (simp add: wps_run Let_def)
  have "fst (verifyLoginCode w userId code' (at_time t s)) = Inr (w_hashToken w (map upper (js_trim code')) \<in> set (tf_recoveryCodesHash c))"
    using wps_recovery [of userId "at_time t s" c w b code' "\<lambda>r s'. r = Inr (w_hashToken w (map upper (js_trim code')) \<in> set (tf_recoveryCodesHash c))"]
      cred shape(2) key(1) by (simp add: wps_run Let_def split: if_splits)
  with run False show ?thesis by simp
qed

text \<open>The first of the two stored codes is used, in lower case, and no longer accepted an hour later.\<close>

theorem recovery_code_once_witness:
  "let s = sample_auth [] [] [ada_factor] in
   \<exists>s1. verifyLoginCode sample_auth_world 1 ''a1b2c-d3e4f'' s = (Inr True, s1)
     \<and> fst (verifyLoginCode sample_auth_world 1 ''A1B2C-D3E4F'' (at_time 1700003600000 s1)) = Inr False"
proof -
  let ?w = sample_auth_world
  let ?s = "sample_auth [] [] [ada_factor]"
  have trim: "js_trim ''a1b2c-d3e4f'' = ''a1b2c-d3e4f''" "js_trim ''A1B2C-D3E4F'' = ''A1B2C-D3E4F''"
    "map upper ''a1b2c-d3e4f'' = ''A1B2C-D3E4F''" "map upper ''A1B2C-D3E4F'' = ''A1B2C-D3E4F''"
    by code_simp+
  have cred: "List.find (\<lambda>c. tf_userId c = 1) (twoFactors ?s) = Some ada_factor" "tf_enabled ada_factor"
    "w_decrypt ?w (tf_secret ada_factor) = Inr ''MFRGG==='' " "List.find (\<lambda>x. tf_id x = tf_id ada_factor) (twoFactors ?s) = Some ada_factor"
    "distinct (tf_recoveryCodesHash ada_factor)"
    by (simp_all add: sample_auth_defs)
  have shape: "length (js_trim ''a1b2c-d3e4f'') \<noteq> 6" "length (js_trim ''A1B2C-D3E4F'') \<noteq> 6" by (simp_all add: trim)
  obtain ok s1 where run: "verifyLoginCode ?w 1 ''a1b2c-d3e4f'' ?s = (Inr ok, s1)"
    using wps_recovery [OF cred(1-3) shape(1) cred(4), of "\<lambda>r s'. \<exists>ok. r = Inr ok"]
    by (cases "verifyLoginCode ?w 1 ''a1b2c-d3e4f'' ?s") (auto simp: wps_def Let_def split: if_splits)
  from recovery_code_once [OF cred shape run, of 1700003600000] run show ?thesis
    unfolding trim by (auto simp: ada_factor_def sample_auth_world_def)
qed

section \<open>The challenge is an access token\<close>

text \<open>C9. The challenge a login answers with is signed with the secret of access tokens, and a bearer token's purpose is
  not looked at: the challenge authenticates its account. So the password alone is enough to call setup, which
  disables the second factor, and to log in without it.
\<close>

theorem password_alone_bypasses_two_factor:
  assumes "jwt_ok w" and "0 \<le> clock s" and user: "admitted w dto user s" and factor: "has_factor (acc_id user) s"
    and soon: "clock s \<le> t" "t + 1000 \<le> clock s + CHALLENGE_TTL_MS"
    and unused: "List.find (\<lambda>x. se_refreshTokenHash x = w_hashToken w draw) (sessions s) = None"
  shows "\<exists>c pair s2. login w draw dto meta s = (Inr (TwoFactorChallenge c), s)
    \<and> authenticate w c (at_time t s) = (Inr (acc_id user, None), at_time t s)
    \<and> s2 = snd (tf_setup w secret iv (acc_id user) None (at_time t s)) \<and> \<not> has_factor (acc_id user) s2
    \<and> fst (login w draw dto meta s2) = Inr (Pair pair) \<and> tp_user pair = toPublicUser user"
proof -
  define c where "c = w_sign w (challenge_claims (acc_id user)) CHALLENGE_TTL_MS (clock s)"
  have "wps (login w draw dto meta) (\<lambda>r s'. r = Inr (TwoFactorChallenge c) \<and> s' = s) s"
    unfolding wps_login_admitted [OF user] using factor by (simp add: c_def)
  then have l1: "login w draw dto meta s = (Inr (TwoFactorChallenge c), s)" by (simp add: wps_run prod_eq_iff)
  have "w_verifyJwt w c t = Some (challenge_claims (acc_id user))"
    using assms(1,2) soon by (simp add: jwt_ok_def c_def CHALLENGE_TTL_MS_def)
  then have a: "authenticate w c (at_time t s) = (Inr (acc_id user, None), at_time t s)"
    by (simp add: authenticate_def run validate_def challenge_claims_def)
  define s2 where "s2 = snd (tf_setup w secret iv (acc_id user) None (at_time t s))"
  have s2: "\<not> has_factor (acc_id user) s2" "accounts s2 = accounts s" "sessions s2 = sessions s"
    using wps_setup [of w secret iv "acc_id user" None "at_time t s"] by (auto simp: wps_run s2_def has_factor_def)
  have "admitted w dto user s2" using user by (simp add: admitted_def s2(2))
  from wps_login_admitted [OF this, of draw meta "\<lambda>r s'. \<exists>pair. r = Inr (Pair pair) \<and> tp_user pair = toPublicUser user"]
  have "\<exists>pair. fst (login w draw dto meta s2) = Inr (Pair pair) \<and> tp_user pair = toPublicUser user"
    using s2(1) unused by (simp add: wps_run s2(3) pair_of_def)
  with l1 a s2(1) show ?thesis unfolding s2_def by blast
qed

text \<open>An attacker with the password of the example turns the second factor off within a second.\<close>

theorem password_alone_bypasses_two_factor_witness:
  "let s = sample_auth [] [] [ada_factor]; s2 = snd (tf_setup sample_auth_world [9] ''iv'' 1 None (at_time 1700000001000 s)) in
   has_factor 1 s \<and> \<not> has_factor 1 s2 \<and> (\<exists>pair. fst (login sample_auth_world ''r1'' ada_login no_meta s2) = Inr (Pair pair))"
proof -
  let ?s = "sample_auth [] [] [ada_factor]"
  have adm: "admitted sample_auth_world ada_login ada ?s" "has_factor (acc_id ada) ?s" "0 \<le> clock ?s" "clock ?s = 1700000000000"
    "List.find (\<lambda>x. se_refreshTokenHash x = w_hashToken sample_auth_world ''r1'') (sessions ?s) = None"
    by (simp_all add: admitted_def password_ok_def has_factor_def sample_auth_defs)
  from password_alone_bypasses_two_factor [OF sample_auth_world_ok(1) adm(3,1,2) _ _ adm(5), of 1700000001000 no_meta "[9]" "''iv''"] adm(2,4)
  show ?thesis by (auto simp: CHALLENGE_TTL_MS_def ada_def Let_def)
qed

end
