(* ===== verification/Members.thy ===== *)
theory Members
  imports Auth
begin

text \<open>
  Organisations, applications and who may do what in them: organizations/organizations.service.ts,
  applications/applications.service.ts, applications/application-members.service.ts,
  the role utilities and guards of common/, and the controllers that put a guard before a service. The
  rows of other components that refer to an application (its subscriptions) can make the database refuse its
  deletion; whether they do is the parameter \<open>held\<close>.
\<close>

section \<open>Roles\<close>

datatype OrganizationRole = OWNER | ADMINISTRATOR | DEVELOPER | MANAGER | MEMBER | VIEWER

datatype ApplicationMemberRole = OWNER | ADMINISTRATOR | MAINTAINER | DEVELOPER | TESTER | SUPPORT | VIEWER

fun org_rank :: "OrganizationRole \<Rightarrow> nat" where
  "org_rank OrganizationRole.VIEWER = 0"
| "org_rank MEMBER = 1"
| "org_rank OrganizationRole.DEVELOPER = 2"
| "org_rank MANAGER = 2"
| "org_rank OrganizationRole.ADMINISTRATOR = 3"
| "org_rank OrganizationRole.OWNER = 4"

definition orgRoleAtLeast :: "OrganizationRole \<Rightarrow> OrganizationRole \<Rightarrow> bool" where
  "orgRoleAtLeast role minimum \<longleftrightarrow> org_rank minimum \<le> org_rank role"

fun app_rank :: "ApplicationMemberRole \<Rightarrow> nat" where
  "app_rank ApplicationMemberRole.VIEWER = 0"
| "app_rank SUPPORT = 1"
| "app_rank TESTER = 1"
| "app_rank ApplicationMemberRole.DEVELOPER = 2"
| "app_rank MAINTAINER = 3"
| "app_rank ApplicationMemberRole.ADMINISTRATOR = 4"
| "app_rank ApplicationMemberRole.OWNER = 5"

definition appRoleAtLeast :: "ApplicationMemberRole \<Rightarrow> ApplicationMemberRole \<Rightarrow> bool" where
  "appRoleAtLeast role minimum \<longleftrightarrow> app_rank minimum \<le> app_rank role"

section \<open>Rows\<close>

datatype OrganizationStatus = ACTIVE | SUSPENDED | ARCHIVED | DELETED

record organization_row =
  org_id :: id
  org_name :: string
  org_slug :: string
  org_createdAt :: time
  org_status :: OrganizationStatus
  org_suspendedAt :: "time option"
  org_suspensionReason :: "string option"
  org_archivedAt :: "time option"
  org_deletedAt :: "time option"

record org_member =
  om_id :: id
  om_organizationId :: id
  om_userId :: id
  om_role :: OrganizationRole
  om_createdAt :: time

datatype ApplicationStatus = ACTIVE | ARCHIVED | SUSPENDED

datatype ApplicationVisibility = PRIVATE | INTERNAL

record app_entry =
  ap_id :: id
  ap_organizationId :: id
  ap_name :: string
  ap_slug :: string
  ap_displayName :: "string option"
  ap_description :: "string option"
  ap_category :: "string option"
  ap_bundleIdentifier :: "string option"
  ap_packageName :: "string option"
  ap_webIdentifier :: "string option"
  ap_logoUrl :: "string option"
  ap_iconUrl :: "string option"
  ap_primaryColor :: "string option"
  ap_status :: ApplicationStatus
  ap_visibility :: ApplicationVisibility
  ap_createdById :: id
  ap_createdAt :: time
  ap_archivedAt :: "time option"

record app_member =
  am_id :: id
  am_applicationId :: id
  am_userId :: id
  am_role :: ApplicationMemberRole
  am_createdAt :: time

datatype DeveloperInvitationStatus = PENDING | ACCEPTED | EXPIRED | REVOKED

record invitation_row =
  di_id :: id
  di_applicationId :: id
  di_email :: string
  di_role :: ApplicationMemberRole
  di_tokenHash :: string
  di_status :: DeveloperInvitationStatus
  di_invitedById :: id
  di_acceptedById :: "id option"
  di_expiresAt :: time
  di_acceptedAt :: "time option"
  di_revokedAt :: "time option"
  di_createdAt :: time

record version_row =
  ver_id :: id
  ver_applicationId :: id
  ver_track :: string
  ver_androidVersion :: "string option"
  ver_iosVersion :: "string option"
  ver_webVersion :: "string option"
  ver_buildNumber :: "string option"
  ver_minimumSupportedVersion :: "string option"
  ver_releaseNotes :: "string option"
  ver_releaseDate :: "time option"
  ver_isLatest :: bool
  ver_createdById :: id
  ver_createdAt :: time

datatype DomainVerificationStatus = PENDING | VERIFIED | FAILED

record domain_row =
  dom_id :: id
  dom_applicationId :: id
  dom_domain :: string
  dom_isPrimary :: bool
  dom_verificationStatus :: DomainVerificationStatus
  dom_verificationToken :: "string option"
  dom_verifiedAt :: "time option"
  dom_createdAt :: time

record platform_admin =
  pa_userId :: id
  pa_revokedAt :: "time option"

record member_db = auth_db +
  organizations :: "organization_row list"
  orgMembers :: "org_member list"
  appEntries :: "app_entry list"
  appMembers :: "app_member list"
  invitations :: "invitation_row list"
  appVersions :: "version_row list"
  appDomains :: "domain_row list"
  platformAdmins :: "platform_admin list"
  invitationMails :: "(string \<times> string \<times> string) list"

section \<open>Slugs\<close>

definition lower :: "char \<Rightarrow> char" where
  "lower c = (if 65 \<le> (of_char c :: nat) \<and> (of_char c :: nat) \<le> 90 then char_of (of_char c + 32 :: nat) else c)"

definition slug_char :: "char \<Rightarrow> bool" where
  "slug_char c \<longleftrightarrow> is_digit c \<or> 97 \<le> (of_char c :: nat) \<and> (of_char c :: nat) \<le> 122"

text \<open>\<open>replace(/[^a-z0-9]+/g, "-")\<close>: one dash for every maximal run of other characters.\<close>

fun squash :: "bool \<Rightarrow> string \<Rightarrow> string" where
  "squash inside [] = []"
| "squash inside (c # cs) = (if slug_char c then c # squash False cs
     else if inside then squash True cs else CHR ''-'' # squash True cs)"

definition strip_dashes :: "string \<Rightarrow> string" where
  "strip_dashes s = rev (dropWhile (\<lambda>c. c = CHR ''-'') (rev (dropWhile (\<lambda>c. c = CHR ''-'') s)))"

definition slugify :: "string \<Rightarrow> string" where
  "slugify input = take 60 (strip_dashes (squash False (js_trim (map lower input))))"

text \<open>The search of \<open>generateUniqueSlug\<close>: \<open>None\<close> if it never ends.\<close>

partial_function (option) slug_search :: "string list \<Rightarrow> string \<Rightarrow> nat \<Rightarrow> string \<Rightarrow> string option" where
  "slug_search taken base suffix candidate =
     (if candidate \<in> set taken then slug_search taken base (suffix + 1) (base @ ''-'' @ nat_str (suffix + 1)) else Some candidate)"

declare slug_search.simps [code]

definition unique_slug :: "string \<Rightarrow> string list \<Rightarrow> string \<Rightarrow> string option" where
  "unique_slug fallback taken name = (let base = (if slugify name = [] then fallback else slugify name) in slug_search taken base 1 base)"

definition generateUniqueSlug :: "string \<Rightarrow> ('s \<Rightarrow> string list) \<Rightarrow> string \<Rightarrow> ('s, string) svc" where
  "generateUniqueSlug fallback taken name = bnd (gets (\<lambda>s. unique_slug fallback (taken s) name))
     (\<lambda>r. case r of None \<Rightarrow> throw Diverges | Some slug \<Rightarrow> ret slug)"

section \<open>Guards\<close>

definition org_membership :: "id \<Rightarrow> id \<Rightarrow> org_member \<Rightarrow> bool" where
  "org_membership org userId m \<longleftrightarrow> om_organizationId m = org \<and> om_userId m = userId"

definition app_membership :: "id \<Rightarrow> id \<Rightarrow> app_member \<Rightarrow> bool" where
  "app_membership app userId m \<longleftrightarrow> am_applicationId m = app \<and> am_userId m = userId"

text \<open>OrganizationRoleGuard, on a route with the parameter \<open>:organizationId\<close> for an authenticated user.\<close>

definition organizationRoleGuard :: "OrganizationRole option \<Rightarrow> id option \<Rightarrow> id option \<Rightarrow> ('z member_db_scheme, unit) svc" where
  "organizationRoleGuard required orgParam user = (case required of None \<Rightarrow> ret ()
   | Some role \<Rightarrow> (case (orgParam, user) of (Some org, Some u) \<Rightarrow>
       bnd (find_row orgMembers (org_membership org u)) (\<lambda>r.
       guard_or (case r of None \<Rightarrow> False | Some m \<Rightarrow> orgRoleAtLeast (om_role m) role) (ForbiddenException ''Insufficient organization role''))
     | _ \<Rightarrow> throw (ForbiddenException ''Organization membership required'')))"

text \<open>OrgScopedGuard: the organisation is found from a resource.\<close>

definition orgScopedGuard ::
  "('r \<Rightarrow> ('z member_db_scheme, id option) svc) \<Rightarrow> OrganizationRole option \<Rightarrow> 'r option \<Rightarrow> id option \<Rightarrow> ('z member_db_scheme, unit) svc" where
  "orgScopedGuard resolve required resource user = (case required of None \<Rightarrow> ret ()
   | Some role \<Rightarrow> (case (resource, user) of (Some x, Some u) \<Rightarrow>
       bnd (resolve x) (\<lambda>found. case found of None \<Rightarrow> throw (NotFoundException ''Resource not found'')
       | Some org \<Rightarrow> bnd (find_row orgMembers (org_membership org u)) (\<lambda>r.
         guard_or (case r of None \<Rightarrow> False | Some m \<Rightarrow> orgRoleAtLeast (om_role m) role) (ForbiddenException ''Insufficient organization role'')))
     | _ \<Rightarrow> throw (ForbiddenException ''Organization membership required'')))"

text \<open>The part that both application guards share: the override of the organisation, then the membership.\<close>

definition app_role_check :: "ApplicationMemberRole \<Rightarrow> app_entry \<Rightarrow> id \<Rightarrow> ('z member_db_scheme, unit) svc" where
  "app_role_check role app u =
     bnd (find_row orgMembers (org_membership (ap_organizationId app) u)) (\<lambda>r.
     if (case r of None \<Rightarrow> False | Some m \<Rightarrow> orgRoleAtLeast (om_role m) OrganizationRole.ADMINISTRATOR) then ret ()
     else bnd (find_row appMembers (app_membership (ap_id app) u)) (\<lambda>a.
       guard_or (case a of None \<Rightarrow> False | Some m \<Rightarrow> appRoleAtLeast (am_role m) role) (ForbiddenException ''Insufficient application role'')))"

definition applicationRoleGuard ::
  "ApplicationMemberRole option \<Rightarrow> id option \<Rightarrow> id option \<Rightarrow> id option \<Rightarrow> ('z member_db_scheme, unit) svc" where
  "applicationRoleGuard required appParam orgParam user = (case required of None \<Rightarrow> ret ()
   | Some role \<Rightarrow> (case (appParam, user) of (Some appId, Some u) \<Rightarrow>
       bnd (find_row appEntries (\<lambda>a. ap_id a = appId)) (\<lambda>r. case r of
         None \<Rightarrow> throw (NotFoundException ''Application not found'')
       | Some app \<Rightarrow>
           seq (guard_or (case orgParam of None \<Rightarrow> True | Some org \<Rightarrow> org = ap_organizationId app) (NotFoundException ''Application not found''))
               (app_role_check role app u))
     | _ \<Rightarrow> throw (ForbiddenException ''Application membership required'')))"

definition applicationScopedGuard ::
  "('r \<Rightarrow> ('z member_db_scheme, id option) svc) \<Rightarrow> ApplicationMemberRole option \<Rightarrow> 'r option \<Rightarrow> id option \<Rightarrow> ('z member_db_scheme, unit) svc" where
  "applicationScopedGuard resolve required resource user = (case required of None \<Rightarrow> ret ()
   | Some role \<Rightarrow> (case (resource, user) of (Some x, Some u) \<Rightarrow>
       bnd (resolve x) (\<lambda>found. case found of None \<Rightarrow> throw (NotFoundException ''Resource not found'')
       | Some appId \<Rightarrow> bnd (find_row appEntries (\<lambda>a. ap_id a = appId)) (\<lambda>r. case r of
           None \<Rightarrow> throw (NotFoundException ''Resource not found'')
         | Some app \<Rightarrow> app_role_check role app u))
     | _ \<Rightarrow> throw (ForbiddenException ''Application membership required'')))"

definition platformAdminGuard :: "id option \<Rightarrow> ('z member_db_scheme, unit) svc" where
  "platformAdminGuard user = (case user of None \<Rightarrow> throw (ForbiddenException ''Platform admin authority required'')
   | Some u \<Rightarrow> bnd (find_row platformAdmins (\<lambda>a. pa_userId a = u)) (\<lambda>r.
       guard_or (case r of None \<Rightarrow> False | Some a \<Rightarrow> pa_revokedAt a = None) (ForbiddenException ''Platform admin authority required'')))"

definition csrfGuard :: "string option \<Rightarrow> string option \<Rightarrow> ('s, unit) svc" where
  "csrfGuard cookieToken headerToken = guard_or (truthy cookieToken \<and> truthy headerToken \<and> cookieToken = headerToken)
     (ForbiddenException ''Missing or invalid CSRF token'')"

end
