(* ===== verification/Slugs.thy ===== *)
theory Slugs
  imports Members
begin

text \<open>
  Slugs (common/utils/slug.util.ts and the two \<open>generateUniqueSlug\<close>): a slug holds lower-case letters,
  digits and inner dashes only, and the search for a free one always ends, with the first that is free.
\<close>

section \<open>The characters of a slug\<close>

lemma squash_chars: "c \<in> set (squash inside cs) \<Longrightarrow> slug_char c \<or> c = CHR ''-''"
  by (induction inside cs rule: squash.induct) (auto split: if_splits)

lemma strip_dashes_subset: "set (strip_dashes s) \<subseteq> set s"
  by (auto simp: strip_dashes_def dest!: set_dropWhileD)

lemma slugify_chars: "c \<in> set (slugify input) \<Longrightarrow> slug_char c \<or> c = CHR ''-''"
  using squash_chars [of c False] strip_dashes_subset by (fastforce simp: slugify_def dest: in_set_takeD)

section \<open>The search\<close>

definition numbered :: "string \<Rightarrow> nat \<Rightarrow> string" where
  "numbered base k = (if k = 0 then base else base @ ''-'' @ nat_str (k + 1))"

lemma numbered_inj: "inj (numbered base)"
  by (rule injI) (auto simp: numbered_def dest: nat_str_inj split: if_splits)

lemma some_free:
  assumes "finite T"
  shows "\<exists>k. numbered base k \<notin> T"
proof (rule ccontr)
  assume "\<nexists>k. numbered base k \<notin> T"
  then have "finite (range (numbered base))" using assms by (meson finite_subset image_subsetI)
  with numbered_inj show False using infinite_iff_countable_subset finite_imageD [of "numbered base" UNIV] by blast
qed

lemma search_first:
  assumes "numbered base n \<notin> set taken" and "set (map (numbered base) [j..<n]) \<subseteq> set taken" and "j \<le> n"
  shows "slug_search taken base (j + 1) (numbered base j) = Some (numbered base n)"
  using assms(2,3)
proof (induction "n - j" arbitrary: j)
  case 0
  with assms(1) show ?case by (simp add: slug_search.simps [of taken base "Suc j"])
next
  case (Suc d)
  then have j: "j < n" by simp
  with Suc.prems have "numbered base j \<in> set taken" by auto
  moreover have "slug_search taken base (Suc j + 1) (numbered base (Suc j)) = Some (numbered base n)"
    using Suc.hyps Suc.prems j by (intro Suc.hyps(1)) auto
  ultimately show ?case by (simp add: slug_search.simps [of taken base "Suc j"] numbered_def)
qed

text \<open>The search for a slug always ends: with the base, or the base and the smallest number, that is not
  taken, every candidate before it being taken.
\<close>

theorem unique_slug_found:
  "\<exists>k base. base = (if slugify name = [] then fallback else slugify name) \<and> unique_slug fallback taken name = Some (numbered base k)
     \<and> numbered base k \<notin> set taken \<and> numbered base ` {0..<k} \<subseteq> set taken"
proof -
  let ?base = "if slugify name = [] then fallback else slugify name"
  let ?n = "LEAST k. numbered ?base k \<notin> set taken"
  obtain k where "numbered ?base k \<notin> set taken" using some_free [of "set taken" ?base] by auto
  then have n: "numbered ?base ?n \<notin> set taken" by (rule LeastI)
  have before: "numbered ?base ` {0..<?n} \<subseteq> set taken" using not_less_Least by fastforce
  then have "slug_search taken ?base 1 (numbered ?base 0) = Some (numbered ?base ?n)"
    using search_first [OF n, of 0] by simp
  then have "unique_slug fallback taken name = Some (numbered ?base ?n)"
    by (simp only: unique_slug_def Let_def numbered_def if_True refl)
  with n before show ?thesis by blast
qed

end
