(* ===== verification/Membership.thy ===== *)
theory Membership
  imports Members
begin

text \<open>
  The operations on organisations, applications, their members and invitations to them (organizations.service.ts,
  applications.service.ts, application-members.service.ts, invitations.service.ts) and the routes that guard them.
\<close>

section \<open>OrganizationsService\<close>

fun org_role_str :: "OrganizationRole \<Rightarrow> string" where
  "org_role_str OrganizationRole.OWNER = ''OWNER''"
| "org_role_str OrganizationRole.ADMINISTRATOR = ''ADMINISTRATOR''"
| "org_role_str OrganizationRole.DEVELOPER = ''DEVELOPER''"
| "org_role_str MANAGER = ''MANAGER''"
| "org_role_str MEMBER = ''MEMBER''"
| "org_role_str OrganizationRole.VIEWER = ''VIEWER''"

fun app_role_str :: "ApplicationMemberRole \<Rightarrow> string" where
  "app_role_str ApplicationMemberRole.OWNER = ''OWNER''"
| "app_role_str ApplicationMemberRole.ADMINISTRATOR = ''ADMINISTRATOR''"
| "app_role_str MAINTAINER = ''MAINTAINER''"
| "app_role_str ApplicationMemberRole.DEVELOPER = ''DEVELOPER''"
| "app_role_str TESTER = ''TESTER''"
| "app_role_str SUPPORT = ''SUPPORT''"
| "app_role_str ApplicationMemberRole.VIEWER = ''VIEWER''"

definition new_org_member :: "id \<Rightarrow> time \<Rightarrow> id \<Rightarrow> id \<Rightarrow> OrganizationRole \<Rightarrow> org_member" where
  "new_org_member i t org userId role = \<lparr>om_id = i, om_organizationId = org, om_userId = userId, om_role = role, om_createdAt = t\<rparr>"

definition insert_org_member :: "id \<Rightarrow> id \<Rightarrow> OrganizationRole \<Rightarrow> ('z member_db_scheme, org_member) svc" where
  "insert_org_member org userId role = bnd fresh (\<lambda>i. bnd now (\<lambda>t.
     insert_unique orgMembers orgMembers_update (org_membership org userId) (new_org_member i t org userId role)))"

definition new_organization :: "id \<Rightarrow> time \<Rightarrow> string \<Rightarrow> string \<Rightarrow> organization_row" where
  "new_organization i t name slug = \<lparr>org_id = i, org_name = name, org_slug = slug, org_createdAt = t, org_status = OrganizationStatus.ACTIVE,
     org_suspendedAt = None, org_suspensionReason = None, org_archivedAt = None, org_deletedAt = None\<rparr>"

definition org_create :: "id \<Rightarrow> string \<Rightarrow> request_meta \<Rightarrow> ('z member_db_scheme, organization_row) svc" where
  "org_create userId name meta =
     bnd (generateUniqueSlug ''org'' (\<lambda>s. map org_slug (organizations s)) name) (\<lambda>slug.
     bnd (transaction
       (bnd fresh (\<lambda>i. bnd now (\<lambda>t.
        bnd (insert_unique organizations organizations_update (\<lambda>o1. org_slug o1 = slug) (new_organization i t name slug)) (\<lambda>org.
        seq (insert_org_member (org_id org) userId OrganizationRole.OWNER) (ret org)))))) (\<lambda>organization.
     seq (audit ''ORGANIZATION_CREATED'' (Some userId) (Some (org_id organization)) None [] meta)
         (ret organization)))"

record org_summary =
  os_id :: id
  os_name :: string
  os_slug :: string
  os_role :: OrganizationRole
  os_joinedAt :: time

definition org_listForUser :: "id \<Rightarrow> ('z member_db_scheme, org_summary list) svc" where
  "org_listForUser userId = gets (\<lambda>s. concat (map (\<lambda>m. case List.find (\<lambda>o1. org_id o1 = om_organizationId m) (organizations s) of
       None \<Rightarrow> [] | Some o1 \<Rightarrow> [\<lparr>os_id = org_id o1, os_name = org_name o1, os_slug = org_slug o1, os_role = om_role m, os_joinedAt = om_createdAt m\<rparr>])
     (order_by om_createdAt (filter (\<lambda>m. om_userId m = userId) (orgMembers s)))))"

definition org_getOne :: "id \<Rightarrow> ('z member_db_scheme, organization_row \<times> nat) svc" where
  "org_getOne org = bnd (find_row organizations (\<lambda>o1. org_id o1 = org)) (\<lambda>r. case r of
     None \<Rightarrow> throw (NotFoundException ''Organization not found'')
   | Some organization \<Rightarrow> bnd (gets (\<lambda>s. count_where (\<lambda>m. om_organizationId m = org) (orgMembers s))) (\<lambda>n. ret (organization, n)))"

definition org_update :: "id \<Rightarrow> string \<Rightarrow> id \<Rightarrow> request_meta \<Rightarrow> ('z member_db_scheme, organization_row) svc" where
  "org_update org name userId meta =
     bnd (update_row organizations organizations_update (\<lambda>o1. org_id o1 = org) (\<lambda>o1. o1\<lparr>org_name := name\<rparr>)) (\<lambda>organization.
     seq (audit ''ORGANIZATION_UPDATED'' (Some userId) (Some org) None [] meta) (ret organization))"

text \<open>Deleting an application deletes the rows that belong to it; an organisation also its applications.\<close>

definition drop_apps :: "(id \<Rightarrow> bool) \<Rightarrow> 'z member_db_scheme \<Rightarrow> 'z member_db_scheme" where
  "drop_apps gone s = s\<lparr>appEntries := filter (\<lambda>a. \<not> gone (ap_id a)) (appEntries s),
     appMembers := filter (\<lambda>m. \<not> gone (am_applicationId m)) (appMembers s),
     invitations := filter (\<lambda>i. \<not> gone (di_applicationId i)) (invitations s),
     appVersions := filter (\<lambda>v. \<not> gone (ver_applicationId v)) (appVersions s),
     appDomains := filter (\<lambda>d. \<not> gone (dom_applicationId d)) (appDomains s)\<rparr>"

definition drop_org :: "id \<Rightarrow> 'z member_db_scheme \<Rightarrow> 'z member_db_scheme" where
  "drop_org org s = drop_apps (\<lambda>a. \<exists>e \<in> set (appEntries s). ap_id e = a \<and> ap_organizationId e = org)
     (s\<lparr>organizations := filter (\<lambda>o1. org_id o1 \<noteq> org) (organizations s),
        orgMembers := filter (\<lambda>m. om_organizationId m \<noteq> org) (orgMembers s)\<rparr>)"

text \<open>\<open>delete\<close>: P2025 when the row is missing, P2003 when a row that may not be deleted with it refers to it.\<close>

definition delete_row :: "bool \<Rightarrow> bool \<Rightarrow> ('s \<Rightarrow> 's) \<Rightarrow> ('s, unit) svc" where
  "delete_row present held remove = (if \<not> present then throw (PrismaError ''P2025'')
     else if held then throw (PrismaError ''P2003'') else modify remove)"

definition org_remove :: "(id \<Rightarrow> bool) \<Rightarrow> id \<Rightarrow> id \<Rightarrow> request_meta \<Rightarrow> ('z member_db_scheme, unit) svc" where
  "org_remove held org userId meta =
     seq (audit ''ORGANIZATION_UPDATED'' (Some userId) (Some org) None [(''action'', JStr ''deleted'')] meta)
     (bnd (gets (\<lambda>s. (\<exists>o1 \<in> set (organizations s). org_id o1 = org,
                      \<exists>a \<in> set (appEntries s). ap_organizationId a = org \<and> held (ap_id a)))) (\<lambda>(present, blocked).
      delete_row present blocked (drop_org org)))"

record member_view =
  mv_membershipId :: id
  mv_role :: OrganizationRole
  mv_joinedAt :: time
  mv_user :: public_user

definition org_listMembers :: "id \<Rightarrow> ('z member_db_scheme, member_view list) svc" where
  "org_listMembers org = gets (\<lambda>s. concat (map (\<lambda>m. case List.find (\<lambda>u. acc_id u = om_userId m) (accounts s) of
       None \<Rightarrow> [] | Some u \<Rightarrow> [\<lparr>mv_membershipId = om_id m, mv_role = om_role m, mv_joinedAt = om_createdAt m, mv_user = toPublicUser u\<rparr>])
     (order_by om_createdAt (filter (\<lambda>m. om_organizationId m = org) (orgMembers s)))))"

definition org_assertRoleAssignmentAllowed :: "id \<Rightarrow> id \<Rightarrow> OrganizationRole \<Rightarrow> ('z member_db_scheme, unit) svc" where
  "org_assertRoleAssignmentAllowed org actingUserId role =
     (if role \<noteq> OrganizationRole.OWNER then ret ()
      else bnd (find_row orgMembers (org_membership org actingUserId)) (\<lambda>r.
        guard_or (case r of None \<Rightarrow> False | Some m \<Rightarrow> om_role m = OrganizationRole.OWNER)
          (ForbiddenException ''Only an owner can grant the owner role'')))"

definition org_assertNotLastOwner :: "id \<Rightarrow> id \<Rightarrow> ('z member_db_scheme, unit) svc" where
  "org_assertNotLastOwner org excluding =
     bnd (gets (\<lambda>s. count_where (\<lambda>m. om_organizationId m = org \<and> om_role m = OrganizationRole.OWNER \<and> om_id m \<noteq> excluding) (orgMembers s)))
       (\<lambda>ownerCount. guard_or (ownerCount \<noteq> 0) (BadRequestException ''Organization must have at least one owner''))"

definition org_addMember :: "id \<Rightarrow> string \<Rightarrow> OrganizationRole \<Rightarrow> id \<Rightarrow> request_meta \<Rightarrow> ('z member_db_scheme, org_member) svc" where
  "org_addMember org email role actingUserId meta =
     bnd (find_row accounts (\<lambda>u. acc_email u = email)) (\<lambda>r. case r of
       None \<Rightarrow> throw (NotFoundException ''No account exists for that email yet'')
     | Some user \<Rightarrow>
         bnd (find_row orgMembers (org_membership org (acc_id user))) (\<lambda>existing.
         seq (guard_or (existing = None) (ConflictException ''User is already a member of this organization''))
         (seq (org_assertRoleAssignmentAllowed org actingUserId role)
         (bnd (insert_org_member org (acc_id user) role) (\<lambda>member.
          seq (audit ''ORGANIZATION_ROLE_CHANGED'' (Some actingUserId) (Some org) None
                 [(''action'', JStr ''added''), (''targetUserId'', JId (acc_id user)), (''role'', JStr (org_role_str role))] meta)
              (ret member))))))"

definition org_getMembership :: "id \<Rightarrow> id \<Rightarrow> ('z member_db_scheme, org_member) svc" where
  "org_getMembership org membershipId = bnd (find_row orgMembers (\<lambda>m. om_id m = membershipId)) (\<lambda>r. case r of
     None \<Rightarrow> throw (NotFoundException ''Membership not found'')
   | Some m \<Rightarrow> if om_organizationId m \<noteq> org then throw (NotFoundException ''Membership not found'') else ret m)"

definition org_updateMemberRole :: "id \<Rightarrow> id \<Rightarrow> OrganizationRole \<Rightarrow> id \<Rightarrow> request_meta \<Rightarrow> ('z member_db_scheme, org_member) svc" where
  "org_updateMemberRole org membershipId role actingUserId meta =
     bnd (org_getMembership org membershipId) (\<lambda>membership.
     seq (org_assertRoleAssignmentAllowed org actingUserId role)
     (seq (when_do (om_role membership = OrganizationRole.OWNER \<and> role \<noteq> OrganizationRole.OWNER) (org_assertNotLastOwner org membershipId))
     (bnd (update_row orgMembers orgMembers_update (\<lambda>m. om_id m = membershipId) (\<lambda>m. m\<lparr>om_role := role\<rparr>)) (\<lambda>updated.
      seq (audit ''ORGANIZATION_ROLE_CHANGED'' (Some actingUserId) (Some org) None
             [(''targetUserId'', JId (om_userId membership)), (''from'', JStr (org_role_str (om_role membership))), (''to'', JStr (org_role_str role))] meta)
          (ret updated)))))"

definition org_removeMember :: "id \<Rightarrow> id \<Rightarrow> id \<Rightarrow> request_meta \<Rightarrow> ('z member_db_scheme, unit) svc" where
  "org_removeMember org membershipId actingUserId meta =
     bnd (org_getMembership org membershipId) (\<lambda>membership.
     seq (when_do (om_role membership = OrganizationRole.OWNER) (org_assertNotLastOwner org membershipId))
     (seq (modify (orgMembers_update (filter (\<lambda>m. om_id m \<noteq> membershipId))))
          (audit ''ORGANIZATION_MEMBER_REMOVED'' (Some actingUserId) (Some org) None [(''targetUserId'', JId (om_userId membership))] meta)))"

section \<open>ApplicationsService\<close>

record create_app_dto =
  ca_name :: string
  ca_displayName :: "string option"
  ca_description :: "string option"
  ca_category :: "string option"
  ca_bundleIdentifier :: "string option"
  ca_packageName :: "string option"
  ca_webIdentifier :: "string option"
  ca_logoUrl :: "string option"
  ca_iconUrl :: "string option"
  ca_primaryColor :: "string option"
  ca_visibility :: "ApplicationVisibility option"

definition new_app :: "id \<Rightarrow> time \<Rightarrow> id \<Rightarrow> id \<Rightarrow> string \<Rightarrow> create_app_dto \<Rightarrow> app_entry" where
  "new_app i t org userId slug dto =
     \<lparr>ap_id = i, ap_organizationId = org, ap_name = ca_name dto, ap_slug = slug, ap_displayName = ca_displayName dto,
      ap_description = ca_description dto, ap_category = ca_category dto, ap_bundleIdentifier = ca_bundleIdentifier dto,
      ap_packageName = ca_packageName dto, ap_webIdentifier = ca_webIdentifier dto, ap_logoUrl = ca_logoUrl dto, ap_iconUrl = ca_iconUrl dto,
      ap_primaryColor = ca_primaryColor dto, ap_status = ApplicationStatus.ACTIVE, ap_visibility = orElse (ca_visibility dto) PRIVATE,
      ap_createdById = userId, ap_createdAt = t, ap_archivedAt = None\<rparr>"

text \<open>The unique columns: the slug and, where they are set, the three platform identifiers.\<close>

definition same_set :: "string option \<Rightarrow> string option \<Rightarrow> bool" where
  "same_set x y \<longleftrightarrow> x \<noteq> None \<and> x = y"

definition app_clash :: "app_entry \<Rightarrow> app_entry \<Rightarrow> bool" where
  "app_clash a x \<longleftrightarrow> ap_slug x = ap_slug a \<or> same_set (ap_bundleIdentifier x) (ap_bundleIdentifier a)
     \<or> same_set (ap_packageName x) (ap_packageName a) \<or> same_set (ap_webIdentifier x) (ap_webIdentifier a)"

definition new_app_member :: "id \<Rightarrow> time \<Rightarrow> id \<Rightarrow> id \<Rightarrow> ApplicationMemberRole \<Rightarrow> app_member" where
  "new_app_member i t app userId role = \<lparr>am_id = i, am_applicationId = app, am_userId = userId, am_role = role, am_createdAt = t\<rparr>"

definition insert_app_member :: "id \<Rightarrow> id \<Rightarrow> ApplicationMemberRole \<Rightarrow> ('z member_db_scheme, app_member) svc" where
  "insert_app_member app userId role = bnd fresh (\<lambda>i. bnd now (\<lambda>t.
     insert_unique appMembers appMembers_update (app_membership app userId) (new_app_member i t app userId role)))"

definition app_create :: "id \<Rightarrow> id \<Rightarrow> create_app_dto \<Rightarrow> request_meta \<Rightarrow> ('z member_db_scheme, app_entry) svc" where
  "app_create org userId dto meta =
     bnd (generateUniqueSlug ''app'' (\<lambda>s. map ap_slug (appEntries s)) (ca_name dto)) (\<lambda>slug.
     bnd (transaction
       (bnd fresh (\<lambda>i. bnd now (\<lambda>t.
        bnd (insert_unique appEntries appEntries_update (app_clash (new_app i t org userId slug dto)) (new_app i t org userId slug dto)) (\<lambda>app.
        seq (insert_app_member (ap_id app) userId ApplicationMemberRole.OWNER) (ret app)))))) (\<lambda>application.
     seq (audit ''APPLICATION_CREATED'' (Some userId) (Some org) (Some (ap_id application)) [] meta)
         (ret application)))"

definition app_visible :: "id \<Rightarrow> id \<Rightarrow> 'z member_db_scheme \<Rightarrow> app_entry \<Rightarrow> bool" where
  "app_visible org userId s a \<longleftrightarrow> ap_organizationId a = org \<and>
     ((case List.find (org_membership org userId) (orgMembers s) of None \<Rightarrow> False | Some m \<Rightarrow> orgRoleAtLeast (om_role m) OrganizationRole.ADMINISTRATOR)
      \<or> ap_visibility a = INTERNAL \<or> (\<exists>m \<in> set (appMembers s). app_membership (ap_id a) userId m))"

record app_page =
  pg_items :: "app_entry list"
  pg_total :: nat
  pg_page :: nat
  pg_pageSize :: nat

definition app_listForOrganization :: "id \<Rightarrow> id \<Rightarrow> nat option \<Rightarrow> nat option \<Rightarrow> ('z member_db_scheme, app_page) svc" where
  "app_listForOrganization org userId pageQ sizeQ = (let pageNo = orElse pageQ 1; pageSize = orElse sizeQ 20 in
     gets (\<lambda>s. \<lparr>pg_items = take pageSize (drop ((pageNo - 1) * pageSize) (order_by (\<lambda>a. - ap_createdAt a) (filter (app_visible org userId s) (appEntries s)))),
        pg_total = count_where (app_visible org userId s) (appEntries s), pg_page = pageNo, pg_pageSize = pageSize\<rparr>))"

definition app_getOne :: "id \<Rightarrow> ('z member_db_scheme, app_entry \<times> nat \<times> nat \<times> nat) svc" where
  "app_getOne app = bnd (find_row appEntries (\<lambda>a. ap_id a = app)) (\<lambda>r. case r of
     None \<Rightarrow> throw (NotFoundException ''Application not found'')
   | Some a \<Rightarrow> gets (\<lambda>s. (a, count_where (\<lambda>m. am_applicationId m = app) (appMembers s),
       count_where (\<lambda>v. ver_applicationId v = app) (appVersions s), count_where (\<lambda>d. dom_applicationId d = app) (appDomains s))))"

record update_app_dto =
  ua_name :: "string option"
  ua_displayName :: "string option"
  ua_description :: "string option"
  ua_category :: "string option"
  ua_bundleIdentifier :: "string option"
  ua_packageName :: "string option"
  ua_webIdentifier :: "string option"
  ua_logoUrl :: "string option"
  ua_iconUrl :: "string option"
  ua_primaryColor :: "string option"
  ua_visibility :: "ApplicationVisibility option"

text \<open>An \<open>undefined\<close> field keeps its column.\<close>

definition keepOpt :: "'a option \<Rightarrow> 'a option \<Rightarrow> 'a option" where
  "keepOpt x old = (case x of None \<Rightarrow> old | Some v \<Rightarrow> Some v)"

definition app_patch :: "update_app_dto \<Rightarrow> app_entry \<Rightarrow> app_entry" where
  "app_patch dto a = a\<lparr>ap_name := keepUndef (ua_name dto) (ap_name a), ap_displayName := keepOpt (ua_displayName dto) (ap_displayName a),
     ap_description := keepOpt (ua_description dto) (ap_description a), ap_category := keepOpt (ua_category dto) (ap_category a),
     ap_bundleIdentifier := keepOpt (ua_bundleIdentifier dto) (ap_bundleIdentifier a), ap_packageName := keepOpt (ua_packageName dto) (ap_packageName a),
     ap_webIdentifier := keepOpt (ua_webIdentifier dto) (ap_webIdentifier a), ap_logoUrl := keepOpt (ua_logoUrl dto) (ap_logoUrl a),
     ap_iconUrl := keepOpt (ua_iconUrl dto) (ap_iconUrl a), ap_primaryColor := keepOpt (ua_primaryColor dto) (ap_primaryColor a),
     ap_visibility := keepUndef (ua_visibility dto) (ap_visibility a)\<rparr>"

definition update_app :: "id \<Rightarrow> (app_entry \<Rightarrow> app_entry) \<Rightarrow> ('z member_db_scheme, app_entry) svc" where
  "update_app app f = bnd (find_or_throw appEntries (\<lambda>a. ap_id a = app)) (\<lambda>a.
     bnd (find_row appEntries (\<lambda>x. ap_id x \<noteq> app \<and> app_clash (f a) x)) (\<lambda>clash. case clash of
       Some _ \<Rightarrow> throw (PrismaError ''P2002'')
     | None \<Rightarrow> update_row appEntries appEntries_update (\<lambda>x. ap_id x = app) f))"

definition app_update :: "id \<Rightarrow> id \<Rightarrow> id \<Rightarrow> update_app_dto \<Rightarrow> request_meta \<Rightarrow> ('z member_db_scheme, app_entry) svc" where
  "app_update app org userId dto meta =
     bnd (update_app app (app_patch dto)) (\<lambda>application.
     seq (audit ''APPLICATION_UPDATED'' (Some userId) (Some org) (Some app) [] meta) (ret application))"

definition app_archive :: "id \<Rightarrow> id \<Rightarrow> id \<Rightarrow> request_meta \<Rightarrow> ('z member_db_scheme, app_entry) svc" where
  "app_archive app org userId meta = bnd now (\<lambda>t.
     bnd (update_row appEntries appEntries_update (\<lambda>a. ap_id a = app) (\<lambda>a. a\<lparr>ap_status := ARCHIVED, ap_archivedAt := Some t\<rparr>)) (\<lambda>application.
     seq (audit ''APPLICATION_ARCHIVED'' (Some userId) (Some org) (Some app) [] meta) (ret application)))"

definition app_restore :: "id \<Rightarrow> id \<Rightarrow> id \<Rightarrow> request_meta \<Rightarrow> ('z member_db_scheme, app_entry) svc" where
  "app_restore app org userId meta =
     bnd (update_row appEntries appEntries_update (\<lambda>a. ap_id a = app) (\<lambda>a. a\<lparr>ap_status := ApplicationStatus.ACTIVE, ap_archivedAt := None\<rparr>)) (\<lambda>application.
     seq (audit ''APPLICATION_RESTORED'' (Some userId) (Some org) (Some app) [] meta) (ret application))"

definition app_remove :: "(id \<Rightarrow> bool) \<Rightarrow> id \<Rightarrow> id \<Rightarrow> id \<Rightarrow> request_meta \<Rightarrow> ('z member_db_scheme, unit) svc" where
  "app_remove held app org userId meta =
     seq (audit ''APPLICATION_DELETED'' (Some userId) (Some org) (Some app) [] meta)
     (bnd (gets (\<lambda>s. \<exists>a \<in> set (appEntries s). ap_id a = app)) (\<lambda>present.
      delete_row present (held app) (drop_apps (\<lambda>a. a = app))))"

section \<open>ApplicationMembersService\<close>

record app_member_view =
  amv_membershipId :: id
  amv_role :: ApplicationMemberRole
  amv_joinedAt :: time
  amv_user :: public_user

definition mem_list :: "id \<Rightarrow> ('z member_db_scheme, app_member_view list) svc" where
  "mem_list app = gets (\<lambda>s. concat (map (\<lambda>m. case List.find (\<lambda>u. acc_id u = am_userId m) (accounts s) of
       None \<Rightarrow> [] | Some u \<Rightarrow> [\<lparr>amv_membershipId = am_id m, amv_role = am_role m, amv_joinedAt = am_createdAt m, amv_user = toPublicUser u\<rparr>])
     (order_by am_createdAt (filter (\<lambda>m. am_applicationId m = app) (appMembers s)))))"

definition mem_assertRoleAssignmentAllowed :: "id \<Rightarrow> id \<Rightarrow> ApplicationMemberRole \<Rightarrow> ('z member_db_scheme, unit) svc" where
  "mem_assertRoleAssignmentAllowed app actingUserId role =
     (if role \<noteq> ApplicationMemberRole.OWNER then ret ()
      else bnd (find_row appMembers (app_membership app actingUserId)) (\<lambda>r.
        if (case r of None \<Rightarrow> False | Some m \<Rightarrow> am_role m = ApplicationMemberRole.OWNER) then ret ()
        else bnd (find_or_throw appEntries (\<lambda>a. ap_id a = app)) (\<lambda>application.
          bnd (find_row orgMembers (org_membership (ap_organizationId application) actingUserId)) (\<lambda>o1.
          guard_or (case o1 of None \<Rightarrow> False | Some m \<Rightarrow> orgRoleAtLeast (om_role m) OrganizationRole.ADMINISTRATOR)
            (ForbiddenException ''Only an application owner (or the owning organization's owner/administrator) can grant the owner role'')))))"

definition mem_assertNotLastOwner :: "id \<Rightarrow> id \<Rightarrow> ('z member_db_scheme, unit) svc" where
  "mem_assertNotLastOwner app excluding =
     bnd (gets (\<lambda>s. count_where (\<lambda>m. am_applicationId m = app \<and> am_role m = ApplicationMemberRole.OWNER \<and> am_id m \<noteq> excluding) (appMembers s)))
       (\<lambda>ownerCount. guard_or (ownerCount \<noteq> 0) (BadRequestException ''Application must have at least one owner''))"

definition mem_add :: "id \<Rightarrow> string \<Rightarrow> ApplicationMemberRole \<Rightarrow> id \<Rightarrow> request_meta \<Rightarrow> ('z member_db_scheme, app_member) svc" where
  "mem_add app email role actingUserId meta =
     bnd (find_row accounts (\<lambda>u. acc_email u = email)) (\<lambda>r. case r of
       None \<Rightarrow> throw (NotFoundException ''No account exists for that email yet'')
     | Some user \<Rightarrow>
         bnd (find_row appMembers (app_membership app (acc_id user))) (\<lambda>existing.
         seq (guard_or (existing = None) (ConflictException ''User is already a member of this application''))
         (seq (mem_assertRoleAssignmentAllowed app actingUserId role)
         (bnd (insert_app_member app (acc_id user) role) (\<lambda>member.
          seq (audit ''APPLICATION_MEMBER_ADDED'' (Some actingUserId) None (Some app)
                 [(''targetUserId'', JId (acc_id user)), (''role'', JStr (app_role_str role))] meta)
              (ret member))))))"

definition mem_getMembership :: "id \<Rightarrow> id \<Rightarrow> ('z member_db_scheme, app_member) svc" where
  "mem_getMembership app membershipId = bnd (find_row appMembers (\<lambda>m. am_id m = membershipId)) (\<lambda>r. case r of
     None \<Rightarrow> throw (NotFoundException ''Membership not found'')
   | Some m \<Rightarrow> if am_applicationId m \<noteq> app then throw (NotFoundException ''Membership not found'') else ret m)"

definition mem_updateRole :: "id \<Rightarrow> id \<Rightarrow> ApplicationMemberRole \<Rightarrow> id \<Rightarrow> request_meta \<Rightarrow> ('z member_db_scheme, app_member) svc" where
  "mem_updateRole app membershipId role actingUserId meta =
     bnd (mem_getMembership app membershipId) (\<lambda>membership.
     seq (mem_assertRoleAssignmentAllowed app actingUserId role)
     (seq (when_do (am_role membership = ApplicationMemberRole.OWNER \<and> role \<noteq> ApplicationMemberRole.OWNER) (mem_assertNotLastOwner app membershipId))
     (bnd (update_row appMembers appMembers_update (\<lambda>m. am_id m = membershipId) (\<lambda>m. m\<lparr>am_role := role\<rparr>)) (\<lambda>updated.
      seq (audit ''APPLICATION_MEMBER_ROLE_CHANGED'' (Some actingUserId) None (Some app)
             [(''targetUserId'', JId (am_userId membership)), (''from'', JStr (app_role_str (am_role membership))), (''to'', JStr (app_role_str role))] meta)
          (ret updated)))))"

definition mem_remove :: "id \<Rightarrow> id \<Rightarrow> id \<Rightarrow> request_meta \<Rightarrow> ('z member_db_scheme, unit) svc" where
  "mem_remove app membershipId actingUserId meta =
     bnd (mem_getMembership app membershipId) (\<lambda>membership.
     seq (when_do (am_role membership = ApplicationMemberRole.OWNER) (mem_assertNotLastOwner app membershipId))
     (seq (modify (appMembers_update (filter (\<lambda>m. am_id m \<noteq> membershipId))))
          (audit ''APPLICATION_MEMBER_REMOVED'' (Some actingUserId) None (Some app) [(''targetUserId'', JId (am_userId membership))] meta)))"

section \<open>InvitationsService\<close>

definition INVITATION_TTL_MS :: int where "INVITATION_TTL_MS = 7 * 24 * 60 * 60 * 1000"

definition buildAcceptUrl :: "auth_world \<Rightarrow> string \<Rightarrow> string" where
  "buildAcceptUrl w token = w_webOrigin w @ ''/invitations/accept?token='' @ token"

definition same_email :: "string \<Rightarrow> string \<Rightarrow> bool" where
  "same_email a b \<longleftrightarrow> map lower a = map lower b"

definition send_invitation :: "string \<Rightarrow> string \<Rightarrow> string \<Rightarrow> ('z member_db_scheme, unit) svc" where
  "send_invitation email name url = modify (invitationMails_update (\<lambda>ms. ms @ [(email, name, url)]))"

definition new_invitation :: "auth_world \<Rightarrow> id \<Rightarrow> time \<Rightarrow> id \<Rightarrow> string \<Rightarrow> ApplicationMemberRole \<Rightarrow> string \<Rightarrow> id \<Rightarrow> invitation_row" where
  "new_invitation w i t app email role draw userId =
     \<lparr>di_id = i, di_applicationId = app, di_email = email, di_role = role, di_tokenHash = w_hashToken w draw,
      di_status = DeveloperInvitationStatus.PENDING, di_invitedById = userId, di_acceptedById = None, di_expiresAt = t + INVITATION_TTL_MS,
      di_acceptedAt = None, di_revokedAt = None, di_createdAt = t\<rparr>"

definition insert_invitation :: "auth_world \<Rightarrow> string \<Rightarrow> id \<Rightarrow> string \<Rightarrow> ApplicationMemberRole \<Rightarrow> id \<Rightarrow> ('z member_db_scheme, invitation_row) svc" where
  "insert_invitation w draw app email role userId = bnd fresh (\<lambda>i. bnd now (\<lambda>t.
     insert_unique invitations invitations_update (\<lambda>x. di_tokenHash x = w_hashToken w draw) (new_invitation w i t app email role draw userId)))"

definition pending_for :: "id \<Rightarrow> string \<Rightarrow> invitation_row \<Rightarrow> bool" where
  "pending_for app email i \<longleftrightarrow> di_applicationId i = app \<and> di_email i = email \<and> di_status i = DeveloperInvitationStatus.PENDING"

definition inv_create :: "auth_world \<Rightarrow> string \<Rightarrow> id \<Rightarrow> string \<Rightarrow> ApplicationMemberRole option \<Rightarrow> id \<Rightarrow> request_meta
    \<Rightarrow> ('z member_db_scheme, invitation_row \<times> string \<times> string) svc" where
  "inv_create w draw app email roleQ userId meta = (let role = orElse roleQ ApplicationMemberRole.DEVELOPER in
     seq (guard_or (role \<noteq> ApplicationMemberRole.OWNER) (BadRequestException ''Cannot invite as OWNER; ownership transfer is a separate operation''))
     (bnd (find_row appEntries (\<lambda>a. ap_id a = app)) (\<lambda>r. case r of
        None \<Rightarrow> throw (NotFoundException ''Application not found'')
      | Some application \<Rightarrow>
          bnd (gets (\<lambda>s. \<exists>m \<in> set (appMembers s). am_applicationId m = app
                 \<and> (\<exists>u \<in> set (accounts s). acc_id u = am_userId m \<and> same_email (acc_email u) email))) (\<lambda>existingMember.
          seq (guard_or (\<not> existingMember) (ConflictException ''This email is already a member of the application''))
          (bnd now (\<lambda>t.
           bnd (find_row invitations (pending_for app email)) (\<lambda>pending.
           seq (case pending of None \<Rightarrow> ret () | Some p \<Rightarrow> seq (update_row invitations invitations_update (\<lambda>i. di_id i = di_id p)
                  (\<lambda>i. i\<lparr>di_status := REVOKED, di_revokedAt := Some t\<rparr>)) (ret ()))
           (bnd (insert_invitation w draw app email role userId) (\<lambda>invitation.
            seq (send_invitation email (ap_name application) (buildAcceptUrl w draw))
            (seq (audit ''DEVELOPER_INVITATION_CREATED'' (Some userId) None (Some app)
                    [(''invitationId'', JId (di_id invitation)), (''email'', JStr (di_email invitation)), (''role'', JStr (app_role_str (di_role invitation)))] meta)
                 (ret (invitation, draw, buildAcceptUrl w draw))))))))))))"

definition inv_list :: "id \<Rightarrow> ('z member_db_scheme, invitation_row list) svc" where
  "inv_list app = gets (\<lambda>s. order_by (\<lambda>i. - di_createdAt i) (filter (\<lambda>i. di_applicationId i = app) (invitations s)))"

definition inv_getOwned :: "id \<Rightarrow> id \<Rightarrow> ('z member_db_scheme, invitation_row) svc" where
  "inv_getOwned app invitationId = bnd (find_row invitations (\<lambda>i. di_id i = invitationId)) (\<lambda>r. case r of
     None \<Rightarrow> throw (NotFoundException ''Invitation not found'')
   | Some i \<Rightarrow> if di_applicationId i \<noteq> app then throw (NotFoundException ''Invitation not found'') else ret i)"

definition inv_revoke :: "id \<Rightarrow> id \<Rightarrow> id \<Rightarrow> request_meta \<Rightarrow> ('z member_db_scheme, unit) svc" where
  "inv_revoke app invitationId userId meta =
     bnd (inv_getOwned app invitationId) (\<lambda>invitation.
     seq (guard_or (di_status invitation = DeveloperInvitationStatus.PENDING) (BadRequestException ''Only a pending invitation can be revoked''))
     (bnd now (\<lambda>t.
      seq (update_row invitations invitations_update (\<lambda>i. di_id i = invitationId) (\<lambda>i. i\<lparr>di_status := REVOKED, di_revokedAt := Some t\<rparr>))
          (audit ''DEVELOPER_INVITATION_REVOKED'' (Some userId) None (Some app) [(''invitationId'', JId invitationId)] meta))))"

definition inv_resend :: "auth_world \<Rightarrow> string \<Rightarrow> id \<Rightarrow> id \<Rightarrow> id \<Rightarrow> request_meta \<Rightarrow> ('z member_db_scheme, invitation_row \<times> string \<times> string) svc" where
  "inv_resend w draw app invitationId userId meta =
     bnd (inv_getOwned app invitationId) (\<lambda>invitation.
     seq (guard_or (di_status invitation = DeveloperInvitationStatus.PENDING) (BadRequestException ''Only a pending invitation can be resent''))
     (bnd (find_or_throw appEntries (\<lambda>a. ap_id a = app)) (\<lambda>application.
      bnd now (\<lambda>t.
      bnd (find_row invitations (\<lambda>x. di_tokenHash x = w_hashToken w draw)) (\<lambda>clash.
      seq (guard_or (clash = None) (PrismaError ''P2002''))
      (bnd (update_row invitations invitations_update (\<lambda>i. di_id i = invitationId)
             (\<lambda>i. i\<lparr>di_tokenHash := w_hashToken w draw, di_expiresAt := t + INVITATION_TTL_MS\<rparr>)) (\<lambda>updated.
       seq (send_invitation (di_email updated) (ap_name application) (buildAcceptUrl w draw))
       (seq (audit ''DEVELOPER_INVITATION_RESENT'' (Some userId) None (Some app) [(''invitationId'', JId invitationId)] meta)
            (ret (updated, draw, buildAcceptUrl w draw))))))))))"

definition accept_write :: "invitation_row \<Rightarrow> id \<Rightarrow> ('z member_db_scheme, app_member) svc" where
  "accept_write invitation userId = transaction
     (bnd (find_row appMembers (app_membership (di_applicationId invitation) userId)) (\<lambda>existing.
      bnd (case existing of Some m \<Rightarrow> ret m | None \<Rightarrow> insert_app_member (di_applicationId invitation) userId (di_role invitation)) (\<lambda>member.
      bnd now (\<lambda>t.
      seq (update_row invitations invitations_update (\<lambda>i. di_id i = di_id invitation)
            (\<lambda>i. i\<lparr>di_status := ACCEPTED, di_acceptedById := Some userId, di_acceptedAt := Some t\<rparr>))
          (ret member)))))"

text \<open>The email of an access token can be missing (a challenge token carries none): then \<open>toLowerCase\<close> throws.\<close>

definition inv_accept :: "auth_world \<Rightarrow> string \<Rightarrow> id \<Rightarrow> string option \<Rightarrow> request_meta \<Rightarrow> ('z member_db_scheme, app_member) svc" where
  "inv_accept w token userId email meta =
     bnd (find_row invitations (\<lambda>i. di_tokenHash i = w_hashToken w token)) (\<lambda>r. case r of
       None \<Rightarrow> throw (NotFoundException ''Invitation not found'')
     | Some invitation \<Rightarrow>
         seq (guard_or (di_status invitation = DeveloperInvitationStatus.PENDING) (BadRequestException ''Invitation is no longer pending''))
         (bnd now (\<lambda>t.
          if di_expiresAt invitation < t then
            seq (update_row invitations invitations_update (\<lambda>i. di_id i = di_id invitation) (\<lambda>i. i\<lparr>di_status := EXPIRED\<rparr>))
                (throw (BadRequestException ''Invitation has expired''))
          else (case email of
             None \<Rightarrow> throw (JsError (''Cannot read properties of undefined (reading 'toLowerCase'' @ [CHR 0x27] @ '')''))
           | Some e \<Rightarrow>
             seq (guard_or (same_email (di_email invitation) e) (ForbiddenException ''This invitation was sent to a different email address''))
             (bnd (accept_write invitation userId) (\<lambda>member.
              seq (audit ''DEVELOPER_INVITATION_ACCEPTED'' (Some userId) None (Some (di_applicationId invitation))
                     [(''invitationId'', JId (di_id invitation))] meta)
                  (ret member)))))))"

section \<open>Routes\<close>

text \<open>
  A request of an authenticated user to a route of a controller: the guard with the required role, then the
  service. Reading routes change nothing and are left out.
\<close>

datatype org_request =
    CreateOrganization string
  | UpdateOrganization id string
  | RemoveOrganization id
  | AddOrgMember id string OrganizationRole
  | UpdateOrgMemberRole id id OrganizationRole
  | RemoveOrgMember id id

datatype application_request =
    CreateApplication id create_app_dto
  | UpdateApplication id id update_app_dto
  | ArchiveApplication id id
  | RestoreApplication id id
  | RemoveApplication id id

datatype app_member_request =
    AddAppMember id string ApplicationMemberRole
  | UpdateAppMemberRole id id ApplicationMemberRole
  | RemoveAppMember id id

datatype invitation_request =
    CreateInvitation string id string "ApplicationMemberRole option"
  | RevokeInvitation id id
  | ResendInvitation string id id

datatype member_request =
    Organizations org_request
  | Applications application_request
  | AppMembers app_member_request
  | Invitations invitation_request
  | AcceptInvitation string "string option"

definition void :: "('s, 'a) svc \<Rightarrow> ('s, unit) svc" where
  "void m = seq m (ret ())"

abbreviation guarded_org :: "OrganizationRole \<Rightarrow> id \<Rightarrow> id \<Rightarrow> ('z member_db_scheme, 'a) svc \<Rightarrow> ('z member_db_scheme, unit) svc" where
  "guarded_org role org user m \<equiv> seq (organizationRoleGuard (Some role) (Some org) (Some user)) (void m)"

abbreviation guarded_app :: "ApplicationMemberRole \<Rightarrow> id \<Rightarrow> id option \<Rightarrow> id \<Rightarrow> ('z member_db_scheme, 'a) svc \<Rightarrow> ('z member_db_scheme, unit) svc" where
  "guarded_app role app org user m \<equiv> seq (applicationRoleGuard (Some role) (Some app) org (Some user)) (void m)"

fun handle_org :: "(id \<Rightarrow> bool) \<Rightarrow> id \<Rightarrow> request_meta \<Rightarrow> org_request \<Rightarrow> ('z member_db_scheme, unit) svc" where
  "handle_org held user meta (CreateOrganization name) = void (org_create user name meta)"
| "handle_org held user meta (UpdateOrganization org name) =
     guarded_org OrganizationRole.ADMINISTRATOR org user (org_update org name user meta)"
| "handle_org held user meta (RemoveOrganization org) = guarded_org OrganizationRole.OWNER org user (org_remove held org user meta)"
| "handle_org held user meta (AddOrgMember org email role) =
     guarded_org OrganizationRole.ADMINISTRATOR org user (org_addMember org email role user meta)"
| "handle_org held user meta (UpdateOrgMemberRole org m role) =
     guarded_org OrganizationRole.ADMINISTRATOR org user (org_updateMemberRole org m role user meta)"
| "handle_org held user meta (RemoveOrgMember org m) =
     guarded_org OrganizationRole.ADMINISTRATOR org user (org_removeMember org m user meta)"

fun handle_app :: "(id \<Rightarrow> bool) \<Rightarrow> id \<Rightarrow> request_meta \<Rightarrow> application_request \<Rightarrow> ('z member_db_scheme, unit) svc" where
  "handle_app held user meta (CreateApplication org dto) =
     guarded_org OrganizationRole.ADMINISTRATOR org user (app_create org user dto meta)"
| "handle_app held user meta (UpdateApplication app org dto) =
     guarded_app ApplicationMemberRole.ADMINISTRATOR app (Some org) user (app_update app org user dto meta)"
| "handle_app held user meta (ArchiveApplication app org) =
     guarded_app ApplicationMemberRole.ADMINISTRATOR app (Some org) user (app_archive app org user meta)"
| "handle_app held user meta (RestoreApplication app org) =
     guarded_app ApplicationMemberRole.ADMINISTRATOR app (Some org) user (app_restore app org user meta)"
| "handle_app held user meta (RemoveApplication app org) =
     guarded_app ApplicationMemberRole.OWNER app (Some org) user (app_remove held app org user meta)"

fun handle_app_member :: "id \<Rightarrow> request_meta \<Rightarrow> app_member_request \<Rightarrow> ('z member_db_scheme, unit) svc" where
  "handle_app_member user meta (AddAppMember app email role) =
     guarded_app ApplicationMemberRole.ADMINISTRATOR app None user (mem_add app email role user meta)"
| "handle_app_member user meta (UpdateAppMemberRole app m role) =
     guarded_app ApplicationMemberRole.ADMINISTRATOR app None user (mem_updateRole app m role user meta)"
| "handle_app_member user meta (RemoveAppMember app m) =
     guarded_app ApplicationMemberRole.ADMINISTRATOR app None user (mem_remove app m user meta)"

fun handle_invitation :: "auth_world \<Rightarrow> id \<Rightarrow> request_meta \<Rightarrow> invitation_request \<Rightarrow> ('z member_db_scheme, unit) svc" where
  "handle_invitation w user meta (CreateInvitation draw app email role) =
     guarded_app ApplicationMemberRole.ADMINISTRATOR app None user (inv_create w draw app email role user meta)"
| "handle_invitation w user meta (RevokeInvitation app i) =
     guarded_app ApplicationMemberRole.ADMINISTRATOR app None user (inv_revoke app i user meta)"
| "handle_invitation w user meta (ResendInvitation draw app i) =
     guarded_app ApplicationMemberRole.ADMINISTRATOR app None user (inv_resend w draw app i user meta)"

definition handle_acceptance :: "auth_world \<Rightarrow> id \<Rightarrow> request_meta \<Rightarrow> string \<Rightarrow> string option \<Rightarrow> ('z member_db_scheme, unit) svc" where
  "handle_acceptance w user meta token email = void (inv_accept w token user email meta)"

fun handle_request :: "auth_world \<Rightarrow> (id \<Rightarrow> bool) \<Rightarrow> id \<Rightarrow> request_meta \<Rightarrow> member_request \<Rightarrow> ('z member_db_scheme, unit) svc" where
  "handle_request w held user meta (Organizations r) = handle_org held user meta r"
| "handle_request w held user meta (Applications r) = handle_app held user meta r"
| "handle_request w held user meta (AppMembers r) = handle_app_member user meta r"
| "handle_request w held user meta (Invitations r) = handle_invitation w user meta r"
| "handle_request w held user meta (AcceptInvitation token email) = handle_acceptance w user meta token email"

end
