(* ===== verification/Membership_Flow.thy ===== *)
theory Membership_Flow
  imports Membership Auth_World
begin

text \<open>
  What the membership services guarantee: organisations and applications always have an owner, and ownership
  is only ever granted by those who may. The table of memberships of an organisation and that of an application
  obey one contract, the locale \<open>membership\<close>.
\<close>

section \<open>Tables of memberships\<close>

definition has_owner :: "('r \<Rightarrow> id) \<Rightarrow> ('r \<Rightarrow> bool) \<Rightarrow> 'r list \<Rightarrow> id \<Rightarrow> bool" where
  "has_owner scope owner rows i \<longleftrightarrow> (\<exists>m \<in> set rows. scope m = i \<and> owner m)"

text \<open>Membership ids are distinct and below the next id, and so are the scopes, each of which has an owner.\<close>

definition table_ok :: "('r \<Rightarrow> id) \<Rightarrow> ('r \<Rightarrow> id) \<Rightarrow> ('r \<Rightarrow> bool) \<Rightarrow> id list \<Rightarrow> 'r list \<Rightarrow> id \<Rightarrow> bool" where
  "table_ok ident scope owner scopes rows n \<longleftrightarrow> distinct (map ident rows) \<and> (\<forall>m \<in> set rows. ident m < n)
     \<and> (\<forall>i \<in> set scopes. i < n \<and> has_owner scope owner rows i)"

lemma scope_fresh: "table_ok ident scope owner (map k xs) rows (k x) \<Longrightarrow> x \<notin> set xs"
  by (auto simp: table_ok_def)

locale membership =
  fixes ident scope :: "'r \<Rightarrow> id" and owner :: "'r \<Rightarrow> bool" and promote :: "'role \<Rightarrow> 'r \<Rightarrow> 'r" and owner_role :: 'role
  assumes ident_promote [simp]: "ident (promote role m) = ident m"
    and scope_promote [simp]: "scope (promote role m) = scope m"
    and owner_promote [simp]: "owner (promote role m) \<longleftrightarrow> role = owner_role"
begin

lemma mono: "table_ok ident scope owner scopes rows n \<Longrightarrow> n \<le> n' \<Longrightarrow> table_ok ident scope owner scopes rows n'"
  by (auto simp: table_ok_def)

lemma add: "table_ok ident scope owner scopes rows n \<Longrightarrow> ident m = n \<Longrightarrow> table_ok ident scope owner scopes (rows @ [m]) (Suc n)"
  by (force simp: table_ok_def has_owner_def less_Suc_eq)

lemma found:
  "table_ok ident scope owner scopes rows n \<Longrightarrow> ident m = Suc n \<Longrightarrow> scope m = n \<Longrightarrow> owner m
   \<Longrightarrow> table_ok ident scope owner (scopes @ [n]) (rows @ [m]) (Suc (Suc n))"
  by (force simp: table_ok_def has_owner_def less_Suc_eq)

text \<open>A change of role, and a removal, of a membership that is no owner or not the last one.\<close>

definition replaceable :: "'r list \<Rightarrow> 'r \<Rightarrow> bool" where
  "replaceable rows m \<longleftrightarrow> \<not> owner m \<or> count_where (\<lambda>x. scope x = scope m \<and> owner x \<and> ident x \<noteq> ident m) rows \<noteq> 0"

lemma other_owner:
  assumes "distinct (map ident rows)" and "m \<in> set rows" and "replaceable rows m" and "has_owner scope owner rows i"
  shows "\<exists>x \<in> set rows. scope x = i \<and> owner x \<and> ident x \<noteq> ident m"
proof -
  obtain x where x: "x \<in> set rows" "scope x = i" "owner x" using assms(4) by (auto simp: has_owner_def)
  show ?thesis
  proof (cases "ident x = ident m")
    case True
    with x assms(1,2) have "x = m" by (auto dest: distinct_key_eq)
    with assms(3) x show ?thesis by (auto simp: replaceable_def count_where_zero)
  qed (use x in blast)
qed

lemma change:
  assumes "table_ok ident scope owner scopes rows n" and "m \<in> set rows" and "role = owner_role \<or> replaceable rows m"
  shows "table_ok ident scope owner scopes (upd_where (\<lambda>x. ident x = ident m) (promote role) rows) n"
proof -
  have "has_owner scope owner (upd_where (\<lambda>x. ident x = ident m) (promote role) rows) i" if "has_owner scope owner rows i" for i
  proof (cases "role = owner_role")
    case True
    obtain x where "x \<in> set rows" "scope x = i" "owner x" using \<open>has_owner scope owner rows i\<close> by (auto simp: has_owner_def)
    then have "(if ident x = ident m then promote role x else x) \<in> set (upd_where (\<lambda>x. ident x = ident m) (promote role) rows)"
      "scope (if ident x = ident m then promote role x else x) = i" "owner (if ident x = ident m then promote role x else x)"
      using True by (auto simp: set_upd_where)
    then show ?thesis unfolding has_owner_def by blast
  next
    case False
    with assms(1,3) that obtain x where "x \<in> set rows" "scope x = i" "owner x" "ident x \<noteq> ident m"
      using other_owner [OF _ assms(2), of i] unfolding table_ok_def by blast
    then show ?thesis by (auto simp: has_owner_def intro!: bexI [of _ x] upd_where_other_row)
  qed
  with assms(1) show ?thesis by (auto simp: table_ok_def map_upd_where ball_upd_where)
qed

lemma remove:
  assumes "table_ok ident scope owner scopes rows n" and "m \<in> set rows" and "replaceable rows m"
  shows "table_ok ident scope owner scopes (filter (\<lambda>x. ident x \<noteq> ident m) rows) n"
  using assms other_owner [OF _ assms(2,3)] by (fastforce simp: table_ok_def has_owner_def distinct_map_filter)

text \<open>Scopes that are deleted take their memberships with them.\<close>

lemma drop:
  "table_ok ident scope owner scopes rows n
   \<Longrightarrow> table_ok ident scope owner (filter (\<lambda>i. \<not> gone i) scopes) (filter (\<lambda>m. \<not> gone (scope m)) rows) n"
  by (auto simp: table_ok_def has_owner_def distinct_map_filter)

end

interpretation org_table: membership om_id om_organizationId "\<lambda>m. om_role m = OrganizationRole.OWNER" "\<lambda>role m. m\<lparr>om_role := role\<rparr>" OrganizationRole.OWNER
  by unfold_locales simp_all

interpretation app_table: membership am_id am_applicationId "\<lambda>m. am_role m = ApplicationMemberRole.OWNER" "\<lambda>role m. m\<lparr>am_role := role\<rparr>" ApplicationMemberRole.OWNER
  by unfold_locales simp_all

abbreviation org_table_ok :: "id list \<Rightarrow> org_member list \<Rightarrow> id \<Rightarrow> bool" where
  "org_table_ok \<equiv> table_ok om_id om_organizationId (\<lambda>m. om_role m = OrganizationRole.OWNER)"

abbreviation app_table_ok :: "id list \<Rightarrow> app_member list \<Rightarrow> id \<Rightarrow> bool" where
  "app_table_ok \<equiv> table_ok am_id am_applicationId (\<lambda>m. am_role m = ApplicationMemberRole.OWNER)"

section \<open>There is always an owner\<close>

definition members_ok :: "'z member_db_scheme \<Rightarrow> bool" where
  "members_ok s \<longleftrightarrow> org_table_ok (map org_id (organizations s)) (orgMembers s) (nextId s)
     \<and> app_table_ok (map ap_id (appEntries s)) (appMembers s) (nextId s)
     \<and> distinct (map ap_id (appEntries s)) \<and> distinct (map di_id (invitations s)) \<and> (\<forall>i \<in> set (invitations s). di_id i < nextId s)
     \<and> (\<forall>i \<in> set (invitations s). di_role i \<noteq> ApplicationMemberRole.OWNER)"

lemma members_ok_mono: "members_ok s \<Longrightarrow> nextId s \<le> n \<Longrightarrow> members_ok (s\<lparr>nextId := n\<rparr>)"
  by (auto simp: members_ok_def intro: org_table.mono app_table.mono)

lemma ok_plain [pres]:
  "preserves members_ok (audit act u o1 a md meta)" "preserves members_ok now" "preserves members_ok (send_invitation e nm url)"
  by (simp_all add: preserves_wps wp members_ok_def send_invitation_def)

lemma ok_fresh [pres]: "preserves members_ok fresh"
  by (auto simp: preserves_wps wp members_ok_def intro: org_table.mono app_table.mono)

lemma ok_slug [pres]: "preserves members_ok (generateUniqueSlug fallback taken name)"
  unfolding generateUniqueSlug_def by (intro pres)

lemma ok_org_create: "preserves members_ok (org_create userId name meta)"
proof -
  have "preserves members_ok (transaction (bnd fresh (\<lambda>i. bnd now (\<lambda>t.
        bnd (insert_unique organizations organizations_update (\<lambda>o1. org_slug o1 = slug) (new_organization i t name slug)) (\<lambda>org.
        seq (insert_org_member (org_id org) userId OrganizationRole.OWNER) (ret org))))))" for slug
    by (auto simp: preserves_wps wp insert_org_member_def members_ok_def new_org_member_def new_organization_def split: option.split
        intro!: org_table.found [simplified] app_table.mono [where n' = "Suc (Suc _)"])
  then show ?thesis unfolding org_create_def by (intro preserves_bnd [OF ok_slug] preserves_bnd [of members_ok "transaction _"] preserves_seq pres(1) ok_plain) auto
qed

lemma ok_delete:
  assumes "\<And>s. members_ok s \<Longrightarrow> members_ok (f s)"
  shows "preserves members_ok (delete_row present held f)"
  unfolding delete_row_def using assms by (intro pres)

lemma ok_drop_apps: "members_ok s \<Longrightarrow> members_ok (drop_apps gone s)"
  using app_table.drop [of "map ap_id (appEntries s)" "appMembers s" "nextId s" gone]
  by (auto simp: members_ok_def drop_apps_def filter_map comp_def distinct_map_filter)

lemma ok_drop_org: "members_ok s \<Longrightarrow> members_ok (drop_org org s)"
  unfolding drop_org_def
  using org_table.drop [of "map org_id (organizations s)" "orgMembers s" "nextId s" "\<lambda>i. i = org"]
  by (intro ok_drop_apps) (auto simp: members_ok_def filter_map comp_def)

lemma ok_org_remove: "preserves members_ok (org_remove held org userId meta)"
  unfolding org_remove_def split_beta by (intro pres ok_delete ok_drop_org)

lemma ok_app_remove: "preserves members_ok (app_remove held app org userId meta)"
  unfolding app_remove_def by (intro pres ok_delete ok_drop_apps)

lemma ok_org_update: "preserves members_ok (org_update org name userId meta)"
  unfolding org_update_def by (intro pres) (simp add: members_ok_def map_upd_where)

lemma ok_apps_keep:
  assumes "\<And>a. ap_id (f a) = ap_id a"
  shows "preserves members_ok (update_row appEntries appEntries_update P f)"
  using assms by (intro pres) (simp add: members_ok_def map_upd_where)

lemma ok_app_update: "preserves members_ok (app_update app org userId dto meta)"
  unfolding app_update_def update_app_def by (intro pres ok_apps_keep) (simp add: app_patch_def)

lemma ok_app_archive: "preserves members_ok (app_archive app org userId meta)" "preserves members_ok (app_restore app org userId meta)"
  unfolding app_archive_def app_restore_def by (intro pres ok_apps_keep; simp)+

lemma ok_insert_member:
  "preserves members_ok (insert_org_member org userId role)" "preserves members_ok (insert_app_member app userId arole)"
  by (auto simp: preserves_wps wp insert_org_member_def insert_app_member_def members_ok_def new_org_member_def new_app_member_def
      intro!: org_table.add app_table.add intro: org_table.mono app_table.mono split: option.split)

lemma ok_asserts [pres]:
  "preserves members_ok (org_assertRoleAssignmentAllowed org u role)" "preserves members_ok (org_assertNotLastOwner org m)"
  "preserves members_ok (mem_assertRoleAssignmentAllowed app u arole)" "preserves members_ok (mem_assertNotLastOwner app m)"
  unfolding org_assertRoleAssignmentAllowed_def org_assertNotLastOwner_def mem_assertRoleAssignmentAllowed_def mem_assertNotLastOwner_def
  by (intro pres)+

lemma ok_org_addMember: "preserves members_ok (org_addMember org email role u meta)"
  unfolding org_addMember_def by (intro pres ok_insert_member)

lemma ok_mem_add: "preserves members_ok (mem_add app email role u meta)"
  unfolding mem_add_def by (intro pres ok_insert_member)

text \<open>A request acts on what it has read: the membership found is the one that is changed.\<close>

lemma ok_updateMemberRole: "preserves members_ok (org_updateMemberRole org membershipId role u meta)"
proof (rule preserves_I)
  fix s r s'
  assume run: "org_updateMemberRole org membershipId role u meta s = (r, s')" and ok: "members_ok s"
  have change: "members_ok (orgMembers_update (upd_where (\<lambda>x. om_id x = membershipId) (\<lambda>m. m\<lparr>om_role := role\<rparr>)) s)"
    if "List.find (\<lambda>x. om_id x = membershipId) (orgMembers s) = Some m" "om_organizationId m = org"
      "role = OrganizationRole.OWNER \<or> om_role m \<noteq> OrganizationRole.OWNER
        \<or> count_where (\<lambda>x. om_organizationId x = org \<and> om_role x = OrganizationRole.OWNER \<and> om_id x \<noteq> membershipId) (orgMembers s) \<noteq> 0" for m
    using ok that find_SomeD [OF that(1)] org_table.change [of "map org_id (organizations s)" "orgMembers s" "nextId s" m role]
    by (auto simp: members_ok_def org_table.replaceable_def)
  have "wps (org_updateMemberRole org membershipId role u meta) (\<lambda>r s'. members_ok s') s"
    using ok change
    by (auto simp: org_updateMemberRole_def org_getMembership_def org_assertRoleAssignmentAllowed_def org_assertNotLastOwner_def wp
        members_ok_def split: option.split)
  with run show "members_ok s'" by (simp add: wps_def)
qed

lemma ok_removeMember: "preserves members_ok (org_removeMember org membershipId u meta)"
proof (rule preserves_I)
  fix s r s'
  assume run: "org_removeMember org membershipId u meta s = (r, s')" and ok: "members_ok s"
  have change: "members_ok (orgMembers_update (filter (\<lambda>x. om_id x \<noteq> membershipId)) s)"
    if "List.find (\<lambda>x. om_id x = membershipId) (orgMembers s) = Some m" "om_organizationId m = org"
      "om_role m \<noteq> OrganizationRole.OWNER
        \<or> count_where (\<lambda>x. om_organizationId x = org \<and> om_role x = OrganizationRole.OWNER \<and> om_id x \<noteq> membershipId) (orgMembers s) \<noteq> 0" for m
    using ok that find_SomeD [OF that(1)] org_table.remove [of "map org_id (organizations s)" "orgMembers s" "nextId s" m]
    by (auto simp: members_ok_def org_table.replaceable_def)
  have "wps (org_removeMember org membershipId u meta) (\<lambda>r s'. members_ok s') s"
    using ok change
    by (auto simp: org_removeMember_def org_getMembership_def org_assertNotLastOwner_def wp members_ok_def split: option.split)
  with run show "members_ok s'" by (simp add: wps_def)
qed

lemma wps_mem_assert: "wps (mem_assertRoleAssignmentAllowed app u role) Q s = Q (fst (mem_assertRoleAssignmentAllowed app u role s)) s"
proof -
  have "leaves (\<lambda>s. s) (mem_assertRoleAssignmentAllowed app u role)"
    unfolding mem_assertRoleAssignmentAllowed_def by (intro leaves_intro)
  from leaves_snd [OF this, of s] show ?thesis by (simp add: wps_run)
qed

lemma ok_mem_updateRole: "preserves members_ok (mem_updateRole app membershipId role u meta)"
proof (rule preserves_I)
  fix s r s'
  assume run: "mem_updateRole app membershipId role u meta s = (r, s')" and ok: "members_ok s"
  have change: "members_ok (appMembers_update (upd_where (\<lambda>x. am_id x = membershipId) (\<lambda>m. m\<lparr>am_role := role\<rparr>)) s)"
    if "List.find (\<lambda>x. am_id x = membershipId) (appMembers s) = Some m" "am_applicationId m = app"
      "role = ApplicationMemberRole.OWNER \<or> am_role m \<noteq> ApplicationMemberRole.OWNER
        \<or> count_where (\<lambda>x. am_applicationId x = app \<and> am_role x = ApplicationMemberRole.OWNER \<and> am_id x \<noteq> membershipId) (appMembers s) \<noteq> 0" for m
    using ok that find_SomeD [OF that(1)] app_table.change [of "map ap_id (appEntries s)" "appMembers s" "nextId s" m role]
    by (auto simp: members_ok_def app_table.replaceable_def)
  have "wps (mem_updateRole app membershipId role u meta) (\<lambda>r s'. members_ok s') s"
    using ok change
    by (auto simp: mem_updateRole_def mem_getMembership_def mem_assertNotLastOwner_def wp wps_mem_assert members_ok_def split: option.split sum.split)
  with run show "members_ok s'" by (simp add: wps_def)
qed

lemma ok_mem_remove: "preserves members_ok (mem_remove app membershipId u meta)"
proof (rule preserves_I)
  fix s r s'
  assume run: "mem_remove app membershipId u meta s = (r, s')" and ok: "members_ok s"
  have change: "members_ok (appMembers_update (filter (\<lambda>x. am_id x \<noteq> membershipId)) s)"
    if "List.find (\<lambda>x. am_id x = membershipId) (appMembers s) = Some m" "am_applicationId m = app"
      "am_role m \<noteq> ApplicationMemberRole.OWNER
        \<or> count_where (\<lambda>x. am_applicationId x = app \<and> am_role x = ApplicationMemberRole.OWNER \<and> am_id x \<noteq> membershipId) (appMembers s) \<noteq> 0" for m
    using ok that find_SomeD [OF that(1)] app_table.remove [of "map ap_id (appEntries s)" "appMembers s" "nextId s" m]
    by (auto simp: members_ok_def app_table.replaceable_def)
  have "wps (mem_remove app membershipId u meta) (\<lambda>r s'. members_ok s') s"
    using ok change
    by (auto simp: mem_remove_def mem_getMembership_def mem_assertNotLastOwner_def wp members_ok_def split: option.split)
  with run show "members_ok s'" by (simp add: wps_def)
qed

lemma ok_invitations_keep:
  assumes "\<And>i. di_role (f i) = di_role i" and "\<And>i. di_id (f i) = di_id i"
  shows "preserves members_ok (update_row invitations invitations_update P f)"
  using assms by (intro pres) (simp add: members_ok_def all_upd_where map_upd_where)

lemma ok_app_create: "preserves members_ok (app_create org userId dto meta)"
proof -
  have "preserves members_ok (transaction (bnd fresh (\<lambda>i. bnd now (\<lambda>t.
        bnd (insert_unique appEntries appEntries_update (app_clash (new_app i t org userId slug dto)) (new_app i t org userId slug dto)) (\<lambda>app.
        seq (insert_app_member (ap_id app) userId ApplicationMemberRole.OWNER) (ret app))))))" for slug
    by (auto simp: preserves_wps wp insert_app_member_def members_ok_def new_app_member_def new_app_def split: option.split
        intro!: app_table.found [simplified] org_table.mono [where n' = "Suc (Suc _)"] dest: scope_fresh)
  then show ?thesis unfolding app_create_def by (intro preserves_bnd [OF ok_slug] preserves_bnd [of members_ok "transaction _"] preserves_seq pres(1) ok_plain) auto
qed

lemma ok_inv_create: "preserves (members_ok :: 'z member_db_scheme \<Rightarrow> bool) (inv_create w draw app email role u meta)"
proof (cases "orElse role ApplicationMemberRole.DEVELOPER = ApplicationMemberRole.OWNER")
  case True
  then show ?thesis by (simp add: preserves_def inv_create_def Let_def run)
next
  case False
  have "preserves (members_ok :: 'z member_db_scheme \<Rightarrow> bool) (insert_invitation w draw app email (orElse role ApplicationMemberRole.DEVELOPER) u)"
    using False by (auto simp: preserves_wps insert_invitation_def new_invitation_def wp members_ok_def less_SucI
        intro: org_table.mono app_table.mono split: option.split)
  moreover have "members_ok (invitations_update (upd_where P (\<lambda>i. i\<lparr>di_status := REVOKED, di_revokedAt := Some t\<rparr>)) s)"
    if "members_ok s" for P t and s :: "'z member_db_scheme"
    using that by (simp add: members_ok_def all_upd_where map_upd_where)
  ultimately show ?thesis unfolding inv_create_def Let_def by (intro pres)
qed

lemma ok_inv: "preserves members_ok (inv_revoke app i u meta)" "preserves members_ok (inv_resend w draw app i u meta)"
  unfolding inv_revoke_def inv_resend_def inv_getOwned_def by (intro pres ok_invitations_keep; simp)+

lemma ok_inv_accept: "preserves members_ok (inv_accept w token u email meta)"
  unfolding inv_accept_def accept_write_def by (intro pres ok_insert_member ok_invitations_keep; simp)

lemma ok_guards [pres]:
  "preserves members_ok (organizationRoleGuard role org u)" "preserves members_ok (applicationRoleGuard arole app org u)"
  unfolding organizationRoleGuard_def applicationRoleGuard_def app_role_check_def
  by (auto intro!: pres split: option.split)

lemma ok_routes:
  "preserves members_ok (handle_org held u meta orq)" "preserves members_ok (handle_app held u meta arq)"
  "preserves members_ok (handle_app_member u meta mrq)" "preserves members_ok (handle_invitation w u meta irq)"
  "preserves members_ok (handle_acceptance w u meta token email)"
  unfolding handle_acceptance_def
  subgoal by (cases orq) (auto simp: void_def intro!: preserves_seq preserves_ret ok_guards ok_org_create ok_org_update ok_org_remove
        ok_org_addMember ok_updateMemberRole ok_removeMember)
  subgoal by (cases arq) (auto simp: void_def intro!: preserves_seq preserves_ret ok_guards ok_app_create ok_app_update ok_app_archive ok_app_remove)
  subgoal by (cases mrq) (auto simp: void_def intro!: preserves_seq preserves_ret ok_guards ok_mem_add ok_mem_updateRole ok_mem_remove)
  subgoal by (cases irq) (auto simp: void_def intro!: preserves_seq preserves_ret ok_guards ok_inv_create ok_inv)
  subgoal by (auto simp: void_def intro!: preserves_seq preserves_ret ok_inv_accept)
  done

lemma ok_request: "preserves members_ok (handle_request w held u meta req)"
  by (cases req) (simp_all add: ok_routes)

text \<open>Requests of any users, and the passing of time.\<close>

inductive member_step :: "auth_world \<Rightarrow> (id \<Rightarrow> bool) \<Rightarrow> 'z member_db_scheme \<Rightarrow> 'z member_db_scheme \<Rightarrow> bool" for w held where
  time_passes: "member_step w held s (clock_update f s)"
| request: "member_step w held s (snd (handle_request w held u meta req s))"

lemma member_step_ok: "member_step w held s s' \<Longrightarrow> members_ok s \<Longrightarrow> members_ok s'"
proof (induction rule: member_step.induct)
  case (time_passes s f)
  then show ?case by (simp add: members_ok_def)
qed (simp add: preservesD ok_request)

lemma member_steps_ok: "(member_step w held)\<^sup>*\<^sup>* s s' \<Longrightarrow> members_ok s \<Longrightarrow> members_ok s'"
  by (induction rule: rtranclp_induct) (auto intro: member_step_ok)

section \<open>Sample rows\<close>

definition bob :: account where
  "bob = ada\<lparr>acc_id := 2, acc_email := ''bob@example.org''\<rparr>"

text \<open>Ada owns organisation 1 with application 7; Bob owns organisation 2 and is invited to the application.\<close>

definition sample_app :: app_entry where
  "sample_app = new_app 7 1690000000000 1 1 ''planner''
     \<lparr>ca_name = ''Planner'', ca_displayName = None, ca_description = None, ca_category = None, ca_bundleIdentifier = None, ca_packageName = None,
      ca_webIdentifier = None, ca_logoUrl = None, ca_iconUrl = None, ca_primaryColor = None, ca_visibility = None\<rparr>"

definition sample_members :: member_db where
  "sample_members = \<lparr>clock = 1700000000000, nextId = 100, audits = [], platformEvents = [], automationRules = [], jobs = [],
     jobHistory = [], queueControls = [], accounts = [ada, bob], sessions = [], resetTokens = [], twoFactors = [], resetMails = [],
     organizations = [new_organization 1 0 ''Acme'' ''acme'', new_organization 2 0 ''Bobs'' ''bobs''],
     orgMembers = [new_org_member 20 0 1 1 OrganizationRole.OWNER, new_org_member 21 0 2 2 OrganizationRole.OWNER],
     appEntries = [sample_app], appMembers = [new_app_member 30 0 7 1 ApplicationMemberRole.OWNER],
     invitations = [new_invitation sample_auth_world 40 1699999999000 7 ''Bob@example.org'' MAINTAINER ''secret'' 1],
     appVersions = [], appDomains = [], platformAdmins = [], invitationMails = []\<rparr>"

lemmas sample_member_defs = sample_members_def new_organization_def sample_app_def bob_def new_org_member_def new_app_member_def new_invitation_def new_app_def
  INVITATION_TTL_MS_def

lemma sample_members_ok: "members_ok sample_members"
  by (simp add: members_ok_def table_ok_def has_owner_def sample_member_defs)

text \<open>C25. Whatever is requested by whomever, every organisation and every application has an owner.\<close>

theorem always_an_owner:
  assumes "(member_step w held)\<^sup>*\<^sup>* s s'" and "members_ok s"
  shows "(\<forall>o1 \<in> set (organizations s'). \<exists>m \<in> set (orgMembers s'). om_organizationId m = org_id o1 \<and> om_role m = OrganizationRole.OWNER)
    \<and> (\<forall>a \<in> set (appEntries s'). \<exists>m \<in> set (appMembers s'). am_applicationId m = ap_id a \<and> am_role m = ApplicationMemberRole.OWNER)"
  using member_steps_ok [OF assms] by (auto simp: members_ok_def table_ok_def has_owner_def)

theorem always_an_owner_witness:
  "let s' = snd (handle_request sample_auth_world (\<lambda>_. False) 1 no_meta (Organizations (RemoveOrgMember 1 20)) sample_members) in
   (\<forall>o1 \<in> set (organizations s'). \<exists>m \<in> set (orgMembers s'). om_organizationId m = org_id o1 \<and> om_role m = OrganizationRole.OWNER)
    \<and> (\<forall>a \<in> set (appEntries s'). \<exists>m \<in> set (appMembers s'). am_applicationId m = ap_id a \<and> am_role m = ApplicationMemberRole.OWNER)"
  unfolding Let_def
  by (rule always_an_owner [OF _ sample_members_ok]) (rule r_into_rtranclp, rule member_step.request)

section \<open>Who grants ownership\<close>

definition owns_org :: "id \<Rightarrow> id \<Rightarrow> 'z member_db_scheme \<Rightarrow> bool" where
  "owns_org u org s \<longleftrightarrow> (\<exists>m \<in> set (orgMembers s). om_organizationId m = org \<and> om_userId m = u \<and> om_role m = OrganizationRole.OWNER)"

definition owns_app :: "id \<Rightarrow> id \<Rightarrow> 'z member_db_scheme \<Rightarrow> bool" where
  "owns_app u app s \<longleftrightarrow> (\<exists>m \<in> set (appMembers s). am_applicationId m = app \<and> am_userId m = u \<and> am_role m = ApplicationMemberRole.OWNER)"

definition administers :: "id \<Rightarrow> id \<Rightarrow> 'z member_db_scheme \<Rightarrow> bool" where
  "administers u app s \<longleftrightarrow> (\<exists>a \<in> set (appEntries s). ap_id a = app
     \<and> (\<exists>m \<in> set (orgMembers s). om_organizationId m = ap_organizationId a \<and> om_userId m = u \<and> orgRoleAtLeast (om_role m) OrganizationRole.ADMINISTRATOR))"

definition grants_fair :: "id \<Rightarrow> 'z member_db_scheme \<Rightarrow> 'z member_db_scheme \<Rightarrow> bool" where
  "grants_fair u s s' \<longleftrightarrow>
     (\<forall>m \<in> set (orgMembers s'). om_role m = OrganizationRole.OWNER \<longrightarrow> owns_org (om_userId m) (om_organizationId m) s
        \<or> owns_org u (om_organizationId m) s \<or> om_userId m = u \<and> om_organizationId m \<notin> org_id ` set (organizations s))
     \<and> (\<forall>m \<in> set (appMembers s'). am_role m = ApplicationMemberRole.OWNER \<longrightarrow> owns_app (am_userId m) (am_applicationId m) s
        \<or> owns_app u (am_applicationId m) s \<or> administers u (am_applicationId m) s
        \<or> am_userId m = u \<and> am_applicationId m \<notin> ap_id ` set (appEntries s))"

lemma fair_subset: "set (orgMembers s') \<subseteq> set (orgMembers s) \<Longrightarrow> set (appMembers s') \<subseteq> set (appMembers s) \<Longrightarrow> grants_fair u s s'"
  by (auto simp: grants_fair_def owns_org_def owns_app_def)

lemma fair_leaves: "leaves (\<lambda>s. (orgMembers s, appMembers s)) m \<Longrightarrow> grants_fair u s (snd (m s))"
  using leaves_snd [of "\<lambda>s. (orgMembers s, appMembers s)" m s] by (intro fair_subset) simp_all

lemma fair_wps: "wps m (\<lambda>r s'. grants_fair u s s') s \<Longrightarrow> grants_fair u s (snd (m s))"
  by (simp add: wps_run)

lemma fair_guarded:
  assumes "leaves (\<lambda>s. s) g" and "grants_fair u s (snd (m s))"
  shows "grants_fair u s (snd (seq g (void m) s))"
proof -
  have "snd (void m s) = snd (m s)" by (simp add: void_def snd_seq_ret)
  moreover have "snd (g s) = s" using leaves_snd [OF assms(1)] .
  ultimately show ?thesis using assms(2)
    by (auto simp: seq_step fair_subset split: prod.split sum.split)
qed

lemma guards_read: "leaves (\<lambda>s. s) (organizationRoleGuard role org u)" "leaves (\<lambda>s. s) (applicationRoleGuard arole app org u)"
  unfolding organizationRoleGuard_def applicationRoleGuard_def app_role_check_def
  by (auto intro!: leaves_intro split: option.split)

lemma fair_org_create: "members_ok s \<Longrightarrow> grants_fair u s (snd (org_create u name meta s))"
  by (rule fair_wps)
    (auto simp: org_create_def generateUniqueSlug_def insert_org_member_def new_org_member_def new_organization_def wp grants_fair_def owns_org_def owns_app_def
      members_ok_def table_ok_def split: option.split)

lemma fair_app_create: "members_ok s \<Longrightarrow> grants_fair u s (snd (app_create org u dto meta s))"
  by (rule fair_wps)
    (auto simp: app_create_def generateUniqueSlug_def insert_app_member_def new_app_member_def new_app_def wp grants_fair_def owns_org_def owns_app_def
      members_ok_def table_ok_def split: option.split)

lemma fair_org_add: "grants_fair u s (snd (org_addMember org email role u meta s))"
  by (rule fair_wps)
    (auto simp: org_addMember_def org_assertRoleAssignmentAllowed_def insert_org_member_def new_org_member_def org_membership_def wp
      grants_fair_def owns_org_def owns_app_def dest!: find_SomeD split: option.split)

text \<open>A change of role, to one that the assertion allows.\<close>

lemma fair_org_role:
  assumes "members_ok s" and "List.find (\<lambda>m. om_id m = i) (orgMembers s) = Some m0" and "om_organizationId m0 = org"
    and "role = OrganizationRole.OWNER \<Longrightarrow> owns_org u org s"
  shows "grants_fair u s (orgMembers_update (upd_where (\<lambda>m. om_id m = i) (\<lambda>m. m\<lparr>om_role := role\<rparr>)) s)"
proof -
  have "owns_org (om_userId m) (om_organizationId m) s \<or> owns_org u (om_organizationId m) s"
    if in_table: "m \<in> set (upd_where (\<lambda>m. om_id m = i) (\<lambda>m. m\<lparr>om_role := role\<rparr>) (orgMembers s))" and own: "om_role m = OrganizationRole.OWNER" for m
  proof -
    obtain r where r: "r \<in> set (orgMembers s)" "m = (if om_id r = i then r\<lparr>om_role := role\<rparr> else r)"
      using in_table by (auto simp: set_upd_where)
    show ?thesis
    proof (cases "om_id r = i")
      case True
      then have "r = m0" using assms(1,2) find_SomeD r(1) distinct_key_eq [of om_id "orgMembers s" r m0]
        by (force simp: members_ok_def table_ok_def)
      with assms(3,4) own r True show ?thesis by simp
    next
      case False
      with r own show ?thesis by (auto simp: owns_org_def)
    qed
  qed
  then show ?thesis by (auto simp: grants_fair_def owns_app_def)
qed

lemma fair_app_role:
  assumes "members_ok s" and "List.find (\<lambda>m. am_id m = i) (appMembers s) = Some m0" and "am_applicationId m0 = app"
    and "role = ApplicationMemberRole.OWNER \<Longrightarrow> owns_app u app s \<or> administers u app s"
  shows "grants_fair u s (appMembers_update (upd_where (\<lambda>m. am_id m = i) (\<lambda>m. m\<lparr>am_role := role\<rparr>)) s)"
proof -
  have "owns_app (am_userId m) (am_applicationId m) s \<or> owns_app u (am_applicationId m) s \<or> administers u (am_applicationId m) s"
    if in_table: "m \<in> set (upd_where (\<lambda>m. am_id m = i) (\<lambda>m. m\<lparr>am_role := role\<rparr>) (appMembers s))" and own: "am_role m = ApplicationMemberRole.OWNER" for m
  proof -
    obtain r where r: "r \<in> set (appMembers s)" "m = (if am_id r = i then r\<lparr>am_role := role\<rparr> else r)"
      using in_table by (auto simp: set_upd_where)
    show ?thesis
    proof (cases "am_id r = i")
      case True
      then have "r = m0" using assms(1,2) find_SomeD r(1) distinct_key_eq [of am_id "appMembers s" r m0]
        by (force simp: members_ok_def table_ok_def)
      with assms(3,4) own r True show ?thesis by simp
    next
      case False
      with r own show ?thesis by (auto simp: owns_app_def)
    qed
  qed
  then show ?thesis by (auto simp: grants_fair_def owns_org_def)
qed

lemma org_assert_owner:
  "fst (org_assertRoleAssignmentAllowed org u OrganizationRole.OWNER s) = Inr x \<Longrightarrow> owns_org u org s"
  by (auto simp: org_assertRoleAssignmentAllowed_def run guard_or_def owns_org_def org_membership_def dest!: find_SomeD split: option.splits if_splits)

lemma mem_assert_owner:
  "fst (mem_assertRoleAssignmentAllowed app u ApplicationMemberRole.OWNER s) = Inr x \<Longrightarrow> owns_app u app s \<or> administers u app s"
  by (auto simp: mem_assertRoleAssignmentAllowed_def find_or_throw_def run guard_or_def owns_app_def administers_def org_membership_def
      app_membership_def dest!: find_SomeD split: option.splits if_splits)

lemma wps_org_assert: "wps (org_assertRoleAssignmentAllowed org u role) Q s = Q (fst (org_assertRoleAssignmentAllowed org u role s)) s"
proof -
  have "leaves (\<lambda>s. s) (org_assertRoleAssignmentAllowed org u role)"
    unfolding org_assertRoleAssignmentAllowed_def by (intro leaves_intro)
  from leaves_snd [OF this, of s] show ?thesis by (simp add: wps_run)
qed

lemma fair_refl: "grants_fair u s s"
  by (simp add: fair_subset)

lemma fair_platform [simp]:
  "grants_fair u s (audits_update f s') = grants_fair u s s'" "grants_fair u s (nextId_update g s') = grants_fair u s s'"
  "grants_fair u s (invitations_update h s') = grants_fair u s s'"
  by (simp_all add: grants_fair_def)

lemma fair_org_update: "members_ok s \<Longrightarrow> grants_fair u s (snd (org_updateMemberRole org m role u meta s))"
  by (rule fair_wps)
    (auto simp: org_updateMemberRole_def org_getMembership_def org_assertNotLastOwner_def wp wps_org_assert fair_refl
      intro!: fair_org_role dest: org_assert_owner split: option.split sum.split)

lemma fair_mem_update: "members_ok s \<Longrightarrow> grants_fair u s (snd (mem_updateRole app m role u meta s))"
  by (rule fair_wps)
    (auto simp: mem_updateRole_def mem_getMembership_def mem_assertNotLastOwner_def wp wps_mem_assert fair_refl
      intro!: fair_app_role dest: mem_assert_owner split: option.split sum.split)

lemma fair_mem_add: "grants_fair u s (snd (mem_add app email role u meta s))"
proof -
  have new: "grants_fair u s (appMembers_update (\<lambda>rs. rs @ [new_app_member i t app v role]) s'')"
    if "fst (mem_assertRoleAssignmentAllowed app u role s) = Inr x" "appMembers s'' = appMembers s" "orgMembers s'' = orgMembers s" for x i t v s''
    using that mem_assert_owner [of app u s x]
    by (cases "role = ApplicationMemberRole.OWNER") (auto simp: grants_fair_def new_app_member_def owns_org_def owns_app_def)
  show ?thesis
    by (rule fair_wps)
      (auto simp: mem_add_def insert_app_member_def wp wps_mem_assert fair_refl intro!: new split: option.split sum.split)
qed

lemma fair_accept:
  assumes "members_ok s"
  shows "grants_fair v s (snd (inv_accept w token u email meta s))"
proof -
  have new: "grants_fair v s (appMembers_update (\<lambda>rs. rs @ [new_app_member i t app u (di_role x)]) s'')"
    if "x \<in> set (invitations s)" "appMembers s'' = appMembers s" "orgMembers s'' = orgMembers s" for x i t app s''
    using that assms by (auto simp: grants_fair_def new_app_member_def owns_org_def owns_app_def members_ok_def)
  show ?thesis
    by (rule fair_wps)
      (auto simp: inv_accept_def accept_write_def insert_app_member_def wp fair_refl intro!: new dest: find_SomeD split: option.split)
qed

lemma fair_removals:
  "grants_fair u s (snd (org_removeMember org m v meta s))" "grants_fair u s (snd (mem_remove app m v meta s))"
  "grants_fair u s (snd (org_remove held org v meta s))" "grants_fair u s (snd (app_remove held app org v meta s))"
  by (intro fair_wps; auto simp: org_removeMember_def org_getMembership_def org_assertNotLastOwner_def mem_remove_def mem_getMembership_def
      mem_assertNotLastOwner_def org_remove_def app_remove_def delete_row_def drop_org_def drop_apps_def wp intro!: fair_subset split: option.split)+

lemma fair_others:
  "grants_fair u s (snd (org_update org name v meta s))" "grants_fair u s (snd (app_update app org v dto meta s))"
  "grants_fair u s (snd (app_archive app org v meta s))" "grants_fair u s (snd (app_restore app org v meta s))"
  "grants_fair u s (snd (inv_create w draw app email role v meta s))" "grants_fair u s (snd (inv_revoke app i v meta s))"
  "grants_fair u s (snd (inv_resend w draw app i v meta s))"
  unfolding org_update_def app_update_def update_app_def app_archive_def app_restore_def inv_create_def inv_revoke_def inv_resend_def
    inv_getOwned_def send_invitation_def insert_invitation_def Let_def
  by (rule fair_leaves; intro leaves_all leaves_platform; simp)+

lemma fair_void: "grants_fair u s (snd (m s)) \<Longrightarrow> grants_fair u s (snd (void m s))"
  by (simp add: void_def snd_seq_ret)

lemma fair_routes:
  assumes "members_ok s"
  shows "grants_fair u s (snd (handle_org held u meta orq s))" "grants_fair u s (snd (handle_app held u meta arq s))"
    "grants_fair u s (snd (handle_app_member u meta mrq s))" "grants_fair u s (snd (handle_invitation w u meta irq s))"
    "grants_fair u s (snd (handle_acceptance w u meta token email s))"
  unfolding handle_acceptance_def
  subgoal using assms by (cases orq) (auto intro!: fair_guarded fair_void guards_read fair_org_create fair_org_add fair_org_update fair_removals fair_others)
  subgoal using assms by (cases arq) (auto intro!: fair_guarded guards_read fair_app_create fair_removals fair_others)
  subgoal using assms by (cases mrq) (auto intro!: fair_guarded guards_read fair_mem_add fair_mem_update fair_removals)
  subgoal using assms by (cases irq) (auto intro!: fair_guarded guards_read fair_others)
  subgoal using assms by (auto intro!: fair_void fair_accept)
  done

lemma request_fair: "members_ok s \<Longrightarrow> grants_fair u s (snd (handle_request w held u meta req s))"
  by (cases req) (simp_all add: fair_routes)

text \<open>C37. Nobody escalates to ownership: after a request of user \<open>u\<close>, an owner of an organisation was one before, or
  \<open>u\<close> was, or \<open>u\<close> has just created the organisation; an owner of an application was one before, or \<open>u\<close>
  owned the application or administered its organisation, or \<open>u\<close> has just created it.
\<close>

theorem ownership_only_granted:
  assumes "members_ok s" and "snd (handle_request w held u meta req s) = s'"
  shows "(\<forall>x org. owns_org x org s' \<longrightarrow> owns_org x org s \<or> owns_org u org s \<or> x = u \<and> org \<notin> org_id ` set (organizations s))
    \<and> (\<forall>x app. owns_app x app s' \<longrightarrow> owns_app x app s \<or> owns_app u app s \<or> administers u app s \<or> x = u \<and> app \<notin> ap_id ` set (appEntries s))"
  using request_fair [OF assms(1), of u w held meta req] unfolding assms(2)
  by (auto simp: grants_fair_def owns_org_def [of _ _ s'] owns_app_def [of _ _ s'])

theorem ownership_only_granted_witness:
  "owns_org 1 1 sample_members
   \<and> \<not> owns_org 2 1 (snd (handle_request sample_auth_world (\<lambda>_. False) 2 no_meta (Organizations (UpdateOrgMemberRole 1 20 OrganizationRole.VIEWER)) sample_members))"
proof -
  have "owns_org 1 1 sample_members" "\<not> owns_org 2 1 sample_members" "1 \<in> org_id ` set (organizations sample_members)"
    by (auto simp: owns_org_def sample_member_defs)
  with ownership_only_granted [OF sample_members_ok refl, of sample_auth_world "\<lambda>_. False" 2 no_meta
      "Organizations (UpdateOrgMemberRole 1 20 OrganizationRole.VIEWER)"] show ?thesis by blast
qed

end
