(* ===== verification/Tenants.thy ===== *)
theory Tenants
  imports Membership_Flow
begin

text \<open>
  Requests of a user reach only the organisations and applications the user belongs to.
\<close>

section \<open>Tenants are isolated\<close>

definition apps_of :: "id \<Rightarrow> 'z member_db_scheme \<Rightarrow> id set" where
  "apps_of org s = ap_id ` {a \<in> set (appEntries s). ap_organizationId a = org}"

lemma apps_of_other [simp]:
  "apps_of org (organizations_update f1 s) = apps_of org s" "apps_of org (orgMembers_update f2 s) = apps_of org s"
  "apps_of org (appMembers_update f3 s) = apps_of org s" "apps_of org (invitations_update f4 s) = apps_of org s"
  "apps_of org (audits_update f5 s) = apps_of org s" "apps_of org (nextId_update f6 s) = apps_of org s"
  "apps_of org (invitationMails_update f7 s) = apps_of org s"
  by (simp_all add: apps_of_def)

lemma apps_of_new [simp]:
  "x \<noteq> org \<Longrightarrow> apps_of org (appEntries_update (\<lambda>rs. rs @ [new_app i t x v slug dto]) s) = apps_of org s"
  by (auto simp: apps_of_def new_app_def)

text \<open>The rows of an organisation: its own, its memberships, its applications with their memberships and invitations.\<close>

definition tenant :: "id \<Rightarrow> 'z member_db_scheme
    \<Rightarrow> organization_row list \<times> org_member list \<times> app_entry list \<times> app_member list \<times> invitation_row list" where
  "tenant org s = (filter (\<lambda>x. org_id x = org) (organizations s), filter (\<lambda>m. om_organizationId m = org) (orgMembers s),
     filter (\<lambda>a. ap_organizationId a = org) (appEntries s), filter (\<lambda>m. am_applicationId m \<in> apps_of org s) (appMembers s),
     filter (\<lambda>i. di_applicationId i \<in> apps_of org s) (invitations s))"

definition outsider :: "id \<Rightarrow> id \<Rightarrow> 'z member_db_scheme \<Rightarrow> bool" where
  "outsider u org s \<longleftrightarrow> (\<forall>m \<in> set (orgMembers s). \<not> (om_organizationId m = org \<and> om_userId m = u))
     \<and> (\<forall>m \<in> set (appMembers s). \<not> (am_applicationId m \<in> apps_of org s \<and> am_userId m = u))"

lemma filter_upd_where_other:
  "(\<And>r. r \<in> set xs \<Longrightarrow> P r \<Longrightarrow> \<not> Q r \<and> \<not> Q (f r)) \<Longrightarrow> filter Q (upd_where P f xs) = filter Q xs"
  by (induction xs) (auto simp: upd_where_def)

lemma org_guard_stops:
  assumes "outsider u org s"
  shows "snd (seq (organizationRoleGuard (Some role) (Some org) (Some u)) m s) = s"
proof -
  have "List.find (org_membership org u) (orgMembers s) = None"
    using assms by (auto simp: outsider_def find_None_iff org_membership_def)
  then show ?thesis by (simp add: organizationRoleGuard_def seq_step run guard_or_def)
qed

lemma app_guard_stops:
  assumes "members_ok s" and "outsider u org s" and "app \<in> apps_of org s"
  shows "snd (seq (applicationRoleGuard (Some role) (Some app) orgParam (Some u)) m s) = s"
proof -
  obtain a where a: "a \<in> set (appEntries s)" "ap_id a = app" "ap_organizationId a = org" using assms(3) by (auto simp: apps_of_def)
  then have "List.find (\<lambda>x. ap_id x = app) (appEntries s) \<noteq> None" by (auto simp: find_None_iff)
  then obtain e where e: "List.find (\<lambda>x. ap_id x = app) (appEntries s) = Some e" by blast
  with a assms(1) have "e = a" using find_SomeD [OF e] distinct_key_eq [of ap_id "appEntries s" e a] by (simp add: members_ok_def)
  moreover have "List.find (org_membership org u) (orgMembers s) = None" "List.find (app_membership app u) (appMembers s) = None"
    using assms(2,3) by (auto simp: outsider_def find_None_iff org_membership_def app_membership_def)
  ultimately show ?thesis using e a
    by (simp add: applicationRoleGuard_def app_role_check_def seq_step bnd_step run guard_or_def find_row_def split: option.split)
qed

text \<open>What the operations leave alone.\<close>

lemma tenant_wps: "wps m (\<lambda>r s'. tenant org s' = tenant org s) s \<Longrightarrow> tenant org (snd (m s)) = tenant org s"
  by (simp add: wps_run)

lemma tenant_plain [simp]:
  "tenant org (audits_update f s) = tenant org s" "tenant org (nextId_update g s) = tenant org s"
  "tenant org (invitationMails_update h s) = tenant org s"
  by (simp_all add: tenant_def)

lemma org_row_kept:
  assumes "members_ok s" and "List.find (\<lambda>m. om_id m = i) (orgMembers s) = Some m0" and "om_organizationId m0 \<noteq> org"
  shows "r \<in> set (orgMembers s) \<Longrightarrow> om_id r = i \<Longrightarrow> om_organizationId r \<noteq> org"
  using assms find_SomeD [OF assms(2)] distinct_key_eq [of om_id "orgMembers s" r m0] by (auto simp: members_ok_def table_ok_def)

lemma tenant_org_update: "x \<noteq> org \<Longrightarrow> tenant org (snd (org_update x name v meta s)) = tenant org s"
  by (rule tenant_wps) (auto simp: org_update_def wp tenant_def apps_of_def intro!: filter_upd_where_other split: option.split)

lemma tenant_org_add: "x \<noteq> org \<Longrightarrow> tenant org (snd (org_addMember x email role v meta s)) = tenant org s"
  by (rule tenant_wps)
    (auto simp: org_addMember_def wps_org_assert insert_org_member_def new_org_member_def wp tenant_def apps_of_def split: option.split sum.split)

lemma tenant_org_role:
  assumes "members_ok s" and "x \<noteq> org"
  shows "tenant org (snd (org_updateMemberRole x m role v meta s)) = tenant org s"
proof (rule tenant_wps)
  have "tenant org (orgMembers_update (upd_where (\<lambda>r. om_id r = m) (\<lambda>r. r\<lparr>om_role := role\<rparr>)) s) = tenant org s"
    if "List.find (\<lambda>r. om_id r = m) (orgMembers s) = Some m0" "om_organizationId m0 = x" for m0
    using org_row_kept [OF assms(1) that(1)] that(2) assms(2)
    by (simp add: tenant_def apps_of_def filter_upd_where_other)
  then show "wps (org_updateMemberRole x m role v meta) (\<lambda>r s'. tenant org s' = tenant org s) s"
    by (auto simp: org_updateMemberRole_def org_getMembership_def org_assertNotLastOwner_def wps_org_assert wp split: option.split sum.split)
qed

lemma tenant_org_removeMember:
  assumes "members_ok s" and "x \<noteq> org"
  shows "tenant org (snd (org_removeMember x m v meta s)) = tenant org s"
proof (rule tenant_wps)
  have "tenant org (orgMembers_update (filter (\<lambda>r. om_id r \<noteq> m)) s) = tenant org s"
    if "List.find (\<lambda>r. om_id r = m) (orgMembers s) = Some m0" "om_organizationId m0 = x" for m0
    using org_row_kept [OF assms(1) that(1)] that(2) assms(2)
    by (auto simp: tenant_def apps_of_def intro: filter_cong)
  then show "wps (org_removeMember x m v meta) (\<lambda>r s'. tenant org s' = tenant org s) s"
    by (auto simp: org_removeMember_def org_getMembership_def org_assertNotLastOwner_def wp split: option.split)
qed

text \<open>Applications of another organisation can go without touching those of this one.\<close>

lemma tenant_drop_apps:
  assumes "\<And>b. b \<in> apps_of org s \<Longrightarrow> \<not> gone b"
  shows "tenant org (drop_apps gone s) = tenant org s"
proof -
  have "apps_of org (drop_apps gone s) = apps_of org s" using assms by (auto simp: apps_of_def drop_apps_def)
  moreover have "filter (\<lambda>a. \<not> gone (ap_id a) \<and> ap_organizationId a = org) (appEntries s) = filter (\<lambda>a. ap_organizationId a = org) (appEntries s)"
    using assms by (intro filter_cong) (auto simp: apps_of_def)
  ultimately show ?thesis using assms
    by (auto simp: tenant_def drop_apps_def intro: filter_cong)
qed

lemma tenant_drop_app [simp]: "a \<notin> apps_of org s \<Longrightarrow> tenant org (drop_apps (\<lambda>b. b = a) s) = tenant org s"
  by (rule tenant_drop_apps) auto

lemma app_elsewhere:
  assumes "members_ok s" and "a \<in> set (appEntries s)" and "ap_organizationId a \<noteq> org"
  shows "ap_id a \<notin> apps_of org s"
  using assms distinct_key_eq [of ap_id "appEntries s" a] by (auto simp: apps_of_def members_ok_def)

lemma tenant_drop_org:
  assumes "members_ok s" and "x \<noteq> org"
  shows "tenant org (drop_org x s) = tenant org s"
proof -
  let ?s = "s\<lparr>organizations := filter (\<lambda>o1. org_id o1 \<noteq> x) (organizations s), orgMembers := filter (\<lambda>m. om_organizationId m \<noteq> x) (orgMembers s)\<rparr>"
  have "tenant org ?s = tenant org s" using assms(2) by (auto simp: tenant_def apps_of_def intro: filter_cong)
  moreover have "tenant org (drop_org x s) = tenant org ?s"
    unfolding drop_org_def using app_elsewhere [OF assms(1)] assms(2)
    by (intro tenant_drop_apps) (auto simp: apps_of_def)
  ultimately show ?thesis by simp
qed

lemma tenant_org_remove: "members_ok s \<Longrightarrow> x \<noteq> org \<Longrightarrow> tenant org (snd (org_remove held x v meta s)) = tenant org s"
proof (rule tenant_wps)
  assume "members_ok s" "x \<noteq> org"
  moreover have "members_ok (audits_update f s)" for f using \<open>members_ok s\<close> by (simp add: members_ok_def)
  ultimately show "wps (org_remove held x v meta) (\<lambda>r s'. tenant org s' = tenant org s) s"
    by (auto simp: org_remove_def delete_row_def wp tenant_drop_org)
qed

lemma tenant_app_create:
  assumes "members_ok s" and "x \<noteq> org"
  shows "tenant org (snd (app_create x v dto meta s)) = tenant org s"
proof (rule tenant_wps)
  have "nextId s \<notin> apps_of org s" using assms(1) by (auto simp: apps_of_def members_ok_def table_ok_def)
  then show "wps (app_create x v dto meta) (\<lambda>r s'. tenant org s' = tenant org s) s"
    using assms(2)
    by (auto simp: app_create_def generateUniqueSlug_def insert_app_member_def wp tenant_def new_app_member_def new_app_def [THEN arg_cong [where f = ap_id]]
        new_app_def [THEN arg_cong [where f = ap_organizationId]] split: option.split)
qed

lemma app_rows_kept:
  assumes "members_ok s"
  shows "List.find (\<lambda>m. am_id m = i) (appMembers s) = Some m0 \<Longrightarrow> r \<in> set (appMembers s) \<Longrightarrow> am_id r = i \<Longrightarrow> am_applicationId r = am_applicationId m0"
    "List.find (\<lambda>m. di_id m = j) (invitations s) = Some n0 \<Longrightarrow> r' \<in> set (invitations s) \<Longrightarrow> di_id r' = j \<Longrightarrow> di_applicationId r' = di_applicationId n0"
  using assms find_SomeD [of "\<lambda>m. am_id m = i" "appMembers s" m0] distinct_key_eq [of am_id "appMembers s" r m0]
    find_SomeD [of "\<lambda>m. di_id m = j" "invitations s" n0] distinct_key_eq [of di_id "invitations s" r' n0]
  by (auto simp: members_ok_def table_ok_def)

lemma map_filter_upd_where:
  "(\<And>r. k (f r) = k r \<and> Q (f r) = Q r) \<Longrightarrow> map k (filter Q (upd_where P f xs)) = map k (filter Q xs)"
  by (induction xs) (auto simp: upd_where_def)

lemma apps_of_filter: "apps_of org s = set (map ap_id (filter (\<lambda>a. ap_organizationId a = org) (appEntries s)))"
  by (auto simp: apps_of_def)

lemma tenant_app_rows:
  assumes "\<And>r. r \<in> set (appEntries s) \<Longrightarrow> P r \<Longrightarrow> ap_organizationId r \<noteq> org" and "\<And>r. ap_id (f r) = ap_id r \<and> ap_organizationId (f r) = ap_organizationId r"
  shows "tenant org (appEntries_update (upd_where P f) s) = tenant org s"
proof -
  have "apps_of org (appEntries_update (upd_where P f) s) = apps_of org s"
    using map_filter_upd_where [of ap_id f "\<lambda>a. ap_organizationId a = org" P "appEntries s"] assms(2) by (simp add: apps_of_filter)
  moreover have "filter (\<lambda>a. ap_organizationId a = org) (upd_where P f (appEntries s)) = filter (\<lambda>a. ap_organizationId a = org) (appEntries s)"
    by (rule filter_upd_where_other) (simp add: assms)
  ultimately show ?thesis by (simp add: tenant_def)
qed

lemma tenant_member_rows:
  assumes "\<And>r. r \<in> set (appMembers s) \<Longrightarrow> P r \<Longrightarrow> am_applicationId r \<notin> apps_of org s" and "\<And>r. am_applicationId (f r) = am_applicationId r"
  shows "tenant org (appMembers_update (upd_where P f) s) = tenant org s"
    "tenant org (appMembers_update (filter (\<lambda>r. \<not> P r)) s) = tenant org s"
  using assms by (auto simp: tenant_def intro!: filter_upd_where_other intro: filter_cong)

lemma tenant_invitation_rows:
  assumes "\<And>r. r \<in> set (invitations s) \<Longrightarrow> P r \<Longrightarrow> di_applicationId r \<notin> apps_of org s" and "\<And>r. di_applicationId (f r) = di_applicationId r"
  shows "tenant org (invitations_update (upd_where P f) s) = tenant org s"
  using assms by (auto simp: tenant_def intro!: filter_upd_where_other)

lemma away_entry: "app \<notin> apps_of org s \<Longrightarrow> a \<in> set (appEntries s) \<Longrightarrow> ap_id a = app \<Longrightarrow> ap_organizationId a \<noteq> org"
  by (auto simp: apps_of_def)

lemma tenant_app_update:
  assumes "app \<notin> apps_of org s"
  shows "tenant org (snd (app_update app x v dto meta s)) = tenant org s" "tenant org (snd (app_archive app x v meta s)) = tenant org s"
    "tenant org (snd (app_restore app x v meta s)) = tenant org s" "tenant org (snd (app_remove held app x v meta s)) = tenant org s"
proof -
  have keep: "tenant org (appEntries_update (upd_where (\<lambda>a. ap_id a = app) f) s) = tenant org s"
    if "\<And>r. ap_id (f r) = ap_id r \<and> ap_organizationId (f r) = ap_organizationId r" for f
    using that away_entry [OF assms] by (intro tenant_app_rows) auto
  show "tenant org (snd (app_update app x v dto meta s)) = tenant org s"
    by (rule tenant_wps) (auto simp: app_update_def update_app_def wp app_patch_def intro!: keep split: option.split)
  show "tenant org (snd (app_archive app x v meta s)) = tenant org s"
    by (rule tenant_wps) (auto simp: app_archive_def wp intro!: keep split: option.split)
  show "tenant org (snd (app_restore app x v meta s)) = tenant org s"
    by (rule tenant_wps) (auto simp: app_restore_def wp intro!: keep split: option.split)
  show "tenant org (snd (app_remove held app x v meta s)) = tenant org s"
    using assms by (intro tenant_wps) (auto simp: app_remove_def delete_row_def wp)
qed

lemma tenant_mem_add:
  assumes "app \<notin> apps_of org s"
  shows "tenant org (snd (mem_add app email role v meta s)) = tenant org s"
  using assms
  by (intro tenant_wps)
    (auto simp: mem_add_def wps_mem_assert insert_app_member_def new_app_member_def wp tenant_def split: option.split sum.split)

lemma tenant_mem_role:
  assumes "members_ok s" and "app \<notin> apps_of org s"
  shows "tenant org (snd (mem_updateRole app m role v meta s)) = tenant org s" "tenant org (snd (mem_remove app m v meta s)) = tenant org s"
proof -
  have "tenant org (appMembers_update (upd_where (\<lambda>r. am_id r = m) (\<lambda>r. r\<lparr>am_role := role\<rparr>)) s) = tenant org s
      \<and> tenant org (appMembers_update (filter (\<lambda>r. am_id r \<noteq> m)) s) = tenant org s"
    if "List.find (\<lambda>r. am_id r = m) (appMembers s) = Some m0" "am_applicationId m0 = app" for m0
    using tenant_member_rows [of s "\<lambda>r. am_id r = m" org "\<lambda>r. r\<lparr>am_role := role\<rparr>"] app_rows_kept(1) [OF assms(1) that(1)] that(2) assms(2) by simp
  then show "tenant org (snd (mem_updateRole app m role v meta s)) = tenant org s" "tenant org (snd (mem_remove app m v meta s)) = tenant org s"
    by (auto intro!: tenant_wps simp: mem_updateRole_def mem_remove_def mem_getMembership_def mem_assertNotLastOwner_def wps_mem_assert wp
        split: option.split sum.split)
qed

lemma tenant_inv:
  assumes "members_ok s" and "app \<notin> apps_of org s"
  shows "tenant org (snd (inv_revoke app i v meta s)) = tenant org s" "tenant org (snd (inv_resend w draw app i v meta s)) = tenant org s"
proof -
  have keep: "tenant org (invitations_update (upd_where (\<lambda>r. di_id r = i) f) s) = tenant org s"
    if "List.find (\<lambda>r. di_id r = i) (invitations s) = Some m0" "di_applicationId m0 = app" "\<And>r. di_applicationId (f r) = di_applicationId r" for m0 f
    using tenant_invitation_rows [of s "\<lambda>r. di_id r = i" org f] app_rows_kept(2) [OF assms(1) that(1)] that(2,3) assms(2) by simp
  show "tenant org (snd (inv_revoke app i v meta s)) = tenant org s"
    by (rule tenant_wps) (auto simp: inv_revoke_def inv_getOwned_def wp intro!: keep split: option.split)
  show "tenant org (snd (inv_resend w draw app i v meta s)) = tenant org s"
    by (rule tenant_wps) (auto simp: inv_resend_def inv_getOwned_def send_invitation_def wp intro!: keep split: option.split)
qed

lemma tenant_new_invitation [simp]:
  "di_applicationId i \<notin> apps_of org s \<Longrightarrow> tenant org (invitations_update (\<lambda>rs. rs @ [i]) s) = tenant org s"
  "di_applicationId i \<notin> apps_of org s \<Longrightarrow> tenant org (invitations_update ((\<lambda>rs. rs @ [i]) \<circ> f) s) = tenant org (invitations_update f s)"
  "tenant org (invitations_update f (nextId_update g s)) = tenant org (invitations_update f s)"
  by (simp_all add: tenant_def)

lemma tenant_inv_create:
  assumes "members_ok s" and "app \<notin> apps_of org s"
  shows "tenant org (snd (inv_create w draw app email role v meta s)) = tenant org s"
proof -
  have keep: "tenant org (invitations_update (upd_where (\<lambda>r. di_id r = di_id p) f) s) = tenant org s"
    if "List.find (pending_for app email) (invitations s) = Some p" "\<And>r. di_applicationId (f r) = di_applicationId r" for p f
    using that find_SomeD [OF that(1)] assms distinct_key_eq [of di_id "invitations s" _ p]
    by (intro tenant_invitation_rows) (auto simp: members_ok_def pending_for_def)
  show ?thesis
    by (rule tenant_wps)
      (auto simp: inv_create_def Let_def insert_invitation_def new_invitation_def send_invitation_def wp keep assms(2)
        split: option.split)
qed

lemma tenant_org_create:
  assumes "members_ok s" and "org \<in> org_id ` set (organizations s)"
  shows "tenant org (snd (org_create u name meta s)) = tenant org s"
proof (rule tenant_wps)
  have "nextId s \<noteq> org" using assms by (auto simp: members_ok_def table_ok_def)
  then show "wps (org_create u name meta) (\<lambda>r s'. tenant org s' = tenant org s) s"
    by (auto simp: org_create_def generateUniqueSlug_def insert_org_member_def new_org_member_def new_organization_def wp tenant_def apps_of_def split: option.split)
qed

text \<open>A guarded route: the guard stops the request, or the request leaves the organisation alone.\<close>

lemma void_state [simp]: "snd (void m s) = snd (m s)"
  by (simp add: void_def snd_seq_ret)

lemma guarded_cases: "leaves (\<lambda>s. s) g \<Longrightarrow> snd (seq g (void m) s) = s \<or> snd (seq g (void m) s) = snd (m s)"
  using leaves_snd [of "\<lambda>s. s" g s] by (auto simp: seq_step split: prod.split sum.split)

lemma org_route:
  assumes "outsider u org s" and "x \<noteq> org \<Longrightarrow> tenant org (snd (m s)) = tenant org s"
  shows "tenant org (snd (guarded_org role x u m s)) = tenant org s"
proof (cases "x = org")
  case True
  then show ?thesis using org_guard_stops [OF assms(1), of role "void m"] by simp
next
  case False
  then show ?thesis using assms(2) guarded_cases [OF guards_read(1), of "Some role" "Some x" "Some u" m s] by fastforce
qed

lemma app_route:
  assumes "members_ok s" and "outsider u org s" and "app \<notin> apps_of org s \<Longrightarrow> tenant org (snd (m s)) = tenant org s"
  shows "tenant org (snd (guarded_app role app p u m s)) = tenant org s"
proof (cases "app \<in> apps_of org s")
  case True
  then show ?thesis using app_guard_stops [OF assms(1,2), of app role p "void m"] by simp
next
  case False
  then show ?thesis using assms(3) guarded_cases [OF guards_read(2), of "Some role" "Some app" p "Some u" m s] by fastforce
qed

fun accepts :: "member_request \<Rightarrow> bool" where
  "accepts (AcceptInvitation token email) = True"
| "accepts _ = False"

lemma outsider_routes:
  assumes "members_ok s" and "outsider u org s" and "org \<in> org_id ` set (organizations s)"
  shows "tenant org (snd (handle_org held u meta orq s)) = tenant org s" "tenant org (snd (handle_app held u meta arq s)) = tenant org s"
    "tenant org (snd (handle_app_member u meta mrq s)) = tenant org s" "tenant org (snd (handle_invitation w u meta irq s)) = tenant org s"
  subgoal using assms by (cases orq) (simp_all add: org_route tenant_org_create tenant_org_update tenant_org_remove tenant_org_add tenant_org_role tenant_org_removeMember)
  subgoal using assms by (cases arq) (simp_all add: org_route app_route tenant_app_create tenant_app_update)
  subgoal using assms by (cases mrq) (simp_all add: app_route tenant_mem_add tenant_mem_role)
  subgoal using assms by (cases irq) (simp_all add: app_route tenant_inv tenant_inv_create)
  done

lemma outsider_request:
  assumes "members_ok s" and "outsider u org s" and "org \<in> org_id ` set (organizations s)" and "\<not> accepts req"
  shows "tenant org (snd (handle_request w held u meta req s)) = tenant org s"
  using assms(4) by (cases req) (simp_all add: outsider_routes [OF assms(1-3)])



end
