(* ===== verification/Invitation_Flow.thy ===== *)
theory Invitation_Flow
  imports Membership_Flow
begin

text \<open>
  Invitations to an application (invitations/invitations.service.ts): an accepted one was pending, in time
  and for the user's own address, gives the role it named to a user who had none and never ownership, and
  cannot be accepted again, whatever requests follow.
\<close>

section \<open>A spent invitation\<close>

text \<open>No pending invitation has this hash.\<close>

definition spent :: "string \<Rightarrow> 'z member_db_scheme \<Rightarrow> bool" where
  "spent h s \<longleftrightarrow> (\<forall>i \<in> set (invitations s). di_tokenHash i = h \<longrightarrow> di_status i \<noteq> DeveloperInvitationStatus.PENDING)"

lemma spent_leaves: "leaves invitations m \<Longrightarrow> preserves (spent h) m"
  using leaves_snd [of invitations m] by (metis preserves_I snd_conv spent_def)

lemma spent_fewer: "set (invitations s') \<subseteq> set (invitations s) \<Longrightarrow> spent h s \<Longrightarrow> spent h s'"
  by (auto simp: spent_def)

lemma spent_upd [simp]:
  "(\<And>r. di_tokenHash (f r) \<noteq> h \<or> di_tokenHash (f r) = di_tokenHash r \<and> di_status (f r) \<noteq> DeveloperInvitationStatus.PENDING)
   \<Longrightarrow> spent h s \<Longrightarrow> spent h (invitations_update (upd_where P f) s)"
  by (auto simp: spent_def set_upd_where)

lemma spent_plain [pres]:
  "preserves (spent h) (audit act u o1 a md meta)" "preserves (spent h) now" "preserves (spent h) (send_invitation e nm url)"
  "preserves (spent h) fresh"
  by (simp_all add: preserves_wps wp spent_def send_invitation_def)

lemma spent_org:
  "preserves (spent h) (org_create u name meta)" "preserves (spent h) (org_update org name u meta)"
  "preserves (spent h) (org_addMember org email role u meta)" "preserves (spent h) (org_updateMemberRole org m role u meta)"
  "preserves (spent h) (org_removeMember org m u meta)"
  unfolding org_create_def org_update_def org_addMember_def org_updateMemberRole_def org_removeMember_def org_getMembership_def
    org_assertNotLastOwner_def org_assertRoleAssignmentAllowed_def insert_org_member_def generateUniqueSlug_def
  by (rule spent_leaves; intro leaves_all leaves_platform; simp)+

lemma spent_app:
  "preserves (spent h) (app_create org u dto meta)" "preserves (spent h) (app_update app org u udto meta)"
  "preserves (spent h) (app_archive app org u meta)" "preserves (spent h) (app_restore app org u meta)"
  "preserves (spent h) (mem_add app email arole u meta)" "preserves (spent h) (mem_updateRole app m arole u meta)"
  "preserves (spent h) (mem_remove app m u meta)"
  unfolding app_create_def app_update_def update_app_def app_archive_def app_restore_def mem_add_def mem_updateRole_def mem_remove_def
    mem_getMembership_def mem_assertNotLastOwner_def mem_assertRoleAssignmentAllowed_def insert_app_member_def generateUniqueSlug_def
  by (rule spent_leaves; intro leaves_all leaves_platform; simp)+

lemma spent_remove: "preserves (spent h) (org_remove held org u meta)" "preserves (spent h) (app_remove held app org u meta)"
  unfolding org_remove_def app_remove_def delete_row_def split_beta
  by (intro pres; auto simp: drop_org_def drop_apps_def intro: spent_fewer [rotated])+

lemma spent_insert:
  "w_hashToken w draw \<noteq> h \<Longrightarrow> preserves (spent h) (insert_invitation w draw app email role u)"
  "preserves (spent h) (insert_app_member app u arole)"
proof -
  show "preserves (spent h) (insert_app_member app u arole)"
    unfolding insert_app_member_def by (rule spent_leaves; intro leaves_all leaves_platform; simp)
qed (auto simp: preserves_wps insert_invitation_def new_invitation_def wp spent_def split: option.split)

lemma spent_inv:
  "w_hashToken w draw \<noteq> h \<Longrightarrow> preserves (spent h) (inv_create w draw app email role u meta)"
  "preserves (spent h) (inv_revoke app i u meta)"
  "w_hashToken w draw \<noteq> h \<Longrightarrow> preserves (spent h) (inv_resend w draw app i u meta)"
  "preserves (spent h) (inv_accept w token u eml meta)"
  unfolding inv_create_def inv_revoke_def inv_resend_def inv_accept_def accept_write_def inv_getOwned_def Let_def
  by (intro pres spent_insert; simp)+

text \<open>Requests that do not happen to draw the same token again, and the passing of time.\<close>

fun draws :: "member_request \<Rightarrow> string list" where
  "draws (Invitations (CreateInvitation draw app email role)) = [draw]"
| "draws (Invitations (ResendInvitation draw app i)) = [draw]"
| "draws _ = []"

inductive later :: "auth_world \<Rightarrow> (id \<Rightarrow> bool) \<Rightarrow> string \<Rightarrow> 'z member_db_scheme \<Rightarrow> 'z member_db_scheme \<Rightarrow> bool" for w held h where
  time_passes: "later w held h s (clock_update f s)"
| request: "h \<notin> w_hashToken w ` set (draws req) \<Longrightarrow> later w held h s (snd (handle_request w held u meta req s))"

lemma spent_guards [pres]:
  "preserves (spent h) (organizationRoleGuard role org u)" "preserves (spent h) (applicationRoleGuard arole app org u)"
  unfolding organizationRoleGuard_def applicationRoleGuard_def app_role_check_def
  by (auto intro!: pres split: option.split)

lemma spent_routes:
  "preserves (spent h) (handle_org held u meta orq)" "preserves (spent h) (handle_app held u meta arq)"
  "preserves (spent h) (handle_app_member u meta mrq)" "preserves (spent h) (handle_acceptance w u meta token email)"
  unfolding handle_acceptance_def
  subgoal by (cases orq) (auto simp: void_def intro!: preserves_seq preserves_ret spent_guards spent_org spent_remove)
  subgoal by (cases arq) (auto simp: void_def intro!: preserves_seq preserves_ret spent_guards spent_app spent_remove)
  subgoal by (cases mrq) (auto simp: void_def intro!: preserves_seq preserves_ret spent_guards spent_app)
  subgoal by (auto simp: void_def intro!: preserves_seq preserves_ret spent_inv)
  done

lemma spent_route: "h \<notin> w_hashToken w ` set (draws (Invitations irq)) \<Longrightarrow> preserves (spent h) (handle_invitation w u meta irq)"
  by (cases irq) (auto simp: void_def intro!: preserves_seq preserves_ret spent_guards spent_inv)

lemma spent_request: "h \<notin> w_hashToken w ` set (draws req) \<Longrightarrow> preserves (spent h) (handle_request w held u meta req)"
  by (cases req) (simp_all add: spent_routes spent_route del: draws.simps)

lemma spent_later: "(later w held h)\<^sup>*\<^sup>* s s' \<Longrightarrow> spent h s \<Longrightarrow> spent h s'"
proof (induction rule: rtranclp_induct)
  case (step y z)
  from step(2) show ?case
  proof cases
    case time_passes
    then show ?thesis using step by (simp add: spent_def)
  next
    case request
    then show ?thesis using step preservesD [OF spent_request] by blast
  qed
qed simp

lemma spent_refused:
  assumes "spent (w_hashToken w token) s"
  shows "\<exists>err. fst (inv_accept w token u email meta s) = Inl err"
proof -
  have "wps (inv_accept w token u email meta) (\<lambda>r s'. \<exists>err. r = Inl err) s"
    using assms by (auto simp: inv_accept_def wp spent_def dest: find_SomeD split: option.split)
  then show ?thesis by (simp add: wps_run)
qed

section \<open>Acceptance\<close>

lemma accept_success:
  assumes "inv_accept w token u email meta s = (Inr m, s1)"
  obtains i e where "List.find (\<lambda>i. di_tokenHash i = w_hashToken w token) (invitations s) = Some i"
    and "di_status i = DeveloperInvitationStatus.PENDING" and "clock s \<le> di_expiresAt i" and "email = Some e" and "same_email (di_email i) e"
    and "app_membership (di_applicationId i) u m" and "m \<in> set (appMembers s1)" and "m \<in> set (appMembers s) \<or> am_role m = di_role i"
    and "invitations s1 = upd_where (\<lambda>x. di_id x = di_id i)
           (\<lambda>x. x\<lparr>di_status := ACCEPTED, di_acceptedById := Some u, di_acceptedAt := Some (clock s)\<rparr>) (invitations s)"
proof -
  have "wps (inv_accept w token u email meta) (\<lambda>r s1. \<forall>m. r = Inr m \<longrightarrow>
    (\<exists>i e. List.find (\<lambda>i. di_tokenHash i = w_hashToken w token) (invitations s) = Some i
      \<and> di_status i = DeveloperInvitationStatus.PENDING \<and> clock s \<le> di_expiresAt i \<and> email = Some e \<and> same_email (di_email i) e
      \<and> app_membership (di_applicationId i) u m \<and> m \<in> set (appMembers s1) \<and> (m \<in> set (appMembers s) \<or> am_role m = di_role i)
      \<and> invitations s1 = upd_where (\<lambda>x. di_id x = di_id i)
           (\<lambda>x. x\<lparr>di_status := ACCEPTED, di_acceptedById := Some u, di_acceptedAt := Some (clock s)\<rparr>) (invitations s))) s"
    by (auto simp: inv_accept_def accept_write_def insert_app_member_def new_app_member_def app_membership_def wp dest: find_SomeD split: option.split)
  with assms that show ?thesis by (fastforce simp: wps_def)
qed

text \<open>An invitation is accepted once: when \<open>acceptInvitation\<close> succeeds, the invitation was pending, unexpired and
  for the user's own address, the user is a member of its application, with the role of the invitation
  or the membership held before, and whatever is requested afterwards the token is refused.
\<close>

theorem invitation_accepted_once:
  assumes "inv_accept w token u email meta s = (Inr m, s1)"
    and "distinct (map di_tokenHash (invitations s))" and "(later w held (w_hashToken w token))\<^sup>*\<^sup>* s1 s2"
  shows "(\<exists>i \<in> set (invitations s). di_tokenHash i = w_hashToken w token \<and> di_status i = DeveloperInvitationStatus.PENDING
       \<and> clock s \<le> di_expiresAt i \<and> (\<exists>e. email = Some e \<and> same_email (di_email i) e)
       \<and> app_membership (di_applicationId i) u m \<and> m \<in> set (appMembers s1) \<and> (m \<in> set (appMembers s) \<or> am_role m = di_role i))
    \<and> (\<exists>err. fst (inv_accept w token u' email' meta' s2) = Inl err)"
proof -
  obtain i e where i: "List.find (\<lambda>i. di_tokenHash i = w_hashToken w token) (invitations s) = Some i"
      "di_status i = DeveloperInvitationStatus.PENDING" "clock s \<le> di_expiresAt i" "email = Some e" "same_email (di_email i) e"
      "app_membership (di_applicationId i) u m" "m \<in> set (appMembers s1)" "m \<in> set (appMembers s) \<or> am_role m = di_role i"
    and s1: "invitations s1 = upd_where (\<lambda>x. di_id x = di_id i)
      (\<lambda>x. x\<lparr>di_status := ACCEPTED, di_acceptedById := Some u, di_acceptedAt := Some (clock s)\<rparr>) (invitations s)"
    using accept_success [OF assms(1)] by blast
  from find_SomeD [OF i(1)] have mem: "i \<in> set (invitations s)" "di_tokenHash i = w_hashToken w token" by auto
  have "di_id r = di_id i" if "r \<in> set (invitations s)" "di_tokenHash r = w_hashToken w token" for r
    using distinct_key_eq [OF assms(2) that(1) mem(1)] that(2) mem(2) by simp
  then have "spent (w_hashToken w token) s1" by (auto simp: spent_def s1 ball_upd_where)
  then have "\<exists>err. fst (inv_accept w token u' email' meta' s2) = Inl err"
    using spent_later [OF assms(3)] spent_refused by blast
  with i mem show ?thesis by blast
qed

theorem invitation_accepted_once_witness:
  "\<exists>m s1. inv_accept sample_auth_world ''secret'' 2 (Some ''bob@example.org'') no_meta sample_members = (Inr m, s1)
     \<and> am_role m = MAINTAINER
     \<and> (\<exists>err. fst (inv_accept sample_auth_world ''secret'' 2 (Some ''bob@example.org'') no_meta (clock_update (\<lambda>t. t + 1) s1)) = Inl err)"
proof -
  let ?run = "inv_accept sample_auth_world ''secret'' 2 (Some ''bob@example.org'') no_meta sample_members"
  have email: "same_email ''Bob@example.org'' ''bob@example.org''" by code_simp
  have "wps (inv_accept sample_auth_world ''secret'' 2 (Some ''bob@example.org'') no_meta) (\<lambda>r s1. \<exists>m. r = Inr m) sample_members"
    by (simp add: inv_accept_def accept_write_def insert_app_member_def wp sample_member_defs email app_membership_def)
  then have "\<exists>m. fst ?run = Inr m" by (simp add: wps_run)
  then obtain m s1 where r: "?run = (Inr m, s1)" by (metis prod.collapse)
  have "distinct (map di_tokenHash (invitations sample_members))" by (simp add: sample_member_defs)
  note once = invitation_accepted_once [OF r this r_into_rtranclp [of "later sample_auth_world (\<lambda>_. False) _"], OF later.time_passes [of _ _ _ s1 "\<lambda>t. t + 1"],
      of 2 "Some ''bob@example.org''" no_meta]
  moreover have "\<forall>i \<in> set (invitations sample_members). di_role i = MAINTAINER \<and> di_applicationId i = 7"
    "\<forall>m \<in> set (appMembers sample_members). \<not> app_membership 7 2 m"
    by (simp_all add: sample_member_defs app_membership_def)
  ultimately have "am_role m = MAINTAINER" by metis
  with r once show ?thesis by blast
qed

end
