(* ===== verification/Releases.thy ===== *)
theory Releases
  imports Membership_Flow
begin

text \<open>
  Versions and domains of an application: applications/application-versions.service.ts and
  applications/application-domains.service.ts. Both keep one flagged row per group of rows, the latest version
  of a track and the primary domain of an application, in the same way: they first clear the
  flag of the rows of the group. The locale \<open>flagged\<close> is that contract.
\<close>

section \<open>ApplicationVersionsService\<close>

text \<open>Both payloads have the same fields; the release date is the parsed one.\<close>

record version_dto =
  vd_track :: "string option"
  vd_androidVersion :: "string option"
  vd_iosVersion :: "string option"
  vd_webVersion :: "string option"
  vd_buildNumber :: "string option"
  vd_minimumSupportedVersion :: "string option"
  vd_releaseNotes :: "string option"
  vd_releaseDate :: "time option"
  vd_isLatest :: "bool option"

definition new_version :: "id \<Rightarrow> time \<Rightarrow> id \<Rightarrow> string \<Rightarrow> bool \<Rightarrow> id \<Rightarrow> version_dto \<Rightarrow> version_row" where
  "new_version i t app track markLatest userId dto =
     \<lparr>ver_id = i, ver_applicationId = app, ver_track = track, ver_androidVersion = vd_androidVersion dto, ver_iosVersion = vd_iosVersion dto,
      ver_webVersion = vd_webVersion dto, ver_buildNumber = vd_buildNumber dto, ver_minimumSupportedVersion = vd_minimumSupportedVersion dto,
      ver_releaseNotes = vd_releaseNotes dto, ver_releaseDate = vd_releaseDate dto, ver_isLatest = markLatest, ver_createdById = userId,
      ver_createdAt = t\<rparr>"

definition clear_latest :: "version_row \<Rightarrow> version_row" where
  "clear_latest v = v\<lparr>ver_isLatest := False\<rparr>"

definition insert_version :: "id \<Rightarrow> string \<Rightarrow> bool \<Rightarrow> id \<Rightarrow> version_dto \<Rightarrow> ('z member_db_scheme, version_row) svc" where
  "insert_version app track markLatest userId dto = bnd fresh (\<lambda>i. bnd now (\<lambda>t.
     insert_unique appVersions appVersions_update (\<lambda>_. False) (new_version i t app track markLatest userId dto)))"

definition version_create :: "id \<Rightarrow> id \<Rightarrow> version_dto \<Rightarrow> request_meta \<Rightarrow> ('z member_db_scheme, version_row) svc" where
  "version_create app userId dto meta = (let track = orElse (vd_track dto) ''stable''; markLatest = orElse (vd_isLatest dto) True in
     bnd (transaction
       (seq (when_do markLatest (void (update_many appVersions appVersions_update (\<lambda>v. ver_applicationId v = app \<and> ver_track v = track \<and> ver_isLatest v) clear_latest)))
            (insert_version app track markLatest userId dto))) (\<lambda>version.
     seq (audit ''APPLICATION_VERSION_CREATED'' (Some userId) None (Some app) [(''track'', JStr track), (''versionId'', JId (ver_id version))] meta)
         (ret version)))"

definition version_list :: "id \<Rightarrow> string option \<Rightarrow> ('z member_db_scheme, version_row list) svc" where
  "version_list app track = gets (\<lambda>s. order_by (\<lambda>v. - ver_createdAt v)
     (filter (\<lambda>v. ver_applicationId v = app \<and> (truthy track \<longrightarrow> track = Some (ver_track v))) (appVersions s)))"

definition version_getOne :: "id \<Rightarrow> id \<Rightarrow> ('z member_db_scheme, version_row) svc" where
  "version_getOne app versionId = bnd (find_row appVersions (\<lambda>v. ver_id v = versionId)) (\<lambda>r. case r of
     None \<Rightarrow> throw (NotFoundException ''Version not found'')
   | Some v \<Rightarrow> if ver_applicationId v \<noteq> app then throw (NotFoundException ''Version not found'') else ret v)"

definition version_patch :: "version_dto \<Rightarrow> version_row \<Rightarrow> version_row" where
  "version_patch dto v = v\<lparr>ver_track := keepUndef (vd_track dto) (ver_track v),
     ver_androidVersion := keepOpt (vd_androidVersion dto) (ver_androidVersion v), ver_iosVersion := keepOpt (vd_iosVersion dto) (ver_iosVersion v),
     ver_webVersion := keepOpt (vd_webVersion dto) (ver_webVersion v), ver_buildNumber := keepOpt (vd_buildNumber dto) (ver_buildNumber v),
     ver_minimumSupportedVersion := keepOpt (vd_minimumSupportedVersion dto) (ver_minimumSupportedVersion v),
     ver_releaseNotes := keepOpt (vd_releaseNotes dto) (ver_releaseNotes v), ver_releaseDate := keepOpt (vd_releaseDate dto) (ver_releaseDate v),
     ver_isLatest := keepUndef (vd_isLatest dto) (ver_isLatest v)\<rparr>"

definition version_update :: "id \<Rightarrow> id \<Rightarrow> id \<Rightarrow> version_dto \<Rightarrow> request_meta \<Rightarrow> ('z member_db_scheme, version_row) svc" where
  "version_update app versionId userId dto meta =
     bnd (version_getOne app versionId) (\<lambda>existing. let track = orElse (vd_track dto) (ver_track existing) in
     bnd (transaction
       (seq (when_do (vd_isLatest dto = Some True) (void (update_many appVersions appVersions_update (\<lambda>v. ver_applicationId v = app \<and> ver_track v = track \<and> ver_isLatest v \<and> ver_id v \<noteq> versionId) clear_latest)))
            (update_row appVersions appVersions_update (\<lambda>v. ver_id v = versionId) (version_patch dto)))) (\<lambda>version.
     seq (audit ''APPLICATION_VERSION_UPDATED'' (Some userId) None (Some app) [(''versionId'', JId versionId)] meta)
         (ret version)))"

definition version_remove :: "id \<Rightarrow> id \<Rightarrow> id \<Rightarrow> request_meta \<Rightarrow> ('z member_db_scheme, unit) svc" where
  "version_remove app versionId userId meta =
     bnd (version_getOne app versionId) (\<lambda>_.
     seq (modify (appVersions_update (filter (\<lambda>v. ver_id v \<noteq> versionId))))
         (audit ''APPLICATION_VERSION_DELETED'' (Some userId) None (Some app) [(''versionId'', JId versionId)] meta))"

section \<open>ApplicationDomainsService\<close>

definition new_domain :: "id \<Rightarrow> time \<Rightarrow> id \<Rightarrow> string \<Rightarrow> bool \<Rightarrow> string \<Rightarrow> domain_row" where
  "new_domain i t app name isPrimary token =
     \<lparr>dom_id = i, dom_applicationId = app, dom_domain = name, dom_isPrimary = isPrimary,
      dom_verificationStatus = DomainVerificationStatus.PENDING, dom_verificationToken = Some token, dom_verifiedAt = None, dom_createdAt = t\<rparr>"

definition clear_primary :: "domain_row \<Rightarrow> domain_row" where
  "clear_primary d = d\<lparr>dom_isPrimary := False\<rparr>"

definition insert_domain :: "id \<Rightarrow> string \<Rightarrow> bool \<Rightarrow> string \<Rightarrow> ('z member_db_scheme, domain_row) svc" where
  "insert_domain app name isPrimary token = bnd fresh (\<lambda>i. bnd now (\<lambda>t.
     insert_unique appDomains appDomains_update (\<lambda>d. dom_domain d = name) (new_domain i t app name isPrimary token)))"

definition domain_create :: "string \<Rightarrow> id \<Rightarrow> id \<Rightarrow> string \<Rightarrow> bool option \<Rightarrow> request_meta \<Rightarrow> ('z member_db_scheme, domain_row) svc" where
  "domain_create token app userId name isPrimary meta =
     bnd (transaction
       (seq (when_do (isPrimary = Some True) (void (update_many appDomains appDomains_update (\<lambda>d. dom_applicationId d = app \<and> dom_isPrimary d) clear_primary)))
            (insert_domain app name (orElse isPrimary False) token))) (\<lambda>dm.
     seq (audit ''APPLICATION_DOMAIN_ADDED'' (Some userId) None (Some app) [(''domainId'', JId (dom_id dm)), (''domain'', JStr (dom_domain dm))] meta)
         (ret dm))"

definition domain_list :: "id \<Rightarrow> ('z member_db_scheme, domain_row list) svc" where
  "domain_list app = gets (\<lambda>s. order_by (\<lambda>d. (if dom_isPrimary d then 0 else 1 :: int))
     (order_by dom_createdAt (filter (\<lambda>d. dom_applicationId d = app) (appDomains s))))"

definition domain_getOneOrThrow :: "id \<Rightarrow> id \<Rightarrow> ('z member_db_scheme, domain_row) svc" where
  "domain_getOneOrThrow app domainId = bnd (find_row appDomains (\<lambda>d. dom_id d = domainId)) (\<lambda>r. case r of
     None \<Rightarrow> throw (NotFoundException ''Domain not found'')
   | Some d \<Rightarrow> if dom_applicationId d \<noteq> app then throw (NotFoundException ''Domain not found'') else ret d)"

definition domain_update :: "id \<Rightarrow> id \<Rightarrow> id \<Rightarrow> bool option \<Rightarrow> request_meta \<Rightarrow> ('z member_db_scheme, domain_row) svc" where
  "domain_update app domainId userId isPrimary meta =
     bnd (domain_getOneOrThrow app domainId) (\<lambda>_.
     bnd (transaction
       (seq (when_do (isPrimary = Some True) (void (update_many appDomains appDomains_update (\<lambda>d. dom_applicationId d = app \<and> dom_isPrimary d \<and> dom_id d \<noteq> domainId) clear_primary)))
            (update_row appDomains appDomains_update (\<lambda>d. dom_id d = domainId) (\<lambda>d. d\<lparr>dom_isPrimary := keepUndef isPrimary (dom_isPrimary d)\<rparr>)))) (\<lambda>dm.
     seq (audit ''APPLICATION_DOMAIN_UPDATED'' (Some userId) None (Some app) [(''domainId'', JId domainId)] meta)
         (ret dm)))"

definition domain_remove :: "id \<Rightarrow> id \<Rightarrow> id \<Rightarrow> request_meta \<Rightarrow> ('z member_db_scheme, unit) svc" where
  "domain_remove app domainId userId meta =
     bnd (domain_getOneOrThrow app domainId) (\<lambda>existing.
     seq (modify (appDomains_update (filter (\<lambda>d. dom_id d \<noteq> domainId))))
         (audit ''APPLICATION_DOMAIN_REMOVED'' (Some userId) None (Some app) [(''domainId'', JId domainId), (''domain'', JStr (dom_domain existing))] meta))"

definition domain_verify :: "id \<Rightarrow> id \<Rightarrow> id \<Rightarrow> request_meta \<Rightarrow> ('z member_db_scheme, domain_row) svc" where
  "domain_verify app domainId userId meta =
     bnd (domain_getOneOrThrow app domainId) (\<lambda>existing.
     bnd now (\<lambda>t.
     bnd (update_row appDomains appDomains_update (\<lambda>d. dom_id d = domainId)
            (\<lambda>d. d\<lparr>dom_verificationStatus := VERIFIED, dom_verifiedAt := Some t\<rparr>)) (\<lambda>dm.
     seq (audit ''APPLICATION_DOMAIN_VERIFIED'' (Some userId) None (Some app) [(''domainId'', JId domainId), (''domain'', JStr (dom_domain existing))] meta)
         (ret dm))))"

section \<open>One flagged row per group\<close>

definition flags_ok :: "('r \<Rightarrow> id) \<Rightarrow> ('r \<Rightarrow> 'g) \<Rightarrow> ('r \<Rightarrow> bool) \<Rightarrow> 'r list \<Rightarrow> id \<Rightarrow> bool" where
  "flags_ok ident grp flag rows n \<longleftrightarrow> distinct (map ident rows) \<and> (\<forall>r \<in> set rows. ident r < n)
     \<and> (\<forall>g. count_where (\<lambda>r. grp r = g \<and> flag r) rows \<le> 1)"

locale flagged =
  fixes ident :: "'r \<Rightarrow> id" and grp :: "'r \<Rightarrow> 'g" and flag :: "'r \<Rightarrow> bool" and unflag :: "'r \<Rightarrow> 'r"
  assumes ident_unflag [simp]: "ident (unflag r) = ident r"
    and grp_unflag [simp]: "grp (unflag r) = grp r"
    and flag_unflag [simp]: "\<not> flag (unflag r)"
begin

lemma mono: "flags_ok ident grp flag rows n \<Longrightarrow> n \<le> n' \<Longrightarrow> flags_ok ident grp flag rows n'"
  by (auto simp: flags_ok_def)

lemma add:
  assumes "flags_ok ident grp flag rows n" and "ident r = n" and "flag r \<Longrightarrow> count_where (\<lambda>q. grp q = grp r \<and> flag q) rows = 0"
  shows "flags_ok ident grp flag (rows @ [r]) (Suc n)"
  using assms by (force simp: flags_ok_def less_Suc_eq count_where_append count_where_Cons)

text \<open>Clearing the flags of some rows keeps the contract, and clearing those of a group makes room in it.\<close>

lemma clear:
  assumes "flags_ok ident grp flag rows n"
  shows "flags_ok ident grp flag (upd_where P unflag rows) n"
proof -
  have "count_where (\<lambda>r. grp r = g \<and> flag r) (upd_where P unflag rows) \<le> count_where (\<lambda>r. grp r = g \<and> flag r) rows" for g
    by (induction rows) (simp_all add: upd_where_def count_where_Cons)
  with assms show ?thesis by (force simp: flags_ok_def map_upd_where ball_upd_where intro: le_trans)
qed

lemma cleared: "count_where (\<lambda>r. grp r = g \<and> flag r) (upd_where (\<lambda>r. grp r = g \<and> flag r) unflag rows) = 0"
  by (simp add: count_where_zero ball_upd_where)

lemma cleared_others:
  "count_where (\<lambda>r. grp r = g \<and> flag r \<and> ident r \<noteq> i) (upd_where (\<lambda>r. grp r = g \<and> flag r \<and> ident r \<noteq> i) unflag rows) = 0"
  by (simp add: count_where_zero ball_upd_where)

lemma remove:
  assumes "flags_ok ident grp flag rows n"
  shows "flags_ok ident grp flag (filter P rows) n"
proof -
  have "count_where (\<lambda>r. grp r = g \<and> flag r) (filter P rows) \<le> count_where (\<lambda>r. grp r = g \<and> flag r) rows" for g
    by (induction rows) (simp_all add: count_where_Cons)
  with assms show ?thesis by (auto simp: flags_ok_def distinct_map_filter intro: le_trans)
qed

text \<open>A row may change when it is not flagged afterwards, or keeps its group and flag, or is the only flagged one of its group.\<close>

lemma change:
  assumes ok: "flags_ok ident grp flag rows n" and keep: "\<And>r. ident (f r) = ident r" and m: "m \<in> set rows"
    and only: "flag (f m) \<Longrightarrow> flag m \<and> grp (f m) = grp m \<or> count_where (\<lambda>r. grp r = grp (f m) \<and> flag r \<and> ident r \<noteq> ident m) rows = 0"
  shows "flags_ok ident grp flag (upd_where (\<lambda>r. ident r = ident m) f rows) n"
proof -
  have dist: "distinct (map ident rows)" and one: "count_where (\<lambda>r. grp r = g \<and> flag r) rows \<le> 1" for g
    using ok by (simp_all add: flags_ok_def)
  have "count_where (\<lambda>r. grp r = g \<and> flag r) (upd_where (\<lambda>r. ident r = ident m) f rows) \<le> 1" for g
  proof -
    note count = count_where_upd_key [OF dist m, of "\<lambda>r. grp r = g \<and> flag r" f]
    show ?thesis
    proof (cases "(grp (f m) = g \<and> flag (f m)) \<and> \<not> (grp m = g \<and> flag m)")
      case True
      then have "count_where (\<lambda>r. grp r = g \<and> flag r) rows = 0"
        using only distinct_key_eq [OF dist _ m] by (auto simp: count_where_zero)
      with count show ?thesis by (simp split: if_splits)
    qed (use count one [of g] in \<open>auto split: if_splits\<close>)
  qed
  with ok keep show ?thesis by (auto simp: flags_ok_def map_upd_where ball_upd_where)
qed

end

definition ver_group :: "version_row \<Rightarrow> id \<times> string" where
  "ver_group v = (ver_applicationId v, ver_track v)"

interpretation versions: flagged ver_id ver_group ver_isLatest clear_latest
  by unfold_locales (simp_all add: clear_latest_def ver_group_def)

interpretation domains: flagged dom_id dom_applicationId dom_isPrimary clear_primary
  by unfold_locales (simp_all add: clear_primary_def)

section \<open>Routes\<close>

datatype version_request =
    CreateVersion id version_dto
  | UpdateVersion id id version_dto
  | RemoveVersion id id

datatype domain_request =
    AddDomain string id string "bool option"
  | UpdateDomain id id "bool option"
  | RemoveDomain id id
  | VerifyDomain id id

fun handle_version :: "id \<Rightarrow> request_meta \<Rightarrow> version_request \<Rightarrow> ('z member_db_scheme, unit) svc" where
  "handle_version user meta (CreateVersion app dto) =
     guarded_app ApplicationMemberRole.DEVELOPER app None user (version_create app user dto meta)"
| "handle_version user meta (UpdateVersion app v dto) =
     guarded_app ApplicationMemberRole.DEVELOPER app None user (version_update app v user dto meta)"
| "handle_version user meta (RemoveVersion app v) =
     guarded_app ApplicationMemberRole.ADMINISTRATOR app None user (version_remove app v user meta)"

fun handle_domain :: "id \<Rightarrow> request_meta \<Rightarrow> domain_request \<Rightarrow> ('z member_db_scheme, unit) svc" where
  "handle_domain user meta (AddDomain token app name isPrimary) =
     guarded_app ApplicationMemberRole.ADMINISTRATOR app None user (domain_create token app user name isPrimary meta)"
| "handle_domain user meta (UpdateDomain app d isPrimary) =
     guarded_app ApplicationMemberRole.ADMINISTRATOR app None user (domain_update app d user isPrimary meta)"
| "handle_domain user meta (RemoveDomain app d) =
     guarded_app ApplicationMemberRole.ADMINISTRATOR app None user (domain_remove app d user meta)"
| "handle_domain user meta (VerifyDomain app d) =
     guarded_app ApplicationMemberRole.ADMINISTRATOR app None user (domain_verify app d user meta)"

section \<open>One latest version per track, one primary domain per application\<close>

abbreviation versions_ok :: "version_row list \<Rightarrow> id \<Rightarrow> bool" where
  "versions_ok \<equiv> flags_ok ver_id ver_group ver_isLatest"

abbreviation domains_ok :: "domain_row list \<Rightarrow> id \<Rightarrow> bool" where
  "domains_ok \<equiv> flags_ok dom_id dom_applicationId dom_isPrimary"

definition releases_ok :: "'z member_db_scheme \<Rightarrow> bool" where
  "releases_ok s \<longleftrightarrow> versions_ok (appVersions s) (nextId s) \<and> domains_ok (appDomains s) (nextId s)"

text \<open>Updates that name another track without saying whether the version is its latest are left out.\<close>

fun says_latest :: "version_request \<Rightarrow> bool" where
  "says_latest (UpdateVersion app v dto) \<longleftrightarrow> vd_track dto = None \<or> vd_isLatest dto \<noteq> None"
| "says_latest _ \<longleftrightarrow> True"

lemma in_group: "(ver_applicationId v = app \<and> ver_track v = track \<and> P v) = (ver_group v = (app, track) \<and> P v)"
  by (auto simp: ver_group_def)

lemma releases_plain [pres]:
  "preserves releases_ok (audit act u o1 a md meta)" "preserves releases_ok now"
  by (simp_all add: preserves_wps wp releases_ok_def)

lemma new_version_ok [simp]:
  "versions_ok rows n \<Longrightarrow> versions_ok (upd_where (\<lambda>v. ver_group v = (app, track) \<and> ver_isLatest v) clear_latest rows @ [new_version n t app track mark u dto]) (Suc n)"
  "versions_ok rows n \<Longrightarrow> versions_ok (rows @ [new_version n t app track False u dto]) (Suc n)"
  using versions.clear versions.cleared by (auto simp: new_version_def ver_group_def intro!: versions.add)

lemma new_domain_ok [simp]:
  "domains_ok rows n \<Longrightarrow> domains_ok (upd_where (\<lambda>d. dom_applicationId d = app \<and> dom_isPrimary d) clear_primary rows @ [new_domain n t app name mark token]) (Suc n)"
  "domains_ok rows n \<Longrightarrow> domains_ok (rows @ [new_domain n t app name False token]) (Suc n)"
  using domains.clear domains.cleared by (auto simp: new_domain_def intro!: domains.add)

lemma later_ok [simp]:
  "versions_ok vrows n \<Longrightarrow> versions_ok vrows (Suc n)" "domains_ok drows n \<Longrightarrow> domains_ok drows (Suc n)"
  by (auto intro: versions.mono domains.mono)

lemma version_create_ok: "preserves releases_ok (version_create app u dto meta)"
  by (auto simp: preserves_wps version_create_def insert_version_def Let_def void_def in_group wp releases_ok_def split: option.split)

lemma domain_create_ok: "preserves releases_ok (domain_create token app u name isPrimary meta)"
  by (cases isPrimary) (auto simp: preserves_wps domain_create_def insert_domain_def void_def wp releases_ok_def split: option.split)

text \<open>The changes of a single row.\<close>

lemma patch_facts [simp]:
  "ver_id (version_patch dto v) = ver_id v" "ver_isLatest (version_patch dto v) = keepUndef (vd_isLatest dto) (ver_isLatest v)"
  "ver_group (version_patch dto v) = (ver_applicationId v, orElse (vd_track dto) (ver_track v))"
  by (cases "vd_track dto"; simp add: version_patch_def ver_group_def)+

lemma version_patch_ok:
  assumes ok: "versions_ok rows n" and m: "List.find (\<lambda>v. ver_id v = i) rows = Some m" and track: "track = orElse (vd_track dto) (ver_track m)"
  shows "vd_isLatest dto = Some True \<Longrightarrow> versions_ok (upd_where (\<lambda>v. ver_id v = i) (version_patch dto)
      (upd_where (\<lambda>v. ver_group v = (ver_applicationId m, track) \<and> ver_isLatest v \<and> ver_id v \<noteq> i) clear_latest rows)) n"
    "vd_isLatest dto \<noteq> Some True \<Longrightarrow> vd_track dto = None \<or> vd_isLatest dto \<noteq> None
      \<Longrightarrow> versions_ok (upd_where (\<lambda>v. ver_id v = i) (version_patch dto) rows) n"
proof -
  have m: "m \<in> set rows" "ver_id m = i" using find_SomeD [OF m] by auto
  let ?g = "(ver_applicationId m, track)"
  let ?rows = "upd_where (\<lambda>v. ver_group v = ?g \<and> ver_isLatest v \<and> ver_id v \<noteq> i) clear_latest rows"
  have "m \<in> set ?rows" using m by (intro upd_where_other_row) auto
  then show "versions_ok (upd_where (\<lambda>v. ver_id v = i) (version_patch dto) ?rows) n"
    using versions.change [OF versions.clear [OF ok], of "version_patch dto" m] m(2) track versions.cleared_others [of ?g i rows] by simp
  show "vd_isLatest dto \<noteq> Some True \<Longrightarrow> vd_track dto = None \<or> vd_isLatest dto \<noteq> None
      \<Longrightarrow> versions_ok (upd_where (\<lambda>v. ver_id v = i) (version_patch dto) rows) n"
    using versions.change [OF ok, of "version_patch dto" m] m ver_group_def [of m] by (cases "vd_isLatest dto") auto
qed

lemma version_marked_ok:
  assumes "versions_ok rows n" and "List.find (\<lambda>v. ver_id v = i) rows = Some m" and "track = orElse (vd_track dto) (ver_track m)"
    and "vd_isLatest dto = Some True"
  shows "versions_ok (upd_where (\<lambda>v. ver_id v = i) (version_patch dto) (upd_where (\<lambda>v. ver_applicationId v = ver_applicationId m
      \<and> ver_track v = track \<and> ver_isLatest v \<and> ver_id v \<noteq> i) clear_latest rows)) n"
  using version_patch_ok(1) [OF assms] by (simp add: ver_group_def conj_assoc)

lemma domain_patch_ok:
  assumes ok: "domains_ok rows n" and m: "List.find (\<lambda>d. dom_id d = i) rows = Some m"
  shows "domains_ok (upd_where (\<lambda>d. dom_id d = i) (\<lambda>d. d\<lparr>dom_isPrimary := True\<rparr>)
      (upd_where (\<lambda>d. dom_applicationId d = dom_applicationId m \<and> dom_isPrimary d \<and> dom_id d \<noteq> i) clear_primary rows)) n"
    "(\<And>d. dom_id (f d) = dom_id d \<and> dom_applicationId (f d) = dom_applicationId d \<and> (dom_isPrimary (f d) \<longrightarrow> dom_isPrimary d))
      \<Longrightarrow> domains_ok (upd_where (\<lambda>d. dom_id d = i) f rows) n"
proof -
  have m: "m \<in> set rows" "dom_id m = i" using find_SomeD [OF m] by auto
  let ?rows = "upd_where (\<lambda>d. dom_applicationId d = dom_applicationId m \<and> dom_isPrimary d \<and> dom_id d \<noteq> i) clear_primary rows"
  have "m \<in> set ?rows" using m by (intro upd_where_other_row) auto
  then show "domains_ok (upd_where (\<lambda>d. dom_id d = i) (\<lambda>d. d\<lparr>dom_isPrimary := True\<rparr>) ?rows) n"
    using domains.change [OF domains.clear [OF ok], of "\<lambda>d. d\<lparr>dom_isPrimary := True\<rparr>" m] m(2) domains.cleared_others [of "dom_applicationId m" i rows] by simp
  show "domains_ok (upd_where (\<lambda>d. dom_id d = i) f rows) n"
    if "\<And>d. dom_id (f d) = dom_id d \<and> dom_applicationId (f d) = dom_applicationId d \<and> (dom_isPrimary (f d) \<longrightarrow> dom_isPrimary d)"
    using domains.change [OF ok, of f m] m that by auto
qed

lemma version_update_ok:
  "vd_track dto = None \<or> vd_isLatest dto \<noteq> None \<Longrightarrow> preserves releases_ok (version_update app i u dto meta)"
  by (auto simp: preserves_wps version_update_def version_getOne_def Let_def void_def wp releases_ok_def intro: version_marked_ok version_patch_ok(2) split: option.split)

lemma domain_update_ok: "preserves releases_ok (domain_update app i u isPrimary meta)"
  by (cases isPrimary)
    (auto simp: preserves_wps domain_update_def domain_getOneOrThrow_def void_def wp releases_ok_def intro!: domain_patch_ok split: option.split)

lemma releases_removals:
  "preserves releases_ok (version_remove app i u meta)" "preserves releases_ok (domain_remove app i u meta)"
  "preserves releases_ok (domain_verify app i u meta)"
  by (auto simp: preserves_wps version_remove_def version_getOne_def domain_remove_def domain_verify_def domain_getOneOrThrow_def wp releases_ok_def
      versions.remove domains.remove intro!: domain_patch_ok split: option.split)

lemma releases_guards [pres]: "preserves releases_ok (applicationRoleGuard role app org u)"
  unfolding applicationRoleGuard_def app_role_check_def by (auto intro!: pres split: option.split)

lemma releases_routes:
  "says_latest vrq \<Longrightarrow> preserves releases_ok (handle_version u meta vrq)" "preserves releases_ok (handle_domain u meta drq)"
  subgoal by (cases vrq) (auto simp: void_def intro!: pres version_create_ok version_update_ok releases_removals)
  subgoal by (cases drq) (auto simp: void_def intro!: pres domain_create_ok domain_update_ok releases_removals)
  done

inductive release_step :: "'z member_db_scheme \<Rightarrow> 'z member_db_scheme \<Rightarrow> bool" where
  time_passes: "release_step s (clock_update f s)"
| version: "says_latest req \<Longrightarrow> release_step s (snd (handle_version u meta req s))"
| dom: "release_step s (snd (handle_domain u meta req s))"

lemma release_steps_ok: "release_step\<^sup>*\<^sup>* s s' \<Longrightarrow> releases_ok s \<Longrightarrow> releases_ok s'"
proof (induction rule: rtranclp_induct)
  case (step y z)
  from step(2) show ?case
  proof cases
    case time_passes
    then show ?thesis using step by (simp add: releases_ok_def)
  qed (use step preservesD [OF releases_routes(1)] preservesD [OF releases_routes(2)] in blast)+
qed simp

section \<open>Sample releases\<close>

definition sample_dto :: "string option \<Rightarrow> bool option \<Rightarrow> version_dto" where
  "sample_dto track isLatest = \<lparr>vd_track = track, vd_androidVersion = None, vd_iosVersion = None, vd_webVersion = Some ''2.0'', vd_buildNumber = None,
     vd_minimumSupportedVersion = None, vd_releaseNotes = None, vd_releaseDate = None, vd_isLatest = isLatest\<rparr>"

definition sample_releases :: member_db where
  "sample_releases = sample_members\<lparr>appVersions := [new_version 50 0 7 ''stable'' True 1 (sample_dto None None), new_version 51 0 7 ''beta'' True 1 (sample_dto None None)],
     appDomains := [new_domain 60 0 7 ''planner.example.org'' True ''token'']\<rparr>"

lemmas sample_release_defs = sample_releases_def sample_dto_def sample_members_def new_version_def new_domain_def ver_group_def

lemma sample_releases_ok: "releases_ok sample_releases"
  by (auto simp: releases_ok_def flags_ok_def count_where_Cons sample_release_defs)

text \<open>C8. Whatever versions and domains are added, changed, removed or verified by whomever, a track of an
  application has at most one latest version and an application at most one primary domain (as
  long as an update that names a track also says whether the version is the latest).
\<close>

theorem one_latest_version:
  assumes "release_step\<^sup>*\<^sup>* s s'" and "releases_ok s"
  shows "count_where (\<lambda>v. ver_group v = (app, track) \<and> ver_isLatest v) (appVersions s') \<le> 1
    \<and> count_where (\<lambda>d. dom_applicationId d = app \<and> dom_isPrimary d) (appDomains s') \<le> 1"
  using release_steps_ok [OF assms] by (simp add: releases_ok_def flags_ok_def)

theorem one_latest_version_witness:
  "let s' = snd (handle_version 1 no_meta (CreateVersion 7 (sample_dto (Some ''beta'') None)) sample_releases) in
   count_where (\<lambda>v. ver_group v = (7, ''beta'') \<and> ver_isLatest v) (appVersions s') \<le> 1
    \<and> count_where (\<lambda>d. dom_applicationId d = 7 \<and> dom_isPrimary d) (appDomains s') \<le> 1"
  unfolding Let_def by (rule one_latest_version [OF _ sample_releases_ok]) (rule r_into_rtranclp, rule release_step.version, simp)

text \<open>
  The exception is real: moving a latest version to a track that has one, without a word on \<open>isLatest\<close>,
  leaves the track with two latest versions.
\<close>

theorem moved_version_two_latest:
  assumes "releases_ok s" and "List.find (\<lambda>x. ver_id x = ver_id v) (appVersions s) = Some v" and "ver_isLatest v" and "ver_applicationId v = app"
    and "r \<in> set (appVersions s)" and "ver_isLatest r" and "ver_group r = (app, track)" and "ver_track v \<noteq> track"
    and "vd_track dto = Some track" and "vd_isLatest dto = None" and "snd (version_update app (ver_id v) u dto meta s) = s'"
  shows "count_where (\<lambda>x. ver_group x = (app, track) \<and> ver_isLatest x) (appVersions s') = 2"
proof -
  have rows: "appVersions s' = upd_where (\<lambda>x. ver_id x = ver_id v) (version_patch dto) (appVersions s)"
  proof -
    have "wps (version_update app (ver_id v) u dto meta)
      (\<lambda>_ s'. appVersions s' = upd_where (\<lambda>x. ver_id x = ver_id v) (version_patch dto) (appVersions s)) s"
      using assms by (simp add: version_update_def version_getOne_def Let_def void_def wp)
    with assms(11) show ?thesis by (simp add: wps_run)
  qed
  have dist: "distinct (map ver_id (appVersions s))" and "count_where (\<lambda>x. ver_group x = (app, track) \<and> ver_isLatest x) (appVersions s) \<le> 1"
    using assms(1) by (simp_all add: releases_ok_def flags_ok_def)
  moreover have "count_where (\<lambda>x. ver_group x = (app, track) \<and> ver_isLatest x) (appVersions s) \<noteq> 0"
    using assms(5-7) by (auto simp: count_where_zero)
  ultimately have "count_where (\<lambda>x. ver_group x = (app, track) \<and> ver_isLatest x) (appVersions s) = 1" by linarith
  moreover have "v \<in> set (appVersions s)" using find_SomeD [OF assms(2)] by simp
  ultimately show ?thesis
    using count_where_upd_key [OF dist, of v "\<lambda>x. ver_group x = (app, track) \<and> ver_isLatest x" "version_patch dto"] assms(3,4,8-10)
    by (simp add: rows ver_group_def [of v])
qed
theorem moved_version_two_latest_witness:
  "count_where (\<lambda>x. ver_group x = (7, ''beta'') \<and> ver_isLatest x)
     (appVersions (snd (version_update 7 50 1 (sample_dto (Some ''beta'') None) no_meta sample_releases))) = 2"
proof -
  let ?v = "new_version 50 0 7 ''stable'' True 1 (sample_dto None None)"
  let ?r = "new_version 51 0 7 ''beta'' True 1 (sample_dto None None)"
  have "List.find (\<lambda>x. ver_id x = ver_id ?v) (appVersions sample_releases) = Some ?v" "?r \<in> set (appVersions sample_releases)" "ver_id ?v = 50"
    by (simp_all add: sample_release_defs)
  with moved_version_two_latest [OF sample_releases_ok this(1) _ _ this(2) _ _ _ _ _ refl, of 7 "''beta''" "sample_dto (Some ''beta'') None" 1 no_meta]
  show ?thesis by (simp add: sample_release_defs)
qed

end
