(* ===== verification/ApiKeys.thy ===== *)
theory ApiKeys
  imports Entitlements Pagination
begin

text \<open>
  API clients and their keys: api-keys/api-clients.service.ts, api-keys/api-keys.service.ts,
  common/utils/api-key.util.ts and common/guards/api-key.guard.ts. The hash and the random bytes are
  parameters. Validation of a key is \<open>validateApiKey\<close> of the entitlement engine.
\<close>

section \<open>Keys\<close>

datatype key_environment = Live | Test

fun env_str :: "key_environment \<Rightarrow> string" where
  "env_str Live = ''live''"
| "env_str Test = ''test''"

definition KEY_BYTES :: nat where "KEY_BYTES = 24"

record generated_api_key =
  gak_plainText :: string
  gak_keyPrefix :: string
  gak_keyHash :: string
  gak_lastFour :: string

definition generateApiKey :: "(string \<Rightarrow> string) \<Rightarrow> (nat \<Rightarrow> string) \<Rightarrow> key_environment \<Rightarrow> generated_api_key" where
  "generateApiKey hash randomBytes env =
     (let random = base64url (randomBytes KEY_BYTES);
          plainText = ''sszk_'' @ env_str env @ ''_'' @ random in
      \<lparr>gak_plainText = plainText, gak_keyPrefix = take 12 plainText, gak_keyHash = hash plainText,
       gak_lastFour = drop (length plainText - 4) plainText\<rparr>)"

section \<open>ApiClientsService\<close>

record create_client_dto =
  cc_name :: string
  cc_description :: "string option"
  cc_applicationId :: "id option"

definition client_assertApplicationInOrg :: "id \<Rightarrow> id \<Rightarrow> ('z ent_db_scheme, unit) svc" where
  "client_assertApplicationInOrg org app = bnd (find_row applications (\<lambda>a. app_id a = app)) (\<lambda>r.
     guard_or (case r of None \<Rightarrow> False | Some a \<Rightarrow> app_organizationId a = org) (NotFoundException ''Application not found for this organization''))"

definition client_create :: "id \<Rightarrow> id \<Rightarrow> create_client_dto \<Rightarrow> ('z ent_db_scheme, api_client) svc" where
  "client_create org userId dto =
     seq (case cc_applicationId dto of None \<Rightarrow> ret () | Some app \<Rightarrow> client_assertApplicationInOrg org app)
     (bnd fresh (\<lambda>i. bnd now (\<lambda>t.
      insert_unique apiClients apiClients_update (\<lambda>_. False)
        \<lparr>acl_id = i, acl_organizationId = org, acl_applicationId = cc_applicationId dto, acl_name = cc_name dto,
         acl_description = cc_description dto, acl_createdById = userId, acl_createdAt = t\<rparr>)))"

definition client_list :: "id \<Rightarrow> ('z ent_db_scheme, api_client list) svc" where
  "client_list org = gets (\<lambda>s. order_by (\<lambda>c. - acl_createdAt c) (filter (\<lambda>c. acl_organizationId c = org) (apiClients s)))"

definition client_getOne :: "id \<Rightarrow> id \<Rightarrow> ('z ent_db_scheme, api_client) svc" where
  "client_getOne org client = bnd (find_row apiClients (\<lambda>c. acl_id c = client)) (\<lambda>r. case r of
     None \<Rightarrow> throw (NotFoundException ''API client not found'')
   | Some c \<Rightarrow> if acl_organizationId c \<noteq> org then throw (NotFoundException ''API client not found'') else ret c)"

definition client_update :: "id \<Rightarrow> id \<Rightarrow> string option \<Rightarrow> string option \<Rightarrow> ('z ent_db_scheme, api_client) svc" where
  "client_update org client name description =
     bnd (client_getOne org client) (\<lambda>_.
     update_row apiClients apiClients_update (\<lambda>c. acl_id c = client)
       (\<lambda>c. c\<lparr>acl_name := keepUndef name (acl_name c), acl_description := keepUndef (map_option Some description) (acl_description c)\<rparr>))"

text \<open>Deleting a client deletes its keys and their scopes.\<close>

definition drop_client :: "id \<Rightarrow> 'z ent_db_scheme \<Rightarrow> 'z ent_db_scheme" where
  "drop_client client s = s\<lparr>apiClients := filter (\<lambda>c. acl_id c \<noteq> client) (apiClients s),
     apiKeys := filter (\<lambda>x. ak_apiClientId x \<noteq> client) (apiKeys s),
     apiKeyScopes := filter (\<lambda>z. \<not> (\<exists>x \<in> set (apiKeys s). ak_apiClientId x = client \<and> ak_id x = as_apiKeyId z)) (apiKeyScopes s)\<rparr>"

definition client_remove :: "id \<Rightarrow> id \<Rightarrow> ('z ent_db_scheme, unit) svc" where
  "client_remove org client = bnd (client_getOne org client) (\<lambda>_. modify (drop_client client))"

section \<open>ApiKeysService\<close>

record create_key_dto =
  ck_name :: string
  ck_environment :: "key_environment option"
  ck_rateLimitPerMin :: "int option"
  ck_expiresAt :: "time option"
  ck_scopes :: "string list option"

text \<open>A key as the callers see it: without its hash, with its scopes.\<close>

record safe_key =
  sk_id :: id
  sk_apiClientId :: id
  sk_name :: string
  sk_keyPrefix :: string
  sk_lastFour :: string
  sk_rateLimitPerMin :: "int option"
  sk_expiresAt :: "time option"
  sk_revokedAt :: "time option"
  sk_rotatedAt :: "time option"
  sk_lastUsedAt :: "time option"
  sk_createdAt :: time
  sk_scopes :: "string list"

definition toSafeKey :: "api_key \<times> string list \<Rightarrow> safe_key" where
  "toSafeKey p = (case p of (x, scopes) \<Rightarrow>
     \<lparr>sk_id = ak_id x, sk_apiClientId = ak_apiClientId x, sk_name = ak_name x, sk_keyPrefix = ak_keyPrefix x, sk_lastFour = ak_lastFour x,
      sk_rateLimitPerMin = ak_rateLimitPerMin x, sk_expiresAt = ak_expiresAt x, sk_revokedAt = ak_revokedAt x, sk_rotatedAt = ak_rotatedAt x,
      sk_lastUsedAt = ak_lastUsedAt x, sk_createdAt = ak_createdAt x, sk_scopes = scopes\<rparr>)"

definition scopes_of :: "id \<Rightarrow> 'z ent_db_scheme \<Rightarrow> string list" where
  "scopes_of i s = map as_scope (filter (\<lambda>z. as_apiKeyId z = i) (apiKeyScopes s))"

definition with_scopes :: "api_key \<Rightarrow> ('z ent_db_scheme, api_key \<times> string list) svc" where
  "with_scopes x = gets (\<lambda>s. (x, scopes_of (ak_id x) s))"

definition new_api_key :: "id \<Rightarrow> time \<Rightarrow> id \<Rightarrow> string \<Rightarrow> generated_api_key \<Rightarrow> int option \<Rightarrow> time option \<Rightarrow> api_key" where
  "new_api_key i t client name g rate expires =
     \<lparr>ak_id = i, ak_apiClientId = client, ak_name = name, ak_keyPrefix = gak_keyPrefix g, ak_keyHash = gak_keyHash g, ak_lastFour = gak_lastFour g,
      ak_rateLimitPerMin = rate, ak_expiresAt = expires, ak_revokedAt = None, ak_rotatedAt = None, ak_lastUsedAt = None, ak_createdAt = t\<rparr>"

text \<open>\<open>create\<close> with nested scopes: one transaction; a scope that is named twice violates the unique key of the scopes.\<close>

definition insert_key :: "id \<Rightarrow> string \<Rightarrow> generated_api_key \<Rightarrow> int option \<Rightarrow> time option \<Rightarrow> string list \<Rightarrow> ('z ent_db_scheme, api_key \<times> string list) svc" where
  "insert_key client name g rate expires scopes = transaction
     (bnd fresh (\<lambda>i. bnd now (\<lambda>t.
      bnd (insert_unique apiKeys apiKeys_update (\<lambda>x. ak_keyHash x = gak_keyHash g) (new_api_key i t client name g rate expires)) (\<lambda>x.
      seq (guard_or (distinct scopes) (PrismaError ''P2002''))
      (seq (modify (apiKeyScopes_update (\<lambda>rs. rs @ map (\<lambda>scope. \<lparr>as_apiKeyId = i, as_scope = scope\<rparr>) scopes)))
           (with_scopes x))))))"

definition key_audit :: "string \<Rightarrow> id \<Rightarrow> api_client \<Rightarrow> (string \<times> json) list \<Rightarrow> request_meta \<Rightarrow> ('z ent_db_scheme, unit) svc" where
  "key_audit action userId client md meta = audit action (Some userId) (Some (acl_organizationId client)) (acl_applicationId client) md meta"

definition apikey_create :: "(string \<Rightarrow> string) \<Rightarrow> (nat \<Rightarrow> string) \<Rightarrow> id \<Rightarrow> create_key_dto \<Rightarrow> id \<Rightarrow> request_meta \<Rightarrow> ('z ent_db_scheme, safe_key \<times> string) svc" where
  "apikey_create hash randomBytes clientId dto userId meta =
     bnd (find_or_throw apiClients (\<lambda>c. acl_id c = clientId)) (\<lambda>client.
     let generated = generateApiKey hash randomBytes (orElse (ck_environment dto) Live) in
     bnd (insert_key clientId (ck_name dto) generated (ck_rateLimitPerMin dto) (ck_expiresAt dto) (orElse (ck_scopes dto) [])) (\<lambda>p.
     seq (key_audit ''API_KEY_CREATED'' userId client
            [(''apiKeyId'', JId (ak_id (fst p))), (''apiClientId'', JId clientId), (''name'', JStr (ak_name (fst p)))] meta)
         (ret (toSafeKey p, gak_plainText generated))))"

definition apikey_getOwned :: "id \<Rightarrow> id \<Rightarrow> ('z ent_db_scheme, api_key \<times> string list) svc" where
  "apikey_getOwned clientId keyId = bnd (find_row apiKeys (\<lambda>x. ak_id x = keyId)) (\<lambda>r. case r of
     None \<Rightarrow> throw (NotFoundException ''API key not found'')
   | Some x \<Rightarrow> if ak_apiClientId x \<noteq> clientId then throw (NotFoundException ''API key not found'') else with_scopes x)"

definition apikey_list :: "id \<Rightarrow> ('z ent_db_scheme, safe_key list) svc" where
  "apikey_list clientId = gets (\<lambda>s. map (\<lambda>x. toSafeKey (x, scopes_of (ak_id x) s))
     (order_by (\<lambda>x. - ak_createdAt x) (filter (\<lambda>x. ak_apiClientId x = clientId) (apiKeys s))))"

definition apikey_getOne :: "id \<Rightarrow> id \<Rightarrow> ('z ent_db_scheme, safe_key) svc" where
  "apikey_getOne clientId keyId = bnd (apikey_getOwned clientId keyId) (\<lambda>p. ret (toSafeKey p))"

definition apikey_revoke :: "id \<Rightarrow> id \<Rightarrow> id \<Rightarrow> request_meta \<Rightarrow> ('z ent_db_scheme, safe_key) svc" where
  "apikey_revoke clientId keyId userId meta =
     bnd (apikey_getOwned clientId keyId) (\<lambda>p.
     seq (guard_or (ak_revokedAt (fst p) = None) (BadRequestException ''API key is already revoked''))
     (bnd now (\<lambda>t.
      bnd (update_row apiKeys apiKeys_update (\<lambda>x. ak_id x = keyId) (\<lambda>x. x\<lparr>ak_revokedAt := Some t\<rparr>)) (\<lambda>updated.
      bnd (with_scopes updated) (\<lambda>q.
      bnd (find_or_throw apiClients (\<lambda>c. acl_id c = clientId)) (\<lambda>client.
      seq (key_audit ''API_KEY_REVOKED'' userId client [(''apiKeyId'', JId keyId)] meta)
          (ret (toSafeKey q))))))))"

definition apikey_rotate :: "(string \<Rightarrow> string) \<Rightarrow> (nat \<Rightarrow> string) \<Rightarrow> id \<Rightarrow> id \<Rightarrow> key_environment option \<Rightarrow> id \<Rightarrow> request_meta \<Rightarrow> ('z ent_db_scheme, safe_key \<times> string) svc" where
  "apikey_rotate hash randomBytes clientId keyId envQ userId meta =
     bnd (apikey_getOwned clientId keyId) (\<lambda>(existing, scopes).
     bnd now (\<lambda>t.
     seq (update_row apiKeys apiKeys_update (\<lambda>x. ak_id x = keyId)
            (\<lambda>x. x\<lparr>ak_revokedAt := Some (orElse (ak_revokedAt existing) t), ak_rotatedAt := Some t\<rparr>))
     (let generated = generateApiKey hash randomBytes (orElse envQ Live) in
      bnd (insert_key clientId (ak_name existing) generated (ak_rateLimitPerMin existing) (ak_expiresAt existing) scopes) (\<lambda>created.
      bnd (find_or_throw apiClients (\<lambda>c. acl_id c = clientId)) (\<lambda>client.
      seq (key_audit ''API_KEY_ROTATED'' userId client [(''oldApiKeyId'', JId keyId), (''newApiKeyId'', JId (ak_id (fst created)))] meta)
          (ret (toSafeKey created, gak_plainText generated)))))))"

definition apikey_addScope :: "id \<Rightarrow> id \<Rightarrow> string \<Rightarrow> ('z ent_db_scheme, api_key_scope) svc" where
  "apikey_addScope clientId keyId scope =
     bnd (apikey_getOwned clientId keyId) (\<lambda>_.
     bnd (find_row apiKeyScopes (\<lambda>z. as_apiKeyId z = keyId \<and> as_scope z = scope)) (\<lambda>r. case r of
       Some z \<Rightarrow> ret z
     | None \<Rightarrow> insert_unique apiKeyScopes apiKeyScopes_update (\<lambda>_. False) \<lparr>as_apiKeyId = keyId, as_scope = scope\<rparr>))"

definition apikey_removeScope :: "id \<Rightarrow> id \<Rightarrow> string \<Rightarrow> ('z ent_db_scheme, unit) svc" where
  "apikey_removeScope clientId keyId scope =
     bnd (apikey_getOwned clientId keyId) (\<lambda>_.
     modify (apiKeyScopes_update (filter (\<lambda>z. \<not> (as_apiKeyId z = keyId \<and> as_scope z = scope)))))"

section \<open>ApiKeyGuard\<close>

definition apiKeyGuard :: "(string \<Rightarrow> string) \<Rightarrow> string option \<Rightarrow> ('z ent_db_scheme, valid_api_key) svc" where
  "apiKeyGuard hash header = (if \<not> truthy header then throw (UnauthorizedException ''Missing X-API-Key header'')
     else bnd (validateApiKey hash (the header)) (\<lambda>r. case r of
       None \<Rightarrow> throw (UnauthorizedException ''Invalid, revoked, or expired API key'')
     | Some context \<Rightarrow> ret context))"

end
