(* ===== verification/ApiKey_Flow.thy ===== *)
theory ApiKey_Flow
  imports ApiKeys
begin

text \<open>
  An issued API key validates until it expires, with the scopes it was issued with; a revoked one is refused
  whatever follows; and rotating a revoked key issues a working one.
\<close>

section \<open>Issued keys validate\<close>

text \<open>What validation answers for the key of a row.\<close>

definition identity_of :: "api_key \<Rightarrow> api_client \<Rightarrow> string list \<Rightarrow> valid_api_key" where
  "identity_of x c scopes = \<lparr>vk_apiKeyId = ak_id x, vk_apiClientId = ak_apiClientId x, vk_organizationId = acl_organizationId c,
     vk_applicationId = acl_applicationId c, vk_scopes = scopes\<rparr>"

definition unexpired :: "time option \<Rightarrow> time \<Rightarrow> bool" where
  "unexpired expires t \<longleftrightarrow> (case expires of None \<Rightarrow> True | Some e \<Rightarrow> t \<le> e)"

lemma validates:
  assumes "List.find (\<lambda>x. ak_keyHash x = hash raw) (apiKeys s) = Some x" and "List.find (\<lambda>c. acl_id c = ak_apiClientId x) (apiClients s) = Some c"
    and "ak_revokedAt x = None" and "unexpired (ak_expiresAt x) (clock s)"
  shows "fst (validateApiKey hash raw s) = Inr (Some (identity_of x c (scopes_of (ak_id x) s)))"
proof -
  have "List.find (\<lambda>y. ak_id y = ak_id x) (apiKeys s) \<noteq> None"
    using find_SomeD [OF assms(1)] by (auto simp: find_None_iff)
  then have "wps (validateApiKey hash raw) (\<lambda>r s'. r = Inr (Some (identity_of x c (scopes_of (ak_id x) s)))) s"
    using assms by (auto simp: validateApiKey_def identity_of_def scopes_of_def unexpired_def wp split: option.split)
  then show ?thesis by (simp add: wps_run)
qed

lemma scopes_of_plain [simp]:
  "scopes_of i (apiKeys_update f1 s) = scopes_of i s" "scopes_of i (nextId_update f2 s) = scopes_of i s"
  "scopes_of i (audits_update f3 s) = scopes_of i s" "scopes_of i (clock_update f4 s) = scopes_of i s"
  by (simp_all add: scopes_of_def)

lemma scopes_of_new [simp]:
  "\<forall>z \<in> set (apiKeyScopes s). as_apiKeyId z < i
   \<Longrightarrow> scopes_of i (apiKeyScopes_update (\<lambda>rs. rs @ map (\<lambda>scope. \<lparr>as_apiKeyId = i, as_scope = scope\<rparr>) scopes) s) = scopes"
  by (auto simp: scopes_of_def filter_empty_conv comp_def)

lemma find_appended: "List.find P xs = None \<Longrightarrow> P r \<Longrightarrow> List.find P (xs @ [r]) = Some r"
  by (induction xs) (auto split: if_splits)

text \<open>The one way a key is issued, by \<open>create\<close> and \<open>rotate\<close>.\<close>

definition issued :: "(string \<Rightarrow> string) \<Rightarrow> string \<Rightarrow> safe_key \<Rightarrow> id \<Rightarrow> api_client \<Rightarrow> time option \<Rightarrow> string list \<Rightarrow> 'z ent_db_scheme \<Rightarrow> bool" where
  "issued hash plain key client c expires scopes s \<longleftrightarrow> (\<exists>x. List.find (\<lambda>x. ak_keyHash x = hash plain) (apiKeys s) = Some x
     \<and> ak_id x = sk_id key \<and> ak_apiClientId x = client \<and> ak_revokedAt x = None \<and> ak_expiresAt x = expires \<and> scopes_of (ak_id x) s = scopes
     \<and> List.find (\<lambda>c. acl_id c = client) (apiClients s) = Some c)"

lemma issued_validates:
  assumes "issued hash plain key client c expires scopes s" and "unexpired expires t"
  shows "fst (validateApiKey hash plain (clock_update (\<lambda>_. t) s))
    = Inr (Some \<lparr>vk_apiKeyId = sk_id key, vk_apiClientId = client, vk_organizationId = acl_organizationId c,
        vk_applicationId = acl_applicationId c, vk_scopes = scopes\<rparr>)"
proof -
  obtain x where x: "List.find (\<lambda>x. ak_keyHash x = hash plain) (apiKeys s) = Some x" "ak_id x = sk_id key" "ak_apiClientId x = client"
      "ak_revokedAt x = None" "ak_expiresAt x = expires" "scopes_of (ak_id x) s = scopes" "List.find (\<lambda>c. acl_id c = client) (apiClients s) = Some c"
    using assms(1) by (auto simp: issued_def)
  then show ?thesis
    using validates [of hash plain "clock_update (\<lambda>_. t) s" x c] assms(2) by (simp add: identity_of_def scopes_of_def)
qed

lemma create_issues:
  assumes "apikey_create hash rnd client dto u meta s = (Inr (key, plain), s1)" and "\<forall>z \<in> set (apiKeyScopes s). as_apiKeyId z < nextId s"
  shows "\<exists>c. List.find (\<lambda>c. acl_id c = client) (apiClients s) = Some c
    \<and> issued hash plain key client c (ck_expiresAt dto) (orElse (ck_scopes dto) []) s1"
proof -
  have "wps (apikey_create hash rnd client dto u meta) (\<lambda>r s1. \<forall>key plain. r = Inr (key, plain)
    \<longrightarrow> (\<exists>c. List.find (\<lambda>c. acl_id c = client) (apiClients s) = Some c
      \<and> issued hash plain key client c (ck_expiresAt dto) (orElse (ck_scopes dto) []) s1)) s"
    using assms(2)
    by (auto simp: apikey_create_def Let_def insert_key_def with_scopes_def key_audit_def new_api_key_def generateApiKey_def issued_def
        toSafeKey_def find_appended wp split: option.split)
  with assms(1) show ?thesis by (simp add: wps_run)
qed

lemma wps_rotate:
  assumes "\<forall>z \<in> set (apiKeyScopes s). as_apiKeyId z < nextId s" and "List.find (\<lambda>x. ak_id x = i) (apiKeys s) = Some x"
    and "ak_apiClientId x = client" and "List.find (\<lambda>c. acl_id c = client) (apiClients s) = Some c" and "distinct (scopes_of i s)"
    and "List.find (\<lambda>x. ak_keyHash x = gak_keyHash (generateApiKey hash rnd (orElse env Live))) (apiKeys s) = None"
  shows "wps (apikey_rotate hash rnd client i env u meta) (\<lambda>r s1. \<exists>key plain. r = Inr (key, plain)
    \<and> issued hash plain key client c (ak_expiresAt x) (scopes_of i s) s1) s"
proof -
  have "List.find (\<lambda>x. ak_keyHash x = h) (upd_where P (\<lambda>x. x\<lparr>ak_revokedAt := a, ak_rotatedAt := b\<rparr>) rows) = None"
    if "List.find (\<lambda>x. ak_keyHash x = h) rows = None" for h P a b rows
    using that by (auto simp: find_None_iff set_upd_where)
  note gone = this [OF assms(6)]
  have "ak_id x = i" using find_SomeD [OF assms(2)] by simp
  then show ?thesis
    using assms gone
    by (auto simp: apikey_rotate_def apikey_getOwned_def Let_def insert_key_def with_scopes_def key_audit_def new_api_key_def generateApiKey_def
        issued_def toSafeKey_def find_appended wp split: option.split)
qed

section \<open>Sample keys\<close>

definition sample_client :: api_client where
  "sample_client = \<lparr>acl_id = 70, acl_organizationId = 1, acl_applicationId = Some 3, acl_name = ''Backend'', acl_description = None,
     acl_createdById = 1, acl_createdAt = 0\<rparr>"

text \<open>A key of client 70: live, or revoked at \<open>r\<close>.\<close>

definition sample_key :: "time option \<Rightarrow> api_key" where
  "sample_key r = \<lparr>ak_id = 71, ak_apiClientId = 70, ak_name = ''ci'', ak_keyPrefix = ''sszk_live_AB'', ak_keyHash = ''sha:sszk_live_ABCD'',
     ak_lastFour = ''ABCD'', ak_rateLimitPerMin = None, ak_expiresAt = None, ak_revokedAt = r, ak_rotatedAt = None, ak_lastUsedAt = None,
     ak_createdAt = 0\<rparr>"

definition key_db :: "time option \<Rightarrow> ent_db" where
  "key_db r = \<lparr>clock = 1700000000000, nextId = 100, audits = [], platformEvents = [], automationRules = [], jobs = [], jobHistory = [],
     queueControls = [], finIntegrations = [], erpConnections = [], finEvents = [], syncQueue = [], finSyncs = [], syncHistory = [], syncErrors = [],
     erpCalls = [], customers = [], products = [], plans = [], prices = [], subscriptions = [], subItems = [], subEvents = [], subChanges = [],
     prorations = [], trials = [], coupons = [], promotionCodes = [], subCoupons = [], applications = [], licenses = [], licenseKeys = [], licenseAssignments = [],
     seats = [], seatAssignments = [], devices = [], features = [], entDefinitions = [], planFeatures = [], grants = [],
     grantEvents = [], featureAccess = [], usageLimits = [], usageCounters = [], usageRecords = [], apiClients = [sample_client],
     apiKeys = [sample_key r], apiKeyScopes = [\<lparr>as_apiKeyId = 71, as_scope = ''read''\<rparr>]\<rparr>"

lemmas sample_key_defs = sample_client_def sample_key_def key_db_def

definition ci_dto :: create_key_dto where
  "ci_dto = \<lparr>ck_name = ''deploy'', ck_environment = None, ck_rateLimitPerMin = Some 60, ck_expiresAt = Some 1800000000000, ck_scopes = Some [''read'', ''write'']\<rparr>"

lemma key_db_facts:
  "\<forall>z \<in> set (apiKeyScopes (key_db r)). as_apiKeyId z < nextId (key_db r)" "distinct (map ak_keyHash (apiKeys (key_db r)))"
  "List.find (\<lambda>x. ak_id x = 71) (apiKeys (key_db r)) = Some (sample_key r)" "List.find (\<lambda>c. acl_id c = 70) (apiClients (key_db r)) = Some sample_client"
  "scopes_of 71 (key_db r) = [''read'']" "ak_keyHash (sample_key r) = ''sha:'' @ ''sszk_live_ABCD''"
  by (simp_all add: sample_key_defs scopes_of_def)

lemma fresh_draw:
  "List.find (\<lambda>x. ak_keyHash x = gak_keyHash (generateApiKey (\<lambda>raw. ''sha:'' @ raw) (\<lambda>n. ''xyz'') Live)) (apiKeys (key_db r)) = None"
  by (simp add: generateApiKey_def Let_def base64url_def BASE64URL_def sample_key_defs)

text \<open>A key is good for what it was issued for: until it expires, the plain text shown once at creation
  authenticates as its client's organisation and application, with exactly the scopes it was created with.
\<close>

theorem issued_key_validates:
  assumes "apikey_create hash rnd client dto u meta s = (Inr (key, plain), s1)" and "\<forall>z \<in> set (apiKeyScopes s). as_apiKeyId z < nextId s"
    and "unexpired (ck_expiresAt dto) t"
  shows "\<exists>c. List.find (\<lambda>c. acl_id c = client) (apiClients s) = Some c
    \<and> fst (validateApiKey hash plain (clock_update (\<lambda>_. t) s1))
      = Inr (Some \<lparr>vk_apiKeyId = sk_id key, vk_apiClientId = client, vk_organizationId = acl_organizationId c,
          vk_applicationId = acl_applicationId c, vk_scopes = orElse (ck_scopes dto) []\<rparr>)"
  using create_issues [OF assms(1,2)] issued_validates [OF _ assms(3)] by blast

theorem issued_key_validates_witness:
  "\<exists>key plain s1. apikey_create (\<lambda>raw. ''sha:'' @ raw) (\<lambda>n. ''xyz'') 70 ci_dto 1 no_meta (key_db None) = (Inr (key, plain), s1)
     \<and> fst (validateApiKey (\<lambda>raw. ''sha:'' @ raw) plain (clock_update (\<lambda>_. 1700000060000) s1))
       = Inr (Some \<lparr>vk_apiKeyId = sk_id key, vk_apiClientId = 70, vk_organizationId = 1, vk_applicationId = Some 3, vk_scopes = [''read'', ''write'']\<rparr>)"
proof -
  let ?hash = "\<lambda>raw. ''sha:'' @ raw" and ?rnd = "\<lambda>n::nat. ''xyz''"
  have env: "orElse (ck_environment ci_dto) Live = Live" "orElse (ck_scopes ci_dto) [] = [''read'', ''write'']" by (simp_all add: ci_dto_def)
  have "wps (apikey_create ?hash ?rnd 70 ci_dto 1 no_meta) (\<lambda>r s1. \<exists>key plain. r = Inr (key, plain)) (key_db None)"
    using key_db_facts [of None] fresh_draw [of None]
    by (simp add: apikey_create_def env Let_def insert_key_def with_scopes_def key_audit_def toSafeKey_def wp)
  then obtain key plain s1 where r: "apikey_create ?hash ?rnd 70 ci_dto 1 no_meta (key_db None) = (Inr (key, plain), s1)"
    by (auto simp: wps_def split: prod.splits)
  have "unexpired (ck_expiresAt ci_dto) 1700000060000" by (simp add: unexpired_def ci_dto_def)
  from issued_key_validates [OF r key_db_facts(1) this] have "fst (validateApiKey ?hash plain (clock_update (\<lambda>_. 1700000060000) s1))
       = Inr (Some \<lparr>vk_apiKeyId = sk_id key, vk_apiClientId = 70, vk_organizationId = 1, vk_applicationId = Some 3, vk_scopes = [''read'', ''write'']\<rparr>)"
    using key_db_facts(4) [of None] by (auto simp: env sample_client_def)
  with r show ?thesis by blast
qed

text \<open>
  Rotation does not ask whether the key it replaces is still good: rotating a revoked key issues a key that
  validates, with the scopes of the revoked one.
\<close>

theorem rotation_revives_revoked_key:
  assumes "\<forall>z \<in> set (apiKeyScopes s). as_apiKeyId z < nextId s" and "List.find (\<lambda>x. ak_id x = i) (apiKeys s) = Some x"
    and "ak_apiClientId x = client" and "List.find (\<lambda>c. acl_id c = client) (apiClients s) = Some c" and "distinct (scopes_of i s)"
    and "List.find (\<lambda>x. ak_keyHash x = gak_keyHash (generateApiKey hash rnd (orElse env Live))) (apiKeys s) = None"
    and "ak_revokedAt x \<noteq> None" and "unexpired (ak_expiresAt x) (clock s)"
  shows "\<exists>key plain s1. apikey_rotate hash rnd client i env u meta s = (Inr (key, plain), s1)
    \<and> fst (validateApiKey hash plain (clock_update (\<lambda>_. clock s) s1))
      = Inr (Some \<lparr>vk_apiKeyId = sk_id key, vk_apiClientId = client, vk_organizationId = acl_organizationId c,
          vk_applicationId = acl_applicationId c, vk_scopes = scopes_of i s\<rparr>)"
  using wps_rotate [OF assms(1-6), of u meta] issued_validates [OF _ assms(8)] by (auto simp: wps_def split: prod.splits)

theorem rotation_revives_revoked_key_witness:
  "\<exists>key plain s1. apikey_rotate (\<lambda>raw. ''sha:'' @ raw) (\<lambda>n. ''xyz'') 70 71 None 1 no_meta (key_db (Some 5)) = (Inr (key, plain), s1)
     \<and> fst (validateApiKey (\<lambda>raw. ''sha:'' @ raw) plain (clock_update (\<lambda>_. 1700000000000) s1))
       = Inr (Some \<lparr>vk_apiKeyId = sk_id key, vk_apiClientId = 70, vk_organizationId = 1, vk_applicationId = Some 3, vk_scopes = [''read'']\<rparr>)"
proof -
  have x: "ak_apiClientId (sample_key (Some 5)) = 70" "ak_revokedAt (sample_key (Some 5)) \<noteq> None" "clock (key_db (Some 5)) = 1700000000000"
    "unexpired (ak_expiresAt (sample_key (Some 5))) (clock (key_db (Some 5)))" "distinct (scopes_of 71 (key_db (Some 5)))"
    by (simp_all add: sample_key_defs unexpired_def scopes_of_def)
  have fresh: "List.find (\<lambda>x. ak_keyHash x = gak_keyHash (generateApiKey (\<lambda>raw. ''sha:'' @ raw) (\<lambda>n. ''xyz'') (orElse None Live))) (apiKeys (key_db (Some 5))) = None"
    using fresh_draw [of "Some 5"] by simp
  from rotation_revives_revoked_key [OF key_db_facts(1,3) x(1) key_db_facts(4) x(5) fresh x(2,4), of 1 no_meta]
  show ?thesis by (simp add: x(3) key_db_facts(5) sample_client_def)
qed

section \<open>Revoked keys are refused\<close>

text \<open>Every key with this hash is revoked.\<close>

definition refused :: "string \<Rightarrow> 'z ent_db_scheme \<Rightarrow> bool" where
  "refused h s \<longleftrightarrow> (\<forall>x \<in> set (apiKeys s). ak_keyHash x = h \<longrightarrow> ak_revokedAt x \<noteq> None)"

lemma refused_plain [pres]:
  "preserves (refused h) (audit act u o1 a md meta)" "preserves (refused h) now" "preserves (refused h) fresh"
  "preserves (refused h) (key_audit act v c md meta)" "preserves (refused h) (with_scopes x)" "preserves (refused h) (apikey_getOwned ci ki)"
  "preserves (refused h) (client_getOne org ci)" "preserves (refused h) (client_assertApplicationInOrg org app)"
  by (auto simp: preserves_wps wp refused_def key_audit_def with_scopes_def apikey_getOwned_def client_getOne_def client_assertApplicationInOrg_def
      split: option.split)

lemma refused_upd [simp]:
  "(\<And>r. ak_keyHash (f r) = ak_keyHash r \<and> (ak_revokedAt (f r) = None \<longrightarrow> ak_revokedAt r = None)) \<Longrightarrow> refused h s \<Longrightarrow> refused h (apiKeys_update (upd_where P f) s)"
  by (auto simp: refused_def ball_upd_where simp del: not_None_eq)

lemma refused_aside [simp]:
  "refused h (apiKeyScopes_update f1 s) = refused h s" "refused h (apiClients_update f2 s) = refused h s"
  "refused h (clock_update f3 s) = refused h s" "refused h s \<Longrightarrow> refused h (drop_client ci s)"
  by (auto simp: refused_def drop_client_def)

lemma refused_insert_key:
  "gak_keyHash g \<noteq> h \<Longrightarrow> preserves (refused h) (insert_key client name g rate expires scopes)"
  by (auto simp: preserves_wps insert_key_def with_scopes_def new_api_key_def refused_def wp split: option.split)

lemma refused_key_ops:
  "gak_keyHash (generateApiKey hash rnd (orElse (ck_environment dto) Live)) \<noteq> h \<Longrightarrow> preserves (refused h) (apikey_create hash rnd ci dto u meta)"
  "preserves (refused h) (apikey_revoke ci ki u meta)"
  "gak_keyHash (generateApiKey hash rnd (orElse env Live)) \<noteq> h \<Longrightarrow> preserves (refused h) (apikey_rotate hash rnd ci ki env u meta)"
  "preserves (refused h) (apikey_addScope ci ki scope)" "preserves (refused h) (apikey_removeScope ci ki scope)"
  unfolding apikey_create_def apikey_revoke_def apikey_rotate_def apikey_addScope_def apikey_removeScope_def Let_def split_beta
  by (intro pres refused_insert_key; simp)+

lemma refused_client_ops:
  "preserves (refused h) (client_create org u cdto)" "preserves (refused h) (client_update org ci nm ds)" "preserves (refused h) (client_remove org ci)"
  "preserves (refused h) (validateApiKey hash raw)"
  unfolding client_create_def client_update_def client_remove_def validateApiKey_def
  by (intro pres; simp)+

text \<open>Operations that do not happen to draw the same key again, and the passing of time.\<close>

inductive key_step :: "(string \<Rightarrow> string) \<Rightarrow> string \<Rightarrow> 'z ent_db_scheme \<Rightarrow> 'z ent_db_scheme \<Rightarrow> bool" for hash h where
  time_passes: "key_step hash h s (clock_update f s)"
| create: "gak_keyHash (generateApiKey hash rnd (orElse (ck_environment dto) Live)) \<noteq> h \<Longrightarrow> key_step hash h s (snd (apikey_create hash rnd ci dto u meta s))"
| revoke: "key_step hash h s (snd (apikey_revoke ci ki u meta s))"
| rotate: "gak_keyHash (generateApiKey hash rnd (orElse env Live)) \<noteq> h \<Longrightarrow> key_step hash h s (snd (apikey_rotate hash rnd ci ki env u meta s))"
| add_scope: "key_step hash h s (snd (apikey_addScope ci ki scope s))"
| remove_scope: "key_step hash h s (snd (apikey_removeScope ci ki scope s))"
| create_client: "key_step hash h s (snd (client_create org u cdto s))"
| update_client: "key_step hash h s (snd (client_update org ci nm ds s))"
| remove_client: "key_step hash h s (snd (client_remove org ci s))"
| validate: "key_step hash h s (snd (validateApiKey hash raw s))"

lemma refused_steps: "(key_step hash h)\<^sup>*\<^sup>* s s' \<Longrightarrow> refused h s \<Longrightarrow> refused h s'"
proof (induction rule: rtranclp_induct)
  case (step y z)
  then have "refused h y" by blast
  with step(2) show ?case
    by cases (auto simp: refused_key_ops refused_client_ops intro: preservesD [of "refused h"])
qed simp

lemma refused_invalid: "refused (hash raw) s \<Longrightarrow> fst (validateApiKey hash raw s) \<noteq> Inr (Some v)"
proof -
  assume "refused (hash raw) s"
  then have "wps (validateApiKey hash raw) (\<lambda>r s'. r \<noteq> Inr (Some v)) s"
    by (auto simp: validateApiKey_def refused_def wp dest: find_SomeD split: option.split)
  then show ?thesis by (simp add: wps_run)
qed

text \<open>C40. A revoked key stays refused: once \<open>revoke\<close> has succeeded for the key of a plain text, no sequence of
  operations on keys, scopes and clients makes that plain text authenticate again.
\<close>

theorem revoked_key_stays_refused:
  assumes "apikey_revoke client i u meta s = (Inr key, s1)" and "distinct (map ak_keyHash (apiKeys s))"
    and "List.find (\<lambda>x. ak_id x = i) (apiKeys s) = Some x" and "ak_keyHash x = hash raw" and "(key_step hash (hash raw))\<^sup>*\<^sup>* s1 s2"
  shows "\<nexists>v. fst (validateApiKey hash raw s2) = Inr (Some v)"
proof -
  have rows: "apiKeys s1 = upd_where (\<lambda>x. ak_id x = i) (\<lambda>x. x\<lparr>ak_revokedAt := Some (clock s)\<rparr>) (apiKeys s)"
  proof -
    have "wps (apikey_revoke client i u meta) (\<lambda>r s1. \<forall>k. r = Inr k
      \<longrightarrow> apiKeys s1 = upd_where (\<lambda>x. ak_id x = i) (\<lambda>x. x\<lparr>ak_revokedAt := Some (clock s)\<rparr>) (apiKeys s)) s"
      by (auto simp: apikey_revoke_def apikey_getOwned_def with_scopes_def key_audit_def wp split: option.split)
    with assms(1) show ?thesis by (simp add: wps_run)
  qed
  from find_SomeD [OF assms(3)] have x: "x \<in> set (apiKeys s)" "ak_id x = i" by auto
  have "ak_id r = i" if "r \<in> set (apiKeys s)" "ak_keyHash r = hash raw" for r
    using distinct_key_eq [OF assms(2) that(1) x(1)] that(2) x(2) assms(4) by simp
  then have "refused (hash raw) s1" by (auto simp: refused_def rows ball_upd_where)
  then show ?thesis using refused_steps [OF assms(5)] refused_invalid by blast
qed

theorem revoked_key_stays_refused_witness:
  "\<exists>key s1. apikey_revoke 70 71 1 no_meta (key_db None) = (Inr key, s1)
     \<and> (\<nexists>v. fst (validateApiKey (\<lambda>raw. ''sha:'' @ raw) ''sszk_live_ABCD'' (snd (apikey_addScope 70 71 ''write'' s1))) = Inr (Some v))"
proof -
  have "wps (apikey_revoke 70 71 1 no_meta) (\<lambda>r s1. \<exists>key. r = Inr key) (key_db None)"
    using key_db_facts(3,4) [of None]
    by (simp add: apikey_revoke_def apikey_getOwned_def with_scopes_def key_audit_def wp) (simp add: sample_key_def)
  then obtain key s1 where r: "apikey_revoke 70 71 1 no_meta (key_db None) = (Inr key, s1)" by (auto simp: wps_def split: prod.splits)
  have "key_step (\<lambda>raw. ''sha:'' @ raw) (''sha:'' @ ''sszk_live_ABCD'') s1 (snd (apikey_addScope 70 71 ''write'' s1))" by (rule key_step.add_scope)
  then have step: "(key_step (\<lambda>raw. ''sha:'' @ raw) (''sha:'' @ ''sszk_live_ABCD''))\<^sup>*\<^sup>* s1 (snd (apikey_addScope 70 71 ''write'' s1))" by blast
  from revoked_key_stays_refused [where hash = "\<lambda>raw. ''sha:'' @ raw", OF r key_db_facts(2,3,6) step] r show ?thesis by blast
qed

end
