(* ===== verification/Scheduler.thy ===== *)
theory Scheduler
  imports Devices Jobs
begin

text \<open>
  The recurring maintenance tasks, scheduler/scheduler.service.ts: their registration as recurring jobs when
  the application starts, and the sweeps that change rows (trials, licenses, devices, job history). The tasks
  that only read and log are not modelled. A query without an order returns the rows in table order.
\<close>

section \<open>Start-up\<close>

definition QUEUE_NAME :: string where "QUEUE_NAME = ''scheduled''"

definition DEVICE_INACTIVITY_THRESHOLD_MS :: int where "DEVICE_INACTIVITY_THRESHOLD_MS = 90 * 24 * 60 * 60 * 1000"

definition LOG_RETENTION_MS :: int where "LOG_RETENTION_MS = 90 * 24 * 60 * 60 * 1000"

text \<open>The type and the schedule of each task.\<close>

definition task_definitions :: "(string \<times> string) list" where
  "task_definitions =
     [(''SCHEDULED:trial-expiration'', ''every:1h''), (''SCHEDULED:renewal-reminders'', ''daily:09:00''),
      (''SCHEDULED:license-cleanup'', ''daily:02:00''), (''SCHEDULED:device-cleanup'', ''daily:03:00''),
      (''SCHEDULED:erp-retry'', ''every:1h''), (''SCHEDULED:webhook-retry'', ''every:1h''), (''SCHEDULED:log-cleanup'', ''daily:04:00''),
      (''SCHEDULED:db-maintenance'', ''weekly:0:05:00''), (''SCHEDULED:daily-stats'', ''daily:01:00''),
      (''SCHEDULED:monthly-stats'', ''monthly:1:01:00'')]"

definition awaits :: "string \<Rightarrow> job_row \<Rightarrow> bool" where
  "awaits ty j \<longleftrightarrow> job_type j = ty \<and> job_status j \<in> {JobStatus.PENDING, JobStatus.SCHEDULED}"

definition enqueueIfMissing :: "string \<Rightarrow> string \<Rightarrow> ('z platform_db_scheme, unit) svc" where
  "enqueueIfMissing ty cron =
     bnd (find_row jobs (awaits ty)) (\<lambda>existing. case existing of Some _ \<Rightarrow> ret ()
     | None \<Rightarrow> bnd now (\<lambda>t. bnd (lift (computeNextRun cron t)) (\<lambda>d. bnd (lift (prisma_date d)) (\<lambda>runAt.
         seq (enqueue ty (JObj []) (default_options\<lparr>opt_queueName := Some QUEUE_NAME, opt_cron := Some cron, opt_runAt := Some runAt\<rparr>)) (ret ())))))"

fun enqueue_missing :: "(string \<times> string) list \<Rightarrow> ('z platform_db_scheme, unit) svc" where
  "enqueue_missing [] = ret ()"
| "enqueue_missing ((ty, cron) # ds) = seq (enqueueIfMissing ty cron) (enqueue_missing ds)"

text \<open>The processors are registered first; their types are distinct, so the fresh registry takes them all.\<close>

definition onModuleInit :: "('z platform_db_scheme, unit) svc" where
  "onModuleInit = enqueue_missing task_definitions"

section \<open>Sweeps\<close>

text \<open>\<open>findMany\<close> of at most 200 rows, then \<open>updateMany\<close> of those that are still in the state looked for.\<close>

definition sweep_batch :: "('r \<Rightarrow> bool) \<Rightarrow> 'r list \<Rightarrow> 'r list" where
  "sweep_batch due rows = take 200 (filter due rows)"

definition trial_overdue :: "time \<Rightarrow> trial_row \<Rightarrow> bool" where
  "trial_overdue t r \<longleftrightarrow> tr_status r = TrialStatus.ACTIVE \<and> tr_endsAt r < t"

definition runTrialExpiration :: "('z sub_db_scheme, unit) svc" where
  "runTrialExpiration = bnd now (\<lambda>t. bnd (gets (\<lambda>s. sweep_batch (trial_overdue t) (trials s))) (\<lambda>overdue.
     let standalone = filter (\<lambda>r. tr_subscriptionId r = None) overdue in
     when_do (standalone \<noteq> []) (seq (update_many trials trials_update
       (\<lambda>r. tr_id r \<in> set (map tr_id standalone) \<and> tr_status r = TrialStatus.ACTIVE) (\<lambda>r. r\<lparr>tr_status := TrialStatus.EXPIRED\<rparr>)) (ret ()))))"

definition license_overdue :: "time \<Rightarrow> license_row \<Rightarrow> bool" where
  "license_overdue t l \<longleftrightarrow> lic_status l = LicenseStatus.ACTIVE \<and> (case lic_expiresAt l of None \<Rightarrow> False | Some e \<Rightarrow> e < t)"

definition expire_license :: "license_row \<Rightarrow> license_row" where
  "expire_license l = l\<lparr>lic_status := LicenseStatus.EXPIRED\<rparr>"

definition runLicenseCleanup :: "('z lic_db_scheme, unit) svc" where
  "runLicenseCleanup = bnd now (\<lambda>t. bnd (gets (\<lambda>s. sweep_batch (license_overdue t) (licenses s))) (\<lambda>expired.
     when_do (expired \<noteq> [])
       (bnd (update_many licenses licenses_update (\<lambda>l. lic_id l \<in> set (map lic_id expired) \<and> lic_status l = LicenseStatus.ACTIVE) expire_license) (\<lambda>count.
        audit ''LICENSE_ADMIN_ACTION'' None None None [(''source'', JStr ''SCHEDULED:license-cleanup''), (''count'', JInt (int count)),
          (''licenseIds'', JArr (map (\<lambda>l. JId (lic_id l)) expired))] no_meta))))"

definition device_idle :: "time \<Rightarrow> device_row \<Rightarrow> bool" where
  "device_idle threshold d \<longleftrightarrow> dev_status d = DeviceStatus.ACTIVE \<and> dev_lastSeenAt d < threshold"

definition deactivate :: "device_row \<Rightarrow> device_row" where
  "deactivate d = d\<lparr>dev_status := DeviceStatus.INACTIVE\<rparr>"

definition runDeviceCleanup :: "('z lic_db_scheme, unit) svc" where
  "runDeviceCleanup = bnd now (\<lambda>t. let threshold = t - DEVICE_INACTIVITY_THRESHOLD_MS in
     bnd (gets (\<lambda>s. sweep_batch (device_idle threshold) (devices s))) (\<lambda>inactive.
     when_do (inactive \<noteq> [])
       (bnd (update_many devices devices_update (\<lambda>d. dev_id d \<in> set (map dev_id inactive) \<and> dev_status d = DeviceStatus.ACTIVE) deactivate) (\<lambda>count.
        audit ''DEVICE_DEACTIVATED'' None None None [(''source'', JStr ''SCHEDULED:device-cleanup''), (''count'', JInt (int count)),
          (''deviceIds'', JArr (map (\<lambda>d. JId (dev_id d)) inactive)), (''inactivityThresholdDays'', JInt 90)] no_meta))))"

text \<open>The history entries of an attempt that succeeded, of a job that was completed before the threshold.\<close>

definition prunable :: "time \<Rightarrow> job_row list \<Rightarrow> job_history \<Rightarrow> bool" where
  "prunable threshold js h \<longleftrightarrow> jh_status h = JobStatus.SUCCESS
     \<and> (\<exists>j \<in> set js. job_id j = jh_jobId h \<and> (case job_completedAt j of None \<Rightarrow> False | Some t \<Rightarrow> t < threshold))"

definition runLogCleanup :: "('z platform_db_scheme, unit) svc" where
  "runLogCleanup = bnd now (\<lambda>t. modify (\<lambda>s. s\<lparr>jobHistory := filter (\<lambda>h. \<not> prunable (t - LOG_RETENTION_MS) (jobs s) h) (jobHistory s)\<rparr>))"

section \<open>Restarts\<close>

definition live_task :: "string \<Rightarrow> job_row \<Rightarrow> bool" where
  "live_task ty j \<longleftrightarrow> job_type j = ty \<and> job_status j \<in> {JobStatus.PENDING, JobStatus.SCHEDULED, JobStatus.PROCESSING, JobStatus.RETRYING}"

definition awaited :: "string \<Rightarrow> 'z platform_db_scheme \<Rightarrow> bool" where
  "awaited ty s \<longleftrightarrow> (\<exists>j \<in> set (jobs s). awaits ty j)"

lemma find_awaits: "(List.find (awaits ty) (jobs s) = None) = (\<not> awaited ty s)"
  by (auto simp: awaited_def find_None_iff)

lemma awaits_new: "opt_runAt opts = Some r \<Longrightarrow> awaits ty (job_of i t ty payload opts)"
  by (simp add: awaits_def job_of_def)

lemma enqueue_missing_grows:
  assumes "enqueueIfMissing ty cron s = (r, s')"
  shows "\<exists>new. jobs s' = jobs s @ new" "r = Inr () \<Longrightarrow> awaited ty s'" "awaited ty s \<Longrightarrow> r = Inr () \<and> s' = s"
    "clock s' = clock s"
proof -
  have "wps (enqueueIfMissing ty cron) (\<lambda>r s'. (\<exists>new. jobs s' = jobs s @ new) \<and> (r = Inr () \<longrightarrow> awaited ty s') \<and> (awaited ty s \<longrightarrow> r = Inr () \<and> s' = s) \<and> clock s' = clock s) s"
    by (auto simp: enqueueIfMissing_def wp Let_def find_awaits awaited_def awaits_new split: option.split sum.split dest: find_SomeD)
  with assms show "\<exists>new. jobs s' = jobs s @ new" "r = Inr () \<Longrightarrow> awaited ty s'" "awaited ty s \<Longrightarrow> r = Inr () \<and> s' = s"
    "clock s' = clock s"
    by (auto simp: wps_def)
qed

lemma missing_run:
  "enqueue_missing ds s = (Inr (), s') \<Longrightarrow> (\<exists>new. jobs s' = jobs s @ new) \<and> (\<forall>d \<in> set ds. awaited (fst d) s')"
proof (induction ds arbitrary: s)
  case (Cons d ds)
  obtain r s1 where r: "enqueueIfMissing (fst d) (snd d) s = (r, s1)" by fastforce
  with Cons.prems have ok: "r = Inr ()" and rest: "enqueue_missing ds s1 = (Inr (), s')"
    by (cases d; auto simp: seq_step split: sum.splits)+
  from Cons.IH [OF rest] enqueue_missing_grows(1,2) [OF r] ok show ?case by (auto simp: awaited_def)
qed (simp add: ret_def)

lemma nothing_missing: "(\<forall>d \<in> set ds. awaited (fst d) s) \<Longrightarrow> enqueue_missing ds s = (Inr (), s)"
proof (induction ds)
  case (Cons d ds)
  obtain r s1 where r: "enqueueIfMissing (fst d) (snd d) s = (r, s1)" by fastforce
  with enqueue_missing_grows(3) [OF r] Cons show ?case by (cases d) (simp add: seq_step)
qed (simp add: ret_def)

lemma task_schedules:
  "d \<in> set task_definitions \<Longrightarrow>
   \<exists>sch. parse_schedule (snd d) = Some sch \<and> valid_schedule sch \<and> schedule_span sch \<le> 31 * ms_per_day"
  by (auto simp: task_definitions_def parse_schedule_def parse_every_def unit_ms_def number_def digit_val_def is_digit_def digits_field_def
      ms_per_day_def)

text \<open>The clock is a date after 1970 from which a month ahead can still be named.\<close>

definition clock_in_range :: "'z platform_db_scheme \<Rightarrow> bool" where
  "clock_in_range s \<longleftrightarrow> 0 \<le> clock s \<and> clock s + 31 * ms_per_day \<le> max_date"

lemma task_enqueued:
  assumes "d \<in> set task_definitions" and "clock_in_range s"
  shows "fst (enqueueIfMissing (fst d) (snd d) s) = Inr ()"
proof -
  obtain sch where sch: "parse_schedule (snd d) = Some sch" "valid_schedule sch" "schedule_span sch \<le> 31 * ms_per_day"
    using task_schedules [OF assms(1)] by blast
  obtain r where "computeNextRun (snd d) (clock s) = Inr (Some r)"
    using computeNextRun_next [OF sch(1,2), of "clock s"] sch(3) assms(2) by (auto simp: clock_in_range_def)
  then have "wps (enqueueIfMissing (fst d) (snd d)) (\<lambda>r s'. r = Inr ()) s"
    by (auto simp: enqueueIfMissing_def wp Let_def split: option.split)
  then show ?thesis by (simp add: wps_run)
qed

lemma startup_succeeds:
  "set ds \<subseteq> set task_definitions \<Longrightarrow> clock_in_range s \<Longrightarrow> \<exists>s1. enqueue_missing ds s = (Inr (), s1)"
proof (induction ds arbitrary: s)
  case (Cons d ds)
  then obtain s1 where s1: "enqueueIfMissing (fst d) (snd d) s = (Inr (), s1)"
    using task_enqueued [of d s] by (metis list.set_intros(1) prod.collapse subsetD)
  with Cons.prems(2) have "clock_in_range s1" using enqueue_missing_grows(4) [OF s1] by (simp add: clock_in_range_def)
  with Cons s1 show ?case by (cases d) (auto simp: seq_step)
qed (simp add: ret_def)

text \<open>The start of the application succeeds and leaves a waiting job for every task, whatever the jobs
  before; starting again, at any later time and while they wait, adds nothing.
\<close>

theorem restart_adds_no_chain:
  assumes "clock_in_range s"
  shows "\<exists>s1. onModuleInit s = (Inr (), s1) \<and> map fst (filter (\<lambda>d. count_where (awaits (fst d)) (jobs s1) = 0) task_definitions) = []
     \<and> onModuleInit (clock_update f s1) = (Inr (), clock_update f s1)"
proof -
  obtain s1 where s1: "enqueue_missing task_definitions s = (Inr (), s1)"
    using startup_succeeds [of task_definitions s] assms by blast
  with nothing_missing [of task_definitions "clock_update f s1"] missing_run [OF s1] show ?thesis
    by (auto simp: onModuleInit_def awaited_def count_where_zero filter_empty_conv)
qed

text \<open>
  The check for an existing chain misses a task that is being retried: a restart then starts a second chain
  of the same task beside it.
\<close>

theorem restart_duplicates_retrying:
  assumes "onModuleInit s = (Inr (), s1)" and "(ty, cron) \<in> set task_definitions" and "j \<in> set (jobs s)" and "job_type j = ty"
    and "job_status j = JobStatus.RETRYING" and "count_where (awaits ty) (jobs s) = 0"
  shows "2 \<le> count_where (live_task ty) (jobs s1)"
proof -
  obtain new where new: "jobs s1 = jobs s @ new" and aw: "awaited ty s1"
    using missing_run [OF assms(1) [unfolded onModuleInit_def]] assms(2) by fastforce
  with assms(6) obtain x where x: "x \<in> set new" "awaits ty x" by (auto simp: awaited_def count_where_zero)
  then have "count_where (live_task ty) new \<noteq> 0" by (auto simp: count_where_zero awaits_def live_task_def)
  moreover have "count_where (live_task ty) (jobs s) \<noteq> 0" using assms(3-5) by (auto simp: count_where_zero live_task_def)
  ultimately show ?thesis by (simp add: new)
qed

theorem restart_duplicates_retrying_witness:
  "let s = sample_queue\<lparr>jobs := [sample_job\<lparr>job_type := ''SCHEDULED:log-cleanup'', job_status := JobStatus.RETRYING\<rparr>]\<rparr> in
   2 \<le> count_where (live_task ''SCHEDULED:log-cleanup'') (jobs (snd (onModuleInit s)))"
proof -
  let ?s = "sample_queue\<lparr>jobs := [sample_job\<lparr>job_type := ''SCHEDULED:log-cleanup'', job_status := JobStatus.RETRYING\<rparr>]\<rparr>"
  obtain s1 where s1: "onModuleInit ?s = (Inr (), s1)" using startup_succeeds [of task_definitions ?s]
    by (auto simp: onModuleInit_def clock_in_range_def sample_simps ms_per_day_def max_date_def)
  from restart_duplicates_retrying [OF this, of "''SCHEDULED:log-cleanup''" "''daily:04:00''"
      "sample_job\<lparr>job_type := ''SCHEDULED:log-cleanup'', job_status := JobStatus.RETRYING\<rparr>"] s1
  show ?thesis by (simp add: task_definitions_def awaits_def count_where_Cons)
qed

section \<open>Sweeps make progress\<close>

text \<open>A sweep finishes the first 200 due rows: what is due is less by 200 afterwards.\<close>

locale sweep =
  fixes ident :: "'r \<Rightarrow> id" and due active :: "'r \<Rightarrow> bool" and finish :: "'r \<Rightarrow> 'r"
  assumes due_active: "due r \<Longrightarrow> active r"
    and finished: "\<not> due (finish r)"
    and ident_finish: "ident (finish r) = ident r"
begin

lemma take_removed:
  assumes "distinct xs"
  shows "filter (\<lambda>r. r \<notin> set (take n xs)) xs = drop n xs"
proof -
  have "filter (\<lambda>r. r \<notin> set (take n xs)) xs = filter (\<lambda>r. r \<notin> set (take n xs)) (take n xs) @ filter (\<lambda>r. r \<notin> set (take n xs)) (drop n xs)"
    by (metis append_take_drop_id filter_append)
  moreover have "filter (\<lambda>r. r \<notin> set (take n xs)) (take n xs) = []" by (simp add: filter_empty_conv)
  moreover have "filter (\<lambda>r. r \<notin> set (take n xs)) (drop n xs) = drop n xs"
    using set_take_disj_set_drop_if_distinct [OF assms, of n n] by (intro filter_True) auto
  ultimately show ?thesis by simp
qed

lemma due_after:
  assumes "distinct (map ident rows)"
  shows "count_where due (upd_where (\<lambda>r. ident r \<in> set (map ident (sweep_batch due rows)) \<and> active r) finish rows) = count_where due rows - 200"
    (is "count_where due ?rows' = _")
proof -
  have batch: "ident r \<in> set (map ident (sweep_batch due rows)) \<longleftrightarrow> r \<in> set (take 200 (filter due rows))" if "r \<in> set rows" for r
  proof
    assume "ident r \<in> set (map ident (sweep_batch due rows))"
    then obtain q where q: "q \<in> set (take 200 (filter due rows))" "ident q = ident r" by (auto simp: sweep_batch_def)
    then have "q \<in> set rows" by (auto dest: in_set_takeD)
    with distinct_key_eq [OF assms _ that] q show "r \<in> set (take 200 (filter due rows))" by blast
  qed (auto simp: sweep_batch_def)
  have "count_where due ?rows' = length (filter (\<lambda>r. due r \<and> r \<notin> set (take 200 (filter due rows))) rows)"
  proof -
    have "length (filter due (upd_where P finish xs)) = length (filter (\<lambda>r. due r \<and> r \<notin> B) xs)"
      if "\<And>r. r \<in> set xs \<Longrightarrow> due r \<Longrightarrow> P r \<longleftrightarrow> r \<in> B" for P B xs
      using that by (induction xs) (auto simp: upd_where_def finished)
    from this [of rows "\<lambda>r. ident r \<in> set (map ident (sweep_batch due rows)) \<and> active r" "set (take 200 (filter due rows))"] batch due_active
    show ?thesis by (simp add: count_where_def)
  qed
  also have "\<dots> = length (drop 200 (filter due rows))"
    using take_removed [of "filter due rows" 200] assms distinct_filter [of rows due]
    by (simp add: distinct_map filter_filter [symmetric] conj_commute del: filter_filter)
  finally show ?thesis by (simp add: count_where_def)
qed

lemma ids_kept: "map ident (upd_where P finish rows) = map ident rows"
  by (simp add: map_upd_where ident_finish)

end

interpretation license_sweep: sweep lic_id "license_overdue t" "\<lambda>l. lic_status l = LicenseStatus.ACTIVE" expire_license
  by unfold_locales (auto simp: license_overdue_def expire_license_def)

interpretation device_sweep: sweep dev_id "device_idle t" "\<lambda>d. dev_status d = DeviceStatus.ACTIVE" deactivate
  by unfold_locales (auto simp: device_idle_def deactivate_def)

lemma license_cleanup_rows:
  "licenses (snd (runLicenseCleanup s)) = upd_where (\<lambda>l. lic_id l \<in> set (map lic_id (sweep_batch (license_overdue (clock s)) (licenses s)))
      \<and> lic_status l = LicenseStatus.ACTIVE) expire_license (licenses s)"
  "clock (snd (runLicenseCleanup s)) = clock s"
proof -
  have "upd_where (\<lambda>l. False) f xs = xs" for f and xs :: "license_row list" by (simp add: upd_where_def)
  then have "wps runLicenseCleanup (\<lambda>r s'. licenses s' = upd_where (\<lambda>l. lic_id l \<in> set (map lic_id (sweep_batch (license_overdue (clock s)) (licenses s)))
      \<and> lic_status l = LicenseStatus.ACTIVE) expire_license (licenses s) \<and> clock s' = clock s) s"
    by (simp add: runLicenseCleanup_def wp del: set_map)
  then show "licenses (snd (runLicenseCleanup s)) = upd_where (\<lambda>l. lic_id l \<in> set (map lic_id (sweep_batch (license_overdue (clock s)) (licenses s)))
      \<and> lic_status l = LicenseStatus.ACTIVE) expire_license (licenses s)" "clock (snd (runLicenseCleanup s)) = clock s"
    by (simp_all add: wps_run del: set_map)
qed

lemma device_cleanup_rows:
  "devices (snd (runDeviceCleanup s)) = upd_where (\<lambda>d. dev_id d \<in> set (map dev_id (sweep_batch (device_idle (clock s - DEVICE_INACTIVITY_THRESHOLD_MS)) (devices s)))
      \<and> dev_status d = DeviceStatus.ACTIVE) deactivate (devices s)"
  "clock (snd (runDeviceCleanup s)) = clock s"
proof -
  have "upd_where (\<lambda>l. False) f xs = xs" for f and xs :: "device_row list" by (simp add: upd_where_def)
  then have "wps runDeviceCleanup (\<lambda>r s'. devices s' = upd_where (\<lambda>d. dev_id d \<in> set (map dev_id (sweep_batch (device_idle (clock s - DEVICE_INACTIVITY_THRESHOLD_MS)) (devices s)))
      \<and> dev_status d = DeviceStatus.ACTIVE) deactivate (devices s) \<and> clock s' = clock s) s"
    by (simp add: runDeviceCleanup_def Let_def wp del: set_map)
  then show "devices (snd (runDeviceCleanup s)) = upd_where (\<lambda>d. dev_id d \<in> set (map dev_id (sweep_batch (device_idle (clock s - DEVICE_INACTIVITY_THRESHOLD_MS)) (devices s)))
      \<and> dev_status d = DeviceStatus.ACTIVE) deactivate (devices s)" "clock (snd (runDeviceCleanup s)) = clock s"
    by (simp_all add: wps_run del: set_map)
qed

lemma license_cleanups:
  "distinct (map lic_id (licenses s)) \<Longrightarrow> clock (((\<lambda>s. snd (runLicenseCleanup s)) ^^ n) s) = clock s
   \<and> distinct (map lic_id (licenses (((\<lambda>s. snd (runLicenseCleanup s)) ^^ n) s)))
   \<and> count_where (license_overdue (clock s)) (licenses (((\<lambda>s. snd (runLicenseCleanup s)) ^^ n) s)) = count_where (license_overdue (clock s)) (licenses s) - 200 * n"
  by (induction n) (simp_all add: license_cleanup_rows license_sweep.due_after license_sweep.ids_kept del: set_map)

lemma device_cleanups:
  "distinct (map dev_id (devices s)) \<Longrightarrow> clock (((\<lambda>s. snd (runDeviceCleanup s)) ^^ n) s) = clock s
   \<and> distinct (map dev_id (devices (((\<lambda>s. snd (runDeviceCleanup s)) ^^ n) s)))
   \<and> count_where (device_idle (clock s - DEVICE_INACTIVITY_THRESHOLD_MS)) (devices (((\<lambda>s. snd (runDeviceCleanup s)) ^^ n) s))
     = count_where (device_idle (clock s - DEVICE_INACTIVITY_THRESHOLD_MS)) (devices s) - 200 * n"
  by (induction n) (simp_all add: device_cleanup_rows device_sweep.due_after device_sweep.ids_kept del: set_map)

text \<open>C23. The sweeps get there: after n runs of the license and the device cleanup at one instant, what is overdue
  is less by 200 n, so that enough runs leave no active license that has expired and no active device that has
  been idle for ninety days.
\<close>

theorem cleanups_clear_backlog:
  assumes "distinct (map lic_id (licenses s))" and "distinct (map dev_id (devices s))"
  shows "count_where (license_overdue (clock s)) (licenses (((\<lambda>s. snd (runLicenseCleanup s)) ^^ n) s)) = count_where (license_overdue (clock s)) (licenses s) - 200 * n
    \<and> count_where (device_idle (clock s - DEVICE_INACTIVITY_THRESHOLD_MS)) (devices (((\<lambda>s. snd (runDeviceCleanup s)) ^^ n) s))
      = count_where (device_idle (clock s - DEVICE_INACTIVITY_THRESHOLD_MS)) (devices s) - 200 * n"
  using license_cleanups [OF assms(1)] device_cleanups [OF assms(2)] by blast

definition sample_backlog :: lic_db where
  "sample_backlog = (sample_lic_db [])\<lparr>licenses := [sample_license\<lparr>lic_expiresAt := Some 0\<rparr>, sample_license\<lparr>lic_id := 4\<rparr>]\<rparr>"

theorem cleanups_clear_backlog_witness:
  "count_where (license_overdue (clock sample_backlog)) (licenses sample_backlog) = 1
   \<and> count_where (license_overdue (clock sample_backlog)) (licenses (((\<lambda>s. snd (runLicenseCleanup s)) ^^ 1) sample_backlog)) = 0"
proof -
  have "distinct (map lic_id (licenses sample_backlog))" "distinct (map dev_id (devices sample_backlog))"
    "count_where (license_overdue (clock sample_backlog)) (licenses sample_backlog) = 1"
    by (simp_all add: sample_backlog_def sample_lic_defs license_overdue_def count_where_Cons)
  with cleanups_clear_backlog [of sample_backlog 1] show ?thesis by simp
qed

text \<open>
  The trial sweep does not: it spends its batch of 200 on overdue trials of subscriptions too, which it
  leaves alone. Once 200 of those come first, no run at any later time expires another trial.
\<close>

theorem linked_trials_starve:
  assumes "trials s = front @ rest" and "length front = 200" and "filter (\<lambda>r. \<not> (trial_overdue (clock s) r \<and> tr_subscriptionId r \<noteq> None)) front = []"
  shows "trials (foldl (\<lambda>s d. snd (runTrialExpiration (clock_update (\<lambda>t. t + int d) s))) s ds) = trials s"
  using assms
proof (induction ds arbitrary: s)
  case (Cons d ds)
  let ?s = "clock_update (\<lambda>t. t + int d) s"
  have front: "trial_overdue (clock s + int d) r" "tr_subscriptionId r \<noteq> None" if "r \<in> set front" for r
    using that Cons.prems(3) by (fastforce simp: filter_empty_conv trial_overdue_def)+
  then have "filter (trial_overdue (clock ?s)) (trials ?s) = front @ filter (trial_overdue (clock ?s)) rest"
    using Cons.prems(1) by (simp add: filter_True)
  then have "sweep_batch (trial_overdue (clock ?s)) (trials ?s) = front" using Cons.prems(2) by (simp add: sweep_batch_def)
  moreover have "filter (\<lambda>r. tr_subscriptionId r = None) front = []" using front(2) by (auto simp: filter_empty_conv)
  ultimately have "wps runTrialExpiration (\<lambda>r s'. s' = ?s) ?s" by (simp add: runTrialExpiration_def wp)
  then have run: "snd (runTrialExpiration ?s) = ?s" by (simp add: wps_run)
  have "filter (\<lambda>r. \<not> (trial_overdue (clock ?s) r \<and> tr_subscriptionId r \<noteq> None)) front = []" using front by (auto simp: filter_empty_conv)
  with Cons.IH [of ?s] Cons.prems(1,2) show ?case by (simp add: run)
qed simp

definition linked_trial :: "nat \<Rightarrow> trial_row" where
  "linked_trial i = \<lparr>tr_id = i, tr_customerId = i, tr_productId = 1, tr_planId = 1, tr_subscriptionId = Some i, tr_endsAt = 0,
     tr_status = TrialStatus.ACTIVE, tr_convertedAt = None, tr_ipAddress = None\<rparr>"

text \<open>200 overdue trials of subscriptions, and one that is on its own: ten hourly runs leave it active.\<close>

theorem linked_trials_starve_witness:
  "let s = (sample_lic_db [])\<lparr>trials := map linked_trial [0..<200] @ [(linked_trial 200)\<lparr>tr_subscriptionId := None\<rparr>]\<rparr> in
   trials (foldl (\<lambda>s d. snd (runTrialExpiration (clock_update (\<lambda>t. t + int d) s))) s (replicate 10 3600000)) = trials s"
  unfolding Let_def
  by (rule linked_trials_starve [where front = "map linked_trial [0..<200]"])
    (simp_all add: filter_empty_conv linked_trial_def trial_overdue_def sample_lic_defs del: upt_rec_numeral)

end
