(* ===== verification/Templates.thy ===== *)
theory Templates
  imports Pagination
begin

text \<open>
  Notification templates as text: \<open>renderTemplate\<close> of notifications-engine/template-render.util.ts, a
  global replacement of the pattern \<open>{{ key }}\<close>, and JavaScript's \<open>String(value)\<close> on the JSON values of
  a payload. The scanner is compared with the substitution on the parts of a template.
\<close>

section \<open>String(value)\<close>

definition bool_str :: "bool \<Rightarrow> string" where
  "bool_str b = (if b then ''true'' else ''false'')"

fun comma_join :: "string list \<Rightarrow> string" where
  "comma_join [] = []"
| "comma_join [x] = x"
| "comma_join (x # y # xs) = x @ '','' @ comma_join (y # xs)"

text \<open>Inside an array \<open>null\<close> is written as the empty string, as \<open>Array.prototype.join\<close> does.\<close>

fun js_string :: "json \<Rightarrow> string" and js_item :: "json \<Rightarrow> string" where
  "js_string JNull = ''null''"
| "js_string (JBool b) = bool_str b"
| "js_string (JInt i) = int_str i"
| "js_string (JStr s) = s"
| "js_string (JId i) = id_str i"
| "js_string (JTime t) = toISOString t"
| "js_string (JArr xs) = comma_join (map js_item xs)"
| "js_string (JObj fs) = ''[object Object]''"
| "js_item JNull = []"
| "js_item (JBool b) = bool_str b"
| "js_item (JInt i) = int_str i"
| "js_item (JStr s) = s"
| "js_item (JId i) = id_str i"
| "js_item (JTime t) = toISOString t"
| "js_item (JArr xs) = comma_join (map js_item xs)"
| "js_item (JObj fs) = ''[object Object]''"

text \<open>
  A key that the payload does not have is looked up on \<open>Object.prototype\<close>; its members are functions,
  whose text is the one of a native function, and \<open>__proto__\<close> is the prototype itself.
\<close>

definition object_methods :: "string list" where
  "object_methods = [''toString'', ''toLocaleString'', ''valueOf'', ''hasOwnProperty'', ''isPrototypeOf'',
     ''propertyIsEnumerable'', ''__defineGetter__'', ''__defineSetter__'', ''__lookupGetter__'', ''__lookupSetter__'']"

definition native_function :: "string \<Rightarrow> string" where
  "native_function f = ''function '' @ f @ ''() { [native code] }''"

definition inherited :: "string \<Rightarrow> string option" where
  "inherited k = (if k \<in> set object_methods then Some (native_function k)
     else if k = ''constructor'' then Some (native_function ''Object'')
     else if k = ''__proto__'' then Some ''[object Object]'' else None)"

text \<open>\<open>data[key]\<close>, written as \<open>undefined\<close> or \<open>null\<close> to nothing and anything else by \<open>String\<close>.\<close>

definition template_value :: "(string \<times> json) list \<Rightarrow> string \<Rightarrow> string" where
  "template_value data k = (case map_of data k of
     Some v \<Rightarrow> if v = JNull then [] else js_string v
   | None \<Rightarrow> orElse (inherited k) [])"

section \<open>renderTemplate\<close>

definition is_space :: "char \<Rightarrow> bool" where
  "is_space c \<longleftrightarrow> (of_char c :: nat) \<in> {9, 10, 11, 12, 13, 32}"

definition is_key_char :: "char \<Rightarrow> bool" where
  "is_key_char c \<longleftrightarrow> (CHR ''a'' \<le> c \<and> c \<le> CHR ''z'') \<or> (CHR ''A'' \<le> c \<and> c \<le> CHR ''Z'')
     \<or> (CHR ''0'' \<le> c \<and> c \<le> CHR ''9'') \<or> c = CHR ''_'' \<or> c = CHR ''.''"

text \<open>
  A match of the pattern at the start of a string: its key and what follows it. The three character
  classes are disjoint, so the greedy scan is the only way to match.
\<close>

fun closing :: "string \<Rightarrow> string option" where
  "closing (a # b # rest) = (if a = CHR ''}'' \<and> b = CHR ''}'' then Some rest else None)"
| "closing _ = None"

definition key_and_close :: "string \<Rightarrow> (string \<times> string) option" where
  "key_and_close s = (let key = takeWhile is_key_char s in
     if key = [] then None
     else map_option (Pair key) (closing (dropWhile is_space (dropWhile is_key_char s))))"

fun placeholder :: "string \<Rightarrow> (string \<times> string) option" where
  "placeholder (a # b # s) = (if a = CHR ''{'' \<and> b = CHR ''{'' then key_and_close (dropWhile is_space s) else None)"
| "placeholder _ = None"

lemma closing_shorter: "closing s = Some r \<Longrightarrow> length r < length s"
  by (cases s rule: closing.cases) (auto split: if_splits)

lemma key_and_close_shorter: "key_and_close s = Some (k, r) \<Longrightarrow> length r < length s"
  unfolding key_and_close_def Let_def
  by (auto split: if_splits dest!: closing_shorter elim!: less_le_trans
      intro: order_trans [OF length_dropWhile_le length_dropWhile_le])

lemma placeholder_shorter: "placeholder s = Some (k, r) \<Longrightarrow> length r < length s"
proof (cases s rule: placeholder.cases)
  case (1 a b t)
  moreover assume "placeholder s = Some (k, r)"
  ultimately have "length r < length (dropWhile is_space t)" by (auto split: if_splits dest: key_and_close_shorter)
  also have "\<dots> \<le> length t" by (rule length_dropWhile_le)
  finally show ?thesis using 1 by simp
qed auto

text \<open>\<open>template.replace(pattern, f)\<close>: the matches from left to right, everything else as it stands.\<close>

function replace_placeholders :: "(string \<Rightarrow> string) \<Rightarrow> string \<Rightarrow> string" where
  "replace_placeholders f s = (case placeholder s of
     Some (k, rest) \<Rightarrow> f k @ replace_placeholders f rest
   | None \<Rightarrow> (case s of [] \<Rightarrow> [] | c # cs \<Rightarrow> c # replace_placeholders f cs))"
  by auto

termination
  by (relation "measure (\<lambda>(f, s). length s)") (auto dest: placeholder_shorter)

declare replace_placeholders.simps [simp del]

definition renderTemplate :: "string \<Rightarrow> (string \<times> json) list \<Rightarrow> string" where
  "renderTemplate t data = replace_placeholders (template_value data) t"

section \<open>The parts of a template\<close>

datatype template_part =
    Text string
  | Var string string string

fun part_ok :: "template_part \<Rightarrow> bool" where
  "part_ok (Text t) \<longleftrightarrow> CHR ''{'' \<notin> set t"
| "part_ok (Var w1 k w2) \<longleftrightarrow> k \<noteq> [] \<and> list_all is_key_char k \<and> list_all is_space w1 \<and> list_all is_space w2"

fun write_part :: "template_part \<Rightarrow> string" where
  "write_part (Text t) = t"
| "write_part (Var w1 k w2) = ''{{'' @ w1 @ k @ w2 @ ''}}''"

fun fill_part :: "(string \<times> json) list \<Rightarrow> template_part \<Rightarrow> string" where
  "fill_part data (Text t) = t"
| "fill_part data (Var w1 k w2) = template_value data k"

lemma brace_classes [simp]:
  "\<not> is_key_char (CHR ''}'')" "\<not> is_space (CHR ''}'')" "\<not> is_key_char (CHR ''{'')" "\<not> is_space (CHR ''{'')"
  by (simp_all add: is_key_char_def is_space_def less_eq_char_def)

lemma space_not_key: "is_space c \<Longrightarrow> \<not> is_key_char c"
  by (auto simp: is_space_def is_key_char_def less_eq_char_def)

lemma dropWhile_spaces: "list_all is_space w \<Longrightarrow> (rest = [] \<or> \<not> is_space (hd rest)) \<Longrightarrow> dropWhile is_space (w @ rest) = rest"
  by (induction w) (auto, cases rest, auto)

lemma scan_key:
  assumes "list_all is_key_char k" and "rest \<noteq> []" and "\<not> is_key_char (hd rest)"
  shows "takeWhile is_key_char (k @ rest) = k" "dropWhile is_key_char (k @ rest) = rest"
  using assms by (induction k) (auto simp: neq_Nil_conv)

lemma placeholder_var:
  assumes "part_ok (Var w1 k w2)"
  shows "placeholder (write_part (Var w1 k w2) @ rest) = Some (k, rest)"
proof -
  from assms have k: "k \<noteq> []" "list_all is_key_char k" and w: "list_all is_space w1" "list_all is_space w2" by simp_all
  then have hk: "\<not> is_space (hd (k @ w2 @ ''}}'' @ rest))" using space_not_key by (cases k) auto
  have nk: "\<not> is_key_char (hd (w2 @ ''}}'' @ rest))" using w(2) space_not_key by (cases w2) auto
  from dropWhile_spaces [OF w(1) disjI2 [OF hk]]
  have d1: "dropWhile is_space (w1 @ k @ w2 @ ''}}'' @ rest) = k @ w2 @ ''}}'' @ rest" .
  have d2: "dropWhile is_space (w2 @ ''}}'' @ rest) = ''}}'' @ rest"
    by (rule dropWhile_spaces [OF w(2)]) simp
  show ?thesis
    using d1 d2 k scan_key [OF k(2) _ nk] by (simp add: key_and_close_def)
qed

lemma placeholder_text: "CHR ''{'' \<noteq> c \<Longrightarrow> placeholder (c # s) = None"
  by (cases s) auto

lemma replace_text: "CHR ''{'' \<notin> set t \<Longrightarrow> replace_placeholders f (t @ s) = t @ replace_placeholders f s"
proof (induction t)
  case (Cons c t)
  then show ?case by (subst replace_placeholders.simps) (simp add: placeholder_text)
qed simp

lemma replace_var:
  "part_ok (Var w1 k w2) \<Longrightarrow> replace_placeholders f (write_part (Var w1 k w2) @ s) = f k @ replace_placeholders f s"
  by (subst replace_placeholders.simps) (simp only: placeholder_var option.case prod.case)

text \<open>Rendering the text of a template fills each placeholder with the payload's value, once: braces in
  a value are not expanded again, and the rest of the text stays as written.\<close>
theorem rendering_fills_parts:
  assumes "list_all part_ok parts"
  shows "renderTemplate (concat (map write_part parts)) data = concat (map (fill_part data) parts)"
  using assms
proof (induction parts)
  case Nil
  show ?case by (simp add: renderTemplate_def replace_placeholders.simps)
next
  case (Cons p parts)
  then show ?case by (cases p) (simp_all add: renderTemplate_def replace_text replace_var del: write_part.simps(2) part_ok.simps(2))
qed

theorem rendering_fills_parts_witness:
  "renderTemplate (concat (map write_part [Text ''Hi '', Var '' '' ''name'' '' '', Text ''!'', Var [] ''constructor'' []]))
     [(''name'', JStr ''{{name}}'')]
   = concat (map (fill_part [(''name'', JStr ''{{name}}'')]) [Text ''Hi '', Var '' '' ''name'' '' '', Text ''!'', Var [] ''constructor'' []])
   \<and> fill_part [(''name'', JStr ''{{name}}'')] (Var [] ''constructor'' []) = ''function Object() { [native code] }''"
proof
  show "renderTemplate (concat (map write_part [Text ''Hi '', Var '' '' ''name'' '' '', Text ''!'', Var [] ''constructor'' []]))
     [(''name'', JStr ''{{name}}'')]
   = concat (map (fill_part [(''name'', JStr ''{{name}}'')]) [Text ''Hi '', Var '' '' ''name'' '' '', Text ''!'', Var [] ''constructor'' []])"
    by (rule rendering_fills_parts) code_simp
qed code_simp

end
