(* ===== verification/Notifications.thy ===== *)
theory Notifications
  imports Jobs Templates
begin

text \<open>
  Notifications: the templates, the single entry point \<open>send\<close> and the delivery processor of
  src/apps/api/src/notifications-engine, the in-app inbox of src/apps/api/src/notifications, and the
  mail service's \<open>send\<close>. A notification has one delivery row per channel; each is sent by a background
  job of its own.
\<close>

section \<open>Rows\<close>

datatype NotificationChannel = EMAIL | PUSH | IN_APP | WEBHOOK | SMS

datatype NotificationCategory =
    WELCOME | PASSWORD_RESET | INVOICE | RECEIPT | SUBSCRIPTION_ACTIVATED | SUBSCRIPTION_RENEWED
  | SUBSCRIPTION_EXPIRING | TRIAL_ENDING | PAYMENT_FAILED | ERP_SYNC_FAILED | PLATFORM_ANNOUNCEMENT | GENERAL

datatype NotificationDeliveryStatus = PENDING | SENT | FAILED | RETRYING

datatype NotificationType = BILLING | SECURITY | SYNC | SYSTEM | GENERAL

fun channel_str :: "NotificationChannel \<Rightarrow> string" where
  "channel_str EMAIL = ''EMAIL''"
| "channel_str PUSH = ''PUSH''"
| "channel_str IN_APP = ''IN_APP''"
| "channel_str WEBHOOK = ''WEBHOOK''"
| "channel_str SMS = ''SMS''"

fun category_str :: "NotificationCategory \<Rightarrow> string" where
  "category_str WELCOME = ''WELCOME''"
| "category_str PASSWORD_RESET = ''PASSWORD_RESET''"
| "category_str INVOICE = ''INVOICE''"
| "category_str RECEIPT = ''RECEIPT''"
| "category_str SUBSCRIPTION_ACTIVATED = ''SUBSCRIPTION_ACTIVATED''"
| "category_str SUBSCRIPTION_RENEWED = ''SUBSCRIPTION_RENEWED''"
| "category_str SUBSCRIPTION_EXPIRING = ''SUBSCRIPTION_EXPIRING''"
| "category_str TRIAL_ENDING = ''TRIAL_ENDING''"
| "category_str PAYMENT_FAILED = ''PAYMENT_FAILED''"
| "category_str ERP_SYNC_FAILED = ''ERP_SYNC_FAILED''"
| "category_str PLATFORM_ANNOUNCEMENT = ''PLATFORM_ANNOUNCEMENT''"
| "category_str NotificationCategory.GENERAL = ''GENERAL''"

record notification_template =
  nt_id :: id
  nt_key :: string
  nt_category :: NotificationCategory
  nt_channel :: NotificationChannel
  nt_subject :: "string option"
  nt_bodyTemplate :: string
  nt_isActive :: bool
  nt_createdAt :: time

record platform_notification =
  pn_id :: id
  pn_category :: NotificationCategory
  pn_recipientUserId :: "id option"
  pn_organizationId :: "id option"
  pn_customerId :: "id option"
  pn_payload :: "(string \<times> json) list"
  pn_correlationId :: "string option"
  pn_createdAt :: time

record notification_delivery =
  nd_id :: id
  nd_notificationId :: id
  nd_templateId :: "id option"
  nd_channel :: NotificationChannel
  nd_status :: NotificationDeliveryStatus
  nd_attemptCount :: nat
  nd_error :: "string option"
  nd_sentAt :: "time option"
  nd_createdAt :: time

record inbox_row =
  nf_id :: id
  nf_userId :: id
  nf_type :: NotificationType
  nf_title :: string
  nf_body :: "string option"
  nf_metadata :: "json option"
  nf_readAt :: "time option"
  nf_createdAt :: time

text \<open>What the mail service was asked to send; \<open>to\<close> is whatever the payload holds.\<close>

record mail_message =
  mm_to :: json
  mm_subject :: string
  mm_body :: string

datatype AutomationRunStatus = SUCCEEDED | FAILED | PARTIAL

record rule_execution =
  re_id :: id
  re_ruleId :: id
  re_eventId :: id
  re_status :: AutomationRunStatus
  re_actionsRun :: nat
  re_error :: "string option"
  re_startedAt :: time
  re_completedAt :: "time option"

text \<open>\<open>userIds\<close> are the keys of the users table, which the foreign keys here refer to.\<close>

record notify_db = platform_db +
  userIds :: "id list"
  notificationTemplates :: "notification_template list"
  platformNotifications :: "platform_notification list"
  notificationDeliveries :: "notification_delivery list"
  inbox :: "inbox_row list"
  outbox :: "mail_message list"
  ruleExecutions :: "rule_execution list"

section \<open>NotificationTemplatesService\<close>

record template_dto =
  td_key :: "string option"
  td_category :: "NotificationCategory option"
  td_channel :: "NotificationChannel option"
  td_subject :: "string option"
  td_bodyTemplate :: "string option"
  td_isActive :: "bool option"

definition template_list :: "('z notify_db_scheme, notification_template list) svc" where
  "template_list = gets (\<lambda>s. sort_key nt_key (notificationTemplates s))"

definition template_getOne :: "id \<Rightarrow> ('z notify_db_scheme, notification_template) svc" where
  "template_getOne i = bnd (find_row notificationTemplates (\<lambda>t. nt_id t = i)) (\<lambda>r.
     case r of None \<Rightarrow> throw (NotFoundException ''Notification template not found'') | Some t \<Rightarrow> ret t)"

definition key_taken :: "string \<Rightarrow> exn" where
  "key_taken k = ConflictException (''A notification template with key '' @ [CHR 0x22] @ k @ [CHR 0x22] @ '' already exists'')"

definition template_create ::
  "string \<Rightarrow> NotificationCategory \<Rightarrow> NotificationChannel \<Rightarrow> string option \<Rightarrow> string \<Rightarrow> bool option \<Rightarrow> id \<Rightarrow> request_meta
   \<Rightarrow> ('z notify_db_scheme, notification_template) svc" where
  "template_create key category channel subject body isActive userId meta =
     bnd (find_row notificationTemplates (\<lambda>t. nt_key t = key)) (\<lambda>existing.
     seq (guard_or (existing = None) (key_taken key))
     (bnd fresh (\<lambda>i. bnd now (\<lambda>t.
      bnd (insert_unique notificationTemplates notificationTemplates_update (\<lambda>x. nt_key x = key)
             \<lparr>nt_id = i, nt_key = key, nt_category = category, nt_channel = channel, nt_subject = subject,
              nt_bodyTemplate = body, nt_isActive = orElse isActive True, nt_createdAt = t\<rparr>) (\<lambda>template.
      seq (audit ''NOTIFICATION_TEMPLATE_CREATED'' (Some userId) None None
             [(''templateId'', JId (nt_id template)), (''key'', JStr (nt_key template))] meta)
          (ret template))))))"

definition template_patch :: "template_dto \<Rightarrow> notification_template \<Rightarrow> notification_template" where
  "template_patch dto t = t\<lparr>nt_key := keepUndef (td_key dto) (nt_key t),
     nt_category := keepUndef (td_category dto) (nt_category t), nt_channel := keepUndef (td_channel dto) (nt_channel t),
     nt_subject := (case td_subject dto of None \<Rightarrow> nt_subject t | Some x \<Rightarrow> Some x),
     nt_bodyTemplate := keepUndef (td_bodyTemplate dto) (nt_bodyTemplate t),
     nt_isActive := keepUndef (td_isActive dto) (nt_isActive t)\<rparr>"

definition template_update :: "id \<Rightarrow> template_dto \<Rightarrow> id \<Rightarrow> request_meta \<Rightarrow> ('z notify_db_scheme, notification_template) svc" where
  "template_update i dto userId meta =
     seq (template_getOne i)
     (seq (case td_key dto of None \<Rightarrow> ret ()
       | Some k \<Rightarrow> if k = [] then ret () else
           bnd (find_row notificationTemplates (\<lambda>t. nt_key t = k)) (\<lambda>existing.
             guard_or (case existing of None \<Rightarrow> True | Some t \<Rightarrow> nt_id t = i) (key_taken k)))
     (bnd (update_row notificationTemplates notificationTemplates_update (\<lambda>t. nt_id t = i) (template_patch dto)) (\<lambda>template.
      seq (audit ''NOTIFICATION_TEMPLATE_UPDATED'' (Some userId) None None [(''templateId'', JId (nt_id template))] meta)
          (ret template))))"

section \<open>NotificationsService: the in-app inbox\<close>

definition inbox_create ::
  "id \<Rightarrow> NotificationType \<Rightarrow> string \<Rightarrow> string option \<Rightarrow> json option \<Rightarrow> ('z notify_db_scheme, inbox_row) svc" where
  "inbox_create userId ty title body mdata =
     bnd (gets (\<lambda>s. userId \<in> set (userIds s))) (\<lambda>known.
     seq (guard_or known (PrismaError ''P2003''))
     (bnd fresh (\<lambda>i. bnd now (\<lambda>t. insert_row inbox_update
        \<lparr>nf_id = i, nf_userId = userId, nf_type = ty, nf_title = title, nf_body = body, nf_metadata = mdata,
         nf_readAt = None, nf_createdAt = t\<rparr>))))"

definition inbox_list ::
  "(string \<Rightarrow> time option) \<Rightarrow> id \<Rightarrow> bool \<Rightarrow> string option \<Rightarrow> int option
   \<Rightarrow> ('z notify_db_scheme, inbox_row list \<times> string option) svc" where
  "inbox_list other userId unreadOnly cursor lmt =
     bnd (gets (\<lambda>s. filter (\<lambda>n. nf_userId n = userId \<and> (unreadOnly \<longrightarrow> nf_readAt n = None)) (inbox s))) (\<lambda>rows.
     lift (page other nf_createdAt (\<lambda>n. id_str (nf_id n)) cursor lmt rows))"

definition inbox_markRead :: "id \<Rightarrow> id \<Rightarrow> ('z notify_db_scheme, inbox_row) svc" where
  "inbox_markRead userId i =
     bnd (find_row inbox (\<lambda>n. nf_id n = i)) (\<lambda>r. case r of
       None \<Rightarrow> throw (NotFoundException ''Notification not found'')
     | Some n \<Rightarrow> if nf_userId n \<noteq> userId then throw (NotFoundException ''Notification not found'') else
         bnd now (\<lambda>t. update_row inbox inbox_update (\<lambda>x. nf_id x = i) (\<lambda>x. x\<lparr>nf_readAt := Some (orElse (nf_readAt n) t)\<rparr>)))"

definition inbox_markAllRead :: "id \<Rightarrow> ('z notify_db_scheme, unit) svc" where
  "inbox_markAllRead userId = bnd now (\<lambda>t.
     seq (update_many inbox inbox_update (\<lambda>n. nf_userId n = userId \<and> nf_readAt n = None) (\<lambda>n. n\<lparr>nf_readAt := Some t\<rparr>)) (ret ()))"

section \<open>PlatformNotificationsService\<close>

text \<open>
  \<open>SendNotificationDto\<close>. An administrator's request is validated; an automation rule passes whatever its
  action descriptor holds, so category, recipient and channels are JSON values here. Prisma rejects the
  ones that do not fit their column when it reads them, with an error of its own and no database code.
\<close>

record send_dto =
  sd_category :: "json option"
  sd_recipientUserId :: "json option"
  sd_organizationId :: "id option"
  sd_customerId :: "id option"
  sd_payload :: "(string \<times> json) list"
  sd_channels :: "json option"
  sd_correlationId :: "string option"

definition validation_error :: exn where
  "validation_error = PrismaError ''PrismaClientValidationError''"

definition all_channels :: "NotificationChannel list" where
  "all_channels = [EMAIL, PUSH, IN_APP, WEBHOOK, SMS]"

definition all_categories :: "NotificationCategory list" where
  "all_categories = [WELCOME, PASSWORD_RESET, INVOICE, RECEIPT, SUBSCRIPTION_ACTIVATED, SUBSCRIPTION_RENEWED,
     SUBSCRIPTION_EXPIRING, TRIAL_ENDING, PAYMENT_FAILED, ERP_SYNC_FAILED, PLATFORM_ANNOUNCEMENT, NotificationCategory.GENERAL]"

definition channel_of :: "json \<Rightarrow> NotificationChannel option" where
  "channel_of v = List.find (\<lambda>c. v = JStr (channel_str c)) all_channels"

definition category_of :: "json option \<Rightarrow> exn + NotificationCategory" where
  "category_of v = (case List.find (\<lambda>c. v = Some (JStr (category_str c))) all_categories of
     None \<Rightarrow> Inl validation_error | Some c \<Rightarrow> Inr c)"

text \<open>A string that is no user's key violates the foreign key.\<close>

fun recipient_of :: "json option \<Rightarrow> exn + id option" where
  "recipient_of None = Inr None"
| "recipient_of (Some JNull) = Inr None"
| "recipient_of (Some (JId i)) = Inr (Some i)"
| "recipient_of (Some (JStr x)) = Inl (PrismaError ''P2003'')"
| "recipient_of (Some (JTime t)) = Inl (PrismaError ''P2003'')"
| "recipient_of (Some v) = Inl validation_error"

fun json_truthy :: "json \<Rightarrow> bool" where
  "json_truthy JNull = False"
| "json_truthy (JBool b) = b"
| "json_truthy (JInt i) = (i \<noteq> 0)"
| "json_truthy (JStr x) = (x \<noteq> [])"
| "json_truthy _ = True"

text \<open>
  \<open>dto.channels?.length ? dto.channels : \<dots>\<close> and the iteration over it: an array gives its elements, a
  string its characters, an object with a truthy \<open>length\<close> is not iterable.
\<close>

definition chars_of :: "string \<Rightarrow> json list option" where
  "chars_of x = (if x = [] then None else Some (map (\<lambda>c. JStr [c]) x))"

fun requested_channels :: "json option \<Rightarrow> exn + json list option" where
  "requested_channels (Some (JArr xs)) = Inr (if xs = [] then None else Some xs)"
| "requested_channels (Some (JStr x)) = Inr (chars_of x)"
| "requested_channels (Some (JId i)) = Inr (chars_of (id_str i))"
| "requested_channels (Some (JTime t)) = Inr (chars_of (toISOString t))"
| "requested_channels (Some (JObj fs)) = (case map_of fs ''length'' of
     None \<Rightarrow> Inr None
   | Some v \<Rightarrow> if json_truthy v then Inl (JsError ''object is not iterable'') else Inr None)"
| "requested_channels _ = Inr None"

definition serves :: "NotificationCategory \<Rightarrow> notification_template \<Rightarrow> bool" where
  "serves category t \<longleftrightarrow> nt_category t = category \<and> nt_isActive t"

definition insert_notification :: "send_dto \<Rightarrow> NotificationCategory \<Rightarrow> id option \<Rightarrow> ('z notify_db_scheme, platform_notification) svc" where
  "insert_notification dto category recipient =
     bnd (gets (\<lambda>s. case recipient of None \<Rightarrow> True | Some u \<Rightarrow> u \<in> set (userIds s))) (\<lambda>known.
     seq (guard_or known (PrismaError ''P2003''))
     (bnd fresh (\<lambda>i. bnd now (\<lambda>t. insert_row platformNotifications_update
        \<lparr>pn_id = i, pn_category = category, pn_recipientUserId = recipient, pn_organizationId = sd_organizationId dto,
         pn_customerId = sd_customerId dto, pn_payload = sd_payload dto, pn_correlationId = sd_correlationId dto,
         pn_createdAt = t\<rparr>))))"

definition new_delivery :: "id \<Rightarrow> time \<Rightarrow> id \<Rightarrow> notification_template option \<Rightarrow> NotificationChannel \<Rightarrow> notification_delivery" where
  "new_delivery i t notificationId template channel =
     \<lparr>nd_id = i, nd_notificationId = notificationId, nd_templateId = map_option nt_id template, nd_channel = channel,
      nd_status = NotificationDeliveryStatus.PENDING, nd_attemptCount = 0, nd_error = None, nd_sentAt = None, nd_createdAt = t\<rparr>"

definition delivery_options :: "string option \<Rightarrow> enqueue_options" where
  "delivery_options corr = default_options\<lparr>opt_queueName := Some ''notifications'', opt_correlationId := corr\<rparr>"

definition delivery_payload :: "id \<Rightarrow> json" where
  "delivery_payload i = JObj [(''deliveryId'', JId i)]"

definition send_on :: "string option \<Rightarrow> NotificationCategory \<Rightarrow> id \<Rightarrow> json \<Rightarrow> ('z notify_db_scheme, unit) svc" where
  "send_on corr category notificationId v = (case channel_of v of
     None \<Rightarrow> throw validation_error
   | Some channel \<Rightarrow>
       bnd (find_row notificationTemplates (\<lambda>t. serves category t \<and> nt_channel t = channel)) (\<lambda>template.
       bnd fresh (\<lambda>i. bnd now (\<lambda>t.
       bnd (insert_row notificationDeliveries_update (new_delivery i t notificationId template channel)) (\<lambda>delivery.
       seq (enqueue ''NOTIFICATION_DELIVERY'' (delivery_payload (nd_id delivery)) (delivery_options corr)) (ret ()))))))"

definition send :: "send_dto \<Rightarrow> ('z notify_db_scheme, platform_notification) svc" where
  "send dto =
     bnd (lift (category_of (sd_category dto))) (\<lambda>category.
     bnd (lift (recipient_of (sd_recipientUserId dto))) (\<lambda>recipient.
     bnd (insert_notification dto category recipient) (\<lambda>notification.
     bnd (lift (requested_channels (sd_channels dto))) (\<lambda>asked.
     bnd (gets (\<lambda>s. case asked of Some cs \<Rightarrow> cs
            | None \<Rightarrow> map (\<lambda>t. JStr (channel_str (nt_channel t))) (filter (serves category) (notificationTemplates s)))) (\<lambda>channels.
     seq (for_each (js_set channels) (send_on (sd_correlationId dto) category (pn_id notification)))
         (ret notification))))))"

record notification_query =
  nq_category :: "NotificationCategory option"
  nq_recipientUserId :: "id option"
  nq_organizationId :: "id option"
  nq_customerId :: "id option"
  nq_cursor :: "string option"
  nq_limit :: "int option"

definition notification_list ::
  "(string \<Rightarrow> time option) \<Rightarrow> notification_query \<Rightarrow> ('z notify_db_scheme, platform_notification list \<times> string option) svc" where
  "notification_list other q =
     bnd (gets (\<lambda>s. filter (\<lambda>n. matches (nq_category q) (pn_category n)
        \<and> (nq_recipientUserId q = None \<or> nq_recipientUserId q = pn_recipientUserId n)
        \<and> (nq_organizationId q = None \<or> nq_organizationId q = pn_organizationId n)
        \<and> (nq_customerId q = None \<or> nq_customerId q = pn_customerId n)) (platformNotifications s))) (\<lambda>rows.
     lift (page other pn_createdAt (\<lambda>n. id_str (pn_id n)) (nq_cursor q) (nq_limit q) rows))"

definition template_of :: "notification_delivery \<Rightarrow> notification_template list \<Rightarrow> notification_template option" where
  "template_of d ts = (case nd_templateId d of None \<Rightarrow> None | Some i \<Rightarrow> List.find (\<lambda>t. nt_id t = i) ts)"

definition notification_getOne ::
  "id \<Rightarrow> ('z notify_db_scheme, platform_notification \<times> (notification_delivery \<times> notification_template option) list) svc" where
  "notification_getOne i = bnd (find_row platformNotifications (\<lambda>n. pn_id n = i)) (\<lambda>r. case r of
     None \<Rightarrow> throw (NotFoundException ''Notification not found'')
   | Some n \<Rightarrow> gets (\<lambda>s. (n, map (\<lambda>d. (d, template_of d (notificationTemplates s)))
        (filter (\<lambda>d. nd_notificationId d = i) (notificationDeliveries s)))))"

section \<open>NotificationDeliveryProcessorService\<close>

text \<open>An identifier field of a job's payload, as the \<open>where\<close> of \<open>findUniqueOrThrow\<close> takes it.\<close>

definition payload_id :: "string \<Rightarrow> json \<Rightarrow> exn + id" where
  "payload_id k p = (if p = JNull then Inl (JsError ''Cannot destructure property'') else
     case jfield k p of
       Some (JId i) \<Rightarrow> Inr i
     | Some (JStr x) \<Rightarrow> Inl (PrismaError ''P2025'')
     | _ \<Rightarrow> Inl validation_error)"

definition mail_send :: "mail_message \<Rightarrow> ('z notify_db_scheme, unit) svc" where
  "mail_send m = modify (outbox_update (\<lambda>ms. ms @ [m]))"

definition send_message :: "notification_delivery \<Rightarrow> platform_notification \<Rightarrow> string \<Rightarrow> string \<Rightarrow> ('z notify_db_scheme, unit) svc" where
  "send_message d n subject body = (case nd_channel d of
     EMAIL \<Rightarrow> (let receiver = orElse (map_of (pn_payload n) ''email'') JNull in
       if json_truthy receiver then mail_send \<lparr>mm_to = receiver, mm_subject = subject, mm_body = body\<rparr>
       else throw (JsError (''No '' @ [CHR 0x22] @ ''email'' @ [CHR 0x22] @ '' field in notification payload for delivery '' @ id_str (nd_id d))))
   | IN_APP \<Rightarrow> (case pn_recipientUserId n of
       None \<Rightarrow> throw (JsError (''No recipientUserId on notification for IN_APP delivery '' @ id_str (nd_id d)))
     | Some u \<Rightarrow> seq (inbox_create u NotificationType.GENERAL subject (Some body) None) (ret ()))
   | _ \<Rightarrow> ret ())"

definition delivery_body :: "platform_notification \<Rightarrow> notification_template option \<Rightarrow> string" where
  "delivery_body n template = renderTemplate (case template of
     None \<Rightarrow> category_str (pn_category n) @ '' notification'' | Some t \<Rightarrow> nt_bodyTemplate t) (pn_payload n)"

definition delivery_subject :: "platform_notification \<Rightarrow> notification_template option \<Rightarrow> string" where
  "delivery_subject n template = (case template of
     None \<Rightarrow> category_str (pn_category n)
   | Some t \<Rightarrow> (case nt_subject t of
       None \<Rightarrow> category_str (pn_category n)
     | Some x \<Rightarrow> if x = [] then category_str (pn_category n) else renderTemplate x (pn_payload n)))"

definition mark_sent :: "time \<Rightarrow> notification_delivery \<Rightarrow> notification_delivery" where
  "mark_sent t d = d\<lparr>nd_status := SENT, nd_sentAt := Some t, nd_attemptCount := nd_attemptCount d + 1\<rparr>"

definition deliver :: "json \<Rightarrow> job_row \<Rightarrow> ('z notify_db_scheme, unit) svc" where
  "deliver payload job =
     bnd (lift (payload_id ''deliveryId'' payload)) (\<lambda>i.
     bnd (find_or_throw notificationDeliveries (\<lambda>d. nd_id d = i)) (\<lambda>d.
     bnd (find_or_throw platformNotifications (\<lambda>n. pn_id n = nd_notificationId d)) (\<lambda>n.
     bnd (gets (\<lambda>s. template_of d (notificationTemplates s))) (\<lambda>template.
     seq (send_message d n (delivery_subject n template) (delivery_body n template))
     (bnd now (\<lambda>t.
      seq (update_row notificationDeliveries notificationDeliveries_update (\<lambda>d. nd_id d = i) (mark_sent t)) (ret ())))))))"

end
