(* ===== verification/Automation.thy ===== *)
theory Automation
  imports Notifications
begin

text \<open>
  Automation rules (src/apps/api/src/automation): their administration, and the executor that runs the
  actions of a rule for one event as a background job. \<open>publish\<close> of the event bus enqueues those jobs.
\<close>

section \<open>AutomationRulesService\<close>

definition rule_list :: "('z notify_db_scheme, automation_rule list) svc" where
  "rule_list = gets (\<lambda>s. order_by (\<lambda>r. - rule_createdAt r) (automationRules s))"

definition rule_getOne :: "id \<Rightarrow> ('z notify_db_scheme, automation_rule \<times> rule_execution list) svc" where
  "rule_getOne i = bnd (find_row automationRules (\<lambda>r. rule_id r = i)) (\<lambda>x. case x of
     None \<Rightarrow> throw (NotFoundException ''Automation rule not found'')
   | Some r \<Rightarrow> gets (\<lambda>s. (r, take 50 (order_by (\<lambda>e. - re_startedAt e) (filter (\<lambda>e. re_ruleId e = i) (ruleExecutions s))))))"

definition rule_create :: "string \<Rightarrow> string option \<Rightarrow> string \<Rightarrow> json list \<Rightarrow> id \<Rightarrow> request_meta \<Rightarrow> ('z notify_db_scheme, automation_rule) svc" where
  "rule_create name description trigger actions userId meta =
     bnd fresh (\<lambda>i. bnd now (\<lambda>t.
     bnd (insert_row automationRules_update
       \<lparr>rule_id = i, rule_name = name, rule_description = description, rule_triggerEventType = trigger, rule_enabled = True,
        rule_actions = actions, rule_createdById = userId, rule_createdAt = t\<rparr>) (\<lambda>rule.
     seq (audit ''AUTOMATION_RULE_CREATED'' (Some userId) None None
            [(''ruleId'', JId (rule_id rule)), (''triggerEventType'', JStr (rule_triggerEventType rule))] meta)
         (ret rule))))"

record rule_dto =
  rd_name :: "string option"
  rd_description :: "string option"
  rd_triggerEventType :: "string option"
  rd_actions :: "json list option"
  rd_enabled :: "bool option"

definition rule_patch :: "rule_dto \<Rightarrow> automation_rule \<Rightarrow> automation_rule" where
  "rule_patch dto r = r\<lparr>rule_name := keepUndef (rd_name dto) (rule_name r),
     rule_description := (case rd_description dto of None \<Rightarrow> rule_description r | Some x \<Rightarrow> Some x),
     rule_triggerEventType := keepUndef (rd_triggerEventType dto) (rule_triggerEventType r),
     rule_actions := keepUndef (rd_actions dto) (rule_actions r), rule_enabled := keepUndef (rd_enabled dto) (rule_enabled r)\<rparr>"

definition rule_update :: "id \<Rightarrow> rule_dto \<Rightarrow> id \<Rightarrow> request_meta \<Rightarrow> ('z notify_db_scheme, automation_rule) svc" where
  "rule_update i dto userId meta =
     seq (rule_getOne i)
     (bnd (update_row automationRules automationRules_update (\<lambda>r. rule_id r = i) (rule_patch dto)) (\<lambda>rule.
      seq (audit ''AUTOMATION_RULE_UPDATED'' (Some userId) None None [(''ruleId'', JId (rule_id rule))] meta)
          (ret rule)))"

definition rule_toggle :: "id \<Rightarrow> bool \<Rightarrow> id \<Rightarrow> request_meta \<Rightarrow> ('z notify_db_scheme, automation_rule) svc" where
  "rule_toggle i enabled userId meta =
     seq (rule_getOne i)
     (bnd (update_row automationRules automationRules_update (\<lambda>r. rule_id r = i) (\<lambda>r. r\<lparr>rule_enabled := enabled\<rparr>)) (\<lambda>rule.
      seq (audit ''AUTOMATION_RULE_TOGGLED'' (Some userId) None None
             [(''ruleId'', JId (rule_id rule)), (''enabled'', JBool (rule_enabled rule))] meta)
          (ret rule)))"

section \<open>AutomationActionExecutorService\<close>

text \<open>\<open>{ ...payload, eventType }\<close>: a key that is there already is overwritten in place.\<close>

fun set_field :: "string \<Rightarrow> json \<Rightarrow> (string \<times> json) list \<Rightarrow> (string \<times> json) list" where
  "set_field k v [] = [(k, v)]"
| "set_field k v ((k', v') # fs) = (if k' = k then (k, v) # fs else (k', v') # set_field k v fs)"

text \<open>An event's payload is always an object: \<open>publish\<close> is the only writer.\<close>

fun object_fields :: "json \<Rightarrow> (string \<times> json) list" where
  "object_fields (JObj fs) = fs"
| "object_fields _ = []"

definition notification_of :: "json \<Rightarrow> platform_event \<Rightarrow> send_dto" where
  "notification_of descriptor event =
     \<lparr>sd_category = jfield ''category'' descriptor, sd_recipientUserId = jfield ''recipientUserId'' descriptor,
      sd_organizationId = pev_organizationId event, sd_customerId = pev_customerId event,
      sd_payload = set_field ''eventType'' (JStr (pev_type event)) (object_fields (pev_payload event)),
      sd_channels = jfield ''channels'' descriptor, sd_correlationId = Some (id_str (pev_id event))\<rparr>"

definition silent_actions :: "string list" where
  "silent_actions = [''RECORD_FINANCIAL_EVENT'', ''SYNC_ERP'', ''REFRESH_ENTITLEMENTS'']"

definition action_name :: "json \<Rightarrow> string" where
  "action_name descriptor = (case jfield ''action'' descriptor of None \<Rightarrow> ''undefined'' | Some v \<Rightarrow> js_string v)"

definition runAction :: "json \<Rightarrow> platform_event \<Rightarrow> ('z notify_db_scheme, unit) svc" where
  "runAction descriptor event = (let act = jfield ''action'' descriptor in
     if act = Some (JStr ''SEND_NOTIFICATION'') then seq (send (notification_of descriptor event)) (ret ())
     else if act = Some (JStr ''LOG_AUDIT'') then
       audit ''AUTOMATION_ACTION_LOGGED'' None (pev_organizationId event) (pev_applicationId event)
         [(''source'', JStr ''automation-rule''), (''eventId'', JId (pev_id event)), (''eventType'', JStr (pev_type event))] no_meta
     else if \<exists>x \<in> set silent_actions. act = Some (JStr x) then ret ()
     else throw (JsError (''Unknown automation action '' @ [CHR 0x22] @ action_name descriptor @ [CHR 0x22])))"

text \<open>The loop over the actions: how many ran, and the message of the first failure.\<close>

fun run_actions :: "platform_event \<Rightarrow> json list \<Rightarrow> nat \<Rightarrow> ('z notify_db_scheme, nat \<times> string option) svc" where
  "run_actions event [] n = ret (n, None)"
| "run_actions event (d # ds) n =
     bnd (try_catch (seq (runAction d event) (ret None)) (\<lambda>e. ret (Some (exn_message e)))) (\<lambda>failed.
       case failed of None \<Rightarrow> run_actions event ds (Suc n) | Some m \<Rightarrow> ret (n, Some m))"

definition run_status :: "nat \<Rightarrow> nat \<Rightarrow> AutomationRunStatus" where
  "run_status actionsRun actions = (if actionsRun = actions then SUCCEEDED else if 0 < actionsRun then PARTIAL else FAILED)"

definition execute :: "json \<Rightarrow> job_row \<Rightarrow> ('z notify_db_scheme, unit) svc" where
  "execute payload job =
     bnd (lift (payload_id ''ruleId'' payload)) (\<lambda>ruleId.
     bnd (lift (payload_id ''eventId'' payload)) (\<lambda>eventId.
     bnd (find_or_throw automationRules (\<lambda>r. rule_id r = ruleId)) (\<lambda>rule.
     bnd (find_or_throw platformEvents (\<lambda>e. pev_id e = eventId)) (\<lambda>event.
     if \<not> rule_enabled rule then ret () else
       bnd (run_actions event (rule_actions rule) 0) (\<lambda>(actionsRun, firstError).
       bnd fresh (\<lambda>i. bnd now (\<lambda>t.
       seq (insert_row ruleExecutions_update
         \<lparr>re_id = i, re_ruleId = rule_id rule, re_eventId = pev_id event,
          re_status = run_status actionsRun (length (rule_actions rule)), re_actionsRun = actionsRun,
          re_error = firstError, re_startedAt = t, re_completedAt = Some t\<rparr>)
       (case firstError of None \<Rightarrow> ret () | Some m \<Rightarrow> if m = [] then ret () else throw (JsError m)))))))))"

text \<open>The two processors as the modules register them at start-up, each under its own type.\<close>

definition notification_registry :: "('z notify_db_ext) job_registry" where
  "notification_registry = [(''AUTOMATION_RULE_EXECUTION'', execute), (''NOTIFICATION_DELIVERY'', deliver)]"

end
