(* ===== verification/Notification_Flow.thy ===== *)
theory Notification_Flow
  imports Automation
begin

text \<open>
  What notifications promise: a request fans out to one delivery and one job per channel, every delivery
  is sent at most once, and the two weaknesses of the retries: an automation rule that fails late repeats
  its notifications, and a delivery that cannot be sent keeps no trace of it.
\<close>

section \<open>Fan-out\<close>

lemma channel_str_inj [simp]: "channel_str a = channel_str b \<longleftrightarrow> a = b"
  by (cases a; cases b) simp_all

lemma channel_of_str [simp]: "channel_of (JStr (channel_str c)) = Some c"
  by (cases c) (simp_all add: channel_of_def all_channels_def)

lemma remdups_map_inj: "inj f \<Longrightarrow> remdups (map f xs) = map f (remdups xs)"
  by (induction xs) (auto dest: injD)

lemma js_set_map: "inj f \<Longrightarrow> js_set (map f xs) = map f (js_set xs)"
  by (simp add: js_set_def rev_map remdups_map_inj)

abbreviation channel_json :: "NotificationChannel \<Rightarrow> json" where
  "channel_json c \<equiv> JStr (channel_str c)"

lemma inj_channel_json: "inj channel_json"
  by (simp add: inj_def)

text \<open>The rows that a loop over channels adds to the two tables, and the keys it draws.\<close>

definition fanned :: "id \<Rightarrow> NotificationChannel list \<Rightarrow> notification_delivery list \<Rightarrow> job_row list \<Rightarrow> bool" where
  "fanned n cs ds js \<longleftrightarrow> map nd_channel ds = cs
     \<and> map job_payload js = map (\<lambda>d. delivery_payload (nd_id d)) ds
     \<and> (\<forall>d \<in> set ds. nd_notificationId d = n \<and> nd_status d = NotificationDeliveryStatus.PENDING \<and> nd_attemptCount d = 0)
     \<and> (\<forall>j \<in> set js. job_type j = ''NOTIFICATION_DELIVERY'' \<and> job_status j = JobStatus.PENDING \<and> job_queueName j = ''notifications''
          \<and> job_attemptCount j = 0)"

lemma fanned_Nil [simp]: "fanned n [] ds js \<longleftrightarrow> ds = [] \<and> js = []"
  by (auto simp: fanned_def)

lemma fanned_Cons: "fanned n [c] [d] [j] \<Longrightarrow> fanned n cs ds js \<Longrightarrow> fanned n (c # cs) (d # ds) (j # js)"
  by (simp add: fanned_def)

lemma send_on_new:
  "fanned n [c] [new_delivery i t n template c]
     [job_of k u ''NOTIFICATION_DELIVERY'' (delivery_payload i) (delivery_options corr)]"
  by (simp add: fanned_def new_delivery_def job_of_def delivery_options_def default_options_def)

lemma delivery_update_order:
  "notificationDeliveries_update f (nextId_update g s) = nextId_update g (notificationDeliveries_update f s)"
  by simp

lemma wps_send_on:
  "wps (send_on corr category n (channel_json c)) Q s =
   (let template = List.find (\<lambda>t. serves category t \<and> nt_channel t = c) (notificationTemplates s);
        d = new_delivery (nextId s) (clock s) n template c;
        j = job_of (Suc (nextId s)) (clock s) ''NOTIFICATION_DELIVERY'' (delivery_payload (nextId s)) (delivery_options corr) in
    Q (Inr ()) (jobs_update (\<lambda>js. js @ [j]) (notificationDeliveries_update (\<lambda>ds. ds @ [d]) (nextId_update (\<lambda>n. n + 2) s))))"
  by (simp add: send_on_def wp Let_def new_delivery_def comp_def numeral_2_eq_2 delivery_update_order)

lemma wps_fan_out:
  "wps (for_each (map channel_json cs) (send_on corr category n))
     (\<lambda>r s'. r = Inr () \<and> (\<exists>ds js. notificationDeliveries s' = notificationDeliveries s @ ds \<and> jobs s' = jobs s @ js
        \<and> fanned n cs ds js) \<and> platformNotifications s' = platformNotifications s \<and> automationRules s' = automationRules s
        \<and> platformEvents s' = platformEvents s \<and> ruleExecutions s' = ruleExecutions s \<and> outbox s' = outbox s \<and> inbox s' = inbox s) s"
proof (induction cs arbitrary: s)
  case Nil
  then show ?case by (simp add: wp)
next
  case (Cons c cs)
  show ?case
    apply (simp add: wp wps_send_on Let_def)
    apply (rule wps_mono [OF Cons.IH])
    apply clarsimp
    apply (rule fanned_Cons [OF send_on_new], assumption)
    done
qed

definition sends_as :: "NotificationCategory \<Rightarrow> id option \<Rightarrow> NotificationChannel list \<Rightarrow> 'z notify_db_scheme
    \<Rightarrow> platform_notification \<Rightarrow> 'z notify_db_scheme \<Rightarrow> bool" where
  "sends_as c recipient cs s n s' \<longleftrightarrow> platformNotifications s' = platformNotifications s @ [n]
    \<and> pn_category n = c \<and> pn_recipientUserId n = recipient
    \<and> (\<exists>ds js. notificationDeliveries s' = notificationDeliveries s @ ds \<and> jobs s' = jobs s @ js
          \<and> fanned (pn_id n) (js_set cs) ds js) \<and> outbox s' = outbox s \<and> inbox s' = inbox s"

lemma wps_send:
  assumes "sd_category dto = Some (JStr (category_str c))" and "sd_channels dto = Some (JArr (map channel_json cs))" and "cs \<noteq> []"
    and "recipient_of (sd_recipientUserId dto) = Inr recipient" and "\<And>u. recipient = Some u \<Longrightarrow> u \<in> set (userIds s)"
  shows "wps (send dto) (\<lambda>r s'. (\<exists>n. r = Inr n \<and> sends_as c recipient cs s n s')
    \<and> automationRules s' = automationRules s \<and> platformEvents s' = platformEvents s \<and> ruleExecutions s' = ruleExecutions s) s"
proof -
  have cat: "category_of (sd_category dto) = Inr c"
    unfolding assms(1) by (cases c) (simp_all add: category_of_def all_categories_def)
  have known: "(case recipient of None \<Rightarrow> True | Some u \<Rightarrow> u \<in> set (userIds s))" using assms(5) by (cases recipient) simp_all
  show ?thesis
    using assms(2-4) known
    by (simp add: send_def wp cat insert_notification_def js_set_map inj_channel_json)
       (rule wps_mono [OF wps_fan_out], auto simp: wp sends_as_def)
qed

text \<open>A valid request records one notification and, for every channel it names, once each and in order, one
  pending delivery and one job that carries that delivery's key; nothing is sent yet.\<close>
theorem notification_fans_out:
  assumes "sd_category dto = Some (JStr (category_str c))" and "sd_channels dto = Some (JArr (map channel_json cs))" and "cs \<noteq> []"
    and "recipient_of (sd_recipientUserId dto) = Inr recipient" and "\<And>u. recipient = Some u \<Longrightarrow> u \<in> set (userIds s)"
  shows "\<exists>n s'. send dto s = (Inr n, s') \<and> sends_as c recipient cs s n s'"
  using wps_send [OF assms] by (auto simp: wps_run prod_eq_iff)

definition blank_notify :: notify_db where
  "blank_notify = \<lparr>clock = 1700000000000, nextId = 100, audits = [], platformEvents = [], automationRules = [], jobs = [],
     jobHistory = [], queueControls = [], userIds = [7], notificationTemplates = [], platformNotifications = [],
     notificationDeliveries = [], inbox = [], outbox = [], ruleExecutions = []\<rparr>"

definition sample_notice :: send_dto where
  "sample_notice = \<lparr>sd_category = Some (JStr ''INVOICE''), sd_recipientUserId = Some (JId 7), sd_organizationId = None, sd_customerId = None,
     sd_payload = [(''email'', JStr ''a@b.c'')], sd_channels = Some (JArr [JStr ''EMAIL'', JStr ''IN_APP'', JStr ''EMAIL'']), sd_correlationId = None\<rparr>"

theorem notification_fans_out_witness:
  "\<exists>n s'. send sample_notice blank_notify = (Inr n, s') \<and> sends_as INVOICE (Some 7) [EMAIL, IN_APP, EMAIL] blank_notify n s'"
  by (rule notification_fans_out) (simp_all add: sample_notice_def blank_notify_def)

section \<open>Every delivery is sent at most once\<close>

abbreviation delivery_job :: "job_row \<Rightarrow> bool" where
  "delivery_job j \<equiv> job_type j = ''NOTIFICATION_DELIVERY''"

definition sent_by :: "NotificationChannel \<Rightarrow> notification_delivery \<Rightarrow> bool" where
  "sent_by c d \<longleftrightarrow> nd_channel d = c \<and> nd_status d = SENT"

text \<open>
  A delivery is pending without attempts, or sent with one, and then the job that carries its key has
  succeeded, unless that job is the one being run.
\<close>

definition settled_for :: "id option \<Rightarrow> job_row list \<Rightarrow> id \<Rightarrow> bool" where
  "settled_for busy js i \<longleftrightarrow> (\<forall>j \<in> set js. delivery_job j \<and> job_payload j = delivery_payload i
     \<longrightarrow> busy = Some (job_id j) \<or> job_status j = JobStatus.SUCCESS)"

definition delivery_ok :: "id option \<Rightarrow> job_row list \<Rightarrow> notification_delivery \<Rightarrow> bool" where
  "delivery_ok busy js d \<longleftrightarrow> (nd_status d = NotificationDeliveryStatus.PENDING \<and> nd_attemptCount d = 0)
     \<or> (nd_status d = SENT \<and> nd_attemptCount d = 1 \<and> settled_for busy js (nd_id d))"

definition jobs_ok :: "id \<Rightarrow> job_row list \<Rightarrow> bool" where
  "jobs_ok n js \<longleftrightarrow> distinct (map job_id js) \<and> (\<forall>j \<in> set js. job_id j < n)
     \<and> (\<forall>j \<in> set js. delivery_job j \<longrightarrow> job_cron j = None \<and> (\<exists>i < n. job_payload j = delivery_payload i))
     \<and> distinct (map job_payload (filter delivery_job js))"

definition notify_ok :: "id option \<Rightarrow> 'z notify_db_scheme \<Rightarrow> bool" where
  "notify_ok busy s \<longleftrightarrow> jobs_ok (nextId s) (jobs s)
     \<and> distinct (map nd_id (notificationDeliveries s)) \<and> (\<forall>d \<in> set (notificationDeliveries s). nd_id d < nextId s)
     \<and> (\<forall>d \<in> set (notificationDeliveries s). delivery_ok busy (jobs s) d)
     \<and> length (outbox s) = count_where (sent_by EMAIL) (notificationDeliveries s)
     \<and> length (inbox s) = count_where (sent_by IN_APP) (notificationDeliveries s)"

lemma delivery_payload_inj [simp]: "delivery_payload i = delivery_payload k \<longleftrightarrow> i = k"
  by (simp add: delivery_payload_def)

lemma jobs_ok_mono: "jobs_ok n js \<Longrightarrow> n \<le> m \<Longrightarrow> jobs_ok m js"
  by (auto simp: jobs_ok_def dest: less_le_trans)

text \<open>A new job: one of another kind, or the one of a delivery that has none.\<close>

lemma jobs_ok_other: "jobs_ok n js \<Longrightarrow> \<not> delivery_job j \<Longrightarrow> job_id j = n \<Longrightarrow> jobs_ok (Suc n) (js @ [j])"
  using jobs_ok_mono [of n js "Suc n"] by (auto simp: jobs_ok_def)

lemma jobs_ok_delivery:
  assumes "jobs_ok n js" and "delivery_job j" and "job_id j = Suc n" and "job_payload j = delivery_payload n" and "job_cron j = None"
  shows "jobs_ok (Suc (Suc n)) (js @ [j])"
proof -
  have "delivery_payload n \<notin> job_payload ` {x \<in> set js. delivery_job x}"
    using assms(1) by (auto simp: jobs_ok_def)
  then show ?thesis
    using assms jobs_ok_mono [of n js "Suc (Suc n)"] by (force simp: jobs_ok_def)
qed

text \<open>A job row that keeps its key, type, payload and cron.\<close>

definition same_job :: "(job_row \<Rightarrow> job_row) \<Rightarrow> bool" where
  "same_job f \<longleftrightarrow> (\<forall>j. job_id (f j) = job_id j \<and> job_type (f j) = job_type j \<and> job_payload (f j) = job_payload j \<and> job_cron (f j) = job_cron j)"

lemma jobs_ok_upd: "same_job f \<Longrightarrow> jobs_ok n (upd_where P f js) = jobs_ok n js"
proof -
  assume f: "same_job f"
  then have "map job_id (upd_where P f js) = map job_id js" by (simp add: same_job_def map_upd_where)
  moreover from f have "map job_payload (filter delivery_job (upd_where P f js)) = map job_payload (filter delivery_job js)"
    by (induction js) (auto simp: upd_where_def same_job_def)
  moreover from f have "(\<forall>j \<in> set (upd_where P f js). Q (job_id j) (job_type j) (job_payload j) (job_cron j))
      = (\<forall>j \<in> set js. Q (job_id j) (job_type j) (job_payload j) (job_cron j))" for Q
    by (simp add: ball_upd_where same_job_def if_distrib cong: if_cong)
  from this [of "\<lambda>i t p c. i < n"] this [of "\<lambda>i t p c. t = ''NOTIFICATION_DELIVERY'' \<longrightarrow> c = None \<and> (\<exists>i<n. p = delivery_payload i)"]
  have "(\<forall>j \<in> set (upd_where P f js). job_id j < n) = (\<forall>j \<in> set js. job_id j < n)"
    "(\<forall>j \<in> set (upd_where P f js). delivery_job j \<longrightarrow> job_cron j = None \<and> (\<exists>i < n. job_payload j = delivery_payload i))
     = (\<forall>j \<in> set js. delivery_job j \<longrightarrow> job_cron j = None \<and> (\<exists>i < n. job_payload j = delivery_payload i))"
    by simp_all
  ultimately show ?thesis by (simp add: jobs_ok_def)
qed

lemma settled_for_append: "settled_for busy (js @ ks) i \<longleftrightarrow> settled_for busy js i \<and> settled_for busy ks i"
  by (auto simp: settled_for_def)

lemma settled_for_upd:
  "same_job f \<Longrightarrow> (\<And>j. j \<in> set js \<Longrightarrow> delivery_job j \<Longrightarrow> P j \<Longrightarrow> job_status j = JobStatus.SUCCESS \<Longrightarrow> busy = Some (job_id j) \<or> job_status (f j) = JobStatus.SUCCESS) \<Longrightarrow>
   settled_for busy js i \<Longrightarrow> settled_for busy (upd_where P f js) i"
  unfolding settled_for_def ball_upd_where by (simp add: same_job_def) blast

lemma delivery_ok_mono: "(settled_for busy js (nd_id d) \<Longrightarrow> settled_for busy' js' (nd_id d)) \<Longrightarrow> delivery_ok busy js d \<Longrightarrow> delivery_ok busy' js' d"
  by (auto simp: delivery_ok_def)

lemma delivery_ok_other_job: "\<not> delivery_job j \<Longrightarrow> delivery_ok busy js d \<Longrightarrow> delivery_ok busy (js @ [j]) d"
  by (auto simp: settled_for_def elim!: delivery_ok_mono [rotated])

text \<open>Adding a job of another kind, changing a job that has not succeeded, adding a delivery with its job.\<close>

lemma notify_ok_other_job:
  "notify_ok busy s \<Longrightarrow> \<not> delivery_job j \<Longrightarrow> job_id j = nextId s \<Longrightarrow>
   notify_ok busy (jobs_update (\<lambda>js. js @ [j]) (nextId_update Suc s))"
  using delivery_ok_other_job [of j busy "jobs s"] by (simp add: notify_ok_def jobs_ok_other less_SucI)

lemma notify_ok_upd_job:
  "notify_ok busy s \<Longrightarrow> same_job f \<Longrightarrow>
   (\<And>j. j \<in> set (jobs s) \<Longrightarrow> delivery_job j \<Longrightarrow> P j \<Longrightarrow> job_status j = JobStatus.SUCCESS \<Longrightarrow> busy = Some (job_id j) \<or> job_status (f j) = JobStatus.SUCCESS) \<Longrightarrow>
   notify_ok busy (jobs_update (upd_where P f) s)"
  using delivery_ok_mono [OF settled_for_upd [of f "jobs s" P busy]] by (simp add: notify_ok_def jobs_ok_upd)

lemma notify_ok_new_delivery:
  assumes "notify_ok busy s" and "nd_id d = nextId s" and "nd_status d = NotificationDeliveryStatus.PENDING" and "nd_attemptCount d = 0"
    and "delivery_job j" and "job_id j = Suc (nextId s)" and "job_payload j = delivery_payload (nextId s)" and "job_cron j = None"
  shows "notify_ok busy (jobs_update (\<lambda>js. js @ [j]) (notificationDeliveries_update (\<lambda>ds. ds @ [d]) (nextId_update (\<lambda>n. n + 2) s)))"
proof -
  have "delivery_ok busy (jobs s @ [j]) x" if "x \<in> set (notificationDeliveries s)" for x
  proof -
    from that assms(1) have "delivery_ok busy (jobs s) x" and "nd_id x < nextId s" by (auto simp: notify_ok_def)
    then show ?thesis using assms(7) by (auto simp: delivery_ok_def settled_for_def)
  qed
  moreover have "delivery_ok busy (jobs s @ [j]) d" using assms(3,4) by (simp add: delivery_ok_def)
  moreover have "jobs_ok (nextId s + 2) (jobs s @ [j])"
    using jobs_ok_delivery [of "nextId s" "jobs s" j] assms by (simp add: notify_ok_def numeral_2_eq_2)
  ultimately show ?thesis
    using assms(1-4) by (force simp: notify_ok_def sent_by_def count_where_def)
qed

subsection \<open>The processors\<close>

lemma notify_ok_tables [simp]:
  "notify_ok b (audits_update f s) = notify_ok b s" "notify_ok b (platformEvents_update f0 s) = notify_ok b s"
  "notify_ok b (automationRules_update f1 s) = notify_ok b s" "notify_ok b (jobHistory_update f2 s) = notify_ok b s"
  "notify_ok b (queueControls_update f3 s) = notify_ok b s" "notify_ok b (notificationTemplates_update f4 s) = notify_ok b s"
  "notify_ok b (platformNotifications_update f5 s) = notify_ok b s" "notify_ok b (ruleExecutions_update f6 s) = notify_ok b s"
  "notify_ok b (clock_update f7 s) = notify_ok b s"
  by (simp_all add: notify_ok_def)

lemma notify_ok_fresh: "notify_ok b s \<Longrightarrow> notify_ok b (nextId_update Suc s)"
  by (auto simp: notify_ok_def less_SucI intro: jobs_ok_mono)

lemma send_on_ok: "preserves (notify_ok b) (send_on corr category n v :: ('z notify_db_scheme, unit) svc)"
proof (cases "channel_of v")
  case None
  then show ?thesis by (simp add: send_on_def preserves_throw)
next
  case (Some c)
  then have v: "v = channel_json c" by (auto simp: channel_of_def dest: find_SomeD)
  have "notify_ok b s \<Longrightarrow> wps (send_on corr category n v) (\<lambda>r. notify_ok b) s" for s :: "'z notify_db_scheme"
    unfolding v wps_send_on Let_def
    by (rule notify_ok_new_delivery) (simp_all add: new_delivery_def job_of_def delivery_options_def default_options_def)
  then show ?thesis by (simp add: preserves_wps)
qed

lemma send_ok: "preserves (notify_ok b) (send dto)"
  unfolding send_def insert_notification_def fresh_def now_def
  by (intro pres send_on_ok) (simp_all add: notify_ok_fresh)

lemma runAction_ok: "preserves (notify_ok b) (runAction d ev)"
  unfolding runAction_def Let_def audit_def audit_record_def
  by (intro pres send_ok) simp_all

lemma run_actions_ok: "preserves (notify_ok b) (run_actions ev ds n)"
  by (induction ds arbitrary: n) (auto intro!: pres runAction_ok split: option.split)

lemma execute_ok: "preserves (notify_ok b) (execute p job)"
  unfolding execute_def fresh_def now_def
  by (intro pres run_actions_ok) (auto simp: notify_ok_fresh split: prod.split option.split intro!: pres)

text \<open>Neither processor changes the row of a job.\<close>

lemma rows_stay_send_on: "preserves (\<lambda>s. r \<in> set (jobs s)) (send_on corr category n v)"
  unfolding send_on_def enqueue_def fresh_def now_def by (intro pres) simp_all

lemma rows_stay_send: "preserves (\<lambda>s. r \<in> set (jobs s)) (send dto)"
  unfolding send_def insert_notification_def fresh_def now_def by (intro pres rows_stay_send_on) simp_all

lemma rows_stay_run: "preserves (\<lambda>s. r \<in> set (jobs s)) (run_actions ev ds n)"
proof (induction ds arbitrary: n)
  case (Cons d ds)
  have "preserves (\<lambda>s. r \<in> set (jobs s)) (runAction d ev)"
    unfolding runAction_def Let_def audit_def audit_record_def by (intro pres rows_stay_send) simp_all
  with Cons show ?case by (auto intro!: pres split: option.split)
qed (simp add: preserves_ret)

lemma rows_stay_execute: "preserves (\<lambda>s. r \<in> set (jobs s)) (execute p job)"
  unfolding execute_def fresh_def now_def
  by (intro pres rows_stay_run) (auto split: prod.split option.split intro!: pres)

lemma leaves_deliver: "leaves jobs (deliver p job)"
  unfolding deliver_def send_message_def inbox_create_def mail_send_def now_def fresh_def Let_def
  by (intro leaves_all) (auto split: NotificationChannel.split option.split intro!: leaves_all)

lemma rows_stay: "leaves_row r notification_registry"
  by (auto simp: leaves_row_def notification_registry_def preserves_def leaves_snd [OF leaves_deliver]
      preservesD [OF rows_stay_execute])

text \<open>A delivery that fails changes nothing at all: no attempt is counted and no error is kept on its row.\<close>
theorem failed_delivery_untracked: "deliver p job s = (Inl e, s') \<Longrightarrow> s' = s"
proof -
  assume r: "deliver p job s = (Inl e, s')"
  have "wps (deliver p job) (\<lambda>r s'. isl r \<longrightarrow> s' = s) s"
    by (auto simp: deliver_def send_message_def inbox_create_def mail_send_def wp Let_def
        split: option.splits sum.splits NotificationChannel.split)
  with r show ?thesis by (simp add: wps_run)
qed

subsection \<open>One attempt\<close>

text \<open>The job of a pending delivery runs: the delivery is sent and its job is the busy one.\<close>

lemma settled_busy: "settled_for None js i \<Longrightarrow> settled_for busy js i"
  by (auto simp: settled_for_def)

lemma payload_job_unique:
  "jobs_ok n js \<Longrightarrow> j \<in> set js \<Longrightarrow> k \<in> set js \<Longrightarrow> delivery_job j \<Longrightarrow> delivery_job k \<Longrightarrow> job_payload j = job_payload k \<Longrightarrow> j = k"
  using distinct_key_eq [of job_payload "filter delivery_job js" j k] by (simp add: jobs_ok_def)

lemma sent_count:
  assumes "distinct (map nd_id ds)" and "d \<in> set ds" and "nd_status d = NotificationDeliveryStatus.PENDING"
  shows "count_where (sent_by c) (upd_where (\<lambda>x. nd_id x = nd_id d) (mark_sent t) ds)
    = count_where (sent_by c) ds + (if nd_channel d = c then 1 else 0)"
  using count_where_upd_key [OF assms(1,2), of "sent_by c" "mark_sent t"] assms(3) by (simp add: sent_by_def mark_sent_def)

lemma deliver_sends:
  assumes ok: "notify_ok None s" and job: "job \<in> set (jobs s)" "delivery_job job" "job_status job \<noteq> JobStatus.SUCCESS"
    and d: "List.find (\<lambda>d. nd_id d = i) (notificationDeliveries s) = Some d" and p: "job_payload job = delivery_payload i"
  shows "nd_status d = NotificationDeliveryStatus.PENDING \<and> nd_attemptCount d = 0"
    and "\<lbrakk>outbox s' = outbox s @ ms; inbox s' = inbox s @ ns; length ms = (if nd_channel d = EMAIL then 1 else 0);
       length ns = (if nd_channel d = IN_APP then 1 else 0); jobs s' = jobs s; nextId s \<le> nextId s';
       notificationDeliveries s' = upd_where (\<lambda>d. nd_id d = i) (mark_sent t) (notificationDeliveries s)\<rbrakk>
     \<Longrightarrow> notify_ok (Some (job_id job)) s'"
proof -
  from d have di: "d \<in> set (notificationDeliveries s)" "nd_id d = i" by (auto dest: find_SomeD)
  with ok have dok: "delivery_ok None (jobs s) d" by (auto simp: notify_ok_def)
  with job p di(2) show pend: "nd_status d = NotificationDeliveryStatus.PENDING \<and> nd_attemptCount d = 0"
    by (auto simp: delivery_ok_def settled_for_def)
  assume eqs: "outbox s' = outbox s @ ms" "inbox s' = inbox s @ ns" "length ms = (if nd_channel d = EMAIL then 1 else 0)"
     "length ns = (if nd_channel d = IN_APP then 1 else 0)" "jobs s' = jobs s" "nextId s \<le> nextId s'"
     "notificationDeliveries s' = upd_where (\<lambda>d. nd_id d = i) (mark_sent t) (notificationDeliveries s)"
  have jok: "jobs_ok (nextId s) (jobs s)" and dist: "distinct (map nd_id (notificationDeliveries s))"
    using ok by (auto simp: notify_ok_def)
  have settled: "settled_for (Some (job_id job)) (jobs s) i"
    using payload_job_unique [OF jok _ job(1) _ job(2)] p by (auto simp: settled_for_def)
  have "delivery_ok (Some (job_id job)) (jobs s) (if nd_id x = i then mark_sent t x else x)"
    if x: "x \<in> set (notificationDeliveries s)" for x
  proof (cases "nd_id x = i")
    case True
    with x di dist have "x = d" by (auto intro: distinct_key_eq)
    with True pend settled show ?thesis by (simp add: delivery_ok_def mark_sent_def)
  next
    case False
    from x ok have "delivery_ok None (jobs s) x" by (simp add: notify_ok_def)
    with False show ?thesis by (simp add: delivery_ok_mono [OF settled_busy])
  qed
  moreover have "map nd_id (upd_where (\<lambda>d. nd_id d = i) (mark_sent t) (notificationDeliveries s)) = map nd_id (notificationDeliveries s)"
    by (rule map_upd_where) (simp add: mark_sent_def)
  moreover have "nd_id (if nd_id x = i then mark_sent t x else x) < nextId s'" if "x \<in> set (notificationDeliveries s)" for x
    using that ok eqs(6) by (auto simp: notify_ok_def mark_sent_def dest: less_le_trans)
  ultimately show "notify_ok (Some (job_id job)) s'"
    using ok eqs(1-6) sent_count [OF dist di(1) conjunct1 [OF pend], of _ t] dist jobs_ok_mono [OF jok eqs(6)]
    unfolding notify_ok_def eqs(7) ball_upd_where by (simp add: di(2))
qed

lemma deliver_ok:
  assumes ok: "notify_ok None s" and job: "job \<in> set (jobs s)" "delivery_job job" "job_status job \<noteq> JobStatus.SUCCESS"
    and run: "deliver (job_payload job) job s = (Inr (), s')"
  shows "notify_ok (Some (job_id job)) s'"
proof -
  from ok job obtain i where i: "job_payload job = delivery_payload i" by (auto simp: notify_ok_def jobs_ok_def)
  note sends = deliver_sends(2) [OF ok job _ i]
  have "wps (deliver (job_payload job) job) (\<lambda>r s'. r = Inr () \<longrightarrow> notify_ok (Some (job_id job)) s') s"
    by (auto simp: i deliver_def payload_id_def delivery_payload_def send_message_def inbox_create_def mail_send_def wp Let_def
        split: option.split NotificationChannel.split intro!: sends)
  with run show ?thesis by (simp add: wps_run)
qed

text \<open>Settling the row of the job that ran.\<close>

lemma notify_ok_settled:
  assumes ok: "notify_ok (Some i) s" and f: "same_job f" and settles: "\<And>j. job_status (f j) = JobStatus.SUCCESS"
  shows "notify_ok None (jobs_update (upd_where (\<lambda>j. job_id j = i) f) s)"
proof -
  have "settled_for None (upd_where (\<lambda>j. job_id j = i) f (jobs s)) k" if "settled_for (Some i) (jobs s) k" for k
    using that f unfolding settled_for_def ball_upd_where by (auto simp: same_job_def settles)
  from delivery_ok_mono [OF this] ok show ?thesis by (simp add: notify_ok_def jobs_ok_upd [OF f])
qed

lemma same_job_simps [simp]:
  "same_job (\<lambda>j. j\<lparr>job_status := st\<rparr>)" "same_job (succeeded job t)"
  "same_job (\<lambda>j. j\<lparr>job_status := st, job_attemptCount := n, job_nextAttemptAt := a, job_error := e\<rparr>)"
  by (simp_all add: same_job_def succeeded_def)

lemma succeed_delivery:
  assumes "notify_ok (Some (job_id job)) s" and "job_cron job = None" and "List.find (\<lambda>j. job_id j = job_id job) (jobs s) = Some r"
  shows "fst (job_succeed job t s) = Inr () \<and> notify_ok None (snd (job_succeed job t s))"
proof -
  have "notify_ok None (jobs_update (upd_where (\<lambda>j. job_id j = job_id job) (succeeded job (clock s))) s)"
    by (rule notify_ok_settled [OF assms(1)]) (simp_all add: succeeded_def)
  then have "wps (job_succeed job t) (\<lambda>r s'. r = Inr () \<and> notify_ok None s') s"
    using assms(2,3) by (simp add: job_succeed_def wp comp_def split: option.split)
  then show ?thesis by (simp add: wps_run)
qed

text \<open>While another kind of job settles, no row of a delivery job is touched.\<close>

definition not_delivery :: "id \<Rightarrow> 'z notify_db_scheme \<Rightarrow> bool" where
  "not_delivery i s \<longleftrightarrow> notify_ok None s \<and> (\<forall>j \<in> set (jobs s). job_id j = i \<longrightarrow> \<not> delivery_job j)"

lemma not_delivery_upd:
  "not_delivery i s \<Longrightarrow> same_job f \<Longrightarrow> not_delivery i (jobs_update (upd_where (\<lambda>j. job_id j = i) f) s)"
proof -
  assume nd: "not_delivery i s" and f: "same_job f"
  have "notify_ok None (jobs_update (upd_where (\<lambda>j. job_id j = i) f) s)"
    by (rule notify_ok_upd_job [OF _ f]) (use nd in \<open>auto simp: not_delivery_def\<close>)
  moreover have "\<forall>j \<in> set (upd_where (\<lambda>j. job_id j = i) f (jobs s)). job_id j = i \<longrightarrow> \<not> delivery_job j"
    unfolding ball_upd_where using nd f by (simp add: not_delivery_def same_job_def)
  ultimately show ?thesis by (simp add: not_delivery_def)
qed

lemma not_delivery_tables [simp]:
  "not_delivery i (platformEvents_update f0 s) = not_delivery i s" "not_delivery i (jobHistory_update f2 s) = not_delivery i s"
  by (simp_all add: not_delivery_def)

lemma not_delivery_append:
  "not_delivery i s \<Longrightarrow> \<not> delivery_job j \<Longrightarrow> job_id j = nextId s \<Longrightarrow> not_delivery i (jobs_update (\<lambda>js. js @ [j]) (nextId_update Suc s))"
  unfolding not_delivery_def using notify_ok_other_job [of None s j] by auto

lemma not_delivery_upd_append:
  "not_delivery i s \<Longrightarrow> same_job f \<Longrightarrow> \<not> delivery_job j \<Longrightarrow> job_id j = nextId s \<Longrightarrow>
   not_delivery i (jobs_update (\<lambda>js. upd_where (\<lambda>j. job_id j = i) f js @ [j]) (nextId_update Suc s))"
  using not_delivery_append [OF not_delivery_upd, of i s f j] by (simp add: comp_def)

lemma settle_other:
  assumes "not_delivery (job_id job) s" and "\<not> delivery_job job"
  shows "not_delivery (job_id job) (snd (job_succeed job t s))" and "not_delivery (job_id job) (snd (job_fail job t e s))"
proof -
  have "wps (job_succeed job t) (\<lambda>r s'. not_delivery (job_id job) s') s"
    using assms by (auto simp: job_succeed_def wp comp_def not_delivery_upd next_occurrence_def
        intro!: not_delivery_upd_append split: option.split sum.split)
  then show "not_delivery (job_id job) (snd (job_succeed job t s))" by (simp add: wps_run)
  have "wps (job_fail job t e) (\<lambda>r s'. not_delivery (job_id job) s') s"
    using assms by (auto simp: job_fail_def wp Let_def not_delivery_upd split: option.split)
  then show "not_delivery (job_id job) (snd (job_fail job t e s))" by (simp add: wps_run)
qed

lemma fail_delivery:
  assumes "notify_ok None s" and "\<And>j. j \<in> set (jobs s) \<Longrightarrow> job_id j = job_id job \<Longrightarrow> job_status j \<noteq> JobStatus.SUCCESS"
  shows "notify_ok None (snd (job_fail job t e s))"
proof -
  have "wps (job_fail job t e) (\<lambda>r s'. notify_ok None s') s"
    using assms by (auto simp: job_fail_def wp Let_def split: option.split intro!: notify_ok_upd_job)
  then show ?thesis by (simp add: wps_run)
qed

lemma try_catch_cases:
  "P (snd (m s)) \<Longrightarrow> (\<And>e s1. m s = (Inl e, s1) \<Longrightarrow> P (snd (h e s1))) \<Longrightarrow> P (snd (try_catch m h s))"
  by (cases "m s"; cases "fst (m s)") (auto simp: try_catch_def)

lemma run_registered:
  "run_processor notification_registry job = (if delivery_job job then deliver (job_payload job) job
     else if job_type job = ''AUTOMATION_RULE_EXECUTION'' then execute (job_payload job) job
     else throw (JsError (''No job processor registered for type '' @ [CHR 0x22] @ job_type job @ [CHR 0x22])))"
  by (auto simp: run_processor_def resolve_processor_def notification_registry_def)

lemma notify_attempt_ok:
  assumes ok: "notify_ok None (s :: 'z notify_db_scheme)" and row: "List.find (\<lambda>j. job_id j = i) (jobs s) = Some job" and new: "job_status job \<noteq> JobStatus.SUCCESS"
  shows "notify_ok None (snd (attempt notification_registry i s))"
proof (cases "job_status job = JobStatus.CANCELLED")
  case True
  with row have "attempt notification_registry i s = (Inr (), s)" by (intro attempt_skip) simp
  with ok show ?thesis by simp
next
  case False
  define s0 where "s0 = processing i s"
  define r where "r = job\<lparr>job_status := JobStatus.PROCESSING\<rparr>"
  from row have job: "job \<in> set (jobs s)" "job_id job = i" by (auto dest: find_SomeD)
  have dist: "distinct (map job_id (jobs s))" using ok by (simp add: notify_ok_def jobs_ok_def)
  have ok0: "notify_ok None s0"
    unfolding s0_def processing_def
    by (rule notify_ok_upd_job [OF ok]) (use distinct_key_eq [OF dist _ job(1)] job(2) new in auto)
  have r0: "r \<in> set (jobs s0)"
    using job by (auto simp: s0_def processing_def set_upd_where r_def)
  define m :: "('z notify_db_scheme, unit) svc" where "m = seq (run_processor notification_registry job) (job_succeed job (clock s))"
  have run: "attempt notification_registry i s = try_catch m (job_fail job (clock s)) s0"
    using attempt_enter [OF row False] by (simp add: s0_def m_def)
  have same_row: "j = r" if "notify_ok None s'" "r \<in> set (jobs s')" "j \<in> set (jobs s')" "job_id j = i" for j and s' :: "'z notify_db_scheme"
    using that distinct_key_eq [of job_id "jobs s'" j r] job(2) by (simp add: notify_ok_def jobs_ok_def r_def)
  obtain x s1 where proc: "run_processor notification_registry job s0 = (x, s1)" by fastforce
  have r1: "r \<in> set (jobs s1)" by (rule preservesE [OF run_processor_leaves [OF rows_stay] proc r0])
  show ?thesis
  proof (cases "delivery_job job")
    case True
    show ?thesis
    proof (cases x)
      case (Inl e)
      with proc True have "deliver (job_payload job) job s0 = (Inl e, s1)" by (simp add: run_registered)
      then have "s1 = s0" by (rule failed_delivery_untracked)
      have "job_status j \<noteq> JobStatus.SUCCESS" if "j \<in> set (jobs s0)" "job_id j = job_id job" for j
        using same_row [OF ok0 r0 that(1)] that(2) job(2) by (simp add: r_def)
      with ok0 \<open>s1 = s0\<close> have "notify_ok None (snd (job_fail job (clock s) e s1))" by (intro fail_delivery) auto
      moreover have "m s0 = (Inl e, s0)" using proc Inl \<open>s1 = s0\<close> by (simp add: m_def seq_step)
      ultimately show ?thesis using ok0 \<open>s1 = s0\<close> unfolding run
        by (intro try_catch_cases [where P = "notify_ok None"]) (auto simp only: prod.inject snd_conv sum.inject)
    next
      case (Inr u)
      have "notify_ok (Some (job_id r)) s1"
        by (rule deliver_ok [OF ok0 r0]) (use proc True Inr in \<open>simp_all add: run_registered r_def deliver_def\<close>)
      then have busy: "notify_ok (Some (job_id job)) s1" by (simp add: r_def)
      have cron: "job_cron job = None" using ok job(1) True by (auto simp: notify_ok_def jobs_ok_def)
      have "List.find (\<lambda>j. job_id j = job_id job) (jobs s1) \<noteq> None"
        using r1 by (auto simp: find_None_iff' r_def intro!: bexI [of _ r])
      then obtain q where "List.find (\<lambda>j. job_id j = job_id job) (jobs s1) = Some q" by blast
      from succeed_delivery [OF busy cron this, of "clock s"] proc Inr
      have "fst (m s0) = Inr ()" "notify_ok None (snd (m s0))" by (simp_all add: m_def seq_step)
      then show ?thesis unfolding run
        by (intro try_catch_cases [where P = "notify_ok None"]) (simp_all add: prod_eq_iff)
    qed
  next
    case False
    have "preserves (notify_ok None) (run_processor notification_registry job :: ('z notify_db_scheme, unit) svc)"
      by (simp add: run_registered False execute_ok preserves_throw)
    then have "notify_ok None s1" using proc ok0 by (rule preservesE)
    moreover have "\<not> delivery_job j" if "j \<in> set (jobs s1)" "job_id j = i" for j
      using same_row [OF \<open>notify_ok None s1\<close> r1 that] False by (simp add: r_def)
    ultimately have nd: "not_delivery i s1" by (simp add: not_delivery_def)
    have fails: "not_delivery i t \<Longrightarrow> notify_ok None (snd (job_fail job (clock s) e t))" for e t
      using settle_other(2) [of job t "clock s" e] False job(2) by (simp add: not_delivery_def)
    have finished: "not_delivery i (snd (m s0))"
      using settle_other(1) [of job s1 "clock s"] nd False job(2) proc by (auto simp: m_def seq_step split: sum.split)
    show ?thesis unfolding run
      by (rule try_catch_cases [where P = "notify_ok None"]) (use finished fails in \<open>auto simp: not_delivery_def [of i "snd (m s0)"]\<close>)
  qed
qed

subsection \<open>The system\<close>

text \<open>The jobs of a batch are distinct and wait for their turn through the attempts of the others.\<close>

definition waits :: "id \<Rightarrow> 'z platform_db_scheme \<Rightarrow> bool" where
  "waits i s \<longleftrightarrow> (\<exists>j \<in> set (jobs s). job_id j = i \<and> job_status j \<noteq> JobStatus.SUCCESS)"

lemma batch_ok:
  "notify_ok None s \<Longrightarrow> distinct is \<Longrightarrow> (\<And>i. i \<in> set is \<Longrightarrow> waits i s) \<Longrightarrow>
   notify_ok None (snd (for_each is (\<lambda>i. try_catch (attempt notification_registry i) (\<lambda>_. ret ())) s))"
proof (induction "is" arbitrary: s)
  case (Cons i "is")
  define s1 where "s1 = snd (attempt notification_registry i s)"
  have snd_tc: "snd (try_catch (attempt notification_registry i) (\<lambda>_. ret ()) s) = s1"
    by (simp add: s1_def try_catch_def ret_def split: prod.split sum.split)
  from Cons.prems(3) [of i] obtain j where j: "j \<in> set (jobs s)" "job_id j = i" "job_status j \<noteq> JobStatus.SUCCESS" by (auto simp: waits_def)
  then obtain job where row: "List.find (\<lambda>j. job_id j = i) (jobs s) = Some job"
    by (cases "List.find (\<lambda>j. job_id j = i) (jobs s)") (auto simp: find_None_iff')
  then have "job = j"
    using j Cons.prems(1) distinct_key_eq [of job_id "jobs s" job j] by (auto simp: notify_ok_def jobs_ok_def dest: find_SomeD)
  with row j Cons.prems(1) have ok1: "notify_ok None s1" unfolding s1_def by (intro notify_attempt_ok) auto
  have "waits k s1" if "k \<in> set is" for k
  proof -
    from Cons.prems(3) [of k] that obtain r where r: "r \<in> set (jobs s)" "job_id r = k" "job_status r \<noteq> JobStatus.SUCCESS" by (auto simp: waits_def)
    have "job_id r \<noteq> i" using r(2) that Cons.prems(2) by auto
    from preservesD [OF attempt_leaves [OF rows_stay this] r(1)] r show ?thesis by (auto simp: waits_def s1_def)
  qed
  with ok1 Cons.prems(2) have rest: "notify_ok None (snd (for_each is (\<lambda>i. try_catch (attempt notification_registry i) (\<lambda>_. ret ())) s1))"
    by (intro Cons.IH) auto
  show ?case using ok1 rest snd_tc
    by (cases "try_catch (attempt notification_registry i) (\<lambda>_. ret ()) s") (auto simp: seq_step split: sum.split)
qed (simp add: ret_def)

lemma distinct_due: "distinct (map job_id (jobs s)) \<Longrightarrow> distinct (map job_id (due_jobs s))"
proof -
  assume d: "distinct (map job_id (jobs s))"
  have "inj_on job_id (set (due_jobs s))"
    by (rule inj_on_subset [of _ "set (jobs s)"]) (use d in \<open>auto simp: distinct_map due_jobs_def dest: in_set_takeD\<close>)
  with d show ?thesis by (simp add: distinct_map due_jobs_def)
qed

lemma due_waits: "j \<in> set (due_jobs s) \<Longrightarrow> waits (job_id j) s"
  by (auto simp: waits_def due_jobs_def job_due_def dest!: in_set_takeD)

lemma processDue_ok: "notify_ok None s \<Longrightarrow> notify_ok None (snd (processDue notification_registry s))"
  using batch_ok [of s "map job_id (due_jobs s)"] due_waits
  by (auto simp: processDue_def sweep_read_def sweep_attempts_def run distinct_due notify_ok_def jobs_ok_def)

lemma publish_ok: "preserves (notify_ok None) (publish ty payload refs corr :: ('z notify_db_scheme, platform_event) svc)"
proof -
  have enq: "preserves (notify_ok None) (enqueue ''AUTOMATION_RULE_EXECUTION'' p opts :: ('z notify_db_scheme, job_row) svc)" for p opts
    unfolding preserves_wps by (auto simp: wp Let_def job_of_def intro!: notify_ok_other_job)
  show ?thesis unfolding publish_def fresh_def by (intro pres enq) (simp_all add: notify_ok_fresh)
qed

text \<open>
  What happens to the tables: requests and events, the worker's sweeps, the administrators' operations
  on jobs, queues, templates and rules, users reading their inbox, and the passing of time.
\<close>

inductive notify_step :: "'z notify_db_scheme \<Rightarrow> 'z notify_db_scheme \<Rightarrow> bool" where
  send: "notify_step s (snd (send dto s))"
| publish: "notify_step s (snd (publish ty payload refs corr s))"
| sweep: "notify_step s (snd (processDue notification_registry s))"
| retry: "notify_step s (snd (job_retry i u meta s))"
| cancel: "notify_step s (snd (job_cancel i u meta s))"
| pause: "notify_step s (snd (pauseQueue q u meta s))"
| resume: "notify_step s (snd (resumeQueue q u meta s))"
| template_create: "notify_step s (snd (template_create key c ch sub body act u meta s))"
| template_update: "notify_step s (snd (template_update i tdto u meta s))"
| rule_create: "notify_step s (snd (rule_create name descr trigger actions u meta s))"
| rule_update: "notify_step s (snd (rule_update i rdto u meta s))"
| rule_toggle: "notify_step s (snd (rule_toggle i on u meta s))"
| read: "notify_step s (snd (inbox_markRead u i s))"
| read_all: "notify_step s (snd (inbox_markAllRead u s))"
| tick: "clock s \<le> t \<Longrightarrow> notify_step s (s\<lparr>clock := t\<rparr>)"

lemma notify_ok_inbox [simp]: "notify_ok b (inbox_update (upd_where P g) s) = notify_ok b s"
  by (simp add: notify_ok_def)

lemma admin_ok:
  "preserves (notify_ok None) (pauseQueue q u meta :: ('z notify_db_scheme, _) svc)"
  "preserves (notify_ok None) (resumeQueue q u meta :: ('z notify_db_scheme, _) svc)"
  "preserves (notify_ok None) (template_create key c ch sub body act u meta :: ('z notify_db_scheme, _) svc)"
  "preserves (notify_ok None) (template_update i tdto u meta :: ('z notify_db_scheme, _) svc)"
  "preserves (notify_ok None) (rule_create name descr trigger actions u meta :: ('z notify_db_scheme, _) svc)"
  "preserves (notify_ok None) (rule_update i rdto u meta :: ('z notify_db_scheme, _) svc)"
  "preserves (notify_ok None) (rule_toggle i on u meta :: ('z notify_db_scheme, _) svc)"
  "preserves (notify_ok None) (inbox_markRead u i :: ('z notify_db_scheme, _) svc)"
  "preserves (notify_ok None) (inbox_markAllRead u :: ('z notify_db_scheme, _) svc)"
  unfolding pauseQueue_def resumeQueue_def upsert_control_def template_create_def template_update_def template_getOne_def
    rule_create_def rule_update_def rule_toggle_def rule_getOne_def inbox_markRead_def inbox_markAllRead_def
    audit_def audit_record_def fresh_def now_def
  by (intro pres; simp add: notify_ok_fresh)+

lemma found_row:
  "notify_ok b s \<Longrightarrow> List.find (\<lambda>j. job_id j = i) (jobs s) = Some job \<Longrightarrow> j \<in> set (jobs s) \<Longrightarrow> job_id j = i \<Longrightarrow> j = job"
proof -
  assume "notify_ok b s" and f: "List.find (\<lambda>j. job_id j = i) (jobs s) = Some job" and j: "j \<in> set (jobs s)" "job_id j = i"
  then have "distinct (map job_id (jobs s))" by (simp add: notify_ok_def jobs_ok_def)
  from distinct_key_eq [OF this j(1)] find_SomeD [OF f] j(2) show ?thesis by simp
qed

lemma notify_ok_upd_found:
  assumes "notify_ok None s" and "List.find (\<lambda>j. job_id j = i) (jobs s) = Some job" and "job_status job \<noteq> JobStatus.SUCCESS" and "same_job f"
  shows "notify_ok None (jobs_update (upd_where (\<lambda>j. job_id j = i) f) s)"
  by (rule notify_ok_upd_job [OF assms(1,4)]) (use found_row [OF assms(1,2)] assms(3) in blast)

lemma same_job_admin [simp]:
  "same_job (\<lambda>j. j\<lparr>job_status := st, job_nextAttemptAt := a, job_error := e\<rparr>)"
  "same_job (\<lambda>j. j\<lparr>job_status := st, job_cancelledAt := a\<rparr>)"
  by (simp_all add: same_job_def)

lemma job_admin_ok:
  "preserves (notify_ok None) (job_retry i u meta :: ('z notify_db_scheme, _) svc)"
  "preserves (notify_ok None) (job_cancel i u meta :: ('z notify_db_scheme, _) svc)"
  unfolding preserves_wps
  by (auto simp: job_retry_def job_cancel_def wp retryable_statuses_def cancellable_statuses_def
      split: option.split intro: notify_ok_upd_found)

lemma notify_step_ok: "notify_step s s' \<Longrightarrow> notify_ok None s \<Longrightarrow> notify_ok None s'"
  by (induction rule: notify_step.induct)
     (auto intro: processDue_ok preservesD send_ok publish_ok admin_ok job_admin_ok)

lemma notify_steps_ok: "notify_step\<^sup>*\<^sup>* s s' \<Longrightarrow> notify_ok None s \<Longrightarrow> notify_ok None s'"
  by (induction rule: rtranclp_induct) (auto intro: notify_step_ok)



section \<open>A rule that fails late repeats its notifications\<close>

definition notifies :: "json \<Rightarrow> bool" where
  "notifies d \<longleftrightarrow> jfield ''action'' d = Some (JStr ''SEND_NOTIFICATION'') \<and> jfield ''recipientUserId'' d = None
     \<and> (\<exists>c. jfield ''category'' d = Some (JStr (category_str c)))
     \<and> (\<exists>cs. cs \<noteq> [] \<and> jfield ''channels'' d = Some (JArr (map channel_json cs)))"

definition known_actions :: "string list" where
  "known_actions = [''SEND_NOTIFICATION'', ''LOG_AUDIT''] @ silent_actions"

definition unknown_action :: "json \<Rightarrow> bool" where
  "unknown_action d \<longleftrightarrow> (\<forall>x \<in> set known_actions. jfield ''action'' d \<noteq> Some (JStr x))"

definition rule_payload :: "id \<Rightarrow> id \<Rightarrow> json" where
  "rule_payload ruleId eventId = JObj [(''ruleId'', JId ruleId), (''eventId'', JId eventId)]"

text \<open>What the actions of a rule leave: the notifications of those before the unknown one, and new jobs.\<close>

definition acted :: "nat \<Rightarrow> 'z notify_db_scheme \<Rightarrow> 'z notify_db_scheme \<Rightarrow> bool" where
  "acted k s s' \<longleftrightarrow> length (platformNotifications s') = length (platformNotifications s) + k \<and> (\<exists>js. jobs s' = jobs s @ js)
     \<and> automationRules s' = automationRules s \<and> platformEvents s' = platformEvents s"

lemma acted_trans: "acted k s s' \<Longrightarrow> acted l s' s'' \<Longrightarrow> acted (k + l) s s''"
  by (auto simp: acted_def)

lemma wps_notify:
  assumes "notifies d"
  shows "wps (runAction d ev) (\<lambda>r s'. r = Inr () \<and> acted 1 s s') s"
proof -
  from assms obtain c cs where d: "jfield ''action'' d = Some (JStr ''SEND_NOTIFICATION'')" "jfield ''recipientUserId'' d = None"
    "jfield ''category'' d = Some (JStr (category_str c))" "cs \<noteq> []" "jfield ''channels'' d = Some (JArr (map channel_json cs))"
    by (auto simp: notifies_def)
  have "wps (send (notification_of d ev)) (\<lambda>r s'. (\<exists>n. r = Inr n \<and> sends_as c None cs s n s')
    \<and> automationRules s' = automationRules s \<and> platformEvents s' = platformEvents s \<and> ruleExecutions s' = ruleExecutions s) s"
    by (rule wps_send) (simp_all add: notification_of_def d)
  then have "wps (send (notification_of d ev)) (\<lambda>r s'. \<exists>n. r = Inr n \<and> acted 1 s s') s"
    by (rule wps_mono) (auto simp: sends_as_def acted_def)
  then show ?thesis
    by (simp add: runAction_def d wp) (erule wps_mono, auto simp: wp)
qed

lemma wps_rule_actions:
  assumes "list_all notifies pre" and "unknown_action bad"
  shows "wps (run_actions ev (pre @ bad # post) n)
    (\<lambda>r s'. (\<exists>m. m \<noteq> [] \<and> r = Inr (n + length pre, Some m)) \<and> acted (length pre) s s') s"
  using assms(1)
proof (induction pre arbitrary: n s)
  case Nil
  from assms(2) have "wps (runAction bad ev) (\<lambda>r s'. (\<exists>m. m \<noteq> [] \<and> r = Inl (JsError m)) \<and> s' = s) s"
    by (simp add: runAction_def unknown_action_def known_actions_def wp Let_def)
  then show ?case by (simp add: wp) (erule wps_mono, auto simp: wp acted_def)
next
  case (Cons d pre)
  then have "notifies d" "list_all notifies pre" by simp_all
  from wps_notify [OF this(1), of ev s] show ?case
    by (simp add: wp, elim wps_mono)
       (auto simp: wp, rule wps_mono [OF Cons.IH [OF \<open>list_all notifies pre\<close>]], auto dest: acted_trans)
qed

text \<open>The rule, its event and the job that runs it; the status of the event and of the job change with the attempts.\<close>

definition rule_job :: "id \<Rightarrow> automation_rule \<Rightarrow> id \<Rightarrow> 'z notify_db_scheme \<Rightarrow> bool" where
  "rule_job i rule eventId s \<longleftrightarrow> List.find (\<lambda>r. rule_id r = rule_id rule) (automationRules s) = Some rule
     \<and> (\<exists>e. List.find (\<lambda>e. pev_id e = eventId) (platformEvents s) = Some e)
     \<and> (\<exists>j. List.find (\<lambda>j. job_id j = i) (jobs s) = Some j \<and> job_type j = ''AUTOMATION_RULE_EXECUTION''
          \<and> job_payload j = rule_payload (rule_id rule) eventId \<and> job_status j \<noteq> JobStatus.CANCELLED)"

lemma execute_fails:
  assumes "List.find (\<lambda>r. rule_id r = rule_id rule) (automationRules s) = Some rule"
    and "List.find (\<lambda>e. pev_id e = eventId) (platformEvents s) = Some ev"
    and "rule_enabled rule" "rule_actions rule = pre @ bad # post" "list_all notifies pre" "unknown_action bad"
  shows "wps (execute (rule_payload (rule_id rule) eventId) job)
    (\<lambda>r s'. (\<exists>m. r = Inl (JsError m)) \<and> acted (length pre) s s') s"
  using assms(1-4)
  by (simp add: execute_def rule_payload_def payload_id_def wp)
     (rule wps_mono [OF wps_rule_actions [OF assms(5,6)]], auto simp: wp acted_def)

lemma rule_attempt:
  assumes w: "rule_job i rule eventId s"
    and r: "rule_enabled rule" "rule_actions rule = pre @ bad # post" "list_all notifies pre" "unknown_action bad"
  shows "rule_job i rule eventId (snd (attempt notification_registry i s))
    \<and> length (platformNotifications (snd (attempt notification_registry i s))) = length (platformNotifications s) + length pre"
proof -
  from w obtain ev job where f: "List.find (\<lambda>r. rule_id r = rule_id rule) (automationRules s) = Some rule"
    "List.find (\<lambda>e. pev_id e = eventId) (platformEvents s) = Some ev"
    and job: "List.find (\<lambda>j. job_id j = i) (jobs s) = Some job" "job_type job = ''AUTOMATION_RULE_EXECUTION''"
      "job_payload job = rule_payload (rule_id rule) eventId" "job_status job \<noteq> JobStatus.CANCELLED"
    by (auto simp: rule_job_def)
  have i: "job_id job = i" using job(1) by (rule find_job_id)
  have "wps (execute (rule_payload (rule_id rule) eventId) job)
    (\<lambda>r s'. (\<exists>m. r = Inl (JsError m)) \<and> acted (length pre) (processing i s) s') (processing i s)"
    by (rule execute_fails [OF _ _ r, where ev = ev]) (simp_all add: f processing_def)
  then obtain m s1 where run: "run_processor notification_registry job (processing i s) = (Inl (JsError m), s1)"
    and s1: "acted (length pre) (processing i s) s1"
    by (cases "execute (rule_payload (rule_id rule) eventId) job (processing i s)") (auto simp: wps_def run_registered job(2,3))
  have row: "List.find (\<lambda>j. job_id j = i) (jobs s1) = Some (job\<lparr>job_status := JobStatus.PROCESSING\<rparr>)"
    using s1 by (auto simp: acted_def find_append find_processing job(1))
  have "wps (job_fail job (clock s) (JsError m)) (\<lambda>r s2. rule_job i rule eventId s2
      \<and> length (platformNotifications s2) = length (platformNotifications s) + length pre) s1"
    using row s1 f job i
    by (auto simp: job_fail_def wp Let_def acted_def processing_def rule_job_def find_upd_where_same find_upd_where_keep split: option.split)
  then show ?thesis unfolding attempt_processor_fails [OF job(1,4) run exn.distinct(55)] by (simp add: wps_run)
qed

text \<open>An enabled rule whose actions notify and then name an unknown action: its job fails, and every attempt
  of it notifies again, so n attempts send each of the earlier notifications n times.\<close>
theorem failing_rule_repeats_notifications:
  assumes "rule_job i rule eventId s" and "rule_enabled rule" and "rule_actions rule = pre @ bad # post"
    and "list_all notifies pre" and "unknown_action bad"
  shows "length (platformNotifications (((\<lambda>s. snd (attempt notification_registry i s)) ^^ n) s))
    = length (platformNotifications s) + n * length pre"
proof -
  have "rule_job i rule eventId (((\<lambda>s. snd (attempt notification_registry i s)) ^^ n) s)
    \<and> length (platformNotifications (((\<lambda>s. snd (attempt notification_registry i s)) ^^ n) s)) = length (platformNotifications s) + n * length pre"
  proof (induction n)
    case (Suc n)
    with rule_attempt [OF _ assms(2-5)] show ?case by force
  qed (simp add: assms(1))
  then show ?thesis ..
qed

definition notice_action :: json where
  "notice_action = JObj [(''action'', JStr ''SEND_NOTIFICATION''), (''category'', JStr ''INVOICE''), (''channels'', JArr [JStr ''EMAIL''])]"

definition failing_rule :: automation_rule where
  "failing_rule = \<lparr>rule_id = 1, rule_name = ''billing'', rule_description = None, rule_triggerEventType = ''INVOICE_CREATED'', rule_enabled = True,
     rule_actions = [notice_action, JObj [(''action'', JStr ''SEND_SMS'')]], rule_createdById = 7, rule_createdAt = 0\<rparr>"

definition failing_world :: notify_db where
  "failing_world = blank_notify\<lparr>automationRules := [failing_rule],
     platformEvents := [event_of 2 ''INVOICE_CREATED'' [] \<lparr>ref_organizationId = None, ref_applicationId = None, ref_customerId = None\<rparr> None],
     jobs := [job_of 3 0 ''AUTOMATION_RULE_EXECUTION'' (rule_payload 1 2) default_options]\<rparr>"

lemma notice_notifies: "notifies notice_action"
  unfolding notifies_def
  by (intro conjI exI [of _ INVOICE] exI [of _ "[EMAIL]"]) (simp_all add: notice_action_def)

theorem failing_rule_repeats_notifications_witness:
  "length (platformNotifications (((\<lambda>s. snd (attempt notification_registry 3 s)) ^^ 5) failing_world)) = 5"
proof -
  have "length (platformNotifications (((\<lambda>s. snd (attempt notification_registry 3 s)) ^^ 5) failing_world))
    = length (platformNotifications failing_world) + 5 * length [notice_action]"
  proof (rule failing_rule_repeats_notifications)
    show "rule_job 3 failing_rule 2 failing_world"
      by (simp add: rule_job_def failing_world_def failing_rule_def event_of_def job_of_def default_options_def)
    show "rule_actions failing_rule = [notice_action] @ JObj [(''action'', JStr ''SEND_SMS'')] # []" by (simp add: failing_rule_def)
    show "unknown_action (JObj [(''action'', JStr ''SEND_SMS'')])" by (simp add: unknown_action_def known_actions_def silent_actions_def)
  qed (simp_all add: failing_rule_def notice_notifies)
  then show ?thesis by (simp add: failing_world_def blank_notify_def)
qed

end
