(* ===== verification/Json_Parse.thy ===== *)
theory Json_Parse
  imports Json_Text "HOL-Library.AList"
begin

text \<open>
  Reading texts back: \<open>Buffer.from(text, "hex")\<close>, the hexadecimal digest it inverts, and \<open>JSON.parse\<close>. A number
  is kept as the literal it was written with, since its value depends on the use the caller makes of it.
  Escapes \<open>\\u\<close> name characters below U+0100, as everywhere in this development. The lemmas show that both
  readers invert their writers, and that the parser's fuel never runs out.
\<close>

section \<open>Hexadecimal texts\<close>

definition hex_value :: "char \<Rightarrow> nat option" where
  "hex_value c = (let n = (of_char c :: nat) in
     if 48 \<le> n \<and> n \<le> 57 then Some (n - 48) else if 97 \<le> n \<and> n \<le> 102 then Some (n - 87)
     else if 65 \<le> n \<and> n \<le> 70 then Some (n - 55) else None)"

text \<open>A digest is a list of bytes, numbers below 256. Decoding stops at the first pair that is not hexadecimal.\<close>

definition hex_encode :: "nat list \<Rightarrow> string" where
  "hex_encode bs = concat (map (\<lambda>b. [hex_digit (b div 16), hex_digit (b mod 16)]) bs)"

fun hex_decode :: "string \<Rightarrow> nat list" where
  "hex_decode (a # b # cs) = (case (hex_value a, hex_value b) of
     (Some x, Some y) \<Rightarrow> (16 * x + y) # hex_decode cs | _ \<Rightarrow> [])"
| "hex_decode _ = []"

lemma hex_value_digit: "n < 16 \<Longrightarrow> hex_value (hex_digit n) = Some n"
  by (simp add: hex_value_def hex_digit_def Let_def)

theorem hex_roundtrip: "\<forall>b \<in> set bs. b < 256 \<Longrightarrow> hex_decode (hex_encode bs) = bs"
proof (induction bs)
  case (Cons b bs)
  then have "b div 16 < 16" by auto
  with Cons show ?case by (simp add: hex_encode_def hex_value_digit)
qed (simp add: hex_encode_def)

section \<open>JSON.parse\<close>

datatype jval =
    VNull
  | VBool bool
  | VNum string
  | VStr string
  | VArr "jval list"
  | VObj "(string \<times> jval) list"

definition is_ws :: "char \<Rightarrow> bool" where
  "is_ws c \<longleftrightarrow> (of_char c :: nat) \<in> {9, 10, 13, 32}"

definition skip_ws :: "string \<Rightarrow> string" where
  "skip_ws = dropWhile is_ws"

definition is_digit :: "char \<Rightarrow> bool" where
  "is_digit c \<longleftrightarrow> 48 \<le> (of_char c :: nat) \<and> (of_char c :: nat) \<le> 57"

text \<open>The characters of a string literal up to its closing quote, and the rest of the text.\<close>

definition unescape :: "char \<Rightarrow> char option" where
  "unescape c = (if c = CHR 0x22 \<or> c = CHR 0x5C \<or> c = CHR ''/'' then Some c
     else if c = CHR ''b'' then Some (CHR 0x08) else if c = CHR ''f'' then Some (CHR 0x0C)
     else if c = CHR ''n'' then Some (CHR 0x0A) else if c = CHR ''r'' then Some (CHR 0x0D)
     else if c = CHR ''t'' then Some (CHR 0x09) else None)"

definition unicode_escape :: "char \<Rightarrow> char \<Rightarrow> char \<Rightarrow> char \<Rightarrow> char option" where
  "unicode_escape a b c d = (case (hex_value a, hex_value b, hex_value c, hex_value d) of
     (Some 0, Some 0, Some x, Some y) \<Rightarrow> Some (char_of (16 * x + y)) | _ \<Rightarrow> None)"

definition put_char :: "char \<Rightarrow> (string \<times> string) option \<Rightarrow> (string \<times> string) option" where
  "put_char c = map_option (\<lambda>(s, r). (c # s, r))"

fun str_body :: "string \<Rightarrow> (string \<times> string) option" where
  "str_body [] = None"
| "str_body (c # cs) =
     (if c = CHR 0x22 then Some ([], cs)
      else if c = CHR 0x5C then
        (case cs of [] \<Rightarrow> None
         | e # r \<Rightarrow>
           if e = CHR ''u'' then
             (case r of x # y # z # w # r' \<Rightarrow>
                (case unicode_escape x y z w of None \<Rightarrow> None | Some u \<Rightarrow> put_char u (str_body r'))
              | _ \<Rightarrow> None)
           else (case unescape e of None \<Rightarrow> None | Some u \<Rightarrow> put_char u (str_body r)))
      else if (of_char c :: nat) < 32 then None
      else put_char c (str_body cs))"

text \<open>A number: sign, digits without a leading zero, fraction, exponent.\<close>

definition digits_of :: "string \<Rightarrow> string \<times> string" where
  "digits_of s = (takeWhile is_digit s, dropWhile is_digit s)"

definition number_frac :: "string \<Rightarrow> (string \<times> string) option" where
  "number_frac s = (case s of c # r \<Rightarrow>
       if c = CHR ''.'' then (case digits_of r of (ds, r') \<Rightarrow> if ds = [] then None else Some (c # ds, r')) else Some ([], s)
     | [] \<Rightarrow> Some ([], s))"

definition number_exp :: "string \<Rightarrow> (string \<times> string) option" where
  "number_exp s = (case s of c # r \<Rightarrow>
       if c = CHR ''e'' \<or> c = CHR ''E'' then
         (let sign = (case r of d # _ \<Rightarrow> if d = CHR ''+'' \<or> d = CHR ''-'' then [d] else [] | [] \<Rightarrow> []) in
          case digits_of (drop (length sign) r) of (ds, r') \<Rightarrow> if ds = [] then None else Some (c # sign @ ds, r'))
       else Some ([], s)
     | [] \<Rightarrow> Some ([], s))"

definition number_lit :: "string \<Rightarrow> (string \<times> string) option" where
  "number_lit s =
     (let sign = (case s of c # _ \<Rightarrow> if c = CHR ''-'' then [c] else [] | [] \<Rightarrow> []) in
      case digits_of (drop (length sign) s) of (ds, r) \<Rightarrow>
      if ds = [] then None
      else let int = (if hd ds = CHR ''0'' then [CHR ''0''] else ds); r = (if hd ds = CHR ''0'' then tl ds @ r else r) in
        case number_frac r of None \<Rightarrow> None
        | Some (fr, r1) \<Rightarrow> (case number_exp r1 of None \<Rightarrow> None | Some (ex, r2) \<Rightarrow> Some (sign @ int @ fr @ ex, r2)))"

text \<open>A later field of an object replaces an earlier one of the same name.\<close>

definition obj_of :: "(string \<times> jval) list \<Rightarrow> jval" where
  "obj_of fs = VObj (fold (\<lambda>(k, v). AList.update k v) fs [])"

definition literal :: "string \<Rightarrow> jval \<Rightarrow> string \<Rightarrow> (jval \<times> string) option" where
  "literal w v s = (if take (length w) s = w then Some (v, drop (length w) s) else None)"

fun p_value :: "nat \<Rightarrow> string \<Rightarrow> (jval \<times> string) option"
  and p_elems :: "nat \<Rightarrow> string \<Rightarrow> (jval list \<times> string) option"
  and p_fields :: "nat \<Rightarrow> string \<Rightarrow> ((string \<times> jval) list \<times> string) option" where
  "p_value 0 s = None"
| "p_value (Suc n) s = (case skip_ws s of [] \<Rightarrow> None
     | c # cs \<Rightarrow>
       if c = CHR 0x22 then map_option (apfst VStr) (str_body cs)
       else if c = CHR ''['' then
         (case skip_ws cs of d # r \<Rightarrow> if d = CHR '']'' then Some (VArr [], r) else map_option (apfst VArr) (p_elems n cs)
          | [] \<Rightarrow> None)
       else if c = CHR ''{'' then
         (case skip_ws cs of d # r \<Rightarrow> if d = CHR ''}'' then Some (VObj [], r) else map_option (apfst obj_of) (p_fields n cs)
          | [] \<Rightarrow> None)
       else if c = CHR ''n'' then literal ''null'' VNull (c # cs)
       else if c = CHR ''t'' then literal ''true'' (VBool True) (c # cs)
       else if c = CHR ''f'' then literal ''false'' (VBool False) (c # cs)
       else map_option (apfst VNum) (number_lit (c # cs)))"
| "p_elems 0 s = None"
| "p_elems (Suc n) s = (case p_value n s of None \<Rightarrow> None
     | Some (v, r) \<Rightarrow> (case skip_ws r of [] \<Rightarrow> None
       | c # r' \<Rightarrow> if c = CHR '','' then map_option (apfst (Cons v)) (p_elems n r')
          else if c = CHR '']'' then Some ([v], r') else None))"
| "p_fields 0 s = None"
| "p_fields (Suc n) s = (case skip_ws s of [] \<Rightarrow> None
     | q # s1 \<Rightarrow> if q \<noteq> CHR 0x22 then None else (case str_body s1 of None \<Rightarrow> None
       | Some (k, s2) \<Rightarrow> (case skip_ws s2 of [] \<Rightarrow> None
         | c # s3 \<Rightarrow> if c \<noteq> CHR '':'' then None else (case p_value n s3 of None \<Rightarrow> None
           | Some (v, s4) \<Rightarrow> (case skip_ws s4 of [] \<Rightarrow> None
             | d # s5 \<Rightarrow> if d = CHR '','' then map_option (apfst (Cons (k, v))) (p_fields n s5)
                else if d = CHR ''}'' then Some ([(k, v)], s5) else None)))))"

definition json_parse :: "string \<Rightarrow> jval option" where
  "json_parse s = (case p_value (2 * length s + 1) s of
     Some (v, r) \<Rightarrow> if skip_ws r = [] then Some v else None | None \<Rightarrow> None)"

section \<open>The fuel never runs out\<close>

lemma length_skip_ws: "length (skip_ws s) \<le> length s"
  by (simp add: skip_ws_def length_dropWhile_le)

lemma skip_ws_shorter: "skip_ws s = c # r \<Longrightarrow> length r < length s"
  using length_skip_ws [of s] by simp

lemma str_body_shorter: "str_body s = Some (k, r) \<Longrightarrow> length r < length s"
proof (induction s arbitrary: k r rule: str_body.induct)
  case (2 c cs)
  then show ?case
    by (fastforce simp: put_char_def less_Suc_eq split: if_splits list.splits option.splits)
qed simp

lemma digits_of_length: "digits_of s = (ds, r) \<Longrightarrow> length r + length ds = length s"
  unfolding digits_of_def by (metis Pair_inject add.commute length_append takeWhile_dropWhile_id)

lemma number_frac_length: "number_frac s = Some (x, r) \<Longrightarrow> length r \<le> length s"
  by (auto simp: number_frac_def split: list.splits prod.splits if_splits dest: digits_of_length)

lemma number_exp_length: "number_exp s = Some (x, r) \<Longrightarrow> length r \<le> length s"
  by (auto simp: number_exp_def Let_def split: list.splits prod.splits if_splits dest: digits_of_length)

lemma number_lit_shorter: "number_lit s = Some (x, r) \<Longrightarrow> length r < length s"
proof -
  assume *: "number_lit s = Some (x, r)"
  define sign where "sign = (case s of c # _ \<Rightarrow> if c = CHR ''-'' then [c] else [] | [] \<Rightarrow> [])"
  obtain ds t where ds: "digits_of (drop (length sign) s) = (ds, t)" by (cases "digits_of (drop (length sign) s)")
  have "ds \<noteq> []" using * ds by (auto simp: number_lit_def Let_def simp flip: sign_def split: if_splits)
  have len: "length t + length ds \<le> length s" using digits_of_length [OF ds] by simp
  let ?t = "if hd ds = CHR ''0'' then tl ds @ t else t"
  have "length ?t < length s" using len \<open>ds \<noteq> []\<close> by (cases ds) auto
  moreover from * ds \<open>ds \<noteq> []\<close> obtain fr r1 ex where "number_frac ?t = Some (fr, r1)" "number_exp r1 = Some (ex, r)"
    by (simp add: number_lit_def Let_def flip: sign_def split: option.splits prod.splits)
  ultimately show ?thesis using number_frac_length number_exp_length by (meson le_less_trans)
qed

lemma literal_shorter: "literal w v s = Some (x, r) \<Longrightarrow> w \<noteq> [] \<Longrightarrow> length r < length s"
  by (cases s) (auto simp: literal_def split: if_splits)

lemma parse_shorter_all:
  "(\<forall>v r s. p_value n s = Some (v, r) \<longrightarrow> length r < length s)
   \<and> (\<forall>vs r s. p_elems n s = Some (vs, r) \<longrightarrow> length r < length s)
   \<and> (\<forall>fs r s. p_fields n s = Some (fs, r) \<longrightarrow> length r < length s)"
proof (induction n)
  case (Suc n)
  note IH = Suc.IH [THEN conjunct1, rule_format] Suc.IH [THEN conjunct2, THEN conjunct1, rule_format]
    Suc.IH [THEN conjunct2, THEN conjunct2, rule_format]
  have "length r < length s" if v: "p_value (Suc n) s = Some (v, r)" for v r s
  proof (cases "skip_ws s")
    case (Cons c cs)
    then have "length cs < length s" by (rule skip_ws_shorter)
    with v Cons show ?thesis
      by (auto split: if_splits list.splits dest!: str_body_shorter number_lit_shorter literal_shorter IH(2,3) skip_ws_shorter)
  qed (use v in simp)
  moreover have "length r < length s" if v: "p_elems (Suc n) s = Some (vs, r)" for vs r s
    using v by (auto split: option.splits if_splits list.splits dest!: IH(1,2) skip_ws_shorter)
  moreover have "length r < length s" if v: "p_fields (Suc n) s = Some (fs, r)" for fs r s
    using v by (auto split: option.splits if_splits list.splits dest!: IH(1,3) skip_ws_shorter str_body_shorter)
  ultimately show ?case by blast
qed simp

lemmas parse_shorter = parse_shorter_all [THEN conjunct1, rule_format]
  parse_shorter_all [THEN conjunct2, THEN conjunct1, rule_format]
  parse_shorter_all [THEN conjunct2, THEN conjunct2, rule_format]

text \<open>A text of length \<open>l\<close> needs no more fuel than \<open>2 l + 1\<close> for a value, and one more for a list.\<close>

lemma parse_fuel_all:
  "(\<forall>s m. 2 * length s + 1 \<le> n \<and> 2 * length s + 1 \<le> m \<longrightarrow> p_value n s = p_value m s)
   \<and> (\<forall>s m. 2 * length s + 2 \<le> n \<and> 2 * length s + 2 \<le> m \<longrightarrow> p_elems n s = p_elems m s)
   \<and> (\<forall>s m. 2 * length s + 2 \<le> n \<and> 2 * length s + 2 \<le> m \<longrightarrow> p_fields n s = p_fields m s)"
proof (induction n)
  case (Suc n)
  note V = Suc.IH [THEN conjunct1, rule_format] and E = Suc.IH [THEN conjunct2, THEN conjunct1, rule_format]
    and F = Suc.IH [THEN conjunct2, THEN conjunct2, rule_format]
  have "p_value (Suc n) s = p_value m s" if le: "2 * length s + 1 \<le> Suc n" "2 * length s + 1 \<le> m" for s m
  proof -
    obtain k where k: "m = Suc k" using le by (cases m) auto
    show ?thesis
    proof (cases "skip_ws s")
      case (Cons c cs)
      then have "length cs < length s" by (rule skip_ws_shorter)
      with le k have "p_elems n cs = p_elems k cs" "p_fields n cs = p_fields k cs" by (auto intro!: E F)
      with Cons k show ?thesis by (simp cong: if_cong list.case_cong)
    qed (simp add: k)
  qed
  moreover have "p_elems (Suc n) s = p_elems m s" if le: "2 * length s + 2 \<le> Suc n" "2 * length s + 2 \<le> m" for s m
  proof -
    obtain k where k: "m = Suc k" using le by (cases m) auto
    have v: "p_value n s = p_value k s" using le k by (auto intro!: V)
    have "p_elems n r' = p_elems k r'" if "p_value k s = Some (x, r)" "skip_ws r = c # r'" for x r c r'
      using parse_shorter(1) [OF that(1)] skip_ws_shorter [OF that(2)] le k by (auto intro!: E)
    then show ?thesis by (simp add: k v split: option.split list.split)
  qed
  moreover have "p_fields (Suc n) s = p_fields m s" if le: "2 * length s + 2 \<le> Suc n" "2 * length s + 2 \<le> m" for s m
  proof -
    obtain k where k: "m = Suc k" using le by (cases m) auto
    have v: "p_value n s3 = p_value k s3"
      if "skip_ws s = q # s1" "str_body s1 = Some (x, s2)" "skip_ws s2 = c # s3" for q s1 x s2 c s3
      using skip_ws_shorter [OF that(1)] str_body_shorter [OF that(2)] skip_ws_shorter [OF that(3)] le k by (auto intro!: V)
    have f: "p_fields n s5 = p_fields k s5"
      if "skip_ws s = q # s1" "str_body s1 = Some (x, s2)" "skip_ws s2 = c # s3" "p_value k s3 = Some (y, s4)" "skip_ws s4 = d # s5"
      for q s1 x s2 c s3 y s4 d s5
      using skip_ws_shorter [OF that(1)] str_body_shorter [OF that(2)] skip_ws_shorter [OF that(3)]
        parse_shorter(1) [OF that(4)] skip_ws_shorter [OF that(5)] le k by (auto intro!: F)
    show ?thesis by (simp add: k v f cong: if_cong split: option.split list.split prod.split)
  qed
  ultimately show ?case by blast
qed simp

theorem parse_fuel_enough:
  assumes "2 * length s + 1 \<le> n"
  shows "json_parse s = (case p_value n s of Some (v, r) \<Rightarrow> if skip_ws r = [] then Some v else None | None \<Rightarrow> None)"
  using parse_fuel_all [THEN conjunct1, rule_format, of s n "2 * length s + 1"] assms by (simp add: json_parse_def)

section \<open>Parsing inverts printing\<close>

text \<open>What a parsed text remembers of the value that was printed: identifiers and dates become strings.\<close>

fun view :: "json \<Rightarrow> jval" where
  "view JNull = VNull"
| "view (JBool b) = VBool b"
| "view (JInt i) = VNum (int_str i)"
| "view (JStr s) = VStr s"
| "view (JId i) = VStr (id_str i)"
| "view (JTime t) = VStr (toISOString t)"
| "view (JArr xs) = VArr (map view xs)"
| "view (JObj fs) = VObj (map (\<lambda>(k, v). (k, view v)) fs)"

fun keys_distinct :: "json \<Rightarrow> bool" where
  "keys_distinct (JArr xs) \<longleftrightarrow> (\<forall>x \<in> set xs. keys_distinct x)"
| "keys_distinct (JObj fs) \<longleftrightarrow> distinct (map fst fs) \<and> (\<forall>f \<in> set fs. keys_distinct (snd f))"
| "keys_distinct _ \<longleftrightarrow> True"

lemma char_eqI: "(of_char c :: nat) = of_char d \<Longrightarrow> c = d"
  by (simp only: of_char_eq_iff)

lemma char_of_code:
  "(of_char c :: nat) = 9 \<Longrightarrow> c = CHR 0x09" "(of_char c :: nat) = 13 \<Longrightarrow> c = CHR 0x0D" "(of_char c :: nat) = 10 \<Longrightarrow> c = CHR 0x0A"
  "(of_char c :: nat) = 12 \<Longrightarrow> c = CHR 0x0C" "(of_char c :: nat) = 8 \<Longrightarrow> c = CHR 0x08" "(of_char c :: nat) = 92 \<Longrightarrow> c = CHR 0x5C"
  "(of_char c :: nat) = 34 \<Longrightarrow> c = CHR 0x22"
  by (rule char_eqI, simp)+

lemma str_body_json_char: "str_body (json_char c @ t) = put_char c (str_body t)"
proof -
  have ctrl: "unicode_escape (CHR ''0'') (CHR ''0'') (hex_digit (of_char c div 16)) (hex_digit (of_char c mod 16)) = Some c"
    if "(of_char c :: nat) < 32"
    using that by (simp add: unicode_escape_def hex_value_digit) (simp add: hex_value_def)
  show ?thesis
    using ctrl by (auto simp: json_char_def Let_def unescape_def put_char_def dest!: char_of_code)
qed

lemma str_body_json: "str_body (concat (map json_char s) @ CHR 0x22 # r) = Some (s, r)"
  by (induction s) (simp_all add: str_body_json_char put_char_def)

text \<open>A number printed in decimal is read as the literal it is, when something other than a numeral follows.\<close>

definition ends :: "string \<Rightarrow> bool" where
  "ends r \<longleftrightarrow> (case r of [] \<Rightarrow> True | c # _ \<Rightarrow> c = CHR '','' \<or> c = CHR '']'' \<or> c = CHR ''}'')"

lemma is_digit_char: "d < 10 \<Longrightarrow> is_digit (digit_char d)"
  by (simp add: is_digit_def digit_char_def)

lemma nat_str_all_digits: "\<forall>c \<in> set (nat_str n). is_digit c"
  by (induction n rule: nat_str.induct) (subst nat_str.simps, auto simp: is_digit_char)

lemma nat_str_lead: "hd (nat_str n) = CHR ''0'' \<Longrightarrow> nat_str n = ''0''"
proof (induction n rule: nat_str.induct)
  case (1 n)
  show ?case
  proof (cases "n < 10")
    case True
    then show ?thesis using "1.prems" by (simp add: nat_str_small)
  next
    case False
    then have "nat_str (n div 10) = ''0''" using "1.IH" "1.prems" by (simp add: nat_str_big)
    moreover have "digit_char 0 = CHR ''0''" by (rule char_eqI) (simp add: digit_char_def)
    then have "nat_str 0 = ''0''" by (simp add: nat_str_small)
    ultimately have "n div 10 = 0" by (metis nat_str_inj)
    with False show ?thesis by simp
  qed
qed

lemma digits_of_nat_str:
  assumes "ends r" shows "digits_of (nat_str n @ r) = (nat_str n, r)"
proof -
  have "takeWhile is_digit r = []" "dropWhile is_digit r = r"
    using assms by (auto simp: ends_def is_digit_def split: list.splits)
  then show ?thesis using nat_str_all_digits by (simp add: digits_of_def)
qed

lemma number_tail: "ends r \<Longrightarrow> number_frac r = Some ([], r)" "ends r \<Longrightarrow> number_exp r = Some ([], r)"
  by (auto simp: ends_def number_frac_def number_exp_def split: list.splits)

lemma nat_str_sign: "case nat_str n @ r of c # _ \<Rightarrow> c \<noteq> CHR ''-'' | [] \<Rightarrow> True"
  using nat_str_all_digits [of n] by (cases "nat_str n") (auto simp: is_digit_def)

lemma number_lit_nat: "ends r \<Longrightarrow> number_lit (sg @ nat_str n @ r) = Some (sg @ nat_str n, r)" if "sg = [] \<or> sg = ''-''"
proof -
  assume r: "ends r"
  have "(case sg @ nat_str n @ r of c # _ \<Rightarrow> if c = CHR ''-'' then [c] else [] | [] \<Rightarrow> []) = sg"
    using that nat_str_sign [of n r] by (auto split: list.splits)
  moreover have "(if hd (nat_str n) = CHR ''0'' then ''0'' else nat_str n) = nat_str n"
    "(if hd (nat_str n) = CHR ''0'' then tl (nat_str n) @ r else r) = r"
    using nat_str_lead [of n] by auto
  ultimately show ?thesis
    by (simp add: number_lit_def digits_of_nat_str [OF r] number_tail [OF r] Let_def)
qed

lemma number_lit_int: "ends r \<Longrightarrow> number_lit (int_str i @ r) = Some (int_str i, r)"
  using number_lit_nat [of "''-''" r "nat (- i)"] number_lit_nat [of "[]" r "nat i"] by (simp add: int_str_def)

text \<open>The first character of a printed value is neither white space nor a closing bracket.\<close>

lemma int_str_head: "\<exists>c t. int_str i = c # t \<and> (c = CHR ''-'' \<or> is_digit c)"
proof (cases "i < 0")
  case False
  then show ?thesis using nat_str_all_digits [of "nat i"] by (cases "nat_str (nat i)") (auto simp: int_str_def)
qed (simp add: int_str_def)

lemma json_head: "\<exists>c t. json_stringify j = c # t \<and> \<not> is_ws c \<and> c \<noteq> CHR '']'' \<and> c \<noteq> CHR ''}''"
proof (cases j)
  case (JInt i)
  then show ?thesis using int_str_head [of i] by (auto simp: is_ws_def is_digit_def)
qed (auto simp: json_string_def is_ws_def)

lemma skip_ws_head: "\<not> is_ws c \<Longrightarrow> skip_ws (c # t) = c # t"
  by (simp add: skip_ws_def)

text \<open>With enough fuel, the text \<open>s\<close> is read as the value \<open>v\<close> followed by \<open>r\<close>.\<close>

definition reads :: "(nat \<Rightarrow> string \<Rightarrow> ('a \<times> string) option) \<Rightarrow> string \<Rightarrow> 'a \<Rightarrow> string \<Rightarrow> bool" where
  "reads p s v r \<longleftrightarrow> (\<exists>N. \<forall>n \<ge> N. p n s = Some (v, r))"

lemma readsI: "(\<And>n. N \<le> n \<Longrightarrow> p (Suc n) s = Some (v, r)) \<Longrightarrow> reads p s v r"
  unfolding reads_def by (rule exI [of _ "Suc N"]) (metis Suc_le_D Suc_le_mono)

lemma ends_simps [simp]: "ends []" "ends (CHR '','' # r)" "ends (CHR '']'' # r)" "ends (CHR ''}'' # r)"
  by (simp_all add: ends_def)

lemma skip_ws_simps [simp]: "skip_ws (CHR '','' # r) = CHR '','' # r" "skip_ws (CHR '']'' # r) = CHR '']'' # r"
  "skip_ws (CHR ''}'' # r) = CHR ''}'' # r" "skip_ws (CHR '':'' # r) = CHR '':'' # r" "skip_ws (CHR 0x22 # r) = CHR 0x22 # r"
  "skip_ws (CHR ''{'' # r) = CHR ''{'' # r" "skip_ws (CHR ''['' # r) = CHR ''['' # r"
  by (simp_all add: skip_ws_def is_ws_def)

lemma reads_elems:
  assumes "xs \<noteq> []" and "\<forall>x \<in> set xs. \<forall>r. ends r \<longrightarrow> reads p_value (json_stringify x @ r) (view x) r"
  shows "reads p_elems (join_comma (map json_stringify xs) @ CHR '']'' # r) (map view xs) r"
  using assms
proof (induction xs rule: induct_list012)
  case (2 x)
  then have "reads p_value (json_stringify x @ CHR '']'' # r) (view x) (CHR '']'' # r)" by simp
  then obtain N where "\<And>n. N \<le> n \<Longrightarrow> p_value n (json_stringify x @ CHR '']'' # r) = Some (view x, CHR '']'' # r)"
    unfolding reads_def by blast
  then show ?case by (intro readsI [of N]) simp
next
  case (3 x y xs)
  let ?t = "join_comma (map json_stringify (y # xs)) @ CHR '']'' # r"
  from 3 have "reads p_value (json_stringify x @ CHR '','' # ?t) (view x) (CHR '','' # ?t)" by simp
  then obtain N where N: "\<And>n. N \<le> n \<Longrightarrow> p_value n (json_stringify x @ CHR '','' # ?t) = Some (view x, CHR '','' # ?t)"
    unfolding reads_def by blast
  from 3 have "reads p_elems ?t (map view (y # xs)) r" by simp
  then obtain M where M: "\<And>n. M \<le> n \<Longrightarrow> p_elems n ?t = Some (map view (y # xs), r)" unfolding reads_def by blast
  show ?case using N M by (intro readsI [of "max N M"]) simp
qed simp

abbreviation field_text :: "string \<times> json \<Rightarrow> string" where
  "field_text f \<equiv> (case f of (k, v) \<Rightarrow> json_string k @ '':'' @ json_stringify v)"

abbreviation field_view :: "string \<times> json \<Rightarrow> string \<times> jval" where
  "field_view f \<equiv> (case f of (k, v) \<Rightarrow> (k, view v))"

lemma field_step:
  "p_value n (json_stringify v @ t) = Some (x, d # u) \<Longrightarrow> \<not> is_ws d \<Longrightarrow>
   p_fields (Suc n) (field_text (k, v) @ t) =
     (if d = CHR '','' then map_option (apfst (Cons (k, x))) (p_fields n u) else if d = CHR ''}'' then Some ([(k, x)], u) else None)"
  by (simp add: json_string_def str_body_json skip_ws_head)

lemma reads_fields:
  assumes "fs \<noteq> []" and "\<forall>f \<in> set fs. \<forall>r. ends r \<longrightarrow> reads p_value (json_stringify (snd f) @ r) (view (snd f)) r"
  shows "reads p_fields (join_comma (map field_text fs) @ CHR ''}'' # r) (map field_view fs) r"
  using assms
proof (induction fs rule: induct_list012)
  case (2 f)
  obtain k v where f: "f = (k, v)" by (cases f)
  from 2 f have "reads p_value (json_stringify v @ CHR ''}'' # r) (view v) (CHR ''}'' # r)" by simp
  then obtain N where N: "\<And>n. N \<le> n \<Longrightarrow> p_value n (json_stringify v @ CHR ''}'' # r) = Some (view v, CHR ''}'' # r)"
    unfolding reads_def by blast
  show ?case
  proof (rule readsI [of N])
    fix n assume "N \<le> n"
    from field_step [OF N [OF this], of k] show "p_fields (Suc n) (join_comma (map field_text [f]) @ CHR ''}'' # r) = Some (map field_view [f], r)"
      by (simp add: f is_ws_def)
  qed
next
  case (3 f g fs)
  obtain k v where f: "f = (k, v)" by (cases f)
  let ?t = "join_comma (map field_text (g # fs)) @ CHR ''}'' # r"
  from 3 f have "reads p_value (json_stringify v @ CHR '','' # ?t) (view v) (CHR '','' # ?t)" by simp
  then obtain N where N: "\<And>n. N \<le> n \<Longrightarrow> p_value n (json_stringify v @ CHR '','' # ?t) = Some (view v, CHR '','' # ?t)"
    unfolding reads_def by blast
  from 3 have "reads p_fields ?t (map field_view (g # fs)) r" by simp
  then obtain M where M: "\<And>n. M \<le> n \<Longrightarrow> p_fields n ?t = Some (map field_view (g # fs), r)" unfolding reads_def by blast
  show ?case
  proof (rule readsI [of "max N M"])
    fix n assume "max N M \<le> n"
    then have "p_fields (Suc n) (field_text (k, v) @ CHR '','' # ?t) = map_option (apfst (Cons (k, view v))) (p_fields n ?t)"
      using field_step [OF N, of n k] by (simp add: is_ws_def)
    with M \<open>max N M \<le> n\<close> show "p_fields (Suc n) (join_comma (map field_text (f # g # fs)) @ CHR ''}'' # r)
        = Some (map field_view (f # g # fs), r)"
      by (simp add: f)
  qed
qed simp

lemma update_distinct:
  "distinct (map fst (acc @ fs)) \<Longrightarrow> fold (\<lambda>(k, v). AList.update k v) fs acc = acc @ (fs :: (string \<times> jval) list)"
proof (induction fs arbitrary: acc)
  case (Cons f fs)
  obtain k v where f: "f = (k, v)" by (cases f)
  have "AList.update k v acc = acc @ [(k, v)]" if "k \<notin> fst ` set acc" for acc :: "(string \<times> jval) list"
    using that by (induction acc) auto
  with Cons f show ?case by (force simp del: append_assoc simp flip: append_assoc)
qed simp

lemma obj_of_view: "distinct (map fst fs) \<Longrightarrow> obj_of (map field_view fs) = view (JObj fs)"
  using update_distinct [of "[]" "map field_view fs"] by (simp add: obj_of_def comp_def split_beta)

lemma reads_string: "reads p_value (json_string s @ r) (VStr s) r"
  by (rule readsI [of 0]) (simp add: json_string_def str_body_json)

lemma reads_literal: "reads p_value (''null'' @ r) VNull r" "reads p_value (''true'' @ r) (VBool True) r"
  "reads p_value (''false'' @ r) (VBool False) r"
  by (rule readsI [of 0], simp add: literal_def skip_ws_def is_ws_def)+

lemma reads_int:
  assumes "ends r" shows "reads p_value (int_str i @ r) (VNum (int_str i)) r"
proof -
  obtain c t where c: "int_str i = c # t" "c = CHR ''-'' \<or> is_digit c" using int_str_head by blast
  then have "skip_ws (int_str i @ r) = int_str i @ r" by (auto simp: skip_ws_def is_ws_def is_digit_def)
  with c number_lit_int [OF assms, of i] show ?thesis
    by (intro readsI [of 0]) (auto simp: is_digit_def)
qed

lemma reads_stringify: "keys_distinct j \<Longrightarrow> ends r \<Longrightarrow> reads p_value (json_stringify j @ r) (view j) r"
proof (induction j arbitrary: r rule: json_stringify.induct)
  case (7 xs)
  show ?case
  proof (cases xs)
    case Nil
    then show ?thesis by (intro readsI [of 0]) simp
  next
    case (Cons x ys)
    from 7 have "reads p_elems (join_comma (map json_stringify xs) @ CHR '']'' # r) (map view xs) r"
      by (intro reads_elems) (auto simp: Cons)
    then obtain N where N: "\<And>n. N \<le> n \<Longrightarrow> p_elems n (join_comma (map json_stringify xs) @ CHR '']'' # r) = Some (map view xs, r)"
      unfolding reads_def by blast
    obtain c t where "join_comma (map json_stringify xs) = c # t" "\<not> is_ws c" "c \<noteq> CHR '']''"
      using json_head [of x] by (cases ys) (auto simp: Cons)
    with N show ?thesis by (intro readsI [of N]) (simp add: skip_ws_head)
  qed
next
  case (8 fs)
  show ?case
  proof (cases fs)
    case Nil
    then show ?thesis by (intro readsI [of 0]) simp
  next
    case (Cons f gs)
    have "reads p_value (json_stringify (snd f) @ r) (view (snd f)) r" if "f \<in> set fs" "ends r" for f r
    proof -
      have "keys_distinct (snd f)" using "8.prems" that by simp
      with "8.IH" [of f "fst f" "snd f" r] that show ?thesis by simp
    qed
    then have "reads p_fields (join_comma (map field_text fs) @ CHR ''}'' # r) (map field_view fs) r"
      by (intro reads_fields) (auto simp: Cons)
    then obtain N where N: "\<And>n. N \<le> n \<Longrightarrow> p_fields n (join_comma (map field_text fs) @ CHR ''}'' # r) = Some (map field_view fs, r)"
      unfolding reads_def by blast
    obtain t where "join_comma (map field_text fs) = CHR 0x22 # t"
      by (cases gs) (auto simp: Cons json_string_def split_beta)
    with N 8 obj_of_view [of fs] show ?thesis by (intro readsI [of N]) simp
  qed
qed (simp_all only: json_stringify.simps view.simps reads_string reads_literal reads_int if_splits reads_literal split: if_split, auto simp: reads_literal [simplified])

text \<open>
  \<open>JSON.parse\<close> reads back what \<open>JSON.stringify\<close> wrote, for every value whose objects have distinct keys, as
  JavaScript objects do.
\<close>

theorem json_roundtrip:
  assumes "keys_distinct j"
  shows "json_parse (json_stringify j) = Some (view j)"
proof -
  have "reads p_value (json_stringify j @ []) (view j) []" using assms by (rule reads_stringify) simp
  then obtain N where N: "\<And>n. N \<le> n \<Longrightarrow> p_value n (json_stringify j) = Some (view j, [])"
    unfolding reads_def by auto
  then show ?thesis
    using parse_fuel_enough [of "json_stringify j" "max N (2 * length (json_stringify j) + 1)"] by (simp add: skip_ws_def)
qed

end
