(* ===== verification/Sdk_Webhooks.thy ===== *)
theory Sdk_Webhooks
  imports Webhooks Json_Parse
begin

text \<open>
  The receiving side of the outbound webhooks: \<open>constructWebhookEvent\<close> of the SDK
  (packages/sdk/src/webhooks.ts), against the sender of webhooks/webhook-dispatch.service.ts. The keyed hash
  is the parameter \<open>mac\<close>, a function to bytes; both sides use its hexadecimal text.
\<close>

section \<open>constructWebhookEvent\<close>

datatype sdk_error = SdkConfigError string

record webhook_headers =
  wh_signature :: "string option"
  wh_eventType :: "string option"
  wh_deliveryId :: "string option"

record webhook_event =
  wv_eventType :: string
  wv_deliveryId :: string
  wv_payload :: jval

definition SIGNATURE_HEADER_PREFIX :: string where "SIGNATURE_HEADER_PREFIX = ''sha256=''"

text \<open>A header that is absent or empty is missing.\<close>

definition given :: "string option \<Rightarrow> string option" where
  "given h = (if h = Some [] then None else h)"

definition starts_with :: "string \<Rightarrow> string \<Rightarrow> bool" where
  "starts_with p s \<longleftrightarrow> take (length p) s = p"

definition constructWebhookEvent ::
  "(string \<Rightarrow> string \<Rightarrow> nat list) \<Rightarrow> string \<Rightarrow> webhook_headers \<Rightarrow> string \<Rightarrow> sdk_error + webhook_event" where
  "constructWebhookEvent mac rawBody h secret =
     (case given (wh_signature h) of
        None \<Rightarrow> Inl (SdkConfigError ''Missing X-Webhook-Signature header'')
      | Some signature \<Rightarrow>
        if \<not> starts_with SIGNATURE_HEADER_PREFIX signature
        then Inl (SdkConfigError (''Unrecognized signature header format: '' @ [CHR 0x22] @ signature @ [CHR 0x22]))
        else case given (wh_eventType h) of
          None \<Rightarrow> Inl (SdkConfigError ''Missing X-Webhook-Event header'')
        | Some eventType \<Rightarrow> (case given (wh_deliveryId h) of
            None \<Rightarrow> Inl (SdkConfigError ''Missing X-Webhook-Delivery-Id header'')
          | Some deliveryId \<Rightarrow>
            let provided = drop (length SIGNATURE_HEADER_PREFIX) signature;
                expected = hex_encode (mac secret rawBody);
                providedBuf = hex_decode provided; expectedBuf = hex_decode expected in
            if \<not> (length providedBuf = length expectedBuf \<and> providedBuf = expectedBuf)
            then Inl (SdkConfigError ''Webhook signature verification failed'')
            else case json_parse rawBody of
              None \<Rightarrow> Inl (SdkConfigError ''Webhook body is not valid JSON'')
            | Some payload \<Rightarrow> Inr \<lparr>wv_eventType = eventType, wv_deliveryId = deliveryId, wv_payload = payload\<rparr>))"

section \<open>What the platform sends\<close>

text \<open>The headers of a delivery, as the receiver sees them.\<close>

definition headers_of :: "hook_request \<Rightarrow> webhook_headers" where
  "headers_of req = \<lparr>wh_signature = Some (hr_signature req), wh_eventType = Some (hr_event req),
     wh_deliveryId = Some (id_str (hr_deliveryId req))\<rparr>"

definition bytes :: "nat list \<Rightarrow> bool" where
  "bytes bs \<longleftrightarrow> (\<forall>b \<in> set bs. b < 256)"

lemma hex_inverse: "bytes bs \<Longrightarrow> hex_decode (hex_encode bs) = bs"
  by (simp add: bytes_def hex_roundtrip)

lemma construct_signed:
  assumes "bytes (mac secret body)" and "bytes (mac secret rawBody)" and "ty \<noteq> []" and "did \<noteq> []"
  shows "constructWebhookEvent mac rawBody
      \<lparr>wh_signature = Some (''sha256='' @ hex_encode (mac secret body)), wh_eventType = Some ty, wh_deliveryId = Some did\<rparr> secret =
    (if mac secret rawBody \<noteq> mac secret body then Inl (SdkConfigError ''Webhook signature verification failed'')
     else case json_parse rawBody of None \<Rightarrow> Inl (SdkConfigError ''Webhook body is not valid JSON'')
       | Some payload \<Rightarrow> Inr \<lparr>wv_eventType = ty, wv_deliveryId = did, wv_payload = payload\<rparr>)"
  using assms by (auto simp: constructWebhookEvent_def given_def starts_with_def SIGNATURE_HEADER_PREFIX_def hex_inverse)

text \<open>C24. The sender and the receiver agree: whenever the platform attempts a delivery with a decryptable secret, it sends one
  request, and the SDK, given that secret, the body and the headers of the request, accepts it and hands out
  the payload, the event type and the delivery that the platform meant. The hypotheses say that both sides compute the
  same keyed hash and that the delivery names an event type; payloads are JavaScript objects, whose keys are distinct.
\<close>

theorem delivered_webhook_accepted:
  assumes "\<forall>k m. hw_hmac w k m = hex_encode (mac k m) \<and> bytes (mac k m)"
    and "List.find (\<lambda>x. wd_id x = i) (deliveries s) = Some d"
    and "List.find (\<lambda>e. we_id e = wd_webhookEndpointId d) (endpoints s) = Some e"
    and "List.find (active_secret (wd_webhookEndpointId d)) (secrets s) = Some x"
    and "hw_decrypt w (ws_encryptedValue x) (ws_iv x) (ws_authTag x) = Inr secret"
    and "wd_eventType d \<noteq> []" and "keys_distinct (wd_payload d)"
  shows "\<exists>req. hookCalls (snd (attemptDelivery w i s)) = hookCalls s @ [req]
    \<and> constructWebhookEvent mac (hr_body req) (headers_of req) secret
      = Inr \<lparr>wv_eventType = wd_eventType d, wv_deliveryId = id_str i, wv_payload = view (wd_payload d)\<rparr>"
proof -
  have "wd_id d = i" using find_SomeD [OF assms(2)] by simp
  then show ?thesis
    using assms by (simp add: attempt_run [OF assms(2-4)] attempted_def delivery_request_def headers_of_def construct_signed [simplified] json_roundtrip)
qed

text \<open>C32. What the signature protects: with the signature of a delivery, the SDK accepts exactly the body that was
  sent (as long as the hash does not collide on the two bodies), but under any event type and any delivery identifier, since
  neither is part of what is signed. A recorded delivery can be presented again as an event of another type, or as
  a delivery that was never made.
\<close>

theorem signature_binds_body_only:
  assumes "\<forall>k m. hw_hmac w k m = hex_encode (mac k m) \<and> bytes (mac k m)"
    and "req = delivery_request w secret e d" and "keys_distinct (wd_payload d)"
    and "mac secret rawBody = mac secret (hr_body req) \<longrightarrow> rawBody = hr_body req"
  shows "constructWebhookEvent mac rawBody \<lparr>wh_signature = Some (hr_signature req), wh_eventType = Some ty, wh_deliveryId = Some did\<rparr> secret = Inr v
    \<longleftrightarrow> rawBody = hr_body req \<and> ty \<noteq> [] \<and> did \<noteq> []
      \<and> v = \<lparr>wv_eventType = ty, wv_deliveryId = did, wv_payload = view (wd_payload d)\<rparr>"
proof (cases "ty = [] \<or> did = []")
  case True
  then show ?thesis by (auto simp: constructWebhookEvent_def given_def)
next
  case False
  then show ?thesis
    using assms by (auto simp: delivery_request_def construct_signed [simplified] json_roundtrip)
qed

section \<open>Witnesses\<close>

definition toy_mac :: "string \<Rightarrow> string \<Rightarrow> nat list" where
  "toy_mac k m = map of_char (k @ m)"

definition toy_world :: hook_world where
  "toy_world = \<lparr>hw_encrypt = (\<lambda>p. (p, [], [])), hw_decrypt = (\<lambda>v _ _. Inr v), hw_hmac = (\<lambda>k m. hex_encode (toy_mac k m)),
     hw_fetch = (\<lambda>_ _. Inr (200, ''ok''))\<rparr>"

lemma toy_hash: "\<forall>k m. hw_hmac toy_world k m = hex_encode (toy_mac k m) \<and> bytes (toy_mac k m)"
  by (auto simp: toy_world_def bytes_def toy_mac_def)

definition toy_secret :: webhook_secret where
  "toy_secret = sample_secret\<lparr>ws_encryptedValue := ''whsec_k''\<rparr>"

theorem delivered_webhook_accepted_witness:
  "let s = (sample_hooks [sample_delivery\<lparr>wd_payload := JObj [(''n'', JInt (- 5))]\<rparr>])\<lparr>secrets := [toy_secret]\<rparr>;
       req = last (hookCalls (snd (attemptDelivery toy_world 4 s))) in
   constructWebhookEvent toy_mac (hr_body req) (headers_of req) ''whsec_k''
     = Inr \<lparr>wv_eventType = ''e'', wv_deliveryId = id_str 4, wv_payload = VObj [(''n'', VNum (int_str (- 5)))]\<rparr>"
  using delivered_webhook_accepted [OF toy_hash, of 4
      "(sample_hooks [sample_delivery\<lparr>wd_payload := JObj [(''n'', JInt (- 5))]\<rparr>])\<lparr>secrets := [toy_secret]\<rparr>"
      "sample_delivery\<lparr>wd_payload := JObj [(''n'', JInt (- 5))]\<rparr>" sample_endpoint toy_secret "''whsec_k''"]
  by (auto simp: sample_hook_defs toy_secret_def toy_world_def active_secret_def)

theorem signature_binds_body_only_witness:
  "let req = delivery_request toy_world ''whsec_k'' sample_endpoint sample_delivery in
   constructWebhookEvent toy_mac ''null'' \<lparr>wh_signature = Some (hr_signature req), wh_eventType = Some ''license.revoked'', wh_deliveryId = Some ''77''\<rparr> ''whsec_k''
     = Inr \<lparr>wv_eventType = ''license.revoked'', wv_deliveryId = ''77'', wv_payload = VNull\<rparr>"
  using signature_binds_body_only [OF toy_hash refl, of sample_delivery "''whsec_k''" "''null''" sample_endpoint]
  by (simp add: Let_def delivery_request_def sample_delivery_def)

end
