(* ===== verification/Gateways.thy ===== *)
theory Gateways
  imports Payments Json_Parse "HOL-Library.List_Lexorder" "HOL-Library.Char_ord"
begin

text \<open>
  The payment provider adapters that compute on their own: payments/adapters/easypaisa.adapter.ts,
  jazzcash.adapter.ts, stripe.adapter.ts (webhooks), paypal.adapter.ts (webhooks), manual.adapter.ts and
  bank-transfer.adapter.ts. Each is a value of type \<open>adapter\<close>, the interface the payment pipeline calls. The keyed
  hash, the remote servers, random identifiers, the clock and three corners of the standard library (the text of a
  number that is not a plain integer, \<open>Number\<close> of a text that is not a plain decimal, \<open>Buffer.from\<close> of a value that is not a string,
  the date of a text) are the parameter \<open>gateway_libs\<close>.
\<close>

section \<open>Libraries and JavaScript values\<close>

record gateway_libs =
  gl_hmac :: "string \<Rightarrow> string \<Rightarrow> nat list"
  gl_text :: "string \<Rightarrow> string"
  gl_number :: "string \<Rightarrow> js_number"
  gl_buffer :: "jval \<Rightarrow> string + nat list"
  gl_date :: "jval \<Rightarrow> time"
  gl_uuid :: string
  gl_now :: time
  gl_remote :: "refund_input list \<Rightarrow> string \<Rightarrow> string \<Rightarrow> string + string"

definition field :: "jval \<Rightarrow> string \<Rightarrow> jval option" where
  "field v k = (case v of VObj fs \<Rightarrow> map_of fs k | _ \<Rightarrow> None)"

fun joined :: "string \<Rightarrow> string list \<Rightarrow> string" where
  "joined sep [] = []"
| "joined sep [x] = x"
| "joined sep (x # xs) = x @ sep @ joined sep xs"

text \<open>\<open>String(v)\<close>. A plain integer literal is its own text.\<close>

definition plain_int :: "string \<Rightarrow> bool" where
  "plain_int l \<longleftrightarrow> list_all is_digit l \<and> length l \<le> 15 \<and> (l = ''0'' \<or> l \<noteq> [] \<and> hd l \<noteq> CHR ''0'')"

fun js_text :: "gateway_libs \<Rightarrow> jval \<Rightarrow> string" where
  "js_text L VNull = ''null''"
| "js_text L (VBool b) = (if b then ''true'' else ''false'')"
| "js_text L (VNum l) = (if plain_int l then l else gl_text L l)"
| "js_text L (VStr s) = s"
| "js_text L (VArr xs) = joined '','' (map (\<lambda>x. case x of VNull \<Rightarrow> [] | _ \<Rightarrow> js_text L x) xs)"
| "js_text L (VObj fs) = ''[object Object]''"

text \<open>\<open>Number(v)\<close>: the value of a decimal text is rounded to a double.\<close>

definition digits_nat :: "string \<Rightarrow> nat" where
  "digits_nat = foldl (\<lambda>n c. 10 * n + (of_char c - 48)) 0"

definition decimal_value :: "string \<Rightarrow> rat option" where
  "decimal_value s =
     (let sign = (if take 1 s = ''-'' then (- 1) else 1 :: rat);
          (ip, r) = digits_of (if take 1 s = ''-'' then drop 1 s else s) in
      case r of
        [] \<Rightarrow> if ip = [] then None else Some (sign * of_nat (digits_nat ip))
      | c # q \<Rightarrow> (case digits_of q of (fp, rest) \<Rightarrow>
          if c = CHR ''.'' \<and> rest = [] \<and> (ip \<noteq> [] \<or> fp \<noteq> [])
          then Some (sign * (of_nat (digits_nat ip) + of_nat (digits_nat fp) / 10 ^ length fp)) else None))"

definition number_of :: "gateway_libs \<Rightarrow> string \<Rightarrow> js_number" where
  "number_of L s = (case decimal_value s of Some x \<Rightarrow> Some (fl x) | None \<Rightarrow> if s = [] then Some 0 else gl_number L s)"

fun js_number_of :: "gateway_libs \<Rightarrow> jval option \<Rightarrow> js_number" where
  "js_number_of L None = None"
| "js_number_of L (Some VNull) = Some 0"
| "js_number_of L (Some (VBool b)) = Some (if b then 1 else 0)"
| "js_number_of L (Some (VNum l)) = number_of L l"
| "js_number_of L (Some v) = number_of L (js_text L v)"

fun js_truthy :: "gateway_libs \<Rightarrow> jval option \<Rightarrow> bool" where
  "js_truthy L None = False"
| "js_truthy L (Some VNull) = False"
| "js_truthy L (Some (VBool b)) = b"
| "js_truthy L (Some (VNum l)) = (js_text L (VNum l) \<noteq> ''0'')"
| "js_truthy L (Some (VStr s)) = (s \<noteq> [])"
| "js_truthy L (Some v) = True"

text \<open>\<open>a ?? b\<close>, and a value the database stores in a text column: a string, or null; it refuses others.\<close>

definition coalesce :: "jval option \<Rightarrow> jval option \<Rightarrow> jval option" where
  "coalesce a b = (if a = None \<or> a = Some VNull then b else a)"

definition text_column :: "jval option \<Rightarrow> string + string option" where
  "text_column v = (case v of None \<Rightarrow> Inr None | Some VNull \<Rightarrow> Inr None | Some (VStr s) \<Rightarrow> Inr (Some s)
     | _ \<Rightarrow> Inl ''Invalid value provided. Expected String.'')"

text \<open>A payload column keeps a numeral that is not an integer by its text.\<close>

fun payload_of :: "jval \<Rightarrow> json" where
  "payload_of VNull = JNull"
| "payload_of (VBool b) = JBool b"
| "payload_of (VNum l) = (if plain_int l then JInt (int (digits_nat l)) else JStr l)"
| "payload_of (VStr s) = JStr s"
| "payload_of (VArr xs) = JArr (map payload_of xs)"
| "payload_of (VObj fs) = JObj (map (\<lambda>(k, v). (k, payload_of v)) fs)"

text \<open>\<open>x.toFixed(2)\<close>: the multiple of 1/100 nearest to the double, the larger of two.\<close>

definition toFixed2 :: "rat \<Rightarrow> string" where
  "toFixed2 x = (let n = nat \<lfloor>100 * \<bar>x\<bar> + 1 / 2\<rfloor> in
     (if x < 0 then ''-'' else []) @ nat_str (n div 100) @ ''.'' @ pad 2 (n mod 100))"

definition amount_text :: "int \<Rightarrow> string" where
  "amount_text amountMinor = toFixed2 (fl (of_int amountMinor / 100))"

definition requireCredential :: "string \<Rightarrow> credentials \<Rightarrow> string \<Rightarrow> string + string" where
  "requireCredential label cr k = (case map_of cr k of
     Some v \<Rightarrow> if v = [] then Inl (label @ '' provider is missing its '' @ k @ '' credential'') else Inr v
   | None \<Rightarrow> Inl (label @ '' provider is missing its '' @ k @ '' credential''))"

definition url_query :: "(string \<times> string) list \<Rightarrow> string" where
  "url_query ps = joined ''&'' (map (\<lambda>(k, v). form_encode k @ ''='' @ form_encode v) ps)"

text \<open>The wallet gateways send one body for everything signed and read the answer, which is \<open>{}\<close> when it is not JSON.\<close>

definition remote_json :: "gateway_libs \<Rightarrow> refund_input list \<Rightarrow> string \<Rightarrow> (string \<times> string) list \<Rightarrow> string + jval" where
  "remote_json L sent url fs = (case gl_remote L sent url (json_stringify (JObj (map (\<lambda>(k, v). (k, JStr v)) fs))) of
     Inl message \<Rightarrow> Inl message
   | Inr text \<Rightarrow> Inr (case json_parse text of None \<Rightarrow> VObj [] | Some v \<Rightarrow> v))"

section \<open>Checkout\<close>

record checkout_input =
  ci_externalCustomerId :: "string option"
  ci_priceId :: string
  ci_providerPriceRef :: "string option"
  ci_amountMinor :: int
  ci_currency :: string
  ci_successUrl :: "string option"
  ci_cancelUrl :: "string option"
  ci_metadata :: "json option"
  ci_credentials :: credentials
  ci_account :: "resolved_account option"

record checkout_result =
  cr_checkoutUrl :: string
  cr_providerReference :: string
  cr_expiresAt :: "time option"

definition day_ms :: int where "day_ms = 24 * 60 * 60 * 1000"

section \<open>Easypaisa\<close>

definition EASYPAISA_CHECKOUT_URL :: string where
  "EASYPAISA_CHECKOUT_URL = ''https://easypay.easypaisa.com.pk/easypay/Index.jsf''"

definition EASYPAISA_API_BASE :: string where
  "EASYPAISA_API_BASE = ''https://easypay.easypaisa.com.pk''"

text \<open>The text that is signed: the fields in the order of their names, as \<open>name=value\<close> joined by \<open>&\<close>.\<close>

definition canonical :: "(string \<times> string) list \<Rightarrow> string" where
  "canonical fs = joined ''&'' (map (\<lambda>(k, v). k @ ''='' @ v) (sort_key fst fs))"

definition easypaisa_sign :: "gateway_libs \<Rightarrow> (string \<times> string) list \<Rightarrow> credentials \<Rightarrow> string + string" where
  "easypaisa_sign L fs cr = (case requireCredential ''Easypaisa'' cr ''HASH_KEY'' of
     Inl message \<Rightarrow> Inl message | Inr hashKey \<Rightarrow> Inr (hex_encode (gl_hmac L hashKey (canonical fs))))"

definition easypaisa_fields :: "gateway_libs \<Rightarrow> string \<Rightarrow> checkout_input \<Rightarrow> (string \<times> string) list" where
  "easypaisa_fields L merchantId x =
     [(''storeId'', merchantId), (''orderRefNum'', ''EP-'' @ int_str (gl_now L) @ ''-'' @ take 8 (gl_uuid L)),
      (''amount'', amount_text (ci_amountMinor x)), (''postBackURL'', orElse (ci_successUrl x) ''https://example.com/success''),
      (''autoRedirect'', ''1'')]"

definition easypaisa_createCheckout :: "gateway_libs \<Rightarrow> checkout_input \<Rightarrow> string + checkout_result" where
  "easypaisa_createCheckout L x =
     (case requireCredential ''Easypaisa'' (ci_credentials x) ''MERCHANT_ID'' of
        Inl message \<Rightarrow> Inl message
      | Inr merchantId \<Rightarrow>
        let fs = easypaisa_fields L merchantId x in
        case easypaisa_sign L fs (ci_credentials x) of
          Inl message \<Rightarrow> Inl message
        | Inr signature \<Rightarrow> Inr
            \<lparr>cr_checkoutUrl = EASYPAISA_CHECKOUT_URL @ ''?'' @ url_query (fs @ [(''hash'', signature)]),
             cr_providerReference = ''EP-'' @ int_str (gl_now L) @ ''-'' @ take 8 (gl_uuid L),
             cr_expiresAt = Some (gl_now L + day_ms)\<rparr>)"

definition easypaisa_refund :: "gateway_libs \<Rightarrow> refund_input list \<Rightarrow> refund_input \<Rightarrow> string + string \<times> PaymentRefundStatus" where
  "easypaisa_refund L sent x =
     (case requireCredential ''Easypaisa'' (ri_credentials x) ''MERCHANT_ID'' of
        Inl message \<Rightarrow> Inl message
      | Inr merchantId \<Rightarrow>
        let fs = [(''storeId'', merchantId), (''orderRefNum'', ri_externalTransactionId x)]
              @ (case ri_amountMinor x of None \<Rightarrow> [] | Some a \<Rightarrow> if a = 0 then [] else [(''amount'', amount_text a)]) in
        case easypaisa_sign L fs (ri_credentials x) of
          Inl message \<Rightarrow> Inl message
        | Inr signature \<Rightarrow>
          (case remote_json L sent (EASYPAISA_API_BASE @ ''/easypay-service/rest/v4/refund'') (fs @ [(''hash'', signature)]) of
             Inl message \<Rightarrow> Inl message
           | Inr json \<Rightarrow> (case text_column (coalesce (field json ''refundId'') (Some (VStr (ri_externalTransactionId x)))) of
               Inl message \<Rightarrow> Inl message
             | Inr refundId \<Rightarrow> Inr (orElse refundId [],
                 if field json ''responseCode'' = Some (VStr ''0000'') then PaymentRefundStatus.SUCCEEDED else PaymentRefundStatus.FAILED))))"

text \<open>
  The signature of a callback covers its other fields, each by its text. Reading a field of \<open>null\<close> throws; a value
  of another kind has no fields.
\<close>

definition null_error :: "string \<Rightarrow> string" where
  "null_error k = ''Cannot read properties of null (reading '' @ [CHR 0x27] @ k @ [CHR 0x27] @ '')''"

definition given_bytes :: "gateway_libs \<Rightarrow> jval \<Rightarrow> string + nat list" where
  "given_bytes L v = (case v of VStr s \<Rightarrow> Inr (hex_decode s) | _ \<Rightarrow> gl_buffer L v)"

definition signed_callback ::
  "gateway_libs \<Rightarrow> string \<Rightarrow> ((string \<times> jval) list \<Rightarrow> string + string) \<Rightarrow> string \<Rightarrow> string + bool" where
  "signed_callback L hashField sign rawBody =
     (case json_parse rawBody of
        None \<Rightarrow> Inr False
      | Some VNull \<Rightarrow> Inl (null_error hashField)
      | Some (VObj fs) \<Rightarrow>
          (case map_of fs hashField of
             None \<Rightarrow> Inr False
           | Some h \<Rightarrow>
             if \<not> js_truthy L (Some h) then Inr False
             else (case sign (filter (\<lambda>f. fst f \<noteq> hashField) fs) of
                 Inl message \<Rightarrow> Inl message
               | Inr expectedSignature \<Rightarrow> (case given_bytes L h of
                   Inl message \<Rightarrow> Inl message
                 | Inr provided \<Rightarrow> (let expected = hex_decode expectedSignature in
                     Inr (length expected = length provided \<and> expected = provided)))))
      | Some _ \<Rightarrow> Inr False)"

definition easypaisa_verifyWebhook :: "gateway_libs \<Rightarrow> string \<Rightarrow> (string \<times> string) list \<Rightarrow> credentials \<Rightarrow> string + bool" where
  "easypaisa_verifyWebhook L rawBody headers cr =
     (if \<not> truthy (map_of cr ''HASH_KEY'') then Inr False
      else signed_callback L ''hash'' (\<lambda>fs. easypaisa_sign L (map (\<lambda>(k, v). (k, js_text L v)) fs) cr) rawBody)"

text \<open>One event, of the callback's transaction or else of the order.\<close>

definition wallet_event ::
  "gateway_libs \<Rightarrow> jval \<Rightarrow> bool \<Rightarrow> jval option \<Rightarrow> js_number option \<Rightarrow> time \<Rightarrow> string + payment_event list" where
  "wallet_event L callback paid ref amountMinor t =
     (case text_column ref of
        Inl message \<Rightarrow> Inl message
      | Inr r \<Rightarrow> Inr [\<lparr>pe_type = (if paid then payment_event_type.PAYMENT_SUCCEEDED else payment_event_type.PAYMENT_FAILED),
          pe_externalEventId = orElse r (gl_uuid L), pe_externalCustomerId = None, pe_externalSubscriptionId = None,
          pe_externalTransactionId = r, pe_amountMinor = amountMinor, pe_currency = None, pe_disputeStatus = None,
          pe_occurredAt = t, pe_raw = payload_of callback\<rparr>])"

definition js_round :: "js_number \<Rightarrow> js_number" where
  "js_round = map_option (\<lambda>x. of_int (math_round x))"

definition js_times :: "js_number \<Rightarrow> rat \<Rightarrow> js_number" where
  "js_times n k = map_option (\<lambda>x. fl (x * k)) n"

definition date_of :: "gateway_libs \<Rightarrow> jval option \<Rightarrow> time" where
  "date_of L v = (if js_truthy L v then gl_date L (the v) else gl_now L)"

definition easypaisa_normalize :: "gateway_libs \<Rightarrow> string \<Rightarrow> (string \<times> string) list \<Rightarrow> string + payment_event list" where
  "easypaisa_normalize L rawBody headers =
     (case json_parse rawBody of
        None \<Rightarrow> Inl ''Unexpected token in JSON''
      | Some VNull \<Rightarrow> Inl (null_error ''responseCode'')
      | Some callback \<Rightarrow>
          wallet_event L callback (field callback ''responseCode'' = Some (VStr ''0000''))
            (coalesce (field callback ''transactionId'') (field callback ''orderRefNum''))
            (if js_truthy L (field callback ''amount'')
             then Some (js_round (js_times (js_number_of L (field callback ''amount'')) 100)) else None)
            (date_of L (field callback ''transactionDateTime'')))"

definition easypaisa_adapter :: "gateway_libs \<Rightarrow> adapter" where
  "easypaisa_adapter L = \<lparr>ad_verifyWebhook = easypaisa_verifyWebhook L, ad_normalizeWebhookEvent = easypaisa_normalize L,
     ad_refund = easypaisa_refund L\<rparr>"

section \<open>JazzCash\<close>

definition JAZZCASH_CHECKOUT_URL :: string where
  "JAZZCASH_CHECKOUT_URL = ''https://payments.jazzcash.com.pk/CustomerPortal/transactionmanagement/merchantform''"

definition JAZZCASH_API_BASE :: string where
  "JAZZCASH_API_BASE = ''https://payments.jazzcash.com.pk''"

text \<open>Only the values are signed, in the order of their names, without the empty ones. \<open>join\<close> writes null as nothing.\<close>

definition canonical_values :: "gateway_libs \<Rightarrow> (string \<times> jval) list \<Rightarrow> string" where
  "canonical_values L fs = joined ''&'' (map (\<lambda>(k, v). if v = VNull then [] else js_text L v)
     (sort_key fst (filter (\<lambda>(k, v). v \<noteq> VStr []) fs)))"

definition jazzcash_sign :: "gateway_libs \<Rightarrow> (string \<times> jval) list \<Rightarrow> credentials \<Rightarrow> string + string" where
  "jazzcash_sign L fs cr = (case requireCredential ''JazzCash'' cr ''INTEGRITY_SALT'' of
     Inl message \<Rightarrow> Inl message | Inr integritySalt \<Rightarrow> Inr (hex_encode (gl_hmac L integritySalt (canonical_values L fs))))"

definition string_fields :: "(string \<times> string) list \<Rightarrow> (string \<times> jval) list" where
  "string_fields = map (\<lambda>(k, v). (k, VStr v))"

text \<open>\<open>yyyyMMddHHmmss\<close>, in UTC.\<close>

definition formatJazzCashDateTime :: "time \<Rightarrow> string" where
  "formatJazzCashDateTime t = (let ms = nat (time_in_day t) in
     int_str (get_full_year t) @ pad 2 (nat (get_month t + 1)) @ pad 2 (nat (get_date t))
     @ pad 2 (ms div 3600000) @ pad 2 (ms div 60000 mod 60) @ pad 2 (ms div 1000 mod 60))"

text \<open>The constructor of \<open>Date\<close> reads a year below 100 as one of the twentieth century.\<close>

definition parseJazzCashDateTime :: "gateway_libs \<Rightarrow> string \<Rightarrow> time" where
  "parseJazzCashDateTime L v =
     (if \<not> (length v = 14 \<and> list_all is_digit v) then gl_now L
      else let part = (\<lambda>a b. int (digits_nat (take (b - a) (drop a v)))); y = part 0 4 in
        make_date (make_day (if y < 100 then 1900 + y else y) (part 4 6 - 1) (part 6 8))
          (part 8 10 * 3600000 + part 10 12 * 60000 + part 12 14 * 1000))"

definition jazzcash_createCheckout :: "gateway_libs \<Rightarrow> checkout_input \<Rightarrow> string + checkout_result" where
  "jazzcash_createCheckout L x =
     (case requireCredential ''JazzCash'' (ci_credentials x) ''MERCHANT_ID'' of
        Inl message \<Rightarrow> Inl message
      | Inr merchantId \<Rightarrow> (case requireCredential ''JazzCash'' (ci_credentials x) ''PASSWORD'' of
          Inl message \<Rightarrow> Inl message
        | Inr password \<Rightarrow>
          let txnRefNum = ''T'' @ int_str (gl_now L);
              fs = [(''pp_Version'', ''1.1''), (''pp_TxnType'', ''MWALLET''), (''pp_MerchantID'', merchantId),
                (''pp_Password'', password), (''pp_TxnRefNo'', txnRefNum), (''pp_Amount'', int_str (ci_amountMinor x)),
                (''pp_TxnCurrency'', ci_currency x), (''pp_TxnDateTime'', formatJazzCashDateTime (gl_now L)),
                (''pp_BillReference'', ci_priceId x), (''pp_Description'', ''Subscription checkout '' @ ci_priceId x),
                (''pp_ReturnURL'', orElse (ci_successUrl x) ''https://example.com/success'')] in
          case jazzcash_sign L (string_fields fs) (ci_credentials x) of
            Inl message \<Rightarrow> Inl message
          | Inr secureHash \<Rightarrow> Inr
              \<lparr>cr_checkoutUrl = JAZZCASH_CHECKOUT_URL @ ''?'' @ url_query (fs @ [(''pp_SecureHash'', secureHash)]),
               cr_providerReference = txnRefNum, cr_expiresAt = Some (gl_now L + day_ms)\<rparr>))"

definition jazzcash_refund :: "gateway_libs \<Rightarrow> refund_input list \<Rightarrow> refund_input \<Rightarrow> string + string \<times> PaymentRefundStatus" where
  "jazzcash_refund L sent x =
     (case requireCredential ''JazzCash'' (ri_credentials x) ''MERCHANT_ID'' of
        Inl message \<Rightarrow> Inl message
      | Inr merchantId \<Rightarrow> (case requireCredential ''JazzCash'' (ri_credentials x) ''PASSWORD'' of
          Inl message \<Rightarrow> Inl message
        | Inr password \<Rightarrow>
          let fs = [(''pp_MerchantID'', merchantId), (''pp_Password'', password), (''pp_TxnRefNo'', ri_externalTransactionId x)]
                @ (case ri_amountMinor x of None \<Rightarrow> [] | Some a \<Rightarrow> if a = 0 then [] else [(''pp_Amount'', int_str a)]) in
          case jazzcash_sign L (string_fields fs) (ri_credentials x) of
            Inl message \<Rightarrow> Inl message
          | Inr secureHash \<Rightarrow>
            (case remote_json L sent (JAZZCASH_API_BASE @ ''/ApplicationAPI/API/2.0/Purchase/Refund'') (fs @ [(''pp_SecureHash'', secureHash)]) of
               Inl message \<Rightarrow> Inl message
             | Inr json \<Rightarrow> (case text_column (coalesce (field json ''pp_RetreivalReferenceNo'') (Some (VStr (ri_externalTransactionId x)))) of
                 Inl message \<Rightarrow> Inl message
               | Inr refundId \<Rightarrow> Inr (orElse refundId [],
                   if field json ''pp_ResponseCode'' = Some (VStr ''000'') then PaymentRefundStatus.SUCCEEDED else PaymentRefundStatus.FAILED)))))"

definition jazzcash_verifyWebhook :: "gateway_libs \<Rightarrow> string \<Rightarrow> (string \<times> string) list \<Rightarrow> credentials \<Rightarrow> string + bool" where
  "jazzcash_verifyWebhook L rawBody headers cr =
     (if \<not> truthy (map_of cr ''INTEGRITY_SALT'') then Inr False
      else signed_callback L ''pp_SecureHash'' (\<lambda>fs. jazzcash_sign L fs cr) rawBody)"

definition jazzcash_normalize :: "gateway_libs \<Rightarrow> string \<Rightarrow> (string \<times> string) list \<Rightarrow> string + payment_event list" where
  "jazzcash_normalize L rawBody headers =
     (case json_parse rawBody of
        None \<Rightarrow> Inl ''Unexpected token in JSON''
      | Some VNull \<Rightarrow> Inl (null_error ''pp_ResponseCode'')
      | Some callback \<Rightarrow>
          wallet_event L callback (field callback ''pp_ResponseCode'' = Some (VStr ''000''))
            (coalesce (field callback ''pp_RetreivalReferenceNo'') (field callback ''pp_TxnRefNo''))
            (if js_truthy L (field callback ''pp_Amount'') then Some (js_number_of L (field callback ''pp_Amount'')) else None)
            (if js_truthy L (field callback ''pp_TxnDateTime'')
             then parseJazzCashDateTime L (js_text L (the (field callback ''pp_TxnDateTime''))) else gl_now L))"

definition jazzcash_adapter :: "gateway_libs \<Rightarrow> adapter" where
  "jazzcash_adapter L = \<lparr>ad_verifyWebhook = jazzcash_verifyWebhook L, ad_normalizeWebhookEvent = jazzcash_normalize L,
     ad_refund = jazzcash_refund L\<rparr>"

section \<open>Bank transfers and manual payments\<close>

definition manual_adapter :: adapter where
  "manual_adapter = \<lparr>ad_verifyWebhook = (\<lambda>_ _ _. Inr True), ad_normalizeWebhookEvent = (\<lambda>_ _. Inr []),
     ad_refund = (\<lambda>_ x. Inr (''manual_refund_'' @ ri_externalTransactionId x, PaymentRefundStatus.SUCCEEDED))\<rparr>"

definition bank_adapter :: adapter where
  "bank_adapter = \<lparr>ad_verifyWebhook = (\<lambda>_ _ _. Inr True), ad_normalizeWebhookEvent = (\<lambda>_ _. Inr []),
     ad_refund = (\<lambda>_ x. Inr (''bank_refund_'' @ ri_externalTransactionId x, PaymentRefundStatus.PENDING))\<rparr>"

section \<open>PayPal's webhooks\<close>

text \<open>The interface is synchronous, so only the presence of the signature headers is checked.\<close>

definition paypal_verifyWebhook :: "string \<Rightarrow> (string \<times> string) list \<Rightarrow> credentials \<Rightarrow> string + bool" where
  "paypal_verifyWebhook rawBody headers cr =
     Inr (list_all (\<lambda>h. truthy (map_of headers h))
       [''paypal-transmission-id'', ''paypal-transmission-time'', ''paypal-transmission-sig'', ''paypal-cert-url''])"

definition paypal_types :: "(string \<times> payment_event_type) list" where
  "paypal_types =
     [(''PAYMENT.SALE.COMPLETED'', payment_event_type.PAYMENT_SUCCEEDED), (''PAYMENT.SALE.DENIED'', payment_event_type.PAYMENT_FAILED),
      (''PAYMENT.CAPTURE.COMPLETED'', payment_event_type.PAYMENT_SUCCEEDED), (''PAYMENT.CAPTURE.DENIED'', payment_event_type.PAYMENT_FAILED),
      (''PAYMENT.CAPTURE.REFUNDED'', payment_event_type.REFUND_COMPLETED),
      (''BILLING.SUBSCRIPTION.ACTIVATED'', payment_event_type.SUBSCRIPTION_CREATED), (''BILLING.SUBSCRIPTION.RENEWED'', payment_event_type.SUBSCRIPTION_RENEWED),
      (''BILLING.SUBSCRIPTION.CANCELLED'', payment_event_type.SUBSCRIPTION_CANCELED), (''BILLING.SUBSCRIPTION.EXPIRED'', payment_event_type.SUBSCRIPTION_EXPIRED),
      (''BILLING.SUBSCRIPTION.SUSPENDED'', payment_event_type.SUBSCRIPTION_PAST_DUE), (''CUSTOMER.DISPUTE.CREATED'', payment_event_type.DISPUTE_UPDATED)]"

text \<open>\<open>typeMap[event_type] ?? "UNKNOWN"\<close>: a property key is a text.\<close>

definition type_of :: "(string \<times> payment_event_type) list \<Rightarrow> gateway_libs \<Rightarrow> jval option \<Rightarrow> payment_event_type" where
  "type_of tab L v = (case v of None \<Rightarrow> UNKNOWN | Some x \<Rightarrow> orElse (map_of tab (js_text L x)) UNKNOWN)"

text \<open>
  The texts of an event go to columns of the database. An event identifier is required, the others may be missing
  or null; a delivery with a value of another kind is refused as a whole.
\<close>

definition text_columns :: "jval option \<Rightarrow> jval option list \<Rightarrow> (string \<Rightarrow> string option list \<Rightarrow> string + 'a) \<Rightarrow> string + 'a" where
  "text_columns i vs k = (case text_column i of
     Inl message \<Rightarrow> Inl message
   | Inr None \<Rightarrow> Inl ''Argument externalEventId is missing.''
   | Inr (Some ev) \<Rightarrow>
     (case List.find isl (map text_column vs) of
        Some (Inl message) \<Rightarrow> Inl message
      | _ \<Rightarrow> k ev (map (\<lambda>v. case text_column v of Inr s \<Rightarrow> s | Inl _ \<Rightarrow> None) vs)))"

definition paypal_normalize :: "gateway_libs \<Rightarrow> string \<Rightarrow> (string \<times> string) list \<Rightarrow> string + payment_event list" where
  "paypal_normalize L rawBody headers =
     (case json_parse rawBody of
        None \<Rightarrow> Inl ''Unexpected token in JSON''
      | Some VNull \<Rightarrow> Inl (null_error ''resource'')
      | Some event \<Rightarrow>
        let resource = the (coalesce (field event ''resource'') (Some (VObj [])));
            amount = field resource ''amount'' in
        text_columns (field event ''id'') [field resource ''id'', if amount = Some VNull then None else field (orElse amount VNull) ''currency'']
          (\<lambda>eventId cols. Inr
            [\<lparr>pe_type = type_of paypal_types L (field event ''event_type''), pe_externalEventId = eventId,
              pe_externalCustomerId = None, pe_externalSubscriptionId = cols ! 0, pe_externalTransactionId = cols ! 0,
              pe_amountMinor = (if js_truthy L amount then Some (js_times (js_number_of L (field (the amount) ''total'')) 100) else None),
              pe_currency = cols ! 1, pe_disputeStatus = None, pe_occurredAt = date_of L (field event ''create_time''),
              pe_raw = payload_of event\<rparr>]))"

definition paypal_adapter ::
  "gateway_libs \<Rightarrow> (refund_input list \<Rightarrow> refund_input \<Rightarrow> string + string \<times> PaymentRefundStatus) \<Rightarrow> adapter" where
  "paypal_adapter L refund = \<lparr>ad_verifyWebhook = paypal_verifyWebhook, ad_normalizeWebhookEvent = paypal_normalize L,
     ad_refund = refund\<rparr>"

section \<open>Stripe's webhooks\<close>

fun split_on :: "char \<Rightarrow> string \<Rightarrow> string list" where
  "split_on d [] = [[]]"
| "split_on d (c # cs) = (if c = d then [] # split_on d cs
     else (case split_on d cs of [] \<Rightarrow> [[c]] | p # ps \<Rightarrow> (c # p) # ps))"

text \<open>\<open>Object.fromEntries(header.split(",").map((part) => part.split("=")))\<close>: a later part replaces an earlier one.\<close>

definition header_parts :: "string \<Rightarrow> string \<Rightarrow> string option" where
  "header_parts h k = (case List.find (\<lambda>ps. hd ps = k) (rev (map (split_on (CHR ''='')) (split_on (CHR '','') h))) of
     Some (_ # v # _) \<Rightarrow> Some v | _ \<Rightarrow> None)"

definition stripe_verifyWebhook :: "gateway_libs \<Rightarrow> string \<Rightarrow> (string \<times> string) list \<Rightarrow> credentials \<Rightarrow> string + bool" where
  "stripe_verifyWebhook L rawBody headers cr =
     Inr (case (map_of cr ''WEBHOOK_SECRET'', map_of headers ''stripe-signature'') of
       (Some webhookSecret, Some signatureHeader) \<Rightarrow>
         webhookSecret \<noteq> [] \<and> signatureHeader \<noteq> [] \<and>
         (case (header_parts signatureHeader ''t'', header_parts signatureHeader ''v1'') of
            (Some timestamp, Some providedSignature) \<Rightarrow>
              timestamp \<noteq> [] \<and> providedSignature \<noteq> [] \<and>
              (let expected = hex_decode (hex_encode (gl_hmac L webhookSecret (timestamp @ ''.'' @ rawBody)));
                   provided = hex_decode providedSignature in
               length expected = length provided \<and> expected = provided)
          | _ \<Rightarrow> False)
     | _ \<Rightarrow> False)"

text \<open>What an event says, by its type.\<close>

record stripe_reading =
  sr_type :: payment_event_type
  sr_customer :: "jval option"
  sr_subscription :: "jval option"
  sr_transaction :: "jval option"
  sr_amount :: "jval option"
  sr_currency :: "jval option"
  sr_dispute :: "dispute_resolution option"

definition reading :: "payment_event_type \<Rightarrow> stripe_reading" where
  "reading ty = \<lparr>sr_type = ty, sr_customer = None, sr_subscription = None, sr_transaction = None, sr_amount = None,
     sr_currency = None, sr_dispute = None\<rparr>"

definition stripe_dispute :: "jval option \<Rightarrow> dispute_resolution" where
  "stripe_dispute status = (if status = Some (VStr ''won'') then WON else if status = Some (VStr ''lost'') then LOST
     else UNDER_REVIEW)"

definition stripe_read :: "string \<Rightarrow> jval \<Rightarrow> stripe_reading" where
  "stripe_read ty obj =
     (if ty = ''checkout.session.completed'' \<or> ty = ''invoice.paid'' \<or> ty = ''payment_intent.succeeded'' then
        (reading payment_event_type.PAYMENT_SUCCEEDED)\<lparr>sr_customer := field obj ''customer'', sr_subscription := field obj ''subscription'',
          sr_transaction := coalesce (field obj ''payment_intent'') (field obj ''id''),
          sr_amount := coalesce (field obj ''amount_paid'') (field obj ''amount''), sr_currency := field obj ''currency''\<rparr>
      else if ty = ''invoice.payment_failed'' \<or> ty = ''payment_intent.payment_failed'' then
        (reading payment_event_type.PAYMENT_FAILED)\<lparr>sr_customer := field obj ''customer'', sr_subscription := field obj ''subscription''\<rparr>
      else if ty = ''customer.subscription.updated'' then
        (reading payment_event_type.SUBSCRIPTION_RENEWED)\<lparr>sr_customer := field obj ''customer'', sr_subscription := field obj ''id''\<rparr>
      else if ty = ''customer.subscription.deleted'' then
        (reading payment_event_type.SUBSCRIPTION_CANCELED)\<lparr>sr_customer := field obj ''customer'', sr_subscription := field obj ''id''\<rparr>
      else if ty = ''charge.refunded'' then
        (reading payment_event_type.REFUND_COMPLETED)\<lparr>sr_transaction := field obj ''payment_intent'',
          sr_amount := field obj ''amount_refunded'', sr_currency := field obj ''currency''\<rparr>
      else if ty = ''charge.dispute.created'' then
        (reading payment_event_type.CHARGEBACK_CREATED)\<lparr>sr_transaction := field obj ''payment_intent'',
          sr_amount := field obj ''amount'', sr_currency := field obj ''currency''\<rparr>
      else if ty = ''charge.dispute.closed'' then
        (reading payment_event_type.DISPUTE_UPDATED)\<lparr>sr_transaction := field obj ''payment_intent'',
          sr_amount := field obj ''amount'', sr_currency := field obj ''currency'',
          sr_dispute := Some (stripe_dispute (field obj ''status''))\<rparr>
      else reading UNKNOWN)"

text \<open>An amount is used as it is; null counts as missing, another kind of value than a number is refused by its column.\<close>

definition amount_of :: "gateway_libs \<Rightarrow> jval option \<Rightarrow> js_number option" where
  "amount_of L v = (case v of None \<Rightarrow> None | Some VNull \<Rightarrow> None | Some (VNum l) \<Rightarrow> Some (number_of L l) | Some _ \<Rightarrow> Some None)"

definition stripe_normalize :: "gateway_libs \<Rightarrow> string \<Rightarrow> (string \<times> string) list \<Rightarrow> string + payment_event list" where
  "stripe_normalize L rawBody headers =
     (case json_parse rawBody of
        None \<Rightarrow> Inl ''Unexpected token in JSON''
      | Some event \<Rightarrow>
        (case field event ''data'' of
           None \<Rightarrow> Inl ''Cannot read properties of undefined''
         | Some VNull \<Rightarrow> Inl (null_error ''object'')
         | Some d \<Rightarrow>
           let known = (case field event ''type'' of Some (VStr ty) \<Rightarrow> sr_type (stripe_read ty VNull) \<noteq> UNKNOWN | _ \<Rightarrow> False) in
           if known \<and> (field d ''object'' = None \<or> field d ''object'' = Some VNull) then Inl ''Cannot read properties of undefined''
           else
             let r = (case field event ''type'' of Some (VStr ty) \<Rightarrow> stripe_read ty (orElse (field d ''object'') VNull) | _ \<Rightarrow> reading UNKNOWN) in
             text_columns (field event ''id'') [sr_customer r, sr_subscription r, sr_transaction r, sr_currency r]
               (\<lambda>eventId cols. Inr
                 [\<lparr>pe_type = sr_type r, pe_externalEventId = eventId, pe_externalCustomerId = cols ! 0,
                   pe_externalSubscriptionId = cols ! 1, pe_externalTransactionId = cols ! 2,
                   pe_amountMinor = amount_of L (sr_amount r), pe_currency = cols ! 3, pe_disputeStatus = sr_dispute r,
                   pe_occurredAt = (case js_number_of L (field event ''created'') of Some c \<Rightarrow> \<lfloor>c * 1000\<rfloor> | None \<Rightarrow> gl_now L),
                   pe_raw = payload_of event\<rparr>])))"

definition stripe_adapter ::
  "gateway_libs \<Rightarrow> (refund_input list \<Rightarrow> refund_input \<Rightarrow> string + string \<times> PaymentRefundStatus) \<Rightarrow> adapter" where
  "stripe_adapter L refund = \<lparr>ad_verifyWebhook = stripe_verifyWebhook L, ad_normalizeWebhookEvent = stripe_normalize L,
     ad_refund = refund\<rparr>"

end
