(* ===== verification/Gateway_Flow.thy ===== *)
theory Gateway_Flow
  imports Gateways Payment_Flow
begin

text \<open>
  What the payment gateways guarantee and where they fall short: amounts survive their decimal text, a wallet's signature
  proves the fields of a callback as long as no value contains a separator, PayPal deliveries are not authenticated,
  and payments through the wallets are acknowledged but never booked.
\<close>

section \<open>Amounts as decimal text\<close>

lemma digits_nat_append: "digits_nat (s @ [c]) = 10 * digits_nat s + (of_char c - 48)"
  by (simp add: digits_nat_def)

lemma digits_nat_char: "d < 10 \<Longrightarrow> (of_char (digit_char d) :: nat) - 48 = d"
  by (simp add: digit_char_def)

lemma digits_nat_str: "digits_nat (nat_str n) = n"
proof (induction n rule: nat_str.induct)
  case (1 n)
  show ?case
  proof (cases "n < 10")
    case True
    then show ?thesis by (simp add: nat_str_small digits_nat_char) (simp add: digits_nat_def digits_nat_char)
  next
    case False
    with 1 show ?thesis by (simp add: nat_str_big digits_nat_append digits_nat_char)
  qed
qed

lemma pad_2: "n < 100 \<Longrightarrow> pad 2 n = [digit_char (n div 10), digit_char (n mod 10)]"
proof (cases "n < 10")
  case True
  have "CHR ''0'' = digit_char 0" by (rule char_eqI) (simp add: digit_char_def)
  with True show ?thesis by (simp add: pad_def nat_str_small)
next
  case False
  moreover assume "n < 100"
  ultimately show ?thesis by (simp add: pad_def nat_str_big nat_str_small)
qed

lemma decimal_amount:
  assumes "f < 100" shows "decimal_value (nat_str n @ ''.'' @ pad 2 f) = Some (of_nat n + of_nat f / 100)"
proof -
  have sign: "take 1 (nat_str n @ r) \<noteq> ''-''" for r
    using nat_str_sign [of n r] by (cases "nat_str n") auto
  have dot: "digits_of (nat_str n @ ''.'' @ r) = (nat_str n, ''.'' @ r)" for r
    using nat_str_all_digits [of n] by (simp add: digits_of_def is_digit_def)
  have fraction: "digits_of (pad 2 f) = (pad 2 f, [])" "digits_nat (pad 2 f) = f"
    using assms by (simp_all add: pad_2 digits_of_def is_digit_char) (simp add: digits_nat_def digits_nat_char)
  show ?thesis
    using sign [of "''.'' @ pad 2 f"] assms
    by (simp add: decimal_value_def dot [simplified] fraction digits_nat_str) (simp add: pad_2)
qed

lemma amount_text_value:
  assumes "0 \<le> a" and "a < 2 ^ 50"
  shows "decimal_value (amount_text a) = Some (of_int a / 100)
    \<and> js_round (js_times (number_of L (amount_text a)) 100) = Some (of_int a)"
proof -
  define q where "q = (of_int a :: rat)"
  define x where "x = fl (q / 100)"
  have q: "0 \<le> q" "q < 2 ^ 50" using assms by (simp_all add: q_def flip: of_int_less_iff [of _ "2 ^ 50"])
  have "\<bar>x - q / 100\<bar> \<le> q / 100 / 2 ^ 53" unfolding x_def by (rule fl_error) (simp add: q)
  then have x: "\<bar>100 * x - q\<bar> \<le> q / 2 ^ 53" by (simp add: field_simps)
  have small: "q / 2 ^ 53 \<le> 1 / 8" using q by simp
  have x0: "0 \<le> x" unfolding x_def by (rule fl_nonneg) (simp add: q)
  have near: "of_int a - 1 / 8 \<le> 100 * x" "100 * x \<le> of_int a + 1 / 8"
    using x small unfolding q_def by linarith+
  have "\<lfloor>100 * \<bar>x\<bar> + 1 / 2\<rfloor> = a"
    using near x0 by (intro floor_unique) simp_all
  then have "amount_text a = nat_str (nat a div 100) @ ''.'' @ pad 2 (nat a mod 100)"
    using x0 by (simp add: amount_text_def toFixed2_def Let_def flip: q_def x_def)
  moreover have "(of_nat (nat a div 100) + of_nat (nat a mod 100) / 100 :: rat) = q / 100"
  proof -
    have "q = of_nat (100 * (nat a div 100) + nat a mod 100)" using assms(1) by (simp add: q_def)
    then have "q = 100 * of_nat (nat a div 100) + of_nat (nat a mod 100)" unfolding of_nat_add of_nat_mult by simp
    then show ?thesis by simp
  qed
  ultimately have d: "decimal_value (amount_text a) = Some (q / 100)"
    using decimal_amount [of "nat a mod 100" "nat a div 100"] by simp
  have "\<bar>fl (100 * x) - 100 * x\<bar> \<le> 100 * x / 2 ^ 53" by (rule fl_error) (simp add: x0)
  moreover have "100 * x / 2 ^ 53 \<le> 1 / 4"
  proof -
    have "100 * x \<le> 2 ^ 50 + 1 / 8" using near q(2) unfolding q_def by linarith
    then show ?thesis by simp
  qed
  ultimately have "math_round (fl (100 * x)) = a"
    using near unfolding math_round_def by (intro floor_unique) linarith+
  with d show ?thesis by (simp add: number_of_def js_times_def js_round_def mult.commute q_def x_def)
qed

lemmas wallet_amount_value = amount_text_value [THEN conjunct2]



section \<open>What a signature of Easypaisa proves\<close>

text \<open>A field is clean when the separators do not occur in it.\<close>

definition clean :: "string \<times> string \<Rightarrow> bool" where
  "clean f \<longleftrightarrow> CHR ''='' \<notin> set (fst f) \<and> CHR ''&'' \<notin> set (fst f) \<and> CHR ''&'' \<notin> set (snd f)"

definition pair_text :: "string \<times> string \<Rightarrow> string" where
  "pair_text f = fst f @ ''='' @ snd f"

definition read_pair :: "string \<Rightarrow> string \<times> string" where
  "read_pair s = (takeWhile (\<lambda>c. c \<noteq> CHR ''='') s, drop 1 (dropWhile (\<lambda>c. c \<noteq> CHR ''='') s))"

lemma read_pair_text: "clean f \<Longrightarrow> read_pair (pair_text f) = f"
  by (cases f) (auto simp: clean_def read_pair_def pair_text_def takeWhile_append dropWhile_append)

lemma split_on_none: "d \<notin> set s \<Longrightarrow> split_on d s = [s]"
  by (induction s) auto

lemma split_on_nonempty [simp]: "split_on d s \<noteq> []"
  by (induction s) (auto split: list.split)

lemma split_on_append: "d \<notin> set a \<Longrightarrow> split_on d (a @ d # b) = a # split_on d b"
  by (induction a) auto

lemma split_joined: "xs \<noteq> [] \<Longrightarrow> \<forall>x \<in> set xs. d \<notin> set x \<Longrightarrow> split_on d (joined [d] xs) = xs"
  by (induction xs rule: induct_list012) (simp_all add: split_on_none split_on_append)

lemma canonical_pairs: "canonical fs = joined ''&'' (map pair_text (sort_key fst fs))"
  by (simp add: canonical_def pair_text_def split_beta' cong: map_cong)

definition read_canonical :: "string \<Rightarrow> (string \<times> string) list" where
  "read_canonical s = (if s = [] then [] else map read_pair (split_on (CHR ''&'') s))"

lemma read_canonical: "\<forall>f \<in> set fs. clean f \<Longrightarrow> read_canonical (canonical fs) = sort_key fst fs"
proof (cases "fs = []")
  case False
  assume clean: "\<forall>f \<in> set fs. clean f"
  have "joined ''&'' (map pair_text xs) \<noteq> []" if "xs \<noteq> []" for xs
    using that by (induction xs rule: induct_list012) (auto simp: pair_text_def)
  moreover have ne: "sort_key fst fs \<noteq> []" using False by (metis set_empty set_sort)
  moreover have "split_on (CHR ''&'') (canonical fs) = map pair_text (sort_key fst fs)"
    unfolding canonical_pairs using clean ne by (intro split_joined) (auto simp: clean_def pair_text_def)
  moreover have "map (read_pair \<circ> pair_text) (sort_key fst fs) = sort_key fst fs"
    using clean by (intro map_idI) (simp add: read_pair_text)
  ultimately show ?thesis by (simp add: read_canonical_def canonical_pairs)
qed (simp add: canonical_def read_canonical_def)

text \<open>The fields of a callback that its signature covers, by their texts.\<close>

definition signed_fields :: "gateway_libs \<Rightarrow> (string \<times> jval) list \<Rightarrow> (string \<times> string) list" where
  "signed_fields L fs = map (\<lambda>(k, v). (k, js_text L v)) (filter (\<lambda>f. fst f \<noteq> ''hash'') fs)"

lemma easypaisa_accepts:
  assumes "easypaisa_verifyWebhook L body hs cr = Inr True"
  obtains fs v key where "json_parse body = Some (VObj fs)" "map_of fs ''hash'' = Some v" "map_of cr ''HASH_KEY'' = Some key"
    "given_bytes L v = Inr (hex_decode (hex_encode (gl_hmac L key (canonical (signed_fields L fs)))))"
proof -
  from assms obtain key where key: "map_of cr ''HASH_KEY'' = Some key" "key \<noteq> []"
    by (cases "map_of cr ''HASH_KEY''") (auto simp: easypaisa_verifyWebhook_def split: if_splits)
  let ?sign = "\<lambda>fs. easypaisa_sign L (map (\<lambda>(k, v). (k, js_text L v)) fs) cr"
  have call: "signed_callback L ''hash'' ?sign body = Inr True"
    using assms by (auto simp: easypaisa_verifyWebhook_def split: if_splits)
  then obtain fs where fs: "json_parse body = Some (VObj fs)"
    by (cases "json_parse body") (auto simp: signed_callback_def split: jval.splits)
  with call obtain v where "map_of fs ''hash'' = Some v"
    "given_bytes L v = Inr (hex_decode (hex_encode (gl_hmac L key (canonical (signed_fields L fs)))))"
    using key by (auto simp: signed_callback_def easypaisa_sign_def requireCredential_def signed_fields_def Let_def
        split: option.splits if_splits sum.splits)
  with fs key that show thesis by blast
qed

text \<open>
  A callback that is accepted under the signature of a list of fields has exactly those fields, as long as the
  separators occur in neither and the hash does not collide on the two texts.
\<close>

lemma signature_determines_fields:
  assumes "easypaisa_verifyWebhook L body hs cr = Inr True"
    and "json_parse body = Some (VObj fs)" and "map_of fs ''hash'' = Some (VStr h)"
    and "easypaisa_sign L gs cr = Inr h"
    and "\<forall>k m. \<forall>b \<in> set (gl_hmac L k m). b < 256"
    and "\<forall>k. gl_hmac L k (canonical (signed_fields L fs)) = gl_hmac L k (canonical gs) \<longrightarrow> canonical (signed_fields L fs) = canonical gs"
    and "\<forall>f \<in> set (signed_fields L fs). clean f" and "\<forall>g \<in> set gs. clean g"
  shows "set (signed_fields L fs) = set gs"
proof -
  obtain fs' v key where acc: "json_parse body = Some (VObj fs')" "map_of fs' ''hash'' = Some v"
    "given_bytes L v = Inr (hex_decode (hex_encode (gl_hmac L key (canonical (signed_fields L fs')))))"
    and key: "map_of cr ''HASH_KEY'' = Some key"
    using assms(1) by (rule easypaisa_accepts)
  then have h: "hex_decode h = hex_decode (hex_encode (gl_hmac L key (canonical (signed_fields L fs))))"
    using assms(2,3) by (simp add: given_bytes_def)
  moreover have "h = hex_encode (gl_hmac L key (canonical gs))"
    using assms(4) key by (auto simp: easypaisa_sign_def requireCredential_def split: if_splits)
  moreover have "hex_decode (hex_encode (gl_hmac L key m)) = gl_hmac L key m" for m
    using assms(5) by (intro hex_roundtrip) blast
  ultimately have "gl_hmac L key (canonical gs) = gl_hmac L key (canonical (signed_fields L fs))" by simp
  then have "canonical (signed_fields L fs) = canonical gs" using assms(6) by metis
  then have "sort_key fst (signed_fields L fs) = sort_key fst gs"
    using read_canonical [OF assms(7)] read_canonical [OF assms(8)] by metis
  then show ?thesis by (metis set_sort)
qed

text \<open>C35. The link to the checkout page carries a signature that everybody who sees the page can read. It does not prove a payment: whatever callback
  is made with it, if accepted, it reports a failure. The merchant's name and the address to return to must not contain
  the separator \<open>&\<close>, nor may the values of the callback.
\<close>

theorem checkout_hash_proves_no_payment:
  assumes "easypaisa_sign L (easypaisa_fields L merchantId x) cr = Inr h"
    and "easypaisa_verifyWebhook L body hs cr = Inr True"
    and "json_parse body = Some (VObj fs)" and "map_of fs ''hash'' = Some (VStr h)"
    and "\<forall>k m. \<forall>b \<in> set (gl_hmac L k m). b < 256"
    and "\<forall>k. gl_hmac L k (canonical (signed_fields L fs)) = gl_hmac L k (canonical (easypaisa_fields L merchantId x)) \<longrightarrow>
      canonical (signed_fields L fs) = canonical (easypaisa_fields L merchantId x)"
    and "\<forall>f \<in> set (signed_fields L fs) \<union> set (easypaisa_fields L merchantId x). clean f"
  shows "\<forall>evs. easypaisa_normalize L body hs = Inr evs \<longrightarrow> (\<forall>ev \<in> set evs. pe_type ev = payment_event_type.PAYMENT_FAILED)"
proof -
  have "set (signed_fields L fs) = set (easypaisa_fields L merchantId x)"
    using assms by (intro signature_determines_fields [OF assms(2-4,1,5)]) auto
  then have "(''responseCode'', c) \<notin> set (signed_fields L fs)" for c by (auto simp: easypaisa_fields_def)
  then have "(''responseCode'', v) \<notin> set fs" for v by (force simp: signed_fields_def)
  then have "map_of fs ''responseCode'' = None" by (metis map_of_SomeD not_Some_eq)
  then show ?thesis
    using assms(3) by (auto simp: easypaisa_normalize_def wallet_event_def field_def split: sum.splits)
qed

text \<open>
  Without that condition it does: when the address to return to ends with \<open>&responseCode=0000\<close>, the signature of the
  checkout is also the signature of a callback in which this is a field of its own, and the callback reports
  the payment of the full amount. The text that is signed does not mark where a value ends.
\<close>

definition forged_callback :: "gateway_libs \<Rightarrow> string \<Rightarrow> checkout_input \<Rightarrow> string \<Rightarrow> string \<Rightarrow> string" where
  "forged_callback L merchantId x u h = json_stringify (JObj
     [(''amount'', JStr (amount_text (ci_amountMinor x))), (''autoRedirect'', JStr ''1''), (''hash'', JStr h),
      (''orderRefNum'', JStr (''EP-'' @ int_str (gl_now L) @ ''-'' @ take 8 (gl_uuid L))), (''postBackURL'', JStr u),
      (''responseCode'', JStr ''0000''), (''storeId'', JStr merchantId)])"

lemma key_order:
  "sort_key fst [(''storeId'', a), (''orderRefNum'', b), (''amount'', c), (''postBackURL'', d), (''autoRedirect'', e)]
    = [(''amount'', c), (''autoRedirect'', e), (''orderRefNum'', b), (''postBackURL'', d), (''storeId'', a)]"
  "sort_key fst [(''amount'', c), (''autoRedirect'', e), (''orderRefNum'', b), (''postBackURL'', d), (''responseCode'', r), (''storeId'', a)]
    = [(''amount'', c), (''autoRedirect'', e), (''orderRefNum'', b), (''postBackURL'', d), (''responseCode'', r), (''storeId'', a)]"
  by (simp_all add: less_char_def less_eq_char_def)

lemma view_strings: "keys_distinct (JObj (map (\<lambda>(k, v). (k, JStr v)) fs)) \<longleftrightarrow> distinct (map fst fs)"
  by (induction fs) (auto simp: comp_def split_beta)

lemma amount_text_nonempty [simp]: "amount_text a \<noteq> []"
  by (simp add: amount_text_def toFixed2_def Let_def)

theorem separator_forges_payment:
  assumes "ci_successUrl x = Some (u @ ''&responseCode=0000'')" and "map_of cr ''HASH_KEY'' = Some key" and "key \<noteq> []"
    and "easypaisa_sign L (easypaisa_fields L merchantId x) cr = Inr h"
    and "\<forall>k m. gl_hmac L k m \<noteq> []"
    and "0 \<le> ci_amountMinor x" and "ci_amountMinor x < 2 ^ 50"
  shows "easypaisa_verifyWebhook L (forged_callback L merchantId x u h) hs cr = Inr True
    \<and> (\<exists>ev. easypaisa_normalize L (forged_callback L merchantId x u h) hs = Inr [ev] \<and> pe_type ev = payment_event_type.PAYMENT_SUCCEEDED
        \<and> pe_amountMinor ev = Some (Some (of_int (ci_amountMinor x))))"
proof -
  let ?ref = "''EP-'' @ int_str (gl_now L) @ ''-'' @ take 8 (gl_uuid L)"
  let ?fs = "[(''amount'', VStr (amount_text (ci_amountMinor x))), (''autoRedirect'', VStr ''1''), (''hash'', VStr h),
      (''orderRefNum'', VStr ?ref), (''postBackURL'', VStr u), (''responseCode'', VStr ''0000''), (''storeId'', VStr merchantId)]"
  have parsed: "json_parse (forged_callback L merchantId x u h) = Some (VObj ?fs)"
    unfolding forged_callback_def by (subst json_roundtrip) simp_all
  have same: "canonical (signed_fields L ?fs) = canonical (easypaisa_fields L merchantId x)"
    using assms(1) by (simp add: signed_fields_def easypaisa_fields_def canonical_def key_order [simplified])
  have sign: "easypaisa_sign L (signed_fields L ?fs) cr = Inr h"
    using assms(4) unfolding easypaisa_sign_def same .
  have "h = hex_encode (gl_hmac L key (canonical (easypaisa_fields L merchantId x)))"
    using assms(2-4) by (simp add: easypaisa_sign_def requireCredential_def)
  then have "h \<noteq> []" using assms(5) by (cases "gl_hmac L key (canonical (easypaisa_fields L merchantId x))") (auto simp: hex_encode_def)
  then have "easypaisa_verifyWebhook L (forged_callback L merchantId x u h) hs cr = Inr True"
    using assms(2,3) sign unfolding easypaisa_verifyWebhook_def signed_callback_def parsed signed_fields_def
    by (simp add: given_bytes_def)
  moreover have "\<exists>ev. easypaisa_normalize L (forged_callback L merchantId x u h) hs = Inr [ev] \<and> pe_type ev = payment_event_type.PAYMENT_SUCCEEDED
        \<and> pe_amountMinor ev = Some (Some (of_int (ci_amountMinor x)))"
    using wallet_amount_value [OF assms(6,7), of L]
    by (simp add: easypaisa_normalize_def parsed wallet_event_def field_def text_column_def coalesce_def)
  ultimately show ?thesis by blast
qed

section \<open>One event through the pipeline\<close>

definition received :: "id \<Rightarrow> payment_event \<Rightarrow> 'z pay_db_scheme \<Rightarrow> 'z pay_db_scheme" where
  "received p e s = paymentWebhooks_update (\<lambda>ws. ws @ [webhook_row (nextId s) p e]) (nextId_update Suc s)"

lemma webhook_id [simp]: "pw_id (webhook_row i p e) = i"
  by (simp add: webhook_row_def)

lemma handle_new_event:
  assumes "List.find (same_webhook p (pe_externalEventId e)) (paymentWebhooks s) = None"
    and "dispatch w p org e (received p e s) = (Inr (), s2)"
  shows "handle_event w p org e s = (Inr True, paymentWebhooks_update
      (upd_where (\<lambda>h. pw_id h = nextId s) (\<lambda>h. h\<lparr>pw_status := PROCESSED, pw_processedAt := Some (clock s2)\<rparr>)) s2)"
proof -
  have "paymentWebhooks s2 = paymentWebhooks s @ [webhook_row (nextId s) p e]"
    using leaves_snd [OF aside_dispatch, of w p org e "received p e s"] assms(2) by (simp add: pipeline_eq received_def)
  then have "List.find (\<lambda>h. pw_id h = nextId s) (paymentWebhooks s2) \<noteq> None" by (simp add: find_None_iff' webhook_row_def)
  then obtain h where h: "List.find (\<lambda>h. pw_id h = nextId s) (paymentWebhooks s2) = Some h" by blast
  have "handle_event w p org e s = try_catch
         (bnd (dispatch w p org e) (\<lambda>_. bnd now (\<lambda>t.
          seq (settle_webhook (nextId s) (\<lambda>h. h\<lparr>pw_status := PROCESSED, pw_processedAt := Some t\<rparr>)) (ret True))))
         (\<lambda>error. seq (settle_webhook (nextId s)
            (\<lambda>h. h\<lparr>pw_status := PaymentWebhookStatus.FAILED, pw_error := Some (exn_message error)\<rparr>)) (ret False)) (received p e s)"
    using assms(1) by (simp add: handle_event_def run insert_unique_def received_def)
  then show ?thesis
    using h by (simp add: try_catch_def bnd_def assms(2) now_def gets_def seq_def settle_webhook_def update_row_def ret_def find_or_throw_def find_row_def modify_def)
qed

lemma handle_one:
  assumes "resolve_provider w p s = (Inr rp, s)" and "ad_verifyWebhook (rp_adapter rp) body hs (rp_credentials rp) = Inr True"
    and "ad_normalizeWebhookEvent (rp_adapter rp) body hs = Inr [e]"
    and "handle_event w p (rp_organizationId rp) e s = (Inr b, s')"
  shows "handleIncoming w p body hs s = (Inr (1, if b then 1 else 0), s')"
  using assms by (simp add: handleIncoming_def bnd_def seq_def guard_or_def ret_def)

lemma resolve_ok:
  assumes "List.find (\<lambda>r. pp_id r = p) (paymentProviders s) = Some provider" and "adaptersByType (pwo_adapters w) (pp_type provider) = Some a"
    and "resolveForAdapter w p s = (Inr cr, s)"
  shows "\<exists>rp. resolve_provider w p s = (Inr rp, s) \<and> rp_organizationId rp = pp_organizationId provider \<and> rp_adapter rp = a \<and> rp_credentials rp = cr"
  using assms by (simp add: resolve_provider_def getAdapter_def resolveAccount_def find_or_throw_def bnd_def find_row_def gets_def ret_def)

section \<open>PayPal deliveries are not authenticated\<close>

definition paypal_renewal :: "string \<Rightarrow> string \<Rightarrow> string" where
  "paypal_renewal eventId sid = json_stringify (JObj [(''id'', JStr eventId), (''event_type'', JStr ''BILLING.SUBSCRIPTION.RENEWED''),
     (''resource'', JObj [(''id'', JStr sid)])])"

definition renewal_event :: "gateway_libs \<Rightarrow> string \<Rightarrow> string \<Rightarrow> payment_event" where
  "renewal_event L eventId sid = \<lparr>pe_type = payment_event_type.SUBSCRIPTION_RENEWED, pe_externalEventId = eventId,
     pe_externalCustomerId = None, pe_externalSubscriptionId = Some sid, pe_externalTransactionId = Some sid, pe_amountMinor = None,
     pe_currency = None, pe_disputeStatus = None, pe_occurredAt = gl_now L,
     pe_raw = JObj [(''id'', JStr eventId), (''event_type'', JStr ''BILLING.SUBSCRIPTION.RENEWED''), (''resource'', JObj [(''id'', JStr sid)])]\<rparr>"

lemma paypal_reads: "paypal_normalize L (paypal_renewal eventId sid) hs = Inr [renewal_event L eventId sid]"
proof -
  have "json_parse (paypal_renewal eventId sid) = Some (VObj [(''id'', VStr eventId), (''event_type'', VStr ''BILLING.SUBSCRIPTION.RENEWED''),
     (''resource'', VObj [(''id'', VStr sid)])])"
    unfolding paypal_renewal_def by (subst json_roundtrip) simp_all
  then show ?thesis
    by (simp add: paypal_normalize_def field_def coalesce_def text_columns_def text_column_def type_of_def paypal_types_def
        renewal_event_def date_of_def)
qed

text \<open>An active subscription that PayPal knows as \<open>sid\<close>, in a period that ends at \<open>e\<close>, with no scheduled change.\<close>

definition renewable :: "id \<Rightarrow> string \<Rightarrow> id \<Rightarrow> price_row \<Rightarrow> time \<Rightarrow> 'z pay_db_scheme \<Rightarrow> bool" where
  "renewable org sid subId price e s \<longleftrightarrow>
     (\<exists>sub. List.find (\<lambda>r. sub_organizationId r = org \<and> sub_providerSubscriptionId r = Some sid) (subscriptions s) = Some sub
        \<and> sub_id sub = subId \<and> List.find (\<lambda>r. sub_id r = subId) (subscriptions s) = Some sub
        \<and> sub_status sub = SubscriptionStatus.ACTIVE \<and> sub_currentPeriodEnd sub = Some e \<and> \<not> sub_cancelAtPeriodEnd sub)
   \<and> (\<exists>item. List.find (\<lambda>x. si_subscriptionId x = subId) (subItems s) = Some item
        \<and> List.find (\<lambda>q. price_id q = si_priceId item) (prices s) = Some price \<and> 1 \<le> price_intervalCount price)
   \<and> (\<forall>c \<in> set (subChanges s). sc_subscriptionId c \<noteq> subId)"

lemma renewal_dispatch:
  assumes "renewable org sid subId price e s" and "sid \<noteq> []"
    and "List.find (same_transaction p sid) (paymentTransactions s) = None" and "cachedUserId s = Some u"
  shows "wps (dispatch w p org (renewal_event L eventId sid)) (\<lambda>r s'. r = Inr () \<and>
      map_option sub_currentPeriodEnd (List.find (\<lambda>r. sub_id r = subId) (subscriptions s'))
        = Some (Some (addBillingInterval e (price_interval price) (price_intervalCount price)))) s"
proof -
  from assms(1) obtain sub item where
    sub: "List.find (\<lambda>r. sub_organizationId r = org \<and> sub_providerSubscriptionId r = Some sid) (subscriptions s) = Some sub"
      "List.find (\<lambda>r. sub_id r = subId) (subscriptions s) = Some sub" "sub_status sub = SubscriptionStatus.ACTIVE"
      "sub_currentPeriodEnd sub = Some e" "\<not> sub_cancelAtPeriodEnd sub" and id: "sub_id sub = subId"
    and item: "List.find (\<lambda>x. si_subscriptionId x = subId) (subItems s) = Some item"
      "List.find (\<lambda>q. price_id q = si_priceId item) (prices s) = Some price" "1 \<le> price_intervalCount price"
    and none: "\<forall>c \<in> set (subChanges s). sc_subscriptionId c \<noteq> subId"
    by (auto simp: renewable_def)
  let ?e' = "addBillingInterval e (price_interval price) (price_intervalCount price)"
  let ?Q = "\<lambda>r s'. r = Inr () \<and> map_option sub_currentPeriodEnd (List.find (\<lambda>r. sub_id r = subId) (subscriptions s')) = Some (Some ?e')"
  have booked: "wps (recordRenewalWithoutTransaction w org sub SubscriptionStatus.ACTIVE u) ?Q s1"
    if "map_option sub_currentPeriodEnd (List.find (\<lambda>r. sub_id r = subId) (subscriptions s1)) = Some (Some ?e')" for s1 :: "'a pay_db_scheme"
  proof -
    have "wps (record_event org ty payload refs (Some u) no_meta (Some (''subscription_renewed:'' @ k))) (\<lambda>r s'. (\<exists>x. r = Inr x) \<and> subscriptions s' = subscriptions s1) s1"
      for ty payload refs k
      using record_event_total [of "''subscription_renewed:'' @ k" org ty payload refs "Some u" no_meta s1]
        leaves_snd [OF leaves_record [of subscriptions], of org ty payload refs "Some u" no_meta "Some (''subscription_renewed:'' @ k)" s1]
      by (simp add: wps_run)
    then show ?thesis
      unfolding recordRenewalWithoutTransaction_def Let_def wps_seq wps_ret
      by (rule wps_mono) (use that in auto)
  qed
  have "wps (seq (seq (sub_renew (subId) u no_options) (ret ())) (recordRenewalWithoutTransaction w org sub SubscriptionStatus.ACTIVE u)) ?Q s"
    unfolding wps_seq wps_ret
    by (rule wps_mono [OF renew_effect [OF sub(2-5) item(1,2) none item(3)]])
      (use sub(2) id booked in \<open>auto simp: paying_def find_upd_where_keep\<close>)
  then show ?thesis
    using sub id assms(2-4)
    by (simp add: dispatch_def wp renewal_event_def event_subscription_def upsertTransaction_def linked_subscription_def getSystemUserId_def
        on_subscription_def recoverOrRenew_def pre_activation_def active_like_def when_do_def)
qed

text \<open>C13. PayPal's adapter checks only that the four signature headers are there: the call that would verify them is never made. So anybody who
  knows the identifier of a provider and of a subscription at PayPal can renew that subscription, as often as there are
  fresh event identifiers: a request with any contents in those headers is accepted, is counted as processed, and moves the end of the
  period by a billing interval. No secret occurs in it.
\<close>

theorem paypal_unsigned_renews:
  assumes "List.find (\<lambda>r. pp_id r = p) (paymentProviders s) = Some provider" and "pp_type provider = PAYPAL"
    and "adaptersByType (pwo_adapters w) PAYPAL = Some (paypal_adapter L refund)" and "resolveForAdapter w p s = (Inr cr, s)"
    and "\<forall>h \<in> {''paypal-transmission-id'', ''paypal-transmission-time'', ''paypal-transmission-sig'', ''paypal-cert-url''}. truthy (map_of hs h)"
    and "renewable (pp_organizationId provider) sid subId price e s" and "sid \<noteq> []"
    and "List.find (same_webhook p eventId) (paymentWebhooks s) = None"
    and "List.find (same_transaction p sid) (paymentTransactions s) = None" and "cachedUserId s \<noteq> None"
  shows "\<exists>s'. handleIncoming w p (paypal_renewal eventId sid) hs s = (Inr (1, 1), s')
    \<and> map_option sub_currentPeriodEnd (List.find (\<lambda>r. sub_id r = subId) (subscriptions s'))
      = Some (Some (addBillingInterval e (price_interval price) (price_intervalCount price)))"
proof -
  obtain u where u: "cachedUserId s = Some u" using assms(10) by auto
  let ?ev = "renewal_event L eventId sid" and ?org = "pp_organizationId provider"
  let ?s = "received p ?ev s"
  have "renewable ?org sid subId price e ?s" using assms(6) by (simp add: renewable_def received_def)
  from renewal_dispatch [OF this assms(7), of p u w L eventId] u assms(9) obtain s2 where
    s2: "dispatch w p ?org ?ev ?s = (Inr (), s2)"
      "map_option sub_currentPeriodEnd (List.find (\<lambda>r. sub_id r = subId) (subscriptions s2))
        = Some (Some (addBillingInterval e (price_interval price) (price_intervalCount price)))"
    by (cases "dispatch w p ?org ?ev ?s") (auto simp: wps_run received_def)
  have "List.find (same_webhook p (pe_externalEventId ?ev)) (paymentWebhooks s) = None"
    using assms(8) by (simp add: renewal_event_def)
  from handle_new_event [OF this s2(1)] obtain s' where
    s': "handle_event w p ?org ?ev s = (Inr True, s')" "subscriptions s' = subscriptions s2" by simp
  from resolve_ok [of p s provider w "paypal_adapter L refund" cr] assms(1-4) obtain rp where
    rp: "resolve_provider w p s = (Inr rp, s)" "rp_organizationId rp = ?org" "rp_adapter rp = paypal_adapter L refund" by auto
  have "handleIncoming w p (paypal_renewal eventId sid) hs s = (Inr (1, if True then 1 else 0), s')"
    using assms(5) s'(1) by (intro handle_one [OF rp(1)]) (simp_all add: rp paypal_adapter_def paypal_verifyWebhook_def paypal_reads)
  with s2(2) s'(2) show ?thesis by simp
qed

section \<open>Payments through the wallets are not booked\<close>

text \<open>Transactions, subscriptions, the ledger, the event bus and what hangs on them.\<close>

definition booked :: "'z pay_db_scheme \<Rightarrow> payment_transaction list \<times> payment_refund list \<times> payment_dispute list \<times> sub_row list
    \<times> sub_event list \<times> fin_event list \<times> platform_event list \<times> payment_provider list" where
  "booked s = (paymentTransactions s, paymentRefunds s, paymentDisputes s, subscriptions s, subEvents s, finEvents s,
     platformEvents s, paymentProviders s)"

definition wallet_world :: "pay_world \<Rightarrow> bool" where
  "wallet_world w \<longleftrightarrow> (\<exists>L. adaptersByType (pwo_adapters w) EASYPAISA = Some (easypaisa_adapter L)
     \<and> adaptersByType (pwo_adapters w) JAZZCASH = Some (jazzcash_adapter L))"

definition wallet_provider :: "id \<Rightarrow> 'z pay_db_scheme \<Rightarrow> bool" where
  "wallet_provider p s \<longleftrightarrow> (\<exists>r. List.find (\<lambda>r. pp_id r = p) (paymentProviders s) = Some r \<and> pp_type r \<in> {EASYPAISA, JAZZCASH})
     \<and> (\<forall>x \<in> set (paymentTransactions s). pt_providerId x \<noteq> p)"

definition bare_event :: "payment_event \<Rightarrow> bool" where
  "bare_event e \<longleftrightarrow> pe_currency e = None \<and> pe_externalSubscriptionId e = None
     \<and> pe_type e \<in> {payment_event_type.PAYMENT_SUCCEEDED, payment_event_type.PAYMENT_FAILED}"

lemma wallet_event_bare: "wallet_event L callback paid ref a t = Inr es \<Longrightarrow> e \<in> set es \<Longrightarrow> bare_event e"
  by (cases paid) (auto simp: wallet_event_def bare_event_def split: sum.splits)

lemma wallet_events_bare:
  "easypaisa_normalize L body hs = Inr es \<Longrightarrow> e \<in> set es \<Longrightarrow> bare_event e"
  "jazzcash_normalize L body hs = Inr es \<Longrightarrow> e \<in> set es \<Longrightarrow> bare_event e"
  unfolding easypaisa_normalize_def jazzcash_normalize_def
  by (cases "json_parse body"; cases "the (json_parse body)"; simp add: wallet_event_bare)+

lemma bare_dispatch:
  assumes "bare_event e" and "wallet_provider p s"
  shows "wps (dispatch w p org e) (\<lambda>r s'. booked s' = booked s) s"
proof -
  have none: "List.find (same_transaction p ref) (paymentTransactions s) = None" for ref
    using assms(2) by (auto simp: wallet_provider_def find_None_iff' same_transaction_def)
  have idle: "apply_payment_event w p org e None None u (pe_type e) = ret ()" for u
    using assms(1) by (auto simp: bare_event_def payment_succeeded_def payment_failed_def on_transaction_def on_subscription_def seq_def bnd_def ret_def)
  show ?thesis
    using assms(1) none
    by (simp add: dispatch_def wp upsertTransaction_def event_subscription_def linked_subscription_def bare_event_def
        getSystemUserId_def remember_user_def idle booked_def split: option.split)
qed

lemma keep_try:
  assumes "wps m (\<lambda>r s'. v s' = c) s" and "\<And>x. leaves v (k x)" and "\<And>e. leaves v (h e)"
  shows "wps (try_catch (bnd m k) h) (\<lambda>r s'. v s' = c) s"
proof -
  obtain r s1 where r: "m s = (r, s1)" by (cases "m s")
  then have s1: "v s1 = c" using wps_D [OF assms(1)] by blast
  have "v (snd (bnd m k s)) = c" using r s1 leaves_snd [OF assms(2), of _ s1] by (cases r) (simp_all add: bnd_def)
  then show ?thesis
    using leaves_snd [OF assms(3)] by (auto simp: wps_run try_catch_def split: prod.split sum.split)
qed

lemma bare_handle:
  assumes "bare_event e" and "wallet_provider p s"
  shows "wps (handle_event w p org e) (\<lambda>r s'. booked s' = booked s) s"
proof -
  have dis: "wps (dispatch w p org e) (\<lambda>r s'. booked s' = booked s) s1" if "booked s1 = booked s" for s1 :: "'a pay_db_scheme"
  proof -
    have "wallet_provider p s1" using assms(2) that by (simp add: wallet_provider_def booked_def)
    with bare_dispatch [OF assms(1) this, of w org] that show ?thesis by simp
  qed
  have settle: "leaves booked (bnd now (\<lambda>t. seq (settle_webhook i (g t)) (ret True)))" "leaves booked (seq (settle_webhook i g') (ret False))"
    for i g g'
    unfolding settle_webhook_def by (intro leaves_all leaves_platform; simp add: booked_def)+
  have rest: "wps (try_catch (bnd (dispatch w p org e) (\<lambda>_. bnd now (\<lambda>t. seq (settle_webhook i (g t)) (ret True))))
      (\<lambda>error. seq (settle_webhook i (h error)) (ret False))) (\<lambda>r s'. booked s' = booked s) s1"
    if "booked s1 = booked s" for s1 :: "'a pay_db_scheme" and i g h
    by (rule keep_try [OF dis [OF that]]) (rule settle)+
  show ?thesis
    unfolding handle_event_def wps_bnd wps_find_row sum.case wps_if wps_ret
    using rest by (auto simp: wp booked_def split: option.split)
qed

lemma bare_handles: "\<forall>e \<in> set es. bare_event e \<Longrightarrow> wallet_provider p s \<Longrightarrow> wps (handle_events w p org es) (\<lambda>r s'. booked s' = booked s) s"
proof (induction es arbitrary: s)
  case (Cons e es)
  have "wps (bnd (handle_events w p org es) (\<lambda>n. ret (f n))) (\<lambda>r s'. booked s' = booked s) s1"
    if s1: "booked s1 = booked s" for s1 :: "'a pay_db_scheme" and f :: "nat \<Rightarrow> nat"
  proof -
    have "wallet_provider p s1" using Cons.prems(2) s1 by (simp add: wallet_provider_def booked_def)
    with Cons have "wps (handle_events w p org es) (\<lambda>r s'. booked s' = booked s1) s1" by simp
    then show ?thesis unfolding wps_bnd wps_ret by (rule wps_mono) (auto simp: s1 split: sum.split)
  qed
  then show ?case
    unfolding handle_events.simps wps_bnd [of "handle_event _ _ _ _"]
    by (intro wps_mono [OF bare_handle]) (use Cons.prems in \<open>auto split: sum.split\<close>)
qed (simp add: wp)

lemma wallet_incoming:
  assumes "wallet_world w" and "wallet_provider p s"
  shows "wps (handleIncoming w p body hs) (\<lambda>r s'. booked s' = booked s) s"
proof -
  obtain r s1 where res: "resolve_provider w p s = (r, s1)" by (cases "resolve_provider w p s")
  have s1: "s1 = s" using resolve_provider_config [OF refl res] by simp
  show ?thesis
  proof (cases r)
    case (Inl x)
    then show ?thesis by (simp add: handleIncoming_def wps_run bnd_def res s1)
  next
    case (Inr rp)
    from assms obtain prov L where prov: "List.find (\<lambda>r. pp_id r = p) (paymentProviders s) = Some prov" "pp_type prov \<in> {EASYPAISA, JAZZCASH}"
      and L: "adaptersByType (pwo_adapters w) EASYPAISA = Some (easypaisa_adapter L)" "adaptersByType (pwo_adapters w) JAZZCASH = Some (jazzcash_adapter L)"
      by (auto simp: wallet_provider_def wallet_world_def)
    have "rp_adapter rp \<in> {easypaisa_adapter L, jazzcash_adapter L}"
      using res Inr prov L by (auto simp: resolve_provider_def find_or_throw_def find_row_def gets_def bnd_def getAdapter_def ret_def throw_def
          split: prod.splits sum.splits option.splits)
    then have bare: "\<forall>e \<in> set es. bare_event e" if "ad_normalizeWebhookEvent (rp_adapter rp) body hs = Inr es" for es
      using that wallet_events_bare by (auto simp: easypaisa_adapter_def jazzcash_adapter_def)
    have step: "wps (bnd (resolve_provider w p) k) Q s \<longleftrightarrow> wps (k rp) Q s" for k and Q :: "exn + nat \<times> nat \<Rightarrow> 'a pay_db_scheme \<Rightarrow> bool"
      by (simp add: wps_run bnd_def res s1 Inr)
    have handled: "wps (bnd (handle_events w p org es) (\<lambda>n. ret (length es, n))) (\<lambda>r s'. booked s' = booked s) s"
      if "ad_normalizeWebhookEvent (rp_adapter rp) body hs = Inr es" for es org
      unfolding wps_bnd wps_ret by (rule wps_mono [OF bare_handles [OF bare [OF that] assms(2)]]) (auto split: sum.split)
    show ?thesis
      unfolding handleIncoming_def step by (auto simp: wps_seq wps_guard wps_throw handled split: sum.split)
  qed
qed

text \<open>Easypaisa and JazzCash callbacks name no currency and no subscription, and nothing relates them to the checkout that was opened. The dispatcher books a transaction
  only with a currency, so however many payments are made through these gateways, and however they are signed, no transaction, no
  renewal, no entry of the ledger and no event of the platform ever comes of them.
\<close>

theorem wallet_payments_unbooked:
  assumes "\<forall>(w, body, hs) \<in> set calls. wallet_world w" and "wallet_provider p s"
  shows "booked (fold (\<lambda>(w, body, hs) s. snd (handleIncoming w p body hs s)) calls s) = booked s"
  using assms
proof (induction calls arbitrary: s)
  case (Cons c calls)
  obtain w body hs where c: "c = (w, body, hs)" by (cases c)
  let ?s = "snd (handleIncoming w p body hs s)"
  have same: "booked ?s = booked s"
    using wallet_incoming [of w p s body hs] Cons.prems c by (simp add: wps_run)
  then have "wallet_provider p ?s" using Cons.prems(2) by (simp add: wallet_provider_def booked_def)
  with Cons same c show ?case by simp
qed simp

section \<open>Providers without callbacks\<close>

text \<open>Whatever is posted to a manual or bank transfer provider is accepted and ignored: nothing changes.\<close>

theorem manual_webhook_inert:
  assumes "List.find (\<lambda>r. pp_id r = p) (paymentProviders s) = Some provider"
    and "adaptersByType (pwo_adapters w) (pp_type provider) \<in> {Some manual_adapter, Some bank_adapter}"
    and "resolveForAdapter w p s = (Inr cr, s)"
  shows "handleIncoming w p body hs s = (Inr (0, 0), s)"
proof -
  obtain rp where "resolve_provider w p s = (Inr rp, s)" "rp_adapter rp \<in> {manual_adapter, bank_adapter}"
    using assms resolve_ok [OF assms(1) _ assms(3), of manual_adapter] resolve_ok [OF assms(1) _ assms(3), of bank_adapter] by auto
  then show ?thesis
    by (auto simp: handleIncoming_def bnd_def seq_def guard_or_def ret_def manual_adapter_def bank_adapter_def)
qed

section \<open>Witnesses\<close>

definition toy_libs :: gateway_libs where
  "toy_libs = \<lparr>gl_hmac = (\<lambda>k m. map of_char (k @ m)), gl_text = (\<lambda>l. l), gl_number = (\<lambda>_. None), gl_buffer = (\<lambda>_. Inl ''TypeError''),
     gl_date = (\<lambda>_. 0), gl_uuid = ''0a1b2c3d4e'', gl_now = 0, gl_remote = (\<lambda>_ _ _. Inl ''offline'')\<rparr>"

definition toy_keys :: credentials where
  "toy_keys = [(''HASH_KEY'', ''k''), (''MERCHANT_ID'', ''M1'')]"

definition toy_checkout :: "string \<Rightarrow> checkout_input" where
  "toy_checkout url = \<lparr>ci_externalCustomerId = None, ci_priceId = ''p'', ci_providerPriceRef = None, ci_amountMinor = 1999,
     ci_currency = ''PKR'', ci_successUrl = Some url, ci_cancelUrl = None, ci_metadata = None, ci_credentials = toy_keys, ci_account = None\<rparr>"

definition toy_hash :: "string \<Rightarrow> string" where
  "toy_hash url = hex_encode (gl_hmac toy_libs ''k'' (canonical (easypaisa_fields toy_libs ''M1'' (toy_checkout url))))"

lemma toy_sign: "easypaisa_sign toy_libs (easypaisa_fields toy_libs ''M1'' (toy_checkout url)) toy_keys = Inr (toy_hash url)"
  by (simp add: easypaisa_sign_def requireCredential_def toy_keys_def toy_hash_def)

theorem separator_forges_payment_witness:
  "let L = toy_libs\<lparr>gl_hmac := (\<lambda>_ _. [7])\<rparr>; x = toy_checkout ''https://x?a=1&responseCode=0000'' in
   easypaisa_verifyWebhook L (forged_callback L ''M1'' x ''https://x?a=1'' (hex_encode [7])) [] toy_keys = Inr True"
  unfolding Let_def
  using separator_forges_payment [of "toy_checkout ''https://x?a=1&responseCode=0000''" "''https://x?a=1''" toy_keys "''k''"
      "toy_libs\<lparr>gl_hmac := (\<lambda>_ _. [7])\<rparr>" "''M1''" "hex_encode [7]" "[]"]
  by (simp add: toy_checkout_def toy_keys_def easypaisa_sign_def requireCredential_def)

text \<open>The customer posts the fields of the link as they are.\<close>

definition honest_callback :: string where
  "honest_callback = json_stringify (JObj [(''amount'', JStr ''19.99''), (''autoRedirect'', JStr ''1''), (''hash'', JStr (toy_hash ''https://x'')),
     (''orderRefNum'', JStr ''EP-0-0a1b2c3d''), (''postBackURL'', JStr ''https://x''), (''storeId'', JStr ''M1'')])"

definition honest_fields :: "(string \<times> jval) list" where
  "honest_fields = [(''amount'', VStr ''19.99''), (''autoRedirect'', VStr ''1''), (''hash'', VStr (toy_hash ''https://x'')),
     (''orderRefNum'', VStr ''EP-0-0a1b2c3d''), (''postBackURL'', VStr ''https://x''), (''storeId'', VStr ''M1'')]"

theorem checkout_hash_proves_no_payment_witness:
  "\<exists>ev. easypaisa_normalize toy_libs honest_callback [] = Inr [ev] \<and> pe_type ev = payment_event_type.PAYMENT_FAILED"
proof -
  have inj: "gl_hmac toy_libs k a = gl_hmac toy_libs k b \<longrightarrow> a = b" for k a b
    using inj_map_eq_map [of "of_char :: char \<Rightarrow> nat" a b] by (auto simp: toy_libs_def inj_def)
  have parsed: "json_parse honest_callback = Some (VObj honest_fields)"
    unfolding honest_callback_def honest_fields_def by (subst json_roundtrip) simp_all
  have accepted: "easypaisa_verifyWebhook toy_libs honest_callback [] toy_keys = Inr True" by code_simp
  have clean: "\<forall>f \<in> set (signed_fields toy_libs honest_fields) \<union> set (easypaisa_fields toy_libs ''M1'' (toy_checkout ''https://x'')). clean f" by code_simp
  have hash: "map_of honest_fields ''hash'' = Some (VStr (toy_hash ''https://x''))" by (simp add: honest_fields_def)
  have "\<forall>k m. \<forall>b \<in> set (gl_hmac toy_libs k m). b < 256" by (auto simp: toy_libs_def)
  from checkout_hash_proves_no_payment [OF toy_sign accepted parsed hash this _ clean] inj
  have "\<forall>evs. easypaisa_normalize toy_libs honest_callback [] = Inr evs \<longrightarrow> (\<forall>ev \<in> set evs. pe_type ev = payment_event_type.PAYMENT_FAILED)"
    by blast
  moreover have "\<exists>ev. easypaisa_normalize toy_libs honest_callback [] = Inr [ev]"
    by (simp add: easypaisa_normalize_def parsed honest_fields_def wallet_event_def field_def coalesce_def text_column_def)
  ultimately show ?thesis by auto
qed

definition sample_wallet :: pay_db where
  "sample_wallet = sample_pay\<lparr>paymentProviders := [\<lparr>pp_id = 8, pp_organizationId = 9, pp_type = EASYPAISA\<rparr>], paymentTransactions := [],
     providerCredentials := [\<lparr>prc_id = 1, prc_providerId = 8, prc_key = ''HASH_KEY'', prc_encryptedValue = ''k'', prc_iv = [], prc_authTag = [],
       prc_lastFour = None, prc_createdById = 1, prc_createdAt = 0, prc_rotatedAt = None\<rparr>]\<rparr>"

definition paid_callback :: string where
  "paid_callback = (let fs = [(''amount'', ''19.99''), (''responseCode'', ''0000''), (''transactionId'', ''tx-1'')] in
     json_stringify (JObj (map (\<lambda>(k, v). (k, JStr v)) (fs @ [(''hash'', hex_encode (gl_hmac toy_libs ''k'' (canonical fs)))]))))"

definition wallet_sample_world :: pay_world where
  "wallet_sample_world = silent_world [(EASYPAISA, easypaisa_adapter toy_libs), (JAZZCASH, jazzcash_adapter toy_libs)]"

lemma paid_callback_acknowledged: "fst (handleIncoming wallet_sample_world 8 paid_callback [] sample_wallet) = Inr (1, 1)"
  by code_simp

theorem wallet_payments_unbooked_witness:
  "let s' = snd (handleIncoming wallet_sample_world 8 paid_callback [] sample_wallet) in
   fst (handleIncoming wallet_sample_world 8 paid_callback [] sample_wallet) = Inr (1, 1) \<and> booked s' = booked sample_wallet"
proof -
  have "wallet_world wallet_sample_world"
    by (auto simp: wallet_world_def wallet_sample_world_def silent_world_def adaptersByType_def)
  moreover have "wallet_provider 8 sample_wallet" by (simp add: wallet_provider_def sample_wallet_def)
  ultimately show ?thesis
    using wallet_payments_unbooked [of "[(wallet_sample_world, paid_callback, [])]" 8 sample_wallet] paid_callback_acknowledged
    by (simp add: Let_def)
qed

definition sample_paypal :: pay_db where
  "sample_paypal = sample_pay\<lparr>paymentProviders := [\<lparr>pp_id = 8, pp_organizationId = 9, pp_type = PAYPAL\<rparr>],
     subscriptions := [sample_sub\<lparr>sub_providerSubscriptionId := Some ''I-1''\<rparr>]\<rparr>"

theorem paypal_unsigned_renews_witness:
  "let hs = [(''paypal-transmission-id'', ''x''), (''paypal-transmission-time'', ''x''), (''paypal-transmission-sig'', ''x''), (''paypal-cert-url'', ''x'')];
       w = silent_world [(PAYPAL, paypal_adapter toy_libs (\<lambda>_ _. Inl ''offline''))] in
   \<exists>s'. handleIncoming w 8 (paypal_renewal ''any'' ''I-1'') hs sample_paypal = (Inr (1, 1), s')
     \<and> map_option sub_currentPeriodEnd (List.find (\<lambda>r. sub_id r = 10) (subscriptions s'))
       = Some (Some (addBillingInterval 2678400000 (price_interval sample_price) (price_intervalCount sample_price)))"
  unfolding Let_def
  by (rule paypal_unsigned_renews [where provider = "\<lparr>pp_id = 8, pp_organizationId = 9, pp_type = PAYPAL\<rparr>" and cr = "[]"])
    (simp_all add: sample_paypal_def sample_pay_defs renewable_def silent_world_def adaptersByType_def resolveForAdapter_def
      same_transaction_def bnd_def gets_def ret_def)

section \<open>Prices that PayPal's amounts miss\<close>

text \<open>\<open>Number("19.99") * 100\<close> is not an integer, and a column of integers refuses it.\<close>

lemma paypal_amount_refused: "case js_times (js_number_of toy_libs (Some (VStr ''19.99''))) 100 of Some x \<Rightarrow> of_int \<lfloor>x\<rfloor> \<noteq> x | None \<Rightarrow> False"
  by code_simp

end
