(* ===== verification/Query.thy ===== *)
theory Query
  imports Pagination Members "HOL-Library.Sublist"
begin

text \<open>
  The \<open>where\<close> arguments of Prisma's \<open>findMany\<close> as the services put them together: object literals with
  named conditions, spread into one another (\<open>{ ...a, ...b }\<close>), where a later key replaces an earlier one of the same
  name; case-insensitive search; and the page a list endpoint answers with. Two orders of spreading
  occur in the code, and the lemmas say what each makes of a search together with a cursor.
\<close>

section \<open>Object literals of conditions\<close>

type_synonym 'r where_obj = "(string \<times> ('r \<Rightarrow> bool)) list"

definition spread :: "'r where_obj \<Rightarrow> 'r where_obj \<Rightarrow> 'r where_obj" where
  "spread a b = filter (\<lambda>c. fst c \<notin> set (map fst b)) a @ b"

definition matches :: "'r where_obj \<Rightarrow> 'r \<Rightarrow> bool" where
  "matches w r \<longleftrightarrow> (\<forall>c \<in> set w. snd c r)"

text \<open>\<open>...(b ? w : {})\<close>.\<close>

definition spread_if :: "bool \<Rightarrow> 'r where_obj \<Rightarrow> 'r where_obj" where
  "spread_if b w = (if b then w else [])"

text \<open>What \<open>buildCursorWhereClause\<close> returns, an object with the key \<open>OR\<close>, spread as \<open>...(cursorWhere ?? {})\<close>.\<close>

definition cursor_obj :: "('r \<Rightarrow> time) \<Rightarrow> ('r \<Rightarrow> string) \<Rightarrow> (time \<Rightarrow> string \<Rightarrow> bool) option \<Rightarrow> 'r where_obj" where
  "cursor_obj tm ident w = (case w of None \<Rightarrow> [] | Some P \<Rightarrow> [(''OR'', \<lambda>r. P (tm r) (ident r))])"

text \<open>\<open>{ contains: needle, mode: "insensitive" }\<close> on a column, which may be null.\<close>

definition contains_ci :: "string \<Rightarrow> string \<Rightarrow> bool" where
  "contains_ci needle hay \<longleftrightarrow> sublist (map lower needle) (map lower hay)"

definition contains_opt :: "string \<Rightarrow> string option \<Rightarrow> bool" where
  "contains_opt needle hay = (case hay of None \<Rightarrow> False | Some h \<Rightarrow> contains_ci needle h)"

text \<open>\<open>orderBy: { column: "desc" }\<close> on a nullable column: PostgreSQL puts nulls first.\<close>

definition order_desc_null :: "('r \<Rightarrow> time option) \<Rightarrow> 'r list \<Rightarrow> 'r list" where
  "order_desc_null k rows = filter (\<lambda>r. k r = None) rows @ order_by (\<lambda>r. - the (k r)) (filter (\<lambda>r. k r \<noteq> None) rows)"

section \<open>Pages\<close>

text \<open>\<open>findMany({ where, orderBy, take: limit + 1 })\<close> and \<open>paginateResults\<close>.\<close>

definition find_page ::
  "('r \<Rightarrow> time) \<Rightarrow> ('r \<Rightarrow> string) \<Rightarrow> ('r list \<Rightarrow> 'r list) \<Rightarrow> 'r where_obj \<Rightarrow> int option \<Rightarrow> 'r list \<Rightarrow> 'r list \<times> string option" where
  "find_page tm ident ord w lmt rows = (let n = normalizePageSize lmt in
     paginateResults tm ident (take (nat (n + 1)) (ord (filter (matches w) rows))) n)"

text \<open>A client that follows the cursors an endpoint answers with, at most \<open>fuel\<close> pages.\<close>

fun follow_pages :: "nat \<Rightarrow> (string option \<Rightarrow> exn + ('r list \<times> string option)) \<Rightarrow> string option \<Rightarrow> 'r list list option" where
  "follow_pages 0 fetch cursor = None"
| "follow_pages (Suc n) fetch cursor = (case fetch cursor of
     Inl e \<Rightarrow> None
   | Inr (items, None) \<Rightarrow> Some [items]
   | Inr (items, Some c) \<Rightarrow> map_option (Cons items) (follow_pages n fetch (Some c)))"

section \<open>What spreading does to a search and a cursor\<close>

named_theorems query

lemma matches_simps [query, simp]:
  "matches [] r" "matches ((k, p) # w) r \<longleftrightarrow> p r \<and> matches w r" "matches (v @ w) r \<longleftrightarrow> matches v r \<and> matches w r"
  by (auto simp: matches_def)

lemma spread_Nil [query, simp]: "spread [] b = b" "spread a [] = a"
  by (simp_all add: spread_def)

lemma spread_Cons [query]: "spread ((k, p) # a) b = (if k \<in> fst ` set b then spread a b else (k, p) # spread a b)"
  by (simp add: spread_def)

text \<open>Conditions with other names survive, and so do those of the later object.\<close>

lemma spread_keeps: "set k \<subseteq> set w \<Longrightarrow> fst ` set v \<inter> fst ` set k = {} \<Longrightarrow> set k \<subseteq> set (spread w v)"
proof
  fix c assume "set k \<subseteq> set w" "fst ` set v \<inter> fst ` set k = {}" "c \<in> set k"
  then have "c \<in> set w" "fst c \<notin> fst ` set v" by blast+
  then show "c \<in> set (spread w v)" by (simp add: spread_def)
qed

lemma spread_later: "set k \<subseteq> set v \<Longrightarrow> set k \<subseteq> set (spread w v)"
  by (auto simp: spread_def)

lemma spread_if_simps [query, simp]: "spread_if True w = w" "spread_if False w = []"
  by (simp_all add: spread_if_def)

lemma cursor_obj_simps [query, simp]: "cursor_obj tm ident None = []" "cursor_obj tm ident (Some P) = [(''OR'', \<lambda>r. P (tm r) (ident r))]"
  by (simp_all add: cursor_obj_def)

text \<open>The later of two objects with the same key decides alone.\<close>

lemma spread_same_key: "spread [(k, p)] [(k, q)] = [(k, q)]"
  by (simp add: query)

text \<open>With a filter that agrees with the cursor's and the cursor's order, a page is the page of Pagination.\<close>

lemma find_page_page:
  assumes "buildCursorWhereClause other cursor = Inr c"
    and "\<And>r. matches w r \<longleftrightarrow> P r \<and> matches (cursor_obj tm ident c) r"
  shows "Inr (find_page tm ident (cursor_order tm ident) w lmt rows) = page other tm ident cursor lmt (filter P rows)"
proof -
  have "filter (matches w) rows = filter (\<lambda>x. case c of None \<Rightarrow> True | Some Q \<Rightarrow> Q (tm x) (ident x)) (filter P rows)"
    using assms(2) by (induction rows) (auto split: option.split)
  then show ?thesis by (simp add: find_page_def page_def assms(1) Let_def)
qed

lemma follow_pages_cong: "(\<And>c. fetch c = page other tm ident c lmt rows) \<Longrightarrow>
   follow_pages n fetch cursor = follow n other tm ident cursor lmt rows"
  by (induction n arbitrary: cursor) (simp_all split: sum.split option.split prod.split)

text \<open>An endpoint that answers every usable cursor with the first page, which has a usable cursor, is never read to the end.\<close>

lemma follow_pages_stuck:
  assumes "fetch None = Inr (items, Some c)" and "fetch (Some c) = fetch None"
  shows "follow_pages n fetch None = None"
proof -
  have "follow_pages n fetch x = None" if "x = None \<or> x = Some c" for x
    using that by (induction n arbitrary: x) (auto simp: assms)
  then show ?thesis by blast
qed

lemma find_page_cursor:
  assumes "find_page tm ident ord w lmt rows = (items, Some c)"
  shows "items \<noteq> [] \<and> c = encodeCursor (tm (last items)) (ident (last items))"
  using assms by (simp add: find_page_def paginateResults_def Let_def split: if_splits)

lemma find_page_rows:
  assumes "find_page tm ident ord w lmt rows = (items, c)" and "\<And>xs. set (ord xs) = set xs"
  shows "set items \<subseteq> {r \<in> set rows. matches w r}"
proof -
  have "set items \<subseteq> set (ord (filter (matches w) rows))"
    using assms(1) by (auto simp: find_page_def paginateResults_def Let_def split: if_splits dest: in_set_takeD)
  then show ?thesis using assms(2) by auto
qed

lemma encodeCursor_truthy: "cursor_ok t i \<Longrightarrow> truthy (Some (encodeCursor t i))"
  using decode_encode [of t i "\<lambda>_. None"] by (cases "encodeCursor t i") (simp_all add: decodeCursor_def unbase64_def)

lemma cursor_clause_encode:
  "cursor_ok t i \<Longrightarrow> buildCursorWhereClause other (Some (encodeCursor t i)) = Inr (Some (\<lambda>t' i'. t' < t \<or> t' = t \<and> i' < i))"
  using encodeCursor_truthy [of t i] by (simp add: buildCursorWhereClause_def decode_encode)

lemma set_order_desc_null [simp]: "set (order_desc_null k rows) = set rows"
  by (auto simp: order_desc_null_def order_by_def)

lemma set_order_by [simp]: "set (order_by k rows) = set rows"
  by (simp add: order_by_def)

end
