(* ===== verification/Store.thy ===== *)
theory Store
  imports Membership Query
begin

text \<open>
  The marketplace: listings of applications (marketplace/listings.service.ts), the taxonomy
  (marketplace/marketplace-taxonomy.service.ts), the public store (marketplace/marketplace-store.service.ts) and the
  reviews of listings with their replies and reports (reviews/). The tables extend the database of Members with the
  customers, whose service is in Admin; of the features of an application the store reads the names only. Averages are exact rationals.
\<close>

section \<open>Rows\<close>

datatype ListingStatus = DRAFT | PUBLISHED | UNPUBLISHED | ARCHIVED

datatype ListingVisibility = PUBLIC | PRIVATE | INVITE_ONLY | INTERNAL

datatype MediaAssetType = ICON | SCREENSHOT | VIDEO

datatype ReviewReportStatus = PENDING | REVIEWED | DISMISSED

datatype CustomerType = INDIVIDUAL | ORGANIZATION | EXTERNAL

datatype CustomerStatus = ACTIVE | SUSPENDED

record market_category =
  mc_id :: id
  mc_name :: string
  mc_slug :: string
  mc_description :: "string option"
  mc_createdAt :: time

record market_tag =
  mt_id :: id
  mt_name :: string
  mt_slug :: string
  mt_createdAt :: time

record listing_row =
  lst_id :: id
  lst_applicationId :: id
  lst_tagline :: "string option"
  lst_description :: "string option"
  lst_status :: ListingStatus
  lst_visibility :: ListingVisibility
  lst_publishedAt :: "time option"
  lst_unpublishedAt :: "time option"
  lst_installCount :: int
  lst_createdById :: id
  lst_createdAt :: time

record listing_category =
  lc_listingId :: id
  lc_categoryId :: id

record listing_tag =
  lt_listingId :: id
  lt_tagId :: id

record listing_media =
  lm_id :: id
  lm_listingId :: id
  lm_type :: MediaAssetType
  lm_url :: string
  lm_caption :: "string option"
  lm_position :: int

record listing_changelog =
  lcl_id :: id
  lcl_listingId :: id
  lcl_version :: string
  lcl_notes :: string
  lcl_publishedAt :: time

record listing_invite =
  li_id :: id
  li_listingId :: id
  li_email :: string
  li_invitedById :: id
  li_createdAt :: time

record customer_profile =
  cp_id :: id
  cp_organizationId :: id
  cp_applicationId :: "id option"
  cp_userId :: "id option"
  cp_type :: CustomerType
  cp_status :: CustomerStatus
  cp_suspendedAt :: "time option"
  cp_displayName :: "string option"
  cp_email :: "string option"
  cp_externalIds :: "json option"
  cp_metadata :: "json option"
  cp_createdAt :: time

record review_row =
  rv_id :: id
  rv_listingId :: id
  rv_customerId :: id
  rv_rating :: int
  rv_title :: "string option"
  rv_body :: "string option"
  rv_createdAt :: time
  rv_editedAt :: "time option"
  rv_deletedAt :: "time option"

record review_reply =
  rp_id :: id
  rp_reviewId :: id
  rp_authorId :: id
  rp_body :: string
  rp_createdAt :: time

record review_report =
  rr_id :: id
  rr_reviewId :: id
  rr_reportedById :: id
  rr_reason :: string
  rr_status :: ReviewReportStatus
  rr_createdAt :: time
  rr_resolvedAt :: "time option"

record app_feature =
  af_applicationId :: id
  af_name :: string

record store_db = member_db +
  marketCategories :: "market_category list"
  marketTags :: "market_tag list"
  listings :: "listing_row list"
  listingCategories :: "listing_category list"
  listingTags :: "listing_tag list"
  listingMedia :: "listing_media list"
  listingChangelogs :: "listing_changelog list"
  listingInvites :: "listing_invite list"
  customerProfiles :: "customer_profile list"
  reviews :: "review_row list"
  reviewReplies :: "review_reply list"
  reviewReports :: "review_report list"
  appFeatures :: "app_feature list"

section \<open>ListingsService\<close>

definition new_listing :: "id \<Rightarrow> time \<Rightarrow> id \<Rightarrow> id \<Rightarrow> listing_row" where
  "new_listing i t app userId = \<lparr>lst_id = i, lst_applicationId = app, lst_tagline = None, lst_description = None,
     lst_status = ListingStatus.DRAFT, lst_visibility = ListingVisibility.PRIVATE, lst_publishedAt = None, lst_unpublishedAt = None,
     lst_installCount = 0, lst_createdById = userId, lst_createdAt = t\<rparr>"

definition listing_getOrCreate :: "id \<Rightarrow> id \<Rightarrow> ('z store_db_scheme, listing_row) svc" where
  "listing_getOrCreate app userId = bnd (find_row listings (\<lambda>l. lst_applicationId l = app)) (\<lambda>existing. case existing of
     Some l \<Rightarrow> ret l
   | None \<Rightarrow> bnd fresh (\<lambda>i. bnd now (\<lambda>t.
       insert_unique listings listings_update (\<lambda>l. lst_applicationId l = app) (new_listing i t app userId))))"

definition requireListing :: "id \<Rightarrow> ('z store_db_scheme, listing_row) svc" where
  "requireListing app = bnd (find_row listings (\<lambda>l. lst_applicationId l = app)) (\<lambda>r. case r of
     None \<Rightarrow> throw (NotFoundException ''This application has no marketplace listing yet'')
   | Some l \<Rightarrow> ret l)"

text \<open>The categories and tags of a listing, through the join tables.\<close>

definition categories_of :: "'z store_db_scheme \<Rightarrow> id \<Rightarrow> market_category list" where
  "categories_of s l = List.map_filter (\<lambda>j. if lc_listingId j = l then List.find (\<lambda>c. mc_id c = lc_categoryId j) (marketCategories s) else None) (listingCategories s)"

definition tags_of :: "'z store_db_scheme \<Rightarrow> id \<Rightarrow> market_tag list" where
  "tags_of s l = List.map_filter (\<lambda>j. if lt_listingId j = l then List.find (\<lambda>t. mt_id t = lt_tagId j) (marketTags s) else None) (listingTags s)"

definition media_of :: "'z store_db_scheme \<Rightarrow> id \<Rightarrow> listing_media list" where
  "media_of s l = order_by lm_position (filter (\<lambda>m. lm_listingId m = l) (listingMedia s))"

definition changelogs_of :: "'z store_db_scheme \<Rightarrow> id \<Rightarrow> listing_changelog list" where
  "changelogs_of s l = order_by (\<lambda>c. - lcl_publishedAt c) (filter (\<lambda>c. lcl_listingId c = l) (listingChangelogs s))"

record listing_detail =
  ldt_listing :: listing_row
  ldt_categories :: "market_category list"
  ldt_tags :: "market_tag list"
  ldt_media :: "listing_media list"
  ldt_changelogs :: "listing_changelog list"
  ldt_invites :: "listing_invite list"

definition getForApplication :: "id \<Rightarrow> ('z store_db_scheme, listing_detail) svc" where
  "getForApplication app = bnd (requireListing app) (\<lambda>l. gets (\<lambda>s.
     \<lparr>ldt_listing = l, ldt_categories = categories_of s (lst_id l), ldt_tags = tags_of s (lst_id l), ldt_media = media_of s (lst_id l),
      ldt_changelogs = changelogs_of s (lst_id l), ldt_invites = filter (\<lambda>i. li_listingId i = lst_id l) (listingInvites s)\<rparr>))"

record upsert_listing_dto =
  ul_tagline :: "string option"
  ul_description :: "string option"
  ul_visibility :: "ListingVisibility option"

definition listing_patch :: "upsert_listing_dto \<Rightarrow> listing_row \<Rightarrow> listing_row" where
  "listing_patch dto l = l\<lparr>lst_tagline := keepOpt (ul_tagline dto) (lst_tagline l),
     lst_description := keepOpt (ul_description dto) (lst_description l), lst_visibility := keepUndef (ul_visibility dto) (lst_visibility l)\<rparr>"

definition listing_audit :: "string \<Rightarrow> id \<Rightarrow> id \<Rightarrow> listing_row \<Rightarrow> request_meta \<Rightarrow> ('z store_db_scheme, unit) svc" where
  "listing_audit act userId app l meta = audit act (Some userId) None (Some app) [(''listingId'', JId (lst_id l))] meta"

definition listing_upsert :: "id \<Rightarrow> upsert_listing_dto \<Rightarrow> id \<Rightarrow> request_meta \<Rightarrow> ('z store_db_scheme, listing_row) svc" where
  "listing_upsert app dto userId meta =
     bnd (listing_getOrCreate app userId) (\<lambda>l.
     bnd (update_row listings listings_update (\<lambda>x. lst_id x = lst_id l) (listing_patch dto)) (\<lambda>updated.
     seq (listing_audit ''LISTING_UPDATED'' userId app updated meta) (ret updated)))"

definition listing_publish :: "id \<Rightarrow> id \<Rightarrow> request_meta \<Rightarrow> ('z store_db_scheme, listing_row) svc" where
  "listing_publish app userId meta =
     bnd (requireListing app) (\<lambda>l. bnd now (\<lambda>t.
     bnd (update_row listings listings_update (\<lambda>x. lst_id x = lst_id l)
       (\<lambda>x. x\<lparr>lst_status := ListingStatus.PUBLISHED, lst_publishedAt := Some t, lst_unpublishedAt := None\<rparr>)) (\<lambda>updated.
     seq (listing_audit ''LISTING_PUBLISHED'' userId app updated meta) (ret updated))))"

definition listing_unpublish :: "id \<Rightarrow> id \<Rightarrow> request_meta \<Rightarrow> ('z store_db_scheme, listing_row) svc" where
  "listing_unpublish app userId meta =
     bnd (requireListing app) (\<lambda>l. bnd now (\<lambda>t.
     bnd (update_row listings listings_update (\<lambda>x. lst_id x = lst_id l)
       (\<lambda>x. x\<lparr>lst_status := ListingStatus.UNPUBLISHED, lst_unpublishedAt := Some t\<rparr>)) (\<lambda>updated.
     seq (listing_audit ''LISTING_UNPUBLISHED'' userId app updated meta) (ret updated))))"

definition listing_archive :: "id \<Rightarrow> id \<Rightarrow> request_meta \<Rightarrow> ('z store_db_scheme, listing_row) svc" where
  "listing_archive app userId meta =
     bnd (requireListing app) (\<lambda>l. bnd now (\<lambda>t.
     bnd (update_row listings listings_update (\<lambda>x. lst_id x = lst_id l)
       (\<lambda>x. x\<lparr>lst_status := ListingStatus.ARCHIVED, lst_unpublishedAt := Some t\<rparr>)) (\<lambda>updated.
     seq (listing_audit ''LISTING_ARCHIVED'' userId app updated meta) (ret updated))))"

text \<open>\<open>createMany\<close> with \<open>skipDuplicates\<close>, on join rows whose other end is checked by a foreign key.\<close>

definition setCategories :: "id \<Rightarrow> id list \<Rightarrow> ('z store_db_scheme, listing_detail) svc" where
  "setCategories app ids =
     bnd (requireListing app) (\<lambda>l.
     seq (transaction
       (seq (modify (listingCategories_update (filter (\<lambda>j. lc_listingId j \<noteq> lst_id l))))
       (bnd (gets (\<lambda>s. map mc_id (marketCategories s))) (\<lambda>known.
       seq (guard_or (\<forall>i \<in> set ids. i \<in> set known) (PrismaError ''P2003''))
           (modify (listingCategories_update (\<lambda>js. js @ map (\<lambda>i. \<lparr>lc_listingId = lst_id l, lc_categoryId = i\<rparr>) (remdups ids))))))))
       (getForApplication app))"

definition setTags :: "id \<Rightarrow> id list \<Rightarrow> ('z store_db_scheme, listing_detail) svc" where
  "setTags app ids =
     bnd (requireListing app) (\<lambda>l.
     seq (transaction
       (seq (modify (listingTags_update (filter (\<lambda>j. lt_listingId j \<noteq> lst_id l))))
       (bnd (gets (\<lambda>s. map mt_id (marketTags s))) (\<lambda>known.
       seq (guard_or (\<forall>i \<in> set ids. i \<in> set known) (PrismaError ''P2003''))
           (modify (listingTags_update (\<lambda>js. js @ map (\<lambda>i. \<lparr>lt_listingId = lst_id l, lt_tagId = i\<rparr>) (remdups ids))))))))
       (getForApplication app))"

record add_media_dto =
  amd_type :: MediaAssetType
  amd_url :: string
  amd_caption :: "string option"
  amd_position :: "int option"

definition addMedia :: "id \<Rightarrow> add_media_dto \<Rightarrow> ('z store_db_scheme, listing_media) svc" where
  "addMedia app dto = bnd (requireListing app) (\<lambda>l. bnd fresh (\<lambda>i. insert_row listingMedia_update
     \<lparr>lm_id = i, lm_listingId = lst_id l, lm_type = amd_type dto, lm_url = amd_url dto, lm_caption = amd_caption dto,
      lm_position = orElse (amd_position dto) 0\<rparr>))"

definition removeMedia :: "id \<Rightarrow> id \<Rightarrow> ('z store_db_scheme, unit) svc" where
  "removeMedia app mediaId =
     bnd (requireListing app) (\<lambda>l.
     bnd (find_row listingMedia (\<lambda>m. lm_id m = mediaId)) (\<lambda>media.
     seq (guard_or (case media of None \<Rightarrow> False | Some m \<Rightarrow> lm_listingId m = lst_id l) (NotFoundException ''Media asset not found on this listing''))
         (modify (listingMedia_update (filter (\<lambda>m. lm_id m \<noteq> mediaId))))))"

definition addChangelog :: "id \<Rightarrow> string \<Rightarrow> string \<Rightarrow> ('z store_db_scheme, listing_changelog) svc" where
  "addChangelog app version notes = bnd (requireListing app) (\<lambda>l. bnd fresh (\<lambda>i. bnd now (\<lambda>t. insert_row listingChangelogs_update
     \<lparr>lcl_id = i, lcl_listingId = lst_id l, lcl_version = version, lcl_notes = notes, lcl_publishedAt = t\<rparr>)))"

definition listing_invite_email :: "id \<Rightarrow> string \<Rightarrow> id \<Rightarrow> ('z store_db_scheme, listing_invite) svc" where
  "listing_invite_email app email invitedById =
     bnd (requireListing app) (\<lambda>l.
     bnd (find_row listingInvites (\<lambda>i. li_listingId i = lst_id l \<and> li_email i = email)) (\<lambda>existing.
     seq (guard_or (existing = None) (ConflictException ''This email is already invited to the listing''))
     (bnd fresh (\<lambda>i. bnd now (\<lambda>t. insert_unique listingInvites listingInvites_update (\<lambda>x. li_listingId x = lst_id l \<and> li_email x = email)
        \<lparr>li_id = i, li_listingId = lst_id l, li_email = email, li_invitedById = invitedById, li_createdAt = t\<rparr>)))))"

definition listing_revokeInvite :: "id \<Rightarrow> id \<Rightarrow> ('z store_db_scheme, unit) svc" where
  "listing_revokeInvite app inviteId =
     bnd (requireListing app) (\<lambda>l.
     bnd (find_row listingInvites (\<lambda>i. li_id i = inviteId)) (\<lambda>invite.
     seq (guard_or (case invite of None \<Rightarrow> False | Some i \<Rightarrow> li_listingId i = lst_id l) (NotFoundException ''Invite not found on this listing''))
         (modify (listingInvites_update (filter (\<lambda>i. li_id i \<noteq> inviteId))))))"

section \<open>MarketplaceTaxonomyService\<close>

text \<open>\<open>orderBy: { name: "asc" }\<close>.\<close>

definition taxonomy_listCategories :: "('z store_db_scheme, market_category list) svc" where
  "taxonomy_listCategories = gets (\<lambda>s. sort_key mc_name (marketCategories s))"

definition taxonomy_createCategory :: "string \<Rightarrow> string \<Rightarrow> string option \<Rightarrow> id \<Rightarrow> request_meta \<Rightarrow> ('z store_db_scheme, market_category) svc" where
  "taxonomy_createCategory name slug description userId meta =
     bnd (find_row marketCategories (\<lambda>c. mc_name c = name \<or> mc_slug c = slug)) (\<lambda>existing.
     seq (guard_or (existing = None) (ConflictException ''A category with this name or slug already exists''))
     (bnd fresh (\<lambda>i. bnd now (\<lambda>t.
      bnd (insert_unique marketCategories marketCategories_update (\<lambda>c. mc_name c = name \<or> mc_slug c = slug)
        \<lparr>mc_id = i, mc_name = name, mc_slug = slug, mc_description = description, mc_createdAt = t\<rparr>) (\<lambda>category.
      seq (audit ''MARKETPLACE_CATEGORY_CREATED'' (Some userId) None None [(''categoryId'', JId (mc_id category))] meta) (ret category))))))"

definition taxonomy_listTags :: "('z store_db_scheme, market_tag list) svc" where
  "taxonomy_listTags = gets (\<lambda>s. sort_key mt_name (marketTags s))"

definition taxonomy_createTag :: "string \<Rightarrow> string \<Rightarrow> id \<Rightarrow> request_meta \<Rightarrow> ('z store_db_scheme, market_tag) svc" where
  "taxonomy_createTag name slug userId meta =
     bnd (find_row marketTags (\<lambda>c. mt_name c = name \<or> mt_slug c = slug)) (\<lambda>existing.
     seq (guard_or (existing = None) (ConflictException ''A tag with this name or slug already exists''))
     (bnd fresh (\<lambda>i. bnd now (\<lambda>t.
      bnd (insert_unique marketTags marketTags_update (\<lambda>c. mt_name c = name \<or> mt_slug c = slug)
        \<lparr>mt_id = i, mt_name = name, mt_slug = slug, mt_createdAt = t\<rparr>) (\<lambda>tag.
      seq (audit ''MARKETPLACE_TAG_CREATED'' (Some userId) None None [(''tagId'', JId (mt_id tag))] meta) (ret tag))))))"

section \<open>MarketplaceStoreService\<close>

text \<open>\<open>PUBLIC_WHERE\<close>.\<close>

definition PUBLIC_WHERE :: "listing_row where_obj" where
  "PUBLIC_WHERE = [(''status'', \<lambda>l. lst_status l = ListingStatus.PUBLISHED), (''visibility'', \<lambda>l. lst_visibility l = ListingVisibility.PUBLIC)]"

text \<open>\<open>LISTING_CARD_INCLUDE\<close>: what a listing is shown with.\<close>

definition app_of :: "'z store_db_scheme \<Rightarrow> listing_row \<Rightarrow> app_entry option" where
  "app_of s l = List.find (\<lambda>a. ap_id a = lst_applicationId l) (appEntries s)"

record app_summary =
  as_id :: id
  as_name :: string
  as_slug :: string
  as_iconUrl :: "string option"
  as_organizationId :: id

record listing_card =
  lcd_listing :: listing_row
  lcd_application :: "app_summary option"
  lcd_categories :: "market_category list"
  lcd_tags :: "market_tag list"

definition listing_card_of :: "'z store_db_scheme \<Rightarrow> listing_row \<Rightarrow> listing_card" where
  "listing_card_of s l = \<lparr>lcd_listing = l,
     lcd_application = map_option (\<lambda>a. \<lparr>as_id = ap_id a, as_name = ap_name a, as_slug = ap_slug a, as_iconUrl = ap_iconUrl a,
       as_organizationId = ap_organizationId a\<rparr>) (app_of s l),
     lcd_categories = categories_of s (lst_id l), lcd_tags = tags_of s (lst_id l)\<rparr>"

datatype StoreSort = featured | recent | popular | top_rated | newest

record store_query =
  sq_q :: "string option"
  sq_category :: "string option"
  sq_tag :: "string option"
  sq_sort :: "StoreSort option"
  sq_cursor :: "string option"
  sq_limit :: "int option"

fun resolveSort :: "StoreSort option \<Rightarrow> listing_row list \<Rightarrow> listing_row list" where
  "resolveSort (Some recent) ls = order_desc_null lst_publishedAt ls"
| "resolveSort (Some popular) ls = order_by (\<lambda>l. - lst_installCount l) (order_desc_null lst_publishedAt ls)"
| "resolveSort (Some featured) ls = order_by (\<lambda>l. - lst_installCount l) (order_desc_null lst_publishedAt ls)"
| "resolveSort (Some newest) ls = order_by (\<lambda>l. - lst_createdAt l) ls"
| "resolveSort (Some top_rated) ls = cursor_order lst_createdAt (\<lambda>l. id_str (lst_id l)) ls"
| "resolveSort None ls = cursor_order lst_createdAt (\<lambda>l. id_str (lst_id l)) ls"

definition browse_search :: "'z store_db_scheme \<Rightarrow> string \<Rightarrow> listing_row \<Rightarrow> bool" where
  "browse_search s q l \<longleftrightarrow> contains_opt q (lst_tagline l) \<or> contains_opt q (lst_description l)
     \<or> contains_opt q (map_option ap_name (app_of s l))"

definition browse_where :: "'z store_db_scheme \<Rightarrow> store_query \<Rightarrow> (time \<Rightarrow> string \<Rightarrow> bool) option \<Rightarrow> listing_row where_obj" where
  "browse_where s query cursor =
     spread (spread (spread (spread PUBLIC_WHERE (cursor_obj lst_createdAt (\<lambda>l. id_str (lst_id l)) cursor))
       (spread_if (truthy (sq_q query)) [(''OR'', browse_search s (the (sq_q query)))]))
       (spread_if (truthy (sq_category query)) [(''categories'', \<lambda>l. \<exists>c \<in> set (categories_of s (lst_id l)). mc_slug c = the (sq_category query))]))
       (spread_if (truthy (sq_tag query)) [(''tags'', \<lambda>l. \<exists>t \<in> set (tags_of s (lst_id l)). mt_slug t = the (sq_tag query))])"

definition store_browse :: "(string \<Rightarrow> time option) \<Rightarrow> store_query \<Rightarrow> ('z store_db_scheme, listing_card list \<times> string option) svc" where
  "store_browse other query =
     bnd (lift (buildCursorWhereClause other (sq_cursor query))) (\<lambda>cursor.
     gets (\<lambda>s. apfst (map (listing_card_of s)) (find_page lst_createdAt (\<lambda>l. id_str (lst_id l)) (resolveSort (sq_sort query))
       (browse_where s query cursor) (sq_limit query) (listings s))))"

text \<open>The live reviews of a listing, their average and their number.\<close>

definition live_reviews :: "'z store_db_scheme \<Rightarrow> id \<Rightarrow> review_row list" where
  "live_reviews s l = filter (\<lambda>r. rv_listingId r = l \<and> rv_deletedAt r = None) (reviews s)"

definition averageRating :: "'z store_db_scheme \<Rightarrow> id \<Rightarrow> rat" where
  "averageRating s l = (if live_reviews s l = [] then 0
     else of_int (sum_list (map rv_rating (live_reviews s l))) / of_nat (length (live_reviews s l)))"

record rated_card =
  rc_card :: listing_card
  rc_averageRating :: rat
  rc_reviewCount :: nat

definition rated :: "'z store_db_scheme \<Rightarrow> listing_row \<Rightarrow> rated_card" where
  "rated s l = \<lparr>rc_card = listing_card_of s l, rc_averageRating = averageRating s (lst_id l), rc_reviewCount = length (live_reviews s (lst_id l))\<rparr>"

text \<open>The groups of reviews by descending average; groups of the same average in the order of their reviews.\<close>

definition top_groups :: "'z store_db_scheme \<Rightarrow> nat \<Rightarrow> id list" where
  "top_groups s n = take n (sort_key (\<lambda>l. - averageRating s l) (remdups (map rv_listingId (filter (\<lambda>r. rv_deletedAt r = None) (reviews s)))))"

definition public_listing :: "listing_row \<Rightarrow> bool" where
  "public_listing l \<longleftrightarrow> matches PUBLIC_WHERE l"

definition store_topRated :: "nat \<Rightarrow> ('z store_db_scheme, rated_card list) svc" where
  "store_topRated n = gets (\<lambda>s. let grouped = top_groups s n; found = filter (\<lambda>l. lst_id l \<in> set grouped \<and> public_listing l) (listings s) in
     List.map_filter (\<lambda>g. map_option (rated s) (List.find (\<lambda>l. lst_id l = g) found)) grouped)"

definition store_listCategories :: "('z store_db_scheme, (market_category \<times> nat) list) svc" where
  "store_listCategories = gets (\<lambda>s. map (\<lambda>c. (c, count_where (\<lambda>j. lc_categoryId j = mc_id c) (listingCategories s))) (sort_key mc_name (marketCategories s)))"

text \<open>\<open>application: { OR: [{ id }, { slug }] }\<close> for a parameter that is either.\<close>

definition names_application :: "'z store_db_scheme \<Rightarrow> string \<Rightarrow> listing_row \<Rightarrow> bool" where
  "names_application s param l = (case app_of s l of None \<Rightarrow> False | Some a \<Rightarrow> id_str (ap_id a) = param \<or> ap_slug a = param)"

definition requirePublicListing :: "string \<Rightarrow> ('z store_db_scheme, listing_row) svc" where
  "requirePublicListing param = bnd (gets (\<lambda>s. List.find (\<lambda>l. public_listing l \<and> names_application s param l) (listings s))) (\<lambda>r. case r of
     None \<Rightarrow> throw (NotFoundException ''Listing not found or not publicly available'')
   | Some l \<Rightarrow> ret l)"

record store_detail =
  sd_rated :: rated_card
  sd_media :: "listing_media list"
  sd_changelogs :: "listing_changelog list"

definition store_getListingDetail :: "string \<Rightarrow> ('z store_db_scheme, store_detail) svc" where
  "store_getListingDetail param = bnd (requirePublicListing param) (\<lambda>l. gets (\<lambda>s.
     \<lparr>sd_rated = rated s l, sd_media = media_of s (lst_id l), sd_changelogs = changelogs_of s (lst_id l)\<rparr>))"

definition store_search_hit :: "'z store_db_scheme \<Rightarrow> string \<Rightarrow> listing_row \<Rightarrow> bool" where
  "store_search_hit s q l \<longleftrightarrow>
     contains_opt q (map_option ap_name (app_of s l))
     \<or> contains_opt q (Option.bind (app_of s l) (\<lambda>a. map_option org_name (List.find (\<lambda>o1. org_id o1 = ap_organizationId a) (organizations s))))
     \<or> (\<exists>c \<in> set (categories_of s (lst_id l)). contains_ci q (mc_name c))
     \<or> (\<exists>t \<in> set (tags_of s (lst_id l)). contains_ci q (mt_name t))
     \<or> (\<exists>f \<in> set (appFeatures s). af_applicationId f = lst_applicationId l \<and> contains_ci q (af_name f))"

definition store_search :: "string \<Rightarrow> ('z store_db_scheme, string \<times> listing_card list) svc" where
  "store_search q = gets (\<lambda>s. (q, map (listing_card_of s)
     (take 50 (filter (matches (spread PUBLIC_WHERE [(''OR'', store_search_hit s q)])) (listings s)))))"

section \<open>ReviewsService\<close>

record review_dto =
  rvd_rating :: "int option"
  rvd_title :: "string option"
  rvd_body :: "string option"

record shown_review =
  sr_review :: review_row
  sr_reply :: "review_reply option"
  sr_displayName :: "string option"

definition review_listForListing :: "string \<Rightarrow> ('z store_db_scheme, shown_review list) svc" where
  "review_listForListing param = bnd (requirePublicListing param) (\<lambda>l. gets (\<lambda>s.
     map (\<lambda>r. \<lparr>sr_review = r, sr_reply = List.find (\<lambda>p. rp_reviewId p = rv_id r) (reviewReplies s),
         sr_displayName = Option.bind (List.find (\<lambda>c. cp_id c = rv_customerId r) (customerProfiles s)) cp_displayName\<rparr>)
       (order_by (\<lambda>r. - rv_createdAt r) (live_reviews s (lst_id l)))))"

definition requireCustomer :: "id \<Rightarrow> id \<Rightarrow> ('z store_db_scheme, customer_profile) svc" where
  "requireCustomer userId app = bnd (find_row customerProfiles (\<lambda>c. cp_userId c = Some userId \<and> cp_applicationId c = Some app)) (\<lambda>r. case r of
     None \<Rightarrow> throw (ForbiddenException ''You must be a customer of this application to review it'')
   | Some c \<Rightarrow> ret c)"

definition same_reviewer :: "id \<Rightarrow> id \<Rightarrow> review_row \<Rightarrow> bool" where
  "same_reviewer l c r \<longleftrightarrow> rv_listingId r = l \<and> rv_customerId r = c"

text \<open>The rating of the payload of \<open>create\<close> is required.\<close>

definition review_create :: "string \<Rightarrow> id \<Rightarrow> int \<Rightarrow> string option \<Rightarrow> string option \<Rightarrow> ('z store_db_scheme, review_row) svc" where
  "review_create param userId rating title body =
     bnd (requirePublicListing param) (\<lambda>l.
     bnd (requireCustomer userId (lst_applicationId l)) (\<lambda>c.
     bnd (find_row reviews (same_reviewer (lst_id l) (cp_id c))) (\<lambda>existing.
     seq (guard_or (existing = None) (ConflictException ''You have already reviewed this application - edit your existing review instead''))
     (bnd fresh (\<lambda>i. bnd now (\<lambda>t. insert_unique reviews reviews_update (same_reviewer (lst_id l) (cp_id c))
        \<lparr>rv_id = i, rv_listingId = lst_id l, rv_customerId = cp_id c, rv_rating = rating, rv_title = title, rv_body = body,
         rv_createdAt = t, rv_editedAt = None, rv_deletedAt = None\<rparr>))))))"

definition requireOwnReview :: "id \<Rightarrow> id \<Rightarrow> ('z store_db_scheme, review_row) svc" where
  "requireOwnReview reviewId userId = bnd (find_row reviews (\<lambda>r. rv_id r = reviewId)) (\<lambda>found. case found of
     None \<Rightarrow> throw (NotFoundException ''Review not found'')
   | Some review \<Rightarrow>
       seq (guard_or (rv_deletedAt review = None) (NotFoundException ''Review not found''))
       (bnd (find_row customerProfiles (\<lambda>c. cp_id c = rv_customerId review)) (\<lambda>c.
        seq (guard_or (Option.bind c cp_userId = Some userId) (ForbiddenException ''You can only edit or delete your own review''))
            (ret review))))"

definition review_update :: "id \<Rightarrow> id \<Rightarrow> review_dto \<Rightarrow> ('z store_db_scheme, review_row) svc" where
  "review_update reviewId userId dto =
     bnd (requireOwnReview reviewId userId) (\<lambda>review. bnd now (\<lambda>t.
     update_row reviews reviews_update (\<lambda>r. rv_id r = rv_id review)
       (\<lambda>r. r\<lparr>rv_rating := keepUndef (rvd_rating dto) (rv_rating r), rv_title := keepOpt (rvd_title dto) (rv_title r),
          rv_body := keepOpt (rvd_body dto) (rv_body r), rv_editedAt := Some t\<rparr>)))"

definition review_delete :: "id \<Rightarrow> id \<Rightarrow> ('z store_db_scheme, unit) svc" where
  "review_delete reviewId userId =
     bnd (requireOwnReview reviewId userId) (\<lambda>review. bnd now (\<lambda>t.
     void (update_row reviews reviews_update (\<lambda>r. rv_id r = rv_id review) (\<lambda>r. r\<lparr>rv_deletedAt := Some t\<rparr>))))"

definition review_report_op :: "id \<Rightarrow> id \<Rightarrow> string \<Rightarrow> request_meta \<Rightarrow> ('z store_db_scheme, review_report) svc" where
  "review_report_op reviewId userId reason meta =
     bnd (find_row reviews (\<lambda>r. rv_id r = reviewId)) (\<lambda>found. case found of
       None \<Rightarrow> throw (NotFoundException ''Review not found'')
     | Some review \<Rightarrow>
         seq (guard_or (rv_deletedAt review = None) (NotFoundException ''Review not found''))
         (bnd fresh (\<lambda>i. bnd now (\<lambda>t.
          bnd (insert_row reviewReports_update \<lparr>rr_id = i, rr_reviewId = rv_id review, rr_reportedById = userId, rr_reason = reason,
             rr_status = ReviewReportStatus.PENDING, rr_createdAt = t, rr_resolvedAt = None\<rparr>) (\<lambda>report.
          seq (audit ''REVIEW_REPORTED'' (Some userId) None None [(''reviewId'', JId (rv_id review)), (''reportId'', JId (rr_id report))] meta)
              (ret report))))))"

section \<open>ReviewRepliesService and ReviewModerationService\<close>

definition requireReviewOnApplication :: "id \<Rightarrow> id \<Rightarrow> ('z store_db_scheme, review_row) svc" where
  "requireReviewOnApplication app reviewId =
     bnd (find_row reviews (\<lambda>r. rv_id r = reviewId)) (\<lambda>found.
     bnd (gets (\<lambda>s. case found of None \<Rightarrow> False | Some r \<Rightarrow> rv_deletedAt r = None
       \<and> (case List.find (\<lambda>l. lst_id l = rv_listingId r) (listings s) of None \<Rightarrow> False | Some l \<Rightarrow> lst_applicationId l = app))) (\<lambda>ok.
     seq (guard_or ok (NotFoundException ''Review not found on this application's listing'')) (ret (the found))))"

definition review_reply_op :: "id \<Rightarrow> id \<Rightarrow> id \<Rightarrow> string \<Rightarrow> ('z store_db_scheme, review_reply) svc" where
  "review_reply_op app reviewId authorId body =
     bnd (requireReviewOnApplication app reviewId) (\<lambda>review.
     bnd (find_row reviewReplies (\<lambda>p. rp_reviewId p = rv_id review)) (\<lambda>existing.
     seq (guard_or (existing = None) (ConflictException ''This review already has a developer reply - update it instead''))
     (bnd fresh (\<lambda>i. bnd now (\<lambda>t. insert_unique reviewReplies reviewReplies_update (\<lambda>p. rp_reviewId p = rv_id review)
        \<lparr>rp_id = i, rp_reviewId = rv_id review, rp_authorId = authorId, rp_body = body, rp_createdAt = t\<rparr>)))))"

definition requireReply :: "review_row \<Rightarrow> ('z store_db_scheme, review_reply) svc" where
  "requireReply review = bnd (find_row reviewReplies (\<lambda>p. rp_reviewId p = rv_id review)) (\<lambda>r. case r of
     None \<Rightarrow> throw (NotFoundException ''No reply exists yet for this review'')
   | Some p \<Rightarrow> ret p)"

definition review_updateReply :: "id \<Rightarrow> id \<Rightarrow> string \<Rightarrow> ('z store_db_scheme, review_reply) svc" where
  "review_updateReply app reviewId body =
     bnd (requireReviewOnApplication app reviewId) (\<lambda>review.
     bnd (requireReply review) (\<lambda>reply.
     update_row reviewReplies reviewReplies_update (\<lambda>p. rp_id p = rp_id reply) (\<lambda>p. p\<lparr>rp_body := body\<rparr>)))"

definition review_deleteReply :: "id \<Rightarrow> id \<Rightarrow> ('z store_db_scheme, unit) svc" where
  "review_deleteReply app reviewId =
     bnd (requireReviewOnApplication app reviewId) (\<lambda>review.
     bnd (requireReply review) (\<lambda>reply.
     modify (reviewReplies_update (filter (\<lambda>p. rp_id p \<noteq> rp_id reply)))))"

definition moderation_listReports :: "ReviewReportStatus option \<Rightarrow> ('z store_db_scheme, review_report list) svc" where
  "moderation_listReports st = gets (\<lambda>s. order_by (\<lambda>r. - rr_createdAt r) (filter (\<lambda>r. st = None \<or> st = Some (rr_status r)) (reviewReports s)))"

fun report_status_str :: "ReviewReportStatus \<Rightarrow> string" where
  "report_status_str ReviewReportStatus.PENDING = ''PENDING''"
| "report_status_str REVIEWED = ''REVIEWED''"
| "report_status_str DISMISSED = ''DISMISSED''"

definition moderation_resolve :: "id \<Rightarrow> ReviewReportStatus \<Rightarrow> id \<Rightarrow> request_meta \<Rightarrow> ('z store_db_scheme, review_report) svc" where
  "moderation_resolve reportId st userId meta =
     bnd (find_row reviewReports (\<lambda>r. rr_id r = reportId)) (\<lambda>found. case found of
       None \<Rightarrow> throw (NotFoundException ''Review report not found'')
     | Some _ \<Rightarrow> bnd now (\<lambda>t.
         bnd (update_row reviewReports reviewReports_update (\<lambda>r. rr_id r = reportId) (\<lambda>r. r\<lparr>rr_status := st, rr_resolvedAt := Some t\<rparr>)) (\<lambda>updated.
         seq (audit ''REVIEW_REPORT_RESOLVED'' (Some userId) None None [(''reportId'', JId reportId), (''status'', JStr (report_status_str st))] meta)
             (ret updated))))"

end
