(* ===== verification/Store_Flow.thy ===== *)
theory Store_Flow
  imports Store Membership_Flow
begin

text \<open>
  What the store shows and what its reviews add up to. All operations of the marketplace are the cases of
  \<open>store_op\<close>; \<open>store_step\<close> runs one of them, with payloads as the validation of the DTOs lets them through, or lets time pass. An application is
  shown exactly through the reads of \<open>shown\<close>.
\<close>

section \<open>Operations and steps\<close>

datatype store_op =
  Upsert id upsert_listing_dto | Publish id | Unpublish id | Archive id | SetCategories id "id list" | SetTags id "id list"
| AddMedia id add_media_dto | RemoveMedia id id | AddChangelog id string string | InviteToListing id string | RevokeListingInvite id id
| CreateCategory string string "string option" | CreateTag string string
| CreateReview string int "string option" "string option" | UpdateReview id review_dto | DeleteReview id | ReportReview id string
| Reply id id string | UpdateReply id id string | DeleteReply id id | ResolveReport id ReviewReportStatus

fun run_store :: "id \<Rightarrow> request_meta \<Rightarrow> store_op \<Rightarrow> ('z store_db_scheme, unit) svc" where
  "run_store u meta (Upsert app dto) = void (listing_upsert app dto u meta)"
| "run_store u meta (Publish app) = void (listing_publish app u meta)"
| "run_store u meta (Unpublish app) = void (listing_unpublish app u meta)"
| "run_store u meta (Archive app) = void (listing_archive app u meta)"
| "run_store u meta (SetCategories app ids) = void (setCategories app ids)"
| "run_store u meta (SetTags app ids) = void (setTags app ids)"
| "run_store u meta (AddMedia app dto) = void (addMedia app dto)"
| "run_store u meta (RemoveMedia app m) = removeMedia app m"
| "run_store u meta (AddChangelog app v n) = void (addChangelog app v n)"
| "run_store u meta (InviteToListing app e) = void (listing_invite_email app e u)"
| "run_store u meta (RevokeListingInvite app i) = listing_revokeInvite app i"
| "run_store u meta (CreateCategory n sl d) = void (taxonomy_createCategory n sl d u meta)"
| "run_store u meta (CreateTag n sl) = void (taxonomy_createTag n sl u meta)"
| "run_store u meta (CreateReview p k ti b) = void (review_create p u k ti b)"
| "run_store u meta (UpdateReview r dto) = void (review_update r u dto)"
| "run_store u meta (DeleteReview r) = review_delete r u"
| "run_store u meta (ReportReview r why) = void (review_report_op r u why meta)"
| "run_store u meta (Reply app r b) = void (review_reply_op app r u b)"
| "run_store u meta (UpdateReply app r b) = void (review_updateReply app r b)"
| "run_store u meta (DeleteReply app r) = review_deleteReply app r"
| "run_store u meta (ResolveReport r st) = void (moderation_resolve r st u meta)"

text \<open>\<open>@Min(1) @Max(5)\<close> on the ratings of CreateReviewDto and UpdateReviewDto.\<close>

fun valid_op :: "store_op \<Rightarrow> bool" where
  "valid_op (CreateReview p k ti b) \<longleftrightarrow> 1 \<le> k \<and> k \<le> 5"
| "valid_op (UpdateReview r dto) \<longleftrightarrow> (case rvd_rating dto of None \<Rightarrow> True | Some k \<Rightarrow> 1 \<le> k \<and> k \<le> 5)"
| "valid_op _ \<longleftrightarrow> True"

text \<open>Steps whose operations satisfy a filter.\<close>

inductive store_step :: "(store_op \<Rightarrow> bool) \<Rightarrow> 'z store_db_scheme \<Rightarrow> 'z store_db_scheme \<Rightarrow> bool" for F where
  operation: "valid_op act \<Longrightarrow> F act \<Longrightarrow> store_step F s (snd (run_store u meta act s))"
| tick: "0 \<le> dt \<Longrightarrow> store_step F s (clock_update (\<lambda>t. t + dt) s)"

lemma store_steps_preserve:
  assumes "(store_step F)\<^sup>*\<^sup>* s s'" and "I s"
    and "\<And>u meta act. valid_op act \<Longrightarrow> F act \<Longrightarrow> preserves I (run_store u meta act)"
    and "\<And>s dt. I s \<Longrightarrow> I (clock_update (\<lambda>t. t + dt) s)"
  shows "I s'"
  using assms(1,2)
proof (induction rule: rtranclp_induct)
  case (step y z)
  from step.hyps(2) step.IH [OF step.prems] show ?case
    by cases (auto dest: assms(3) preservesD intro: assms(4))
qed

lemma preserves_void [pres]: "preserves I m \<Longrightarrow> preserves I (void m)"
  by (simp add: void_def preserves_seq preserves_ret)

section \<open>The reads of the store\<close>

lemma public_listing_iff: "public_listing l \<longleftrightarrow> lst_status l = ListingStatus.PUBLISHED \<and> lst_visibility l = ListingVisibility.PUBLIC"
  by (simp add: public_listing_def PUBLIC_WHERE_def)

text \<open>An answer of the store that contains a listing of the application.\<close>

inductive shown :: "id \<Rightarrow> 'z store_db_scheme \<Rightarrow> bool" where
  browsed: "fst (store_browse other query s) = Inr (items, c) \<Longrightarrow> x \<in> set items \<Longrightarrow> lst_applicationId (lcd_listing x) = app \<Longrightarrow> shown app s"
| top: "fst (store_topRated n s) = Inr cards \<Longrightarrow> x \<in> set cards \<Longrightarrow> lst_applicationId (lcd_listing (rc_card x)) = app \<Longrightarrow> shown app s"
| detail: "fst (store_getListingDetail p s) = Inr d \<Longrightarrow> lst_applicationId (lcd_listing (rc_card (sd_rated d))) = app \<Longrightarrow> shown app s"
| searched: "fst (store_search q s) = Inr (q', items) \<Longrightarrow> x \<in> set items \<Longrightarrow> lst_applicationId (lcd_listing x) = app \<Longrightarrow> shown app s"
| reviewed: "fst (review_listForListing p s) = Inr rs \<Longrightarrow> r \<in> set rs \<Longrightarrow> l \<in> set (listings s) \<Longrightarrow> lst_id l = rv_listingId (sr_review r)
    \<Longrightarrow> lst_applicationId l = app \<Longrightarrow> shown app s"

lemma set_resolveSort [simp]: "set (resolveSort o1 ls) = set ls"
  by (cases "(o1, ls)" rule: resolveSort.cases) simp_all

lemma browse_where_public:
  assumes "matches (browse_where s query c) l"
  shows "public_listing l"
proof -
  have "set PUBLIC_WHERE \<subseteq> set (browse_where s query c)"
    unfolding browse_where_def by (intro spread_keeps) (auto simp: spread_if_def cursor_obj_def PUBLIC_WHERE_def split: option.splits)
  with assms show ?thesis by (auto simp: matches_def public_listing_def)
qed

lemma store_browse_result:
  "fst (store_browse other query s) = (case buildCursorWhereClause other (sq_cursor query) of Inl e \<Rightarrow> Inl e
     | Inr c \<Rightarrow> Inr (apfst (map (listing_card_of s)) (find_page lst_createdAt (\<lambda>l. id_str (lst_id l)) (resolveSort (sq_sort query))
         (browse_where s query c) (sq_limit query) (listings s))))"
  by (simp add: store_browse_def bnd_step lift_def gets_def split: sum.split)

lemma lcd_listing_card [simp]: "lcd_listing (listing_card_of s l) = l" "lcd_listing (rc_card (rated s l)) = l"
  by (simp_all add: listing_card_of_def rated_def)

definition showable :: "id \<Rightarrow> 'z store_db_scheme \<Rightarrow> bool" where
  "showable app s \<longleftrightarrow> (\<exists>l \<in> set (listings s). lst_applicationId l = app \<and> public_listing l)"

lemma store_browse_public:
  assumes "fst (store_browse other query s) = Inr (items, c)" and "x \<in> set items"
  shows "lcd_listing x \<in> set (listings s) \<and> public_listing (lcd_listing x)"
proof -
  obtain k where "buildCursorWhereClause other (sq_cursor query) = Inr k"
    using assms(1) by (auto simp: store_browse_result split: sum.splits)
  then obtain ls where page: "find_page lst_createdAt (\<lambda>l. id_str (lst_id l)) (resolveSort (sq_sort query)) (browse_where s query k) (sq_limit query) (listings s) = (ls, c)"
    and items: "items = map (listing_card_of s) ls"
    using assms(1) by (auto simp: store_browse_result apfst_def map_prod_def split: prod.splits)
  from find_page_rows [OF page] have "set ls \<subseteq> {l \<in> set (listings s). matches (browse_where s query k) l}" by simp
  with items assms(2) show ?thesis using browse_where_public by fastforce
qed

lemma set_map_filter: "y \<in> set (List.map_filter f xs) \<longleftrightarrow> (\<exists>x \<in> set xs. f x = Some y)"
  by (induction xs) (auto simp: List.map_filter_simps split: option.split)

lemma store_topRated_public:
  assumes "fst (store_topRated n s) = Inr cards" and "x \<in> set cards"
  shows "\<exists>l \<in> set (listings s). public_listing l \<and> x = rated s l"
  using assms by (fastforce simp: store_topRated_def gets_def Let_def set_map_filter dest!: find_SomeD)

lemma requirePublicListing_result:
  "requirePublicListing p s = (case List.find (\<lambda>l. public_listing l \<and> names_application s p l) (listings s) of
     None \<Rightarrow> (Inl (NotFoundException ''Listing not found or not publicly available''), s) | Some l \<Rightarrow> (Inr l, s))"
  by (simp add: requirePublicListing_def run split: option.split)

lemma shown_public:
  assumes "shown app s" and "distinct (map lst_id (listings s))"
  shows "showable app s"
  using assms
proof (induction rule: shown.induct)
  case (browsed other query s items c x app)
  then show ?case using store_browse_public [OF browsed.hyps(1,2)] by (auto simp: showable_def)
next
  case (top n s cards x app)
  then show ?case using store_topRated_public [OF top.hyps(1,2)] by (auto simp: showable_def)
next
  case (detail p s d app)
  then show ?case
    by (auto simp: showable_def store_getListingDetail_def bnd_step requirePublicListing_result gets_def split: option.splits dest!: find_SomeD)
next
  case (searched q s q' items x app)
  then show ?case
    by (fastforce simp: showable_def store_search_def gets_def PUBLIC_WHERE_def query public_listing_def dest!: in_set_takeD)
next
  case (reviewed p s rs r l app)
  then obtain l' where l': "l' \<in> set (listings s)" "public_listing l'" "rv_listingId (sr_review r) = lst_id l'"
    by (auto simp: review_listForListing_def bnd_step requirePublicListing_result gets_def live_reviews_def split: option.splits dest!: find_SomeD)
  with reviewed have "l' = l" by (auto intro: distinct_key_eq [of lst_id "listings s"])
  with l' reviewed show ?case by (auto simp: showable_def)
qed

section \<open>Invariants\<close>

definition store_ok :: "'z store_db_scheme \<Rightarrow> bool" where
  "store_ok s \<longleftrightarrow> distinct (map lst_id (listings s)) \<and> (\<forall>l \<in> set (listings s). lst_id l < nextId s)
     \<and> distinct (map lst_applicationId (listings s))
     \<and> distinct (map rv_id (reviews s)) \<and> (\<forall>r \<in> set (reviews s). rv_id r < nextId s)
     \<and> distinct (map (\<lambda>r. (rv_listingId r, rv_customerId r)) (reviews s))
     \<and> (\<forall>r \<in> set (reviews s). 1 \<le> rv_rating r \<and> rv_rating r \<le> 5)"

text \<open>The application is not published.\<close>

definition hidden :: "id \<Rightarrow> 'z store_db_scheme \<Rightarrow> bool" where
  "hidden app s \<longleftrightarrow> (\<forall>l \<in> set (listings s). lst_applicationId l = app \<longrightarrow> lst_status l \<noteq> ListingStatus.PUBLISHED)"

text \<open>The review of a customer on a listing is deleted.\<close>

definition review_gone :: "id \<Rightarrow> id \<Rightarrow> id \<Rightarrow> 'z store_db_scheme \<Rightarrow> bool" where
  "review_gone i l c s \<longleftrightarrow> (\<exists>r \<in> set (reviews s). rv_id r = i \<and> rv_listingId r = l \<and> rv_customerId r = c \<and> rv_deletedAt r \<noteq> None)"

text \<open>Predicates on listings, reviews and customers, that new identifiers keep.\<close>

definition about_store :: "('z store_db_scheme \<Rightarrow> bool) \<Rightarrow> bool" where
  "about_store I \<longleftrightarrow> (\<forall>s. I s \<longrightarrow> I (nextId_update Suc s) \<and> (\<forall>f. I (clock_update f s)) \<and> (\<forall>f. I (audits_update f s)) \<and> (\<forall>f. I (marketCategories_update f s))
     \<and> (\<forall>f. I (marketTags_update f s)) \<and> (\<forall>f. I (listingCategories_update f s)) \<and> (\<forall>f. I (listingTags_update f s)) \<and> (\<forall>f. I (listingMedia_update f s))
     \<and> (\<forall>f. I (listingChangelogs_update f s)) \<and> (\<forall>f. I (listingInvites_update f s)) \<and> (\<forall>f. I (reviewReplies_update f s)) \<and> (\<forall>f. I (reviewReports_update f s)))"

lemma about_store_all [simp]:
  "about_store store_ok" "about_store (hidden app)" "about_store (review_gone i l c)"
  "about_store (\<lambda>s. customerProfiles s = K)"
  by (auto simp: about_store_def store_ok_def hidden_def review_gone_def intro: less_SucI)

lemma about_store_conj [simp]: "about_store I \<Longrightarrow> about_store J \<Longrightarrow> about_store (\<lambda>s. I s \<and> J s)"
  by (simp add: about_store_def)

lemma about_plain:
  assumes "about_store I"
  shows "preserves I fresh" "preserves I now" "preserves I (audit act uo o1 a md meta)" "preserves I (listing_audit act v app l meta)"
    "preserves I (requireListing app)" "preserves I (requirePublicListing p)" "preserves I (requireCustomer u app)"
    "preserves I (requireOwnReview r u)" "preserves I (getForApplication app)" "preserves I (requireReviewOnApplication app r)" "preserves I (requireReply rv)"
  using assms unfolding requireListing_def requirePublicListing_def requireCustomer_def requireOwnReview_def getForApplication_def
    requireReviewOnApplication_def requireReply_def listing_audit_def
  by (auto simp: preserves_wps wp about_store_def split: option.split)

text \<open>The operations that write neither listings nor reviews.\<close>

fun plain_op :: "store_op \<Rightarrow> bool" where
  "plain_op (Upsert app dto) = False" | "plain_op (Publish app) = False" | "plain_op (Unpublish app) = False" | "plain_op (Archive app) = False"
| "plain_op (CreateReview p k ti b) = False" | "plain_op (UpdateReview r dto) = False" | "plain_op (DeleteReview r) = False"
| "plain_op _ = True"

lemma plain_preserves:
  assumes I: "about_store I" and "plain_op act"
  shows "preserves I (run_store u meta act)"
proof -
  note U = I [unfolded about_store_def, rule_format]
  show ?thesis
    using assms(2) by (cases act; simp; unfold setCategories_def setTags_def addMedia_def removeMedia_def addChangelog_def listing_invite_email_def
        listing_revokeInvite_def taxonomy_createCategory_def taxonomy_createTag_def review_report_op_def review_reply_op_def review_updateReply_def
        review_deleteReply_def moderation_resolve_def)
      (intro pres about_plain [OF I]; simp add: U)+
qed

text \<open>Each of the others writes one listing or one review.\<close>

lemma store_ok_listing:
  "store_ok s \<Longrightarrow> (\<And>l. lst_id (f l) = lst_id l) \<Longrightarrow> (\<And>l. lst_applicationId (f l) = lst_applicationId l)
   \<Longrightarrow> store_ok (listings_update (upd_where P f) s)"
  by (simp add: store_ok_def map_upd_where ball_upd_where)

lemma store_ok_review:
  "store_ok s \<Longrightarrow> (\<And>r. rv_id (f r) = rv_id r) \<Longrightarrow> (\<And>r. rv_listingId (f r) = rv_listingId r) \<Longrightarrow> (\<And>r. rv_customerId (f r) = rv_customerId r)
   \<Longrightarrow> (\<And>r. 1 \<le> rv_rating r \<and> rv_rating r \<le> 5 \<Longrightarrow> 1 \<le> rv_rating (f r) \<and> rv_rating (f r) \<le> 5)
   \<Longrightarrow> store_ok (reviews_update (upd_where P f) s)"
  by (simp add: store_ok_def map_upd_where ball_upd_where)

lemma hidden_listing:
  "hidden app s \<Longrightarrow> (\<And>l. P l \<Longrightarrow> lst_applicationId (f l) = lst_applicationId l)
   \<Longrightarrow> (\<And>l. P l \<Longrightarrow> lst_applicationId l = app \<Longrightarrow> lst_status l \<noteq> ListingStatus.PUBLISHED \<Longrightarrow> lst_status (f l) \<noteq> ListingStatus.PUBLISHED)
   \<Longrightarrow> hidden app (listings_update (upd_where P f) s)"
  by (simp add: hidden_def ball_upd_where)

lemma gone_review:
  "review_gone i l c s \<Longrightarrow> (\<And>r. rv_id (f r) = rv_id r) \<Longrightarrow> (\<And>r. rv_listingId (f r) = rv_listingId r) \<Longrightarrow> (\<And>r. rv_customerId (f r) = rv_customerId r)
   \<Longrightarrow> (\<And>r. rv_deletedAt r \<noteq> None \<Longrightarrow> rv_deletedAt (f r) \<noteq> None) \<Longrightarrow> review_gone i l c (reviews_update (upd_where P f) s)"
  unfolding review_gone_def by (erule bexE, rule_tac x = "if P r then f r else r" in bexI) (simp_all add: set_upd_where del: not_None_eq)

lemma store_ok_new_listing:
  "store_ok s \<Longrightarrow> lst_id x = nextId s \<Longrightarrow> List.find (\<lambda>l. lst_applicationId l = lst_applicationId x) (listings s) = None
   \<Longrightarrow> store_ok (listings_update (\<lambda>ls. ls @ [x]) (nextId_update Suc s))"
  by (fastforce simp: store_ok_def find_None_iff' intro: less_SucI)

lemma store_ok_new_review:
  "store_ok s \<Longrightarrow> rv_id x = nextId s \<Longrightarrow> List.find (same_reviewer (rv_listingId x) (rv_customerId x)) (reviews s) = None
   \<Longrightarrow> 1 \<le> rv_rating x \<Longrightarrow> rv_rating x \<le> 5 \<Longrightarrow> store_ok (reviews_update (\<lambda>rs. rs @ [x]) (nextId_update Suc s))"
  by (fastforce simp: store_ok_def find_None_iff' same_reviewer_def intro: less_SucI)

lemma wps_listing_getOrCreate:
  "wps (listing_getOrCreate app u) Q s = (case List.find (\<lambda>l. lst_applicationId l = app) (listings s) of Some l \<Rightarrow> Q (Inr l) s
     | None \<Rightarrow> let x = new_listing (nextId s) (clock s) app u in Q (Inr x) (listings_update (\<lambda>ls. ls @ [x]) (nextId_update Suc s)))"
  by (simp add: listing_getOrCreate_def wp Let_def split: option.split)

lemma ok_getOrCreate: "preserves store_ok (listing_getOrCreate app u)"
  by (simp add: preserves_wps wps_listing_getOrCreate Let_def new_listing_def store_ok_new_listing split: option.split)

lemma hidden_getOrCreate: "preserves (hidden x) (listing_getOrCreate app u)"
  by (simp add: preserves_wps wps_listing_getOrCreate Let_def new_listing_def hidden_def split: option.split)

lemma gone_getOrCreate: "preserves (review_gone i l c) (listing_getOrCreate app u)"
  by (simp add: preserves_wps wps_listing_getOrCreate Let_def review_gone_def split: option.split)

lemma customers_getOrCreate: "preserves (\<lambda>s. customerProfiles s = K) (listing_getOrCreate app u)"
  by (simp add: preserves_wps wps_listing_getOrCreate Let_def split: option.split)

lemma preserves_fresh_row: "(\<And>s. I s \<Longrightarrow> wps (f (nextId s)) (\<lambda>_. I) (nextId_update Suc s)) \<Longrightarrow> preserves I (bnd fresh f)"
  by (simp add: preserves_wps wp)

lemma ok_create_review: "1 \<le> k \<Longrightarrow> k \<le> 5 \<Longrightarrow> preserves store_ok (review_create p u k ti b)"
  unfolding review_create_def
  by (intro preserves_bnd preserves_seq preserves_fresh_row about_plain about_store_all preserves_find_row preserves_guard)
    (auto simp: wp store_ok_new_review about_store_all [unfolded about_store_def] split: option.split)

lemma ok_writes:
  "preserves store_ok (listing_upsert app dto u meta)" "preserves store_ok (listing_publish app u meta)"
  "preserves store_ok (listing_unpublish app u meta)" "preserves store_ok (listing_archive app u meta)"
  "preserves store_ok (review_delete rv u)"
  unfolding listing_upsert_def listing_publish_def listing_unpublish_def listing_archive_def review_delete_def
  by (intro pres about_plain about_store_all ok_getOrCreate; simp add: store_ok_listing store_ok_review listing_patch_def)+

lemma ok_update_review: "(case rvd_rating dto of None \<Rightarrow> True | Some k \<Rightarrow> 1 \<le> k \<and> k \<le> 5) \<Longrightarrow> preserves store_ok (review_update rv u dto)"
  unfolding review_update_def
  by (intro pres about_plain about_store_all; rule store_ok_review; cases "rvd_rating dto"; simp)

text \<open>An invariant has to be checked on the seven operations that write listings or reviews only.\<close>

lemma run_preserves:
  assumes "about_store I"
    and "\<And>app dto. act = Upsert app dto \<Longrightarrow> preserves I (listing_upsert app dto u meta)"
    and "\<And>app. act = Publish app \<Longrightarrow> preserves I (listing_publish app u meta)"
    and "\<And>app. act = Unpublish app \<Longrightarrow> preserves I (listing_unpublish app u meta)"
    and "\<And>app. act = Archive app \<Longrightarrow> preserves I (listing_archive app u meta)"
    and "\<And>p k ti b. act = CreateReview p k ti b \<Longrightarrow> preserves I (review_create p u k ti b)"
    and "\<And>r dto. act = UpdateReview r dto \<Longrightarrow> preserves I (review_update r u dto)"
    and "\<And>r. act = DeleteReview r \<Longrightarrow> preserves I (review_delete r u)"
  shows "preserves I (run_store u meta act)"
proof (cases "plain_op act")
  case True
  then show ?thesis by (rule plain_preserves [OF assms(1)])
next
  case False
  then show ?thesis by (cases act) (simp_all add: preserves_void assms(2-))
qed

lemma ok_run: "valid_op act \<Longrightarrow> preserves store_ok (run_store u meta act)"
  by (rule run_preserves) (auto intro: ok_writes ok_update_review ok_create_review)

lemma ok_tick: "store_ok s \<Longrightarrow> store_ok (clock_update f s)" "hidden app s \<Longrightarrow> hidden app (clock_update f s)"
  "review_gone i l c s \<Longrightarrow> review_gone i l c (clock_update f s)"
  by (simp_all add: store_ok_def hidden_def review_gone_def)

lemma steps_ok: "(store_step F)\<^sup>*\<^sup>* s s' \<Longrightarrow> store_ok s \<Longrightarrow> store_ok s'"
  by (rule store_steps_preserve, assumption, assumption, erule ok_run, erule ok_tick(1))

text \<open>Publishing another application.\<close>

lemma hidden_publish:
  assumes "other \<noteq> app"
  shows "preserves (\<lambda>s. store_ok s \<and> hidden app s) (listing_publish other u meta)"
proof -
  have same: "l' = l" if "store_ok s" "List.find (\<lambda>l. lst_applicationId l = other) (listings s) = Some l" "l' \<in> set (listings s)" "lst_id l' = lst_id l"
    for s :: "'a store_db_scheme" and l l'
    using that by (auto simp: store_ok_def dest!: find_SomeD intro: distinct_key_eq)
  have "hidden app (listings_update (upd_where (\<lambda>x. lst_id x = lst_id l) f) s)"
    if "store_ok s" "hidden app s" and that_find: "List.find (\<lambda>l. lst_applicationId l = other) (listings s) = Some l" and "\<And>l. lst_applicationId (f l) = lst_applicationId l"
    for s :: "'a store_db_scheme" and l f
  proof -
    have "lst_applicationId r = app \<longrightarrow> lst_status (if lst_id r = lst_id l then f r else r) \<noteq> ListingStatus.PUBLISHED"
      if "r \<in> set (listings s)" for r
      using that \<open>hidden app s\<close> same [OF \<open>store_ok s\<close> that_find, of r] find_SomeD [OF that_find] assms by (auto simp: hidden_def)
    then show ?thesis using that(4) by (fastforce simp: hidden_def ball_upd_where)
  qed
  then show ?thesis
    by (auto simp: preserves_wps listing_publish_def requireListing_def listing_audit_def wp store_ok_listing
        about_store_all(1,2) [unfolded about_store_def] split: option.split)
qed

lemma hidden_reviews: "hidden app (reviews_update f s) = hidden app s"
  by (simp add: hidden_def)

lemma hidden_writes:
  "preserves (hidden app) (listing_upsert app' dto u meta)" "preserves (hidden app) (listing_unpublish app' u meta)"
  "preserves (hidden app) (listing_archive app' u meta)" "preserves (hidden app) (review_create p u k ti b)"
  "preserves (hidden app) (review_update r u rdto)" "preserves (hidden app) (review_delete r u)"
  unfolding listing_upsert_def listing_unpublish_def listing_archive_def review_create_def review_update_def review_delete_def
  by (intro pres about_plain about_store_all hidden_getOrCreate; simp add: hidden_listing listing_patch_def hidden_reviews)+

lemma preserves_both: "preserves I m \<Longrightarrow> preserves J m \<Longrightarrow> preserves (\<lambda>s. I s \<and> J s) m"
  by (simp add: preserves_def)

lemma hidden_run:
  assumes "valid_op act" and "act \<noteq> Publish app"
  shows "preserves (\<lambda>s. store_ok s \<and> hidden app s) (run_store u meta act)"
  using assms by (intro run_preserves)
    (auto intro: hidden_publish preserves_both ok_writes ok_update_review ok_create_review hidden_writes)

section \<open>Withdrawn listings stay hidden\<close>

lemma hidden_not_shown: "store_ok s \<Longrightarrow> hidden app s \<Longrightarrow> \<not> shown app s"
  by (auto simp: store_ok_def hidden_def showable_def public_listing_iff dest!: shown_public)

lemma hidden_steps:
  assumes "(store_step (\<lambda>act. act \<noteq> Publish app))\<^sup>*\<^sup>* s s'" and "store_ok s \<and> hidden app s"
  shows "store_ok s' \<and> hidden app s'"
  using assms by (rule store_steps_preserve) (auto intro: hidden_run ok_tick)

lemma hidden_upd_found:
  assumes "store_ok s" and found: "List.find (\<lambda>l. lst_applicationId l = app) (listings s) = Some l"
    and "\<And>x. lst_applicationId (f x) = lst_applicationId x" and "\<And>x. lst_status (f x) \<noteq> ListingStatus.PUBLISHED"
  shows "hidden app (listings_update (upd_where (\<lambda>x. lst_id x = lst_id l) f) s)"
proof -
  have "x = l" if "x \<in> set (listings s)" "lst_applicationId x = app" for x
    using that find_SomeD [OF found] assms(1) distinct_key_eq [of lst_applicationId "listings s" x l] by (auto simp: store_ok_def)
  then have "lst_applicationId x = app \<longrightarrow> lst_status (if lst_id x = lst_id l then f x else x) \<noteq> ListingStatus.PUBLISHED"
    if "x \<in> set (listings s)" for x
    using that assms(4) by auto
  then show ?thesis using assms(3) by (fastforce simp: hidden_def ball_upd_where)
qed

lemma withdrawn_hidden:
  assumes "withdraw = listing_unpublish \<or> withdraw = listing_archive" and "store_ok s" and "fst (withdraw app u meta s) = Inr l"
  shows "hidden app (snd (withdraw app u meta s))"
proof -
  have "wps (listing_unpublish app u meta) (\<lambda>r s'. (\<exists>l. r = Inr l) \<longrightarrow> hidden app s') s"
    "wps (listing_archive app u meta) (\<lambda>r s'. (\<exists>l. r = Inr l) \<longrightarrow> hidden app s') s"
    unfolding listing_unpublish_def listing_archive_def requireListing_def listing_audit_def
    by (simp_all add: wp hidden_upd_found [OF assms(2)] about_store_all(2) [unfolded about_store_def] split: option.split)
  with assms(1,3) show ?thesis by (auto simp: wps_run)
qed

section \<open>Listings the cursor loses\<close>

text \<open>The \<open>where\<close> object of a search: the condition of the cursor is overwritten.\<close>

lemma browse_where_search:
  assumes "truthy (sq_q query)"
  shows "browse_where s (query\<lparr>sq_cursor := k\<rparr>) c = browse_where s (query\<lparr>sq_cursor := k'\<rparr>) None"
  using assms by (cases c) (simp_all add: browse_where_def query spread_if_def PUBLIC_WHERE_def)

lemma browse_cursor_usable:
  assumes "fst (store_browse other query s) = Inr (items, Some c)"
    and "\<forall>l \<in> set (listings s). cursor_ok (lst_createdAt l) (id_str (lst_id l))"
  shows "items \<noteq> [] \<and> c = encodeCursor (lst_createdAt (lcd_listing (last items))) (id_str (lst_id (lcd_listing (last items))))
    \<and> cursor_ok (lst_createdAt (lcd_listing (last items))) (id_str (lst_id (lcd_listing (last items))))"
proof -
  have mem: "x \<in> set items \<Longrightarrow> lcd_listing x \<in> set (listings s)" for x using store_browse_public [OF assms(1)] by simp
  have "items \<noteq> [] \<and> c = encodeCursor (lst_createdAt (lcd_listing (last items))) (id_str (lst_id (lcd_listing (last items))))"
    using assms(1) by (auto simp: store_browse_result last_map apfst_def map_prod_def split: sum.splits prod.splits dest!: find_page_cursor)
  with mem [OF last_in_set] assms(2) show ?thesis by simp
qed


lemma browse_where_cursor:
  assumes "\<not> truthy (sq_q query)"
  shows "set (cursor_obj lst_createdAt (\<lambda>l. id_str (lst_id l)) k) \<subseteq> set (browse_where s (query\<lparr>sq_cursor := c\<rparr>) k)"
  unfolding browse_where_def using assms
  by (intro spread_keeps spread_later) (auto simp: spread_if_def cursor_obj_def split: option.splits)

lemma browse_page_before:
  assumes "\<not> truthy (sq_q query)" and "cursor_ok t i"
    and "fst (store_browse other (query\<lparr>sq_cursor := Some (encodeCursor t i)\<rparr>) s) = Inr (items, c)" and "x \<in> set items"
  shows "lst_createdAt (lcd_listing x) \<le> t"
proof -
  let ?k = "Some (\<lambda>t' i'. t' < t \<or> t' = t \<and> i' < i)" and ?q = "query\<lparr>sq_cursor := Some (encodeCursor t i)\<rparr>"
  obtain ls where page: "find_page lst_createdAt (\<lambda>l. id_str (lst_id l)) (resolveSort (sq_sort query)) (browse_where s ?q ?k) (sq_limit query) (listings s) = (ls, c)"
    and items: "items = map (listing_card_of s) ls"
    using assms(3) by (auto simp: store_browse_result cursor_clause_encode [OF assms(2)] apfst_def map_prod_def split: prod.splits)
  from items assms(4) obtain l where "x = listing_card_of s l" "l \<in> set ls" by auto
  moreover from find_page_rows [OF page] calculation have "matches (browse_where s ?q ?k) l" by auto
  then have "matches (cursor_obj lst_createdAt (\<lambda>l. id_str (lst_id l)) ?k) l"
    using assms(1) browse_where_cursor [of query ?k s "Some (encodeCursor t i)"] by (auto simp: matches_def)
  ultimately show ?thesis by auto
qed

lemma follow_before:
  assumes "\<not> truthy (sq_q query)" and "\<forall>l \<in> set (listings s). cursor_ok (lst_createdAt l) (id_str (lst_id l))"
  shows "cursor_ok t i \<Longrightarrow> follow_pages n (\<lambda>k. fst (store_browse other (query\<lparr>sq_cursor := k\<rparr>) s)) (Some (encodeCursor t i)) = Some ps
    \<Longrightarrow> x \<in> set (concat ps) \<Longrightarrow> lst_createdAt (lcd_listing x) \<le> t"
proof (induction n arbitrary: t i ps)
  case (Suc n)
  obtain items c where page: "fst (store_browse other (query\<lparr>sq_cursor := Some (encodeCursor t i)\<rparr>) s) = Inr (items, c)"
    using Suc.prems(2) by (auto split: sum.splits)
  note before = browse_page_before [OF assms(1) Suc.prems(1) page]
  show ?case
  proof (cases c)
    case None
    with page Suc.prems before show ?thesis by auto
  next
    case (Some c')
    note last = browse_cursor_usable [OF page [unfolded Some] assms(2)]
    let ?l = "lcd_listing (last items)"
    from page Some Suc.prems(2) obtain qs where
      qs: "follow_pages n (\<lambda>k. fst (store_browse other (query\<lparr>sq_cursor := k\<rparr>) s)) (Some (encodeCursor (lst_createdAt ?l) (id_str (lst_id ?l)))) = Some qs"
      and ps: "ps = items # qs"
      using last by auto
    have "lst_createdAt ?l \<le> t" using last before by simp
    moreover have "lst_createdAt (lcd_listing x) \<le> lst_createdAt ?l" if "x \<in> set (concat qs)"
      using Suc.IH [OF _ qs that] last by simp
    ultimately show ?thesis using Suc.prems(3) before ps by (auto intro: order_trans)
  qed
qed simp

text \<open>A public listing that is not on the first page and is newer than the last listing of it is on no later page either, whatever
  the order: the cursor filters by the time of creation also when the rows are sorted by popularity or by publication.\<close>

theorem store_sort_loses_listings:
  assumes "\<not> truthy (sq_q query)" and "\<forall>l \<in> set (listings s). cursor_ok (lst_createdAt l) (id_str (lst_id l))"
    and "fst (store_browse other (query\<lparr>sq_cursor := None\<rparr>) s) = Inr (items, Some c)"
    and "l \<notin> lcd_listing ` set items" and "lst_createdAt (lcd_listing (last items)) < lst_createdAt l"
    and "follow_pages n (\<lambda>k. fst (store_browse other (query\<lparr>sq_cursor := k\<rparr>) s)) None = Some ps"
  shows "l \<notin> lcd_listing ` set (concat ps)"
proof -
  let ?l = "lcd_listing (last items)"
  note last = browse_cursor_usable [OF assms(3,2)]
  obtain m qs where "n = Suc m" and qs: "follow_pages m (\<lambda>k. fst (store_browse other (query\<lparr>sq_cursor := k\<rparr>) s))
      (Some (encodeCursor (lst_createdAt ?l) (id_str (lst_id ?l)))) = Some qs" and ps: "ps = items # qs"
    using assms(3,6) last by (cases n) auto
  from follow_before [OF assms(1,2) _ qs] last have "x \<in> set (concat qs) \<Longrightarrow> lst_createdAt (lcd_listing x) \<le> lst_createdAt ?l" for x
    by blast
  with ps assms(4,5) show ?thesis by fastforce
qed

section \<open>Reviews\<close>

lemma average_range:
  assumes "xs \<noteq> []" and "\<forall>k \<in> set xs. 1 \<le> k \<and> k \<le> (5::int)"
  shows "1 \<le> (of_int (sum_list xs) / of_nat (length xs) :: rat) \<and> (of_int (sum_list xs) / of_nat (length xs) :: rat) \<le> 5"
proof -
  have "int (length xs) \<le> sum_list xs \<and> sum_list xs \<le> 5 * int (length xs)"
    using assms(2) by (induction xs) auto
  then have "(of_int (int (length xs)) :: rat) \<le> of_int (sum_list xs)" "(of_int (sum_list xs) :: rat) \<le> of_int (5 * int (length xs))"
    by (simp_all only: of_int_le_iff)
  moreover have "(0 :: rat) < of_nat (length xs)" using assms(1) by simp
  ultimately show ?thesis by (simp add: divide_simps)
qed

text \<open>After any operations a customer counts once in the rating of a listing, and the average is between 1 and 5, or 0 without reviews.\<close>

theorem ratings_bounded:
  assumes "(store_step F)\<^sup>*\<^sup>* s s'" and "store_ok s"
  shows "distinct (map rv_customerId (live_reviews s' l))
    \<and> (if live_reviews s' l = [] then averageRating s' l = 0 else 1 \<le> averageRating s' l \<and> averageRating s' l \<le> 5)"
proof -
  have ok: "store_ok s'" using assms by (rule steps_ok)
  have "distinct (map rv_customerId (filter (\<lambda>r. rv_listingId r = l \<and> P r) rs))" if "distinct (map (\<lambda>r. (rv_listingId r, rv_customerId r)) rs)"
    for P and rs :: "review_row list"
    using that by (induction rs) (auto simp: image_iff)
  then have "distinct (map rv_customerId (live_reviews s' l))" using ok by (simp add: live_reviews_def store_ok_def)
  moreover have "\<forall>k \<in> set (map rv_rating (live_reviews s' l)). 1 \<le> k \<and> k \<le> 5" using ok by (simp add: live_reviews_def store_ok_def)
  ultimately show ?thesis using average_range [of "map rv_rating (live_reviews s' l)"] by (simp add: averageRating_def)
qed

lemma gone_writes:
  "preserves (review_gone i l c) (listing_upsert app dto u meta)" "preserves (review_gone i l c) (listing_publish app u meta)"
  "preserves (review_gone i l c) (listing_unpublish app u meta)" "preserves (review_gone i l c) (listing_archive app u meta)"
  "preserves (review_gone i l c) (review_update r u rdto)" "preserves (review_gone i l c) (review_delete r u)"
  "preserves (review_gone i l c) (review_create p u k ti b)"
  unfolding listing_upsert_def listing_publish_def listing_unpublish_def listing_archive_def review_update_def review_delete_def review_create_def
  by (intro pres about_plain about_store_all gone_getOrCreate; (simp add: gone_review; fail | simp add: review_gone_def))+

lemma gone_run: "preserves (review_gone i l c) (run_store u meta act)"
  by (rule run_preserves) (auto intro: gone_writes)

lemma gone_steps: "(store_step F)\<^sup>*\<^sup>* s s' \<Longrightarrow> review_gone i l c s \<Longrightarrow> review_gone i l c s'"
  by (rule store_steps_preserve, assumption, assumption, rule gone_run, erule ok_tick(3))

text \<open>A review that its customer deletes stays the only one of the customer on the listing: whatever happens later, no
  live review of that customer on that listing exists again.\<close>

theorem deleted_review_final:
  assumes "fst (review_delete i u s) = Inr ()" and "store_ok s" and "r \<in> set (reviews s)" and "rv_id r = i"
    and "(store_step F)\<^sup>*\<^sup>* (snd (review_delete i u s)) s'"
  shows "\<forall>x \<in> set (reviews s'). rv_listingId x = rv_listingId r \<and> rv_customerId x = rv_customerId r \<longrightarrow> rv_deletedAt x \<noteq> None"
proof -
  obtain r' where find: "List.find (\<lambda>x. rv_id x = i) (reviews s) = Some r'"
    using assms(3,4) find_None_iff' [of "\<lambda>x. rv_id x = i" "reviews s"] by (cases "List.find (\<lambda>x. rv_id x = i) (reviews s)") auto
  then have "r' = r" using assms(2-4) find_SomeD [OF find] distinct_key_eq [of rv_id "reviews s" r' r] by (auto simp: store_ok_def)
  have "review_gone i (rv_listingId r) (rv_customerId r) (reviews_update (upd_where (\<lambda>x. rv_id x = i) (\<lambda>x. x\<lparr>rv_deletedAt := Some t\<rparr>)) s)" for t
    unfolding review_gone_def using assms(3,4)
    by (intro bexI [of _ "r\<lparr>rv_deletedAt := Some t\<rparr>"]) (auto simp: set_upd_where image_iff intro!: bexI [of _ r])
  then have "wps (review_delete i u) (\<lambda>y z. y = Inr () \<longrightarrow> review_gone i (rv_listingId r) (rv_customerId r) z) s"
    using assms(4) by (simp add: review_delete_def requireOwnReview_def void_def wp find \<open>r' = r\<close>)
  then have "review_gone i (rv_listingId r) (rv_customerId r) (snd (review_delete i u s))" using assms(1) by (simp add: wps_run)
  then have "review_gone i (rv_listingId r) (rv_customerId r) s'" by (rule gone_steps [OF assms(5)])
  moreover have "store_ok s'" using steps_ok [OF assms(5)] preservesD [OF ok_writes(5) assms(2)] by blast
  ultimately show ?thesis
    using distinct_key_eq [of "\<lambda>r. (rv_listingId r, rv_customerId r)" "reviews s'"] by (fastforce simp: review_gone_def store_ok_def)
qed

section \<open>Categories\<close>

lemma found_keys: "\<forall>i \<in> set is. i \<in> k ` set cs \<Longrightarrow> map k (List.map_filter (\<lambda>i. List.find (\<lambda>c. k c = i) cs) is) = is"
proof (induction "is")
  case (Cons i xs)
  then obtain c where "List.find (\<lambda>c. k c = i) cs = Some c"
    using find_None_iff' [of "\<lambda>c. k c = i" cs] by (cases "List.find (\<lambda>c. k c = i) cs") auto
  with Cons find_SomeD [OF this] show ?case by (simp add: List.map_filter_simps)
qed (simp add: List.map_filter_simps)

lemma joined_rows:
  assumes "\<forall>j \<in> set js. l j \<noteq> i" and "\<forall>x. l (row x) = i \<and> col (row x) = x" and "\<forall>x \<in> set xs. x \<in> k ` set cs"
  shows "map k (List.map_filter (\<lambda>j. if l j = i then List.find (\<lambda>c. k c = col j) cs else None) (js @ map row xs)) = xs"
proof -
  have "List.map_filter (\<lambda>j. if l j = i then List.find (\<lambda>c. k c = col j) cs else None) js = []"
    using assms(1) by (simp add: List.map_filter_def filter_empty_conv)
  then have "List.map_filter (\<lambda>j. if l j = i then List.find (\<lambda>c. k c = col j) cs else None) (js @ map row xs)
    = List.map_filter (\<lambda>x. List.find (\<lambda>c. k c = x) cs) xs"
    using assms(2) by (simp add: List.map_filter_def filter_map comp_def)
  then show ?thesis using found_keys [OF assms(3)] by simp
qed

lemma joined_categories:
  "\<forall>i \<in> set ids. i \<in> mc_id ` set cs \<Longrightarrow>
   map mc_id (List.map_filter (\<lambda>j. if lc_listingId j = l then List.find (\<lambda>c. mc_id c = lc_categoryId j) cs else None)
     (filter (\<lambda>j. lc_listingId j \<noteq> l) js @ map (\<lambda>i. \<lparr>lc_listingId = l, lc_categoryId = i\<rparr>) (remdups ids))) = remdups ids"
  by (rule joined_rows) simp_all

text \<open>Setting the categories of a listing replaces them by the given ones, each once, and leaves the other listings alone; with
  an unknown category nothing changes.\<close>

theorem categories_replaced:
  "case setCategories app ids s of
     (Inl e, s') \<Rightarrow> listingCategories s' = listingCategories s
   | (Inr d, s') \<Rightarrow> filter (\<lambda>j. lc_listingId j = lst_id (ldt_listing d)) (listingCategories s')
         = map (\<lambda>i. \<lparr>lc_listingId = lst_id (ldt_listing d), lc_categoryId = i\<rparr>) (remdups ids)
       \<and> filter (\<lambda>j. lc_listingId j \<noteq> lst_id (ldt_listing d)) (listingCategories s')
         = filter (\<lambda>j. lc_listingId j \<noteq> lst_id (ldt_listing d)) (listingCategories s)
       \<and> map mc_id (ldt_categories d) = remdups ids"
proof -
  have "wps (setCategories app ids) (\<lambda>r s'. case r of Inl e \<Rightarrow> listingCategories s' = listingCategories s
   | Inr d \<Rightarrow> filter (\<lambda>j. lc_listingId j = lst_id (ldt_listing d)) (listingCategories s')
         = map (\<lambda>i. \<lparr>lc_listingId = lst_id (ldt_listing d), lc_categoryId = i\<rparr>) (remdups ids)
       \<and> filter (\<lambda>j. lc_listingId j \<noteq> lst_id (ldt_listing d)) (listingCategories s')
         = filter (\<lambda>j. lc_listingId j \<noteq> lst_id (ldt_listing d)) (listingCategories s)
       \<and> map mc_id (ldt_categories d) = remdups ids) s"
    by (simp add: setCategories_def getForApplication_def requireListing_def wp categories_of_def joined_categories filter_empty_conv split: option.split)
  then show ?thesis by (simp add: wps_def split: prod.splits sum.splits)
qed

section \<open>Sample rows\<close>

definition sample_listing :: listing_row where
  "sample_listing = (new_listing 50 1690000000000 7 1)\<lparr>lst_tagline := Some ''Plan your day'', lst_status := ListingStatus.PUBLISHED,
     lst_visibility := ListingVisibility.PUBLIC, lst_publishedAt := Some 1690000001000, lst_installCount := 10\<rparr>"

definition sample_customer :: customer_profile where
  "sample_customer = \<lparr>cp_id = 70, cp_organizationId = 1, cp_applicationId = Some 7, cp_userId = Some 2, cp_type = INDIVIDUAL,
     cp_status = CustomerStatus.ACTIVE, cp_suspendedAt = None, cp_displayName = Some ''Bob'', cp_email = Some ''bob@example.org'',
     cp_externalIds = None, cp_metadata = None, cp_createdAt = 1690000002000\<rparr>"

definition sample_review :: review_row where
  "sample_review = \<lparr>rv_id = 80, rv_listingId = 50, rv_customerId = 70, rv_rating = 4, rv_title = None, rv_body = None,
     rv_createdAt = 1690000003000, rv_editedAt = None, rv_deletedAt = None\<rparr>"

text \<open>Two listings in the store; the newer one has fewer installations.\<close>

definition sample_store :: store_db where
  "sample_store = \<lparr>clock = 1700000000000, nextId = 100, audits = [], platformEvents = [], automationRules = [], jobs = [],
     jobHistory = [], queueControls = [], accounts = [ada, bob], sessions = [], resetTokens = [], twoFactors = [], resetMails = [],
     organizations = [new_organization 1 0 ''Acme'' ''acme'', new_organization 2 0 ''Bobs'' ''bobs''],
     orgMembers = [new_org_member 20 0 1 1 OrganizationRole.OWNER, new_org_member 21 0 2 2 OrganizationRole.OWNER],
     appEntries = [sample_app, sample_app\<lparr>ap_id := 8, ap_slug := ''planner-2'', ap_organizationId := 2\<rparr>],
     appMembers = [new_app_member 30 0 7 1 ApplicationMemberRole.OWNER, new_app_member 31 0 8 2 ApplicationMemberRole.OWNER],
     invitations = [], appVersions = [], appDomains = [], platformAdmins = [], invitationMails = [],
     marketCategories = [\<lparr>mc_id = 60, mc_name = ''Office'', mc_slug = ''office'', mc_description = None, mc_createdAt = 0\<rparr>],
     marketTags = [], listings = [sample_listing, sample_listing\<lparr>lst_id := 51, lst_applicationId := 8, lst_installCount := 5, lst_createdAt := 1695000000000\<rparr>],
     listingCategories = [], listingTags = [], listingMedia = [], listingChangelogs = [], listingInvites = [],
     customerProfiles = [sample_customer], reviews = [sample_review], reviewReplies = [], reviewReports = [], appFeatures = []\<rparr>"

lemmas sample_store_defs = sample_store_def sample_listing_def new_listing_def sample_customer_def sample_review_def

lemma sample_store_ok: "store_ok sample_store"
  by (simp add: store_ok_def sample_store_defs)

lemma sample_cursors_ok: "\<forall>l \<in> set (listings sample_store). cursor_ok (lst_createdAt l) (id_str (lst_id l))"
  by code_simp

definition sample_query :: store_query where
  "sample_query = \<lparr>sq_q = None, sq_category = None, sq_tag = None, sq_sort = Some popular, sq_cursor = None, sq_limit = Some 1\<rparr>"

theorem categories_replaced_witness:
  "fst (setCategories 7 [60, 61] sample_store) = Inl (PrismaError ''P2003'')
   \<and> map lc_categoryId (listingCategories (snd (setCategories 7 [60, 60] sample_store))) = [60]"
  by code_simp

text \<open>The first page, one listing at a time, by popularity and of a search.\<close>

definition card_key :: "listing_card \<Rightarrow> id \<times> time" where
  "card_key x = (lst_id (lcd_listing x), lst_createdAt (lcd_listing x))"

lemma sample_first_page:
  "map_sum id (apfst (map card_key)) (fst (store_browse (\<lambda>_. None) (sample_query\<lparr>sq_cursor := None\<rparr>) sample_store))
     = Inr ([(50, 1690000000000)], Some (encodeCursor 1690000000000 ''50''))"
  by code_simp

text \<open>Both listings match the search, so its first page is the same.\<close>

lemma sample_search_page:
  "fst (store_browse (\<lambda>_. None) (sample_query\<lparr>sq_q := Some ''PLAN'', sq_cursor := None\<rparr>) sample_store)
   = fst (store_browse (\<lambda>_. None) (sample_query\<lparr>sq_cursor := None\<rparr>) sample_store)"
proof -
  have "\<forall>l \<in> set (listings sample_store). matches (browse_where sample_store (sample_query\<lparr>sq_q := Some ''PLAN'', sq_cursor := None\<rparr>) None) l
      \<and> matches (browse_where sample_store (sample_query\<lparr>sq_cursor := None\<rparr>) None) l"
    by code_simp
  then have "filter (matches (browse_where sample_store (sample_query\<lparr>sq_q := Some ''PLAN'', sq_cursor := None\<rparr>) None)) (listings sample_store)
     = filter (matches (browse_where sample_store (sample_query\<lparr>sq_cursor := None\<rparr>) None)) (listings sample_store)"
    by (intro filter_cong refl) blast
  then show ?thesis by (simp add: store_browse_result buildCursorWhereClause_def find_page_def)
qed

lemma sample_pages:
  "map_option (map (map card_key)) (follow_pages 3 (\<lambda>k. fst (store_browse (\<lambda>_. None) (sample_query\<lparr>sq_cursor := k\<rparr>) sample_store)) None)
     = Some [[(50, 1690000000000)], []]"
  by code_simp

lemma map_sum_Inr: "map_sum f g x = Inr y \<Longrightarrow> \<exists>z. x = Inr z \<and> g z = y"
  by (cases x) auto

theorem store_sort_loses_listings_witness:
  "\<exists>ps. follow_pages 3 (\<lambda>k. fst (store_browse (\<lambda>_. None) (sample_query\<lparr>sq_cursor := k\<rparr>) sample_store)) None = Some ps
     \<and> listings sample_store ! 1 \<in> set (listings sample_store) \<and> listings sample_store ! 1 \<notin> lcd_listing ` set (concat ps)"
proof -
  obtain items where first: "fst (store_browse (\<lambda>_. None) (sample_query\<lparr>sq_cursor := None\<rparr>) sample_store) = Inr (items, Some (encodeCursor 1690000000000 ''50''))"
    and items: "map card_key items = [(50, 1690000000000)]"
    using map_sum_Inr [OF sample_first_page] by (auto simp: apfst_def map_prod_def split: prod.splits)
  obtain ps where ps: "follow_pages 3 (\<lambda>k. fst (store_browse (\<lambda>_. None) (sample_query\<lparr>sq_cursor := k\<rparr>) sample_store)) None = Some ps"
    using sample_pages by (auto simp del: follow_pages.simps)
  have "\<not> truthy (sq_q sample_query)" by (simp add: sample_query_def)
  moreover have "lst_id (listings sample_store ! 1) = 51" "lst_createdAt (listings sample_store ! 1) = 1695000000000"
    by (simp_all add: sample_store_defs)
  moreover have "listings sample_store ! 1 \<notin> lcd_listing ` set items"
    using items calculation(2) by (auto simp: card_key_def)
  moreover have "lst_createdAt (lcd_listing (last items)) < lst_createdAt (listings sample_store ! 1)"
    using items calculation(3) by (auto simp: card_key_def)
  ultimately have "listings sample_store ! 1 \<notin> lcd_listing ` set (concat ps)"
    using store_sort_loses_listings [OF _ sample_cursors_ok first _ _ ps] by blast
  with ps show ?thesis by (auto simp: sample_store_def)
qed


text \<open>C26. Whatever happens after a listing is withdrawn, no answer of the store contains it before it is published again.\<close>

theorem withdrawn_until_published:
  assumes "store_ok s" and "withdraw = listing_unpublish \<or> withdraw = listing_archive" and "fst (withdraw app u meta s) = Inr l"
    and "(store_step (\<lambda>act. act \<noteq> Publish app))\<^sup>*\<^sup>* (snd (withdraw app u meta s)) s'"
  shows "\<not> shown app s'"
proof -
  have "store_ok (snd (withdraw app u meta s))" using assms(1,2) ok_writes by (blast dest: preservesD)
  with withdrawn_hidden [OF assms(2,1,3)] have "store_ok s' \<and> hidden app s'" by (intro hidden_steps [OF assms(4)]) simp
  then show ?thesis using hidden_not_shown by blast
qed

theorem withdrawn_until_published_witness:
  "\<not> shown 7 (snd (run_store 1 no_meta (Upsert 7 \<lparr>ul_tagline = None, ul_description = None, ul_visibility = Some ListingVisibility.PUBLIC\<rparr>)
      (snd (listing_unpublish 7 1 no_meta sample_store))))
   \<and> shown 7 sample_store"
proof
  have "fst (listing_unpublish 7 1 no_meta sample_store)
    = Inr (sample_listing\<lparr>lst_status := ListingStatus.UNPUBLISHED, lst_unpublishedAt := Some 1700000000000\<rparr>)"
    by code_simp
  then show "\<not> shown 7 (snd (run_store 1 no_meta (Upsert 7 \<lparr>ul_tagline = None, ul_description = None, ul_visibility = Some ListingVisibility.PUBLIC\<rparr>)
      (snd (listing_unpublish 7 1 no_meta sample_store))))"
    by (intro withdrawn_until_published [OF sample_store_ok disjI1 [OF refl] _
        r_into_rtranclp [of "store_step (\<lambda>act. act \<noteq> Publish 7)", OF store_step.operation]]) (assumption, simp_all)
  have "fst (store_getListingDetail ''planner'' sample_store) = Inr \<lparr>sd_rated = rated sample_store sample_listing, sd_media = [], sd_changelogs = []\<rparr>"
    by code_simp
  then show "shown 7 sample_store" by (rule shown.detail) (simp add: sample_listing_def new_listing_def)
qed

theorem ratings_bounded_witness:
  "averageRating sample_store 50 = 4 \<and> (let s' = snd (run_store 2 no_meta (UpdateReview 80 \<lparr>rvd_rating = Some 5, rvd_title = None, rvd_body = None\<rparr>) sample_store) in
     averageRating s' 50 \<le> 5)"
proof
  show "averageRating sample_store 50 = 4" by code_simp
  let ?s = "snd (run_store 2 no_meta (UpdateReview 80 \<lparr>rvd_rating = Some 5, rvd_title = None, rvd_body = None\<rparr>) sample_store)"
  have "(store_step (\<lambda>_. True))\<^sup>*\<^sup>* sample_store ?s" by (intro r_into_rtranclp store_step.operation) simp_all
  from ratings_bounded [OF this sample_store_ok, of 50]
  show "let s' = ?s in averageRating s' 50 \<le> 5" by (simp split: if_splits)
qed

theorem deleted_review_final_witness:
  "let s' = snd (run_store 2 no_meta (CreateReview ''planner'' 5 None None) (snd (review_delete 80 2 sample_store))) in
   \<forall>x \<in> set (reviews s'). rv_listingId x = 50 \<and> rv_customerId x = 70 \<longrightarrow> rv_deletedAt x \<noteq> None"
proof -
  have "fst (review_delete 80 2 sample_store) = Inr ()" by code_simp
  moreover have "sample_review \<in> set (reviews sample_store)" by (simp add: sample_store_def)
  ultimately show ?thesis
    using deleted_review_final [OF _ sample_store_ok, of 80 2 sample_review "\<lambda>_. True",
        OF _ _ _ r_into_rtranclp [of "store_step (\<lambda>_. True)", OF store_step.operation [of "CreateReview ''planner'' 5 None None"]], of 2 no_meta]
    by (simp add: sample_review_def Let_def)
qed

end
