(* ===== verification/Admin.thy ===== *)
theory Admin
  imports Store
begin

text \<open>
  Customers of an organisation (customers/customers.service.ts) and the consoles of the platform's administrators over
  organisations, applications and customers (admin-organizations/, admin-applications/, admin-customers/). The
  detail views of the consoles, which join the tables of most components, are not modelled.
\<close>

section \<open>CustomersService\<close>

record create_customer_dto =
  cc_applicationId :: "id option"
  cc_userId :: "id option"
  cc_type :: "CustomerType option"
  cc_displayName :: "string option"
  cc_email :: "string option"
  cc_externalIds :: "json option"
  cc_metadata :: "json option"

record update_customer_dto =
  uc_type :: "CustomerType option"
  uc_displayName :: "string option"
  uc_email :: "string option"
  uc_externalIds :: "json option"
  uc_metadata :: "json option"

definition new_customer :: "id \<Rightarrow> time \<Rightarrow> id \<Rightarrow> create_customer_dto \<Rightarrow> customer_profile" where
  "new_customer i t org dto = \<lparr>cp_id = i, cp_organizationId = org, cp_applicationId = cc_applicationId dto, cp_userId = cc_userId dto,
     cp_type = orElse (cc_type dto) INDIVIDUAL, cp_status = CustomerStatus.ACTIVE, cp_suspendedAt = None, cp_displayName = cc_displayName dto,
     cp_email = cc_email dto, cp_externalIds = cc_externalIds dto, cp_metadata = cc_metadata dto, cp_createdAt = t\<rparr>"

definition customer_create :: "id \<Rightarrow> id \<Rightarrow> create_customer_dto \<Rightarrow> request_meta \<Rightarrow> ('z store_db_scheme, customer_profile) svc" where
  "customer_create org userId dto meta =
     seq (case cc_applicationId dto of None \<Rightarrow> ret ()
       | Some app \<Rightarrow> bnd (find_row appEntries (\<lambda>a. ap_id a = app)) (\<lambda>application.
           guard_or (case application of None \<Rightarrow> False | Some a \<Rightarrow> ap_organizationId a = org) (NotFoundException ''Application not found in this organization'')))
     (bnd fresh (\<lambda>i. bnd now (\<lambda>t.
      bnd (insert_row customerProfiles_update (new_customer i t org dto)) (\<lambda>customer.
      seq (audit ''CUSTOMER_CREATED'' (Some userId) (Some org) (cc_applicationId dto) [(''customerId'', JId (cp_id customer))] meta)
          (ret customer)))))"

definition customer_list :: "(string \<Rightarrow> time option) \<Rightarrow> id \<Rightarrow> string option \<Rightarrow> int option \<Rightarrow> ('z store_db_scheme, customer_profile list \<times> string option) svc" where
  "customer_list other org cursor lmt = bnd (lift (buildCursorWhereClause other cursor)) (\<lambda>c. gets (\<lambda>s.
     find_page cp_createdAt (\<lambda>r. id_str (cp_id r)) (cursor_order cp_createdAt (\<lambda>r. id_str (cp_id r)))
       (spread [(''organizationId'', \<lambda>r. cp_organizationId r = org)] (cursor_obj cp_createdAt (\<lambda>r. id_str (cp_id r)) c)) lmt (customerProfiles s)))"

definition customer_getOwned :: "id \<Rightarrow> id \<Rightarrow> ('z store_db_scheme, customer_profile) svc" where
  "customer_getOwned customerId org = bnd (find_row customerProfiles (\<lambda>c. cp_id c = customerId)) (\<lambda>r. case r of
     None \<Rightarrow> throw (NotFoundException ''Customer not found'')
   | Some c \<Rightarrow> if cp_organizationId c \<noteq> org then throw (NotFoundException ''Customer not found'') else ret c)"

definition customer_getOne :: "id \<Rightarrow> id \<Rightarrow> ('z store_db_scheme, customer_profile) svc" where
  "customer_getOne customerId org = customer_getOwned customerId org"

definition customer_patch :: "update_customer_dto \<Rightarrow> customer_profile \<Rightarrow> customer_profile" where
  "customer_patch dto c = c\<lparr>cp_type := keepUndef (uc_type dto) (cp_type c), cp_displayName := keepOpt (uc_displayName dto) (cp_displayName c),
     cp_email := keepOpt (uc_email dto) (cp_email c), cp_externalIds := keepOpt (uc_externalIds dto) (cp_externalIds c),
     cp_metadata := keepOpt (uc_metadata dto) (cp_metadata c)\<rparr>"

definition customer_update :: "id \<Rightarrow> id \<Rightarrow> id \<Rightarrow> update_customer_dto \<Rightarrow> request_meta \<Rightarrow> ('z store_db_scheme, customer_profile) svc" where
  "customer_update customerId org userId dto meta =
     seq (customer_getOwned customerId org)
     (bnd (update_row customerProfiles customerProfiles_update (\<lambda>c. cp_id c = customerId) (customer_patch dto)) (\<lambda>customer.
      seq (audit ''CUSTOMER_UPDATED'' (Some userId) (Some org) None [(''customerId'', JId customerId)] meta) (ret customer)))"

section \<open>Lists of the consoles\<close>

record admin_query =
  aq_search :: "string option"
  aq_cursor :: "string option"
  aq_limit :: "int option"

text \<open>All three spread the search first and the cursor, an \<open>OR\<close> too, over it.\<close>

definition admin_where :: "('r \<Rightarrow> time) \<Rightarrow> ('r \<Rightarrow> string) \<Rightarrow> (string \<Rightarrow> 'r \<Rightarrow> bool) \<Rightarrow> string option \<Rightarrow> (time \<Rightarrow> string \<Rightarrow> bool) option \<Rightarrow> 'r where_obj" where
  "admin_where tm ident hit search c = spread (spread_if (truthy search) [(''OR'', hit (the search))]) (cursor_obj tm ident c)"

definition admin_page ::
  "(string \<Rightarrow> time option) \<Rightarrow> ('r \<Rightarrow> time) \<Rightarrow> ('r \<Rightarrow> string) \<Rightarrow> (string \<Rightarrow> 'r \<Rightarrow> bool) \<Rightarrow> admin_query \<Rightarrow> 'r list \<Rightarrow> exn + ('r list \<times> string option)" where
  "admin_page other tm ident hit query rows = (case buildCursorWhereClause other (aq_cursor query) of Inl e \<Rightarrow> Inl e
     | Inr c \<Rightarrow> Inr (find_page tm ident (cursor_order tm ident) (admin_where tm ident hit (aq_search query) c) (aq_limit query) rows))"

text \<open>What the lists show of a row.\<close>

record organization_item =
  oi_id :: id
  oi_name :: string
  oi_slug :: string
  oi_status :: OrganizationStatus
  oi_memberCount :: nat
  oi_applicationCount :: nat
  oi_createdAt :: time

definition organization_item_of :: "'z store_db_scheme \<Rightarrow> organization_row \<Rightarrow> organization_item" where
  "organization_item_of s o1 = \<lparr>oi_id = org_id o1, oi_name = org_name o1, oi_slug = org_slug o1, oi_status = org_status o1,
     oi_memberCount = count_where (\<lambda>m. om_organizationId m = org_id o1) (orgMembers s),
     oi_applicationCount = count_where (\<lambda>a. ap_organizationId a = org_id o1) (appEntries s), oi_createdAt = org_createdAt o1\<rparr>"

definition org_hit :: "string \<Rightarrow> organization_row \<Rightarrow> bool" where
  "org_hit q o1 \<longleftrightarrow> contains_ci q (org_name o1) \<or> contains_ci q (org_slug o1)"

definition adminOrg_list :: "(string \<Rightarrow> time option) \<Rightarrow> admin_query \<Rightarrow> ('z store_db_scheme, organization_item list \<times> string option) svc" where
  "adminOrg_list other query = bnd (gets (\<lambda>s. admin_page other org_createdAt (\<lambda>o1. id_str (org_id o1)) org_hit query (organizations s))) (\<lambda>r.
     bnd (lift r) (\<lambda>p. gets (\<lambda>s. apfst (map (organization_item_of s)) p)))"

record application_item =
  ai_id :: id
  ai_name :: string
  ai_slug :: string
  ai_status :: ApplicationStatus
  ai_organizationId :: id
  ai_organizationName :: "string option"
  ai_createdAt :: time

definition org_name_of :: "'z store_db_scheme \<Rightarrow> id \<Rightarrow> string option" where
  "org_name_of s org = map_option org_name (List.find (\<lambda>o1. org_id o1 = org) (organizations s))"

definition application_item_of :: "'z store_db_scheme \<Rightarrow> app_entry \<Rightarrow> application_item" where
  "application_item_of s a = \<lparr>ai_id = ap_id a, ai_name = ap_name a, ai_slug = ap_slug a, ai_status = ap_status a,
     ai_organizationId = ap_organizationId a, ai_organizationName = org_name_of s (ap_organizationId a), ai_createdAt = ap_createdAt a\<rparr>"

definition app_hit :: "string \<Rightarrow> app_entry \<Rightarrow> bool" where
  "app_hit q a \<longleftrightarrow> contains_ci q (ap_name a) \<or> contains_ci q (ap_slug a)"

definition adminApp_list :: "(string \<Rightarrow> time option) \<Rightarrow> admin_query \<Rightarrow> ('z store_db_scheme, application_item list \<times> string option) svc" where
  "adminApp_list other query = bnd (gets (\<lambda>s. admin_page other ap_createdAt (\<lambda>a. id_str (ap_id a)) app_hit query (appEntries s))) (\<lambda>r.
     bnd (lift r) (\<lambda>p. gets (\<lambda>s. apfst (map (application_item_of s)) p)))"

record customer_item =
  ci_id :: id
  ci_displayName :: "string option"
  ci_email :: "string option"
  ci_status :: CustomerStatus
  ci_organizationId :: id
  ci_organizationName :: "string option"
  ci_applicationId :: "id option"
  ci_createdAt :: time

definition customer_item_of :: "'z store_db_scheme \<Rightarrow> customer_profile \<Rightarrow> customer_item" where
  "customer_item_of s c = \<lparr>ci_id = cp_id c, ci_displayName = cp_displayName c, ci_email = cp_email c, ci_status = cp_status c,
     ci_organizationId = cp_organizationId c, ci_organizationName = org_name_of s (cp_organizationId c), ci_applicationId = cp_applicationId c,
     ci_createdAt = cp_createdAt c\<rparr>"

definition customer_hit :: "string \<Rightarrow> customer_profile \<Rightarrow> bool" where
  "customer_hit q c \<longleftrightarrow> contains_opt q (cp_displayName c) \<or> contains_opt q (cp_email c)"

definition adminCustomer_list :: "(string \<Rightarrow> time option) \<Rightarrow> admin_query \<Rightarrow> ('z store_db_scheme, customer_item list \<times> string option) svc" where
  "adminCustomer_list other query = bnd (gets (\<lambda>s. admin_page other cp_createdAt (\<lambda>c. id_str (cp_id c)) customer_hit query (customerProfiles s))) (\<lambda>r.
     bnd (lift r) (\<lambda>p. gets (\<lambda>s. apfst (map (customer_item_of s)) p)))"

section \<open>AdminOrganizationsService\<close>

definition adminOrg_getOrThrow :: "id \<Rightarrow> ('z store_db_scheme, organization_row) svc" where
  "adminOrg_getOrThrow org = bnd (find_row organizations (\<lambda>o1. org_id o1 = org)) (\<lambda>r. case r of
     None \<Rightarrow> throw (NotFoundException ''Organization not found'') | Some o1 \<Rightarrow> ret o1)"

text \<open>Find the organisation, write columns that depend on the time, record the action.\<close>

definition adminOrg_write ::
  "string \<Rightarrow> (string \<times> json) list \<Rightarrow> (time \<Rightarrow> organization_row \<Rightarrow> organization_row) \<Rightarrow> id \<Rightarrow> id \<Rightarrow> request_meta
   \<Rightarrow> ('z store_db_scheme, organization_row) svc" where
  "adminOrg_write act mdata f org adminUserId meta =
     seq (adminOrg_getOrThrow org) (bnd now (\<lambda>t.
     bnd (update_row organizations organizations_update (\<lambda>o1. org_id o1 = org) (f t)) (\<lambda>organization.
     seq (audit act (Some adminUserId) (Some org) None mdata meta) (ret organization))))"

definition adminOrg_suspend :: "id \<Rightarrow> string option \<Rightarrow> id \<Rightarrow> request_meta \<Rightarrow> ('z store_db_scheme, organization_row) svc" where
  "adminOrg_suspend org reason adminUserId meta = adminOrg_write ''ORGANIZATION_SUSPENDED'' (jopt ''reason'' JStr reason)
     (\<lambda>t o1. o1\<lparr>org_status := OrganizationStatus.SUSPENDED, org_suspendedAt := Some t, org_suspensionReason := keepOpt reason (org_suspensionReason o1)\<rparr>)
     org adminUserId meta"

definition adminOrg_reactivate :: "id \<Rightarrow> id \<Rightarrow> request_meta \<Rightarrow> ('z store_db_scheme, organization_row) svc" where
  "adminOrg_reactivate = adminOrg_write ''ORGANIZATION_REACTIVATED'' []
     (\<lambda>t o1. o1\<lparr>org_status := OrganizationStatus.ACTIVE, org_suspendedAt := None, org_suspensionReason := None\<rparr>)"

definition adminOrg_archive :: "id \<Rightarrow> id \<Rightarrow> request_meta \<Rightarrow> ('z store_db_scheme, organization_row) svc" where
  "adminOrg_archive = adminOrg_write ''ORGANIZATION_ARCHIVED'' []
     (\<lambda>t o1. o1\<lparr>org_status := OrganizationStatus.ARCHIVED, org_archivedAt := Some t\<rparr>)"

definition adminOrg_softDelete :: "id \<Rightarrow> id \<Rightarrow> request_meta \<Rightarrow> ('z store_db_scheme, unit) svc" where
  "adminOrg_softDelete org adminUserId meta = void (adminOrg_write ''ORGANIZATION_SOFT_DELETED'' []
     (\<lambda>t o1. o1\<lparr>org_status := OrganizationStatus.DELETED, org_deletedAt := Some t\<rparr>) org adminUserId meta)"

text \<open>\<open>upsert\<close> of a membership with the role OWNER.\<close>

definition upsert_owner :: "id \<Rightarrow> id \<Rightarrow> ('z store_db_scheme, unit) svc" where
  "upsert_owner org userId = bnd (find_row orgMembers (org_membership org userId)) (\<lambda>r. case r of
     Some _ \<Rightarrow> void (update_row orgMembers orgMembers_update (org_membership org userId) (\<lambda>m. m\<lparr>om_role := OrganizationRole.OWNER\<rparr>))
   | None \<Rightarrow> void (insert_org_member org userId OrganizationRole.OWNER))"

definition demote_owners :: "id \<Rightarrow> id \<Rightarrow> ('z store_db_scheme, unit) svc" where
  "demote_owners org userId = void (update_many orgMembers orgMembers_update
     (\<lambda>m. om_organizationId m = org \<and> om_role m = OrganizationRole.OWNER \<and> om_userId m \<noteq> userId) (\<lambda>m. m\<lparr>om_role := OrganizationRole.ADMINISTRATOR\<rparr>))"

definition handover :: "id \<Rightarrow> id \<Rightarrow> ('z store_db_scheme, unit) svc" where
  "handover org newOwner = transaction (seq (demote_owners org newOwner) (upsert_owner org newOwner))"

definition adminOrg_transferOwnership :: "id \<Rightarrow> id \<Rightarrow> id \<Rightarrow> request_meta \<Rightarrow> ('z store_db_scheme, org_member option) svc" where
  "adminOrg_transferOwnership org newOwner adminUserId meta =
     seq (adminOrg_getOrThrow org)
     (bnd (find_row accounts (\<lambda>a. acc_id a = newOwner)) (\<lambda>user.
      seq (guard_or (user \<noteq> None) (BadRequestException ''Target user not found''))
      (seq (handover org newOwner)
      (seq (audit ''ORGANIZATION_OWNERSHIP_TRANSFERRED'' (Some adminUserId) (Some org) None [(''newOwnerUserId'', JId newOwner)] meta)
           (find_row orgMembers (org_membership org newOwner))))))"

section \<open>AdminApplicationsService\<close>

definition adminApp_getOrThrow :: "id \<Rightarrow> ('z store_db_scheme, app_entry) svc" where
  "adminApp_getOrThrow app = bnd (find_row appEntries (\<lambda>a. ap_id a = app)) (\<lambda>r. case r of
     None \<Rightarrow> throw (NotFoundException ''Application not found'') | Some a \<Rightarrow> ret a)"

definition adminApp_write ::
  "string \<Rightarrow> (time \<Rightarrow> app_entry \<Rightarrow> app_entry) \<Rightarrow> id \<Rightarrow> id \<Rightarrow> request_meta \<Rightarrow> ('z store_db_scheme, app_entry) svc" where
  "adminApp_write act f app adminUserId meta =
     seq (adminApp_getOrThrow app) (bnd now (\<lambda>t.
     bnd (update_row appEntries appEntries_update (\<lambda>a. ap_id a = app) (f t)) (\<lambda>application.
     seq (audit act (Some adminUserId) None (Some app) [] meta) (ret application))))"

definition adminApp_suspend :: "id \<Rightarrow> id \<Rightarrow> request_meta \<Rightarrow> ('z store_db_scheme, app_entry) svc" where
  "adminApp_suspend = adminApp_write ''APPLICATION_SUSPENDED_BY_ADMIN'' (\<lambda>t a. a\<lparr>ap_status := ApplicationStatus.SUSPENDED\<rparr>)"

definition adminApp_restore :: "id \<Rightarrow> id \<Rightarrow> request_meta \<Rightarrow> ('z store_db_scheme, app_entry) svc" where
  "adminApp_restore = adminApp_write ''APPLICATION_RESTORED'' (\<lambda>t a. a\<lparr>ap_status := ApplicationStatus.ACTIVE\<rparr>)"

definition adminApp_archive :: "id \<Rightarrow> id \<Rightarrow> request_meta \<Rightarrow> ('z store_db_scheme, app_entry) svc" where
  "adminApp_archive = adminApp_write ''APPLICATION_ARCHIVED'' (\<lambda>t a. a\<lparr>ap_status := ApplicationStatus.ARCHIVED, ap_archivedAt := Some t\<rparr>)"

definition adminApp_move :: "id \<Rightarrow> id \<Rightarrow> id \<Rightarrow> request_meta \<Rightarrow> ('z store_db_scheme, app_entry) svc" where
  "adminApp_move app target adminUserId meta =
     bnd (adminApp_getOrThrow app) (\<lambda>application.
     bnd (find_row organizations (\<lambda>o1. org_id o1 = target)) (\<lambda>targetOrganization.
     seq (guard_or (targetOrganization \<noteq> None) (NotFoundException ''Target organization not found''))
     (try_catch
       (bnd (update_row appEntries appEntries_update (\<lambda>a. ap_id a = app) (\<lambda>a. a\<lparr>ap_organizationId := target\<rparr>)) (\<lambda>updated.
        seq (audit ''APPLICATION_MOVED_TO_ORGANIZATION'' (Some adminUserId) (Some target) (Some app)
              [(''fromOrganizationId'', JId (ap_organizationId application))] meta) (ret updated)))
       (\<lambda>error. throw (if error = PrismaError ''P2002'' then ConflictException ''Application move conflicts with a unique constraint'' else error)))))"

section \<open>AdminCustomersService\<close>

definition adminCustomer_getOrThrow :: "id \<Rightarrow> ('z store_db_scheme, customer_profile) svc" where
  "adminCustomer_getOrThrow customerId = bnd (find_row customerProfiles (\<lambda>c. cp_id c = customerId)) (\<lambda>r. case r of
     None \<Rightarrow> throw (NotFoundException ''Customer not found'') | Some c \<Rightarrow> ret c)"

definition adminCustomer_write ::
  "string \<Rightarrow> (time \<Rightarrow> customer_profile \<Rightarrow> customer_profile) \<Rightarrow> id \<Rightarrow> id \<Rightarrow> request_meta \<Rightarrow> ('z store_db_scheme, customer_profile) svc" where
  "adminCustomer_write act f customerId adminUserId meta =
     seq (adminCustomer_getOrThrow customerId) (bnd now (\<lambda>t.
     bnd (update_row customerProfiles customerProfiles_update (\<lambda>c. cp_id c = customerId) (f t)) (\<lambda>customer.
     seq (audit act (Some adminUserId) (Some (cp_organizationId customer)) None [(''customerId'', JId customerId)] meta) (ret customer))))"

definition adminCustomer_suspend :: "id \<Rightarrow> id \<Rightarrow> request_meta \<Rightarrow> ('z store_db_scheme, customer_profile) svc" where
  "adminCustomer_suspend = adminCustomer_write ''CUSTOMER_SUSPENDED'' (\<lambda>t c. c\<lparr>cp_status := CustomerStatus.SUSPENDED, cp_suspendedAt := Some t\<rparr>)"

definition adminCustomer_reactivate :: "id \<Rightarrow> id \<Rightarrow> request_meta \<Rightarrow> ('z store_db_scheme, customer_profile) svc" where
  "adminCustomer_reactivate = adminCustomer_write ''CUSTOMER_REACTIVATED'' (\<lambda>t c. c\<lparr>cp_status := CustomerStatus.ACTIVE, cp_suspendedAt := None\<rparr>)"

end
