(* ===== verification/Admin_Flow.thy ===== *)
theory Admin_Flow
  imports Admin Store_Flow
begin

text \<open>
  What the consoles do to access and ownership, and what their lists answer: a transfer leaves one owner, a
  suspension changes no decision, a search is forgotten from the second page on, and the customers of an organisation are listed once each.
\<close>

section \<open>Transfer of ownership\<close>

definition owners_of :: "id \<Rightarrow> 'z member_db_scheme \<Rightarrow> id set" where
  "owners_of org s = set (map om_userId (filter (\<lambda>m. om_organizationId m = org \<and> om_role m = OrganizationRole.OWNER) (orgMembers s)))"

text \<open>The rows of the organisation's members after the transaction, with a new row for a user who was no member.\<close>

definition transferred :: "id \<Rightarrow> id \<Rightarrow> id \<Rightarrow> time \<Rightarrow> org_member list \<Rightarrow> org_member list" where
  "transferred org u i t rows =
     (let rs = upd_where (\<lambda>m. om_organizationId m = org \<and> om_role m = OrganizationRole.OWNER \<and> om_userId m \<noteq> u) (\<lambda>m. m\<lparr>om_role := OrganizationRole.ADMINISTRATOR\<rparr>) rows in
      if \<exists>m \<in> set rows. org_membership org u m then upd_where (org_membership org u) (\<lambda>m. m\<lparr>om_role := OrganizationRole.OWNER\<rparr>) rs
      else rs @ [new_org_member i t org u OrganizationRole.OWNER])"

lemma transferred_row:
  "x \<in> set (transferred org u i t rows) \<Longrightarrow>
   x = new_org_member i t org u OrganizationRole.OWNER
   \<or> (\<exists>m \<in> set rows. om_id x = om_id m \<and> om_organizationId x = om_organizationId m \<and> om_userId x = om_userId m
       \<and> (om_organizationId m \<noteq> org \<longrightarrow> x = m) \<and> (om_organizationId m = org \<longrightarrow> (om_role x = OrganizationRole.OWNER \<longleftrightarrow> om_userId m = u \<and> om_role x = OrganizationRole.OWNER)))"
  by (auto simp: transferred_def Let_def set_upd_where org_membership_def split: if_splits)

lemma transferred_owner: "\<exists>x \<in> set (transferred org u i t rows). om_organizationId x = org \<and> om_userId x = u \<and> om_role x = OrganizationRole.OWNER"
proof (cases "\<exists>m \<in> set rows. org_membership org u m")
  case True
  then obtain m where "m \<in> set rows" "org_membership org u m" by blast
  then have "m\<lparr>om_role := OrganizationRole.OWNER\<rparr> \<in> set (transferred org u i t rows)"
    by (force simp: transferred_def Let_def set_upd_where org_membership_def)
  with \<open>org_membership org u m\<close> show ?thesis
    by (intro bexI [of _ "m\<lparr>om_role := OrganizationRole.OWNER\<rparr>"]) (simp_all add: org_membership_def)
next
  case False
  then show ?thesis by (auto simp: transferred_def Let_def new_org_member_def)
qed

lemma filter_upd_outside: "(\<And>m. P m \<Longrightarrow> \<not> R m \<and> \<not> R (f m)) \<Longrightarrow> filter R (upd_where P f rs) = filter R rs"
  by (induction rs) (auto simp: upd_where_def)

lemma transferred_others:
  "filter (\<lambda>m. om_organizationId m \<noteq> org) (transferred org u i t rows) = filter (\<lambda>m. om_organizationId m \<noteq> org) rows"
proof -
  let ?R = "\<lambda>m. om_organizationId m \<noteq> org"
  have "filter ?R (upd_where (\<lambda>m. om_organizationId m = org \<and> om_role m = OrganizationRole.OWNER \<and> om_userId m \<noteq> u)
      (\<lambda>m. m\<lparr>om_role := OrganizationRole.ADMINISTRATOR\<rparr>) rows) = filter ?R rows"
    by (rule filter_upd_outside) simp
  moreover have "filter ?R (upd_where (org_membership org u) (\<lambda>m. m\<lparr>om_role := OrganizationRole.OWNER\<rparr>) rs) = filter ?R rs" for rs
    by (rule filter_upd_outside) (simp add: org_membership_def)
  ultimately show ?thesis by (simp add: transferred_def Let_def new_org_member_def)
qed

lemma transferred_ok:
  assumes "org_table_ok scopes rows n" and "n \<le> n'" and "n' = n \<longrightarrow> (\<exists>m \<in> set rows. org_membership org u m)"
  shows "org_table_ok scopes (transferred org u n t rows) n'"
proof -
  have "has_owner om_organizationId (\<lambda>m. om_role m = OrganizationRole.OWNER) (transferred org u n t rows) x"
    if "has_owner om_organizationId (\<lambda>m. om_role m = OrganizationRole.OWNER) rows x" for x
  proof (cases "x = org")
    case True
    then show ?thesis using transferred_owner [of org u n t rows] by (auto simp: has_owner_def)
  next
    case False
    from that obtain m where "m \<in> set (filter (\<lambda>m. om_organizationId m \<noteq> org) rows)" "om_organizationId m = x" "om_role m = OrganizationRole.OWNER"
      using False by (auto simp: has_owner_def)
    then show ?thesis unfolding transferred_others [of org u n t rows, symmetric] by (auto simp: has_owner_def)
  qed
  moreover have "distinct (map om_id (transferred org u n t rows)) \<and> (\<forall>m \<in> set (transferred org u n t rows). om_id m < n')"
    using assms by (auto simp: table_ok_def transferred_def Let_def map_upd_where ball_upd_where new_org_member_def org_membership_def)
  ultimately show ?thesis using assms by (auto simp: table_ok_def)
qed

lemma wps_demote:
  "wps (demote_owners org u) Q s = Q (Inr ()) (orgMembers_update (upd_where
     (\<lambda>m. om_organizationId m = org \<and> om_role m = OrganizationRole.OWNER \<and> om_userId m \<noteq> u) (\<lambda>m. m\<lparr>om_role := OrganizationRole.ADMINISTRATOR\<rparr>)) s)"
  by (simp add: demote_owners_def void_def wp)

lemma wps_upsert_owner:
  "wps (upsert_owner org u) Q s = (case List.find (org_membership org u) (orgMembers s) of
     Some _ \<Rightarrow> Q (Inr ()) (orgMembers_update (upd_where (org_membership org u) (\<lambda>m. m\<lparr>om_role := OrganizationRole.OWNER\<rparr>)) s)
   | None \<Rightarrow> Q (Inr ()) (orgMembers_update (\<lambda>rs. rs @ [new_org_member (nextId s) (clock s) org u OrganizationRole.OWNER]) (nextId_update Suc s)))"
  by (simp add: upsert_owner_def insert_org_member_def void_def wp split: option.split)

text \<open>The result of the transaction as a replacement of the table.\<close>

lemma wps_handover:
  "wps (handover org u) Q s =
    (let z = (if \<exists>m \<in> set (orgMembers s). org_membership org u m then s else nextId_update Suc s) in
     Q (Inr ()) (z\<lparr>orgMembers := transferred org u (nextId s) (clock s) (orgMembers s)\<rparr>))"
proof -
  let ?P = "\<lambda>m. om_organizationId m = org \<and> om_role m = OrganizationRole.OWNER \<and> om_userId m \<noteq> u"
  let ?f = "\<lambda>m. m\<lparr>om_role := OrganizationRole.ADMINISTRATOR\<rparr>"
  let ?own = "\<lambda>m. m\<lparr>om_role := OrganizationRole.OWNER\<rparr>"
  have const: "orgMembers_update g z = z\<lparr>orgMembers := g (orgMembers z)\<rparr>" for g and z :: "'a store_db_scheme"
    by simp
  have find: "List.find (org_membership org u) (upd_where ?P ?f rows) = List.find (org_membership org u) rows" for rows
    by (rule find_upd_where_other) (simp add: org_membership_def)
  show ?thesis
  proof (cases "List.find (org_membership org u) (orgMembers s)")
    case None
    then have no: "(\<exists>m \<in> set (orgMembers s). org_membership org u m) = False" by (simp add: find_None_iff')
    show ?thesis
      by (simp only: handover_def wp sum.case wps_demote wps_upsert_owner, subst const, simp add: find None no transferred_def Let_def, subst const, simp)
  next
    case (Some m)
    then have yes: "(\<exists>m \<in> set (orgMembers s). org_membership org u m) = True" using find_SomeD [OF Some] by auto
    show ?thesis
      by (simp only: handover_def wp sum.case wps_demote wps_upsert_owner, subst const, simp add: find Some yes transferred_def Let_def, subst const, simp)
  qed
qed

lemma transferred_owners:
  "set (map om_userId (filter (\<lambda>m. om_organizationId m = org \<and> om_role m = OrganizationRole.OWNER) (transferred org u i t rows))) = {u}"
proof -
  have "om_userId x = u" if x: "x \<in> set (transferred org u i t rows)" "om_organizationId x = org" "om_role x = OrganizationRole.OWNER" for x
    using transferred_row [OF x(1)]
  proof
    assume "x = new_org_member i t org u OrganizationRole.OWNER"
    then have "om_userId x = om_userId (new_org_member i t org u OrganizationRole.OWNER)" by (rule arg_cong)
    then show ?thesis by (simp add: new_org_member_def)
  qed (use x(2,3) in auto)
  then show ?thesis using transferred_owner [of org u i t rows] by auto
qed

lemma handover_result:
  fixes s :: "'z store_db_scheme"
  assumes "members_ok s" and "z = (if \<exists>m \<in> set (orgMembers s). org_membership org u m then s else nextId_update Suc s)"
  shows "members_ok (z\<lparr>orgMembers := transferred org u (nextId s) t (orgMembers s)\<rparr>)"
proof -
  have "org_table_ok (map org_id (organizations s)) (orgMembers s) (nextId s)" using assms(1) by (simp add: members_ok_def)
  then have "org_table_ok (map org_id (organizations s)) (transferred org u (nextId s) t (orgMembers s)) (nextId z)"
    by (rule transferred_ok) (simp_all add: assms(2))
  moreover have z: "organizations z = organizations s" "appEntries z = appEntries s" "appMembers z = appMembers s" "invitations z = invitations s" "nextId s \<le> nextId z"
    by (simp_all add: assms(2))
  moreover have "app_table_ok (map ap_id (appEntries s)) (appMembers s) (nextId z)"
    using assms(1) z(5) by (auto simp: members_ok_def intro: app_table.mono)
  ultimately show ?thesis using assms(1) by (auto simp: members_ok_def intro: less_le_trans)
qed

text \<open>C15. A transfer of ownership leaves the new owner as the only one, touches no other organisation, and keeps
  the invariant that every organisation and every application has an owner.\<close>

theorem transfer_sole_owner:
  assumes "fst (adminOrg_transferOwnership org u admin meta s) = Inr r" and "members_ok s"
  shows "let s' = snd (adminOrg_transferOwnership org u admin meta s) in
    owners_of org s' = {u} \<and> members_ok s'
    \<and> filter (\<lambda>m. om_organizationId m \<noteq> org) (orgMembers s') = filter (\<lambda>m. om_organizationId m \<noteq> org) (orgMembers s)"
proof -
  let ?Q = "\<lambda>r s'. \<forall>x. r = Inr x \<longrightarrow> owners_of org s' = {u} \<and> members_ok s'
    \<and> filter (\<lambda>m. om_organizationId m \<noteq> org) (orgMembers s') = filter (\<lambda>m. om_organizationId m \<noteq> org) (orgMembers s)"
  have keep: "members_ok (audits_update f z) = members_ok z" "owners_of org (audits_update f z) = owners_of org z" for f and z :: "'a store_db_scheme"
    by (simp_all add: owners_of_def members_ok_def)
  have owners: "owners_of org (z\<lparr>orgMembers := transferred org u (nextId s) (clock s) (orgMembers s)\<rparr>) = {u}" for z :: "'a store_db_scheme"
    using transferred_owners by (simp only: owners_of_def) simp
  have "wps (adminOrg_transferOwnership org u admin meta) ?Q s"
    unfolding adminOrg_transferOwnership_def adminOrg_getOrThrow_def
    using handover_result [OF assms(2) refl, of org u "clock s"]
    by (simp add: wp wps_handover Let_def keep owners transferred_others split: option.split)
  then show ?thesis using assms(1) by (simp add: wps_run Let_def)
qed

theorem transfer_sole_owner_witness:
  "let s' = snd (adminOrg_transferOwnership 1 2 9 no_meta sample_store) in
    owners_of 1 s' = {2} \<and> members_ok s' \<and> owners_of 1 sample_store = {1}"
proof -
  have "members_ok sample_store"
    by (simp add: members_ok_def table_ok_def has_owner_def sample_store_defs new_organization_def new_org_member_def new_app_member_def sample_app_def new_app_def)
  moreover have "fst (adminOrg_transferOwnership 1 2 9 no_meta sample_store) = Inr (Some (new_org_member 100 1700000000000 1 2 OrganizationRole.OWNER))"
    by code_simp
  moreover have "owners_of 1 sample_store = {1}"
    by code_simp
  ultimately show ?thesis using transfer_sole_owner [of 1 2 9 no_meta sample_store] by (simp add: Let_def)
qed

section \<open>Suspension\<close>

text \<open>A suspended organisation, application or customer is refused nowhere: the guards decide as before, the store shows
  the application, and the customer may review it.\<close>

lemma guard_results:
  assumes "orgMembers s' = orgMembers s" and "appMembers s' = appMembers s"
    and "\<And>i. map_option (\<lambda>a. (ap_id a, ap_organizationId a)) (List.find (\<lambda>a. ap_id a = i) (appEntries s'))
      = map_option (\<lambda>a. (ap_id a, ap_organizationId a)) (List.find (\<lambda>a. ap_id a = i) (appEntries s))"
  shows "fst (organizationRoleGuard role orgParam user s') = fst (organizationRoleGuard role orgParam user s)"
    and "fst (applicationRoleGuard arole appParam orgParam user s') = fst (applicationRoleGuard arole appParam orgParam user s)"
proof -
  have check: "fst (app_role_check r a u s') = fst (app_role_check r b u s)" if "ap_id a = ap_id b" "ap_organizationId a = ap_organizationId b" for r a b u
    using assms(1,2) that by (simp add: app_role_check_def run guard_or_def)
  have other: "fst (app_role_check r a u s) = fst (app_role_check r b u s)" if "ap_id a = ap_id b" "ap_organizationId a = ap_organizationId b" for r a b u
    unfolding app_role_check_def that ..
  show "fst (organizationRoleGuard role orgParam user s') = fst (organizationRoleGuard role orgParam user s)"
    using assms(1) by (simp add: organizationRoleGuard_def run guard_or_def split: option.split)
  show "fst (applicationRoleGuard arole appParam orgParam user s') = fst (applicationRoleGuard arole appParam orgParam user s)"
    using assms(3) [of "the appParam"] check [OF refl refl]
    by (auto intro!: other simp: applicationRoleGuard_def run split: option.splits)
qed

text \<open>The state after a console has written one row.\<close>

lemma console_states:
  "snd (adminOrg_write act md f org admin meta s) = s
   \<or> (\<exists>g h. snd (adminOrg_write act md f org admin meta s) = audits_update g (organizations_update h s))"
  "snd (adminApp_write act f2 app admin meta s) = s
   \<or> (\<exists>g. snd (adminApp_write act f2 app admin meta s) = audits_update g (appEntries_update (upd_where (\<lambda>a. ap_id a = app) (f2 (clock s))) s))"
  "snd (adminCustomer_write act f3 c admin meta s) = s
   \<or> (\<exists>g. snd (adminCustomer_write act f3 c admin meta s) = audits_update g (customerProfiles_update (upd_where (\<lambda>x. cp_id x = c) (f3 (clock s))) s))"
proof -
  have "wps (adminOrg_write act md f org admin meta) (\<lambda>r s'. s' = s \<or> (\<exists>g h. s' = audits_update g (organizations_update h s))) s"
    by (simp add: adminOrg_write_def adminOrg_getOrThrow_def wp split: option.split) blast
  then show "snd (adminOrg_write act md f org admin meta s) = s
   \<or> (\<exists>g h. snd (adminOrg_write act md f org admin meta s) = audits_update g (organizations_update h s))" by (simp add: wps_run)
  have "wps (adminApp_write act f2 app admin meta)
    (\<lambda>r s'. s' = s \<or> (\<exists>g. s' = audits_update g (appEntries_update (upd_where (\<lambda>a. ap_id a = app) (f2 (clock s))) s))) s"
    by (simp add: adminApp_write_def adminApp_getOrThrow_def wp split: option.split) blast
  then show "snd (adminApp_write act f2 app admin meta s) = s
   \<or> (\<exists>g. snd (adminApp_write act f2 app admin meta s) = audits_update g (appEntries_update (upd_where (\<lambda>a. ap_id a = app) (f2 (clock s))) s))"
    by (simp add: wps_run)
  have "wps (adminCustomer_write act f3 c admin meta)
    (\<lambda>r s'. s' = s \<or> (\<exists>g. s' = audits_update g (customerProfiles_update (upd_where (\<lambda>x. cp_id x = c) (f3 (clock s))) s))) s"
    by (simp add: adminCustomer_write_def adminCustomer_getOrThrow_def wp split: option.split) blast
  then show "snd (adminCustomer_write act f3 c admin meta s) = s
   \<or> (\<exists>g. snd (adminCustomer_write act f3 c admin meta s) = audits_update g (customerProfiles_update (upd_where (\<lambda>x. cp_id x = c) (f3 (clock s))) s))"
    by (simp add: wps_run)
qed

lemma console_cases:
  "P s \<Longrightarrow> (\<And>g h. P (audits_update g (organizations_update h s))) \<Longrightarrow> P (snd (adminOrg_write act md f org admin meta s))"
  "P s \<Longrightarrow> (\<And>g. P (audits_update g (appEntries_update (upd_where (\<lambda>a. ap_id a = app) (f2 (clock s))) s)))
    \<Longrightarrow> P (snd (adminApp_write act f2 app admin meta s))"
  "P s \<Longrightarrow> (\<And>g. P (audits_update g (customerProfiles_update (upd_where (\<lambda>x. cp_id x = c) (f3 (clock s))) s)))
    \<Longrightarrow> P (snd (adminCustomer_write act f3 c admin meta s))"
  using console_states(1) [of act md f org admin meta s] console_states(2) [of act f2 app admin meta s]
    console_states(3) [of act f3 c admin meta s] by (auto simp del: split_paired_Ex)

lemma detail_same_summaries:
  assumes "\<And>i. map_option (\<lambda>a. (ap_id a, ap_name a, ap_slug a, ap_iconUrl a, ap_organizationId a)) (List.find (\<lambda>a. ap_id a = i) (h (appEntries s)))
     = map_option (\<lambda>a. (ap_id a, ap_name a, ap_slug a, ap_iconUrl a, ap_organizationId a)) (List.find (\<lambda>a. ap_id a = i) (appEntries s))"
  shows "fst (store_getListingDetail p (audits_update g (appEntries_update h s))) = fst (store_getListingDetail p s)"
proof -
  let ?s = "audits_update g (appEntries_update h s)"
  have names: "names_application ?s p l = names_application s p l" for l
    using assms [of "lst_applicationId l"] by (auto simp: names_application_def app_of_def split: option.splits)
  have joins: "categories_of ?s i = categories_of s i" "tags_of ?s i = tags_of s i" for i
    by (simp_all add: categories_of_def tags_of_def cong: if_cong)
  have card: "listing_card_of ?s l = listing_card_of s l" for l
    using assms [of "lst_applicationId l"]
    by (auto simp: listing_card_of_def app_of_def joins map_option_case split: option.splits)
  have rest: "rated ?s l = rated s l" "media_of ?s i = media_of s i" "changelogs_of ?s i = changelogs_of s i" for l i
    by (simp_all add: rated_def card averageRating_def live_reviews_def media_of_def changelogs_of_def)
  have "(\<lambda>l. public_listing l \<and> names_application ?s p l) = (\<lambda>l. public_listing l \<and> names_application s p l)" by (simp add: names)
  then show ?thesis by (simp add: store_getListingDetail_def bnd_step requirePublicListing_result gets_def rest split: option.split)
qed

lemma review_create_answer:
  "fst (review_create p u k ti b s) = (case List.find (\<lambda>l. public_listing l \<and> names_application s p l) (listings s) of
     None \<Rightarrow> Inl (NotFoundException ''Listing not found or not publicly available'')
   | Some l \<Rightarrow> (case List.find (\<lambda>c. cp_userId c = Some u \<and> cp_applicationId c = Some (lst_applicationId l)) (customerProfiles s) of
       None \<Rightarrow> Inl (ForbiddenException ''You must be a customer of this application to review it'')
     | Some c \<Rightarrow> (case List.find (same_reviewer (lst_id l) (cp_id c)) (reviews s) of
         Some _ \<Rightarrow> Inl (ConflictException ''You have already reviewed this application - edit your existing review instead'')
       | None \<Rightarrow> Inr \<lparr>rv_id = nextId s, rv_listingId = lst_id l, rv_customerId = cp_id c, rv_rating = k, rv_title = ti, rv_body = b,
           rv_createdAt = clock s, rv_editedAt = None, rv_deletedAt = None\<rparr>)))"
proof -
  have "wps (review_create p u k ti b) (\<lambda>r _. r = (case List.find (\<lambda>l. public_listing l \<and> names_application s p l) (listings s) of
     None \<Rightarrow> Inl (NotFoundException ''Listing not found or not publicly available'')
   | Some l \<Rightarrow> (case List.find (\<lambda>c. cp_userId c = Some u \<and> cp_applicationId c = Some (lst_applicationId l)) (customerProfiles s) of
       None \<Rightarrow> Inl (ForbiddenException ''You must be a customer of this application to review it'')
     | Some c \<Rightarrow> (case List.find (same_reviewer (lst_id l) (cp_id c)) (reviews s) of
         Some _ \<Rightarrow> Inl (ConflictException ''You have already reviewed this application - edit your existing review instead'')
       | None \<Rightarrow> Inr \<lparr>rv_id = nextId s, rv_listingId = lst_id l, rv_customerId = cp_id c, rv_rating = k, rv_title = ti, rv_body = b,
           rv_createdAt = clock s, rv_editedAt = None, rv_deletedAt = None\<rparr>)))) s"
    by (simp add: review_create_def requirePublicListing_def requireCustomer_def wp split: option.split)
  then show ?thesis by (simp add: wps_run)
qed

lemma review_same_customers:
  assumes "\<And>x. cp_id (f x) = cp_id x" and "\<And>x. cp_userId (f x) = cp_userId x" and "\<And>x. cp_applicationId (f x) = cp_applicationId x"
  shows "fst (review_create p u k ti b (audits_update g (customerProfiles_update (upd_where P f) s))) = fst (review_create p u k ti b s)"
proof -
  have "List.find (\<lambda>c. cp_userId c = Some u \<and> cp_applicationId c = a) (upd_where P f cs)
     = map_option (\<lambda>c. if P c then f c else c) (List.find (\<lambda>c. cp_userId c = Some u \<and> cp_applicationId c = a) cs)" for a cs
    using assms by (intro find_upd_where_keep) simp
  moreover have "names_application (audits_update g (customerProfiles_update (upd_where P f) s)) p l = names_application s p l" for l
    by (simp add: names_application_def app_of_def)
  moreover have "cp_id (if P c then f c else c) = cp_id c" for c using assms(1) by simp
  ultimately show ?thesis by (simp add: review_create_answer assms(1) del: if_split split: option.split)
qed


section \<open>Lists\<close>

lemma admin_page_search:
  assumes "aq_cursor query = Some (encodeCursor t i)" and "cursor_ok t i"
  shows "admin_page other tm ident hit query rows = admin_page other tm ident hit (query\<lparr>aq_search := None\<rparr>) rows"
  using assms by (simp add: admin_page_def admin_where_def cursor_clause_encode spread_if_def query)

text \<open>From the second page on a search of the consoles is forgotten: with a cursor, every list answers as if nothing was searched for.\<close>

theorem admin_search_forgotten:
  assumes "aq_cursor query = Some (encodeCursor t i)" and "cursor_ok t i"
  shows "adminOrg_list other query s = adminOrg_list other (query\<lparr>aq_search := None\<rparr>) s
    \<and> adminApp_list other query s = adminApp_list other (query\<lparr>aq_search := None\<rparr>) s
    \<and> adminCustomer_list other query s = adminCustomer_list other (query\<lparr>aq_search := None\<rparr>) s"
  by (simp add: adminOrg_list_def adminApp_list_def adminCustomer_list_def run admin_page_search [OF assms])

text \<open>Nobody called Zoe is a customer, but the second page of the search for her holds one.\<close>

theorem admin_search_forgotten_witness:
  "let query = \<lparr>aq_search = Some ''zoe'', aq_cursor = Some (encodeCursor 1700000000000 ''99''), aq_limit = None\<rparr> in
   map_sum id (\<lambda>p. map ci_id (fst p)) (fst (adminCustomer_list (\<lambda>_. None) query sample_store)) = Inr [70]
   \<and> map_sum id (\<lambda>p. map ci_id (fst p)) (fst (adminCustomer_list (\<lambda>_. None) (query\<lparr>aq_cursor := None\<rparr>) sample_store)) = Inr []"
proof -
  let ?q = "\<lparr>aq_search = Some ''zoe'', aq_cursor = Some (encodeCursor 1700000000000 ''99''), aq_limit = None\<rparr>"
  have "cursor_ok 1700000000000 ''99''" by code_simp
  then have "adminCustomer_list (\<lambda>_. None) ?q sample_store = adminCustomer_list (\<lambda>_. None) (?q\<lparr>aq_search := None\<rparr>) sample_store"
    using admin_search_forgotten [of ?q 1700000000000 "''99''" "\<lambda>_. None" sample_store] by simp
  moreover have "map_sum id (\<lambda>p. map ci_id (fst p)) (fst (adminCustomer_list (\<lambda>_. None) (?q\<lparr>aq_search := None\<rparr>) sample_store)) = Inr [70]"
    by code_simp
  moreover have "map_sum id (\<lambda>p. map ci_id (fst p)) (fst (adminCustomer_list (\<lambda>_. None) (?q\<lparr>aq_cursor := None\<rparr>) sample_store)) = Inr []"
    by code_simp
  ultimately show ?thesis by (simp add: Let_def)
qed

text \<open>The customers of an organisation are listed once each, newest first, and no others.\<close>

theorem customers_listed_once:
  assumes "distinct (map cp_id (customerProfiles s))" and "\<forall>c \<in> set (customerProfiles s). cursor_ok (cp_createdAt c) (id_str (cp_id c))"
  shows "\<exists>ps. follow_pages (length (customerProfiles s) + 1) (\<lambda>k. fst (customer_list other org k lmt s)) None = Some ps
    \<and> mset (concat ps) = mset (filter (\<lambda>c. cp_organizationId c = org) (customerProfiles s))
    \<and> sorted_wrt (precedes cp_createdAt (\<lambda>c. id_str (cp_id c))) (concat ps)"
proof -
  let ?id = "\<lambda>c. id_str (cp_id c)" and ?rows = "filter (\<lambda>c. cp_organizationId c = org) (customerProfiles s)"
  have fetch: "fst (customer_list other org k lmt s) = page other cp_createdAt ?id k lmt ?rows" for k
  proof (cases "buildCursorWhereClause other k")
    case (Inr c)
    have "Inr (find_page cp_createdAt ?id (cursor_order cp_createdAt ?id) (spread [(''organizationId'', \<lambda>r. cp_organizationId r = org)] (cursor_obj cp_createdAt ?id c)) lmt (customerProfiles s))
      = page other cp_createdAt ?id k lmt ?rows"
      using Inr by (rule find_page_page) (cases c, simp_all add: query)
    then show ?thesis by (simp add: customer_list_def bnd_step lift_def gets_def Inr)
  qed (simp add: customer_list_def bnd_step lift_def page_def)
  have d: "distinct (map ?id ?rows)" using assms(1) by (auto simp: distinct_map inj_on_def)
  have ok: "\<forall>c \<in> set ?rows. cursor_ok (cp_createdAt c) (?id c)" using assms(2) by simp
  have "length (cursor_order cp_createdAt ?id ?rows) < length (customerProfiles s) + 1"
    by (simp add: cursor_order_def le_imp_less_Suc)
  from follow_rest [OF d ok _ this, of "[]" other lmt] obtain ps where
    "follow (length (customerProfiles s) + 1) other cp_createdAt ?id None lmt ?rows = Some ps" "concat ps = cursor_order cp_createdAt ?id ?rows"
    by (auto simp: cursor_after_def simp del: follow.simps)
  moreover have "follow_pages n (\<lambda>k. fst (customer_list other org k lmt s)) None = follow n other cp_createdAt ?id None lmt ?rows" for n
    by (rule follow_pages_cong) (rule fetch)
  ultimately show ?thesis using cursor_order_sorted [OF d, of cp_createdAt] by (intro exI [of _ ps]) (simp add: cursor_order_def)
qed

theorem customers_listed_once_witness:
  "\<exists>ps. follow_pages 2 (\<lambda>k. fst (customer_list (\<lambda>_. None) 1 k None sample_store)) None = Some ps \<and> mset (concat ps) = {#sample_customer#}"
proof -
  have ok: "\<forall>c \<in> set (customerProfiles sample_store). cursor_ok (cp_createdAt c) (id_str (cp_id c))" by code_simp
  have "distinct (map cp_id (customerProfiles sample_store))" by code_simp
  from customers_listed_once [OF this ok, of "\<lambda>_. None" 1 None] show ?thesis
    by (auto simp: sample_store_def sample_customer_def numeral_2_eq_2 simp del: follow_pages.simps)
qed

section \<open>Moving an application\<close>

text \<open>A moved application answers to the administrators of the new organisation, and under the old one it is not found any more.\<close>

theorem moved_application_access:
  assumes "fst (adminApp_move app target admin meta s) = Inr a" and "s' = snd (adminApp_move app target admin meta s)"
    and "List.find (org_membership target u) (orgMembers s) = Some m" and "orgRoleAtLeast (om_role m) OrganizationRole.ADMINISTRATOR"
  shows "fst (applicationRoleGuard (Some role) (Some app) (Some target) (Some u) s') = Inr ()
    \<and> (old \<noteq> target \<longrightarrow> fst (applicationRoleGuard (Some role) (Some app) (Some old) (Some v) s') = Inl (NotFoundException ''Application not found''))"
proof -
  let ?Q = "\<lambda>r z. \<forall>x. r = Inr x \<longrightarrow> orgMembers z = orgMembers s
    \<and> (\<exists>y. List.find (\<lambda>a. ap_id a = app) (appEntries z) = Some y \<and> ap_organizationId y = target)"
  have "wps (adminApp_move app target admin meta) ?Q s"
    by (auto simp: adminApp_move_def adminApp_getOrThrow_def wp find_upd_where_same split: option.split)
  then have "orgMembers s' = orgMembers s" "\<exists>y. List.find (\<lambda>a. ap_id a = app) (appEntries s') = Some y \<and> ap_organizationId y = target"
    using assms(1,2) by (auto simp: wps_run)
  with assms(3,4) show ?thesis
    by (auto simp: applicationRoleGuard_def app_role_check_def run guard_or_def seq_step bnd_step ret_def throw_def find_row_def)
qed

theorem moved_application_access_witness:
  "let s' = snd (adminApp_move 7 2 9 no_meta sample_store) in
   fst (applicationRoleGuard (Some ApplicationMemberRole.OWNER) (Some 7) (Some 2) (Some 2) s') = Inr ()
   \<and> fst (applicationRoleGuard (Some ApplicationMemberRole.VIEWER) (Some 7) (Some 1) (Some 1) s') = Inl (NotFoundException ''Application not found'')"
proof -
  have "fst (adminApp_move 7 2 9 no_meta sample_store) = Inr (sample_app\<lparr>ap_organizationId := 2\<rparr>)"
    by (simp add: adminApp_move_def adminApp_getOrThrow_def sample_store_def sample_app_def new_app_def new_organization_def run bnd_step seq_step
        find_row_def guard_or_def try_catch_def update_row_def find_or_throw_def audit_def audit_record_def)
  note moved = moved_application_access [OF this refl, of 2 "new_org_member 21 0 2 2 OrganizationRole.OWNER"]
  have "List.find (org_membership 2 2) (orgMembers sample_store) = Some (new_org_member 21 0 2 2 OrganizationRole.OWNER)"
    by (simp add: sample_store_def new_org_member_def org_membership_def)
  moreover have "orgRoleAtLeast (om_role (new_org_member 21 0 2 2 OrganizationRole.OWNER)) OrganizationRole.ADMINISTRATOR" by code_simp
  ultimately show ?thesis
    using moved [where role = ApplicationMemberRole.OWNER] moved [where role = ApplicationMemberRole.VIEWER and old = 1 and v = 1] by (simp add: Let_def)
qed

end
