(* ===== verification/Catalogue.thy ===== *)
theory Catalogue
  imports Coupons Licenses Query Membership
begin

text \<open>
  The catalogue (products/): products of an organisation with a slug of their own, plans with a code unique in
  their product, and prices in minor units. Rows are archived and restored, never deleted.
\<close>

section \<open>A page of the rows with one foreign key\<close>

definition owned_page ::
  "(string \<Rightarrow> time option) \<Rightarrow> ('r \<Rightarrow> time) \<Rightarrow> ('r \<Rightarrow> id) \<Rightarrow> string \<Rightarrow> ('r \<Rightarrow> bool) \<Rightarrow> string option \<Rightarrow> int option \<Rightarrow> 'r list
   \<Rightarrow> exn + ('r list \<times> string option)" where
  "owned_page other tm ident column P cursor lmt rows = (case buildCursorWhereClause other cursor of Inl e \<Rightarrow> Inl e
     | Inr c \<Rightarrow> Inr (find_page tm (\<lambda>r. id_str (ident r)) (cursor_order tm (\<lambda>r. id_str (ident r)))
         (spread [(column, P)] (cursor_obj tm (\<lambda>r. id_str (ident r)) c)) lmt rows))"

section \<open>ProductsService\<close>

record create_product_dto =
  cpd_applicationId :: id
  cpd_name :: string
  cpd_description :: "string option"
  cpd_visibility :: "ProductVisibility option"
  cpd_metadata :: "json option"

record update_product_dto =
  upd_name :: "string option"
  upd_description :: "string option"
  upd_status :: "ProductStatus option"
  upd_visibility :: "ProductVisibility option"
  upd_metadata :: "json option"

definition new_product :: "id \<Rightarrow> time \<Rightarrow> id \<Rightarrow> id \<Rightarrow> string \<Rightarrow> create_product_dto \<Rightarrow> product_row" where
  "new_product i t org userId slug dto = \<lparr>prod_id = i, prod_organizationId = org, prod_applicationId = cpd_applicationId dto,
     prod_name = cpd_name dto, prod_slug = slug, prod_description = cpd_description dto, prod_status = ProductStatus.DRAFT,
     prod_visibility = orElse (cpd_visibility dto) ProductVisibility.PRIVATE, prod_metadata = cpd_metadata dto, prod_createdById = userId,
     prod_createdAt = t, prod_archivedAt = None\<rparr>"

definition product_create :: "id \<Rightarrow> id \<Rightarrow> create_product_dto \<Rightarrow> request_meta \<Rightarrow> ('z lic_db_scheme, product_row) svc" where
  "product_create org userId dto meta =
     bnd (find_row applications (\<lambda>a. app_id a = cpd_applicationId dto)) (\<lambda>application.
     seq (guard_or (case application of None \<Rightarrow> False | Some a \<Rightarrow> app_organizationId a = org)
            (NotFoundException ''Application not found in this organization''))
     (bnd (generateUniqueSlug ''product'' (\<lambda>s. map prod_slug (products s)) (cpd_name dto)) (\<lambda>slug.
      bnd fresh (\<lambda>i. bnd now (\<lambda>t.
      bnd (insert_unique products products_update (\<lambda>p. prod_slug p = slug) (new_product i t org userId slug dto)) (\<lambda>product.
      seq (audit ''PRODUCT_CREATED'' (Some userId) (Some org) (Some (cpd_applicationId dto)) [(''productId'', JId (prod_id product))] meta)
          (ret product)))))))"

definition product_list :: "(string \<Rightarrow> time option) \<Rightarrow> id \<Rightarrow> string option \<Rightarrow> int option \<Rightarrow> ('z lic_db_scheme, product_row list \<times> string option) svc" where
  "product_list other org cursor lmt = bnd (gets (\<lambda>s.
     owned_page other prod_createdAt prod_id ''organizationId'' (\<lambda>p. prod_organizationId p = org) cursor lmt (products s))) lift"

definition product_getOwned :: "id \<Rightarrow> id \<Rightarrow> ('z lic_db_scheme, product_row) svc" where
  "product_getOwned productId org = bnd (find_row products (\<lambda>p. prod_id p = productId)) (\<lambda>r. case r of
     None \<Rightarrow> throw (NotFoundException ''Product not found'')
   | Some p \<Rightarrow> if prod_organizationId p \<noteq> org then throw (NotFoundException ''Product not found'') else ret p)"

definition product_getOne :: "id \<Rightarrow> id \<Rightarrow> ('z lic_db_scheme, product_row) svc" where
  "product_getOne productId org = product_getOwned productId org"

text \<open>The three updates find the product of the organisation, write columns and record the action.\<close>

definition product_write ::
  "string \<Rightarrow> (time \<Rightarrow> product_row \<Rightarrow> product_row) \<Rightarrow> id \<Rightarrow> id \<Rightarrow> id \<Rightarrow> request_meta \<Rightarrow> ('z lic_db_scheme, product_row) svc" where
  "product_write act f productId org userId meta =
     seq (product_getOwned productId org) (bnd now (\<lambda>t.
     bnd (update_row products products_update (\<lambda>p. prod_id p = productId) (f t)) (\<lambda>product.
     seq (audit act (Some userId) (Some org) (Some (prod_applicationId product)) [(''productId'', JId productId)] meta) (ret product))))"

definition product_patch :: "update_product_dto \<Rightarrow> product_row \<Rightarrow> product_row" where
  "product_patch dto p = p\<lparr>prod_name := keepUndef (upd_name dto) (prod_name p), prod_description := keepOpt (upd_description dto) (prod_description p),
     prod_status := keepUndef (upd_status dto) (prod_status p), prod_visibility := keepUndef (upd_visibility dto) (prod_visibility p),
     prod_metadata := keepOpt (upd_metadata dto) (prod_metadata p)\<rparr>"

definition product_update :: "id \<Rightarrow> id \<Rightarrow> id \<Rightarrow> update_product_dto \<Rightarrow> request_meta \<Rightarrow> ('z lic_db_scheme, product_row) svc" where
  "product_update productId org userId dto meta = product_write ''PRODUCT_UPDATED'' (\<lambda>_. product_patch dto) productId org userId meta"

definition product_archive :: "id \<Rightarrow> id \<Rightarrow> id \<Rightarrow> request_meta \<Rightarrow> ('z lic_db_scheme, product_row) svc" where
  "product_archive = product_write ''PRODUCT_ARCHIVED'' (\<lambda>t p. p\<lparr>prod_status := ProductStatus.ARCHIVED, prod_archivedAt := Some t\<rparr>)"

definition product_restore :: "id \<Rightarrow> id \<Rightarrow> id \<Rightarrow> request_meta \<Rightarrow> ('z lic_db_scheme, product_row) svc" where
  "product_restore = product_write ''PRODUCT_RESTORED'' (\<lambda>t p. p\<lparr>prod_status := ProductStatus.DRAFT, prod_archivedAt := None\<rparr>)"

section \<open>PlansService\<close>

record create_plan_dto =
  pld_name :: string
  pld_code :: string
  pld_description :: "string option"
  pld_billingType :: "PlanBillingType option"
  pld_trialEligible :: "bool option"
  pld_trialDays :: "int option"
  pld_seatLimit :: "nat option"
  pld_sortOrder :: "int option"
  pld_metadata :: "json option"

record update_plan_dto =
  upl_name :: "string option"
  upl_description :: "string option"
  upl_billingType :: "PlanBillingType option"
  upl_trialEligible :: "bool option"
  upl_trialDays :: "int option"
  upl_seatLimit :: "nat option"
  upl_status :: "PlanStatus option"
  upl_sortOrder :: "int option"
  upl_metadata :: "json option"

definition new_plan :: "id \<Rightarrow> time \<Rightarrow> id \<Rightarrow> create_plan_dto \<Rightarrow> plan_row" where
  "new_plan i t productId dto = \<lparr>plan_id = i, plan_productId = productId, plan_name = pld_name dto, plan_code = pld_code dto,
     plan_description = pld_description dto, plan_billingType = orElse (pld_billingType dto) RECURRING,
     plan_trialEligible = orElse (pld_trialEligible dto) False, plan_trialDays = pld_trialDays dto, plan_seatLimit = pld_seatLimit dto,
     plan_status = PlanStatus.DRAFT, plan_sortOrder = orElse (pld_sortOrder dto) 0, plan_metadata = pld_metadata dto, plan_createdAt = t,
     plan_archivedAt = None\<rparr>"

text \<open>The unique key \<open>productId_code\<close>.\<close>

definition same_code :: "id \<Rightarrow> string \<Rightarrow> plan_row \<Rightarrow> bool" where
  "same_code productId code p \<longleftrightarrow> plan_productId p = productId \<and> plan_code p = code"

definition plan_create :: "id \<Rightarrow> id \<Rightarrow> create_plan_dto \<Rightarrow> request_meta \<Rightarrow> ('z lic_db_scheme, plan_row) svc" where
  "plan_create productId userId dto meta =
     bnd (find_or_throw products (\<lambda>p. prod_id p = productId)) (\<lambda>product.
     bnd (find_row plans (same_code productId (pld_code dto))) (\<lambda>existing.
     seq (guard_or (existing = None) (ConflictException ''A plan with this code already exists for this product''))
     (bnd fresh (\<lambda>i. bnd now (\<lambda>t.
      bnd (insert_unique plans plans_update (same_code productId (pld_code dto)) (new_plan i t productId dto)) (\<lambda>plan.
      seq (audit ''PLAN_CREATED'' (Some userId) (Some (prod_organizationId product)) (Some (prod_applicationId product))
             [(''productId'', JId productId), (''planId'', JId (plan_id plan))] meta)
          (ret plan)))))))"

definition plan_list :: "(string \<Rightarrow> time option) \<Rightarrow> id \<Rightarrow> string option \<Rightarrow> int option \<Rightarrow> ('z lic_db_scheme, plan_row list \<times> string option) svc" where
  "plan_list other productId cursor lmt = bnd (gets (\<lambda>s.
     owned_page other plan_createdAt plan_id ''productId'' (\<lambda>p. plan_productId p = productId) cursor lmt (plans s))) lift"

definition plan_getOwned :: "id \<Rightarrow> ('z lic_db_scheme, plan_row) svc" where
  "plan_getOwned planId = bnd (find_row plans (\<lambda>p. plan_id p = planId)) (\<lambda>r. case r of
     None \<Rightarrow> throw (NotFoundException ''Plan not found'') | Some p \<Rightarrow> ret p)"

definition plan_getOne :: "id \<Rightarrow> ('z lic_db_scheme, plan_row) svc" where
  "plan_getOne planId = plan_getOwned planId"

definition plan_recordAudit :: "string \<Rightarrow> id \<Rightarrow> id \<Rightarrow> id \<Rightarrow> request_meta \<Rightarrow> ('z lic_db_scheme, unit) svc" where
  "plan_recordAudit act productId userId planId meta =
     bnd (find_or_throw products (\<lambda>p. prod_id p = productId)) (\<lambda>product.
     audit act (Some userId) (Some (prod_organizationId product)) (Some (prod_applicationId product))
       [(''productId'', JId productId), (''planId'', JId planId)] meta)"

definition plan_write ::
  "string \<Rightarrow> (time \<Rightarrow> plan_row \<Rightarrow> plan_row) \<Rightarrow> id \<Rightarrow> id \<Rightarrow> request_meta \<Rightarrow> ('z lic_db_scheme, plan_row) svc" where
  "plan_write act f planId userId meta =
     bnd (plan_getOwned planId) (\<lambda>existing. bnd now (\<lambda>t.
     bnd (update_row plans plans_update (\<lambda>p. plan_id p = planId) (f t)) (\<lambda>plan.
     seq (plan_recordAudit act (plan_productId existing) userId planId meta) (ret plan))))"

definition plan_patch :: "update_plan_dto \<Rightarrow> plan_row \<Rightarrow> plan_row" where
  "plan_patch dto p = p\<lparr>plan_name := keepUndef (upl_name dto) (plan_name p), plan_description := keepOpt (upl_description dto) (plan_description p),
     plan_billingType := keepUndef (upl_billingType dto) (plan_billingType p), plan_trialEligible := keepUndef (upl_trialEligible dto) (plan_trialEligible p),
     plan_trialDays := keepOpt (upl_trialDays dto) (plan_trialDays p), plan_seatLimit := keepOpt (upl_seatLimit dto) (plan_seatLimit p),
     plan_status := keepUndef (upl_status dto) (plan_status p), plan_sortOrder := keepUndef (upl_sortOrder dto) (plan_sortOrder p),
     plan_metadata := keepOpt (upl_metadata dto) (plan_metadata p)\<rparr>"

definition plan_update :: "id \<Rightarrow> id \<Rightarrow> update_plan_dto \<Rightarrow> request_meta \<Rightarrow> ('z lic_db_scheme, plan_row) svc" where
  "plan_update planId userId dto meta = plan_write ''PLAN_UPDATED'' (\<lambda>_. plan_patch dto) planId userId meta"

definition plan_archive :: "id \<Rightarrow> id \<Rightarrow> request_meta \<Rightarrow> ('z lic_db_scheme, plan_row) svc" where
  "plan_archive = plan_write ''PLAN_ARCHIVED'' (\<lambda>t p. p\<lparr>plan_status := PlanStatus.ARCHIVED, plan_archivedAt := Some t\<rparr>)"

definition plan_restore :: "id \<Rightarrow> id \<Rightarrow> request_meta \<Rightarrow> ('z lic_db_scheme, plan_row) svc" where
  "plan_restore = plan_write ''PLAN_RESTORED'' (\<lambda>t p. p\<lparr>plan_status := PlanStatus.DRAFT, plan_archivedAt := None\<rparr>)"

section \<open>PricesService\<close>

record create_price_dto =
  prd_currency :: string
  prd_amountMinor :: int
  prd_interval :: "BillingInterval option"
  prd_intervalCount :: "int option"
  prd_taxInclusive :: "bool option"
  prd_countryCode :: "string option"
  prd_providerRef :: "string option"
  prd_effectiveAt :: "time option"
  prd_expiresAt :: "time option"

record update_price_dto =
  upr_status :: "PriceStatus option"
  upr_expiresAt :: "time option"

definition new_price :: "id \<Rightarrow> time \<Rightarrow> id \<Rightarrow> create_price_dto \<Rightarrow> price_row" where
  "new_price i t planId dto = \<lparr>price_id = i, price_planId = planId, price_currency = map Coupons.upper (prd_currency dto),
     price_amountMinor = prd_amountMinor dto, price_interval = orElse (prd_interval dto) MONTH, price_intervalCount = orElse (prd_intervalCount dto) 1,
     price_taxInclusive = orElse (prd_taxInclusive dto) False, price_countryCode = map_option (map Coupons.upper) (prd_countryCode dto),
     price_providerRef = prd_providerRef dto, price_effectiveAt = orElse (prd_effectiveAt dto) t, price_expiresAt = prd_expiresAt dto,
     price_status = PriceStatus.ACTIVE, price_createdAt = t\<rparr>"

text \<open>\<open>findUniqueOrThrow\<close> on a plan with its product.\<close>

definition plan_with_product :: "id \<Rightarrow> ('z lic_db_scheme, plan_row \<times> product_row) svc" where
  "plan_with_product planId = bnd (find_or_throw plans (\<lambda>p. plan_id p = planId)) (\<lambda>plan.
     bnd (find_or_throw products (\<lambda>p. prod_id p = plan_productId plan)) (\<lambda>product. ret (plan, product)))"

definition price_create :: "id \<Rightarrow> id \<Rightarrow> create_price_dto \<Rightarrow> request_meta \<Rightarrow> ('z lic_db_scheme, price_row) svc" where
  "price_create planId userId dto meta =
     bnd (plan_with_product planId) (\<lambda>plan.
     bnd fresh (\<lambda>i. bnd now (\<lambda>t.
     bnd (insert_row prices_update (new_price i t planId dto)) (\<lambda>price.
     seq (audit ''PRICE_CREATED'' (Some userId) (Some (prod_organizationId (snd plan))) (Some (prod_applicationId (snd plan)))
            [(''planId'', JId planId), (''priceId'', JId (price_id price))] meta)
         (ret price)))))"

definition price_list :: "(string \<Rightarrow> time option) \<Rightarrow> id \<Rightarrow> string option \<Rightarrow> int option \<Rightarrow> ('z lic_db_scheme, price_row list \<times> string option) svc" where
  "price_list other planId cursor lmt = bnd (gets (\<lambda>s.
     owned_page other price_createdAt price_id ''planId'' (\<lambda>p. price_planId p = planId) cursor lmt (prices s))) lift"

definition price_getOwned :: "id \<Rightarrow> ('z lic_db_scheme, price_row) svc" where
  "price_getOwned priceId = bnd (find_row prices (\<lambda>p. price_id p = priceId)) (\<lambda>r. case r of
     None \<Rightarrow> throw (NotFoundException ''Price not found'') | Some p \<Rightarrow> ret p)"

definition price_getOne :: "id \<Rightarrow> ('z lic_db_scheme, price_row) svc" where
  "price_getOne priceId = price_getOwned priceId"

definition price_recordAudit :: "string \<Rightarrow> id \<Rightarrow> id \<Rightarrow> id \<Rightarrow> request_meta \<Rightarrow> ('z lic_db_scheme, unit) svc" where
  "price_recordAudit act planId userId priceId meta =
     bnd (plan_with_product planId) (\<lambda>plan.
     audit act (Some userId) (Some (prod_organizationId (snd plan))) (Some (prod_applicationId (snd plan)))
       [(''planId'', JId planId), (''priceId'', JId priceId)] meta)"

definition price_write :: "string \<Rightarrow> (price_row \<Rightarrow> price_row) \<Rightarrow> id \<Rightarrow> id \<Rightarrow> request_meta \<Rightarrow> ('z lic_db_scheme, price_row) svc" where
  "price_write act f priceId userId meta =
     bnd (price_getOwned priceId) (\<lambda>existing.
     bnd (update_row prices prices_update (\<lambda>p. price_id p = priceId) f) (\<lambda>price.
     seq (price_recordAudit act (price_planId existing) userId priceId meta) (ret price)))"

definition price_patch :: "update_price_dto \<Rightarrow> price_row \<Rightarrow> price_row" where
  "price_patch dto p = p\<lparr>price_status := keepUndef (upr_status dto) (price_status p), price_expiresAt := keepOpt (upr_expiresAt dto) (price_expiresAt p)\<rparr>"

definition price_update :: "id \<Rightarrow> id \<Rightarrow> update_price_dto \<Rightarrow> request_meta \<Rightarrow> ('z lic_db_scheme, price_row) svc" where
  "price_update priceId userId dto meta = price_write ''PRICE_UPDATED'' (price_patch dto) priceId userId meta"

definition price_archive :: "id \<Rightarrow> id \<Rightarrow> request_meta \<Rightarrow> ('z lic_db_scheme, price_row) svc" where
  "price_archive = price_write ''PRICE_ARCHIVED'' (\<lambda>p. p\<lparr>price_status := PriceStatus.ARCHIVED\<rparr>)"

end
