(* ===== verification/Catalogue_Flow.thy ===== *)
theory Catalogue_Flow
  imports Catalogue Lifecycle Slugs
begin

text \<open>
  What holds of the catalogue through any calls of its own and of the subscription service: the terms of a price are never
  rewritten, identifiers, slugs and codes stay unique, every price has its plan and every plan its product. And what the catalogue
  does not do: no status, date or plan is looked at when a price is sold.
\<close>

section \<open>Calls\<close>

datatype catalogue_call =
  AddProduct id id create_product_dto request_meta
| EditProduct id id id update_product_dto request_meta
| ArchiveProduct id id id request_meta
| RestoreProduct id id id request_meta
| AddPlan id id create_plan_dto request_meta
| EditPlan id id update_plan_dto request_meta
| ArchivePlan id id request_meta
| RestorePlan id id request_meta
| AddPrice id id create_price_dto request_meta
| EditPrice id id update_price_dto request_meta
| ArchivePrice id id request_meta
| Subscribing sub_call

fun catalogue_do :: "catalogue_call \<Rightarrow> 'z lic_db_scheme \<Rightarrow> 'z lic_db_scheme" where
  "catalogue_do (AddProduct org u dto meta) s = snd (product_create org u dto meta s)"
| "catalogue_do (EditProduct i org u pdto meta) s = snd (product_update i org u pdto meta s)"
| "catalogue_do (ArchiveProduct i org u meta) s = snd (product_archive i org u meta s)"
| "catalogue_do (RestoreProduct i org u meta) s = snd (product_restore i org u meta s)"
| "catalogue_do (AddPlan i u ndto meta) s = snd (plan_create i u ndto meta s)"
| "catalogue_do (EditPlan i u ldto meta) s = snd (plan_update i u ldto meta s)"
| "catalogue_do (ArchivePlan i u meta) s = snd (plan_archive i u meta s)"
| "catalogue_do (RestorePlan i u meta) s = snd (plan_restore i u meta s)"
| "catalogue_do (AddPrice i u cdto meta) s = snd (price_create i u cdto meta s)"
| "catalogue_do (EditPrice i u rdto meta) s = snd (price_update i u rdto meta s)"
| "catalogue_do (ArchivePrice i u meta) s = snd (price_archive i u meta s)"
| "catalogue_do (Subscribing c) s = perform c s"

definition catalogue_run :: "catalogue_call list \<Rightarrow> 'z lic_db_scheme \<Rightarrow> 'z lic_db_scheme" where
  "catalogue_run cs s = fold catalogue_do cs s"

section \<open>The terms and the invariant\<close>

text \<open>The columns no call may rewrite.\<close>

definition price_terms :: "price_row \<Rightarrow> id \<times> id \<times> string \<times> int \<times> BillingInterval \<times> int \<times> bool \<times> time" where
  "price_terms p = (price_id p, price_planId p, price_currency p, price_amountMinor p, price_interval p, price_intervalCount p,
     price_taxInclusive p, price_effectiveAt p)"

definition plan_terms :: "plan_row \<Rightarrow> id \<times> id \<times> string" where
  "plan_terms p = (plan_id p, plan_productId p, plan_code p)"

definition product_terms :: "product_row \<Rightarrow> id \<times> id \<times> id \<times> string" where
  "product_terms p = (prod_id p, prod_organizationId p, prod_applicationId p, prod_slug p)"

definition catalogue_ok :: "'z lic_db_scheme \<Rightarrow> bool" where
  "catalogue_ok s \<longleftrightarrow>
     distinct (map prod_id (products s)) \<and> (\<forall>p \<in> set (products s). prod_id p < nextId s) \<and> distinct (map prod_slug (products s))
   \<and> distinct (map plan_id (plans s)) \<and> (\<forall>p \<in> set (plans s). plan_id p < nextId s)
   \<and> distinct (map (\<lambda>p. (plan_productId p, plan_code p)) (plans s)) \<and> plan_productId ` set (plans s) \<subseteq> prod_id ` set (products s)
   \<and> distinct (map price_id (prices s)) \<and> (\<forall>p \<in> set (prices s). price_id p < nextId s)
   \<and> price_planId ` set (prices s) \<subseteq> plan_id ` set (plans s)"

text \<open>\<open>grew s0 s\<close>: everything sold in \<open>s0\<close> is there in \<open>s\<close>, on the same terms and in the same place.\<close>

definition extends :: "'a list \<Rightarrow> 'a list \<Rightarrow> bool" where
  "extends xs ys \<longleftrightarrow> (\<exists>zs. ys = xs @ zs)"

definition grew :: "'z lic_db_scheme \<Rightarrow> 'z lic_db_scheme \<Rightarrow> bool" where
  "grew s0 s \<longleftrightarrow> customers s = customers s0 \<and> extends (map price_terms (prices s0)) (map price_terms (prices s))
     \<and> extends (map plan_terms (plans s0)) (map plan_terms (plans s)) \<and> extends (map product_terms (products s0)) (map product_terms (products s))"

lemma extends_rules: "extends xs xs" "extends xs ys \<Longrightarrow> extends xs (ys @ zs)" "extends xs ys \<Longrightarrow> extends ys ws \<Longrightarrow> extends xs ws"
  by (auto simp: extends_def)

lemma grew_refl: "grew s s"
  by (simp add: grew_def extends_rules)

lemma grew_trans: "grew s0 s1 \<Longrightarrow> grew s1 s2 \<Longrightarrow> grew s0 s2"
  by (auto simp: grew_def intro: extends_rules)

definition good :: "'z lic_db_scheme \<Rightarrow> 'z lic_db_scheme \<Rightarrow> bool" where
  "good s0 s \<longleftrightarrow> catalogue_ok s \<and> grew s0 s"

section \<open>The calls of the catalogue\<close>

lemmas goods = good_def catalogue_ok_def grew_def

lemma good_aside [pres]:
  "preserves (good s0) (audit act u org app mdata meta)" "preserves (good s0) now" "preserves (good s0) fresh"
  by (auto simp: preserves_wps wp goods)

text \<open>An update that keeps the terms.\<close>

lemma good_product:
  assumes "\<And>p. product_terms (f p) = product_terms p"
  shows "preserves (good s0) (update_row products products_update P f)"
proof -
  have keep: "prod_id (f p) = prod_id p" "prod_slug (f p) = prod_slug p" for p using assms [of p] by (simp_all add: product_terms_def)
  show ?thesis by (intro pres) (simp add: goods map_upd_where ball_upd_where image_upd_where assms keep)
qed

lemma good_plan:
  assumes "\<And>p. plan_terms (f p) = plan_terms p"
  shows "preserves (good s0) (update_row plans plans_update P f)"
proof -
  have keep: "plan_id (f p) = plan_id p" "plan_productId (f p) = plan_productId p" "plan_code (f p) = plan_code p" for p
    using assms [of p] by (simp_all add: plan_terms_def)
  show ?thesis by (intro pres) (simp add: goods map_upd_where ball_upd_where image_upd_where assms keep)
qed

lemma good_price:
  assumes "\<And>p. price_terms (f p) = price_terms p"
  shows "preserves (good s0) (update_row prices prices_update P f)"
proof -
  have keep: "price_id (f p) = price_id p" "price_planId (f p) = price_planId p" for p using assms [of p] by (simp_all add: price_terms_def)
  show ?thesis by (intro pres) (simp add: goods map_upd_where ball_upd_where image_upd_where assms keep)
qed

lemma good_writes:
  "preserves (good s0) (product_update i org u pdto meta)" "preserves (good s0) (product_archive i org u meta)"
  "preserves (good s0) (product_restore i org u meta)" "preserves (good s0) (plan_update i u ldto meta)"
  "preserves (good s0) (plan_archive i u meta)" "preserves (good s0) (plan_restore i u meta)"
  "preserves (good s0) (price_update i u rdto meta)" "preserves (good s0) (price_archive i u meta)"
  unfolding product_update_def product_archive_def product_restore_def plan_update_def plan_archive_def plan_restore_def
    price_update_def price_archive_def product_write_def plan_write_def price_write_def product_getOwned_def plan_getOwned_def
    price_getOwned_def plan_recordAudit_def price_recordAudit_def plan_with_product_def
  by (intro pres good_product good_plan good_price;
      simp add: product_terms_def plan_terms_def price_terms_def product_patch_def plan_patch_def price_patch_def)+

lemma good_slug: "preserves (good s0) (generateUniqueSlug fallback taken name)"
  unfolding generateUniqueSlug_def by (intro pres)

text \<open>A row written under a new identifier, and what follows.\<close>

lemma preserves_new_row:
  assumes "preserves I (bnd fresh (\<lambda>i. bnd now (ins i)))" and "\<And>x. preserves I (k x)"
  shows "preserves I (bnd fresh (\<lambda>i. bnd now (\<lambda>t. bnd (ins i t) k)))"
proof -
  have "bnd fresh (\<lambda>i. bnd now (\<lambda>t. bnd (ins i t) k)) = bnd (bnd fresh (\<lambda>i. bnd now (ins i))) k" by (simp add: run_bnd_assoc)
  with assms show ?thesis by (auto intro: preserves_bnd)
qed

lemma good_new_product:
  "preserves (good s0) (bnd fresh (\<lambda>i. bnd now (\<lambda>t. insert_unique products products_update (\<lambda>p. prod_slug p = slug) (new_product i t org u slug dto))))"
  by (auto simp: preserves_wps wp goods new_product_def find_None_iff' less_Suc_eq split: option.split intro: extends_rules)

text \<open>A plan is only added to a product that is there, and a price to a plan that is there.\<close>

lemma good_new_plan: "preserves (good s0) (plan_create productId u ndto meta)"
proof -
  have "wps (plan_create productId u ndto meta) (\<lambda>_. good s0) s" if "good s0 s" for s
    using that
    by (auto simp: plan_create_def wp goods new_plan_def same_code_def find_None_iff' less_Suc_eq split: option.split
      intro: extends_rules dest: find_SomeD)
  then show ?thesis by (simp add: preserves_wps)
qed

lemma good_new_price: "preserves (good s0) (price_create planId u cdto meta)"
proof -
  have "wps (price_create planId u cdto meta) (\<lambda>_. good s0) s" if "good s0 s" for s
    using that
    by (auto simp: price_create_def plan_with_product_def wp goods new_price_def less_Suc_eq split: option.split
      intro: extends_rules dest: find_SomeD)
  then show ?thesis by (simp add: preserves_wps)
qed

lemma good_creates:
  "preserves (good s0) (product_create org u dto meta)" "preserves (good s0) (plan_create i u ndto meta)" "preserves (good s0) (price_create i u cdto meta)"
  unfolding product_create_def by (intro pres good_slug preserves_new_row good_new_product good_new_plan good_new_price)+
section \<open>The subscription service leaves the catalogue alone\<close>

lemma good_tables [pres]:
  "preserves (good s0) (update_row subscriptions subscriptions_update P1 f1)" "preserves (good s0) (update_row subItems subItems_update P2 f2)"
  "preserves (good s0) (update_row subChanges subChanges_update P3 f3)" "preserves (good s0) (update_row trials trials_update P4 f4)"
  "preserves (good s0) (update_row coupons coupons_update P5 f5)" "preserves (good s0) (update_row promotionCodes promotionCodes_update P6 f6)"
  "preserves (good s0) (update_row subCoupons subCoupons_update P7 f7)" "preserves (good s0) (insert_row subscriptions_update r1)"
  "preserves (good s0) (insert_row subItems_update r2)" "preserves (good s0) (insert_row subChanges_update r3)"
  "preserves (good s0) (insert_row prorations_update r4)" "preserves (good s0) (insert_row subCoupons_update r5)"
  "preserves (good s0) (insert_unique trials trials_update C1 r6)" "preserves (good s0) (insert_unique subEvents subEvents_update C2 r7)"
  "preserves (good s0) (modify (subChanges_update g1))"
  by (intro pres; simp add: goods)+

lemma good_platform [pres]:
  "preserves (good s0) (publish ty payload refs corr)" "preserves (good s0) (record_event org type payload1 refs1 u m key)"
  unfolding publish_def enqueue_def record_event_def record_new_def create_trio_def getWithSync_def split_beta
  by (intro pres; simp add: goods)+

lemma good_event [pres]: "preserves (good s0) (create_event i ty fr to1 key mdata u)"
  unfolding create_event_def by (intro pres)

lemma good_transition:
  assumes "\<And>sub tr. preserves (good s0) (compute sub tr)"
  shows "preserves (good s0) (run_with_info i options u compute)" "preserves (good s0) (runTransition i options u compute)"
proof -
  show "preserves (good s0) (run_with_info i options u compute)"
    unfolding run_with_info_def transition_body_def plan_reference_def when_do_def publish_transition_def find_sub_def find_key_event_def assertTransition_def split_beta
    by (intro pres assms)
  then show "preserves (good s0) (runTransition i options u compute)"
    unfolding runTransition_def split_beta by (intro pres)
qed

lemma good_subscriptions:
  "preserves (good s0) (sub_activate i u o1)" "preserves (good s0) (sub_renew i u o1)" "preserves (good s0) (sub_resume i u o1)"
  "preserves (good s0) (sub_pause i u o1)" "preserves (good s0) (sub_markPastDue i u o1)" "preserves (good s0) (sub_enterGracePeriod i u o1 d)"
  "preserves (good s0) (sub_expire i u o1)" "preserves (good s0) (sub_suspend i u o1 why)" "preserves (good s0) (sub_reactivate i u o1)"
  unfolding sub_activate_def sub_renew_def sub_resume_def sub_pause_def sub_markPastDue_def sub_enterGracePeriod_def sub_expire_def
    sub_suspend_def sub_reactivate_def renew_period_def mark_applied_def set_trial_status_def find_item_def find_price_def Let_def
  by (intro good_transition pres)+

lemma good_changes:
  "preserves (good s0) (sub_create org u sdto meta)" "preserves (good s0) (sub_applyChange i u hdto meta)"
  "preserves (good s0) (sub_cancelScheduledChange i c u meta)" "preserves (good s0) (sub_cancel i u xdto meta)"
  "preserves (good s0) (sub_extendTrial i t)" "preserves (good s0) (sub_applyCoupon i u cid code)" "preserves (good s0) (sub_removeCoupon i c u)"
  unfolding sub_create_def create_new_def create_body_def create_trial_def sub_applyChange_def schedule_change_def change_compute_def
    record_proration_def sub_cancelScheduledChange_def sub_cancel_def cancel_at_period_end_def sub_extendTrial_def sub_applyCoupon_def
    resolveForRedemption_def find_promotion_def coupon_getOwned_def redeem_def sub_removeCoupon_def getOwnedById_def find_sub_def
    find_key_event_def set_trial_status_def find_item_def find_price_def Let_def split_beta
  by (intro good_transition pres)+

lemma good_perform: "good s0 s \<Longrightarrow> good s0 (perform c s)"
  by (cases c; simp only: perform.simps; (rule good_subscriptions [THEN preservesD] good_changes [THEN preservesD], assumption)?) (simp add: goods)

lemma good_call: "good s0 s \<Longrightarrow> good s0 (catalogue_do c s)"
  by (cases c; simp only: catalogue_do.simps; rule good_writes [THEN preservesD] good_creates [THEN preservesD] good_perform; assumption)

lemma good_run: "good s0 s \<Longrightarrow> good s0 (catalogue_run cs s)"
  unfolding catalogue_run_def by (induction cs arbitrary: s) (auto intro: good_call)

section \<open>What is kept, and what is not looked at\<close>

text \<open>C19. Whatever calls are made to the catalogue and the subscription service, with whatever results: every price keeps its plan, currency,
  amount, interval, tax mode and start, every plan its product and code, every product its organisation, application and slug; new rows come
  after the old ones; identifiers, slugs and the codes within a product stay unique, and every price has its plan and every plan its product.
\<close>

theorem catalogue_terms_kept:
  assumes "catalogue_ok s"
  shows "catalogue_ok (catalogue_run cs s) \<and> grew s (catalogue_run cs s)"
  using good_run [of s s cs] assms by (simp add: good_def grew_refl)

lemma find_extends:
  assumes "extends (map k xs) (map k ys)" and "\<And>x. P x \<longleftrightarrow> R (k x)" and "List.find P xs = Some x"
  shows "\<exists>y. List.find P ys = Some y \<and> k y = k x"
proof -
  have map: "List.find R (map k zs) = map_option k (List.find P zs)" for zs
    using assms(2) by (induction zs) auto
  have "List.find R (map k xs) = Some (k x)" using assms(3) by (simp add: map)
  then have "List.find R (map k ys) = Some (k x)" using assms(1) by (auto simp del: map_append simp: extends_def find_append)
  then show ?thesis by (auto simp: map)
qed

text \<open>A subscription without a trial and without a key is created whenever its four rows are found.\<close>

lemma sub_create_answer:
  assumes "List.find (\<lambda>c. cust_id c = csd_customerId dto) (customers s) = Some c" and "cust_organizationId c = org"
    and "List.find (\<lambda>p. plan_id p = csd_planId dto) (plans s) = Some p"
    and "List.find (\<lambda>q. prod_id q = plan_productId p) (products s) = Some q" and "prod_organizationId q = org"
    and "List.find (\<lambda>r. price_id r = csd_priceId dto) (prices s) = Some r"
    and "mo_idempotencyKey (csd_options dto) = None" and "\<not> csd_startTrial dto"
  shows "fst (sub_create org u dto meta s) = Inr (new_sub (nextId s) org dto p q r (clock s))
    \<and> (\<exists>x \<in> set (subItems (snd (sub_create org u dto meta s))). si_subscriptionId x = nextId s \<and> si_priceId x = csd_priceId dto)"
proof -
  have "wps (sub_create org u dto meta) (\<lambda>a s'. a = Inr (new_sub (nextId s) org dto p q r (clock s))
    \<and> (\<exists>x \<in> set (subItems s'). si_subscriptionId x = nextId s \<and> si_priceId x = csd_priceId dto)) s"
    using assms by (simp add: sub_create_def create_new_def create_body_def find_key_event_def find_price_def create_event_def start_trial_def
        new_sub_def wp published_def Let_def)
  then show ?thesis by (simp add: wps_run)
qed

text \<open>C20. Nothing that is done to the catalogue stops a sale: once a customer, a plan of the organisation and a price, of whatever plan, are stored, a
  subscription to the plan at that price is created and active for a period of the price's length, after any archiving, scheduling or
  expiry of the product, the plan and the price, at any time. Neither a status nor a date is looked at, nor whether the price belongs to the plan.
\<close>

theorem nothing_stops_a_sale:
  assumes "catalogue_ok s"
    and "List.find (\<lambda>c. cust_id c = csd_customerId dto) (customers s) = Some c" and "cust_organizationId c = org"
    and "List.find (\<lambda>p. plan_id p = csd_planId dto) (plans s) = Some p"
    and "List.find (\<lambda>q. prod_id q = plan_productId p) (products s) = Some q" and "prod_organizationId q = org"
    and "List.find (\<lambda>r. price_id r = csd_priceId dto) (prices s) = Some r"
    and "mo_idempotencyKey (csd_options dto) = None" and "\<not> csd_startTrial dto"
  shows "let s1 = catalogue_run cs s; (answer, s2) = sub_create org u dto meta s1 in
    (\<exists>sub. answer = Inr sub \<and> sub_status sub = SubscriptionStatus.ACTIVE \<and> sub_planId sub = csd_planId dto
       \<and> sub_currentPeriodEnd sub = Some (addBillingInterval (clock s1) (price_interval r) (price_intervalCount r))
       \<and> (\<exists>x \<in> set (subItems s2). si_subscriptionId x = sub_id sub \<and> si_priceId x = price_id r))"
proof -
  let ?s1 = "catalogue_run cs s"
  have grew: "grew s ?s1" using good_run [of s s cs] assms(1) by (simp add: good_def grew_refl)
  obtain p' where p: "List.find (\<lambda>p. plan_id p = csd_planId dto) (plans ?s1) = Some p'" "plan_terms p' = plan_terms p"
    using find_extends [where k = plan_terms and R = "\<lambda>x. fst x = csd_planId dto" and ys = "plans ?s1", OF _ _ assms(4)] grew
    by (auto simp: grew_def plan_terms_def)
  obtain q' where q: "List.find (\<lambda>q. prod_id q = plan_productId p) (products ?s1) = Some q'" "product_terms q' = product_terms q"
    using find_extends [where k = product_terms and R = "\<lambda>x. fst x = plan_productId p" and ys = "products ?s1", OF _ _ assms(5)] grew
    by (auto simp: grew_def product_terms_def)
  obtain r' where r: "List.find (\<lambda>r. price_id r = csd_priceId dto) (prices ?s1) = Some r'" "price_terms r' = price_terms r"
    using find_extends [where k = price_terms and R = "\<lambda>x. fst x = csd_priceId dto" and ys = "prices ?s1", OF _ _ assms(7)] grew
    by (auto simp: grew_def price_terms_def)
  have "List.find (\<lambda>c. cust_id c = csd_customerId dto) (customers ?s1) = Some c" "List.find (\<lambda>q. prod_id q = plan_productId p') (products ?s1) = Some q'"
    "prod_organizationId q' = org" using grew assms(2,6) p q by (simp_all add: grew_def plan_terms_def product_terms_def)
  note sub_create_answer [OF this(1) assms(3) p(1) this(2,3) r(1) assms(8,9), of u meta]
  moreover have "price_id r = csd_priceId dto" using find_SomeD [OF assms(7)] by simp
  ultimately show ?thesis
    using r(2) assms(9) by (auto simp: Let_def split_beta new_sub_def start_trial_def price_terms_def)
qed

definition sample_catalogue :: lic_db where
  "sample_catalogue = (sample_lic_db [])\<lparr>customers := [\<lparr>cust_id = 1, cust_organizationId = 9\<rparr>], products := [sample_product],
     plans := [sample_plan, sample_plan\<lparr>plan_id := 6, plan_name := ''Lite'', plan_code := ''lite''\<rparr>],
     prices := [sample_price, sample_price\<lparr>price_id := 8, price_planId := 6, price_amountMinor := 100\<rparr>],
     applications := [\<lparr>app_id = 3, app_organizationId = 9\<rparr>]\<rparr>"

lemmas sample_catalogue_defs = sample_catalogue_def sample_lic_db_def sample_product_def sample_plan_def sample_price_def

lemma sample_catalogue_ok: "catalogue_ok sample_catalogue"
  by (simp add: catalogue_ok_def sample_catalogue_defs)

theorem catalogue_terms_kept_witness:
  "let cs = [AddPrice 4 7 \<lparr>prd_currency = ''eur'', prd_amountMinor = 1400, prd_interval = None, prd_intervalCount = None, prd_taxInclusive = None,
      prd_countryCode = Some ''de'', prd_providerRef = None, prd_effectiveAt = None, prd_expiresAt = None\<rparr> no_meta, ArchivePrice 5 7 no_meta] in
   catalogue_ok (catalogue_run cs sample_catalogue)
   \<and> map (\<lambda>p. (price_id p, price_currency p, price_amountMinor p)) (prices (catalogue_run cs sample_catalogue))
     = [(5, ''USD'', 1500), (8, ''USD'', 100), (100, ''EUR'', 1400)]"
  unfolding Let_def
  by (rule conjI, rule catalogue_terms_kept [OF sample_catalogue_ok, THEN conjunct1]) code_simp

text \<open>A subscription to the archived plan 4 at a price of plan 6, archived too.\<close>

theorem nothing_stops_a_sale_witness:
  "let cs = [ArchiveProduct 2 9 7 no_meta, ArchivePlan 4 7 no_meta, ArchivePrice 8 7 no_meta];
       dto = \<lparr>csd_options = no_options, csd_customerId = 1, csd_planId = 4, csd_priceId = 8, csd_environmentType = None, csd_provider = None,
         csd_providerSubscriptionId = None, csd_quantity = None, csd_startTrial = False, csd_metadata = None\<rparr>;
       s1 = catalogue_run cs sample_catalogue in
   (\<exists>sub. fst (sub_create 9 7 dto no_meta s1) = Inr sub \<and> sub_status sub = SubscriptionStatus.ACTIVE \<and> sub_planId sub = 4)
   \<and> map prod_status (products s1) = [ProductStatus.ARCHIVED] \<and> map plan_status (plans s1) = [PlanStatus.ARCHIVED, PlanStatus.ACTIVE]
   \<and> map (\<lambda>p. (price_planId p, price_status p)) (prices s1) = [(4, PriceStatus.ACTIVE), (6, PriceStatus.ARCHIVED)]"
proof -
  let ?cs = "[ArchiveProduct 2 9 7 no_meta, ArchivePlan 4 7 no_meta, ArchivePrice 8 7 no_meta]"
  let ?dto = "\<lparr>csd_options = no_options, csd_customerId = 1, csd_planId = 4, csd_priceId = 8, csd_environmentType = None, csd_provider = None,
         csd_providerSubscriptionId = None, csd_quantity = None, csd_startTrial = False, csd_metadata = None\<rparr>"
  have "map prod_status (products (catalogue_run ?cs sample_catalogue)) = [ProductStatus.ARCHIVED]"
    "map plan_status (plans (catalogue_run ?cs sample_catalogue)) = [PlanStatus.ARCHIVED, PlanStatus.ACTIVE]"
    "map (\<lambda>p. (price_planId p, price_status p)) (prices (catalogue_run ?cs sample_catalogue)) = [(4, PriceStatus.ACTIVE), (6, PriceStatus.ARCHIVED)]"
    by code_simp+
  moreover have "List.find (\<lambda>c. cust_id c = csd_customerId ?dto) (customers sample_catalogue) = Some \<lparr>cust_id = 1, cust_organizationId = 9\<rparr>"
    "List.find (\<lambda>p. plan_id p = csd_planId ?dto) (plans sample_catalogue) = Some sample_plan"
    "List.find (\<lambda>q. prod_id q = plan_productId sample_plan) (products sample_catalogue) = Some sample_product"
    "List.find (\<lambda>r. price_id r = csd_priceId ?dto) (prices sample_catalogue) = Some (sample_price\<lparr>price_id := 8, price_planId := 6, price_amountMinor := 100\<rparr>)"
    by (simp_all add: sample_catalogue_defs)
  note nothing_stops_a_sale [OF sample_catalogue_ok this(1) _ this(2,3) _ this(4), where org = 9 and u = 7 and meta = no_meta and cs = ?cs]
  ultimately show ?thesis by (auto simp: Let_def split_beta no_options_def sample_product_def)
qed

end
