(* ===== verification/Spec2Isabelle.thy ===== *)
theory Spec2Isabelle
  imports Prelude Calendar Rounding Proration Platform Retry Schedule Jobs Idempotence Financial
    Subscription_Data Coupons Subscriptions Lifecycle Capacity Licenses Seats Devices
    Json_Text Webhooks Payment_Data Payments Payment_Flow Features Entitlements Entitlement_Flow Usage_Flow
    Pagination Listings Totp Auth Auth_World Auth_Flow Auth_Factor
    Members Slugs Membership Membership_Flow Tenants Invitation_Flow Releases
    ApiKeys ApiKey_Flow Scheduler
    Templates Notifications Automation Notification_Flow
    Json_Parse Sdk_Webhooks Gateways Gateway_Flow
    Query Store Store_Flow Admin Admin_Flow Catalogue Catalogue_Flow
begin

text \<open>
  A verification development of the backend of a subscription platform (src/apps/api, TypeScript on
  NestJS with a PostgreSQL database behind Prisma).  Organisations publish applications; customers
  subscribe to their plans, pay through providers, receive licenses, seats, devices and
  entitlements; background jobs renew, expire, notify and synchronise.

  \<^bold>\<open>How the program is modelled.\<close>  The services are classes of asynchronous methods over database
  rows.  A method is a value of type \<open>('s, 'a) svc\<close> (Prelude): a function from the database state to
  the state it leaves and a result, \<open>Inl\<close> an exception or \<open>Inr\<close> the value returned.  Exceptions
  are the constructors of \<open>exn\<close>, and an exception keeps the writes made before it unless the source
  runs them in \<open>$transaction\<close>, which is the definition \<open>transaction\<close>.  The database is a record with one
  list of rows per table; the tables arrive component by component as extensions of one record
  (\<open>db\<close> in Platform, extended in Financial, Subscription_Data, Licenses, Devices, Seats, Webhooks,
  Payment_Data, Features, Auth, Members, Store and Notifications), so that the operations of a component apply to the
  database of every component above it.  A row is a record with the columns the services read or
  write; an enumeration of prisma/schema.prisma is a datatype with the same constructors.
  Identifiers the database draws are a counter of the state, the clock is a field of the state in
  milliseconds, amounts are integers as in the source, doubles are \<open>fl\<close> of Rounding.  Strings are ASCII.

  A request handler is one atomic step, except where the source itself guards against interleaving:
  the compare-and-swap loops of Capacity and of job claims are split at their database operations, and the
  lost update of usage counters is shown on such a split.

  \<^bold>\<open>Parameters.\<close>  Code that is not in the repository is an argument of the definitions: password
  hashes, token hashes, JSON web tokens and ciphers (\<open>auth_world\<close>, \<open>hook_world\<close>, \<open>gate_world\<close>), random
  draws, the ERP server (\<open>erp_world\<close>), the receivers of webhooks, the hash functions, number formats and clients of the
  payment adapters (\<open>gateway_libs\<close>; Payments takes a whole adapter, and Gateways builds six of them), job processors,
  and whether rows outside the model keep an application from being deleted (\<open>held\<close>).  What the theorems
  need of them is a premise (a token hash without collisions, a signature that verifies), and every
  property with a premise is followed by a witness that instantiates it.

  \<^bold>\<open>Theories.\<close>
  \<^item> Foundations: Prelude (services, tables, exceptions, their automation), Calendar
    (subscriptions/billing-interval.util.ts, UTC dates), Rounding (IEEE doubles, \<open>Math.round\<close>), Json_Text, Retry
    and Idempotence (the contracts of delivery engines and of recorders), Capacity (compare-and-swap counters).
  \<^item> Queue: Platform (audit log, event bus, \<open>enqueue\<close>), Schedule (background-jobs/schedule.util.ts), Jobs
    (background-jobs), Scheduler (scheduler/scheduler.service.ts), Financial (financial-events, erp-connector).
  \<^item> Subscriptions: Subscription_Data, Proration, Coupons, Subscriptions (state machine and service) and Lifecycle
    (the abstract state machine and the refinement).
  \<^item> Entitlement to software: Licenses, Seats, Devices, Features, Entitlements with Entitlement_Flow and Usage_Flow,
    ApiKeys with ApiKey_Flow.
  \<^item> Payments: Payment_Data, Payments, Payment_Flow; Gateways with Gateway_Flow are the adapters of payments/adapters
    for Easypaisa, JazzCash, Stripe, PayPal, bank transfers and manual payments.
  \<^item> Accounts: Totp, Auth, Auth_World, Auth_Flow, Auth_Factor.
  \<^item> Tenancy: Members, Slugs, Membership, Membership_Flow, Tenants, Invitation_Flow, Releases.
  \<^item> Delivery: Webhooks, Templates, Notifications, Automation, Notification_Flow; Json_Parse (\<open>JSON.parse\<close> and hexadecimal
    digests) and Sdk_Webhooks, the receiving side of a webhook in packages/sdk/src/webhooks.ts.
  \<^item> Listings: Pagination, Listings, and Query (where objects and the pages they select).
  \<^item> Marketplace: Store with Store_Flow (marketplace/, reviews/): listings, the public store, ratings and reviews.
  \<^item> Administration: Admin with Admin_Flow (customers/, admin-organizations/, admin-applications/, admin-customers/):
    the customers of an organisation, and the consoles that suspend, archive, move and hand over.
  \<^item> Catalogue: Catalogue with Catalogue_Flow (products/): products, plans and prices, on the rows of Subscription_Data.

  \<^bold>\<open>How the components interact.\<close>  Every operation that changes rows writes the audit log and, for most,
  publishes an event; \<open>publish\<close> enqueues one job per matching automation rule and webhook delivery.  The
  worker of Jobs runs processors (financial sync, automation actions, notifications, scheduled tasks) and the three delivery
  engines share the backoff of Retry.  Payments reads provider webhooks and drives the operations of
  Subscriptions; the adapters of Gateways turn the bodies of providers into the events Payments works on, and the
  verifier of Sdk_Webhooks takes what Webhooks sends.  Subscriptions records financial events, which Financial carries to the ERP.  Guards and routes
  of Membership and Tenants stand before the tenancy services.

  \<^bold>\<open>What the lemmas show.\<close>  Lifecycle: every operation of the subscription service moves statuses exactly as
  the events it appends say, along the graph; Payment_Flow carries this to payments, and Gateway_Flow shows which
  requests of the outside reach them.  Sdk_Webhooks: what the service signs the SDK accepts.  Licenses, Seats and
  Usage_Flow: limits hold, also under the interleavings the code defends against.  Financial, Jobs and Webhooks: events are
  recorded once, attempts are bounded and settle, retries back off.  Auth_Flow and Auth_Factor: single use of refresh
  tokens and recovery codes, and what a login answers.  Membership_Flow, Tenants and Invitation_Flow: owners always exist, ownership and access
  are only granted by those who may.  Notification_Flow: fan-out and single delivery.  Pagination: the pages of a listing are its rows.
  Store_Flow: what the store shows, what its searches and orders lose, and what reviews add up to.
  Admin_Flow: a transfer leaves one owner, a suspension changes no decision, and a moved application answers to its new owners.
  Catalogue_Flow: the terms of what is sold are never rewritten, and nothing in the catalogue stops a sale.
  Theorems of kind \<open>error\<close> and some of kind \<open>liveness\<close> and \<open>bounds\<close> state what the code does where it falls short of its comments.

  \<^bold>\<open>Interfaces.\<close>  \<open>retry_engine\<close> (Retry) is interpreted by jobs, webhook deliveries and the sync engine;
  \<open>keyed_store\<close> and \<open>keyed_recorder\<close> (Idempotence) by usage records and the ledger; \<open>cas_counter\<close> (Capacity) by key
  activations; \<open>flagged\<close> (Releases) by versions and domains; \<open>membership\<close> (Membership_Flow) by organisation and application members;
  \<open>sweep\<close> (Scheduler) by the expiry of licenses and the deactivation of devices.

  \<^bold>\<open>Bounds and fuel.\<close>  Loops of the source that may not end are \<open>partial_function (option)\<close>: the weekly search of
  Schedule (it ends exactly for weekdays 0 to 6) and the slug search of Members (it ends for every finite set of
  slugs).  The sync engine and the job worker recurse over the rows they fetched.  The parser of Json_Parse has
  fuel, and \<open>json_parse\<close> gives it twice the length of its input plus one: \<open>parse_fuel_enough\<close> shows that more never changes
  the answer.

  \<^bold>\<open>Not modelled.\<close>  Rendering and HTTP: the web application, controllers other than the guarded routes of Membership and
  Releases, DTO validation, logging, cookies, timers.  The rest of the SDK and the other packages wrap HTTP calls.
  The Apple and Google Play adapters rest on certificates and remote services and are parameters, as are the requests by which
  the other adapters forward an operation to their provider.  Plain listings and single-row administration
  (OAuth clients, settings, the detail views of the administration consoles) and the aggregate queries
  of analytics and reports, which the database evaluates, are left out; the manifest lists them.
\<close>

end
